(* ===== verification/Prelude.thy ===== *)
theory Prelude
  imports Complex_Main "HOL-Library.AList" "HOL-Library.Word"
begin

text \<open>
  Shared vocabulary of the development: identifiers, clocks, floats and JSON scalars as the Rust
  services use them, results of fallible code, database tables as association lists, and the
  interfaces (locales) that several components provide.

  \<^item> \<open>uuid\<close> is a 128-bit identifier read as a number; \<open>Uuid::nil()\<close> is 0.
  \<^item> \<open>instant\<close> is a \<open>DateTime<Utc>\<close> in nanoseconds since the epoch and \<open>duration\<close> a
    \<open>chrono::Duration\<close> in nanoseconds; the calendar range of chrono is not bounded here.
  \<^item> \<open>decimal\<close> is the exact value of a \<open>rust_decimal::Decimal\<close>. Sums, differences, products and
    comparisons are exact on the \<open>NUMERIC\<close> amounts of the services; the two lossy operations of the
    crate (division and \<open>round_dp\<close>) are parameters, see the theory Decimal.
  \<^item> a Rust \<open>&str\<close> is its UTF-8 bytes, a \<open>string\<close>.
\<close>

named_theorems wire_simps \<open>text forms of the enums that are stored or sent\<close>
named_theorems gate_simps \<open>unfolding of the guards of a handler\<close>
named_theorems store_simps \<open>reading a table after a write\<close>

subsection \<open>Base types\<close>

type_synonym uuid = nat
type_synonym instant = int
type_synonym duration = int
type_synonym decimal = rat

definition nil_uuid :: uuid where
  "nil_uuid = 0"

definition nanos_per_sec :: int where
  "nanos_per_sec = 1000000000"

definition seconds :: "int \<Rightarrow> duration" where
  "seconds n = n * nanos_per_sec"

definition minutes :: "int \<Rightarrow> duration" where
  "minutes n = n * (60 * nanos_per_sec)"

definition hours_dur :: "int \<Rightarrow> duration" where
  "hours_dur n = n * (3600 * nanos_per_sec)"

text \<open>\<open>Duration::num_seconds\<close> truncates towards zero.\<close>

definition num_seconds :: "duration \<Rightarrow> int" where
  "num_seconds d = (if d < 0 then - ((- d) div nanos_per_sec) else d div nanos_per_sec)"

lemma num_seconds_mono: "a \<le> b \<Longrightarrow> num_seconds a \<le> num_seconds b"
proof (cases "a < 0")
  case True
  assume "a \<le> b"
  have "0 \<le> (- a) div nanos_per_sec"
    using True by (simp add: nanos_per_sec_def pos_imp_zdiv_nonneg_iff)
  moreover have "0 \<le> b div nanos_per_sec" if "0 \<le> b"
    using that by (simp add: nanos_per_sec_def pos_imp_zdiv_nonneg_iff)
  moreover have "(- b) div nanos_per_sec \<le> (- a) div nanos_per_sec"
    using \<open>a \<le> b\<close> by (intro zdiv_mono1) (simp_all add: nanos_per_sec_def)
  ultimately show ?thesis
    using True by (auto simp: num_seconds_def)
next
  case False
  assume "a \<le> b"
  with False show ?thesis
    by (auto simp: num_seconds_def nanos_per_sec_def intro!: zdiv_mono1)
qed

lemma num_seconds_nonneg: "0 \<le> d \<Longrightarrow> 0 \<le> num_seconds d"
  by (simp add: num_seconds_def nanos_per_sec_def)

lemma num_seconds_zero [simp]: "num_seconds 0 = 0"
  by (simp add: num_seconds_def)

lemma num_seconds_hours [simp]: "num_seconds (hours_dur n) = 3600 * n"
proof (cases "n < 0")
  case True
  have "- hours_dur n = (3600 * - n) * nanos_per_sec"
    by (simp add: hours_dur_def)
  then have "(- hours_dur n) div nanos_per_sec = 3600 * - n"
    by (simp add: nanos_per_sec_def)
  moreover have "hours_dur n < 0"
    using True by (simp add: hours_dur_def nanos_per_sec_def)
  ultimately show ?thesis by (simp add: num_seconds_def)
next
  case False
  have "hours_dur n = (3600 * n) * nanos_per_sec"
    by (simp add: hours_dur_def)
  then have "hours_dur n div nanos_per_sec = 3600 * n"
    by (simp add: nanos_per_sec_def)
  moreover have "\<not> hours_dur n < 0"
    using False by (simp add: hours_dur_def nanos_per_sec_def)
  ultimately show ?thesis by (simp add: num_seconds_def)
qed

text \<open>
  A Rust float. Every finite \<open>f64\<close> or \<open>f32\<close> is a rational number; the code only compares floats and
  tests them for being finite, and the one float formula (the haversine distance) is a parameter.
\<close>

datatype f64 = Fin rat | PosInf | NegInf | NaN

definition is_finite :: "f64 \<Rightarrow> bool" where
  "is_finite x = (case x of Fin _ \<Rightarrow> True | _ \<Rightarrow> False)"

text \<open>\<open>(lo..=hi).contains(&x)\<close> for finite bounds: no non-finite value is contained.\<close>

definition in_range :: "rat \<Rightarrow> rat \<Rightarrow> f64 \<Rightarrow> bool" where
  "in_range lo hi x = (case x of Fin r \<Rightarrow> lo \<le> r \<and> r \<le> hi | _ \<Rightarrow> False)"

lemma in_range_finite: "in_range lo hi x \<Longrightarrow> is_finite x"
  by (auto simp: in_range_def is_finite_def split: f64.splits)

subsection \<open>Results\<close>

definition res_bind :: "('e + 'a) \<Rightarrow> ('a \<Rightarrow> 'e + 'b) \<Rightarrow> 'e + 'b" where
  "res_bind m f = (case m of Inl e \<Rightarrow> Inl e | Inr x \<Rightarrow> f x)"

lemma res_bind_simps [simp]:
  "res_bind (Inl e) f = Inl e" "res_bind (Inr x) f = f x"
  by (simp_all add: res_bind_def)

lemma res_bind_Inr_iff:
  "res_bind m f = Inr y \<longleftrightarrow> (\<exists>x. m = Inr x \<and> f x = Inr y)"
  by (cases m) auto

definition is_ok :: "('e + 'a) \<Rightarrow> bool" where
  "is_ok r = (case r of Inl _ \<Rightarrow> False | Inr _ \<Rightarrow> True)"

lemma is_ok_simps [simp]: "is_ok (Inr x)" "\<not> is_ok (Inl e)"
  by (simp_all add: is_ok_def)

lemma is_ok_iff: "is_ok r \<longleftrightarrow> (\<exists>x. r = Inr x)"
  by (cases r) auto

definition ok_of :: "('e + 'a) \<Rightarrow> 'a option" where
  "ok_of r = (case r of Inl _ \<Rightarrow> None | Inr x \<Rightarrow> Some x)"

lemma ok_of_simps [simp]: "ok_of (Inr x) = Some x" "ok_of (Inl e) = None"
  by (simp_all add: ok_of_def)

lemma ok_of_Some_iff [simp]: "ok_of r = Some x \<longleftrightarrow> r = Inr x"
  by (cases r) auto

text \<open>
  \<open>ensure ok e\<close> is the shape \<open>if !ok { return Err(e) }\<close> of the handlers.
\<close>

definition ensure :: "bool \<Rightarrow> 'e \<Rightarrow> 'e + unit" where
  "ensure ok e = (if ok then Inr () else Inl e)"

lemma ensure_simps [simp]:
  "ensure True e = Inr ()" "ensure False e = Inl e"
  "ensure ok e = Inr u \<longleftrightarrow> ok" "ensure ok e = Inl e' \<longleftrightarrow> \<not> ok \<and> e' = e"
  by (auto simp: ensure_def)

lemma ensure_ok_iff [simp]: "is_ok (ensure ok e) \<longleftrightarrow> ok"
  by (simp add: ensure_def)

subsection \<open>JSON payloads\<close>

text \<open>
  The scalars the services put under a key of a \<open>serde_json\<close> object. Money goes out as a decimal
  string, so it has its own constructor. An object is its list of keys with their values.
\<close>

datatype json =
    JNull
  | JBool bool
  | JInt int
  | JFloat f64
  | JStr string
  | JUuid uuid
  | JTime instant
  | JDec decimal
  | JDate int
  | JList "json list"

type_synonym payload = "(string \<times> json) list"

definition jopt :: "('a \<Rightarrow> json) \<Rightarrow> 'a option \<Rightarrow> json" where
  "jopt f x = (case x of None \<Rightarrow> JNull | Some y \<Rightarrow> f y)"

definition jget :: "payload \<Rightarrow> string \<Rightarrow> json option" where
  "jget p k = map_of p k"

definition jput :: "payload \<Rightarrow> string \<Rightarrow> json \<Rightarrow> payload" where
  "jput p k v = AList.update k v p"

lemma jget_jput [simp]: "jget (jput p k v) k' = (if k' = k then Some v else jget p k')"
  by (simp add: jget_def jput_def update_conv')

definition uuid_at :: "payload \<Rightarrow> string \<Rightarrow> uuid option" where
  "uuid_at p k = (case jget p k of Some (JUuid u) \<Rightarrow> Some u | _ \<Rightarrow> None)"

definition text_at :: "payload \<Rightarrow> string \<Rightarrow> string option" where
  "text_at p k = (case jget p k of Some (JStr s) \<Rightarrow> Some s | _ \<Rightarrow> None)"

subsection \<open>Tables\<close>

text \<open>
  A table is an association list from primary keys to rows. SQL fixes no order of the rows, and
  every statement below is about an arbitrary list.
\<close>

type_synonym ('k, 'r) table = "('k \<times> 'r) list"

definition row_get :: "('k, 'r) table \<Rightarrow> 'k \<Rightarrow> 'r option" where
  "row_get t k = map_of t k"

definition row_put :: "'k \<Rightarrow> 'r \<Rightarrow> ('k, 'r) table \<Rightarrow> ('k, 'r) table" where
  "row_put k r t = AList.update k r t"

definition row_keys :: "('k, 'r) table \<Rightarrow> 'k list" where
  "row_keys t = map fst t"

locale row_store =
  fixes get :: "'s \<Rightarrow> 'k \<Rightarrow> 'r option"
    and put :: "'k \<Rightarrow> 'r \<Rightarrow> 's \<Rightarrow> 's"
  assumes get_put_same: "get (put k r s) k = Some r"
    and get_put_other: "k' \<noteq> k \<Longrightarrow> get (put k r s) k' = get s k'"
begin

lemma get_put: "get (put k r s) k' = (if k' = k then Some r else get s k')"
  by (simp add: get_put_same get_put_other)

lemma all_put:
  assumes "\<And>k' r'. get s k' = Some r' \<Longrightarrow> P k' r'" and "P k r"
  shows "get (put k r s) k' = Some r' \<Longrightarrow> P k' r'"
  using assms by (auto simp: get_put split: if_splits)

lemma put_idem: "get (put k r (put k r s)) = get (put k r s)"
  by (auto simp: get_put fun_eq_iff)

lemma put_commute: "k \<noteq> k' \<Longrightarrow> get (put k r (put k' r' s)) = get (put k' r' (put k r s))"
  by (auto simp: get_put fun_eq_iff)

end

interpretation tbl: row_store row_get row_put
  by unfold_locales (simp_all add: row_get_def row_put_def update_conv')

lemmas row_get_put [simp, store_simps] = tbl.get_put

lemma row_keys_put: "set (row_keys (row_put k r t)) = insert k (set (row_keys t))"
  by (simp add: row_keys_def row_put_def dom_update)

lemma row_get_Some_key: "row_get t k = Some r \<Longrightarrow> k \<in> set (row_keys t)"
  by (force simp: row_get_def row_keys_def dest: map_of_SomeD)

lemma row_key_get: "k \<in> set (row_keys t) \<Longrightarrow> \<exists>r. row_get t k = Some r"
  by (auto simp: row_get_def row_keys_def weak_map_of_SomeI)

lemma distinct_row_put: "distinct (row_keys t) \<Longrightarrow> distinct (row_keys (row_put k r t))"
  by (simp add: row_keys_def row_put_def distinct_update)

lemma row_get_mem: "distinct (row_keys t) \<Longrightarrow> (k, r) \<in> set t \<longleftrightarrow> row_get t k = Some r"
  by (auto simp: row_keys_def row_get_def)

subsection \<open>Interfaces several components provide\<close>

text \<open>
  Enums that are stored or sent as text: the text form parses back. The strict form parses nothing
  else to a value.
\<close>

locale wire_enum =
  fixes as_str :: "'e \<Rightarrow> string"
    and parse :: "string \<Rightarrow> 'e option"
  assumes parse_as_str: "parse (as_str x) = Some x"
begin

lemma as_str_inj: "as_str x = as_str y \<longleftrightarrow> x = y"
  by (metis option.inject parse_as_str)

lemma inj_as_str: "inj as_str"
  by (rule injI) (simp add: as_str_inj)

end

locale strict_wire_enum = wire_enum +
  assumes parse_exact: "parse s = Some x \<Longrightarrow> s = as_str x"
begin

lemma parse_iff: "parse s = Some x \<longleftrightarrow> s = as_str x"
  using parse_exact [of s x] parse_as_str [of x] by blast

lemma parse_None_iff: "parse s = None \<longleftrightarrow> s \<notin> range as_str"
proof
  assume "parse s = None"
  then show "s \<notin> range as_str" by (auto simp: parse_as_str)
next
  assume "s \<notin> range as_str"
  then show "parse s = None"
    by (cases "parse s") (auto dest: parse_exact)
qed

end

text \<open>
  A state with an invariant that every operation keeps, whatever the operation's outcome; the
  operations a client may run are the elements of \<open>allowed\<close>.
\<close>

locale invariant_system =
  fixes exec :: "'op \<Rightarrow> 's \<Rightarrow> 's"
    and inv :: "'s \<Rightarrow> bool"
    and allowed :: "'op \<Rightarrow> bool"
  assumes exec_inv: "inv s \<Longrightarrow> allowed x \<Longrightarrow> inv (exec x s)"
begin

lemma run_inv: "inv s \<Longrightarrow> list_all allowed xs \<Longrightarrow> inv (fold exec xs s)"
  by (induction xs arbitrary: s) (auto simp: exec_inv)

end

text \<open>
  A quantity no operation moves backwards: a monotone relation between the state before and after.
\<close>

locale monotone_system =
  fixes exec :: "'op \<Rightarrow> 's \<Rightarrow> 's"
    and le :: "'s \<Rightarrow> 's \<Rightarrow> bool"
  assumes le_refl: "le s s"
    and le_trans: "le s t \<Longrightarrow> le t u \<Longrightarrow> le s u"
    and exec_le: "le s (exec x s)"
begin

lemma run_le: "le s (fold exec xs s)"
proof (induction xs arbitrary: s)
  case Nil
  show ?case by (simp add: le_refl)
next
  case (Cons x xs)
  show ?case using le_trans [OF exec_le Cons.IH] by simp
qed

end

text \<open>
  A consumer of at-least-once deliveries that claims each event id before it acts. Handling an event
  whose id is claimed changes nothing, and handling an event claims its id.
\<close>

locale idempotent_consumer =
  fixes handle :: "'ev \<Rightarrow> 's \<Rightarrow> 's"
    and event_id :: "'ev \<Rightarrow> uuid"
    and claimed :: "'s \<Rightarrow> uuid set"
  assumes claimed_noop: "event_id e \<in> claimed s \<Longrightarrow> handle e s = s"
    and handle_claims: "claimed (handle e s) = insert (event_id e) (claimed s)"
begin

lemma redelivery: "handle e (handle e s) = handle e s"
  by (simp add: claimed_noop handle_claims)

lemma same_id_once: "event_id e' = event_id e \<Longrightarrow> handle e' (handle e s) = handle e s"
  by (simp add: claimed_noop handle_claims)

lemma claimed_mono: "claimed s \<subseteq> claimed (fold handle es s)"
proof (induction es arbitrary: s)
  case Nil
  show ?case by simp
next
  case (Cons e es)
  then have "claimed (handle e s) \<subseteq> claimed (fold handle es (handle e s))" .
  then show ?case by (auto simp: handle_claims)
qed

lemma late_redelivery: "handle e (fold handle es (handle e s)) = fold handle es (handle e s)"
  using claimed_mono [of "handle e s" es] by (intro claimed_noop) (auto simp: handle_claims)

lemma redeliver_all:
  assumes "\<And>e. e \<in> set es \<Longrightarrow> event_id e \<in> claimed s"
  shows "fold handle es s = s"
  using assms by (induction es) (auto simp: claimed_noop)

lemma claimed_fold: "claimed (fold handle es s) = event_id ` set es \<union> claimed s"
  by (induction es arbitrary: s) (auto simp: handle_claims)

lemma replay: "fold handle es (fold handle es s) = fold handle es s"
  by (rule redeliver_all) (simp add: claimed_fold)

end

text \<open>
  A lifecycle table: terminal states have no way out, and no step stays in place.
\<close>

locale lifecycle =
  fixes legal :: "'s \<Rightarrow> 's \<Rightarrow> bool"
    and terminal :: "'s \<Rightarrow> bool"
  assumes terminal_final: "terminal s \<Longrightarrow> \<not> legal s t"
    and no_self: "\<not> legal s s"
begin

lemma terminal_stuck: "legal\<^sup>*\<^sup>* s t \<Longrightarrow> terminal s \<Longrightarrow> t = s"
  by (induction rule: converse_rtranclp_induct) (auto dest: terminal_final)

lemma path_terminal:
  "legal\<^sup>*\<^sup>* s t \<Longrightarrow> legal\<^sup>*\<^sup>* t u \<Longrightarrow> terminal t \<Longrightarrow> u = t"
  by (rule terminal_stuck)

end

subsection \<open>Text\<close>

definition byte_of :: "char \<Rightarrow> nat" where
  "byte_of c = of_char c"

text \<open>\<open>chars().count()\<close>: the bytes of a UTF-8 string that do not continue a character.\<close>

definition char_count :: "string \<Rightarrow> nat" where
  "char_count s = length (filter (\<lambda>c. \<not> (128 \<le> byte_of c \<and> byte_of c < 192)) s)"

definition is_ascii_digit :: "char \<Rightarrow> bool" where
  "is_ascii_digit c = (48 \<le> byte_of c \<and> byte_of c \<le> 57)"

definition digit_val :: "char \<Rightarrow> nat" where
  "digit_val c = byte_of c - 48"

text \<open>
  \<open>str::trim\<close> removes the characters of Unicode property \<open>White_Space\<close> from both ends. On UTF-8
  bytes these are the one-byte ones, \<open>U+0085\<close>, \<open>U+00A0\<close>, \<open>U+1680\<close>, \<open>U+2000\<close> to \<open>U+200A\<close>,
  \<open>U+2028\<close>, \<open>U+2029\<close>, \<open>U+202F\<close>, \<open>U+205F\<close> and \<open>U+3000\<close>.
\<close>

definition ws1 :: "nat \<Rightarrow> bool" where
  "ws1 a = ((9 \<le> a \<and> a \<le> 13) \<or> a = 32)"

definition ws2 :: "nat \<Rightarrow> nat \<Rightarrow> bool" where
  "ws2 a b = (a = 194 \<and> (b = 133 \<or> b = 160))"

definition ws3 :: "nat \<Rightarrow> nat \<Rightarrow> nat \<Rightarrow> bool" where
  "ws3 a b c =
    ((a = 225 \<and> b = 154 \<and> c = 128)
     \<or> (a = 226 \<and> b = 128 \<and> ((128 \<le> c \<and> c \<le> 138) \<or> c = 168 \<or> c = 169 \<or> c = 175))
     \<or> (a = 226 \<and> b = 129 \<and> c = 159)
     \<or> (a = 227 \<and> b = 128 \<and> c = 128))"

definition ws_prefix :: "string \<Rightarrow> nat" where
  "ws_prefix s =
    (case s of
       [] \<Rightarrow> 0
     | a # s1 \<Rightarrow>
       (if ws1 (byte_of a) then 1
        else case s1 of
          [] \<Rightarrow> 0
        | b # s2 \<Rightarrow>
          (if ws2 (byte_of a) (byte_of b) then 2
           else case s2 of
             [] \<Rightarrow> 0
           | c # s3 \<Rightarrow> (if ws3 (byte_of a) (byte_of b) (byte_of c) then 3 else 0))))"

text \<open>The same from the end, on the reversed string: the last byte of a character comes first.\<close>

definition ws_suffix :: "string \<Rightarrow> nat" where
  "ws_suffix s =
    (case s of
       [] \<Rightarrow> 0
     | a # s1 \<Rightarrow>
       (if ws1 (byte_of a) then 1
        else case s1 of
          [] \<Rightarrow> 0
        | b # s2 \<Rightarrow>
          (if ws2 (byte_of b) (byte_of a) then 2
           else case s2 of
             [] \<Rightarrow> 0
           | c # s3 \<Rightarrow> (if ws3 (byte_of c) (byte_of b) (byte_of a) then 3 else 0))))"

function strip :: "(string \<Rightarrow> nat) \<Rightarrow> string \<Rightarrow> string" where
  "strip f s = (if f s = 0 \<or> s = [] then s else strip f (drop (f s) s))"
  by pat_completeness auto
termination
  by (relation "measure (\<lambda>(f, s). length s)") auto

declare strip.simps [simp del]

definition trim :: "string \<Rightarrow> string" where
  "trim s = rev (strip ws_suffix (rev (strip ws_prefix s)))"

lemma strip_Nil [simp]: "strip f [] = []"
  by (simp add: strip.simps)

lemma trim_Nil [simp]: "trim [] = []"
  by (simp add: trim_def)

lemma strip_fixed: "strip f s = [] \<or> f (strip f s) = 0"
proof (induction f s rule: strip.induct)
  case (1 f s)
  show ?case
  proof (cases "f s = 0 \<or> s = []")
    case True
    then show ?thesis by (auto simp: strip.simps [of f s])
  next
    case False
    with "1.IH" show ?thesis by (simp add: strip.simps [of f s])
  qed
qed

lemma strip_suffix: "\<exists>n. strip f s = drop n s"
proof (induction f s rule: strip.induct)
  case (1 f s)
  show ?case
  proof (cases "f s = 0 \<or> s = []")
    case True
    then have "strip f s = drop 0 s" by (simp add: strip.simps [of f s])
    then show ?thesis by blast
  next
    case False
    then obtain n where "strip f (drop (f s) s) = drop n (drop (f s) s)"
      using "1.IH" by blast
    with False show ?thesis
      by (simp add: strip.simps [of f s]) (metis add.commute)
  qed
qed

lemma length_strip: "length (strip f s) \<le> length s"
  using strip_suffix [of f s] by auto

lemma length_trim: "length (trim s) \<le> length s"
  using length_strip [of ws_suffix "rev (strip ws_prefix s)"] length_strip [of ws_prefix s]
  by (simp add: trim_def)

fun show_nat_aux :: "nat \<Rightarrow> string \<Rightarrow> string" where
  "show_nat_aux n acc =
    (if n < 10 then char_of (48 + n) # acc
     else show_nat_aux (n div 10) (char_of (48 + n mod 10) # acc))"

definition show_nat :: "nat \<Rightarrow> string" where
  "show_nat n = show_nat_aux n []"

declare show_nat_aux.simps [simp del]

text \<open>\<open>Uuid\<close> prints as 32 hexadecimal digits in groups of 8, 4, 4, 4 and 12.\<close>

definition hex_digit :: "nat \<Rightarrow> char" where
  "hex_digit n = (if n < 10 then char_of (48 + n) else char_of (87 + n))"

fun hex_digits :: "nat \<Rightarrow> nat \<Rightarrow> string" where
  "hex_digits 0 n = []"
| "hex_digits (Suc k) n = hex_digits k (n div 16) @ [hex_digit (n mod 16)]"

definition uuid_text :: "uuid \<Rightarrow> string" where
  "uuid_text u =
    (let h = hex_digits 32 u in
     take 8 h @ ''-'' @ take 4 (drop 8 h) @ ''-'' @ take 4 (drop 12 h) @ ''-''
     @ take 4 (drop 16 h) @ ''-'' @ drop 20 h)"

subsection \<open>Lists\<close>

text \<open>
  The order-preserving de-duplication loop of the batch endpoints: push what \<open>out\<close> does not hold.
\<close>

definition push_new :: "'a \<Rightarrow> 'a list \<Rightarrow> 'a list" where
  "push_new x out = (if x \<in> set out then out else out @ [x])"

definition dedup :: "'a list \<Rightarrow> 'a list" where
  "dedup xs = fold push_new xs []"

lemma set_push_new [simp]: "set (push_new x out) = insert x (set out)"
  by (auto simp: push_new_def)

lemma distinct_push_new: "distinct out \<Longrightarrow> distinct (push_new x out)"
  by (simp add: push_new_def)

lemma set_fold_push_new: "set (fold push_new xs out) = set xs \<union> set out"
  by (induction xs arbitrary: out) auto

lemma distinct_fold_push_new: "distinct out \<Longrightarrow> distinct (fold push_new xs out)"
  by (induction xs arbitrary: out) (auto simp: distinct_push_new)

lemma set_dedup [simp]: "set (dedup xs) = set xs"
  by (simp add: dedup_def set_fold_push_new)

lemma distinct_dedup [simp]: "distinct (dedup xs)"
  by (simp add: dedup_def distinct_fold_push_new)

lemma fold_push_new_distinct:
  "distinct (out @ xs) \<Longrightarrow> fold push_new xs out = out @ xs"
  by (induction xs arbitrary: out) (auto simp: push_new_def)

lemma dedup_distinct: "distinct xs \<Longrightarrow> dedup xs = xs"
  using fold_push_new_distinct [of "[]" xs] by (simp add: dedup_def)

lemma dedup_idem [simp]: "dedup (dedup xs) = dedup xs"
  by (rule dedup_distinct) simp

lemma length_dedup: "length (dedup xs) = card (set xs)"
  using distinct_card [OF distinct_dedup, of xs] by simp

end
