(* ===== verification/Shared_Error.thy ===== *)
theory Shared_Error
  imports Prelude
begin

text \<open>
  The error type every service returns (\<open>packages/shared-rust/src/error.rs\<close>) and its HTTP rendering.
  A message is the text of the source; where the source formats a value into it, the message is the
  format string as it stands in the source, and a Thai text is given by an English gloss in square
  brackets. The texts of the database and cache drivers are opaque.
\<close>

text \<open>The authenticated caller a handler receives (\<open>packages/shared-rust/src/auth.rs\<close>).\<close>

datatype app_error =
    BadRequest string
  | Unauthorized string
  | UnauthorizedCode string string
  | Forbidden string
  | ForbiddenCode string string
  | NotFound string
  | Conflict string
  | ConflictCode string string
  | BadRequestCode string string
  | Internal string
  | ServiceUnavailable string string
  | Database string
  | Redis string

type_synonym 'a app_result = "app_error + 'a"

text \<open>The text a variant displays (its \<open>#[error(...)]\<close> attribute).\<close>

fun error_display :: "app_error \<Rightarrow> string" where
  "error_display (BadRequest m) = m"
| "error_display (Unauthorized m) = m"
| "error_display (UnauthorizedCode c m) = m"
| "error_display (Forbidden m) = m"
| "error_display (ForbiddenCode c m) = m"
| "error_display (NotFound m) = m"
| "error_display (Conflict m) = m"
| "error_display (ConflictCode c m) = m"
| "error_display (BadRequestCode c m) = m"
| "error_display (Internal m) = m"
| "error_display (ServiceUnavailable c m) = m"
| "error_display (Database d) = ''database error: '' @ d"
| "error_display (Redis d) = ''redis error: '' @ d"

fun status_and_code :: "app_error \<Rightarrow> nat \<times> string" where
  "status_and_code (BadRequest m) = (400, ''BAD_REQUEST'')"
| "status_and_code (BadRequestCode c m) = (400, c)"
| "status_and_code (Unauthorized m) = (401, ''UNAUTHORIZED'')"
| "status_and_code (UnauthorizedCode c m) = (401, c)"
| "status_and_code (Forbidden m) = (403, ''FORBIDDEN'')"
| "status_and_code (ForbiddenCode c m) = (403, c)"
| "status_and_code (NotFound m) = (404, ''NOT_FOUND'')"
| "status_and_code (Conflict m) = (409, ''CONFLICT'')"
| "status_and_code (ConflictCode c m) = (409, c)"
| "status_and_code (Internal m) = (500, ''INTERNAL_ERROR'')"
| "status_and_code (ServiceUnavailable c m) = (503, c)"
| "status_and_code (Database d) = (500, ''DATABASE_ERROR'')"
| "status_and_code (Redis d) = (500, ''CACHE_ERROR'')"

record error_response =
  er_status :: nat
  er_code :: string
  er_message :: string

definition into_response :: "app_error \<Rightarrow> error_response" where
  "into_response e =
    (let (status, code) = status_and_code e;
         message = (case e of
             Database _ \<Rightarrow> ''An internal error occurred''
           | Redis _ \<Rightarrow> ''An internal error occurred''
           | other \<Rightarrow> error_display other)
     in \<lparr>er_status = status, er_code = code, er_message = message\<rparr>)"

definition error_status :: "app_error \<Rightarrow> nat" where
  "error_status e = fst (status_and_code e)"

definition error_code :: "app_error \<Rightarrow> string" where
  "error_code e = snd (status_and_code e)"

lemma error_status_code_simps [simp]:
  "error_status (BadRequest m) = 400" "error_status (BadRequestCode c m) = 400"
  "error_status (Unauthorized m) = 401" "error_status (UnauthorizedCode c m) = 401"
  "error_status (Forbidden m) = 403" "error_status (ForbiddenCode c m) = 403"
  "error_status (NotFound m) = 404" "error_status (Conflict m) = 409"
  "error_status (ConflictCode c m) = 409" "error_status (Internal m) = 500"
  "error_status (ServiceUnavailable c m) = 503"
  "error_status (Database d) = 500" "error_status (Redis d) = 500"
  by (simp_all add: error_status_def)

lemma error_code_simps [simp]:
  "error_code (BadRequestCode c m) = c" "error_code (ConflictCode c m) = c"
  "error_code (ForbiddenCode c m) = c" "error_code (UnauthorizedCode c m) = c"
  "error_code (ServiceUnavailable c m) = c"
  by (simp_all add: error_code_def)

text \<open>No driver text reaches a client: the response to a driver error does not depend on it.\<close>

lemma driver_text_hidden:
  "into_response (Database d) = into_response (Database d')"
  "into_response (Redis d) = into_response (Redis d')"
  by (simp_all add: into_response_def)

lemma response_status_range:
  "400 \<le> er_status (into_response e) \<and> er_status (into_response e) \<le> 503"
  by (cases e) (simp_all add: into_response_def)

record auth_user =
  au_id :: uuid
  au_role :: string

end
