(* ===== verification/Decimal.thy ===== *)
theory Decimal
  imports Prelude
begin

text \<open>
  The lossy operations of the \<open>rust_decimal\<close> crate, which is not part of the repository: rounding to
  a number of decimal places, division and rescaling are fields of a record that every money
  definition takes as an argument. The locale \<open>decimal_ops\<close> states what the services rely on, as the
  crate documents it: a rounded value lies on the grid of its places, is nearest, keeps the order and
  leaves grid values alone; a quotient or product that is representable is exact, and division by a
  positive number and multiplication by a non-negative one keep the order. The plain product is
  written where both factors are stored amounts or counts, whose product is exact; \<open>lib_mul\<close> where a
  factor is itself a rounded quotient. \<open>bankers_lib\<close> is a concrete library with these properties, half to even as
  the crate's \<open>round_dp\<close> is.
\<close>

record decimal_lib =
  lib_round_dp :: "decimal \<Rightarrow> nat \<Rightarrow> decimal"
  lib_div :: "decimal \<Rightarrow> decimal \<Rightarrow> decimal"
  lib_rescale :: "decimal \<Rightarrow> nat \<Rightarrow> decimal"
  lib_mul :: "decimal \<Rightarrow> decimal \<Rightarrow> decimal"

definition on_grid :: "nat \<Rightarrow> decimal \<Rightarrow> bool" where
  "on_grid d x = (x * 10 ^ d \<in> \<int>)"

lemma on_grid_floor [code]: "on_grid d x \<longleftrightarrow> of_int \<lfloor>x * 10 ^ d\<rfloor> = x * 10 ^ d"
  by (auto simp: on_grid_def elim!: Ints_cases)

text \<open>Well inside the 96-bit mantissa at a scale of six: every amount the services store.\<close>

definition representable :: "decimal \<Rightarrow> bool" where
  "representable x = (on_grid 6 x \<and> \<bar>x\<bar> < 10 ^ 15)"

lemma on_grid_zero [simp]: "on_grid d 0"
  by (simp add: on_grid_def)

lemma on_grid_of_int [simp]: "on_grid d (of_int n)"
proof -
  have "rat_of_int n * 10 ^ d = of_int (n * 10 ^ d)" by simp
  then show ?thesis unfolding on_grid_def by (metis Ints_of_int)
qed

lemma on_grid_numeral [simp]: "on_grid d (numeral n)" "on_grid d 1"
  using on_grid_of_int [of d "numeral n"] on_grid_of_int [of d 1] by simp_all

lemma on_grid_add: "on_grid d x \<Longrightarrow> on_grid d y \<Longrightarrow> on_grid d (x + y)"
  by (simp add: on_grid_def distrib_right)

lemma on_grid_diff: "on_grid d x \<Longrightarrow> on_grid d y \<Longrightarrow> on_grid d (x - y)"
  by (simp add: on_grid_def left_diff_distrib)

lemma on_grid_minus: "on_grid d x \<Longrightarrow> on_grid d (- x)"
  by (simp add: on_grid_def)

lemma on_grid_max: "on_grid d x \<Longrightarrow> on_grid d y \<Longrightarrow> on_grid d (max x y)"
  by (simp add: max_def)

lemma on_grid_min: "on_grid d x \<Longrightarrow> on_grid d y \<Longrightarrow> on_grid d (min x y)"
  by (simp add: min_def)

lemma on_grid_mult: "on_grid d x \<Longrightarrow> on_grid e y \<Longrightarrow> on_grid (d + e) (x * y)"
proof -
  assume "on_grid d x" "on_grid e y"
  then have "(x * 10 ^ d) * (y * 10 ^ e) \<in> \<int>"
    unfolding on_grid_def by (rule Ints_mult)
  moreover have "(x * 10 ^ d) * (y * 10 ^ e) = x * y * 10 ^ (d + e)"
    by (simp add: power_add)
  ultimately show ?thesis unfolding on_grid_def by (simp only:)
qed

lemma on_grid_mult_int: "on_grid d x \<Longrightarrow> on_grid d (x * of_int n)"
  using on_grid_mult [of d x 0 "of_int n"] by simp

lemma on_grid_le: "on_grid d x \<Longrightarrow> d \<le> e \<Longrightarrow> on_grid e x"
proof -
  assume "on_grid d x" "d \<le> e"
  then have "(x * 10 ^ d) * of_int (10 ^ (e - d)) \<in> \<int>"
    unfolding on_grid_def by (meson Ints_mult Ints_of_int)
  moreover have "(x * 10 ^ d) * of_int (10 ^ (e - d)) = x * 10 ^ e"
    using \<open>d \<le> e\<close> by (simp add: power_add [symmetric])
  ultimately show ?thesis unfolding on_grid_def by (simp only:)
qed

lemma representable_grid2: "on_grid 2 x \<Longrightarrow> \<bar>x\<bar> < 10 ^ 15 \<Longrightarrow> representable x"
  by (simp add: representable_def on_grid_le)

locale decimal_ops =
  fixes L :: decimal_lib
  assumes round_grid: "on_grid d (lib_round_dp L x d)"
    and round_fixed: "on_grid d x \<Longrightarrow> lib_round_dp L x d = x"
    and round_mono: "x \<le> y \<Longrightarrow> lib_round_dp L x d \<le> lib_round_dp L y d"
    and round_near: "\<bar>lib_round_dp L x d - x\<bar> * 10 ^ d \<le> 1 / 2"
    and div_exact: "y \<noteq> 0 \<Longrightarrow> representable (x / y) \<Longrightarrow> lib_div L x y = x / y"
    and div_mono: "0 < z \<Longrightarrow> x \<le> y \<Longrightarrow> lib_div L x z \<le> lib_div L y z"
    and rescale_fixed: "on_grid d x \<Longrightarrow> lib_rescale L x d = x"
    and mul_exact: "representable (x * y) \<Longrightarrow> lib_mul L x y = x * y"
    and mul_mono: "0 \<le> x \<Longrightarrow> y \<le> z \<Longrightarrow> lib_mul L x y \<le> lib_mul L x z"
begin

lemma mul_zero [simp]: "lib_mul L x 0 = 0" "lib_mul L 0 x = 0"
  by (simp_all add: mul_exact representable_def)

lemma mul_nonneg: "0 \<le> x \<Longrightarrow> 0 \<le> y \<Longrightarrow> 0 \<le> lib_mul L x y"
  using mul_mono [of x 0 y] by simp

lemma round_zero [simp]: "lib_round_dp L 0 d = 0"
  by (rule round_fixed) simp

lemma round_nonneg: "0 \<le> x \<Longrightarrow> 0 \<le> lib_round_dp L x d"
  using round_mono [of 0 x d] by simp

lemma round_le: "x \<le> y \<Longrightarrow> on_grid d y \<Longrightarrow> lib_round_dp L x d \<le> y"
  using round_mono [of x y d] by (simp add: round_fixed)

lemma round_ge: "y \<le> x \<Longrightarrow> on_grid d y \<Longrightarrow> y \<le> lib_round_dp L x d"
  using round_mono [of y x d] by (simp add: round_fixed)

lemma round_idem [simp]: "lib_round_dp L (lib_round_dp L x d) d = lib_round_dp L x d"
  by (rule round_fixed) (rule round_grid)

lemma div_zero [simp]: "z \<noteq> 0 \<Longrightarrow> lib_div L 0 z = 0"
  by (simp add: div_exact representable_def)

lemma div_nonneg: "0 < z \<Longrightarrow> 0 \<le> x \<Longrightarrow> 0 \<le> lib_div L x z"
  using div_mono [of z 0 x] by simp

lemma div_le: "0 < z \<Longrightarrow> x \<le> y * z \<Longrightarrow> representable y \<Longrightarrow> lib_div L x z \<le> y"
  using div_mono [of z x "y * z"] by (simp add: div_exact)

lemma div_ge: "0 < z \<Longrightarrow> y * z \<le> x \<Longrightarrow> representable y \<Longrightarrow> y \<le> lib_div L x z"
  using div_mono [of z "y * z" x] by (simp add: div_exact)

lemma div_cancel: "z \<noteq> 0 \<Longrightarrow> representable y \<Longrightarrow> lib_div L (y * z) z = y"
  by (simp add: div_exact)

end

subsection \<open>A concrete library\<close>

definition half_even :: "rat \<Rightarrow> int" where
  "half_even r =
    (let f = \<lfloor>r\<rfloor>; d = r - of_int f
     in if d < 1 / 2 then f
        else if 1 / 2 < d then f + 1
        else if even f then f else f + 1)"

definition bankers_round :: "decimal \<Rightarrow> nat \<Rightarrow> decimal" where
  "bankers_round x d = of_int (half_even (x * 10 ^ d)) / 10 ^ d"

definition bankers_lib :: decimal_lib where
  "bankers_lib = \<lparr>lib_round_dp = bankers_round, lib_div = (\<lambda>x y. x / y),
                  lib_rescale = (\<lambda>x d. bankers_round x d), lib_mul = (*)\<rparr>"

lemma half_even_of_int [simp]: "half_even (of_int n) = n"
  by (simp add: half_even_def)

lemma half_even_near: "\<bar>of_int (half_even r) - r\<bar> \<le> 1 / 2"
proof -
  have "of_int \<lfloor>r\<rfloor> \<le> r" "r < of_int \<lfloor>r\<rfloor> + 1"
    by linarith+
  then show ?thesis
    unfolding half_even_def Let_def by (auto simp: abs_le_iff) 
qed

lemma half_even_mono:
  assumes "r \<le> s"
  shows "half_even r \<le> half_even s"
proof (cases "\<lfloor>r\<rfloor> = \<lfloor>s\<rfloor>")
  case True
  with assms show ?thesis by (auto simp: half_even_def Let_def)
next
  case False
  moreover have "\<lfloor>r\<rfloor> \<le> \<lfloor>s\<rfloor>" using assms by (rule floor_mono)
  ultimately have "\<lfloor>r\<rfloor> + 1 \<le> \<lfloor>s\<rfloor>" by simp
  moreover have "half_even r \<le> \<lfloor>r\<rfloor> + 1" "\<lfloor>s\<rfloor> \<le> half_even s"
    by (simp_all add: half_even_def Let_def)
  ultimately show ?thesis by simp
qed

lemma bankers_grid: "on_grid d (bankers_round x d)"
  by (simp add: on_grid_def bankers_round_def)

lemma bankers_fixed: "on_grid d x \<Longrightarrow> bankers_round x d = x"
proof -
  assume "on_grid d x"
  then obtain n where "x * 10 ^ d = of_int n"
    by (auto simp: on_grid_def elim: Ints_cases)
  then show ?thesis by (simp add: bankers_round_def) (simp add: field_simps)
qed

lemma bankers_mono: "x \<le> y \<Longrightarrow> bankers_round x d \<le> bankers_round y d"
  unfolding bankers_round_def by (intro divide_right_mono) (simp_all add: half_even_mono)

lemma bankers_near: "\<bar>bankers_round x d - x\<bar> * 10 ^ d \<le> 1 / 2"
proof -
  have "\<bar>bankers_round x d - x\<bar> * 10 ^ d = \<bar>(bankers_round x d - x) * 10 ^ d\<bar>"
    by (simp add: abs_mult)
  also have "(bankers_round x d - x) * 10 ^ d = of_int (half_even (x * 10 ^ d)) - x * 10 ^ d"
    by (simp add: bankers_round_def left_diff_distrib)
  finally show ?thesis using half_even_near by simp
qed

interpretation bankers: decimal_ops bankers_lib
  by unfold_locales
    (use bankers_near in \<open>simp_all add: bankers_lib_def bankers_grid bankers_fixed bankers_mono
      divide_right_mono mult_left_mono\<close>)

lemma bankers_ops: "decimal_ops bankers_lib"
  by (rule bankers.decimal_ops_axioms)

lemma bankers_lib_simps [simp]:
  "lib_round_dp bankers_lib x d = bankers_round x d"
  "lib_div bankers_lib x y = x / y"
  "lib_rescale bankers_lib x d = bankers_round x d"
  "lib_mul bankers_lib x y = x * y"
  by (simp_all add: bankers_lib_def)

lemma bankers_round_ex:
  "bankers_round (150005 / 1000) 2 = 150" "bankers_round (150015 / 1000) 2 = 15002 / 100"
  "bankers_round (150006 / 1000) 2 = 15001 / 100"
  by code_simp+

end
