(* ===== verification/Shared_Events.thy ===== *)
theory Shared_Events
  imports Shared_Error
begin

text \<open>
  The event envelope every service emits (\<open>packages/shared-events/src/lib.rs\<close>), the row of a
  transactional outbox, and what a transaction takes from outside: the process clock
  (\<open>Utc::now()\<close>), the transaction clock (SQL \<open>now()\<close>, the time the transaction began), fresh
  identifiers, and the tracing context.
\<close>

record call_env =
  utc_now :: instant
  tx_now :: instant
  fresh_event :: uuid
  fresh_row :: uuid
  fresh_extra :: uuid
  fresh_outbox :: uuid
  trace_parent :: "string option"
  correlation :: uuid

record envelope =
  ev_id :: uuid
  ev_type :: string
  ev_occurred_at :: instant
  ev_correlation :: uuid
  ev_traceparent :: "string option"
  ev_payload :: payload

definition new_envelope ::
  "uuid \<Rightarrow> instant \<Rightarrow> string option \<Rightarrow> string \<Rightarrow> uuid \<Rightarrow> payload \<Rightarrow> envelope" where
  "new_envelope fresh now trace event_type correlation_id payl =
    \<lparr>ev_id = fresh, ev_type = event_type, ev_occurred_at = now,
     ev_correlation = correlation_id, ev_traceparent = trace, ev_payload = payl\<rparr>"

text \<open>The topics of account decisions.\<close>

definition USER_COMPROMISED_TOPIC :: string where "USER_COMPROMISED_TOPIC = ''pguard.events.user.compromised''"
definition USER_APPROVED_TOPIC :: string where "USER_APPROVED_TOPIC = ''pguard.events.user.approved''"
definition USER_REJECTED_TOPIC :: string where "USER_REJECTED_TOPIC = ''pguard.events.user.rejected''"

record outbox_row =
  ob_id :: uuid
  ob_topic :: string
  ob_envelope :: envelope
  ob_created_at :: instant
  ob_published_at :: "instant option"

definition outbox_append ::
  "call_env \<Rightarrow> string \<Rightarrow> payload \<Rightarrow> outbox_row list \<Rightarrow> outbox_row list" where
  "outbox_append env topic payl rows =
    rows @
      [\<lparr>ob_id = fresh_outbox env, ob_topic = topic,
        ob_envelope = new_envelope (fresh_event env) (utc_now env) (trace_parent env) topic
          (correlation env) payl,
        ob_created_at = tx_now env, ob_published_at = None\<rparr>]"

end
