(* ===== verification/Booking_State.thy ===== *)
theory Booking_State
  imports Shared_Error Decimal Shared_Events
begin

text \<open>
  The booking lifecycle (\<open>services/booking/src/domain/state.rs\<close>): the statuses, their stored text,
  and \<open>required_actor\<close>, which says who may drive a transition and so which transitions exist.
\<close>

text \<open>
  The event envelope and topics (\<open>packages/shared-events/src/lib.rs\<close>) and the mapping from a status
  change to the event it emits (\<open>services/booking/src/domain/events.rs\<close>). A fresh event id, the
  producer's clock and the trace parent are arguments of the envelope.
\<close>

text \<open>
  Cancellation reasons (\<open>services/booking/src/domain/cancellation.rs\<close>): the two vocabularies, the
  validator of the cancel and decline bodies, and which target statuses carry a reason.
\<close>

definition PAYMENT_REQUIRED_CODE :: string where
  "PAYMENT_REQUIRED_CODE = ''PAYMENT_REQUIRED''"

definition CHECK_IN_REQUIRED_CODE :: string where
  "CHECK_IN_REQUIRED_CODE = ''CHECK_IN_REQUIRED''"

datatype booking_status =
    Requested
  | Accepted
  | Declined
  | EnRoute
  | Arrived
  | PendingCompletion
  | Completed
  | Cancelled

fun as_db_str :: "booking_status \<Rightarrow> string" where
  "as_db_str Requested = ''requested''"
| "as_db_str Accepted = ''accepted''"
| "as_db_str Declined = ''declined''"
| "as_db_str EnRoute = ''en_route''"
| "as_db_str Arrived = ''arrived''"
| "as_db_str PendingCompletion = ''pending_completion''"
| "as_db_str Completed = ''completed''"
| "as_db_str Cancelled = ''cancelled''"

definition is_terminal :: "booking_status \<Rightarrow> bool" where
  "is_terminal s = (s = Declined \<or> s = Completed \<or> s = Cancelled)"

definition status_from_str :: "string \<Rightarrow> string + booking_status" where
  "status_from_str s =
    (if s = ''requested'' then Inr Requested
     else if s = ''accepted'' then Inr Accepted
     else if s = ''declined'' then Inr Declined
     else if s = ''en_route'' then Inr EnRoute
     else if s = ''arrived'' then Inr Arrived
     else if s = ''pending_completion'' then Inr PendingCompletion
     else if s = ''completed'' then Inr Completed
     else if s = ''cancelled'' then Inr Cancelled
     else Inl (''unknown booking status: '' @ s))"

datatype required_actor_class =
    ClaimUnassigned
  | AssignedGuard
  | RequestOwner
  | System

definition required_actor :: "booking_status \<Rightarrow> booking_status \<Rightarrow> required_actor_class option" where
  "required_actor from_st to_st =
    (if from_st = Declined \<and> to_st = Cancelled then Some RequestOwner
     else if is_terminal from_st then None
     else case (from_st, to_st) of
       (Requested, Accepted) \<Rightarrow> Some ClaimUnassigned
     | (Accepted, EnRoute) \<Rightarrow> Some AssignedGuard
     | (EnRoute, Arrived) \<Rightarrow> Some AssignedGuard
     | (Arrived, PendingCompletion) \<Rightarrow> Some AssignedGuard
     | (Accepted, Declined) \<Rightarrow> Some AssignedGuard
     | (EnRoute, Declined) \<Rightarrow> Some AssignedGuard
     | (PendingCompletion, Completed) \<Rightarrow> Some RequestOwner
     | (PendingCompletion, Arrived) \<Rightarrow> Some RequestOwner
     | (Requested, Cancelled) \<Rightarrow> Some RequestOwner
     | (Accepted, Cancelled) \<Rightarrow> Some RequestOwner
     | (EnRoute, Cancelled) \<Rightarrow> Some RequestOwner
     | (Arrived, Completed) \<Rightarrow> Some System
     | (Arrived, Cancelled) \<Rightarrow> Some System
     | _ \<Rightarrow> None)"

subsection \<open>The stored text parses back and nothing else parses\<close>

lemma status_roundtrip [wire_simps]: "status_from_str (as_db_str s) = Inr s"
  by (cases s) (simp_all add: status_from_str_def)

lemma status_from_str_exact: "status_from_str t = Inr s \<Longrightarrow> t = as_db_str s"
  by (auto simp: status_from_str_def split: if_splits)

interpretation status_wire: strict_wire_enum as_db_str "\<lambda>t. ok_of (status_from_str t)"
  by unfold_locales (simp_all add: status_roundtrip status_from_str_exact)

subsection \<open>The transition table\<close>

definition can_transition :: "booking_status \<Rightarrow> booking_status \<Rightarrow> bool" where
  "can_transition a b = (required_actor a b \<noteq> None)"

lemma can_transition_iff:
  "can_transition a b \<longleftrightarrow>
    (a, b) \<in> {(Requested, Accepted), (Requested, Cancelled),
              (Accepted, EnRoute), (Accepted, Declined), (Accepted, Cancelled),
              (EnRoute, Arrived), (EnRoute, Declined), (EnRoute, Cancelled),
              (Arrived, PendingCompletion), (Arrived, Completed), (Arrived, Cancelled),
              (PendingCompletion, Completed), (PendingCompletion, Arrived),
              (Declined, Cancelled)}"
  by (cases a; cases b) (simp_all add: can_transition_def required_actor_def is_terminal_def)

lemma required_actor_claim_iff:
  "required_actor a b = Some ClaimUnassigned \<longleftrightarrow> a = Requested \<and> b = Accepted"
  by (cases a; cases b) (simp_all add: required_actor_def is_terminal_def)

lemma required_actor_system_iff:
  "required_actor a b = Some System \<longleftrightarrow> a = Arrived \<and> (b = Completed \<or> b = Cancelled)"
  by (cases a; cases b) (simp_all add: required_actor_def is_terminal_def)

lemma required_actor_guard_iff:
  "required_actor a b = Some AssignedGuard \<longleftrightarrow>
    (a, b) \<in> {(Accepted, EnRoute), (EnRoute, Arrived), (Arrived, PendingCompletion),
              (Accepted, Declined), (EnRoute, Declined)}"
  by (cases a; cases b) (simp_all add: required_actor_def is_terminal_def)

lemma required_actor_owner_iff:
  "required_actor a b = Some RequestOwner \<longleftrightarrow>
    (a, b) \<in> {(PendingCompletion, Completed), (PendingCompletion, Arrived),
              (Requested, Cancelled), (Accepted, Cancelled), (EnRoute, Cancelled),
              (Declined, Cancelled)}"
  by (cases a; cases b) (simp_all add: required_actor_def is_terminal_def)

lemma can_transition_irrefl: "\<not> can_transition s s"
  by (cases s) (simp_all add: can_transition_iff)

text \<open>\<open>Completed\<close> and \<open>Cancelled\<close> are final; \<open>Declined\<close> has the acknowledgement as its only way out.\<close>

definition is_final :: "booking_status \<Rightarrow> bool" where
  "is_final s = (s = Completed \<or> s = Cancelled)"

interpretation booking_life: lifecycle can_transition is_final
  by unfold_locales (auto simp: is_final_def can_transition_iff)

definition CANCEL_REASON_REQUIRED_CODE :: string where
  "CANCEL_REASON_REQUIRED_CODE = ''CANCEL_REASON_REQUIRED''"

definition CANCEL_NOTE_REQUIRED_CODE :: string where
  "CANCEL_NOTE_REQUIRED_CODE = ''CANCEL_NOTE_REQUIRED''"

definition MAX_CANCELLATION_NOTE_CHARS :: nat where
  "MAX_CANCELLATION_NOTE_CHARS = 500"

definition REASON_OTHER :: string where
  "REASON_OTHER = ''other''"

definition SYSTEM_EXPIRED_REASON :: string where
  "SYSTEM_EXPIRED_REASON = ''system_expired''"

definition SYSTEM_NOT_STARTED_REASON :: string where
  "SYSTEM_NOT_STARTED_REASON = ''system_not_started''"

definition CUSTOMER_CANCEL_REASONS :: "string list" where
  "CUSTOMER_CANCEL_REASONS = [''changed_plan'', ''mistake'', ''not_needed'', ''other'']"

definition GUARD_DECLINE_REASONS :: "string list" where
  "GUARD_DECLINE_REASONS = [''emergency'', ''sick'', ''cannot_reach'', ''other'']"

datatype reason_set = CustomerCancel | GuardDecline

fun reason_codes :: "reason_set \<Rightarrow> string list" where
  "reason_codes CustomerCancel = CUSTOMER_CANCEL_REASONS"
| "reason_codes GuardDecline = GUARD_DECLINE_REASONS"

definition set_for_target :: "booking_status \<Rightarrow> reason_set option" where
  "set_for_target new_status =
    (case new_status of
       Cancelled \<Rightarrow> Some CustomerCancel
     | Declined \<Rightarrow> Some GuardDecline
     | _ \<Rightarrow> None)"

record cancellation =
  cn_reason :: string
  cn_note :: "string option"

text \<open>\<open>note.map(str::trim).filter(|n| !n.is_empty())\<close>\<close>

definition trimmed_note :: "string option \<Rightarrow> string option" where
  "trimmed_note note =
    (case note of
       None \<Rightarrow> None
     | Some n \<Rightarrow> (if trim n = [] then None else Some (trim n)))"

definition validate_cancellation ::
  "reason_set \<Rightarrow> string option \<Rightarrow> string option \<Rightarrow> cancellation app_result" where
  "validate_cancellation rset reason note =
    (let r = (case reason of None \<Rightarrow> [] | Some x \<Rightarrow> trim x) in
     case find (\<lambda>c. c = r) (reason_codes rset) of
       None \<Rightarrow> Inl (BadRequestCode CANCEL_REASON_REQUIRED_CODE
                     ''A valid cancellation reason is required'')
     | Some code \<Rightarrow>
       (let n = trimmed_note note in
        if (case n of None \<Rightarrow> False | Some t \<Rightarrow> MAX_CANCELLATION_NOTE_CHARS < char_count t)
        then Inl (BadRequest ''note must be at most {MAX_CANCELLATION_NOTE_CHARS} characters'')
        else if code = REASON_OTHER \<and> n = None
        then Inl (BadRequestCode CANCEL_NOTE_REQUIRED_CODE
                    ''A note is required when the reason is 'other' '')
        else Inr \<lparr>cn_reason = code, cn_note = n\<rparr>))"

subsection \<open>What the validator accepts\<close>

lemma find_eq_Some_iff: "find (\<lambda>c. c = r) xs = Some c \<longleftrightarrow> c = r \<and> r \<in> set xs"
  by (induction xs) auto

lemma find_eq_None_iff: "find (\<lambda>c. c = r) xs = None \<longleftrightarrow> r \<notin> set xs"
  by (auto simp: find_None_iff)

lemma trimmed_note_nonempty: "trimmed_note note = Some t \<Longrightarrow> t \<noteq> []"
  by (auto simp: trimmed_note_def split: option.splits if_splits)

text \<open>The validator's result in one statement: exactly which bodies pass, and with what.\<close>

lemma validate_cancellation_Inr_iff:
  "validate_cancellation rset reason note = Inr c \<longleftrightarrow>
    (\<exists>r. reason = Some r \<and> trim r \<in> set (reason_codes rset) \<and> cn_reason c = trim r)
    \<and> cn_note c = trimmed_note note
    \<and> (\<forall>t. cn_note c = Some t \<longrightarrow> char_count t \<le> 500)
    \<and> (cn_reason c = ''other'' \<longrightarrow> cn_note c \<noteq> None)" (is "?l \<longleftrightarrow> ?r")
proof -
  have nil: "[] \<notin> set (reason_codes rset)"
    by (cases rset) (simp_all add: CUSTOMER_CANCEL_REASONS_def GUARD_DECLINE_REASONS_def)
  show ?thesis
  proof (cases reason)
    case None
    with nil show ?thesis
      by (simp add: validate_cancellation_def find_eq_None_iff [THEN iffD2])
  next
    case (Some r)
    show ?thesis
    proof (cases "trim r \<in> set (reason_codes rset)")
      case False
      with Some show ?thesis
        by (simp add: validate_cancellation_def find_eq_None_iff [THEN iffD2])
    next
      case True
      then have f: "find (\<lambda>c. c = trim r) (reason_codes rset) = Some (trim r)"
        by (simp add: find_eq_Some_iff)
      show ?thesis
        using Some True
        by (cases c)
          (auto simp: validate_cancellation_def f Let_def MAX_CANCELLATION_NOTE_CHARS_def
            REASON_OTHER_def split: option.splits)
    qed
  qed
qed

lemma validated_reason_known:
  "validate_cancellation rset reason note = Inr c \<Longrightarrow> cn_reason c \<in> set (reason_codes rset)"
  by (auto simp: validate_cancellation_Inr_iff)

lemma system_reasons_unreachable:
  "validate_cancellation rset reason note = Inr c \<Longrightarrow>
   cn_reason c \<noteq> SYSTEM_EXPIRED_REASON \<and> cn_reason c \<noteq> SYSTEM_NOT_STARTED_REASON"
  by (drule validated_reason_known, cases rset)
    (auto simp: CUSTOMER_CANCEL_REASONS_def GUARD_DECLINE_REASONS_def
      SYSTEM_EXPIRED_REASON_def SYSTEM_NOT_STARTED_REASON_def)

text \<open>A code of the other endpoint is as invalid as an unknown one, except the shared \<open>other\<close>.\<close>

lemma vocabularies_disjoint:
  "set (reason_codes CustomerCancel) \<inter> set (reason_codes GuardDecline) = {REASON_OTHER}"
  by (auto simp: CUSTOMER_CANCEL_REASONS_def GUARD_DECLINE_REASONS_def REASON_OTHER_def)

lemma set_for_target_iff:
  "set_for_target s = Some CustomerCancel \<longleftrightarrow> s = Cancelled"
  "set_for_target s = Some GuardDecline \<longleftrightarrow> s = Declined"
  "set_for_target s = None \<longleftrightarrow> s \<noteq> Cancelled \<and> s \<noteq> Declined"
  by (cases s; simp add: set_for_target_def)+

definition BOOKING_REQUESTED :: string where
  "BOOKING_REQUESTED = ''pguard.events.booking.requested''"
definition BOOKING_JOB_ACCEPTED :: string where
  "BOOKING_JOB_ACCEPTED = ''pguard.events.booking.job_accepted''"
definition BOOKING_DECLINED :: string where
  "BOOKING_DECLINED = ''pguard.events.booking.declined''"
definition BOOKING_CANCELLED :: string where
  "BOOKING_CANCELLED = ''pguard.events.booking.cancelled''"
definition BOOKING_COMPLETED :: string where
  "BOOKING_COMPLETED = ''pguard.events.booking.completed''"
definition BOOKING_GUARD_EN_ROUTE :: string where
  "BOOKING_GUARD_EN_ROUTE = ''pguard.events.booking.guard_en_route''"
definition BOOKING_ARRIVED :: string where
  "BOOKING_ARRIVED = ''pguard.events.booking.arrived''"
definition BOOKING_COMPLETION_REQUESTED :: string where
  "BOOKING_COMPLETION_REQUESTED = ''pguard.events.booking.completion_requested''"
definition BOOKING_PROGRESS_REPORTED :: string where
  "BOOKING_PROGRESS_REPORTED = ''pguard.events.booking.progress_reported''"

lemmas booking_topics =
  BOOKING_REQUESTED_def BOOKING_JOB_ACCEPTED_def BOOKING_DECLINED_def BOOKING_CANCELLED_def
  BOOKING_COMPLETED_def BOOKING_GUARD_EN_ROUTE_def BOOKING_ARRIVED_def
  BOOKING_COMPLETION_REQUESTED_def BOOKING_PROGRESS_REPORTED_def

record event_mapping =
  em_topic :: string
  em_payload :: payload

record completion_info =
  ci_booked_hours :: int
  ci_actual_seconds :: "int option"
  ci_base_fee :: decimal
  ci_guard_count :: int
  ci_tip :: decimal

definition booking_payload :: "uuid \<Rightarrow> uuid \<Rightarrow> uuid option \<Rightarrow> payload" where
  "booking_payload booking_id customer_id guard_id =
    (case guard_id of
       Some g \<Rightarrow> [(''booking_id'', JUuid booking_id), (''customer_id'', JUuid customer_id),
                   (''guard_id'', JUuid g)]
     | None \<Rightarrow> [(''booking_id'', JUuid booking_id), (''customer_id'', JUuid customer_id)])"

definition topic_for_status :: "booking_status \<Rightarrow> string option" where
  "topic_for_status new_status =
    (case new_status of
       Accepted \<Rightarrow> Some BOOKING_JOB_ACCEPTED
     | Declined \<Rightarrow> Some BOOKING_DECLINED
     | EnRoute \<Rightarrow> Some BOOKING_GUARD_EN_ROUTE
     | Arrived \<Rightarrow> Some BOOKING_ARRIVED
     | Completed \<Rightarrow> Some BOOKING_COMPLETED
     | Cancelled \<Rightarrow> Some BOOKING_CANCELLED
     | PendingCompletion \<Rightarrow> Some BOOKING_COMPLETION_REQUESTED
     | Requested \<Rightarrow> None)"

definition with_completion :: "booking_status \<Rightarrow> completion_info option \<Rightarrow> payload \<Rightarrow> payload" where
  "with_completion new_status completion p =
    (if new_status = Completed then
       (case completion of
          None \<Rightarrow> p
        | Some info \<Rightarrow>
          jput (jput (jput (jput (jput p
            ''booked_hours'' (JInt (ci_booked_hours info)))
            ''actual_seconds'' (jopt JInt (ci_actual_seconds info)))
            ''base_fee'' (JDec (ci_base_fee info)))
            ''guard_count'' (JInt (ci_guard_count info)))
            ''tip'' (JDec (ci_tip info)))
     else p)"

definition with_reason :: "booking_status \<Rightarrow> cancellation option \<Rightarrow> payload \<Rightarrow> payload" where
  "with_reason new_status canc p =
    (if set_for_target new_status \<noteq> None then
       (case canc of
          None \<Rightarrow> p
        | Some c \<Rightarrow>
          (let p1 = jput p ''cancellation_reason'' (JStr (cn_reason c))
           in case cn_note c of
                None \<Rightarrow> p1
              | Some note \<Rightarrow> jput p1 ''cancellation_note'' (JStr note)))
     else p)"

definition charge_cancel_fee :: "booking_status \<Rightarrow> bool \<Rightarrow> bool" where
  "charge_cancel_fee from_st is_admin =
    (\<not> is_admin \<and> (from_st = Requested \<or> from_st = Accepted \<or> from_st = EnRoute))"

definition event_for_status ::
  "booking_status \<Rightarrow> booking_status \<Rightarrow> uuid \<Rightarrow> uuid \<Rightarrow> uuid option \<Rightarrow> completion_info option
   \<Rightarrow> cancellation option \<Rightarrow> bool \<Rightarrow> event_mapping option" where
  "event_for_status from_st new_status booking_id customer_id guard_id completion canc is_admin =
    (case topic_for_status new_status of
       None \<Rightarrow> None
     | Some topic \<Rightarrow>
       (let p0 = booking_payload booking_id customer_id guard_id;
            p1 = with_completion new_status completion p0;
            p2 = with_reason new_status canc p1;
            p3 = (if new_status = Cancelled
                  then jput p2 ''charge_cancel_fee'' (JBool (charge_cancel_fee from_st is_admin))
                  else p2)
        in Some \<lparr>em_topic = topic, em_payload = p3\<rparr>))"

definition event_for_booking_requested ::
  "uuid \<Rightarrow> uuid \<Rightarrow> string \<Rightarrow> f64 option \<Rightarrow> f64 option \<Rightarrow> instant \<Rightarrow> int \<Rightarrow> int \<Rightarrow> uuid option
   \<Rightarrow> event_mapping" where
  "event_for_booking_requested booking_id customer_id address lat lng scheduled_at hours
     guard_count target_guard_id =
    \<lparr>em_topic = BOOKING_REQUESTED,
     em_payload =
       [(''booking_id'', JUuid booking_id), (''customer_id'', JUuid customer_id),
        (''address'', JStr address), (''lat'', jopt JFloat lat), (''lng'', jopt JFloat lng),
        (''scheduled_at'', JTime scheduled_at), (''hours'', JInt hours),
        (''guard_count'', JInt guard_count), (''target_guard_id'', jopt JUuid target_guard_id)]\<rparr>"

definition event_for_progress_report ::
  "uuid \<Rightarrow> uuid \<Rightarrow> uuid \<Rightarrow> uuid \<Rightarrow> int \<Rightarrow> event_mapping" where
  "event_for_progress_report booking_id customer_id guard_id report_id hour_number =
    \<lparr>em_topic = BOOKING_PROGRESS_REPORTED,
     em_payload =
       [(''booking_id'', JUuid booking_id), (''customer_id'', JUuid customer_id),
        (''guard_id'', JUuid guard_id), (''report_id'', JUuid report_id),
        (''hour_number'', JInt hour_number)]\<rparr>"

subsection \<open>Which event, with which keys\<close>

lemma event_for_status_None_iff:
  "event_for_status a b bid cid g ci c adm = None \<longleftrightarrow> b = Requested"
  by (cases b) (simp_all add: event_for_status_def topic_for_status_def Let_def)

lemma event_topic:
  "event_for_status a b bid cid g ci c adm = Some m \<Longrightarrow> topic_for_status b = Some (em_topic m)"
  by (auto simp: event_for_status_def Let_def split: option.splits)

lemma topic_inj:
  "topic_for_status a = Some t \<Longrightarrow> topic_for_status b = Some t \<Longrightarrow> a = b"
  by (cases a; cases b) (auto simp: topic_for_status_def booking_topics)

lemma event_payload:
  assumes "event_for_status a b bid cid g ci c adm = Some m"
  shows "em_payload m =
    (if b = Cancelled
     then jput (with_reason b c (with_completion b ci (booking_payload bid cid g)))
            ''charge_cancel_fee'' (JBool (charge_cancel_fee a adm))
     else with_reason b c (with_completion b ci (booking_payload bid cid g)))"
  using assms by (auto simp: event_for_status_def Let_def split: option.splits)

lemma booking_payload_get:
  "jget (booking_payload bid cid g) ''booking_id'' = Some (JUuid bid)"
  "jget (booking_payload bid cid g) ''customer_id'' = Some (JUuid cid)"
  "jget (booking_payload bid cid g) ''guard_id'' = map_option JUuid g"
  "jget (booking_payload bid cid g) ''cancellation_reason'' = None"
  "jget (booking_payload bid cid g) ''charge_cancel_fee'' = None"
  "jget (booking_payload bid cid g) ''actual_seconds'' = None"
  by (cases g; simp add: booking_payload_def jget_def)+

lemma jget_with_completion:
  "k \<notin> {''booked_hours'', ''actual_seconds'', ''base_fee'', ''guard_count'', ''tip''} \<Longrightarrow>
   jget (with_completion b ci p) k = jget p k"
  by (auto simp: with_completion_def split: option.splits)

lemma jget_with_reason:
  "k \<notin> {''cancellation_reason'', ''cancellation_note''} \<Longrightarrow>
   jget (with_reason b c p) k = jget p k"
  by (auto simp: with_reason_def Let_def split: option.splits)

text \<open>Every event routes to its booking, customer and guard.\<close>

lemma event_ids:
  assumes "event_for_status a b bid cid g ci c adm = Some m"
  shows "jget (em_payload m) ''booking_id'' = Some (JUuid bid)"
    and "jget (em_payload m) ''customer_id'' = Some (JUuid cid)"
    and "jget (em_payload m) ''guard_id'' = map_option JUuid g"
  by (simp_all add: event_payload [OF assms] jget_with_reason jget_with_completion
      booking_payload_get)

text \<open>The fee flag rides the cancelled event only, and says who cancelled from where.\<close>

lemma event_fee_flag:
  assumes "event_for_status a b bid cid g ci c adm = Some m"
  shows "jget (em_payload m) ''charge_cancel_fee'' =
    (if b = Cancelled then Some (JBool (charge_cancel_fee a adm)) else None)"
  by (simp add: event_payload [OF assms] jget_with_reason jget_with_completion
      booking_payload_get)

lemma event_actual_seconds:
  assumes "event_for_status a b bid cid g ci c adm = Some m"
  shows "jget (em_payload m) ''actual_seconds'' =
    (if b = Completed then map_option (\<lambda>i. jopt JInt (ci_actual_seconds i)) ci else None)"
  by (cases ci)
    (auto simp: event_payload [OF assms] jget_with_reason with_completion_def
      booking_payload_get set_for_target_def)

end
