(* ===== verification/Booking_Scheduling.thy ===== *)
theory Booking_Scheduling
  imports Shared_Error Decimal
begin

text \<open>
  The time gates of a booking (\<open>services/booking/src/domain/scheduling.rs\<close>). Every rule takes the
  clock as an argument, as in the source; an hour count is an \<open>i32\<close> that the code only widens.
\<close>

text \<open>
  What an admin may store as commission and cancellation fee, and the snapshot a booking copies
  (\<open>services/booking/src/domain/pricing.rs\<close>).
\<close>

definition START_TOO_EARLY_CODE :: string where
  "START_TOO_EARLY_CODE = ''START_TOO_EARLY''"

definition SCHEDULED_IN_PAST_CODE :: string where
  "SCHEDULED_IN_PAST_CODE = ''SCHEDULED_IN_PAST''"

definition START_EARLY_GRACE_MINUTES :: int where
  "START_EARLY_GRACE_MINUTES = 15"

definition BOOKING_EXPIRED_CODE :: string where
  "BOOKING_EXPIRED_CODE = ''BOOKING_EXPIRED''"

definition AUTO_COMPLETE_GRACE_MINUTES :: int where
  "AUTO_COMPLETE_GRACE_MINUTES = 30"

definition JOB_WINDOW_CLOSED_CODE :: string where
  "JOB_WINDOW_CLOSED_CODE = ''JOB_WINDOW_CLOSED''"

definition scheduled_end :: "instant \<Rightarrow> int \<Rightarrow> instant" where
  "scheduled_end scheduled_at hours = scheduled_at + hours_dur hours"

definition is_expired :: "instant \<Rightarrow> int \<Rightarrow> instant \<Rightarrow> bool" where
  "is_expired scheduled_at hours now = (scheduled_end scheduled_at hours < now)"

definition auto_complete_due ::
  "instant \<Rightarrow> int \<Rightarrow> instant option \<Rightarrow> instant \<Rightarrow> duration \<Rightarrow> bool" where
  "auto_complete_due scheduled_at hours completion_requested_at now grace =
    (let e = scheduled_end scheduled_at hours;
         later = (case completion_requested_at of Some requested \<Rightarrow> max e requested | None \<Rightarrow> e)
     in later + grace < now)"

definition validate_keep_working :: "instant \<Rightarrow> int \<Rightarrow> instant \<Rightarrow> unit app_result" where
  "validate_keep_working scheduled_at hours now =
    (if is_expired scheduled_at hours now
     then Inl (ConflictCode JOB_WINDOW_CLOSED_CODE
                 ''This job's scheduled window has ended; book a new job to continue'')
     else Inr ())"

datatype arrived_closure = NotDue | Complete | Cancel | Review

definition close_arrived ::
  "instant \<Rightarrow> int \<Rightarrow> instant option \<Rightarrow> bool \<Rightarrow> instant \<Rightarrow> duration \<Rightarrow> arrived_closure" where
  "close_arrived scheduled_at hours work_started_at has_check_in now grace =
    (if now \<le> scheduled_end scheduled_at hours + grace then NotDue
     else case (work_started_at, has_check_in) of
       (None, _) \<Rightarrow> Cancel
     | (Some _, False) \<Rightarrow> Review
     | (Some _, True) \<Rightarrow> Complete)"

definition worked_seconds_within_window :: "instant \<Rightarrow> int \<Rightarrow> instant \<Rightarrow> instant \<Rightarrow> int" where
  "worked_seconds_within_window scheduled_at hours work_started_at now =
    (let ended = min (scheduled_end scheduled_at hours) now
     in max (num_seconds (ended - work_started_at)) 0)"

definition validate_scheduled_at :: "instant \<Rightarrow> instant \<Rightarrow> unit app_result" where
  "validate_scheduled_at scheduled_at now =
    (if scheduled_at \<le> now
     then Inl (BadRequestCode SCHEDULED_IN_PAST_CODE ''Scheduled time must be in the future'')
     else Inr ())"

definition validate_start_time :: "instant \<Rightarrow> instant \<Rightarrow> unit app_result" where
  "validate_start_time scheduled_at now =
    (let opens_at = scheduled_at - minutes START_EARLY_GRACE_MINUTES
     in if now < opens_at
        then Inl (ConflictCode START_TOO_EARLY_CODE ''Too early to start this job'')
        else Inr ())"

subsection \<open>How the rules fit together\<close>

lemma is_expired_mono: "is_expired s h now \<Longrightarrow> now \<le> now' \<Longrightarrow> is_expired s h now'"
  by (simp add: is_expired_def)

lemma keep_working_ok_iff [simp]: "validate_keep_working s h now = Inr () \<longleftrightarrow> \<not> is_expired s h now"
  by (simp add: validate_keep_working_def)

lemma keep_working_Inl_iff:
  "validate_keep_working s h now = Inl e \<longleftrightarrow>
    is_expired s h now \<and> e = ConflictCode JOB_WINDOW_CLOSED_CODE
      ''This job's scheduled window has ended; book a new job to continue''"
  by (auto simp: validate_keep_working_def)

lemma start_time_ok_iff:
  "validate_start_time s now = Inr () \<longleftrightarrow> s - minutes 15 \<le> now"
  by (auto simp: validate_start_time_def Let_def START_EARLY_GRACE_MINUTES_def)

text \<open>
  A due arrived booking is past its window, so the reject that would keep it open is refused: the
  sweep and the customer's review never both apply.
\<close>

lemma closure_due_expired:
  "close_arrived s h w c now grace \<noteq> NotDue \<Longrightarrow> 0 \<le> grace \<Longrightarrow> is_expired s h now"
  by (auto simp: close_arrived_def is_expired_def split: if_splits)

lemma auto_complete_due_expired:
  "auto_complete_due s h r now grace \<Longrightarrow> 0 \<le> grace \<Longrightarrow> is_expired s h now"
  by (auto simp: auto_complete_due_def is_expired_def Let_def split: option.splits)

lemma auto_complete_due_request:
  "auto_complete_due s h (Some r) now grace \<Longrightarrow> r + grace < now"
  by (auto simp: auto_complete_due_def Let_def)

lemma close_arrived_iff:
  "close_arrived s h w c now grace = Complete \<longleftrightarrow>
     scheduled_end s h + grace < now \<and> w \<noteq> None \<and> c"
  "close_arrived s h w c now grace = Cancel \<longleftrightarrow> scheduled_end s h + grace < now \<and> w = None"
  "close_arrived s h w c now grace = Review \<longleftrightarrow>
     scheduled_end s h + grace < now \<and> w \<noteq> None \<and> \<not> c"
  "close_arrived s h w c now grace = NotDue \<longleftrightarrow> now \<le> scheduled_end s h + grace"
  by (cases w; cases c; auto simp: close_arrived_def)+

subsection \<open>The duration a system-closed job is billed on\<close>

lemma worked_seconds_nonneg: "0 \<le> worked_seconds_within_window s h w now"
  by (simp add: worked_seconds_within_window_def Let_def)

text \<open>It does not depend on the tick that runs the sweep, once the window has ended.\<close>

lemma worked_seconds_tick_independent:
  "scheduled_end s h \<le> now \<Longrightarrow> scheduled_end s h \<le> now' \<Longrightarrow>
   worked_seconds_within_window s h w now = worked_seconds_within_window s h w now'"
  by (simp add: worked_seconds_within_window_def min_def)

text \<open>A start inside or after the start of the window is never credited more than the booked hours.\<close>

lemma worked_seconds_le_booked:
  assumes "s \<le> w" and "0 \<le> h"
  shows "worked_seconds_within_window s h w now \<le> 3600 * h"
proof -
  have "min (scheduled_end s h) now - w \<le> hours_dur h"
    using assms(1) by (simp add: scheduled_end_def)
  then have "num_seconds (min (scheduled_end s h) now - w) \<le> 3600 * h"
    using num_seconds_mono num_seconds_hours by metis
  then show ?thesis using assms(2) by (simp add: worked_seconds_within_window_def Let_def)
qed

text \<open>The earliest legal start is fifteen minutes early, so the credit exceeds the booking by at most that.\<close>

lemma worked_seconds_le_grace:
  assumes "validate_start_time s w = Inr ()" and "0 \<le> h"
  shows "worked_seconds_within_window s h w now \<le> 3600 * h + 900"
proof -
  have "min (scheduled_end s h) now - w \<le> hours_dur h + minutes 15"
    using assms(1) by (simp add: scheduled_end_def start_time_ok_iff)
  also have "hours_dur h + minutes 15 = seconds (3600 * h + 900)"
    by (simp add: hours_dur_def minutes_def seconds_def nanos_per_sec_def)
  finally have "num_seconds (min (scheduled_end s h) now - w) \<le> num_seconds (seconds (3600 * h + 900))"
    by (rule num_seconds_mono)
  also have "\<dots> = 3600 * h + 900"
    using assms(2) by (simp add: num_seconds_def seconds_def nanos_per_sec_def)
  finally show ?thesis using assms(2) by (simp add: worked_seconds_within_window_def Let_def)
qed

lemma worked_seconds_late_start:
  "scheduled_end s h \<le> w \<Longrightarrow> worked_seconds_within_window s h w now = 0"
proof -
  assume "scheduled_end s h \<le> w"
  then have "num_seconds (min (scheduled_end s h) now - w) \<le> num_seconds 0"
    by (intro num_seconds_mono) simp
  then show ?thesis by (simp add: worked_seconds_within_window_def Let_def)
qed

definition COMMISSION_PERCENT_INVALID_CODE :: string where
  "COMMISSION_PERCENT_INVALID_CODE = ''COMMISSION_PERCENT_INVALID''"

definition CANCELLATION_FEE_INVALID_CODE :: string where
  "CANCELLATION_FEE_INVALID_CODE = ''CANCELLATION_FEE_INVALID''"

definition MAX_COMMISSION_PERCENT :: decimal where
  "MAX_COMMISSION_PERCENT = 100"

definition MAX_CANCELLATION_FEE :: decimal where
  "MAX_CANCELLATION_FEE = 1000000"

definition MONEY_SCALE :: nat where
  "MONEY_SCALE = 2"

definition money_scale :: "decimal_lib \<Rightarrow> decimal \<Rightarrow> decimal" where
  "money_scale L d = lib_rescale L (lib_round_dp L d MONEY_SCALE) MONEY_SCALE"

definition validate_commission_percent :: "decimal_lib \<Rightarrow> decimal \<Rightarrow> decimal app_result" where
  "validate_commission_percent L percent =
    (if percent < 0 \<or> MAX_COMMISSION_PERCENT < percent
     then Inl (BadRequestCode COMMISSION_PERCENT_INVALID_CODE
                 ''commission_percent must be between 0 and {MAX_COMMISSION_PERCENT}'')
     else Inr (money_scale L percent))"

definition validate_cancellation_fee :: "decimal_lib \<Rightarrow> decimal \<Rightarrow> decimal app_result" where
  "validate_cancellation_fee L fee =
    (if fee < 0 \<or> MAX_CANCELLATION_FEE < fee
     then Inl (BadRequestCode CANCELLATION_FEE_INVALID_CODE
                 ''cancellation_fee must be between 0 and {MAX_CANCELLATION_FEE}'')
     else Inr (money_scale L fee))"

record pricing_snapshot =
  ps_base_fee :: decimal
  ps_commission_percent :: decimal
  ps_cancellation_fee :: decimal

definition terms_or_zero :: "decimal_lib \<Rightarrow> pricing_snapshot option \<Rightarrow> decimal \<times> decimal" where
  "terms_or_zero L snapshot =
    (let (pct, fee) = (case snapshot of
         Some s \<Rightarrow> (ps_commission_percent s, ps_cancellation_fee s)
       | None \<Rightarrow> (0, 0))
     in (money_scale L pct, money_scale L fee))"

context decimal_ops begin

lemma money_scale_eq: "money_scale L d = lib_round_dp L d 2"
  by (simp add: money_scale_def MONEY_SCALE_def rescale_fixed round_grid)

lemma money_scale_grid: "on_grid 2 (money_scale L d)"
  by (simp add: money_scale_eq round_grid)

text \<open>What is stored is in range and on the column's scale; an out-of-range value is never rounded in.\<close>

lemma commission_stored:
  assumes "validate_commission_percent L p = Inr q"
  shows "0 \<le> p \<and> p \<le> 100 \<and> 0 \<le> q \<and> q \<le> 100 \<and> on_grid 2 q"
proof -
  from assms have "0 \<le> p" "p \<le> 100" and q: "q = money_scale L p"
    by (auto simp: validate_commission_percent_def MAX_COMMISSION_PERCENT_def split: if_splits)
  then show ?thesis
    by (simp add: money_scale_eq round_grid round_nonneg round_le)
qed

lemma fee_stored:
  assumes "validate_cancellation_fee L p = Inr q"
  shows "0 \<le> p \<and> p \<le> 1000000 \<and> 0 \<le> q \<and> q \<le> 1000000 \<and> on_grid 2 q"
proof -
  from assms have "0 \<le> p" "p \<le> 1000000" and q: "q = money_scale L p"
    by (auto simp: validate_cancellation_fee_def MAX_CANCELLATION_FEE_def split: if_splits)
  then show ?thesis
    by (simp add: money_scale_eq round_grid round_nonneg round_le)
qed

end

end
