(* ===== verification/Booking_Checkin.thy ===== *)
theory Booking_Checkin
  imports Shared_Error Booking_State
begin

text \<open>
  The arrival geofence (\<open>services/booking/src/domain/geo.rs\<close>). The haversine distance is a float
  formula over the platform's trigonometric functions; it is the argument \<open>metres\<close> of the rule, which
  uses nothing of it but its value. The sum of the radius and the allowance is taken exactly.
\<close>

text \<open>
  Hourly check-ins and the coordinates of a booking
  (\<open>services/booking/src/domain/progress.rs\<close>).
\<close>

definition NOT_AT_SITE_CODE :: string where
  "NOT_AT_SITE_CODE = ''NOT_AT_SITE''"

definition GPS_REQUIRED_CODE :: string where
  "GPS_REQUIRED_CODE = ''GPS_REQUIRED''"

definition GPS_INACCURATE_CODE :: string where
  "GPS_INACCURATE_CODE = ''GPS_INACCURATE''"

definition MAX_PLAUSIBLE_ACCURACY_M :: rat where
  "MAX_PLAUSIBLE_ACCURACY_M = 100"

definition ARRIVED_GEOFENCE_M :: rat where
  "ARRIVED_GEOFENCE_M = 120"

definition ACCURACY_ALLOWANCE_CAP_M :: rat where
  "ACCURACY_ALLOWANCE_CAP_M = 30"

type_synonym distance_fn = "f64 \<Rightarrow> f64 \<Rightarrow> f64 \<Rightarrow> f64 \<Rightarrow> f64"

definition f64_le :: "f64 \<Rightarrow> rat \<Rightarrow> bool" where
  "f64_le x r = (case x of Fin y \<Rightarrow> y \<le> r | NegInf \<Rightarrow> True | _ \<Rightarrow> False)"

text \<open>\<open>filter(is_finite).unwrap_or(0.0).clamp(0.0, cap)\<close>\<close>

definition accuracy_allowance :: "f64 option \<Rightarrow> rat" where
  "accuracy_allowance accuracy_m =
    (case accuracy_m of
       Some (Fin a) \<Rightarrow> (if a < 0 then 0 else if ACCURACY_ALLOWANCE_CAP_M < a then ACCURACY_ALLOWANCE_CAP_M else a)
     | _ \<Rightarrow> 0)"

definition accuracy_implausible :: "f64 option \<Rightarrow> bool" where
  "accuracy_implausible accuracy_m =
    (case accuracy_m of Some (Fin a) \<Rightarrow> MAX_PLAUSIBLE_ACCURACY_M < a | _ \<Rightarrow> False)"

definition validate_geofence ::
  "distance_fn \<Rightarrow> rat \<Rightarrow> (f64 \<times> f64) option \<Rightarrow> (f64 \<times> f64) option \<Rightarrow> f64 option
   \<Rightarrow> unit app_result" where
  "validate_geofence metres radius_m site guard accuracy_m =
    (case site of
       None \<Rightarrow> Inr ()
     | Some (site_lat, site_lng) \<Rightarrow>
       (case guard of
          None \<Rightarrow> Inl (ConflictCode GPS_REQUIRED_CODE ''GPS fix required to mark this job arrived'')
        | Some (guard_lat, guard_lng) \<Rightarrow>
          (if accuracy_implausible accuracy_m
           then Inl (ConflictCode GPS_INACCURATE_CODE
                  ''GPS fix is too imprecise (+-{} m) to confirm you are at the site'')
           else if f64_le (metres site_lat site_lng guard_lat guard_lng)
                     (radius_m + accuracy_allowance accuracy_m)
           then Inr ()
           else Inl (ConflictCode NOT_AT_SITE_CODE
                  ''You are {} m from the meetup point (max {} m)''))))"

definition validate_arrived_geofence ::
  "distance_fn \<Rightarrow> (f64 \<times> f64) option \<Rightarrow> (f64 \<times> f64) option \<Rightarrow> f64 option \<Rightarrow> unit app_result" where
  "validate_arrived_geofence metres site guard accuracy_m =
    validate_geofence metres ARRIVED_GEOFENCE_M site guard accuracy_m"

lemma allowance_bounds: "0 \<le> accuracy_allowance a \<and> accuracy_allowance a \<le> 30"
  by (auto simp: accuracy_allowance_def ACCURACY_ALLOWANCE_CAP_M_def split: option.splits f64.splits)

text \<open>A fix that passes on a pinned booking is within 150 metres, whatever accuracy it reports.\<close>

lemma geofence_ok_distance:
  assumes "validate_arrived_geofence metres (Some (sa, sg)) guard acc = Inr ()"
  shows "\<exists>ga gg. guard = Some (ga, gg) \<and> f64_le (metres sa sg ga gg) 150"
proof -
  from assms obtain ga gg where g: "guard = Some (ga, gg)"
    and d: "f64_le (metres sa sg ga gg) (120 + accuracy_allowance acc)"
    by (auto simp: validate_arrived_geofence_def validate_geofence_def ARRIVED_GEOFENCE_M_def
        split: option.splits if_splits)
  from d allowance_bounds [of acc] have "f64_le (metres sa sg ga gg) 150"
    by (auto simp: f64_le_def split: f64.splits)
  with g show ?thesis by blast
qed

lemma geofence_unpinned [simp]: "validate_arrived_geofence metres None guard acc = Inr ()"
  by (simp add: validate_arrived_geofence_def validate_geofence_def)

lemma geofence_missing_fix:
  "validate_arrived_geofence metres (Some p) None acc =
     Inl (ConflictCode GPS_REQUIRED_CODE ''GPS fix required to mark this job arrived'')"
  by (cases p) (simp add: validate_arrived_geofence_def validate_geofence_def)

definition DUPLICATE_CHECK_IN_CODE :: string where
  "DUPLICATE_CHECK_IN_CODE = ''DUPLICATE_CHECK_IN''"

definition CHECK_IN_WINDOW_CLOSED_CODE :: string where
  "CHECK_IN_WINDOW_CLOSED_CODE = ''CHECK_IN_WINDOW_CLOSED''"

definition CHECK_IN_GRACE_MINUTES :: int where
  "CHECK_IN_GRACE_MINUTES = 30"

definition MAX_PHOTO_SIZE :: nat where
  "MAX_PHOTO_SIZE = 10 * 1024 * 1024"

definition ALLOWED_PHOTO_MIME_TYPES :: "string list" where
  "ALLOWED_PHOTO_MIME_TYPES = [''image/jpeg'', ''image/png'', ''image/webp'']"

definition mime_to_extension :: "string \<Rightarrow> string" where
  "mime_to_extension mime =
    (if mime = ''image/jpeg'' then ''jpg''
     else if mime = ''image/png'' then ''png''
     else if mime = ''image/webp'' then ''webp''
     else ''bin'')"

type_synonym bytes = "8 word list"

text \<open>The magic bytes: JPEG, PNG and the RIFF container with a WEBP tag at offset 8.\<close>

definition ascii_bytes :: "string \<Rightarrow> bytes" where
  "ascii_bytes s = map of_char s"

definition detect_image_mime :: "bytes \<Rightarrow> string option" where
  "detect_image_mime d =
    (if 3 \<le> length d \<and> d ! 0 = 0xFF \<and> d ! 1 = 0xD8 \<and> d ! 2 = 0xFF then Some ''image/jpeg''
     else if 8 \<le> length d \<and> take 8 d = [0x89, 0x50, 0x4E, 0x47, 0x0D, 0x0A, 0x1A, 0x0A]
       then Some ''image/png''
     else if 12 \<le> length d \<and> take 4 d = ascii_bytes ''RIFF''
          \<and> take 4 (drop 8 d) = ascii_bytes ''WEBP'' then Some ''image/webp''
     else None)"

definition validate_photo_upload :: "string \<Rightarrow> nat \<Rightarrow> bytes \<Rightarrow> string app_result" where
  "validate_photo_upload declared_mime file_size d =
    (if declared_mime \<notin> set ALLOWED_PHOTO_MIME_TYPES
     then Inl (BadRequest ''Unsupported photo type: {declared_mime}. Allowed: JPEG, PNG, WEBP'')
     else if MAX_PHOTO_SIZE < file_size
     then Inl (BadRequest ''Photo too large: {file_size} bytes (max {max_mb}MB)'')
     else case detect_image_mime d of
       None \<Rightarrow> Inl (BadRequest ''Photo content does not match any allowed image format'')
     | Some detected \<Rightarrow>
       (if detected \<noteq> declared_mime
        then Inl (BadRequest ''MIME mismatch: declared {declared_mime} but content is {detected}'')
        else Inr detected))"

definition validate_check_in ::
  "booking_status \<Rightarrow> instant option \<Rightarrow> int \<Rightarrow> int \<Rightarrow> instant \<Rightarrow> unit app_result" where
  "validate_check_in status work_started_at hours hour_number now =
    (if status \<noteq> Arrived then Inl (Conflict ''Check-in requires a job in progress'')
     else case work_started_at of
       None \<Rightarrow> Inl (Conflict ''Job has not been started; cannot check in'')
     | Some started \<Rightarrow>
       (if hour_number < 1 \<or> hours < hour_number
        then Inl (BadRequest ''hour_number must be between 1 and {hours}'')
        else
          let opens_at = started + hours_dur (hour_number - 1) in
          if now < opens_at then Inl (Conflict ''Too early to check in for hour {hour_number}'')
          else
            let closes_at = started + hours_dur hours + minutes CHECK_IN_GRACE_MINUTES in
            if closes_at < now
            then Inl (ConflictCode CHECK_IN_WINDOW_CLOSED_CODE
                        ''The check-in window for this job has closed'')
            else Inr ()))"

definition MAX_NOTE_CHARS :: nat where
  "MAX_NOTE_CHARS = 2000"

definition validate_note :: "string \<Rightarrow> unit app_result" where
  "validate_note note =
    (if MAX_NOTE_CHARS < char_count note
     then Inl (BadRequest ''note must be at most {MAX_NOTE_CHARS} characters'')
     else Inr ())"

definition sanitize_accuracy :: "f64 option \<Rightarrow> f64 option" where
  "sanitize_accuracy accuracy_m =
    (case accuracy_m of
       None \<Rightarrow> None
     | Some a \<Rightarrow> (if is_finite a \<and> in_range 0 10000 a then Some a else None))"

record geo_filter =
  gf_lat :: f64
  gf_lng :: f64
  gf_radius_km :: f64

definition DEFAULT_RADIUS_KM :: f64 where
  "DEFAULT_RADIUS_KM = Fin 10"

definition MAX_RADIUS_KM :: rat where
  "MAX_RADIUS_KM = 500"

definition validate_coords :: "f64 option \<Rightarrow> f64 option \<Rightarrow> (f64 \<times> f64) option app_result" where
  "validate_coords lat lng =
    (case (lat, lng) of
       (None, None) \<Rightarrow> Inr None
     | (Some la, Some lg) \<Rightarrow>
       (if \<not> in_range (- 90) 90 la \<or> \<not> is_finite la
        then Inl (BadRequest ''lat must be between -90 and 90'')
        else if \<not> in_range (- 180) 180 lg \<or> \<not> is_finite lg
        then Inl (BadRequest ''lng must be between -180 and 180'')
        else Inr (Some (la, lg)))
     | _ \<Rightarrow> Inl (BadRequest ''lat and lng must be provided together''))"

text \<open>\<open>!r.is_finite() || r <= 0.0 || r > MAX_RADIUS_KM\<close>\<close>

definition radius_bad :: "f64 \<Rightarrow> bool" where
  "radius_bad r = (case r of Fin x \<Rightarrow> x \<le> 0 \<or> MAX_RADIUS_KM < x | _ \<Rightarrow> True)"

definition validate_open_jobs_query ::
  "f64 option \<Rightarrow> f64 option \<Rightarrow> f64 option \<Rightarrow> geo_filter option app_result" where
  "validate_open_jobs_query lat lng radius_km =
    res_bind (validate_coords lat lng) (\<lambda>coords.
      case (coords, radius_km) of
        (None, None) \<Rightarrow> Inr None
      | (None, Some _) \<Rightarrow> Inl (BadRequest ''radius_km requires lat and lng'')
      | (Some (la, lg), radius) \<Rightarrow>
        (let r = (case radius of Some x \<Rightarrow> x | None \<Rightarrow> DEFAULT_RADIUS_KM)
         in if radius_bad r
            then Inl (BadRequest ''radius_km must be between 0 (exclusive) and {MAX_RADIUS_KM}'')
            else Inr (Some \<lparr>gf_lat = la, gf_lng = lg, gf_radius_km = r\<rparr>)))"

subsection \<open>What passes\<close>

lemma detected_allowed: "detect_image_mime d = Some m \<Longrightarrow> m \<in> set ALLOWED_PHOTO_MIME_TYPES"
  by (auto simp: detect_image_mime_def ALLOWED_PHOTO_MIME_TYPES_def split: if_splits)

lemma photo_ok_iff:
  "validate_photo_upload m n d = Inr m' \<longleftrightarrow>
    m' = m \<and> n \<le> MAX_PHOTO_SIZE \<and> detect_image_mime d = Some m"
  using detected_allowed by (auto simp: validate_photo_upload_def split: option.splits if_splits)

lemma check_in_ok_iff:
  "validate_check_in status w hours n now = Inr () \<longleftrightarrow>
    status = Arrived \<and> (\<exists>started. w = Some started \<and> 1 \<le> n \<and> n \<le> hours
      \<and> started + hours_dur (n - 1) \<le> now
      \<and> now \<le> started + hours_dur hours + minutes 30)"
  by (auto simp: validate_check_in_def Let_def CHECK_IN_GRACE_MINUTES_def split: option.splits)

lemma hours_dur_mono: "m \<le> n \<Longrightarrow> hours_dur m \<le> hours_dur n"
  by (simp add: hours_dur_def nanos_per_sec_def)

text \<open>Every booked hour has a moment at which it can be filed, and earlier hours stay open with it.\<close>

lemma check_in_every_hour_fileable:
  assumes "1 \<le> n" and "n \<le> hours"
  shows "validate_check_in Arrived (Some started) hours n (started + hours_dur (n - 1)) = Inr ()"
proof -
  have "hours_dur (n - 1) \<le> hours_dur hours" using assms(2) by (intro hours_dur_mono) simp
  moreover have "0 \<le> minutes 30" by (simp add: minutes_def nanos_per_sec_def)
  ultimately show ?thesis using assms by (simp add: check_in_ok_iff)
qed

lemma check_in_earlier_hour_open:
  assumes "validate_check_in status w hours n now = Inr ()" and "1 \<le> m" and "m \<le> n"
  shows "validate_check_in status w hours m now = Inr ()"
proof -
  have "hours_dur (m - 1) \<le> hours_dur (n - 1)" using assms(3) by (intro hours_dur_mono) simp
  with assms show ?thesis unfolding check_in_ok_iff by force
qed

lemma coords_ok_iff:
  "validate_coords lat lng = Inr (Some (la, lg)) \<longleftrightarrow>
    lat = Some la \<and> lng = Some lg \<and> in_range (- 90) 90 la \<and> in_range (- 180) 180 lg"
  by (auto simp: validate_coords_def dest: in_range_finite split: option.splits)

lemma open_jobs_query_ok:
  assumes "validate_open_jobs_query lat lng radius = Inr (Some f)"
  shows "in_range (- 90) 90 (gf_lat f)" "in_range (- 180) 180 (gf_lng f)"
    "\<not> radius_bad (gf_radius_km f)"
proof -
  from assms obtain coords where c: "validate_coords lat lng = Inr coords"
    by (auto simp: validate_open_jobs_query_def res_bind_Inr_iff)
  with assms obtain la lg where l: "coords = Some (la, lg)"
    by (cases coords) (auto simp: validate_open_jobs_query_def split: option.splits)
  from assms c l obtain r where r: "\<not> radius_bad r" "f = \<lparr>gf_lat = la, gf_lng = lg, gf_radius_km = r\<rparr>"
    by (auto simp: validate_open_jobs_query_def Let_def split: option.splits if_splits)
  show "in_range (- 90) 90 (gf_lat f)" "in_range (- 180) 180 (gf_lng f)"
    "\<not> radius_bad (gf_radius_km f)"
    using c r by (simp_all add: l coords_ok_iff)
qed

end
