(* ===== verification/Booking_Transition.thy ===== *)
theory Booking_Transition
  imports Booking_State Booking_Scheduling Booking_Checkin
begin

text \<open>
  The booking tables and the transactions on them (\<open>services/booking/src/repo/mod.rs\<close>, the columns
  from \<open>contracts/db/migrations/booking\<close>).

  A transaction is a function from the tables to an error or a result with the new tables: a
  rollback leaves the tables as they were, so an error carries none. A transaction that locks its row
  runs as one step. A call's environment holds what it takes from outside: the process clock
  (\<open>Utc::now()\<close>), the transaction clock (SQL \<open>now()\<close>, the time the transaction began) and fresh
  identifiers.
\<close>

text \<open>
  The row-locked status transition \<open>transition_as\<close> (\<open>services/booking/src/repo/mod.rs\<close>): its gates
  one by one in the order the code runs them, the row update, the emitted event, and their
  composition. \<open>transition\<close> is the entry point of every request, with the scheduler's switch off.
\<close>

record booking =
  bk_customer :: uuid
  bk_guard :: "uuid option"
  bk_status :: booking_status
  bk_address :: string
  bk_scheduled_at :: instant
  bk_hours :: int
  bk_base_fee :: decimal
  bk_guard_count :: int
  bk_tip :: decimal
  bk_lat :: "f64 option"
  bk_lng :: "f64 option"
  bk_target_guard :: "uuid option"
  bk_work_started_at :: "instant option"
  bk_work_started_lat :: "f64 option"
  bk_work_started_lng :: "f64 option"
  bk_work_started_accuracy :: "f64 option"
  bk_arrived_lat :: "f64 option"
  bk_arrived_lng :: "f64 option"
  bk_arrived_accuracy :: "f64 option"
  bk_paid_at :: "instant option"
  bk_actual_seconds :: "int option"
  bk_cancellation_reason :: "string option"
  bk_cancellation_note :: "string option"
  bk_commission_percent :: "decimal option"
  bk_cancellation_fee :: "decimal option"
  bk_completion_requested_at :: "instant option"
  bk_created_at :: instant
  bk_updated_at :: instant

record progress_report =
  pr_id :: uuid
  pr_booking :: uuid
  pr_guard :: uuid
  pr_hour :: int
  pr_photo_key :: string
  pr_lat :: "f64 option"
  pr_lng :: "f64 option"
  pr_accuracy :: "f64 option"
  pr_note :: "string option"
  pr_created_at :: instant

record booking_db =
  bookings :: "(uuid, booking) table"
  progress_reports :: "progress_report list"
  guard_job_skips :: "(uuid \<times> uuid) list"
  processed_events :: "(uuid \<times> string) list"
  outbox :: "outbox_row list"

definition empty_booking_db :: booking_db where
  "empty_booking_db =
    \<lparr>bookings = [], progress_reports = [], guard_job_skips = [], processed_events = [], outbox = []\<rparr>"

subsection \<open>Reading rows\<close>

definition locked_current :: "booking_db \<Rightarrow> uuid \<Rightarrow> booking app_result" where
  "locked_current db bid =
    (case row_get (bookings db) bid of
       None \<Rightarrow> Inl (NotFound ''Booking not found'')
     | Some r \<Rightarrow> Inr r)"

definition site :: "booking \<Rightarrow> (f64 \<times> f64) option" where
  "site b =
    (case (bk_lat b, bk_lng b) of (Some la, Some lg) \<Rightarrow> Some (la, lg) | _ \<Rightarrow> None)"

definition has_check_in :: "booking_db \<Rightarrow> uuid \<Rightarrow> bool" where
  "has_check_in db bid = list_ex (\<lambda>r. pr_booking r = bid) (progress_reports db)"

definition is_active :: "booking_status \<Rightarrow> bool" where
  "is_active s = (s = Accepted \<or> s = EnRoute \<or> s = Arrived \<or> s = PendingCompletion)"

text \<open>\<open>a.start < t.end AND t.start < a.end\<close>\<close>

definition windows_overlap :: "instant \<Rightarrow> int \<Rightarrow> instant \<Rightarrow> int \<Rightarrow> bool" where
  "windows_overlap s h s' h' = (s < s' + hours_dur h' \<and> s' < s + hours_dur h)"

text \<open>
  The \<open>EXISTS\<close> query of the accept path: another active booking of the guard overlaps the target's
  window. A target that does not exist joins with nothing.
\<close>

definition guard_has_overlapping_active_job :: "booking_db \<Rightarrow> uuid \<Rightarrow> uuid \<Rightarrow> bool" where
  "guard_has_overlapping_active_job db guard target_id =
    (case row_get (bookings db) target_id of
       None \<Rightarrow> False
     | Some t \<Rightarrow>
       list_ex (\<lambda>(aid, a). bk_guard a = Some guard \<and> aid \<noteq> target_id \<and> is_active (bk_status a)
         \<and> windows_overlap (bk_scheduled_at a) (bk_hours a) (bk_scheduled_at t) (bk_hours t))
         (bookings db))"

subsection \<open>The outbox\<close>

definition enqueue_outbox ::
  "call_env \<Rightarrow> string \<Rightarrow> envelope \<Rightarrow> booking_db \<Rightarrow> booking_db" where
  "enqueue_outbox env topic envl db =
    db\<lparr>outbox := outbox db @
      [\<lparr>ob_id = fresh_outbox env, ob_topic = topic, ob_envelope = envl,
        ob_created_at = tx_now env, ob_published_at = None\<rparr>]\<rparr>"

definition emit :: "call_env \<Rightarrow> event_mapping option \<Rightarrow> booking_db \<Rightarrow> booking_db" where
  "emit env m db =
    (case m of
       None \<Rightarrow> db
     | Some e \<Rightarrow>
       enqueue_outbox env (em_topic e)
         (new_envelope (fresh_event env) (utc_now env) (trace_parent env) (em_topic e)
            (correlation env) (em_payload e)) db)"

text \<open>The relay: claim unpublished rows oldest first, mark each after its publish is acknowledged.\<close>

definition fetch_unpublished :: "nat \<Rightarrow> booking_db \<Rightarrow> outbox_row list" where
  "fetch_unpublished limit db =
    take limit (sort_key ob_created_at (filter (\<lambda>r. ob_published_at r = None) (outbox db)))"

definition mark_published :: "instant \<Rightarrow> uuid \<Rightarrow> booking_db \<Rightarrow> booking_db" where
  "mark_published now bid db =
    db\<lparr>outbox := map (\<lambda>r. if ob_id r = bid then r\<lparr>ob_published_at := Some now\<rparr> else r) (outbox db)\<rparr>"

subsection \<open>Creating a booking\<close>

record create_request =
  cr_address :: string
  cr_scheduled_at :: instant
  cr_hours :: int
  cr_service_id :: "uuid option"
  cr_guard_count :: "int option"
  cr_tip :: "decimal option"
  cr_lat :: "f64 option"
  cr_lng :: "f64 option"
  cr_target_guard :: "uuid option"

definition DEFAULT_BASE_FEE :: decimal where
  "DEFAULT_BASE_FEE = 500"

text \<open>The \<open>CHECK\<close> constraints of the table; a row that fails one is a database error.\<close>

definition booking_row_ok :: "booking \<Rightarrow> bool" where
  "booking_row_ok b =
    (1 \<le> bk_guard_count b \<and> bk_guard_count b \<le> 20 \<and> 0 \<le> bk_base_fee b \<and> 0 \<le> bk_tip b
     \<and> char_count (bk_address b) \<le> 512
     \<and> (case bk_cancellation_note b of None \<Rightarrow> True | Some n \<Rightarrow> char_count n \<le> 500)
     \<and> (case bk_commission_percent b of None \<Rightarrow> True | Some p \<Rightarrow> 0 \<le> p \<and> p \<le> 100)
     \<and> (case bk_cancellation_fee b of None \<Rightarrow> True | Some f \<Rightarrow> 0 \<le> f))"

definition new_booking_row ::
  "decimal_lib \<Rightarrow> call_env \<Rightarrow> uuid \<Rightarrow> create_request \<Rightarrow> int \<Rightarrow> decimal \<Rightarrow> pricing_snapshot option
   \<Rightarrow> booking" where
  "new_booking_row L env customer_id req guard_count tip pricing =
    (let (commission_percent, cancellation_fee) = terms_or_zero L pricing in
     \<lparr>bk_customer = customer_id, bk_guard = None, bk_status = Requested,
      bk_address = cr_address req, bk_scheduled_at = cr_scheduled_at req,
      bk_hours = cr_hours req,
      bk_base_fee = (case pricing of Some s \<Rightarrow> ps_base_fee s | None \<Rightarrow> DEFAULT_BASE_FEE),
      bk_guard_count = guard_count, bk_tip = tip, bk_lat = cr_lat req, bk_lng = cr_lng req,
      bk_target_guard = cr_target_guard req, bk_work_started_at = None,
      bk_work_started_lat = None, bk_work_started_lng = None, bk_work_started_accuracy = None,
      bk_arrived_lat = None, bk_arrived_lng = None, bk_arrived_accuracy = None,
      bk_paid_at = None, bk_actual_seconds = None, bk_cancellation_reason = None,
      bk_cancellation_note = None, bk_commission_percent = Some commission_percent,
      bk_cancellation_fee = Some cancellation_fee, bk_completion_requested_at = None,
      bk_created_at = tx_now env, bk_updated_at = tx_now env\<rparr>)"

definition create_booking ::
  "decimal_lib \<Rightarrow> call_env \<Rightarrow> booking_db \<Rightarrow> uuid \<Rightarrow> create_request \<Rightarrow> int \<Rightarrow> decimal
   \<Rightarrow> pricing_snapshot option \<Rightarrow> ((uuid \<times> booking) \<times> booking_db) app_result" where
  "create_booking L env db customer_id req guard_count tip pricing =
    (let bid = fresh_row env;
         b = new_booking_row L env customer_id req guard_count tip pricing
     in if row_get (bookings db) bid \<noteq> None then Inl (Database ''23505'')
        else if \<not> booking_row_ok b then Inl (Database ''23514'')
        else
          let db1 = db\<lparr>bookings := row_put bid b (bookings db)\<rparr>;
              m = event_for_booking_requested bid (bk_customer b) (bk_address b) (bk_lat b)
                    (bk_lng b) (bk_scheduled_at b) (bk_hours b) (bk_guard_count b)
                    (bk_target_guard b)
          in Inr ((bid, b), emit env (Some m) db1))"

subsection \<open>The gates\<close>

definition is_participant :: "booking \<Rightarrow> uuid \<Rightarrow> bool" where
  "is_participant b actor = (bk_customer b = actor \<or> bk_guard b = Some actor)"

definition participation_gate ::
  "booking \<Rightarrow> uuid \<Rightarrow> bool \<Rightarrow> required_actor_class option \<Rightarrow> unit app_result" where
  "participation_gate b actor is_admin actor_class =
    ensure (is_admin \<or> is_participant b actor \<or> actor_class = Some ClaimUnassigned)
      (Forbidden ''Not a participant in this booking'')"

definition cannot_transition :: app_error where
  "cannot_transition = Conflict ''Booking cannot be transitioned to {new_status} from its current state''"

definition legality_gate ::
  "required_actor_class option \<Rightarrow> required_actor_class app_result" where
  "legality_gate actor_class =
    (case actor_class of Some a \<Rightarrow> Inr a | None \<Rightarrow> Inl cannot_transition)"

definition system_gate :: "bool \<Rightarrow> required_actor_class \<Rightarrow> unit app_result" where
  "system_gate system actor_class =
    ensure (\<not> (system \<and> actor_class \<noteq> System))
      (Conflict ''Booking is no longer in a state the scheduler may close to {new_status}'')"

definition claim_gate ::
  "booking_db \<Rightarrow> uuid \<Rightarrow> booking \<Rightarrow> bool \<Rightarrow> uuid option \<Rightarrow> instant \<Rightarrow> unit app_result" where
  "claim_gate db bid b is_admin assign_guard now =
    (if \<not> is_admin \<and> bk_target_guard b \<noteq> None \<and> assign_guard \<noteq> bk_target_guard b
     then Inl (ForbiddenCode ''NOT_OFFERED_TO_YOU'' ''This booking was offered to a specific guard'')
     else if \<not> is_admin \<and> is_expired (bk_scheduled_at b) (bk_hours b) now
     then Inl (ConflictCode BOOKING_EXPIRED_CODE ''This booking's scheduled time has already passed'')
     else if bk_guard b \<noteq> None
     then Inl (ConflictCode ''JOB_TAKEN'' ''Booking already has an assigned guard'')
     else case assign_guard of
       None \<Rightarrow> Inr ()
     | Some guard \<Rightarrow>
       (if guard_has_overlapping_active_job db guard bid
        then Inl (ConflictCode ''GUARD_BUSY''
               ''You already have a job during this time window - pick a non-overlapping one.'')
        else Inr ()))"

definition ownership_gate ::
  "booking_db \<Rightarrow> uuid \<Rightarrow> booking \<Rightarrow> uuid \<Rightarrow> bool \<Rightarrow> bool \<Rightarrow> uuid option \<Rightarrow> instant
   \<Rightarrow> required_actor_class \<Rightarrow> unit app_result" where
  "ownership_gate db bid b actor is_admin system assign_guard now actor_class =
    (case actor_class of
       ClaimUnassigned \<Rightarrow> claim_gate db bid b is_admin assign_guard now
     | AssignedGuard \<Rightarrow>
       ensure (is_admin \<or> bk_guard b = Some actor)
         (Forbidden ''Only the assigned guard can update this booking'')
     | RequestOwner \<Rightarrow>
       ensure (is_admin \<or> bk_customer b = actor)
         (Forbidden ''Only the booking's customer can do this'')
     | System \<Rightarrow> ensure system cannot_transition)"

definition extension_gate :: "booking \<Rightarrow> booking_status \<Rightarrow> instant \<Rightarrow> unit app_result" where
  "extension_gate b new_status now =
    (if bk_status b = PendingCompletion \<and> new_status = Arrived
     then validate_keep_working (bk_scheduled_at b) (bk_hours b) now
     else Inr ())"

definition reason_gate ::
  "booking \<Rightarrow> booking_status \<Rightarrow> cancellation option \<Rightarrow> cancellation option app_result" where
  "reason_gate b new_status canc =
    (if set_for_target new_status \<noteq> None then
       (if bk_status b = Declined then Inr None
        else if canc = None
        then Inl (BadRequestCode CANCEL_REASON_REQUIRED_CODE
                    ''A valid cancellation reason is required'')
        else Inr canc)
     else Inr canc)"

definition payment_gate :: "booking \<Rightarrow> booking_status \<Rightarrow> unit app_result" where
  "payment_gate b new_status =
    ensure (\<not> (bk_status b = Accepted \<and> new_status = EnRoute \<and> bk_paid_at b = None))
      (ConflictCode PAYMENT_REQUIRED_CODE ''Payment required before the guard can go en route'')"

definition closes_work :: "booking \<Rightarrow> booking_status \<Rightarrow> bool" where
  "closes_work b new_status =
    (new_status = PendingCompletion \<or> (bk_status b = Arrived \<and> new_status = Completed))"

definition started_gate :: "booking \<Rightarrow> booking_status \<Rightarrow> unit app_result" where
  "started_gate b new_status =
    ensure (\<not> (bk_work_started_at b = None \<and> closes_work b new_status))
      (Conflict ''Job has not been started; cannot request completion'')"

definition check_in_gate ::
  "booking_db \<Rightarrow> uuid \<Rightarrow> booking \<Rightarrow> booking_status \<Rightarrow> unit app_result" where
  "check_in_gate db bid b new_status =
    ensure (closes_work b new_status \<longrightarrow> has_check_in db bid)
      (ConflictCode CHECK_IN_REQUIRED_CODE
         ''The start-of-work check-in is required before requesting completion'')"

subsection \<open>The update and the event\<close>

definition completion_actual_seconds :: "booking \<Rightarrow> booking_status \<Rightarrow> instant \<Rightarrow> int option" where
  "completion_actual_seconds b new_status now =
    (if new_status = Completed then
       map_option (\<lambda>started.
         (case bk_status b of
            Arrived \<Rightarrow> worked_seconds_within_window (bk_scheduled_at b) (bk_hours b) started now
          | _ \<Rightarrow>
            num_seconds
              ((case bk_completion_requested_at b of Some r \<Rightarrow> r | None \<Rightarrow> now) - started)))
         (bk_work_started_at b)
     else None)"

definition completion_ts :: "booking \<Rightarrow> booking_status \<Rightarrow> instant \<Rightarrow> instant option" where
  "completion_ts b new_status now =
    (case (bk_status b, new_status) of
       (Arrived, PendingCompletion) \<Rightarrow> Some now
     | (PendingCompletion, Arrived) \<Rightarrow> None
     | _ \<Rightarrow> bk_completion_requested_at b)"

text \<open>\<open>COALESCE(x, y)\<close>\<close>

definition coalesce :: "'a option \<Rightarrow> 'a option \<Rightarrow> 'a option" where
  "coalesce x y = (case x of Some v \<Rightarrow> Some v | None \<Rightarrow> y)"

lemma coalesce_simps [simp]:
  "coalesce None y = y" "coalesce (Some v) y = Some v" "coalesce x None = x"
  "coalesce x y = None \<longleftrightarrow> x = None \<and> y = None"
  by (auto simp: coalesce_def split: option.splits)

definition updated_row ::
  "call_env \<Rightarrow> booking \<Rightarrow> booking_status \<Rightarrow> uuid option \<Rightarrow> cancellation option \<Rightarrow> booking" where
  "updated_row env b new_status assign_guard canc =
    b\<lparr>bk_status := new_status,
      bk_guard := coalesce assign_guard (bk_guard b),
      bk_cancellation_reason := coalesce (map_option cn_reason canc) (bk_cancellation_reason b),
      bk_cancellation_note := coalesce (Option.bind canc cn_note) (bk_cancellation_note b),
      bk_actual_seconds :=
        coalesce (completion_actual_seconds b new_status (utc_now env)) (bk_actual_seconds b),
      bk_completion_requested_at := completion_ts b new_status (tx_now env),
      bk_updated_at := tx_now env\<rparr>"

definition completion_of :: "booking \<Rightarrow> booking \<Rightarrow> booking_status \<Rightarrow> instant \<Rightarrow> completion_info option" where
  "completion_of b u new_status now =
    (if new_status = Completed then
       Some \<lparr>ci_booked_hours = bk_hours b,
             ci_actual_seconds = completion_actual_seconds b new_status now,
             ci_base_fee = bk_base_fee u, ci_guard_count = bk_guard_count u, ci_tip = bk_tip u\<rparr>
     else None)"

definition transition_event ::
  "call_env \<Rightarrow> uuid \<Rightarrow> booking \<Rightarrow> booking_status \<Rightarrow> uuid option \<Rightarrow> cancellation option \<Rightarrow> bool
   \<Rightarrow> event_mapping option" where
  "transition_event env bid b new_status assign_guard canc is_admin =
    event_for_status (bk_status b) new_status bid (bk_customer b)
      (coalesce assign_guard (bk_guard b))
      (completion_of b (updated_row env b new_status assign_guard canc) new_status (utc_now env))
      canc is_admin"

subsection \<open>The transition\<close>

definition transition_as ::
  "call_env \<Rightarrow> booking_db \<Rightarrow> uuid \<Rightarrow> uuid \<Rightarrow> bool \<Rightarrow> bool \<Rightarrow> booking_status \<Rightarrow> uuid option
   \<Rightarrow> cancellation option \<Rightarrow> (booking \<times> booking_db) app_result" where
  "transition_as env db bid actor is_admin system new_status assign_guard canc =
    res_bind (locked_current db bid) (\<lambda>b.
    let cls = required_actor (bk_status b) new_status in
    res_bind (participation_gate b actor is_admin cls) (\<lambda>_.
    res_bind (legality_gate cls) (\<lambda>actor_class.
    res_bind (system_gate system actor_class) (\<lambda>_.
    res_bind (ownership_gate db bid b actor is_admin system assign_guard (utc_now env) actor_class) (\<lambda>_.
    res_bind (extension_gate b new_status (utc_now env)) (\<lambda>_.
    res_bind (reason_gate b new_status canc) (\<lambda>canc'.
    res_bind (payment_gate b new_status) (\<lambda>_.
    res_bind (started_gate b new_status) (\<lambda>_.
    res_bind (check_in_gate db bid b new_status) (\<lambda>_.
      let u = updated_row env b new_status assign_guard canc';
          db1 = db\<lparr>bookings := row_put bid u (bookings db)\<rparr>
      in Inr (u, emit env (transition_event env bid b new_status assign_guard canc' is_admin) db1)
    ))))))))))"

definition transition ::
  "call_env \<Rightarrow> booking_db \<Rightarrow> uuid \<Rightarrow> uuid \<Rightarrow> bool \<Rightarrow> booking_status \<Rightarrow> uuid option
   \<Rightarrow> cancellation option \<Rightarrow> (booking \<times> booking_db) app_result" where
  "transition env db bid actor is_admin new_status assign_guard canc =
    transition_as env db bid actor is_admin False new_status assign_guard canc"

subsection \<open>What a successful transition has checked\<close>

text \<open>One characterisation of success carries every proof about the transition.\<close>

lemma locked_current_Inr_iff [simp]:
  "locked_current db bid = Inr b \<longleftrightarrow> row_get (bookings db) bid = Some b"
  by (auto simp: locked_current_def split: option.splits)

lemma legality_gate_Inr_iff [simp]: "legality_gate c = Inr a \<longleftrightarrow> c = Some a"
  by (auto simp: legality_gate_def split: option.splits)

lemma reason_gate_Inr_iff:
  "reason_gate b s canc = Inr c' \<longleftrightarrow>
    (if set_for_target s = None then c' = canc
     else if bk_status b = Declined then c' = None
     else canc \<noteq> None \<and> c' = canc)"
  by (auto simp: reason_gate_def)

lemma transition_as_Inr_iff:
  "transition_as env db bid actor adm sys s g canc = Inr (u, db') \<longleftrightarrow>
    (\<exists>b cls canc'. row_get (bookings db) bid = Some b
      \<and> required_actor (bk_status b) s = Some cls
      \<and> (adm \<or> is_participant b actor \<or> cls = ClaimUnassigned)
      \<and> (sys \<longrightarrow> cls = System)
      \<and> ownership_gate db bid b actor adm sys g (utc_now env) cls = Inr ()
      \<and> extension_gate b s (utc_now env) = Inr ()
      \<and> reason_gate b s canc = Inr canc'
      \<and> \<not> (bk_status b = Accepted \<and> s = EnRoute \<and> bk_paid_at b = None)
      \<and> (closes_work b s \<longrightarrow> bk_work_started_at b \<noteq> None \<and> has_check_in db bid)
      \<and> u = updated_row env b s g canc'
      \<and> db' = emit env (transition_event env bid b s g canc' adm)
                 (db\<lparr>bookings := row_put bid u (bookings db)\<rparr>))"
  unfolding transition_as_def
  by (auto simp: res_bind_Inr_iff Let_def participation_gate_def system_gate_def payment_gate_def
      started_gate_def check_in_gate_def)

lemma emit_bookings [simp]:
  "bookings (emit env m db) = bookings db"
  "progress_reports (emit env m db) = progress_reports db"
  "guard_job_skips (emit env m db) = guard_job_skips db"
  "processed_events (emit env m db) = processed_events db"
  by (simp_all add: emit_def enqueue_outbox_def split: option.splits)

lemma updated_row_simps [simp]:
  "bk_status (updated_row env b s g c) = s"
  "bk_guard (updated_row env b s g c) = coalesce g (bk_guard b)"
  "bk_customer (updated_row env b s g c) = bk_customer b"
  "bk_scheduled_at (updated_row env b s g c) = bk_scheduled_at b"
  "bk_hours (updated_row env b s g c) = bk_hours b"
  "bk_paid_at (updated_row env b s g c) = bk_paid_at b"
  "bk_work_started_at (updated_row env b s g c) = bk_work_started_at b"
  "bk_target_guard (updated_row env b s g c) = bk_target_guard b"
  "bk_cancellation_reason (updated_row env b s g c) =
     coalesce (map_option cn_reason c) (bk_cancellation_reason b)"
  "bk_actual_seconds (updated_row env b s g c) =
     coalesce (completion_actual_seconds b s (utc_now env)) (bk_actual_seconds b)"
  "bk_completion_requested_at (updated_row env b s g c) = completion_ts b s (tx_now env)"
  by (simp_all add: updated_row_def)

text \<open>A transition touches its own row, and no table but the bookings and the outbox.\<close>

lemma transition_as_frame:
  assumes "transition_as env db bid actor adm sys s g canc = Inr (u, db')"
  shows "row_get (bookings db') bid = Some u"
    and "other \<noteq> bid \<Longrightarrow> row_get (bookings db') other = row_get (bookings db) other"
    and "progress_reports db' = progress_reports db"
    and "guard_job_skips db' = guard_job_skips db"
    and "processed_events db' = processed_events db"
    and "bk_status u = s"
  using assms by (auto simp: transition_as_Inr_iff)

text \<open>It appends exactly one event, on the topic of the new status.\<close>

lemma transition_as_outbox:
  assumes "transition_as env db bid actor adm sys s g canc = Inr (u, db')"
  shows "\<exists>r. outbox db' = outbox db @ [r] \<and> topic_for_status s = Some (ob_topic r)
    \<and> ob_published_at r = None \<and> ev_type (ob_envelope r) = ob_topic r
    \<and> jget (ev_payload (ob_envelope r)) ''booking_id'' = Some (JUuid bid)"
proof -
  from assms obtain b cls canc' where
    cls: "required_actor (bk_status b) s = Some cls"
    and db': "db' = emit env (transition_event env bid b s g canc' adm)
                 (db\<lparr>bookings := row_put bid u (bookings db)\<rparr>)"
    by (auto simp: transition_as_Inr_iff)
  have "s \<noteq> Requested"
    using cls by (cases "bk_status b"; cases s) (simp_all add: required_actor_def is_terminal_def)
  then obtain m where m: "transition_event env bid b s g canc' adm = Some m"
    by (cases "transition_event env bid b s g canc' adm")
      (auto simp: transition_event_def event_for_status_None_iff)
  show ?thesis
    using event_topic [OF m [unfolded transition_event_def]]
      event_ids(1) [OF m [unfolded transition_event_def]]
    by (simp add: db' m emit_def enqueue_outbox_def new_envelope_def)
qed

lemma transition_emits:
  assumes "transition_as env db bid actor adm sys s g canc = Inr (u, db')"
    and "row_get (bookings db) bid = Some b"
  obtains m canc' r where "transition_event env bid b s g canc' adm = Some m"
    and "u = updated_row env b s g canc'" and "outbox db' = outbox db @ [r]"
    and "ob_topic r = em_topic m" and "ob_published_at r = None"
    and "ev_payload (ob_envelope r) = em_payload m" and "ev_type (ob_envelope r) = em_topic m"
    and "ev_id (ob_envelope r) = fresh_event env" and "ev_correlation (ob_envelope r) = correlation env"
proof -
  from assms obtain cls canc' where
    cls: "required_actor (bk_status b) s = Some cls" and u: "u = updated_row env b s g canc'"
    and db': "db' = emit env (transition_event env bid b s g canc' adm)
                 (db\<lparr>bookings := row_put bid u (bookings db)\<rparr>)"
    by (auto simp: transition_as_Inr_iff)
  have "s \<noteq> Requested"
    using cls by (cases "bk_status b"; cases s) (simp_all add: required_actor_def is_terminal_def)
  then obtain m where m: "transition_event env bid b s g canc' adm = Some m"
    by (cases "transition_event env bid b s g canc' adm")
      (auto simp: transition_event_def event_for_status_None_iff)
  show ?thesis
    by (rule that [OF m u, of "\<lparr>ob_id = fresh_outbox env, ob_topic = em_topic m,
        ob_envelope = new_envelope (fresh_event env) (utc_now env) (trace_parent env) (em_topic m)
          (correlation env) (em_payload m),
        ob_created_at = tx_now env, ob_published_at = None\<rparr>"])
      (simp_all add: db' m emit_def enqueue_outbox_def new_envelope_def)
qed

end
