(* ===== verification/Booking_Ops.thy ===== *)
theory Booking_Ops
  imports Booking_Transition
begin

text \<open>
  The other writers and readers of the booking tables (\<open>services/booking/src/repo/mod.rs\<close>): starting a
  job, arriving through the geofence, the hourly check-in, discovery of open jobs, skips, the busy
  guards, the payment consumer, and the outbox relay (\<open>services/booking/src/events/mod.rs\<close>).
\<close>

subsection \<open>Starting a job and arriving\<close>

definition started_row ::
  "call_env \<Rightarrow> booking \<Rightarrow> (f64 \<times> f64) option \<Rightarrow> f64 option \<Rightarrow> booking" where
  "started_row env b guard_gps accuracy_m =
    b\<lparr>bk_work_started_at := Some (tx_now env),
      bk_work_started_lat := map_option fst guard_gps,
      bk_work_started_lng := map_option snd guard_gps,
      bk_work_started_accuracy := sanitize_accuracy accuracy_m,
      bk_updated_at := tx_now env\<rparr>"

definition start_job ::
  "call_env \<Rightarrow> booking_db \<Rightarrow> uuid \<Rightarrow> uuid \<Rightarrow> bool \<Rightarrow> (f64 \<times> f64) option \<Rightarrow> f64 option
   \<Rightarrow> (booking \<times> booking_db) app_result" where
  "start_job env db bid actor is_admin guard_gps accuracy_m =
    res_bind (locked_current db bid) (\<lambda>b.
    if \<not> is_admin \<and> bk_guard b \<noteq> Some actor
    then Inl (Forbidden ''Only the assigned guard can start this job'')
    else if bk_status b \<noteq> Arrived
    then Inl (Conflict ''Can only start a job after arriving at the location'')
    else if bk_work_started_at b \<noteq> None then Inr (b, db)
    else
      res_bind (if is_admin then Inr () else validate_start_time (bk_scheduled_at b) (utc_now env)) (\<lambda>_.
        let u = started_row env b guard_gps accuracy_m
        in Inr (u, db\<lparr>bookings := row_put bid u (bookings db)\<rparr>)))"

definition arrived_row ::
  "call_env \<Rightarrow> booking \<Rightarrow> (f64 \<times> f64) option \<Rightarrow> f64 option \<Rightarrow> booking" where
  "arrived_row env b guard_gps accuracy_m =
    b\<lparr>bk_status := Arrived,
      bk_arrived_lat := map_option fst guard_gps,
      bk_arrived_lng := map_option snd guard_gps,
      bk_arrived_accuracy := sanitize_accuracy accuracy_m,
      bk_updated_at := tx_now env\<rparr>"

definition arrive_job ::
  "distance_fn \<Rightarrow> call_env \<Rightarrow> booking_db \<Rightarrow> uuid \<Rightarrow> uuid \<Rightarrow> bool \<Rightarrow> (f64 \<times> f64) option
   \<Rightarrow> f64 option \<Rightarrow> (booking \<times> booking_db) app_result" where
  "arrive_job metres env db bid actor is_admin guard_gps accuracy_m =
    res_bind (locked_current db bid) (\<lambda>b.
    if \<not> is_admin \<and> \<not> is_participant b actor
    then Inl (Forbidden ''Not a participant in this booking'')
    else if \<not> is_admin \<and> bk_guard b \<noteq> Some actor
    then Inl (Forbidden ''Only the assigned guard can update this booking'')
    else if bk_status b \<noteq> EnRoute
    then Inl (Conflict ''Booking cannot be transitioned to arrived from its current state'')
    else
      res_bind (if is_admin then Inr ()
                else validate_arrived_geofence metres (site b) guard_gps accuracy_m) (\<lambda>_.
        let u = arrived_row env b guard_gps accuracy_m;
            db1 = db\<lparr>bookings := row_put bid u (bookings db)\<rparr>
        in Inr (u, emit env
             (event_for_status EnRoute Arrived bid (bk_customer b) (bk_guard b) None None is_admin)
             db1)))"

subsection \<open>Progress reports\<close>

record new_progress_report =
  np_hour :: int
  np_photo_key :: string
  np_lat :: "f64 option"
  np_lng :: "f64 option"
  np_accuracy :: "f64 option"
  np_note :: "string option"

definition progress_report_exists :: "booking_db \<Rightarrow> uuid \<Rightarrow> int \<Rightarrow> bool" where
  "progress_report_exists db booking_id hour_number =
    list_ex (\<lambda>r. pr_booking r = booking_id \<and> pr_hour r = hour_number) (progress_reports db)"

definition progress_row ::
  "call_env \<Rightarrow> uuid \<Rightarrow> uuid \<Rightarrow> new_progress_report \<Rightarrow> progress_report" where
  "progress_row env booking_id actor report =
    \<lparr>pr_id = fresh_row env, pr_booking = booking_id, pr_guard = actor, pr_hour = np_hour report,
     pr_photo_key = np_photo_key report, pr_lat = np_lat report, pr_lng = np_lng report,
     pr_accuracy = np_accuracy report, pr_note = np_note report, pr_created_at = tx_now env\<rparr>"

text \<open>
  The insert meets the table's \<open>CHECK\<close> on the hour before its unique index on booking and hour.
\<close>

definition create_progress_report ::
  "call_env \<Rightarrow> booking_db \<Rightarrow> uuid \<Rightarrow> uuid \<Rightarrow> new_progress_report
   \<Rightarrow> (progress_report \<times> booking_db) app_result" where
  "create_progress_report env db booking_id actor report =
    res_bind (locked_current db booking_id) (\<lambda>b.
    if \<not> is_participant b actor
    then Inl (Forbidden ''Not a participant in this booking'')
    else if bk_guard b \<noteq> Some actor
    then Inl (Forbidden ''Only the assigned guard can check in'')
    else
      res_bind (validate_check_in (bk_status b) (bk_work_started_at b) (bk_hours b)
                  (np_hour report) (utc_now env)) (\<lambda>_.
      if \<not> (1 \<le> np_hour report \<and> np_hour report \<le> 168) then Inl (Database ''23514'')
      else if progress_report_exists db booking_id (np_hour report)
      then Inl (ConflictCode DUPLICATE_CHECK_IN_CODE ''A check-in for hour {} already exists'')
      else
        let r = progress_row env booking_id actor report;
            db1 = db\<lparr>progress_reports := progress_reports db @ [r]\<rparr>
        in Inr (r, emit env
             (Some (event_for_progress_report booking_id (bk_customer b) actor (pr_id r) (pr_hour r)))
             db1)))"

definition sql_page :: "int \<Rightarrow> int \<Rightarrow> 'a list \<Rightarrow> 'a list" where
  "sql_page limit offset rows = take (nat limit) (drop (nat offset) rows)"

definition list_progress_reports ::
  "booking_db \<Rightarrow> uuid \<Rightarrow> int \<Rightarrow> int \<Rightarrow> progress_report list" where
  "list_progress_reports db booking_id limit offset =
    sql_page limit offset
      (sort_key pr_hour (filter (\<lambda>r. pr_booking r = booking_id) (progress_reports db)))"

subsection \<open>Discovery\<close>

definition offered_to :: "booking_db \<Rightarrow> uuid \<Rightarrow> instant \<Rightarrow> uuid \<times> booking \<Rightarrow> bool" where
  "offered_to db guard_id now = (\<lambda>(bid, b).
    bk_status b = Requested \<and> bk_guard b = None
    \<and> (bk_target_guard b = None \<or> bk_target_guard b = Some guard_id)
    \<and> now < bk_scheduled_at b + hours_dur (bk_hours b)
    \<and> (guard_id, bid) \<notin> set (guard_job_skips db))"

definition km_le :: "rat \<Rightarrow> f64 \<Rightarrow> bool" where
  "km_le d r = (case r of Fin x \<Rightarrow> d \<le> x | NegInf \<Rightarrow> False | _ \<Rightarrow> True)"

text \<open>
  \<open>km\<close> is the distance the query computes, for the finite coordinates the table holds. Rows of equal
  sort key may come in any order; the stable sort is one such order.
\<close>

definition geo_distance ::
  "(f64 \<Rightarrow> f64 \<Rightarrow> f64 \<Rightarrow> f64 \<Rightarrow> rat) \<Rightarrow> geo_filter \<Rightarrow> uuid \<times> booking \<Rightarrow> rat option" where
  "geo_distance km g = (\<lambda>(_, b). map_option (\<lambda>(la, lg). km la lg (gf_lat g) (gf_lng g)) (site b))"

definition list_open_bookings ::
  "(f64 \<Rightarrow> f64 \<Rightarrow> f64 \<Rightarrow> f64 \<Rightarrow> rat) \<Rightarrow> booking_db \<Rightarrow> instant \<Rightarrow> uuid \<Rightarrow> geo_filter option \<Rightarrow> int \<Rightarrow> int
   \<Rightarrow> (uuid \<times> booking) list" where
  "list_open_bookings km db now guard_id geo limit offset =
    (let open_rows = sort_key (\<lambda>(_, b). - bk_created_at b)
                       (filter (offered_to db guard_id now) (bookings db))
     in case geo of
          None \<Rightarrow> sql_page limit offset open_rows
        | Some g \<Rightarrow>
          sql_page limit offset
            (sort_key (\<lambda>r. case geo_distance km g r of Some d \<Rightarrow> d | None \<Rightarrow> 0)
              (filter (\<lambda>r. case geo_distance km g r of
                             Some d \<Rightarrow> km_le d (gf_radius_km g) | None \<Rightarrow> False) open_rows)))"

definition skip_job :: "booking_db \<Rightarrow> uuid \<Rightarrow> uuid \<Rightarrow> booking_db app_result" where
  "skip_job db guard_id booking_id =
    (if (guard_id, booking_id) \<in> set (guard_job_skips db) then Inr db
     else if row_get (bookings db) booking_id = None then Inl (Database ''23503'')
     else Inr (db\<lparr>guard_job_skips := guard_job_skips db @ [(guard_id, booking_id)]\<rparr>))"

definition busy_guard_ids :: "booking_db \<Rightarrow> uuid set" where
  "busy_guard_ids db =
    set (List.map_filter (\<lambda>(_, b). if is_active (bk_status b) then bk_guard b else None) (bookings db))"

definition busy_guard_ids_overlapping :: "booking_db \<Rightarrow> instant \<Rightarrow> int \<Rightarrow> uuid set" where
  "busy_guard_ids_overlapping db window_start window_hours =
    set (List.map_filter
      (\<lambda>(_, b). if is_active (bk_status b)
          \<and> windows_overlap (bk_scheduled_at b) (bk_hours b) window_start window_hours
        then bk_guard b else None)
      (bookings db))"

subsection \<open>The payment consumer\<close>

definition stamp_paid :: "instant \<Rightarrow> booking \<Rightarrow> booking" where
  "stamp_paid now b =
    (if bk_paid_at b = None then b\<lparr>bk_paid_at := Some now, bk_updated_at := now\<rparr> else b)"

definition mark_paid_idempotent ::
  "call_env \<Rightarrow> booking_db \<Rightarrow> uuid \<Rightarrow> string \<Rightarrow> uuid \<Rightarrow> bool \<times> booking_db" where
  "mark_paid_idempotent env db event_id event_type booking_id =
    (if event_id \<in> fst ` set (processed_events db) then (False, db)
     else
       let db1 = db\<lparr>processed_events := processed_events db @ [(event_id, event_type)]\<rparr>
       in (True,
           case row_get (bookings db1) booking_id of
             None \<Rightarrow> db1
           | Some b \<Rightarrow> db1\<lparr>bookings := row_put booking_id (stamp_paid (tx_now env) b) (bookings db1)\<rparr>))"

subsection \<open>The outbox relay\<close>

text \<open>
  One drain publishes a batch in order. A publish that fails aborts the transaction: its marks are
  rolled back, but what the broker acknowledged before stays with the broker, so those rows go out
  again on the next drain. \<open>acks\<close> says which publishes the broker acknowledges.
\<close>

definition BATCH :: nat where
  "BATCH = 100"

record relay =
  rl_db :: booking_db
  rl_broker :: "envelope list"

fun drain_rows ::
  "(outbox_row \<Rightarrow> bool) \<Rightarrow> instant \<Rightarrow> booking_db \<Rightarrow> outbox_row list \<Rightarrow> relay \<Rightarrow> nat
   \<Rightarrow> (string + nat) \<times> relay" where
  "drain_rows acks now start [] s published = (Inr published, s)"
| "drain_rows acks now start (r # rs) s published =
    (if acks r
     then drain_rows acks now start rs
            \<lparr>rl_db = mark_published now (ob_id r) (rl_db s), rl_broker = rl_broker s @ [ob_envelope r]\<rparr>
            (Suc published)
     else (Inl ''publish failed'', s\<lparr>rl_db := start\<rparr>))"

definition drain_once ::
  "(outbox_row \<Rightarrow> bool) \<Rightarrow> instant \<Rightarrow> relay \<Rightarrow> (string + nat) \<times> relay" where
  "drain_once acks now s =
    drain_rows acks now (rl_db s) (fetch_unpublished BATCH (rl_db s)) s 0"

subsection \<open>What a successful operation has checked\<close>

lemma start_job_Inr_iff:
  "start_job env db bid actor adm gps acc = Inr (u, db') \<longleftrightarrow>
    (\<exists>b. row_get (bookings db) bid = Some b \<and> (adm \<or> bk_guard b = Some actor)
      \<and> bk_status b = Arrived
      \<and> (if bk_work_started_at b \<noteq> None then u = b \<and> db' = db
         else (adm \<or> bk_scheduled_at b - minutes 15 \<le> utc_now env)
           \<and> u = started_row env b gps acc
           \<and> db' = db\<lparr>bookings := row_put bid u (bookings db)\<rparr>))"
proof (cases "row_get (bookings db) bid")
  case None
  then show ?thesis by (simp add: start_job_def locked_current_def)
next
  case (Some b)
  then show ?thesis
    by (cases adm) (auto simp: start_job_def locked_current_def Let_def res_bind_Inr_iff start_time_ok_iff)
qed

lemma arrive_job_Inr_iff:
  "arrive_job metres env db bid actor adm gps acc = Inr (u, db') \<longleftrightarrow>
    (\<exists>b. row_get (bookings db) bid = Some b \<and> (adm \<or> bk_guard b = Some actor)
      \<and> bk_status b = EnRoute
      \<and> (adm \<or> validate_arrived_geofence metres (site b) gps acc = Inr ())
      \<and> u = arrived_row env b gps acc
      \<and> db' = emit env
          (event_for_status EnRoute Arrived bid (bk_customer b) (bk_guard b) None None adm)
          (db\<lparr>bookings := row_put bid u (bookings db)\<rparr>))"
proof (cases "row_get (bookings db) bid")
  case None
  then show ?thesis by (simp add: arrive_job_def locked_current_def)
next
  case (Some b)
  then show ?thesis
    by (cases adm)
      (auto simp: arrive_job_def locked_current_def Let_def res_bind_Inr_iff is_participant_def)
qed

lemma create_progress_report_Inr_iff:
  "create_progress_report env db bid actor rep = Inr (r, db') \<longleftrightarrow>
    (\<exists>b. row_get (bookings db) bid = Some b \<and> bk_guard b = Some actor
      \<and> validate_check_in (bk_status b) (bk_work_started_at b) (bk_hours b) (np_hour rep)
          (utc_now env) = Inr ()
      \<and> np_hour rep \<le> 168 \<and> \<not> progress_report_exists db bid (np_hour rep)
      \<and> r = progress_row env bid actor rep
      \<and> db' = emit env (Some (event_for_progress_report bid (bk_customer b) actor (pr_id r) (pr_hour r)))
          (db\<lparr>progress_reports := progress_reports db @ [r]\<rparr>))"
proof (cases "row_get (bookings db) bid")
  case None
  then show ?thesis by (simp add: create_progress_report_def locked_current_def)
next
  case (Some b)
  have "1 \<le> np_hour rep" if "validate_check_in (bk_status b) (bk_work_started_at b) (bk_hours b)
      (np_hour rep) (utc_now env) = Inr ()"
    using that by (auto simp: check_in_ok_iff)
  with Some show ?thesis
    by (auto simp: create_progress_report_def locked_current_def Let_def res_bind_Inr_iff
        is_participant_def)
qed

lemma started_row_simps [simp]:
  "bk_status (started_row env b g a) = bk_status b"
  "bk_guard (started_row env b g a) = bk_guard b"
  "bk_customer (started_row env b g a) = bk_customer b"
  "bk_scheduled_at (started_row env b g a) = bk_scheduled_at b"
  "bk_hours (started_row env b g a) = bk_hours b"
  "bk_paid_at (started_row env b g a) = bk_paid_at b"
  "bk_target_guard (started_row env b g a) = bk_target_guard b"
  "bk_cancellation_reason (started_row env b g a) = bk_cancellation_reason b"
  "bk_actual_seconds (started_row env b g a) = bk_actual_seconds b"
  "bk_completion_requested_at (started_row env b g a) = bk_completion_requested_at b"
  "bk_work_started_at (started_row env b g a) = Some (tx_now env)"
  by (simp_all add: started_row_def)

lemma arrived_row_simps [simp]:
  "bk_status (arrived_row env b g a) = Arrived"
  "bk_guard (arrived_row env b g a) = bk_guard b"
  "bk_customer (arrived_row env b g a) = bk_customer b"
  "bk_scheduled_at (arrived_row env b g a) = bk_scheduled_at b"
  "bk_hours (arrived_row env b g a) = bk_hours b"
  "bk_paid_at (arrived_row env b g a) = bk_paid_at b"
  "bk_target_guard (arrived_row env b g a) = bk_target_guard b"
  "bk_cancellation_reason (arrived_row env b g a) = bk_cancellation_reason b"
  "bk_actual_seconds (arrived_row env b g a) = bk_actual_seconds b"
  "bk_completion_requested_at (arrived_row env b g a) = bk_completion_requested_at b"
  "bk_work_started_at (arrived_row env b g a) = bk_work_started_at b"
  by (simp_all add: arrived_row_def)

lemma stamp_paid_simps [simp]:
  "bk_status (stamp_paid t b) = bk_status b"
  "bk_guard (stamp_paid t b) = bk_guard b"
  "bk_customer (stamp_paid t b) = bk_customer b"
  "bk_scheduled_at (stamp_paid t b) = bk_scheduled_at b"
  "bk_hours (stamp_paid t b) = bk_hours b"
  "bk_target_guard (stamp_paid t b) = bk_target_guard b"
  "bk_cancellation_reason (stamp_paid t b) = bk_cancellation_reason b"
  "bk_actual_seconds (stamp_paid t b) = bk_actual_seconds b"
  "bk_completion_requested_at (stamp_paid t b) = bk_completion_requested_at b"
  "bk_work_started_at (stamp_paid t b) = bk_work_started_at b"
  "bk_paid_at (stamp_paid t b) \<noteq> None"
  by (simp_all add: stamp_paid_def)

text \<open>The first payment's time stays.\<close>

lemma stamp_paid_first: "bk_paid_at b = Some t \<Longrightarrow> stamp_paid now b = b"
  by (simp add: stamp_paid_def)

text \<open>The consumer claims each event once.\<close>

record paid_event =
  pe_env :: call_env
  pe_event :: uuid
  pe_type :: string
  pe_booking :: uuid

definition consume_paid :: "paid_event \<Rightarrow> booking_db \<Rightarrow> booking_db" where
  "consume_paid e db = snd (mark_paid_idempotent (pe_env e) db (pe_event e) (pe_type e) (pe_booking e))"

definition claimed_events :: "booking_db \<Rightarrow> uuid set" where
  "claimed_events db = fst ` set (processed_events db)"

interpretation paid_consumer: idempotent_consumer consume_paid pe_event claimed_events
  by unfold_locales
    (auto simp: consume_paid_def mark_paid_idempotent_def claimed_events_def Let_def
      split: option.splits)

text \<open>What discovery offers.\<close>

lemma set_sql_page: "set (sql_page l off xs) \<subseteq> set xs"
  by (auto simp: sql_page_def dest: in_set_takeD in_set_dropD)

lemma listed_offered:
  assumes "(bid, b) \<in> set (list_open_bookings km db now g geo l off)"
  shows "(bid, b) \<in> set (bookings db)" "offered_to db g now (bid, b)"
  using assms set_sql_page
  by (fastforce simp: list_open_bookings_def Let_def split: option.splits)+

lemma busy_overlapping_iff:
  "g \<in> busy_guard_ids_overlapping db s h \<longleftrightarrow>
    (\<exists>(k, b) \<in> set (bookings db). bk_guard b = Some g \<and> is_active (bk_status b)
      \<and> windows_overlap (bk_scheduled_at b) (bk_hours b) s h)"
  by (force simp: busy_guard_ids_overlapping_def List.map_filter_def split: if_splits)

lemma busy_iff:
  "g \<in> busy_guard_ids db \<longleftrightarrow>
    (\<exists>(k, b) \<in> set (bookings db). bk_guard b = Some g \<and> is_active (bk_status b))"
  by (force simp: busy_guard_ids_def List.map_filter_def split: if_splits)

end
