(* ===== verification/Booking_Sweeps.thy ===== *)
theory Booking_Sweeps
  imports Booking_Ops
begin

text \<open>
  The background sweeps of \<open>services/booking/src/repo/mod.rs\<close>. A sweep reads its candidates without a
  lock and then closes them one by one, each in a transaction of its own, so a sweep is the list of
  closes its read decided on, run in order; other transactions may run in between. \<open>envs\<close> gives the
  environment of the close of a row.
\<close>

definition SYSTEM_ACTOR :: uuid where
  "SYSTEM_ACTOR = nil_uuid"

text \<open>What a sweep decided for a row: the target status, the reason, and the scheduler's switch.\<close>

record sweep_close =
  sc_booking :: uuid
  sc_target :: booking_status
  sc_cancellation :: "cancellation option"
  sc_system :: bool

definition close_row :: "call_env \<Rightarrow> sweep_close \<Rightarrow> booking_db \<Rightarrow> (booking \<times> booking_db) app_result" where
  "close_row env c db =
    transition_as env db (sc_booking c) SYSTEM_ACTOR True (sc_system c) (sc_target c) None
      (sc_cancellation c)"

text \<open>A close that fails is logged and skipped.\<close>

definition run_close :: "call_env \<Rightarrow> sweep_close \<Rightarrow> booking_db \<Rightarrow> booking_db" where
  "run_close env c db = (case close_row env c db of Inl _ \<Rightarrow> db | Inr (_, db') \<Rightarrow> db')"

subsection \<open>Open requests past their window\<close>

definition expiry_close :: "uuid \<Rightarrow> sweep_close" where
  "expiry_close bid =
    \<lparr>sc_booking = bid, sc_target = Cancelled,
     sc_cancellation = Some \<lparr>cn_reason = SYSTEM_EXPIRED_REASON, cn_note = None\<rparr>, sc_system = False\<rparr>"

definition stale_open_ids :: "booking_db \<Rightarrow> instant \<Rightarrow> uuid list" where
  "stale_open_ids db now =
    map fst (filter (\<lambda>(_, b). bk_status b = Requested \<and> bk_guard b = None
        \<and> bk_scheduled_at b + hours_dur (bk_hours b) < now) (bookings db))"

fun sweep_rows ::
  "(uuid \<Rightarrow> call_env) \<Rightarrow> sweep_close list \<Rightarrow> booking_db \<Rightarrow> sweep_close list
   \<Rightarrow> sweep_close list \<times> booking_db" where
  "sweep_rows envs [] db acc = (acc, db)"
| "sweep_rows envs (c # cs) db acc =
    (case close_row (envs (sc_booking c)) c db of
       Inl _ \<Rightarrow> sweep_rows envs cs db acc
     | Inr (_, db') \<Rightarrow> sweep_rows envs cs db' (acc @ [c]))"

definition expire_stale_open_bookings ::
  "(uuid \<Rightarrow> call_env) \<Rightarrow> booking_db \<Rightarrow> instant \<Rightarrow> nat \<times> booking_db" where
  "expire_stale_open_bookings envs db now =
    (let (acc, db') = sweep_rows envs (map expiry_close (stale_open_ids db now)) db []
     in (length acc, db'))"

subsection \<open>Completions nobody confirmed\<close>

definition auto_complete_close :: "uuid \<Rightarrow> sweep_close" where
  "auto_complete_close bid =
    \<lparr>sc_booking = bid, sc_target = Completed, sc_cancellation = None, sc_system = False\<rparr>"

definition overdue_pending_ids :: "booking_db \<Rightarrow> instant \<Rightarrow> int \<Rightarrow> uuid list" where
  "overdue_pending_ids db now grace_minutes =
    map fst (filter (\<lambda>(_, b). bk_status b = PendingCompletion
        \<and> auto_complete_due (bk_scheduled_at b) (bk_hours b) (bk_completion_requested_at b) now
            (minutes grace_minutes)) (bookings db))"

definition auto_complete_overdue_pending ::
  "(uuid \<Rightarrow> call_env) \<Rightarrow> booking_db \<Rightarrow> instant \<Rightarrow> int \<Rightarrow> nat \<times> booking_db" where
  "auto_complete_overdue_pending envs db now grace_minutes =
    (let (acc, db') =
       sweep_rows envs (map auto_complete_close (overdue_pending_ids db now grace_minutes)) db []
     in (length acc, db'))"

subsection \<open>Jobs stranded on site\<close>

record arrived_sweep_counts =
  as_completed :: nat
  as_cancelled :: nat
  as_needs_review :: nat

definition arrived_decision ::
  "booking_db \<Rightarrow> instant \<Rightarrow> int \<Rightarrow> uuid \<times> booking \<Rightarrow> arrived_closure" where
  "arrived_decision db now grace_minutes = (\<lambda>(bid, b).
    close_arrived (bk_scheduled_at b) (bk_hours b) (bk_work_started_at b) (has_check_in db bid) now
      (minutes grace_minutes))"

definition arrived_close :: "uuid \<Rightarrow> arrived_closure \<Rightarrow> sweep_close option" where
  "arrived_close bid decision =
    (case decision of
       NotDue \<Rightarrow> None
     | Review \<Rightarrow> None
     | Complete \<Rightarrow>
       Some \<lparr>sc_booking = bid, sc_target = Completed, sc_cancellation = None, sc_system = True\<rparr>
     | Cancel \<Rightarrow>
       Some \<lparr>sc_booking = bid, sc_target = Cancelled,
             sc_cancellation = Some \<lparr>cn_reason = SYSTEM_NOT_STARTED_REASON, cn_note = None\<rparr>,
             sc_system = True\<rparr>)"

definition arrived_candidates :: "booking_db \<Rightarrow> (uuid \<times> booking) list" where
  "arrived_candidates db = filter (\<lambda>(_, b). bk_status b = Arrived) (bookings db)"

definition close_overdue_arrived ::
  "(uuid \<Rightarrow> call_env) \<Rightarrow> booking_db \<Rightarrow> instant \<Rightarrow> int \<Rightarrow> arrived_sweep_counts \<times> booking_db" where
  "close_overdue_arrived envs db now grace_minutes =
    (let cands = arrived_candidates db;
         decide = arrived_decision db now grace_minutes;
         closes = List.map_filter (\<lambda>r. arrived_close (fst r) (decide r)) cands;
         (acc, db') = sweep_rows envs closes db []
     in (\<lparr>as_completed = length (filter (\<lambda>c. sc_target c = Completed) acc),
          as_cancelled = length (filter (\<lambda>c. sc_target c \<noteq> Completed) acc),
          as_needs_review = length (filter (\<lambda>r. decide r = Review) cands)\<rparr>, db'))"

subsection \<open>A sweep is its closes in order\<close>

lemma sweep_rows_db: "snd (sweep_rows envs cs db acc) = fold (\<lambda>c. run_close (envs (sc_booking c)) c) cs db"
  by (induction cs arbitrary: db acc) (auto simp: run_close_def split: sum.splits)

lemma sweep_rows_closed: "\<exists>ds. fst (sweep_rows envs cs db acc) = acc @ ds \<and> set ds \<subseteq> set cs"
proof (induction cs arbitrary: db acc)
  case Nil
  then show ?case by simp
next
  case (Cons c cs)
  show ?case
  proof (cases "close_row (envs (sc_booking c)) c db")
    case (Inl e)
    with Cons.IH [of db acc] show ?thesis by auto
  next
    case (Inr r)
    then obtain u db' where r: "close_row (envs (sc_booking c)) c db = Inr (u, db')"
      by (cases r) auto
    from Cons.IH [of db' "acc @ [c]"] obtain ds where
      "fst (sweep_rows envs cs db' (acc @ [c])) = (acc @ [c]) @ ds" "set ds \<subseteq> set cs"
      by blast
    with r have "fst (sweep_rows envs (c # cs) db acc) = acc @ (c # ds)"
      "set (c # ds) \<subseteq> set (c # cs)"
      by auto
    then show ?thesis by blast
  qed
qed

lemma expire_sweep_db:
  "snd (expire_stale_open_bookings envs db now) =
    fold (\<lambda>c. run_close (envs (sc_booking c)) c) (map expiry_close (stale_open_ids db now)) db"
  using sweep_rows_db [of envs "map expiry_close (stale_open_ids db now)" db "[]"]
  by (simp add: expire_stale_open_bookings_def split_beta)

lemma auto_sweep_db:
  "snd (auto_complete_overdue_pending envs db now grace) =
    fold (\<lambda>c. run_close (envs (sc_booking c)) c)
      (map auto_complete_close (overdue_pending_ids db now grace)) db"
  using sweep_rows_db [of envs "map auto_complete_close (overdue_pending_ids db now grace)" db "[]"]
  by (simp add: auto_complete_overdue_pending_def split_beta)

lemma arrived_sweep_db:
  "snd (close_overdue_arrived envs db now grace) =
    fold (\<lambda>c. run_close (envs (sc_booking c)) c)
      (List.map_filter (\<lambda>r. arrived_close (fst r) (arrived_decision db now grace r))
        (arrived_candidates db)) db"
  using sweep_rows_db [of envs "List.map_filter
      (\<lambda>r. arrived_close (fst r) (arrived_decision db now grace r)) (arrived_candidates db)" db "[]"]
  by (simp add: close_overdue_arrived_def split_beta Let_def)

text \<open>A close keeps the other rows and the reports.\<close>

lemma run_close_frame:
  "k \<noteq> sc_booking c \<Longrightarrow> row_get (bookings (run_close env c db)) k = row_get (bookings db) k"
  "progress_reports (run_close env c db) = progress_reports db"
  by (auto simp: run_close_def close_row_def dest: transition_as_frame split: sum.splits)

lemma fold_close_frame:
  "k \<notin> sc_booking ` set cs \<Longrightarrow>
    row_get (bookings (fold (\<lambda>c. run_close (envs (sc_booking c)) c) cs db)) k = row_get (bookings db) k"
  "progress_reports (fold (\<lambda>c. run_close (envs (sc_booking c)) c) cs db) = progress_reports db"
  by (induction cs arbitrary: db) (auto simp: run_close_frame)

subsection \<open>What a close does to the row it was decided on\<close>

lemma run_close_row:
  "close_row env c db = Inr (u, db') \<Longrightarrow> row_get (bookings (run_close env c db)) (sc_booking c) = Some u"
  by (auto simp: run_close_def close_row_def dest: transition_as_frame(1))

lemma expiry_close_ok:
  assumes "row_get (bookings db) bid = Some b" and "bk_status b = Requested"
  shows "\<exists>u. row_get (bookings (run_close env (expiry_close bid) db)) bid = Some u
    \<and> bk_status u = Cancelled \<and> bk_cancellation_reason u = Some SYSTEM_EXPIRED_REASON"
proof -
  have "\<exists>db'. close_row env (expiry_close bid) db = Inr (updated_row env b Cancelled None
      (Some \<lparr>cn_reason = SYSTEM_EXPIRED_REASON, cn_note = None\<rparr>), db')"
    unfolding close_row_def expiry_close_def
    using assms
    by (simp add: transition_as_Inr_iff required_actor_def is_terminal_def ownership_gate_def
        extension_gate_def reason_gate_def set_for_target_def closes_work_def)
  then obtain db' where r: "close_row env (expiry_close bid) db = Inr (updated_row env b Cancelled None
      (Some \<lparr>cn_reason = SYSTEM_EXPIRED_REASON, cn_note = None\<rparr>), db')"
    by blast
  show ?thesis
    using run_close_row [OF r] by (simp add: expiry_close_def)
qed

lemma auto_complete_close_ok:
  assumes "row_get (bookings db) bid = Some b" and "bk_status b = PendingCompletion"
    and "bk_work_started_at b \<noteq> None" and "has_check_in db bid"
  shows "\<exists>u. row_get (bookings (run_close env (auto_complete_close bid) db)) bid = Some u
    \<and> bk_status u = Completed"
proof -
  have "\<exists>db'. close_row env (auto_complete_close bid) db = Inr (updated_row env b Completed None None, db')"
    unfolding close_row_def auto_complete_close_def
    using assms
    by (simp add: transition_as_Inr_iff required_actor_def is_terminal_def ownership_gate_def
        extension_gate_def reason_gate_def set_for_target_def closes_work_def)
  then obtain db' where r: "close_row env (auto_complete_close bid) db = Inr (updated_row env b Completed None None, db')"
    by blast
  show ?thesis
    using run_close_row [OF r] by (simp add: auto_complete_close_def)
qed

lemma arrived_close_ok:
  assumes "row_get (bookings db) bid = Some b" and "bk_status b = Arrived"
    and c: "arrived_close bid d = Some c"
    and "d = Complete \<Longrightarrow> bk_work_started_at b \<noteq> None \<and> has_check_in db bid"
  shows "\<exists>u. row_get (bookings (run_close env c db)) bid = Some u
    \<and> bk_status u = (if d = Complete then Completed else Cancelled)"
proof -
  have "\<exists>db'. close_row env c db = Inr (updated_row env b (sc_target c) None (sc_cancellation c), db')"
    unfolding close_row_def using assms
    by (cases d; clarsimp simp: arrived_close_def)
      (simp_all add: transition_as_Inr_iff required_actor_def is_terminal_def
        ownership_gate_def extension_gate_def reason_gate_def set_for_target_def closes_work_def)
  then obtain db' where r: "close_row env c db = Inr (updated_row env b (sc_target c) None (sc_cancellation c), db')"
    by blast
  have "sc_booking c = bid" "sc_target c = (if d = Complete then Completed else Cancelled)"
    using c by (auto simp: arrived_close_def split: arrived_closure.splits)
  then show ?thesis
    using run_close_row [OF r] by auto
qed

text \<open>In a sweep of distinct rows, a row's close meets the row as the read found it.\<close>

lemma fold_close_at:
  assumes "distinct (map sc_booking cs)" and "c \<in> set cs" and "k = sc_booking c"
  shows "\<exists>db1. row_get (bookings db1) k = row_get (bookings db) k
      \<and> progress_reports db1 = progress_reports db
      \<and> row_get (bookings (fold (\<lambda>c. run_close (envs (sc_booking c)) c) cs db)) k
        = row_get (bookings (run_close (envs k) c db1)) k"
  using assms
proof (induction cs arbitrary: db)
  case Nil
  then show ?case by simp
next
  case (Cons d cs)
  show ?case
  proof (cases "d = c")
    case True
    have "k \<notin> sc_booking ` set cs"
      using Cons.prems True by auto
    then show ?thesis
      using True Cons.prems by (intro exI [of _ db]) (simp add: fold_close_frame)
  next
    case False
    have ne: "k \<noteq> sc_booking d"
      using Cons.prems False by (auto simp: rev_image_eqI)
    have i: "distinct (map sc_booking cs)" "c \<in> set cs"
      using Cons.prems False by auto
    from Cons.IH [OF i Cons.prems(3), of "run_close (envs (sc_booking d)) d db"]
    obtain db1 where d1:
      "row_get (bookings db1) k = row_get (bookings (run_close (envs (sc_booking d)) d db)) k"
      "progress_reports db1 = progress_reports (run_close (envs (sc_booking d)) d db)"
      "row_get (bookings (fold (\<lambda>c. run_close (envs (sc_booking c)) c) cs
          (run_close (envs (sc_booking d)) d db))) k
        = row_get (bookings (run_close (envs k) c db1)) k"
      by blast
    show ?thesis
      by (rule exI [of _ db1]) (simp add: d1 run_close_frame(1) [OF ne] run_close_frame(2))
  qed
qed

end
