(* ===== verification/Booking_Api.thy ===== *)
theory Booking_Api
  imports Booking_Sweeps Shared_Error
begin

text \<open>
  The booking handlers (\<open>services/booking/src/api/mod.rs\<close>) and the service catalog they price from.
  A handler is the function of the authenticated user and the parsed request that the route runs; the
  reply is the row, without its JSON envelope.
\<close>

subsection \<open>Callers and pages\<close>

definition ROLE_GUARD :: string where "ROLE_GUARD = ''guard''"
definition ROLE_CUSTOMER :: string where "ROLE_CUSTOMER = ''customer''"
definition ROLE_ADMIN :: string where "ROLE_ADMIN = ''admin''"

lemmas role_defs = ROLE_GUARD_def ROLE_CUSTOMER_def ROLE_ADMIN_def

definition require_role :: "auth_user \<Rightarrow> string \<Rightarrow> bool app_result" where
  "require_role user role =
    (let is_admin = (au_role user = ROLE_ADMIN)
     in if au_role user \<noteq> role \<and> \<not> is_admin then Inl (Forbidden ''Only {role}s can do this'')
        else Inr is_admin)"

definition MAX_PAGE_LIMIT :: int where "MAX_PAGE_LIMIT = 200"
definition DEFAULT_PAGE_LIMIT :: int where "DEFAULT_PAGE_LIMIT = 50"

definition page :: "int option \<Rightarrow> int option \<Rightarrow> int \<times> int" where
  "page limit offset =
    (let l = (case limit of Some n \<Rightarrow> n | None \<Rightarrow> DEFAULT_PAGE_LIMIT)
     in (if l < 1 then 1 else if MAX_PAGE_LIMIT < l then MAX_PAGE_LIMIT else l,
         max (case offset of Some n \<Rightarrow> n | None \<Rightarrow> 0) 0))"

subsection \<open>The service catalog\<close>

record service_item =
  sv_name_th :: string
  sv_name_en :: string
  sv_base_fee :: decimal
  sv_min_hours :: int
  sv_commission_percent :: decimal
  sv_cancellation_fee :: decimal
  sv_notes :: "string option"
  sv_is_active :: bool
  sv_created_at :: instant
  sv_updated_at :: instant

record service_request =
  sr_name_th :: string
  sr_name_en :: string
  sr_base_fee :: decimal
  sr_min_hours :: int
  sr_commission_percent :: decimal
  sr_cancellation_fee :: decimal
  sr_notes :: "string option"

type_synonym catalog = "(uuid, service_item) table"

definition MAX_SERVICE_BASE_FEE :: decimal where "MAX_SERVICE_BASE_FEE = 1000000"
definition MAX_SERVICE_NOTES_LEN :: nat where "MAX_SERVICE_NOTES_LEN = 2000"

definition validate_service_fields ::
  "decimal_lib \<Rightarrow> string \<Rightarrow> string \<Rightarrow> decimal \<Rightarrow> int \<Rightarrow> string option \<Rightarrow> decimal \<Rightarrow> decimal
   \<Rightarrow> (decimal \<times> decimal) app_result" where
  "validate_service_fields L name_th name_en base_fee min_hours notes commission_percent
     cancellation_fee =
    (if trim name_th = [] \<or> trim name_en = []
     then Inl (BadRequest ''name_th and name_en are required'')
     else if base_fee < 0 \<or> MAX_SERVICE_BASE_FEE < base_fee
     then Inl (BadRequest ''base_fee must be between 0 and {MAX_SERVICE_BASE_FEE}'')
     else if \<not> (1 \<le> min_hours \<and> min_hours \<le> 24)
     then Inl (BadRequest ''min_hours must be between 1 and 24'')
     else if (case notes of None \<Rightarrow> False | Some n \<Rightarrow> MAX_SERVICE_NOTES_LEN < length n)
     then Inl (BadRequest ''notes too long'')
     else
       res_bind (validate_commission_percent L commission_percent) (\<lambda>pct.
       res_bind (validate_cancellation_fee L cancellation_fee) (\<lambda>fee.
         Inr (pct, fee))))"

text \<open>
  \<open>store2\<close> is what a \<open>NUMERIC(12,2)\<close> column keeps of an amount. The commission and the fee reach
  their columns already on that scale; the base fee is stored as the admin sent it.
\<close>

definition service_row ::
  "(decimal \<Rightarrow> decimal) \<Rightarrow> call_env \<Rightarrow> service_request \<Rightarrow> bool \<Rightarrow> instant \<Rightarrow> service_item" where
  "service_row store2 env req active created =
    \<lparr>sv_name_th = sr_name_th req, sv_name_en = sr_name_en req, sv_base_fee = store2 (sr_base_fee req),
     sv_min_hours = sr_min_hours req, sv_commission_percent = sr_commission_percent req,
     sv_cancellation_fee = sr_cancellation_fee req, sv_notes = sr_notes req,
     sv_is_active = active, sv_created_at = created, sv_updated_at = tx_now env\<rparr>"

definition create_service ::
  "(decimal \<Rightarrow> decimal) \<Rightarrow> call_env \<Rightarrow> catalog \<Rightarrow> service_request \<Rightarrow> service_item \<times> catalog" where
  "create_service store2 env cat req =
    (let row = service_row store2 env req True (tx_now env) in (row, row_put (fresh_row env) row cat))"

definition update_service ::
  "(decimal \<Rightarrow> decimal) \<Rightarrow> call_env \<Rightarrow> catalog \<Rightarrow> uuid \<Rightarrow> service_request
   \<Rightarrow> (service_item \<times> catalog) app_result" where
  "update_service store2 env cat sid req =
    (case row_get cat sid of
       None \<Rightarrow> Inl (NotFound ''Service not found'')
     | Some old \<Rightarrow>
       (let row = service_row store2 env req (sv_is_active old) (sv_created_at old)
        in Inr (row, row_put sid row cat)))"

definition deactivate_service ::
  "call_env \<Rightarrow> catalog \<Rightarrow> uuid \<Rightarrow> (service_item \<times> catalog) app_result" where
  "deactivate_service env cat sid =
    (case row_get cat sid of
       None \<Rightarrow> Inl (NotFound ''Service not found'')
     | Some old \<Rightarrow>
       (let row = old\<lparr>sv_is_active := False, sv_updated_at := tx_now env\<rparr>
        in Inr (row, row_put sid row cat)))"

definition get_active_service :: "catalog \<Rightarrow> uuid \<Rightarrow> service_item option" where
  "get_active_service cat sid =
    (case row_get cat sid of
       None \<Rightarrow> None
     | Some s \<Rightarrow> (if sv_is_active s then Some s else None))"

definition scaled_request ::
  "decimal_lib \<Rightarrow> service_request \<Rightarrow> service_request app_result" where
  "scaled_request L req =
    res_bind (validate_service_fields L (sr_name_th req) (sr_name_en req) (sr_base_fee req)
        (sr_min_hours req) (sr_notes req) (sr_commission_percent req) (sr_cancellation_fee req))
      (\<lambda>(pct, fee). Inr (req\<lparr>sr_commission_percent := pct, sr_cancellation_fee := fee\<rparr>))"

definition admin_create_service ::
  "decimal_lib \<Rightarrow> (decimal \<Rightarrow> decimal) \<Rightarrow> call_env \<Rightarrow> catalog \<Rightarrow> auth_user \<Rightarrow> service_request
   \<Rightarrow> (service_item \<times> catalog) app_result" where
  "admin_create_service L store2 env cat user req =
    res_bind (require_role user ROLE_ADMIN) (\<lambda>_.
    res_bind (scaled_request L req) (\<lambda>req'.
      Inr (create_service store2 env cat req')))"

definition admin_update_service ::
  "decimal_lib \<Rightarrow> (decimal \<Rightarrow> decimal) \<Rightarrow> call_env \<Rightarrow> catalog \<Rightarrow> auth_user \<Rightarrow> uuid \<Rightarrow> service_request
   \<Rightarrow> (service_item \<times> catalog) app_result" where
  "admin_update_service L store2 env cat user sid req =
    res_bind (require_role user ROLE_ADMIN) (\<lambda>_.
    res_bind (scaled_request L req) (\<lambda>req'.
      update_service store2 env cat sid req'))"

definition admin_delete_service ::
  "call_env \<Rightarrow> catalog \<Rightarrow> auth_user \<Rightarrow> uuid \<Rightarrow> (service_item \<times> catalog) app_result" where
  "admin_delete_service env cat user sid =
    res_bind (require_role user ROLE_ADMIN) (\<lambda>_. deactivate_service env cat sid)"

subsection \<open>Creating a booking\<close>

definition MAX_BOOKING_HOURS :: int where "MAX_BOOKING_HOURS = 168"
definition MAX_GUARD_COUNT :: int where "MAX_GUARD_COUNT = 20"
definition MAX_ADDRESS_CHARS :: nat where "MAX_ADDRESS_CHARS = 512"
definition MAX_TIP :: decimal where "MAX_TIP = 1000000"

definition validate_create :: "decimal_lib \<Rightarrow> instant \<Rightarrow> create_request \<Rightarrow> (int \<times> decimal) app_result" where
  "validate_create L now req =
    (let guard_count = (case cr_guard_count req of Some n \<Rightarrow> n | None \<Rightarrow> 1);
         tip = (case cr_tip req of Some t \<Rightarrow> t | None \<Rightarrow> 0)
     in if trim (cr_address req) = [] then Inl (BadRequest ''address is required'')
        else if MAX_ADDRESS_CHARS < char_count (cr_address req)
        then Inl (BadRequest ''address must be at most {MAX_ADDRESS_CHARS} characters'')
        else if cr_hours req \<le> 0 \<or> MAX_BOOKING_HOURS < cr_hours req
        then Inl (BadRequest ''hours must be between 1 and {MAX_BOOKING_HOURS}'')
        else if \<not> (1 \<le> guard_count \<and> guard_count \<le> MAX_GUARD_COUNT)
        then Inl (BadRequest ''guard_count must be between 1 and {MAX_GUARD_COUNT}'')
        else if tip < 0 then Inl (BadRequest ''tip must not be negative'')
        else if MAX_TIP < tip then Inl (BadRequest ''tip must be at most {MAX_TIP}'')
        else
          res_bind (validate_scheduled_at (cr_scheduled_at req) now) (\<lambda>_.
          res_bind (validate_coords (cr_lat req) (cr_lng req)) (\<lambda>_.
            Inr (guard_count, money_scale L tip))))"

definition resolve_pricing ::
  "catalog \<Rightarrow> uuid option \<Rightarrow> int \<Rightarrow> pricing_snapshot option app_result" where
  "resolve_pricing cat service_id hours =
    (case service_id of
       None \<Rightarrow> Inr None
     | Some sid \<Rightarrow>
       (case get_active_service cat sid of
          None \<Rightarrow> Inl (NotFound ''Service not found or inactive'')
        | Some s \<Rightarrow>
          (if hours < sv_min_hours s
           then Inl (BadRequest ''hours must be at least {} (below the service minimum)'')
           else Inr (Some \<lparr>ps_base_fee = sv_base_fee s,
                           ps_commission_percent = sv_commission_percent s,
                           ps_cancellation_fee = sv_cancellation_fee s\<rparr>))))"

definition api_create_booking ::
  "decimal_lib \<Rightarrow> call_env \<Rightarrow> catalog \<Rightarrow> booking_db \<Rightarrow> auth_user \<Rightarrow> create_request
   \<Rightarrow> ((uuid \<times> booking) \<times> booking_db) app_result" where
  "api_create_booking L env cat db user req =
    (if au_role user \<noteq> ''customer'' then Inl (Forbidden ''Only customers can create bookings'')
     else
       res_bind (validate_create L (utc_now env) req) (\<lambda>(guard_count, tip).
       res_bind (resolve_pricing cat (cr_service_id req) (cr_hours req)) (\<lambda>pricing.
         create_booking L env db (au_id user) req guard_count tip pricing)))"

subsection \<open>The lifecycle endpoints\<close>

definition accept_booking ::
  "call_env \<Rightarrow> booking_db \<Rightarrow> auth_user \<Rightarrow> uuid \<Rightarrow> (booking \<times> booking_db) app_result" where
  "accept_booking env db user bid =
    res_bind (require_role user ROLE_GUARD) (\<lambda>is_admin.
      if \<not> is_admin \<and> guard_has_overlapping_active_job db (au_id user) bid
      then Inl (ConflictCode ''GUARD_BUSY''
             ''You already have a job during this time window - pick a non-overlapping one.'')
      else transition env db bid (au_id user) is_admin Accepted (Some (au_id user)) None)"

definition decline_booking ::
  "call_env \<Rightarrow> booking_db \<Rightarrow> auth_user \<Rightarrow> uuid \<Rightarrow> string option \<Rightarrow> string option
   \<Rightarrow> (booking \<times> booking_db) app_result" where
  "decline_booking env db user bid reason note =
    res_bind (require_role user ROLE_GUARD) (\<lambda>is_admin.
    res_bind (validate_cancellation GuardDecline reason note) (\<lambda>c.
      transition env db bid (au_id user) is_admin Declined None (Some c)))"

definition en_route_booking ::
  "call_env \<Rightarrow> booking_db \<Rightarrow> auth_user \<Rightarrow> uuid \<Rightarrow> (booking \<times> booking_db) app_result" where
  "en_route_booking env db user bid =
    res_bind (require_role user ROLE_GUARD) (\<lambda>is_admin.
      transition env db bid (au_id user) is_admin EnRoute None None)"

record start_job_request =
  sj_lat :: "f64 option"
  sj_lng :: "f64 option"
  sj_accuracy :: "f64 option"

definition gps_body ::
  "start_job_request option \<Rightarrow> ((f64 \<times> f64) option \<times> f64 option) app_result" where
  "gps_body body =
    (case body of
       None \<Rightarrow> Inr (None, None)
     | Some req \<Rightarrow>
       res_bind (validate_coords (sj_lat req) (sj_lng req)) (\<lambda>gps. Inr (gps, sj_accuracy req)))"

definition arrived_booking ::
  "distance_fn \<Rightarrow> call_env \<Rightarrow> booking_db \<Rightarrow> auth_user \<Rightarrow> uuid \<Rightarrow> start_job_request option
   \<Rightarrow> (booking \<times> booking_db) app_result" where
  "arrived_booking metres env db user bid body =
    res_bind (require_role user ROLE_GUARD) (\<lambda>is_admin.
    res_bind (gps_body body) (\<lambda>(guard_gps, accuracy_m).
      arrive_job metres env db bid (au_id user) is_admin guard_gps accuracy_m))"

definition start_booking ::
  "call_env \<Rightarrow> booking_db \<Rightarrow> auth_user \<Rightarrow> uuid \<Rightarrow> start_job_request option
   \<Rightarrow> (booking \<times> booking_db) app_result" where
  "start_booking env db user bid body =
    res_bind (require_role user ROLE_GUARD) (\<lambda>is_admin.
    res_bind (gps_body body) (\<lambda>(guard_gps, accuracy_m).
      start_job env db bid (au_id user) is_admin guard_gps accuracy_m))"

definition complete_booking ::
  "call_env \<Rightarrow> booking_db \<Rightarrow> auth_user \<Rightarrow> uuid \<Rightarrow> (booking \<times> booking_db) app_result" where
  "complete_booking env db user bid =
    res_bind (require_role user ROLE_GUARD) (\<lambda>is_admin.
      transition env db bid (au_id user) is_admin PendingCompletion None None)"

definition review_target :: "string \<Rightarrow> booking_status app_result" where
  "review_target action =
    (if action = ''approve'' then Inr Completed
     else if action = ''reject'' then Inr Arrived
     else Inl (BadRequest ''action must be 'approve' or 'reject' ''))"

definition review_completion ::
  "call_env \<Rightarrow> booking_db \<Rightarrow> auth_user \<Rightarrow> uuid \<Rightarrow> string \<Rightarrow> (booking \<times> booking_db) app_result" where
  "review_completion env db user bid action =
    res_bind (require_role user ROLE_CUSTOMER) (\<lambda>is_admin.
    res_bind (review_target action) (\<lambda>target.
      transition env db bid (au_id user) is_admin target None None))"

definition cancel_booking ::
  "call_env \<Rightarrow> booking_db \<Rightarrow> auth_user \<Rightarrow> uuid \<Rightarrow> string option \<Rightarrow> string option
   \<Rightarrow> (booking \<times> booking_db) app_result" where
  "cancel_booking env db user bid reason note =
    res_bind (require_role user ROLE_CUSTOMER) (\<lambda>is_admin.
    res_bind (validate_cancellation CustomerCancel reason note) (\<lambda>c.
      transition env db bid (au_id user) is_admin Cancelled None (Some c)))"

definition cancel_after_decline ::
  "call_env \<Rightarrow> booking_db \<Rightarrow> auth_user \<Rightarrow> uuid \<Rightarrow> (booking \<times> booking_db) app_result" where
  "cancel_after_decline env db user bid =
    res_bind (require_role user ROLE_CUSTOMER) (\<lambda>is_admin.
      transition env db bid (au_id user) is_admin Cancelled None None)"

definition admin_assign_guard ::
  "call_env \<Rightarrow> booking_db \<Rightarrow> auth_user \<Rightarrow> uuid \<Rightarrow> uuid \<Rightarrow> (booking \<times> booking_db) app_result" where
  "admin_assign_guard env db user bid guard_id =
    res_bind (require_role user ROLE_ADMIN) (\<lambda>_.
      transition env db bid (au_id user) True Accepted (Some guard_id) None)"

subsection \<open>Reading\<close>

definition get_booking :: "booking_db \<Rightarrow> auth_user \<Rightarrow> uuid \<Rightarrow> booking app_result" where
  "get_booking db user bid =
    res_bind (locked_current db bid) (\<lambda>b.
      let is_open_for_guard = (au_role user = ROLE_GUARD \<and> bk_guard b = None
            \<and> bk_status b = Requested
            \<and> (bk_target_guard b = None \<or> bk_target_guard b = Some (au_id user)))
      in if \<not> is_participant b (au_id user) \<and> \<not> is_open_for_guard
         then Inl (Forbidden ''Not a participant in this booking'')
         else Inr b)"

definition list_bookings :: "booking_db \<Rightarrow> auth_user \<Rightarrow> (uuid \<times> booking) list" where
  "list_bookings db user =
    take 100 (sort_key (\<lambda>(_, b). - bk_created_at b)
      (filter (\<lambda>(_, b). bk_customer b = au_id user \<or> bk_guard b = Some (au_id user)) (bookings db)))"

definition api_list_open_bookings ::
  "(f64 \<Rightarrow> f64 \<Rightarrow> f64 \<Rightarrow> f64 \<Rightarrow> rat) \<Rightarrow> booking_db \<Rightarrow> instant \<Rightarrow> auth_user \<Rightarrow> f64 option \<Rightarrow> f64 option
   \<Rightarrow> f64 option \<Rightarrow> int option \<Rightarrow> int option \<Rightarrow> (uuid \<times> booking) list app_result" where
  "api_list_open_bookings km db now user lat lng radius_km limit offset =
    res_bind (require_role user ROLE_GUARD) (\<lambda>_.
    res_bind (validate_open_jobs_query lat lng radius_km) (\<lambda>geo.
      let (l, off) = page limit offset
      in Inr (list_open_bookings km db now (au_id user) geo l off)))"

definition skip_booking :: "booking_db \<Rightarrow> auth_user \<Rightarrow> uuid \<Rightarrow> booking_db app_result" where
  "skip_booking db user bid =
    res_bind (require_role user ROLE_GUARD) (\<lambda>_. skip_job db (au_id user) bid)"

definition api_list_progress_reports ::
  "booking_db \<Rightarrow> auth_user \<Rightarrow> uuid \<Rightarrow> int option \<Rightarrow> int option \<Rightarrow> progress_report list app_result" where
  "api_list_progress_reports db user bid limit offset =
    res_bind (locked_current db bid) (\<lambda>b.
      if au_role user \<noteq> ROLE_ADMIN \<and> bk_customer b \<noteq> au_id user \<and> bk_guard b \<noteq> Some (au_id user)
      then Inl (Forbidden ''Not a participant in this booking'')
      else let (l, off) = page limit offset in Inr (list_progress_reports db bid l off))"

subsection \<open>The check-in upload\<close>

text \<open>
  The handler uploads the photo before it inserts the row. The object store is the list of the keys it
  holds; \<open>up\<close> says whether the upload succeeds, \<open>del\<close> whether the best-effort delete does.
\<close>

record check_in_form =
  cf_hour :: int
  cf_photo :: bytes
  cf_mime :: string
  cf_lat :: "f64 option"
  cf_lng :: "f64 option"
  cf_accuracy :: "f64 option"
  cf_note :: "string option"

definition photo_key :: "uuid \<Rightarrow> uuid \<Rightarrow> string \<Rightarrow> string" where
  "photo_key bid fresh ext =
    ''booking/'' @ uuid_text bid @ ''/checkins/'' @ uuid_text fresh @ ''.'' @ ext"

definition check_in_preflight ::
  "call_env \<Rightarrow> booking_db \<Rightarrow> auth_user \<Rightarrow> uuid \<Rightarrow> check_in_form app_result \<Rightarrow> (check_in_form \<times> string) app_result" where
  "check_in_preflight env db user bid parsed =
    (if au_role user \<noteq> ROLE_GUARD then Inl (Forbidden ''Only the assigned guard can check in'')
     else
       res_bind (locked_current db bid) (\<lambda>b.
       if bk_customer b \<noteq> au_id user \<and> bk_guard b \<noteq> Some (au_id user)
       then Inl (Forbidden ''Not a participant in this booking'')
       else if bk_guard b \<noteq> Some (au_id user)
       then Inl (Forbidden ''Only the assigned guard can check in'')
       else
         res_bind parsed (\<lambda>form.
         res_bind (validate_check_in (bk_status b) (bk_work_started_at b) (bk_hours b) (cf_hour form)
                     (utc_now env)) (\<lambda>_.
         if progress_report_exists db bid (cf_hour form)
         then Inl (ConflictCode DUPLICATE_CHECK_IN_CODE ''A check-in for hour {} already exists'')
         else
           res_bind (validate_photo_upload (cf_mime form) (length (cf_photo form)) (cf_photo form))
             (\<lambda>mime. Inr (form, mime_to_extension mime))))))"

definition api_create_progress_report ::
  "call_env \<Rightarrow> (string \<Rightarrow> bool) \<Rightarrow> (string \<Rightarrow> bool) \<Rightarrow> booking_db \<Rightarrow> string list \<Rightarrow> auth_user \<Rightarrow> uuid \<Rightarrow> uuid
   \<Rightarrow> check_in_form app_result \<Rightarrow> booking_db
   \<Rightarrow> progress_report app_result \<times> booking_db \<times> string list" where
  "api_create_progress_report env up del db s3 user bid fresh parsed db_later =
    (case check_in_preflight env db user bid parsed of
       Inl e \<Rightarrow> (Inl e, db_later, s3)
     | Inr (form, ext) \<Rightarrow>
       (let key = photo_key bid fresh ext in
        if \<not> up key then (Inl (Internal ''check-in photo upload failed''), db_later, s3)
        else
          let report = \<lparr>np_hour = cf_hour form, np_photo_key = key, np_lat = cf_lat form,
                        np_lng = cf_lng form, np_accuracy = cf_accuracy form, np_note = cf_note form\<rparr>
          in case create_progress_report env db_later bid (au_id user) report of
               Inr (row, db') \<Rightarrow> (Inr row, db', key # s3)
             | Inl e \<Rightarrow> (Inl e, db_later, if del key then s3 else key # s3)))"

subsection \<open>Who may do what\<close>

lemma require_role_Inr_iff:
  "require_role user role = Inr adm \<longleftrightarrow>
    adm = (au_role user = ROLE_ADMIN) \<and> (au_role user = role \<or> au_role user = ROLE_ADMIN)"
  by (auto simp: require_role_def Let_def)

lemma page_bounds:
  "1 \<le> fst (page l off)" "fst (page l off) \<le> 200" "0 \<le> snd (page l off)"
  by (auto simp: page_def MAX_PAGE_LIMIT_def Let_def)

text \<open>
  Reading a booking's detail: an admin has no branch of its own here, and a directed offer is readable
  by its target only.
\<close>

lemma get_booking_Inr_iff:
  "get_booking db user bid = Inr b \<longleftrightarrow>
    row_get (bookings db) bid = Some b
    \<and> (bk_customer b = au_id user \<or> bk_guard b = Some (au_id user)
       \<or> (au_role user = ROLE_GUARD \<and> bk_guard b = None \<and> bk_status b = Requested
          \<and> (bk_target_guard b = None \<or> bk_target_guard b = Some (au_id user))))"
  by (auto simp: get_booking_def res_bind_Inr_iff Let_def is_participant_def split: if_splits)

text \<open>What the create validator lets through keeps every \<open>CHECK\<close> of the row.\<close>

lemma coords_ok_Inr: "validate_coords la lg = Inr c \<Longrightarrow> c = None \<and> la = None \<and> lg = None
    \<or> (\<exists>x y. c = Some (x, y) \<and> la = Some x \<and> lg = Some y \<and> in_range (-90) 90 x \<and> in_range (-180) 180 y)"
  by (auto simp: validate_coords_def split: option.splits if_splits)

lemma validate_create_Inr:
  assumes "validate_create L now req = Inr (n, tip)"
  shows "trim (cr_address req) \<noteq> []" "char_count (cr_address req) \<le> 512"
    "1 \<le> cr_hours req" "cr_hours req \<le> 168" "1 \<le> n" "n \<le> 20"
    "\<exists>t. 0 \<le> t \<and> t \<le> 1000000 \<and> tip = money_scale L t"
    "now < cr_scheduled_at req"
    "\<exists>c. validate_coords (cr_lat req) (cr_lng req) = Inr c"
  using assms
  by (auto simp: validate_create_def Let_def MAX_ADDRESS_CHARS_def MAX_BOOKING_HOURS_def
      MAX_GUARD_COUNT_def MAX_TIP_def validate_scheduled_at_def res_bind_Inr_iff not_less not_le
      split: if_splits)

end
