(* ===== verification/Booking_Invariants.thy ===== *)
theory Booking_Invariants
  imports Booking_Api "HOL-Library.Sublist"
begin

text \<open>
  The booking service as a system: its commands are the writing endpoints, the closes of the sweeps
  (taken on any earlier read, since a sweep reads without a lock), the payment consumer and the relay.
  Commands run one after the other; the row lock of a booking and the per-guard advisory lock of the
  accept path serialise the transactions that touch the same rows. A command that fails leaves the
  tables as they were.
\<close>

datatype booking_cmd =
    CmdCreate call_env catalog auth_user create_request
  | CmdAccept call_env auth_user uuid
  | CmdDecline call_env auth_user uuid "string option" "string option"
  | CmdEnRoute call_env auth_user uuid
  | CmdArrived call_env auth_user uuid "start_job_request option"
  | CmdStart call_env auth_user uuid "start_job_request option"
  | CmdComplete call_env auth_user uuid
  | CmdReview call_env auth_user uuid string
  | CmdCancel call_env auth_user uuid "string option" "string option"
  | CmdAckDecline call_env auth_user uuid
  | CmdAssign call_env auth_user uuid uuid
  | CmdSkip auth_user uuid
  | CmdCheckIn call_env uuid uuid new_progress_report
  | CmdExpire call_env uuid
  | CmdAutoComplete call_env uuid
  | CmdCloseArrived call_env uuid arrived_closure
  | CmdPaid paid_event
  | CmdMarkPublished instant uuid

definition after :: "('r \<times> booking_db) app_result \<Rightarrow> booking_db \<Rightarrow> booking_db" where
  "after res db = (case res of Inl _ \<Rightarrow> db | Inr (_, db') \<Rightarrow> db')"

lemma after_simps [simp]: "after (Inl e) db = db" "after (Inr (r, db')) db = db'"
  by (simp_all add: after_def)

fun run_cmd :: "decimal_lib \<Rightarrow> distance_fn \<Rightarrow> booking_cmd \<Rightarrow> booking_db \<Rightarrow> booking_db" where
  "run_cmd L metres (CmdCreate env cat user req) db = after (api_create_booking L env cat db user req) db"
| "run_cmd L metres (CmdAccept env user bid) db = after (accept_booking env db user bid) db"
| "run_cmd L metres (CmdDecline env user bid r n) db = after (decline_booking env db user bid r n) db"
| "run_cmd L metres (CmdEnRoute env user bid) db = after (en_route_booking env db user bid) db"
| "run_cmd L metres (CmdArrived env user bid body) db =
     after (arrived_booking metres env db user bid body) db"
| "run_cmd L metres (CmdStart env user bid body) db = after (start_booking env db user bid body) db"
| "run_cmd L metres (CmdComplete env user bid) db = after (complete_booking env db user bid) db"
| "run_cmd L metres (CmdReview env user bid act) db = after (review_completion env db user bid act) db"
| "run_cmd L metres (CmdCancel env user bid r n) db = after (cancel_booking env db user bid r n) db"
| "run_cmd L metres (CmdAckDecline env user bid) db = after (cancel_after_decline env db user bid) db"
| "run_cmd L metres (CmdAssign env user bid g) db = after (admin_assign_guard env db user bid g) db"
| "run_cmd L metres (CmdSkip user bid) db = (case skip_booking db user bid of Inl _ \<Rightarrow> db | Inr db' \<Rightarrow> db')"
| "run_cmd L metres (CmdCheckIn env bid actor rep) db = after (create_progress_report env db bid actor rep) db"
| "run_cmd L metres (CmdExpire env bid) db = run_close env (expiry_close bid) db"
| "run_cmd L metres (CmdAutoComplete env bid) db = run_close env (auto_complete_close bid) db"
| "run_cmd L metres (CmdCloseArrived env bid d) db =
     (case arrived_close bid d of None \<Rightarrow> db | Some c \<Rightarrow> run_close env c db)"
| "run_cmd L metres (CmdPaid e) db = consume_paid e db"
| "run_cmd L metres (CmdMarkPublished now oid) db = mark_published now oid db"

subsection \<open>One shape for every write\<close>

text \<open>
  A command changes the tables in one of six ways. Every invariant below is one case analysis over
  these, and no proof looks at the handlers again.
\<close>

inductive db_write :: "booking_db \<Rightarrow> booking_db \<Rightarrow> bool" where
  keep: "db_write db db"
| same: "bookings db' = bookings db \<Longrightarrow> progress_reports db' = progress_reports db \<Longrightarrow> db_write db db'"
| new: "row_get (bookings db) bid = None \<Longrightarrow> bk_status b = Requested \<Longrightarrow> bk_guard b = None \<Longrightarrow>
    bk_work_started_at b = None \<Longrightarrow> bk_paid_at b = None \<Longrightarrow> 1 \<le> bk_hours b \<Longrightarrow> bk_hours b \<le> 168 \<Longrightarrow>
    bookings db' = row_put bid b (bookings db) \<Longrightarrow>
    progress_reports db' = progress_reports db \<Longrightarrow> db_write db db'"
| trans: "transition_as env db bid actor adm sys s g canc = Inr (u, db') \<Longrightarrow>
    (s = Accepted \<Longrightarrow> g \<noteq> None) \<Longrightarrow> (s \<noteq> Accepted \<Longrightarrow> g = None) \<Longrightarrow> db_write db db'"
| start: "row_get (bookings db) bid = Some b \<Longrightarrow> bk_status b = Arrived \<Longrightarrow>
    bk_work_started_at b = None \<Longrightarrow>
    bookings db' = row_put bid (started_row env b gps acc) (bookings db) \<Longrightarrow>
    progress_reports db' = progress_reports db \<Longrightarrow> db_write db db'"
| arrive: "row_get (bookings db) bid = Some b \<Longrightarrow> bk_status b = EnRoute \<Longrightarrow>
    bookings db' = row_put bid (arrived_row env b gps acc) (bookings db) \<Longrightarrow>
    progress_reports db' = progress_reports db \<Longrightarrow> db_write db db'"
| report: "row_get (bookings db) bid = Some b \<Longrightarrow> bk_guard b = Some actor \<Longrightarrow>
    1 \<le> np_hour rep \<Longrightarrow> np_hour rep \<le> bk_hours b \<Longrightarrow>
    \<not> progress_report_exists db bid (np_hour rep) \<Longrightarrow>
    bookings db' = bookings db \<Longrightarrow>
    progress_reports db' = progress_reports db @ [progress_row env bid actor rep] \<Longrightarrow> db_write db db'"
| paid: "row_get (bookings db) bid = Some b \<Longrightarrow>
    bookings db' = row_put bid (stamp_paid t b) (bookings db) \<Longrightarrow>
    progress_reports db' = progress_reports db \<Longrightarrow> db_write db db'"

lemma after_write:
  assumes "\<And>r db'. res = Inr (r, db') \<Longrightarrow> db_write db db'"
  shows "db_write db (after res db)"
  using assms by (auto simp: after_def intro: db_write.keep split: sum.splits)

lemma run_close_write: "db_write db (run_close env c db)"
  if "sc_target c \<noteq> Accepted"
  using that by (auto simp: run_close_def close_row_def intro: db_write.keep db_write.trans split: sum.splits)

lemma create_write:
  assumes "api_create_booking L env cat db user req = Inr (r, db')"
  shows "db_write db db'"
proof -
  from assms obtain n tip pricing where v: "validate_create L (utc_now env) req = Inr (n, tip)"
    and c: "create_booking L env db (au_id user) req n tip pricing = Inr (r, db')"
    by (auto simp: api_create_booking_def res_bind_Inr_iff split: if_splits)
  let ?b = "new_booking_row L env (au_id user) req n tip pricing"
  have "row_get (bookings db) (fresh_row env) = None"
    and "bookings db' = row_put (fresh_row env) ?b (bookings db)"
    and "progress_reports db' = progress_reports db"
    using c by (auto simp: create_booking_def Let_def split: if_splits)
  moreover have "bk_status ?b = Requested" "bk_guard ?b = None" "bk_work_started_at ?b = None"
      "bk_paid_at ?b = None" "bk_hours ?b = cr_hours req"
    by (simp_all add: new_booking_row_def Let_def split_beta)
  ultimately show ?thesis
    using validate_create_Inr(3,4) [OF v] by (intro db_write.new [of db "fresh_row env" ?b]) simp_all
qed

lemma transition_write:
  "transition env db bid actor adm s g canc = Inr (u, db') \<Longrightarrow>
   (s = Accepted \<Longrightarrow> g \<noteq> None) \<Longrightarrow> (s \<noteq> Accepted \<Longrightarrow> g = None) \<Longrightarrow> db_write db db'"
  by (auto simp: transition_def intro: db_write.trans)

lemma transition_write_keep:
  "transition env db bid actor adm s None canc = Inr (u, db') \<Longrightarrow> s \<noteq> Accepted \<Longrightarrow> db_write db db'"
  by (erule transition_write) simp_all

lemma transition_write_claim:
  "transition env db bid actor adm Accepted (Some g) canc = Inr (u, db') \<Longrightarrow> db_write db db'"
  by (erule transition_write) simp_all

lemma start_write: "start_job env db bid actor adm gps acc = Inr (u, db') \<Longrightarrow> db_write db db'"
  by (auto simp: start_job_Inr_iff intro: db_write.keep db_write.start split: if_splits)

lemma arrive_write: "arrive_job metres env db bid actor adm gps acc = Inr (u, db') \<Longrightarrow> db_write db db'"
  by (auto simp: arrive_job_Inr_iff intro: db_write.arrive)

lemma report_write: "create_progress_report env db bid actor rep = Inr (r, db') \<Longrightarrow> db_write db db'"
  by (auto simp: create_progress_report_Inr_iff check_in_ok_iff intro: db_write.report)

lemma paid_write: "db_write db (consume_paid e db)"
  by (auto simp: consume_paid_def mark_paid_idempotent_def Let_def
      intro: db_write.keep db_write.same db_write.paid split: option.splits)

lemma skip_write: "skip_booking db user bid = Inr db' \<Longrightarrow> db_write db db'"
  by (auto simp: skip_booking_def skip_job_def res_bind_Inr_iff intro: db_write.same split: if_splits)

lemma run_cmd_write: "db_write db (run_cmd L metres cmd db)"
proof (cases cmd)
  case (CmdCloseArrived env bid d)
  have "sc_target c \<noteq> Accepted" if "arrived_close bid d = Some c" for c
    using that by (auto simp: arrived_close_def split: arrived_closure.splits)
  then show ?thesis
    by (auto simp: CmdCloseArrived intro: db_write.keep run_close_write split: option.splits)
next
  case (CmdPaid e)
  then show ?thesis by (simp add: paid_write)
next
  case (CmdReview env user bid act)
  have "t \<noteq> Accepted" if "review_target act = Inr t" for t
    using that by (auto simp: review_target_def split: if_splits)
  then show ?thesis
    by (auto simp: CmdReview review_completion_def res_bind_Inr_iff intro!: after_write
        elim!: transition_write_keep)
qed (auto simp: accept_booking_def decline_booking_def en_route_booking_def arrived_booking_def
      start_booking_def complete_booking_def cancel_booking_def cancel_after_decline_def
      admin_assign_guard_def res_bind_Inr_iff mark_published_def expiry_close_def auto_complete_close_def
    intro!: after_write run_close_write
    elim!: transition_write_keep transition_write_claim
    intro: create_write start_write arrive_write report_write skip_write
      db_write.keep db_write.same
    split: if_splits sum.splits)

subsection \<open>The invariant of a row\<close>

definition row_ok :: "booking_db \<Rightarrow> uuid \<Rightarrow> booking \<Rightarrow> bool" where
  "row_ok db bid b =
    ((bk_status b \<in> {EnRoute, Arrived, PendingCompletion, Completed} \<longrightarrow> bk_paid_at b \<noteq> None)
     \<and> (bk_status b \<in> {Accepted, EnRoute, Arrived, PendingCompletion, Completed, Declined}
         \<longrightarrow> bk_guard b \<noteq> None)
     \<and> (bk_status b = Requested \<longrightarrow> bk_guard b = None)
     \<and> (bk_status b \<in> {Requested, Accepted, EnRoute, Declined} \<longrightarrow> bk_work_started_at b = None)
     \<and> (bk_status b \<in> {PendingCompletion, Completed}
         \<longrightarrow> bk_work_started_at b \<noteq> None \<and> has_check_in db bid)
     \<and> (bk_status b = PendingCompletion \<longrightarrow> bk_completion_requested_at b \<noteq> None)
     \<and> (bk_status b = Completed \<longrightarrow> bk_actual_seconds b \<noteq> None)
     \<and> (bk_status b \<in> {Cancelled, Declined} \<longrightarrow> bk_cancellation_reason b \<noteq> None)
     \<and> 1 \<le> bk_hours b \<and> bk_hours b \<le> 168)"

definition rows_ok :: "booking_db \<Rightarrow> bool" where
  "rows_ok db = (\<forall>bid b. row_get (bookings db) bid = Some b \<longrightarrow> row_ok db bid b)"

lemma has_check_in_append:
  "has_check_in db bid \<Longrightarrow> progress_reports db' = progress_reports db @ rs \<Longrightarrow> has_check_in db' bid"
  by (simp add: has_check_in_def)

lemma row_ok_mono:
  "row_ok db bid b \<Longrightarrow> progress_reports db' = progress_reports db @ rs \<Longrightarrow> row_ok db' bid b"
  using has_check_in_append [of db bid db' rs] unfolding row_ok_def by argo

lemma rows_ok_put:
  assumes "rows_ok db" and "bookings db' = row_put bid u (bookings db)"
    and "progress_reports db' = progress_reports db" and "row_ok db bid u"
  shows "rows_ok db'"
proof (unfold rows_ok_def, intro allI impI)
  fix k r assume "row_get (bookings db') k = Some r"
  then have "row_ok db k r" using assms(1,2,4) by (auto simp: rows_ok_def split: if_splits)
  then show "row_ok db' k r" by (rule row_ok_mono [where rs = "[]"]) (simp add: assms(3))
qed

lemma transition_row_ok:
  assumes t: "transition_as env db bid actor adm sys s g canc = Inr (u, db')"
    and g: "s = Accepted \<Longrightarrow> g \<noteq> None" "s \<noteq> Accepted \<Longrightarrow> g = None"
    and "rows_ok db"
  shows "row_ok db bid u"
proof -
  from t obtain b cls canc' where b: "row_get (bookings db) bid = Some b"
    and cls: "required_actor (bk_status b) s = Some cls"
    and r: "reason_gate b s canc = Inr canc'"
    and p: "\<not> (bk_status b = Accepted \<and> s = EnRoute \<and> bk_paid_at b = None)"
    and c: "closes_work b s \<longrightarrow> bk_work_started_at b \<noteq> None \<and> has_check_in db bid"
    and u: "u = updated_row env b s g canc'"
    by (auto simp: transition_as_Inr_iff)
  from \<open>rows_ok db\<close> b have ok: "row_ok db bid b" by (simp add: rows_ok_def)
  from cls r p c ok g show ?thesis
    unfolding u row_ok_def
    by (cases "bk_status b"; cases s)
      (simp_all add: required_actor_def is_terminal_def reason_gate_Inr_iff set_for_target_def
        closes_work_def completion_ts_def completion_actual_seconds_def
        split: option.splits if_splits)
qed

subsection \<open>No double booking\<close>

definition no_double_booking :: "booking_db \<Rightarrow> bool" where
  "no_double_booking db =
    (\<forall>j k a b g. row_get (bookings db) j = Some a \<longrightarrow> row_get (bookings db) k = Some b \<longrightarrow> j \<noteq> k \<longrightarrow>
      bk_guard a = Some g \<longrightarrow> bk_guard b = Some g \<longrightarrow> is_active (bk_status a) \<longrightarrow> is_active (bk_status b) \<longrightarrow>
      \<not> windows_overlap (bk_scheduled_at a) (bk_hours a) (bk_scheduled_at b) (bk_hours b))"

lemma windows_overlap_sym: "windows_overlap s h s' h' = windows_overlap s' h' s h"
  by (auto simp: windows_overlap_def)

text \<open>A new version of a row that holds its guard and window and was active before is harmless.\<close>

lemma no_double_put_same:
  assumes inv: "no_double_booking db" and "row_get (bookings db) bid = Some b"
    and db': "bookings db' = row_put bid u (bookings db)"
    and same: "bk_scheduled_at u = bk_scheduled_at b" "bk_hours u = bk_hours b"
    and act: "is_active (bk_status u) \<Longrightarrow> is_active (bk_status b) \<and> bk_guard u = bk_guard b"
  shows "no_double_booking db'"
  using assms(1,2) act unfolding no_double_booking_def db' row_get_put same [symmetric]
  by (metis option.inject same)

lemma no_double_put_free:
  assumes inv: "no_double_booking db" and db': "bookings db' = row_put bid u (bookings db)"
    and free: "\<And>g k a. bk_guard u = Some g \<Longrightarrow> is_active (bk_status u) \<Longrightarrow> k \<noteq> bid \<Longrightarrow>
      row_get (bookings db) k = Some a \<Longrightarrow> bk_guard a = Some g \<Longrightarrow> is_active (bk_status a) \<Longrightarrow>
      \<not> windows_overlap (bk_scheduled_at a) (bk_hours a) (bk_scheduled_at u) (bk_hours u)"
  shows "no_double_booking db'"
  unfolding no_double_booking_def db' row_get_put
  using inv free windows_overlap_sym unfolding no_double_booking_def
  by (smt (verit, best) option.inject)

text \<open>The accept path asks the table for an overlap of the guard it places.\<close>

lemma overlap_query:
  assumes "\<not> guard_has_overlapping_active_job db g bid" and "row_get (bookings db) bid = Some b"
    and "row_get (bookings db) k = Some a" and "k \<noteq> bid" and "bk_guard a = Some g"
    and "is_active (bk_status a)"
  shows "\<not> windows_overlap (bk_scheduled_at a) (bk_hours a) (bk_scheduled_at b) (bk_hours b)"
proof -
  have "(k, a) \<in> set (bookings db)"
    using assms(3) by (auto simp: row_get_def dest: map_of_SomeD)
  with assms show ?thesis
    by (fastforce simp: guard_has_overlapping_active_job_def list_ex_iff)
qed

lemma claim_gate_checks:
  "claim_gate db bid b adm (Some g) now = Inr () \<Longrightarrow>
    bk_guard b = None \<and> \<not> guard_has_overlapping_active_job db g bid"
  by (auto simp: claim_gate_def split: if_splits)

lemma transition_no_double:
  assumes t: "transition_as env db bid actor adm sys s g canc = Inr (u, db')"
    and g: "s = Accepted \<Longrightarrow> g \<noteq> None" "s \<noteq> Accepted \<Longrightarrow> g = None"
    and inv: "no_double_booking db"
  shows "no_double_booking db'"
proof -
  from t obtain b cls canc' where b: "row_get (bookings db) bid = Some b"
    and cls: "required_actor (bk_status b) s = Some cls"
    and own: "ownership_gate db bid b actor adm sys g (utc_now env) cls = Inr ()"
    and u: "u = updated_row env b s g canc'"
    and db': "bookings db' = row_put bid u (bookings db)"
    by (auto simp: transition_as_Inr_iff)
  show ?thesis
  proof (cases "s = Accepted")
    case True
    then obtain g' where g': "g = Some g'" using g by auto
    from cls True have "cls = ClaimUnassigned"
      by (cases "bk_status b") (auto simp: required_actor_def is_terminal_def)
    with own g' have "\<not> guard_has_overlapping_active_job db g' bid"
      by (auto simp: ownership_gate_def dest: claim_gate_checks)
    then show ?thesis
      using overlap_query [OF _ b]
      by (intro no_double_put_free [OF inv db']) (simp add: u g')
  next
    case False
    then have "is_active s \<Longrightarrow> is_active (bk_status b)"
      using cls by (cases "bk_status b"; cases s)
        (simp_all add: required_actor_def is_terminal_def is_active_def)
    with False g(2) show ?thesis
      by (intro no_double_put_same [OF inv b db']) (simp_all add: u)
  qed
qed

subsection \<open>Reports belong to the assigned guard, one per hour\<close>

definition reports_ok :: "booking_db \<Rightarrow> bool" where
  "reports_ok db =
    ((\<forall>r \<in> set (progress_reports db). \<exists>b. row_get (bookings db) (pr_booking r) = Some b
        \<and> bk_guard b = Some (pr_guard r) \<and> 1 \<le> pr_hour r \<and> pr_hour r \<le> bk_hours b)
     \<and> distinct (map (\<lambda>r. (pr_booking r, pr_hour r)) (progress_reports db)))"

lemma reports_ok_put:
  assumes "reports_ok db" and "progress_reports db' = progress_reports db"
    and "bookings db' = row_put bid u (bookings db)"
    and "\<And>b. row_get (bookings db) bid = Some b \<Longrightarrow>
        bk_hours u = bk_hours b \<and> (bk_guard b \<noteq> None \<longrightarrow> bk_guard u = bk_guard b)"
  shows "reports_ok db'"
  using assms unfolding reports_ok_def by (auto simp: Ball_def)

lemma reports_ok_append:
  assumes "reports_ok db" and "bookings db' = bookings db"
    and "progress_reports db' = progress_reports db @ [progress_row env bid actor rep]"
    and "row_get (bookings db) bid = Some b" and "bk_guard b = Some actor"
    and "1 \<le> np_hour rep" and "np_hour rep \<le> bk_hours b"
    and "\<not> progress_report_exists db bid (np_hour rep)"
  shows "reports_ok db'"
  using assms unfolding reports_ok_def
  by (auto simp: progress_row_def progress_report_exists_def list_ex_iff)

subsection \<open>The system and its invariant\<close>

definition booking_inv :: "booking_db \<Rightarrow> bool" where
  "booking_inv db = (rows_ok db \<and> no_double_booking db \<and> reports_ok db)"

lemma booking_inv_empty: "booking_inv empty_booking_db"
  by (simp add: booking_inv_def rows_ok_def no_double_booking_def reports_ok_def
      empty_booking_db_def row_get_def)

lemma transition_guard_kept:
  assumes t: "transition_as env db bid actor adm sys s g canc = Inr (u, db')"
    and g: "s = Accepted \<Longrightarrow> g \<noteq> None" "s \<noteq> Accepted \<Longrightarrow> g = None"
    and b: "row_get (bookings db) bid = Some b"
  shows "bk_guard b \<noteq> None \<longrightarrow> bk_guard u = bk_guard b"
proof -
  from t b obtain cls canc' where cls: "required_actor (bk_status b) s = Some cls"
    and own: "ownership_gate db bid b actor adm sys g (utc_now env) cls = Inr ()"
    and u: "u = updated_row env b s g canc'"
    by (auto simp: transition_as_Inr_iff)
  show ?thesis
  proof (cases "s = Accepted")
    case True
    then obtain g' where g': "g = Some g'" using g by auto
    from cls True have "cls = ClaimUnassigned"
      by (cases "bk_status b") (auto simp: required_actor_def is_terminal_def)
    with own g' show ?thesis
      by (auto simp: ownership_gate_def dest: claim_gate_checks)
  next
    case False
    with g(2) show ?thesis by (simp add: u)
  qed
qed

lemma booking_inv_put:
  assumes "booking_inv db" and "bookings db' = row_put bid u (bookings db)"
    and "progress_reports db' = progress_reports db" and "row_ok db bid u"
    and "no_double_booking db'"
    and "\<And>b. row_get (bookings db) bid = Some b \<Longrightarrow>
        bk_hours u = bk_hours b \<and> (bk_guard b \<noteq> None \<longrightarrow> bk_guard u = bk_guard b)"
  shows "booking_inv db'"
  unfolding booking_inv_def
proof (intro conjI)
  from assms(1) have r: "rows_ok db" "reports_ok db" by (simp_all add: booking_inv_def)
  show "rows_ok db'" by (rule rows_ok_put [OF r(1) assms(2,3,4)])
  show "reports_ok db'" by (rule reports_ok_put [OF r(2) assms(3,2,6)])
qed (rule assms(5))

lemma booking_invD:
  assumes "booking_inv db"
  shows "row_get (bookings db) bid = Some b \<Longrightarrow> row_ok db bid b" "no_double_booking db" "rows_ok db"
    "reports_ok db"
  using assms by (simp_all add: booking_inv_def rows_ok_def)

lemma db_write_inv:
  assumes "db_write db db'" and inv: "booking_inv db"
  shows "booking_inv db'"
  using assms(1)
proof cases
  case keep
  with inv show ?thesis by simp
next
  case same
  with inv row_ok_mono [where rs = "[]" and db = db and db' = db'] show ?thesis
    by (auto simp: booking_inv_def rows_ok_def no_double_booking_def reports_ok_def)
next
  case (new bid b)
  have "row_ok db bid b" using new by (simp add: row_ok_def)
  moreover have "no_double_booking db'"
    using booking_invD(2) [OF inv] new by (intro no_double_put_free [of db db' bid b]) simp_all
  ultimately show ?thesis using new by (intro booking_inv_put [OF inv new(8,9)]) simp_all
next
  case (trans env bid actor adm sys s g canc u)
  from trans(1) obtain b where b: "row_get (bookings db) bid = Some b"
    and u: "bookings db' = row_put bid u (bookings db)" "progress_reports db' = progress_reports db"
      "bk_hours u = bk_hours b"
    by (auto simp: transition_as_Inr_iff)
  have "row_ok db bid u"
    by (rule transition_row_ok [OF trans booking_invD(3) [OF inv]])
  moreover have "no_double_booking db'"
    by (rule transition_no_double [OF trans booking_invD(2) [OF inv]])
  ultimately show ?thesis
    using b u(3) transition_guard_kept [OF trans b] by (intro booking_inv_put [OF inv u(1,2)]) simp_all
next
  case (start bid b env gps acc)
  have "row_ok db bid (started_row env b gps acc)"
    using booking_invD(1) [OF inv start(1)] start(2) by (simp add: row_ok_def)
  moreover have "no_double_booking db'"
    by (rule no_double_put_same [OF booking_invD(2) [OF inv] start(1,4)]) simp_all
  ultimately show ?thesis using start(1) by (intro booking_inv_put [OF inv start(4,5)]) simp_all
next
  case (arrive bid b env gps acc)
  have "row_ok db bid (arrived_row env b gps acc)"
    using booking_invD(1) [OF inv arrive(1)] arrive(2) by (simp add: row_ok_def)
  moreover have "no_double_booking db'"
    by (rule no_double_put_same [OF booking_invD(2) [OF inv] arrive(1,3)])
      (simp_all add: arrive(2) is_active_def)
  ultimately show ?thesis using arrive(1) by (intro booking_inv_put [OF inv arrive(3,4)]) simp_all
next
  case (report bid b actor rep env)
  have "rows_ok db'"
    using booking_invD(1) [OF inv] row_ok_mono [OF _ report(7)] by (simp add: rows_ok_def report(6))
  moreover have "no_double_booking db'"
    using booking_invD(2) [OF inv] report(6) by (simp add: no_double_booking_def)
  moreover have "reports_ok db'"
    by (rule reports_ok_append [OF booking_invD(4) [OF inv] report(6,7,1,2,3,4,5)])
  ultimately show ?thesis by (simp add: booking_inv_def)
next
  case (paid bid b t)
  have "row_ok db bid (stamp_paid t b)"
    using booking_invD(1) [OF inv paid(1)] by (simp add: row_ok_def)
  moreover have "no_double_booking db'"
    by (rule no_double_put_same [OF booking_invD(2) [OF inv] paid(1,2)]) simp_all
  ultimately show ?thesis using paid(1) by (intro booking_inv_put [OF inv paid(2,3)]) simp_all
qed

interpretation booking_system: invariant_system "run_cmd L metres" booking_inv "\<lambda>_. True"
  for L metres
  by unfold_locales (rule db_write_inv [OF run_cmd_write])

lemma reachable_inv: "booking_inv (fold (run_cmd L metres) cmds empty_booking_db)"
  by (rule booking_system.run_inv) (simp_all add: booking_inv_empty list_all_iff)

subsection \<open>What history keeps\<close>

text \<open>
  A row never disappears, moves along the lifecycle table only, keeps its customer, window and offer,
  and never loses or replaces its guard, its start or its payment once they are recorded.
\<close>

definition kept :: "'a option \<Rightarrow> 'a option \<Rightarrow> bool" where
  "kept x y = (x \<noteq> None \<longrightarrow> y = x)"

definition row_le :: "booking \<Rightarrow> booking \<Rightarrow> bool" where
  "row_le b b' =
    (can_transition\<^sup>*\<^sup>* (bk_status b) (bk_status b')
     \<and> bk_customer b' = bk_customer b \<and> bk_scheduled_at b' = bk_scheduled_at b
     \<and> bk_hours b' = bk_hours b \<and> bk_target_guard b' = bk_target_guard b
     \<and> kept (bk_guard b) (bk_guard b') \<and> kept (bk_work_started_at b) (bk_work_started_at b')
     \<and> kept (bk_paid_at b) (bk_paid_at b'))"

definition db_le :: "booking_db \<Rightarrow> booking_db \<Rightarrow> bool" where
  "db_le db db' =
    (\<forall>bid b. row_get (bookings db) bid = Some b \<longrightarrow>
      (\<exists>b'. row_get (bookings db') bid = Some b' \<and> row_le b b'))"

lemma row_le_refl: "row_le b b"
  by (simp add: row_le_def kept_def)

lemma row_le_trans: "row_le a b \<Longrightarrow> row_le b c \<Longrightarrow> row_le a c"
  by (auto simp: row_le_def kept_def intro: rtranclp_trans)

lemma db_le_put:
  assumes "bookings db' = row_put bid u (bookings db)"
    and "\<And>b. row_get (bookings db) bid = Some b \<Longrightarrow> row_le b u"
  shows "db_le db db'"
  using assms row_le_refl by (auto simp: db_le_def)

lemma db_write_le: "db_write db db' \<Longrightarrow> db_le db db'"
proof (induction rule: db_write.induct)
  case (trans env db bid actor adm sys s g canc u db')
  from trans.hyps(1) obtain b where b: "row_get (bookings db) bid = Some b"
    and u: "bookings db' = row_put bid u (bookings db)"
    and step: "can_transition (bk_status b) s"
    and f: "bk_status u = s" "bk_customer u = bk_customer b" "bk_scheduled_at u = bk_scheduled_at b"
      "bk_hours u = bk_hours b" "bk_target_guard u = bk_target_guard b"
      "bk_work_started_at u = bk_work_started_at b" "bk_paid_at u = bk_paid_at b"
    by (auto simp: transition_as_Inr_iff can_transition_def)
  have "row_le b u"
    using step transition_guard_kept [OF trans.hyps b] by (simp add: row_le_def f kept_def)
  then show ?case using b by (intro db_le_put [OF u]) simp
next
  case (arrive db bid b db' env gps acc)
  have "row_le b (arrived_row env b gps acc)"
    using arrive.hyps(2) by (simp add: row_le_def kept_def can_transition_iff r_into_rtranclp)
  then show ?case using arrive.hyps(1) by (intro db_le_put [OF arrive.hyps(3)]) simp
next
  case (paid db bid b db' t)
  have "row_le b (stamp_paid t b)"
    by (cases "bk_paid_at b") (simp_all add: row_le_def kept_def stamp_paid_first)
  then show ?case using paid.hyps(1) by (intro db_le_put [OF paid.hyps(2)]) simp
qed (auto simp: db_le_def row_le_refl, auto simp: row_le_def kept_def)

interpretation booking_history: monotone_system "run_cmd L metres" db_le
  for L metres
proof unfold_locales
  show "db_le db db" for db by (auto simp: db_le_def row_le_refl)
  show "db_le db t \<Longrightarrow> db_le t u \<Longrightarrow> db_le db u" for db t u
    unfolding db_le_def by (meson row_le_trans)
  show "db_le db (run_cmd L metres x db)" for db x
    by (rule db_write_le [OF run_cmd_write])
qed

subsection \<open>The outbox only grows\<close>

definition outbox_log :: "booking_db \<Rightarrow> (uuid \<times> string \<times> envelope) list" where
  "outbox_log db = map (\<lambda>r. (ob_id r, ob_topic r, ob_envelope r)) (outbox db)"

definition log_le :: "booking_db \<Rightarrow> booking_db \<Rightarrow> bool" where
  "log_le db db' = prefix (outbox_log db) (outbox_log db')"

lemma log_le_same: "outbox db' = outbox db \<Longrightarrow> log_le db db'"
  by (simp add: log_le_def outbox_log_def)

lemma log_le_emit: "outbox db1 = outbox db \<Longrightarrow> log_le db (emit env m db1)"
  by (auto simp: log_le_def outbox_log_def emit_def enqueue_outbox_def split: option.splits)

lemma after_log: "(\<And>r db'. res = Inr (r, db') \<Longrightarrow> log_le db db') \<Longrightarrow> log_le db (after res db)"
  by (auto simp: after_def intro: log_le_same split: sum.splits)

lemma transition_as_log: "transition_as env db bid actor adm sys s g canc = Inr (u, db') \<Longrightarrow> log_le db db'"
  by (auto simp: transition_as_Inr_iff intro: log_le_emit)

lemma transition_log: "transition env db bid actor adm s g canc = Inr (u, db') \<Longrightarrow> log_le db db'"
  by (auto simp: transition_def intro: transition_as_log)

lemma create_log: "api_create_booking L env cat db user req = Inr (r, db') \<Longrightarrow> log_le db db'"
  by (auto simp: api_create_booking_def create_booking_def res_bind_Inr_iff Let_def
      intro: log_le_emit split: if_splits)

lemma arrive_log: "arrive_job metres env db bid actor adm gps acc = Inr (u, db') \<Longrightarrow> log_le db db'"
  by (auto simp: arrive_job_Inr_iff intro: log_le_emit)

lemma start_log: "start_job env db bid actor adm gps acc = Inr (u, db') \<Longrightarrow> log_le db db'"
  by (auto simp: start_job_Inr_iff intro: log_le_same split: if_splits)

lemma report_log: "create_progress_report env db bid actor rep = Inr (r, db') \<Longrightarrow> log_le db db'"
  by (auto simp: create_progress_report_Inr_iff intro: log_le_emit)

lemma run_close_log: "log_le db (run_close env c db)"
  by (auto simp: run_close_def close_row_def intro: log_le_same transition_as_log split: sum.splits)

lemma skip_log: "skip_booking db user bid = Inr db' \<Longrightarrow> log_le db db'"
  by (auto simp: skip_booking_def skip_job_def res_bind_Inr_iff intro: log_le_same split: if_splits)

lemma paid_log: "log_le db (consume_paid e db)"
  by (auto simp: consume_paid_def mark_paid_idempotent_def Let_def intro: log_le_same split: option.splits)

lemma mark_published_log [simp]: "outbox_log (mark_published now oid db) = outbox_log db"
  by (auto simp: outbox_log_def mark_published_def)

lemma mark_log: "log_le db (mark_published now oid db)"
  by (simp add: log_le_def)

lemma run_cmd_log: "log_le db (run_cmd L metres cmd db)"
proof (cases cmd)
  case (CmdPaid e)
  then show ?thesis by (simp add: paid_log)
next
  case (CmdMarkPublished now oid)
  then show ?thesis by (simp add: mark_log)
next
  case (CmdCloseArrived env bid d)
  then show ?thesis by (auto intro: log_le_same run_close_log split: option.splits)
qed (auto simp: accept_booking_def decline_booking_def en_route_booking_def arrived_booking_def
      start_booking_def complete_booking_def cancel_booking_def cancel_after_decline_def
      admin_assign_guard_def review_completion_def res_bind_Inr_iff
    intro!: after_log run_close_log
    intro: log_le_same
    elim!: create_log transition_log arrive_log start_log report_log skip_log
    split: if_splits sum.splits)

interpretation booking_outbox: monotone_system "run_cmd L metres" log_le
  for L metres
  by unfold_locales (auto simp: log_le_def run_cmd_log [unfolded log_le_def])

end
