(* ===== verification/Booking_Relay.thy ===== *)
theory Booking_Relay
  imports Booking_Ops "HOL-Library.Multiset"
begin

text \<open>
  What the outbox relay guarantees (\<open>services/booking/src/events/mod.rs\<close>, \<open>drain_once\<close>): a row is
  marked only after the broker acknowledged it, an aborted batch marks nothing, and a broker that
  acknowledges empties the outbox.
\<close>

definition unpublished :: "booking_db \<Rightarrow> outbox_row list" where
  "unpublished db = filter (\<lambda>r. ob_published_at r = None) (outbox db)"

definition outbox_ids_distinct :: "booking_db \<Rightarrow> bool" where
  "outbox_ids_distinct db = distinct (map ob_id (outbox db))"

definition mark_all :: "instant \<Rightarrow> uuid set \<Rightarrow> outbox_row list \<Rightarrow> outbox_row list" where
  "mark_all now ids rows =
    map (\<lambda>r. if ob_id r \<in> ids then r\<lparr>ob_published_at := Some now\<rparr> else r) rows"

lemma mark_all_Nil [simp]: "mark_all now {} rows = rows"
  by (simp add: mark_all_def)

lemma mark_all_insert:
  "mark_all now ids (mark_all now {i} rows) = mark_all now (insert i ids) rows"
  by (auto simp: mark_all_def)

lemma fold_mark_published:
  "outbox (fold (\<lambda>r. mark_published now (ob_id r)) rs db) = mark_all now (ob_id ` set rs) (outbox db)"
proof (induction rs arbitrary: db)
  case Nil
  show ?case by simp
next
  case (Cons r rs)
  have "outbox (mark_published now (ob_id r) db) = mark_all now {ob_id r} (outbox db)"
    by (simp add: mark_published_def mark_all_def)
  with Cons show ?case by (simp add: mark_all_insert)
qed

lemma drain_rows_acked:
  "\<forall>r \<in> set rs. acks r \<Longrightarrow>
    drain_rows acks now start rs s n =
      (Inr (n + length rs),
       \<lparr>rl_db = fold (\<lambda>r. mark_published now (ob_id r)) rs (rl_db s),
        rl_broker = rl_broker s @ map ob_envelope rs\<rparr>)"
  by (induction rs arbitrary: s n) auto

text \<open>A refused publish leaves the tables as the batch found them; the broker keeps what it took.\<close>

lemma drain_rows_aborted:
  "drain_rows acks now start rs s n = (Inl e, s') \<Longrightarrow>
    rl_db s' = start \<and> (\<exists>sent. rl_broker s' = rl_broker s @ sent)"
proof (induction rs arbitrary: s n)
  case (Cons r rs)
  then show ?case by (cases "acks r") (fastforce, auto)
qed simp

lemma drain_rows_success:
  "drain_rows acks now start rs s n = (Inr m, s') \<Longrightarrow> \<forall>r \<in> set rs. acks r"
  by (induction rs arbitrary: s n) (auto split: if_splits)

lemma fetch_subset: "set (fetch_unpublished k db) \<subseteq> set (unpublished db)"
  by (auto simp: fetch_unpublished_def unpublished_def dest: in_set_takeD)

lemma length_fetch: "length (fetch_unpublished k db) = min k (length (unpublished db))"
  by (simp add: fetch_unpublished_def unpublished_def)

lemma distinct_map_ids_unpublished:
  "outbox_ids_distinct db \<Longrightarrow> distinct (map ob_id (unpublished db))"
  by (simp add: outbox_ids_distinct_def unpublished_def distinct_map_filter)

lemma distinct_fetch:
  assumes "outbox_ids_distinct db"
  shows "distinct (map ob_id (fetch_unpublished k db))"
proof -
  let ?s = "sort_key ob_created_at (unpublished db)"
  have "mset (map ob_id ?s) = mset (map ob_id (unpublished db))" by simp
  then have "distinct (map ob_id ?s)"
    using distinct_map_ids_unpublished [OF assms] by (metis mset_eq_imp_distinct_iff)
  then show ?thesis
    by (simp add: fetch_unpublished_def unpublished_def [symmetric] take_map [symmetric] distinct_take)
qed

lemma unpublished_mark_all:
  assumes "outbox db' = mark_all now ids (outbox db)"
  shows "unpublished db' = filter (\<lambda>r. ob_id r \<notin> ids) (unpublished db)"
proof -
  have "filter (\<lambda>r. ob_published_at r = None) (mark_all now ids rows)
      = filter (\<lambda>r. ob_id r \<notin> ids) (filter (\<lambda>r. ob_published_at r = None) rows)" for rows
    by (induction rows) (auto simp: mark_all_def)
  then show ?thesis by (simp add: unpublished_def assms)
qed

lemma length_filter_ids:
  assumes "distinct (map f xs)" and "ids \<subseteq> f ` set xs" and "finite ids"
  shows "length (filter (\<lambda>x. f x \<notin> ids) xs) = length xs - card ids"
proof -
  have "card (f ` set (filter (\<lambda>x. f x \<notin> ids) xs)) = card (f ` set xs - ids)"
    by (rule arg_cong [where f = card]) auto
  moreover have "card (f ` set (filter (\<lambda>x. f x \<notin> ids) xs)) = length (filter (\<lambda>x. f x \<notin> ids) xs)"
    using distinct_card [OF distinct_map_filter [OF assms(1)]] by (metis length_map list.set_map)
  moreover have "card (f ` set xs) = length xs"
    using distinct_card [OF assms(1)] by simp
  ultimately show ?thesis using card_Diff_subset [OF assms(3,2)] by simp
qed

lemma drain_unpublished:
  assumes "outbox_ids_distinct (rl_db s)" and "\<forall>r. acks r"
  shows "length (unpublished (rl_db (snd (drain_once acks now s))))
      = length (unpublished (rl_db s)) - BATCH"
    and "outbox_ids_distinct (rl_db (snd (drain_once acks now s)))"
proof -
  let ?rs = "fetch_unpublished BATCH (rl_db s)"
  have o: "outbox (rl_db (snd (drain_once acks now s))) = mark_all now (ob_id ` set ?rs) (outbox (rl_db s))"
    using assms(2) by (simp add: drain_once_def drain_rows_acked fold_mark_published)
  have "card (ob_id ` set ?rs) = min BATCH (length (unpublished (rl_db s)))"
    using distinct_card [OF distinct_fetch [OF assms(1)]] by (simp add: length_fetch)
  moreover have "ob_id ` set ?rs \<subseteq> ob_id ` set (unpublished (rl_db s))"
    using fetch_subset by blast
  ultimately show "length (unpublished (rl_db (snd (drain_once acks now s))))
      = length (unpublished (rl_db s)) - BATCH"
    by (simp add: unpublished_mark_all [OF o] length_filter_ids
        distinct_map_ids_unpublished [OF assms(1)])
  have "map ob_id (mark_all now ids rows) = map ob_id rows" for ids rows
    by (simp add: mark_all_def)
  then show "outbox_ids_distinct (rl_db (snd (drain_once acks now s)))"
    using assms(1) by (simp add: outbox_ids_distinct_def o)
qed

definition drain :: "(outbox_row \<Rightarrow> bool) \<Rightarrow> instant \<Rightarrow> relay \<Rightarrow> relay" where
  "drain acks now s = snd (drain_once acks now s)"

lemma drain_iterate:
  assumes "outbox_ids_distinct (rl_db s)" and "\<forall>r. acks r"
  shows "length (unpublished (rl_db ((drain acks now ^^ k) s))) = length (unpublished (rl_db s)) - k * BATCH
    \<and> outbox_ids_distinct (rl_db ((drain acks now ^^ k) s))"
  by (induction k) (simp_all add: assms(1) drain_def drain_unpublished [OF _ assms(2)])

text \<open>Nothing is marked that the broker does not hold, whatever the broker answers.\<close>

definition marked_is_sent :: "relay \<Rightarrow> bool" where
  "marked_is_sent s =
    list_all (\<lambda>r. ob_published_at r = None \<or> ob_envelope r \<in> set (rl_broker s)) (outbox (rl_db s))"

lemma drain_marked_is_sent:
  assumes "outbox_ids_distinct (rl_db s)" and inv: "marked_is_sent s"
  shows "marked_is_sent (drain acks now s)"
proof (cases "drain_once acks now s")
  case (Pair res s')
  let ?rs = "fetch_unpublished BATCH (rl_db s)"
  show ?thesis
  proof (cases res)
    case (Inl e)
    with Pair have "rl_db s' = rl_db s" "set (rl_broker s) \<subseteq> set (rl_broker s')"
      by (auto simp: drain_once_def dest: drain_rows_aborted)
    with inv show ?thesis by (auto simp: drain_def Pair marked_is_sent_def list_all_iff)
  next
    case (Inr m)
    with Pair have acked: "\<forall>r \<in> set ?rs. acks r"
      by (auto simp: drain_once_def dest: drain_rows_success)
    have o: "outbox (rl_db s') = mark_all now (ob_id ` set ?rs) (outbox (rl_db s))"
      and b: "rl_broker s' = rl_broker s @ map ob_envelope ?rs"
      using Pair by (auto simp: drain_once_def drain_rows_acked [OF acked] fold_mark_published)
    have "ob_envelope r \<in> set (map ob_envelope ?rs)"
      if r: "r \<in> set (outbox (rl_db s))" "ob_id r \<in> ob_id ` set ?rs" for r
    proof -
      from r(2) obtain q where q: "q \<in> set ?rs" "ob_id q = ob_id r" by auto
      then have "q \<in> set (outbox (rl_db s))" using fetch_subset by (fastforce simp: unpublished_def)
      with r(1) q assms(1) have "q = r"
        by (auto simp: outbox_ids_distinct_def distinct_map dest: inj_onD)
      with q show ?thesis by auto
    qed
    with inv show ?thesis
      by (auto simp: drain_def Pair marked_is_sent_def list_all_iff o b mark_all_def)
  qed
qed

lemma drain_distinct:
  assumes "outbox_ids_distinct (rl_db s)"
  shows "outbox_ids_distinct (rl_db (drain acks now s))"
proof (cases "drain_once acks now s")
  case (Pair res s')
  have m: "map ob_id (mark_all now ids rows) = map ob_id rows" for ids rows
    by (simp add: mark_all_def)
  show ?thesis
  proof (cases res)
    case (Inl e)
    with Pair assms show ?thesis by (auto simp: drain_def drain_once_def dest: drain_rows_aborted)
  next
    case (Inr n)
    with Pair have acked: "\<forall>r \<in> set (fetch_unpublished BATCH (rl_db s)). acks r"
      by (auto simp: drain_once_def dest: drain_rows_success)
    with assms show ?thesis
      by (simp add: drain_def drain_once_def drain_rows_acked outbox_ids_distinct_def fold_mark_published m)
  qed
qed

definition drain_rounds :: "((outbox_row \<Rightarrow> bool) \<times> instant) list \<Rightarrow> relay \<Rightarrow> relay" where
  "drain_rounds rounds s = fold (\<lambda>(acks, now). drain acks now) rounds s"

lemma drain_rounds_marked:
  "outbox_ids_distinct (rl_db s) \<Longrightarrow> marked_is_sent s \<Longrightarrow> marked_is_sent (drain_rounds rounds s)"
  unfolding drain_rounds_def
  by (induction rounds arbitrary: s) (auto simp: drain_distinct drain_marked_is_sent)

end
