(* ===== verification/Booking_Properties.thy ===== *)
theory Booking_Properties
  imports Booking_Invariants Booking_Relay
begin

text \<open>
  The properties of the booking service, over the commands of Booking_Invariants and the operations
  they are made of, with the concrete runs that show their hypotheses can hold.
\<close>

subsection \<open>Lemmas the properties share\<close>

lemma stale_open_iff:
  "distinct (row_keys (bookings db)) \<Longrightarrow>
   k \<in> set (stale_open_ids db now) \<longleftrightarrow>
    (\<exists>b. row_get (bookings db) k = Some b \<and> bk_status b = Requested \<and> bk_guard b = None
      \<and> is_expired (bk_scheduled_at b) (bk_hours b) now)"
  by (force simp: stale_open_ids_def is_expired_def scheduled_end_def row_get_mem)

lemma overdue_pending_iff:
  "distinct (row_keys (bookings db)) \<Longrightarrow>
   k \<in> set (overdue_pending_ids db now grace) \<longleftrightarrow>
    (\<exists>b. row_get (bookings db) k = Some b \<and> bk_status b = PendingCompletion
      \<and> auto_complete_due (bk_scheduled_at b) (bk_hours b) (bk_completion_requested_at b) now (minutes grace))"
  by (force simp: overdue_pending_ids_def row_get_mem)

lemma distinct_filter_keys: "distinct (row_keys t) \<Longrightarrow> distinct (map fst (filter P t))"
  by (simp add: row_keys_def distinct_map_filter)

lemma sc_booking_simps [simp]:
  "sc_booking (expiry_close k) = k" "sc_booking (auto_complete_close k) = k"
  by (simp_all add: expiry_close_def auto_complete_close_def)

lemma arrived_close_booking: "arrived_close k d = Some c \<Longrightarrow> sc_booking c = k"
  by (auto simp: arrived_close_def split: arrived_closure.splits)

text \<open>The closes of the arrived sweep: one for each candidate that is due and not for review.\<close>

definition arrived_closes :: "booking_db \<Rightarrow> instant \<Rightarrow> int \<Rightarrow> sweep_close list" where
  "arrived_closes db now grace =
    List.map_filter (\<lambda>r. arrived_close (fst r) (arrived_decision db now grace r)) (arrived_candidates db)"

lemma map_booking_filter:
  "map sc_booking (List.map_filter (\<lambda>r. arrived_close (fst r) (d r)) rows)
    = map fst (filter (\<lambda>r. arrived_close (fst r) (d r) \<noteq> None) rows)"
  by (induction rows) (auto simp: List.map_filter_def arrived_close_booking)

lemma distinct_arrived_closes:
  assumes "distinct (row_keys (bookings db))"
  shows "distinct (map sc_booking (arrived_closes db now grace))"
  unfolding arrived_closes_def map_booking_filter arrived_candidates_def filter_filter
  by (rule distinct_filter_keys [OF assms])

lemma arrived_closes_mem:
  assumes "distinct (row_keys (bookings db))" and "row_get (bookings db) k = Some b"
    and "bk_status b = Arrived"
    and "arrived_close k (arrived_decision db now grace (k, b)) = Some c"
  shows "c \<in> set (arrived_closes db now grace)"
proof -
  have "(k, b) \<in> set (arrived_candidates db)"
    using assms(1-3) by (simp add: arrived_candidates_def row_get_mem)
  with assms(4) show ?thesis
    by (force simp: arrived_closes_def List.map_filter_def)
qed

lemma arrived_closes_key:
  assumes c: "c \<in> set (arrived_closes db now grace)" and d: "distinct (row_keys (bookings db))"
  shows "\<exists>b. row_get (bookings db) (sc_booking c) = Some b \<and> bk_status b = Arrived
    \<and> arrived_close (sc_booking c) (arrived_decision db now grace (sc_booking c, b)) = Some c"
proof -
  from c obtain k b where r: "(k, b) \<in> set (arrived_candidates db)"
    and cl: "arrived_close k (arrived_decision db now grace (k, b)) = Some c"
    by (auto simp: arrived_closes_def List.map_filter_def)
  then have "sc_booking c = k" by (simp add: arrived_close_booking)
  with r cl show ?thesis by (auto simp: arrived_candidates_def row_get_mem [OF d])
qed

lemma sweep_row_cases:
  assumes "row_get (bookings (fold (\<lambda>c. run_close (envs (sc_booking c)) c) cs db)) k = Some b"
    and "distinct (map sc_booking cs)"
  obtains (kept) "k \<notin> sc_booking ` set cs" and "row_get (bookings db) k = Some b"
  | (met) c db1 where "c \<in> set cs" and "sc_booking c = k"
      and "row_get (bookings db1) k = row_get (bookings db) k"
      and "progress_reports db1 = progress_reports db"
      and "row_get (bookings (run_close (envs k) c db1)) k = Some b"
proof (cases "k \<in> sc_booking ` set cs")
  case True
  then obtain c where c: "c \<in> set cs" "k = sc_booking c" by auto
  from fold_close_at [OF assms(2) c] show ?thesis
    using c assms(1) met by metis
next
  case False
  then show ?thesis using kept assms(1) fold_close_frame(1) [OF False] by metis
qed

subsection \<open>Sweeps leave nothing overdue\<close>

lemma expire_sweep_leaves:
  assumes d: "distinct (row_keys (bookings db))"
    and row: "row_get (bookings (snd (expire_stale_open_bookings envs db now))) k = Some b"
    and st: "bk_status b = Requested" "bk_guard b = None"
  shows "\<not> is_expired (bk_scheduled_at b) (bk_hours b) now"
proof -
  let ?cs = "map expiry_close (stale_open_ids db now)"
  have dc: "distinct (map sc_booking ?cs)"
    using distinct_filter_keys [OF d] by (simp add: comp_def stale_open_ids_def)
  show ?thesis
  proof (rule sweep_row_cases [OF row [unfolded expire_sweep_db] dc])
    assume "k \<notin> sc_booking ` set ?cs" and r: "row_get (bookings db) k = Some b"
    then have "k \<notin> set (stale_open_ids db now)" by force
    with r st show ?thesis by (auto simp: stale_open_iff [OF d])
  next
    fix c db1
    assume c: "c \<in> set ?cs" "sc_booking c = k"
      and r: "row_get (bookings db1) k = row_get (bookings db) k"
      and b: "row_get (bookings (run_close (envs k) c db1)) k = Some b"
    from c have "k \<in> set (stale_open_ids db now)" and ck: "c = expiry_close k" by auto
    then obtain b0 where "row_get (bookings db) k = Some b0" "bk_status b0 = Requested"
      by (auto simp: stale_open_iff [OF d])
    from expiry_close_ok [OF this(1) [folded r] this(2), of "envs k"] b st show ?thesis
      by (simp add: ck)
  qed
qed

lemma auto_sweep_leaves:
  assumes d: "distinct (row_keys (bookings db))" and inv: "rows_ok db"
    and row: "row_get (bookings (snd (auto_complete_overdue_pending envs db now grace))) k = Some b"
    and st: "bk_status b = PendingCompletion"
  shows "\<not> auto_complete_due (bk_scheduled_at b) (bk_hours b) (bk_completion_requested_at b) now (minutes grace)"
proof -
  let ?cs = "map auto_complete_close (overdue_pending_ids db now grace)"
  have dc: "distinct (map sc_booking ?cs)"
    using distinct_filter_keys [OF d] by (simp add: comp_def overdue_pending_ids_def)
  show ?thesis
  proof (rule sweep_row_cases [OF row [unfolded auto_sweep_db] dc])
    assume "k \<notin> sc_booking ` set ?cs" and r: "row_get (bookings db) k = Some b"
    then have "k \<notin> set (overdue_pending_ids db now grace)" by force
    with r st show ?thesis by (auto simp: overdue_pending_iff [OF d])
  next
    fix c db1
    assume c: "c \<in> set ?cs" "sc_booking c = k"
      and r: "row_get (bookings db1) k = row_get (bookings db) k"
      and p: "progress_reports db1 = progress_reports db"
      and b: "row_get (bookings (run_close (envs k) c db1)) k = Some b"
    from c have "k \<in> set (overdue_pending_ids db now grace)" and ck: "c = auto_complete_close k" by auto
    then obtain b0 where b0: "row_get (bookings db) k = Some b0" "bk_status b0 = PendingCompletion"
      by (auto simp: overdue_pending_iff [OF d])
    with inv have "bk_work_started_at b0 \<noteq> None" "has_check_in db k"
      by (auto simp: rows_ok_def row_ok_def)
    with p have "bk_work_started_at b0 \<noteq> None" "has_check_in db1 k" by (auto simp: has_check_in_def)
    from auto_complete_close_ok [OF b0(1) [folded r] b0(2) this, of "envs k"] b st show ?thesis
      by (simp add: ck)
  qed
qed

lemma arrived_sweep_leaves:
  assumes d: "distinct (row_keys (bookings db))"
    and row: "row_get (bookings (snd (close_overdue_arrived envs db now grace))) k = Some b"
    and st: "bk_status b = Arrived"
    and due: "scheduled_end (bk_scheduled_at b) (bk_hours b) + minutes grace < now"
  shows "bk_work_started_at b \<noteq> None \<and> \<not> has_check_in db k"
proof -
  have eq: "snd (close_overdue_arrived envs db now grace)
      = fold (\<lambda>c. run_close (envs (sc_booking c)) c) (arrived_closes db now grace) db"
    by (simp add: arrived_sweep_db arrived_closes_def)
  show ?thesis
  proof (rule sweep_row_cases [OF row [unfolded eq] distinct_arrived_closes [OF d]])
    assume n: "k \<notin> sc_booking ` set (arrived_closes db now grace)"
      and r: "row_get (bookings db) k = Some b"
    have "arrived_close k (arrived_decision db now grace (k, b)) = None"
    proof (rule ccontr)
      assume "arrived_close k (arrived_decision db now grace (k, b)) \<noteq> None"
      then obtain c where c: "arrived_close k (arrived_decision db now grace (k, b)) = Some c" by auto
      from arrived_closes_mem [OF d r st c] arrived_close_booking [OF c] n show False by force
    qed
    with due show ?thesis
      by (auto simp: arrived_close_def arrived_decision_def close_arrived_def split: option.splits if_splits bool.splits)
  next
    fix c db1
    assume c: "c \<in> set (arrived_closes db now grace)" "sc_booking c = k"
      and r: "row_get (bookings db1) k = row_get (bookings db) k"
      and p: "progress_reports db1 = progress_reports db"
      and b: "row_get (bookings (run_close (envs k) c db1)) k = Some b"
    from c obtain b0 where b0: "row_get (bookings db) k = Some b0" "bk_status b0 = Arrived"
      "arrived_close k (arrived_decision db now grace (k, b0)) = Some c"
      using arrived_closes_key [OF c(1) d] by auto
    have "arrived_decision db now grace (k, b0) = Complete \<Longrightarrow>
        bk_work_started_at b0 \<noteq> None \<and> has_check_in db1 k"
      using p by (simp add: arrived_decision_def close_arrived_iff has_check_in_def)
    from arrived_close_ok [OF b0(1) [folded r] b0(2,3) this, of "envs k"] b st show ?thesis
      by (simp split: if_splits)
  qed
qed

lemma db_write_keys:
  "db_write db db' \<Longrightarrow> distinct (row_keys (bookings db)) \<Longrightarrow> distinct (row_keys (bookings db'))"
  by (cases rule: db_write.cases) (auto simp: distinct_row_put transition_as_Inr_iff)

lemma reachable_keys:
  "distinct (row_keys (bookings (fold (run_cmd L metres) cmds empty_booking_db)))"
proof -
  have "distinct (row_keys (bookings db)) \<Longrightarrow>
      distinct (row_keys (bookings (fold (run_cmd L metres) cmds db)))" for db
    by (induction cmds arbitrary: db) (auto simp: db_write_keys [OF run_cmd_write])
  then show ?thesis by (simp add: empty_booking_db_def row_keys_def)
qed

subsection \<open>A concrete world for the witnesses\<close>

definition env0 :: "instant \<Rightarrow> uuid \<Rightarrow> call_env" where
  "env0 t n = \<lparr>utc_now = t, tx_now = t, fresh_event = n, fresh_row = n, fresh_extra = n, fresh_outbox = n,
               trace_parent = None, correlation = n\<rparr>"

definition row0 :: "booking_status \<Rightarrow> booking" where
  "row0 st = \<lparr>bk_customer = 3, bk_guard = Some 2, bk_status = st, bk_address = ''x'',
    bk_scheduled_at = 0, bk_hours = 2, bk_base_fee = 500, bk_guard_count = 1, bk_tip = 0,
    bk_lat = Some (Fin 13), bk_lng = Some (Fin 100), bk_target_guard = None,
    bk_work_started_at = None, bk_work_started_lat = None, bk_work_started_lng = None,
    bk_work_started_accuracy = None, bk_arrived_lat = None, bk_arrived_lng = None,
    bk_arrived_accuracy = None, bk_paid_at = Some 0, bk_actual_seconds = None,
    bk_cancellation_reason = None, bk_cancellation_note = None, bk_commission_percent = Some 0,
    bk_cancellation_fee = Some 0, bk_completion_requested_at = None, bk_created_at = 0,
    bk_updated_at = 0\<rparr>"

definition report0 :: progress_report where
  "report0 = \<lparr>pr_id = 70, pr_booking = 7, pr_guard = 2, pr_hour = 1, pr_photo_key = ''k'',
    pr_lat = None, pr_lng = None, pr_accuracy = None, pr_note = None, pr_created_at = 0\<rparr>"

definition db0 :: "booking \<Rightarrow> progress_report list \<Rightarrow> booking_db" where
  "db0 b rs = empty_booking_db\<lparr>bookings := [(7, b)], progress_reports := rs\<rparr>"

lemmas world0 = env0_def row0_def report0_def db0_def empty_booking_db_def

lemma db0_simps [simp]:
  "row_get (bookings (db0 b rs)) k = (if k = 7 then Some b else None)"
  "progress_reports (db0 b rs) = rs" "outbox (db0 b rs) = []"
  "row_keys (bookings (db0 b rs)) = [7]" "guard_job_skips (db0 b rs) = []"
  by (simp_all add: db0_def empty_booking_db_def row_get_def row_keys_def)

subsection \<open>Properties of every reachable state\<close>

text \<open>
  C4. Whatever commands run, in whatever order, with sweeps acting on stale reads: a booking the guard
  is on the way to, on site at or done with is paid; an assigned status has its guard; a completed or
  completion-requested booking was started and carries a check-in; a completed one has its worked
  seconds; a declined or cancelled one has its reason.
\<close>
theorem reachable_rows_ok: "rows_ok (fold (run_cmd L metres) cmds empty_booking_db)"
  by (rule booking_invD(3) [OF reachable_inv])

text \<open>
  C3. No guard ever holds two active bookings whose windows overlap.
\<close>
theorem reachable_no_double_booking:
  "no_double_booking (fold (run_cmd L metres) cmds empty_booking_db)"
  by (rule booking_invD(2) [OF reachable_inv])

text \<open>
  Every stored check-in is the assigned guard's, for an hour of the booking, and no hour has two.
\<close>
theorem reachable_reports_ok: "reports_ok (fold (run_cmd L metres) cmds empty_booking_db)"
  by (rule booking_invD(4) [OF reachable_inv])

text \<open>
  From any state on, no command removes a booking, moves it off the lifecycle table, changes its
  customer, window or offer, or replaces the guard, the start or the payment it recorded.
\<close>
theorem booking_history_kept: "db_le db (fold (run_cmd L metres) cmds db)"
  by (rule booking_history.run_le)

text \<open>
  No command removes, reorders or rewrites an event of the outbox: the log before is a prefix of
  the log after.
\<close>
theorem outbox_append_only:
  "prefix (outbox_log db) (outbox_log (fold (run_cmd L metres) cmds db))"
  using booking_outbox.run_le [of db L metres cmds] by (simp add: log_le_def)

subsection \<open>Properties of the transitions\<close>

text \<open>
  A person, admin included, moves a booking out of the on-site status only by requesting its
  completion; completing or cancelling it there is the scheduler's alone.
\<close>
theorem on_site_closed_by_scheduler_only:
  assumes "transition env db bid actor adm s g canc = Inr (u, db')"
    and "row_get (bookings db) bid = Some b" and "bk_status b = Arrived"
  shows "s = PendingCompletion"
  using assms required_actor_system_iff [of Arrived s]
  by (cases s)
    (auto simp: transition_def transition_as_Inr_iff required_actor_def is_terminal_def
      ownership_gate_def)

lemma on_site_closed_by_scheduler_only_witness:
  "\<exists>u db'. transition (env0 5 9) (db0 (row0 Arrived\<lparr>bk_work_started_at := Some 3\<rparr>) [report0]) 7 2 False
      PendingCompletion None None = Inr (u, db') \<and> PendingCompletion = PendingCompletion"
proof -
  let ?db = "db0 (row0 Arrived\<lparr>bk_work_started_at := Some 3\<rparr>) [report0]"
  have "is_ok (transition (env0 5 9) ?db 7 2 False PendingCompletion None None)" by code_simp
  then obtain u db' where t: "transition (env0 5 9) ?db 7 2 False PendingCompletion None None = Inr (u, db')"
    by (auto simp: is_ok_iff)
  from on_site_closed_by_scheduler_only [OF t] t show ?thesis by (auto simp: row0_def)
qed

text \<open>
  A transition appends exactly one unpublished event, on the topic of the new status; it names
  the booking, the customer and the guard after the change, a cancellation says whether the fee is
  due (a non-admin cancelling before arrival), and a completion carries the seconds stored on the row.
\<close>
theorem transition_event_faithful:
  assumes "transition_as env db bid actor adm sys s g canc = Inr (u, db')"
    and "row_get (bookings db) bid = Some b" and "bk_actual_seconds b = None"
  shows "\<exists>r. outbox db' = outbox db @ [r] \<and> topic_for_status s = Some (ob_topic r)
    \<and> ob_published_at r = None
    \<and> jget (ev_payload (ob_envelope r)) ''booking_id'' = Some (JUuid bid)
    \<and> jget (ev_payload (ob_envelope r)) ''customer_id'' = Some (JUuid (bk_customer u))
    \<and> jget (ev_payload (ob_envelope r)) ''guard_id'' = map_option JUuid (bk_guard u)
    \<and> jget (ev_payload (ob_envelope r)) ''charge_cancel_fee'' =
        (if s = Cancelled
         then Some (JBool (\<not> adm \<and> bk_status b \<in> {Requested, Accepted, EnRoute})) else None)
    \<and> jget (ev_payload (ob_envelope r)) ''actual_seconds'' =
        (if s = Completed then Some (jopt JInt (bk_actual_seconds u)) else None)"
proof -
  from transition_emits [OF assms(1,2)] obtain m canc' r where
    m: "transition_event env bid b s g canc' adm = Some m" and u: "u = updated_row env b s g canc'"
    and r: "outbox db' = outbox db @ [r]" "ob_topic r = em_topic m" "ob_published_at r = None"
      "ev_payload (ob_envelope r) = em_payload m"
    by metis
  note e = m [unfolded transition_event_def]
  have "charge_cancel_fee (bk_status b) adm = (\<not> adm \<and> bk_status b \<in> {Requested, Accepted, EnRoute})"
    by (auto simp: charge_cancel_fee_def)
  moreover have "completion_of b (updated_row env b s g canc') s (utc_now env) =
      (if s = Completed then completion_of b (updated_row env b Completed g canc') Completed (utc_now env)
       else None)"
    by (simp add: completion_of_def)
  ultimately show ?thesis
    using event_ids [OF e] event_fee_flag [OF e] event_actual_seconds [OF e] event_topic [OF e] r assms(3)
    by (intro exI [of _ r]) (simp add: u completion_of_def)
qed

lemma transition_event_faithful_witness:
  "\<exists>u db'. transition_as (env0 5 9) (db0 (row0 Accepted) []) 7 3 False False Cancelled None
      (Some \<lparr>cn_reason = ''mistake'', cn_note = None\<rparr>) = Inr (u, db')
    \<and> (\<exists>r. outbox db' = [r]
        \<and> jget (ev_payload (ob_envelope r)) ''charge_cancel_fee'' = Some (JBool True))"
proof -
  let ?db = "db0 (row0 Accepted) []" and ?c = "Some \<lparr>cn_reason = ''mistake'', cn_note = None\<rparr>"
  have "is_ok (transition_as (env0 5 9) ?db 7 3 False False Cancelled None ?c)" by code_simp
  then obtain u db' where t: "transition_as (env0 5 9) ?db 7 3 False False Cancelled None ?c = Inr (u, db')"
    by (auto simp: is_ok_iff)
  from transition_event_faithful [OF t, of "row0 Accepted"] t show ?thesis by (auto simp: row0_def)
qed

text \<open>
  Acknowledging a guard's decline cancels the booking and keeps the guard's reason and note.
\<close>
theorem decline_reason_survives:
  assumes "cancel_after_decline env db user bid = Inr (u, db')"
    and "row_get (bookings db) bid = Some b"
  shows "bk_status b = Declined \<and> bk_status u = Cancelled
    \<and> bk_cancellation_reason u = bk_cancellation_reason b
    \<and> bk_cancellation_note u = bk_cancellation_note b"
proof -
  from assms obtain adm where
    "transition_as env db bid (au_id user) adm False Cancelled None None = Inr (u, db')"
    by (auto simp: cancel_after_decline_def transition_def res_bind_Inr_iff)
  with assms(2) show ?thesis
    by (auto simp: transition_as_Inr_iff reason_gate_Inr_iff set_for_target_def updated_row_def
        split: if_splits)
qed

lemma decline_reason_survives_witness:
  "\<exists>u db'. cancel_after_decline (env0 5 9)
        (db0 (row0 Declined\<lparr>bk_cancellation_reason := Some ''sick''\<rparr>) []) \<lparr>au_id = 3, au_role = ''customer''\<rparr> 7
      = Inr (u, db') \<and> bk_cancellation_reason u = Some ''sick''"
proof -
  let ?db = "db0 (row0 Declined\<lparr>bk_cancellation_reason := Some ''sick''\<rparr>) []"
    and ?u = "\<lparr>au_id = 3, au_role = ''customer''\<rparr>"
  have "is_ok (cancel_after_decline (env0 5 9) ?db ?u 7)" by code_simp
  then obtain u db' where t: "cancel_after_decline (env0 5 9) ?db ?u 7 = Inr (u, db')"
    by (auto simp: is_ok_iff)
  from decline_reason_survives [OF t] t show ?thesis by (auto simp: row0_def)
qed

text \<open>
  A guard marks a pinned booking arrived only with a fix within 150 metres of the site (the 120
  metre fence and at most 30 metres of reported accuracy), and never with a fix worse than 100 metres.
\<close>
theorem arrival_on_site:
  assumes "arrive_job metres env db bid actor False gps acc = Inr (u, db')"
    and "row_get (bookings db) bid = Some b" and "site b = Some (la, lg)"
  shows "\<exists>ga gg. gps = Some (ga, gg) \<and> f64_le (metres la lg ga gg) 150
    \<and> \<not> accuracy_implausible acc \<and> bk_guard b = Some actor \<and> bk_status u = Arrived"
proof -
  from assms have v: "validate_arrived_geofence metres (Some (la, lg)) gps acc = Inr ()"
    and g: "bk_guard b = Some actor" "bk_status u = Arrived"
    by (auto simp: arrive_job_Inr_iff)
  from v have "\<not> accuracy_implausible acc"
    by (auto simp: validate_arrived_geofence_def validate_geofence_def split: option.splits if_splits)
  with geofence_ok_distance [OF v] g show ?thesis by auto
qed

lemma arrival_on_site_witness:
  "\<exists>u db'. arrive_job (\<lambda>_ _ _ _. Fin 140) (env0 5 9) (db0 (row0 EnRoute) []) 7 2 False
      (Some (Fin 13, Fin 100)) (Some (Fin 25)) = Inr (u, db') \<and> bk_status u = Arrived"
proof -
  let ?m = "\<lambda>_ _ _ _. Fin 140" and ?db = "db0 (row0 EnRoute) []"
  have "is_ok (arrive_job ?m (env0 5 9) ?db 7 2 False (Some (Fin 13, Fin 100)) (Some (Fin 25)))"
    by code_simp
  then obtain u db' where
    t: "arrive_job ?m (env0 5 9) ?db 7 2 False (Some (Fin 13, Fin 100)) (Some (Fin 25)) = Inr (u, db')"
    by (auto simp: is_ok_iff)
  from arrival_on_site [OF t, of "row0 EnRoute" "Fin 13" "Fin 100"] t show ?thesis
    by (auto simp: row0_def site_def)
qed

text \<open>
  What the scheduler bills when it completes a stranded job: a number of seconds between zero and
  the booked hours plus the fifteen minutes a start may be early, the same whenever after the window
  the sweep runs.
\<close>
theorem scheduler_bill_bounded:
  assumes "transition_as env db bid actor True True Completed None None = Inr (u, db')"
    and "row_get (bookings db) bid = Some b" and "bk_work_started_at b = Some w"
    and "validate_start_time (bk_scheduled_at b) w = Inr ()" and "0 \<le> bk_hours b"
  shows "\<exists>n. bk_actual_seconds u = Some n \<and> 0 \<le> n \<and> n \<le> 3600 * bk_hours b + 900
    \<and> (\<forall>now \<ge> scheduled_end (bk_scheduled_at b) (bk_hours b).
        scheduled_end (bk_scheduled_at b) (bk_hours b) \<le> utc_now env \<longrightarrow>
        n = worked_seconds_within_window (bk_scheduled_at b) (bk_hours b) w now)"
proof -
  from assms(1,2) have "bk_status b = Arrived" "\<exists>c. u = updated_row env b Completed None c"
    by (auto simp: transition_as_Inr_iff required_actor_system_iff)
  with assms(3) have "bk_actual_seconds u =
      Some (worked_seconds_within_window (bk_scheduled_at b) (bk_hours b) w (utc_now env))"
    by (auto simp: completion_actual_seconds_def)
  moreover have "worked_seconds_within_window (bk_scheduled_at b) (bk_hours b) w (utc_now env)
      = worked_seconds_within_window (bk_scheduled_at b) (bk_hours b) w now"
    if "scheduled_end (bk_scheduled_at b) (bk_hours b) \<le> now"
      "scheduled_end (bk_scheduled_at b) (bk_hours b) \<le> utc_now env" for now
    by (rule worked_seconds_tick_independent [OF that(2,1)])
  ultimately show ?thesis
    using worked_seconds_nonneg worked_seconds_le_grace [OF assms(4,5)] by blast
qed

lemma system_complete_ok:
  assumes "row_get (bookings db) bid = Some b" and "bk_status b = Arrived"
    and "bk_work_started_at b \<noteq> None" and "has_check_in db bid"
  shows "is_ok (transition_as env db bid actor True True Completed None None)"
proof -
  have "transition_as env db bid actor True True Completed None None =
      Inr (updated_row env b Completed None None,
        emit env (transition_event env bid b Completed None None True)
          (db\<lparr>bookings := row_put bid (updated_row env b Completed None None) (bookings db)\<rparr>))"
    using assms
    by (simp add: transition_as_Inr_iff required_actor_def is_terminal_def ownership_gate_def
        extension_gate_def reason_gate_def set_for_target_def closes_work_def)
  then show ?thesis by simp
qed

lemma scheduler_bill_bounded_witness:
  "\<exists>u db'. transition_as (env0 (hours_dur 5) 9)
        (db0 (row0 Arrived\<lparr>bk_work_started_at := Some 0\<rparr>) [report0]) 7 0 True True Completed None None
      = Inr (u, db')
    \<and> (\<exists>n. bk_actual_seconds u = Some n \<and> n \<le> 8100)"
proof -
  let ?b = "row0 Arrived\<lparr>bk_work_started_at := Some 0\<rparr>"
  have "is_ok (transition_as (env0 (hours_dur 5) 9) (db0 ?b [report0]) 7 0 True True Completed None None)"
    by (rule system_complete_ok [of _ _ ?b]) (simp_all add: row0_def report0_def has_check_in_def)
  then obtain u db' where
    t: "transition_as (env0 (hours_dur 5) 9) (db0 ?b [report0]) 7 0 True True Completed None None = Inr (u, db')"
    by (auto simp: is_ok_iff)
  have "validate_start_time 0 0 = Inr ()"
    by (simp add: start_time_ok_iff minutes_def nanos_per_sec_def)
  with scheduler_bill_bounded [OF t, of ?b 0] t show ?thesis by (auto simp: row0_def)
qed

subsection \<open>Properties of the sweeps\<close>

text \<open>
  Right after the expiry sweep no open request is left whose window has ended.
\<close>
theorem expiry_sweep_complete:
  assumes "distinct (row_keys (bookings db))"
    and "row_get (bookings (snd (expire_stale_open_bookings envs db now))) k = Some b"
    and "bk_status b = Requested" and "bk_guard b = None"
  shows "\<not> is_expired (bk_scheduled_at b) (bk_hours b) now"
  by (rule expire_sweep_leaves [OF assms])

lemma expiry_sweep_complete_witness:
  "\<not> is_expired 0 2 5 \<and> fst (expire_stale_open_bookings (env0 5) (db0 (row0 Requested\<lparr>bk_guard := None\<rparr>) []) 5) = 0"
proof -
  let ?b = "row0 Requested\<lparr>bk_guard := None\<rparr>"
  have s: "stale_open_ids (db0 ?b []) 5 = []"
    by (simp add: stale_open_ids_def db0_def row0_def hours_dur_def nanos_per_sec_def)
  have "row_get (bookings (snd (expire_stale_open_bookings (env0 5) (db0 ?b []) 5))) 7 = Some ?b"
    by (simp add: expire_stale_open_bookings_def s)
  then have "\<not> is_expired (bk_scheduled_at ?b) (bk_hours ?b) 5"
    by (rule expiry_sweep_complete [rotated]) (simp_all add: row0_def)
  moreover have "fst (expire_stale_open_bookings (env0 5) (db0 ?b []) 5) = 0"
    by (simp add: expire_stale_open_bookings_def s)
  ultimately show ?thesis by (simp add: row0_def)
qed

text \<open>
  Right after the two closing sweeps no overdue job is left but those for a human: a completion
  request past its grace is completed, and an on-site job past its window and grace remains only if it
  was started and never attested by a check-in.
\<close>
theorem closing_sweeps_complete:
  assumes "distinct (row_keys (bookings db))" and "rows_ok db"
    and "row_get (bookings (snd (auto_complete_overdue_pending envs db now grace))) j = Some a"
    and "bk_status a = PendingCompletion"
    and "row_get (bookings (snd (close_overdue_arrived envs db now grace))) k = Some b"
    and "bk_status b = Arrived"
  shows "\<not> auto_complete_due (bk_scheduled_at a) (bk_hours a) (bk_completion_requested_at a) now (minutes grace)
    \<and> (now \<le> scheduled_end (bk_scheduled_at b) (bk_hours b) + minutes grace
       \<or> (bk_work_started_at b \<noteq> None \<and> \<not> has_check_in db k))"
  using auto_sweep_leaves [OF assms(1,2,3,4)] arrived_sweep_leaves [OF assms(1,5,6)] by linarith

definition db1 :: "booking \<Rightarrow> booking \<Rightarrow> booking_db" where
  "db1 a b = empty_booking_db\<lparr>bookings := [(7, a), (8, b)], progress_reports := [report0]\<rparr>"

lemma closing_sweeps_complete_witness:
  "\<exists>(a::booking) (b::booking). \<not> auto_complete_due (bk_scheduled_at a) (bk_hours a) (bk_completion_requested_at a) 5 (minutes 30)
    \<and> bk_status a = PendingCompletion \<and> bk_status b = Arrived"
proof -
  let ?a = "row0 PendingCompletion\<lparr>bk_work_started_at := Some 0, bk_completion_requested_at := Some 1\<rparr>"
    and ?b = "row0 Arrived"
  let ?db = "db1 ?a ?b"
  have rows: "row_get (bookings ?db) k = (if k = 7 then Some ?a else if k = 8 then Some ?b else None)" for k
    by (simp add: db1_def row_get_def)
  have "rows_ok ?db"
    unfolding rows_ok_def rows
    by (auto simp: row_ok_def has_check_in_def db1_def report0_def row0_def)
  moreover have "overdue_pending_ids ?db 5 30 = []"
    by (simp add: overdue_pending_ids_def db1_def row0_def auto_complete_due_def scheduled_end_def
        hours_dur_def minutes_def nanos_per_sec_def)
  then have "snd (auto_complete_overdue_pending (env0 5) ?db 5 30) = ?db"
    by (simp add: auto_complete_overdue_pending_def)
  moreover have "arrived_closes ?db 5 30 = []"
    by (simp add: arrived_closes_def arrived_candidates_def arrived_decision_def List.map_filter_def
        db1_def row0_def close_arrived_def arrived_close_def scheduled_end_def hours_dur_def
        minutes_def nanos_per_sec_def)
  then have "snd (close_overdue_arrived (env0 5) ?db 5 30) = ?db"
    by (simp add: arrived_sweep_db arrived_closes_def)
  moreover have "distinct (row_keys (bookings ?db))" by (simp add: db1_def row_keys_def)
  ultimately have "\<not> auto_complete_due (bk_scheduled_at ?a) (bk_hours ?a) (bk_completion_requested_at ?a) 5 (minutes 30)"
    using closing_sweeps_complete [of ?db "env0 5" 5 30 7 ?a 8 ?b] rows by (simp add: row0_def)
  moreover have "bk_status ?a = PendingCompletion" "bk_status ?b = Arrived" by (simp_all add: row0_def)
  ultimately show ?thesis by blast
qed

text \<open>
  A sweep's cancel is decided outside the row lock on a job not yet started. If the guard starts
  the job in between, the close does not look again: the started job is cancelled.
\<close>
theorem stale_cancel_hits_started_job:
  assumes "row_get (bookings db) bid = Some b"
    and "arrived_decision db now grace (bid, b) = Cancel"
    and "start_job env db bid actor adm gps acc = Inr (u, db')"
    and "arrived_close bid Cancel = Some c"
  shows "\<exists>v. row_get (bookings (run_close env' c db')) bid = Some v
    \<and> bk_status v = Cancelled \<and> bk_work_started_at v \<noteq> None"
proof -
  from assms(1,2,3) have n: "bk_work_started_at b = None" and st: "bk_status b = Arrived"
    and db': "db' = db\<lparr>bookings := row_put bid (started_row env b gps acc) (bookings db)\<rparr>"
    by (auto simp: arrived_decision_def close_arrived_iff start_job_Inr_iff)
  let ?s = "started_row env b gps acc"
  have c: "sc_booking c = bid" "sc_target c = Cancelled" "sc_system c"
      "sc_cancellation c = Some \<lparr>cn_reason = SYSTEM_NOT_STARTED_REASON, cn_note = None\<rparr>"
    using assms(4) by (auto simp: arrived_close_def)
  have "\<exists>db2. close_row env' c db' = Inr (updated_row env' ?s Cancelled None (sc_cancellation c), db2)"
    using st unfolding close_row_def
    by (simp add: c db' transition_as_Inr_iff required_actor_def is_terminal_def ownership_gate_def
        extension_gate_def reason_gate_def set_for_target_def closes_work_def)
  then show ?thesis
    using run_close_row c(1) by fastforce
qed

lemma stale_cancel_hits_started_job_witness:
  "\<exists>db' c v. start_job (env0 (hours_dur 3) 9) (db0 (row0 Arrived) []) 7 2 False None None
        = Inr (started_row (env0 (hours_dur 3) 9) (row0 Arrived) None None, db')
    \<and> arrived_close 7 Cancel = Some c
    \<and> row_get (bookings (run_close (env0 (hours_dur 3) 10) c db')) 7 = Some v
    \<and> bk_status v = Cancelled \<and> bk_work_started_at v \<noteq> None"
proof -
  let ?b = "row0 Arrived" and ?now = "hours_dur 3"
  let ?u = "started_row (env0 ?now 9) ?b None None"
  obtain c where c: "arrived_close 7 Cancel = Some c" by (simp add: arrived_close_def)
  have r: "row_get (bookings (db0 ?b [])) 7 = Some ?b" by simp
  have d: "arrived_decision (db0 ?b []) ?now 30 (7, ?b) = Cancel"
    by (simp add: arrived_decision_def close_arrived_iff row0_def scheduled_end_def hours_dur_def
        minutes_def nanos_per_sec_def)
  obtain db' where s: "start_job (env0 ?now 9) (db0 ?b []) 7 2 False None None = Inr (?u, db')"
    by (simp add: start_job_Inr_iff row0_def env0_def hours_dur_def minutes_def nanos_per_sec_def)
  from stale_cancel_hits_started_job [OF r d s c, of "env0 ?now 10"] s c show ?thesis by blast
qed

subsection \<open>Properties of the consumers, the relay and the endpoints\<close>

text \<open>
  Payment events may be delivered again, singly or as a whole batch in order: a replay of what
  was consumed changes nothing.
\<close>
theorem payment_replay_harmless:
  "fold consume_paid es (fold consume_paid es db) = fold consume_paid es db"
  by (rule paid_consumer.replay)

text \<open>
  The relay marks an event published only once the broker holds it, over any number of rounds
  with any pattern of refusals.
\<close>
theorem published_is_sent:
  assumes "outbox_ids_distinct (rl_db s)" and "marked_is_sent s"
  shows "marked_is_sent (drain_rounds rounds s)"
  by (rule drain_rounds_marked [OF assms])

lemma published_is_sent_witness:
  "marked_is_sent (drain_rounds [(\<lambda>r. False, 5), (\<lambda>r. True, 6)]
    \<lparr>rl_db = emit (env0 1 2) (Some \<lparr>em_topic = BOOKING_ARRIVED, em_payload = []\<rparr>) empty_booking_db, rl_broker = []\<rparr>)"
  by (rule published_is_sent)
    (simp_all add: outbox_ids_distinct_def marked_is_sent_def emit_def enqueue_outbox_def empty_booking_db_def)



text \<open>
  Every job discovery lists to a guard is one the guard can take: unless another of the guard's
  active jobs overlaps it, accepting it succeeds and assigns the guard.
\<close>
theorem listed_job_acceptable:
  assumes "(bid, b) \<in> set (list_open_bookings km db now (au_id user) geo l off)"
    and "distinct (row_keys (bookings db))" and "au_role user = ROLE_GUARD"
    and "utc_now env \<le> now" and "\<not> guard_has_overlapping_active_job db (au_id user) bid"
  shows "\<exists>u db'. accept_booking env db user bid = Inr (u, db') \<and> bk_status u = Accepted
    \<and> bk_guard u = Some (au_id user)"
proof -
  from listed_offered [OF assms(1)] have m: "row_get (bookings db) bid = Some b"
    and o: "offered_to db (au_id user) now (bid, b)"
    using row_get_mem [OF assms(2)] by auto
  from o assms(4) have f: "bk_status b = Requested" "bk_guard b = None"
    "bk_target_guard b = None \<or> bk_target_guard b = Some (au_id user)"
    "\<not> is_expired (bk_scheduled_at b) (bk_hours b) (utc_now env)"
    by (auto simp: offered_to_def is_expired_def scheduled_end_def)
  have "claim_gate db bid b False (Some (au_id user)) (utc_now env) = Inr ()"
    using f assms(5) by (auto simp: claim_gate_def)
  then have "\<exists>db'. transition_as env db bid (au_id user) False False Accepted (Some (au_id user)) None
      = Inr (updated_row env b Accepted (Some (au_id user)) None, db')"
    using m f(1)
    by (simp add: transition_as_Inr_iff required_actor_def is_terminal_def ownership_gate_def
        extension_gate_def reason_gate_def set_for_target_def closes_work_def)
  then show ?thesis
    using assms(3,5)
    by (auto simp: accept_booking_def require_role_def transition_def role_defs)
qed

lemma listed_job_acceptable_witness:
  "\<exists>u db'. accept_booking (env0 5 9) (db0 (row0 Requested\<lparr>bk_guard := None\<rparr>) []) \<lparr>au_id = 2, au_role = ''guard''\<rparr> 7
    = Inr (u, db') \<and> bk_guard u = Some 2"
proof -
  let ?b = "row0 Requested\<lparr>bk_guard := None\<rparr>" and ?u = "\<lparr>au_id = 2, au_role = ''guard''\<rparr>"
  have "(7, ?b) \<in> set (list_open_bookings (\<lambda>_ _ _ _. 0) (db0 ?b []) 5 (au_id ?u) None 50 0)"
    by (simp add: list_open_bookings_def sql_page_def offered_to_def db0_def empty_booking_db_def
        row0_def hours_dur_def nanos_per_sec_def)
  moreover have "\<not> guard_has_overlapping_active_job (db0 ?b []) (au_id ?u) 7"
    by (simp add: guard_has_overlapping_active_job_def db0_def row_get_def)
  ultimately show ?thesis
    using listed_job_acceptable [of 7 ?b "\<lambda>_ _ _ _. 0" "db0 ?b []" 5 ?u None 50 0 "env0 5 9"]
    by (auto simp: env0_def ROLE_GUARD_def)
qed

text \<open>
  The check-in upload leaves no orphaned photo where the clean-up delete works: a refused request
  leaves the object store and the tables alone, an accepted one adds the photo of exactly the stored
  report.
\<close>
theorem check_in_upload_atomic:
  assumes "api_create_progress_report env up del db s3 user bid fresh parsed later = (res, db', s3')"
    and "\<forall>k. del k"
  shows "case res of
      Inl e \<Rightarrow> db' = later \<and> s3' = s3
    | Inr r \<Rightarrow> s3' = pr_photo_key r # s3 \<and> progress_reports db' = progress_reports later @ [r]
        \<and> pr_booking r = bid \<and> pr_guard r = au_id user"
proof (cases "check_in_preflight env db user bid parsed")
  case (Inl e)
  with assms(1) show ?thesis by (auto simp: api_create_progress_report_def)
next
  case (Inr fe)
  then obtain form ext where pre: "check_in_preflight env db user bid parsed = Inr (form, ext)"
    by (cases fe) auto
  show ?thesis
  proof (cases "up (photo_key bid fresh ext)")
    case False
    with assms(1) pre show ?thesis by (auto simp: api_create_progress_report_def Let_def)
  next
    case True
    let ?rep = "\<lparr>np_hour = cf_hour form, np_photo_key = photo_key bid fresh ext, np_lat = cf_lat form,
        np_lng = cf_lng form, np_accuracy = cf_accuracy form, np_note = cf_note form\<rparr>"
    show ?thesis
    proof (cases "create_progress_report env later bid (au_id user) ?rep")
      case (Inl e)
      with assms pre True show ?thesis by (auto simp: api_create_progress_report_def Let_def)
    next
      case (Inr rd)
      then obtain r db'' where r: "create_progress_report env later bid (au_id user) ?rep = Inr (r, db'')"
        by (cases rd) auto
      then have "progress_reports db'' = progress_reports later @ [r]"
        "r = progress_row env bid (au_id user) ?rep"
        by (auto simp: create_progress_report_Inr_iff)
      with r assms(1) pre True show ?thesis
        by (auto simp: api_create_progress_report_def Let_def progress_row_def)
    qed
  qed
qed

lemma check_in_upload_atomic_witness:
  "\<exists>r db' s3'. api_create_progress_report (env0 5 9) (\<lambda>k. True) (\<lambda>k. True)
      (db0 (row0 Arrived\<lparr>bk_work_started_at := Some 0\<rparr>) []) [''a''] \<lparr>au_id = 2, au_role = ''guard''\<rparr> 7 11
      (Inr \<lparr>cf_hour = 1, cf_photo = [0xFF, 0xD8, 0xFF], cf_mime = ''image/jpeg'', cf_lat = None,
            cf_lng = None, cf_accuracy = None, cf_note = None\<rparr>)
      (db0 (row0 Arrived\<lparr>bk_work_started_at := Some 0\<rparr>) []) = (Inr r, db', s3')
    \<and> s3' = [pr_photo_key r, ''a''] \<and> progress_reports db' = [r]"
proof -
  let ?db = "db0 (row0 Arrived\<lparr>bk_work_started_at := Some 0\<rparr>) []"
  let ?f = "\<lparr>cf_hour = 1, cf_photo = [0xFF, 0xD8, 0xFF], cf_mime = ''image/jpeg'', cf_lat = None,
            cf_lng = None, cf_accuracy = None, cf_note = None\<rparr>"
  let ?u = "\<lparr>au_id = 2, au_role = ''guard''\<rparr>"
  obtain res db' s3' where e: "api_create_progress_report (env0 5 9) (\<lambda>k. True) (\<lambda>k. True) ?db [''a'']
      ?u 7 11 (Inr ?f) ?db = (res, db', s3')"
    by (rule prod_cases3)
  have h: "validate_check_in Arrived (Some 0) 2 1 5 = Inr ()"
    by (simp add: check_in_ok_iff hours_dur_def minutes_def nanos_per_sec_def)
  have p: "validate_photo_upload ''image/jpeg'' (Suc (Suc (Suc 0))) [0xFF, 0xD8, 0xFF] = Inr ''image/jpeg''"
    by (simp add: photo_ok_iff MAX_PHOTO_SIZE_def detect_image_mime_def)
  have pre: "check_in_preflight (env0 5 9) ?db ?u 7 (Inr ?f) = Inr (?f, ''jpg'')"
    using h p by (simp add: check_in_preflight_def locked_current_def row0_def env0_def
        progress_report_exists_def mime_to_extension_def ROLE_GUARD_def)
  have "is_ok (create_progress_report (env0 5 9) ?db 7 2 rep)" if "np_hour rep = 1" for rep
    using h that by (simp add: create_progress_report_def locked_current_def row0_def env0_def
        is_participant_def progress_report_exists_def Let_def)
  then obtain r d where "create_progress_report (env0 5 9) ?db 7 2
      \<lparr>np_hour = 1, np_photo_key = photo_key 7 11 ''jpg'', np_lat = None, np_lng = None,
        np_accuracy = None, np_note = None\<rparr> = Inr (r, d)"
    by (fastforce simp: is_ok_iff)
  then have "is_ok res"
    using e by (auto simp: api_create_progress_report_def pre Let_def)
  then obtain r where "res = Inr r" by (auto simp: is_ok_iff)
  note r = e [unfolded this]
  from check_in_upload_atomic [OF r] r show ?thesis by simp
qed

subsection \<open>What a booking costs\<close>

context decimal_ops begin

lemma created_row_terms:
  assumes "api_create_booking L env cat db user req = Inr ((bid, b), db')"
  shows "au_role user = ''customer'' \<and> bk_customer b = au_id user \<and> bk_status b = Requested
    \<and> 1 \<le> bk_guard_count b \<and> bk_guard_count b \<le> 20
    \<and> 0 \<le> bk_tip b \<and> bk_tip b \<le> 1000000 \<and> on_grid 2 (bk_tip b)
    \<and> (case cr_service_id req of
         None \<Rightarrow> bk_base_fee b = 500 \<and> bk_commission_percent b = Some 0 \<and> bk_cancellation_fee b = Some 0
       | Some sid \<Rightarrow> \<exists>sv. row_get cat sid = Some sv \<and> sv_is_active sv \<and> sv_min_hours sv \<le> bk_hours b
           \<and> bk_base_fee b = sv_base_fee sv
           \<and> bk_commission_percent b = Some (lib_round_dp L (sv_commission_percent sv) 2)
           \<and> bk_cancellation_fee b = Some (lib_round_dp L (sv_cancellation_fee sv) 2))
    \<and> row_get (bookings db') bid = Some b
    \<and> (\<exists>r. outbox db' = outbox db @ [r] \<and> ob_topic r = BOOKING_REQUESTED)"
proof -
  from assms obtain n tip pricing where v: "validate_create L (utc_now env) req = Inr (n, tip)"
    and p: "resolve_pricing cat (cr_service_id req) (cr_hours req) = Inr pricing"
    and c: "create_booking L env db (au_id user) req n tip pricing = Inr ((bid, b), db')"
    and role: "au_role user = ''customer''"
    by (auto simp: api_create_booking_def res_bind_Inr_iff split: if_splits)
  from c have b: "b = new_booking_row L env (au_id user) req n tip pricing"
    and row: "row_get (bookings db') bid = Some b"
    and ev: "\<exists>r. outbox db' = outbox db @ [r] \<and> ob_topic r = BOOKING_REQUESTED"
    by (auto simp: create_booking_def Let_def emit_def enqueue_outbox_def
        event_for_booking_requested_def split: if_splits)
  from validate_create_Inr(7) [OF v] obtain t where t: "0 \<le> t" "t \<le> 1000000" "tip = money_scale L t"
    by blast
  have tip: "0 \<le> tip \<and> tip \<le> 1000000 \<and> on_grid 2 tip"
    using t by (simp add: money_scale_eq round_grid round_nonneg round_le)
  have zero: "lib_round_dp L 0 2 = 0" by (rule round_fixed) (simp add: on_grid_def)
  have terms: "case cr_service_id req of
      None \<Rightarrow> bk_base_fee b = 500 \<and> bk_commission_percent b = Some 0 \<and> bk_cancellation_fee b = Some 0
    | Some sid \<Rightarrow> \<exists>sv. row_get cat sid = Some sv \<and> sv_is_active sv \<and> sv_min_hours sv \<le> bk_hours b
        \<and> bk_base_fee b = sv_base_fee sv
        \<and> bk_commission_percent b = Some (lib_round_dp L (sv_commission_percent sv) 2)
        \<and> bk_cancellation_fee b = Some (lib_round_dp L (sv_cancellation_fee sv) 2)"
    using p unfolding b
    by (auto simp: resolve_pricing_def get_active_service_def new_booking_row_def terms_or_zero_def
        money_scale_eq zero DEFAULT_BASE_FEE_def split: option.splits if_splits)
  show ?thesis
    using role tip terms row ev validate_create_Inr(5,6) [OF v]
    by (simp add: b) (simp add: new_booking_row_def terms_or_zero_def split_beta)
qed

end

text \<open>
  A new booking is priced by the server alone: its fee, commission and cancellation fee are a
  snapshot of the active catalog service (or the default rate with no terms), its tip is a scaled
  amount between zero and a million, and its request event is in the outbox.
\<close>
theorem booking_priced_by_catalog:
  assumes "decimal_ops L" and "api_create_booking L env cat db user req = Inr ((bid, b), db')"
  shows "au_role user = ''customer'' \<and> bk_customer b = au_id user \<and> bk_status b = Requested
    \<and> 1 \<le> bk_guard_count b \<and> bk_guard_count b \<le> 20
    \<and> 0 \<le> bk_tip b \<and> bk_tip b \<le> 1000000 \<and> on_grid 2 (bk_tip b)
    \<and> (case cr_service_id req of
         None \<Rightarrow> bk_base_fee b = 500 \<and> bk_commission_percent b = Some 0 \<and> bk_cancellation_fee b = Some 0
       | Some sid \<Rightarrow> \<exists>sv. row_get cat sid = Some sv \<and> sv_is_active sv \<and> sv_min_hours sv \<le> bk_hours b
           \<and> bk_base_fee b = sv_base_fee sv
           \<and> bk_commission_percent b = Some (lib_round_dp L (sv_commission_percent sv) 2)
           \<and> bk_cancellation_fee b = Some (lib_round_dp L (sv_cancellation_fee sv) 2))
    \<and> row_get (bookings db') bid = Some b
    \<and> (\<exists>r. outbox db' = outbox db @ [r] \<and> ob_topic r = BOOKING_REQUESTED)"
  by (rule decimal_ops.created_row_terms [OF assms])

definition service0 :: service_item where
  "service0 = \<lparr>sv_name_th = ''a'', sv_name_en = ''b'', sv_base_fee = 650, sv_min_hours = 2,
    sv_commission_percent = 12, sv_cancellation_fee = 100, sv_notes = None, sv_is_active = True,
    sv_created_at = 0, sv_updated_at = 0\<rparr>"

definition request0 :: create_request where
  "request0 = \<lparr>cr_address = ''x'', cr_scheduled_at = 9, cr_hours = 2, cr_service_id = Some 4,
    cr_guard_count = None, cr_tip = Some 10, cr_lat = None, cr_lng = None, cr_target_guard = None\<rparr>"

lemma booking_priced_by_catalog_witness:
  "\<exists>bid b db'. api_create_booking bankers_lib (env0 5 9) [(4, service0)] empty_booking_db
      \<lparr>au_id = 3, au_role = ''customer''\<rparr> request0 = Inr ((bid, b), db')
    \<and> bk_base_fee b = 650"
proof -
  let ?u = "\<lparr>au_id = 3, au_role = ''customer''\<rparr>"
  have "is_ok (api_create_booking bankers_lib (env0 5 9) [(4, service0)] empty_booking_db ?u request0)"
    by code_simp
  then obtain bid b db' where r: "api_create_booking bankers_lib (env0 5 9) [(4, service0)]
      empty_booking_db ?u request0 = Inr ((bid, b), db')"
    by (auto simp: is_ok_iff)
  from booking_priced_by_catalog [OF bankers_ops r] r show ?thesis
    by (auto simp: request0_def service0_def row_get_def)
qed

end
