(* ===== verification/Payment_Pricing.thy ===== *)
theory Payment_Pricing
  imports Decimal Shared_Error
begin

text \<open>
  What a job costs: proration (\<open>services/payment/src/domain/proration.rs\<close>) and pricing
  (\<open>services/payment/src/domain/pricing.rs\<close>). An \<open>i32\<close> or \<open>i64\<close> count is an \<open>int\<close>: the code only
  clamps it and converts it to a decimal.
\<close>

subsection \<open>Proration\<close>

definition SECONDS_PER_HOUR :: int where
  "SECONDS_PER_HOUR = 3600"

record proration =
  pn_actual_hours :: decimal
  pn_final_amount :: decimal
  pn_refund_amount :: decimal

definition compute_proration :: "decimal_lib \<Rightarrow> decimal \<Rightarrow> int \<Rightarrow> int \<Rightarrow> proration" where
  "compute_proration L original_amount booked_hours actual_seconds =
    (let secs = max actual_seconds 0;
         raw_hours = lib_div L (of_int secs) (of_int SECONDS_PER_HOUR)
     in if booked_hours \<le> 0
        then \<lparr>pn_actual_hours = raw_hours, pn_final_amount = original_amount, pn_refund_amount = 0\<rparr>
        else
          let booked_dec = of_int booked_hours;
              actual = (if booked_dec < raw_hours then booked_dec else raw_hours);
              final_amount = (if actual = 0 then 0
                 else lib_round_dp L (lib_div L (lib_mul L original_amount actual) booked_dec) 2);
              refund = (if final_amount < original_amount then original_amount - final_amount else 0)
          in \<lparr>pn_actual_hours = lib_round_dp L actual 2, pn_final_amount = final_amount,
              pn_refund_amount = refund\<rparr>)"

subsection \<open>VAT and the bill\<close>

definition VAT_RATE :: decimal where
  "VAT_RATE = 7 / 100"

record price_breakdown =
  pb_subtotal :: decimal
  pb_vat :: decimal
  pb_grand_total :: decimal

definition vat_on :: "decimal_lib \<Rightarrow> decimal \<Rightarrow> decimal" where
  "vat_on L subtotal = lib_round_dp L (subtotal * VAT_RATE) 2"

definition vat_within :: "decimal_lib \<Rightarrow> decimal \<Rightarrow> decimal" where
  "vat_within L gross = lib_round_dp L (lib_div L (gross * VAT_RATE) (1 + VAT_RATE)) 2"

definition from_subtotal :: "decimal_lib \<Rightarrow> decimal \<Rightarrow> price_breakdown" where
  "from_subtotal L subtotal =
    (let s = lib_round_dp L (max subtotal 0) 2; vat = vat_on L s
     in \<lparr>pb_subtotal = s, pb_vat = vat, pb_grand_total = s + vat\<rparr>)"

definition from_gross :: "decimal_lib \<Rightarrow> decimal \<Rightarrow> price_breakdown" where
  "from_gross L gross =
    (let g = lib_round_dp L (max gross 0) 2; vat = vat_within L g
     in \<lparr>pb_subtotal = g - vat, pb_vat = vat, pb_grand_total = g\<rparr>)"

record pricing_inputs =
  pi_base_fee :: decimal
  pi_booked_hours :: int
  pi_guard_count :: int
  pi_tip :: decimal

record charge_terms =
  ct_inputs :: pricing_inputs
  ct_breakdown :: price_breakdown
  ct_commission_percent :: decimal
  ct_cancellation_fee :: decimal

definition subtotal :: "decimal_lib \<Rightarrow> decimal \<Rightarrow> int \<Rightarrow> int \<Rightarrow> decimal \<Rightarrow> decimal" where
  "subtotal L base_fee hours guard_count tip =
    lib_round_dp L (base_fee * of_int (max hours 0) * of_int (max guard_count 0) + tip) 2"

definition price_breakdown_of :: "decimal_lib \<Rightarrow> decimal \<Rightarrow> int \<Rightarrow> int \<Rightarrow> decimal \<Rightarrow> price_breakdown" where
  "price_breakdown_of L base_fee hours guard_count tip =
    from_subtotal L (subtotal L base_fee hours guard_count tip)"

definition expected_total :: "decimal_lib \<Rightarrow> decimal \<Rightarrow> int \<Rightarrow> int \<Rightarrow> decimal \<Rightarrow> decimal" where
  "expected_total L base_fee hours guard_count tip =
    pb_grand_total (price_breakdown_of L base_fee hours guard_count tip)"

definition clamp :: "decimal \<Rightarrow> decimal \<Rightarrow> decimal \<Rightarrow> decimal" where
  "clamp lo hi x = (if x < lo then lo else if hi < x then hi else x)"

definition new_charge_terms :: "decimal_lib \<Rightarrow> pricing_inputs \<Rightarrow> decimal \<Rightarrow> decimal \<Rightarrow> charge_terms" where
  "new_charge_terms L inputs commission_percent cancellation_fee =
    \<lparr>ct_inputs = inputs,
     ct_breakdown = price_breakdown_of L (pi_base_fee inputs) (pi_booked_hours inputs)
       (pi_guard_count inputs) (pi_tip inputs),
     ct_commission_percent = lib_round_dp L (clamp 0 100 commission_percent) 2,
     ct_cancellation_fee = lib_round_dp L (max cancellation_fee 0) 2\<rparr>"

definition cancellation_fee_charged :: "decimal_lib \<Rightarrow> decimal \<Rightarrow> decimal \<Rightarrow> decimal" where
  "cancellation_fee_charged L fee amount_paid =
    lib_round_dp L (min (max fee 0) (max amount_paid 0)) 2"

definition is_payable_status :: "string \<Rightarrow> bool" where
  "is_payable_status status =
    (status = ''accepted'' \<or> status = ''en_route'' \<or> status = ''arrived'' \<or> status = ''pending_completion'')"

definition is_negative_terminal :: "string \<Rightarrow> bool" where
  "is_negative_terminal status = (status = ''declined'' \<or> status = ''cancelled'')"

subsection \<open>The guard's pay basis and the commission\<close>

definition HUNDRED :: decimal where
  "HUNDRED = 100"

definition guard_gross :: "decimal_lib \<Rightarrow> decimal \<Rightarrow> decimal \<Rightarrow> decimal" where
  "guard_gross L base_fee hours = lib_round_dp L (base_fee * hours) 2"

definition commission_on :: "decimal_lib \<Rightarrow> decimal \<Rightarrow> decimal option \<Rightarrow> decimal" where
  "commission_on L gross commission_percent =
    (let pct = clamp 0 HUNDRED (case commission_percent of Some p \<Rightarrow> p | None \<Rightarrow> 0)
     in lib_round_dp L (lib_div L (gross * pct) HUNDRED) 2)"

definition commission_amount :: "decimal_lib \<Rightarrow> charge_terms \<Rightarrow> decimal" where
  "commission_amount L t =
    commission_on L
      (guard_gross L (pi_base_fee (ct_inputs t)) (of_int (max (pi_booked_hours (ct_inputs t)) 0)))
      (Some (ct_commission_percent t))"

subsection \<open>Reconciling the pre-paid amount\<close>

datatype reconciliation =
    Even price_breakdown
  | Refund price_breakdown decimal
  | Extra price_breakdown decimal

definition post_pay_subtotal ::
  "decimal_lib \<Rightarrow> decimal \<Rightarrow> int \<Rightarrow> int \<Rightarrow> decimal \<Rightarrow> int option \<Rightarrow> decimal" where
  "post_pay_subtotal L base_fee booked_hours guard_count tip actual_seconds =
    (let booked_base = subtotal L base_fee booked_hours guard_count 0;
         base_due = (case actual_seconds of
             Some secs \<Rightarrow> pn_final_amount (compute_proration L booked_base booked_hours secs)
           | None \<Rightarrow> booked_base)
     in lib_round_dp L (base_due + max tip 0) 2)"

definition settled_breakdown ::
  "decimal_lib \<Rightarrow> decimal \<Rightarrow> int \<Rightarrow> int \<Rightarrow> decimal \<Rightarrow> int option \<Rightarrow> price_breakdown" where
  "settled_breakdown L base_fee booked_hours guard_count tip actual_seconds =
    from_subtotal L (post_pay_subtotal L base_fee booked_hours guard_count tip actual_seconds)"

definition reconcile ::
  "decimal_lib \<Rightarrow> decimal \<Rightarrow> decimal \<Rightarrow> int \<Rightarrow> int \<Rightarrow> decimal \<Rightarrow> int option \<Rightarrow> reconciliation" where
  "reconcile L paid_amount base_fee booked_hours guard_count tip actual_seconds =
    (let settled = settled_breakdown L base_fee booked_hours guard_count tip actual_seconds
     in if pb_grand_total settled = paid_amount then Even settled
        else if pb_grand_total settled < paid_amount
        then Refund settled (lib_round_dp L (paid_amount - pb_grand_total settled) 2)
        else Extra settled (lib_round_dp L (pb_grand_total settled - paid_amount) 2))"

fun settled_of :: "reconciliation \<Rightarrow> price_breakdown" where
  "settled_of (Even s) = s"
| "settled_of (Refund s r) = s"
| "settled_of (Extra s x) = s"

subsection \<open>What the arithmetic guarantees\<close>

text \<open>
  A stored amount of at most ten billion baht (the range of a \<open>NUMERIC(12,2)\<close>), on the scale of its column, and a number of hours a
  booking can have.
\<close>

definition money :: "decimal \<Rightarrow> bool" where
  "money x = (0 \<le> x \<and> on_grid 2 x \<and> x \<le> 10000000000)"

lemma moneyD: "money x \<Longrightarrow> 0 \<le> x" "money x \<Longrightarrow> on_grid 2 x" "money x \<Longrightarrow> x \<le> 10000000000"
  by (simp_all add: money_def)

lemma representable_int: "\<bar>n\<bar> < 10 ^ 15 \<Longrightarrow> representable (of_int n)"
proof -
  assume "\<bar>n\<bar> < 10 ^ 15"
  then have "\<bar>rat_of_int n\<bar> < of_int (10 ^ 15)" by (metis of_int_abs of_int_less_iff)
  then show ?thesis by (simp add: representable_def)
qed

lemma representable_money: "money x \<Longrightarrow> representable x"
  by (rule representable_grid2) (auto simp: money_def)

lemma representable_money_mult:
  assumes "money x" and "0 \<le> n" and "n \<le> 1000"
  shows "representable (x * of_int n)"
proof (rule representable_grid2)
  show "on_grid 2 (x * of_int n)" using assms(1) by (simp add: moneyD on_grid_mult_int)
  have "rat_of_int n \<le> of_int 1000" using assms(3) by (simp only: of_int_le_iff)
  then have "x * of_int n \<le> 10000000000 * 1000"
    using assms by (intro mult_mono) (simp_all add: moneyD)
  moreover have "0 \<le> x * of_int n" using assms by (simp add: moneyD)
  ultimately show "\<bar>x * of_int n\<bar> < 10 ^ 15" by simp
qed

context decimal_ops begin

lemma round_add_grid: "on_grid d x \<Longrightarrow> on_grid d y \<Longrightarrow> lib_round_dp L (x + y) d = x + y"
  by (simp add: round_fixed on_grid_add)

lemma round_diff_grid: "on_grid d x \<Longrightarrow> on_grid d y \<Longrightarrow> lib_round_dp L (x - y) d = x - y"
  by (simp add: round_fixed on_grid_diff)

text \<open>Proration: between nothing and the whole, with what is left refunded.\<close>

lemma raw_hours_nonneg: "0 \<le> lib_div L (of_int (max s 0)) (of_int SECONDS_PER_HOUR)"
  by (rule div_nonneg) (simp_all add: SECONDS_PER_HOUR_def)

lemma proration_bounds:
  assumes m: "money x" and h: "0 < h" "h \<le> 1000"
  shows "0 \<le> pn_final_amount (compute_proration L x h s)"
    and "pn_final_amount (compute_proration L x h s) \<le> x"
    and "on_grid 2 (pn_final_amount (compute_proration L x h s))"
    and "pn_final_amount (compute_proration L x h s) + pn_refund_amount (compute_proration L x h s) = x"
proof -
  let ?raw = "lib_div L (of_int (max s 0)) (of_int SECONDS_PER_HOUR)"
  let ?act = "if of_int h < ?raw then of_int h else ?raw"
  let ?fin = "if ?act = 0 then 0 else lib_round_dp L (lib_div L (lib_mul L x ?act) (of_int h)) 2"
  have act: "0 \<le> ?act" "?act \<le> of_int h" using h raw_hours_nonneg [of s] by auto
  have "lib_mul L x ?act \<le> lib_mul L x (of_int h)" using m act by (intro mul_mono) (simp_all add: moneyD)
  also have "\<dots> = x * of_int h"
    using m h by (intro mul_exact representable_money_mult) simp_all
  finally have le: "lib_div L (lib_mul L x ?act) (of_int h) \<le> x"
    using h m by (intro div_le) (simp_all add: representable_money)
  have ge: "0 \<le> lib_div L (lib_mul L x ?act) (of_int h)"
    using h m act by (intro div_nonneg mul_nonneg) (simp_all add: moneyD)
  have fin: "pn_final_amount (compute_proration L x h s) = ?fin"
    using h by (simp add: compute_proration_def Let_def)
  have f: "0 \<le> ?fin" "?fin \<le> x" "on_grid 2 ?fin"
    using ge le m round_nonneg round_le by (auto simp: moneyD round_grid)
  show "0 \<le> pn_final_amount (compute_proration L x h s)"
    "pn_final_amount (compute_proration L x h s) \<le> x"
    "on_grid 2 (pn_final_amount (compute_proration L x h s))"
    using f unfolding fin by simp_all
  show "pn_final_amount (compute_proration L x h s) + pn_refund_amount (compute_proration L x h s) = x"
    using f h by (auto simp: compute_proration_def Let_def)
qed

lemma proration_full:
  assumes m: "money x" and h: "0 < h" "h \<le> 1000" and s: "3600 * h \<le> s"
  shows "pn_final_amount (compute_proration L x h s) = x"
proof -
  let ?raw = "lib_div L (of_int (max s 0)) (of_int SECONDS_PER_HOUR)"
  have "of_int h \<le> ?raw"
  proof (rule div_ge)
    have "of_int (h * 3600) \<le> rat_of_int (max s 0)" using s h by (simp only: of_int_le_iff)
    then show "of_int h * of_int SECONDS_PER_HOUR \<le> rat_of_int (max s 0)"
      by (simp add: SECONDS_PER_HOUR_def)
  qed (use h in \<open>simp_all add: SECONDS_PER_HOUR_def representable_int\<close>)
  then have act: "(if of_int h < ?raw then of_int h else ?raw) = of_int h" by auto
  have "lib_div L (lib_mul L x (of_int h)) (of_int h) = x"
    using h m by (simp add: mul_exact representable_money_mult div_cancel representable_money)
  with act h m show ?thesis
    by (simp add: compute_proration_def Let_def round_fixed moneyD)
qed

lemma proration_mono:
  assumes m: "money x" and h: "0 < h" and "s \<le> t"
  shows "pn_final_amount (compute_proration L x h s) \<le> pn_final_amount (compute_proration L x h t)"
proof -
  define act where "act u = (let raw = lib_div L (of_int (max u 0)) (of_int SECONDS_PER_HOUR)
      in if of_int h < raw then of_int h else raw)" for u
  define fin where "fin u = lib_round_dp L (lib_div L (lib_mul L x (act u)) (of_int h)) 2" for u
  have nn: "0 \<le> act u" for u using h raw_hours_nonneg [of u] by (simp add: act_def Let_def)
  have "of_int (max s 0) \<le> rat_of_int (max t 0)" using \<open>s \<le> t\<close> by (simp only: of_int_le_iff)
  then have "lib_div L (of_int (max s 0)) (of_int SECONDS_PER_HOUR)
      \<le> lib_div L (of_int (max t 0)) (of_int SECONDS_PER_HOUR)"
    by (intro div_mono) (simp_all add: SECONDS_PER_HOUR_def)
  then have "act s \<le> act t" by (auto simp: act_def Let_def)
  then have le: "fin s \<le> fin t"
    unfolding fin_def using h m by (intro round_mono div_mono mul_mono) (simp_all add: moneyD)
  have "0 \<le> fin u" for u
    unfolding fin_def using h m nn by (intro round_nonneg div_nonneg mul_nonneg) (simp_all add: moneyD)
  moreover have "act t = 0 \<Longrightarrow> act s = 0" using \<open>act s \<le> act t\<close> nn [of s] by simp
  moreover have "pn_final_amount (compute_proration L x h u) = (if act u = 0 then 0 else fin u)" for u
    using h by (simp add: compute_proration_def Let_def act_def fin_def)
  ultimately show ?thesis using le by auto
qed

text \<open>The parts of a bill always add up, both ways round.\<close>

lemma from_subtotal_parts:
  "pb_subtotal (from_subtotal L x) + pb_vat (from_subtotal L x) = pb_grand_total (from_subtotal L x)"
  "0 \<le> pb_subtotal (from_subtotal L x)" "0 \<le> pb_vat (from_subtotal L x)"
  "on_grid 2 (pb_subtotal (from_subtotal L x))" "on_grid 2 (pb_vat (from_subtotal L x))"
  "on_grid 2 (pb_grand_total (from_subtotal L x))"
  by (simp_all add: from_subtotal_def Let_def vat_on_def VAT_RATE_def round_nonneg round_grid on_grid_add)

lemma from_subtotal_mono:
  assumes "x \<le> y"
  shows "pb_grand_total (from_subtotal L x) \<le> pb_grand_total (from_subtotal L y)"
proof -
  have s: "lib_round_dp L (max x 0) 2 \<le> lib_round_dp L (max y 0) 2"
    using assms by (intro round_mono) auto
  then have "vat_on L (lib_round_dp L (max x 0) 2) \<le> vat_on L (lib_round_dp L (max y 0) 2)"
    unfolding vat_on_def
    by (intro round_mono [of "a * VAT_RATE" "b * VAT_RATE" for a b] mult_right_mono [OF s])
      (simp add: VAT_RATE_def)
  with s show ?thesis by (simp add: from_subtotal_def Let_def)
qed

lemma vat_within_bounds:
  assumes "money g"
  shows "0 \<le> vat_within L g" and "vat_within L g \<le> g"
proof -
  have "0 \<le> lib_div L (g * VAT_RATE) (1 + VAT_RATE)"
    using assms by (intro div_nonneg) (simp_all add: VAT_RATE_def moneyD)
  moreover have "lib_div L (g * VAT_RATE) (1 + VAT_RATE) \<le> g"
    using assms by (intro div_le representable_money) (simp_all add: VAT_RATE_def moneyD)
  ultimately show "0 \<le> vat_within L g" "vat_within L g \<le> g"
    using assms by (simp_all add: vat_within_def round_nonneg round_le moneyD)
qed

lemma from_gross_parts:
  assumes "money g"
  shows "pb_subtotal (from_gross L g) + pb_vat (from_gross L g) = g"
    "pb_grand_total (from_gross L g) = g"
    "0 \<le> pb_subtotal (from_gross L g)" "0 \<le> pb_vat (from_gross L g)"
    "on_grid 2 (pb_subtotal (from_gross L g))"
proof -
  have "lib_round_dp L (max g 0) 2 = g" using assms by (simp add: round_fixed moneyD max_absorb1)
  then show "pb_subtotal (from_gross L g) + pb_vat (from_gross L g) = g"
    "pb_grand_total (from_gross L g) = g"
    "0 \<le> pb_subtotal (from_gross L g)" "0 \<le> pb_vat (from_gross L g)"
    "on_grid 2 (pb_subtotal (from_gross L g))"
    using vat_within_bounds [OF assms] assms
    by (simp_all add: from_gross_def Let_def vat_within_def on_grid_diff round_grid moneyD)
qed

lemma fee_charged_bounds:
  assumes "money paid"
  shows "0 \<le> cancellation_fee_charged L fee paid" "cancellation_fee_charged L fee paid \<le> paid"
    "on_grid 2 (cancellation_fee_charged L fee paid)"
  using assms
  by (simp_all add: cancellation_fee_charged_def round_grid round_nonneg round_le moneyD max_absorb1)

text \<open>The reconciliation moves exactly the difference, and in one direction.\<close>

lemma settled_grid: "on_grid 2 (pb_grand_total (settled_breakdown L b h n t s))"
  by (simp add: settled_breakdown_def from_subtotal_parts)

lemma reconcile_balances:
  assumes "on_grid 2 paid"
  shows "case reconcile L paid b h n t s of
      Even st \<Rightarrow> pb_grand_total st = paid
    | Refund st r \<Rightarrow> 0 < r \<and> pb_grand_total st + r = paid
    | Extra st x \<Rightarrow> 0 < x \<and> pb_grand_total st = paid + x"
  using assms settled_grid
  by (auto simp: reconcile_def Let_def round_diff_grid)

lemma subtotal_grid: "on_grid 2 (subtotal L b h n t)"
  by (simp add: subtotal_def round_grid)

text \<open>Worked hours never bill more than the booked hours did.\<close>

lemma post_pay_le:
  assumes "money b" "money t" "0 < h" "h \<le> 1000" "0 \<le> n" "money (subtotal L b h n 0)"
  shows "post_pay_subtotal L b h n t s \<le> subtotal L b h n t"
proof -
  let ?base = "subtotal L b h n 0"
  have bb: "?base = b * of_int h * of_int n"
    using assms by (simp add: subtotal_def round_fixed on_grid_mult_int moneyD max_absorb1)
  have "(case s of Some secs \<Rightarrow> pn_final_amount (compute_proration L ?base h secs) | None \<Rightarrow> ?base) \<le> ?base"
    using proration_bounds(2) [OF assms(6,3,4)] by (cases s) simp_all
  then have "post_pay_subtotal L b h n t s \<le> lib_round_dp L (?base + t) 2"
    using assms(2) by (auto simp: post_pay_subtotal_def Let_def moneyD max_absorb1 intro!: round_mono)
  also have "\<dots> = subtotal L b h n t"
  proof -
    have "lib_round_dp L (b * of_int h * of_int n) 2 = b * of_int h * of_int n"
      using assms by (intro round_fixed on_grid_mult_int) (simp add: moneyD)
    then show ?thesis using assms by (simp add: subtotal_def max_absorb1)
  qed
  finally show ?thesis .
qed

lemma settled_le_expected:
  assumes "money b" "money t" "0 < h" "h \<le> 1000" "0 \<le> n" "money (subtotal L b h n 0)"
  shows "pb_grand_total (settled_breakdown L b h n t s) \<le> expected_total L b h n t"
  unfolding settled_breakdown_def expected_total_def price_breakdown_of_def
  by (rule from_subtotal_mono) (rule post_pay_le [OF assms])

lemma reconcile_never_extra:
  assumes "money b" "money t" "0 < h" "h \<le> 1000" "0 \<le> n" "money (subtotal L b h n 0)"
    and "expected_total L b h n t \<le> paid"
  shows "reconcile L paid b h n t s \<noteq> Extra st x"
proof -
  have "pb_grand_total (settled_breakdown L b h n t s) \<le> paid"
    using settled_le_expected [OF assms(1-6)] assms(7) by (rule order_trans)
  then show ?thesis by (auto simp: reconcile_def Let_def)
qed

text \<open>The commission comes out of the guard's pay and is never more than it.\<close>

lemma commission_bounds:
  assumes "money g"
  shows "0 \<le> commission_on L g p" "commission_on L g p \<le> g" "on_grid 2 (commission_on L g p)"
proof -
  let ?pct = "clamp 0 HUNDRED (case p of Some p \<Rightarrow> p | None \<Rightarrow> 0)"
  have pct: "0 \<le> ?pct" "?pct \<le> 100" by (auto simp: clamp_def HUNDRED_def)
  have "0 \<le> lib_div L (g * ?pct) HUNDRED"
    using assms pct by (intro div_nonneg) (simp_all add: HUNDRED_def moneyD)
  moreover have "lib_div L (g * ?pct) HUNDRED \<le> g"
    using assms pct by (intro div_le representable_money) (simp_all add: HUNDRED_def moneyD mult_left_mono)
  ultimately show "0 \<le> commission_on L g p" "commission_on L g p \<le> g" "on_grid 2 (commission_on L g p)"
    using assms by (simp_all add: commission_on_def Let_def round_nonneg round_le round_grid moneyD)
qed

end

end
