(* ===== verification/Payment_Settlement.thy ===== *)
theory Payment_Settlement
  imports Payment_Pricing
begin

text \<open>
  Where one settled payment's money went (\<open>services/payment/src/domain/settlement.rs\<close>): the split into
  refund, VAT, guard, withheld tax and the platform's cut, and the reasons a row cannot be split. The
  reasons' sentences for the admin are English glosses of the source's Thai.
\<close>

text \<open>
  Transfer files (\<open>services/payment/src/domain/batch_status.rs\<close>, \<open>payout.rs\<close>, \<open>deduction.rs\<close>): the
  lifecycle of a batch, the selections an admin builds one from, and what a guard is paid. A calendar
  date is its day number. Sentences for the admin are English glosses of the source's Thai.
\<close>

datatype snapshot_gap = NotSettled | NoVatSplit | NoPricingSnapshot | DoesNotReconcile

fun gap_code :: "snapshot_gap \<Rightarrow> string" where
  "gap_code NotSettled = ''NOT_SETTLED''"
| "gap_code NoVatSplit = ''NO_VAT_SPLIT''"
| "gap_code NoPricingSnapshot = ''NO_PRICING_SNAPSHOT''"
| "gap_code DoesNotReconcile = ''DOES_NOT_RECONCILE''"

record settled_payment =
  sp_amount :: decimal
  sp_overpaid :: decimal
  sp_final_amount :: "decimal option"
  sp_refund_amount :: "decimal option"
  sp_subtotal :: "decimal option"
  sp_vat_amount :: "decimal option"
  sp_cancelled :: bool
  sp_base_fee :: "decimal option"
  sp_booked_hours :: "int option"
  sp_guard_count :: "int option"
  sp_tip :: "decimal option"
  sp_commission_amount :: "decimal option"
  sp_actual_hours :: "decimal option"
  sp_wht_withheld :: decimal

record job_settlement =
  js_customer_paid :: decimal
  js_refunded :: decimal
  js_uncollected :: decimal
  js_vat :: decimal
  js_guard_income :: decimal
  js_wht :: decimal
  js_guard_transfer :: decimal
  js_commission :: decimal
  js_cancellation_fee :: decimal
  js_tip :: decimal
  js_unpaid_guard_share :: decimal
  js_rounding_adjustment :: decimal

definition billed_cut :: "job_settlement \<Rightarrow> decimal" where
  "billed_cut s =
    js_commission s + js_cancellation_fee s + js_tip s + js_unpaid_guard_share s
    + js_rounding_adjustment s"

definition platform_cut :: "job_settlement \<Rightarrow> decimal" where
  "platform_cut s = billed_cut s - js_uncollected s"

definition reconstructed :: "job_settlement \<Rightarrow> decimal" where
  "reconstructed s =
    js_refunded s + js_vat s + js_guard_transfer s + js_wht s + platform_cut s"

definition reconciles :: "job_settlement \<Rightarrow> bool" where
  "reconciles s = (reconstructed s = js_customer_paid s)"

definition cancelled_split :: "decimal \<Rightarrow> decimal \<Rightarrow> decimal \<Rightarrow> decimal \<Rightarrow> decimal \<Rightarrow> job_settlement" where
  "cancelled_split customer_paid refunded uncollected vat sub =
    \<lparr>js_customer_paid = customer_paid, js_refunded = refunded, js_uncollected = uncollected,
     js_vat = vat, js_guard_income = 0, js_wht = 0, js_guard_transfer = 0, js_commission = 0,
     js_cancellation_fee = sub, js_tip = 0, js_unpaid_guard_share = 0,
     js_rounding_adjustment = 0\<rparr>"

definition worked_split ::
  "decimal_lib \<Rightarrow> settled_payment \<Rightarrow> decimal \<Rightarrow> decimal \<Rightarrow> decimal \<Rightarrow> decimal \<Rightarrow> decimal
   \<Rightarrow> (snapshot_gap + job_settlement)" where
  "worked_split L p customer_paid refunded uncollected vat sub =
    (case (sp_base_fee p, sp_booked_hours p, sp_guard_count p, sp_tip p, sp_commission_amount p) of
       (Some base_fee, Some booked_hours, Some guard_count, Some tip, Some commission) \<Rightarrow>
         (let hours = (case sp_actual_hours p of
                Some h \<Rightarrow> h | None \<Rightarrow> of_int (max booked_hours 0));
              gross = guard_gross L base_fee hours;
              guard_income = gross - commission;
              guard_transfer = guard_income - sp_wht_withheld p;
              unpaid_guard_share = gross * of_int (max (guard_count - 1) 0);
              rounding_adjustment = sub - gross - tip - unpaid_guard_share
          in Inr \<lparr>js_customer_paid = customer_paid, js_refunded = refunded,
                  js_uncollected = uncollected, js_vat = vat, js_guard_income = guard_income,
                  js_wht = sp_wht_withheld p, js_guard_transfer = guard_transfer,
                  js_commission = commission, js_cancellation_fee = 0, js_tip = tip,
                  js_unpaid_guard_share = unpaid_guard_share,
                  js_rounding_adjustment = rounding_adjustment\<rparr>)
     | _ \<Rightarrow> Inl NoPricingSnapshot)"

definition components_ok :: "job_settlement \<Rightarrow> bool" where
  "components_ok s =
    (\<not> (js_commission s < 0 \<or> js_cancellation_fee s < 0 \<or> js_tip s < 0
        \<or> js_unpaid_guard_share s < 0 \<or> js_guard_income s < 0 \<or> js_refunded s < 0
        \<or> js_uncollected s < 0 \<or> \<not> reconciles s))"

definition split :: "decimal_lib \<Rightarrow> settled_payment \<Rightarrow> snapshot_gap + job_settlement" where
  "split L p =
    (case sp_final_amount p of
       None \<Rightarrow> Inl NotSettled
     | Some final_amount \<Rightarrow>
       (case (sp_subtotal p, sp_vat_amount p) of
          (Some sub, Some vat) \<Rightarrow>
            (let customer_paid = sp_amount p + sp_overpaid p;
                 refunded = (case sp_refund_amount p of Some r \<Rightarrow> r | None \<Rightarrow> 0);
                 uncollected = final_amount + refunded - customer_paid
             in res_bind
                  (if sp_cancelled p
                   then Inr (cancelled_split customer_paid refunded uncollected vat sub)
                   else worked_split L p customer_paid refunded uncollected vat sub)
                  (\<lambda>settled. if components_ok settled then Inr settled else Inl DoesNotReconcile))
        | _ \<Rightarrow> Inl NoVatSplit))"

subsection \<open>What a split says\<close>

lemma split_Inr:
  assumes "split L p = Inr s"
  shows "components_ok s" "js_customer_paid s = sp_amount p + sp_overpaid p"
    "js_refunded s = (case sp_refund_amount p of Some r \<Rightarrow> r | None \<Rightarrow> 0)"
    "sp_vat_amount p = Some (js_vat s)"
  using assms
  by (auto simp: split_def Let_def res_bind_Inr_iff cancelled_split_def worked_split_def
      split: option.splits if_splits)

lemma components_okD:
  assumes "components_ok s"
  shows "0 \<le> js_commission s" "0 \<le> js_cancellation_fee s" "0 \<le> js_tip s"
    "0 \<le> js_unpaid_guard_share s" "0 \<le> js_guard_income s" "0 \<le> js_refunded s"
    "0 \<le> js_uncollected s" "reconciles s"
  using assms by (auto simp: components_ok_def)

text \<open>
  The equation of the reconstruction holds of a split exactly when the VAT-exclusive bill and the VAT
  add up to the settled bill: the refund, the payments, the withheld tax and the commission cancel out
  of it, since what was not collected is computed from them.
\<close>

lemma worked_reconciles_iff:
  assumes "worked_split L p paid ref (final + ref - paid) vat sub = Inr s"
  shows "reconciles s \<longleftrightarrow> sub + vat = final"
  using assms
  by (auto simp: worked_split_def Let_def reconciles_def reconstructed_def platform_cut_def
      billed_cut_def split: option.splits)

lemma cancelled_reconciles_iff:
  "reconciles (cancelled_split paid ref (final + ref - paid) vat sub) \<longleftrightarrow> sub + vat = final"
  by (auto simp: cancelled_split_def reconciles_def reconstructed_def platform_cut_def billed_cut_def)

lemma split_bill:
  assumes "split L p = Inr s" and "sp_final_amount p = Some f" and "sp_subtotal p = Some sub"
  shows "sub + js_vat s = f" "js_uncollected s = f + js_refunded s - js_customer_paid s"
proof -
  from assms obtain vat where v: "sp_vat_amount p = Some vat"
    by (auto simp: split_def split: option.splits)
  let ?paid = "sp_amount p + sp_overpaid p" and ?ref = "case sp_refund_amount p of Some r \<Rightarrow> r | None \<Rightarrow> 0"
  have r: "reconciles s" using split_Inr(1) [OF assms(1)] by (rule components_okD)
  have s: "(if sp_cancelled p then Inr (cancelled_split ?paid ?ref (f + ?ref - ?paid) vat sub)
      else worked_split L p ?paid ?ref (f + ?ref - ?paid) vat sub) = Inr s"
    using assms v by (auto simp: split_def Let_def res_bind_Inr_iff split: if_splits)
  have "sub + vat = f"
    using s r worked_reconciles_iff cancelled_reconciles_iff by (auto split: if_splits)
  moreover have "js_vat s = vat" using split_Inr(4) [OF assms(1)] v by simp
  ultimately show "sub + js_vat s = f" by simp
  show "js_uncollected s = f + js_refunded s - js_customer_paid s"
    using s by (auto simp: cancelled_split_def worked_split_def Let_def split: if_splits option.splits)
qed

subsection \<open>The lifecycle of a batch\<close>

datatype batch_kind = PayoutBatch | RefundBatch | DeductionBatch

fun already_voided_code :: "batch_kind \<Rightarrow> string" where
  "already_voided_code PayoutBatch = ''PAYOUT_BATCH_ALREADY_VOIDED''"
| "already_voided_code RefundBatch = ''REFUND_BATCH_ALREADY_VOIDED''"
| "already_voided_code DeductionBatch = ''DEDUCTION_BATCH_ALREADY_VOIDED''"

fun terminal_code :: "batch_kind \<Rightarrow> string" where
  "terminal_code PayoutBatch = ''PAYOUT_BATCH_TERMINAL''"
| "terminal_code RefundBatch = ''REFUND_BATCH_TERMINAL''"
| "terminal_code DeductionBatch = ''DEDUCTION_BATCH_TERMINAL''"

fun transition_code :: "batch_kind \<Rightarrow> string" where
  "transition_code PayoutBatch = ''PAYOUT_BATCH_TRANSITION''"
| "transition_code RefundBatch = ''REFUND_BATCH_TRANSITION''"
| "transition_code DeductionBatch = ''DEDUCTION_BATCH_TRANSITION''"

datatype batch_status = Generated | Uploaded | Confirmed | Rejected | Voided

fun batch_as_str :: "batch_status \<Rightarrow> string" where
  "batch_as_str Generated = ''generated''"
| "batch_as_str Uploaded = ''uploaded''"
| "batch_as_str Confirmed = ''confirmed''"
| "batch_as_str Rejected = ''rejected''"
| "batch_as_str Voided = ''voided''"

definition batch_parse :: "string \<Rightarrow> batch_status option" where
  "batch_parse s =
    (if s = ''generated'' then Some Generated
     else if s = ''uploaded'' then Some Uploaded
     else if s = ''confirmed'' then Some Confirmed
     else if s = ''rejected'' then Some Rejected
     else if s = ''voided'' then Some Voided
     else None)"

definition batch_is_terminal :: "batch_status \<Rightarrow> bool" where
  "batch_is_terminal s = (s = Confirmed \<or> s = Voided)"

definition batch_is_legal :: "batch_status \<Rightarrow> batch_status \<Rightarrow> bool" where
  "batch_is_legal a b =
    ((a = Generated \<and> b = Uploaded) \<or> (a = Uploaded \<and> b = Confirmed)
     \<or> (a = Uploaded \<and> b = Rejected)
     \<or> ((a = Generated \<or> a = Uploaded \<or> a = Rejected) \<and> b = Voided))"

definition check_transition :: "batch_kind \<Rightarrow> batch_status \<Rightarrow> batch_status \<Rightarrow> unit app_result" where
  "check_transition kind a b =
    (if batch_is_legal a b then Inr ()
     else if a = Voided \<and> b = Voided
     then Inl (ConflictCode (already_voided_code kind) ''[this file is voided already] - {}'')
     else if batch_is_terminal a
     then Inl (ConflictCode (terminal_code kind) ''[this file is in status {} and cannot change any more]'')
     else Inl (ConflictCode (transition_code kind) ''[cannot change from {} to {}]''))"

lemma batch_parse_exact: "batch_parse t = Some s \<Longrightarrow> t = batch_as_str s"
  by (auto simp: batch_parse_def split: if_splits)

interpretation batch_wire: strict_wire_enum batch_as_str batch_parse
proof unfold_locales
  show "batch_parse (batch_as_str s) = Some s" for s
    by (cases s) (simp_all add: batch_parse_def)
  show "batch_parse t = Some s \<Longrightarrow> t = batch_as_str s" for t s
    by (rule batch_parse_exact)
qed

interpretation batch_life: lifecycle batch_is_legal batch_is_terminal
  by unfold_locales (auto simp: batch_is_legal_def batch_is_terminal_def)

lemma check_transition_ok_iff [simp]: "check_transition k a b = Inr () \<longleftrightarrow> batch_is_legal a b"
  by (simp add: check_transition_def)

subsection \<open>Selections\<close>

record payout_selection =
  ps_guard_ids :: "uuid list option"
  ps_from :: "int option"
  ps_to :: "int option"

definition MAX_SELECTED_GUARDS :: nat where "MAX_SELECTED_GUARDS = 500"
definition MAX_VOIDED_ITEMS :: nat where "MAX_VOIDED_ITEMS = 500"
definition MAX_VOIDED_DEDUCTION_ITEMS :: nat where "MAX_VOIDED_DEDUCTION_ITEMS = 500"

definition range_bad :: "int option \<Rightarrow> int option \<Rightarrow> bool" where
  "range_bad a b = (case (a, b) of (Some x, Some y) \<Rightarrow> y < x | _ \<Rightarrow> False)"

definition validate_payout_selection :: "payout_selection \<Rightarrow> unit app_result" where
  "validate_payout_selection sel =
    (if ps_guard_ids sel = Some []
     then Inl (BadRequest ''[select at least one guard before building the file]'')
     else if (case ps_guard_ids sel of Some ids \<Rightarrow> MAX_SELECTED_GUARDS < length ids | None \<Rightarrow> False)
     then Inl (BadRequest ''[at most {MAX_SELECTED_GUARDS} guards per file]'')
     else if range_bad (ps_from sel) (ps_to sel)
     then Inl (BadRequest ''[invalid date range: the first day must not be after the last]'')
     else Inr ())"

definition normalize_voided_booking_ids :: "uuid list \<Rightarrow> uuid list app_result" where
  "normalize_voided_booking_ids ids =
    (if ids = [] then Inl (BadRequest ''[select at least one job to pull back]'')
     else if MAX_VOIDED_ITEMS < length ids
     then Inl (BadRequest ''[at most {MAX_VOIDED_ITEMS} jobs at a time]'')
     else Inr (dedup ids))"

record deduction_selection =
  ds_from :: "int option"
  ds_to :: "int option"

definition validate_deduction_selection :: "deduction_selection \<Rightarrow> unit app_result" where
  "validate_deduction_selection sel =
    (if range_bad (ds_from sel) (ds_to sel)
     then Inl (BadRequest ''[invalid date range: the first day must not be after the last]'')
     else Inr ())"

definition normalize_voided_payment_ids :: "uuid list \<Rightarrow> uuid list app_result" where
  "normalize_voided_payment_ids ids =
    (if ids = [] then Inl (BadRequest ''[select at least one job to pull back]'')
     else if MAX_VOIDED_DEDUCTION_ITEMS < length ids
     then Inl (BadRequest ''[at most {MAX_VOIDED_DEDUCTION_ITEMS} jobs at a time]'')
     else Inr (dedup ids))"

text \<open>
  One refund obligation is a row of one of two tables (\<open>services/payment/src/domain/refund_export.rs\<close>),
  so the table's name goes with the id.
\<close>

datatype refund_source_kind = PaymentSource | SlipSource

fun kind_as_str :: "refund_source_kind \<Rightarrow> string" where
  "kind_as_str PaymentSource = ''payment''"
| "kind_as_str SlipSource = ''slip''"

definition kind_parse :: "string \<Rightarrow> refund_source_kind option" where
  "kind_parse s =
    (let t = trim s
     in if t = ''payment'' then Some PaymentSource
        else if t = ''slip'' then Some SlipSource
        else None)"

type_synonym refund_source = "refund_source_kind \<times> uuid"

record refund_selection =
  rs_customer_ids :: "uuid list option"
  rs_from :: "int option"
  rs_to :: "int option"

definition MAX_SELECTED_CUSTOMERS :: nat where "MAX_SELECTED_CUSTOMERS = 500"
definition MAX_VOIDED_REFUND_ITEMS :: nat where "MAX_VOIDED_REFUND_ITEMS = 500"

definition validate_refund_selection :: "refund_selection \<Rightarrow> unit app_result" where
  "validate_refund_selection sel =
    (if rs_customer_ids sel = Some []
     then Inl (BadRequest ''[select at least one customer before building the refund file]'')
     else if (case rs_customer_ids sel of Some ids \<Rightarrow> MAX_SELECTED_CUSTOMERS < length ids | None \<Rightarrow> False)
     then Inl (BadRequest ''[at most {MAX_SELECTED_CUSTOMERS} customers per file]'')
     else if range_bad (rs_from sel) (rs_to sel)
     then Inl (BadRequest ''[invalid date range: the first day must not be after the last]'')
     else Inr ())"

fun parse_sources ::
  "(string \<times> uuid) list \<Rightarrow> refund_source list \<Rightarrow> refund_source list app_result" where
  "parse_sources [] out = Inr out"
| "parse_sources ((kind, i) # raw) out =
    (case kind_parse kind of
       None \<Rightarrow> Inl (BadRequest ''[invalid refund kind: must be one of {}]'')
     | Some k \<Rightarrow> parse_sources raw (push_new (k, i) out))"

definition normalize_voided_refund_sources ::
  "(string \<times> uuid) list \<Rightarrow> refund_source list app_result" where
  "normalize_voided_refund_sources raw =
    (if raw = [] then Inl (BadRequest ''[select at least one refund to pull back]'')
     else if MAX_VOIDED_REFUND_ITEMS < length raw
     then Inl (BadRequest ''[at most {MAX_VOIDED_REFUND_ITEMS} refunds at a time]'')
     else parse_sources raw [])"

interpretation kind_wire: wire_enum kind_as_str kind_parse
proof unfold_locales
  show "kind_parse (kind_as_str x) = Some x" for x by (cases x; hypsubst; code_simp)
qed

lemma parse_sources_out:
  "parse_sources raw out = Inr r \<Longrightarrow> distinct out \<Longrightarrow> distinct r \<and> set out \<subseteq> set r
    \<and> length r \<le> length out + length raw"
proof (induction raw out rule: parse_sources.induct)
  case (2 kind i raw out)
  then obtain k where k: "kind_parse kind = Some k" by (auto split: option.splits)
  then have "distinct r \<and> set (push_new (k, i) out) \<subseteq> set r
      \<and> length r \<le> length (push_new (k, i) out) + length raw"
    using 2 by (simp add: distinct_push_new)
  moreover have "length (push_new (k, i) out) \<le> Suc (length out)" by (simp add: push_new_def)
  ultimately show ?case by auto
qed simp

subsection \<open>What a guard is paid\<close>

record payout_amounts =
  po_income :: decimal
  po_wht :: decimal
  po_transfer :: decimal

definition compute_payout ::
  "decimal_lib \<Rightarrow> decimal \<Rightarrow> decimal \<Rightarrow> decimal option \<Rightarrow> decimal \<Rightarrow> payout_amounts" where
  "compute_payout L base_fee hours commission_percent wht_rate_percent =
    (let gross = guard_gross L base_fee hours;
         commission = commission_on L gross commission_percent;
         income = gross - commission;
         wht = lib_round_dp L (lib_div L (income * wht_rate_percent) 100) 2
     in \<lparr>po_income = income, po_wht = wht, po_transfer = income - wht\<rparr>)"

lemma normalized_ids:
  assumes "normalize_voided_booking_ids ids = Inr out"
  shows "distinct out" "set out = set ids" "out \<noteq> []" "length out \<le> 500"
proof -
  from assms have o: "out = dedup ids" and ids: "ids \<noteq> []" "length ids \<le> 500"
    by (auto simp: normalize_voided_booking_ids_def MAX_VOIDED_ITEMS_def split: if_splits)
  show "distinct out" "set out = set ids" by (simp_all add: o)
  then show "out \<noteq> []" using ids by auto
  show "length out \<le> 500"
    using ids card_length [of ids] by (simp add: o length_dedup)
qed

context decimal_ops begin

text \<open>Commission, withheld tax and transfer split the gross exactly, and none is negative.\<close>

lemma payout_splits:
  assumes "money (guard_gross L base hours)" and "0 \<le> rate" "rate \<le> 100"
    and p_def: "p = compute_payout L base hours pct rate"
  shows "commission_on L (guard_gross L base hours) pct + po_wht p + po_transfer p = guard_gross L base hours"
    and "0 \<le> po_wht p" "0 \<le> po_transfer p" "0 \<le> po_income p" "po_wht p + po_transfer p = po_income p"
    and "on_grid 2 (po_transfer p)"
proof -
  let ?g = "guard_gross L base hours"
  let ?i = "?g - commission_on L ?g pct"
  have c: "0 \<le> commission_on L ?g pct" "commission_on L ?g pct \<le> ?g" "on_grid 2 (commission_on L ?g pct)"
    using commission_bounds [OF assms(1)] by simp_all
  then have i: "money ?i" using assms(1) by (auto simp: money_def on_grid_diff)
  have "0 \<le> lib_div L (?i * rate) 100" using moneyD(1) [OF i] assms(2) by (intro div_nonneg mult_nonneg_nonneg) simp_all
  moreover have "lib_div L (?i * rate) 100 \<le> ?i"
    using i moneyD(1) [OF i] assms(2,3)
    by (intro div_le representable_money mult_left_mono) simp_all
  ultimately have w: "0 \<le> po_wht p" "po_wht p \<le> ?i" "on_grid 2 (po_wht p)"
    using moneyD(2) [OF i]
    by (simp_all add: p_def compute_payout_def Let_def round_nonneg round_le round_grid)
  have eq: "po_income p = ?i" "po_transfer p = ?i - po_wht p"
    by (simp_all add: p_def compute_payout_def Let_def)
  show "commission_on L ?g pct + po_wht p + po_transfer p = ?g" "0 \<le> po_wht p" "0 \<le> po_transfer p"
    "0 \<le> po_income p" "po_wht p + po_transfer p = po_income p" "on_grid 2 (po_transfer p)"
    using w eq moneyD(1,2) [OF i] by (simp_all add: on_grid_diff)
qed

end

end
