(* ===== verification/Payment_Repo.thy ===== *)
theory Payment_Repo
  imports Payment_Settlement Shared_Events
begin

text \<open>
  The money transactions of \<open>services/payment/src/repo/mod.rs\<close>: pre-paying a booking, paying it with
  a verified slip, settling it at completion, refunding it at cancellation and the compensating refund
  of a payment that lost a race. A transaction runs as one step; an error carries no new tables, as the
  database rolls back. \<open>store2\<close> is what a \<open>NUMERIC(12,2)\<close> column keeps of an amount.
\<close>

definition PAYMENT_COMPLETED :: string where
  "PAYMENT_COMPLETED = ''pguard.events.payment.completed''"
definition PAYMENT_REFUND_PROCESSED :: string where
  "PAYMENT_REFUND_PROCESSED = ''pguard.events.payment.refund_processed''"
definition SLIP_PAYMENT_METHOD :: string where
  "SLIP_PAYMENT_METHOD = ''promptpay_slip''"
definition SLIP_DUPLICATE_CODE :: string where
  "SLIP_DUPLICATE_CODE = ''SLIP_DUPLICATE''"

datatype payment_status = PayPending | PayCompleted | PayRefunded

record payment =
  pm_booking :: uuid
  pm_customer :: uuid
  pm_guard :: "uuid option"
  pm_amount :: decimal
  pm_expected_total :: decimal
  pm_overpaid :: decimal
  pm_final_amount :: "decimal option"
  pm_refund_amount :: "decimal option"
  pm_refund_status :: "string option"
  pm_subtotal :: "decimal option"
  pm_vat_amount :: "decimal option"
  pm_commission_percent :: "decimal option"
  pm_cancellation_fee :: "decimal option"
  pm_cancellation_fee_charged :: "decimal option"
  pm_method :: string
  pm_base_fee :: "decimal option"
  pm_booked_hours :: "int option"
  pm_guard_count :: "int option"
  pm_tip :: "decimal option"
  pm_commission_amount :: "decimal option"
  pm_actual_hours :: "decimal option"
  pm_status :: payment_status
  pm_paid_at :: "instant option"
  pm_created_at :: instant
  pm_updated_at :: instant

record payment_slip =
  sl_id :: uuid
  sl_payment :: uuid
  sl_booking :: uuid
  sl_reference_id :: string
  sl_trans_ref :: string
  sl_amount :: decimal
  sl_key :: string
  sl_applied :: bool
  sl_refund_status :: "string option"
  sl_created_at :: instant

record payment_db =
  payments :: "(uuid, payment) table"
  payment_slips :: "payment_slip list"
  pay_processed :: "(uuid \<times> string) list"
  pay_outbox :: "outbox_row list"

definition empty_payment_db :: payment_db where
  "empty_payment_db = \<lparr>payments = [], payment_slips = [], pay_processed = [], pay_outbox = []\<rparr>"

subsection \<open>Reading\<close>

text \<open>
  The completed payment of a booking. A unique partial index allows one; the query takes any row that
  matches.
\<close>

definition completed_for_booking :: "payment_db \<Rightarrow> uuid \<Rightarrow> (uuid \<times> payment) option" where
  "completed_for_booking db booking_id =
    find (\<lambda>(_, p). pm_booking p = booking_id \<and> pm_status p = PayCompleted) (payments db)"

definition emit_pay :: "call_env \<Rightarrow> string \<Rightarrow> payload \<Rightarrow> payment_db \<Rightarrow> payment_db" where
  "emit_pay env topic payl db = db\<lparr>pay_outbox := outbox_append env topic payl (pay_outbox db)\<rparr>"

subsection \<open>Charging\<close>

definition charged_row ::
  "decimal_lib \<Rightarrow> call_env \<Rightarrow> uuid \<Rightarrow> uuid \<Rightarrow> uuid option \<Rightarrow> charge_terms \<Rightarrow> decimal \<Rightarrow> string \<Rightarrow> payment" where
  "charged_row L env booking_id customer_id guard_id trms overpaid payment_method =
    \<lparr>pm_booking = booking_id, pm_customer = customer_id, pm_guard = guard_id,
     pm_amount = pb_grand_total (ct_breakdown trms),
     pm_expected_total = pb_grand_total (ct_breakdown trms), pm_overpaid = overpaid,
     pm_final_amount = None, pm_refund_amount = None, pm_refund_status = None,
     pm_subtotal = Some (pb_subtotal (ct_breakdown trms)),
     pm_vat_amount = Some (pb_vat (ct_breakdown trms)),
     pm_commission_percent = Some (ct_commission_percent trms),
     pm_cancellation_fee = Some (ct_cancellation_fee trms), pm_cancellation_fee_charged = None,
     pm_method = payment_method, pm_base_fee = Some (pi_base_fee (ct_inputs trms)),
     pm_booked_hours = Some (pi_booked_hours (ct_inputs trms)),
     pm_guard_count = Some (pi_guard_count (ct_inputs trms)),
     pm_tip = Some (pi_tip (ct_inputs trms)),
     pm_commission_amount = Some (commission_amount L trms), pm_actual_hours = None,
     pm_status = PayCompleted, pm_paid_at = Some (tx_now env), pm_created_at = tx_now env,
     pm_updated_at = tx_now env\<rparr>"

definition completed_payload ::
  "uuid \<Rightarrow> uuid \<Rightarrow> uuid \<Rightarrow> uuid option \<Rightarrow> decimal \<Rightarrow> payload" where
  "completed_payload payment_id booking_id customer_id guard_id amount =
    [(''payment_id'', JUuid payment_id), (''booking_id'', JUuid booking_id),
     (''customer_id'', JUuid customer_id), (''guard_id'', jopt JUuid guard_id),
     (''amount'', JDec amount)]"

datatype pre_pay_outcome = Created uuid payment | AlreadyPaid uuid payment

definition prepay_idempotent ::
  "decimal_lib \<Rightarrow> call_env \<Rightarrow> payment_db \<Rightarrow> uuid \<Rightarrow> uuid \<Rightarrow> uuid option \<Rightarrow> charge_terms \<Rightarrow> string
   \<Rightarrow> (pre_pay_outcome \<times> payment_db) app_result" where
  "prepay_idempotent L env db booking_id customer_id guard_id trms payment_method =
    (case completed_for_booking db booking_id of
       Some (pid, p) \<Rightarrow> Inr (AlreadyPaid pid p, db)
     | None \<Rightarrow>
       (let pid = fresh_row env;
            p = charged_row L env booking_id customer_id guard_id trms 0 payment_method
        in if row_get (payments db) pid \<noteq> None then Inl (Database ''23505'')
           else Inr (Created pid p,
             emit_pay env PAYMENT_COMPLETED
               (completed_payload pid booking_id customer_id guard_id
                  (pb_grand_total (ct_breakdown trms)))
               (db\<lparr>payments := row_put pid p (payments db)\<rparr>))))"

text \<open>
  A slip's id, transaction reference and reference id are each unique over all slips.
\<close>

definition slip_taken :: "payment_db \<Rightarrow> uuid \<Rightarrow> string \<Rightarrow> string \<Rightarrow> bool" where
  "slip_taken db slip_id reference_id trans_ref =
    list_ex (\<lambda>s. sl_id s = slip_id \<or> sl_trans_ref s = trans_ref \<or> sl_reference_id s = reference_id)
      (payment_slips db)"

definition slip_duplicate :: app_error where
  "slip_duplicate = ConflictCode SLIP_DUPLICATE_CODE ''This slip has already been used for a payment''"

datatype slip_pay_outcome =
    SlipCreated uuid payment
  | SlipAlreadyPaid uuid payment
  | ExtraTransferRecorded uuid payment

definition pay_with_slip ::
  "decimal_lib \<Rightarrow> (decimal \<Rightarrow> decimal) \<Rightarrow> call_env \<Rightarrow> payment_db \<Rightarrow> uuid \<Rightarrow> uuid \<Rightarrow> uuid option
   \<Rightarrow> charge_terms \<Rightarrow> string \<Rightarrow> string \<Rightarrow> decimal \<Rightarrow> string
   \<Rightarrow> (slip_pay_outcome \<times> payment_db) app_result" where
  "pay_with_slip L store2 env db booking_id customer_id guard_id trms reference_id trans_ref
     slip_amount slip_key =
    (let amount = pb_grand_total (ct_breakdown trms);
         overpaid = max (lib_round_dp L slip_amount 2 - amount) 0
     in case completed_for_booking db booking_id of
          Some (xid, existing) \<Rightarrow>
            (if list_ex (\<lambda>s. sl_booking s = booking_id \<and> sl_applied s \<and> sl_trans_ref s = trans_ref)
                  (payment_slips db)
             then Inr (SlipAlreadyPaid xid existing, db)
             else if slip_taken db (fresh_extra env) reference_id trans_ref then Inl slip_duplicate
             else Inr (ExtraTransferRecorded xid existing,
               db\<lparr>payment_slips := payment_slips db @
                 [\<lparr>sl_id = fresh_extra env, sl_payment = xid, sl_booking = booking_id, sl_reference_id = reference_id,
                   sl_trans_ref = trans_ref, sl_amount = store2 (lib_round_dp L slip_amount 2),
                   sl_key = slip_key, sl_applied = False, sl_refund_status = Some ''pending'',
                   sl_created_at = tx_now env\<rparr>]\<rparr>))
        | None \<Rightarrow>
          (let pid = fresh_row env;
               p = charged_row L env booking_id customer_id guard_id trms overpaid SLIP_PAYMENT_METHOD
           in if row_get (payments db) pid \<noteq> None then Inl (Database ''23505'')
              else if slip_taken db (fresh_extra env) reference_id trans_ref then Inl slip_duplicate
              else Inr (SlipCreated pid p,
                emit_pay env PAYMENT_COMPLETED
                  (completed_payload pid booking_id customer_id guard_id amount)
                  (db\<lparr>payments := row_put pid p (payments db),
                     payment_slips := payment_slips db @
                       [\<lparr>sl_id = fresh_extra env, sl_payment = pid, sl_booking = booking_id, sl_reference_id = reference_id,
                         sl_trans_ref = trans_ref, sl_amount = store2 slip_amount, sl_key = slip_key,
                         sl_applied = True, sl_refund_status = None,
                         sl_created_at = tx_now env\<rparr>]\<rparr>))))"

subsection \<open>Settling at completion\<close>

definition claim_event :: "uuid \<Rightarrow> string \<Rightarrow> payment_db \<Rightarrow> payment_db option" where
  "claim_event event_id event_type db =
    (if event_id \<in> fst ` set (pay_processed db) then None
     else Some (db\<lparr>pay_processed := pay_processed db @ [(event_id, event_type)]\<rparr>))"

datatype settle_outcome =
    SettleNoOp
  | SettleRefunded decimal decimal
  | SettleExtra decimal decimal

definition worked_hours :: "decimal_lib \<Rightarrow> decimal \<Rightarrow> int \<Rightarrow> int \<Rightarrow> int option \<Rightarrow> decimal option" where
  "worked_hours L base_fee booked_hours guard_count actual_seconds =
    map_option (\<lambda>secs.
      pn_actual_hours (compute_proration L (subtotal L base_fee booked_hours guard_count 0)
        booked_hours secs)) actual_seconds"

definition settled_row ::
  "decimal_lib \<Rightarrow> call_env \<Rightarrow> payment \<Rightarrow> price_breakdown \<Rightarrow> decimal option \<Rightarrow> decimal \<Rightarrow> int \<Rightarrow> int
   \<Rightarrow> decimal \<Rightarrow> payment" where
  "settled_row L env p settled actual_hours base_fee booked_hours guard_count tip =
    (let pay_hours = (case actual_hours of Some h \<Rightarrow> h | None \<Rightarrow> of_int (max booked_hours 0))
     in p\<lparr>pm_final_amount := Some (pb_grand_total settled),
          pm_subtotal := Some (pb_subtotal settled), pm_vat_amount := Some (pb_vat settled),
          pm_actual_hours := actual_hours, pm_base_fee := Some base_fee,
          pm_booked_hours := Some booked_hours, pm_guard_count := Some guard_count,
          pm_tip := Some tip,
          pm_commission_amount :=
            Some (commission_on L (guard_gross L base_fee pay_hours) (pm_commission_percent p)),
          pm_updated_at := tx_now env\<rparr>)"

definition refund_payload :: "uuid \<Rightarrow> payment \<Rightarrow> decimal \<Rightarrow> decimal \<Rightarrow> payload" where
  "refund_payload pid p refund final_amount =
    [(''payment_id'', JUuid pid), (''booking_id'', JUuid (pm_booking p)),
     (''customer_id'', JUuid (pm_customer p)), (''guard_id'', jopt JUuid (pm_guard p)),
     (''refund_amount'', JDec refund), (''final_amount'', JDec final_amount)]"

definition put_payment :: "uuid \<Rightarrow> payment \<Rightarrow> payment_db \<Rightarrow> payment_db" where
  "put_payment pid p db = db\<lparr>payments := row_put pid p (payments db)\<rparr>"

definition reconcile_on_completion ::
  "decimal_lib \<Rightarrow> call_env \<Rightarrow> payment_db \<Rightarrow> uuid \<Rightarrow> string \<Rightarrow> uuid \<Rightarrow> decimal \<Rightarrow> int \<Rightarrow> int \<Rightarrow> decimal
   \<Rightarrow> int option \<Rightarrow> settle_outcome \<times> payment_db" where
  "reconcile_on_completion L env db event_id event_type booking_id base_fee booked_hours guard_count
     tip actual_seconds =
    (case claim_event event_id event_type db of
       None \<Rightarrow> (SettleNoOp, db)
     | Some db1 \<Rightarrow>
       (case completed_for_booking db1 booking_id of
          None \<Rightarrow> (SettleNoOp, db1)
        | Some (pid, p) \<Rightarrow>
          (let received = pm_amount p + pm_overpaid p;
               actual_hours = worked_hours L base_fee booked_hours guard_count actual_seconds;
               row = (\<lambda>settled. settled_row L env p settled actual_hours base_fee booked_hours
                        guard_count tip)
           in case reconcile L received base_fee booked_hours guard_count tip actual_seconds of
                Even settled \<Rightarrow> (SettleNoOp, put_payment pid (row settled) db1)
              | Refund settled refund \<Rightarrow>
                (SettleRefunded (pb_grand_total settled) refund,
                 emit_pay env PAYMENT_REFUND_PROCESSED
                   (refund_payload pid p refund (pb_grand_total settled))
                   (put_payment pid
                     ((row settled)\<lparr>pm_refund_amount := Some refund,
                                    pm_refund_status := Some ''pending''\<rparr>) db1))
              | Extra settled extra \<Rightarrow>
                (SettleExtra (pb_grand_total settled) extra, put_payment pid (row settled) db1))))"

subsection \<open>Refunding a cancelled booking\<close>

datatype cancel_refund_outcome = CancelNoOp | CancelRefunded decimal decimal

definition fee_kept :: "decimal_lib \<Rightarrow> payment \<Rightarrow> bool \<Rightarrow> decimal" where
  "fee_kept L p charge_cancel_fee =
    (if charge_cancel_fee
     then cancellation_fee_charged L
            (case pm_cancellation_fee p of Some f \<Rightarrow> f | None \<Rightarrow> 0) (pm_amount p)
     else 0)"

definition cancelled_row :: "decimal_lib \<Rightarrow> call_env \<Rightarrow> payment \<Rightarrow> decimal \<Rightarrow> decimal \<Rightarrow> payment" where
  "cancelled_row L env p fee refund =
    (let kept = from_gross L fee
     in p\<lparr>pm_status := PayRefunded, pm_final_amount := Some fee, pm_refund_amount := Some refund,
          pm_refund_status := (if 0 < refund then Some ''pending'' else None),
          pm_cancellation_fee_charged := Some fee, pm_subtotal := Some (pb_subtotal kept),
          pm_vat_amount := Some (pb_vat kept), pm_commission_amount := Some 0,
          pm_updated_at := tx_now env\<rparr>)"

definition refund_on_cancellation ::
  "decimal_lib \<Rightarrow> call_env \<Rightarrow> payment_db \<Rightarrow> uuid \<Rightarrow> string \<Rightarrow> uuid \<Rightarrow> bool
   \<Rightarrow> cancel_refund_outcome \<times> payment_db" where
  "refund_on_cancellation L env db event_id event_type booking_id charge_cancel_fee =
    (case claim_event event_id event_type db of
       None \<Rightarrow> (CancelNoOp, db)
     | Some db1 \<Rightarrow>
       (case completed_for_booking db1 booking_id of
          None \<Rightarrow> (CancelNoOp, db1)
        | Some (pid, p) \<Rightarrow>
          (let fee = fee_kept L p charge_cancel_fee;
               refund = max (pm_amount p - fee) 0 + pm_overpaid p;
               db2 = put_payment pid (cancelled_row L env p fee refund) db1
           in (CancelRefunded refund fee,
               if 0 < refund
               then emit_pay env PAYMENT_REFUND_PROCESSED (refund_payload pid p refund fee) db2
               else db2))))"

definition refund_race_lost_prepay ::
  "decimal_lib \<Rightarrow> call_env \<Rightarrow> payment_db \<Rightarrow> uuid \<Rightarrow> cancel_refund_outcome \<times> payment_db" where
  "refund_race_lost_prepay L env db booking_id =
    (case completed_for_booking db booking_id of
       None \<Rightarrow> (CancelNoOp, db)
     | Some (pid, p) \<Rightarrow>
       (let refund = pm_amount p + pm_overpaid p;
            row = p\<lparr>pm_status := PayRefunded, pm_final_amount := Some 0,
                    pm_refund_amount := Some refund, pm_refund_status := Some ''pending'',
                    pm_cancellation_fee_charged := Some 0, pm_subtotal := Some 0,
                    pm_vat_amount := Some 0, pm_commission_amount := Some 0,
                    pm_updated_at := tx_now env\<rparr>
        in (CancelRefunded refund 0,
            emit_pay env PAYMENT_REFUND_PROCESSED (refund_payload pid p refund 0)
              (put_payment pid row db))))"

text \<open>The stored row as the settlement reads it; \<open>wht\<close> is what its payout file withheld.\<close>

definition settled_payment_of :: "payment \<Rightarrow> decimal \<Rightarrow> settled_payment" where
  "settled_payment_of p wht =
    \<lparr>sp_amount = pm_amount p, sp_overpaid = pm_overpaid p, sp_final_amount = pm_final_amount p,
     sp_refund_amount = pm_refund_amount p, sp_subtotal = pm_subtotal p,
     sp_vat_amount = pm_vat_amount p, sp_cancelled = (pm_status p = PayRefunded),
     sp_base_fee = pm_base_fee p, sp_booked_hours = pm_booked_hours p,
     sp_guard_count = pm_guard_count p, sp_tip = pm_tip p,
     sp_commission_amount = pm_commission_amount p, sp_actual_hours = pm_actual_hours p,
     sp_wht_withheld = wht\<rparr>"

end
