(* ===== verification/Payment_Invariants.thy ===== *)
theory Payment_Invariants
  imports Payment_Repo
begin

text \<open>
  The payment service as a system of commands, with the invariant of its rows: every settled payment
  balances, a booking has one completed payment, a slip pays once. The bounds of a charge are those the
  booking service enforces on its columns.
\<close>

definition charge_inputs_ok :: "decimal \<Rightarrow> int \<Rightarrow> int \<Rightarrow> decimal \<Rightarrow> bool" where
  "charge_inputs_ok base_fee hours guard_count tip =
    (0 \<le> base_fee \<and> base_fee \<le> 1000000 \<and> on_grid 2 base_fee
     \<and> 1 \<le> hours \<and> hours \<le> 168 \<and> 1 \<le> guard_count \<and> guard_count \<le> 20
     \<and> 0 \<le> tip \<and> tip \<le> 1000000 \<and> on_grid 2 tip)"

datatype pay_cmd =
    PayPre call_env uuid uuid "uuid option" pricing_inputs decimal decimal string
  | PaySlip call_env uuid uuid "uuid option" pricing_inputs decimal decimal string string decimal string
  | PayComplete call_env uuid string uuid decimal int int decimal "int option"
  | PayCancel call_env uuid string uuid bool
  | PayRace call_env uuid

fun pay_allowed :: "decimal_lib \<Rightarrow> pay_cmd \<Rightarrow> bool" where
  "pay_allowed L (PayPre env b c g i pct fee m) =
     charge_inputs_ok (pi_base_fee i) (pi_booked_hours i) (pi_guard_count i) (pi_tip i)"
| "pay_allowed L (PaySlip env b c g i pct fee rid tref amt key) =
     (charge_inputs_ok (pi_base_fee i) (pi_booked_hours i) (pi_guard_count i) (pi_tip i)
      \<and> pb_grand_total (ct_breakdown (new_charge_terms L i pct fee)) \<le> amt)"
| "pay_allowed L (PayComplete env e t b base h n tip s) = charge_inputs_ok base h n tip"
| "pay_allowed L (PayCancel env e t b f) = True"
| "pay_allowed L (PayRace env b) = True"

definition ok_db :: "('r \<times> payment_db) app_result \<Rightarrow> payment_db \<Rightarrow> payment_db" where
  "ok_db res db = (case res of Inl _ \<Rightarrow> db | Inr (_, db') \<Rightarrow> db')"

fun run_pay :: "decimal_lib \<Rightarrow> (decimal \<Rightarrow> decimal) \<Rightarrow> pay_cmd \<Rightarrow> payment_db \<Rightarrow> payment_db" where
  "run_pay L store2 (PayPre env b c g i pct fee m) db =
     ok_db (prepay_idempotent L env db b c g (new_charge_terms L i pct fee) m) db"
| "run_pay L store2 (PaySlip env b c g i pct fee rid tref amt key) db =
     ok_db (pay_with_slip L store2 env db b c g (new_charge_terms L i pct fee) rid tref amt key) db"
| "run_pay L store2 (PayComplete env e t b base h n tip s) db =
     snd (reconcile_on_completion L env db e t b base h n tip s)"
| "run_pay L store2 (PayCancel env e t b f) db = snd (refund_on_cancellation L env db e t b f)"
| "run_pay L store2 (PayRace env b) db = snd (refund_race_lost_prepay L env db b)"

subsection \<open>The invariant\<close>

definition refunded_of :: "payment \<Rightarrow> decimal" where
  "refunded_of p = (case pm_refund_amount p of Some r \<Rightarrow> r | None \<Rightarrow> 0)"

definition received :: "payment \<Rightarrow> decimal" where
  "received p = pm_amount p + pm_overpaid p"

definition pay_hours_of :: "payment \<Rightarrow> int \<Rightarrow> decimal" where
  "pay_hours_of p booked = (case pm_actual_hours p of Some h \<Rightarrow> h | None \<Rightarrow> of_int (max booked 0))"

definition snapshot_ok :: "decimal_lib \<Rightarrow> payment \<Rightarrow> bool" where
  "snapshot_ok L p =
    (case (pm_base_fee p, pm_booked_hours p, pm_guard_count p, pm_tip p, pm_commission_amount p) of
       (Some base, Some h, Some n, Some tip, Some c) \<Rightarrow>
         0 \<le> tip \<and> 0 \<le> c \<and> c \<le> guard_gross L base (pay_hours_of p h)
     | _ \<Rightarrow> False)"

lemma snapshot_ok_refund [simp]:
  "snapshot_ok L (p\<lparr>pm_refund_amount := r, pm_refund_status := x\<rparr>) = snapshot_ok L p"
  by (simp add: snapshot_ok_def pay_hours_of_def split: option.split)

definition split_ok :: "payment \<Rightarrow> decimal \<Rightarrow> bool" where
  "split_ok p bill =
    (case (pm_subtotal p, pm_vat_amount p) of
       (Some s, Some v) \<Rightarrow> 0 \<le> s \<and> 0 \<le> v \<and> s + v = bill
     | _ \<Rightarrow> False)"

definition pay_row_ok :: "decimal_lib \<Rightarrow> payment \<Rightarrow> bool" where
  "pay_row_ok L p =
    (money (pm_amount p) \<and> 0 \<le> pm_overpaid p \<and> on_grid 2 (pm_overpaid p)
     \<and> 0 \<le> refunded_of p \<and> refunded_of p \<le> received p
     \<and> (case pm_final_amount p of
          None \<Rightarrow> pm_status p = PayCompleted \<and> split_ok p (pm_amount p) \<and> pm_refund_amount p = None
        | Some f \<Rightarrow> split_ok p f \<and> received p \<le> f + refunded_of p
            \<and> (if pm_status p = PayRefunded
               then f + refunded_of p = received p \<and> f \<le> pm_amount p
               else pm_status p = PayCompleted \<and> snapshot_ok L p)))"

definition one_completed :: "payment_db \<Rightarrow> bool" where
  "one_completed db =
    (\<forall>j k a b. row_get (payments db) j = Some a \<longrightarrow> row_get (payments db) k = Some b \<longrightarrow>
      pm_booking a = pm_booking b \<longrightarrow> pm_status a = PayCompleted \<longrightarrow> pm_status b = PayCompleted \<longrightarrow> j = k)"

definition slips_unique :: "payment_db \<Rightarrow> bool" where
  "slips_unique db =
    (distinct (map sl_id (payment_slips db)) \<and> distinct (map sl_trans_ref (payment_slips db))
     \<and> distinct (map sl_reference_id (payment_slips db)))"

definition pay_inv :: "decimal_lib \<Rightarrow> payment_db \<Rightarrow> bool" where
  "pay_inv L db =
    (distinct (row_keys (payments db))
     \<and> (\<forall>k p. row_get (payments db) k = Some p \<longrightarrow> pay_row_ok L p)
     \<and> one_completed db \<and> slips_unique db)"

lemma pay_inv_empty: "pay_inv L empty_payment_db"
  by (simp add: pay_inv_def empty_payment_db_def row_keys_def row_get_def one_completed_def
      slips_unique_def)

lemma emit_pay_simps [simp]:
  "payments (emit_pay env t p db) = payments db"
  "payment_slips (emit_pay env t p db) = payment_slips db"
  "pay_processed (emit_pay env t p db) = pay_processed db"
  by (simp_all add: emit_pay_def)

lemma put_payment_simps [simp]:
  "payments (put_payment k p db) = row_put k p (payments db)"
  "payment_slips (put_payment k p db) = payment_slips db"
  "pay_processed (put_payment k p db) = pay_processed db"
  by (simp_all add: put_payment_def)

lemma claim_event_Some:
  "claim_event e t db = Some db' \<Longrightarrow> payments db' = payments db \<and> payment_slips db' = payment_slips db
    \<and> pay_processed db' = pay_processed db @ [(e, t)]"
  by (auto simp: claim_event_def split: if_splits)

lemma completed_some:
  assumes "completed_for_booking db b = Some (k, p)" and "distinct (row_keys (payments db))"
  shows "row_get (payments db) k = Some p" "pm_booking p = b" "pm_status p = PayCompleted"
proof -
  from assms(1) have "(k, p) \<in> set (payments db)" "pm_booking p = b \<and> pm_status p = PayCompleted"
    by (auto simp: completed_for_booking_def find_Some_iff in_set_conv_nth)
  then show "row_get (payments db) k = Some p" "pm_booking p = b" "pm_status p = PayCompleted"
    using row_get_mem [OF assms(2)] by auto
qed

lemma completed_none:
  assumes "completed_for_booking db b = None" and "row_get (payments db) k = Some p"
  shows "\<not> (pm_booking p = b \<and> pm_status p = PayCompleted)"
proof -
  have "(k, p) \<in> set (payments db)" using assms(2) by (auto simp: row_get_def dest: map_of_SomeD)
  with assms(1) show ?thesis by (auto simp: completed_for_booking_def find_None_iff)
qed

text \<open>Rewriting the completed payment of a booking keeps the invariant if the new row is in order.\<close>

lemma pay_inv_rewrite:
  assumes "pay_inv L db" and "completed_for_booking db b = Some (k, p)"
    and "payments db' = row_put k q (payments db)" and "payment_slips db' = payment_slips db"
    and "pm_booking q = pm_booking p" and "pay_row_ok L q"
  shows "pay_inv L db'"
proof -
  have d: "distinct (row_keys (payments db))" using assms(1) by (simp add: pay_inv_def)
  note c = completed_some [OF assms(2) d]
  have "one_completed db'"
    using assms(1) c unfolding pay_inv_def one_completed_def assms(3) row_get_put
    by (metis assms(5) option.inject)
  then show ?thesis
    using assms by (auto simp: pay_inv_def slips_unique_def distinct_row_put)
qed

lemma pay_inv_new:
  assumes "pay_inv L db" and "completed_for_booking db (pm_booking q) = None"
    and "row_get (payments db) k = None"
    and "payments db' = row_put k q (payments db)" and "slips_unique db'" and "pay_row_ok L q"
  shows "pay_inv L db'"
proof -
  have "one_completed db'"
    using assms(1) completed_none [OF assms(2)]
    unfolding pay_inv_def one_completed_def assms(4) row_get_put by (metis option.inject)
  then show ?thesis using assms by (auto simp: pay_inv_def distinct_row_put)
qed

lemma pay_inv_cong:
  "pay_inv L db \<Longrightarrow> payments db' = payments db \<Longrightarrow> payment_slips db' = payment_slips db \<Longrightarrow> pay_inv L db'"
  by (simp add: pay_inv_def one_completed_def slips_unique_def)

context decimal_ops begin

lemma charge_base_money:
  assumes "charge_inputs_ok b h n t"
  shows "money (subtotal L b h n 0)" "money b" "money t" "subtotal L b h n t \<le> 4000000000"
    "0 \<le> subtotal L b h n t"
proof -
  have g: "on_grid 2 (b * of_int h * of_int n)"
    using assms by (intro on_grid_mult_int) (simp add: charge_inputs_ok_def)
  have "h \<le> 168" "n \<le> 20" "0 \<le> h" "0 \<le> n" using assms by (simp_all add: charge_inputs_ok_def)
  then have "rat_of_int h \<le> of_int 168" "rat_of_int n \<le> of_int 20" "0 \<le> rat_of_int h" "0 \<le> rat_of_int n"
    by (simp_all only: of_int_le_iff of_int_0_le_iff)
  then have bh: "b * of_int h \<le> 1000000 * 168" "0 \<le> b * of_int h"
    using assms by (auto simp: charge_inputs_ok_def intro: order_trans [OF mult_mono])
  have "b * of_int h * of_int n \<le> (1000000 * 168) * 20"
    using \<open>rat_of_int n \<le> of_int 20\<close> \<open>0 \<le> rat_of_int n\<close>
    by (intro mult_mono [OF bh(1)]) simp_all
  moreover have "0 \<le> b * of_int h * of_int n"
    by (rule mult_nonneg_nonneg [OF bh(2)]) (rule \<open>0 \<le> rat_of_int n\<close>)
  moreover have "subtotal L b h n 0 = b * of_int h * of_int n"
    using assms g by (simp add: subtotal_def charge_inputs_ok_def round_fixed max_absorb1)
  moreover have "subtotal L b h n t = b * of_int h * of_int n + t"
    using assms g by (simp add: subtotal_def charge_inputs_ok_def round_fixed on_grid_add max_absorb1)
  ultimately show "money (subtotal L b h n 0)" "money b" "money t" "subtotal L b h n t \<le> 4000000000"
    "0 \<le> subtotal L b h n t"
    using g assms by (simp_all add: money_def charge_inputs_ok_def)
qed

lemma grand_total_money:
  assumes "x \<le> 9000000000"
  shows "money (pb_grand_total (from_subtotal L x))"
proof -
  let ?s = "lib_round_dp L (max x 0) 2"
  have s: "?s \<le> 9000000000" "0 \<le> ?s" using assms by (simp_all add: round_le round_nonneg)
  then have "vat_on L ?s \<le> 630000000" by (simp add: vat_on_def VAT_RATE_def round_le)
  with s show ?thesis
    using from_subtotal_parts [of x]
    by (simp add: money_def from_subtotal_def Let_def)
qed

lemma new_terms_breakdown:
  "ct_breakdown (new_charge_terms L i pct fee) =
    from_subtotal L (subtotal L (pi_base_fee i) (pi_booked_hours i) (pi_guard_count i) (pi_tip i))"
  by (simp add: new_charge_terms_def price_breakdown_of_def)

lemma charged_row_ok:
  assumes "charge_inputs_ok (pi_base_fee i) (pi_booked_hours i) (pi_guard_count i) (pi_tip i)"
    and "0 \<le> over" and "on_grid 2 over"
  shows "pay_row_ok L (charged_row L env b c g (new_charge_terms L i pct fee) over m)"
proof -
  let ?x = "subtotal L (pi_base_fee i) (pi_booked_hours i) (pi_guard_count i) (pi_tip i)"
  have m: "money (pb_grand_total (from_subtotal L ?x))"
    using charge_base_money(4) [OF assms(1)] by (intro grand_total_money) simp
  then show ?thesis
    using from_subtotal_parts [of ?x] assms(2,3)
    by (simp add: pay_row_ok_def charged_row_def new_terms_breakdown refunded_of_def received_def
        split_ok_def moneyD(1))
qed

lemma settled_row_ok:
  assumes row: "pay_row_ok L p" and st: "pm_status p = PayCompleted"
    and c: "charge_inputs_ok base h n tip"
    and s: "s = settled_breakdown L base h n tip secs"
    and q: "q = settled_row L env p s (worked_hours L base h n secs) base h n tip"
  shows "snapshot_ok L q \<and> split_ok q (pb_grand_total s) \<and> 0 \<le> pb_grand_total s"
proof -
  have hrs: "0 \<le> pay_hours_of q h \<and> pay_hours_of q h \<le> of_int h"
  proof (cases secs)
    case None
    then show ?thesis
      using c by (simp add: q settled_row_def Let_def worked_hours_def pay_hours_of_def charge_inputs_ok_def)
  next
    case (Some t)
    let ?raw = "lib_div L (of_int (max t 0)) (of_int SECONDS_PER_HOUR)"
    let ?act = "if of_int h < ?raw then of_int h else ?raw"
    have a: "0 \<le> ?act" "?act \<le> of_int h"
      using c raw_hours_nonneg [of t] by (auto simp: charge_inputs_ok_def)
    have "pay_hours_of q h = lib_round_dp L ?act 2"
      using c Some by (simp add: q settled_row_def Let_def worked_hours_def pay_hours_of_def
          compute_proration_def charge_inputs_ok_def)
    then show ?thesis using a by (simp add: round_nonneg round_le)
  qed
  have "money (guard_gross L base (pay_hours_of q h))"
  proof -
    have "rat_of_int h \<le> of_int 168" using c unfolding charge_inputs_ok_def by (simp only: of_int_le_iff)
    with hrs have "pay_hours_of q h \<le> 168" by simp
    then have "base * pay_hours_of q h \<le> 1000000 * 168"
      using hrs c by (intro mult_mono) (simp_all add: charge_inputs_ok_def)
    moreover have "0 \<le> base * pay_hours_of q h" using hrs c by (simp add: charge_inputs_ok_def)
    ultimately have "lib_round_dp L (base * pay_hours_of q h) 2 \<le> 10000000000"
      by (intro round_le) simp_all
    then show ?thesis
      using \<open>0 \<le> base * pay_hours_of q h\<close>
      by (simp add: guard_gross_def money_def round_grid round_nonneg)
  qed
  note b = commission_bounds [OF this]
  have "snapshot_ok L q"
    using b c by (simp add: snapshot_ok_def q settled_row_def Let_def charge_inputs_ok_def pay_hours_of_def)
  moreover have "split_ok q (pb_grand_total s)"
    by (simp add: split_ok_def q settled_row_def Let_def s settled_breakdown_def from_subtotal_parts)
  moreover have "0 \<le> pb_grand_total s"
    using from_subtotal_parts(1-3) [of "post_pay_subtotal L base h n tip secs"]
    by (simp add: s settled_breakdown_def)
  ultimately show ?thesis by simp
qed

lemma complete_inv:
  assumes inv: "pay_inv L db" and c: "charge_inputs_ok base h n tip"
  shows "pay_inv L (snd (reconcile_on_completion L env db e t b base h n tip secs))"
proof (cases "claim_event e t db")
  case None
  then show ?thesis using inv by (simp add: reconcile_on_completion_def)
next
  case (Some db1)
  have inv1: "pay_inv L db1" using pay_inv_cong [OF inv] claim_event_Some [OF Some] by simp
  show ?thesis
  proof (cases "completed_for_booking db1 b")
    case None
    then show ?thesis using inv1 Some by (simp add: reconcile_on_completion_def)
  next
    case (Some kp)
    then obtain k p where kp: "completed_for_booking db1 b = Some (k, p)" by (cases kp) auto
    have d: "distinct (row_keys (payments db1))" using inv1 by (simp add: pay_inv_def)
    note cp = completed_some [OF kp d]
    have ok: "pay_row_ok L p" using inv1 cp(1) by (simp add: pay_inv_def)
    let ?s = "settled_breakdown L base h n tip secs"
    let ?q = "settled_row L env p ?s (worked_hours L base h n secs) base h n tip"
    let ?G = "pb_grand_total ?s"
    note q = settled_row_ok [OF ok cp(3) c refl refl, of env secs]
    have g: "on_grid 2 (received p)"
      using ok by (simp add: pay_row_ok_def received_def on_grid_add moneyD(2))
    have f: "pm_amount ?q = pm_amount p" "pm_overpaid ?q = pm_overpaid p" "pm_booking ?q = pm_booking p"
      "pm_status ?q = PayCompleted" "pm_final_amount ?q = Some ?G" "pm_refund_amount ?q = pm_refund_amount p"
      using cp(3) by (simp_all add: settled_row_def Let_def)
    have keep: "pay_row_ok L ?q" if "received p \<le> ?G"
    proof -
      have "refunded_of ?q = refunded_of p" "received ?q = received p"
        by (simp_all add: refunded_of_def received_def f)
      with ok q that show ?thesis by (simp add: pay_row_ok_def f)
    qed
    have ref: "pay_row_ok L (?q\<lparr>pm_refund_amount := Some r, pm_refund_status := x\<rparr>)"
      if "?G + r = received p" "0 \<le> r" for r x
    proof -
      let ?q' = "?q\<lparr>pm_refund_amount := Some r, pm_refund_status := x\<rparr>"
      have "refunded_of ?q' = r" "received ?q' = received p" "snapshot_ok L ?q' = snapshot_ok L ?q"
        "split_ok ?q' = split_ok ?q"
        by (simp_all add: refunded_of_def received_def f split_ok_def fun_eq_iff)
      with ok q that show ?thesis by (simp add: pay_row_ok_def f)
    qed
    note rw = pay_inv_rewrite [OF inv1 kp]
    have rec: "snd (reconcile_on_completion L env db e t b base h n tip secs) =
        (if ?G = received p then put_payment k ?q db1
         else if ?G < received p then
           emit_pay env PAYMENT_REFUND_PROCESSED (refund_payload k p (received p - ?G) ?G)
             (put_payment k (?q\<lparr>pm_refund_amount := Some (received p - ?G),
                                pm_refund_status := Some ''pending''\<rparr>) db1)
         else put_payment k ?q db1)"
      using \<open>claim_event e t db = Some db1\<close> kp g settled_grid
      by (simp add: reconcile_on_completion_def reconcile_def Let_def received_def [symmetric]
          round_diff_grid)
    show ?thesis
      unfolding rec using keep ref by (auto intro!: rw simp: f(3))
  qed
qed

lemma cancelled_row_booking [simp]: "pm_booking (cancelled_row L env p f r) = pm_booking p"
  by (simp add: cancelled_row_def Let_def)

lemma cancelled_row_ok:
  assumes ok: "pay_row_ok L p" and st: "pm_status p = PayCompleted"
  shows "pay_row_ok L (cancelled_row L env p (fee_kept L p fl)
    (max (pm_amount p - fee_kept L p fl) 0 + pm_overpaid p))"
proof -
  let ?f = "fee_kept L p fl"
  have m: "money (pm_amount p)" and o: "0 \<le> pm_overpaid p" using ok by (simp_all add: pay_row_ok_def)
  have f: "0 \<le> ?f" "?f \<le> pm_amount p" "on_grid 2 ?f"
    using fee_charged_bounds [OF m] m by (auto simp: fee_kept_def moneyD)
  then have mf: "money ?f" using m by (simp add: money_def)
  have "max (pm_amount p - ?f) 0 = pm_amount p - ?f" using f(2) by simp
  then show ?thesis
    using ok f o m from_gross_parts [OF mf]
    by (simp add: pay_row_ok_def cancelled_row_def Let_def refunded_of_def received_def split_ok_def)
qed

lemma cancel_inv:
  assumes inv: "pay_inv L db"
  shows "pay_inv L (snd (refund_on_cancellation L env db e t b fl))"
proof (cases "claim_event e t db")
  case None
  then show ?thesis using inv by (simp add: refund_on_cancellation_def)
next
  case (Some db1)
  have inv1: "pay_inv L db1" using pay_inv_cong [OF inv] claim_event_Some [OF Some] by simp
  show ?thesis
  proof (cases "completed_for_booking db1 b")
    case None
    then show ?thesis using inv1 Some by (simp add: refund_on_cancellation_def)
  next
    case (Some kp)
    then obtain k p where kp: "completed_for_booking db1 b = Some (k, p)" by (cases kp) auto
    have d: "distinct (row_keys (payments db1))" using inv1 by (simp add: pay_inv_def)
    note cp = completed_some [OF kp d]
    have ok: "pay_row_ok L p" using inv1 cp(1) by (simp add: pay_inv_def)
    show ?thesis
      using \<open>claim_event e t db = Some db1\<close> kp cancelled_row_ok [OF ok cp(3)]
      by (auto simp: refund_on_cancellation_def Let_def intro!: pay_inv_rewrite [OF inv1 kp])
  qed
qed

lemma race_inv:
  assumes inv: "pay_inv L db"
  shows "pay_inv L (snd (refund_race_lost_prepay L env db b))"
proof (cases "completed_for_booking db b")
  case None
  then show ?thesis using inv by (simp add: refund_race_lost_prepay_def)
next
  case (Some kp)
  then obtain k p where kp: "completed_for_booking db b = Some (k, p)" by (cases kp) auto
  have d: "distinct (row_keys (payments db))" using inv by (simp add: pay_inv_def)
  have ok: "pay_row_ok L p" using inv completed_some(1) [OF kp d] by (simp add: pay_inv_def)
  then show ?thesis
    using kp moneyD(1) [of "pm_amount p"]
    by (auto simp: refund_race_lost_prepay_def Let_def pay_row_ok_def refunded_of_def received_def
        split_ok_def intro!: pay_inv_rewrite [OF inv kp])
qed

lemma pre_inv:
  assumes inv: "pay_inv L db"
    and c: "charge_inputs_ok (pi_base_fee i) (pi_booked_hours i) (pi_guard_count i) (pi_tip i)"
  shows "pay_inv L (ok_db (prepay_idempotent L env db b cu g (new_charge_terms L i pct fee) m) db)"
proof (cases "completed_for_booking db b")
  case None
  let ?q = "charged_row L env b cu g (new_charge_terms L i pct fee) 0 m"
  have ok: "pay_row_ok L ?q" by (rule charged_row_ok [OF c]) simp_all
  have b: "pm_booking ?q = b" by (simp add: charged_row_def)
  have s: "slips_unique db" using inv by (simp add: pay_inv_def)
  show ?thesis
    using None ok s
    by (auto simp: prepay_idempotent_def ok_db_def Let_def inv b slips_unique_def
        intro!: pay_inv_new [OF inv, of ?q "fresh_row env"])
next
  case (Some kp)
  then show ?thesis using inv by (cases kp) (simp add: prepay_idempotent_def ok_db_def)
qed

lemma slips_unique_append:
  assumes "slips_unique db" and "\<not> slip_taken db (sl_id s) (sl_reference_id s) (sl_trans_ref s)"
    and "payment_slips db' = payment_slips db @ [s]"
  shows "slips_unique db'"
  using assms by (auto simp: slips_unique_def slip_taken_def list_ex_iff)

lemma slip_inv:
  assumes inv: "pay_inv L db"
    and c: "charge_inputs_ok (pi_base_fee i) (pi_booked_hours i) (pi_guard_count i) (pi_tip i)"
  shows "pay_inv L (ok_db (pay_with_slip L store2 env db b cu g (new_charge_terms L i pct fee) rid tref amt key) db)"
proof (cases "completed_for_booking db b")
  case None
  let ?t = "new_charge_terms L i pct fee"
  let ?amount = "pb_grand_total (ct_breakdown ?t)"
  let ?over = "max (lib_round_dp L amt 2 - ?amount) 0"
  let ?q = "charged_row L env b cu g ?t ?over SLIP_PAYMENT_METHOD"
  have "on_grid 2 ?amount" by (simp add: new_terms_breakdown from_subtotal_parts)
  then have ok: "pay_row_ok L ?q"
    by (intro charged_row_ok [OF c]) (simp_all add: on_grid_max on_grid_diff round_grid)
  have bb: "pm_booking ?q = b" by (simp add: charged_row_def)
  have s: "slips_unique db" using inv by (simp add: pay_inv_def)
  show ?thesis
    using None ok s
    by (auto simp: pay_with_slip_def ok_db_def Let_def inv bb
        intro!: pay_inv_new [OF inv, of ?q "fresh_row env"] elim!: slips_unique_append)
next
  case (Some kp)
  then obtain k p where kp: "completed_for_booking db b = Some (k, p)" by (cases kp) auto
  have cong: "pay_inv L db'" if "payments db' = payments db" "slips_unique db'" for db'
    using inv that by (simp add: pay_inv_def one_completed_def)
  have s: "slips_unique db" using inv by (simp add: pay_inv_def)
  show ?thesis
    using kp inv s by (auto simp: pay_with_slip_def ok_db_def Let_def intro!: cong elim!: slips_unique_append)
qed

lemma run_pay_inv: "pay_inv L db \<Longrightarrow> pay_allowed L c \<Longrightarrow> pay_inv L (run_pay L store2 c db)"
  by (cases c) (simp_all add: pre_inv slip_inv complete_inv cancel_inv race_inv)

lemma reachable_pay_inv:
  "list_all (pay_allowed L) cs \<Longrightarrow> pay_inv L (fold (run_pay L store2) cs empty_payment_db)"
proof -
  have "invariant_system (run_pay L store2) (pay_inv L) (pay_allowed L)"
    by (rule invariant_system.intro) (rule run_pay_inv)
  from invariant_system.run_inv [OF this pay_inv_empty]
  show "list_all (pay_allowed L) cs \<Longrightarrow> pay_inv L (fold (run_pay L store2) cs empty_payment_db)" .
qed

text \<open>A settled row splits, and the split balances.\<close>

lemma settled_row_splits:
  assumes ok: "pay_row_ok L p" and f: "pm_final_amount p = Some f"
  shows "\<exists>s. split L (settled_payment_of p wht) = Inr s"
proof -
  from ok f obtain sub vat where sv: "pm_subtotal p = Some sub" "pm_vat_amount p = Some vat"
    "0 \<le> sub" "0 \<le> vat" "sub + vat = f"
    by (auto simp: pay_row_ok_def split_ok_def split: option.splits)
  let ?u = "f + refunded_of p - received p"
  have u: "0 \<le> ?u" and r: "0 \<le> refunded_of p" using ok f by (simp_all add: pay_row_ok_def)
  show ?thesis
  proof (cases "pm_status p = PayRefunded")
    case True
    let ?s = "cancelled_split (received p) (refunded_of p) ?u vat sub"
    have "reconciles ?s" using sv(5) by (simp add: cancelled_reconciles_iff)
    then have "components_ok ?s" using u r sv by (simp add: components_ok_def cancelled_split_def)
    then show ?thesis
      using f sv True
      by (simp add: split_def settled_payment_of_def Let_def received_def refunded_of_def)
  next
    case False
    with ok f have "snapshot_ok L p" by (simp add: pay_row_ok_def)
    then obtain base h n tip c where sn: "pm_base_fee p = Some base" "pm_booked_hours p = Some h"
      "pm_guard_count p = Some n" "pm_tip p = Some tip" "pm_commission_amount p = Some c"
      "0 \<le> tip" "0 \<le> c" "c \<le> guard_gross L base (pay_hours_of p h)"
      by (auto simp: snapshot_ok_def split: option.splits)
    let ?w = "worked_split L (settled_payment_of p wht) (received p) (refunded_of p) ?u vat sub"
    obtain s where s: "?w = Inr s"
      using sn by (simp add: worked_split_def settled_payment_of_def Let_def)
    have "reconciles s" using worked_reconciles_iff [OF s] sv(5) by simp
    moreover have g: "0 \<le> guard_gross L base (pay_hours_of p h)" using sn by linarith
    then have up: "0 \<le> guard_gross L base (pay_hours_of p h) * of_int (max (n - 1) 0)"
      by (intro mult_nonneg_nonneg) simp_all
    moreover have "js_commission s = c" "js_cancellation_fee s = 0" "js_tip s = tip"
      "js_unpaid_guard_share s = guard_gross L base (pay_hours_of p h) * of_int (max (n - 1) 0)"
      "js_guard_income s = guard_gross L base (pay_hours_of p h) - c"
      "js_refunded s = refunded_of p" "js_uncollected s = ?u"
      using s sn by (auto simp: worked_split_def settled_payment_of_def Let_def pay_hours_of_def)
    ultimately have "components_ok s"
      using sn(6-8) u r up unfolding components_ok_def by (simp only: not_less) linarith
    then show ?thesis
      using f sv False s
      by (simp add: split_def Let_def received_def refunded_of_def settled_payment_of_def)
  qed
qed

end

interpretation pay_system: invariant_system "run_pay bankers_lib store2" "pay_inv bankers_lib" "pay_allowed bankers_lib"
  for store2
  by unfold_locales (rule bankers.run_pay_inv)

end
