(* ===== verification/Payment_Consumers.thy ===== *)
theory Payment_Consumers
  imports Payment_Invariants
begin

text \<open>
  The payment service's event consumers (\<open>services/payment/src/events/consumer.rs\<close> and
  \<open>cancel_consumer.rs\<close>): decoding an envelope's payload and settling or refunding. A field marked
  \<open>serde(default)\<close> may be absent. A malformed payload is dropped (acknowledged without effect), as is
  an unexpected type; the signature check and the broker's own calls are outside the model.
\<close>

definition uuid_field :: "payload \<Rightarrow> string \<Rightarrow> uuid option" where
  "uuid_field p k = (case jget p k of Some (JUuid u) \<Rightarrow> Some u | _ \<Rightarrow> None)"

definition opt_uuid_ok :: "payload \<Rightarrow> string \<Rightarrow> bool" where
  "opt_uuid_ok p k =
    (case jget p k of None \<Rightarrow> True | Some JNull \<Rightarrow> True | Some (JUuid _) \<Rightarrow> True | _ \<Rightarrow> False)"

definition int_field :: "payload \<Rightarrow> string \<Rightarrow> int option" where
  "int_field p k = (case jget p k of Some (JInt n) \<Rightarrow> Some n | _ \<Rightarrow> None)"

definition dec_field :: "payload \<Rightarrow> string \<Rightarrow> decimal option" where
  "dec_field p k = (case jget p k of Some (JDec d) \<Rightarrow> Some d | _ \<Rightarrow> None)"

text \<open>\<open>#[serde(default)] bool\<close> and \<open>#[serde(default)] Option<i64>\<close>\<close>

definition default_bool_field :: "payload \<Rightarrow> string \<Rightarrow> bool option" where
  "default_bool_field p k =
    (case jget p k of None \<Rightarrow> Some False | Some (JBool b) \<Rightarrow> Some b | _ \<Rightarrow> None)"

definition opt_int_field :: "payload \<Rightarrow> string \<Rightarrow> int option option" where
  "opt_int_field p k =
    (case jget p k of
       None \<Rightarrow> Some None | Some JNull \<Rightarrow> Some None | Some (JInt n) \<Rightarrow> Some (Some n) | _ \<Rightarrow> None)"

definition parse_cancel :: "payload \<Rightarrow> (uuid \<times> bool) option" where
  "parse_cancel p =
    (case (uuid_field p ''booking_id'', uuid_field p ''customer_id'',
           default_bool_field p ''charge_cancel_fee'') of
       (Some b, Some _, Some flag) \<Rightarrow>
         (if opt_uuid_ok p ''guard_id'' then Some (b, flag) else None)
     | _ \<Rightarrow> None)"

record completed_payload_fields =
  cp_booking :: uuid
  cp_booked_hours :: int
  cp_actual_seconds :: "int option"
  cp_base_fee :: decimal
  cp_guard_count :: int
  cp_tip :: decimal

definition parse_completed :: "payload \<Rightarrow> completed_payload_fields option" where
  "parse_completed p =
    (case (uuid_field p ''booking_id'', uuid_field p ''customer_id'', int_field p ''booked_hours'',
           opt_int_field p ''actual_seconds'', dec_field p ''base_fee'') of
       (Some b, Some _, Some h, Some secs, Some base) \<Rightarrow>
         (case (int_field p ''guard_count'', dec_field p ''tip'') of
            (Some n, Some tip) \<Rightarrow>
              (if opt_uuid_ok p ''guard_id''
               then Some \<lparr>cp_booking = b, cp_booked_hours = h, cp_actual_seconds = secs,
                          cp_base_fee = base, cp_guard_count = n, cp_tip = tip\<rparr>
               else None)
          | _ \<Rightarrow> None)
     | _ \<Rightarrow> None)"

definition BOOKING_DECLINED_TOPIC :: string where
  "BOOKING_DECLINED_TOPIC = ''pguard.events.booking.declined''"
definition BOOKING_CANCELLED_TOPIC :: string where
  "BOOKING_CANCELLED_TOPIC = ''pguard.events.booking.cancelled''"
definition BOOKING_COMPLETED_TOPIC :: string where
  "BOOKING_COMPLETED_TOPIC = ''pguard.events.booking.completed''"

definition process_cancel ::
  "decimal_lib \<Rightarrow> call_env \<Rightarrow> envelope \<Rightarrow> payment_db \<Rightarrow> payment_db" where
  "process_cancel L env e db =
    (case parse_cancel (ev_payload e) of
       None \<Rightarrow> db
     | Some (booking_id, charge_cancel_fee) \<Rightarrow>
       (if ev_type e \<noteq> BOOKING_DECLINED_TOPIC \<and> ev_type e \<noteq> BOOKING_CANCELLED_TOPIC then db
        else snd (refund_on_cancellation L (env\<lparr>correlation := ev_correlation e\<rparr>) db (ev_id e)
               (ev_type e) booking_id charge_cancel_fee)))"

definition process_completed ::
  "decimal_lib \<Rightarrow> call_env \<Rightarrow> envelope \<Rightarrow> payment_db \<Rightarrow> payment_db" where
  "process_completed L env e db =
    (case parse_completed (ev_payload e) of
       None \<Rightarrow> db
     | Some f \<Rightarrow>
       (if ev_type e \<noteq> BOOKING_COMPLETED_TOPIC then db
        else snd (reconcile_on_completion L (env\<lparr>correlation := ev_correlation e\<rparr>) db (ev_id e)
               (ev_type e) (cp_booking f) (cp_base_fee f) (cp_booked_hours f) (cp_guard_count f)
               (cp_tip f) (cp_actual_seconds f))))"

subsection \<open>At-least-once delivery\<close>

text \<open>The settling events of both consumers, which share one table of processed event ids.\<close>

datatype settling =
    SettleCompletion call_env uuid string uuid decimal int int decimal "int option"
  | SettleCancellation call_env uuid string uuid bool

fun settling_id :: "settling \<Rightarrow> uuid" where
  "settling_id (SettleCompletion env e t b base h n tip s) = e"
| "settling_id (SettleCancellation env e t b f) = e"

fun settle :: "decimal_lib \<Rightarrow> settling \<Rightarrow> payment_db \<Rightarrow> payment_db" where
  "settle L (SettleCompletion env e t b base h n tip s) db =
     snd (reconcile_on_completion L env db e t b base h n tip s)"
| "settle L (SettleCancellation env e t b f) db = snd (refund_on_cancellation L env db e t b f)"

definition settled_ids :: "payment_db \<Rightarrow> uuid set" where
  "settled_ids db = fst ` set (pay_processed db)"

lemma settle_claimed: "settling_id ev \<in> settled_ids db \<Longrightarrow> settle L ev db = db"
  by (cases ev)
    (simp_all add: settled_ids_def claim_event_def reconcile_on_completion_def
      refund_on_cancellation_def)

lemma settle_claims: "settled_ids (settle L ev db) = insert (settling_id ev) (settled_ids db)"
  by (cases ev)
    (auto simp: settled_ids_def claim_event_def reconcile_on_completion_def
      refund_on_cancellation_def Let_def
      split: option.splits reconciliation.splits)

interpretation settlement_consumer: idempotent_consumer "settle L" settling_id settled_ids
  for L
  by unfold_locales (simp_all add: settle_claimed settle_claims)

end
