(* ===== verification/Payment_Properties.thy ===== *)
theory Payment_Properties
  imports Payment_Consumers Payment_Settlement
begin

text \<open>
  What the payment service promises: its money is conserved, a booking is charged once, a settled
  payment can be split among the parties, and a guard's transfer adds up. Each property stands on the
  lemmas of the component it is about, with a witness at a concrete booking.
\<close>

subsection \<open>A concrete world\<close>

definition pay_env :: "nat \<Rightarrow> call_env" where
  "pay_env n = \<lparr>utc_now = 1000, tx_now = 1000, fresh_event = n + 50, fresh_row = n, fresh_extra = n,
     fresh_outbox = n + 90, trace_parent = None, correlation = 0\<rparr>"

definition pay_inputs :: pricing_inputs where
  "pay_inputs = \<lparr>pi_base_fee = 1000, pi_booked_hours = 8, pi_guard_count = 2, pi_tip = 100\<rparr>"

definition pay_script :: "pay_cmd list" where
  "pay_script =
    [PayPre (pay_env 5) 7 3 (Some 2) pay_inputs 10 500 ''card'',
     PayComplete (pay_env 7) 90 BOOKING_COMPLETED_TOPIC 7 1000 8 2 100 (Some 14400)]"

definition pay_reached :: payment_db where
  "pay_reached = fold (run_pay bankers_lib (\<lambda>x. x)) pay_script empty_payment_db"

definition pay_row :: payment where
  "pay_row = charged_row bankers_lib (pay_env 5) 7 3 (Some 2)
     (new_charge_terms bankers_lib pay_inputs 10 500) 0 ''card''"

lemma pay_terms:
  "new_charge_terms bankers_lib pay_inputs 10 500 =
    \<lparr>ct_inputs = pay_inputs,
     ct_breakdown = \<lparr>pb_subtotal = 16100, pb_vat = 1127, pb_grand_total = 17227\<rparr>,
     ct_commission_percent = 10, ct_cancellation_fee = 500\<rparr>"
  by (simp add: new_charge_terms_def pay_inputs_def price_breakdown_of_def subtotal_def
      from_subtotal_def vat_on_def VAT_RATE_def Let_def clamp_def bankers_fixed)

lemma pay_commission: "commission_on bankers_lib (guard_gross bankers_lib 1000 8) (Some 10) = 800"
  "commission_on bankers_lib (guard_gross bankers_lib 1000 4) (Some 10) = 400"
  by (simp_all add: commission_on_def guard_gross_def Let_def clamp_def HUNDRED_def bankers_fixed)

lemma pay_settled:
  "reconcile bankers_lib 17227 1000 8 2 100 (Some 14400) =
    Refund \<lparr>pb_subtotal = 8100, pb_vat = 567, pb_grand_total = 8667\<rparr> 8560"
  "worked_hours bankers_lib 1000 8 2 (Some 14400) = Some 4"
  by (simp_all add: reconcile_def settled_breakdown_def post_pay_subtotal_def compute_proration_def
      subtotal_def from_subtotal_def vat_on_def VAT_RATE_def worked_hours_def Let_def bankers_fixed
      SECONDS_PER_HOUR_def)

lemma pay_row_simps [simp]:
  "pm_booking pay_row = 7" "pm_status pay_row = PayCompleted" "pm_amount pay_row = 17227"
  "pm_overpaid pay_row = 0" "pm_commission_percent pay_row = Some 10"
  "pm_cancellation_fee pay_row = Some 500"
  by (simp_all add: pay_row_def charged_row_def pay_terms)

definition paid_db :: payment_db where
  "paid_db = run_pay bankers_lib (\<lambda>x. x) (hd pay_script) empty_payment_db"

lemma paid_db_simps [simp]:
  "payments paid_db = [(5, pay_row)]" "pay_processed paid_db = []" "payment_slips paid_db = []"
  by (simp_all add: paid_db_def pay_script_def ok_db_def prepay_idempotent_def
      completed_for_booking_def empty_payment_db_def row_get_def row_put_def pay_row_def
      pay_env_def Let_def)

lemma completed_paid_db [simp]: "completed_for_booking paid_db 7 = Some (5, pay_row)"
  by (simp add: completed_for_booking_def)

lemma pay_script_fold: "pay_reached = run_pay bankers_lib (\<lambda>x. x) (pay_script ! 1) paid_db"
  by (simp add: pay_reached_def paid_db_def pay_script_def del: run_pay.simps)

lemma pay_reached_row:
  "\<exists>p. row_get (payments pay_reached) 5 = Some p \<and> pm_booking p = 7 \<and> pm_status p = PayCompleted
    \<and> pm_final_amount p = Some 8667"
  by (simp add: pay_script_fold pay_script_def reconcile_on_completion_def claim_event_def
      completed_for_booking_def pay_settled settled_row_def Let_def)

lemma pay_script_allowed: "list_all (pay_allowed bankers_lib) pay_script"
  by (simp add: pay_script_def charge_inputs_ok_def pay_inputs_def)

subsection \<open>Properties of the rows\<close>

text \<open>
  C6. Whatever sequence of charges, slips, completions, cancellations and compensations has run, every
  settled payment splits into the job's parts, for any tax withheld, and the parts are those of the
  settled bill: the VAT-exclusive bill and the VAT add up to it, and nothing owed is negative.
\<close>
theorem settled_rows_split:
  assumes L: "decimal_ops L" and cs: "list_all (pay_allowed L) cs"
    and p: "row_get (payments (fold (run_pay L store2) cs empty_payment_db)) k = Some p"
    and f: "pm_final_amount p = Some f"
  shows "\<exists>s sub. split L (settled_payment_of p wht) = Inr s \<and> pm_subtotal p = Some sub
    \<and> sub + js_vat s = f \<and> components_ok s"
proof -
  have inv: "pay_inv L (fold (run_pay L store2) cs empty_payment_db)"
    by (rule decimal_ops.reachable_pay_inv [OF L cs])
  then have ok: "pay_row_ok L p" using p by (simp add: pay_inv_def)
  then obtain sub where sub: "pm_subtotal p = Some sub"
    using f by (auto simp: pay_row_ok_def split_ok_def split: option.splits)
  obtain s where s: "split L (settled_payment_of p wht) = Inr s"
    using decimal_ops.settled_row_splits [OF L ok f] by blast
  have "sub + js_vat s = f"
    by (rule split_bill(1) [OF s]) (simp_all add: settled_payment_of_def f sub)
  with s sub split_Inr(1) [OF s] show ?thesis by blast
qed

theorem settled_rows_split_witness:
  "\<exists>p. row_get (payments pay_reached) 5 = Some p \<and> pm_final_amount p = Some 8667
    \<and> (\<exists>s sub. split bankers_lib (settled_payment_of p 54) = Inr s \<and> pm_subtotal p = Some sub
        \<and> sub + js_vat s = 8667 \<and> components_ok s)"
proof -
  obtain p where p: "row_get (payments pay_reached) 5 = Some p" "pm_final_amount p = Some 8667"
    using pay_reached_row by auto
  from settled_rows_split [OF bankers_ops pay_script_allowed p(1) [unfolded pay_reached_def] p(2), of 54] p
  show ?thesis by blast
qed

text \<open>
  C5. No sequence of operations leaves a booking with two completed payments, or a slip transaction
  used twice: the customer is charged for a booking at most once at a time, and each bank transfer
  counts once.
\<close>
theorem charged_once:
  assumes L: "decimal_ops L" and cs: "list_all (pay_allowed L) cs"
    and db: "db = fold (run_pay L store2) cs empty_payment_db"
    and j: "row_get (payments db) j = Some a" "pm_status a = PayCompleted"
    and k: "row_get (payments db) k = Some b" "pm_status b = PayCompleted"
  shows "(pm_booking a = pm_booking b \<longrightarrow> j = k)
    \<and> distinct (map sl_trans_ref (payment_slips db))"
  using decimal_ops.reachable_pay_inv [OF L cs, of store2] db j k
  by (auto simp: pay_inv_def one_completed_def slips_unique_def)

theorem charged_once_witness:
  "\<exists>a. row_get (payments pay_reached) 5 = Some a \<and> pm_status a = PayCompleted
    \<and> pm_booking a = pm_booking a \<and> distinct (map sl_trans_ref (payment_slips pay_reached))"
proof -
  obtain a where a: "row_get (payments pay_reached) 5 = Some a" "pm_status a = PayCompleted"
    using pay_reached_row by auto
  from charged_once [OF bankers_ops pay_script_allowed pay_reached_def a a] a show ?thesis by blast
qed

subsection \<open>Properties of the money movements\<close>

text \<open>
  Settling a completed job conserves the customer's money: what was received is the settled bill
  plus the refund announced, or the settled bill is what was received plus what is still owed; a refund
  is positive, stored on the row, and announced in exactly one new event.
\<close>
theorem completion_conserves_money:
  assumes L: "decimal_ops L" and e: "e \<notin> fst ` set (pay_processed db)"
    and p: "completed_for_booking db b = Some (k, p)"
    and g: "on_grid 2 (pm_amount p + pm_overpaid p)"
    and r: "reconcile_on_completion L env db e t b base h n tip secs = (out, db')"
  shows "\<exists>q f. row_get (payments db') k = Some q \<and> pm_final_amount q = Some f \<and>
    (case out of
       SettleNoOp \<Rightarrow> f = pm_amount p + pm_overpaid p \<and> pay_outbox db' = pay_outbox db
     | SettleRefunded final refund \<Rightarrow>
         final = f \<and> 0 < refund \<and> f + refund = pm_amount p + pm_overpaid p
         \<and> pm_refund_amount q = Some refund
         \<and> (\<exists>row. pay_outbox db' = pay_outbox db @ [row] \<and> ob_topic row = PAYMENT_REFUND_PROCESSED
              \<and> jget (ev_payload (ob_envelope row)) ''refund_amount'' = Some (JDec refund))
     | SettleExtra final extra \<Rightarrow>
         final = f \<and> 0 < extra \<and> f = pm_amount p + pm_overpaid p + extra
         \<and> pay_outbox db' = pay_outbox db)"
proof -
  note bal = decimal_ops.reconcile_balances [OF L g, of base h n tip secs]
  have c: "completed_for_booking (db\<lparr>pay_processed := pay_processed db @ [(e, t)]\<rparr>) b = Some (k, p)"
    using p by (simp add: completed_for_booking_def)
  show ?thesis
    using r e c bal
    by (auto simp: reconcile_on_completion_def claim_event_def Let_def settled_row_def
        put_payment_def emit_pay_def outbox_append_def new_envelope_def refund_payload_def jget_def
        split: reconciliation.splits)
qed

theorem completion_conserves_money_witness:
  "\<exists>q. row_get (payments pay_reached) 5 = Some q \<and> pm_final_amount q = Some 8667
    \<and> pm_refund_amount q = Some 8560 \<and> 8667 + 8560 = pm_amount pay_row + pm_overpaid pay_row"
proof -
  let ?r = "reconcile_on_completion bankers_lib (pay_env 7) paid_db 90 BOOKING_COMPLETED_TOPIC 7
      1000 8 2 100 (Some 14400)"
  have o: "fst ?r = SettleRefunded 8667 8560"
    by (simp add: reconcile_on_completion_def claim_event_def completed_for_booking_def pay_settled)
  then have r: "?r = (SettleRefunded 8667 8560, snd ?r)" by (simp add: prod_eq_iff)
  have s: "snd ?r = pay_reached" by (simp add: pay_script_fold pay_script_def)
  from completion_conserves_money [OF bankers_ops _ completed_paid_db _ r]
  show ?thesis by (simp add: s on_grid_add) blast
qed

text \<open>
  A customer who pre-paid a booking never owes more for it at completion, however long the guard
  worked and whatever the recorded time: settling the same terms never yields an extra charge.
\<close>
theorem never_billed_more:
  assumes L: "decimal_ops L"
    and i: "charge_inputs_ok (pi_base_fee i) (pi_booked_hours i) (pi_guard_count i) (pi_tip i)"
  shows "reconcile L (pb_grand_total (ct_breakdown (new_charge_terms L i pct fee)))
    (pi_base_fee i) (pi_booked_hours i) (pi_guard_count i) (pi_tip i) secs \<noteq> Extra st x"
proof (rule decimal_ops.reconcile_never_extra [OF L])
  show "expected_total L (pi_base_fee i) (pi_booked_hours i) (pi_guard_count i) (pi_tip i)
      \<le> pb_grand_total (ct_breakdown (new_charge_terms L i pct fee))"
    by (simp add: new_charge_terms_def expected_total_def)
qed (use i decimal_ops.charge_base_money [OF L i] in \<open>simp_all add: charge_inputs_ok_def\<close>)

theorem never_billed_more_witness:
  "\<nexists>st x. reconcile bankers_lib
      (pb_grand_total (ct_breakdown (new_charge_terms bankers_lib pay_inputs 10 500)))
      1000 8 2 100 (Some 90000) = Extra st x"
proof -
  have "charge_inputs_ok (pi_base_fee pay_inputs) (pi_booked_hours pay_inputs)
      (pi_guard_count pay_inputs) (pi_tip pay_inputs)"
    by (simp add: charge_inputs_ok_def pay_inputs_def)
  from never_billed_more [OF bankers_ops this, of 10 500 "Some 90000"]
  show ?thesis by (simp add: pay_inputs_def)
qed

text \<open>
  Cancelling a paid booking gives back everything received but the fee: the fee is at most the
  price paid and nothing when the flag asks for none, an overpayment comes back in full, and the VAT
  stored is the VAT within the fee kept.
\<close>
theorem cancellation_conserves_money:
  assumes L: "decimal_ops L" and e: "e \<notin> fst ` set (pay_processed db)"
    and p: "completed_for_booking db b = Some (k, p)" and m: "money (pm_amount p)"
    and r: "refund_on_cancellation L env db e t b flag = (out, db')"
  shows "\<exists>fee refund q sub vat. out = CancelRefunded refund fee
    \<and> refund + fee = pm_amount p + pm_overpaid p
    \<and> 0 \<le> fee \<and> fee \<le> pm_amount p \<and> (flag \<or> fee = 0)
    \<and> row_get (payments db') k = Some q \<and> pm_status q = PayRefunded
    \<and> pm_subtotal q = Some sub \<and> pm_vat_amount q = Some vat \<and> sub + vat = fee \<and> 0 \<le> vat"
proof -
  have c: "completed_for_booking (db\<lparr>pay_processed := pay_processed db @ [(e, t)]\<rparr>) b = Some (k, p)"
    using p by (simp add: completed_for_booking_def)
  let ?fee = "fee_kept L p flag"
  have f: "0 \<le> ?fee" "?fee \<le> pm_amount p" "on_grid 2 ?fee"
    using decimal_ops.fee_charged_bounds [OF L m] moneyD [OF m] by (simp_all add: fee_kept_def)
  then have "money ?fee" using m by (simp add: money_def)
  from decimal_ops.from_gross_parts [OF L this] f r e c moneyD [OF m]
  show ?thesis
    by (auto simp: refund_on_cancellation_def claim_event_def Let_def cancelled_row_def
        put_payment_def emit_pay_def fee_kept_def)
qed

theorem cancellation_conserves_money_witness:
  "\<exists>fee refund db'. refund_on_cancellation bankers_lib (pay_env 8) paid_db 91 BOOKING_CANCELLED_TOPIC 7 True
      = (CancelRefunded refund fee, db') \<and> fee = 500 \<and> refund = 16727
    \<and> refund + fee = pm_amount pay_row + pm_overpaid pay_row"
proof -
  let ?r = "refund_on_cancellation bankers_lib (pay_env 8) paid_db 91 BOOKING_CANCELLED_TOPIC 7 True"
  have o: "fst ?r = CancelRefunded 16727 500"
    by (simp add: refund_on_cancellation_def claim_event_def completed_for_booking_def fee_kept_def
        cancellation_fee_charged_def Let_def bankers_fixed)
  have m: "money (pm_amount pay_row)" by (simp add: money_def)
  have "?r = (fst ?r, snd ?r)" by simp
  from cancellation_conserves_money [OF bankers_ops _ completed_paid_db m this] o
  show ?thesis by (metis (no_types, lifting) cancel_refund_outcome.inject empty_iff image_empty
      list.set(1) paid_db_simps(2) prod.collapse)
qed

text \<open>
  A guard's pay splits without a remainder: commission, withheld tax and transfer add up to the
  gross of the hours worked, and none is negative.
\<close>
theorem payout_adds_up:
  assumes L: "decimal_ops L" and g: "money (guard_gross L base hours)" and r: "0 \<le> rate" "rate \<le> 100"
    and p: "p = compute_payout L base hours pct rate"
  shows "commission_on L (guard_gross L base hours) pct + po_wht p + po_transfer p
      = guard_gross L base hours
    \<and> 0 \<le> po_wht p \<and> 0 \<le> po_transfer p \<and> po_wht p + po_transfer p = po_income p
    \<and> on_grid 2 (po_transfer p)"
  using decimal_ops.payout_splits [OF L g r p] by simp

theorem payout_adds_up_witness:
  "commission_on bankers_lib (guard_gross bankers_lib 1000 4) (Some 10)
     + po_wht (compute_payout bankers_lib 1000 4 (Some 10) 3)
     + po_transfer (compute_payout bankers_lib 1000 4 (Some 10) 3) = 4000"
proof -
  have g: "guard_gross bankers_lib 1000 4 = 4000" by (simp add: guard_gross_def bankers_fixed)
  then have "money (guard_gross bankers_lib 1000 4)" by (simp add: money_def)
  from payout_adds_up [OF bankers_ops this _ _ refl, of 3 "Some 10"] show ?thesis by (simp add: g)
qed

text \<open>
  Completions and cancellations may be delivered again, in any number: a second pass over the same
  events moves no money and writes nothing.
\<close>
theorem settlement_replay_harmless:
  "fold (settle L) evs (fold (settle L) evs db) = fold (settle L) evs db"
  by (rule settlement_consumer.replay)

text \<open>
  Proration bills between nothing and the full price, refunds the rest, grows with the time worked
  and bills in full once the booked hours are worked.
\<close>
theorem proration_fair:
  assumes L: "decimal_ops L" and x: "money x" and h: "0 < h" "h \<le> 1000" and st: "s \<le> t"
    and full: "3600 * h \<le> u"
  shows "0 \<le> pn_final_amount (compute_proration L x h s)
    \<and> pn_final_amount (compute_proration L x h s) \<le> pn_final_amount (compute_proration L x h t)
    \<and> pn_final_amount (compute_proration L x h u) = x
    \<and> pn_final_amount (compute_proration L x h s) + pn_refund_amount (compute_proration L x h s) = x"
  using decimal_ops.proration_bounds(1,4) [OF L x h] decimal_ops.proration_mono [OF L x h(1) st]
    decimal_ops.proration_full [OF L x h full] by simp

theorem proration_fair_witness:
  "pn_final_amount (compute_proration bankers_lib 16000 8 28800) = 16000
   \<and> pn_final_amount (compute_proration bankers_lib 16000 8 3600)
     + pn_refund_amount (compute_proration bankers_lib 16000 8 3600) = 16000"
  using proration_fair [OF bankers_ops, of 16000 8 3600 7200 28800] by (simp add: money_def)

text \<open>
  A transfer file that was confirmed or voided never changes again, through any sequence of
  accepted status changes, whatever its kind.
\<close>
theorem batch_final:
  assumes "(\<lambda>a b. check_transition kind a b = Inr ())\<^sup>*\<^sup>* s t" and "s = Confirmed \<or> s = Voided"
  shows "t = s"
  using assms batch_life.terminal_stuck [of s t] by (simp add: batch_is_terminal_def)

theorem batch_final_witness:
  "\<forall>t. (\<lambda>a b. check_transition PayoutBatch a b = Inr ())\<^sup>*\<^sup>* Confirmed t \<longleftrightarrow> t = Confirmed"
  using batch_final [of PayoutBatch Confirmed] by auto

end
