(* ===== verification/Payment_File_Ops.thy ===== *)
theory Payment_File_Ops
  imports Payment_Repo Payment_Settlement Shared_Error
begin

text \<open>
  The three streams of bank transfer files in \<open>services/payment/src/repo/mod.rs\<close>: guard payouts,
  customer refunds and the sweep of the platform's cut. Each has a table of file headers and a ledger
  of items; an item that was not voided marks its job (or refund) as taken. The file references are
  reserved in one table all three streams share. A transaction is one step, an error carries no new
  state. The status column is text, as stored. Amounts are those the exports compute, at the scale of
  their columns. A date is its day number, and a day of \<open>updated_at\<close> is taken in Thai time (UTC+7).
\<close>

text \<open>
  The admin endpoints on transfer files (\<open>services/payment/src/api/payouts.rs\<close>, \<open>refunds.rs\<close>,
  \<open>deductions.rs\<close>): the role, the request's checks, and the transaction. What an export puts in a
  file is the subject of the export itself; here its insert is a command like the others.
\<close>

text \<open>
  The operations of the three file streams (\<open>services/payment/src/repo/mod.rs\<close>): export, status
  change, void of a file, void of some of its items, and the backlogs an export is built from. The
  drill-down an item void re-reads for its caller is not modelled.
\<close>

definition SCB_STREAM_PAYOUT :: string where "SCB_STREAM_PAYOUT = ''payout''"
definition SCB_STREAM_REFUND :: string where "SCB_STREAM_REFUND = ''refund''"
definition SCB_STREAM_DEDUCTION :: string where "SCB_STREAM_DEDUCTION = ''deduction''"

record file_header =
  fh_file_ref :: string
  fh_system_ref :: string
  fh_batch_ref :: string
  fh_value_date :: int
  fh_total_amount :: decimal
  fh_recipient_count :: int
  fh_status :: string
  fh_status_note :: "string option"
  fh_void_reason :: "string option"
  fh_file_text :: string
  fh_created_by :: "uuid option"
  fh_created_at :: instant
  fh_uploaded_at :: "instant option"
  fh_confirmed_at :: "instant option"
  fh_rejected_at :: "instant option"
  fh_voided_at :: "instant option"
  fh_voided_by :: "uuid option"
  fh_credit_account :: "string option"
  fh_job_count :: "int option"

text \<open>A new item, and its row: the file it is in and when it was voided.\<close>

record payout_new =
  pn_booking :: uuid
  pn_guard :: uuid
  pn_income :: decimal
  pn_wht :: decimal
  pn_transfer :: decimal

record refund_new =
  rn_kind :: string
  rn_source :: uuid
  rn_booking :: uuid
  rn_customer :: uuid
  rn_amount :: decimal

record deduction_new =
  dn_payment :: uuid
  dn_booking :: uuid
  dn_commission :: decimal
  dn_cancellation_fee :: decimal
  dn_tip :: decimal
  dn_unpaid_guard_share :: decimal
  dn_rounding_adjustment :: decimal
  dn_uncollected :: decimal
  dn_amount :: decimal

record 'i item_row =
  it_batch :: uuid
  it_voided_at :: "instant option"
  it_item :: 'i

record 'i new_file =
  nf_file_ref :: string
  nf_system_ref :: string
  nf_batch_ref :: string
  nf_value_date :: int
  nf_total_amount :: decimal
  nf_recipient_count :: int
  nf_file_text :: string
  nf_created_by :: "uuid option"
  nf_credit_account :: "string option"
  nf_items :: "'i list"

record file_ref =
  fr_file_ref :: string
  fr_batch_ref :: string
  fr_stream :: string
  fr_batch :: uuid

record audit_row =
  ma_actor :: "uuid option"
  ma_action :: string
  ma_target_kind :: string
  ma_target_id :: "uuid option"
  ma_detail :: payload
  ma_created_at :: instant

record 'i stream =
  st_batches :: "(uuid, file_header) table"
  st_items :: "'i item_row list"

record files_db =
  fd_pay :: payment_db
  fd_payout :: "payout_new stream"
  fd_refund :: "refund_new stream"
  fd_deduction :: "deduction_new stream"
  fd_refs :: "file_ref list"
  fd_audit :: "audit_row list"

subsection \<open>What the streams share\<close>

definition insert_money_audit ::
  "instant \<Rightarrow> uuid option \<Rightarrow> string \<Rightarrow> string \<Rightarrow> uuid option \<Rightarrow> payload \<Rightarrow> files_db \<Rightarrow> files_db" where
  "insert_money_audit now actor action target_kind target_id detail db =
    db\<lparr>fd_audit := fd_audit db @
      [\<lparr>ma_actor = actor, ma_action = action, ma_target_kind = target_kind,
        ma_target_id = target_id, ma_detail = detail, ma_created_at = now\<rparr>]\<rparr>"

definition reserve_scb_file_ref ::
  "string \<Rightarrow> string \<Rightarrow> string \<Rightarrow> uuid \<Rightarrow> files_db \<Rightarrow> files_db option" where
  "reserve_scb_file_ref file_ref batch_ref stream batch_id db =
    (if list_ex (\<lambda>r. fr_file_ref r = file_ref \<or> fr_batch_ref r = batch_ref) (fd_refs db) then None
     else Some (db\<lparr>fd_refs := fd_refs db @
       [\<lparr>fr_file_ref = file_ref, fr_batch_ref = batch_ref, fr_stream = stream, fr_batch = batch_id\<rparr>]\<rparr>))"

definition new_header :: "call_env \<Rightarrow> 'i new_file \<Rightarrow> int \<Rightarrow> int option \<Rightarrow> file_header" where
  "new_header env batch recipients jobs =
    \<lparr>fh_file_ref = nf_file_ref batch, fh_system_ref = nf_system_ref batch,
     fh_batch_ref = nf_batch_ref batch, fh_value_date = nf_value_date batch,
     fh_total_amount = nf_total_amount batch, fh_recipient_count = recipients,
     fh_status = ''generated'', fh_status_note = None, fh_void_reason = None,
     fh_file_text = nf_file_text batch, fh_created_by = nf_created_by batch,
     fh_created_at = tx_now env, fh_uploaded_at = None, fh_confirmed_at = None,
     fh_rejected_at = None, fh_voided_at = None, fh_voided_by = None,
     fh_credit_account = nf_credit_account batch, fh_job_count = jobs\<rparr>"

text \<open>A new header collides with a row of the same id or file reference.\<close>

definition header_taken :: "uuid \<Rightarrow> string \<Rightarrow> (uuid, file_header) table \<Rightarrow> bool" where
  "header_taken batch_id file_ref hs =
    (row_get hs batch_id \<noteq> None \<or> list_ex (\<lambda>(_, h). fh_file_ref h = file_ref) hs)"

text \<open>The keys of the items that are not voided: the ledger's markers.\<close>

definition live_items :: "'i item_row list \<Rightarrow> 'i list" where
  "live_items its = map it_item (filter (\<lambda>i. it_voided_at i = None) its)"

definition marked :: "('i \<Rightarrow> 'k) \<Rightarrow> 'i item_row list \<Rightarrow> 'k list" where
  "marked key its = map key (live_items its)"

text \<open>
  One statement inserts the items; the partial unique index refuses it when a key is marked already
  or occurs twice in the file.
\<close>

definition add_items :: "('i \<Rightarrow> 'k) \<Rightarrow> uuid \<Rightarrow> 'i list \<Rightarrow> 'i item_row list \<Rightarrow> 'i item_row list option" where
  "add_items key batch_id new its =
    (if distinct (map key new) \<and> set (map key new) \<inter> set (marked key its) = {}
     then Some (its @ map (\<lambda>i. \<lparr>it_batch = batch_id, it_voided_at = None, it_item = i\<rparr>) new)
     else None)"

definition void_items ::
  "instant \<Rightarrow> uuid \<Rightarrow> ('i \<Rightarrow> bool) \<Rightarrow> 'i item_row list \<Rightarrow> 'i item_row list" where
  "void_items now batch_id sel its =
    map (\<lambda>i. if it_batch i = batch_id \<and> it_voided_at i = None \<and> sel (it_item i)
             then i\<lparr>it_voided_at := Some now\<rparr> else i) its"

definition count_live :: "uuid \<Rightarrow> ('i \<Rightarrow> bool) \<Rightarrow> 'i item_row list \<Rightarrow> nat" where
  "count_live batch_id sel its =
    length (filter (\<lambda>i. it_batch i = batch_id \<and> it_voided_at i = None \<and> sel (it_item i)) its)"

definition batch_rows :: "uuid \<Rightarrow> ('i \<Rightarrow> bool) \<Rightarrow> 'i item_row list \<Rightarrow> 'i item_row list" where
  "batch_rows batch_id sel its = filter (\<lambda>i. it_batch i = batch_id \<and> sel (it_item i)) its"

definition locked_status ::
  "string \<Rightarrow> string \<Rightarrow> (uuid, file_header) table \<Rightarrow> uuid \<Rightarrow> (batch_status \<times> file_header) app_result" where
  "locked_status missing unknown hs batch_id =
    (case row_get hs batch_id of
       None \<Rightarrow> Inl (NotFound missing)
     | Some h \<Rightarrow>
       (case batch_parse (fh_status h) of
          None \<Rightarrow> Inl (Internal unknown)
        | Some s \<Rightarrow> Inr (s, h)))"

text \<open>The time column is chosen by the target status.\<close>

fun stamped :: "batch_status \<Rightarrow> instant \<Rightarrow> file_header \<Rightarrow> file_header" where
  "stamped Uploaded now h = h\<lparr>fh_uploaded_at := Some now\<rparr>"
| "stamped Confirmed now h = h\<lparr>fh_confirmed_at := Some now\<rparr>"
| "stamped Rejected now h = h\<lparr>fh_rejected_at := Some now\<rparr>"
| "stamped Generated now h = h\<lparr>fh_created_at := now\<rparr>"
| "stamped Voided now h = h\<lparr>fh_created_at := now\<rparr>"

definition status_header :: "instant \<Rightarrow> batch_status \<Rightarrow> string option \<Rightarrow> file_header \<Rightarrow> file_header" where
  "status_header now to note h =
    stamped to now (h\<lparr>fh_status := batch_as_str to, fh_status_note := note\<rparr>)"

definition voided_header :: "instant \<Rightarrow> uuid \<Rightarrow> string \<Rightarrow> file_header \<Rightarrow> file_header" where
  "voided_header now actor reason h =
    h\<lparr>fh_status := ''voided'', fh_voided_at := Some now, fh_voided_by := Some actor,
      fh_void_reason := Some reason\<rparr>"

definition status_detail :: "batch_status \<Rightarrow> batch_status \<Rightarrow> string option \<Rightarrow> file_header \<Rightarrow> payload" where
  "status_detail from_st to note h =
    [(''from'', JStr (batch_as_str from_st)), (''to'', JStr (batch_as_str to)),
     (''note'', jopt JStr note), (''file_ref'', JStr (fh_file_ref h))]"

definition thai_day :: "instant \<Rightarrow> int" where
  "thai_day t = (t + hours_dur 7) div hours_dur 24"

definition in_days :: "int option \<Rightarrow> int option \<Rightarrow> instant \<Rightarrow> bool" where
  "in_days from_day to_day t =
    ((case from_day of None \<Rightarrow> True | Some d \<Rightarrow> d \<le> thai_day t)
     \<and> (case to_day of None \<Rightarrow> True | Some d \<Rightarrow> thai_day t \<le> d))"

definition MAX_PAYOUT_BACKLOG_ROWS :: nat where "MAX_PAYOUT_BACKLOG_ROWS = 20000"
definition MAX_SWEEP_BACKLOG_ROWS :: nat where "MAX_SWEEP_BACKLOG_ROWS = 20000"
definition MAX_REFUND_BACKLOG_ROWS :: nat where "MAX_REFUND_BACKLOG_ROWS = 20000"

definition too_many_rows :: "string \<Rightarrow> app_error" where
  "too_many_rows what = BadRequest what"

text \<open>A query limited to one row more than its cap, refused when it is over the cap.\<close>

definition capped :: "nat \<Rightarrow> string \<Rightarrow> 'a list \<Rightarrow> 'a list app_result" where
  "capped cap what rows = (if cap < length rows then Inl (too_many_rows what) else Inr rows)"

subsection \<open>Stream 3: guard payouts\<close>

definition payout_batch_ref_taken :: app_error where
  "payout_batch_ref_taken = ConflictCode ''PAYOUT_BATCH_REF_TAKEN''
     ''[another payout file was built in the same second; nothing is marked paid, build it again]''"

definition insert_payout_batch ::
  "call_env \<Rightarrow> files_db \<Rightarrow> payout_new new_file \<Rightarrow> (uuid \<times> files_db) app_result" where
  "insert_payout_batch env db batch =
    (let st = fd_payout db; batch_id = fresh_row env;
         h = new_header env batch (nf_recipient_count batch) None
     in if header_taken batch_id (nf_file_ref batch) (st_batches st) then Inl payout_batch_ref_taken
        else case reserve_scb_file_ref (nf_file_ref batch) (nf_batch_ref batch) SCB_STREAM_PAYOUT
               batch_id db of
               None \<Rightarrow> Inl payout_batch_ref_taken
             | Some db1 \<Rightarrow>
               (case add_items pn_booking batch_id (nf_items batch) (st_items st) of
                  None \<Rightarrow> Inl (ConflictCode ''PAYOUT_ALREADY_PAID''
                    ''One or more jobs were already paid out; re-run the preview.'')
                | Some its \<Rightarrow>
                  Inr (batch_id,
                    insert_money_audit (tx_now env) (nf_created_by batch) ''payout_batch_exported''
                      ''payout_batch'' (Some batch_id)
                      [(''file_ref'', JStr (nf_file_ref batch)), (''batch_ref'', JStr (nf_batch_ref batch)),
                       (''value_date'', JDate (nf_value_date batch)),
                       (''total_amount'', JDec (nf_total_amount batch)),
                       (''recipient_count'', JInt (nf_recipient_count batch)),
                       (''item_count'', JInt (int (length (nf_items batch))))]
                      (db1\<lparr>fd_payout := \<lparr>st_batches = row_put batch_id h (st_batches st),
                                         st_items = its\<rparr>\<rparr>))))"

definition locked_batch_status ::
  "files_db \<Rightarrow> uuid \<Rightarrow> (batch_status \<times> file_header) app_result" where
  "locked_batch_status db batch_id =
    locked_status ''[no such payout file]'' ''unknown payout batch status: {stored}''
      (st_batches (fd_payout db)) batch_id"

definition set_payout_batch_status ::
  "call_env \<Rightarrow> files_db \<Rightarrow> uuid \<Rightarrow> batch_status \<Rightarrow> string option \<Rightarrow> uuid
   \<Rightarrow> (file_header \<times> files_db) app_result" where
  "set_payout_batch_status env db batch_id to note actor =
    res_bind (locked_batch_status db batch_id) (\<lambda>(from_st, h).
    res_bind (check_transition PayoutBatch from_st to) (\<lambda>_.
      let h' = status_header (tx_now env) to note h;
          st = fd_payout db
      in Inr (h',
        insert_money_audit (tx_now env) (Some actor) ''payout_batch_status_changed'' ''payout_batch''
          (Some batch_id) (status_detail from_st to note h')
          (db\<lparr>fd_payout := st\<lparr>st_batches := row_put batch_id h' (st_batches st)\<rparr>\<rparr>))))"

definition void_payout_batch ::
  "call_env \<Rightarrow> files_db \<Rightarrow> uuid \<Rightarrow> uuid \<Rightarrow> string \<Rightarrow> (file_header \<times> files_db) app_result" where
  "void_payout_batch env db batch_id actor reason =
    res_bind (locked_batch_status db batch_id) (\<lambda>(from_st, h).
    res_bind (check_transition PayoutBatch from_st Voided) (\<lambda>_.
      let h' = voided_header (tx_now env) actor reason h;
          st = fd_payout db
      in Inr (h',
        insert_money_audit (tx_now env) (Some actor) ''payout_batch_voided'' ''payout_batch''
          (Some batch_id)
          [(''from'', JStr (batch_as_str from_st)), (''reason'', JStr reason),
           (''file_ref'', JStr (fh_file_ref h')),
           (''items_returned_to_backlog'', JInt (int (count_live batch_id (\<lambda>_. True) (st_items st)))),
           (''total_amount'', JDec (fh_total_amount h'))]
          (db\<lparr>fd_payout := \<lparr>st_batches = row_put batch_id h' (st_batches st),
             st_items = void_items (tx_now env) batch_id (\<lambda>_. True) (st_items st)\<rparr>\<rparr>))))"

definition void_payout_batch_items ::
  "call_env \<Rightarrow> files_db \<Rightarrow> uuid \<Rightarrow> uuid list \<Rightarrow> uuid \<Rightarrow> string \<Rightarrow> files_db app_result" where
  "void_payout_batch_items env db batch_id booking_ids actor reason =
    res_bind (locked_batch_status db batch_id) (\<lambda>(status, h).
    let st = fd_payout db;
        sel = (\<lambda>i. pn_booking i \<in> set booking_ids);
        found = batch_rows batch_id sel (st_items st);
        returned = count_live batch_id sel (st_items st)
    in if filter (\<lambda>b. \<not> list_ex (\<lambda>f. pn_booking (it_item f) = b) found) booking_ids \<noteq> []
       then Inl (NotFound ''[{} jobs are not in this payout file, e.g. {}]'')
       else if list_ex (\<lambda>f. it_voided_at f \<noteq> None) found
       then Inl (ConflictCode ''PAYOUT_ITEM_ALREADY_VOIDED'' ''[some jobs were pulled back already, e.g. {already}]'')
       else if returned \<noteq> length booking_ids
       then Inl (Internal ''payout item void touched {returned} of {} rows'')
       else Inr (insert_money_audit (tx_now env) (Some actor) ''payout_batch_items_voided''
              ''payout_batch'' (Some batch_id)
              [(''batch_status'', JStr (batch_as_str status)), (''reason'', JStr reason),
               (''file_ref'', JStr (fh_file_ref h)), (''booking_ids'', JList (map JUuid booking_ids)),
               (''items_returned_to_backlog'', JInt (int returned))]
              (db\<lparr>fd_payout := st\<lparr>st_items := void_items (tx_now env) batch_id sel (st_items st)\<rparr>\<rparr>)))"

text \<open>
  The backlog: a completed payment of a guard whose hours are reconciled and whose booking no live
  item names.
\<close>

definition payout_due :: "files_db \<Rightarrow> payout_selection \<Rightarrow> payment \<Rightarrow> bool" where
  "payout_due db sel p =
    (pm_status p = PayCompleted \<and> pm_guard p \<noteq> None \<and> pm_actual_hours p \<noteq> None
     \<and> (case ps_guard_ids sel of None \<Rightarrow> True | Some ids \<Rightarrow> the (pm_guard p) \<in> set ids)
     \<and> in_days (ps_from sel) (ps_to sel) (pm_updated_at p)
     \<and> pm_booking p \<notin> set (marked pn_booking (st_items (fd_payout db))))"

definition unpaid_payout_rows ::
  "files_db \<Rightarrow> payout_selection \<Rightarrow> (uuid \<times> payment) list app_result" where
  "unpaid_payout_rows db sel =
    capped MAX_PAYOUT_BACKLOG_ROWS ''[too many jobs to pay in this range]''
      (sort_key (\<lambda>(_, p). the (pm_guard p)) (sort_key (\<lambda>(_, p). pm_created_at p)
        (filter (\<lambda>(_, p). payout_due db sel p) (payments (fd_pay db)))))"

subsection \<open>Stream 1: customer refunds\<close>

definition refund_batch_ref_taken :: app_error where
  "refund_batch_ref_taken = ConflictCode ''REFUND_BATCH_REF_TAKEN''
     ''[another refund file was built in the same second; nothing is marked refunded, build it again]''"

definition item_source :: "refund_new \<Rightarrow> string \<times> uuid" where
  "item_source i = (rn_kind i, rn_source i)"

definition split_refund_sources :: "refund_source list \<Rightarrow> uuid list \<times> uuid list" where
  "split_refund_sources sources =
    (map snd (filter (\<lambda>s. fst s = PaymentSource) sources),
     map snd (filter (\<lambda>s. fst s = SlipSource) sources))"

text \<open>\<open>UPDATE ... SET refund_status\<close> on the payments and on the slips not applied.\<close>

definition advance_payments :: "(payment \<Rightarrow> bool) \<Rightarrow> string \<Rightarrow> uuid list \<Rightarrow> payment_db \<Rightarrow> payment_db" where
  "advance_payments was status ids db =
    db\<lparr>payments := map (\<lambda>(k, p). (k, if k \<in> set ids \<and> was p
       then p\<lparr>pm_refund_status := Some status\<rparr> else p)) (payments db)\<rparr>"

definition count_payments :: "(payment \<Rightarrow> bool) \<Rightarrow> uuid list \<Rightarrow> payment_db \<Rightarrow> nat" where
  "count_payments was ids db =
    length (filter (\<lambda>(k, p). k \<in> set ids \<and> was p) (payments db))"

definition advance_slips :: "(payment_slip \<Rightarrow> bool) \<Rightarrow> string \<Rightarrow> uuid list \<Rightarrow> payment_db \<Rightarrow> payment_db" where
  "advance_slips was status ids db =
    db\<lparr>payment_slips := map (\<lambda>s. if sl_id s \<in> set ids \<and> \<not> sl_applied s \<and> was s
       then s\<lparr>sl_refund_status := Some status\<rparr> else s) (payment_slips db)\<rparr>"

definition count_slips :: "(payment_slip \<Rightarrow> bool) \<Rightarrow> uuid list \<Rightarrow> payment_db \<Rightarrow> nat" where
  "count_slips was ids db =
    length (filter (\<lambda>s. sl_id s \<in> set ids \<and> \<not> sl_applied s \<and> was s) (payment_slips db))"

definition payment_pending :: "payment \<Rightarrow> bool" where
  "payment_pending p = (pm_refund_status p = Some ''pending'')"

definition slip_pending :: "payment_slip \<Rightarrow> bool" where
  "slip_pending s = (sl_refund_status s = Some ''pending'')"

fun parse_items :: "refund_new list \<Rightarrow> refund_source list app_result" where
  "parse_items [] = Inr []"
| "parse_items (i # items) =
    (case kind_parse (rn_kind i) of
       None \<Rightarrow> Inl (Internal ''unknown refund source kind: {}'')
     | Some k \<Rightarrow> res_bind (parse_items items) (\<lambda>rest. Inr ((k, rn_source i) # rest)))"

definition return_refund_sources_to_queue ::
  "uuid list \<Rightarrow> uuid list \<Rightarrow> payment_db \<Rightarrow> (nat \<times> nat) \<times> payment_db" where
  "return_refund_sources_to_queue payment_ids slip_ids db =
    (let wasp = (\<lambda>p. pm_refund_status p \<noteq> None); wass = (\<lambda>s. sl_refund_status s \<noteq> None)
     in ((count_payments wasp payment_ids db, count_slips wass slip_ids db),
         advance_slips wass ''pending'' slip_ids (advance_payments wasp ''pending'' payment_ids db)))"

text \<open>The check constraints of the item table: a known kind and a positive amount.\<close>

definition refund_item_checked :: "refund_new \<Rightarrow> bool" where
  "refund_item_checked i = (rn_kind i \<in> {''payment'', ''slip''} \<and> 0 < rn_amount i)"

definition insert_refund_batch ::
  "call_env \<Rightarrow> files_db \<Rightarrow> refund_new new_file \<Rightarrow> (uuid \<times> files_db) app_result" where
  "insert_refund_batch env db batch =
    (let st = fd_refund db; batch_id = fresh_row env;
         h = new_header env batch (nf_recipient_count batch) None
     in if header_taken batch_id (nf_file_ref batch) (st_batches st) then Inl refund_batch_ref_taken
        else case reserve_scb_file_ref (nf_file_ref batch) (nf_batch_ref batch) SCB_STREAM_REFUND
               batch_id db of
               None \<Rightarrow> Inl refund_batch_ref_taken
             | Some db1 \<Rightarrow>
               (if \<not> list_all refund_item_checked (nf_items batch) then Inl (Database ''23514'')
                else case add_items item_source batch_id (nf_items batch) (st_items st) of
                  None \<Rightarrow> Inl (ConflictCode ''REFUND_ALREADY_EXPORTED''
                    ''[some refunds are in another file already; preview and build again]'')
                | Some its \<Rightarrow>
                  res_bind (parse_items (nf_items batch)) (\<lambda>sources.
                    let (payment_ids, slip_ids) = split_refund_sources sources;
                        pay = fd_pay db;
                        advanced_payments = count_payments payment_pending payment_ids pay;
                        advanced_slips = count_slips slip_pending slip_ids pay
                    in if advanced_payments + advanced_slips \<noteq> length payment_ids + length slip_ids
                       then Inl (ConflictCode ''REFUND_QUEUE_CHANGED''
                         ''[the refund queue changed while building the file; preview and build again]'')
                       else Inr (batch_id,
                         insert_money_audit (tx_now env) (nf_created_by batch) ''refund_batch_exported''
                           ''refund_batch'' (Some batch_id)
                           [(''file_ref'', JStr (nf_file_ref batch)),
                            (''batch_ref'', JStr (nf_batch_ref batch)),
                            (''value_date'', JDate (nf_value_date batch)),
                            (''total_amount'', JDec (nf_total_amount batch)),
                            (''recipient_count'', JInt (nf_recipient_count batch)),
                            (''item_count'', JInt (int (length (nf_items batch)))),
                            (''payments_marked_processed'', JInt (int advanced_payments)),
                            (''slips_marked_processed'', JInt (int advanced_slips))]
                           (db1\<lparr>fd_pay := advance_slips slip_pending ''processed'' slip_ids
                                   (advance_payments payment_pending ''processed'' payment_ids pay),
                                fd_refund := \<lparr>st_batches = row_put batch_id h (st_batches st),
                                              st_items = its\<rparr>\<rparr>)))))"

definition locked_refund_batch_status ::
  "files_db \<Rightarrow> uuid \<Rightarrow> (batch_status \<times> file_header) app_result" where
  "locked_refund_batch_status db batch_id =
    locked_status ''[no such refund file]'' ''unknown refund batch status: {stored}''
      (st_batches (fd_refund db)) batch_id"

definition set_refund_batch_status ::
  "call_env \<Rightarrow> files_db \<Rightarrow> uuid \<Rightarrow> batch_status \<Rightarrow> string option \<Rightarrow> uuid
   \<Rightarrow> (file_header \<times> files_db) app_result" where
  "set_refund_batch_status env db batch_id to note actor =
    res_bind (locked_refund_batch_status db batch_id) (\<lambda>(from_st, h).
    res_bind (check_transition RefundBatch from_st to) (\<lambda>_.
      let h' = status_header (tx_now env) to note h;
          st = fd_refund db
      in Inr (h',
        insert_money_audit (tx_now env) (Some actor) ''refund_batch_status_changed'' ''refund_batch''
          (Some batch_id) (status_detail from_st to note h')
          (db\<lparr>fd_refund := st\<lparr>st_batches := row_put batch_id h' (st_batches st)\<rparr>\<rparr>))))"

text \<open>An item's stored kind parses, by the check constraint; a kind that did not would be skipped.\<close>

definition live_sources :: "uuid \<Rightarrow> refund_new item_row list \<Rightarrow> refund_source list" where
  "live_sources batch_id its =
    List.map_filter (\<lambda>i. map_option (\<lambda>k. (k, rn_source (it_item i))) (kind_parse (rn_kind (it_item i))))
      (filter (\<lambda>i. it_batch i = batch_id \<and> it_voided_at i = None) its)"

definition void_refund_batch ::
  "call_env \<Rightarrow> files_db \<Rightarrow> uuid \<Rightarrow> uuid \<Rightarrow> string \<Rightarrow> (file_header \<times> files_db) app_result" where
  "void_refund_batch env db batch_id actor reason =
    res_bind (locked_refund_batch_status db batch_id) (\<lambda>(from_st, h).
    res_bind (check_transition RefundBatch from_st Voided) (\<lambda>_.
      let h' = voided_header (tx_now env) actor reason h;
          st = fd_refund db;
          (payment_ids, slip_ids) = split_refund_sources (live_sources batch_id (st_items st));
          ((np, ns), pay) = return_refund_sources_to_queue payment_ids slip_ids (fd_pay db)
      in Inr (h',
        insert_money_audit (tx_now env) (Some actor) ''refund_batch_voided'' ''refund_batch''
          (Some batch_id)
          [(''from'', JStr (batch_as_str from_st)), (''reason'', JStr reason),
           (''file_ref'', JStr (fh_file_ref h')),
           (''items_returned_to_queue'', JInt (int (count_live batch_id (\<lambda>_. True) (st_items st)))),
           (''payments_returned_to_pending'', JInt (int np)),
           (''slips_returned_to_pending'', JInt (int ns)),
           (''total_amount'', JDec (fh_total_amount h'))]
          (db\<lparr>fd_pay := pay,
             fd_refund := \<lparr>st_batches = row_put batch_id h' (st_batches st),
               st_items = void_items (tx_now env) batch_id (\<lambda>_. True) (st_items st)\<rparr>\<rparr>))))"

definition names_source :: "refund_source list \<Rightarrow> refund_new \<Rightarrow> bool" where
  "names_source sources i =
    ((rn_kind i = ''payment'' \<and> rn_source i \<in> set (fst (split_refund_sources sources)))
     \<or> (rn_kind i = ''slip'' \<and> rn_source i \<in> set (snd (split_refund_sources sources))))"

definition void_refund_batch_items ::
  "call_env \<Rightarrow> files_db \<Rightarrow> uuid \<Rightarrow> refund_source list \<Rightarrow> uuid \<Rightarrow> string \<Rightarrow> files_db app_result" where
  "void_refund_batch_items env db batch_id sources actor reason =
    res_bind (locked_refund_batch_status db batch_id) (\<lambda>(status, h).
    let st = fd_refund db;
        (payment_ids, slip_ids) = split_refund_sources sources;
        sel = names_source sources;
        found = batch_rows batch_id sel (st_items st);
        returned = count_live batch_id sel (st_items st)
    in if filter (\<lambda>s. \<not> list_ex (\<lambda>f. item_source (it_item f) = (kind_as_str (fst s), snd s)) found)
           sources \<noteq> []
       then Inl (NotFound ''[{} refunds are not in this file, e.g. {} {}]'')
       else if list_ex (\<lambda>f. it_voided_at f \<noteq> None) found
       then Inl (ConflictCode ''REFUND_ITEM_ALREADY_VOIDED'' ''[some refunds were pulled back already, e.g. {kind} {id}]'')
       else if returned \<noteq> length sources
       then Inl (Internal ''refund item void touched {returned} of {} rows'')
       else
         let ((np, ns), pay) = return_refund_sources_to_queue payment_ids slip_ids (fd_pay db)
         in Inr (insert_money_audit (tx_now env) (Some actor) ''refund_batch_items_voided''
              ''refund_batch'' (Some batch_id)
              [(''batch_status'', JStr (batch_as_str status)), (''reason'', JStr reason),
               (''file_ref'', JStr (fh_file_ref h)), (''payment_ids'', JList (map JUuid payment_ids)),
               (''slip_ids'', JList (map JUuid slip_ids)),
               (''items_returned_to_queue'', JInt (int returned)),
               (''payments_returned_to_pending'', JInt (int np)),
               (''slips_returned_to_pending'', JInt (int ns))]
              (db\<lparr>fd_pay := pay,
                 fd_refund := st\<lparr>st_items := void_items (tx_now env) batch_id sel (st_items st)\<rparr>\<rparr>)))"

text \<open>
  The refund backlog: payments with a positive refund pending and unapplied slips pending, unless a
  live item names them. A slip's customer is that of its payment.
\<close>

record refund_due =
  rd_kind :: string
  rd_source :: uuid
  rd_booking :: uuid
  rd_customer :: uuid
  rd_amount :: decimal
  rd_owed_at :: instant

definition refund_marked :: "files_db \<Rightarrow> string \<times> uuid \<Rightarrow> bool" where
  "refund_marked db src = (src \<in> set (marked item_source (st_items (fd_refund db))))"

definition payments_due :: "files_db \<Rightarrow> refund_due list" where
  "payments_due db = List.map_filter (\<lambda>(k, p).
     case pm_refund_amount p of
       Some r \<Rightarrow>
         (if payment_pending p \<and> 0 < r \<and> \<not> refund_marked db (''payment'', k)
          then Some \<lparr>rd_kind = ''payment'', rd_source = k, rd_booking = pm_booking p,
                     rd_customer = pm_customer p, rd_amount = r, rd_owed_at = pm_updated_at p\<rparr>
          else None)
     | None \<Rightarrow> None) (payments (fd_pay db))"

definition slips_due :: "files_db \<Rightarrow> refund_due list" where
  "slips_due db = List.map_filter (\<lambda>s.
     case row_get (payments (fd_pay db)) (sl_payment s) of
       Some p \<Rightarrow>
         (if \<not> sl_applied s \<and> slip_pending s \<and> 0 < sl_amount s \<and> \<not> refund_marked db (''slip'', sl_id s)
          then Some \<lparr>rd_kind = ''slip'', rd_source = sl_id s, rd_booking = sl_booking s,
                     rd_customer = pm_customer p, rd_amount = sl_amount s,
                     rd_owed_at = sl_created_at s\<rparr>
          else None)
     | None \<Rightarrow> None) (payment_slips (fd_pay db))"

definition unpaid_refund_rows :: "files_db \<Rightarrow> refund_selection \<Rightarrow> refund_due list app_result" where
  "unpaid_refund_rows db sel =
    capped MAX_REFUND_BACKLOG_ROWS ''[too many refunds to pay in this range]''
      (sort_key rd_customer (sort_key rd_owed_at
        (sort_key (\<lambda>r. if rd_kind r = ''payment'' then 0 else (1::nat)) (sort_key rd_source
          (filter (\<lambda>r.
             (case rs_customer_ids sel of None \<Rightarrow> True | Some ids \<Rightarrow> rd_customer r \<in> set ids)
             \<and> in_days (rs_from sel) (rs_to sel) (rd_owed_at r))
            (payments_due db @ slips_due db))))))"

subsection \<open>Stream 2: the platform's cut\<close>

definition deduction_batch_ref_taken :: app_error where
  "deduction_batch_ref_taken = ConflictCode ''DEDUCTION_BATCH_REF_TAKEN''
     ''[another sweep file was built in the same second; nothing is marked swept, build it again]''"

text \<open>The check constraints of the item table: no negative part, and the parts add up.\<close>

definition deduction_item_checked :: "deduction_new \<Rightarrow> bool" where
  "deduction_item_checked i =
    (0 \<le> dn_commission i \<and> 0 \<le> dn_cancellation_fee i \<and> 0 \<le> dn_tip i \<and> 0 \<le> dn_unpaid_guard_share i
     \<and> 0 \<le> dn_uncollected i
     \<and> dn_amount i = dn_commission i + dn_cancellation_fee i + dn_tip i + dn_unpaid_guard_share i
         + dn_rounding_adjustment i - dn_uncollected i)"

definition insert_deduction_batch ::
  "call_env \<Rightarrow> files_db \<Rightarrow> deduction_new new_file \<Rightarrow> (uuid \<times> files_db) app_result" where
  "insert_deduction_batch env db batch =
    (let st = fd_deduction db; batch_id = fresh_row env;
         h = new_header env batch 1 (Some (int (length (nf_items batch))))
     in if header_taken batch_id (nf_file_ref batch) (st_batches st) then Inl deduction_batch_ref_taken
        else case reserve_scb_file_ref (nf_file_ref batch) (nf_batch_ref batch) SCB_STREAM_DEDUCTION
               batch_id db of
               None \<Rightarrow> Inl deduction_batch_ref_taken
             | Some db1 \<Rightarrow>
               (if \<not> list_all deduction_item_checked (nf_items batch) then Inl (Database ''23514'')
                else case add_items dn_payment batch_id (nf_items batch) (st_items st) of
                  None \<Rightarrow> Inl (ConflictCode ''DEDUCTION_ALREADY_SWEPT''
                    ''[some jobs are in another sweep file already; preview and build again]'')
                | Some its \<Rightarrow>
                  Inr (batch_id,
                    insert_money_audit (tx_now env) (nf_created_by batch) ''deduction_batch_exported''
                      ''deduction_batch'' (Some batch_id)
                      [(''file_ref'', JStr (nf_file_ref batch)), (''batch_ref'', JStr (nf_batch_ref batch)),
                       (''value_date'', JDate (nf_value_date batch)),
                       (''credit_account'', jopt JStr (nf_credit_account batch)),
                       (''total_amount'', JDec (nf_total_amount batch)),
                       (''job_count'', JInt (int (length (nf_items batch))))]
                      (db1\<lparr>fd_deduction := \<lparr>st_batches = row_put batch_id h (st_batches st),
                                            st_items = its\<rparr>\<rparr>))))"

definition locked_deduction_batch_status ::
  "files_db \<Rightarrow> uuid \<Rightarrow> (batch_status \<times> file_header) app_result" where
  "locked_deduction_batch_status db batch_id =
    locked_status ''[no such sweep file]'' ''unknown deduction batch status: {stored}''
      (st_batches (fd_deduction db)) batch_id"

definition set_deduction_batch_status ::
  "call_env \<Rightarrow> files_db \<Rightarrow> uuid \<Rightarrow> batch_status \<Rightarrow> string option \<Rightarrow> uuid
   \<Rightarrow> (file_header \<times> files_db) app_result" where
  "set_deduction_batch_status env db batch_id to note actor =
    res_bind (locked_deduction_batch_status db batch_id) (\<lambda>(from_st, h).
    res_bind (check_transition DeductionBatch from_st to) (\<lambda>_.
      let h' = status_header (tx_now env) to note h;
          st = fd_deduction db
      in Inr (h',
        insert_money_audit (tx_now env) (Some actor) ''deduction_batch_status_changed''
          ''deduction_batch'' (Some batch_id) (status_detail from_st to note h')
          (db\<lparr>fd_deduction := st\<lparr>st_batches := row_put batch_id h' (st_batches st)\<rparr>\<rparr>))))"

definition void_deduction_batch ::
  "call_env \<Rightarrow> files_db \<Rightarrow> uuid \<Rightarrow> uuid \<Rightarrow> string \<Rightarrow> (file_header \<times> files_db) app_result" where
  "void_deduction_batch env db batch_id actor reason =
    res_bind (locked_deduction_batch_status db batch_id) (\<lambda>(from_st, h).
    res_bind (check_transition DeductionBatch from_st Voided) (\<lambda>_.
      let h' = voided_header (tx_now env) actor reason h;
          st = fd_deduction db
      in Inr (h',
        insert_money_audit (tx_now env) (Some actor) ''deduction_batch_voided'' ''deduction_batch''
          (Some batch_id)
          [(''from'', JStr (batch_as_str from_st)), (''reason'', JStr reason),
           (''file_ref'', JStr (fh_file_ref h')),
           (''jobs_returned_to_backlog'', JInt (int (count_live batch_id (\<lambda>_. True) (st_items st)))),
           (''total_amount'', JDec (fh_total_amount h'))]
          (db\<lparr>fd_deduction := \<lparr>st_batches = row_put batch_id h' (st_batches st),
             st_items = void_items (tx_now env) batch_id (\<lambda>_. True) (st_items st)\<rparr>\<rparr>))))"

text \<open>One credit line carries the whole sweep: a file the bank confirmed lets no job go.\<close>

definition void_deduction_batch_items ::
  "call_env \<Rightarrow> files_db \<Rightarrow> uuid \<Rightarrow> uuid list \<Rightarrow> uuid \<Rightarrow> string \<Rightarrow> files_db app_result" where
  "void_deduction_batch_items env db batch_id payment_ids actor reason =
    res_bind (locked_deduction_batch_status db batch_id) (\<lambda>(status, h).
    let st = fd_deduction db;
        sel = (\<lambda>i. dn_payment i \<in> set payment_ids);
        found = batch_rows batch_id sel (st_items st);
        released = count_live batch_id sel (st_items st)
    in if status = Confirmed
       then Inl (ConflictCode ''DEDUCTION_BATCH_CONFIRMED''
         ''[the bank confirmed this file; its single transfer covers every job, so none can be pulled back]'')
       else if filter (\<lambda>k. \<not> list_ex (\<lambda>f. dn_payment (it_item f) = k) found) payment_ids \<noteq> []
       then Inl (NotFound ''[{} entries are not in this file, e.g. {}]'')
       else if list_ex (\<lambda>f. it_voided_at f \<noteq> None) found
       then Inl (ConflictCode ''DEDUCTION_ITEM_ALREADY_VOIDED'' ''[some entries were pulled back already, e.g. {id}]'')
       else if released \<noteq> length payment_ids
       then Inl (Internal ''deduction item void touched {released} of {} rows'')
       else Inr (insert_money_audit (tx_now env) (Some actor) ''deduction_batch_items_voided''
              ''deduction_batch'' (Some batch_id)
              [(''batch_status'', JStr (batch_as_str status)), (''reason'', JStr reason),
               (''file_ref'', JStr (fh_file_ref h)), (''payment_ids'', JList (map JUuid payment_ids)),
               (''jobs_returned_to_backlog'', JInt (int released)),
               (''released_amount'', JDec (sum_list (map (\<lambda>f. dn_amount (it_item f)) found)))]
              (db\<lparr>fd_deduction := st\<lparr>st_items := void_items (tx_now env) batch_id sel (st_items st)\<rparr>\<rparr>)))"

definition sweep_due :: "files_db \<Rightarrow> deduction_selection \<Rightarrow> uuid \<times> payment \<Rightarrow> bool" where
  "sweep_due db sel kp =
    (pm_final_amount (snd kp) \<noteq> None \<and> pm_status (snd kp) \<noteq> PayPending
     \<and> in_days (ds_from sel) (ds_to sel) (pm_updated_at (snd kp))
     \<and> fst kp \<notin> set (marked dn_payment (st_items (fd_deduction db))))"

definition unswept_deduction_rows ::
  "files_db \<Rightarrow> deduction_selection \<Rightarrow> (uuid \<times> payment) list app_result" where
  "unswept_deduction_rows db sel =
    capped MAX_SWEEP_BACKLOG_ROWS ''[too many jobs to sweep in this range]''
      (sort_key (\<lambda>(_, p). pm_updated_at p) (sort_key fst
        (filter (sweep_due db sel) (payments (fd_pay db)))))"

definition MAX_FILE_NOTE_CHARS :: nat where "MAX_FILE_NOTE_CHARS = 500"

definition clean_note :: "string \<Rightarrow> bool \<Rightarrow> string option app_result" where
  "clean_note v required =
    (let t = trim v
     in if t = [] then (if required then Inl (BadRequest ''[{label} is required]'') else Inr None)
        else if MAX_FILE_NOTE_CHARS < char_count t then Inl (BadRequest ''[{label} is too long]'')
        else Inr (Some t))"

definition status_request :: "string \<Rightarrow> string option \<Rightarrow> (batch_status \<times> string option) app_result" where
  "status_request status note =
    (case batch_parse (trim status) of
       None \<Rightarrow> Inl (BadRequest ''[invalid status: must be one of {}]'')
     | Some s \<Rightarrow>
       (if s = Voided then Inl (BadRequest ''[use the void button, with a reason]'')
        else res_bind (case note of Some n \<Rightarrow> clean_note n False | None \<Rightarrow> Inr None)
               (\<lambda>n. Inr (s, n))))"

definition reason_request :: "string \<Rightarrow> string app_result" where
  "reason_request reason =
    res_bind (clean_note reason True) (\<lambda>r.
      case r of Some t \<Rightarrow> Inr t | None \<Rightarrow> Inl (BadRequest ''[a reason is required]''))"

definition require_admin :: "auth_user \<Rightarrow> unit app_result" where
  "require_admin user =
    (if au_role user \<noteq> ''admin'' then Inl (Forbidden ''This action requires the admin role'')
     else Inr ())"

definition api_set_payout_status ::
  "auth_user \<Rightarrow> call_env \<Rightarrow> files_db \<Rightarrow> uuid \<Rightarrow> string \<Rightarrow> string option
   \<Rightarrow> (file_header \<times> files_db) app_result" where
  "api_set_payout_status user env db batch_id status note =
    res_bind (require_admin user) (\<lambda>_. res_bind (status_request status note) (\<lambda>(s, n).
      set_payout_batch_status env db batch_id s n (au_id user)))"

definition api_void_payout ::
  "auth_user \<Rightarrow> call_env \<Rightarrow> files_db \<Rightarrow> uuid \<Rightarrow> string \<Rightarrow> (file_header \<times> files_db) app_result" where
  "api_void_payout user env db batch_id reason =
    res_bind (require_admin user) (\<lambda>_. res_bind (reason_request reason) (\<lambda>r.
      void_payout_batch env db batch_id (au_id user) r))"

definition api_void_payout_items ::
  "auth_user \<Rightarrow> call_env \<Rightarrow> files_db \<Rightarrow> uuid \<Rightarrow> uuid list \<Rightarrow> string \<Rightarrow> files_db app_result" where
  "api_void_payout_items user env db batch_id booking_ids reason =
    res_bind (require_admin user) (\<lambda>_. res_bind (normalize_voided_booking_ids booking_ids) (\<lambda>ids.
      res_bind (reason_request reason) (\<lambda>r.
        void_payout_batch_items env db batch_id ids (au_id user) r)))"

definition api_set_refund_status ::
  "auth_user \<Rightarrow> call_env \<Rightarrow> files_db \<Rightarrow> uuid \<Rightarrow> string \<Rightarrow> string option
   \<Rightarrow> (file_header \<times> files_db) app_result" where
  "api_set_refund_status user env db batch_id status note =
    res_bind (require_admin user) (\<lambda>_. res_bind (status_request status note) (\<lambda>(s, n).
      set_refund_batch_status env db batch_id s n (au_id user)))"

definition api_void_refund ::
  "auth_user \<Rightarrow> call_env \<Rightarrow> files_db \<Rightarrow> uuid \<Rightarrow> string \<Rightarrow> (file_header \<times> files_db) app_result" where
  "api_void_refund user env db batch_id reason =
    res_bind (require_admin user) (\<lambda>_. res_bind (reason_request reason) (\<lambda>r.
      void_refund_batch env db batch_id (au_id user) r))"

definition api_void_refund_items ::
  "auth_user \<Rightarrow> call_env \<Rightarrow> files_db \<Rightarrow> uuid \<Rightarrow> (string \<times> uuid) list \<Rightarrow> string
   \<Rightarrow> files_db app_result" where
  "api_void_refund_items user env db batch_id raw reason =
    res_bind (require_admin user) (\<lambda>_. res_bind (normalize_voided_refund_sources raw) (\<lambda>sources.
      res_bind (reason_request reason) (\<lambda>r.
        void_refund_batch_items env db batch_id sources (au_id user) r)))"

definition api_set_deduction_status ::
  "auth_user \<Rightarrow> call_env \<Rightarrow> files_db \<Rightarrow> uuid \<Rightarrow> string \<Rightarrow> string option
   \<Rightarrow> (file_header \<times> files_db) app_result" where
  "api_set_deduction_status user env db batch_id status note =
    res_bind (require_admin user) (\<lambda>_. res_bind (status_request status note) (\<lambda>(s, n).
      set_deduction_batch_status env db batch_id s n (au_id user)))"

definition api_void_deduction ::
  "auth_user \<Rightarrow> call_env \<Rightarrow> files_db \<Rightarrow> uuid \<Rightarrow> string \<Rightarrow> (file_header \<times> files_db) app_result" where
  "api_void_deduction user env db batch_id reason =
    res_bind (require_admin user) (\<lambda>_. res_bind (reason_request reason) (\<lambda>r.
      void_deduction_batch env db batch_id (au_id user) r))"

definition api_void_deduction_items ::
  "auth_user \<Rightarrow> call_env \<Rightarrow> files_db \<Rightarrow> uuid \<Rightarrow> uuid list \<Rightarrow> string \<Rightarrow> files_db app_result" where
  "api_void_deduction_items user env db batch_id payment_ids reason =
    res_bind (require_admin user) (\<lambda>_. res_bind (normalize_voided_payment_ids payment_ids) (\<lambda>ids.
      res_bind (reason_request reason) (\<lambda>r.
        void_deduction_batch_items env db batch_id ids (au_id user) r)))"

subsection \<open>Commands\<close>

datatype file_cmd =
    PayoutExport call_env "payout_new new_file"
  | PayoutStatus auth_user call_env uuid string "string option"
  | PayoutVoid auth_user call_env uuid string
  | PayoutVoidItems auth_user call_env uuid "uuid list" string
  | RefundExport call_env "refund_new new_file"
  | RefundStatus auth_user call_env uuid string "string option"
  | RefundVoid auth_user call_env uuid string
  | RefundVoidItems auth_user call_env uuid "(string \<times> uuid) list" string
  | SweepExport call_env "deduction_new new_file"
  | SweepStatus auth_user call_env uuid string "string option"
  | SweepVoid auth_user call_env uuid string
  | SweepVoidItems auth_user call_env uuid "uuid list" string

definition commit :: "files_db \<Rightarrow> ('r \<times> files_db) app_result \<Rightarrow> files_db" where
  "commit db res = (case res of Inl _ \<Rightarrow> db | Inr (_, db') \<Rightarrow> db')"

definition commit_db :: "files_db \<Rightarrow> files_db app_result \<Rightarrow> files_db" where
  "commit_db db res = (case res of Inl _ \<Rightarrow> db | Inr db' \<Rightarrow> db')"

fun run_file :: "file_cmd \<Rightarrow> files_db \<Rightarrow> files_db" where
  "run_file (PayoutExport env f) db = commit db (insert_payout_batch env db f)"
| "run_file (PayoutStatus u env b s n) db = commit db (api_set_payout_status u env db b s n)"
| "run_file (PayoutVoid u env b r) db = commit db (api_void_payout u env db b r)"
| "run_file (PayoutVoidItems u env b ids r) db = commit_db db (api_void_payout_items u env db b ids r)"
| "run_file (RefundExport env f) db = commit db (insert_refund_batch env db f)"
| "run_file (RefundStatus u env b s n) db = commit db (api_set_refund_status u env db b s n)"
| "run_file (RefundVoid u env b r) db = commit db (api_void_refund u env db b r)"
| "run_file (RefundVoidItems u env b ids r) db = commit_db db (api_void_refund_items u env db b ids r)"
| "run_file (SweepExport env f) db = commit db (insert_deduction_batch env db f)"
| "run_file (SweepStatus u env b s n) db = commit db (api_set_deduction_status u env db b s n)"
| "run_file (SweepVoid u env b r) db = commit db (api_void_deduction u env db b r)"
| "run_file (SweepVoidItems u env b ids r) db = commit_db db (api_void_deduction_items u env db b ids r)"

end
