(* ===== verification/Payment_File_Streams.thy ===== *)
theory Payment_File_Streams
  imports Payment_File_Ops
begin

text \<open>
  What the three file streams have in common, as one step relation on a stream and one locale: a live
  item marks its key once, a voided file has no live item, a terminal file stays as it is. Where
  items of a confirmed file are sealed, a key it marked stays marked.
\<close>

text \<open>
  The three streams are file streams: every command is a step of each of them, most often the step
  that stays. The sweep is a sealed one.
\<close>

subsection \<open>Steps of a stream\<close>

definition status_of :: "'i stream \<Rightarrow> uuid \<Rightarrow> batch_status option" where
  "status_of st b = Option.bind (row_get (st_batches st) b) (\<lambda>h. batch_parse (fh_status h))"

inductive stream_step :: "('i \<Rightarrow> 'k) \<Rightarrow> bool \<Rightarrow> 'i stream \<Rightarrow> 'i stream \<Rightarrow> bool"
  for key :: "'i \<Rightarrow> 'k" and sealed :: bool where
  stay: "stream_step key sealed st st"
| export: "row_get (st_batches st) b = None \<Longrightarrow> fh_status h = ''generated'' \<Longrightarrow>
    add_items key b new (st_items st) = Some its \<Longrightarrow>
    stream_step key sealed st \<lparr>st_batches = row_put b h (st_batches st), st_items = its\<rparr>"
| status: "status_of st b = Some s \<Longrightarrow> batch_is_legal s s' \<Longrightarrow> s' \<noteq> Voided \<Longrightarrow>
    fh_status h = batch_as_str s' \<Longrightarrow>
    stream_step key sealed st (st\<lparr>st_batches := row_put b h (st_batches st)\<rparr>)"
| void: "status_of st b = Some s \<Longrightarrow> batch_is_legal s Voided \<Longrightarrow> fh_status h = ''voided'' \<Longrightarrow>
    stream_step key sealed st \<lparr>st_batches = row_put b h (st_batches st),
      st_items = void_items now b (\<lambda>_. True) (st_items st)\<rparr>"
| void_some: "status_of st b = Some s \<Longrightarrow> \<not> (sealed \<and> s = Confirmed) \<Longrightarrow>
    stream_step key sealed st (st\<lparr>st_items := void_items now b sel (st_items st)\<rparr>)"

definition stream_inv :: "('i \<Rightarrow> 'k) \<Rightarrow> 'i stream \<Rightarrow> bool" where
  "stream_inv key st =
    (distinct (marked key (st_items st))
     \<and> (\<forall>i \<in> set (st_items st). status_of st (it_batch i) \<noteq> None)
     \<and> (\<forall>i \<in> set (st_items st). status_of st (it_batch i) = Some Voided \<longrightarrow> it_voided_at i \<noteq> None))"

lemma status_of_put [simp]:
  "status_of (st\<lparr>st_batches := row_put b h (st_batches st)\<rparr>) b' =
    (if b' = b then batch_parse (fh_status h) else status_of st b')"
  "status_of \<lparr>st_batches = row_put b h bs, st_items = its\<rparr> b' =
    (if b' = b then batch_parse (fh_status h)
     else Option.bind (row_get bs b') (\<lambda>h. batch_parse (fh_status h)))"
  "status_of (st\<lparr>st_items := its\<rparr>) b' = status_of st b'"
  by (simp_all add: status_of_def)

lemma live_append [simp]: "live_items (xs @ ys) = live_items xs @ live_items ys"
  by (simp add: live_items_def)

lemma live_new [simp]:
  "live_items (map (\<lambda>i. \<lparr>it_batch = b, it_voided_at = None, it_item = i\<rparr>) new) = new"
  by (induction new) (simp_all add: live_items_def)

lemma add_items_Some:
  assumes "add_items key b new its = Some its'"
  shows "marked key its' = marked key its @ map key new"
    and "distinct (marked key its) \<Longrightarrow> distinct (marked key its')"
    and "set its' = set its \<union> (\<lambda>i. \<lparr>it_batch = b, it_voided_at = None, it_item = i\<rparr>) ` set new"
  using assms by (auto simp: add_items_def marked_def split: if_splits) (metis IntI empty_iff imageI)

lemma live_void:
  "live_items (void_items now b sel its) =
    map it_item (filter (\<lambda>i. it_voided_at i = None \<and> \<not> (it_batch i = b \<and> sel (it_item i))) its)"
  by (induction its) (auto simp: live_items_def void_items_def)

lemma distinct_marked_void: "distinct (marked key its) \<Longrightarrow> distinct (marked key (void_items now b sel its))"
  unfolding marked_def live_void
  by (induction its) (auto simp: live_items_def split: if_splits)

lemma void_items_set:
  "i \<in> set (void_items now b sel its) \<Longrightarrow> \<exists>j \<in> set its. it_batch i = it_batch j
    \<and> (it_voided_at j \<noteq> None \<longrightarrow> it_voided_at i \<noteq> None)
    \<and> (it_batch i = b \<and> sel (it_item i) \<longrightarrow> it_voided_at i \<noteq> None)"
  by (auto simp: void_items_def)

lemma stream_step_inv: "stream_step key sealed st st' \<Longrightarrow> stream_inv key st \<Longrightarrow> stream_inv key st'"
proof (induction rule: stream_step.induct)
  case (export st b h new its)
  have g: "batch_parse ''generated'' = Some Generated" by (simp add: batch_parse_def)
  from export show ?case
    using add_items_Some [OF export(3)]
    by (auto simp: stream_inv_def g status_of_def)
next
  case (status st b s s' h)
  then show ?case by (auto simp: stream_inv_def batch_wire.parse_as_str)
next
  case (void st b s h now)
  have v: "batch_parse ''voided'' = Some Voided" by (simp add: batch_parse_def)
  from void show ?case
    by (auto simp: stream_inv_def v distinct_marked_void status_of_def dest!: void_items_set)
next
  case (void_some st b s now sel)
  then show ?case
    by (auto simp: stream_inv_def distinct_marked_void dest!: void_items_set)
qed simp

text \<open>A terminal file keeps its status; a sealed confirmed file keeps its live items too.\<close>

lemma stream_step_terminal:
  assumes "stream_step key sealed st st'" and "status_of st b = Some s" and "batch_is_terminal s"
  shows "status_of st' b = Some s"
  using assms
proof (induction rule: stream_step.induct)
  case (export st b' h new its)
  then show ?case by (auto simp: status_of_def)
next
  case (void st b' s' h now)
  then show ?case by (auto simp: status_of_def batch_life.terminal_final)
qed (auto simp: batch_life.terminal_final)

lemma stream_step_sealed:
  assumes "stream_step key True st st'" and "status_of st (it_batch i) = Some Confirmed"
    and "i \<in> set (st_items st)" and "it_voided_at i = None"
  shows "i \<in> set (st_items st')"
  using assms
proof (induction rule: stream_step.induct)
  case (export st b h new its)
  then show ?case using add_items_Some(3) [OF export(3)] by auto
next
  case (void st b s h now)
  then have "it_batch i \<noteq> b" by (auto simp: batch_is_legal_def)
  with void show ?case by (auto simp: void_items_def image_iff intro!: bexI [of _ i])
next
  case (void_some st b s now sel)
  then have "it_batch i \<noteq> b" by auto
  with void_some show ?case by (auto simp: void_items_def image_iff intro!: bexI [of _ i])
qed auto

lemma marked_mem: "i \<in> set its \<Longrightarrow> it_voided_at i = None \<Longrightarrow> key (it_item i) \<in> set (marked key its)"
  by (auto simp: marked_def live_items_def)

subsection \<open>The interface of a stream\<close>

locale file_stream =
  fixes exec :: "'c \<Rightarrow> 'db \<Rightarrow> 'db"
    and get :: "'db \<Rightarrow> 'i stream"
    and key :: "'i \<Rightarrow> 'k"
    and sealed :: bool
  assumes exec_step: "stream_step key sealed (get db) (get (exec c db))"
begin

lemma run_stream_inv: "stream_inv key (get db) \<Longrightarrow> stream_inv key (get (fold exec cs db))"
  by (induction cs arbitrary: db) (auto intro: stream_step_inv [OF exec_step])

lemma run_terminal:
  "status_of (get db) b = Some s \<Longrightarrow> batch_is_terminal s \<Longrightarrow>
   status_of (get (fold exec cs db)) b = Some s"
  by (induction cs arbitrary: db) (auto intro: stream_step_terminal [OF exec_step])

lemma run_marked_once: "stream_inv key (get db) \<Longrightarrow> distinct (marked key (st_items (get (fold exec cs db))))"
  using run_stream_inv by (auto simp: stream_inv_def)

end

locale sealed_file_stream = file_stream exec get key True
  for exec :: "'c \<Rightarrow> 'db \<Rightarrow> 'db" and get :: "'db \<Rightarrow> 'i stream" and key :: "'i \<Rightarrow> 'k"
begin

lemma run_sealed:
  assumes "status_of (get db) (it_batch i) = Some Confirmed" and "i \<in> set (st_items (get db))"
    and "it_voided_at i = None"
  shows "i \<in> set (st_items (get (fold exec cs db)))"
  using assms
proof (induction cs arbitrary: db)
  case (Cons c cs)
  then have "i \<in> set (st_items (get (exec c db)))"
    by (intro stream_step_sealed [OF exec_step])
  moreover have "status_of (get (exec c db)) (it_batch i) = Some Confirmed"
    using Cons by (intro stream_step_terminal [OF exec_step]) (simp_all add: batch_is_terminal_def)
  ultimately show ?case using Cons by simp
qed simp

lemma run_stays_marked:
  assumes "status_of (get db) (it_batch i) = Some Confirmed" and "i \<in> set (st_items (get db))"
    and "it_voided_at i = None"
  shows "key (it_item i) \<in> set (marked key (st_items (get (fold exec cs db))))"
  using run_sealed [OF assms] assms(3) by (rule marked_mem)

end

lemma locked_status_Inr_iff:
  "locked_status m u hs b = Inr (s, h) \<longleftrightarrow> row_get hs b = Some h \<and> batch_parse (fh_status h) = Some s"
  by (auto simp: locked_status_def split: option.splits)

lemmas locked_defs = locked_batch_status_def locked_refund_batch_status_def locked_deduction_batch_status_def

lemma audit_simps [simp]:
  "fd_pay (insert_money_audit n a x k t d db) = fd_pay db"
  "fd_payout (insert_money_audit n a x k t d db) = fd_payout db"
  "fd_refund (insert_money_audit n a x k t d db) = fd_refund db"
  "fd_deduction (insert_money_audit n a x k t d db) = fd_deduction db"
  "fd_refs (insert_money_audit n a x k t d db) = fd_refs db"
  by (simp_all add: insert_money_audit_def)

lemma reserve_Some:
  assumes "reserve_scb_file_ref f b s i db = Some db1"
  shows "fd_pay db1 = fd_pay db" "fd_payout db1 = fd_payout db" "fd_refund db1 = fd_refund db"
    "fd_deduction db1 = fd_deduction db"
    "fd_refs db1 = fd_refs db @ [\<lparr>fr_file_ref = f, fr_batch_ref = b, fr_stream = s, fr_batch = i\<rparr>]"
    "\<forall>r \<in> set (fd_refs db). fr_file_ref r \<noteq> f \<and> fr_batch_ref r \<noteq> b"
  using assms by (auto simp: reserve_scb_file_ref_def list_ex_iff split: if_splits)

lemma header_not_taken: "\<not> header_taken i f hs \<Longrightarrow> row_get hs i = None"
  by (simp add: header_taken_def)

lemma status_header_status [simp]: "fh_status (status_header now s n h) = batch_as_str s"
  by (cases s) (simp_all add: status_header_def)

lemma voided_header_status [simp]: "fh_status (voided_header now a r h) = ''voided''"
  by (simp add: voided_header_def)

lemma new_header_status [simp]: "fh_status (new_header env f n j) = ''generated''"
  by (simp add: new_header_def)

lemma status_request_not_voided: "status_request s n = Inr (t, m) \<Longrightarrow> t \<noteq> Voided"
  by (auto simp: status_request_def res_bind_Inr_iff split: option.splits if_splits)

subsection \<open>What each transaction does to the streams\<close>

lemma insert_payout_streams:
  assumes "insert_payout_batch env db f = Inr (b, db')"
  shows "stream_step pn_booking False (fd_payout db) (fd_payout db')"
    "fd_refund db' = fd_refund db" "fd_deduction db' = fd_deduction db" "fd_pay db' = fd_pay db"
  using assms
  by (auto simp: insert_payout_batch_def Let_def reserve_Some header_not_taken
      intro!: stream_step.export split: if_splits option.splits)

lemma insert_refund_streams:
  assumes "insert_refund_batch env db f = Inr (b, db')"
  shows "stream_step item_source False (fd_refund db) (fd_refund db')"
    "fd_payout db' = fd_payout db" "fd_deduction db' = fd_deduction db"
  using assms
  by (auto simp: insert_refund_batch_def Let_def reserve_Some header_not_taken res_bind_Inr_iff case_prod_beta
      intro!: stream_step.export split: if_splits option.splits)

lemma insert_deduction_streams:
  assumes "insert_deduction_batch env db f = Inr (b, db')"
  shows "stream_step dn_payment True (fd_deduction db) (fd_deduction db')"
    "fd_payout db' = fd_payout db" "fd_refund db' = fd_refund db" "fd_pay db' = fd_pay db"
  using assms
  by (auto simp: insert_deduction_batch_def Let_def reserve_Some header_not_taken
      intro!: stream_step.export split: if_splits option.splits)

lemma step_status:
  "row_get (st_batches st) b = Some h \<Longrightarrow> batch_parse (fh_status h) = Some s \<Longrightarrow> batch_is_legal s s' \<Longrightarrow>
   s' \<noteq> Voided \<Longrightarrow>
   stream_step key sealed st (st\<lparr>st_batches := row_put b (status_header now s' n h) (st_batches st)\<rparr>)"
  by (rule stream_step.status [of _ _ s s']) (simp_all add: status_of_def)

lemma step_void:
  "row_get (st_batches st) b = Some h \<Longrightarrow> batch_parse (fh_status h) = Some s \<Longrightarrow>
   batch_is_legal s Voided \<Longrightarrow>
   stream_step key sealed st \<lparr>st_batches = row_put b (voided_header now a r h) (st_batches st),
     st_items = void_items now b (\<lambda>_. True) (st_items st)\<rparr>"
  by (rule stream_step.void [of _ _ s]) (simp_all add: status_of_def)

lemma step_void_some:
  "row_get (st_batches st) b = Some h \<Longrightarrow> batch_parse (fh_status h) = Some s \<Longrightarrow>
   \<not> (sealed \<and> s = Confirmed) \<Longrightarrow>
   stream_step key sealed st (st\<lparr>st_items := void_items now b sel (st_items st)\<rparr>)"
  by (rule stream_step.void_some [of _ _ s]) (simp_all add: status_of_def)

lemma payout_ops_streams:
  "set_payout_batch_status env db b s n a = Inr (h, db') \<Longrightarrow> s \<noteq> Voided \<Longrightarrow>
    stream_step pn_booking False (fd_payout db) (fd_payout db') \<and> fd_refund db' = fd_refund db
    \<and> fd_deduction db' = fd_deduction db \<and> fd_pay db' = fd_pay db"
  "void_payout_batch env db b a r = Inr (h, db') \<Longrightarrow>
    stream_step pn_booking False (fd_payout db) (fd_payout db') \<and> fd_refund db' = fd_refund db
    \<and> fd_deduction db' = fd_deduction db \<and> fd_pay db' = fd_pay db"
  "void_payout_batch_items env db b ids a r = Inr db' \<Longrightarrow>
    stream_step pn_booking False (fd_payout db) (fd_payout db') \<and> fd_refund db' = fd_refund db
    \<and> fd_deduction db' = fd_deduction db \<and> fd_pay db' = fd_pay db"
  by (auto simp: set_payout_batch_status_def void_payout_batch_def void_payout_batch_items_def
      res_bind_Inr_iff Let_def locked_defs locked_status_Inr_iff
      intro: step_status step_void step_void_some split: if_splits)

lemma refund_ops_streams:
  "set_refund_batch_status env db b s n a = Inr (h, db') \<Longrightarrow> s \<noteq> Voided \<Longrightarrow>
    stream_step item_source False (fd_refund db) (fd_refund db') \<and> fd_payout db' = fd_payout db
    \<and> fd_deduction db' = fd_deduction db"
  "void_refund_batch env db b a r = Inr (h, db') \<Longrightarrow>
    stream_step item_source False (fd_refund db) (fd_refund db') \<and> fd_payout db' = fd_payout db
    \<and> fd_deduction db' = fd_deduction db"
  "void_refund_batch_items env db b srcs a r = Inr db' \<Longrightarrow>
    stream_step item_source False (fd_refund db) (fd_refund db') \<and> fd_payout db' = fd_payout db
    \<and> fd_deduction db' = fd_deduction db"
  by (auto simp: set_refund_batch_status_def void_refund_batch_def void_refund_batch_items_def
      res_bind_Inr_iff Let_def locked_defs locked_status_Inr_iff case_prod_beta
      intro: step_status step_void step_void_some split: if_splits)

lemma deduction_ops_streams:
  "set_deduction_batch_status env db b s n a = Inr (h, db') \<Longrightarrow> s \<noteq> Voided \<Longrightarrow>
    stream_step dn_payment True (fd_deduction db) (fd_deduction db') \<and> fd_refund db' = fd_refund db
    \<and> fd_payout db' = fd_payout db \<and> fd_pay db' = fd_pay db"
  "void_deduction_batch env db b a r = Inr (h, db') \<Longrightarrow>
    stream_step dn_payment True (fd_deduction db) (fd_deduction db') \<and> fd_refund db' = fd_refund db
    \<and> fd_payout db' = fd_payout db \<and> fd_pay db' = fd_pay db"
  "void_deduction_batch_items env db b ids a r = Inr db' \<Longrightarrow>
    stream_step dn_payment True (fd_deduction db) (fd_deduction db') \<and> fd_refund db' = fd_refund db
    \<and> fd_payout db' = fd_payout db \<and> fd_pay db' = fd_pay db"
  by (auto simp: set_deduction_batch_status_def void_deduction_batch_def void_deduction_batch_items_def
      res_bind_Inr_iff Let_def locked_defs locked_status_Inr_iff
      intro: step_status step_void step_void_some split: if_splits)

lemmas api_file_defs =
  api_set_payout_status_def api_void_payout_def api_void_payout_items_def
  api_set_refund_status_def api_void_refund_def api_void_refund_items_def
  api_set_deduction_status_def api_void_deduction_def api_void_deduction_items_def

subsection \<open>Every command is a step of every stream\<close>

definition streams_step :: "files_db \<Rightarrow> files_db \<Rightarrow> bool" where
  "streams_step db db' =
    (stream_step pn_booking False (fd_payout db) (fd_payout db')
     \<and> stream_step item_source False (fd_refund db) (fd_refund db')
     \<and> stream_step dn_payment True (fd_deduction db) (fd_deduction db'))"

lemma streams_step_refl [simp]: "streams_step db db"
  by (simp add: streams_step_def stream_step.stay)

lemma streams_step_export:
  "insert_payout_batch env db f = Inr (b, db') \<Longrightarrow> streams_step db db'"
  "insert_refund_batch env db g = Inr (b, db') \<Longrightarrow> streams_step db db'"
  "insert_deduction_batch env db h = Inr (b, db') \<Longrightarrow> streams_step db db'"
  by (simp_all add: streams_step_def stream_step.stay insert_payout_streams insert_refund_streams
      insert_deduction_streams)

lemma streams_step_payout:
  "api_set_payout_status u env db b s n = Inr (h, db') \<Longrightarrow> streams_step db db'"
  "api_void_payout u env db b r = Inr (h, db') \<Longrightarrow> streams_step db db'"
  "api_void_payout_items u env db b ids r = Inr db' \<Longrightarrow> streams_step db db'"
  unfolding api_file_defs streams_step_def
  by (auto simp: res_bind_Inr_iff stream_step.stay dest!: payout_ops_streams status_request_not_voided)

lemma streams_step_refund:
  "api_set_refund_status u env db b s n = Inr (h, db') \<Longrightarrow> streams_step db db'"
  "api_void_refund u env db b r = Inr (h, db') \<Longrightarrow> streams_step db db'"
  "api_void_refund_items u env db b srcs r = Inr db' \<Longrightarrow> streams_step db db'"
  unfolding api_file_defs streams_step_def
  by (auto simp: res_bind_Inr_iff stream_step.stay dest!: refund_ops_streams status_request_not_voided)

lemma streams_step_deduction:
  "api_set_deduction_status u env db b s n = Inr (h, db') \<Longrightarrow> streams_step db db'"
  "api_void_deduction u env db b r = Inr (h, db') \<Longrightarrow> streams_step db db'"
  "api_void_deduction_items u env db b ids r = Inr db' \<Longrightarrow> streams_step db db'"
  unfolding api_file_defs streams_step_def
  by (auto simp: res_bind_Inr_iff stream_step.stay dest!: deduction_ops_streams status_request_not_voided)

lemma streams_step_commit:
  "(\<And>r db'. res = Inr (r, db') \<Longrightarrow> streams_step db db') \<Longrightarrow> streams_step db (commit db res)"
  "(\<And>db'. res' = Inr db' \<Longrightarrow> streams_step db db') \<Longrightarrow> streams_step db (commit_db db res')"
  by (auto simp: commit_def commit_db_def split: sum.splits)

lemma run_file_streams: "streams_step db (run_file c db)"
  by (cases c)
    (auto intro!: streams_step_commit
      elim: streams_step_export streams_step_payout streams_step_refund streams_step_deduction)

interpretation payout_stream: file_stream run_file fd_payout pn_booking False
  by unfold_locales (use run_file_streams in \<open>simp add: streams_step_def\<close>)

interpretation refund_stream: file_stream run_file fd_refund item_source False
  by unfold_locales (use run_file_streams in \<open>simp add: streams_step_def\<close>)

interpretation sweep_stream: sealed_file_stream run_file fd_deduction dn_payment
  by unfold_locales (use run_file_streams in \<open>simp add: streams_step_def\<close>)

end
