(* ===== verification/Payment_Refund_Queue.thy ===== *)
theory Payment_Refund_Queue
  imports Payment_File_Streams
begin

text \<open>
  The refund stream works against a queue that lives in the rows that owe the money: a row is pending
  until a file takes it, processed while a live item names it, and pending again once that item is
  voided. The invariant says a pending row is in no live item.
\<close>

definition queue_inv :: "files_db \<Rightarrow> bool" where
  "queue_inv db =
    (distinct (row_keys (payments (fd_pay db)))
     \<and> (\<forall>i \<in> set (st_items (fd_refund db)). rn_kind (it_item i) \<in> {''payment'', ''slip''})
     \<and> distinct (marked item_source (st_items (fd_refund db)))
     \<and> (\<forall>k p. row_get (payments (fd_pay db)) k = Some p \<longrightarrow> payment_pending p \<longrightarrow> \<not> refund_marked db (''payment'', k))
     \<and> (\<forall>s \<in> set (payment_slips (fd_pay db)). \<not> sl_applied s \<longrightarrow> slip_pending s \<longrightarrow> \<not> refund_marked db (''slip'', sl_id s)))"

subsection \<open>Sources and items\<close>

lemma kind_parse_str [simp]: "kind_parse ''payment'' = Some PaymentSource" "kind_parse ''slip'' = Some SlipSource"
  using kind_wire.parse_as_str [of PaymentSource] kind_wire.parse_as_str [of SlipSource] by simp_all

definition source_key :: "refund_source \<Rightarrow> string \<times> uuid" where
  "source_key s = (kind_as_str (fst s), snd s)"

lemma parse_items_keys:
  "list_all refund_item_checked items \<Longrightarrow> parse_items items = Inr sources \<Longrightarrow>
   map source_key sources = map item_source items"
  by (induction items arbitrary: sources)
    (auto simp: refund_item_checked_def res_bind_Inr_iff item_source_def source_key_def)

lemma kind_str_iff:
  "(''payment'' = kind_as_str x) = (x = PaymentSource)" "(''slip'' = kind_as_str x) = (x = SlipSource)"
  by (cases x; simp)+

lemma split_sources_mem:
  "k \<in> set (fst (split_refund_sources sources)) \<longleftrightarrow> (''payment'', k) \<in> source_key ` set sources"
  "k \<in> set (snd (split_refund_sources sources)) \<longleftrightarrow> (''slip'', k) \<in> source_key ` set sources"
  by (force simp: split_refund_sources_def source_key_def image_iff kind_str_iff)+

subsection \<open>Advancing the rows\<close>

lemma map_rows_get:
  "row_get (map (\<lambda>(k, p). (k, f k p)) t) k = map_option (f k) (row_get t k)"
  by (induction t) (auto simp: row_get_def)

lemma advance_payments_get [simp]:
  "row_get (payments (advance_payments was st ids db)) k =
    map_option (\<lambda>p. if k \<in> set ids \<and> was p then p\<lparr>pm_refund_status := Some st\<rparr> else p)
      (row_get (payments db) k)"
  by (simp add: advance_payments_def map_rows_get)

lemma advance_simps [simp]:
  "payment_slips (advance_payments was st ids db) = payment_slips db"
  "payments (advance_slips wass st ids db) = payments db"
  "row_keys (payments (advance_payments was st ids db)) = row_keys (payments db)"
  by (simp_all add: advance_payments_def advance_slips_def row_keys_def case_prod_beta comp_def)

lemma advance_slips_set:
  "payment_slips (advance_slips was st ids db) =
    map (\<lambda>s. if sl_id s \<in> set ids \<and> \<not> sl_applied s \<and> was s then s\<lparr>sl_refund_status := Some st\<rparr> else s)
      (payment_slips db)"
  by (simp add: advance_slips_def)

lemma pending_update [simp]:
  "payment_pending (p\<lparr>pm_refund_status := Some ''pending''\<rparr>)"
  "\<not> payment_pending (p\<lparr>pm_refund_status := Some ''processed''\<rparr>)"
  "slip_pending (s\<lparr>sl_refund_status := Some ''pending''\<rparr>)"
  "\<not> slip_pending (s\<lparr>sl_refund_status := Some ''processed''\<rparr>)"
  by (simp_all add: payment_pending_def slip_pending_def)

lemma processed_fixed:
  "p\<lparr>pm_refund_status := Some ''processed''\<rparr> = p \<Longrightarrow> \<not> payment_pending p"
  "s\<lparr>sl_refund_status := Some ''processed''\<rparr> = s \<Longrightarrow> \<not> slip_pending s"
  by (metis pending_update(2)) (metis pending_update(4))

text \<open>Voiding an item frees its key, since no other live item has it.\<close>

lemma void_frees:
  assumes "distinct (marked key its)" and "i \<in> set its" and "it_voided_at i = None"
    and "it_batch i = b" and "sel (it_item i)"
  shows "key (it_item i) \<notin> set (marked key (void_items now b sel its))"
  using assms
proof (induction its)
  case (Cons j its)
  show ?case
  proof (cases "i = j")
    case True
    with Cons.prems have "key (it_item i) \<notin> set (marked key its)"
      by (simp add: marked_def live_items_def)
    moreover have "set (marked key (void_items now b sel its)) \<subseteq> set (marked key its)"
      by (auto simp: marked_def live_void) (auto simp: live_items_def)
    ultimately show ?thesis using Cons.prems True
      by (auto simp: marked_def live_items_def void_items_def)
  next
    case False
    then have i: "i \<in> set its" using Cons.prems by simp
    have "distinct (marked key its)"
      using Cons.prems by (auto simp: marked_def live_items_def split: if_splits)
    from Cons.IH [OF this i Cons.prems(3-5)]
    have tail: "key (it_item i) \<notin> set (marked key (void_items now b sel its))" .
    have "key (it_item j) \<noteq> key (it_item i)" if "it_voided_at j = None"
      using Cons.prems i that by (force simp: marked_def live_items_def)
    with tail show ?thesis by (auto simp: marked_def live_items_def void_items_def)
  qed
qed simp

lemma void_marked_subset: "set (marked key (void_items now b sel its)) \<subseteq> set (marked key its)"
  by (auto simp: marked_def live_void) (auto simp: live_items_def)

subsection \<open>The invariant is kept\<close>

lemma queue_invI:
  assumes "distinct (row_keys (payments (fd_pay db)))"
    and "\<forall>i \<in> set (st_items (fd_refund db)). rn_kind (it_item i) \<in> {''payment'', ''slip''}"
    and "distinct (marked item_source (st_items (fd_refund db)))"
    and "\<And>k q. row_get (payments (fd_pay db)) k = Some q \<Longrightarrow> payment_pending q \<Longrightarrow> \<not> refund_marked db (''payment'', k)"
    and "\<And>s. s \<in> set (payment_slips (fd_pay db)) \<Longrightarrow> \<not> sl_applied s \<Longrightarrow> slip_pending s \<Longrightarrow> \<not> refund_marked db (''slip'', sl_id s)"
  shows "queue_inv db"
  using assms by (auto simp: queue_inv_def)

lemma queue_inv_same:
  "queue_inv db \<Longrightarrow> fd_pay db' = fd_pay db \<Longrightarrow> st_items (fd_refund db') = st_items (fd_refund db) \<Longrightarrow> queue_inv db'"
  by (simp add: queue_inv_def refund_marked_def)

lemma insert_refund_effect:
  assumes "insert_refund_batch env db f = Inr (b, db')"
  obtains sources its where "parse_items (nf_items f) = Inr sources"
    and "list_all refund_item_checked (nf_items f)"
    and "add_items item_source b (nf_items f) (st_items (fd_refund db)) = Some its"
    and "st_items (fd_refund db') = its"
    and "count_payments payment_pending (fst (split_refund_sources sources)) (fd_pay db)
      + count_slips slip_pending (snd (split_refund_sources sources)) (fd_pay db)
      = length (fst (split_refund_sources sources)) + length (snd (split_refund_sources sources))"
    and "fd_pay db' = advance_slips slip_pending ''processed'' (snd (split_refund_sources sources))
      (advance_payments payment_pending ''processed'' (fst (split_refund_sources sources)) (fd_pay db))"
  using assms
  by (auto simp: insert_refund_batch_def Let_def res_bind_Inr_iff case_prod_beta
      split: if_splits option.splits)

lemma insert_refund_queue:
  assumes inv: "queue_inv db" and ins: "insert_refund_batch env db f = Inr (b, db')"
  shows "queue_inv db'"
proof -
  from ins obtain sources its where p: "parse_items (nf_items f) = Inr sources"
    and c: "list_all refund_item_checked (nf_items f)"
    and a: "add_items item_source b (nf_items f) (st_items (fd_refund db)) = Some its"
    and e: "st_items (fd_refund db') = its"
    and pay: "fd_pay db' = advance_slips slip_pending ''processed'' (snd (split_refund_sources sources))
      (advance_payments payment_pending ''processed'' (fst (split_refund_sources sources)) (fd_pay db))"
    by (rule insert_refund_effect)
  have "source_key ` set sources = item_source ` set (nf_items f)"
    using arg_cong [OF parse_items_keys [OF c p], of set] by simp
  then have mem: "k \<in> set (fst (split_refund_sources sources)) \<longleftrightarrow> (''payment'', k) \<in> item_source ` set (nf_items f)"
    "k \<in> set (snd (split_refund_sources sources)) \<longleftrightarrow> (''slip'', k) \<in> item_source ` set (nf_items f)" for k
    by (simp_all add: split_sources_mem)
  have m: "set (marked item_source its) = set (marked item_source (st_items (fd_refund db))) \<union> item_source ` set (nf_items f)"
    by (simp add: add_items_Some(1) [OF a])
  have k: "\<forall>i \<in> set its. rn_kind (it_item i) \<in> {''payment'', ''slip''}"
    using inv c by (auto simp: add_items_Some(3) [OF a] queue_inv_def refund_item_checked_def list_all_iff)
  show ?thesis
  proof (rule queue_invI)
    show "distinct (row_keys (payments (fd_pay db')))" using inv by (simp add: queue_inv_def pay)
    show "\<forall>i \<in> set (st_items (fd_refund db')). rn_kind (it_item i) \<in> {''payment'', ''slip''}"
      using k by (simp add: e)
    show "distinct (marked item_source (st_items (fd_refund db')))"
      using inv add_items_Some(2) [OF a] by (simp add: e queue_inv_def)
    show "\<not> refund_marked db' (''payment'', k)"
      if "row_get (payments (fd_pay db')) k = Some q" "payment_pending q" for k q
      using that inv
      by (auto simp: pay refund_marked_def e m mem queue_inv_def dest: processed_fixed split: if_splits)
    show "\<not> refund_marked db' (''slip'', sl_id s)"
      if "s \<in> set (payment_slips (fd_pay db'))" "\<not> sl_applied s" "slip_pending s" for s
      using that inv
      by (auto simp: pay advance_slips_set refund_marked_def e m mem queue_inv_def dest: processed_fixed
          split: if_splits)
  qed
qed

lemma return_sources_simps:
  "payments (snd (return_refund_sources_to_queue ps ss db)) =
    payments (advance_payments (\<lambda>p. pm_refund_status p \<noteq> None) ''pending'' ps db)"
  "payment_slips (snd (return_refund_sources_to_queue ps ss db)) =
    map (\<lambda>s. if sl_id s \<in> set ss \<and> \<not> sl_applied s \<and> sl_refund_status s \<noteq> None
             then s\<lparr>sl_refund_status := Some ''pending''\<rparr> else s) (payment_slips db)"
  by (simp_all add: return_refund_sources_to_queue_def Let_def advance_slips_set)

text \<open>Both voids free exactly the keys whose rows they return to the queue.\<close>

lemma void_queue:
  assumes inv: "queue_inv db"
    and pay: "fd_pay db' = snd (return_refund_sources_to_queue (fst (split_refund_sources sources))
        (snd (split_refund_sources sources)) (fd_pay db))"
    and its: "st_items (fd_refund db') = void_items now b sel (st_items (fd_refund db))"
    and freed: "\<forall>x \<in> source_key ` set sources. x \<notin> set (marked item_source (void_items now b sel (st_items (fd_refund db))))"
  shows "queue_inv db'"
proof -
  have k: "\<forall>i \<in> set (void_items now b sel (st_items (fd_refund db))). rn_kind (it_item i) \<in> {''payment'', ''slip''}"
    using inv by (auto simp: queue_inv_def void_items_def)
  have sub: "x \<notin> set (marked item_source (st_items (fd_refund db))) \<Longrightarrow>
      x \<notin> set (marked item_source (void_items now b sel (st_items (fd_refund db))))" for x
    using subsetD [OF void_marked_subset] by metis
  have keys: "row_keys (payments (fd_pay db')) = row_keys (payments (fd_pay db))"
    by (simp add: pay return_sources_simps)
  show ?thesis
  proof (rule queue_invI)
    show "distinct (row_keys (payments (fd_pay db')))" using inv by (simp add: queue_inv_def keys)
    show "\<forall>i \<in> set (st_items (fd_refund db')). rn_kind (it_item i) \<in> {''payment'', ''slip''}"
      using k by (simp add: its)
    show "distinct (marked item_source (st_items (fd_refund db')))"
      using inv by (simp add: its queue_inv_def distinct_marked_void)
    show "\<not> refund_marked db' (''payment'', k)"
      if "row_get (payments (fd_pay db')) k = Some q" "payment_pending q" for k q
      using that inv freed sub
      by (auto simp: pay return_sources_simps refund_marked_def its split_sources_mem queue_inv_def
          split: if_splits)
    show "\<not> refund_marked db' (''slip'', sl_id s)"
      if "s \<in> set (payment_slips (fd_pay db'))" "\<not> sl_applied s" "slip_pending s" for s
      using that inv freed sub
      by (auto simp: pay return_sources_simps refund_marked_def its split_sources_mem queue_inv_def
          split: if_splits)
  qed
qed

lemma live_sources_keys:
  assumes "\<forall>i \<in> set its. rn_kind (it_item i) \<in> {''payment'', ''slip''}" and "x \<in> source_key ` set (live_sources b its)"
  shows "\<exists>i \<in> set its. it_batch i = b \<and> it_voided_at i = None \<and> item_source (it_item i) = x"
  using assms
  by (force simp: live_sources_def List.map_filter_def source_key_def item_source_def split: if_splits)

lemma void_refund_queue:
  assumes inv: "queue_inv db" and v: "void_refund_batch env db b a r = Inr (h, db')"
  shows "queue_inv db'"
proof -
  let ?its = "st_items (fd_refund db)" and ?src = "live_sources b (st_items (fd_refund db))"
  have "x \<notin> set (marked item_source (void_items (tx_now env) b (\<lambda>_. True) ?its))"
    if x: "x \<in> source_key ` set ?src" for x
  proof -
    from live_sources_keys [OF _ x] inv obtain i where
      "i \<in> set ?its" "it_batch i = b" "it_voided_at i = None" "item_source (it_item i) = x"
      by (auto simp: queue_inv_def)
    with void_frees [of item_source ?its i b "\<lambda>_. True" "tx_now env"] inv show ?thesis
      by (simp add: queue_inv_def)
  qed
  with v show ?thesis
    by (intro void_queue [OF inv, of db' ?src "tx_now env" b "\<lambda>_. True"])
      (auto simp: void_refund_batch_def res_bind_Inr_iff Let_def case_prod_beta)
qed

lemma void_refund_items_queue:
  assumes inv: "queue_inv db" and v: "void_refund_batch_items env db b sources a r = Inr db'"
  shows "queue_inv db'"
proof -
  let ?its = "st_items (fd_refund db)" and ?sel = "names_source sources"
  have "x \<notin> set (marked item_source (void_items (tx_now env) b ?sel ?its))"
    if x: "x \<in> source_key ` set sources" for x
  proof -
    from v have all: "\<forall>y \<in> set sources. \<exists>i \<in> set (batch_rows b ?sel ?its). item_source (it_item i) = source_key y"
      and none: "\<forall>i \<in> set (batch_rows b ?sel ?its). it_voided_at i = None"
      by (auto simp: void_refund_batch_items_def res_bind_Inr_iff Let_def case_prod_beta
          filter_empty_conv list_ex_iff source_key_def split: if_splits)
    from x all none have "\<exists>i \<in> set (batch_rows b ?sel ?its). item_source (it_item i) = x \<and> it_voided_at i = None"
      by blast
    then obtain i where "i \<in> set ?its" "it_batch i = b" "?sel (it_item i)" "it_voided_at i = None"
      "item_source (it_item i) = x"
      by (auto simp: batch_rows_def)
    with void_frees [of item_source ?its i b ?sel "tx_now env"] inv show ?thesis
      by (simp add: queue_inv_def)
  qed
  with v show ?thesis
    by (intro void_queue [OF inv, of db' sources "tx_now env" b ?sel])
      (auto simp: void_refund_batch_items_def res_bind_Inr_iff Let_def case_prod_beta split: if_splits)
qed

lemma set_refund_status_queue:
  "set_refund_batch_status env db b s n a = Inr (h, db') \<Longrightarrow>
   fd_pay db' = fd_pay db \<and> st_items (fd_refund db') = st_items (fd_refund db)"
  by (auto simp: set_refund_batch_status_def res_bind_Inr_iff Let_def)

definition queue_step :: "files_db \<Rightarrow> files_db \<Rightarrow> bool" where
  "queue_step db db' = (queue_inv db \<longrightarrow> queue_inv db')"

lemma queue_step_commit:
  "(\<And>r db'. res = Inr (r, db') \<Longrightarrow> queue_step db db') \<Longrightarrow> queue_step db (commit db res)"
  "(\<And>db'. res' = Inr db' \<Longrightarrow> queue_step db db') \<Longrightarrow> queue_step db (commit_db db res')"
  by (auto simp: commit_def commit_db_def queue_step_def split: sum.splits)

lemma queue_step_others:
  "insert_payout_batch env db f = Inr (b, db') \<Longrightarrow> queue_step db db'"
  "insert_deduction_batch env db g = Inr (b, db') \<Longrightarrow> queue_step db db'"
  "api_set_payout_status u env db b s n = Inr (h, db') \<Longrightarrow> queue_step db db'"
  "api_void_payout u env db b r = Inr (h, db') \<Longrightarrow> queue_step db db'"
  "api_void_payout_items u env db b ids r = Inr db' \<Longrightarrow> queue_step db db'"
  "api_set_deduction_status u env db b s n = Inr (h, db') \<Longrightarrow> queue_step db db'"
  "api_void_deduction u env db b r = Inr (h, db') \<Longrightarrow> queue_step db db'"
  "api_void_deduction_items u env db b ids r = Inr db' \<Longrightarrow> queue_step db db'"
  unfolding queue_step_def
  by (auto simp: api_file_defs res_bind_Inr_iff insert_payout_streams insert_deduction_streams
      dest!: payout_ops_streams deduction_ops_streams status_request_not_voided intro: queue_inv_same)

lemma queue_step_refund:
  "insert_refund_batch env db f = Inr (b, db') \<Longrightarrow> queue_step db db'"
  "api_set_refund_status u env db b s n = Inr (h, db') \<Longrightarrow> queue_step db db'"
  "api_void_refund u env db b r = Inr (h, db') \<Longrightarrow> queue_step db db'"
  "api_void_refund_items u env db b raw r = Inr db' \<Longrightarrow> queue_step db db'"
  unfolding queue_step_def api_file_defs
  by (auto simp: res_bind_Inr_iff dest!: set_refund_status_queue intro: queue_inv_same)
    (blast intro: insert_refund_queue void_refund_queue void_refund_items_queue)+

lemma run_file_queue: "queue_step db (run_file c db)"
  by (cases c) (auto intro!: queue_step_commit elim: queue_step_others queue_step_refund)

interpretation refund_queue: invariant_system run_file queue_inv "\<lambda>_. True"
  by unfold_locales (use run_file_queue in \<open>simp add: queue_step_def\<close>)

end
