(* ===== verification/Payment_File_Properties.thy ===== *)
theory Payment_File_Properties
  imports Payment_Refund_Queue Payment_Properties
begin

text \<open>
  What the transfer files promise, over every sequence of exports, status changes and voids: no job
  and no refund is in two live files, a voided file has let everything go, no two files of any stream
  share a bank reference, and a sweep the bank confirmed stays collected.
\<close>

subsection \<open>Bank references\<close>

definition refs_ok :: "files_db \<Rightarrow> bool" where
  "refs_ok db = (distinct (map fr_file_ref (fd_refs db)) \<and> distinct (map fr_batch_ref (fd_refs db)))"

lemma reserve_refs: "reserve_scb_file_ref f b s i db = Some db1 \<Longrightarrow> refs_ok db \<Longrightarrow> refs_ok db1"
  by (auto simp: reserve_scb_file_ref_def refs_ok_def list_ex_iff split: if_splits)

lemma refs_ok_simps [simp]:
  "refs_ok (insert_money_audit n a x k t d db) = refs_ok db"
  "refs_ok (db\<lparr>fd_payout := st1\<rparr>) = refs_ok db"
  "refs_ok (db\<lparr>fd_pay := pay, fd_refund := st2\<rparr>) = refs_ok db"
  "refs_ok (db\<lparr>fd_deduction := st3\<rparr>) = refs_ok db"
  by (simp_all add: refs_ok_def)

lemma insert_refs:
  "insert_payout_batch env db f = Inr (b, db') \<Longrightarrow> refs_ok db \<Longrightarrow> refs_ok db'"
  "insert_refund_batch env db g = Inr (b, db') \<Longrightarrow> refs_ok db \<Longrightarrow> refs_ok db'"
  "insert_deduction_batch env db h = Inr (b, db') \<Longrightarrow> refs_ok db \<Longrightarrow> refs_ok db'"
  by (auto simp: insert_payout_batch_def insert_refund_batch_def insert_deduction_batch_def Let_def
      res_bind_Inr_iff case_prod_beta intro: reserve_refs split: if_splits option.splits)

lemma other_refs:
  "set_payout_batch_status env db b s n a = Inr (h, db') \<Longrightarrow> fd_refs db' = fd_refs db"
  "void_payout_batch env db b a r = Inr (h, db') \<Longrightarrow> fd_refs db' = fd_refs db"
  "void_payout_batch_items env db b ids a r = Inr db' \<Longrightarrow> fd_refs db' = fd_refs db"
  "set_refund_batch_status env db b s n a = Inr (h, db') \<Longrightarrow> fd_refs db' = fd_refs db"
  "void_refund_batch env db b a r = Inr (h, db') \<Longrightarrow> fd_refs db' = fd_refs db"
  "void_refund_batch_items env db b srcs a r = Inr db' \<Longrightarrow> fd_refs db' = fd_refs db"
  "set_deduction_batch_status env db b s n a = Inr (h, db') \<Longrightarrow> fd_refs db' = fd_refs db"
  "void_deduction_batch env db b a r = Inr (h, db') \<Longrightarrow> fd_refs db' = fd_refs db"
  "void_deduction_batch_items env db b ids a r = Inr db' \<Longrightarrow> fd_refs db' = fd_refs db"
  by (auto simp: set_payout_batch_status_def void_payout_batch_def void_payout_batch_items_def
      set_refund_batch_status_def void_refund_batch_def void_refund_batch_items_def
      set_deduction_batch_status_def void_deduction_batch_def void_deduction_batch_items_def
      res_bind_Inr_iff Let_def case_prod_beta split: if_splits)

lemma refs_ok_cong: "fd_refs db' = fd_refs db \<Longrightarrow> refs_ok db \<Longrightarrow> refs_ok db'"
  by (simp add: refs_ok_def)

lemma refs_commit:
  "refs_ok db \<Longrightarrow> (\<And>r db'. res = Inr (r, db') \<Longrightarrow> refs_ok db') \<Longrightarrow> refs_ok (commit db res)"
  "refs_ok db \<Longrightarrow> (\<And>db'. res' = Inr db' \<Longrightarrow> refs_ok db') \<Longrightarrow> refs_ok (commit_db db res')"
  by (auto simp: commit_def commit_db_def split: sum.splits)

lemma run_file_refs: "refs_ok db \<Longrightarrow> refs_ok (run_file c db)"
  by (cases c)
    (auto simp: api_file_defs res_bind_Inr_iff intro!: refs_commit elim: insert_refs
      dest!: other_refs intro: refs_ok_cong)

interpretation file_refs: invariant_system run_file refs_ok "\<lambda>_. True"
  by unfold_locales (rule run_file_refs)

subsection \<open>A concrete world\<close>

definition admin0 :: auth_user where
  "admin0 = \<lparr>au_id = 1, au_role = ''admin''\<rparr>"

definition file_env :: "nat \<Rightarrow> call_env" where
  "file_env n = \<lparr>utc_now = 1000, tx_now = 1000, fresh_event = n + 50, fresh_row = n, fresh_extra = n,
     fresh_outbox = n + 90, trace_parent = None, correlation = 0\<rparr>"

definition empty_files :: "payment_db \<Rightarrow> files_db" where
  "empty_files pay = \<lparr>fd_pay = pay, fd_payout = \<lparr>st_batches = [], st_items = []\<rparr>,
     fd_refund = \<lparr>st_batches = [], st_items = []\<rparr>, fd_deduction = \<lparr>st_batches = [], st_items = []\<rparr>,
     fd_refs = [], fd_audit = []\<rparr>"

definition file_of :: "string \<Rightarrow> 'i list \<Rightarrow> 'i new_file" where
  "file_of ref items = \<lparr>nf_file_ref = ref, nf_system_ref = ''s'', nf_batch_ref = ref, nf_value_date = 1,
     nf_total_amount = 10, nf_recipient_count = 1, nf_file_text = ''t'', nf_created_by = Some 1,
     nf_credit_account = None, nf_items = items\<rparr>"

definition job0 :: payout_new where
  "job0 = \<lparr>pn_booking = 7, pn_guard = 2, pn_income = 10, pn_wht = 0, pn_transfer = 10\<rparr>"

definition cut0 :: deduction_new where
  "cut0 = \<lparr>dn_payment = 5, dn_booking = 7, dn_commission = 10, dn_cancellation_fee = 0, dn_tip = 0,
     dn_unpaid_guard_share = 0, dn_rounding_adjustment = 0, dn_uncollected = 0, dn_amount = 10\<rparr>"

definition sweep_script :: "file_cmd list" where
  "sweep_script = [SweepExport (file_env 40) (file_of ''A'' [cut0]),
     SweepStatus admin0 (file_env 41) 40 ''uploaded'' None, SweepStatus admin0 (file_env 42) 40 ''confirmed'' None]"

lemma empty_stream_inv [simp]: "stream_inv key \<lparr>st_batches = [], st_items = []\<rparr>"
  by (simp add: stream_inv_def marked_def live_items_def)

lemma empty_files_simps [simp]:
  "fd_payout (empty_files pay) = \<lparr>st_batches = [], st_items = []\<rparr>"
  "fd_refund (empty_files pay) = \<lparr>st_batches = [], st_items = []\<rparr>"
  "fd_deduction (empty_files pay) = \<lparr>st_batches = [], st_items = []\<rparr>"
  "refs_ok (empty_files pay)"
  by (simp_all add: empty_files_def refs_ok_def)

lemma empty_files_inv:
  "stream_inv pn_booking (fd_payout (empty_files pay))"
  "stream_inv item_source (fd_refund (empty_files pay))"
  "stream_inv dn_payment (fd_deduction (empty_files pay))"
  by simp_all

subsection \<open>Properties\<close>


text \<open>
  A file an admin cancelled has let go of everything: whatever happened before and after, every
  job of a voided payout file was returned to the backlog, so it can be paid by another file.
\<close>
theorem voided_lets_go:
  assumes "status_of (fd_payout (fold run_file cs (empty_files pay))) (it_batch i) = Some Voided"
    and "i \<in> set (st_items (fd_payout (fold run_file cs (empty_files pay))))"
  shows "it_voided_at i \<noteq> None"
  using payout_stream.run_stream_inv [OF empty_files_inv(1), of cs pay] assms
  unfolding stream_inv_def by blast

definition payout_script :: "file_cmd list" where
  "payout_script = [PayoutExport (file_env 40) (file_of ''A'' [job0]), PayoutVoid admin0 (file_env 41) 40 ''lost'']"

lemma voided_lets_go_witness:
  "\<exists>i \<in> set (st_items (fd_payout (fold run_file payout_script (empty_files empty_payment_db)))). it_voided_at i \<noteq> None"
proof -
  let ?db = "fold run_file payout_script (empty_files empty_payment_db)"
  have "status_of (fd_payout ?db) 40 = Some Voided" by code_simp
  moreover have "map it_batch (st_items (fd_payout ?db)) = [40]" by code_simp
  then obtain i where "st_items (fd_payout ?db) = [i]" "it_batch i = 40" by auto
  ultimately show ?thesis
    using voided_lets_go [of payout_script empty_payment_db i] by simp
qed

text \<open>
  A sweep the bank confirmed is final: the payments it collected from are never in the sweep
  backlog again, whatever is done afterwards.
\<close>
theorem confirmed_sweep_final:
  assumes "status_of (fd_deduction db) (it_batch i) = Some Confirmed"
    and "i \<in> set (st_items (fd_deduction db))" and "it_voided_at i = None"
  shows "\<not> sweep_due (fold run_file cs db) sel (dn_payment (it_item i), p)"
  using sweep_stream.run_stays_marked [OF assms, of cs] by (simp add: sweep_due_def)

lemma confirmed_sweep_final_witness:
  "\<forall>sel p. \<not> sweep_due (fold run_file [SweepVoid admin0 (file_env 43) 40 ''x'', SweepVoidItems admin0 (file_env 44) 40 [5] ''x'']
      (fold run_file sweep_script (empty_files empty_payment_db))) sel (5, p)"
proof (intro allI)
  fix sel p
  let ?db = "fold run_file sweep_script (empty_files empty_payment_db)"
  have c: "status_of (fd_deduction ?db) 40 = Some Confirmed" by code_simp
  have "map (\<lambda>i. (it_batch i, it_voided_at i, dn_payment (it_item i))) (st_items (fd_deduction ?db)) = [(40, None, 5)]"
    by code_simp
  then obtain i where "st_items (fd_deduction ?db) = [i]" "it_batch i = 40" "it_voided_at i = None"
    "dn_payment (it_item i) = 5" by auto
  then show "\<not> sweep_due (fold run_file [SweepVoid admin0 (file_env 43) 40 ''x'', SweepVoidItems admin0 (file_env 44) 40 [5] ''x''] ?db) sel (5, p)"
    using confirmed_sweep_final [of ?db i "[SweepVoid admin0 (file_env 43) 40 ''x'', SweepVoidItems admin0 (file_env 44) 40 [5] ''x'']" sel p] c by simp
qed

subsection \<open>A refund file closes the queue\<close>

lemma length_filter_card:
  assumes "distinct (map key xs)"
  shows "length (filter P xs) = card (key ` {x \<in> set xs. P x})"
proof -
  have "distinct (map key (filter P xs))" using assms by (rule distinct_map_filter)
  then have "card (set (map key (filter P xs))) = length (map key (filter P xs))" by (rule distinct_card)
  then show ?thesis by simp
qed

lemma count_payments_card:
  assumes "distinct (row_keys (payments db))"
  shows "count_payments was ids db = card {k \<in> set ids. \<exists>p. row_get (payments db) k = Some p \<and> was p}"
proof -
  have "fst ` {x \<in> set (payments db). case x of (k, p) \<Rightarrow> k \<in> set ids \<and> was p}
      = {k \<in> set ids. \<exists>p. row_get (payments db) k = Some p \<and> was p}"
    using row_get_mem [OF assms] by force
  then show ?thesis
    using length_filter_card [of fst "payments db" "\<lambda>(k, p). k \<in> set ids \<and> was p"] assms
    by (simp add: count_payments_def row_keys_def)
qed

lemma count_slips_card:
  assumes "distinct (map sl_id (payment_slips db))"
  shows "count_slips was ids db =
    card {k \<in> set ids. \<exists>s \<in> set (payment_slips db). sl_id s = k \<and> \<not> sl_applied s \<and> was s}"
proof -
  have "sl_id ` {s \<in> set (payment_slips db). sl_id s \<in> set ids \<and> \<not> sl_applied s \<and> was s}
      = {k \<in> set ids. \<exists>s \<in> set (payment_slips db). sl_id s = k \<and> \<not> sl_applied s \<and> was s}"
    by auto
  then show ?thesis
    using length_filter_card [of sl_id "payment_slips db" "\<lambda>s. sl_id s \<in> set ids \<and> \<not> sl_applied s \<and> was s"] assms
    by (simp add: count_slips_def)
qed

lemma full_count:
  assumes "card {k \<in> set xs. P k} + card {k \<in> set ys. Q k} = length xs + length ys"
  shows "\<forall>k \<in> set xs. P k" "\<forall>k \<in> set ys. Q k"
proof -
  have "card {k \<in> set xs. P k} = card (set xs)" "card {k \<in> set ys. Q k} = card (set ys)"
    using assms card_mono [of "set xs" "{k \<in> set xs. P k}"] card_length [of xs]
      card_mono [of "set ys" "{k \<in> set ys. Q k}"] card_length [of ys] by auto
  then have "{k \<in> set xs. P k} = set xs" "{k \<in> set ys. Q k} = set ys"
    by (simp_all add: card_subset_eq)
  then show "\<forall>k \<in> set xs. P k" "\<forall>k \<in> set ys. Q k" by auto
qed

text \<open>
  A refund file is built only if every obligation in it was still pending, and building it marks
  exactly those rows processed: the payments and the extra transfers it names, and no other.
\<close>
theorem refund_file_closes_queue:
  assumes inv: "queue_inv db" and ids: "distinct (map sl_id (payment_slips (fd_pay db)))"
    and ins: "insert_refund_batch env db f = Inr (b, db')"
  shows "(\<forall>i \<in> set (nf_items f). rn_kind i = ''payment'' \<longrightarrow>
      (\<exists>p. row_get (payments (fd_pay db)) (rn_source i) = Some p \<and> payment_pending p
        \<and> row_get (payments (fd_pay db')) (rn_source i) = Some (p\<lparr>pm_refund_status := Some ''processed''\<rparr>)))
    \<and> (\<forall>i \<in> set (nf_items f). rn_kind i = ''slip'' \<longrightarrow>
      (\<exists>s \<in> set (payment_slips (fd_pay db)). sl_id s = rn_source i \<and> \<not> sl_applied s \<and> slip_pending s
        \<and> s\<lparr>sl_refund_status := Some ''processed''\<rparr> \<in> set (payment_slips (fd_pay db'))))
    \<and> (\<forall>k. (''payment'', k) \<notin> item_source ` set (nf_items f) \<longrightarrow>
      row_get (payments (fd_pay db')) k = row_get (payments (fd_pay db)) k)"
proof -
  from ins obtain sources its where p: "parse_items (nf_items f) = Inr sources"
    and c: "list_all refund_item_checked (nf_items f)"
    and n: "count_payments payment_pending (fst (split_refund_sources sources)) (fd_pay db)
      + count_slips slip_pending (snd (split_refund_sources sources)) (fd_pay db)
      = length (fst (split_refund_sources sources)) + length (snd (split_refund_sources sources))"
    and pay: "fd_pay db' = advance_slips slip_pending ''processed'' (snd (split_refund_sources sources))
      (advance_payments payment_pending ''processed'' (fst (split_refund_sources sources)) (fd_pay db))"
    by (rule insert_refund_effect)
  have "source_key ` set sources = item_source ` set (nf_items f)"
    using arg_cong [OF parse_items_keys [OF c p], of set] by simp
  then have mem: "k \<in> set (fst (split_refund_sources sources)) \<longleftrightarrow> (''payment'', k) \<in> item_source ` set (nf_items f)"
    "k \<in> set (snd (split_refund_sources sources)) \<longleftrightarrow> (''slip'', k) \<in> item_source ` set (nf_items f)" for k
    by (simp_all add: split_sources_mem)
  have "distinct (row_keys (payments (fd_pay db)))" using inv by (simp add: queue_inv_def)
  note all = full_count [OF n [unfolded count_payments_card [OF this] count_slips_card [OF ids]]]
  have pays: "\<exists>p. row_get (payments (fd_pay db)) (rn_source i) = Some p \<and> payment_pending p
        \<and> row_get (payments (fd_pay db')) (rn_source i) = Some (p\<lparr>pm_refund_status := Some ''processed''\<rparr>)"
    if "i \<in> set (nf_items f)" "rn_kind i = ''payment''" for i
  proof -
    have "rn_source i \<in> set (fst (split_refund_sources sources))"
      using that by (auto simp: mem item_source_def image_iff intro!: bexI [of _ i])
    moreover from this all(1) obtain p where "row_get (payments (fd_pay db)) (rn_source i) = Some p"
      "payment_pending p" by blast
    ultimately show ?thesis by (simp add: pay)
  qed
  have slips: "\<exists>s \<in> set (payment_slips (fd_pay db)). sl_id s = rn_source i \<and> \<not> sl_applied s \<and> slip_pending s
        \<and> s\<lparr>sl_refund_status := Some ''processed''\<rparr> \<in> set (payment_slips (fd_pay db'))"
    if "i \<in> set (nf_items f)" "rn_kind i = ''slip''" for i
  proof -
    have "rn_source i \<in> set (snd (split_refund_sources sources))"
      using that by (auto simp: mem item_source_def image_iff intro!: bexI [of _ i])
    then show ?thesis using all(2) by (force simp: pay advance_slips_set)
  qed
  have "row_get (payments (fd_pay db')) k = row_get (payments (fd_pay db)) k"
    if "(''payment'', k) \<notin> item_source ` set (nf_items f)" for k
    using that by (simp add: pay mem option.map_ident)
  with pays slips show ?thesis by blast
qed

definition owed_db :: payment_db where
  "owed_db = empty_payment_db\<lparr>payments :=
     [(5, pay_row\<lparr>pm_refund_amount := Some 10, pm_refund_status := Some ''pending''\<rparr>)]\<rparr>"

definition refund0 :: refund_new where
  "refund0 = \<lparr>rn_kind = ''payment'', rn_source = 5, rn_booking = 7, rn_customer = 3, rn_amount = 10\<rparr>"

lemma refund_file_closes_queue_witness:
  "\<exists>b db' p. insert_refund_batch (file_env 40) (empty_files owed_db) (file_of ''B'' [refund0]) = Inr (b, db')
    \<and> row_get (payments owed_db) 5 = Some p \<and> payment_pending p
    \<and> row_get (payments (fd_pay db')) 5 = Some (p\<lparr>pm_refund_status := Some ''processed''\<rparr>)"
proof -
  have q: "queue_inv (empty_files owed_db)" "distinct (map sl_id (payment_slips (fd_pay (empty_files owed_db))))"
    by (simp_all add: queue_inv_def empty_files_def owed_db_def empty_payment_db_def row_keys_def
        refund_marked_def marked_def live_items_def)
  have "is_ok (insert_refund_batch (file_env 40) (empty_files owed_db) (file_of ''B'' [refund0]))"
    by (simp add: insert_refund_batch_def Let_def header_taken_def empty_files_def row_get_def file_of_def
        reserve_scb_file_ref_def refund0_def refund_item_checked_def add_items_def marked_def live_items_def
        split_refund_sources_def count_payments_def count_slips_def owed_db_def empty_payment_db_def
        payment_pending_def) force
  then obtain b db' where i: "insert_refund_batch (file_env 40) (empty_files owed_db) (file_of ''B'' [refund0]) = Inr (b, db')"
    by (auto simp: is_ok_iff)
  from refund_file_closes_queue [OF q i] i show ?thesis
    by (auto simp: file_of_def refund0_def empty_files_def)
qed

text \<open>
  The status operation itself accepts the step to voided: without the endpoint's refusal it would mark
  the file cancelled and leave every job in it taken.
\<close>
lemma status_voided_strands:
  assumes "locked_batch_status db b = Inr (Generated, h)"
  shows "\<exists>h' db'. set_payout_batch_status env db b Voided n a = Inr (h', db')
    \<and> status_of (fd_payout db') b = Some Voided \<and> st_items (fd_payout db') = st_items (fd_payout db)"
  using assms
  by (simp add: set_payout_batch_status_def batch_is_legal_def check_transition_def Let_def
      status_of_def batch_wire.parse_as_str del: batch_as_str.simps)

end
