(* ===== verification/Money_Path.thy ===== *)
theory Money_Path
  imports Booking_Invariants Payment_Consumers
begin

text \<open>
  The path of the money across the two services: the envelope the booking service's transaction leaves
  in its outbox is the one the payment service's consumer acts on. What one writes, the other parses,
  and the pricing and the fee decision survive the way.
\<close>

subsection \<open>Parsing what the booking service emits\<close>

lemma fields_of_ids:
  assumes "jget p ''booking_id'' = Some (JUuid b)" and "jget p ''customer_id'' = Some (JUuid c)"
    and "jget p ''guard_id'' = map_option JUuid g"
  shows "uuid_field p ''booking_id'' = Some b" "uuid_field p ''customer_id'' = Some c"
    "opt_uuid_ok p ''guard_id''"
  using assms by (cases g; simp add: uuid_field_def opt_uuid_ok_def)+

lemma parse_cancel_of:
  assumes "event_for_status a s b c g ci canc adm = Some m" and "s = Cancelled \<or> s = Declined"
  shows "parse_cancel (em_payload m) = Some (b, s = Cancelled \<and> charge_cancel_fee a adm)"
  using fields_of_ids [OF event_ids [OF assms(1)]] event_fee_flag [OF assms(1)] assms(2)
  by (auto simp: parse_cancel_def default_bool_field_def)

lemma event_completion_fields:
  assumes "event_for_status a Completed b c g (Some ci) canc adm = Some m"
  shows "jget (em_payload m) ''booked_hours'' = Some (JInt (ci_booked_hours ci))"
    "jget (em_payload m) ''actual_seconds'' = Some (jopt JInt (ci_actual_seconds ci))"
    "jget (em_payload m) ''base_fee'' = Some (JDec (ci_base_fee ci))"
    "jget (em_payload m) ''guard_count'' = Some (JInt (ci_guard_count ci))"
    "jget (em_payload m) ''tip'' = Some (JDec (ci_tip ci))"
  by (simp_all add: event_payload [OF assms] with_reason_def set_for_target_def with_completion_def)

lemma parse_completed_of:
  assumes "event_for_status a Completed b c g (Some ci) canc adm = Some m"
  shows "parse_completed (em_payload m) =
    Some \<lparr>cp_booking = b, cp_booked_hours = ci_booked_hours ci,
          cp_actual_seconds = ci_actual_seconds ci, cp_base_fee = ci_base_fee ci,
          cp_guard_count = ci_guard_count ci, cp_tip = ci_tip ci\<rparr>"
  using fields_of_ids [OF event_ids [OF assms]] event_completion_fields [OF assms]
  by (cases "ci_actual_seconds ci")
    (simp_all add: parse_completed_def int_field_def dec_field_def opt_int_field_def jopt_def)

text \<open>The two services name the topics alike.\<close>

lemma topics_agree:
  "topic_for_status Cancelled = Some BOOKING_CANCELLED_TOPIC"
  "topic_for_status Declined = Some BOOKING_DECLINED_TOPIC"
  "topic_for_status Completed = Some BOOKING_COMPLETED_TOPIC"
  by (simp_all add: topic_for_status_def booking_topics BOOKING_CANCELLED_TOPIC_def
      BOOKING_DECLINED_TOPIC_def BOOKING_COMPLETED_TOPIC_def)

lemma transition_event_topic:
  assumes "transition_event env bid b s g canc adm = Some m"
  shows "topic_for_status s = Some (em_topic m)"
  using event_topic [OF assms [unfolded transition_event_def]] .

subsection \<open>Consuming it\<close>

lemma cancel_consumed:
  assumes t: "transition_as env db bid actor adm sys s g canc = Inr (u, db')"
    and b: "row_get (bookings db) bid = Some b" and s: "s = Cancelled \<or> s = Declined"
  obtains r where "outbox db' = outbox db @ [r]"
    and "\<And>L penv pdb. process_cancel L penv (ob_envelope r) pdb =
      snd (refund_on_cancellation L (penv\<lparr>correlation := correlation env\<rparr>) pdb (fresh_event env)
        (ob_topic r) bid (s = Cancelled \<and> charge_cancel_fee (bk_status b) adm))"
proof -
  from transition_emits [OF t b] obtain m canc' r where
    m: "transition_event env bid b s g canc' adm = Some m" and r: "outbox db' = outbox db @ [r]"
    and e: "ob_topic r = em_topic m" "ev_payload (ob_envelope r) = em_payload m"
      "ev_type (ob_envelope r) = em_topic m" "ev_id (ob_envelope r) = fresh_event env"
      "ev_correlation (ob_envelope r) = correlation env"
    by metis
  have "em_topic m = BOOKING_CANCELLED_TOPIC \<or> em_topic m = BOOKING_DECLINED_TOPIC"
    using transition_event_topic [OF m] s topics_agree by auto
  then show ?thesis
    using parse_cancel_of [OF m [unfolded transition_event_def] s] e
    by (intro that [OF r]) (auto simp: process_cancel_def)
qed

lemma completion_consumed:
  assumes t: "transition_as env db bid actor adm sys Completed g canc = Inr (u, db')"
    and b: "row_get (bookings db) bid = Some b"
  obtains r where "outbox db' = outbox db @ [r]"
    and "\<And>L penv pdb. process_completed L penv (ob_envelope r) pdb =
      snd (reconcile_on_completion L (penv\<lparr>correlation := correlation env\<rparr>) pdb (fresh_event env)
        BOOKING_COMPLETED_TOPIC bid (bk_base_fee b) (bk_hours b) (bk_guard_count b) (bk_tip b)
        (completion_actual_seconds b Completed (utc_now env)))"
proof -
  from transition_emits [OF t b] obtain m canc' r where
    m: "transition_event env bid b Completed g canc' adm = Some m" and r: "outbox db' = outbox db @ [r]"
    and e: "ob_topic r = em_topic m" "ev_payload (ob_envelope r) = em_payload m"
      "ev_type (ob_envelope r) = em_topic m" "ev_id (ob_envelope r) = fresh_event env"
      "ev_correlation (ob_envelope r) = correlation env"
    by metis
  have "em_topic m = BOOKING_COMPLETED_TOPIC"
    using transition_event_topic [OF m] topics_agree by auto
  moreover obtain ci where ci: "completion_of b (updated_row env b Completed g canc') Completed (utc_now env) = Some ci"
    "ci_booked_hours ci = bk_hours b" "ci_base_fee ci = bk_base_fee b" "ci_guard_count ci = bk_guard_count b"
    "ci_tip ci = bk_tip b" "ci_actual_seconds ci = completion_actual_seconds b Completed (utc_now env)"
    by (rule that [of "the (completion_of b (updated_row env b Completed g canc') Completed (utc_now env))"])
      (simp_all add: completion_of_def updated_row_def)
  ultimately show ?thesis
    using parse_completed_of [OF m [unfolded transition_event_def ci(1)]] e
    by (intro that [OF r]) (simp add: process_completed_def ci)
qed

end
