(* ===== verification/Wire_Text.thy ===== *)
theory Wire_Text
  imports Prelude
begin

text \<open>
  Rust text whose characters matter: a \<open>&str\<close> read as the list of its Unicode scalar values
  (\<open>chars()\<close>). The theory Prelude reads a \<open>&str\<close> as UTF-8 bytes, which is enough where text is only
  stored and compared; the writers of bank files, tax reports and QR payloads look at characters,
  and their inputs are Thai. The character classes are those of the Rust standard library:
  \<open>is_whitespace\<close> is the Unicode property White_Space, \<open>is_control\<close> the category Cc.
\<close>

type_synonym uchar = nat
type_synonym utext = "uchar list"

definition asc :: "string \<Rightarrow> utext" where
  "asc s = map of_char s"

lemma asc_Nil [simp]: "asc [] = []"
  by (simp add: asc_def)

lemma asc_Cons [simp]: "asc (c # s) = of_char c # asc s"
  by (simp add: asc_def)

lemma asc_append: "asc (s @ t) = asc s @ asc t"
  by (simp add: asc_def)

definition u_space :: "uchar \<Rightarrow> bool" where
  "u_space c \<longleftrightarrow> (9 \<le> c \<and> c \<le> 13) \<or> c = 32 \<or> c = 133 \<or> c = 160 \<or> c = 5760
    \<or> (8192 \<le> c \<and> c \<le> 8202) \<or> c = 8232 \<or> c = 8233 \<or> c = 8239 \<or> c = 8287 \<or> c = 12288"

definition u_control :: "uchar \<Rightarrow> bool" where
  "u_control c \<longleftrightarrow> c < 32 \<or> (127 \<le> c \<and> c < 160)"

definition u_digit :: "uchar \<Rightarrow> bool" where
  "u_digit c \<longleftrightarrow> 48 \<le> c \<and> c \<le> 57"

definition trim_end :: "utext \<Rightarrow> utext" where
  "trim_end s = rev (dropWhile u_space (rev s))"

definition trim_ends :: "utext \<Rightarrow> utext" where
  "trim_ends s = trim_end (dropWhile u_space s)"

lemma set_trim_end: "set (trim_end s) \<subseteq> set s"
  unfolding trim_end_def using set_dropWhileD [of _ u_space "rev s"] by auto

lemma set_trim_ends: "set (trim_ends s) \<subseteq> set s"
  unfolding trim_ends_def using set_trim_end [of "dropWhile u_space s"]
  by (auto dest: set_dropWhileD)

lemma length_trim_end: "length (trim_end s) \<le> length s"
  unfolding trim_end_def by (metis length_dropWhile_le length_rev)

lemma trim_end_prefix: "\<exists>t. s = trim_end s @ t \<and> (\<forall>c\<in>set t. u_space c)"
proof -
  have "rev s = takeWhile u_space (rev s) @ dropWhile u_space (rev s)"
    by simp
  then have "s = trim_end s @ rev (takeWhile u_space (rev s))"
    unfolding trim_end_def by (metis rev_append rev_rev_ident)
  moreover have "\<forall>c\<in>set (rev (takeWhile u_space (rev s))). u_space c"
    by (auto dest: set_takeWhileD)
  ultimately show ?thesis by blast
qed

lemma trim_end_last: "trim_end s \<noteq> [] \<Longrightarrow> \<not> u_space (last (trim_end s))"
  unfolding trim_end_def by (metis hd_dropWhile last_rev rev.simps(1))

text \<open>The bytes of a text, as they are stored and sent, and their number (\<open>str::len\<close>).\<close>

definition utf8_char :: "uchar \<Rightarrow> nat list" where
  "utf8_char c = (if c < 128 then [c]
     else if c < 2048 then [192 + c div 64, 128 + c mod 64]
     else if c < 65536 then [224 + c div 4096, 128 + c div 64 mod 64, 128 + c mod 64]
     else [240 + c div 262144, 128 + c div 4096 mod 64, 128 + c div 64 mod 64, 128 + c mod 64])"

definition utf8 :: "utext \<Rightarrow> string" where
  "utf8 s = map char_of (concat (map utf8_char s))"

definition byte_len :: "utext \<Rightarrow> nat" where
  "byte_len s = length (concat (map utf8_char s))"

subsection \<open>Numbers in decimal\<close>

text \<open>\<open>{}\<close> of an unsigned integer, and \<open>{:0w}\<close>: padded with zeros to at least \<open>w\<close> places.\<close>

fun u_nat :: "nat \<Rightarrow> utext" where
  "u_nat n = (if n < 10 then [48 + n] else u_nat (n div 10) @ [48 + n mod 10])"

declare u_nat.simps [simp del]

definition pad_zeros :: "nat \<Rightarrow> utext \<Rightarrow> utext" where
  "pad_zeros w s = replicate (w - length s) 48 @ s"

fun read_nat_acc :: "nat \<Rightarrow> utext \<Rightarrow> nat" where
  "read_nat_acc a [] = a"
| "read_nat_acc a (c # s) = read_nat_acc (10 * a + (c - 48)) s"

definition read_nat :: "utext \<Rightarrow> nat" where
  "read_nat s = read_nat_acc 0 s"

lemma read_nat_acc_append: "read_nat_acc a (s @ t) = read_nat_acc (read_nat_acc a s) t"
  by (induction s arbitrary: a) simp_all

lemma read_nat_append: "read_nat (s @ [c]) = 10 * read_nat s + (c - 48)"
  by (simp add: read_nat_def read_nat_acc_append)

lemma read_u_nat [simp]: "read_nat (u_nat n) = n"
proof (induction n rule: u_nat.induct)
  case (1 n)
  then show ?case
    by (subst u_nat.simps) (auto simp: read_nat_append, simp add: read_nat_def)
qed

lemma read_pad_zeros [simp]: "read_nat (pad_zeros w s) = read_nat s"
proof -
  have "read_nat_acc 0 (replicate k 48 @ s) = read_nat_acc 0 s" for k
    by (induction k) simp_all
  then show ?thesis by (simp add: read_nat_def pad_zeros_def)
qed

lemma u_nat_digits: "c \<in> set (u_nat n) \<Longrightarrow> u_digit c"
proof (induction n rule: u_nat.induct)
  case (1 n)
  then show ?case
    by (subst (asm) (2) u_nat.simps) (auto simp: u_digit_def split: if_splits)
qed

lemma u_nat_neq_Nil [simp]: "u_nat n \<noteq> []"
  by (subst u_nat.simps) simp

lemma length_u_nat: "n < 10 ^ k \<Longrightarrow> 0 < k \<Longrightarrow> length (u_nat n) \<le> k"
proof (induction k arbitrary: n)
  case (Suc k)
  show ?case
  proof (cases "n < 10")
    case True
    then show ?thesis by (subst u_nat.simps) simp
  next
    case False
    then have "0 < k" "n div 10 < 10 ^ k"
      using Suc.prems(1) by (auto intro: Nat.gr0I simp: less_mult_imp_div_less mult.commute)
    with Suc.IH False show ?thesis
      by (subst u_nat.simps) simp
  qed
qed simp

lemma length_pad_zeros: "length s \<le> w \<Longrightarrow> length (pad_zeros w s) = w"
  by (simp add: pad_zeros_def)

lemma set_pad_zeros: "set (pad_zeros w s) \<subseteq> insert 48 (set s)"
  by (auto simp: pad_zeros_def)

subsection \<open>Joining and cutting at a separator\<close>

fun join_with :: "utext \<Rightarrow> utext list \<Rightarrow> utext" where
  "join_with d [] = []"
| "join_with d [s] = s"
| "join_with d (s # t # r) = s @ d @ join_with d (t # r)"

fun cut_at :: "uchar \<Rightarrow> utext \<Rightarrow> utext list" where
  "cut_at d [] = [[]]"
| "cut_at d (c # s) = (if c = d then [] # cut_at d s
     else (case cut_at d s of [] \<Rightarrow> [[c]] | f # fs \<Rightarrow> (c # f) # fs))"

lemma cut_at_free: "d \<notin> set s \<Longrightarrow> cut_at d s = [s]"
  by (induction s) auto

lemma cut_at_step: "d \<notin> set s \<Longrightarrow> cut_at d (s @ d # t) = s # cut_at d t"
  by (induction s) auto

lemma cut_join:
  assumes "fs \<noteq> []" and "\<forall>f\<in>set fs. d \<notin> set f"
  shows "cut_at d (join_with [d] fs) = fs"
  using assms by (induction "[d]" fs rule: join_with.induct) (auto simp: cut_at_free cut_at_step)

text \<open>Cutting at CR LF.\<close>

fun cut_crlf :: "utext \<Rightarrow> utext list" where
  "cut_crlf [] = [[]]"
| "cut_crlf (c # s) = (if c = 13 \<and> s \<noteq> [] \<and> hd s = 10 then [] # cut_crlf (tl s)
     else (case cut_crlf s of [] \<Rightarrow> [[c]] | f # fs \<Rightarrow> (c # f) # fs))"

lemma cut_crlf_free: "13 \<notin> set s \<Longrightarrow> cut_crlf s = [s]"
  by (induction s) auto

lemma cut_crlf_step: "13 \<notin> set s \<Longrightarrow> cut_crlf (s @ 13 # 10 # t) = s # cut_crlf t"
  by (induction s) auto

lemma cut_crlf_join:
  assumes "fs \<noteq> []" and "\<forall>f\<in>set fs. 13 \<notin> set f"
  shows "cut_crlf (join_with [13, 10] fs) = fs"
  using assms by (induction "[13, 10] :: utext" fs rule: join_with.induct) (auto simp: cut_crlf_free cut_crlf_step)

lemma set_join_with: "set (join_with d fs) \<subseteq> set d \<union> (\<Union>f\<in>set fs. set f)"
  by (induction d fs rule: join_with.induct) auto

end
