(* ===== verification/Payment_Csv.thy ===== *)
theory Payment_Csv
  imports Wire_Text
begin

text \<open>
  The CSV writer of the two tax reports (services/payment/src/domain/csv.rs), with a reader of the
  RFC 4180 format as its reference: what the writer emits, a strict reader takes apart into the
  cells it was given, each of them either unchanged or prefixed with the apostrophe that stops a
  spreadsheet from running it.
\<close>

subsection \<open>The writer\<close>

definition UTF8_BOM :: utext where
  "UTF8_BOM = [65279]"

definition CSV_NEWLINE :: utext where
  "CSV_NEWLINE = [13, 10]"

definition FORMULA_LEAD :: "uchar list" where
  "FORMULA_LEAD = [61, 43, 45, 64]"

fun numeric_body :: "bool \<Rightarrow> bool \<Rightarrow> utext \<Rightarrow> bool" where
  "numeric_body dot digit [] = digit"
| "numeric_body dot digit (c # s) =
     (if u_digit c then numeric_body dot True s
      else if c = 46 \<and> \<not> dot then numeric_body True digit s
      else False)"

definition strip_sign :: "utext \<Rightarrow> utext" where
  "strip_sign s = (case s of c # t \<Rightarrow> (if c = 45 \<or> c = 43 then t else s) | [] \<Rightarrow> s)"

definition is_numeric_literal :: "utext \<Rightarrow> bool" where
  "is_numeric_literal s = (let body = strip_sign s in
     if body = [] then False else numeric_body False False body)"

definition leads_a_formula :: "utext \<Rightarrow> bool" where
  "leads_a_formula s = (case find (\<lambda>c. \<not> u_space c \<and> \<not> u_control c) s of
     None \<Rightarrow> False | Some c \<Rightarrow> c \<in> set FORMULA_LEAD)"

definition csv_guard :: "utext \<Rightarrow> utext" where
  "csv_guard s = (if \<not> is_numeric_literal s \<and> leads_a_formula s then 39 # s else s)"

definition needs_quotes :: "utext \<Rightarrow> bool" where
  "needs_quotes s \<longleftrightarrow> list_ex (\<lambda>c. c \<in> {44, 34, 13, 10}) s
    \<or> (s \<noteq> [] \<and> u_space (hd s)) \<or> (s \<noteq> [] \<and> u_space (last s))"

definition double_quotes :: "utext \<Rightarrow> utext" where
  "double_quotes s = concat (map (\<lambda>c. if c = 34 then [34, 34] else [c]) s)"

definition csv_field :: "utext \<Rightarrow> utext" where
  "csv_field s = (let guarded = csv_guard s in
     if needs_quotes s then 34 # double_quotes guarded @ [34] else guarded)"

definition csv_row :: "utext list \<Rightarrow> utext" where
  "csv_row fs = join_with [44] (map csv_field fs)"

definition csv_document :: "utext list \<Rightarrow> utext list list \<Rightarrow> utext" where
  "csv_document header rows =
     UTF8_BOM @ csv_row header @ CSV_NEWLINE @ concat (map (\<lambda>r. csv_row r @ CSV_NEWLINE) rows)"

subsection \<open>The reference reader\<close>

text \<open>
  A strict reader of RFC 4180: records end in CRLF, a cell is either bare (no comma, quote or line
  break in it) or quoted as a whole with its quotes doubled; everything else is an error.
\<close>

datatype rd_state = CellStart | Bare | Quoted | QuoteSeen

fun rd_rows :: "rd_state \<Rightarrow> utext \<Rightarrow> utext list \<Rightarrow> utext list list \<Rightarrow> utext \<Rightarrow> utext list list option" where
  "rd_rows st cell row rows [] = (if st = CellStart \<and> row = [] then Some rows else None)"
| "rd_rows Quoted cell row rows (c # s) =
     (if c = 34 then rd_rows QuoteSeen cell row rows s else rd_rows Quoted (cell @ [c]) row rows s)"
| "rd_rows st cell row rows (c # s) =
     (if c = 34 then (case st of
          CellStart \<Rightarrow> rd_rows Quoted [] row rows s
        | QuoteSeen \<Rightarrow> rd_rows Quoted (cell @ [34]) row rows s
        | _ \<Rightarrow> None)
      else if c = 44 then rd_rows CellStart [] (row @ [cell]) rows s
      else if c = 13 then (case s of
          l # s' \<Rightarrow> if l = 10 then rd_rows CellStart [] [] (rows @ [row @ [cell]]) s' else None
        | [] \<Rightarrow> None)
      else if c = 10 \<or> st = QuoteSeen then None
      else rd_rows Bare (cell @ [c]) row rows s)"

definition read_csv :: "utext \<Rightarrow> utext list list option" where
  "read_csv s = (case s of b # t \<Rightarrow> if [b] = UTF8_BOM then rd_rows CellStart [] [] [] t else None
                         | [] \<Rightarrow> None)"

subsection \<open>Reading back what was written\<close>

text \<open>What follows a cell: a comma or the end of the record.\<close>

definition after_cell :: "utext \<Rightarrow> utext list \<Rightarrow> utext list list \<Rightarrow> utext \<Rightarrow> utext list list option" where
  "after_cell cell row rows s = (if hd s = 44 then rd_rows CellStart [] (row @ [cell]) rows (tl s)
     else rd_rows CellStart [] [] (rows @ [row @ [cell]]) (tl (tl s)))"

definition cell_end :: "utext \<Rightarrow> bool" where
  "cell_end s \<longleftrightarrow> (\<exists>t. s = 44 # t \<or> s = 13 # 10 # t)"

lemma rd_end:
  "cell_end s \<Longrightarrow> st \<noteq> Quoted \<Longrightarrow> rd_rows st cell row rows s = after_cell cell row rows s"
  by (cases st) (auto simp: cell_end_def after_cell_def)

lemma rd_bare:
  assumes "\<forall>c\<in>set v. c \<notin> {44, 34, 13, 10}" and "cell_end s" and "st = CellStart \<or> st = Bare"
  shows "rd_rows st cell row rows (v @ s) = after_cell (cell @ v) row rows s"
  using assms
proof (induction v arbitrary: st cell)
  case Nil
  then show ?case by (auto simp: rd_end)
next
  case (Cons c v)
  then have "rd_rows st cell row rows ((c # v) @ s) = rd_rows Bare (cell @ [c]) row rows (v @ s)"
    by auto
  with Cons show ?case by simp
qed

lemma rd_quoted:
  assumes "cell_end s"
  shows "rd_rows Quoted cell row rows (double_quotes v @ 34 # s) = after_cell (cell @ v) row rows s"
  using assms
proof (induction v arbitrary: cell)
  case Nil
  then show ?case by (simp add: double_quotes_def rd_end)
next
  case (Cons c v)
  then show ?case by (simp add: double_quotes_def)
qed

lemma rd_open: "rd_rows CellStart cell row rows (34 # s) = rd_rows Quoted [] row rows s"
  by simp

declare rd_rows.simps [simp del]

lemma csv_guard_plain:
  assumes "\<not> needs_quotes v"
  shows "\<forall>c\<in>set (csv_guard v). c \<notin> {44, 34, 13, 10}"
  using assms by (auto simp: csv_guard_def needs_quotes_def list_ex_iff)

lemma rd_field:
  assumes "cell_end s"
  shows "rd_rows CellStart [] row rows (csv_field v @ s) = after_cell (csv_guard v) row rows s"
proof (cases "needs_quotes v")
  case True
  then show ?thesis
    using rd_quoted [OF assms, of "[]"] by (simp add: csv_field_def rd_open)
next
  case False
  then show ?thesis
    using rd_bare [OF csv_guard_plain [OF False] assms, of CellStart "[]"]
    by (simp add: csv_field_def)
qed

lemma rd_row:
  assumes "fs \<noteq> []"
  shows "rd_rows CellStart [] row rows (csv_row fs @ 13 # 10 # s) =
    rd_rows CellStart [] [] (rows @ [row @ map csv_guard fs]) s"
  using assms
proof (induction fs arbitrary: row rule: induct_list012)
  case (2 v)
  have "cell_end (13 # 10 # s)" by (simp add: cell_end_def)
  from rd_field [OF this] show ?case by (simp add: csv_row_def after_cell_def)
next
  case (3 v w fs)
  have "cell_end (44 # csv_row (w # fs) @ 13 # 10 # s)" by (simp add: cell_end_def)
  from rd_field [OF this] 3 show ?case by (simp add: csv_row_def after_cell_def)
qed simp

lemma rd_records:
  assumes "\<forall>r\<in>set rs. r \<noteq> []"
  shows "rd_rows CellStart [] [] rows (concat (map (\<lambda>r. csv_row r @ CSV_NEWLINE) rs)) =
    Some (rows @ map (map csv_guard) rs)"
  using assms by (induction rs arbitrary: rows) (simp_all add: CSV_NEWLINE_def rd_row rd_rows.simps(1))

lemma leads_a_formula_quote: "\<not> leads_a_formula (39 # s)"
  by (simp add: leads_a_formula_def u_space_def u_control_def FORMULA_LEAD_def)

lemma csv_guard_safe:
  "is_numeric_literal (csv_guard s) \<or> \<not> leads_a_formula (csv_guard s)"
  by (simp add: csv_guard_def leads_a_formula_quote)

text \<open>
  A tax report opens as it was written: the strict reader takes the document apart into the
  header and the rows it was built from, whatever characters their cells hold (commas, quotes, line
  breaks, padding); a cell differs from its value at most by a leading apostrophe, and no cell that
  is not a plain number can be read as a formula.
\<close>
theorem csv_reads_back:
  assumes "header \<noteq> []" and "\<forall>r\<in>set rows. r \<noteq> []"
  shows "read_csv (csv_document header rows) = Some (map (map csv_guard) (header # rows))
    \<and> (\<forall>v. (csv_guard v = v \<or> csv_guard v = 39 # v)
        \<and> (is_numeric_literal (csv_guard v) \<or> \<not> leads_a_formula (csv_guard v)))"
proof -
  have "csv_document header rows =
      65279 # csv_row header @ 13 # 10 # concat (map (\<lambda>r. csv_row r @ CSV_NEWLINE) rows)"
    by (simp add: csv_document_def UTF8_BOM_def CSV_NEWLINE_def)
  then have "read_csv (csv_document header rows) = Some (map (map csv_guard) (header # rows))"
    using rd_row [OF assms(1), of "[]" "[]"] rd_records [OF assms(2), of "[map csv_guard header]"]
    by (simp add: read_csv_def UTF8_BOM_def)
  moreover have "csv_guard v = v \<or> csv_guard v = 39 # v" for v
    by (simp add: csv_guard_def)
  ultimately show ?thesis
    using csv_guard_safe by blast
qed

theorem csv_reads_back_witness:
  "read_csv (csv_document [asc ''name'', asc ''vat''] [[asc ''=A1,2'', asc ''-2.50'']])
    = Some [[asc ''name'', asc ''vat''], [39 # asc ''=A1,2'', asc ''-2.50'']]"
proof -
  have "read_csv (csv_document [asc ''name'', asc ''vat''] [[asc ''=A1,2'', asc ''-2.50'']])
    = Some (map (map csv_guard) [[asc ''name'', asc ''vat''], [asc ''=A1,2'', asc ''-2.50'']])"
    by (rule conjunct1 [OF csv_reads_back [of "[asc ''name'', asc ''vat'']"
      "[[asc ''=A1,2'', asc ''-2.50'']]"]]) simp_all
  also have "map (map csv_guard) [[asc ''name'', asc ''vat''], [asc ''=A1,2'', asc ''-2.50'']]
    = [[asc ''name'', asc ''vat''], [39 # asc ''=A1,2'', asc ''-2.50'']]"
    by (simp add: csv_guard_def is_numeric_literal_def strip_sign_def leads_a_formula_def
      FORMULA_LEAD_def u_space_def u_control_def u_digit_def)
  finally show ?thesis .
qed

end
