(* ===== verification/Decimal_Text.thy ===== *)
theory Decimal_Text
  imports Decimal Wire_Text
begin

text \<open>
  Money as text: \<open>format!("{:.2}", x)\<close> of a decimal with at most two places, which is how the bank
  files, the tax reports and the QR payload write an amount, and the reader it is checked against.
\<close>

definition cents_of :: "decimal \<Rightarrow> nat" where
  "cents_of x = nat \<lfloor>\<bar>x\<bar> * 100\<rfloor>"

definition fixed2 :: "decimal \<Rightarrow> utext" where
  "fixed2 x = (if x < 0 then [45] else []) @ u_nat (cents_of x div 100) @ [46]
     @ pad_zeros 2 (u_nat (cents_of x mod 100))"

text \<open>\<open>scb_export::format_amount\<close>: round to two places, then print them.\<close>

definition format_amount :: "decimal_lib \<Rightarrow> decimal \<Rightarrow> utext" where
  "format_amount L x = fixed2 (lib_round_dp L x 2)"

definition read_unsigned :: "utext \<Rightarrow> decimal" where
  "read_unsigned s = of_nat (read_nat (takeWhile u_digit s))
     + of_nat (read_nat (drop 1 (dropWhile u_digit s))) / 100"

definition read_amount :: "utext \<Rightarrow> decimal" where
  "read_amount s = (if s \<noteq> [] \<and> hd s = 45 then - read_unsigned (tl s) else read_unsigned s)"

lemma cents_exact:
  assumes "on_grid 2 x"
  shows "of_nat (cents_of x) = \<bar>x\<bar> * 100"
proof -
  from assms obtain k where k: "x * 100 = of_int k"
    by (auto simp: on_grid_def elim: Ints_cases)
  then have "\<bar>x\<bar> * 100 = of_int \<bar>k\<bar>"
    by (metis abs_mult abs_numeral of_int_abs)
  then show ?thesis by (simp add: cents_of_def)
qed

lemma read_unsigned_cents:
  "read_unsigned (u_nat (n div 100) @ [46] @ pad_zeros 2 (u_nat (n mod 100))) = of_nat n / 100"
proof -
  have d: "\<forall>c\<in>set (u_nat m). u_digit c" for m
    using u_nat_digits by blast
  have "(of_nat n :: rat) = of_nat (n div 100) * 100 + of_nat (n mod 100)"
    by (metis div_mult_mod_eq of_nat_add of_nat_mult of_nat_numeral)
  then show ?thesis
    using d by (simp add: read_unsigned_def takeWhile_append2 dropWhile_append2 u_digit_def field_simps)
qed

lemma u_nat_hd: "hd (u_nat n) \<noteq> 45"
  using u_nat_digits [of "hd (u_nat n)" n] by (auto simp: u_digit_def)

lemma read_fixed2:
  assumes "on_grid 2 x"
  shows "read_amount (fixed2 x) = x"
proof -
  have u: "read_unsigned (u_nat (cents_of x div 100) @ [46] @ pad_zeros 2 (u_nat (cents_of x mod 100))) = \<bar>x\<bar>"
    unfolding read_unsigned_cents by (simp add: cents_exact [OF assms])
  show ?thesis
    using u by (cases "x < 0") (simp_all add: read_amount_def fixed2_def hd_append u_nat_hd)
qed

lemma fixed2_chars: "c \<in> set (fixed2 x) \<Longrightarrow> u_digit c \<or> c = 45 \<or> c = 46"
  using u_nat_digits set_pad_zeros [of 2 "u_nat (cents_of x mod 100)"]
  by (auto simp: fixed2_def u_digit_def split: if_splits)

lemma length_fixed2:
  assumes "\<bar>x\<bar> < 10 ^ k" "0 < k"
  shows "length (fixed2 x) \<le> k + 4"
proof -
  have "(of_int \<lfloor>\<bar>x\<bar> * 100\<rfloor> :: rat) \<le> \<bar>x\<bar> * 100" by simp
  also have "\<dots> < 10 ^ k * 100" using assms by simp
  finally have "\<lfloor>\<bar>x\<bar> * 100\<rfloor> < 10 ^ k * 100"
    by (metis of_int_less_iff of_int_mult of_int_numeral of_int_power)
  then have "cents_of x < 10 ^ k * 100"
    unfolding cents_of_def by (subst nat_less_iff) auto
  then have "cents_of x div 100 < 10 ^ k"
    by (simp add: less_mult_imp_div_less)
  from length_u_nat [OF this assms(2)] have "length (u_nat (cents_of x div 100)) \<le> k" .
  moreover have "length (u_nat (cents_of x mod 100)) \<le> 2"
    by (rule length_u_nat) simp_all
  ultimately show ?thesis
    by (simp add: fixed2_def length_pad_zeros)
qed

end
