(* ===== verification/Scb_File.thy ===== *)
theory Scb_File
  imports Decimal_Text Shared_Error
begin

text \<open>
  The values of the bank upload file (services/payment/src/domain/scb_export.rs, first half): the
  code tables, the three sanitising rules, the account check digit, the references and the value
  date. The record writers follow.

  A date is its day number, day 0 being 1970-01-01; \<open>chrono\<close>'s printing of a date and of a
  time stamp is the record \<open>calendar\<close>, a parameter of the writers.
\<close>

text \<open>
  The record writers of services/payment/src/domain/scb_export.rs and the whole file, with what the
  bank's parser reads back out of it: the lines, their fixed numbers of fields and the amounts.
\<close>

text \<open>
  The bank upload file (services/payment/src/domain/scb_export.rs, second half): products and
  destinations with their rules, the value date and the references, and the writers of the HEADER,
  BCHDET, TXNDET, WHTCER, WHTDET and TRAILR records. A Thai text of a rejection is a gloss.
\<close>

subsection \<open>Codes and caps\<close>

definition DELIM :: uchar where "DELIM = 124"

definition BANK_CODE_SCB :: utext where "BANK_CODE_SCB = asc ''014''"
definition CLEARING_CODE_PROMPTPAY :: utext where "CLEARING_CODE_PROMPTPAY = asc ''111''"

definition MAX_BATCH_REF :: nat where "MAX_BATCH_REF = 12"
definition MAX_SYSTEM_REF :: nat where "MAX_SYSTEM_REF = 18"
definition MAX_FILE_REF :: nat where "MAX_FILE_REF = 20"
definition MAX_TXN_REF :: nat where "MAX_TXN_REF = 20"
definition MAX_NAME :: nat where "MAX_NAME = 140"
definition MAX_ADDRESS :: nat where "MAX_ADDRESS = 70"
definition MAX_TAX_ID :: nat where "MAX_TAX_ID = 15"
definition MAX_INCOME_DESC :: nat where "MAX_INCOME_DESC = 80"
definition MAX_WHT_CODE :: nat where "MAX_WHT_CODE = 15"
definition MAX_FEE_CHARGE_CODE :: nat where "MAX_FEE_CHARGE_CODE = 15"
definition MAX_EMAIL :: nat where "MAX_EMAIL = 140"

definition WHT_FORM_TYPE_CODES :: "utext list" where
  "WHT_FORM_TYPE_CODES = map asc [''01'', ''03'', ''04'', ''11'', ''12'', ''13'', ''53'']"

definition is_valid_wht_form_type_code :: "utext \<Rightarrow> bool" where
  "is_valid_wht_form_type_code code = (trim_ends code \<in> set WHT_FORM_TYPE_CODES)"

definition WHT_PAY_TYPE_CODES :: "utext list" where
  "WHT_PAY_TYPE_CODES = map asc [''1'', ''2'', ''3'', ''4'']"

definition WHT_PAY_TYPE_CODE_OTHER :: utext where "WHT_PAY_TYPE_CODE_OTHER = asc ''4''"

definition is_valid_wht_pay_type_code :: "utext \<Rightarrow> bool" where
  "is_valid_wht_pay_type_code code = (trim_ends code \<in> set WHT_PAY_TYPE_CODES)"

definition WHT_INCOME_TYPE_CODES :: "utext list" where
  "WHT_INCOME_TYPE_CODES = map asc [''1'', ''2'', ''3'', ''4a'', ''4b1.1'', ''4b1.2'', ''4b1.3'',
     ''4b1.4'', ''4b2.1'', ''4b2.2'', ''4b2.3'', ''4b2.4'', ''4b2.5'', ''5'', ''6'']"

definition is_valid_wht_income_type_code :: "utext \<Rightarrow> bool" where
  "is_valid_wht_income_type_code code = (trim_ends code \<in> set WHT_INCOME_TYPE_CODES)"

definition FEE_CHARGE_CODES :: "utext list" where
  "FEE_CHARGE_CODES = map asc [''OUR'', ''BEN'']"

definition is_valid_fee_charge_code :: "utext \<Rightarrow> bool" where
  "is_valid_fee_charge_code code = (trim_ends code \<in> set FEE_CHARGE_CODES)"

definition tax_id_over_cap :: "utext \<Rightarrow> bool" where
  "tax_id_over_cap tax_id = (MAX_TAX_ID < length tax_id)"

subsection \<open>Sanitising\<close>

definition NO_SPECIAL_CHARS :: "uchar list" where
  "NO_SPECIAL_CHARS = [33, 34, 35, 36, 37, 38, 42, 43, 59, 60, 61, 62, 63, 64, 91, 93, 94, 95, 96,
     123, DELIM, 125, 126, 92]"

definition BATCH_REF_CHARS :: "uchar list" where
  "BATCH_REF_CHARS = [DELIM, 35, 94]"

text \<open>The loop of \<open>sanitize_with\<close>: the output so far and whether a space is pending.\<close>

definition sanitize_step :: "uchar list \<Rightarrow> uchar \<Rightarrow> utext \<times> bool \<Rightarrow> utext \<times> bool" where
  "sanitize_step disallowed ch st = (let (out, pending_space) = st in
     if ch \<in> set disallowed then (out, pending_space)
     else if u_space ch \<or> u_control ch then (out, out \<noteq> [])
     else ((if pending_space then out @ [32] else out) @ [ch], False))"

definition sanitize_with :: "utext \<Rightarrow> nat \<Rightarrow> uchar list \<Rightarrow> utext" where
  "sanitize_with v max_len disallowed =
     trim_end (take max_len (fst (fold (sanitize_step disallowed) v ([], False))))"

definition sanitize_text :: "utext \<Rightarrow> nat \<Rightarrow> utext" where
  "sanitize_text v max_len = sanitize_with v max_len BATCH_REF_CHARS"

definition sanitize_no_special_char :: "utext \<Rightarrow> nat \<Rightarrow> utext" where
  "sanitize_no_special_char v max_len = sanitize_with v max_len NO_SPECIAL_CHARS"

definition sanitize_allow_special_char :: "utext \<Rightarrow> nat \<Rightarrow> utext" where
  "sanitize_allow_special_char v max_len = sanitize_with v max_len [DELIM]"

definition digits_only :: "utext \<Rightarrow> utext" where
  "digits_only v = filter u_digit v"

text \<open>
  What every sanitised text is: within the cap, without the characters of the rule, without control
  characters or any white space but the plain space, not starting or ending with a space.
\<close>

definition clean_out :: "uchar list \<Rightarrow> utext \<Rightarrow> bool" where
  "clean_out disallowed out \<longleftrightarrow>
     (\<forall>c\<in>set out. c \<notin> set disallowed \<and> (c = 32 \<or> (\<not> u_space c \<and> \<not> u_control c)))
     \<and> (out \<noteq> [] \<longrightarrow> hd out \<noteq> 32)"

lemma sanitize_step_clean:
  assumes "32 \<notin> set disallowed" and "clean_out disallowed (fst st)" and "snd st \<longrightarrow> fst st \<noteq> []"
  shows "clean_out disallowed (fst (sanitize_step disallowed ch st))
    \<and> (snd (sanitize_step disallowed ch st) \<longrightarrow> fst (sanitize_step disallowed ch st) \<noteq> [])"
proof -
  have "ch \<noteq> 32" if "\<not> u_space ch" using that by (auto simp: u_space_def)
  then show ?thesis
    using assms by (cases st) (auto simp: sanitize_step_def clean_out_def hd_append)
qed

lemma sanitize_fold_clean:
  assumes "32 \<notin> set disallowed"
  shows "clean_out disallowed (fst st) \<Longrightarrow> (snd st \<longrightarrow> fst st \<noteq> []) \<Longrightarrow>
    clean_out disallowed (fst (fold (sanitize_step disallowed) v st))"
proof (induction v arbitrary: st)
  case (Cons ch v)
  show ?case
    using Cons.IH [of "sanitize_step disallowed ch st"] sanitize_step_clean [OF assms Cons.prems]
    by simp
qed simp

lemma sanitize_with_clean:
  assumes "32 \<notin> set disallowed"
  shows "clean_out disallowed (sanitize_with v n disallowed)"
    and "length (sanitize_with v n disallowed) \<le> n"
    and "sanitize_with v n disallowed \<noteq> [] \<Longrightarrow> last (sanitize_with v n disallowed) \<noteq> 32"
proof -
  let ?out = "fst (fold (sanitize_step disallowed) v ([], False))"
  have c: "clean_out disallowed ?out"
    using sanitize_fold_clean [OF assms, of "([], False)" v] by (simp add: clean_out_def)
  obtain t where t: "take n ?out = sanitize_with v n disallowed @ t"
    using trim_end_prefix [of "take n ?out"] unfolding sanitize_with_def by blast
  have sub: "set (sanitize_with v n disallowed) \<subseteq> set ?out"
    unfolding sanitize_with_def using set_trim_end set_take_subset by fastforce
  have h: "hd (sanitize_with v n disallowed) = hd ?out" if "sanitize_with v n disallowed \<noteq> []"
  proof -
    have "hd (take n ?out) = hd (sanitize_with v n disallowed)"
      using that t by simp
    moreover have "n \<noteq> 0" using that by (cases n) (auto simp: sanitize_with_def trim_end_def)
    ultimately show ?thesis by simp
  qed
  show "clean_out disallowed (sanitize_with v n disallowed)"
  proof -
    have "?out \<noteq> []" if "sanitize_with v n disallowed \<noteq> []"
      using sub that by auto
    with c have "sanitize_with v n disallowed \<noteq> [] \<longrightarrow> hd (sanitize_with v n disallowed) \<noteq> 32"
      using h unfolding clean_out_def by simp
    then show ?thesis using c sub unfolding clean_out_def by blast
  qed
  show "length (sanitize_with v n disallowed) \<le> n"
    unfolding sanitize_with_def using length_trim_end [of "take n ?out"] by simp
  show "last (sanitize_with v n disallowed) \<noteq> 32" if "sanitize_with v n disallowed \<noteq> []"
  proof -
    have "u_space 32" by (simp add: u_space_def)
    then show ?thesis
      using trim_end_last [of "take n ?out"] that unfolding sanitize_with_def by metis
  qed
qed

lemma rule_sets: "32 \<notin> set BATCH_REF_CHARS" "32 \<notin> set NO_SPECIAL_CHARS" "32 \<notin> set [DELIM]"
  "DELIM \<in> set BATCH_REF_CHARS" "DELIM \<in> set NO_SPECIAL_CHARS"
  by (simp_all add: BATCH_REF_CHARS_def NO_SPECIAL_CHARS_def DELIM_def)

text \<open>No value that goes through a rule holds a delimiter or a line break.\<close>

definition field_safe :: "utext \<Rightarrow> bool" where
  "field_safe s \<longleftrightarrow> DELIM \<notin> set s \<and> 10 \<notin> set s \<and> 13 \<notin> set s"

lemma clean_field_safe: "clean_out d s \<Longrightarrow> DELIM \<in> set d \<Longrightarrow> field_safe s"
  by (auto simp: clean_out_def field_safe_def u_space_def)

lemma sanitized_safe:
  "field_safe (sanitize_text v n)" "field_safe (sanitize_no_special_char v n)"
  "field_safe (sanitize_allow_special_char v n)"
  using clean_field_safe [OF sanitize_with_clean(1)] rule_sets
  by (simp_all add: sanitize_text_def sanitize_no_special_char_def sanitize_allow_special_char_def)

lemma field_safe_digits: "\<forall>c\<in>set s. u_digit c \<Longrightarrow> field_safe s"
  by (auto simp: field_safe_def u_digit_def DELIM_def)

lemma digits_only_safe: "field_safe (digits_only v)"
  by (rule field_safe_digits) (simp add: digits_only_def)

lemma u_nat_safe: "field_safe (u_nat n)"
  by (rule field_safe_digits) (blast intro: u_nat_digits)

lemma format_amount_safe: "field_safe (format_amount L x)"
  using fixed2_chars by (fastforce simp: field_safe_def format_amount_def u_digit_def DELIM_def)

lemma field_safe_Nil [simp]: "field_safe []"
  by (simp add: field_safe_def)

subsection \<open>The account check digit\<close>

definition SCB_ACCOUNT_WEIGHTS :: "nat list" where
  "SCB_ACCOUNT_WEIGHTS = [4, 3, 2, 7, 6, 5, 4, 3, 2]"

definition SCB_ACCOUNT_DIGITS :: nat where
  "SCB_ACCOUNT_DIGITS = length SCB_ACCOUNT_WEIGHTS + 1"

definition scb_account_check_digit_ok :: "utext \<Rightarrow> bool" where
  "scb_account_check_digit_ok account = (let cleaned = filter (\<lambda>c. c \<noteq> 45) (trim_ends account) in
     if length cleaned \<noteq> SCB_ACCOUNT_DIGITS \<or> \<not> list_all u_digit cleaned then False
     else let digits = map (\<lambda>c. c - 48) cleaned;
              k = sum_list (map (\<lambda>(w, d). (w * d) mod 10) (zip SCB_ACCOUNT_WEIGHTS digits)) mod 10;
              check = (10 - k) mod 10
          in digits ! (SCB_ACCOUNT_DIGITS - 1) = check)"

definition is_valid_scb_account :: "utext \<Rightarrow> bool" where
  "is_valid_scb_account account =
     (scb_account_check_digit_ok account \<and> list_ex (\<lambda>c. u_digit c \<and> c \<noteq> 48) account)"

lemma valid_account_digits:
  assumes "is_valid_scb_account a"
  shows "length (digits_only a) = 10"
proof -
  let ?c = "filter (\<lambda>c. c \<noteq> 45) (trim_ends a)"
  have c: "length ?c = 10" "\<forall>c\<in>set ?c. u_digit c"
    using assms by (auto simp: is_valid_scb_account_def scb_account_check_digit_ok_def
        SCB_ACCOUNT_DIGITS_def SCB_ACCOUNT_WEIGHTS_def list_all_iff Let_def split: if_splits)
  have sp: "u_space c \<Longrightarrow> \<not> u_digit c" for c by (auto simp: u_space_def u_digit_def)
  have f: "filter u_digit (dropWhile u_space t) = filter u_digit t" for t
    by (induction t) (auto dest: sp)
  have "filter u_digit (trim_ends a) = filter u_digit a"
    unfolding trim_ends_def trim_end_def by (metis f rev_filter rev_rev_ident)
  moreover have "filter u_digit ?c = ?c" using c(2) by (rule filter_True)
  moreover have "filter u_digit ?c = filter u_digit (trim_ends a)"
    unfolding filter_filter by (intro filter_cong) (auto simp: u_digit_def)
  ultimately show ?thesis using c(1) by (simp add: digits_only_def)
qed

subsection \<open>Products and destinations\<close>

datatype scb_product = PromptPayProduct | OwnAccount

fun product_code :: "scb_product \<Rightarrow> utext" where
  "product_code PromptPayProduct = asc ''PPY''"
| "product_code OwnAccount = asc ''OAT''"

fun branch_code :: "scb_product \<Rightarrow> utext" where
  "branch_code PromptPayProduct = asc ''0000''"
| "branch_code OwnAccount = asc ''0111''"

fun service_type_code :: "scb_product \<Rightarrow> utext \<Rightarrow> utext" where
  "service_type_code PromptPayProduct configured = configured"
| "service_type_code OwnAccount configured = configured"

type_synonym scb_bank_code = utext

definition bank_scb :: scb_bank_code where "bank_scb = BANK_CODE_SCB"

definition parse_bank_code :: "utext \<Rightarrow> scb_bank_code option" where
  "parse_bank_code raw = (let digits = digits_only raw; n = length digits in
     if n = 0 \<or> 3 < n \<or> \<not> list_ex (\<lambda>c. c \<noteq> 48) digits then None
     else Some (pad_zeros 3 digits))"

definition is_scb :: "scb_bank_code \<Rightarrow> bool" where
  "is_scb c = (c = BANK_CODE_SCB)"

datatype credit_destination =
    ToPromptPay (proxy: utext)
  | ToBankAccount (bank_code: scb_bank_code) (account_number: utext)

definition scb_account :: "utext \<Rightarrow> credit_destination" where
  "scb_account a = ToBankAccount bank_scb a"

fun credit_account :: "credit_destination \<Rightarrow> utext" where
  "credit_account (ToPromptPay p) = p"
| "credit_account (ToBankAccount b a) = a"

definition PROXY_NATIONAL_ID :: utext where "PROXY_NATIONAL_ID = asc ''NAT''"
definition PROXY_MOBILE :: utext where "PROXY_MOBILE = asc ''MOB''"
definition PROXY_EWALLET :: utext where "PROXY_EWALLET = asc ''EWL''"

fun proxy_type_code :: "credit_destination \<Rightarrow> utext option" where
  "proxy_type_code (ToBankAccount b a) = None"
| "proxy_type_code (ToPromptPay p) = (let n = length (digits_only p) in
     if n = 15 then Some PROXY_EWALLET
     else if n = 13 then Some PROXY_NATIONAL_ID
     else if n = 10 then Some PROXY_MOBILE
     else None)"

fun clearing_code :: "credit_destination \<Rightarrow> utext" where
  "clearing_code (ToPromptPay p) = CLEARING_CODE_PROMPTPAY"
| "clearing_code (ToBankAccount b a) = b"

definition DEFAULT_MAX_TRANSFER_PER_TXN :: decimal where "DEFAULT_MAX_TRANSFER_PER_TXN = 2000000"
definition MAX_TRANSFER_EWALLET :: decimal where "MAX_TRANSFER_EWALLET = 10000"
definition MAX_TRANSFER_BANK_ACCOUNT :: decimal where
  "MAX_TRANSFER_BANK_ACCOUNT = 999999999999999 / 100"
definition MIN_TRANSFER_PER_TXN :: decimal where "MIN_TRANSFER_PER_TXN = 1 / 100"

definition scb_max_transfer :: "credit_destination \<Rightarrow> decimal" where
  "scb_max_transfer d = (case d of
     ToPromptPay p \<Rightarrow> if proxy_type_code d = Some PROXY_EWALLET then MAX_TRANSFER_EWALLET
       else DEFAULT_MAX_TRANSFER_PER_TXN
   | ToBankAccount b a \<Rightarrow> MAX_TRANSFER_BANK_ACCOUNT)"

definition destination_rejection :: "scb_product \<Rightarrow> credit_destination \<Rightarrow> string option" where
  "destination_rejection product dest = (case (product, dest) of
     (PromptPayProduct, ToPromptPay p) \<Rightarrow>
       if proxy_type_code dest = None then Some ''[not a PromptPay id: 10, 13 or 15 digits]'' else None
   | (OwnAccount, ToBankAccount b a) \<Rightarrow>
       if \<not> is_scb b then Some ''[an own-account transfer must go to an SCB account]''
       else if \<not> is_valid_scb_account a then Some ''[not a valid SCB account]''
       else None
   | (PromptPayProduct, ToBankAccount b a) \<Rightarrow> Some ''[a bank account in a PromptPay file]''
   | (OwnAccount, ToPromptPay p) \<Rightarrow> Some ''[a PromptPay id in an own-account file]'')"

definition transfer_bound_rejection ::
  "credit_destination \<Rightarrow> decimal \<Rightarrow> decimal option \<Rightarrow> string option" where
  "transfer_bound_rejection dest transfer max_per_txn =
     (if transfer < MIN_TRANSFER_PER_TXN then Some ''[below the bank minimum]''
      else let bank_cap = scb_max_transfer dest;
               cap = (case max_per_txn of
                        Some configured \<Rightarrow> if configured < bank_cap then configured else bank_cap
                      | None \<Rightarrow> bank_cap)
           in if cap < transfer then Some ''[over the cap per transfer, split it]'' else None)"

lemma transfer_in_bounds:
  "transfer_bound_rejection d t m = None \<longleftrightarrow>
     MIN_TRANSFER_PER_TXN \<le> t \<and> t \<le> scb_max_transfer d \<and> (\<forall>c. m = Some c \<longrightarrow> t \<le> c)"
  by (auto simp: transfer_bound_rejection_def Let_def split: option.splits if_splits)

subsection \<open>Dates and references\<close>

type_synonym day = int

record calendar =
  ymd :: "day \<Rightarrow> utext"
  stamp :: "instant \<Rightarrow> utext"

text \<open>
  \<open>ymd\<close> is \<open>%Y%m%d\<close> of a date, \<open>stamp\<close> is \<open>%d%m%y%H%M%S\<close> of a naive local time. What the writers rely
  on: eight, respectively twelve, ASCII digits. (\<open>chrono\<close> writes a year past 9999 with a sign; a
  value date is never there.)
\<close>

definition calendar_ok :: "calendar \<Rightarrow> bool" where
  "calendar_ok C \<longleftrightarrow> (\<forall>d. length (ymd C d) = 8 \<and> (\<forall>c\<in>set (ymd C d). u_digit c))
     \<and> (\<forall>t. length (stamp C t) = 12 \<and> (\<forall>c\<in>set (stamp C t). u_digit c))"

definition BANGKOK_UTC_OFFSET_SECS :: int where "BANGKOK_UTC_OFFSET_SECS = 7 * 3600"

definition bangkok_naive :: "instant \<Rightarrow> instant" where
  "bangkok_naive now = now + seconds BANGKOK_UTC_OFFSET_SECS"

text \<open>The day an instant of local time falls on.\<close>

definition date_of :: "instant \<Rightarrow> day" where
  "date_of t = t div (86400 * nanos_per_sec)"

definition bangkok_today :: "instant \<Rightarrow> day" where
  "bangkok_today now = date_of (bangkok_naive now)"

definition scb_batch_ref :: "calendar \<Rightarrow> instant \<Rightarrow> utext" where
  "scb_batch_ref C now = stamp C (bangkok_naive now)"

definition scb_file_ref :: "utext \<Rightarrow> scb_product \<Rightarrow> utext" where
  "scb_file_ref bref product = bref @ product_code product"

definition download_filename :: "utext \<Rightarrow> utext" where
  "download_filename fref = asc ''SCB_file_reference_'' @ take 12 fref @ asc ''.txt''"

definition TXN_REF_PREFIX_PAYOUT :: utext where "TXN_REF_PREFIX_PAYOUT = asc ''PO''"
definition TXN_REF_PREFIX_REFUND :: utext where "TXN_REF_PREFIX_REFUND = asc ''RF''"
definition TXN_REF_PREFIX_DEDUCTION :: utext where "TXN_REF_PREFIX_DEDUCTION = asc ''DD''"

definition transaction_ref :: "utext \<Rightarrow> utext \<Rightarrow> nat \<Rightarrow> utext" where
  "transaction_ref prefix bref seq_no = (let base = sanitize_text bref MAX_BATCH_REF;
       pre = sanitize_text prefix MAX_TXN_REF
     in sanitize_text (pre @ base @ pad_zeros 4 (u_nat seq_no)) MAX_TXN_REF)"

text \<open>Monday is 0; day 0 was a Thursday.\<close>

definition weekday :: "day \<Rightarrow> int" where
  "weekday d = (d + 3) mod 7"

definition weekend :: "day \<Rightarrow> bool" where
  "weekend d \<longleftrightarrow> weekday d = 5 \<or> weekday d = 6"

fun roll :: "nat \<Rightarrow> day \<Rightarrow> day" where
  "roll 0 d = d"
| "roll (Suc n) d = (if \<not> weekend d then d else roll n (d + 1))"

definition next_business_day :: "day \<Rightarrow> day" where
  "next_business_day d = roll 2 d"

definition resolve_value_date :: "day option \<Rightarrow> instant \<Rightarrow> day app_result" where
  "resolve_value_date requested now = (let today = bangkok_today now in
     case requested of
       Some d \<Rightarrow> if d < today then Inl (BadRequest ''[the value date cannot be in the past]'') else Inr d
     | None \<Rightarrow> Inr (next_business_day today))"

lemma next_business_day:
  "\<not> weekend (next_business_day d)" "d \<le> next_business_day d" "next_business_day d \<le> d + 2"
  "\<And>e. d \<le> e \<Longrightarrow> e < next_business_day d \<Longrightarrow> weekend e"
proof -
  have n: "next_business_day d = (if weekday d = 5 then d + 2 else if weekday d = 6 then d + 1 else d)"
    by (auto simp: next_business_day_def numeral_2_eq_2 weekend_def weekday_def) presburger+
  show "\<not> weekend (next_business_day d)"
    unfolding n by (auto simp: weekend_def weekday_def) presburger+
  show "d \<le> next_business_day d" "next_business_day d \<le> d + 2"
    unfolding n by auto
  show "weekend e" if "d \<le> e" "e < next_business_day d" for e
  proof -
    have "e = d \<or> (e = d + 1 \<and> weekday d = 5)" and "weekday d = 5 \<or> weekday d = 6"
      using that unfolding n by (auto split: if_splits)
    then show ?thesis by (auto simp: weekend_def weekday_def) presburger
  qed
qed

text \<open>Once the day is no weekend the loop leaves it alone, however often it goes round.\<close>

lemma roll_stops: "\<not> weekend d \<Longrightarrow> roll n d = d"
  by (cases n) simp_all

lemma roll_add: "roll (m + n) d = roll n (roll m d)"
  by (induction m arbitrary: d) (auto simp: roll_stops)

text \<open>
  The roll to a business day ends. Two rounds of the loop are enough from any day: more rounds
  change nothing, the day it ends on is no weekend, and every day it passed over was one.
\<close>
theorem value_date_settles:
  "roll (2 + n) d = next_business_day d \<and> \<not> weekend (next_business_day d)
    \<and> {e. d \<le> e \<and> e < next_business_day d \<and> \<not> weekend e} = {}"
proof -
  have "roll (2 + n) d = roll n (next_business_day d)"
    by (simp only: roll_add next_business_day_def)
  then show ?thesis using next_business_day by (auto simp: roll_stops)
qed

subsection \<open>A batch\<close>

record wht_payer =
  wp_tax_id :: utext
  wp_name :: utext
  wp_address :: utext

definition no_payer :: wht_payer where
  "no_payer = \<lparr>wp_tax_id = [], wp_name = [], wp_address = []\<rparr>"

record payout_config =
  pc_debit_account :: utext
  pc_fee_debit_account :: utext
  pc_fee_charge_code :: utext
  pc_value_date :: day
  pc_wht_form_type_code :: utext
  pc_wht_pay_type_code :: utext
  pc_wht_income_type_code :: utext
  pc_wht_income_desc :: utext
  pc_wht_rate_percent :: decimal

record payout_recipient =
  rc_transaction_ref :: utext
  rc_destination :: credit_destination
  rc_tax_id :: utext
  rc_name :: utext
  rc_address :: utext
  rc_income :: decimal
  rc_wht :: decimal
  rc_phone :: "utext option"
  rc_email :: "utext option"

definition transfer_amount :: "payout_recipient \<Rightarrow> decimal" where
  "transfer_amount r = rc_income r - rc_wht r"

definition has_wht :: "payout_recipient \<Rightarrow> bool" where
  "has_wht r \<longleftrightarrow> 0 < rc_wht r"

record payout_batch =
  pb_file_ref :: utext
  pb_system_ref :: utext
  pb_batch_ref :: utext
  pb_product :: scb_product
  pb_service_type_code :: utext
  pb_payer :: wht_payer
  pb_config :: payout_config
  pb_recipients :: "payout_recipient list"

subsection \<open>The writers\<close>

definition HEADER_CODE :: utext where "HEADER_CODE = asc ''HEADER''"
definition BATCH_CODE :: utext where "BATCH_CODE = asc ''BCHDET''"
definition CREDIT_CODE :: utext where "CREDIT_CODE = asc ''TXNDET''"
definition WHT_CODE :: utext where "WHT_CODE = asc ''WHTCER''"
definition WHT_DETAIL_CODE :: utext where "WHT_DETAIL_CODE = asc ''WHTDET''"
definition TRAILER_CODE :: utext where "TRAILER_CODE = asc ''TRAILR''"
definition FLAG_Y :: utext where "FLAG_Y = asc ''Y''"
definition FLAG_N :: utext where "FLAG_N = asc ''N''"
definition FLAG_EMAIL :: utext where "FLAG_EMAIL = asc ''E''"

definition notify_flag :: "utext option \<Rightarrow> utext" where
  "notify_flag v = (case v of Some s \<Rightarrow> if trim_ends s \<noteq> [] then FLAG_Y else FLAG_N | None \<Rightarrow> FLAG_N)"

definition wht_delivery_flag :: "utext option \<Rightarrow> utext" where
  "wht_delivery_flag v =
     (case v of Some s \<Rightarrow> if trim_ends s \<noteq> [] then FLAG_EMAIL else FLAG_N | None \<Rightarrow> FLAG_N)"

definition opt_text :: "utext option \<Rightarrow> utext" where
  "opt_text v = (case v of Some s \<Rightarrow> trim_ends s | None \<Rightarrow> [])"

definition join_fields :: "utext list \<Rightarrow> utext" where
  "join_fields fs = join_with [DELIM] fs"

definition batch_row :: "decimal_lib \<Rightarrow> calendar \<Rightarrow> payout_batch \<Rightarrow> decimal \<Rightarrow> nat \<Rightarrow> utext" where
  "batch_row L C b amount credits = join_fields
     [BATCH_CODE,
      sanitize_text (pb_batch_ref b) MAX_BATCH_REF,
      product_code (pb_product b),
      ymd C (pc_value_date (pb_config b)),
      digits_only (pc_debit_account (pb_config b)),
      digits_only (pc_fee_debit_account (pb_config b)),
      format_amount L amount,
      u_nat credits,
      [],
      []]"

definition credit_row :: "decimal_lib \<Rightarrow> payout_batch \<Rightarrow> payout_recipient \<Rightarrow> utext" where
  "credit_row L b r = (let dest = rc_destination r;
       wht_flag = (if has_wht r then FLAG_Y else FLAG_N);
       wht_count = (if has_wht r then asc ''1'' else []);
       wht_amount = (if has_wht r then format_amount L (rc_wht r) else [])
     in join_fields
     [CREDIT_CODE,
      sanitize_text (rc_transaction_ref r) MAX_TXN_REF,
      digits_only (credit_account dest),
      (case proxy_type_code dest of Some c \<Rightarrow> c | None \<Rightarrow> []),
      clearing_code dest,
      branch_code (pb_product b),
      format_amount L (transfer_amount r),
      service_type_code (pb_product b) (pb_service_type_code b),
      sanitize_text (pc_fee_charge_code (pb_config b)) MAX_FEE_CHARGE_CODE,
      notify_flag (rc_phone r),
      digits_only (opt_text (rc_phone r)),
      notify_flag (rc_email r),
      sanitize_text (opt_text (rc_email r)) MAX_EMAIL,
      sanitize_no_special_char (rc_name r) MAX_NAME,
      sanitize_allow_special_char (rc_address r) MAX_ADDRESS,
      [],
      [],
      wht_flag,
      wht_count,
      wht_amount,
      FLAG_N,
      FLAG_N,
      [],
      [],
      [],
      wht_delivery_flag (rc_email r),
      sanitize_text (opt_text (rc_email r)) MAX_EMAIL,
      []])"

definition wht_header_row :: "decimal_lib \<Rightarrow> calendar \<Rightarrow> payout_batch \<Rightarrow> payout_recipient \<Rightarrow> utext" where
  "wht_header_row L C b r = (let cfg = pb_config b; payer = pb_payer b in join_fields
     [WHT_CODE,
      [],
      digits_only (wp_tax_id payer),
      sanitize_no_special_char (wp_name payer) MAX_NAME,
      sanitize_allow_special_char (wp_address payer) MAX_ADDRESS,
      [],
      [],
      digits_only (rc_tax_id r),
      sanitize_no_special_char (rc_name r) MAX_NAME,
      sanitize_allow_special_char (rc_address r) MAX_ADDRESS,
      [],
      [],
      [],
      sanitize_text (pc_wht_form_type_code cfg) MAX_WHT_CODE,
      ymd C (pc_value_date cfg),
      sanitize_text (pc_wht_pay_type_code cfg) MAX_WHT_CODE,
      [],
      asc ''1'',
      format_amount L (rc_wht r)])"

definition wht_detail_row :: "decimal_lib \<Rightarrow> payout_batch \<Rightarrow> payout_recipient \<Rightarrow> utext" where
  "wht_detail_row L b r = (let cfg = pb_config b in join_fields
     [WHT_DETAIL_CODE,
      sanitize_text (pc_wht_income_type_code cfg) MAX_WHT_CODE,
      sanitize_no_special_char (pc_wht_income_desc cfg) MAX_INCOME_DESC,
      format_amount L (pc_wht_rate_percent cfg),
      [],
      format_amount L (rc_income r),
      format_amount L (rc_wht r)])"

definition total_transfer :: "payout_recipient list \<Rightarrow> decimal" where
  "total_transfer rs = sum_list (map transfer_amount rs)"

definition generate_lines :: "decimal_lib \<Rightarrow> calendar \<Rightarrow> payout_batch \<Rightarrow> utext list" where
  "generate_lines L C b = (let amount = total_transfer (pb_recipients b); credits = length (pb_recipients b) in
     [join_fields [HEADER_CODE, sanitize_text (pb_file_ref b) MAX_FILE_REF,
        sanitize_text (pb_system_ref b) MAX_SYSTEM_REF],
      batch_row L C b amount credits]
     @ concat (map (\<lambda>r. credit_row L b r
         # (if has_wht r then [wht_header_row L C b r, wht_detail_row L b r] else [])) (pb_recipients b))
     @ [join_fields [TRAILER_CODE, asc ''1'', u_nat credits, format_amount L amount]])"

definition generate :: "decimal_lib \<Rightarrow> calendar \<Rightarrow> payout_batch \<Rightarrow> utext" where
  "generate L C b = join_with [13, 10] (generate_lines L C b)"

subsection \<open>What is read back\<close>

text \<open>The bank's parser: records end in CR LF, fields are cut at the delimiter.\<close>

definition read_records :: "utext \<Rightarrow> utext list list" where
  "read_records s = map (cut_at DELIM) (cut_crlf s)"

text \<open>
  The two values that reach a record as they are: the service type of the batch and the bank code of
  a destination (three digits, by the constructors of \<open>ScbBankCode\<close>).
\<close>

definition dest_ok :: "credit_destination \<Rightarrow> bool" where
  "dest_ok d \<longleftrightarrow> (case d of ToPromptPay p \<Rightarrow> True
     | ToBankAccount b a \<Rightarrow> length b = 3 \<and> (\<forall>c\<in>set b. u_digit c))"

definition raw_ok :: "payout_batch \<Rightarrow> bool" where
  "raw_ok b \<longleftrightarrow> field_safe (pb_service_type_code b)
     \<and> (\<forall>r\<in>set (pb_recipients b). dest_ok (rc_destination r))"

lemma parsed_bank_ok: "parse_bank_code raw = Some b \<Longrightarrow> length b = 3 \<and> (\<forall>c\<in>set b. u_digit c)"
proof -
  assume p: "parse_bank_code raw = Some b"
  then have "b = pad_zeros 3 (digits_only raw)" "length (digits_only raw) \<le> 3"
    by (auto simp: parse_bank_code_def Let_def split: if_splits)
  moreover have "u_digit 48" by (simp add: u_digit_def)
  ultimately show ?thesis
    using set_pad_zeros [of 3 "digits_only raw"] by (auto simp: length_pad_zeros digits_only_def)
qed

lemma scb_account_ok [simp]: "dest_ok (scb_account a)"
  by (simp add: dest_ok_def scb_account_def bank_scb_def BANK_CODE_SCB_def u_digit_def)

lemma promptpay_ok [simp]: "dest_ok (ToPromptPay p)"
  by (simp add: dest_ok_def)

lemma literal_safe:
  "field_safe HEADER_CODE" "field_safe BATCH_CODE" "field_safe CREDIT_CODE" "field_safe WHT_CODE"
  "field_safe WHT_DETAIL_CODE" "field_safe TRAILER_CODE" "field_safe FLAG_Y" "field_safe FLAG_N"
  "field_safe FLAG_EMAIL" "field_safe (asc ''1'')"
  by (simp_all add: HEADER_CODE_def BATCH_CODE_def CREDIT_CODE_def WHT_CODE_def WHT_DETAIL_CODE_def
      TRAILER_CODE_def FLAG_Y_def FLAG_N_def FLAG_EMAIL_def field_safe_def DELIM_def)

lemma code_safe:
  "field_safe (product_code p)" "field_safe (branch_code p)"
  by (cases p; simp add: field_safe_def DELIM_def)+

lemma proxy_type_safe: "proxy_type_code d = Some c \<Longrightarrow> field_safe c"
  by (cases d) (auto simp: Let_def PROXY_EWALLET_def PROXY_NATIONAL_ID_def PROXY_MOBILE_def
      field_safe_def DELIM_def split: if_splits)

lemma proxy_field_safe: "field_safe (case proxy_type_code d of Some c \<Rightarrow> c | None \<Rightarrow> [])"
  by (auto simp: proxy_type_safe split: option.split)

lemma clearing_safe: "dest_ok d \<Longrightarrow> field_safe (clearing_code d)"
  by (cases d) (auto simp: dest_ok_def CLEARING_CODE_PROMPTPAY_def field_safe_digits
      field_safe_def DELIM_def u_digit_def)

lemma flag_safe: "field_safe (notify_flag v)" "field_safe (wht_delivery_flag v)"
  by (auto simp: notify_flag_def wht_delivery_flag_def literal_safe split: option.split)

lemma ymd_safe: "calendar_ok C \<Longrightarrow> field_safe (ymd C d)"
  by (rule field_safe_digits) (simp add: calendar_ok_def)

lemma service_safe: "field_safe s \<Longrightarrow> field_safe (service_type_code p s)"
  by (cases p) simp_all

lemmas all_safe = literal_safe code_safe proxy_field_safe clearing_safe flag_safe ymd_safe
  service_safe sanitized_safe digits_only_safe u_nat_safe format_amount_safe field_safe_Nil

text \<open>A joined record reads back as its fields, and holds no line break.\<close>

lemma cut_fields:
  assumes "fs \<noteq> []" "\<forall>f\<in>set fs. field_safe f"
  shows "cut_at DELIM (join_fields fs) = fs" and "13 \<notin> set (join_fields fs)"
proof -
  show "cut_at DELIM (join_fields fs) = fs"
    unfolding join_fields_def using assms by (intro cut_join) (auto simp: field_safe_def)
  show "13 \<notin> set (join_fields fs)"
    unfolding join_fields_def using set_join_with [of "[DELIM]" fs] assms(2)
    by (auto simp: field_safe_def DELIM_def)
qed

definition shape :: "utext \<Rightarrow> nat \<Rightarrow> utext \<Rightarrow> bool" where
  "shape code n line \<longleftrightarrow> 13 \<notin> set line \<and> length (cut_at DELIM line) = n \<and> cut_at DELIM line ! 0 = code"

lemma row_reads:
  assumes "\<exists>fs. row = join_fields fs \<and> fs \<noteq> [] \<and> (\<forall>f\<in>set fs. field_safe f) \<and> length fs = n
    \<and> fs ! 0 = code \<and> P fs"
  shows "shape code n row \<and> P (cut_at DELIM row)"
  using assms by (auto simp: shape_def cut_fields)

lemma batch_row_reads:
  assumes "calendar_ok C"
  shows "shape BATCH_CODE 10 (batch_row L C b t n)
    \<and> cut_at DELIM (batch_row L C b t n) ! 6 = format_amount L t
    \<and> cut_at DELIM (batch_row L C b t n) ! 7 = u_nat n"
  unfolding batch_row_def
  by (rule row_reads, rule exI, rule conjI, rule refl, simp add: all_safe assms)

lemma credit_row_reads:
  assumes "field_safe (pb_service_type_code b)" "dest_ok (rc_destination r)"
  shows "shape CREDIT_CODE 28 (credit_row L b r)
    \<and> cut_at DELIM (credit_row L b r) ! 2 = digits_only (credit_account (rc_destination r))
    \<and> cut_at DELIM (credit_row L b r) ! 6 = format_amount L (transfer_amount r)"
  unfolding credit_row_def Let_def
  by (rule row_reads, rule exI, rule conjI, rule refl, simp add: all_safe assms del: asc_Cons)

lemma wht_header_reads:
  assumes "calendar_ok C"
  shows "shape WHT_CODE 19 (wht_header_row L C b r)
    \<and> cut_at DELIM (wht_header_row L C b r) ! 18 = format_amount L (rc_wht r)"
  unfolding wht_header_row_def Let_def
  by (rule row_reads, rule exI, rule conjI, rule refl, simp add: all_safe assms del: asc_Cons)

lemma wht_detail_reads:
  "shape WHT_DETAIL_CODE 7 (wht_detail_row L b r)
    \<and> cut_at DELIM (wht_detail_row L b r) ! 5 = format_amount L (rc_income r)"
  unfolding wht_detail_row_def Let_def
  by (rule row_reads, rule exI, rule conjI, rule refl, simp add: all_safe)

lemma header_reads:
  "shape HEADER_CODE 3 (join_fields [HEADER_CODE, sanitize_text (pb_file_ref b) MAX_FILE_REF,
     sanitize_text (pb_system_ref b) MAX_SYSTEM_REF]) \<and> True"
  by (rule row_reads, rule exI, rule conjI, rule refl, simp add: all_safe)

lemma trailer_reads:
  "shape TRAILER_CODE 4 (join_fields [TRAILER_CODE, asc ''1'', u_nat n, format_amount L t])
    \<and> cut_at DELIM (join_fields [TRAILER_CODE, asc ''1'', u_nat n, format_amount L t])
      = [TRAILER_CODE, asc ''1'', u_nat n, format_amount L t]"
  by (rule row_reads, rule exI, rule conjI, rule refl, simp add: all_safe del: asc_Cons)

end
