(* ===== verification/Payout_Config.thy ===== *)
theory Payout_Config
  imports Scb_File Payment_File_Ops
begin

text \<open>
  The payout settings: the checks of \<open>put_config\<close>, the upsert of the single row, and the parts of a
  file that come from it (services/payment/src/api/payouts.rs and repo/mod.rs). A date of a file is
  a day number in both theories, an amount cap of \<open>None\<close> means no extra cap.
\<close>

record config_row =
  cf_debit_account :: "utext option"
  cf_fee_debit_account :: "utext option"
  cf_revenue_account :: "utext option"
  cf_wht_form_type_code :: utext
  cf_wht_pay_type_code :: utext
  cf_wht_income_type_code :: utext
  cf_wht_income_desc :: utext
  cf_wht_rate_percent :: decimal
  cf_product_code :: utext
  cf_fee_charge_code :: utext
  cf_sms_notify :: bool
  cf_max_transfer_per_txn :: "decimal option"
  cf_updated_by :: "uuid option"
  cf_updated_at :: "instant option"

text \<open>The default description is the Thai for security service fee.\<close>

definition default_income_desc :: utext where
  "default_income_desc = [3588, 3656, 3634, 3610, 3619, 3636, 3585, 3634, 3619, 3619, 3633, 3585,
     3625, 3634, 3588, 3623, 3634, 3617, 3611, 3621, 3629, 3604, 3616, 3633, 3618]"

definition unset_config :: config_row where
  "unset_config = \<lparr>cf_debit_account = None, cf_fee_debit_account = None, cf_revenue_account = None,
     cf_wht_form_type_code = asc ''53'', cf_wht_pay_type_code = asc ''1'',
     cf_wht_income_type_code = asc ''5'', cf_wht_income_desc = default_income_desc,
     cf_wht_rate_percent = 3, cf_product_code = asc ''PPY'', cf_fee_charge_code = asc ''OUR'',
     cf_sms_notify = False, cf_max_transfer_per_txn = Some DEFAULT_MAX_TRANSFER_PER_TXN,
     cf_updated_by = None, cf_updated_at = None\<rparr>"

definition get_payout_config :: "config_row option \<Rightarrow> config_row" where
  "get_payout_config stored = (case stored of Some c \<Rightarrow> c | None \<Rightarrow> unset_config)"

record config_request =
  cq_debit_account :: "utext option"
  cq_fee_debit_account :: "utext option"
  cq_revenue_account :: "utext option"
  cq_wht_form_type_code :: "utext option"
  cq_wht_pay_type_code :: "utext option"
  cq_wht_income_type_code :: "utext option"
  cq_wht_income_desc :: "utext option"
  cq_wht_rate_percent :: "decimal option"
  cq_fee_charge_code :: "utext option"
  cq_sms_notify :: "bool option"
  cq_max_transfer_per_txn :: "decimal option"

text \<open>\<open>COALESCE\<close>: the first value that is there.\<close>

definition or_else :: "'a option \<Rightarrow> 'a option \<Rightarrow> 'a option" where
  "or_else a b = (case a of Some x \<Rightarrow> Some x | None \<Rightarrow> b)"

definition or_value :: "'a option \<Rightarrow> 'a \<Rightarrow> 'a" where
  "or_value a b = (case a of Some x \<Rightarrow> x | None \<Rightarrow> b)"

definition upsert_payout_config :: "instant \<Rightarrow> config_row option \<Rightarrow> config_request \<Rightarrow> uuid \<Rightarrow> config_row" where
  "upsert_payout_config now stored req admin = (let old = get_payout_config stored in
     \<lparr>cf_debit_account = or_else (cq_debit_account req) (cf_debit_account old),
      cf_fee_debit_account = or_else (cq_fee_debit_account req) (cf_fee_debit_account old),
      cf_revenue_account = or_else (cq_revenue_account req) (cf_revenue_account old),
      cf_wht_form_type_code = or_value (cq_wht_form_type_code req) (cf_wht_form_type_code old),
      cf_wht_pay_type_code = or_value (cq_wht_pay_type_code req) (cf_wht_pay_type_code old),
      cf_wht_income_type_code = or_value (cq_wht_income_type_code req) (cf_wht_income_type_code old),
      cf_wht_income_desc = or_value (cq_wht_income_desc req) (cf_wht_income_desc old),
      cf_wht_rate_percent = or_value (cq_wht_rate_percent req) (cf_wht_rate_percent old),
      cf_product_code = cf_product_code old,
      cf_fee_charge_code = or_value (cq_fee_charge_code req) (cf_fee_charge_code old),
      cf_sms_notify = or_value (cq_sms_notify req) (cf_sms_notify old),
      cf_max_transfer_per_txn = or_else (cq_max_transfer_per_txn req) (cf_max_transfer_per_txn old),
      cf_updated_by = Some admin, cf_updated_at = Some now\<rparr>)"

subsection \<open>The checks\<close>

definition require_scb_account :: "utext \<Rightarrow> unit app_result" where
  "require_scb_account account = (if is_valid_scb_account account then Inr ()
     else Inl (BadRequest ''[{label} must be a valid SCB account of 10 digits]''))"

text \<open>\<open>map(str::trim).filter(|s| !s.is_empty())\<close>\<close>

definition filled :: "utext option \<Rightarrow> utext option" where
  "filled v = (case map_option trim_ends v of Some s \<Rightarrow> if s = [] then None else Some s | None \<Rightarrow> None)"

fun check_accounts :: "utext option list \<Rightarrow> unit app_result" where
  "check_accounts [] = Inr ()"
| "check_accounts (v # vs) = (case filled v of
     Some account \<Rightarrow> res_bind (require_scb_account account) (\<lambda>_. check_accounts vs)
   | None \<Rightarrow> check_accounts vs)"

definition validate_config_accounts :: "config_request \<Rightarrow> unit app_result" where
  "validate_config_accounts req =
     check_accounts [cq_debit_account req, cq_fee_debit_account req, cq_revenue_account req]"

definition require_wht_form_type :: "utext \<Rightarrow> unit app_result" where
  "require_wht_form_type code = (if is_valid_wht_form_type_code code then Inr ()
     else Inl (BadRequest ''[the tax form code must be one of {}]''))"

definition require_wht_pay_type :: "utext \<Rightarrow> unit app_result" where
  "require_wht_pay_type code =
     (if trim_ends code = WHT_PAY_TYPE_CODE_OTHER
      then Inl (BadRequest ''[the pay type other (4) is not supported yet]'')
      else if is_valid_wht_pay_type_code code then Inr ()
      else Inl (BadRequest ''[the pay type code must be one of {}]''))"

definition require_wht_income_type :: "utext \<Rightarrow> unit app_result" where
  "require_wht_income_type code = (if is_valid_wht_income_type_code code then Inr ()
     else Inl (BadRequest ''[the income type code must be one of {}]''))"

definition require_fee_charge_code :: "utext \<Rightarrow> unit app_result" where
  "require_fee_charge_code code = (if is_valid_fee_charge_code code then Inr ()
     else Inl (BadRequest ''[the fee charge code must be OUR or BEN]''))"

definition check_opt :: "('a \<Rightarrow> unit app_result) \<Rightarrow> 'a option \<Rightarrow> unit app_result" where
  "check_opt f v = (case v of Some x \<Rightarrow> f x | None \<Rightarrow> Inr ())"

definition validate_config_codes :: "config_request \<Rightarrow> unit app_result" where
  "validate_config_codes req =
     res_bind (check_opt require_wht_form_type (cq_wht_form_type_code req)) (\<lambda>_.
     res_bind (check_opt require_wht_pay_type (cq_wht_pay_type_code req)) (\<lambda>_.
     res_bind (check_opt require_wht_income_type (cq_wht_income_type_code req)) (\<lambda>_.
     check_opt require_fee_charge_code (cq_fee_charge_code req))))"

definition put_config ::
  "instant \<Rightarrow> auth_user \<Rightarrow> config_request \<Rightarrow> config_row option \<Rightarrow> config_row app_result" where
  "put_config now user req stored =
     res_bind (require_admin user) (\<lambda>_.
     if (case cq_wht_rate_percent req of Some rate \<Rightarrow> rate < 0 \<or> 100 < rate | None \<Rightarrow> False)
     then Inl (BadRequest ''wht_rate_percent must be between 0 and 100'')
     else res_bind (validate_config_codes req) (\<lambda>_.
       res_bind (validate_config_accounts req) (\<lambda>_.
       if (case cq_max_transfer_per_txn req of Some cap \<Rightarrow> cap < 0 | None \<Rightarrow> False)
       then Inl (BadRequest ''[the cap per transfer must not be negative]'')
       else Inr (upsert_payout_config now stored req (au_id user)))))"

subsection \<open>What a file takes from the settings\<close>

record org_tax_info =
  og_company_name :: "utext option"
  og_tax_id :: "utext option"
  og_address :: "utext option"

definition build_transfer_config :: "config_row \<Rightarrow> day \<Rightarrow> payout_config app_result" where
  "build_transfer_config cfg value_date = (case filled (cf_debit_account cfg) of
     None \<Rightarrow> Inl (BadRequest ''[the company debit account is not set]'')
   | Some debit \<Rightarrow>
       res_bind (require_scb_account debit) (\<lambda>_.
       let fee = or_value (filled (cf_fee_debit_account cfg)) debit in
       res_bind (require_scb_account fee) (\<lambda>_.
       res_bind (require_fee_charge_code (cf_fee_charge_code cfg)) (\<lambda>_.
       Inr \<lparr>pc_debit_account = debit, pc_fee_debit_account = fee,
            pc_fee_charge_code = trim_ends (cf_fee_charge_code cfg), pc_value_date = value_date,
            pc_wht_form_type_code = cf_wht_form_type_code cfg,
            pc_wht_pay_type_code = cf_wht_pay_type_code cfg,
            pc_wht_income_type_code = cf_wht_income_type_code cfg,
            pc_wht_income_desc = cf_wht_income_desc cfg,
            pc_wht_rate_percent = cf_wht_rate_percent cfg\<rparr>))))"

definition build_payer_and_config ::
  "config_row \<Rightarrow> org_tax_info \<Rightarrow> day \<Rightarrow> (wht_payer \<times> payout_config) app_result" where
  "build_payer_and_config cfg org value_date =
     res_bind (build_transfer_config cfg value_date) (\<lambda>config.
     res_bind (require_wht_form_type (cf_wht_form_type_code cfg)) (\<lambda>_.
     res_bind (require_wht_pay_type (cf_wht_pay_type_code cfg)) (\<lambda>_.
     res_bind (require_wht_income_type (cf_wht_income_type_code cfg)) (\<lambda>_.
     let payer_tax_id = digits_only (or_value (og_tax_id org) []) in
     if payer_tax_id = [] then Inl (BadRequest ''[the company tax id is not set]'')
     else if tax_id_over_cap payer_tax_id then Inl (BadRequest ''[the company tax id is too long]'')
     else (case filled (og_company_name org) of
         None \<Rightarrow> Inl (BadRequest ''[the company name is not set]'')
       | Some name \<Rightarrow> Inr (\<lparr>wp_tax_id = payer_tax_id, wp_name = name,
                            wp_address = or_value (og_address org) []\<rparr>, config))))))"

definition revenue_account :: "config_row \<Rightarrow> utext app_result" where
  "revenue_account cfg = (case filled (cf_revenue_account cfg) of
     None \<Rightarrow> Inl (BadRequest ''[the company revenue account is not set]'')
   | Some account \<Rightarrow> res_bind (require_scb_account account) (\<lambda>_. Inr account))"

text \<open>A payer that was built names the company's whole tax id, within the bank's cap.\<close>

lemma built_payer:
  assumes "build_payer_and_config cfg org d = Inr (payer, config)"
  shows "wp_tax_id payer = digits_only (or_value (og_tax_id org) [])" "wp_tax_id payer \<noteq> []"
    "length (wp_tax_id payer) \<le> MAX_TAX_ID"
  using assms
  by (auto simp: build_payer_and_config_def res_bind_Inr_iff Let_def tax_id_over_cap_def
      split: if_splits option.splits)

lemma saved_config_ok:
  assumes "put_config now user req stored = Inr row"
  shows "\<forall>a. filled (cq_debit_account req) = Some a \<or> filled (cq_fee_debit_account req) = Some a
      \<or> filled (cq_revenue_account req) = Some a \<longrightarrow> is_valid_scb_account a"
    and "\<And>r. cq_wht_rate_percent req = Some r \<Longrightarrow> 0 \<le> r \<and> r \<le> 100"
    and "row = upsert_payout_config now stored req (au_id user)"
  using assms
  by (auto simp: put_config_def res_bind_Inr_iff validate_config_accounts_def require_scb_account_def
      split: if_splits option.splits)

end
