(* ===== verification/Payment_Promptpay.thy ===== *)
theory Payment_Promptpay
  imports Wire_Text Decimal_Text Shared_Error
begin

text \<open>
  The check digit of a Thai national id, which two services implement on their own on purpose:
  payment before money is addressed to an id (services/payment/src/domain/thai_id.rs) and profile
  when a guard's tax id is saved (services/profile/src/domain/validate.rs). The sums stay below 811,
  far inside \<open>u32\<close>.
\<close>

text \<open>
  The PromptPay QR payload (services/payment/src/domain/promptpay.rs): the classification of the
  receiving account, the EMVCo TLV fields and the CRC-16 over them. The reference is a reader of the
  TLV format; the checksum is shown to notice the change of any one character.
\<close>

definition to_digit :: "uchar \<Rightarrow> nat option" where
  "to_digit c = (if u_digit c then Some (c - 48) else None)"

subsection \<open>The payment service\<close>

definition WEIGHTS :: "nat list" where
  "WEIGHTS = [13, 12, 11, 10, 9, 8, 7, 6, 5, 4, 3, 2]"

definition NATIONAL_ID_DIGITS :: nat where
  "NATIONAL_ID_DIGITS = length WEIGHTS + 1"

definition national_id_check_digit_ok :: "utext \<Rightarrow> bool" where
  "national_id_check_digit_ok digits = (let d = List.map_filter to_digit digits in
     if length d \<noteq> NATIONAL_ID_DIGITS \<or> length d \<noteq> length digits then False
     else let total = sum_list (map (\<lambda>(weight, x). weight * x) (zip WEIGHTS d));
              check = (11 - total mod 11) mod 10
          in NATIONAL_ID_DIGITS - 1 < length d \<and> d ! (NATIONAL_ID_DIGITS - 1) = check)"

subsection \<open>The profile service\<close>

definition thai_national_id_check_digit_ok :: "utext \<Rightarrow> bool" where
  "thai_national_id_check_digit_ok digits = (let d = List.map_filter to_digit digits in
     if length d \<noteq> 13 \<or> length d \<noteq> length digits then False
     else let total = sum_list (map (\<lambda>(x, weight). x * weight) (zip (take 12 d) (rev [2..<14])));
              check = (11 - total mod 11) mod 10
          in check = d ! 12)"

subsection \<open>They agree\<close>

lemma zip_swap_sum:
  "sum_list (map (\<lambda>(w, x). w * x) (zip ws xs)) =
   sum_list (map (\<lambda>(x, w). x * w) (zip (take (length ws) xs) ws))" for ws :: "nat list"
  by (induction ws xs rule: list_induct2') (simp_all add: mult.commute)

lemma profile_weights: "rev [2..<14] = WEIGHTS"
  by (simp add: WEIGHTS_def upt_rec)

lemma NATIONAL_ID_DIGITS [simp]: "NATIONAL_ID_DIGITS = 13"
  by (simp add: NATIONAL_ID_DIGITS_def WEIGHTS_def)

lemma check_digits_agree: "national_id_check_digit_ok s = thai_national_id_check_digit_ok s"
proof -
  define d where "d = List.map_filter to_digit s"
  have len: "length WEIGHTS = 12" by (simp add: WEIGHTS_def)
  define p where "p = sum_list (map (\<lambda>(w, x). w * x) (zip WEIGHTS d))"
  have same: "sum_list (map (\<lambda>(x, w). x * w) (zip (take 12 d) WEIGHTS)) = p"
    unfolding p_def using zip_swap_sum [of WEIGHTS d] len by simp
  show ?thesis
    unfolding national_id_check_digit_ok_def thai_national_id_check_digit_ok_def Let_def
      profile_weights NATIONAL_ID_DIGITS d_def [symmetric] same p_def [symmetric]
    by auto
qed

lemma map_filter_digits:
  "length (List.map_filter to_digit s) \<le> length s"
  "length (List.map_filter to_digit s) = length s \<longleftrightarrow> (\<forall>c\<in>set s. u_digit c)"
proof -
  show le: "length (List.map_filter to_digit s) \<le> length s" for s
    by (induction s) (auto simp: map_filter_simps split: option.split)
  show "length (List.map_filter to_digit s) = length s \<longleftrightarrow> (\<forall>c\<in>set s. u_digit c)"
  proof (induction s)
    case (Cons c s)
    have "length (List.map_filter to_digit s) < Suc (length s)" using le [of s] by simp
    with Cons show ?case
      by (cases "u_digit c") (auto simp: map_filter_simps to_digit_def [of c])
  qed (simp add: map_filter_simps)
qed

lemma check_digit_shape:
  "national_id_check_digit_ok s \<Longrightarrow> length s = 13 \<and> (\<forall>c\<in>set s. u_digit c)"
  using map_filter_digits [of s]
  by (auto simp: national_id_check_digit_ok_def Let_def split: if_splits)

unbundle bit_operations_syntax


subsection \<open>The code\<close>

definition PROMPTPAY_AID :: utext where
  "PROMPTPAY_AID = asc ''A000000677010111''"

datatype promptpay_proxy = Mobile | NationalId

definition classify_proxy :: "utext \<Rightarrow> promptpay_proxy option" where
  "classify_proxy account = (let digits = filter u_digit account in
     if length digits = 10 \<and> hd digits = 48 then Some Mobile
     else if length digits = 13 then Some NationalId
     else None)"

definition proxy_value :: "utext \<Rightarrow> (promptpay_proxy \<times> utext) option" where
  "proxy_value account = (let digits = filter u_digit account in
     case classify_proxy digits of
       None \<Rightarrow> None
     | Some Mobile \<Rightarrow> Some (Mobile, asc ''0066'' @ drop 1 digits)
     | Some NationalId \<Rightarrow> Some (NationalId, digits))"

definition tlv :: "utext \<Rightarrow> utext \<Rightarrow> utext" where
  "tlv tag v = tag @ pad_zeros 2 (u_nat (length v)) @ v"

definition crc_bit :: "16 word \<Rightarrow> 16 word" where
  "crc_bit c = (if c AND 0x8000 \<noteq> 0 then push_bit 1 c XOR 0x1021 else push_bit 1 c)"

definition crc_byte :: "nat \<Rightarrow> 16 word \<Rightarrow> 16 word" where
  "crc_byte b c = (crc_bit ^^ 8) (c XOR push_bit 8 (word_of_nat b))"

definition crc16_ccitt :: "nat list \<Rightarrow> 16 word" where
  "crc16_ccitt bs = fold crc_byte bs 0xFFFF"

definition hex_char :: "nat \<Rightarrow> uchar" where
  "hex_char n = (if n < 10 then 48 + n else 55 + n)"

definition hex4 :: "16 word \<Rightarrow> utext" where
  "hex4 w = map (\<lambda>k. hex_char (unat w div 16 ^ k mod 16)) [3, 2, 1, 0]"

definition proxy_sub_tag :: "promptpay_proxy \<Rightarrow> utext" where
  "proxy_sub_tag k = (case k of Mobile \<Rightarrow> asc ''01'' | NationalId \<Rightarrow> asc ''02'')"

definition build_promptpay_payload :: "decimal_lib \<Rightarrow> utext \<Rightarrow> decimal \<Rightarrow> utext app_result" where
  "build_promptpay_payload L account amount = (case proxy_value account of
     None \<Rightarrow> Inl (Internal ''RECEIVING_ACCOUNT is not a PromptPay proxy (need a phone or national/tax id)'')
   | Some (kind, proxy) \<Rightarrow>
       let merchant = tlv (asc ''00'') PROMPTPAY_AID @ tlv (proxy_sub_tag kind) proxy;
           amount_str = format_amount L amount;
           payload = tlv (asc ''00'') (asc ''01'') @ tlv (asc ''01'') (asc ''12'')
             @ tlv (asc ''29'') merchant @ tlv (asc ''53'') (asc ''764'')
             @ tlv (asc ''54'') amount_str @ tlv (asc ''58'') (asc ''TH'') @ asc ''6304''
       in Inr (payload @ hex4 (crc16_ccitt payload)))"

definition slice :: "utext \<Rightarrow> nat \<Rightarrow> nat \<Rightarrow> utext" where
  "slice s a b = take (b - a) (drop a s)"

definition format_account_for_display :: "utext \<Rightarrow> utext" where
  "format_account_for_display account = (let digits = filter u_digit account; dash = [45] in
     case classify_proxy digits of
       Some Mobile \<Rightarrow> slice digits 0 3 @ dash @ slice digits 3 6 @ dash @ slice digits 6 10
     | Some NationalId \<Rightarrow> slice digits 0 1 @ dash @ slice digits 1 5 @ dash @ slice digits 5 10
         @ dash @ slice digits 10 12 @ dash @ slice digits 12 13
     | None \<Rightarrow> digits)"

subsection \<open>The account\<close>

lemma classify_digits [simp]: "classify_proxy (filter u_digit s) = classify_proxy s"
  by (simp add: classify_proxy_def)

lemma proxy_value_some_iff: "(\<exists>v. proxy_value s = Some v) \<longleftrightarrow> classify_proxy s \<noteq> None"
  by (auto simp: proxy_value_def Let_def split: option.splits promptpay_proxy.splits)

lemma proxy_value_digits:
  assumes "proxy_value s = Some (k, v)"
  shows "classify_proxy s = Some k" "length v = 13" "\<forall>c\<in>set v. u_digit c"
proof -
  have [simp]: "u_digit 48" "u_digit 54" by (simp_all add: u_digit_def)
  show "classify_proxy s = Some k" "length v = 13" "\<forall>c\<in>set v. u_digit c"
    using assms
    by (auto simp: proxy_value_def Let_def classify_proxy_def
        split: option.splits promptpay_proxy.splits if_splits dest!: in_set_dropD)
qed

lemma slice_append: "a \<le> b \<Longrightarrow> b \<le> c \<Longrightarrow> slice s a b @ slice s b c = slice s a c"
  using take_add [of "b - a" "c - b" "drop a s"] by (simp add: slice_def)

subsection \<open>A reader of the TLV format\<close>

fun read_tlv :: "utext \<Rightarrow> (utext \<times> utext) list option" where
  "read_tlv [] = Some []"
| "read_tlv (a # b # c # d # s) = (let n = read_nat [c, d] in
     if n \<le> length s then map_option ((#) ([a, b], take n s)) (read_tlv (drop n s)) else None)"
| "read_tlv _ = None"

lemma two_places:
  assumes "n < 100"
  shows "\<exists>c d. pad_zeros 2 (u_nat n) = [c, d] \<and> read_nat [c, d] = n"
proof -
  have "length (pad_zeros 2 (u_nat n)) = 2"
    using length_u_nat [of n 2] assms by (simp add: length_pad_zeros)
  then obtain c d where "pad_zeros 2 (u_nat n) = [c, d]"
    by (auto simp: numeral_2_eq_2 length_Suc_conv)
  moreover have "read_nat (pad_zeros 2 (u_nat n)) = n" by simp
  ultimately show ?thesis by metis
qed

lemma read_tlv_field:
  assumes "length v < 100"
  shows "read_tlv (tlv [a, b] v @ s) = map_option ((#) ([a, b], v)) (read_tlv s)"
proof -
  from two_places [OF assms] obtain c d
    where "pad_zeros 2 (u_nat (length v)) = [c, d]" "read_nat [c, d] = length v" by blast
  then show ?thesis by (simp add: tlv_def)
qed

lemma length_hex4 [simp]: "length (hex4 w) = 4"
  by (simp add: hex4_def)

definition payload_fields :: "decimal_lib \<Rightarrow> promptpay_proxy \<Rightarrow> utext \<Rightarrow> decimal \<Rightarrow> (utext \<times> utext) list" where
  "payload_fields L kind merchant amount =
     [(asc ''00'', asc ''01''), (asc ''01'', asc ''12''), (asc ''29'', merchant),
      (asc ''53'', asc ''764''), (asc ''54'', format_amount L amount), (asc ''58'', asc ''TH'')]"

lemma built_payload:
  assumes "build_promptpay_payload L account amount = Inr p"
  obtains kind v q where "proxy_value account = Some (kind, v)"
    and "q = tlv (asc ''00'') (asc ''01'') @ tlv (asc ''01'') (asc ''12'')
      @ tlv (asc ''29'') (tlv (asc ''00'') PROMPTPAY_AID @ tlv (proxy_sub_tag kind) v)
      @ tlv (asc ''53'') (asc ''764'') @ tlv (asc ''54'') (format_amount L amount)
      @ tlv (asc ''58'') (asc ''TH'') @ asc ''6304''"
    and "p = q @ hex4 (crc16_ccitt q)"
  using assms
  by (auto simp: build_promptpay_payload_def Let_def simp del: asc_Cons split: option.splits)

subsection \<open>The checksum\<close>

lemma top_bit: "c AND 0x8000 \<noteq> 0 \<longleftrightarrow> bit c 15" for c :: "16 word"
  using bit_iff_and_push_bit_not_eq_0 [of c 15] by (simp add: push_bit_of_1)

lemma push_one_bits: "\<not> bit (push_bit 1 c) 0" "n < 15 \<Longrightarrow> bit (push_bit 1 c) (Suc n) \<longleftrightarrow> bit c n"
  for c :: "16 word"
  by (simp_all only: bit_push_bit_iff) simp_all

lemma crc_bit_low: "bit (crc_bit c) 0 \<longleftrightarrow> bit c 15"
  by (simp add: crc_bit_def top_bit bit_0 even_xor_iff)

lemma crc_bit_inj: "crc_bit a = crc_bit b \<Longrightarrow> a = b"
proof -
  assume e: "crc_bit a = crc_bit b"
  then have t: "bit a 15 = bit b 15" using crc_bit_low by metis
  have "push_bit 1 a = push_bit 1 b"
  proof (cases "bit b 15")
    case True
    with e t have "(push_bit 1 a XOR 0x1021) XOR 0x1021 = (push_bit 1 b XOR 0x1021) XOR 0x1021"
      by (simp add: crc_bit_def top_bit)
    then show ?thesis by (simp add: xor.assoc)
  next
    case False
    with e t show ?thesis by (simp add: crc_bit_def top_bit)
  qed
  then have low: "bit (push_bit 1 a) (Suc n) = bit (push_bit 1 b) (Suc n)" for n by simp
  show "a = b"
  proof (rule bit_word_eqI)
    fix n assume "n < LENGTH(16)"
    then have "n < 15 \<or> n = 15" by auto
    then show "bit a n = bit b n" using low [of n] t push_one_bits(2) [of n] by blast
  qed
qed

lemma crc_bits_inj: "(crc_bit ^^ n) a = (crc_bit ^^ n) b \<Longrightarrow> a = b"
  by (induction n) (auto dest: crc_bit_inj)

lemma xor_cancel: "a XOR x = b XOR x \<Longrightarrow> a = b" for a b :: "16 word"
  by (metis xor.assoc xor.right_neutral xor_self_eq)

lemma crc_byte_inj_state: "crc_byte b c = crc_byte b d \<Longrightarrow> c = d"
  unfolding crc_byte_def by (blast dest: crc_bits_inj xor_cancel)

lemma byte_word_inj:
  assumes "a < 256" "b < 256" "push_bit 8 (word_of_nat a :: 16 word) = push_bit 8 (word_of_nat b)"
  shows "a = b"
proof -
  have u: "unat (push_bit 8 (word_of_nat n :: 16 word)) = 256 * n" if "n < 256" for n
  proof -
    have "push_bit 8 (word_of_nat n :: 16 word) = word_of_nat (256 * n)"
      by (simp add: push_bit_eq_mult mult.commute)
    moreover have "256 * n < 2 ^ LENGTH(16)" using that by simp
    ultimately show ?thesis
      by (simp only: unsigned_of_nat take_bit_nat_eq_self of_nat_id)
  qed
  have "256 * a = 256 * b" using u [OF assms(1)] u [OF assms(2)] assms(3) by metis
  then show ?thesis by linarith
qed

lemma crc_byte_inj_byte: "a < 256 \<Longrightarrow> b < 256 \<Longrightarrow> crc_byte a c = crc_byte b c \<Longrightarrow> a = b"
  unfolding crc_byte_def by (metis byte_word_inj crc_bits_inj xor.commute xor_cancel)

lemma crc_fold_inj: "fold crc_byte s c = fold crc_byte s d \<Longrightarrow> c = d"
  by (induction s arbitrary: c d) (auto dest: crc_byte_inj_state)

lemma crc_one_byte:
  assumes "i < length s" "c < 256" "s ! i < 256" "c \<noteq> s ! i"
  shows "crc16_ccitt (s[i := c]) \<noteq> crc16_ccitt s"
proof
  assume e: "crc16_ccitt (s[i := c]) = crc16_ccitt s"
  let ?w = "fold crc_byte (take i s) 0xFFFF"
  have "s = take i s @ s ! i # drop (Suc i) s"
    using assms(1) by (rule id_take_nth_drop)
  then have "crc16_ccitt s = fold crc_byte (drop (Suc i) s) (crc_byte (s ! i) ?w)"
    unfolding crc16_ccitt_def by (metis fold_simps(2) fold_append comp_apply)
  moreover have "crc16_ccitt (s[i := c]) = fold crc_byte (drop (Suc i) s) (crc_byte c ?w)"
    using assms(1) by (simp add: crc16_ccitt_def upd_conv_take_nth_drop)
  ultimately have "crc_byte c ?w = crc_byte (s ! i) ?w"
    using e crc_fold_inj by metis
  then show False using crc_byte_inj_byte assms by blast
qed

lemma hex_char_inj: "a < 16 \<Longrightarrow> b < 16 \<Longrightarrow> hex_char a = hex_char b \<Longrightarrow> a = b"
  by (auto simp: hex_char_def split: if_splits)

lemma nibbles: "(n::nat) < 65536 \<Longrightarrow>
  n = n div 4096 mod 16 * 4096 + n div 256 mod 16 * 256 + n div 16 mod 16 * 16 + n mod 16"
  using mod_mult2_eq [of n 16 4096] mod_mult2_eq [of "n div 16" 16 256] mod_mult2_eq [of "n div 16 div 16" 16 16]
  by (simp add: div_mult2_eq [symmetric])

lemma hex4_inj: "hex4 v = hex4 w \<Longrightarrow> v = w"
proof -
  assume e: "hex4 v = hex4 w"
  have d: "hex_char (x mod 16) = hex_char (y mod 16) \<Longrightarrow> x mod 16 = y mod 16" for x y :: nat
    by (rule hex_char_inj) simp_all
  have n: "unat v < 65536" "unat w < 65536"
    using unsigned_less [of v] unsigned_less [of w] by simp_all
  from e have "unat v div 4096 mod 16 = unat w div 4096 mod 16"
    "unat v div 256 mod 16 = unat w div 256 mod 16"
    "unat v div 16 mod 16 = unat w div 16 mod 16" "unat v mod 16 = unat w mod 16"
    by (auto simp: hex4_def intro: d)
  then have "unat v = unat w" using nibbles [OF n(1)] nibbles [OF n(2)] by metis
  then show "v = w" by (simp add: word_unat_eq_iff)
qed


subsection \<open>The payload\<close>

text \<open>What a scanner checks: the last four characters are the checksum of everything before them.\<close>

definition qr_verifies :: "utext \<Rightarrow> bool" where
  "qr_verifies p \<longleftrightarrow> 4 \<le> length p
     \<and> drop (length p - 4) p = hex4 (crc16_ccitt (take (length p - 4) p))"

definition ascii :: "utext \<Rightarrow> bool" where
  "ascii s \<longleftrightarrow> (\<forall>c\<in>set s. c < 256)"

lemma ascii_append [simp]: "ascii (s @ t) \<longleftrightarrow> ascii s \<and> ascii t"
  by (auto simp: ascii_def)

lemma ascii_asc [simp]: "ascii (asc s)"
  by (auto simp: ascii_def asc_def)

lemma ascii_digits: "\<forall>c\<in>set s. u_digit c \<Longrightarrow> ascii s"
  by (auto simp: ascii_def u_digit_def)

lemma ascii_u_nat [simp]: "ascii (u_nat n)"
  by (rule ascii_digits) (blast intro: u_nat_digits)

lemma ascii_pad [simp]: "ascii s \<Longrightarrow> ascii (pad_zeros w s)"
  by (auto simp: ascii_def pad_zeros_def)

lemma ascii_tlv: "ascii a \<Longrightarrow> ascii v \<Longrightarrow> ascii (tlv a v)"
  by (simp add: tlv_def)

lemma ascii_amount: "ascii (format_amount L x)"
  using fixed2_chars by (fastforce simp: ascii_def format_amount_def u_digit_def)

lemma hex_char_small: "hex_char (n mod 16) < 256"
proof -
  have "n mod 16 < 16" by simp
  then show ?thesis by (auto simp only: hex_char_def split: if_split)
qed

lemma ascii_hex4: "ascii (hex4 w)"
  by (simp add: ascii_def hex4_def hex_char_small)

lemma list_update_append_last:
  "length t = k \<Longrightarrow> length s \<le> i \<Longrightarrow> (s @ t)[i := c] = s @ t[i - length s := c]"
  by (simp add: list_update_append)

lemma qr_one_character:
  assumes "p = q @ hex4 (crc16_ccitt q)" "ascii p" "i < length p" "c < 256" "c \<noteq> p ! i"
  shows "\<not> qr_verifies (p[i := c])"
proof (cases "i < length q")
  case True
  then have "p[i := c] = q[i := c] @ hex4 (crc16_ccitt q)" and "p ! i = q ! i"
    using assms(1) by (simp_all add: list_update_append nth_append)
  moreover have "q ! i < 256" using True assms(1,2) by (auto simp: ascii_def)
  ultimately show ?thesis
    using crc_one_byte [OF True assms(4)] assms(5) hex4_inj
    by (metis append_eq_conv_conj diff_add_inverse2 length_append length_hex4 length_list_update qr_verifies_def)
next
  case False
  let ?h = "hex4 (crc16_ccitt q)"
  have "p[i := c] = q @ ?h[i - length q := c]" and "p ! i = ?h ! (i - length q)"
    using assms(1) False by (simp_all add: list_update_append nth_append)
  moreover have "?h[i - length q := c] \<noteq> ?h"
    using assms(1,3,5) False calculation(2)
    by (metis add_diff_inverse_nat length_append nat_add_left_cancel_less nth_list_update_eq)
  ultimately show ?thesis by (simp add: qr_verifies_def)
qed

lemma payload_lengths:
  assumes "proxy_value s = Some (k, v)"
  shows "length (tlv (proxy_sub_tag k) v) = 17"
    and "length (tlv (asc ''00'') PROMPTPAY_AID @ tlv (proxy_sub_tag k) v) = 37"
proof -
  have [simp]: "length (pad_zeros 2 (u_nat n)) = 2" if "n < 100" for n
    using that length_u_nat [of n 2] by (simp add: length_pad_zeros)
  have [simp]: "length (proxy_sub_tag k) = 2"
    by (cases k) (simp_all add: proxy_sub_tag_def)
  show "length (tlv (proxy_sub_tag k) v) = 17"
    using proxy_value_digits(2) [OF assms] by (simp add: tlv_def)
  show "length (tlv (asc ''00'') PROMPTPAY_AID @ tlv (proxy_sub_tag k) v) = 37"
    using proxy_value_digits(2) [OF assms] by (simp add: tlv_def PROMPTPAY_AID_def)
qed

lemma asc_tags: "asc ''00'' = [48,48]" "asc ''01'' = [48,49]" "asc ''02'' = [48,50]" "asc ''29'' = [50,57]"
  "asc ''53'' = [53,51]" "asc ''54'' = [53,52]" "asc ''58'' = [53,56]" "asc ''63'' = [54,51]"
  by simp_all

lemma read_tlv_last: "length v < 100 \<Longrightarrow> read_tlv (tlv [a, b] v) = Some [([a, b], v)]"
  using read_tlv_field [of v a b "[]"] by simp


lemma payload_reads:
  assumes v: "proxy_value s = Some (k, v)" and a: "length (format_amount L x) < 100"
    and q: "q = tlv (asc ''00'') (asc ''01'') @ tlv (asc ''01'') (asc ''12'')
      @ tlv (asc ''29'') (tlv (asc ''00'') PROMPTPAY_AID @ tlv (proxy_sub_tag k) v)
      @ tlv (asc ''53'') (asc ''764'') @ tlv (asc ''54'') (format_amount L x)
      @ tlv (asc ''58'') (asc ''TH'') @ asc ''6304''"
  shows "read_tlv (q @ hex4 w) =
      Some (payload_fields L k (tlv (asc ''00'') PROMPTPAY_AID @ tlv (proxy_sub_tag k) v) x
        @ [(asc ''63'', hex4 w)])"
    and "read_tlv (tlv (asc ''00'') PROMPTPAY_AID @ tlv (proxy_sub_tag k) v) =
      Some [(asc ''00'', PROMPTPAY_AID), (proxy_sub_tag k, v)]"
proof -
  let ?m = "tlv (asc ''00'') PROMPTPAY_AID @ tlv (proxy_sub_tag k) v"
  have m: "length ?m < 100" using payload_lengths(2) [OF v] by simp
  have tail: "read_tlv (asc ''6304'' @ hex4 w) = Some [(asc ''63'', hex4 w)]"
    by (simp add: read_nat_def)
  have small: "length (asc ''01'') < 100" "length (asc ''12'') < 100" "length (asc ''764'') < 100"
    "length (asc ''TH'') < 100" by simp_all
  show "read_tlv (q @ hex4 w) = Some (payload_fields L k ?m x @ [(asc ''63'', hex4 w)])"
    unfolding q append_assoc
    by (simp only: asc_tags read_tlv_field small [unfolded asc_tags] m [unfolded asc_tags] a
      tail [unfolded asc_tags] payload_fields_def option.map append.simps)
  have d: "length v < 100" using proxy_value_digits(2) [OF v] by simp
  obtain c e where sub: "proxy_sub_tag k = [c, e]"
    by (cases k) (auto simp: proxy_sub_tag_def)
  have aid: "length PROMPTPAY_AID < 100" by (simp add: PROMPTPAY_AID_def)
  show "read_tlv ?m = Some [(asc ''00'', PROMPTPAY_AID), (proxy_sub_tag k, v)]"
    unfolding asc_tags sub by (simp only: read_tlv_field [OF aid] read_tlv_last [OF d] option.map)
qed


lemma display_keeps_digits: "filter u_digit (format_account_for_display s) = filter u_digit s"
proof -
  have [simp]: "\<not> u_digit 45" "filter u_digit (slice (filter u_digit s) a b) = slice (filter u_digit s) a b" for a b
    by (auto simp: u_digit_def slice_def intro!: filter_True dest!: in_set_takeD in_set_dropD)
  let ?d = "filter u_digit s"
  have all: "slice ?d 0 n = ?d" if "length ?d = n" for n
    using that by (simp add: slice_def)
  show ?thesis
  proof (cases "classify_proxy s")
    case None
    then show ?thesis by (simp add: format_account_for_display_def)
  next
    case (Some k)
    then show ?thesis
    proof (cases k)
      case Mobile
      with Some have "length ?d = 10" by (auto simp: classify_proxy_def Let_def split: if_splits)
      with Some Mobile show ?thesis
        using slice_append [of 0 3 6 ?d] slice_append [of 0 6 10 ?d] all [of 10]
        by (simp add: format_account_for_display_def Let_def flip: append_assoc)
    next
      case NationalId
      with Some have "length ?d = 13" by (auto simp: classify_proxy_def Let_def split: if_splits)
      with Some NationalId show ?thesis
        using slice_append [of 0 1 5 ?d] slice_append [of 0 5 10 ?d] slice_append [of 0 10 12 ?d]
          slice_append [of 0 12 13 ?d] all [of 13]
        by (simp add: format_account_for_display_def Let_def flip: append_assoc)
    qed
  qed
qed

lemma amount_fits:
  assumes "decimal_ops L" "0 \<le> x" "x \<le> 10 ^ 28"
  shows "length (format_amount L x) < 100" and "read_amount (format_amount L x) = lib_round_dp L x 2"
proof -
  have "on_grid 2 (10 ^ 28 :: rat)" by (simp add: on_grid_def)
  then have "0 \<le> lib_round_dp L x 2" "lib_round_dp L x 2 \<le> 10 ^ 28"
    using decimal_ops.round_nonneg [OF assms(1,2)] decimal_ops.round_le [OF assms(1,3)] by auto
  moreover have "(10::rat) ^ 28 < 10 ^ 29" by simp
  ultimately have "\<bar>lib_round_dp L x 2\<bar> < 10 ^ 29" by linarith
  from length_fixed2 [OF this] show "length (format_amount L x) < 100"
    by (simp add: format_amount_def)
  show "read_amount (format_amount L x) = lib_round_dp L x 2"
    using decimal_ops.round_grid [OF assms(1)] by (simp add: format_amount_def read_fixed2)
qed

text \<open>
  A scanner reads out of the QR exactly what was put into it: a payload is built precisely for
  an account that is a ten-digit number starting with 0 or has thirteen digits; its TLV fields are
  the seven of the PromptPay profile in order, the merchant field holds the application id and one
  proxy (the mobile number as 0066 and its last nine digits, or the national id itself), and the
  amount field parses to the amount rounded to two places.
\<close>
theorem promptpay_reads_back:
  assumes L: "decimal_ops L" and x: "0 \<le> x" "x \<le> 10 ^ 28"
  shows "case classify_proxy account of
     None \<Rightarrow> \<exists>m. build_promptpay_payload L account x = Inl (Internal m)
   | Some kind \<Rightarrow> \<exists>p merchant amount crc.
       build_promptpay_payload L account x = Inr p
     \<and> read_tlv p = Some [(asc ''00'', asc ''01''), (asc ''01'', asc ''12''), (asc ''29'', merchant),
         (asc ''53'', asc ''764''), (asc ''54'', amount), (asc ''58'', asc ''TH''), (asc ''63'', crc)]
     \<and> read_tlv merchant = Some [(asc ''00'', PROMPTPAY_AID),
         (if kind = Mobile then (asc ''01'', asc ''0066'' @ drop 1 (filter u_digit account))
          else (asc ''02'', filter u_digit account))]
     \<and> read_amount amount = lib_round_dp L x 2"
proof (cases "proxy_value account")
  case None
  then have "classify_proxy account = None" using proxy_value_some_iff [of account] by auto
  with None show ?thesis by (simp add: build_promptpay_payload_def)
next
  case (Some kv)
  obtain k v where kv: "kv = (k, v)" by (cases kv)
  note pv = Some [unfolded kv]
  have kind: "classify_proxy account = Some k" using proxy_value_digits(1) [OF pv] .
  have sub: "(proxy_sub_tag k, v) = (if k = Mobile then (asc ''01'', asc ''0066'' @ drop 1 (filter u_digit account))
      else (asc ''02'', filter u_digit account))"
    using pv kind by (cases k) (auto simp: proxy_value_def proxy_sub_tag_def Let_def)
  let ?m = "tlv (asc ''00'') PROMPTPAY_AID @ tlv (proxy_sub_tag k) v"
  let ?q = "tlv (asc ''00'') (asc ''01'') @ tlv (asc ''01'') (asc ''12'') @ tlv (asc ''29'') ?m
      @ tlv (asc ''53'') (asc ''764'') @ tlv (asc ''54'') (format_amount L x)
      @ tlv (asc ''58'') (asc ''TH'') @ asc ''6304''"
  have b: "build_promptpay_payload L account x = Inr (?q @ hex4 (crc16_ccitt ?q))"
    by (simp add: build_promptpay_payload_def pv Let_def del: asc_Cons)
  note r = payload_reads [OF pv amount_fits(1) [OF L x] refl]
  show ?thesis
    unfolding kind option.case
    by (intro exI conjI, rule b, subst r(1), simp only: payload_fields_def append.simps,
      subst r(2), simp only: sub, rule amount_fits(2) [OF L x])
qed

theorem promptpay_reads_back_witness:
  "\<exists>p merchant amount crc. build_promptpay_payload bankers_lib (asc ''081-234-5678'') 2000 = Inr p
     \<and> read_tlv p = Some [(asc ''00'', asc ''01''), (asc ''01'', asc ''12''), (asc ''29'', merchant),
         (asc ''53'', asc ''764''), (asc ''54'', amount), (asc ''58'', asc ''TH''), (asc ''63'', crc)]
     \<and> read_tlv merchant = Some [(asc ''00'', PROMPTPAY_AID), (asc ''01'', asc ''0066812345678'')]
     \<and> read_amount amount = 2000"
proof -
  have c: "classify_proxy (asc ''081-234-5678'') = Some Mobile"
    by (simp add: classify_proxy_def u_digit_def)
  have d: "asc ''0066'' @ drop 1 (filter u_digit (asc ''081-234-5678'')) = asc ''0066812345678''"
    by (simp add: u_digit_def)
  have r: "lib_round_dp bankers_lib 2000 2 = 2000"
    by (simp add: bankers_fixed)
  show ?thesis
    using promptpay_reads_back [OF bankers_ops, of 2000 "asc ''081-234-5678''"]
    unfolding c option.case d r by (simp del: asc_Cons)
qed

text \<open>
  A QR payload verifies its own checksum, and no payload in which one character was replaced by
  another does.
\<close>
theorem promptpay_tamper_evident:
  assumes "build_promptpay_payload L account x = Inr p"
  shows "qr_verifies p \<and> (\<forall>i < length p. \<forall>c < 256. c \<noteq> p ! i \<longrightarrow> \<not> qr_verifies (p[i := c]))"
proof -
  from built_payload [OF assms] obtain k v q where v: "proxy_value account = Some (k, v)"
    and q: "q = tlv (asc ''00'') (asc ''01'') @ tlv (asc ''01'') (asc ''12'')
      @ tlv (asc ''29'') (tlv (asc ''00'') PROMPTPAY_AID @ tlv (proxy_sub_tag k) v)
      @ tlv (asc ''53'') (asc ''764'') @ tlv (asc ''54'') (format_amount L x)
      @ tlv (asc ''58'') (asc ''TH'') @ asc ''6304''"
    and p: "p = q @ hex4 (crc16_ccitt q)" by metis
  have "ascii (proxy_sub_tag k)" by (cases k) (simp_all add: proxy_sub_tag_def del: asc_Cons)
  then have "ascii p"
    unfolding p q PROMPTPAY_AID_def
    using ascii_digits [OF proxy_value_digits(3) [OF v]]
    by (simp only: ascii_append ascii_tlv ascii_asc ascii_amount ascii_hex4)
  then have "\<not> qr_verifies (p[i := c])" if "i < length p" "c < 256" "c \<noteq> p ! i" for i c
    using qr_one_character [OF p] that by blast
  moreover have "qr_verifies p" by (simp add: qr_verifies_def p)
  ultimately show ?thesis by blast
qed

theorem promptpay_tamper_evident_witness:
  "\<exists>p. build_promptpay_payload bankers_lib (asc ''1234567890123'') 2000 = Inr p \<and> qr_verifies p"
proof -
  have "proxy_value (asc ''1234567890123'') = Some (NationalId, asc ''1234567890123'')"
    by (simp add: proxy_value_def classify_proxy_def u_digit_def)
  then obtain p where "build_promptpay_payload bankers_lib (asc ''1234567890123'') 2000 = Inr p"
    by (simp add: build_promptpay_payload_def Let_def del: asc_Cons)
  with promptpay_tamper_evident [OF this] show ?thesis by blast
qed

end
