(* ===== verification/Payout_Export.thy ===== *)
theory Payout_Export
  imports Payout_Config Payment_Promptpay
begin

text \<open>
  The guard payout: who of the backlog can be paid, and the export that builds the bank file and
  marks the jobs in it as paid (services/payment/src/api/payouts.rs). The two internal reads are
  parameters: a profile of a guard or an error, the booking of a job or an error; they run
  concurrently in the source, and when several fail the model returns the first error in the order
  of the ids. Reasons and errors in Thai are given as glosses.
\<close>

subsection \<open>Running over a list\<close>

fun res_map :: "('a \<Rightarrow> 'e + 'b) \<Rightarrow> 'a list \<Rightarrow> 'e + 'b list" where
  "res_map f [] = Inr []"
| "res_map f (x # xs) = res_bind (f x) (\<lambda>y. res_bind (res_map f xs) (\<lambda>ys. Inr (y # ys)))"

lemma res_map_Inr: "res_map f xs = Inr ys \<longleftrightarrow> list_all2 (\<lambda>x y. f x = Inr y) xs ys"
  by (induction xs arbitrary: ys) (auto simp: res_bind_Inr_iff list_all2_Cons1)

text \<open>Consecutive rows with the same key, the way the loop over \<open>last_mut\<close> collects them.\<close>

definition group_step :: "('a \<Rightarrow> 'k) \<Rightarrow> ('k \<times> 'a list) list \<Rightarrow> 'a \<Rightarrow> ('k \<times> 'a list) list" where
  "group_step key acc row =
     (if acc \<noteq> [] \<and> fst (last acc) = key row
      then butlast acc @ [(fst (last acc), snd (last acc) @ [row])]
      else acc @ [(key row, [row])])"

definition group_runs :: "('a \<Rightarrow> 'k) \<Rightarrow> 'a list \<Rightarrow> ('k \<times> 'a list) list" where
  "group_runs key rows = foldl (group_step key) [] rows"

lemma group_step_concat: "concat (map snd (group_step key acc row)) = concat (map snd acc) @ [row]"
proof (cases "acc \<noteq> [] \<and> fst (last acc) = key row")
  case True
  then have "concat (map snd acc) = concat (map snd (butlast acc)) @ snd (last acc)"
    by (cases acc rule: rev_cases) simp_all
  with True show ?thesis by (simp add: group_step_def)
qed (auto simp: group_step_def)

lemma group_runs_concat: "concat (map snd (group_runs key rows)) = rows"
proof -
  have "concat (map snd (foldl (group_step key) acc rows)) = concat (map snd acc) @ rows" for acc
    by (induction rows arbitrary: acc) (simp_all add: group_step_concat)
  then show ?thesis by (simp add: group_runs_def)
qed

definition grouped :: "('a \<Rightarrow> 'k) \<Rightarrow> ('k \<times> 'a list) list \<Rightarrow> bool" where
  "grouped key acc \<longleftrightarrow> (\<forall>g\<in>set acc. snd g \<noteq> [] \<and> (\<forall>j\<in>set (snd g). key j = fst g))"

lemma group_step_grouped:
  assumes "grouped key acc"
  shows "grouped key (group_step key acc row)"
proof (cases "acc \<noteq> [] \<and> fst (last acc) = key row")
  case True
  then have "last acc \<in> set acc" by simp
  with assms have "\<forall>j\<in>set (snd (last acc)). key j = fst (last acc)"
    unfolding grouped_def by blast
  with True assms show ?thesis
    by (simp add: grouped_def group_step_def) (meson in_set_butlastD)
next
  case False
  then have "group_step key acc row = acc @ [(key row, [row])]"
    by (auto simp: group_step_def)
  with assms show ?thesis by (simp add: grouped_def)
qed

lemma group_runs_grouped: "grouped key (group_runs key rows)"
proof -
  have "grouped key (foldl (group_step key) acc rows)" if "grouped key acc" for acc
    using that by (induction rows arbitrary: acc) (simp_all add: group_step_grouped)
  from this [of "[]"] show ?thesis by (simp add: group_runs_def grouped_def)
qed

subsection \<open>What the other services answer\<close>

record guard_payout_profile =
  gp_full_name :: "utext option"
  gp_tax_id :: "utext option"
  gp_address :: "utext option"
  gp_phone :: "utext option"

record internal_booking =
  ib_hours :: int
  ib_base_fee :: decimal

record payout_world =
  pw_profile :: "uuid \<Rightarrow> guard_payout_profile app_result"
  pw_booking :: "uuid \<Rightarrow> internal_booking app_result"
  pw_org :: "org_tax_info app_result"

definition dedup_ids :: "uuid list \<Rightarrow> uuid list" where
  "dedup_ids ids = remdups (sort ids)"

definition load_guard_profiles ::
  "payout_world \<Rightarrow> uuid list \<Rightarrow> (uuid \<times> guard_payout_profile option) list app_result" where
  "load_guard_profiles W guard_ids = res_map (\<lambda>g. case pw_profile W g of
      Inr p \<Rightarrow> Inr (g, Some p)
    | Inl (NotFound m) \<Rightarrow> Inr (g, None)
    | Inl e \<Rightarrow> Inl e) guard_ids"

definition load_bookings :: "payout_world \<Rightarrow> uuid list \<Rightarrow> (uuid \<times> internal_booking) list app_result" where
  "load_bookings W booking_ids =
     res_map (\<lambda>b. res_bind (pw_booking W b) (\<lambda>x. Inr (b, x))) booking_ids"

subsection \<open>Who can be paid\<close>

definition PAYOUT_PRODUCT :: scb_product where "PAYOUT_PRODUCT = PromptPayProduct"

definition tax_id_fails_national_id_checksum :: "utext \<Rightarrow> bool" where
  "tax_id_fails_national_id_checksum tax_digits =
     (length tax_digits = NATIONAL_ID_DIGITS \<and> \<not> national_id_check_digit_ok tax_digits)"

fun first_proxy :: "utext option list \<Rightarrow> (utext \<times> promptpay_proxy) option" where
  "first_proxy [] = None"
| "first_proxy (None # cs) = first_proxy cs"
| "first_proxy (Some c # cs) = (let digits = digits_only c in
     case classify_proxy digits of Some p \<Rightarrow> Some (digits, p) | None \<Rightarrow> first_proxy cs)"

definition resolve_proxy :: "utext option \<Rightarrow> utext option \<Rightarrow> (utext \<times> promptpay_proxy) option" where
  "resolve_proxy tax_id phone =
     (if (case tax_id of Some t \<Rightarrow> tax_id_fails_national_id_checksum (digits_only t) | None \<Rightarrow> False)
      then None else first_proxy [tax_id, phone])"

record unpaid_payout_row =
  up_booking :: uuid
  up_guard :: uuid
  up_actual_hours :: "decimal option"
  up_commission_percent :: "decimal option"
  up_base_fee :: "decimal option"
  up_booked_hours :: "int option"

definition to_unpaid_row :: "payment \<Rightarrow> unpaid_payout_row" where
  "to_unpaid_row p = \<lparr>up_booking = pm_booking p, up_guard = the (pm_guard p),
     up_actual_hours = pm_actual_hours p, up_commission_percent = pm_commission_percent p,
     up_base_fee = pm_base_fee p, up_booked_hours = pm_booked_hours p\<rparr>"

definition job_payout ::
  "decimal_lib \<Rightarrow> (uuid \<times> internal_booking) list \<Rightarrow> decimal \<Rightarrow> uuid \<Rightarrow> unpaid_payout_row \<Rightarrow> payout_new app_result" where
  "job_payout L bookings wht_rate guard_id job =
     res_bind (case up_base_fee job of
         Some base_fee \<Rightarrow> Inr (base_fee, up_booked_hours job)
       | None \<Rightarrow> (case map_of bookings (up_booking job) of
           None \<Rightarrow> Inl (Internal ''booking {} missing from the run'')
         | Some b \<Rightarrow> Inr (ib_base_fee b, Some (ib_hours b))))
     (\<lambda>(base_fee, booked_hours).
       let hours = (case up_actual_hours job of Some h \<Rightarrow> h
                    | None \<Rightarrow> of_int (max (or_value booked_hours 0) 0));
           amt = compute_payout L base_fee hours (up_commission_percent job) wht_rate
       in Inr \<lparr>pn_booking = up_booking job, pn_guard = guard_id, pn_income = po_income amt,
               pn_wht = po_wht amt, pn_transfer = po_transfer amt\<rparr>)"

definition nonempty :: "utext option \<Rightarrow> utext option" where
  "nonempty v = (case v of Some s \<Rightarrow> if s = [] then None else Some s | None \<Rightarrow> None)"

definition clean_name :: "utext option \<Rightarrow> utext option" where
  "clean_name v = nonempty (map_option (\<lambda>s. sanitize_no_special_char s MAX_NAME) v)"

definition clean_address :: "utext option \<Rightarrow> utext option" where
  "clean_address v = nonempty (map_option (\<lambda>s. sanitize_allow_special_char s MAX_ADDRESS) v)"

definition payout_rejection ::
  "config_row \<Rightarrow> utext option \<Rightarrow> utext option \<Rightarrow> utext option \<Rightarrow> credit_destination option
    \<Rightarrow> decimal \<Rightarrow> string option" where
  "payout_rejection cfg name address tax_id destination transfer =
     (let withholding = 0 < cf_wht_rate_percent cfg in
      if name = None then Some ''[no name in the profile]''
      else if (case tax_id of Some t \<Rightarrow> tax_id_fails_national_id_checksum t | None \<Rightarrow> False)
        then Some ''[the national id in the profile fails its check digit]''
      else if destination = None then Some ''[no PromptPay id to transfer to]''
      else if withholding \<and> tax_id = None then Some ''[no tax id, needed to withhold]''
      else if withholding \<and> (case tax_id of Some t \<Rightarrow> tax_id_over_cap t | None \<Rightarrow> False)
        then Some ''[the tax id is longer than the bank takes]''
      else if withholding \<and> address = None then Some ''[no address, needed to withhold]''
      else (case destination of
          Some dest \<Rightarrow> or_else (destination_rejection PAYOUT_PRODUCT dest)
            (transfer_bound_rejection dest transfer (cf_max_transfer_per_txn cfg))
        | None \<Rightarrow> None))"

record excluded =
  ex_id :: uuid
  ex_reason :: string
  ex_count :: nat

record aggregated_recipient =
  ar_id :: uuid
  ar_count :: nat
  ar_recipient :: payout_recipient

record 'i aggregated =
  ag_recipients :: "aggregated_recipient list"
  ag_items :: "'i list"
  ag_excluded :: "excluded list"

definition exclude :: "uuid \<Rightarrow> string \<Rightarrow> nat \<Rightarrow> 'i aggregated \<Rightarrow> 'i aggregated" where
  "exclude i reason n a = a\<lparr>ag_excluded := ag_excluded a @ [\<lparr>ex_id = i, ex_reason = reason, ex_count = n\<rparr>]\<rparr>"

definition admit :: "uuid \<Rightarrow> nat \<Rightarrow> payout_recipient \<Rightarrow> 'i list \<Rightarrow> 'i aggregated \<Rightarrow> 'i aggregated" where
  "admit i n r new a = a\<lparr>ag_recipients := ag_recipients a @ [\<lparr>ar_id = i, ar_count = n, ar_recipient = r\<rparr>],
     ag_items := ag_items a @ new\<rparr>"

text \<open>\<open>&id.simple().to_string()[..12]\<close>: the first twelve hexadecimal digits of an id.\<close>

definition hex12 :: "uuid \<Rightarrow> utext" where
  "hex12 i = map (\<lambda>k. let d = i div 16 ^ k mod 16 in if d < 10 then 48 + d else 87 + d) (rev [20..<32])"

text \<open>One turn of the loop over the guards.\<close>

definition aggregate_guard ::
  "decimal_lib \<Rightarrow> config_row \<Rightarrow> (uuid \<times> guard_payout_profile option) list \<Rightarrow> (uuid \<times> internal_booking) list
    \<Rightarrow> payout_new aggregated \<Rightarrow> uuid \<times> unpaid_payout_row list \<Rightarrow> payout_new aggregated app_result" where
  "aggregate_guard L cfg profiles bookings a grp =
     res_bind (res_map (job_payout L bookings (cf_wht_rate_percent cfg) (fst grp)) (snd grp)) (\<lambda>guard_items.
     let guard_id = fst grp; n = length (snd grp);
         income = sum_list (map pn_income guard_items);
         wht = sum_list (map pn_wht guard_items)
     in case map_of profiles guard_id of
       Some (Some pii) \<Rightarrow>
         let name = clean_name (gp_full_name pii);
             address = clean_address (gp_address pii);
             tax_id = nonempty (map_option digits_only (gp_tax_id pii));
             destination = map_option (\<lambda>(v, _). ToPromptPay v) (resolve_proxy (gp_tax_id pii) (gp_phone pii))
         in (case payout_rejection cfg name address tax_id destination (income - wht) of
              Some reason \<Rightarrow> Inr (exclude guard_id reason n a)
            | None \<Rightarrow> (case (name, destination) of
                (Some nm, Some dest) \<Rightarrow> Inr (admit guard_id n
                  \<lparr>rc_transaction_ref = asc ''PO-'' @ hex12 guard_id, rc_destination = dest,
                   rc_tax_id = or_value tax_id [], rc_name = nm, rc_address = or_value address [],
                   rc_income = income, rc_wht = wht,
                   rc_phone = (if cf_sms_notify cfg then gp_phone pii else None), rc_email = None\<rparr>
                  guard_items a)
              | _ \<Rightarrow> Inr (exclude guard_id ''[the profile is incomplete]'' n a)))
     | _ \<Rightarrow> Inr (exclude guard_id ''[no such guard profile]'' n a))"

fun res_fold :: "('s \<Rightarrow> 'a \<Rightarrow> 'e + 's) \<Rightarrow> 's \<Rightarrow> 'a list \<Rightarrow> 'e + 's" where
  "res_fold f s [] = Inr s"
| "res_fold f s (x # xs) = res_bind (f s x) (\<lambda>s'. res_fold f s' xs)"

definition aggregate_payout ::
  "decimal_lib \<Rightarrow> payout_world \<Rightarrow> files_db \<Rightarrow> config_row \<Rightarrow> payout_selection \<Rightarrow> payout_new aggregated app_result" where
  "aggregate_payout L W db cfg sel =
     res_bind (unpaid_payout_rows db sel) (\<lambda>rows.
     let by_guard = group_runs up_guard (map (to_unpaid_row \<circ> snd) rows);
         guard_ids = dedup_ids (map fst by_guard);
         booking_ids = dedup_ids (concat (map (\<lambda>(_, jobs).
           map up_booking (filter (\<lambda>j. up_base_fee j = None) jobs)) by_guard))
     in res_bind (load_bookings W booking_ids) (\<lambda>bookings.
        res_bind (load_guard_profiles W guard_ids) (\<lambda>profiles.
        res_fold (aggregate_guard L cfg profiles bookings)
          \<lparr>ag_recipients = [], ag_items = [], ag_excluded = []\<rparr> by_guard)))"

subsection \<open>The export\<close>

record payout_request =
  pq_guard_ids :: "uuid list option"
  pq_from :: "int option"
  pq_to :: "int option"
  pq_value_date :: "day option"

text \<open>The transaction reference of each line is stamped from the batch reference and its position.\<close>

definition stamp_refs :: "utext \<Rightarrow> utext \<Rightarrow> payout_recipient list \<Rightarrow> payout_recipient list" where
  "stamp_refs prefix bref rs =
     map (\<lambda>(i, r). r\<lparr>rc_transaction_ref := transaction_ref prefix bref (i + 1)\<rparr>)
       (zip [0..<length rs] rs)"

definition api_export_payout ::
  "decimal_lib \<Rightarrow> calendar \<Rightarrow> payout_world \<Rightarrow> call_env \<Rightarrow> auth_user \<Rightarrow> payout_request \<Rightarrow> config_row option
    \<Rightarrow> files_db \<Rightarrow> (utext \<times> files_db) app_result" where
  "api_export_payout L C W env user req stored db =
     res_bind (require_admin user) (\<lambda>_.
     let sel = \<lparr>ps_guard_ids = pq_guard_ids req, ps_from = pq_from req, ps_to = pq_to req\<rparr> in
     res_bind (validate_payout_selection sel) (\<lambda>_.
     let now = tx_now env in
     res_bind (resolve_value_date (pq_value_date req) now) (\<lambda>value_date.
     let cfg = get_payout_config stored in
     res_bind (pw_org W) (\<lambda>org.
     res_bind (build_payer_and_config cfg org value_date) (\<lambda>(payer, config).
     res_bind (aggregate_payout L W db cfg sel) (\<lambda>agg.
     if ag_recipients agg = [] then Inl (BadRequest ''[nothing payable is outstanding]'')
     else
       let bref = scb_batch_ref C now;
           fref = scb_file_ref bref PAYOUT_PRODUCT;
           batch = \<lparr>pb_file_ref = fref, pb_system_ref = asc ''PGUARD-PAYOUT'', pb_batch_ref = bref,
             pb_product = PAYOUT_PRODUCT, pb_service_type_code = [], pb_payer = payer,
             pb_config = config,
             pb_recipients = stamp_refs TXN_REF_PREFIX_PAYOUT bref (map ar_recipient (ag_recipients agg))\<rparr>;
           file_text = generate L C batch
       in res_bind (insert_payout_batch env db
            \<lparr>nf_file_ref = utf8 fref, nf_system_ref = utf8 (pb_system_ref batch),
             nf_batch_ref = utf8 bref, nf_value_date = pc_value_date config,
             nf_total_amount = total_transfer (pb_recipients batch),
             nf_recipient_count = int (length (pb_recipients batch)), nf_file_text = utf8 file_text,
             nf_created_by = Some (au_id user), nf_credit_account = None, nf_items = ag_items agg\<rparr>)
          (\<lambda>(_, db'). Inr (file_text, db'))))))))"

end
