(* ===== verification/Transfer_Exports.thy ===== *)
theory Transfer_Exports
  imports Payout_Export
begin

text \<open>
  The other two exports: customer refunds (services/payment/src/api/refunds.rs), which go to mobile
  numbers only, and the sweep of the platform's cut (services/payment/src/api/deductions.rs), one
  credit line to the company's own account backed by a ledger row per job.
\<close>

subsection \<open>Customer refunds\<close>

definition REFUND_PRODUCT :: scb_product where "REFUND_PRODUCT = PromptPayProduct"
definition REFUND_SYSTEM_REF :: utext where "REFUND_SYSTEM_REF = asc ''PGUARD-REFUND''"

datatype refund_destination = MobileNumber utext | NoPhone | NotAMobile

definition classify_refund_destination :: "utext option \<Rightarrow> refund_destination" where
  "classify_refund_destination phone = (case nonempty (map_option digits_only phone) of
     None \<Rightarrow> NoPhone
   | Some digits \<Rightarrow> (case classify_proxy digits of
       Some Mobile \<Rightarrow> MobileNumber digits
     | _ \<Rightarrow> NotAMobile))"

record customer_payout_profile =
  cp_full_name :: "utext option"
  cp_phone :: "utext option"
  cp_address :: "utext option"

type_synonym customer_reader = "uuid \<Rightarrow> customer_payout_profile app_result"

definition load_customer_profiles ::
  "customer_reader \<Rightarrow> uuid list \<Rightarrow> (uuid \<times> customer_payout_profile option) list app_result" where
  "load_customer_profiles reader customer_ids = res_map (\<lambda>c. case reader c of
      Inr p \<Rightarrow> Inr (c, Some p)
    | Inl (NotFound m) \<Rightarrow> Inr (c, None)
    | Inl e \<Rightarrow> Inl e) customer_ids"

definition refund_item :: "decimal_lib \<Rightarrow> uuid \<Rightarrow> refund_due \<Rightarrow> refund_new" where
  "refund_item L customer_id row = \<lparr>rn_kind = rd_kind row, rn_source = rd_source row,
     rn_booking = rd_booking row, rn_customer = customer_id, rn_amount = lib_round_dp L (rd_amount row) 2\<rparr>"

definition refund_rejection ::
  "decimal option \<Rightarrow> utext option \<Rightarrow> refund_destination \<Rightarrow> credit_destination option \<Rightarrow> decimal \<Rightarrow> string option" where
  "refund_rejection max_transfer name phone destination total_owed =
     (if name = None then Some ''[no name in the customer profile]''
      else (case destination of
          Some dest \<Rightarrow> or_else (destination_rejection REFUND_PRODUCT dest)
            (transfer_bound_rejection dest total_owed max_transfer)
        | None \<Rightarrow> Some (if phone = NotAMobile then ''[the phone on file cannot receive PromptPay]''
                       else ''[no PromptPay phone to refund to]'')))"

definition aggregate_customer ::
  "decimal_lib \<Rightarrow> decimal option \<Rightarrow> (uuid \<times> customer_payout_profile option) list
    \<Rightarrow> refund_new aggregated \<Rightarrow> uuid \<times> refund_due list \<Rightarrow> refund_new aggregated" where
  "aggregate_customer L max_transfer profiles a grp =
     (let customer_id = fst grp; n = length (snd grp);
          customer_items = map (refund_item L customer_id) (snd grp);
          total_owed = sum_list (map rn_amount customer_items)
      in case map_of profiles customer_id of
        Some (Some pii) \<Rightarrow>
          let name = clean_name (cp_full_name pii);
              address = clean_address (cp_address pii);
              phone = classify_refund_destination (cp_phone pii);
              destination = (case phone of MobileNumber digits \<Rightarrow> Some (ToPromptPay digits) | _ \<Rightarrow> None)
          in (case refund_rejection max_transfer name phone destination total_owed of
               Some reason \<Rightarrow> exclude customer_id reason n a
             | None \<Rightarrow> (case (name, destination) of
                 (Some nm, Some dest) \<Rightarrow> admit customer_id n
                   \<lparr>rc_transaction_ref = asc ''RF-'' @ hex12 customer_id, rc_destination = dest,
                    rc_tax_id = [], rc_name = nm, rc_address = or_value address [],
                    rc_income = total_owed, rc_wht = 0, rc_phone = None, rc_email = None\<rparr>
                   customer_items a
               | _ \<Rightarrow> exclude customer_id ''[the customer profile is incomplete]'' n a))
      | _ \<Rightarrow> exclude customer_id ''[no such customer profile]'' n a)"

definition aggregate_refunds ::
  "decimal_lib \<Rightarrow> customer_reader \<Rightarrow> files_db \<Rightarrow> decimal option \<Rightarrow> refund_selection
    \<Rightarrow> refund_new aggregated app_result" where
  "aggregate_refunds L reader db max_transfer sel =
     res_bind (unpaid_refund_rows db sel) (\<lambda>rows.
     let by_customer = group_runs rd_customer rows in
     res_bind (load_customer_profiles reader (dedup_ids (map fst by_customer))) (\<lambda>profiles.
     Inr (foldl (aggregate_customer L max_transfer profiles)
       \<lparr>ag_recipients = [], ag_items = [], ag_excluded = []\<rparr> by_customer)))"

record refund_request =
  rq_customer_ids :: "uuid list option"
  rq_from :: "int option"
  rq_to :: "int option"
  rq_value_date :: "day option"

definition api_export_refunds ::
  "decimal_lib \<Rightarrow> calendar \<Rightarrow> customer_reader \<Rightarrow> call_env \<Rightarrow> auth_user \<Rightarrow> refund_request
    \<Rightarrow> config_row option \<Rightarrow> files_db \<Rightarrow> (utext \<times> files_db) app_result" where
  "api_export_refunds L C reader env user req stored db =
     res_bind (require_admin user) (\<lambda>_.
     let sel = \<lparr>rs_customer_ids = rq_customer_ids req, rs_from = rq_from req, rs_to = rq_to req\<rparr> in
     res_bind (validate_refund_selection sel) (\<lambda>_.
     let now = tx_now env in
     res_bind (resolve_value_date (rq_value_date req) now) (\<lambda>value_date.
     let cfg = get_payout_config stored in
     res_bind (build_transfer_config cfg value_date) (\<lambda>config.
     res_bind (aggregate_refunds L reader db (cf_max_transfer_per_txn cfg) sel) (\<lambda>agg.
     if ag_recipients agg = [] then Inl (BadRequest ''[no refund can be transferred now]'')
     else
       let bref = scb_batch_ref C now;
           fref = scb_file_ref bref REFUND_PRODUCT;
           batch = \<lparr>pb_file_ref = fref, pb_system_ref = REFUND_SYSTEM_REF, pb_batch_ref = bref,
             pb_product = REFUND_PRODUCT, pb_service_type_code = [], pb_payer = no_payer,
             pb_config = config,
             pb_recipients = stamp_refs TXN_REF_PREFIX_REFUND bref (map ar_recipient (ag_recipients agg))\<rparr>;
           file_text = generate L C batch
       in res_bind (insert_refund_batch env db
            \<lparr>nf_file_ref = utf8 fref, nf_system_ref = utf8 (pb_system_ref batch),
             nf_batch_ref = utf8 bref, nf_value_date = pc_value_date config,
             nf_total_amount = total_transfer (pb_recipients batch),
             nf_recipient_count = int (length (pb_recipients batch)), nf_file_text = utf8 file_text,
             nf_created_by = Some (au_id user), nf_credit_account = None, nf_items = ag_items agg\<rparr>)
          (\<lambda>(_, db'). Inr (file_text, db')))))))"

subsection \<open>The platform's cut\<close>

definition DEDUCTION_PRODUCT :: scb_product where "DEDUCTION_PRODUCT = OwnAccount"
definition DEDUCTION_SYSTEM_REF :: utext where "DEDUCTION_SYSTEM_REF = asc ''PGUARD-DEDUCT''"

definition to_settled_payment :: "payment \<Rightarrow> settled_payment" where
  "to_settled_payment p =
     \<lparr>sp_amount = pm_amount p, sp_overpaid = pm_overpaid p, sp_final_amount = pm_final_amount p,
      sp_refund_amount = pm_refund_amount p, sp_subtotal = pm_subtotal p,
      sp_vat_amount = pm_vat_amount p, sp_cancelled = (pm_status p = PayRefunded),
      sp_base_fee = pm_base_fee p, sp_booked_hours = pm_booked_hours p,
      sp_guard_count = pm_guard_count p, sp_tip = pm_tip p,
      sp_commission_amount = pm_commission_amount p, sp_actual_hours = pm_actual_hours p,
      sp_wht_withheld = 0\<rparr>"

record aggregated_job =
  aj_payment :: uuid
  aj_booking :: uuid
  aj_settled_at :: instant
  aj_settlement :: job_settlement

record excluded_job =
  ej_payment :: uuid
  ej_booking :: uuid
  ej_code :: string

record aggregated_cut =
  ac_jobs :: "aggregated_job list"
  ac_excluded :: "excluded_job list"

definition cut_step :: "decimal_lib \<Rightarrow> uuid \<times> payment \<Rightarrow> aggregated_cut \<Rightarrow> aggregated_cut" where
  "cut_step L row a = (case split L (to_settled_payment (snd row)) of
     Inr settlement \<Rightarrow> a\<lparr>ac_jobs := ac_jobs a @ [\<lparr>aj_payment = fst row, aj_booking = pm_booking (snd row),
       aj_settled_at = pm_updated_at (snd row), aj_settlement = settlement\<rparr>]\<rparr>
   | Inl gap \<Rightarrow> a\<lparr>ac_excluded := ac_excluded a @ [\<lparr>ej_payment = fst row,
       ej_booking = pm_booking (snd row), ej_code = gap_code gap\<rparr>]\<rparr>)"

definition aggregate_cut :: "decimal_lib \<Rightarrow> files_db \<Rightarrow> deduction_selection \<Rightarrow> aggregated_cut app_result" where
  "aggregate_cut L db sel = res_bind (unswept_deduction_rows db sel) (\<lambda>rows.
     Inr (fold (cut_step L) rows \<lparr>ac_jobs = [], ac_excluded = []\<rparr>))"

definition total_of :: "(job_settlement \<Rightarrow> decimal) \<Rightarrow> aggregated_cut \<Rightarrow> decimal" where
  "total_of pick a = sum_list (map (pick \<circ> aj_settlement) (ac_jobs a))"

definition total_cut :: "aggregated_cut \<Rightarrow> decimal" where
  "total_cut a = total_of platform_cut a"

definition cut_item :: "aggregated_job \<Rightarrow> deduction_new" where
  "cut_item j = (let s = aj_settlement j in
     \<lparr>dn_payment = aj_payment j, dn_booking = aj_booking j, dn_commission = js_commission s,
      dn_cancellation_fee = js_cancellation_fee s, dn_tip = js_tip s,
      dn_unpaid_guard_share = js_unpaid_guard_share s,
      dn_rounding_adjustment = js_rounding_adjustment s, dn_uncollected = js_uncollected s,
      dn_amount = platform_cut s\<rparr>)"

record deduction_request =
  dq_from :: "int option"
  dq_to :: "int option"
  dq_value_date :: "day option"

definition api_export_deduction ::
  "decimal_lib \<Rightarrow> calendar \<Rightarrow> org_tax_info app_result \<Rightarrow> call_env \<Rightarrow> auth_user \<Rightarrow> deduction_request
    \<Rightarrow> config_row option \<Rightarrow> files_db \<Rightarrow> (utext \<times> files_db) app_result" where
  "api_export_deduction L C org_reader env user req stored db =
     res_bind (require_admin user) (\<lambda>_.
     let sel = \<lparr>ds_from = dq_from req, ds_to = dq_to req\<rparr> in
     res_bind (validate_deduction_selection sel) (\<lambda>_.
     let now = tx_now env in
     res_bind (resolve_value_date (dq_value_date req) now) (\<lambda>value_date.
     let cfg = get_payout_config stored in
     res_bind (build_transfer_config cfg value_date) (\<lambda>config.
     res_bind (revenue_account cfg) (\<lambda>account.
     res_bind org_reader (\<lambda>org.
     case clean_name (og_company_name org) of
       None \<Rightarrow> Inl (BadRequest ''[the company name is not set]'')
     | Some company_name \<Rightarrow>
     res_bind (aggregate_cut L db sel) (\<lambda>agg.
     if ac_jobs agg = [] then Inl (BadRequest ''[nothing to sweep in this range]'')
     else
       let cut = total_cut agg; destination = scb_account account in
       (case destination_rejection DEDUCTION_PRODUCT destination of
          Some reason \<Rightarrow> Inl (BadRequest reason)
        | None \<Rightarrow>
          (case transfer_bound_rejection destination cut (cf_max_transfer_per_txn cfg) of
             Some reason \<Rightarrow> Inl (BadRequest ''{reason} [the cut of the range is {} baht, {hint}]'')
           | None \<Rightarrow>
             let bref = scb_batch_ref C now;
                 fref = scb_file_ref bref DEDUCTION_PRODUCT;
                 batch = \<lparr>pb_file_ref = fref, pb_system_ref = DEDUCTION_SYSTEM_REF, pb_batch_ref = bref,
                   pb_product = DEDUCTION_PRODUCT, pb_service_type_code = [], pb_payer = no_payer,
                   pb_config = config,
                   pb_recipients = [\<lparr>rc_transaction_ref = transaction_ref TXN_REF_PREFIX_DEDUCTION bref 1,
                     rc_destination = destination, rc_tax_id = [], rc_name = company_name,
                     rc_address = or_value (og_address org) [], rc_income = cut, rc_wht = 0,
                     rc_phone = None, rc_email = None\<rparr>]\<rparr>;
                 file_text = generate L C batch
             in res_bind (insert_deduction_batch env db
                  \<lparr>nf_file_ref = utf8 fref, nf_system_ref = utf8 (pb_system_ref batch),
                   nf_batch_ref = utf8 bref, nf_value_date = pc_value_date config,
                   nf_total_amount = cut, nf_recipient_count = 1, nf_file_text = utf8 file_text,
                   nf_created_by = Some (au_id user), nf_credit_account = Some (utf8 account),
                   nf_items = map cut_item (ac_jobs agg)\<rparr>)
                (\<lambda>(_, db'). Inr (file_text, db')))))))))))"

end
