(* ===== verification/Scb_Properties.thy ===== *)
theory Scb_Properties
  imports Scb_File
begin

text \<open>
  The bank file as its reader sees it: every record has the number of fields of its kind, the
  credits are the recipients in order, and the totals are the sum of what the lines carry.
\<close>

definition recipient_lines :: "decimal_lib \<Rightarrow> calendar \<Rightarrow> payout_batch \<Rightarrow> payout_recipient \<Rightarrow> utext list" where
  "recipient_lines L C b r = credit_row L b r
     # (if has_wht r then [wht_header_row L C b r, wht_detail_row L b r] else [])"

lemma generate_lines_alt:
  "generate_lines L C b =
     join_fields [HEADER_CODE, sanitize_text (pb_file_ref b) MAX_FILE_REF,
        sanitize_text (pb_system_ref b) MAX_SYSTEM_REF]
     # batch_row L C b (total_transfer (pb_recipients b)) (length (pb_recipients b))
     # concat (map (recipient_lines L C b) (pb_recipients b))
     @ [join_fields [TRAILER_CODE, asc ''1'', u_nat (length (pb_recipients b)),
          format_amount L (total_transfer (pb_recipients b))]]"
  by (simp add: generate_lines_def recipient_lines_def[abs_def] Let_def del: asc_Cons)

lemma raw_okD:
  "raw_ok b \<Longrightarrow> field_safe (pb_service_type_code b)"
  "raw_ok b \<Longrightarrow> r \<in> set (pb_recipients b) \<Longrightarrow> dest_ok (rc_destination r)"
  by (simp_all add: raw_ok_def)

lemma shape_no_break: "shape c n l \<Longrightarrow> 13 \<notin> set l"
  by (simp add: shape_def)

lemma recipient_lines_read:
  assumes "calendar_ok C" "raw_ok b" "r \<in> set (pb_recipients b)" "l \<in> set (recipient_lines L C b r)"
  shows "13 \<notin> set l"
    and "(cut_at DELIM l ! 0, length (cut_at DELIM l)) \<in> {(CREDIT_CODE, 28), (WHT_CODE, 19), (WHT_DETAIL_CODE, 7)}"
  using assms(4) credit_row_reads [OF raw_okD(1) [OF assms(2)] raw_okD(2) [OF assms(2,3)], of L]
    wht_header_reads [OF assms(1), of L b r] wht_detail_reads [of L b r]
  by (auto simp: recipient_lines_def shape_def split: if_splits)

lemma read_generated:
  assumes "calendar_ok C" "raw_ok b"
  shows "read_records (generate L C b) = map (cut_at DELIM) (generate_lines L C b)"
proof -
  have free: "\<forall>l\<in>set (generate_lines L C b). 13 \<notin> set l"
    using header_reads [of b] batch_row_reads [OF assms(1), of L b "total_transfer (pb_recipients b)" "length (pb_recipients b)"]
      trailer_reads [of "length (pb_recipients b)" L "total_transfer (pb_recipients b)"]
      recipient_lines_read(1) [OF assms]
    unfolding generate_lines_alt by (auto simp: shape_def simp del: asc_Cons)
  have "generate_lines L C b \<noteq> []" by (simp add: generate_lines_alt)
  from cut_crlf_join [OF this free] show ?thesis
    unfolding generate_def read_records_def by (rule arg_cong)
qed

lemma codes_differ:
  "HEADER_CODE \<noteq> CREDIT_CODE" "BATCH_CODE \<noteq> CREDIT_CODE" "TRAILER_CODE \<noteq> CREDIT_CODE"
  "WHT_CODE \<noteq> CREDIT_CODE" "WHT_DETAIL_CODE \<noteq> CREDIT_CODE"
  by (simp_all add: HEADER_CODE_def BATCH_CODE_def CREDIT_CODE_def WHT_CODE_def WHT_DETAIL_CODE_def
      TRAILER_CODE_def)

definition is_credit :: "utext list \<Rightarrow> bool" where
  "is_credit f \<longleftrightarrow> f ! 0 = CREDIT_CODE"

lemma credits_of_recipient:
  assumes "calendar_ok C" "raw_ok b" "r \<in> set (pb_recipients b)"
  shows "filter is_credit (map (cut_at DELIM) (recipient_lines L C b r)) = [cut_at DELIM (credit_row L b r)]"
  using credit_row_reads [OF raw_okD(1) [OF assms(2)] raw_okD(2) [OF assms(2,3)], of L]
    wht_header_reads [OF assms(1), of L b r] wht_detail_reads [of L b r] codes_differ
  by (simp add: recipient_lines_def shape_def is_credit_def)

lemma credits_read:
  assumes "calendar_ok C" "raw_ok b"
  shows "filter is_credit (read_records (generate L C b)) =
    map (\<lambda>r. cut_at DELIM (credit_row L b r)) (pb_recipients b)"
proof -
  have r: "filter is_credit (map (cut_at DELIM) (concat (map (recipient_lines L C b) rs))) =
      map (\<lambda>r. cut_at DELIM (credit_row L b r)) rs" if "set rs \<subseteq> set (pb_recipients b)" for rs
    using that
  proof (induction rs)
    case (Cons r rs)
    then show ?case
      using credits_of_recipient [OF assms, of r L] by simp
  qed simp
  show ?thesis
    using r [of "pb_recipients b"] header_reads [of b] codes_differ
      batch_row_reads [OF assms(1), of L b "total_transfer (pb_recipients b)" "length (pb_recipients b)"]
      trailer_reads [of "length (pb_recipients b)" L "total_transfer (pb_recipients b)"]
    unfolding read_generated [OF assms] generate_lines_alt
    by (simp add: shape_def is_credit_def del: asc_Cons)
qed

lemma round_fixed: "decimal_ops L \<Longrightarrow> on_grid d x \<Longrightarrow> lib_round_dp L x d = x"
  using decimal_ops.round_le [of L x x d] decimal_ops.round_ge [of L x x d] by simp

lemma read_format_amount:
  assumes "decimal_ops L" "on_grid 2 x"
  shows "read_amount (format_amount L x) = x"
  by (simp add: format_amount_def round_fixed assms read_fixed2)

lemma total_on_grid:
  "\<forall>r\<in>set rs. on_grid 2 (transfer_amount r) \<Longrightarrow> on_grid 2 (total_transfer rs)"
  by (induction rs) (auto simp: total_transfer_def on_grid_add)


definition sample_calendar :: calendar where
  "sample_calendar = \<lparr>ymd = (\<lambda>_. asc ''20260105''), stamp = (\<lambda>_. asc ''050126101500'')\<rparr>"

definition sample_recipient :: payout_recipient where
  "sample_recipient = \<lparr>rc_transaction_ref = asc ''PO1'', rc_destination = ToPromptPay (asc ''081-234-5678''),
     rc_tax_id = asc ''1234567890121'', rc_name = asc ''A|B & Co'', rc_address = asc ''1 Rama'',
     rc_income = 1000, rc_wht = 30, rc_phone = None, rc_email = None\<rparr>"

definition sample_batch :: payout_batch where
  "sample_batch = \<lparr>pb_file_ref = asc ''050126101500PPY'', pb_system_ref = asc ''PGUARD-PAYOUT'',
     pb_batch_ref = asc ''050126101500'', pb_product = PromptPayProduct, pb_service_type_code = [],
     pb_payer = no_payer,
     pb_config = \<lparr>pc_debit_account = asc ''1112223334'', pc_fee_debit_account = asc ''1112223334'',
       pc_fee_charge_code = asc ''OUR'', pc_value_date = 739000, pc_wht_form_type_code = asc ''04'',
       pc_wht_pay_type_code = asc ''1'', pc_wht_income_type_code = asc ''5'',
       pc_wht_income_desc = asc ''security'', pc_wht_rate_percent = 3\<rparr>,
     pb_recipients = [sample_recipient]\<rparr>"

lemma sample_calendar_ok [simp]: "calendar_ok sample_calendar"
  by (simp add: calendar_ok_def sample_calendar_def u_digit_def)


end
