(* ===== verification/Profile_Validate.thy ===== *)
theory Profile_Validate
  imports Payment_Promptpay Shared_Error
begin

text \<open>
  The field rules of profile writes (services/profile/src/domain/validate.rs). A rule returns the
  text of its error; texts follow the convention of Shared_Error.
\<close>

type_synonym checked = "string + unit"

definition MAX_YEARS_OF_EXPERIENCE :: int where "MAX_YEARS_OF_EXPERIENCE = 80"
definition MAX_TEXT_LEN :: nat where "MAX_TEXT_LEN = 500"
definition MAX_ACCOUNT_NUMBER_LEN :: nat where "MAX_ACCOUNT_NUMBER_LEN = 34"
definition MAX_TAX_ID_LEN :: nat where "MAX_TAX_ID_LEN = 20"

definition validate_years_of_experience :: "int option \<Rightarrow> checked" where
  "validate_years_of_experience years = (case years of
     None \<Rightarrow> Inr ()
   | Some y \<Rightarrow> if 0 \<le> y \<and> y \<le> MAX_YEARS_OF_EXPERIENCE then Inr ()
       else Inl ''years_of_experience must be between 0 and {MAX_YEARS_OF_EXPERIENCE}'')"

definition validate_text :: "utext option \<Rightarrow> string \<Rightarrow> nat \<Rightarrow> checked" where
  "validate_text v field_name max_len = (case v of
     None \<Rightarrow> Inr ()
   | Some s \<Rightarrow> if length s \<le> max_len then Inr ()
       else Inl ''{field} must be at most {max} characters'')"

definition validate_email :: "utext option \<Rightarrow> checked" where
  "validate_email v = (case map_option trim_ends v of
     None \<Rightarrow> Inr ()
   | Some s \<Rightarrow> if s = [] then Inr ()
       else if 5 \<le> byte_len s \<and> byte_len s \<le> MAX_TEXT_LEN \<and> 64 \<in> set s \<and> 46 \<in> set s then Inr ()
       else Inl ''email must be a valid address'')"

definition validate_tax_id :: "utext option \<Rightarrow> checked" where
  "validate_tax_id v = (case map_option trim_ends v of
     None \<Rightarrow> Inr ()
   | Some s \<Rightarrow> if s = [] then Inr ()
       else if MAX_TAX_ID_LEN < length s then Inl ''tax_id must be at most {MAX_TAX_ID_LEN} characters''
       else if \<not> list_all (\<lambda>c. u_digit c \<or> c = 32 \<or> c = 45) s
         then Inl ''tax_id must contain only digits (spaces/hyphens allowed)''
       else let digits = filter u_digit s in
         if 8 \<le> length digits \<and> length digits \<le> MAX_TAX_ID_LEN then Inr ()
         else Inl ''tax_id must be 8-20 digits'')"

definition validate_guard_tax_id :: "utext option \<Rightarrow> checked" where
  "validate_guard_tax_id v = (case validate_tax_id v of
     Inl e \<Rightarrow> Inl e
   | Inr _ \<Rightarrow> (case map_option trim_ends v of
       None \<Rightarrow> Inr ()
     | Some s \<Rightarrow> if s = [] then Inr ()
         else let digits = filter u_digit s in
           if length digits = 13 \<and> \<not> thai_national_id_check_digit_ok digits
           then Inl ''[tax_id: the check digit of the 13-digit national id does not match]''
           else Inr ()))"

definition validate_ticket_kind :: "utext \<Rightarrow> utext list \<Rightarrow> checked" where
  "validate_ticket_kind kind allowed = (if kind \<in> set allowed then Inr ()
     else Inl ''kind must be one of: {}'')"

definition validate_ticket_message :: "utext \<Rightarrow> nat \<Rightarrow> checked" where
  "validate_ticket_message message max_len = (let trimmed = trim_ends message in
     if trimmed = [] then Inl ''message must not be empty''
     else if max_len < length trimmed then Inl ''message must be at most {max} characters''
     else Inr ())"

definition validate_thai_phone :: "utext option \<Rightarrow> string \<Rightarrow> checked" where
  "validate_thai_phone v field_name = (case map_option trim_ends v of
     None \<Rightarrow> Inr ()
   | Some s \<Rightarrow> if s = [] then Inr ()
       else let digits = filter u_digit s in
         if 10 \<le> length digits \<and> length digits \<le> 15 \<and> hd digits = 48 then Inr ()
         else Inl ''{field} must be a valid Thai phone (>=10 digits starting with 0)'')"

lemma filter_trim_ends: "filter u_digit (trim_ends s) = filter u_digit s"
proof -
  have sp: "u_space c \<Longrightarrow> \<not> u_digit c" for c by (auto simp: u_space_def u_digit_def)
  have f: "filter u_digit (dropWhile u_space t) = filter u_digit t" for t
    by (induction t) (auto dest: sp)
  show ?thesis
    unfolding trim_ends_def trim_end_def by (metis f rev_filter rev_rev_ident)
qed

lemma strict_implies_lenient: "validate_guard_tax_id v = Inr () \<Longrightarrow> validate_tax_id v = Inr ()"
  by (auto simp: validate_guard_tax_id_def split: sum.splits)

text \<open>
  The two services agree on what a national id is, whatever the text; so a guard's tax id that
  the profile service accepted is either not of thirteen digits or passes the check the payout makes
  before it addresses money to it.
\<close>
theorem accepted_tax_id_checks_out:
  shows "national_id_check_digit_ok s = thai_national_id_check_digit_ok s
    \<and> (validate_guard_tax_id (Some v) = Inr () \<longrightarrow> length (filter u_digit v) = 13
        \<longrightarrow> national_id_check_digit_ok (filter u_digit v))"
proof -
  have "national_id_check_digit_ok (filter u_digit v)"
    if ok: "validate_guard_tax_id (Some v) = Inr ()" and n: "length (filter u_digit v) = 13"
  proof -
    have "filter u_digit (trim_ends v) = filter u_digit v"
      by (rule filter_trim_ends)
    moreover from this n have "trim_ends v \<noteq> []" by auto
    ultimately show ?thesis
      using ok n by (auto simp: validate_guard_tax_id_def check_digits_agree Let_def split: sum.splits if_splits)
  qed
  then show ?thesis by (simp add: check_digits_agree)
qed

theorem accepted_tax_id_checks_out_witness:
  "validate_guard_tax_id (Some (asc ''1-2345-67890-12-1'')) = Inr ()
   \<and> national_id_check_digit_ok (asc ''1234567890121'')"
proof -
  have d: "filter u_digit (asc ''1-2345-67890-12-1'') = asc ''1234567890121''"
    by (simp add: u_digit_def)
  have "validate_guard_tax_id (Some (asc ''1-2345-67890-12-1'')) = Inr ()"
    by (simp add: validate_guard_tax_id_def validate_tax_id_def trim_ends_def trim_end_def u_space_def
        u_digit_def MAX_TAX_ID_LEN_def thai_national_id_check_digit_ok_def to_digit_def
        map_filter_simps upt_rec Let_def)
  moreover from this have "national_id_check_digit_ok (asc ''1234567890121'')"
    using accepted_tax_id_checks_out [of "[]" "asc ''1-2345-67890-12-1''"] unfolding d by simp
  ultimately show ?thesis by blast
qed

end
