(* ===== verification/Payout_Properties.thy ===== *)
theory Payout_Properties
  imports Payout_Export Scb_Properties Payment_File_Streams Payment_Properties Profile_Validate
begin

text \<open>
  The export of a payout file pays exactly what it marks as paid. The loop over the guards keeps the
  invariant \<open>lines_match\<close>: each line of the file belongs to a run of ledger items of one guard whose
  transfers it sums, and it is within the bank's bounds and addressed to a PromptPay id.
\<close>

subsection \<open>The invariant of the aggregation\<close>

definition line_matches ::
  "('i \<Rightarrow> decimal) \<Rightarrow> ('i \<Rightarrow> uuid) \<Rightarrow> decimal option \<Rightarrow> aggregated_recipient \<Rightarrow> 'i list \<Rightarrow> bool" where
  "line_matches amt owner cap r items \<longleftrightarrow> items \<noteq> [] \<and> ar_count r = length items
     \<and> (\<forall>i\<in>set items. owner i = ar_id r)
     \<and> transfer_amount (ar_recipient r) = sum_list (map amt items)
     \<and> (\<exists>v. rc_destination (ar_recipient r) = ToPromptPay v)
     \<and> destination_rejection PromptPayProduct (rc_destination (ar_recipient r)) = None
     \<and> transfer_bound_rejection (rc_destination (ar_recipient r)) (transfer_amount (ar_recipient r)) cap = None
     \<and> rc_name (ar_recipient r) \<noteq> []"

definition lines_match ::
  "('i \<Rightarrow> decimal) \<Rightarrow> ('i \<Rightarrow> uuid) \<Rightarrow> decimal option \<Rightarrow> 'i aggregated \<Rightarrow> bool" where
  "lines_match amt owner cap a \<longleftrightarrow> (\<exists>parts. ag_items a = concat parts
     \<and> list_all2 (line_matches amt owner cap) (ag_recipients a) parts)"

lemma lines_match_start: "lines_match amt owner cap \<lparr>ag_recipients = [], ag_items = [], ag_excluded = []\<rparr>"
  by (simp add: lines_match_def)

lemma lines_match_exclude: "lines_match amt owner cap a \<Longrightarrow> lines_match amt owner cap (exclude g m k a)"
  by (simp add: lines_match_def exclude_def)

lemma lines_match_admit:
  assumes a: "lines_match amt owner cap a" and "items \<noteq> []" "n = length items" "\<forall>i\<in>set items. owner i = g"
    "transfer_amount r = sum_list (map amt items)" "\<exists>v. rc_destination r = ToPromptPay v"
    "destination_rejection PromptPayProduct (rc_destination r) = None"
    "transfer_bound_rejection (rc_destination r) (transfer_amount r) cap = None" "rc_name r \<noteq> []"
  shows "lines_match amt owner cap (admit g n r items a)"
proof -
  from a obtain parts where p: "ag_items a = concat parts"
    "list_all2 (line_matches amt owner cap) (ag_recipients a) parts" by (auto simp: lines_match_def)
  have "line_matches amt owner cap \<lparr>ar_id = g, ar_count = n, ar_recipient = r\<rparr> items"
    using assms by (auto simp: line_matches_def)
  then show ?thesis
    unfolding lines_match_def using p
    by (intro exI [of _ "parts @ [items]"]) (simp add: admit_def list_all2_appendI)
qed

lemma job_payout_transfer:
  assumes "job_payout L bs rate g job = Inr i"
  shows "pn_transfer i = pn_income i - pn_wht i" "pn_guard i = g" "pn_booking i = up_booking job"
  using assms
  by (auto simp: job_payout_def res_bind_Inr_iff Let_def compute_payout_def split: option.splits)

lemma res_map_length: "res_map f xs = Inr ys \<Longrightarrow> length ys = length xs"
  unfolding res_map_Inr by (rule list_all2_lengthD [symmetric])

lemma job_payouts:
  assumes "res_map (job_payout L bs rate g) jobs = Inr items"
  shows "sum_list (map pn_transfer items) = sum_list (map pn_income items) - sum_list (map pn_wht items)"
    and "\<forall>i\<in>set items. pn_guard i = g" and "map pn_booking items = map up_booking jobs"
  using assms
  by (induction jobs arbitrary: items)
    (auto simp: res_bind_Inr_iff dest: job_payout_transfer)

lemma or_else_None: "or_else a b = None \<longleftrightarrow> a = None \<and> b = None"
  by (simp add: or_else_def split: option.split)

lemma nonempty_Some: "nonempty v = Some s \<Longrightarrow> s \<noteq> []"
  by (auto simp: nonempty_def split: option.splits if_splits)

lemma clean_name_Some: "clean_name v = Some s \<Longrightarrow> s \<noteq> []"
  by (auto simp: clean_name_def dest: nonempty_Some)

lemma aggregate_guard_match:
  assumes a: "lines_match pn_transfer pn_guard (cf_max_transfer_per_txn cfg) a"
    and s: "aggregate_guard L cfg ps bs a (g, jobs) = Inr a'" and j: "jobs \<noteq> []"
  shows "lines_match pn_transfer pn_guard (cf_max_transfer_per_txn cfg) a'"
proof -
  from s obtain items where items: "res_map (job_payout L bs (cf_wht_rate_percent cfg) g) jobs = Inr items"
    by (auto simp: aggregate_guard_def res_bind_Inr_iff)
  have n: "length jobs = length items" by (simp add: res_map_length [OF items])
  then have "items \<noteq> []" using j by auto
  note admit = lines_match_admit [OF a this n job_payouts(2) [OF items]]
  show ?thesis
    using s unfolding aggregate_guard_def fst_conv snd_conv items res_bind_simps Let_def
    by (auto split: option.splits intro!: lines_match_exclude [OF a] admit
        simp: payout_rejection_def Let_def or_else_None
        PAYOUT_PRODUCT_def transfer_amount_def job_payouts(1) [OF items]
        dest!: clean_name_Some split: if_splits)
qed

lemma res_fold_invariant:
  assumes "P s" "\<And>s x s'. x \<in> set xs \<Longrightarrow> P s \<Longrightarrow> f s x = Inr s' \<Longrightarrow> P s'" "res_fold f s xs = Inr t"
  shows "P t"
  using assms by (induction xs arbitrary: s) (auto simp: res_bind_Inr_iff)

lemma aggregate_payout_match:
  assumes "aggregate_payout L W db cfg sel = Inr agg"
  shows "lines_match pn_transfer pn_guard (cf_max_transfer_per_txn cfg) agg"
proof -
  from assms obtain rows :: "(uuid \<times> payment) list" and bs ps where
    f: "res_fold (aggregate_guard L cfg ps bs) \<lparr>ag_recipients = [], ag_items = [], ag_excluded = []\<rparr>
      (group_runs up_guard (map (to_unpaid_row \<circ> snd) rows)) = Inr agg"
    unfolding aggregate_payout_def res_bind_Inr_iff Let_def by (elim exE conjE) (rule that)
  show ?thesis
  proof (rule res_fold_invariant [where P = "lines_match pn_transfer pn_guard (cf_max_transfer_per_txn cfg)",
        OF lines_match_start _ f])
    fix a x a'
    assume x: "x \<in> set (group_runs up_guard (map (to_unpaid_row \<circ> snd) rows))"
      and a: "lines_match pn_transfer pn_guard (cf_max_transfer_per_txn cfg) a"
      and s: "aggregate_guard L cfg ps bs a x = Inr a'"
    obtain g jobs where xg: "x = (g, jobs)" by (cases x)
    have "jobs \<noteq> []"
      using group_runs_grouped [of up_guard "map (to_unpaid_row \<circ> snd) rows"] x
      unfolding grouped_def xg by fastforce
    from aggregate_guard_match [OF a s [unfolded xg] this]
    show "lines_match pn_transfer pn_guard (cf_max_transfer_per_txn cfg) a'" .
  qed
qed

subsection \<open>From the aggregation to the file\<close>

lemma stamp_refs_keeps:
  "map transfer_amount (stamp_refs p b rs) = map transfer_amount rs"
  "map rc_destination (stamp_refs p b rs) = map rc_destination rs"
  "length (stamp_refs p b rs) = length rs"
proof -
  have z: "map (f \<circ> (\<lambda>(i, r). r\<lparr>rc_transaction_ref := g i\<rparr>)) (zip [0..<length rs] rs) = map f rs"
    if "\<And>r x. f (r\<lparr>rc_transaction_ref := x\<rparr>) = f r" for f g
    using that by (intro nth_equalityI) simp_all
  show "map transfer_amount (stamp_refs p b rs) = map transfer_amount rs"
    "map rc_destination (stamp_refs p b rs) = map rc_destination rs"
    "length (stamp_refs p b rs) = length rs"
    by (simp_all add: stamp_refs_def transfer_amount_def z)
qed

definition credit_amounts :: "utext \<Rightarrow> decimal list" where
  "credit_amounts text = map (\<lambda>f. read_amount (f ! 6)) (filter is_credit (read_records text))"

lemma credit_amounts_generated:
  assumes L: "decimal_ops L" and C: "calendar_ok C" and b: "raw_ok b"
    and grid: "\<forall>r\<in>set (pb_recipients b). on_grid 2 (transfer_amount r)"
  shows "credit_amounts (generate L C b) = map transfer_amount (pb_recipients b)"
  unfolding credit_amounts_def credits_read [OF C b]
  using credit_row_reads [OF raw_okD(1) [OF b] raw_okD(2) [OF b], of _ L] grid
  by (simp add: read_format_amount [OF L])

lemma sum_grid: "\<forall>i\<in>set xs. on_grid 2 (amt i) \<Longrightarrow> on_grid 2 (sum_list (map amt xs))"
  by (induction xs) (auto simp: on_grid_add)

lemma payout_transfer_grid: "decimal_ops L \<Longrightarrow> on_grid 2 (po_transfer (compute_payout L b h c r))"
  by (simp add: compute_payout_def Let_def guard_gross_def commission_on_def on_grid_diff
      decimal_ops.round_grid)

lemma job_transfer_grid:
  "decimal_ops L \<Longrightarrow> job_payout L bs rate g job = Inr i \<Longrightarrow> on_grid 2 (pn_transfer i)"
  by (auto simp: job_payout_def res_bind_Inr_iff Let_def payout_transfer_grid split: option.splits)

lemma aggregate_items:
  assumes "aggregate_guard L cfg ps bs a (g, jobs) = Inr a'"
  shows "\<exists>new. ag_items a' = ag_items a @ new
    \<and> (new = [] \<or> res_map (job_payout L bs (cf_wht_rate_percent cfg) g) jobs = Inr new)"
proof -
  from assms obtain items where items: "res_map (job_payout L bs (cf_wht_rate_percent cfg) g) jobs = Inr items"
    by (auto simp: aggregate_guard_def res_bind_Inr_iff)
  show ?thesis
    using assms unfolding aggregate_guard_def fst_conv snd_conv items res_bind_simps Let_def
    by (auto simp: exclude_def admit_def split: option.splits)
qed

lemma res_map_grid:
  assumes "decimal_ops L" "res_map (job_payout L bs rate g) jobs = Inr items"
  shows "\<forall>i\<in>set items. on_grid 2 (pn_transfer i)"
  using assms(2) by (induction jobs arbitrary: items)
    (auto simp: res_bind_Inr_iff dest: job_transfer_grid [OF assms(1)])

lemma aggregate_payout_grid:
  assumes L: "decimal_ops L" and "aggregate_payout L W db cfg sel = Inr agg"
  shows "\<forall>i\<in>set (ag_items agg). on_grid 2 (pn_transfer i)"
proof -
  from assms(2) obtain rows :: "(uuid \<times> payment) list" and bs ps where
    f: "res_fold (aggregate_guard L cfg ps bs) \<lparr>ag_recipients = [], ag_items = [], ag_excluded = []\<rparr>
      (group_runs up_guard (map (to_unpaid_row \<circ> snd) rows)) = Inr agg"
    unfolding aggregate_payout_def res_bind_Inr_iff Let_def by (elim exE conjE) (rule that)
  show ?thesis
  proof (rule res_fold_invariant [where P = "\<lambda>a. \<forall>i\<in>set (ag_items a). on_grid 2 (pn_transfer i)", OF _ _ f])
    fix a x a'
    assume a: "\<forall>i\<in>set (ag_items a). on_grid 2 (pn_transfer i)"
      and s: "aggregate_guard L cfg ps bs a x = Inr a'"
    obtain g jobs where x: "x = (g, jobs)" by (cases x)
    show "\<forall>i\<in>set (ag_items a'). on_grid 2 (pn_transfer i)"
      using aggregate_items [OF s [unfolded x]] a res_map_grid [OF L] by fastforce
  qed simp
qed

lemma list_all2_part_in: "list_all2 P xs ps \<Longrightarrow> x \<in> set xs \<Longrightarrow> \<exists>q\<in>set ps. P x q"
  by (induction rule: list_all2_induct) auto

lemma list_all2_sums:
  "list_all2 (line_matches amt owner cap) rs parts \<Longrightarrow>
    map (transfer_amount \<circ> ar_recipient) rs = map (\<lambda>q. sum_list (map amt q)) parts"
  by (induction rule: list_all2_induct) (auto simp: line_matches_def)

lemma sum_concat: "sum_list (map f (concat ps)) = sum_list (map (\<lambda>q. sum_list (map f q)) ps)"
  for f :: "'a \<Rightarrow> rat"
  by (induction ps) simp_all

lemma max_transfer_cap: "scb_max_transfer (ToPromptPay v) \<le> 2000000"
  by (simp add: scb_max_transfer_def MAX_TRANSFER_EWALLET_def DEFAULT_MAX_TRANSFER_PER_TXN_def)

text \<open>A PromptPay file built from matching lines carries one amount per part, within the bounds.\<close>

lemma lines_make_file:
  assumes L: "decimal_ops L" and C: "calendar_ok C"
    and m: "lines_match amt owner cap agg" and grid: "\<forall>i\<in>set (ag_items agg). on_grid 2 (amt i)"
    and svc: "pb_service_type_code batch = []"
    and rs: "pb_recipients batch = stamp_refs prefix bref (map ar_recipient (ag_recipients agg))"
  shows "\<exists>parts. ag_items agg = concat parts
    \<and> credit_amounts (generate L C batch) = map (\<lambda>part. sum_list (map amt part)) parts
    \<and> (\<forall>part\<in>set parts. part \<noteq> [] \<and> (\<exists>g. \<forall>i\<in>set part. owner i = g))
    \<and> (\<forall>x\<in>set (credit_amounts (generate L C batch)). 1 / 100 \<le> x \<and> x \<le> 2000000)
    \<and> total_transfer (pb_recipients batch) = sum_list (credit_amounts (generate L C batch))
    \<and> length (pb_recipients batch) = length (credit_amounts (generate L C batch))"
proof -
  from m obtain parts where parts: "ag_items agg = concat parts"
    and lines: "list_all2 (line_matches amt owner cap) (ag_recipients agg) parts" by (auto simp: lines_match_def)
  have tr: "map transfer_amount (pb_recipients batch) = map (transfer_amount \<circ> ar_recipient) (ag_recipients agg)"
    and ds: "map rc_destination (pb_recipients batch) = map (rc_destination \<circ> ar_recipient) (ag_recipients agg)"
    by (simp_all add: rs stamp_refs_keeps)
  have line: "\<exists>part. part \<in> set parts \<and> line_matches amt owner cap r part" if "r \<in> set (ag_recipients agg)" for r
    using list_all2_part_in [OF lines that] by blast
  have "on_grid 2 x" if "x \<in> set (map transfer_amount (pb_recipients batch))" for x
    using that grid sum_grid [of _ amt] unfolding tr list_all2_sums [OF lines] parts by auto
  then have g: "\<forall>r\<in>set (pb_recipients batch). on_grid 2 (transfer_amount r)" by simp
  have "dest_ok x" if "x \<in> set (map rc_destination (pb_recipients batch))" for x
    using that line unfolding ds by (fastforce simp: line_matches_def)
  then have raw: "raw_ok batch" using svc by (simp add: raw_ok_def)
  note cr = credit_amounts_generated [OF L C raw g]
  have bounds: "1 / 100 \<le> x \<and> x \<le> 2000000" if "x \<in> set (map transfer_amount (pb_recipients batch))" for x
  proof -
    from that obtain r where r: "r \<in> set (ag_recipients agg)" "x = transfer_amount (ar_recipient r)"
      unfolding tr by auto
    with line obtain part v where "line_matches amt owner cap r part" "rc_destination (ar_recipient r) = ToPromptPay v"
      by (fastforce simp: line_matches_def)
    then show ?thesis
      using r(2) max_transfer_cap [of v]
      by (auto simp: line_matches_def transfer_in_bounds MIN_TRANSFER_PER_TXN_def)
  qed
  have runs: "part \<noteq> [] \<and> (\<exists>g. \<forall>i\<in>set part. owner i = g)" if "part \<in> set parts" for part
    using list_all2_part_in [of "\<lambda>q r. line_matches amt owner cap r q" parts "ag_recipients agg" part] that lines
    by (auto simp: line_matches_def list.rel_flip [symmetric, of "line_matches amt owner cap"] conversep_iff[abs_def])
  have "length (pb_recipients batch) = length parts"
    using arg_cong [OF tr, of length] list_all2_lengthD [OF lines] by simp
  with parts bounds runs show ?thesis
    unfolding cr
    by (intro exI [of _ parts] conjI) (simp_all add: tr list_all2_sums [OF lines] total_transfer_def)
qed

lemma insert_payout_effect:
  assumes "insert_payout_batch env db f = Inr (b, db')"
  shows "st_items (fd_payout db') = st_items (fd_payout db)
      @ map (\<lambda>i. \<lparr>it_batch = fresh_row env, it_voided_at = None, it_item = i\<rparr>) (nf_items f)"
    and "distinct (map pn_booking (nf_items f))"
    and "set (map pn_booking (nf_items f)) \<inter> set (marked pn_booking (st_items (fd_payout db))) = {}"
    and "row_get (st_batches (fd_payout db')) (fresh_row env) = Some (new_header env f (nf_recipient_count f) None)"
  using assms
  by (auto simp: insert_payout_batch_def Let_def reserve_Some add_items_def split: if_splits option.splits)


lemma export_payout_built:
  assumes "api_export_payout L C W env user req stored db = Inr (text, db')"
  obtains agg batch f where
    "aggregate_payout L W db (get_payout_config stored)
       \<lparr>ps_guard_ids = pq_guard_ids req, ps_from = pq_from req, ps_to = pq_to req\<rparr> = Inr agg"
    and "text = generate L C batch" and "pb_service_type_code batch = []"
    and "pb_recipients batch = stamp_refs TXN_REF_PREFIX_PAYOUT (scb_batch_ref C (tx_now env))
           (map ar_recipient (ag_recipients agg))"
    and "nf_file_text f = utf8 text" and "nf_total_amount f = total_transfer (pb_recipients batch)"
    and "nf_recipient_count f = int (length (pb_recipients batch))" and "nf_items f = ag_items agg"
    and "insert_payout_batch env db f = Inr (fresh_row env, db')" and "ag_recipients agg \<noteq> []"
    and "au_role user = ''admin''"
proof -
  have id: "b = fresh_row env" if "insert_payout_batch env db f = Inr (b, db')" for b f
    using that by (auto simp: insert_payout_batch_def Let_def split: if_splits option.splits)
  from assms show ?thesis
    unfolding api_export_payout_def res_bind_Inr_iff Let_def case_prod_beta
    by (elim exE conjE)
      (auto simp: res_bind_Inr_iff require_admin_def split: if_splits intro!: that dest: id)
qed

text \<open>
  C33. What a payout export marks as paid is what its file pays. The jobs newly marked (none was
  marked before, none twice) fall into one run per credit line of the file, each of one guard; the
  amount the bank reads on the line is the sum of that run's transfers, between 0.01 and 2,000,000
  baht; the stored total and recipient count are those of the lines, and the stored text is the text
  that was returned.
\<close>
theorem payout_file_pays_what_it_marks:
  assumes L: "decimal_ops L" and C: "calendar_ok C"
    and e: "api_export_payout L C W env user req stored db = Inr (text, db')"
  shows "\<exists>parts h.
    st_items (fd_payout db') = st_items (fd_payout db)
      @ map (\<lambda>i. \<lparr>it_batch = fresh_row env, it_voided_at = None, it_item = i\<rparr>) (concat parts)
    \<and> distinct (map pn_booking (concat parts))
    \<and> set (map pn_booking (concat parts)) \<inter> set (marked pn_booking (st_items (fd_payout db))) = {}
    \<and> credit_amounts text = map (\<lambda>part. sum_list (map pn_transfer part)) parts
    \<and> (\<forall>part\<in>set parts. part \<noteq> [] \<and> (\<exists>g. \<forall>i\<in>set part. pn_guard i = g))
    \<and> (\<forall>x\<in>set (credit_amounts text). 1 / 100 \<le> x \<and> x \<le> 2000000)
    \<and> row_get (st_batches (fd_payout db')) (fresh_row env) = Some h
    \<and> fh_total_amount h = sum_list (credit_amounts text)
    \<and> fh_total_amount h = sum_list (map pn_transfer (concat parts))
    \<and> fh_recipient_count h = int (length (credit_amounts text))
    \<and> fh_file_text h = utf8 text"
proof -
  from export_payout_built [OF e] obtain agg batch f
    where agg: "aggregate_payout L W db (get_payout_config stored)
        \<lparr>ps_guard_ids = pq_guard_ids req, ps_from = pq_from req, ps_to = pq_to req\<rparr> = Inr agg"
      and tx: "text = generate L C batch" and svc: "pb_service_type_code batch = []"
      and rs: "pb_recipients batch = stamp_refs TXN_REF_PREFIX_PAYOUT (scb_batch_ref C (tx_now env))
           (map ar_recipient (ag_recipients agg))"
      and f: "nf_file_text f = utf8 text" "nf_total_amount f = total_transfer (pb_recipients batch)"
        "nf_recipient_count f = int (length (pb_recipients batch))" "nf_items f = ag_items agg"
      and ins: "insert_payout_batch env db f = Inr (fresh_row env, db')" by metis
  from lines_make_file [OF L C aggregate_payout_match [OF agg] aggregate_payout_grid [OF L agg] svc rs]
  obtain parts where p: "ag_items agg = concat parts"
      "credit_amounts text = map (\<lambda>part. sum_list (map pn_transfer part)) parts"
      "\<forall>part\<in>set parts. part \<noteq> [] \<and> (\<exists>g. \<forall>i\<in>set part. pn_guard i = g)"
      "\<forall>x\<in>set (credit_amounts text). 1 / 100 \<le> x \<and> x \<le> 2000000"
      "total_transfer (pb_recipients batch) = sum_list (credit_amounts text)"
      "length (pb_recipients batch) = length (credit_amounts text)"
    unfolding tx [symmetric] by (elim exE conjE) (rule that)
  show ?thesis
    using insert_payout_effect [OF ins] p f
    by (intro exI [of _ parts] exI [of _ "new_header env f (nf_recipient_count f) None"])
      (simp add: new_header_def sum_concat comp_def)
qed

subsection \<open>An export\<close>

definition sample_account :: utext where "sample_account = asc ''1111111114''"

definition sample_config :: config_row where
  "sample_config = unset_config\<lparr>cf_debit_account := Some sample_account, cf_wht_rate_percent := 0,
     cf_revenue_account := Some sample_account\<rparr>"

definition sample_payment :: payment where
  "sample_payment = \<lparr>pm_booking = 7, pm_customer = 2, pm_guard = Some 3, pm_amount = 856,
     pm_expected_total = 856, pm_overpaid = 0, pm_final_amount = Some 856, pm_refund_amount = Some 0,
     pm_refund_status = None, pm_subtotal = Some 800, pm_vat_amount = Some 56,
     pm_commission_percent = Some 0, pm_cancellation_fee = Some 0, pm_cancellation_fee_charged = None,
     pm_method = ''promptpay'', pm_base_fee = Some 100, pm_booked_hours = Some 8,
     pm_guard_count = Some 1, pm_tip = Some 0, pm_commission_amount = Some 0,
     pm_actual_hours = Some 8, pm_status = PayCompleted, pm_paid_at = Some 0, pm_created_at = 0,
     pm_updated_at = 0\<rparr>"

definition sample_files :: files_db where
  "sample_files = \<lparr>fd_pay = empty_payment_db\<lparr>payments := [(5, sample_payment)]\<rparr>,
     fd_payout = \<lparr>st_batches = [], st_items = []\<rparr>, fd_refund = \<lparr>st_batches = [], st_items = []\<rparr>,
     fd_deduction = \<lparr>st_batches = [], st_items = []\<rparr>, fd_refs = [], fd_audit = []\<rparr>"

definition sample_org :: org_tax_info where
  "sample_org = \<lparr>og_company_name = Some (asc ''PGuard''), og_tax_id = Some (asc ''0105551234567''),
     og_address = None\<rparr>"

definition sample_world :: payout_world where
  "sample_world = \<lparr>pw_profile = (\<lambda>_. Inr \<lparr>gp_full_name = Some (asc ''Somchai''), gp_tax_id = None,
      gp_address = None, gp_phone = Some (asc ''081-234-5678'')\<rparr>),
     pw_booking = (\<lambda>_. Inl (NotFound ''Booking not found'')),
     pw_org = Inr sample_org\<rparr>"

definition sample_admin :: auth_user where
  "sample_admin = \<lparr>au_id = 1, au_role = ''admin''\<rparr>"

definition sample_request :: payout_request where
  "sample_request = \<lparr>pq_guard_ids = None, pq_from = None, pq_to = None, pq_value_date = None\<rparr>"

lemma sample_account_ok: "is_valid_scb_account sample_account" "trim_ends sample_account = sample_account"
  "sample_account \<noteq> []"
  by (simp_all add: sample_account_def is_valid_scb_account_def scb_account_check_digit_ok_def trim_ends_def
      trim_end_def u_space_def u_digit_def SCB_ACCOUNT_DIGITS_def SCB_ACCOUNT_WEIGHTS_def)

lemma sample_trims:
  "trim_ends (asc ''OUR'') = asc ''OUR''" "trim_ends (asc ''53'') = asc ''53''" "trim_ends (asc ''1'') = asc ''1''"
  "trim_ends (asc ''5'') = asc ''5''" "trim_ends (asc ''PGuard'') = asc ''PGuard''"
  "asc ''PGuard'' \<noteq> []" "asc ''0105551234567'' \<noteq> []" "length (asc ''0105551234567'') = 13"
  "digits_only (asc ''0105551234567'') = asc ''0105551234567''" "asc ''1'' \<noteq> asc ''4''"
  by (simp_all add: trim_ends_def trim_end_def u_space_def digits_only_def u_digit_def)

lemma sample_transfer_config:
  "\<exists>c. build_transfer_config sample_config d = Inr c"
  by (simp add: build_transfer_config_def sample_config_def filled_def sample_account_ok
      require_scb_account_def or_value_def unset_config_def require_fee_charge_code_def
      is_valid_fee_charge_code_def sample_trims FEE_CHARGE_CODES_def Let_def del: asc_Cons)

lemma sample_config_built: "\<exists>payer c. build_payer_and_config sample_config sample_org d = Inr (payer, c)"
proof -
  from sample_transfer_config [of d] obtain c where c: "build_transfer_config sample_config d = Inr c" ..
  have k: "require_wht_form_type (cf_wht_form_type_code sample_config) = Inr ()"
    "require_wht_pay_type (cf_wht_pay_type_code sample_config) = Inr ()"
    "require_wht_income_type (cf_wht_income_type_code sample_config) = Inr ()"
    by (simp_all add: sample_config_def unset_config_def require_wht_form_type_def
        require_wht_pay_type_def require_wht_income_type_def is_valid_wht_form_type_code_def
        is_valid_wht_pay_type_code_def is_valid_wht_income_type_code_def sample_trims
        WHT_FORM_TYPE_CODES_def WHT_PAY_TYPE_CODES_def WHT_INCOME_TYPE_CODES_def
        WHT_PAY_TYPE_CODE_OTHER_def del: asc_Cons)
  show ?thesis
    unfolding build_payer_and_config_def c k res_bind_simps
    by (simp add: or_value_def sample_org_def sample_trims tax_id_over_cap_def MAX_TAX_ID_def
        filled_def Let_def del: asc_Cons)
qed

lemma sample_backlog:
  "unpaid_payout_rows sample_files \<lparr>ps_guard_ids = None, ps_from = None, ps_to = None\<rparr> = Inr [(5, sample_payment)]"
  by (simp add: unpaid_payout_rows_def sample_files_def payout_due_def in_days_def capped_def
      MAX_PAYOUT_BACKLOG_ROWS_def sample_payment_def marked_def live_items_def empty_payment_db_def)

lemma sample_job:
  "job_payout bankers_lib bs 0 3 (to_unpaid_row sample_payment)
    = Inr \<lparr>pn_booking = 7, pn_guard = 3, pn_income = 800, pn_wht = 0, pn_transfer = 800\<rparr>"
  by (simp add: job_payout_def to_unpaid_row_def sample_payment_def compute_payout_def guard_gross_def
      commission_on_def bankers_fixed Let_def clamp_def HUNDRED_def)

lemma sample_proxy: "resolve_proxy None (Some (asc ''081-234-5678'')) = Some (asc ''0812345678'', Mobile)"
  by (simp add: resolve_proxy_def digits_only_def u_digit_def classify_proxy_def)

lemma sample_name: "clean_name (Some (asc ''Somchai'')) = Some (asc ''Somchai'')"
  by (simp add: clean_name_def sanitize_no_special_char_def sanitize_with_def sanitize_step_def
      NO_SPECIAL_CHARS_def DELIM_def u_space_def u_control_def MAX_NAME_def trim_end_def nonempty_def)

lemma sample_bounds:
  "destination_rejection PromptPayProduct (ToPromptPay (asc ''0812345678'')) = None"
  "transfer_bound_rejection (ToPromptPay (asc ''0812345678'')) 800 (Some 2000000) = None"
  by (simp_all add: destination_rejection_def transfer_bound_rejection_def scb_max_transfer_def
      digits_only_def u_digit_def PROXY_MOBILE_def PROXY_EWALLET_def MIN_TRANSFER_PER_TXN_def
      DEFAULT_MAX_TRANSFER_PER_TXN_def)

lemma sample_aggregate:
  "\<exists>a. aggregate_payout bankers_lib sample_world sample_files sample_config
      \<lparr>ps_guard_ids = None, ps_from = None, ps_to = None\<rparr> = Inr a
    \<and> ag_recipients a \<noteq> [] \<and> map pn_booking (ag_items a) = [7]"
proof -
  have c: "cf_wht_rate_percent sample_config = 0" "cf_max_transfer_per_txn sample_config = Some 2000000"
    "cf_sms_notify sample_config = False"
    by (simp_all add: sample_config_def unset_config_def DEFAULT_MAX_TRANSFER_PER_TXN_def)
  have g: "group_runs up_guard (map (to_unpaid_row \<circ> snd) [(5 :: uuid, sample_payment)])
      = [(3, [to_unpaid_row sample_payment])]"
    and fee: "up_base_fee (to_unpaid_row sample_payment) = Some 100"
    by (simp_all add: group_runs_def group_step_def to_unpaid_row_def sample_payment_def)
  show ?thesis
    unfolding aggregate_payout_def sample_backlog res_bind_simps g Let_def
    by (simp add: fee dedup_ids_def load_bookings_def load_guard_profiles_def sample_world_def
        aggregate_guard_def c sample_job sample_proxy sample_name sample_bounds payout_rejection_def
        PAYOUT_PRODUCT_def or_else_def clean_address_def nonempty_def Let_def admit_def del: asc_Cons)
qed

lemma bind_ok: "\<exists>r. m = Inr r \<Longrightarrow> \<exists>out db'. res_bind m (\<lambda>(_, db'). Inr (t, db')) = Inr (out, db')"
  by (auto simp: case_prod_beta)

lemma sample_export:
  "\<exists>out db'. api_export_payout bankers_lib sample_calendar sample_world (pay_env 9) sample_admin
     sample_request (Some sample_config) sample_files = Inr (out, db')"
proof -
  from sample_aggregate obtain a where a: "aggregate_payout bankers_lib sample_world sample_files sample_config
      \<lparr>ps_guard_ids = None, ps_from = None, ps_to = None\<rparr> = Inr a" "ag_recipients a \<noteq> []"
    "map pn_booking (ag_items a) = [7]"
    by (elim exE conjE) (rule that)
  from sample_config_built [of "next_business_day (bangkok_today (tx_now (pay_env 9)))"]
  obtain payer c where c: "build_payer_and_config sample_config sample_org
      (next_business_day (bangkok_today (tx_now (pay_env 9)))) = Inr (payer, c)"
    by (elim exE)
  have ins: "\<exists>r. insert_payout_batch (pay_env 9) sample_files f = Inr r" if "nf_items f = ag_items a" for f
    using that a(3)
    by (simp add: insert_payout_batch_def sample_files_def header_taken_def reserve_scb_file_ref_def
        add_items_def marked_def live_items_def Let_def row_get_def)
  have r: "require_admin sample_admin = Inr ()"
    "\<lparr>ps_guard_ids = pq_guard_ids sample_request, ps_from = pq_from sample_request, ps_to = pq_to sample_request\<rparr>
      = \<lparr>ps_guard_ids = None, ps_from = None, ps_to = None\<rparr>"
    "validate_payout_selection \<lparr>ps_guard_ids = None, ps_from = None, ps_to = None\<rparr> = Inr ()"
    "resolve_value_date (pq_value_date sample_request) t = Inr (next_business_day (bangkok_today t))"
    "get_payout_config (Some sample_config) = sample_config" "pw_org sample_world = Inr sample_org" for t
    by (simp_all add: sample_admin_def sample_request_def require_admin_def validate_payout_selection_def
        range_bad_def resolve_value_date_def get_payout_config_def sample_world_def)
  have ag: "(ag_recipients a = []) = False" using a(2) by simp
  show ?thesis
    unfolding api_export_payout_def r res_bind_simps Let_def c case_prod_conv a(1) ag if_False
    by (rule bind_ok, rule ins) simp
qed

theorem payout_file_pays_what_it_marks_witness:
  "\<exists>out db' h. api_export_payout bankers_lib sample_calendar sample_world (pay_env 9) sample_admin
     sample_request (Some sample_config) sample_files = Inr (out, db')
    \<and> row_get (st_batches (fd_payout db')) 9 = Some h \<and> fh_total_amount h = sum_list (credit_amounts out)"
proof -
  obtain out db' where e: "api_export_payout bankers_lib sample_calendar sample_world (pay_env 9)
      sample_admin sample_request (Some sample_config) sample_files = Inr (out, db')"
    by (rule exE [OF sample_export], elim exE) (rule that)
  have nine: "fresh_row (pay_env 9) = 9" by (simp add: pay_env_def)
  from payout_file_pays_what_it_marks [OF bankers_ops sample_calendar_ok e]
  obtain h where "row_get (st_batches (fd_payout db')) 9 = Some h"
    "fh_total_amount h = sum_list (credit_amounts out)"
    unfolding nine by (elim exE conjE) (rule that)
  with e show ?thesis by (intro exI conjI)
qed

subsection \<open>Whom the money is addressed to\<close>

text \<open>
  A guard's money goes to the digits of the tax id or of the phone, and a thirteen-digit tax id it
  goes to has passed the check digit.
\<close>

lemma resolve_proxy_source:
  assumes "resolve_proxy tax_id phone = Some (v, k)"
  shows "(\<exists>t. tax_id = Some t \<and> v = digits_only t \<and> (length v = 13 \<longrightarrow> national_id_check_digit_ok v))
    \<or> (\<exists>t. phone = Some t \<and> v = digits_only t)"
proof -
  have c: "tax_id_fails_national_id_checksum (digits_only t) = False" if "tax_id = Some t" for t
    using assms that by (auto simp: resolve_proxy_def split: if_splits)
  show ?thesis
    using assms c
    by (cases tax_id; cases phone)
      (auto simp: resolve_proxy_def tax_id_fails_national_id_checksum_def Let_def
        split: option.splits if_splits)
qed

text \<open>
  A tax id of ten digits that starts with 0 is accepted for a guard, and the payout addresses the
  money to it as if it were a mobile number, although the guard's own phone is on file; a phone of
  thirteen digits is addressed as a national id without the check digit.
\<close>

lemma short_tax_id_paid_as_mobile:
  "validate_guard_tax_id (Some (asc ''0123456789'')) = Inr ()
   \<and> resolve_proxy (Some (asc ''0123456789'')) (Some (asc ''0812345678'')) = Some (asc ''0123456789'', Mobile)"
  by (simp add: validate_guard_tax_id_def validate_tax_id_def trim_ends_def trim_end_def u_space_def
      u_digit_def MAX_TAX_ID_LEN_def Let_def resolve_proxy_def tax_id_fails_national_id_checksum_def
      digits_only_def classify_proxy_def)

lemma long_phone_paid_as_national_id:
  "resolve_proxy None (Some (asc ''0066812345678'')) = Some (asc ''0066812345678'', NationalId)
   \<and> \<not> national_id_check_digit_ok (asc ''0066812345678'')"
  by (simp add: resolve_proxy_def u_digit_def digits_only_def classify_proxy_def
      national_id_check_digit_ok_def WEIGHTS_def to_digit_def map_filter_simps)

end
