(* ===== verification/Transfer_Properties.thy ===== *)
theory Transfer_Properties
  imports Transfer_Exports Payout_Properties
begin

text \<open>
  The refund and sweep exports pay exactly what they mark, like the payout export, and a refund goes
  to a mobile number only.
\<close>

subsection \<open>Refunds\<close>

definition mobile_line :: "aggregated_recipient \<Rightarrow> bool" where
  "mobile_line r \<longleftrightarrow> (\<exists>d. rc_destination (ar_recipient r) = ToPromptPay d \<and> classify_proxy d = Some Mobile
     \<and> \<not> has_wht (ar_recipient r))"

lemma classified_mobile:
  "classify_refund_destination v = MobileNumber d \<Longrightarrow> classify_proxy d = Some Mobile"
  by (auto simp: classify_refund_destination_def split: option.splits promptpay_proxy.splits)

definition refunds_ok :: "decimal option \<Rightarrow> refund_new aggregated \<Rightarrow> bool" where
  "refunds_ok cap a \<longleftrightarrow> lines_match rn_amount rn_customer cap a \<and> (\<forall>r\<in>set (ag_recipients a). mobile_line r)
     \<and> (\<forall>i\<in>set (ag_items a). on_grid 2 (rn_amount i))"

lemma refunds_ok_exclude: "refunds_ok cap a \<Longrightarrow> refunds_ok cap (exclude c m n a)"
  using lines_match_exclude [of rn_amount rn_customer cap a c m n]
  by (simp add: refunds_ok_def exclude_def)

lemma refunds_ok_admit:
  assumes L: "decimal_ops L" and a: "refunds_ok cap a" and o: "owed \<noteq> []"
    and r: "transfer_amount r = sum_list (map rn_amount (map (refund_item L c) owed))"
      "rc_destination r = ToPromptPay d" "classify_proxy d = Some Mobile" "rc_wht r = 0"
      "destination_rejection PromptPayProduct (ToPromptPay d) = None"
      "transfer_bound_rejection (ToPromptPay d) (transfer_amount r) cap = None" "rc_name r \<noteq> []"
  shows "refunds_ok cap (admit c (length owed) r (map (refund_item L c) owed) a)"
proof -
  have "lines_match rn_amount rn_customer cap (admit c (length owed) r (map (refund_item L c) owed) a)"
    using a o r by (intro lines_match_admit) (auto simp: refunds_ok_def refund_item_def)
  moreover have "\<forall>x\<in>set (ag_recipients (admit c (length owed) r (map (refund_item L c) owed) a)). mobile_line x"
    using a r by (auto simp: refunds_ok_def admit_def mobile_line_def has_wht_def)
  moreover have "\<forall>i\<in>set (ag_items (admit c (length owed) r (map (refund_item L c) owed) a)). on_grid 2 (rn_amount i)"
    using a by (auto simp: refunds_ok_def admit_def refund_item_def decimal_ops.round_grid [OF L])
  ultimately show ?thesis by (simp add: refunds_ok_def)
qed

lemma aggregate_customer_ok:
  assumes L: "decimal_ops L" and a: "refunds_ok cap a" and o: "owed \<noteq> []"
  shows "refunds_ok cap (aggregate_customer L cap ps a (c, owed))"
proof -
  have e: "refunds_ok cap (exclude c m n a)" for m n by (rule refunds_ok_exclude [OF a])
  show ?thesis
    unfolding aggregate_customer_def fst_conv snd_conv Let_def
    by (auto split: option.splits refund_destination.splits if_splits
        simp: refund_rejection_def or_else_None REFUND_PRODUCT_def transfer_amount_def e
        dest!: clean_name_Some dest: classified_mobile intro!: refunds_ok_admit [OF L a o])
qed

lemma aggregate_refunds_ok:
  assumes L: "decimal_ops L" and "aggregate_refunds L reader db cap sel = Inr agg"
  shows "refunds_ok cap agg"
proof -
  from assms(2) obtain rows ps where agg: "agg = foldl (aggregate_customer L cap ps)
      \<lparr>ag_recipients = [], ag_items = [], ag_excluded = []\<rparr> (group_runs rd_customer rows)"
    unfolding aggregate_refunds_def res_bind_Inr_iff Let_def by auto
  have "refunds_ok cap (foldl (aggregate_customer L cap ps) a gs)"
    if "refunds_ok cap a" "grouped rd_customer gs" for a gs
    using that
  proof (induction gs arbitrary: a)
    case (Cons g gs)
    obtain c owed where g: "g = (c, owed)" by (cases g)
    have "refunds_ok cap (aggregate_customer L cap ps a (c, owed))"
      using Cons.prems by (intro aggregate_customer_ok [OF L]) (auto simp: grouped_def g)
    with Cons g show ?case by (simp add: grouped_def)
  qed simp
  moreover have "refunds_ok cap \<lparr>ag_recipients = [], ag_items = [], ag_excluded = []\<rparr>"
    using lines_match_start by (simp add: refunds_ok_def)
  ultimately show ?thesis unfolding agg using group_runs_grouped by blast
qed

lemma refund_insert_result:
  assumes "insert_refund_batch env db f = Inr (b, db')"
  shows "b = fresh_row env"
    and "st_items (fd_refund db') = st_items (fd_refund db)
      @ map (\<lambda>i. \<lparr>it_batch = fresh_row env, it_voided_at = None, it_item = i\<rparr>) (nf_items f)"
    and "distinct (map item_source (nf_items f))"
    and "set (map item_source (nf_items f)) \<inter> set (marked item_source (st_items (fd_refund db))) = {}"
    and "row_get (st_batches (fd_refund db')) (fresh_row env) = Some (new_header env f (nf_recipient_count f) None)"
  using assms
  by (auto simp: insert_refund_batch_def Let_def reserve_Some add_items_def res_bind_Inr_iff case_prod_beta
      split: if_splits option.splits)

lemma export_refunds_built:
  assumes "api_export_refunds L C reader env user req stored db = Inr (text, db')"
  obtains agg batch f where
    "aggregate_refunds L reader db (cf_max_transfer_per_txn (get_payout_config stored))
       \<lparr>rs_customer_ids = rq_customer_ids req, rs_from = rq_from req, rs_to = rq_to req\<rparr> = Inr agg"
    and "text = generate L C batch" and "pb_service_type_code batch = []"
    and "pb_recipients batch = stamp_refs TXN_REF_PREFIX_REFUND (scb_batch_ref C (tx_now env))
           (map ar_recipient (ag_recipients agg))"
    and "nf_file_text f = utf8 text" and "nf_total_amount f = total_transfer (pb_recipients batch)"
    and "nf_recipient_count f = int (length (pb_recipients batch))" and "nf_items f = ag_items agg"
    and "insert_refund_batch env db f = Inr (fresh_row env, db')"
proof -
  from assms show ?thesis
    unfolding api_export_refunds_def res_bind_Inr_iff Let_def case_prod_beta
    by (elim exE conjE)
      (auto simp: res_bind_Inr_iff split: if_splits intro!: that dest: refund_insert_result(1))
qed

definition credit_accounts :: "utext \<Rightarrow> utext list" where
  "credit_accounts text = map (\<lambda>f. f ! 2) (filter is_credit (read_records text))"

lemma credit_accounts_generated:
  assumes C: "calendar_ok C" and b: "raw_ok b"
  shows "credit_accounts (generate L C b)
    = map (\<lambda>r. digits_only (credit_account (rc_destination r))) (pb_recipients b)"
  unfolding credit_accounts_def credits_read [OF C b]
  using credit_row_reads [OF raw_okD(1) [OF b] raw_okD(2) [OF b], of _ L] by simp

lemma classify_digits_only [simp]: "classify_proxy (digits_only d) = classify_proxy d"
  by (simp add: digits_only_def)

lemma refund_accounts:
  assumes C: "calendar_ok C" and m: "\<forall>r\<in>set (ag_recipients agg). mobile_line r"
    and svc: "pb_service_type_code batch = []"
    and rs: "pb_recipients batch = stamp_refs prefix bref (map ar_recipient (ag_recipients agg))"
  shows "\<forall>a\<in>set (credit_accounts (generate L C batch)). classify_proxy a = Some Mobile"
proof -
  have ds: "map rc_destination (pb_recipients batch) = map (rc_destination \<circ> ar_recipient) (ag_recipients agg)"
    by (simp add: rs stamp_refs_keeps)
  have d: "\<exists>d. x = ToPromptPay d \<and> classify_proxy d = Some Mobile"
    if "x \<in> set (map rc_destination (pb_recipients batch))" for x
    using that m unfolding ds by (auto simp: mobile_line_def)
  then have "dest_ok (rc_destination r)" if "r \<in> set (pb_recipients batch)" for r
    using that by (metis imageI list.set_map promptpay_ok)
  then have "raw_ok batch" using svc by (simp add: raw_ok_def)
  from credit_accounts_generated [OF C this] show ?thesis
    using d by fastforce
qed

text \<open>
  C34. What a refund export marks is what its file pays back, and it pays only to mobile numbers. The
  obligations newly marked (payments or slips, none marked before, none twice) fall into one run per
  credit line, each of one customer; the amount the bank reads is the sum of the run's rounded
  amounts; the stored totals and text are those of the file; and every account credited is a
  ten-digit number that starts with 0.
\<close>
theorem refund_file_pays_what_it_marks:
  assumes L: "decimal_ops L" and C: "calendar_ok C"
    and e: "api_export_refunds L C reader env user req stored db = Inr (text, db')"
  shows "\<exists>parts h.
    st_items (fd_refund db') = st_items (fd_refund db)
      @ map (\<lambda>i. \<lparr>it_batch = fresh_row env, it_voided_at = None, it_item = i\<rparr>) (concat parts)
    \<and> distinct (map item_source (concat parts))
    \<and> set (map item_source (concat parts)) \<inter> set (marked item_source (st_items (fd_refund db))) = {}
    \<and> credit_amounts text = map (\<lambda>part. sum_list (map rn_amount part)) parts
    \<and> (\<forall>part\<in>set parts. part \<noteq> [] \<and> (\<exists>c. \<forall>i\<in>set part. rn_customer i = c))
    \<and> (\<forall>x\<in>set (credit_amounts text). 1 / 100 \<le> x \<and> x \<le> 2000000)
    \<and> (\<forall>a\<in>set (credit_accounts text). classify_proxy a = Some Mobile)
    \<and> row_get (st_batches (fd_refund db')) (fresh_row env) = Some h
    \<and> fh_total_amount h = sum_list (credit_amounts text)
    \<and> fh_recipient_count h = int (length (credit_amounts text))
    \<and> fh_file_text h = utf8 text"
proof -
  from export_refunds_built [OF e] obtain agg batch f
    where agg: "aggregate_refunds L reader db (cf_max_transfer_per_txn (get_payout_config stored))
        \<lparr>rs_customer_ids = rq_customer_ids req, rs_from = rq_from req, rs_to = rq_to req\<rparr> = Inr agg"
      and tx: "text = generate L C batch" and svc: "pb_service_type_code batch = []"
      and rs: "pb_recipients batch = stamp_refs TXN_REF_PREFIX_REFUND (scb_batch_ref C (tx_now env))
           (map ar_recipient (ag_recipients agg))"
      and f: "nf_file_text f = utf8 text" "nf_total_amount f = total_transfer (pb_recipients batch)"
        "nf_recipient_count f = int (length (pb_recipients batch))" "nf_items f = ag_items agg"
      and ins: "insert_refund_batch env db f = Inr (fresh_row env, db')" by metis
  have ok: "refunds_ok (cf_max_transfer_per_txn (get_payout_config stored)) agg"
    by (rule aggregate_refunds_ok [OF L agg])
  from lines_make_file [OF L C _ _ svc rs, of rn_amount rn_customer] ok
  obtain parts where p: "ag_items agg = concat parts"
      "credit_amounts text = map (\<lambda>part. sum_list (map rn_amount part)) parts"
      "\<forall>part\<in>set parts. part \<noteq> [] \<and> (\<exists>g. \<forall>i\<in>set part. rn_customer i = g)"
      "\<forall>x\<in>set (credit_amounts text). 1 / 100 \<le> x \<and> x \<le> 2000000"
      "total_transfer (pb_recipients batch) = sum_list (credit_amounts text)"
      "length (pb_recipients batch) = length (credit_amounts text)"
    unfolding tx [symmetric] refunds_ok_def by blast
  have acc: "\<forall>a\<in>set (credit_accounts text). classify_proxy a = Some Mobile"
    using refund_accounts [OF C _ svc rs] ok unfolding tx refunds_ok_def by blast
  show ?thesis
    using refund_insert_result [OF ins] p f acc
    by (intro exI [of _ parts] exI [of _ "new_header env f (nf_recipient_count f) None"])
      (simp add: new_header_def)
qed

subsection \<open>The sweep\<close>

lemma insert_deduction_effect:
  assumes "insert_deduction_batch env db f = Inr (b, db')"
  shows "b = fresh_row env"
    and "st_items (fd_deduction db') = st_items (fd_deduction db)
      @ map (\<lambda>i. \<lparr>it_batch = fresh_row env, it_voided_at = None, it_item = i\<rparr>) (nf_items f)"
    and "distinct (map dn_payment (nf_items f))"
    and "set (map dn_payment (nf_items f)) \<inter> set (marked dn_payment (st_items (fd_deduction db))) = {}"
    and "\<forall>i\<in>set (nf_items f). deduction_item_checked i"
    and "row_get (st_batches (fd_deduction db')) (fresh_row env)
      = Some (new_header env f 1 (Some (int (length (nf_items f)))))"
  using assms
  by (auto simp: insert_deduction_batch_def Let_def reserve_Some add_items_def list_all_iff
      split: if_splits option.splits)

lemma cut_of_items: "sum_list (map dn_amount (map cut_item js)) = sum_list (map (platform_cut \<circ> aj_settlement) js)"
  by (induction js) (simp_all add: cut_item_def Let_def)

lemma read_format_round: "decimal_ops L \<Longrightarrow> read_amount (format_amount L x) = lib_round_dp L x 2"
  by (simp add: format_amount_def read_fixed2 decimal_ops.round_grid)

lemma export_deduction_built:
  assumes "api_export_deduction L C org env user req stored db = Inr (text, db')"
  obtains agg batch f account r where
    "aggregate_cut L db \<lparr>ds_from = dq_from req, ds_to = dq_to req\<rparr> = Inr agg"
    and "text = generate L C batch" and "pb_service_type_code batch = []"
    and "pb_recipients batch = [r]" and "rc_destination r = scb_account account"
    and "transfer_amount r = total_cut agg" and "is_valid_scb_account account"
    and "1 / 100 \<le> total_cut agg"
    and "\<forall>c. cf_max_transfer_per_txn (get_payout_config stored) = Some c \<longrightarrow> total_cut agg \<le> c"
    and "nf_file_text f = utf8 text" and "nf_total_amount f = total_cut agg"
    and "nf_items f = map cut_item (ac_jobs agg)"
    and "insert_deduction_batch env db f = Inr (fresh_row env, db')"
proof -
  from assms show ?thesis
    unfolding api_export_deduction_def res_bind_Inr_iff Let_def case_prod_beta
    by (elim exE conjE)
      (auto simp: res_bind_Inr_iff transfer_amount_def transfer_in_bounds MIN_TRANSFER_PER_TXN_def
        destination_rejection_def scb_account_def DEDUCTION_PRODUCT_def
        split: if_splits option.splits intro!: that dest: insert_deduction_effect(1))
qed

text \<open>
  A sweep moves exactly what its ledger explains: the file is one credit line to the company's
  own valid SCB account, its amount (rounded to two places, as written) is the sum of the amounts of
  the jobs newly marked as swept, each of which is the sum of its recorded parts less what was never
  collected; none of them was swept before, and the sum is positive and within the configured cap.
\<close>
theorem sweep_file_moves_what_it_marks:
  assumes L: "decimal_ops L" and C: "calendar_ok C"
    and e: "api_export_deduction L C org env user req stored db = Inr (text, db')"
  shows "\<exists>jobs h account.
    st_items (fd_deduction db') = st_items (fd_deduction db)
      @ map (\<lambda>i. \<lparr>it_batch = fresh_row env, it_voided_at = None, it_item = i\<rparr>) jobs
    \<and> distinct (map dn_payment jobs)
    \<and> set (map dn_payment jobs) \<inter> set (marked dn_payment (st_items (fd_deduction db))) = {}
    \<and> (\<forall>j\<in>set jobs. dn_amount j = dn_commission j + dn_cancellation_fee j + dn_tip j
         + dn_unpaid_guard_share j + dn_rounding_adjustment j - dn_uncollected j)
    \<and> credit_amounts text = [lib_round_dp L (sum_list (map dn_amount jobs)) 2]
    \<and> credit_accounts text = [digits_only account] \<and> is_valid_scb_account account
    \<and> 1 / 100 \<le> sum_list (map dn_amount jobs)
    \<and> (\<forall>c. cf_max_transfer_per_txn (get_payout_config stored) = Some c \<longrightarrow> sum_list (map dn_amount jobs) \<le> c)
    \<and> row_get (st_batches (fd_deduction db')) (fresh_row env) = Some h
    \<and> fh_total_amount h = sum_list (map dn_amount jobs) \<and> fh_file_text h = utf8 text"
proof -
  from export_deduction_built [OF e] obtain agg batch f account r
    where tx: "text = generate L C batch" and svc: "pb_service_type_code batch = []"
      and r: "pb_recipients batch = [r]" "rc_destination r = scb_account account" "transfer_amount r = total_cut agg"
      and b: "is_valid_scb_account account" "1 / 100 \<le> total_cut agg"
        "\<forall>c. cf_max_transfer_per_txn (get_payout_config stored) = Some c \<longrightarrow> total_cut agg \<le> c"
      and f: "nf_file_text f = utf8 text" "nf_total_amount f = total_cut agg"
        "nf_items f = map cut_item (ac_jobs agg)"
      and ins: "insert_deduction_batch env db f = Inr (fresh_row env, db')" by metis
  have total: "total_cut agg = sum_list (map dn_amount (nf_items f))"
    unfolding f(3) cut_of_items by (simp add: total_cut_def total_of_def)
  have raw: "raw_ok batch" using r svc by (simp add: raw_ok_def)
  note reads = credit_row_reads [OF raw_okD(1) [OF raw] raw_okD(2) [OF raw], of r L]
  have amount: "credit_amounts text = [lib_round_dp L (total_cut agg) 2]"
    unfolding tx credit_amounts_def credits_read [OF C raw] using reads r
    by (simp add: read_format_round [OF L])
  have account: "credit_accounts text = [digits_only account]"
    unfolding tx credit_accounts_generated [OF C raw] using r by (simp add: scb_account_def)
  have parts: "\<forall>j\<in>set (nf_items f). dn_amount j = dn_commission j + dn_cancellation_fee j + dn_tip j
         + dn_unpaid_guard_share j + dn_rounding_adjustment j - dn_uncollected j"
    using insert_deduction_effect(5) [OF ins] by (simp add: deduction_item_checked_def)
  show ?thesis
    using insert_deduction_effect(2-4,6) [OF ins] parts amount account b f(1,2)
    unfolding total
    by (intro exI [of _ "nf_items f"] exI [of _ account]
        exI [of _ "new_header env f 1 (Some (int (length (nf_items f))))"])
      (simp add: new_header_def)
qed

subsection \<open>Two exports\<close>

definition sample_refunded :: payment where
  "sample_refunded = sample_payment\<lparr>pm_status := PayRefunded, pm_final_amount := Some 107,
     pm_subtotal := Some 100, pm_vat_amount := Some 7, pm_refund_amount := Some 749,
     pm_refund_status := Some ''pending'', pm_actual_hours := None\<rparr>"

definition sample_refund_files :: files_db where
  "sample_refund_files = sample_files\<lparr>fd_pay := empty_payment_db\<lparr>payments := [(5, sample_refunded)]\<rparr>\<rparr>"

definition sample_reader :: customer_reader where
  "sample_reader = (\<lambda>_. Inr \<lparr>cp_full_name = Some (asc ''Somchai''), cp_phone = Some (asc ''081-234-5678''),
     cp_address = None\<rparr>)"

definition sample_refund_request :: refund_request where
  "sample_refund_request = \<lparr>rq_customer_ids = None, rq_from = None, rq_to = None, rq_value_date = None\<rparr>"

definition sample_sweep_request :: deduction_request where
  "sample_sweep_request = \<lparr>dq_from = None, dq_to = None, dq_value_date = None\<rparr>"

definition sample_due :: refund_due where
  "sample_due = \<lparr>rd_kind = ''payment'', rd_source = 5, rd_booking = 7, rd_customer = 2, rd_amount = 749,
     rd_owed_at = 0\<rparr>"

lemma sample_refund_backlog:
  "unpaid_refund_rows sample_refund_files \<lparr>rs_customer_ids = None, rs_from = None, rs_to = None\<rparr> = Inr [sample_due]"
  by (simp add: unpaid_refund_rows_def sample_refund_files_def sample_files_def payments_due_def slips_due_def
      in_days_def capped_def MAX_REFUND_BACKLOG_ROWS_def sample_refunded_def sample_payment_def
      marked_def live_items_def empty_payment_db_def map_filter_simps payment_pending_def
      refund_marked_def sample_due_def)

lemma sample_classified: "classify_refund_destination (Some (asc ''081-234-5678'')) = MobileNumber (asc ''0812345678'')"
  by (simp add: classify_refund_destination_def nonempty_def digits_only_def u_digit_def classify_proxy_def)

lemma sample_bound_749:
  "transfer_bound_rejection (ToPromptPay (asc ''0812345678'')) 749 (Some 2000000) = None"
  by (simp add: transfer_bound_rejection_def scb_max_transfer_def digits_only_def u_digit_def
      PROXY_MOBILE_def PROXY_EWALLET_def MIN_TRANSFER_PER_TXN_def DEFAULT_MAX_TRANSFER_PER_TXN_def)

lemma sample_refund_aggregate:
  "\<exists>a. aggregate_refunds bankers_lib sample_reader sample_refund_files (Some 2000000)
      \<lparr>rs_customer_ids = None, rs_from = None, rs_to = None\<rparr> = Inr a
    \<and> ag_recipients a \<noteq> [] \<and> ag_items a = [refund_item bankers_lib 2 sample_due]"
proof -
  have g: "group_runs rd_customer [sample_due] = [(2, [sample_due])]"
    by (simp add: group_runs_def group_step_def sample_due_def)
  have i: "rn_amount (refund_item bankers_lib c sample_due) = 749" for c
    by (simp add: refund_item_def sample_due_def bankers_fixed)
  show ?thesis
    unfolding aggregate_refunds_def sample_refund_backlog res_bind_simps g Let_def
    by (simp add: dedup_ids_def load_customer_profiles_def sample_reader_def aggregate_customer_def
        sample_name sample_classified sample_bounds sample_bound_749 refund_rejection_def i
        REFUND_PRODUCT_def or_else_def clean_address_def nonempty_def Let_def admit_def del: asc_Cons)
qed

lemma kind_payment: "kind_parse ''payment'' = Some PaymentSource"
  by code_simp

lemma sample_refund_export:
  "\<exists>out db'. api_export_refunds bankers_lib sample_calendar sample_reader (pay_env 9) sample_admin
     sample_refund_request (Some sample_config) sample_refund_files = Inr (out, db')"
proof -
  from sample_refund_aggregate obtain a where a: "aggregate_refunds bankers_lib sample_reader
      sample_refund_files (Some 2000000) \<lparr>rs_customer_ids = None, rs_from = None, rs_to = None\<rparr> = Inr a"
    "ag_recipients a \<noteq> []" "ag_items a = [refund_item bankers_lib 2 sample_due]"
    by (elim exE conjE) (rule that)
  from sample_transfer_config [of "next_business_day (bangkok_today (tx_now (pay_env 9)))"]
  obtain c where c: "build_transfer_config sample_config
      (next_business_day (bangkok_today (tx_now (pay_env 9)))) = Inr c" by (elim exE)
  have item: "refund_item bankers_lib 2 sample_due = \<lparr>rn_kind = ''payment'', rn_source = 5, rn_booking = 7,
      rn_customer = 2, rn_amount = 749\<rparr>"
    by (simp add: refund_item_def sample_due_def bankers_fixed)
  have ins: "\<exists>r. insert_refund_batch (pay_env 9) sample_refund_files f = Inr r" if "nf_items f = ag_items a" for f
    using that a(3)
    by (simp add: insert_refund_batch_def sample_refund_files_def sample_files_def header_taken_def
        reserve_scb_file_ref_def add_items_def marked_def live_items_def Let_def row_get_def item
        refund_item_checked_def kind_payment split_refund_sources_def count_payments_def
        count_slips_def empty_payment_db_def payment_pending_def sample_refunded_def sample_payment_def) force
  have r: "require_admin sample_admin = Inr ()"
    "\<lparr>rs_customer_ids = rq_customer_ids sample_refund_request, rs_from = rq_from sample_refund_request,
       rs_to = rq_to sample_refund_request\<rparr> = \<lparr>rs_customer_ids = None, rs_from = None, rs_to = None\<rparr>"
    "validate_refund_selection \<lparr>rs_customer_ids = None, rs_from = None, rs_to = None\<rparr> = Inr ()"
    "resolve_value_date (rq_value_date sample_refund_request) t = Inr (next_business_day (bangkok_today t))"
    "get_payout_config (Some sample_config) = sample_config"
    "cf_max_transfer_per_txn sample_config = Some 2000000" for t
    by (simp_all add: sample_admin_def sample_refund_request_def require_admin_def validate_refund_selection_def
        range_bad_def resolve_value_date_def get_payout_config_def sample_config_def unset_config_def
        DEFAULT_MAX_TRANSFER_PER_TXN_def)
  have ag: "(ag_recipients a = []) = False" using a(2) by simp
  show ?thesis
    unfolding api_export_refunds_def r res_bind_simps Let_def c case_prod_conv a(1) ag if_False
    by (rule bind_ok, rule ins) simp
qed

theorem refund_file_pays_what_it_marks_witness:
  "\<exists>out db' h. api_export_refunds bankers_lib sample_calendar sample_reader (pay_env 9) sample_admin
     sample_refund_request (Some sample_config) sample_refund_files = Inr (out, db')
    \<and> row_get (st_batches (fd_refund db')) 9 = Some h \<and> fh_total_amount h = sum_list (credit_amounts out)"
proof -
  obtain out db' where e: "api_export_refunds bankers_lib sample_calendar sample_reader (pay_env 9)
      sample_admin sample_refund_request (Some sample_config) sample_refund_files = Inr (out, db')"
    by (rule exE [OF sample_refund_export], elim exE) (rule that)
  have nine: "fresh_row (pay_env 9) = 9" by (simp add: pay_env_def)
  from refund_file_pays_what_it_marks [OF bankers_ops sample_calendar_ok e]
  obtain h where "row_get (st_batches (fd_refund db')) 9 = Some h"
    "fh_total_amount h = sum_list (credit_amounts out)"
    unfolding nine by (elim exE conjE) (rule that)
  with e show ?thesis by (intro exI conjI)
qed

definition sample_cut :: job_settlement where
  "sample_cut = cancelled_split 856 749 0 7 100"

lemma sample_sweep_aggregate:
  "aggregate_cut bankers_lib sample_refund_files \<lparr>ds_from = None, ds_to = None\<rparr>
    = Inr \<lparr>ac_jobs = [\<lparr>aj_payment = 5, aj_booking = 7, aj_settled_at = 0, aj_settlement = sample_cut\<rparr>],
        ac_excluded = []\<rparr>"
proof -
  have rows: "unswept_deduction_rows sample_refund_files \<lparr>ds_from = None, ds_to = None\<rparr> = Inr [(5, sample_refunded)]"
    by (simp add: unswept_deduction_rows_def sample_refund_files_def sample_files_def sweep_due_def
        in_days_def capped_def MAX_SWEEP_BACKLOG_ROWS_def sample_refunded_def sample_payment_def
        marked_def live_items_def empty_payment_db_def)
  have sp: "split bankers_lib (to_settled_payment sample_refunded) = Inr sample_cut"
    by (simp add: split_def to_settled_payment_def sample_refunded_def sample_payment_def sample_cut_def
        cancelled_split_def components_ok_def reconciles_def reconstructed_def billed_cut_def platform_cut_def)
  show ?thesis
    unfolding aggregate_cut_def rows
    by (simp add: cut_step_def sp) (simp add: sample_refunded_def sample_payment_def)
qed

lemma sample_sweep_export:
  "\<exists>out db'. api_export_deduction bankers_lib sample_calendar (Inr sample_org) (pay_env 9) sample_admin
     sample_sweep_request (Some sample_config) sample_refund_files = Inr (out, db')"
proof -
  from sample_transfer_config [of "next_business_day (bangkok_today (tx_now (pay_env 9)))"]
  obtain c where c: "build_transfer_config sample_config
      (next_business_day (bangkok_today (tx_now (pay_env 9)))) = Inr c" by (elim exE)
  have acc: "revenue_account sample_config = Inr sample_account"
    by (simp add: revenue_account_def sample_config_def unset_config_def filled_def sample_account_ok
        require_scb_account_def)
  have name: "\<exists>n. clean_name (og_company_name sample_org) = Some n"
    by (simp add: sample_org_def clean_name_def sanitize_no_special_char_def sanitize_with_def
        sanitize_step_def NO_SPECIAL_CHARS_def DELIM_def u_space_def u_control_def MAX_NAME_def
        trim_end_def nonempty_def)
  then obtain n where n: "clean_name (og_company_name sample_org) = Some n" by (elim exE)
  have dest: "destination_rejection DEDUCTION_PRODUCT (scb_account sample_account) = None"
    by (simp add: destination_rejection_def DEDUCTION_PRODUCT_def scb_account_def bank_scb_def
        is_scb_def sample_account_ok)
  have bound: "transfer_bound_rejection (scb_account sample_account)
      (total_cut \<lparr>ac_jobs = [\<lparr>aj_payment = 5, aj_booking = 7, aj_settled_at = 0, aj_settlement = sample_cut\<rparr>],
        ac_excluded = []\<rparr>) (cf_max_transfer_per_txn sample_config) = None"
    by (simp add: transfer_bound_rejection_def scb_max_transfer_def scb_account_def total_cut_def
        total_of_def sample_cut_def cancelled_split_def platform_cut_def billed_cut_def
        MIN_TRANSFER_PER_TXN_def MAX_TRANSFER_BANK_ACCOUNT_def sample_config_def unset_config_def
        DEFAULT_MAX_TRANSFER_PER_TXN_def)
  have ins: "\<exists>r. insert_deduction_batch (pay_env 9) sample_refund_files f = Inr r"
    if "nf_items f = map cut_item [\<lparr>aj_payment = 5, aj_booking = 7, aj_settled_at = 0, aj_settlement = sample_cut\<rparr>]" for f
    using that
    by (simp add: insert_deduction_batch_def sample_refund_files_def sample_files_def header_taken_def
        reserve_scb_file_ref_def add_items_def marked_def live_items_def Let_def row_get_def cut_item_def
        sample_cut_def cancelled_split_def platform_cut_def billed_cut_def deduction_item_checked_def)
  have r: "require_admin sample_admin = Inr ()"
    "\<lparr>ds_from = dq_from sample_sweep_request, ds_to = dq_to sample_sweep_request\<rparr> = \<lparr>ds_from = None, ds_to = None\<rparr>"
    "validate_deduction_selection \<lparr>ds_from = None, ds_to = None\<rparr> = Inr ()"
    "resolve_value_date (dq_value_date sample_sweep_request) t = Inr (next_business_day (bangkok_today t))"
    "get_payout_config (Some sample_config) = sample_config" for t
    by (simp_all add: sample_admin_def sample_sweep_request_def require_admin_def
        validate_deduction_selection_def range_bad_def resolve_value_date_def get_payout_config_def)
  have ag: "(ac_jobs \<lparr>ac_jobs = [\<lparr>aj_payment = 5, aj_booking = 7, aj_settled_at = 0, aj_settlement = sample_cut\<rparr>],
        ac_excluded = []\<rparr> = []) = False" by simp
  show ?thesis
    unfolding api_export_deduction_def r res_bind_simps Let_def c case_prod_conv acc n option.case
      sample_sweep_aggregate ag if_False dest bound
    by (rule bind_ok, rule ins) simp
qed

theorem sweep_file_moves_what_it_marks_witness:
  "\<exists>out db' h. api_export_deduction bankers_lib sample_calendar (Inr sample_org) (pay_env 9) sample_admin
     sample_sweep_request (Some sample_config) sample_refund_files = Inr (out, db')
    \<and> row_get (st_batches (fd_deduction db')) 9 = Some h \<and> fh_file_text h = utf8 out"
proof -
  obtain out db' where e: "api_export_deduction bankers_lib sample_calendar (Inr sample_org) (pay_env 9)
      sample_admin sample_sweep_request (Some sample_config) sample_refund_files = Inr (out, db')"
    by (rule exE [OF sample_sweep_export], elim exE) (rule that)
  have nine: "fresh_row (pay_env 9) = 9" by (simp add: pay_env_def)
  from sweep_file_moves_what_it_marks [OF bankers_ops sample_calendar_ok e]
  obtain h where "row_get (st_batches (fd_deduction db')) 9 = Some h" "fh_file_text h = utf8 out"
    unfolding nine by (elim exE conjE) (rule that)
  with e show ?thesis by (intro exI conjI)
qed

end
