(* ===== verification/Redis_Store.thy ===== *)
theory Redis_Store
  imports Shared_Error
begin

text \<open>
  The cache the services share (Redis). A key holds a value and, when it was given a time to live,
  the instant it expires at; an expired key is as good as absent. Only the commands the services
  send are here: \<open>GET\<close>, \<open>SET\<close>, \<open>SET .. EX\<close>, \<open>SET .. NX EX\<close>, \<open>GETDEL\<close>, \<open>DEL\<close>, \<open>EXISTS\<close>, \<open>TTL\<close>,
  \<open>EXPIRE\<close>, \<open>INCR\<close> and \<open>DECR\<close>. A value is a text or the number a counter holds.

  An outage is modelled per call: \<open>up\<close> says whether the server answers during the call, and every
  command of a call made while it does not answer fails.
\<close>

datatype redis_value = RText string | RNum int

type_synonym redis_entry = "redis_value \<times> instant option"
type_synonym redis = "string \<Rightarrow> redis_entry option"

definition redis_unreachable :: app_error where
  "redis_unreachable = Redis ''[the driver's text]''"

definition r_live :: "instant \<Rightarrow> redis \<Rightarrow> string \<Rightarrow> redis_entry option" where
  "r_live now db k = (case db k of
     Some (v, Some deadline) \<Rightarrow> if now < deadline then Some (v, Some deadline) else None
   | other \<Rightarrow> other)"

definition r_get :: "instant \<Rightarrow> redis \<Rightarrow> string \<Rightarrow> redis_value option" where
  "r_get now db k = map_option fst (r_live now db k)"

definition r_exists :: "instant \<Rightarrow> redis \<Rightarrow> string \<Rightarrow> bool" where
  "r_exists now db k = (r_live now db k \<noteq> None)"

definition r_set :: "string \<Rightarrow> redis_value \<Rightarrow> redis \<Rightarrow> redis" where
  "r_set k v db = db(k \<mapsto> (v, None))"

definition r_set_ex :: "instant \<Rightarrow> string \<Rightarrow> redis_value \<Rightarrow> int \<Rightarrow> redis \<Rightarrow> redis" where
  "r_set_ex now k v secs db = db(k \<mapsto> (v, Some (now + seconds secs)))"

definition r_set_nx_ex :: "instant \<Rightarrow> string \<Rightarrow> redis_value \<Rightarrow> int \<Rightarrow> redis \<Rightarrow> bool \<times> redis" where
  "r_set_nx_ex now k v secs db =
    (if r_exists now db k then (False, db) else (True, r_set_ex now k v secs db))"

definition r_del :: "string \<Rightarrow> redis \<Rightarrow> redis" where
  "r_del k db = db(k := None)"

definition r_getdel :: "instant \<Rightarrow> string \<Rightarrow> redis \<Rightarrow> redis_value option \<times> redis" where
  "r_getdel now k db = (r_get now db k, r_del k db)"

text \<open>
  \<open>TTL\<close> answers -2 for an absent key, -1 for a key without a time to live, and otherwise the
  remaining time in seconds, to the nearest second.
\<close>

definition r_ttl :: "instant \<Rightarrow> redis \<Rightarrow> string \<Rightarrow> int" where
  "r_ttl now db k = (case r_live now db k of
     None \<Rightarrow> - 2
   | Some (_, None) \<Rightarrow> - 1
   | Some (_, Some deadline) \<Rightarrow> (deadline - now + nanos_per_sec div 2) div nanos_per_sec)"

definition r_expire :: "instant \<Rightarrow> string \<Rightarrow> int \<Rightarrow> redis \<Rightarrow> redis" where
  "r_expire now k secs db = (case r_live now db k of
     None \<Rightarrow> db
   | Some (v, _) \<Rightarrow> db(k \<mapsto> (v, Some (now + seconds secs))))"

text \<open>A counter command keeps the time to live; it starts an absent key at 0 and fails on a text.\<close>

definition r_add :: "instant \<Rightarrow> string \<Rightarrow> int \<Rightarrow> redis \<Rightarrow> (int \<times> redis) option" where
  "r_add now k by db = (case r_live now db k of
     None \<Rightarrow> Some (by, db(k \<mapsto> (RNum by, None)))
   | Some (RNum n, e) \<Rightarrow> Some (n + by, db(k \<mapsto> (RNum (n + by), e)))
   | Some (RText _, _) \<Rightarrow> None)"

definition r_incr :: "instant \<Rightarrow> string \<Rightarrow> redis \<Rightarrow> (int \<times> redis) option" where
  "r_incr now k db = r_add now k 1 db"

definition r_decr :: "instant \<Rightarrow> string \<Rightarrow> redis \<Rightarrow> redis" where
  "r_decr now k db = (case r_add now k (- 1) db of Some (_, db') \<Rightarrow> db' | None \<Rightarrow> db)"

subsection \<open>Reading after writing\<close>

lemma r_live_upd: "r_live now (db(k := e)) j = (if j = k then r_live now (\<lambda>_. e) k else r_live now db j)"
  by (simp add: r_live_def)

lemma r_live_set_ex [simp]:
  "r_live now (r_set_ex t k v secs db) j =
    (if j = k then (if now < t + seconds secs then Some (v, Some (t + seconds secs)) else None)
     else r_live now db j)"
  by (simp add: r_set_ex_def r_live_def)

lemma r_live_set [simp]:
  "r_live now (r_set k v db) j = (if j = k then Some (v, None) else r_live now db j)"
  by (simp add: r_set_def r_live_def)

lemma r_live_del [simp]: "r_live now (r_del k db) j = (if j = k then None else r_live now db j)"
  by (simp add: r_del_def r_live_def)

lemma r_live_expire_other [simp]: "j \<noteq> k \<Longrightarrow> r_live now (r_expire t k secs db) j = r_live now db j"
  by (auto simp: r_expire_def r_live_def split: option.splits)

lemma r_add_other: "r_add t k by db = Some (n, db') \<Longrightarrow> j \<noteq> k \<Longrightarrow> db' j = db j"
  by (auto simp: r_add_def split: option.splits redis_value.splits)

lemma r_set_ex_other [simp]: "j \<noteq> k \<Longrightarrow> r_set_ex t k v secs db j = db j"
  by (simp add: r_set_ex_def)

lemma r_del_other [simp]: "j \<noteq> k \<Longrightarrow> r_del k db j = db j"
  by (simp add: r_del_def)

lemma r_set_other [simp]: "j \<noteq> k \<Longrightarrow> r_set k v db j = db j"
  by (simp add: r_set_def)

lemma r_expire_other [simp]: "j \<noteq> k \<Longrightarrow> r_expire t k secs db j = db j"
  by (auto simp: r_expire_def split: option.splits)

lemma r_decr_other [simp]: "j \<noteq> k \<Longrightarrow> r_decr t k db j = db j"
  by (auto simp: r_decr_def dest: r_add_other split: option.splits)

lemma r_live_cong: "db j = db' j \<Longrightarrow> r_live now db j = r_live now db' j"
  by (simp add: r_live_def)

lemma r_get_cong: "db j = db' j \<Longrightarrow> r_get now db j = r_get now db' j"
  by (simp add: r_get_def r_live_def)

lemma r_get_simps [simp]:
  "r_get now (r_set_ex t k v secs db) k = (if now < t + seconds secs then Some v else None)"
  "r_get now (r_set k v db) k = Some v"
  "r_get now (r_del k db) k = None"
  "j \<noteq> k \<Longrightarrow> r_get now (r_set_ex t k v secs db) j = r_get now db j"
  "j \<noteq> k \<Longrightarrow> r_get now (r_set k v db) j = r_get now db j"
  "j \<noteq> k \<Longrightarrow> r_get now (r_del k db) j = r_get now db j"
  by (simp_all add: r_get_def)

text \<open>A key that is dead stays dead until somebody writes it.\<close>

lemma r_live_mono: "r_live t db k = None \<Longrightarrow> t \<le> t' \<Longrightarrow> r_live t' db k = None"
  by (auto simp: r_live_def split: option.splits if_splits)

subsection \<open>Single-use markers\<close>

text \<open>
  The pattern of every single-use token: the issuer sets a marker under the token's id, and the
  consumer takes it with \<open>GETDEL\<close>; whoever takes it first is the only one who does.
\<close>

definition marker_valid :: "redis_value option \<Rightarrow> bool" where
  "marker_valid v = (v = Some (RText ''valid''))"

definition take_marker :: "instant \<Rightarrow> string \<Rightarrow> redis \<Rightarrow> bool \<times> redis" where
  "take_marker now k db = (let (v, db') = r_getdel now k db in (marker_valid v, db'))"

definition put_marker :: "instant \<Rightarrow> string \<Rightarrow> int \<Rightarrow> redis \<Rightarrow> redis" where
  "put_marker now k secs db = r_set_ex now k (RText ''valid'') secs db"

locale single_use =
  fixes issue :: "'k \<Rightarrow> 's \<Rightarrow> 's"
    and claim :: "'k \<Rightarrow> 's \<Rightarrow> bool \<times> 's"
    and available :: "'s \<Rightarrow> 'k \<Rightarrow> bool"
  assumes claim_iff: "fst (claim k s) = available s k"
    and claim_spends: "\<not> available (snd (claim k s)) k"
    and claim_other: "j \<noteq> k \<Longrightarrow> available (snd (claim k s)) j = available s j"
    and issue_other: "j \<noteq> k \<Longrightarrow> available (issue k s) j = available s j"
begin

text \<open>Of any number of claims of a key that nobody issues again, at most the first succeeds.\<close>

lemma claims_spent: "\<not> available s k \<Longrightarrow> \<not> available (fold (\<lambda>j. snd \<circ> claim j) js s) k"
proof (induction js arbitrary: s)
  case Nil
  then show ?case by simp
next
  case (Cons j js)
  have "\<not> available (snd (claim j s)) k"
    using Cons.prems claim_spends [of j s] claim_other [of k j s] by (cases "j = k") auto
  then show ?case using Cons.IH by simp
qed

lemma claimed_once: "\<not> fst (claim k (fold (\<lambda>j. snd \<circ> claim j) js (snd (claim k s))))"
  by (simp add: claim_iff claims_spent claim_spends)

end

lemma take_marker_simps:
  "fst (take_marker now k db) = marker_valid (r_get now db k)"
  "snd (take_marker now k db) = r_del k db"
  by (simp_all add: take_marker_def r_getdel_def)

interpretation marker: single_use "\<lambda>k. put_marker now k secs" "take_marker now"
    "\<lambda>db k. marker_valid (r_get now db k)"
  by unfold_locales (simp_all add: take_marker_simps put_marker_def marker_valid_def)

end
