(* ===== verification/Text_Ops.thy ===== *)
theory Text_Ops
  imports Prelude
begin

text \<open>
  The operations of \<open>str\<close> the services use on identifiers, headers and tokens, on the UTF-8 bytes of
  the text. Splitting and stripping look for ASCII separators only, so bytes and characters agree.
\<close>

text \<open>The decimal text of a number: it holds digits only and determines the number.\<close>

definition strip_prefix :: "string \<Rightarrow> string \<Rightarrow> string option" where
  "strip_prefix p s = (if take (length p) s = p then Some (drop (length p) s) else None)"

definition split_once :: "char \<Rightarrow> string \<Rightarrow> (string \<times> string) option" where
  "split_once c s =
    (if c \<in> set s
     then Some (takeWhile (\<lambda>x. x \<noteq> c) s, tl (dropWhile (\<lambda>x. x \<noteq> c) s)) else None)"

fun split_all :: "char \<Rightarrow> string \<Rightarrow> string list" where
  "split_all c [] = [[]]"
| "split_all c (x # s) =
    (if x = c then [] # split_all c s
     else (case split_all c s of [] \<Rightarrow> [[x]] | w # ws \<Rightarrow> (x # w) # ws))"

definition lower_char :: "char \<Rightarrow> char" where
  "lower_char c = (if 65 \<le> byte_of c \<and> byte_of c \<le> 90 then char_of (byte_of c + 32) else c)"

definition ascii_lower :: "string \<Rightarrow> string" where
  "ascii_lower s = map lower_char s"

definition upper_char :: "char \<Rightarrow> char" where
  "upper_char c = (if 97 \<le> byte_of c \<and> byte_of c \<le> 122 then char_of (byte_of c - 32) else c)"

definition ascii_upper :: "string \<Rightarrow> string" where
  "ascii_upper s = map upper_char s"

definition is_ascii_alnum :: "char \<Rightarrow> bool" where
  "is_ascii_alnum c = (is_ascii_digit c \<or> (65 \<le> byte_of c \<and> byte_of c \<le> 90)
     \<or> (97 \<le> byte_of c \<and> byte_of c \<le> 122))"

definition is_ascii_hex :: "char \<Rightarrow> bool" where
  "is_ascii_hex c = (is_ascii_digit c \<or> (65 \<le> byte_of c \<and> byte_of c \<le> 70)
     \<or> (97 \<le> byte_of c \<and> byte_of c \<le> 102))"

definition ascii_digits :: "string \<Rightarrow> string" where
  "ascii_digits s = filter is_ascii_digit s"

definition starts_with :: "string \<Rightarrow> string \<Rightarrow> bool" where
  "starts_with p s = (take (length p) s = p)"

lemma strip_prefix_append [simp]: "strip_prefix p (p @ s) = Some s"
  by (simp add: strip_prefix_def)

lemma strip_prefix_Some: "strip_prefix p s = Some r \<longleftrightarrow> s = p @ r"
  by (auto simp: strip_prefix_def) (metis append_take_drop_id)

lemma split_once_Some:
  assumes "split_once c s = Some (a, b)"
  shows "s = a @ c # b \<and> c \<notin> set a"
proof -
  have c: "c \<in> set s" and a: "a = takeWhile (\<lambda>x. x \<noteq> c) s"
    and b: "b = tl (dropWhile (\<lambda>x. x \<noteq> c) s)"
    using assms by (auto simp: split_once_def split: if_splits)
  obtain x r where d: "dropWhile (\<lambda>x. x \<noteq> c) s = x # r"
    using c by (cases "dropWhile (\<lambda>x. x \<noteq> c) s") auto
  have "x = c" using hd_dropWhile [of "\<lambda>x. x \<noteq> c" s] d by auto
  then have "s = a @ c # b"
    using takeWhile_dropWhile_id [of "\<lambda>x. x \<noteq> c" s] a b d by simp
  moreover have "c \<notin> set a" unfolding a by (auto dest: set_takeWhileD)
  ultimately show ?thesis by simp
qed

lemma split_once_join: "c \<notin> set a \<Longrightarrow> split_once c (a @ c # b) = Some (a, b)"
proof -
  assume a: "c \<notin> set a"
  have "takeWhile (\<lambda>x. x \<noteq> c) (a @ c # b) = a"
    using a by (subst takeWhile_append2) auto
  moreover have "dropWhile (\<lambda>x. x \<noteq> c) (a @ c # b) = c # b"
    using a by (subst dropWhile_append2) auto
  ultimately show ?thesis by (simp add: split_once_def)
qed

lemma ascii_digits_idem [simp]: "ascii_digits (ascii_digits s) = ascii_digits s"
  by (simp add: ascii_digits_def)

lemma set_ascii_digits: "c \<in> set (ascii_digits s) \<Longrightarrow> is_ascii_digit c"
  by (simp add: ascii_digits_def)

lemma hex_digit_hex: "n < 16 \<Longrightarrow> is_ascii_hex (hex_digit n)"
  by (auto simp: hex_digit_def is_ascii_hex_def is_ascii_digit_def byte_of_def)

lemma length_hex_digits [simp]: "length (hex_digits k n) = k"
  by (induction k arbitrary: n) auto

lemma hex_digits_set: "c \<in> set (hex_digits k n) \<Longrightarrow> is_ascii_hex c"
  by (induction k arbitrary: n) (auto simp: hex_digit_hex)

lemma length_uuid_text [simp]: "length (uuid_text u) = 36"
  by (simp add: uuid_text_def Let_def)

lemma hex_digit_inj: "a < 16 \<Longrightarrow> b < 16 \<Longrightarrow> hex_digit a = hex_digit b \<Longrightarrow> a = b"
  by (auto simp: hex_digit_def split: if_splits
      dest!: arg_cong [where f = "of_char :: char \<Rightarrow> nat"])

lemma hex_digits_inj:
  "m < 16 ^ k \<Longrightarrow> n < 16 ^ k \<Longrightarrow> hex_digits k m = hex_digits k n \<Longrightarrow> m = n"
proof (induction k arbitrary: m n)
  case 0
  then show ?case by simp
next
  case (Suc k)
  have "hex_digits k (m div 16) = hex_digits k (n div 16)" "hex_digit (m mod 16) = hex_digit (n mod 16)"
    using Suc.prems(3) by simp_all
  moreover have "m div 16 < 16 ^ k" "n div 16 < 16 ^ k"
    using Suc.prems(1,2) by (simp_all add: less_mult_imp_div_less mult.commute)
  ultimately have "m div 16 = n div 16" "m mod 16 = n mod 16"
    using Suc.IH hex_digit_inj [of "m mod 16" "n mod 16"] by simp_all
  then show ?case by (metis div_mult_mod_eq)
qed

text \<open>The text of an identifier determines the identifier.\<close>

lemma uuid_text_hex:
  "take 8 (uuid_text u) @ take 4 (drop 9 (uuid_text u)) @ take 4 (drop 14 (uuid_text u))
    @ take 4 (drop 19 (uuid_text u)) @ drop 24 (uuid_text u) = hex_digits 32 u"
proof -
  define h where "h = hex_digits 32 u"
  have "length h = 32" by (simp add: h_def)
  moreover have "h = take 8 h @ take 4 (drop 8 h) @ take 4 (drop 12 h) @ take 4 (drop 16 h) @ drop 20 h"
    using append_take_drop_id [of 8 h] append_take_drop_id [of 4 "drop 8 h"]
      append_take_drop_id [of 4 "drop 12 h"] append_take_drop_id [of 4 "drop 16 h"]
    by simp
  ultimately show ?thesis
    unfolding uuid_text_def Let_def h_def [symmetric]
    by (simp add: take_append drop_append)
qed

lemma uuid_text_inj: "u < 2 ^ 128 \<Longrightarrow> v < 2 ^ 128 \<Longrightarrow> uuid_text u = uuid_text v \<Longrightarrow> u = v"
  using uuid_text_hex [of u] uuid_text_hex [of v] hex_digits_inj [of u 32 v] by simp

definition digits_value :: "string \<Rightarrow> nat" where
  "digits_value s = foldl (\<lambda>a c. 10 * a + (byte_of c - 48)) 0 s"

lemma show_nat_aux_append: "show_nat_aux n acc = show_nat_aux n [] @ acc"
proof (induction n arbitrary: acc rule: less_induct)
  case (less n)
  show ?case
  proof (cases "n < 10")
    case True
    then show ?thesis by (simp add: show_nat_aux.simps)
  next
    case False
    then have "show_nat_aux (n div 10) (x # ys) = show_nat_aux (n div 10) [] @ x # ys" for x ys
      by (intro less.IH) simp
    then show ?thesis using False by (simp add: show_nat_aux.simps [of n])
  qed
qed

lemma show_nat_step: "show_nat n =
    (if n < 10 then [char_of (48 + n)] else show_nat (n div 10) @ [char_of (48 + n mod 10)])"
  unfolding show_nat_def by (subst show_nat_aux.simps) (simp add: show_nat_aux_append [of "n div 10" "[_]"])

lemma byte_of_digit: "n < 10 \<Longrightarrow> byte_of (char_of (48 + n)) = 48 + n"
  by (simp add: byte_of_def)

lemma digits_value_show: "digits_value (show_nat n) = n"
proof (induction n rule: less_induct)
  case (less n)
  then show ?case
    by (subst show_nat_step) (simp add: digits_value_def byte_of_digit)
qed

lemma show_nat_inj [simp]: "show_nat m = show_nat n \<longleftrightarrow> m = n"
  by (metis digits_value_show)

lemma show_nat_digits: "c \<in> set (show_nat n) \<Longrightarrow> 48 \<le> byte_of c \<and> byte_of c \<le> 57"
proof (induction n rule: less_induct)
  case (less n)
  show ?case
  proof (cases "n < 10")
    case True
    then have "c = char_of (48 + n)" using less.prems by (subst (asm) show_nat_step) simp
    then show ?thesis using True by (simp add: byte_of_digit)
  next
    case False
    then have "c \<in> set (show_nat (n div 10)) \<or> c = char_of (48 + n mod 10)"
      using less.prems by (subst (asm) show_nat_step) auto
    then show ?thesis using less.IH [of "n div 10"] False by (auto simp: byte_of_digit)
  qed
qed

lemma show_nat_no_colon: "CHR '':'' \<notin> set (show_nat n)"
proof
  assume "CHR '':'' \<in> set (show_nat n)"
  then have "byte_of (CHR '':'') \<le> 57" using show_nat_digits by blast
  then show False by (simp add: byte_of_def)
qed

text \<open>A text up to the first separator is determined by the whole.\<close>

lemma split_at_inj:
  fixes a b x y :: string
  assumes "a @ c # x = b @ c # y" "c \<notin> set a" "c \<notin> set b"
  shows "a = b \<and> x = y"
proof -
  have "Some (a, x) = Some (b, y)"
    using split_once_join [OF assms(2), of x] split_once_join [OF assms(3), of y]
    unfolding assms(1) by (rule trans [OF sym])
  then show ?thesis by (simp only: option.inject prod.inject)
qed

subsection \<open>Parts of a text\<close>

definition has_sub :: "string \<Rightarrow> string \<Rightarrow> bool" where
  "has_sub p s = list_ex (\<lambda>i. starts_with p (drop i s)) [0..<Suc (length s)]"

definition ends_with :: "string \<Rightarrow> string \<Rightarrow> bool" where
  "ends_with p s = (drop (length s - length p) s = p)"

lemma starts_with_iff: "starts_with p s \<longleftrightarrow> (\<exists>b. s = p @ b)"
  by (auto simp: starts_with_def) (metis append_take_drop_id)

lemma ends_with_iff: "ends_with p s \<longleftrightarrow> (\<exists>a. s = a @ p)"
  by (auto simp: ends_with_def) (metis append_take_drop_id)

lemma has_sub_iff: "has_sub p s \<longleftrightarrow> (\<exists>a b. s = a @ p @ b)"
proof
  assume "has_sub p s"
  then obtain i where "starts_with p (drop i s)" unfolding has_sub_def list_ex_iff by blast
  then obtain b where "drop i s = p @ b" by (auto simp: starts_with_iff)
  then have "s = take i s @ p @ b" by (metis append_take_drop_id)
  then show "\<exists>a b. s = a @ p @ b" by blast
next
  assume "\<exists>a b. s = a @ p @ b"
  then obtain a b where s: "s = a @ p @ b" by blast
  then have "starts_with p (drop (length a) s)" by (simp add: starts_with_def)
  moreover have "length a < Suc (length s)" using s by simp
  ultimately show "has_sub p s"
    unfolding has_sub_def list_ex_iff by (intro bexI [of _ "length a"]) auto
qed

end
