(* ===== verification/Shared_Tokens.thy ===== *)
theory Shared_Tokens
  imports Shared_Error Redis_Store Text_Ops
begin

text \<open>
  The tokens of the platform and the check every protected request passes
  (\<open>packages/shared-rust/src/auth.rs\<close> and \<open>service_jwt.rs\<close>). Signing and reading a JWT is the crate
  \<open>jsonwebtoken\<close>: the record \<open>jwt_lib\<close> holds its encode and decode for each kind of claims, with the
  secret already applied. What the services rely on is \<open>jwt_ok\<close>: a token that was signed reads back
  to its claims until it expires. Reading also checks the signature and, for access and service
  tokens, issuer and audience.
\<close>

text \<open>
  A concrete token library that has the laws \<open>jwt_ok\<close>: a token spells out its claims, and reading
  parses them and checks the expiry. It shows that the laws can hold; it signs nothing.
\<close>

definition JWT_ISSUER :: string where "JWT_ISSUER = ''pguard''"
definition JWT_AUDIENCE :: string where "JWT_AUDIENCE = ''pguard''"

record jwt_claims =
  jc_sub :: uuid
  jc_role :: string
  jc_exp :: int
  jc_iat :: int
  jc_iss :: string
  jc_aud :: string
  jc_jti :: string
  jc_trv :: int

record phone_verify_claims =
  pv_phone :: string
  pv_purpose :: string
  pv_jti :: string
  pv_exp :: int
  pv_iat :: int

record profile_token_claims =
  pt_sub :: uuid
  pt_purpose :: string
  pt_jti :: string
  pt_exp :: int
  pt_iat :: int

record service_claims =
  sc_sub :: string
  sc_iss :: string
  sc_aud :: string
  sc_exp :: int
  sc_iat :: int

record jwt_lib =
  sign_access :: "jwt_claims \<Rightarrow> string"
  read_access :: "instant \<Rightarrow> string \<Rightarrow> jwt_claims option"
  sign_phone :: "phone_verify_claims \<Rightarrow> string"
  read_phone :: "instant \<Rightarrow> string \<Rightarrow> phone_verify_claims option"
  sign_profile :: "profile_token_claims \<Rightarrow> string"
  read_profile :: "instant \<Rightarrow> string \<Rightarrow> profile_token_claims option"
  sign_service :: "service_claims \<Rightarrow> string"
  read_service :: "instant \<Rightarrow> string \<Rightarrow> service_claims option"

text \<open>\<open>DateTime::timestamp\<close>: whole seconds, rounded down.\<close>

definition timestamp :: "instant \<Rightarrow> int" where
  "timestamp t = t div nanos_per_sec"

definition jwt_ok :: "jwt_lib \<Rightarrow> bool" where
  "jwt_ok J = ((\<forall>now c. timestamp now \<le> jc_exp c \<and> jc_iss c = JWT_ISSUER \<and> jc_aud c = JWT_AUDIENCE
        \<longrightarrow> read_access J now (sign_access J c) = Some c)
    \<and> (\<forall>now c. timestamp now \<le> pv_exp c \<longrightarrow> read_phone J now (sign_phone J c) = Some c)
    \<and> (\<forall>now c. timestamp now \<le> pt_exp c \<longrightarrow> read_profile J now (sign_profile J c) = Some c))"

subsection \<open>Access tokens\<close>

definition encode_jwt_with_key ::
  "jwt_lib \<Rightarrow> instant \<Rightarrow> uuid \<Rightarrow> uuid \<Rightarrow> string \<Rightarrow> int \<Rightarrow> int \<Rightarrow> string \<times> string" where
  "encode_jwt_with_key J now fresh_jti user_id role trv expiry_minutes =
    (let jti = uuid_text fresh_jti in
     (sign_access J \<lparr>jc_sub = user_id, jc_role = role, jc_exp = timestamp (now + minutes expiry_minutes),
        jc_iat = timestamp now, jc_iss = JWT_ISSUER, jc_aud = JWT_AUDIENCE, jc_jti = jti, jc_trv = trv\<rparr>,
      jti))"

definition decode_jwt_with_key :: "jwt_lib \<Rightarrow> instant \<Rightarrow> string \<Rightarrow> jwt_claims app_result" where
  "decode_jwt_with_key J now token = (case read_access J now token of
     Some c \<Rightarrow> Inr c | None \<Rightarrow> Inl (Unauthorized ''Invalid token: {e}''))"

subsection \<open>Purpose-scoped tokens\<close>

definition PHONE_VERIFY_PURPOSE :: string where "PHONE_VERIFY_PURPOSE = ''phone_verify''"
definition PIN_RESET_PURPOSE :: string where "PIN_RESET_PURPOSE = ''pin_reset''"
definition PHONE_CHANGE_PURPOSE :: string where "PHONE_CHANGE_PURPOSE = ''phone_change''"
definition PROFILE_PURPOSE_GUARD :: string where "PROFILE_PURPOSE_GUARD = ''guard_profile''"
definition PROFILE_PURPOSE_CUSTOMER :: string where "PROFILE_PURPOSE_CUSTOMER = ''customer_profile''"
definition PROFILE_PURPOSE_GUARD_DOC :: string where "PROFILE_PURPOSE_GUARD_DOC = ''guard_doc_upload''"
definition TWO_FACTOR_CHALLENGE_PURPOSE :: string where "TWO_FACTOR_CHALLENGE_PURPOSE = ''twofa_challenge''"

lemmas purpose_defs = PHONE_VERIFY_PURPOSE_def PIN_RESET_PURPOSE_def PHONE_CHANGE_PURPOSE_def
  PROFILE_PURPOSE_GUARD_def PROFILE_PURPOSE_CUSTOMER_def PROFILE_PURPOSE_GUARD_DOC_def
  TWO_FACTOR_CHALLENGE_PURPOSE_def

definition encode_phone_verify_token ::
  "jwt_lib \<Rightarrow> instant \<Rightarrow> uuid \<Rightarrow> string \<Rightarrow> string \<Rightarrow> int \<Rightarrow> string \<times> string" where
  "encode_phone_verify_token J now fresh_jti phone purpose expiry_minutes =
    (let jti = uuid_text fresh_jti in
     (sign_phone J \<lparr>pv_phone = phone, pv_purpose = purpose, pv_jti = jti,
        pv_exp = timestamp (now + minutes expiry_minutes), pv_iat = timestamp now\<rparr>, jti))"

definition decode_phone_verify_token ::
  "jwt_lib \<Rightarrow> instant \<Rightarrow> string \<Rightarrow> string \<Rightarrow> (string \<times> string) app_result" where
  "decode_phone_verify_token J now token expected_purpose = (case read_phone J now token of
     None \<Rightarrow> Inl (Unauthorized ''Invalid phone verify token: {e}'')
   | Some c \<Rightarrow> if pv_purpose c \<noteq> expected_purpose then Inl (Unauthorized ''Invalid phone verify token'')
       else Inr (pv_phone c, pv_jti c))"

definition phone_verify_jti_key :: "string \<Rightarrow> string \<Rightarrow> string" where
  "phone_verify_jti_key purpose jti = purpose @ ''_jti:'' @ jti"

definition encode_profile_token ::
  "jwt_lib \<Rightarrow> instant \<Rightarrow> uuid \<Rightarrow> uuid \<Rightarrow> string \<Rightarrow> int \<Rightarrow> string \<times> string" where
  "encode_profile_token J now fresh_jti user_id purpose expiry_minutes =
    (let jti = uuid_text fresh_jti in
     (sign_profile J \<lparr>pt_sub = user_id, pt_purpose = purpose, pt_jti = jti,
        pt_exp = timestamp (now + minutes expiry_minutes), pt_iat = timestamp now\<rparr>, jti))"

definition decode_profile_token ::
  "jwt_lib \<Rightarrow> instant \<Rightarrow> string \<Rightarrow> string \<Rightarrow> (uuid \<times> string) app_result" where
  "decode_profile_token J now token expected_purpose = (case read_profile J now token of
     None \<Rightarrow> Inl (Unauthorized ''Invalid profile token: {e}'')
   | Some c \<Rightarrow> if pt_purpose c \<noteq> expected_purpose then Inl (Unauthorized ''Invalid profile token'')
       else Inr (pt_sub c, pt_jti c))"

definition encode_2fa_challenge_token ::
  "jwt_lib \<Rightarrow> instant \<Rightarrow> uuid \<Rightarrow> uuid \<Rightarrow> int \<Rightarrow> string \<times> string" where
  "encode_2fa_challenge_token J now fresh_jti user_id expiry_minutes =
    encode_profile_token J now fresh_jti user_id TWO_FACTOR_CHALLENGE_PURPOSE expiry_minutes"

definition decode_2fa_challenge_token :: "jwt_lib \<Rightarrow> instant \<Rightarrow> string \<Rightarrow> (uuid \<times> string) app_result" where
  "decode_2fa_challenge_token J now token = decode_profile_token J now token TWO_FACTOR_CHALLENGE_PURPOSE"

text \<open>A token of one purpose is refused wherever another is expected.\<close>

lemma decode_phone_purpose:
  "decode_phone_verify_token J now token p = Inr (phone, jti) \<Longrightarrow>
    \<exists>c. read_phone J now token = Some c \<and> pv_purpose c = p \<and> pv_phone c = phone \<and> pv_jti c = jti"
  by (auto simp: decode_phone_verify_token_def split: option.splits if_splits)

lemma decode_profile_purpose:
  "decode_profile_token J now token p = Inr (user, jti) \<Longrightarrow>
    \<exists>c. read_profile J now token = Some c \<and> pt_purpose c = p \<and> pt_sub c = user \<and> pt_jti c = jti"
  by (auto simp: decode_profile_token_def split: option.splits if_splits)

lemma decode_encoded_phone:
  assumes "jwt_ok J" "timestamp later \<le> timestamp (now + minutes m)"
  shows "decode_phone_verify_token J later (fst (encode_phone_verify_token J now u phone p m)) p
    = Inr (phone, uuid_text u)"
  using assms by (simp add: jwt_ok_def encode_phone_verify_token_def decode_phone_verify_token_def Let_def)

lemma decode_encoded_profile:
  assumes "jwt_ok J" "timestamp later \<le> timestamp (now + minutes m)"
  shows "decode_profile_token J later (fst (encode_profile_token J now u user p m)) p
    = Inr (user, uuid_text u)"
  using assms by (simp add: jwt_ok_def encode_profile_token_def decode_profile_token_def Let_def)

lemma decode_encoded_access:
  assumes "jwt_ok J" "timestamp later \<le> timestamp (now + minutes m)"
  shows "\<exists>c. decode_jwt_with_key J later (fst (encode_jwt_with_key J now u user role trv m)) = Inr c
    \<and> jc_sub c = user \<and> jc_role c = role \<and> jc_trv c = trv \<and> jc_jti c = uuid_text u"
  using assms by (simp add: jwt_ok_def encode_jwt_with_key_def decode_jwt_with_key_def Let_def)

subsection \<open>Cookies\<close>

definition ACCESS_TOKEN_COOKIE :: string where "ACCESS_TOKEN_COOKIE = ''access_token''"
definition REFRESH_TOKEN_COOKIE :: string where "REFRESH_TOKEN_COOKIE = ''refresh_token''"

definition show_int :: "int \<Rightarrow> string" where
  "show_int n = (if n < 0 then ''-'' @ show_nat (nat (- n)) else show_nat (nat n))"

definition build_cookie :: "string \<Rightarrow> string \<Rightarrow> int \<Rightarrow> string \<Rightarrow> string" where
  "build_cookie name v max_age_secs path =
    name @ ''='' @ v @ ''; HttpOnly; Secure; SameSite=Lax; Path='' @ path @ ''; Max-Age='' @ show_int max_age_secs"

definition build_clear_cookie :: "string \<Rightarrow> string \<Rightarrow> string" where
  "build_clear_cookie name path =
    name @ ''=; HttpOnly; Secure; SameSite=Lax; Path='' @ path @ ''; Max-Age=0''"

definition cookie_pair :: "string \<Rightarrow> string \<Rightarrow> string option" where
  "cookie_pair name pair = (case split_once (CHR ''='') pair of
     None \<Rightarrow> None
   | Some (k, v) \<Rightarrow> if trim k = name then Some (trim v) else None)"

fun find_map :: "('a \<Rightarrow> 'b option) \<Rightarrow> 'a list \<Rightarrow> 'b option" where
  "find_map f [] = None"
| "find_map f (x # xs) = (case f x of Some y \<Rightarrow> Some y | None \<Rightarrow> find_map f xs)"

definition extract_cookie_value :: "string \<Rightarrow> string \<Rightarrow> string option" where
  "extract_cookie_value cookie_header name =
    find_map (cookie_pair name) (map trim (split_all (CHR '';'') cookie_header))"

subsection \<open>Revocation, and the check of a request\<close>

definition revoked_jti_key :: "string \<Rightarrow> string" where
  "revoked_jti_key jti = ''revoked_jti:'' @ jti"

definition user_trv_key :: "uuid \<Rightarrow> string" where
  "user_trv_key u = ''user_trv:'' @ uuid_text u"

text \<open>Reading a number: an absent key is \<open>None\<close>, a text that is no number is an error.\<close>

definition current_trv :: "redis_value option \<Rightarrow> int app_result" where
  "current_trv v = (case v of
     None \<Rightarrow> Inr 0
   | Some (RNum n) \<Rightarrow> Inr n
   | Some (RText _) \<Rightarrow> Inl (Internal ''revocation-version check unavailable: {e}''))"

definition authenticate_token ::
  "jwt_lib \<Rightarrow> bool \<Rightarrow> instant \<Rightarrow> redis \<Rightarrow> string \<Rightarrow> jwt_claims app_result" where
  "authenticate_token J up now db token =
    res_bind (decode_jwt_with_key J now token) (\<lambda>claims.
    if \<not> up then Inl (Internal ''revocation check unavailable: {e}'')
    else if r_exists now db (revoked_jti_key (jc_jti claims))
    then Inl (Unauthorized ''Token has been revoked'')
    else res_bind (current_trv (r_get now db (user_trv_key (jc_sub claims)))) (\<lambda>current.
      if jc_trv claims < current then Inl (Unauthorized ''Token has been revoked'') else Inr claims))"

datatype http_method = HttpGet | HttpHead | HttpOptions | HttpPost | HttpPut | HttpPatch | HttpDelete

record request_parts =
  rp_method :: http_method
  rp_authorization :: "string option"
  rp_cookie :: "string option"
  rp_has_requested_with :: bool

definition obind :: "'a option \<Rightarrow> ('a \<Rightarrow> 'b option) \<Rightarrow> 'b option" where
  "obind m f = (case m of None \<Rightarrow> None | Some x \<Rightarrow> f x)"

definition or_opt :: "'a option \<Rightarrow> 'a option \<Rightarrow> 'a option" where
  "or_opt a b = (case a of Some x \<Rightarrow> Some x | None \<Rightarrow> b)"

lemma obind_simps [simp]: "obind None f = None" "obind (Some x) f = f x"
  by (simp_all add: obind_def)

lemma obind_Some_iff: "obind m f = Some y \<longleftrightarrow> (\<exists>x. m = Some x \<and> f x = Some y)"
  by (cases m) auto

lemma or_opt_simps [simp]: "or_opt None b = b" "or_opt (Some x) b = Some x"
  by (simp_all add: or_opt_def)

definition bearer_token :: "request_parts \<Rightarrow> string option" where
  "bearer_token parts = obind (rp_authorization parts) (strip_prefix ''Bearer '')"

definition cookie_token :: "request_parts \<Rightarrow> string \<Rightarrow> string option" where
  "cookie_token parts name = obind (rp_cookie parts) (\<lambda>c. extract_cookie_value c name)"

definition is_state_changing :: "http_method \<Rightarrow> bool" where
  "is_state_changing m = (m \<in> {HttpPost, HttpPut, HttpPatch, HttpDelete})"

definition auth_user_from ::
  "jwt_lib \<Rightarrow> bool \<Rightarrow> instant \<Rightarrow> redis \<Rightarrow> request_parts \<Rightarrow> auth_user app_result" where
  "auth_user_from J up now db parts =
    (let bearer = bearer_token parts in
     case or_opt bearer (cookie_token parts ACCESS_TOKEN_COOKIE) of
       None \<Rightarrow> Inl (Unauthorized ''Missing authentication token'')
     | Some token \<Rightarrow>
       if bearer = None \<and> is_state_changing (rp_method parts) \<and> \<not> rp_has_requested_with parts
       then Inl (Forbidden ''Missing X-Requested-With header'')
       else res_bind (authenticate_token J up now db token) (\<lambda>claims.
         Inr \<lparr>au_id = jc_sub claims, au_role = jc_role claims\<rparr>))"

text \<open>
  The check fails closed: a caller it lets through has a token that reads, was not revoked on its
  own, and is no older than the user's revocation version; and the cache was there to ask.
\<close>

lemma authenticate_token_Inr_iff:
  "authenticate_token J up now db token = Inr c \<longleftrightarrow>
    read_access J now token = Some c \<and> up
    \<and> r_get now db (revoked_jti_key (jc_jti c)) = None
    \<and> (\<exists>v. current_trv (r_get now db (user_trv_key (jc_sub c))) = Inr v \<and> v \<le> jc_trv c)"
  by (cases "read_access J now token"; cases "r_live now db (revoked_jti_key (jc_jti c))")
    (auto simp: authenticate_token_def decode_jwt_with_key_def res_bind_Inr_iff r_exists_def
      r_get_def not_less split: if_splits)

lemma auth_user_from_Inr:
  assumes "auth_user_from J up now db parts = Inr u"
  shows "\<exists>token c. authenticate_token J up now db token = Inr c
    \<and> au_id u = jc_sub c \<and> au_role u = jc_role c"
proof -
  obtain token c where "authenticate_token J up now db token = Inr c" "u = \<lparr>au_id = jc_sub c, au_role = jc_role c\<rparr>"
    using assms by (auto simp: auth_user_from_def Let_def res_bind_Inr_iff split: option.splits if_splits)
  then show ?thesis by auto
qed

subsection \<open>Service tokens\<close>

definition SERVICE_JWT_AUDIENCE :: string where "SERVICE_JWT_AUDIENCE = ''pguard-internal''"

definition encode_service_jwt :: "jwt_lib \<Rightarrow> instant \<Rightarrow> string \<Rightarrow> int \<Rightarrow> string" where
  "encode_service_jwt J now service_name ttl_secs =
    sign_service J \<lparr>sc_sub = service_name @ ''-service'', sc_iss = JWT_ISSUER, sc_aud = SERVICE_JWT_AUDIENCE,
      sc_exp = timestamp (now + seconds ttl_secs), sc_iat = timestamp now\<rparr>"

definition decode_service_jwt :: "jwt_lib \<Rightarrow> instant \<Rightarrow> string \<Rightarrow> service_claims app_result" where
  "decode_service_jwt J now token = (case read_service J now token of
     Some c \<Rightarrow> Inr c | None \<Rightarrow> Inl (Unauthorized ''Invalid service token: {e}''))"

definition service_caller_from :: "jwt_lib \<Rightarrow> instant \<Rightarrow> request_parts \<Rightarrow> string app_result" where
  "service_caller_from J now parts = (case bearer_token parts of
     None \<Rightarrow> Inl (Unauthorized ''Missing service token'')
   | Some token \<Rightarrow> res_bind (decode_service_jwt J now token) (\<lambda>c. Inr (sc_sub c)))"

subsection \<open>models.rs: roles and approval\<close>

datatype user_role = RoleAdmin | RoleCustomer | RoleGuard

fun role_text :: "user_role \<Rightarrow> string" where
  "role_text RoleAdmin = ''admin''"
| "role_text RoleCustomer = ''customer''"
| "role_text RoleGuard = ''guard''"

text \<open>
  \<open>FromStr\<close> lowercases first. No character beyond ASCII lowercases to a letter of these three words,
  so lowering the ASCII letters decides the same.
\<close>

definition parse_role :: "string \<Rightarrow> user_role option" where
  "parse_role s = (let l = ascii_lower s in
     if l = ''admin'' then Some RoleAdmin
     else if l = ''customer'' then Some RoleCustomer
     else if l = ''guard'' then Some RoleGuard
     else None)"

text \<open>The cast of a text to the column type takes the exact texts only.\<close>

definition cast_role :: "string \<Rightarrow> user_role app_result" where
  "cast_role s = (if s = ''admin'' then Inr RoleAdmin else if s = ''customer'' then Inr RoleCustomer
     else if s = ''guard'' then Inr RoleGuard else Inl (Database ''22P02''))"

datatype approval_status = ApprovalPending | ApprovalApproved | ApprovalRejected

fun approval_text :: "approval_status \<Rightarrow> string" where
  "approval_text ApprovalPending = ''pending''"
| "approval_text ApprovalApproved = ''approved''"
| "approval_text ApprovalRejected = ''rejected''"

definition parse_approval :: "string \<Rightarrow> approval_status option" where
  "parse_approval s = (let l = ascii_lower s in
     if l = ''pending'' then Some ApprovalPending
     else if l = ''approved'' then Some ApprovalApproved
     else if l = ''rejected'' then Some ApprovalRejected
     else None)"

interpretation role_wire: wire_enum role_text parse_role
proof
  fix x
  show "parse_role (role_text x) = Some x"
    by (cases x) (simp_all add: parse_role_def ascii_lower_def lower_char_def byte_of_def Let_def)
qed

interpretation approval_wire: wire_enum approval_text parse_approval
proof
  fix x
  show "parse_approval (approval_text x) = Some x"
    by (cases x) (simp_all add: parse_approval_def ascii_lower_def lower_char_def byte_of_def Let_def)
qed

interpretation role_column: strict_wire_enum role_text "\<lambda>s. ok_of (cast_role s)"
proof
  fix x
  show "ok_of (cast_role (role_text x)) = Some x" by (cases x) (simp_all add: cast_role_def)
next
  fix s x
  assume "ok_of (cast_role s) = Some x"
  then show "s = role_text x" by (auto simp: cast_role_def split: if_splits)
qed


definition spell :: "string \<Rightarrow> string" where
  "spell f = concat (map (\<lambda>c. [CHR ''x'', c]) f) @ ''s''"

definition spell_fields :: "string list \<Rightarrow> string" where
  "spell_fields fs = concat (map spell fs)"

fun read_fields_acc :: "string \<Rightarrow> string \<Rightarrow> string list" where
  "read_fields_acc acc [] = []"
| "read_fields_acc acc [c] = [rev acc]"
| "read_fields_acc acc (a # b # s) =
    (if a = CHR ''x'' then read_fields_acc (b # acc) s else rev acc # read_fields_acc [] (b # s))"

lemma read_spell:
  "read_fields_acc acc (spell f @ s) = (rev acc @ f) # read_fields_acc [] s"
proof (induction f arbitrary: acc)
  case Nil
  then show ?case by (cases s) (simp_all add: spell_def)
next
  case (Cons c f)
  then show ?case by (simp add: spell_def)
qed

lemma read_spell_fields: "read_fields_acc [] (spell_fields fs) = fs"
  by (induction fs) (simp_all add: spell_fields_def read_spell)

definition num_field :: "int \<Rightarrow> string" where
  "num_field n = (if n < 0 then CHR ''-'' # replicate (nat (- n)) (CHR ''i'') else replicate (nat n) (CHR ''i''))"

definition field_int :: "string \<Rightarrow> int" where
  "field_int s = (case s of [] \<Rightarrow> 0
     | c # r \<Rightarrow> if c = CHR ''-'' then - int (length r) else int (length s))"

lemma field_num_field [simp]: "field_int (num_field n) = n"
proof (cases "n < 0")
  case True
  then show ?thesis by (simp add: num_field_def field_int_def)
next
  case False
  then show ?thesis
    by (cases "nat n") (auto simp: num_field_def field_int_def)
qed

definition sample_jwt :: jwt_lib where
  "sample_jwt = \<lparr>
    sign_access = (\<lambda>c. spell_fields [''a'', num_field (int (jc_sub c)), jc_role c, num_field (jc_exp c),
      num_field (jc_iat c), jc_iss c, jc_aud c, jc_jti c, num_field (jc_trv c)]),
    read_access = (\<lambda>now t. case read_fields_acc [] t of
        [k, sub, role, ex, iat, iss, aud, jti, trv] \<Rightarrow>
          if k = ''a'' \<and> timestamp now \<le> field_int ex \<and> iss = JWT_ISSUER \<and> aud = JWT_AUDIENCE
          then Some \<lparr>jc_sub = nat (field_int sub), jc_role = role, jc_exp = field_int ex,
            jc_iat = field_int iat, jc_iss = iss, jc_aud = aud, jc_jti = jti, jc_trv = field_int trv\<rparr>
          else None
      | _ \<Rightarrow> None),
    sign_phone = (\<lambda>c. spell_fields [''v'', pv_phone c, pv_purpose c, pv_jti c, num_field (pv_exp c),
      num_field (pv_iat c)]),
    read_phone = (\<lambda>now t. case read_fields_acc [] t of
        [k, phone, purpose, jti, ex, iat] \<Rightarrow>
          if k = ''v'' \<and> timestamp now \<le> field_int ex
          then Some \<lparr>pv_phone = phone, pv_purpose = purpose, pv_jti = jti, pv_exp = field_int ex,
            pv_iat = field_int iat\<rparr> else None
      | _ \<Rightarrow> None),
    sign_profile = (\<lambda>c. spell_fields [num_field (int (pt_sub c)), pt_purpose c, pt_jti c,
      num_field (pt_exp c), num_field (pt_iat c)]),
    read_profile = (\<lambda>now t. case read_fields_acc [] t of
        [sub, purpose, jti, ex, iat] \<Rightarrow>
          if timestamp now \<le> field_int ex
          then Some \<lparr>pt_sub = nat (field_int sub), pt_purpose = purpose, pt_jti = jti,
            pt_exp = field_int ex, pt_iat = field_int iat\<rparr> else None
      | _ \<Rightarrow> None),
    sign_service = (\<lambda>c. sc_sub c),
    read_service = (\<lambda>now t. None)\<rparr>"

lemma sample_jwt_ok: "jwt_ok sample_jwt"
  by (simp add: jwt_ok_def sample_jwt_def read_spell_fields)

end
