(* ===== verification/Otp_Domain.thy ===== *)
theory Otp_Domain
  imports Shared_Tokens Wire_Text
begin

text \<open>
  The rules of the one-time-password service (\<open>services/otp/src/domain/\<close>): the arithmetic question,
  the two lockout tiers, the code, the texts of the messages and the phone format. A message is a
  list of Unicode scalar values, because its length in characters is what the gateway bills. SHA-256
  is a parameter.
\<close>

text \<open>
  The SMS gateway client (\<open>services/otp/src/sms.rs\<close>): the masking of a number, the encoding of the
  message text into the request address, the reading of the answer and the sending. The HTTP client
  is a parameter that maps an address to what came back.
\<close>

subsection \<open>captcha.rs\<close>

record captcha_challenge =
  cc_question :: string
  cc_answer :: "32 word"

datatype captcha_op = CaptchaAdd | CaptchaSub

definition show_u32 :: "32 word \<Rightarrow> string" where
  "show_u32 a = show_nat (unat a)"

definition generate_captcha :: "32 word \<Rightarrow> 32 word \<Rightarrow> captcha_op \<Rightarrow> captcha_challenge" where
  "generate_captcha a b op = (case op of
     CaptchaAdd \<Rightarrow> \<lparr>cc_question = show_u32 a @ '' + '' @ show_u32 b @ '' = ?'', cc_answer = a + b\<rparr>
   | CaptchaSub \<Rightarrow> (let (hi, lo) = (if b \<le> a then (a, b) else (b, a)) in
       \<lparr>cc_question = show_u32 hi @ '' - '' @ show_u32 lo @ '' = ?'', cc_answer = hi - lo\<rparr>))"

text \<open>
  The answer is the true result of the question: the subtraction never goes below zero, and the
  addition does not wrap on the operands the handler draws (below 90).
\<close>

lemma captcha_sub_answer:
  "unat (cc_answer (generate_captcha a b CaptchaSub)) =
    (if unat b \<le> unat a then unat a - unat b else unat b - unat a)"
  by (auto simp: generate_captcha_def Let_def unat_sub word_le_nat_alt)

lemma captcha_add_answer:
  assumes "unat a < 90" "unat b < 90"
  shows "unat (cc_answer (generate_captcha a b CaptchaAdd)) = unat a + unat b"
  using assms by (simp add: generate_captcha_def unat_add_lem [THEN iffD1])

subsection \<open>lockout.rs\<close>

definition BURST_THRESHOLD :: int where "BURST_THRESHOLD = 3"
definition BURST_LOCK_SECS :: int where "BURST_LOCK_SECS = 600"
definition BURST_WINDOW_SECS :: int where "BURST_WINDOW_SECS = 600"
definition ADMIN_LOCK_SECS :: int where "ADMIN_LOCK_SECS = 86400"

datatype active_lock = NoLock | BurstLock int | AdminContact

definition existing_lock_decision :: "redis_value option \<Rightarrow> int \<Rightarrow> active_lock" where
  "existing_lock_decision lock_value lock_ttl =
    (if lock_ttl \<le> 0 then NoLock
     else let remaining_minutes = (lock_ttl + 59) div 60 in
       (case lock_value of
          None \<Rightarrow> NoLock
        | Some v \<Rightarrow>
          (if v = RText ''admin'' then AdminContact
           else if v = RText ''burst'' then BurstLock remaining_minutes
           else if BURST_LOCK_SECS < lock_ttl then AdminContact
           else BurstLock remaining_minutes)))"

datatype lockout_outcome = AllowRequest | TripAdminLock int | TripBurstLock int

definition lockout_decision :: "int \<Rightarrow> int \<Rightarrow> int \<Rightarrow> lockout_outcome" where
  "lockout_decision burst_count daily_count daily_limit =
    (if daily_limit \<le> daily_count then TripAdminLock ADMIN_LOCK_SECS
     else if BURST_THRESHOLD \<le> burst_count then TripBurstLock BURST_LOCK_SECS
     else AllowRequest)"

lemma lockout_allow_iff:
  "lockout_decision b d l = AllowRequest \<longleftrightarrow> d < l \<and> b < BURST_THRESHOLD"
  by (auto simp: lockout_decision_def)

lemma no_lock_iff:
  "existing_lock_decision v t = NoLock \<longleftrightarrow> t \<le> 0 \<or> v = None"
  by (auto simp: existing_lock_decision_def Let_def split: option.splits)

text \<open>
  What a client is told: a live burst lock is reported with at least one minute left, and never
  with less time than it has.
\<close>

lemma burst_minutes:
  assumes "existing_lock_decision v t = BurstLock m"
  shows "1 \<le> m \<and> t \<le> 60 * m \<and> 60 * m < t + 60"
proof -
  have "0 < t" "m = (t + 59) div 60"
    using assms by (auto simp: existing_lock_decision_def Let_def split: if_splits option.splits)
  then show ?thesis by linarith
qed

subsection \<open>otp.rs\<close>

text \<open>\<open>generate_otp\<close>: one digit per draw of the random generator.\<close>

definition generate_otp :: "nat list \<Rightarrow> string" where
  "generate_otp draws = concat (map (\<lambda>d. show_nat (d mod 10)) draws)"

definition thai_within :: utext where
  "thai_within = [32, 0xE2B, 0xE21, 0xE14, 0xE2D, 0xE32, 0xE22, 0xE38, 0xE43, 0xE19, 32]"

definition thai_minutes :: utext where
  "thai_minutes = [32, 0xE19, 0xE32, 0xE17, 0xE35]"

definition format_otp_message :: "string \<Rightarrow> int \<Rightarrow> utext" where
  "format_otp_message code expiry_minutes =
    [0xE23, 0xE2B, 0xE31, 0xE2A] @ asc '' OTP: '' @ asc code @ thai_within @ asc (show_int expiry_minutes)
    @ thai_minutes"

definition format_pin_reset_otp_message :: "string \<Rightarrow> int \<Rightarrow> utext" where
  "format_pin_reset_otp_message code expiry_minutes =
    asc ''OTP '' @ [0xE23, 0xE35, 0xE40, 0xE0B, 0xE47, 0xE15] @ asc '' PIN: '' @ asc code @ thai_within
    @ asc (show_int expiry_minutes) @ thai_minutes"

definition format_phone_change_otp_message :: "string \<Rightarrow> int \<Rightarrow> utext" where
  "format_phone_change_otp_message code expiry_minutes =
    [0xE40, 0xE1B, 0xE25, 0xE35, 0xE48, 0xE22, 0xE19, 0xE40, 0xE1A, 0xE2D, 0xE23, 0xE4C]
    @ asc '': '' @ asc code @ thai_within @ asc (show_int expiry_minutes) @ thai_minutes"

definition validate_thai_phone :: "string \<Rightarrow> string app_result" where
  "validate_thai_phone phone = (let digits = ascii_digits phone in
     if length digits \<noteq> 10 \<or> \<not> starts_with ''0'' digits
     then Inl (BadRequest ''Invalid phone format [must be 10 digits starting with 0]'')
     else Inr digits)"

definition to_international_format :: "string \<Rightarrow> string" where
  "to_international_format phone = (let digits = ascii_digits phone in
     case strip_prefix ''0'' digits of Some stripped \<Rightarrow> ''66'' @ stripped | None \<Rightarrow> digits)"

text \<open>
  SHA-256 in lowercase hexadecimal is the parameter \<open>sha\<close> of the definitions that use it; the
  comparison of two of its results in constant time is equality.
\<close>

definition hashes_match :: "string \<Rightarrow> string \<Rightarrow> bool" where
  "hashes_match stored_hash candidate_hash = (stored_hash = candidate_hash)"

lemma validated_phone:
  assumes "validate_thai_phone p = Inr q"
  shows "length q = 10 \<and> (\<exists>r. q = CHR ''0'' # r) \<and> (\<forall>c\<in>set q. is_ascii_digit c)
    \<and> validate_thai_phone q = Inr q"
proof -
  have q: "q = ascii_digits p" "length q = 10" "starts_with ''0'' q"
    using assms by (auto simp: validate_thai_phone_def Let_def split: if_splits)
  obtain c r where cr: "q = c # r" using q(2) by (cases q) auto
  have "c = CHR ''0''" using q(3) cr by (simp add: starts_with_def)
  moreover have "\<forall>c\<in>set q. is_ascii_digit c" using q(1) by (simp add: set_ascii_digits)
  moreover have "validate_thai_phone q = Inr q"
    using q by (simp add: validate_thai_phone_def Let_def)
  ultimately show ?thesis using q(2) cr by blast
qed

text \<open>A valid local number dials as 66 and its last nine digits, and two numbers never clash.\<close>

lemma international_form:
  assumes "validate_thai_phone p = Inr q"
  shows "to_international_format q = ''66'' @ tl q \<and> length (to_international_format q) = 11"
proof -
  obtain r where r: "q = CHR ''0'' # r" "length q = 10" "\<forall>c\<in>set q. is_ascii_digit c"
    using validated_phone [OF assms] by blast
  have "ascii_digits q = q" using r(3) by (simp add: ascii_digits_def filter_id_conv)
  then show ?thesis using r by (simp add: to_international_format_def Let_def strip_prefix_def)
qed

lemma length_asc [simp]: "length (asc s) = length s"
  by (simp add: asc_def)

text \<open>
  Every message of a six-digit code that expires within 99 minutes has at most forty characters, so
  it goes out as one segment.
\<close>

lemma length_show_nat: "n < 100 \<Longrightarrow> length (show_nat n) \<le> 2"
proof -
  assume "n < 100"
  then have "n div 10 < 10" by (simp add: less_mult_imp_div_less)
  then show ?thesis by (simp add: show_nat_def show_nat_aux.simps)
qed

lemma length_show_int: "0 \<le> n \<Longrightarrow> n < 100 \<Longrightarrow> length (show_int n) \<le> 2"
  by (simp add: show_int_def length_show_nat nat_less_iff)

lemma messages_one_segment:
  assumes "length code = 6" "0 \<le> m" "m < 100"
  shows "length (format_otp_message code m) \<le> 40
    \<and> length (format_pin_reset_otp_message code m) \<le> 40
    \<and> length (format_phone_change_otp_message code m) \<le> 40"
  using assms(1) length_show_int [OF assms(2,3)]
  by (simp add: format_otp_message_def format_pin_reset_otp_message_def
      format_phone_change_otp_message_def thai_within_def thai_minutes_def)

definition mask_sms_phone :: "string \<Rightarrow> string" where
  "mask_sms_phone phone = (let n = length phone in
     if n \<le> 4 then replicate n (CHR ''*'') else replicate (n - 4) (CHR ''*'') @ drop (n - 4) phone)"

definition upper_hex :: "nat \<Rightarrow> char" where
  "upper_hex n = (if n < 10 then char_of (48 + n) else char_of (55 + n))"

definition url_plain :: "nat \<Rightarrow> bool" where
  "url_plain b = ((48 \<le> b \<and> b \<le> 57) \<or> (65 \<le> b \<and> b \<le> 90) \<or> (97 \<le> b \<and> b \<le> 122) \<or> b \<in> {45, 95, 46, 126})"

definition url_byte :: "nat \<Rightarrow> string" where
  "url_byte b = (if url_plain b then [char_of b]
     else if b = 32 then ''%20''
     else [CHR ''%'', upper_hex (b div 16), upper_hex (b mod 16)])"

definition url_encode_bytes :: "nat list \<Rightarrow> string" where
  "url_encode_bytes bs = concat (map url_byte bs)"

definition thai_tis :: "uchar \<Rightarrow> bool" where
  "thai_tis c = ((0xE01 \<le> c \<and> c \<le> 0xE3A) \<or> c = 0xE3F \<or> (0xE40 \<le> c \<and> c \<le> 0xE5B))"

definition sms_char :: "uchar \<Rightarrow> nat list" where
  "sms_char c = (if c < 0x80 then [0, c] else if thai_tis c then [c - 0xD60] else [0, 63])"

definition text_to_sms_url :: "utext \<Rightarrow> string" where
  "text_to_sms_url t = url_encode_bytes (concat (map sms_char t))"

subsection \<open>What the gateway makes of it\<close>

text \<open>
  The reference reader: percent-decoding of the address, then the gateway's expansion to characters,
  in which a high byte is a Thai letter and a zero byte announces an ASCII one.
\<close>

definition hex_value :: "char \<Rightarrow> nat" where
  "hex_value c = (let b = byte_of c in if b < 58 then b - 48 else b - 55)"

fun url_decode :: "string \<Rightarrow> nat list" where
  "url_decode [] = []"
| "url_decode (c # s) =
    (if c = CHR ''%'' then (case s of a # b # r \<Rightarrow> (hex_value a * 16 + hex_value b) # url_decode r | _ \<Rightarrow> [])
     else byte_of c # url_decode s)"

fun gateway_text :: "nat list \<Rightarrow> utext" where
  "gateway_text [] = []"
| "gateway_text (b # bs) =
    (if b = 0 then (case bs of c # r \<Rightarrow> c # gateway_text r | [] \<Rightarrow> []) else (b + 0xD60) # gateway_text bs)"

lemma hex_value_upper: "n < 16 \<Longrightarrow> hex_value (upper_hex n) = n"
  by (auto simp: hex_value_def upper_hex_def byte_of_def Let_def)

lemma plain_not_percent:
  assumes "url_plain b"
  shows "char_of b \<noteq> CHR ''%''"
proof
  assume "char_of b = CHR ''%''"
  then have "of_char (char_of b :: char) = (37::nat)" by simp
  then show False using assms by (auto simp: url_plain_def)
qed

lemma url_decode_byte:
  assumes "b < 256"
  shows "url_decode (url_byte b @ s) = b # url_decode s"
proof (cases "url_plain b")
  case True
  then show ?thesis using assms plain_not_percent by (simp add: url_byte_def byte_of_def)
next
  case plain: False
  show ?thesis
  proof (cases "b = 32")
    case True
    then show ?thesis
      by (simp add: url_byte_def url_plain_def hex_value_def byte_of_def)
  next
    case False
    then show ?thesis using plain assms by (simp add: url_byte_def hex_value_upper)
  qed
qed

lemma url_decode_encode: "\<forall>b\<in>set bs. b < 256 \<Longrightarrow> url_decode (url_encode_bytes bs) = bs"
  by (induction bs) (simp_all add: url_encode_bytes_def url_decode_byte)

lemma sms_char_bytes: "c < 0x80 \<or> thai_tis c \<Longrightarrow> b \<in> set (sms_char c) \<Longrightarrow> b < 256"
  by (auto simp: sms_char_def thai_tis_def split: if_splits)

lemma gateway_sms_char: "c < 0x80 \<or> thai_tis c \<Longrightarrow> gateway_text (sms_char c @ bs) = c # gateway_text bs"
  by (auto simp: sms_char_def thai_tis_def)

text \<open>
  A text of ASCII and Thai characters arrives as it was sent.
\<close>

lemma sms_text_reads_back:
  assumes "\<forall>c\<in>set t. c < 0x80 \<or> thai_tis c"
  shows "gateway_text (url_decode (text_to_sms_url t)) = t"
proof -
  have "\<forall>b\<in>set (concat (map sms_char t)). b < 256"
    using assms sms_char_bytes by fastforce
  moreover have "gateway_text (concat (map sms_char t)) = t"
    using assms by (induction t) (simp_all add: gateway_sms_char)
  ultimately show ?thesis by (simp add: text_to_sms_url_def url_decode_encode)
qed

subsection \<open>Sending\<close>

record inet_config =
  in_username :: string
  in_password :: string
  in_sender :: string
  in_url :: string

datatype http_reply = HttpFailed | HttpBodyFailed nat | HttpReply nat string

definition find_sub :: "string \<Rightarrow> string \<Rightarrow> nat option" where
  "find_sub p s = find (\<lambda>i. starts_with p (drop i s)) [0..<Suc (length s)]"

definition extract_xml_tag :: "string \<Rightarrow> string \<Rightarrow> string option" where
  "extract_xml_tag xml tag =
    (let open_tag = ''<'' @ tag @ ''>''; close_tag = ''</'' @ tag @ ''>'' in
     obind (find_sub open_tag xml) (\<lambda>i.
       let rest = drop (i + length open_tag) xml in
       obind (find_sub close_tag rest) (\<lambda>j. Some (take j rest))))"

record sms_response =
  sr_status :: string
  sr_detail :: string
  sr_tran_id :: "string option"

definition or_empty :: "string option \<Rightarrow> string" where
  "or_empty v = (case v of Some s \<Rightarrow> s | None \<Rightarrow> [])"

definition parse_inet_xml_response :: "string \<Rightarrow> sms_response" where
  "parse_inet_xml_response xml =
    \<lparr>sr_status = or_empty (extract_xml_tag xml ''status''),
     sr_detail = or_empty (extract_xml_tag xml ''detail''),
     sr_tran_id = extract_xml_tag xml ''tranid''\<rparr>"

definition bytes_of :: "string \<Rightarrow> nat list" where
  "bytes_of s = map byte_of s"

definition sms_url :: "inet_config \<Rightarrow> string \<Rightarrow> utext \<Rightarrow> string" where
  "sms_url cfg dest text_msg =
    in_url cfg @ ''?username='' @ url_encode_bytes (bytes_of (in_username cfg))
    @ ''&passwd='' @ url_encode_bytes (bytes_of (in_password cfg))
    @ ''&from='' @ url_encode_bytes (bytes_of (in_sender cfg))
    @ ''&to='' @ url_encode_bytes (bytes_of dest)
    @ ''&text='' @ text_to_sms_url text_msg @ ''&datacoding=U&resultmode=xml''"

definition inet_send :: "inet_config \<Rightarrow> (string \<Rightarrow> http_reply) \<Rightarrow> string \<Rightarrow> utext \<Rightarrow> string app_result" where
  "inet_send cfg http dest text_msg = (case http (sms_url cfg dest text_msg) of
     HttpFailed \<Rightarrow> Inl (Internal ''SMS gateway request failed: {e}'')
   | HttpBodyFailed st \<Rightarrow> Inl (Internal ''Failed to read SMS gateway response: {e}'')
   | HttpReply st body \<Rightarrow>
     if \<not> (200 \<le> st \<and> st < 300) then Inl (Internal ''SMS gateway returned an error'')
     else let parsed = parse_inet_xml_response body in
       if sr_status parsed = ''00'' then Inr (or_empty (sr_tran_id parsed))
       else Inl (Internal ''Failed to send SMS''))"

definition noop_send :: "string \<Rightarrow> utext \<Rightarrow> string app_result" where
  "noop_send dest text_msg = Inr ''noop''"

definition parse_env_bool :: "string option \<Rightarrow> bool" where
  "parse_env_bool v = (case v of
     None \<Rightarrow> False
   | Some s \<Rightarrow> ascii_lower (trim s) \<in> {''true'', ''1'', ''yes'', ''on'', ''y''})"

definition sms_disabled :: "string option \<Rightarrow> bool" where
  "sms_disabled raw = parse_env_bool raw"

definition inet_error_description :: "string \<Rightarrow> string" where
  "inet_error_description code = (case map_of
     [(''00'', ''Accepted''), (''01'', ''No Such User''), (''02'', ''Password is wrong''),
      (''03'', ''No parameters list found''), (''04'', ''Method is wrong''), (''05'', ''Internal Server Error''),
      (''06'', ''Phone Number is wrong''), (''07'', ''SMS parameter missing''),
      (''08'', ''Insufficient SMS Credits''), (''09'', ''User is expire''), (''10'', ''Transaction ID invalid''),
      (''11'', ''Text length overflow''), (''12'', ''DateTime is wrong''), (''13'', ''User is disable''),
      (''14'', ''Invalid SenderName''), (''15'', ''Text not match Datacoding''), (''16'', ''Invalid Datacoding''),
      (''17'', ''Text is empty''), (''18'', ''Parameter is empty''), (''19'', ''URL invalid format''),
      (''20'', ''Wappush name invalid format''), (''99'', ''Permission denied'')] code of
     Some d \<Rightarrow> d | None \<Rightarrow> ''Unknown error'')"

text \<open>
  Whatever the gateway answers, a caller learns only that sending failed: the answer never reaches
  the outside.
\<close>

lemma inet_send_error:
  "inet_send cfg http dest m = Inl e \<Longrightarrow> error_status e = 500 \<and> error_code e = ''INTERNAL_ERROR''"
  by (auto simp: inet_send_def Let_def error_status_def error_code_def split: http_reply.splits if_splits)

text \<open>The noop sender is chosen only by an explicit truthy value.\<close>

lemma sms_enabled_by_default: "\<not> sms_disabled None" "\<not> sms_disabled (Some ''false'')" "\<not> sms_disabled (Some [])"
  by (code_simp, code_simp, code_simp)

end
