(* ===== verification/Effects.thy ===== *)
theory Effects
  imports Shared_Error
begin

text \<open>
  Handlers that change state step by step: an action takes the state and gives the state it leaves
  together with its result. An action that fails keeps the changes made before the failure, as a
  handler does that has written to a store and then returns an error. A transaction is lifted as a
  whole: when it fails nothing of it stays.
\<close>

text \<open>
  Refinement of an abstract specification, for any component whose operations run one after another:
  an abstraction of the state, an invariant of the concrete state, and for every operation the
  abstract one it implements. The side condition of an operation may look at the state it runs in;
  it is where the freshness of drawn identifiers is stated.
\<close>

type_synonym ('s, 'a) act = "'s \<Rightarrow> 's \<times> 'a app_result"

definition act_return :: "'a \<Rightarrow> ('s, 'a) act" where
  "act_return x s = (s, Inr x)"

definition act_fail :: "app_error \<Rightarrow> ('s, 'a) act" where
  "act_fail e s = (s, Inl e)"

definition act_bind :: "('s, 'a) act \<Rightarrow> ('a \<Rightarrow> ('s, 'b) act) \<Rightarrow> ('s, 'b) act" where
  "act_bind m f s = (case m s of (s', Inl e) \<Rightarrow> (s', Inl e) | (s', Inr x) \<Rightarrow> f x s')"

definition act_of :: "'a app_result \<Rightarrow> ('s, 'a) act" where
  "act_of r s = (s, r)"

definition act_guard :: "bool \<Rightarrow> app_error \<Rightarrow> ('s, unit) act" where
  "act_guard ok e s = (s, ensure ok e)"

text \<open>Reading the state, replacing it, and running a transaction on it.\<close>

definition act_get :: "('s, 's) act" where
  "act_get s = (s, Inr s)"

definition act_modify :: "('s \<Rightarrow> 's) \<Rightarrow> ('s, unit) act" where
  "act_modify f s = (f s, Inr ())"

definition act_tx :: "('s \<Rightarrow> ('a \<times> 's) app_result) \<Rightarrow> ('s, 'a) act" where
  "act_tx t s = (case t s of Inl e \<Rightarrow> (s, Inl e) | Inr (x, s') \<Rightarrow> (s', Inr x))"

definition act_if_ok :: "('s, 'a) act \<Rightarrow> ('s, 'b) act \<Rightarrow> ('s, 'b) act" where
  "act_if_ok m k = act_bind m (\<lambda>_. k)"

lemma act_simps [simp]:
  "act_return x s = (s, Inr x)"
  "act_fail e s = (s, Inl e)"
  "act_of r s = (s, r)"
  "act_get s = (s, Inr s)"
  "act_modify f s = (f s, Inr ())"
  "act_guard ok e s = (s, ensure ok e)"
  by (simp_all add: act_return_def act_fail_def act_of_def act_get_def act_modify_def act_guard_def)

lemma act_bind_simps [simp]:
  "act_bind (act_return x) f = f x"
  "act_bind (act_fail e) f = act_fail e"
  "act_bind (act_of (Inr x)) f = f x"
  "act_bind (act_of (Inl e)) f = act_fail e"
  by (simp_all add: act_bind_def act_return_def act_fail_def act_of_def fun_eq_iff)

lemma act_bind_run:
  "act_bind m f s = (case snd (m s) of Inl e \<Rightarrow> (fst (m s), Inl e) | Inr x \<Rightarrow> f x (fst (m s)))"
  by (simp add: act_bind_def case_prod_beta split: sum.splits)

lemma act_bind_apply:
  "m s = (s', Inr x) \<Longrightarrow> act_bind m f s = f x s'"
  "m s = (s', Inl e) \<Longrightarrow> act_bind m f s = (s', Inl e)"
  by (simp_all add: act_bind_def)

lemma act_bind_get [simp]: "act_bind act_get f s = f s s"
  by (simp add: act_bind_def)

lemma act_bind_modify [simp]: "act_bind (act_modify g) f s = f () (g s)"
  by (simp add: act_bind_def)

lemma act_bind_of [simp]:
  "act_bind (act_of r) f s = (case r of Inl e \<Rightarrow> (s, Inl e) | Inr x \<Rightarrow> f x s)"
  by (simp add: act_bind_def split: sum.splits)

lemma act_bind_guard [simp]:
  "act_bind (act_guard ok e) f s = (if ok then f () s else (s, Inl e))"
  by (simp add: act_bind_def act_guard_def)

lemma act_bind_Inr_iff:
  "act_bind m f s = (s'', Inr y) \<longleftrightarrow> (\<exists>s' x. m s = (s', Inr x) \<and> f x s' = (s'', Inr y))"
  by (auto simp: act_bind_def split: prod.splits sum.splits)

lemma act_tx_Inr_iff: "act_tx t s = (s', Inr x) \<longleftrightarrow> t s = Inr (x, s')"
  by (auto simp: act_tx_def split: sum.splits prod.splits)

text \<open>A property of the state every action of a handler keeps, the handler keeps.\<close>

definition keeps :: "('s \<Rightarrow> bool) \<Rightarrow> ('s, 'a) act \<Rightarrow> bool" where
  "keeps P m = (\<forall>s. P s \<longrightarrow> P (fst (m s)))"

named_theorems keeps_intros \<open>which actions keep a property of the state\<close>

lemma keepsD: "keeps P m \<Longrightarrow> P s \<Longrightarrow> P (fst (m s))"
  by (simp add: keeps_def)

lemma keeps_basic [keeps_intros]:
  "keeps P (act_return x)" "keeps P (act_fail e)" "keeps P (act_of r)" "keeps P act_get"
  "keeps P (act_guard ok e)"
  by (simp_all add: keeps_def)

lemma keeps_bind [keeps_intros]:
  "keeps P m \<Longrightarrow> (\<And>x. keeps P (f x)) \<Longrightarrow> keeps P (act_bind m f)"
  by (auto simp: keeps_def act_bind_def split: prod.splits sum.splits)

lemma keeps_modify: "(\<And>s. P s \<Longrightarrow> P (f s)) \<Longrightarrow> keeps P (act_modify f)"
  by (simp add: keeps_def)

lemma keeps_tx: "(\<And>s x s'. P s \<Longrightarrow> t s = Inr (x, s') \<Longrightarrow> P s') \<Longrightarrow> keeps P (act_tx t)"
  by (auto simp: keeps_def act_tx_def split: sum.splits)

lemma keeps_if [keeps_intros]:
  "keeps P a \<Longrightarrow> keeps P b \<Longrightarrow> keeps P (if c then a else b)"
  by simp

lemma keeps_option [keeps_intros]:
  "keeps P a \<Longrightarrow> (\<And>x. keeps P (f x)) \<Longrightarrow> keeps P (case v of None \<Rightarrow> a | Some x \<Rightarrow> f x)"
  by (simp split: option.split)

lemma keeps_prod [keeps_intros]:
  "(\<And>x y. keeps P (f x y)) \<Longrightarrow> keeps P (case p of (x, y) \<Rightarrow> f x y)"
  by (simp split: prod.split)

lemma keeps_let [keeps_intros]: "(\<And>x. keeps P (f x)) \<Longrightarrow> keeps P (let x = v in f x)"
  by simp

fun ok_run :: "('op \<Rightarrow> 's \<Rightarrow> 's) \<Rightarrow> ('op \<Rightarrow> 's \<Rightarrow> bool) \<Rightarrow> 'op list \<Rightarrow> 's \<Rightarrow> bool" where
  "ok_run exec ok [] s = True"
| "ok_run exec ok (x # xs) s = (ok x s \<and> ok_run exec ok xs (exec x s))"

locale functional_refinement =
  fixes exec :: "'op \<Rightarrow> 's \<Rightarrow> 's"
    and spec :: "'op \<Rightarrow> 'a \<Rightarrow> 'a"
    and abs :: "'s \<Rightarrow> 'a"
    and inv :: "'s \<Rightarrow> bool"
    and ok :: "'op \<Rightarrow> 's \<Rightarrow> bool"
  assumes simulates: "inv s \<Longrightarrow> ok x s \<Longrightarrow> abs (exec x s) = spec x (abs s)"
    and exec_inv: "inv s \<Longrightarrow> ok x s \<Longrightarrow> inv (exec x s)"
begin

lemma run_inv: "inv s \<Longrightarrow> ok_run exec ok xs s \<Longrightarrow> inv (fold exec xs s)"
  by (induction xs arbitrary: s) (simp_all add: exec_inv)

lemma run_simulates: "inv s \<Longrightarrow> ok_run exec ok xs s \<Longrightarrow> abs (fold exec xs s) = fold spec xs (abs s)"
  by (induction xs arbitrary: s) (simp_all add: simulates exec_inv)

text \<open>What every abstract operation keeps holds of the abstraction of every run.\<close>

lemma run_abs_inv:
  assumes step: "\<And>x s. inv s \<Longrightarrow> ok x s \<Longrightarrow> P (abs s) \<Longrightarrow> P (spec x (abs s))"
  shows "inv s \<Longrightarrow> ok_run exec ok xs s \<Longrightarrow> P (abs s) \<Longrightarrow> P (abs (fold exec xs s))"
proof (induction xs arbitrary: s)
  case Nil
  then show ?case by simp
next
  case (Cons x xs)
  then have "P (abs (exec x s))" using step [of s x] by (simp add: simulates)
  then show ?case using Cons by (simp add: exec_inv)
qed

end

text \<open>
  From a precondition to a postcondition. The steps before the last one keep the precondition; the
  postcondition is the weaker of the two, so that a failure on the way is covered.
\<close>

definition leads :: "('s \<Rightarrow> bool) \<Rightarrow> ('s \<Rightarrow> bool) \<Rightarrow> ('s, 'a) act \<Rightarrow> bool" where
  "leads P Q m = (\<forall>s. P s \<longrightarrow> Q (fst (m s)))"

lemma leadsD: "leads P Q m \<Longrightarrow> P s \<Longrightarrow> Q (fst (m s))"
  by (simp add: leads_def)

lemma leads_keeps: "keeps P m \<Longrightarrow> (\<And>s. P s \<Longrightarrow> Q s) \<Longrightarrow> leads P Q m"
  by (simp add: leads_def keeps_def)

lemma leads_bind_last:
  "keeps P m \<Longrightarrow> (\<And>s. P s \<Longrightarrow> Q s) \<Longrightarrow> (\<And>x. leads P Q (f x)) \<Longrightarrow> leads P Q (act_bind m f)"
  by (auto simp: leads_def keeps_def act_bind_def split: prod.splits sum.splits)

lemma leads_bind_first:
  "leads P Q m \<Longrightarrow> (\<And>x. keeps Q (f x)) \<Longrightarrow> leads P Q (act_bind m f)"
  by (auto simp: leads_def keeps_def act_bind_def split: prod.splits sum.splits)

end
