(* ===== verification/Otp_Service.thy ===== *)
theory Otp_Service
  imports Otp_Domain Effects
begin

text \<open>
  The one-time-password service (\<open>services/otp/src/repo/mod.rs\<close>, \<open>src/api/mod.rs\<close>): the table of
  hashed codes, the abuse counters in the cache, and the three endpoints. The state also records
  the messages the gateway accepted. A call takes its clock, the server's answers and the random
  draws from the environment \<open>otp_env\<close>.
\<close>

record otp_row =
  ot_id :: uuid
  ot_phone :: string
  ot_code_hash :: string
  ot_purpose :: string
  ot_attempts :: int
  ot_used :: bool
  ot_expires_at :: instant
  ot_created_at :: instant

record otp_state =
  os_redis :: redis
  os_codes :: "otp_row list"
  os_sent :: "(string \<times> utext) list"

record otp_config =
  oc_expiry_minutes :: int
  oc_max_attempts :: int
  oc_length :: nat
  oc_rate_limit_seconds :: int
  oc_phone_verify_ttl_minutes :: int
  oc_daily_otp_limit :: int

record otp_env =
  oe_up :: bool
  oe_now :: instant
  oe_tx_now :: instant
  oe_code_id :: uuid
  oe_draws :: "nat list"
  oe_jti :: uuid
  oe_challenge :: uuid
  oe_operands :: "(32 word \<times> 32 word) \<times> captcha_op"
  oe_send :: "string \<Rightarrow> utext \<Rightarrow> string app_result"

subsection \<open>Repository\<close>

definition PURPOSE_REGISTER :: string where "PURPOSE_REGISTER = ''register''"
definition PURPOSE_PIN_RESET :: string where "PURPOSE_PIN_RESET = ''pin_reset''"
definition PURPOSE_PHONE_CHANGE :: string where "PURPOSE_PHONE_CHANGE = ''phone_change''"

definition use_codes :: "(otp_row \<Rightarrow> bool) \<Rightarrow> otp_row list \<Rightarrow> otp_row list" where
  "use_codes sel rows = map (\<lambda>r. if sel r then r\<lparr>ot_used := True\<rparr> else r) rows"

definition store_code ::
  "uuid \<Rightarrow> instant \<Rightarrow> string \<Rightarrow> string \<Rightarrow> string \<Rightarrow> instant \<Rightarrow> otp_row list \<Rightarrow> otp_row list" where
  "store_code fresh tx_now phone code_hash purpose expires_at rows =
    use_codes (\<lambda>r. ot_phone r = phone \<and> \<not> ot_used r) rows @
      [\<lparr>ot_id = fresh, ot_phone = phone, ot_code_hash = code_hash, ot_purpose = purpose,
        ot_attempts = 0, ot_used = False, ot_expires_at = expires_at, ot_created_at = tx_now\<rparr>]"

text \<open>\<open>ORDER BY created_at DESC LIMIT 1\<close>, the later row first where two were created at once.\<close>

definition newest :: "otp_row list \<Rightarrow> otp_row option" where
  "newest rows = fold (\<lambda>r best. case best of
       None \<Rightarrow> Some r
     | Some b \<Rightarrow> if ot_created_at b \<le> ot_created_at r then Some r else Some b) rows None"

definition live_code :: "instant \<Rightarrow> string \<Rightarrow> otp_row \<Rightarrow> bool" where
  "live_code tx_now phone r = (ot_phone r = phone \<and> \<not> ot_used r \<and> tx_now < ot_expires_at r)"

definition claim_for_verify ::
  "instant \<Rightarrow> string \<Rightarrow> otp_row list \<Rightarrow> otp_row option \<times> otp_row list" where
  "claim_for_verify tx_now phone rows =
    (case newest (filter (live_code tx_now phone) rows) of
       None \<Rightarrow> (None, rows)
     | Some r \<Rightarrow> (Some (r\<lparr>ot_attempts := ot_attempts r + 1\<rparr>),
         map (\<lambda>x. if ot_id x = ot_id r then x\<lparr>ot_attempts := ot_attempts x + 1\<rparr> else x) rows))"

definition mark_used :: "uuid \<Rightarrow> otp_row list \<Rightarrow> otp_row list" where
  "mark_used k rows = use_codes (\<lambda>r. ot_id r = k) rows"

subsection \<open>Purposes\<close>

definition resolve_token_purpose :: "string option \<Rightarrow> string app_result" where
  "resolve_token_purpose requested = (case requested of
     None \<Rightarrow> Inr PHONE_VERIFY_PURPOSE
   | Some p \<Rightarrow>
     if p = PHONE_VERIFY_PURPOSE then Inr PHONE_VERIFY_PURPOSE
     else if p = PIN_RESET_PURPOSE then Inr PIN_RESET_PURPOSE
     else if p = PHONE_CHANGE_PURPOSE then Inr PHONE_CHANGE_PURPOSE
     else Inl (BadRequest ''Unknown token purpose''))"

definition row_purpose_for :: "string \<Rightarrow> string" where
  "row_purpose_for purpose =
    (if purpose = PIN_RESET_PURPOSE then PURPOSE_PIN_RESET
     else if purpose = PHONE_CHANGE_PURPOSE then PURPOSE_PHONE_CHANGE
     else PURPOSE_REGISTER)"

definition token_purpose_for :: "string \<Rightarrow> string" where
  "token_purpose_for row_purpose =
    (if row_purpose = PURPOSE_PIN_RESET then PIN_RESET_PURPOSE
     else if row_purpose = PURPOSE_PHONE_CHANGE then PHONE_CHANGE_PURPOSE
     else PHONE_VERIFY_PURPOSE)"

definition message_for :: "string \<Rightarrow> string \<Rightarrow> int \<Rightarrow> utext" where
  "message_for purpose code expiry_minutes =
    (if purpose = PIN_RESET_PURPOSE then format_pin_reset_otp_message code expiry_minutes
     else if purpose = PHONE_CHANGE_PURPOSE then format_phone_change_otp_message code expiry_minutes
     else format_otp_message code expiry_minutes)"

text \<open>The purpose bound to a code at the request is the one its token gets.\<close>

lemma purpose_bound:
  "resolve_token_purpose q = Inr p \<Longrightarrow> token_purpose_for (row_purpose_for p) = p"
  by (auto simp: resolve_token_purpose_def token_purpose_for_def row_purpose_for_def purpose_defs
      PURPOSE_REGISTER_def PURPOSE_PIN_RESET_def PURPOSE_PHONE_CHANGE_def split: option.splits if_splits)

subsection \<open>Endpoints\<close>

definition CAPTCHA_TTL_SECS :: int where "CAPTCHA_TTL_SECS = 180"
definition DAILY_WINDOW_SECS :: int where "DAILY_WINDOW_SECS = 86400"
definition JTI_SKEW_BUFFER_SECS :: int where "JTI_SKEW_BUFFER_SECS = 30"

definition captcha_key :: "string \<Rightarrow> string" where "captcha_key c = ''otp_captcha:'' @ c"
definition lock_key :: "string \<Rightarrow> string" where "lock_key p = ''otp_lock:'' @ p"
definition rate_key :: "string \<Rightarrow> string" where "rate_key p = ''otp_rate:'' @ p"
definition daily_key :: "string \<Rightarrow> string" where "daily_key p = ''otp_daily:'' @ p"
definition burst_key :: "string \<Rightarrow> string" where "burst_key p = ''otp_burst:'' @ p"

lemmas otp_key_defs = captcha_key_def lock_key_def rate_key_def daily_key_def burst_key_def

lemma otp_keys_apart [simp]:
  "captcha_key c \<noteq> lock_key p" "captcha_key c \<noteq> rate_key p" "captcha_key c \<noteq> daily_key p"
  "captcha_key c \<noteq> burst_key p" "lock_key p \<noteq> rate_key q" "lock_key p \<noteq> daily_key q"
  "lock_key p \<noteq> burst_key q" "rate_key p \<noteq> daily_key q" "rate_key p \<noteq> burst_key q"
  "daily_key p \<noteq> burst_key q"
  "lock_key p \<noteq> captcha_key c" "rate_key p \<noteq> captcha_key c" "daily_key p \<noteq> captcha_key c"
  "burst_key p \<noteq> captcha_key c" "rate_key q \<noteq> lock_key p" "daily_key q \<noteq> lock_key p"
  "burst_key q \<noteq> lock_key p" "daily_key q \<noteq> rate_key p" "burst_key q \<noteq> rate_key p"
  "burst_key q \<noteq> daily_key p"
  "daily_key p = daily_key q \<longleftrightarrow> p = q" "burst_key p = burst_key q \<longleftrightarrow> p = q"
  "lock_key p = lock_key q \<longleftrightarrow> p = q" "rate_key p = rate_key q \<longleftrightarrow> p = q"
  by (simp_all add: otp_key_defs)

definition on_redis :: "bool \<Rightarrow> (redis \<Rightarrow> 'a \<times> redis) \<Rightarrow> (otp_state, 'a) act" where
  "on_redis up f s = (if up then (let (x, r) = f (os_redis s) in (s\<lparr>os_redis := r\<rparr>, Inr x))
     else (s, Inl redis_unreachable))"

definition on_codes :: "(otp_row list \<Rightarrow> 'a \<times> otp_row list) \<Rightarrow> (otp_state, 'a) act" where
  "on_codes f s = (let (x, rows) = f (os_codes s) in (s\<lparr>os_codes := rows\<rparr>, Inr x))"

definition value_text :: "redis_value \<Rightarrow> string" where
  "value_text v = (case v of RText s \<Rightarrow> s | RNum n \<Rightarrow> show_int n)"

record challenge_response =
  cr_challenge_id :: string
  cr_question :: string
  cr_expires_in :: int

definition otp_challenge :: "otp_env \<Rightarrow> (otp_state, challenge_response) act" where
  "otp_challenge env =
    (let ((a, b), op) = oe_operands env; ch = generate_captcha a b op;
         challenge_id = uuid_text (oe_challenge env)
     in act_bind (on_redis (oe_up env) (\<lambda>r. ((), r_set_ex (oe_now env) (captcha_key challenge_id)
           (RText (show_u32 (cc_answer ch))) CAPTCHA_TTL_SECS r))) (\<lambda>_.
        act_return \<lparr>cr_challenge_id = challenge_id, cr_question = cc_question ch,
          cr_expires_in = CAPTCHA_TTL_SECS\<rparr>))"

record otp_request =
  rq_phone :: string
  rq_challenge_id :: string
  rq_answer :: string
  rq_purpose :: "string option"

definition captcha_gate :: "otp_env \<Rightarrow> otp_request \<Rightarrow> (otp_state, unit) act" where
  "captcha_gate env req =
    act_bind (on_redis (oe_up env) (r_getdel (oe_now env) (captcha_key (rq_challenge_id req)))) (\<lambda>expected.
    (case expected of
       None \<Rightarrow> act_fail (BadRequestCode ''CAPTCHA_EXPIRED'' ''[the question expired, answer the new one]'')
     | Some ans \<Rightarrow> act_guard (trim (value_text ans) = trim (rq_answer req))
         (BadRequestCode ''CAPTCHA_INVALID'' ''[the answer is wrong, try again]'')))"

definition admin_lock_error :: app_error where
  "admin_lock_error = BadRequestCode ''OTP_ADMIN_LOCK'' ''[too many OTP requests, contact the staff]''"

definition lock_gate :: "otp_env \<Rightarrow> string \<Rightarrow> (otp_state, unit) act" where
  "lock_gate env phone =
    act_bind (on_redis (oe_up env) (\<lambda>r. ((r_get (oe_now env) r (lock_key phone),
      r_ttl (oe_now env) r (lock_key phone)), r))) (\<lambda>(lock_val, lock_ttl).
    (case existing_lock_decision lock_val lock_ttl of
       NoLock \<Rightarrow> act_return ()
     | AdminContact \<Rightarrow> act_fail admin_lock_error
     | BurstLock remaining_minutes \<Rightarrow>
       act_fail (BadRequestCode ''OTP_BURST_LOCK'' ''[too frequent, retry in {remaining_minutes} minutes]'')))"

definition cooldown_gate :: "otp_config \<Rightarrow> otp_env \<Rightarrow> string \<Rightarrow> (otp_state, unit) act" where
  "cooldown_gate cfg env phone =
    act_bind (on_redis (oe_up env) (r_set_nx_ex (oe_now env) (rate_key phone) (RText ''1'')
      (oc_rate_limit_seconds cfg))) (\<lambda>was_set.
    act_guard was_set (BadRequestCode ''OTP_COOLDOWN'' ''[wait a moment before asking again]''))"

text \<open>A counter with a window: count, and start the window when the key has none.\<close>

definition bump :: "instant \<Rightarrow> string \<Rightarrow> int \<Rightarrow> redis \<Rightarrow> int option \<times> redis" where
  "bump now k window r = (case r_incr now k r of
     None \<Rightarrow> (None, r)
   | Some (n, r') \<Rightarrow> (Some n, if r_ttl now r' k < 0 then r_expire now k window r' else r'))"

definition count_in :: "otp_env \<Rightarrow> string \<Rightarrow> int \<Rightarrow> (otp_state, int) act" where
  "count_in env k window =
    act_bind (on_redis (oe_up env) (bump (oe_now env) k window)) (\<lambda>n.
    (case n of None \<Rightarrow> act_fail redis_unreachable | Some c \<Rightarrow> act_return c))"

definition set_lock :: "otp_env \<Rightarrow> string \<Rightarrow> string \<Rightarrow> int \<Rightarrow> app_error \<Rightarrow> (otp_state, unit) act" where
  "set_lock env phone tier secs e =
    act_bind (on_redis (oe_up env) (\<lambda>r. ((), r_set_ex (oe_now env) (lock_key phone) (RText tier) secs r)))
      (\<lambda>_. act_fail e)"

definition lockout_gate :: "otp_config \<Rightarrow> otp_env \<Rightarrow> string \<Rightarrow> int \<Rightarrow> int \<Rightarrow> (otp_state, unit) act" where
  "lockout_gate cfg env phone burst_count daily_count =
    (case lockout_decision burst_count daily_count (oc_daily_otp_limit cfg) of
       AllowRequest \<Rightarrow> act_return ()
     | TripAdminLock secs \<Rightarrow> set_lock env phone ''admin'' secs admin_lock_error
     | TripBurstLock secs \<Rightarrow> set_lock env phone ''burst'' secs
         (BadRequestCode ''OTP_BURST_LOCK'' ''[too frequent, retry in 10 minutes]''))"

text \<open>When the message does not go out, the counters and the cooldown are taken back.\<close>

definition compensate_quota :: "instant \<Rightarrow> string \<Rightarrow> redis \<Rightarrow> redis" where
  "compensate_quota now phone r =
    r_del (rate_key phone) (r_decr now (burst_key phone) (r_decr now (daily_key phone) r))"

definition deliver :: "otp_env \<Rightarrow> string \<Rightarrow> utext \<Rightarrow> (otp_state, unit) act" where
  "deliver env phone message s = (let sms_phone = to_international_format phone in
     case oe_send env sms_phone message of
       Inr _ \<Rightarrow> (s\<lparr>os_sent := os_sent s @ [(sms_phone, message)]\<rparr>, Inr ())
     | Inl send_err \<Rightarrow>
       (if oe_up env then s\<lparr>os_redis := compensate_quota (oe_now env) phone (os_redis s)\<rparr> else s, Inl send_err))"

definition issue_code :: "(string \<Rightarrow> string) \<Rightarrow> otp_config \<Rightarrow> otp_env \<Rightarrow> string \<Rightarrow> string \<Rightarrow> (otp_state, unit) act" where
  "issue_code sha cfg env phone purpose =
    (let code = generate_otp (take (oc_length cfg) (oe_draws env)) in
     act_bind (on_codes (\<lambda>rows. ((), store_code (oe_code_id env) (oe_tx_now env) phone (sha code)
         (row_purpose_for purpose) (oe_now env + minutes (oc_expiry_minutes cfg)) rows))) (\<lambda>_.
     deliver env phone (message_for purpose code (oc_expiry_minutes cfg))))"

definition request_otp :: "(string \<Rightarrow> string) \<Rightarrow> otp_config \<Rightarrow> otp_env \<Rightarrow> otp_request \<Rightarrow> (otp_state, int) act" where
  "request_otp sha cfg env req =
    act_bind (act_of (resolve_token_purpose (rq_purpose req))) (\<lambda>purpose.
    act_bind (captcha_gate env req) (\<lambda>_.
    act_bind (act_of (validate_thai_phone (rq_phone req))) (\<lambda>phone.
    act_bind (lock_gate env phone) (\<lambda>_.
    act_bind (cooldown_gate cfg env phone) (\<lambda>_.
    act_bind (count_in env (daily_key phone) DAILY_WINDOW_SECS) (\<lambda>daily_count.
    act_bind (count_in env (burst_key phone) BURST_WINDOW_SECS) (\<lambda>burst_count.
    act_bind (lockout_gate cfg env phone burst_count daily_count) (\<lambda>_.
    act_bind (issue_code sha cfg env phone purpose) (\<lambda>_.
    act_return (oc_expiry_minutes cfg * 60))))))))))"

record verify_request =
  vr_phone :: string
  vr_code :: string
  vr_purpose :: "string option"

record verify_response =
  vo_token :: string
  vo_expires_in :: int

definition otp_invalid :: app_error where
  "otp_invalid = BadRequestCode ''OTP_INVALID'' ''[the OTP is wrong or expired]''"

definition burn :: "uuid \<Rightarrow> (otp_state, unit) act" where
  "burn k = on_codes (\<lambda>rows. ((), mark_used k rows))"

text \<open>Clearing the counters is best effort: an error is ignored.\<close>

definition clear_counters :: "otp_env \<Rightarrow> string \<Rightarrow> (otp_state, unit) act" where
  "clear_counters env phone s =
    (if oe_up env then s\<lparr>os_redis := r_del (lock_key phone) (r_del (burst_key phone)
        (r_del (daily_key phone) (os_redis s)))\<rparr> else s, Inr ())"

definition issue_token :: "jwt_lib \<Rightarrow> otp_config \<Rightarrow> otp_env \<Rightarrow> string \<Rightarrow> string \<Rightarrow> (otp_state, verify_response) act" where
  "issue_token J cfg env phone purpose =
    (let (token, jti) = encode_phone_verify_token J (oe_now env) (oe_jti env) phone purpose
           (oc_phone_verify_ttl_minutes cfg);
         ttl_secs = oc_phone_verify_ttl_minutes cfg * 60 + JTI_SKEW_BUFFER_SECS
     in act_bind (on_redis (oe_up env) (\<lambda>r. ((), put_marker (oe_now env)
           (phone_verify_jti_key purpose jti) ttl_secs r))) (\<lambda>_.
        act_return \<lparr>vo_token = token, vo_expires_in = oc_phone_verify_ttl_minutes cfg * 60\<rparr>))"

definition check_code ::
  "(string \<Rightarrow> string) \<Rightarrow> otp_config \<Rightarrow> string \<Rightarrow> string \<Rightarrow> otp_row \<Rightarrow> (otp_state, string) act" where
  "check_code sha cfg code requested_purpose row =
    (if oc_max_attempts cfg < ot_attempts row
     then act_bind (burn (ot_id row)) (\<lambda>_. act_fail (BadRequestCode ''OTP_MAX_ATTEMPTS''
            ''[too many attempts, ask for a new OTP]''))
     else if \<not> hashes_match (ot_code_hash row) (sha code)
     then act_fail (BadRequestCode ''OTP_INVALID'' ''[the OTP is wrong]'')
     else (let purpose = token_purpose_for (ot_purpose row) in
       act_bind (burn (ot_id row)) (\<lambda>_.
         if requested_purpose \<noteq> purpose then act_fail otp_invalid else act_return purpose)))"

definition otp_verify ::
  "jwt_lib \<Rightarrow> (string \<Rightarrow> string) \<Rightarrow> otp_config \<Rightarrow> otp_env \<Rightarrow> verify_request \<Rightarrow> (otp_state, verify_response) act" where
  "otp_verify J sha cfg env req =
    act_bind (act_of (validate_thai_phone (vr_phone req))) (\<lambda>phone.
    act_bind (act_guard (length (vr_code req) = oc_length cfg) otp_invalid) (\<lambda>_.
    act_bind (act_of (resolve_token_purpose (vr_purpose req))) (\<lambda>requested_purpose.
    act_bind (on_codes (claim_for_verify (oe_tx_now env) phone)) (\<lambda>claimed.
    (case claimed of
       None \<Rightarrow> act_fail otp_invalid
     | Some row \<Rightarrow>
       act_bind (check_code sha cfg (vr_code req) requested_purpose row) (\<lambda>purpose.
       act_bind (clear_counters env phone) (\<lambda>_.
       issue_token J cfg env phone purpose)))))))"

end
