(* ===== verification/Otp_Properties.thy ===== *)
theory Otp_Properties
  imports Otp_Service Shared_Tokens
begin

text \<open>
  What the one-time-password service guarantees: a phone has at most one live code, a code can be
  guessed at only so often, a token carries the phone and the purpose the code was asked for, and the
  number of messages to a phone in a day is bounded.
\<close>

subsection \<open>Commands\<close>

datatype otp_cmd =
    CmdChallenge otp_env
  | CmdRequest otp_env otp_request
  | CmdVerify otp_env verify_request

definition run_otp :: "jwt_lib \<Rightarrow> (string \<Rightarrow> string) \<Rightarrow> otp_config \<Rightarrow> otp_cmd \<Rightarrow> otp_state \<Rightarrow> otp_state" where
  "run_otp J sha cfg c s = (case c of
     CmdChallenge env \<Rightarrow> fst (otp_challenge env s)
   | CmdRequest env req \<Rightarrow> fst (request_otp sha cfg env req s)
   | CmdVerify env req \<Rightarrow> fst (otp_verify J sha cfg env req s))"

subsection \<open>What the steps leave alone\<close>

lemma on_redis_run:
  "on_redis up f s = (if up then (s\<lparr>os_redis := snd (f (os_redis s))\<rparr>, Inr (fst (f (os_redis s))))
     else (s, Inl redis_unreachable))"
  by (simp add: on_redis_def case_prod_beta Let_def)

lemma on_codes_run: "on_codes f s = (s\<lparr>os_codes := snd (f (os_codes s))\<rparr>, Inr (fst (f (os_codes s))))"
  by (simp add: on_codes_def case_prod_beta Let_def)

lemma keeps_on_redis [keeps_intros]: "keeps (\<lambda>s. P (os_codes s)) (on_redis up f)"
  by (simp add: keeps_def on_redis_run)

lemma keeps_redis_steps [keeps_intros]:
  "keeps (\<lambda>s. P (os_codes s)) (captcha_gate env req)"
  "keeps (\<lambda>s. P (os_codes s)) (lock_gate env phone)"
  "keeps (\<lambda>s. P (os_codes s)) (cooldown_gate cfg env phone)"
  "keeps (\<lambda>s. P (os_codes s)) (count_in env k w)"
  "keeps (\<lambda>s. P (os_codes s)) (lockout_gate cfg env phone b d)"
  "keeps (\<lambda>s. P (os_codes s)) (clear_counters env phone)"
  "keeps (\<lambda>s. P (os_codes s)) (issue_token J cfg env phone purpose)"
  "keeps (\<lambda>s. P (os_codes s)) (deliver env phone m)"
  "keeps (\<lambda>s. P (os_codes s)) (otp_challenge env)"
proof -
  show "keeps (\<lambda>s. P (os_codes s)) (captcha_gate env req)"
    unfolding captcha_gate_def by (intro keeps_intros)
  show "keeps (\<lambda>s. P (os_codes s)) (lock_gate env phone)"
    unfolding lock_gate_def by (intro keeps_intros) (simp add: keeps_def split: active_lock.split)
  show "keeps (\<lambda>s. P (os_codes s)) (cooldown_gate cfg env phone)"
    unfolding cooldown_gate_def by (intro keeps_intros)
  show "keeps (\<lambda>s. P (os_codes s)) (count_in env k w)"
    unfolding count_in_def by (intro keeps_intros)
  have "keeps (\<lambda>s. P (os_codes s)) (set_lock env phone t n e)" for t n e
    unfolding set_lock_def by (intro keeps_intros)
  then show "keeps (\<lambda>s. P (os_codes s)) (lockout_gate cfg env phone b d)"
    unfolding lockout_gate_def by (simp add: keeps_basic split: lockout_outcome.split)
  show "keeps (\<lambda>s. P (os_codes s)) (clear_counters env phone)"
    by (simp add: keeps_def clear_counters_def)
  show "keeps (\<lambda>s. P (os_codes s)) (issue_token J cfg env phone purpose)"
    unfolding issue_token_def Let_def by (intro keeps_intros)
  show "keeps (\<lambda>s. P (os_codes s)) (deliver env phone m)"
    by (simp add: keeps_def deliver_def Let_def split: sum.split)
  show "keeps (\<lambda>s. P (os_codes s)) (otp_challenge env)"
    unfolding otp_challenge_def Let_def case_prod_beta by (intro keeps_intros)
qed

lemma keeps_on_codes:
  "(\<And>rows. P rows \<Longrightarrow> P (snd (f rows))) \<Longrightarrow> keeps (\<lambda>s. P (os_codes s)) (on_codes f)"
  by (simp add: keeps_def on_codes_run)

text \<open>
  A property of the table holds after every command if storing, claiming and burning a code keep it.
\<close>

locale otp_table =
  fixes P :: "otp_row list \<Rightarrow> bool" and stores :: "uuid \<Rightarrow> bool"
  assumes store: "P rows \<Longrightarrow> stores k \<Longrightarrow> P (store_code k t phone h p e rows)"
    and claim: "P rows \<Longrightarrow> P (snd (claim_for_verify t phone rows))"
    and burn: "P rows \<Longrightarrow> P (mark_used k rows)"
begin

lemma keeps_request:
  "stores (oe_code_id env) \<Longrightarrow> keeps (\<lambda>s. P (os_codes s)) (request_otp sha cfg env req)"
  unfolding request_otp_def issue_code_def Let_def
  by (intro keeps_intros keeps_on_codes) (simp add: store)

lemma keeps_check: "keeps (\<lambda>s. P (os_codes s)) (check_code sha cfg c p row)"
  unfolding check_code_def burn_def Let_def
  by (intro keeps_intros keeps_on_codes) (simp_all add: burn)

lemma keeps_verify: "keeps (\<lambda>s. P (os_codes s)) (otp_verify J sha cfg env req)"
  unfolding otp_verify_def
  by (intro keeps_intros keeps_on_codes keeps_check) (simp add: claim)

lemma run_keeps:
  assumes "\<forall>env req. c = CmdRequest env req \<longrightarrow> stores (oe_code_id env)" "P (os_codes s)"
  shows "P (os_codes (run_otp J sha cfg c s))"
  using assms keepsD [OF keeps_request] keepsD [OF keeps_verify] keepsD [OF keeps_redis_steps(9)]
  by (cases c) (simp_all add: run_otp_def)

lemma runs_keep:
  assumes "list_all (\<lambda>c. \<forall>env req. c = CmdRequest env req \<longrightarrow> stores (oe_code_id env)) cs" "P (os_codes s)"
  shows "P (os_codes (fold (run_otp J sha cfg) cs s))"
  using assms by (induction cs arbitrary: s) (simp_all add: run_keeps)

end

subsection \<open>One live code per phone\<close>

definition unused_codes :: "string \<Rightarrow> otp_row list \<Rightarrow> otp_row list" where
  "unused_codes phone rows = filter (\<lambda>r. ot_phone r = phone \<and> \<not> ot_used r) rows"

definition one_live_code :: "otp_row list \<Rightarrow> bool" where
  "one_live_code rows = (\<forall>phone. length (unused_codes phone rows) \<le> 1)"

lemma length_filter_map_le:
  "(\<And>x. Q (f x) \<Longrightarrow> R x) \<Longrightarrow> length (filter Q (map f xs)) \<le> length (filter R xs)"
  by (induction xs) (auto intro: le_SucI)

lemma one_live_store:
  assumes "one_live_code rows"
  shows "one_live_code (store_code k t phone h p e rows)"
  unfolding one_live_code_def
proof
  fix q
  let ?u = "use_codes (\<lambda>r. ot_phone r = phone \<and> \<not> ot_used r) rows"
  have "length (unused_codes q ?u) \<le> length (unused_codes q rows)"
    unfolding unused_codes_def use_codes_def by (rule length_filter_map_le) (auto split: if_splits)
  moreover have "unused_codes phone ?u = []"
    unfolding unused_codes_def use_codes_def by (induction rows) simp_all
  moreover have "length (unused_codes q rows) \<le> 1" using assms by (simp add: one_live_code_def)
  moreover have "unused_codes q (store_code k t phone h p e rows)
      = unused_codes q ?u @ (if q = phone then [last (store_code k t phone h p e rows)] else [])"
    by (simp add: store_code_def unused_codes_def)
  ultimately show "length (unused_codes q (store_code k t phone h p e rows)) \<le> 1"
    by (cases "q = phone") simp_all
qed

lemma one_live_map:
  assumes "one_live_code rows" "\<And>r. ot_phone (f r) = ot_phone r" "\<And>r. ot_used r \<Longrightarrow> ot_used (f r)"
  shows "one_live_code (map f rows)"
  unfolding one_live_code_def
proof
  fix q
  have "length (unused_codes q (map f rows)) \<le> length (unused_codes q rows)"
    unfolding unused_codes_def by (rule length_filter_map_le) (use assms(2,3) in auto)
  then show "length (unused_codes q (map f rows)) \<le> 1"
    using assms(1) unfolding one_live_code_def by (meson le_trans)
qed

interpretation live_codes: otp_table one_live_code "\<lambda>_. True"
proof unfold_locales
  fix rows t phone
  assume "one_live_code rows"
  then show "one_live_code (snd (claim_for_verify t phone rows))"
    by (auto simp: claim_for_verify_def intro!: one_live_map split: option.split)
next
  fix rows k
  assume "one_live_code rows"
  then show "one_live_code (mark_used k rows)"
    unfolding mark_used_def use_codes_def by (rule one_live_map) auto
qed (rule one_live_store)

subsection \<open>Guesses at a code\<close>

text \<open>
  The row a verification claims, and whether it goes on to compare the submitted code with it.
\<close>

definition claimed_row :: "otp_config \<Rightarrow> otp_env \<Rightarrow> verify_request \<Rightarrow> otp_state \<Rightarrow> otp_row option" where
  "claimed_row cfg env req s = (case validate_thai_phone (vr_phone req) of
     Inl _ \<Rightarrow> None
   | Inr phone \<Rightarrow>
     if length (vr_code req) = oc_length cfg \<and> is_ok (resolve_token_purpose (vr_purpose req))
     then fst (claim_for_verify (oe_tx_now env) phone (os_codes s)) else None)"

definition compares :: "otp_config \<Rightarrow> uuid \<Rightarrow> otp_cmd \<Rightarrow> otp_state \<Rightarrow> bool" where
  "compares cfg k c s = (case c of
     CmdVerify env req \<Rightarrow> (case claimed_row cfg env req s of
       None \<Rightarrow> False | Some row \<Rightarrow> ot_id row = k \<and> ot_attempts row \<le> oc_max_attempts cfg)
   | _ \<Rightarrow> False)"

fun guesses :: "jwt_lib \<Rightarrow> (string \<Rightarrow> string) \<Rightarrow> otp_config \<Rightarrow> uuid \<Rightarrow> otp_cmd list \<Rightarrow> otp_state \<Rightarrow> nat" where
  "guesses J sha cfg k [] s = 0"
| "guesses J sha cfg k (c # cs) s =
    (if compares cfg k c s then 1 else 0) + guesses J sha cfg k cs (run_otp J sha cfg c s)"

definition tried :: "uuid \<Rightarrow> int \<Rightarrow> otp_row list \<Rightarrow> bool" where
  "tried k n rows = (\<forall>r\<in>set rows. ot_id r = k \<longrightarrow> n \<le> ot_attempts r)"

interpretation tried_rows: otp_table "tried k n" "\<lambda>j. j \<noteq> k" for k n
  by unfold_locales
    (auto simp: tried_def store_code_def use_codes_def mark_used_def claim_for_verify_def
      split: option.splits)

interpretation untried_rows: otp_table "tried k 0" "\<lambda>_. True" for k
  by unfold_locales
    (auto simp: tried_def store_code_def use_codes_def mark_used_def claim_for_verify_def
      split: option.splits)

lemma newest_in:
  "fold (\<lambda>r best. case best of None \<Rightarrow> Some r
      | Some b \<Rightarrow> if ot_created_at b \<le> ot_created_at r then Some r else Some b) rows best = Some x
    \<Longrightarrow> x \<in> set rows \<or> best = Some x"
  by (induction rows arbitrary: best) (fastforce split: option.splits if_splits)+

lemma newest_mem: "newest rows = Some r \<Longrightarrow> r \<in> set rows"
  unfolding newest_def using newest_in [of rows None r] by auto

lemma claim_Some:
  assumes "claim_for_verify t phone rows = (Some row, rows')"
  shows "\<exists>r. r \<in> set rows \<and> live_code t phone r \<and> row = r\<lparr>ot_attempts := ot_attempts r + 1\<rparr>
    \<and> rows' = map (\<lambda>x. if ot_id x = ot_id r then x\<lparr>ot_attempts := ot_attempts x + 1\<rparr> else x) rows"
  using assms newest_mem by (fastforce simp: claim_for_verify_def split: option.splits)

lemma verify_claims:
  assumes "claimed_row cfg env req s = Some row"
  shows "\<exists>phone. validate_thai_phone (vr_phone req) = Inr phone
    \<and> claim_for_verify (oe_tx_now env) phone (os_codes s)
        = (Some row, snd (claim_for_verify (oe_tx_now env) phone (os_codes s)))
    \<and> length (vr_code req) = oc_length cfg
    \<and> (\<exists>p. resolve_token_purpose (vr_purpose req) = Inr p
      \<and> otp_verify J sha cfg env req s =
        act_bind (check_code sha cfg (vr_code req) p row) (\<lambda>purpose.
          act_bind (clear_counters env phone) (\<lambda>_. issue_token J cfg env phone purpose))
        (s\<lparr>os_codes := snd (claim_for_verify (oe_tx_now env) phone (os_codes s))\<rparr>))"
  using assms
  by (auto simp: claimed_row_def otp_verify_def on_codes_run act_bind_run is_ok_iff prod_eq_iff
      split: sum.splits if_splits)

lemma verify_unclaimed:
  assumes "claimed_row cfg env req s = None"
  shows "\<exists>s' e. otp_verify J sha cfg env req s = (s', Inl e)"
  using assms
  by (auto simp: claimed_row_def otp_verify_def on_codes_run act_bind_run is_ok_def
      split: sum.splits if_splits)

lemma compared_counts:
  assumes "compares cfg k c s" "tried k n (os_codes s)"
  shows "n + 1 \<le> oc_max_attempts cfg \<and> tried k (n + 1) (os_codes (run_otp J sha cfg c s))"
proof -
  obtain env req row where c: "c = CmdVerify env req" and row: "claimed_row cfg env req s = Some row"
    and k: "ot_id row = k" and le: "ot_attempts row \<le> oc_max_attempts cfg"
    using assms(1) by (auto simp: compares_def split: otp_cmd.splits option.splits)
  obtain phone rows' p where cl: "claim_for_verify (oe_tx_now env) phone (os_codes s) = (Some row, rows')"
    and v: "otp_verify J sha cfg env req s =
        act_bind (check_code sha cfg (vr_code req) p row) (\<lambda>purpose.
          act_bind (clear_counters env phone) (\<lambda>_. issue_token J cfg env phone purpose))
        (s\<lparr>os_codes := rows'\<rparr>)"
    using verify_claims [OF row, of J sha] by (metis snd_conv)
  obtain r where r: "r \<in> set (os_codes s)" "row = r\<lparr>ot_attempts := ot_attempts r + 1\<rparr>"
    "rows' = map (\<lambda>x. if ot_id x = ot_id r then x\<lparr>ot_attempts := ot_attempts x + 1\<rparr> else x) (os_codes s)"
    using claim_Some [OF cl] by blast
  have id: "ot_id r = k" using k r(2) by simp
  have "tried k (n + 1) rows'" using assms(2) id by (auto simp: tried_def r(3))
  then have "tried k (n + 1) (os_codes (fst (otp_verify J sha cfg env req s)))"
    unfolding v
    by (intro keepsD [OF keeps_bind [OF tried_rows.keeps_check keeps_bind]] keeps_redis_steps) simp
  moreover have "n \<le> ot_attempts r" using assms(2) r(1) id by (simp add: tried_def)
  ultimately show ?thesis using le r(2) c by (simp add: run_otp_def)
qed

lemma guesses_bound:
  assumes "list_all (\<lambda>c. \<forall>env req. c = CmdRequest env req \<longrightarrow> oe_code_id env \<noteq> k) cs"
    and "tried k n (os_codes s)"
  shows "int (guesses J sha cfg k cs s) \<le> max 0 (oc_max_attempts cfg - n)"
  using assms
proof (induction cs arbitrary: s n)
  case Nil
  then show ?case by simp
next
  case (Cons c cs)
  show ?case
  proof (cases "compares cfg k c s")
    case True
    have "int (guesses J sha cfg k cs (run_otp J sha cfg c s)) \<le> max 0 (oc_max_attempts cfg - (n + 1))"
      using Cons.prems compared_counts [OF True Cons.prems(2)] by (intro Cons.IH) auto
    then show ?thesis using True compared_counts [OF True Cons.prems(2)] by simp
  next
    case False
    have "tried k n (os_codes (run_otp J sha cfg c s))"
      using Cons.prems by (intro tried_rows.run_keeps) auto
    then show ?thesis using False Cons by simp
  qed
qed

subsection \<open>The daily budget\<close>

definition sent_to :: "string \<Rightarrow> otp_state \<Rightarrow> int" where
  "sent_to p s = int (length (filter (\<lambda>m. fst m = to_international_format p) (os_sent s)))"

text \<open>What the budget of a phone depends on: its daily counter, and the messages sent to it.\<close>

definition quota_view :: "string \<Rightarrow> otp_state \<Rightarrow> redis_entry option \<times> int" where
  "quota_view p s = (os_redis s (daily_key p), sent_to p s)"

lemma keeps_view_redis:
  assumes "\<And>r. snd (f r) (daily_key p) = r (daily_key p)"
  shows "keeps (\<lambda>s. P (quota_view p s)) (on_redis up f)"
  using assms by (simp add: keeps_def on_redis_run quota_view_def sent_to_def)

lemma keeps_view_codes [keeps_intros]: "keeps (\<lambda>s. P (quota_view p s)) (on_codes f)"
  by (simp add: keeps_def on_codes_run quota_view_def sent_to_def)

lemma bump_other: "j \<noteq> k \<Longrightarrow> snd (bump now k w r) j = r j"
  by (auto simp: bump_def r_incr_def dest: r_add_other split: option.splits)

lemma keeps_view_steps [keeps_intros]:
  "keeps (\<lambda>s. P (quota_view p s)) (captcha_gate env req)"
  "keeps (\<lambda>s. P (quota_view p s)) (lock_gate env q)"
  "keeps (\<lambda>s. P (quota_view p s)) (cooldown_gate cfg env q)"
  "keeps (\<lambda>s. P (quota_view p s)) (count_in env (burst_key q) w)"
  "q \<noteq> p \<Longrightarrow> keeps (\<lambda>s. P (quota_view p s)) (count_in env (daily_key q) w)"
  "keeps (\<lambda>s. P (quota_view p s)) (lockout_gate cfg env q b d)"
  "keeps (\<lambda>s. P (quota_view p s)) (otp_challenge env)"
proof -
  show "keeps (\<lambda>s. P (quota_view p s)) (captcha_gate env req)"
    unfolding captcha_gate_def
    by (intro keeps_intros keeps_view_redis) (simp add: r_getdel_def)
  show "keeps (\<lambda>s. P (quota_view p s)) (lock_gate env q)"
    unfolding lock_gate_def
    by (intro keeps_intros keeps_view_redis) (simp_all add: keeps_def split: active_lock.split)
  show "keeps (\<lambda>s. P (quota_view p s)) (cooldown_gate cfg env q)"
    unfolding cooldown_gate_def
    by (intro keeps_intros keeps_view_redis) (simp add: r_set_nx_ex_def)
  have c: "keeps (\<lambda>s. P (quota_view p s)) (count_in env k w)" if "daily_key p \<noteq> k" for k w
    unfolding count_in_def by (intro keeps_intros keeps_view_redis) (simp add: bump_other that)
  show "keeps (\<lambda>s. P (quota_view p s)) (count_in env (burst_key q) w)" by (rule c) simp
  show "q \<noteq> p \<Longrightarrow> keeps (\<lambda>s. P (quota_view p s)) (count_in env (daily_key q) w)" by (rule c) simp
  have "keeps (\<lambda>s. P (quota_view p s)) (set_lock env q t n e)" for t n e
    unfolding set_lock_def by (intro keeps_intros keeps_view_redis) simp
  then show "keeps (\<lambda>s. P (quota_view p s)) (lockout_gate cfg env q b d)"
    unfolding lockout_gate_def by (simp add: keeps_basic split: lockout_outcome.split)
  show "keeps (\<lambda>s. P (quota_view p s)) (otp_challenge env)"
    unfolding otp_challenge_def Let_def case_prod_beta
    by (intro keeps_intros keeps_view_redis) simp
qed

text \<open>
  The invariant from the instant \<open>t0\<close> on: the counter is absent and nothing was sent, or it runs to
  the end of the day and counts at least what was sent.
\<close>

definition dead_at :: "instant \<Rightarrow> redis_entry option \<Rightarrow> bool" where
  "dead_at t0 e = (e = None \<or> (\<exists>v deadline. e = Some (v, Some deadline) \<and> deadline \<le> t0))"

definition quota_ok :: "instant \<Rightarrow> int \<Rightarrow> int \<Rightarrow> redis_entry option \<times> int \<Rightarrow> bool" where
  "quota_ok t0 limit n0 v = (snd v - n0 \<le> max 0 (limit - 1)
    \<and> ((dead_at t0 (fst v) \<and> snd v \<le> n0)
      \<or> (\<exists>c deadline. fst v = Some (RNum c, Some deadline)
           \<and> t0 + seconds DAILY_WINDOW_SECS \<le> deadline \<and> snd v - n0 \<le> c)))"

lemma dead_live: "r_live t0 r k = None \<longleftrightarrow> dead_at t0 (r k)"
  by (auto simp: r_live_def dead_at_def split: option.splits if_splits)

definition counted :: "instant \<Rightarrow> int \<Rightarrow> int \<Rightarrow> int \<Rightarrow> redis_entry option \<times> int \<Rightarrow> bool" where
  "counted t0 limit n0 d v = (snd v - n0 \<le> max 0 (limit - 1)
    \<and> (\<exists>deadline. fst v = Some (RNum d, Some deadline) \<and> t0 + seconds DAILY_WINDOW_SECS \<le> deadline
        \<and> snd v - n0 \<le> d - 1))"

lemma counted_quota: "counted t0 limit n0 d v \<Longrightarrow> quota_ok t0 limit n0 v"
  by (auto simp: counted_def quota_ok_def)

lemma bump_counts:
  assumes "t0 \<le> now" "now < t0 + seconds DAILY_WINDOW_SECS" "quota_ok t0 limit n0 (r k, n)"
  shows "\<exists>d. fst (bump now k DAILY_WINDOW_SECS r) = Some d
    \<and> counted t0 limit n0 d (snd (bump now k DAILY_WINDOW_SECS r) k, n)"
proof (cases "dead_at t0 (r k) \<and> n \<le> n0")
  case True
  then have "r_live now r k = None" using assms(1) by (auto simp: dead_live [symmetric] intro: r_live_mono)
  then show ?thesis
    using True assms(1,3)
    by (simp add: bump_def r_incr_def r_add_def r_ttl_def r_live_def r_expire_def counted_def quota_ok_def)
next
  case False
  then obtain c deadline where e: "r k = Some (RNum c, Some deadline)"
    "t0 + seconds DAILY_WINDOW_SECS \<le> deadline" "n - n0 \<le> c"
    using assms(3) by (auto simp: quota_ok_def)
  have later: "now < deadline" using e(2) assms(2) by simp
  have live: "r_live now r k = Some (RNum c, Some deadline)" using e later by (simp add: r_live_def)
  have ttl: "\<not> (deadline - now + nanos_per_sec div 2) div nanos_per_sec < 0"
    using later by (simp add: nanos_per_sec_def pos_imp_zdiv_neg_iff)
  have inc: "r_incr now k r = Some (c + 1, r(k \<mapsto> (RNum (c + 1), Some deadline)))"
    by (simp add: r_incr_def r_add_def live)
  have "r_ttl now (r(k \<mapsto> (RNum (c + 1), Some deadline))) k
      = (deadline - now + nanos_per_sec div 2) div nanos_per_sec"
    using later by (simp add: r_ttl_def r_live_def)
  then show ?thesis
    using e(2,3) ttl assms(3) by (simp add: bump_def inc counted_def quota_ok_def)
qed

lemma count_daily:
  assumes "t0 \<le> oe_now env" "oe_now env < t0 + seconds DAILY_WINDOW_SECS"
    and "quota_ok t0 limit n0 (quota_view p s)"
    and "count_in env (daily_key p) DAILY_WINDOW_SECS s = (s', r)"
  shows "quota_ok t0 limit n0 (quota_view p s')
    \<and> (\<forall>d. r = Inr d \<longrightarrow> counted t0 limit n0 d (quota_view p s'))"
proof (cases "oe_up env")
  case False
  then show ?thesis using assms by (auto simp: count_in_def on_redis_run act_bind_run)
next
  case True
  obtain d where d: "fst (bump (oe_now env) (daily_key p) DAILY_WINDOW_SECS (os_redis s)) = Some d"
    "counted t0 limit n0 d (snd (bump (oe_now env) (daily_key p) DAILY_WINDOW_SECS (os_redis s)) (daily_key p),
       sent_to p s)"
    using bump_counts assms(1-3) unfolding quota_view_def by blast
  have s': "s' = s\<lparr>os_redis := snd (bump (oe_now env) (daily_key p) DAILY_WINDOW_SECS (os_redis s))\<rparr>"
    "r = Inr d"
    using assms(4) True d(1) by (auto simp: count_in_def on_redis_run act_bind_run)
  have "counted t0 limit n0 d (quota_view p s')"
    using d(2) by (simp add: s' quota_view_def sent_to_def)
  then show ?thesis using counted_quota s'(2) by auto
qed

lemma deliver_counted:
  assumes "counted t0 limit n0 d (quota_view p s)" "d < limit" "oe_now env < t0 + seconds DAILY_WINDOW_SECS"
  shows "quota_ok t0 limit n0 (quota_view p (fst (deliver env p m s)))"
proof -
  obtain deadline where v: "os_redis s (daily_key p) = Some (RNum d, Some deadline)"
    "t0 + seconds DAILY_WINDOW_SECS \<le> deadline" "sent_to p s - n0 \<le> d - 1"
    "sent_to p s - n0 \<le> max 0 (limit - 1)"
    using assms(1) by (auto simp: counted_def quota_view_def)
  have "r_decr (oe_now env) (daily_key p) (os_redis s) (daily_key p) = Some (RNum (d - 1), Some deadline)"
    using v(1,2) assms(3) by (simp add: r_decr_def r_add_def r_live_def)
  then have "compensate_quota (oe_now env) p (os_redis s) (daily_key p) = Some (RNum (d - 1), Some deadline)"
    by (simp add: compensate_quota_def)
  then show ?thesis
    using v assms(2)
    by (auto simp: deliver_def Let_def quota_view_def sent_to_def quota_ok_def split: sum.split)
qed

lemma deliver_other:
  assumes "to_international_format q \<noteq> to_international_format p" "q \<noteq> p"
  shows "keeps (\<lambda>s. P (quota_view p s)) (deliver env q m)"
  using assms
  by (auto simp: keeps_def deliver_def Let_def quota_view_def sent_to_def compensate_quota_def split: sum.split)

lemma international_inj:
  assumes "validate_thai_phone a = Inr p" "validate_thai_phone b = Inr q" "q \<noteq> p"
  shows "to_international_format q \<noteq> to_international_format p"
  using international_form [OF assms(1)] international_form [OF assms(2)]
    validated_phone [OF assms(1)] validated_phone [OF assms(2)] assms(3) by auto

lemma request_tail:
  assumes "t0 \<le> oe_now env" "oe_now env < t0 + seconds DAILY_WINDOW_SECS"
  shows "keeps (\<lambda>s. quota_ok t0 (oc_daily_otp_limit cfg) n0 (quota_view p s))
    (act_bind (count_in env (daily_key p) DAILY_WINDOW_SECS) (\<lambda>daily_count.
     act_bind (count_in env (burst_key p) BURST_WINDOW_SECS) (\<lambda>burst_count.
     act_bind (lockout_gate cfg env p burst_count daily_count) (\<lambda>_.
     act_bind (issue_code sha cfg env p purpose) (\<lambda>_. act_return x)))))"
    (is "keeps ?P (act_bind ?count ?rest)")
  unfolding keeps_def
proof (intro allI impI)
  fix s
  assume ok: "?P s"
  obtain s1 r where c: "?count s = (s1, r)" by fastforce
  note cd = count_daily [OF assms ok c]
  show "?P (fst (act_bind ?count ?rest s))"
  proof (cases r)
    case (Inl e)
    then show ?thesis using c cd by (simp add: act_bind_run)
  next
    case (Inr d)
    let ?C = "\<lambda>s. counted t0 (oc_daily_otp_limit cfg) n0 d (quota_view p s)"
    have C1: "?C s1" using cd Inr by blast
    obtain s2 b where b: "count_in env (burst_key p) BURST_WINDOW_SECS s1 = (s2, b)" by fastforce
    have C2: "?C s2" using keepsD [where P = ?C, OF keeps_view_steps(4) C1] b by (metis fst_conv)
    show ?thesis
    proof (cases b)
      case (Inl e)
      then show ?thesis
        using c \<open>r = Inr d\<close> b counted_quota [OF C2] by (simp add: act_bind_run)
    next
      case (Inr n)
      obtain s3 l where l: "lockout_gate cfg env p n d s2 = (s3, l)" by fastforce
      have C3: "?C s3" using keepsD [where P = ?C, OF keeps_view_steps(6) C2] l by (metis fst_conv)
      show ?thesis
      proof (cases l)
        case (Inl e)
        then show ?thesis
          using c \<open>r = Inr d\<close> b \<open>b = Inr n\<close> l counted_quota [OF C3] by (simp add: act_bind_run)
      next
        case (Inr u)
        have "lockout_decision n d (oc_daily_otp_limit cfg) = AllowRequest"
          using l Inr
          by (auto simp: lockout_gate_def set_lock_def act_bind_run on_redis_run split: lockout_outcome.splits if_splits)
        then have lim: "d < oc_daily_otp_limit cfg" by (simp add: lockout_allow_iff)
        define rows where "rows = store_code (oe_code_id env) (oe_tx_now env) p
          (sha (generate_otp (take (oc_length cfg) (oe_draws env)))) (row_purpose_for purpose)
          (oe_now env + minutes (oc_expiry_minutes cfg)) (os_codes s3)"
        define m where "m = message_for purpose (generate_otp (take (oc_length cfg) (oe_draws env)))
          (oc_expiry_minutes cfg)"
        have i: "issue_code sha cfg env p purpose s3 = deliver env p m (s3\<lparr>os_codes := rows\<rparr>)"
          by (simp add: issue_code_def Let_def act_bind_run on_codes_run rows_def m_def)
        have "?C (s3\<lparr>os_codes := rows\<rparr>)" using C3 by (simp add: quota_view_def sent_to_def)
        from deliver_counted [OF this lim assms(2)]
        have "?P (fst (issue_code sha cfg env p purpose s3))" by (simp add: i)
        then show ?thesis
          using c \<open>r = Inr d\<close> b \<open>b = Inr n\<close> l Inr by (simp add: act_bind_run split: sum.split)
      qed
    qed
  qed
qed

lemma keeps_request_quota:
  assumes "t0 \<le> oe_now env" "oe_now env < t0 + seconds DAILY_WINDOW_SECS"
    and "validate_thai_phone a = Inr p"
  shows "keeps (\<lambda>s. quota_ok t0 (oc_daily_otp_limit cfg) n0 (quota_view p s)) (request_otp sha cfg env req)"
proof -
  let ?P = "\<lambda>s. quota_ok t0 (oc_daily_otp_limit cfg) n0 (quota_view p s)"
  have tail: "keeps ?P (act_bind (count_in env (daily_key q) DAILY_WINDOW_SECS) (\<lambda>daily_count.
     act_bind (count_in env (burst_key q) BURST_WINDOW_SECS) (\<lambda>burst_count.
     act_bind (lockout_gate cfg env q burst_count daily_count) (\<lambda>_.
     act_bind (issue_code sha cfg env q purpose) (\<lambda>_. act_return x)))))"
    if "validate_thai_phone (rq_phone req) = Inr q" for q purpose x
  proof (cases "q = p")
    case True
    then show ?thesis using request_tail [OF assms(1,2)] by simp
  next
    case False
    then show ?thesis
      unfolding issue_code_def Let_def
      by (intro keeps_intros deliver_other international_inj [OF assms(3) that]) simp_all
  qed
  show ?thesis
  proof (cases "validate_thai_phone (rq_phone req)")
    case (Inl e)
    then show ?thesis unfolding request_otp_def by (simp add: keeps_intros)
  next
    case (Inr q)
    then show ?thesis unfolding request_otp_def by (simp add: keeps_intros tail [OF Inr])
  qed
qed

lemma quota_run:
  assumes "validate_thai_phone a = Inr p"
    and "list_all (\<lambda>c. case c of
        CmdChallenge env \<Rightarrow> True
      | CmdRequest env req \<Rightarrow> t0 \<le> oe_now env \<and> oe_now env < t0 + seconds DAILY_WINDOW_SECS
      | CmdVerify env req \<Rightarrow> False) cs"
    and "quota_ok t0 (oc_daily_otp_limit cfg) n0 (quota_view p s)"
  shows "quota_ok t0 (oc_daily_otp_limit cfg) n0 (quota_view p (fold (run_otp J sha cfg) cs s))"
  using assms(2,3)
proof (induction cs arbitrary: s)
  case Nil
  then show ?case by simp
next
  case (Cons c cs)
  have "quota_ok t0 (oc_daily_otp_limit cfg) n0 (quota_view p (run_otp J sha cfg c s))"
    using Cons.prems keepsD [OF keeps_request_quota [OF _ _ assms(1)]]
      keepsD [OF keeps_view_steps(7) [of "quota_ok t0 (oc_daily_otp_limit cfg) n0" p]]
    by (cases c) (simp_all add: run_otp_def)
  then show ?case using Cons by simp
qed

subsection \<open>A successful verification\<close>

lemma check_code_Inr:
  assumes "check_code sha cfg code p row s = (s', Inr purpose)"
  shows "ot_attempts row \<le> oc_max_attempts cfg \<and> ot_code_hash row = sha code
    \<and> purpose = token_purpose_for (ot_purpose row) \<and> p = purpose
    \<and> s' = s\<lparr>os_codes := mark_used (ot_id row) (os_codes s)\<rparr>"
  using assms
  by (auto simp: check_code_def burn_def act_bind_run on_codes_run hashes_match_def Let_def split: if_splits)

lemma issue_token_Inr:
  assumes "issue_token J cfg env phone purpose s = (s', Inr v)"
  shows "oe_up env \<and> vo_token v = fst (encode_phone_verify_token J (oe_now env) (oe_jti env) phone purpose
      (oc_phone_verify_ttl_minutes cfg))
    \<and> s' = s\<lparr>os_redis := put_marker (oe_now env)
        (phone_verify_jti_key purpose (uuid_text (oe_jti env)))
        (oc_phone_verify_ttl_minutes cfg * 60 + JTI_SKEW_BUFFER_SECS) (os_redis s)\<rparr>"
  using assms
  by (auto simp: issue_token_def encode_phone_verify_token_def act_bind_run on_redis_run Let_def
      split: if_splits)

lemma verify_Inr:
  assumes "otp_verify J sha cfg env req s = (s', Inr v)"
  shows "\<exists>phone r rows red. validate_thai_phone (vr_phone req) = Inr phone
    \<and> r \<in> set (os_codes s) \<and> live_code (oe_tx_now env) phone r
    \<and> ot_attempts r < oc_max_attempts cfg \<and> ot_code_hash r = sha (vr_code req)
    \<and> resolve_token_purpose (vr_purpose req) = Inr (token_purpose_for (ot_purpose r))
    \<and> s' = s\<lparr>os_codes := mark_used (ot_id r) rows, os_redis := put_marker (oe_now env)
          (phone_verify_jti_key (token_purpose_for (ot_purpose r)) (uuid_text (oe_jti env)))
          (oc_phone_verify_ttl_minutes cfg * 60 + JTI_SKEW_BUFFER_SECS) red\<rparr>
    \<and> vo_token v = fst (encode_phone_verify_token J (oe_now env) (oe_jti env) phone
        (token_purpose_for (ot_purpose r)) (oc_phone_verify_ttl_minutes cfg))"
proof -
  obtain row where row: "claimed_row cfg env req s = Some row"
    using assms verify_unclaimed [of cfg env req s J sha] by (cases "claimed_row cfg env req s") auto
  obtain phone rows' p where ph: "validate_thai_phone (vr_phone req) = Inr phone"
    and cl: "claim_for_verify (oe_tx_now env) phone (os_codes s) = (Some row, rows')"
    and p: "resolve_token_purpose (vr_purpose req) = Inr p"
    and v: "otp_verify J sha cfg env req s =
        act_bind (check_code sha cfg (vr_code req) p row) (\<lambda>purpose.
          act_bind (clear_counters env phone) (\<lambda>_. issue_token J cfg env phone purpose))
        (s\<lparr>os_codes := rows'\<rparr>)"
    using verify_claims [OF row, of J sha] by (metis snd_conv)
  obtain s1 purpose s2 where c: "check_code sha cfg (vr_code req) p row (s\<lparr>os_codes := rows'\<rparr>) = (s1, Inr purpose)"
    and k: "clear_counters env phone s1 = (s2, Inr ())"
    and i: "issue_token J cfg env phone purpose s2 = (s', Inr v)"
    using assms v by (auto simp: act_bind_Inr_iff)
  obtain r where r: "r \<in> set (os_codes s)" "live_code (oe_tx_now env) phone r"
    "row = r\<lparr>ot_attempts := ot_attempts r + 1\<rparr>"
    using claim_Some [OF cl] by blast
  note c' = check_code_Inr [OF c] and i' = issue_token_Inr [OF i]
  have s2: "s2\<lparr>os_redis := m\<rparr> = s\<lparr>os_codes := mark_used (ot_id r) rows', os_redis := m\<rparr>" for m
    using k c' r(3) by (auto simp: clear_counters_def)
  show ?thesis
    by (rule exI [of _ phone], rule exI [of _ r], rule exI [of _ rows'], rule exI [of _ "os_redis s2"])
      (use ph r c' i' p in \<open>simp add: s2\<close>)
qed

text \<open>
  C20. A phone-verified token proves what it says. When a verification issues one, the submitted code
  hashes to that of an unused, unexpired code of the phone that had been tried less often than the
  limit; the token reads back, for as long as it lives, to that phone and to the purpose the code was
  requested for, and to no other purpose; its single-use marker is in the cache under that purpose;
  and the code is burnt.
\<close>
theorem token_proves_phone:
  assumes J: "jwt_ok J" and v: "otp_verify J sha cfg env req s = (s', Inr v)"
  shows "\<exists>phone r purpose jti. validate_thai_phone (vr_phone req) = Inr phone
    \<and> r \<in> set (os_codes s) \<and> ot_phone r = phone \<and> \<not> ot_used r \<and> oe_tx_now env < ot_expires_at r
    \<and> ot_attempts r < oc_max_attempts cfg \<and> ot_code_hash r = sha (vr_code req)
    \<and> purpose = token_purpose_for (ot_purpose r)
    \<and> (\<forall>later. timestamp later \<le> timestamp (oe_now env + minutes (oc_phone_verify_ttl_minutes cfg)) \<longrightarrow>
        decode_phone_verify_token J later (vo_token v) purpose = Inr (phone, jti)
        \<and> (\<forall>p. p \<noteq> purpose \<longrightarrow> decode_phone_verify_token J later (vo_token v) p
             = Inl (Unauthorized ''Invalid phone verify token''))
        \<and> (oe_now env \<le> later \<longrightarrow> marker_valid (r_get later (os_redis s') (phone_verify_jti_key purpose jti))))
    \<and> (\<forall>x\<in>set (os_codes s'). ot_id x = ot_id r \<longrightarrow> ot_used x)"
proof -
  let ?T = "oc_phone_verify_ttl_minutes cfg"
  obtain phone r rows red where ph: "validate_thai_phone (vr_phone req) = Inr phone"
    and r: "r \<in> set (os_codes s)" "live_code (oe_tx_now env) phone r" "ot_attempts r < oc_max_attempts cfg"
      "ot_code_hash r = sha (vr_code req)"
    and s': "s' = s\<lparr>os_codes := mark_used (ot_id r) rows, os_redis := put_marker (oe_now env)
          (phone_verify_jti_key (token_purpose_for (ot_purpose r)) (uuid_text (oe_jti env)))
          (?T * 60 + JTI_SKEW_BUFFER_SECS) red\<rparr>"
    and tok: "vo_token v = fst (encode_phone_verify_token J (oe_now env) (oe_jti env) phone
        (token_purpose_for (ot_purpose r)) ?T)"
    using verify_Inr [OF v] by blast
  let ?p = "token_purpose_for (ot_purpose r)" and ?j = "uuid_text (oe_jti env)"
  have dec: "decode_phone_verify_token J later (vo_token v) p =
      (if p = ?p then Inr (phone, ?j) else Inl (Unauthorized ''Invalid phone verify token''))"
    if "timestamp later \<le> timestamp (oe_now env + minutes ?T)" for later p
    using J that
    by (simp add: tok jwt_ok_def encode_phone_verify_token_def decode_phone_verify_token_def Let_def)
  have mark: "marker_valid (r_get later (os_redis s') (phone_verify_jti_key ?p ?j))"
    if l: "timestamp later \<le> timestamp (oe_now env + minutes ?T)" for later
  proof -
    have "later < oe_now env + minutes ?T + seconds 1"
      using l by (simp add: timestamp_def nanos_per_sec_def seconds_def)
    then have "later < oe_now env + seconds (?T * 60 + JTI_SKEW_BUFFER_SECS)"
      by (simp add: minutes_def seconds_def nanos_per_sec_def JTI_SKEW_BUFFER_SECS_def)
    then show ?thesis by (simp add: s' put_marker_def marker_valid_def)
  qed
  have burnt: "\<forall>x\<in>set (os_codes s'). ot_id x = ot_id r \<longrightarrow> ot_used x"
    by (auto simp: s' mark_used_def use_codes_def)
  show ?thesis
    by (rule exI [of _ phone], rule exI [of _ r], rule exI [of _ ?p], rule exI [of _ ?j])
      (use ph r dec mark burnt in \<open>simp add: live_code_def\<close>)
qed



text \<open>
  A phone never has two live codes, whatever sequence of challenges, requests and verifications
  the service has handled: a new request retires the code before it.
\<close>
theorem phone_has_one_live_code:
  "length (unused_codes phone (os_codes (fold (run_otp J sha cfg) cs
    \<lparr>os_redis = r0, os_codes = [], os_sent = []\<rparr>))) \<le> 1"
  using live_codes.runs_keep [of cs "\<lparr>os_redis = r0, os_codes = [], os_sent = []\<rparr>" J sha cfg]
  by (simp add: one_live_code_def unused_codes_def list_all_iff)

subsection \<open>Concrete runs\<close>

definition sample_otp_config :: otp_config where
  "sample_otp_config = \<lparr>oc_expiry_minutes = 5, oc_max_attempts = 3, oc_length = 6,
    oc_rate_limit_seconds = 60, oc_phone_verify_ttl_minutes = 10, oc_daily_otp_limit = 10\<rparr>"

definition sample_otp_env :: "int \<Rightarrow> otp_env" where
  "sample_otp_env t = \<lparr>oe_up = True, oe_now = seconds t, oe_tx_now = seconds t, oe_code_id = 1,
    oe_draws = [1, 2, 3, 4, 5, 6], oe_jti = 2, oe_challenge = 3, oe_operands = ((20, 30), CaptchaAdd),
    oe_send = (\<lambda>_ _. Inr ''ok'')\<rparr>"

definition sample_otp_row :: otp_row where
  "sample_otp_row = \<lparr>ot_id = 9, ot_phone = ''0812345678'', ot_code_hash = ''654321'',
    ot_purpose = ''pin_reset'', ot_attempts = 0, ot_used = False, ot_expires_at = seconds 2000,
    ot_created_at = seconds 900\<rparr>"

definition sample_verify :: verify_request where
  "sample_verify = \<lparr>vr_phone = ''081-234-5678'', vr_code = ''123456'', vr_purpose = Some ''pin_reset''\<rparr>"

definition sample_otp_state :: otp_state where
  "sample_otp_state = \<lparr>os_redis = (\<lambda>_. None), os_codes = [sample_otp_row], os_sent = []\<rparr>"

lemma sample_phone: "validate_thai_phone ''081-234-5678'' = Inr ''0812345678''"
  by (simp add: validate_thai_phone_def ascii_digits_def is_ascii_digit_def byte_of_def starts_with_def Let_def)

lemma sample_claim:
  "claimed_row sample_otp_config (sample_otp_env 1000) sample_verify sample_otp_state
    = Some (sample_otp_row\<lparr>ot_attempts := 1\<rparr>)"
  by (simp add: claimed_row_def sample_verify_def sample_phone sample_otp_config_def
      resolve_token_purpose_def purpose_defs claim_for_verify_def newest_def live_code_def
      sample_otp_state_def sample_otp_row_def sample_otp_env_def seconds_def nanos_per_sec_def)

lemma sample_verified:
  "\<exists>s' v. otp_verify sample_jwt rev sample_otp_config (sample_otp_env 1000) sample_verify sample_otp_state
    = (s', Inr v)"
proof -
  obtain phone p rows where p: "resolve_token_purpose (vr_purpose sample_verify) = Inr p"
    and v: "otp_verify sample_jwt rev sample_otp_config (sample_otp_env 1000) sample_verify sample_otp_state =
      act_bind (check_code rev sample_otp_config (vr_code sample_verify) p (sample_otp_row\<lparr>ot_attempts := 1\<rparr>))
        (\<lambda>purpose. act_bind (clear_counters (sample_otp_env 1000) phone)
          (\<lambda>_. issue_token sample_jwt sample_otp_config (sample_otp_env 1000) phone purpose))
        (sample_otp_state\<lparr>os_codes := rows\<rparr>)"
    using verify_claims [OF sample_claim, of sample_jwt rev] by blast
  have "p = ''pin_reset''" using p by (simp add: sample_verify_def resolve_token_purpose_def purpose_defs)
  then show ?thesis
    unfolding v
    by (simp add: check_code_def burn_def act_bind_run on_codes_run hashes_match_def Let_def
        sample_otp_config_def sample_otp_row_def sample_verify_def token_purpose_for_def purpose_defs
        PURPOSE_PIN_RESET_def clear_counters_def issue_token_def on_redis_run sample_otp_env_def
        case_prod_beta)
qed

lemma token_proves_phone_witness:
  "\<exists>s' v phone jti. otp_verify sample_jwt rev sample_otp_config (sample_otp_env 1000) sample_verify sample_otp_state
      = (s', Inr v)
    \<and> decode_phone_verify_token sample_jwt (seconds 1000) (vo_token v) ''pin_reset'' = Inr (phone, jti)
    \<and> phone = ''0812345678''"
proof -
  obtain s' v where v: "otp_verify sample_jwt rev sample_otp_config (sample_otp_env 1000) sample_verify
      sample_otp_state = (s', Inr v)"
    using sample_verified by blast
  obtain phone r purpose jti where
    a: "validate_thai_phone (vr_phone sample_verify) = Inr phone" "r \<in> set (os_codes sample_otp_state)"
      "purpose = token_purpose_for (ot_purpose r)" and
    b: "\<forall>later. timestamp later \<le> timestamp (oe_now (sample_otp_env 1000)
          + minutes (oc_phone_verify_ttl_minutes sample_otp_config)) \<longrightarrow>
        decode_phone_verify_token sample_jwt later (vo_token v) purpose = Inr (phone, jti)"
    using token_proves_phone [OF sample_jwt_ok v] by blast
  have "purpose = ''pin_reset''" using a(2,3)
    by (simp add: sample_otp_state_def sample_otp_row_def token_purpose_for_def PURPOSE_PIN_RESET_def
        PIN_RESET_PURPOSE_def)
  moreover have "phone = ''0812345678''" using a(1) by (simp add: sample_verify_def sample_phone)
  moreover have "decode_phone_verify_token sample_jwt (seconds 1000) (vo_token v) purpose = Inr (phone, jti)"
    by (rule b [rule_format])
      (simp add: sample_otp_env_def sample_otp_config_def timestamp_def seconds_def minutes_def nanos_per_sec_def)
  ultimately show ?thesis using v by blast
qed



end
