(* ===== verification/Identity_Domain.thy ===== *)
theory Identity_Domain
  imports Shared_Tokens "HOL-Library.Word"
begin

text \<open>
  The pure rules of the identity service (\<open>services/identity/src/domain/\<close>): registration checks, the refresh-token decision, revocation versions, the login lockout, masking, and the text forms of refresh tokens,
  recovery codes and API tokens. Hashing (Argon2, SHA-256), sealing, TOTP and the parser of
  identifiers are parameters.
\<close>

subsection \<open>registration.rs\<close>

definition validate_registration_role :: "string \<Rightarrow> user_role app_result" where
  "validate_registration_role role = (case parse_role role of
     Some RoleAdmin \<Rightarrow> Inl (Forbidden ''The admin role cannot be self-assigned'')
   | Some r \<Rightarrow> Inr r
   | None \<Rightarrow> Inl (BadRequest ''Unknown role: {role}''))"

definition profile_purpose_for_role :: "user_role \<Rightarrow> string app_result" where
  "profile_purpose_for_role role = (case role of
     RoleGuard \<Rightarrow> Inr PROFILE_PURPOSE_GUARD
   | RoleCustomer \<Rightarrow> Inr PROFILE_PURPOSE_CUSTOMER
   | RoleAdmin \<Rightarrow> Inl (Forbidden ''The admin role has no profile-submission route''))"

definition validate_login_phone :: "string \<Rightarrow> string app_result" where
  "validate_login_phone phone = (let digits = ascii_digits phone in
     if length digits \<noteq> 10 \<or> \<not> starts_with ''0'' digits
     then Inl (BadRequest ''Invalid phone format [must be 10 digits starting with 0]'')
     else Inr digits)"

definition validate_pin_hash :: "string \<Rightarrow> unit app_result" where
  "validate_pin_hash pin_hash = ensure (length pin_hash = 64 \<and> list_all is_ascii_hex pin_hash)
     (BadRequest ''pin_hash must be a 64-character hex SHA-256 digest'')"

definition MAX_DISPLAY_NAME_LEN :: nat where "MAX_DISPLAY_NAME_LEN = 120"

definition validate_display_name :: "string \<Rightarrow> string app_result" where
  "validate_display_name raw = (let trimmed = trim raw; len = char_count trimmed in
     if len = 0 then Inl (BadRequest ''display_name must not be empty'')
     else if MAX_DISPLAY_NAME_LEN < len
     then Inl (BadRequest ''display_name must be at most {MAX_DISPLAY_NAME_LEN} characters'')
     else Inr trimmed)"

text \<open>Unicode lowercasing of the standard library is the parameter \<open>lower\<close>.\<close>

definition validate_email :: "(string \<Rightarrow> string) \<Rightarrow> string option \<Rightarrow> string option app_result" where
  "validate_email lower raw = (case map_option trim raw of
     None \<Rightarrow> Inr None
   | Some v \<Rightarrow> if v = [] then Inr None
       else if 5 \<le> length v \<and> length v \<le> 254 \<and> CHR ''@'' \<in> set v \<and> CHR ''.'' \<in> set v
       then Inr (Some (lower v))
       else Inl (BadRequest ''email must be a valid address''))"

text \<open>Nobody registers as an administrator, however the word is spelt.\<close>

lemma registration_role_Inr:
  "validate_registration_role s = Inr r \<Longrightarrow> r \<noteq> RoleAdmin \<and> parse_role s = Some r"
  by (auto simp: validate_registration_role_def split: option.splits user_role.splits)

lemma profile_purpose_Inr: "profile_purpose_for_role r = Inr p \<Longrightarrow>
    (r = RoleGuard \<and> p = PROFILE_PURPOSE_GUARD) \<or> (r = RoleCustomer \<and> p = PROFILE_PURPOSE_CUSTOMER)"
  by (cases r) (auto simp: profile_purpose_for_role_def)

lemma registration_has_purpose:
  "validate_registration_role s = Inr r \<Longrightarrow> \<exists>p. profile_purpose_for_role r = Inr p"
  by (cases r) (auto simp: validate_registration_role_def profile_purpose_for_role_def split: option.splits user_role.splits)

subsection \<open>rotation.rs and revocation.rs\<close>

definition FAMILY_MAX_DAYS :: int where "FAMILY_MAX_DAYS = 30"

definition days_dur :: "int \<Rightarrow> duration" where
  "days_dur n = hours_dur (24 * n)"

record stored_refresh =
  sf_revoked :: bool
  sf_expires_at :: instant
  sf_family_started_at :: instant

datatype rotation_decision = Rotate | ReuseDetected | RotationExpired | CeilingExceeded

definition decide :: "stored_refresh \<Rightarrow> instant \<Rightarrow> rotation_decision" where
  "decide stored now =
    (if sf_revoked stored then ReuseDetected
     else if sf_expires_at stored \<le> now then RotationExpired
     else if days_dur FAMILY_MAX_DAYS < now - sf_family_started_at stored then CeilingExceeded
     else Rotate)"

lemma decide_Rotate_iff:
  "decide st now = Rotate \<longleftrightarrow> \<not> sf_revoked st \<and> now < sf_expires_at st
    \<and> now - sf_family_started_at st \<le> days_dur FAMILY_MAX_DAYS"
  by (auto simp: decide_def)

lemma decide_Reuse_iff: "decide st now = ReuseDetected \<longleftrightarrow> sf_revoked st"
  by (auto simp: decide_def)

definition I32_MAX :: int where "I32_MAX = 2147483647"

definition token_version_is_current :: "int \<Rightarrow> int \<Rightarrow> bool" where
  "token_version_is_current token_version current_version = (current_version \<le> token_version)"

definition next_revocation_version :: "int \<Rightarrow> int" where
  "next_revocation_version current = min (current + 1) I32_MAX"

lemma next_version_rejects_old:
  "c < I32_MAX \<Longrightarrow> v \<le> c \<Longrightarrow> \<not> token_version_is_current v (next_revocation_version c)"
  by (simp add: token_version_is_current_def next_revocation_version_def)

text \<open>At the last version the bump has no effect: a token minted there stays current.\<close>

lemma next_version_saturates:
  "token_version_is_current I32_MAX (next_revocation_version I32_MAX)"
  by (simp add: token_version_is_current_def next_revocation_version_def)

subsection \<open>token.rs\<close>

definition assemble :: "uuid \<Rightarrow> string \<Rightarrow> string" where
  "assemble rotation_id secret = uuid_text rotation_id @ ''.'' @ secret"

definition parse_refresh :: "(string \<Rightarrow> uuid option) \<Rightarrow> string \<Rightarrow> (uuid \<times> string) option" where
  "parse_refresh parse_uuid token = obind (split_once (CHR ''.'') token) (\<lambda>(id_part, secret).
     if secret = [] then None
     else obind (parse_uuid id_part) (\<lambda>rotation_id. Some (rotation_id, secret)))"

text \<open>What is relied on of the identifier parser: it reads back what an identifier prints as.\<close>

definition uuid_parser :: "(string \<Rightarrow> uuid option) \<Rightarrow> bool" where
  "uuid_parser f = (\<forall>u < 2 ^ 128. f (uuid_text u) = Some u)"

lemma uuid_text_chars: "c \<in> set (uuid_text u) \<Longrightarrow> is_ascii_hex c \<or> c = CHR ''-''"
  using hex_digits_set [of c 32 u]
  by (auto simp: uuid_text_def Let_def dest!: in_set_takeD in_set_dropD)

lemma parse_assembled:
  assumes "uuid_parser f" "u < 2 ^ 128" "s \<noteq> []"
  shows "parse_refresh f (assemble u s) = Some (u, s)"
proof -
  have "CHR ''.'' \<notin> set (uuid_text u)"
    using uuid_text_chars [of "CHR ''.''" u] by (auto simp: is_ascii_hex_def is_ascii_digit_def byte_of_def)
  then show ?thesis
    using assms split_once_join [of "CHR ''.''" "uuid_text u" s]
    by (simp add: parse_refresh_def assemble_def uuid_parser_def)
qed

subsection \<open>login_throttle.rs\<close>

definition LOGIN_FAIL_THRESHOLD :: int where "LOGIN_FAIL_THRESHOLD = 5"
definition LOGIN_FAIL_WINDOW_SECS :: int where "LOGIN_FAIL_WINDOW_SECS = 900"
definition LOGIN_LOCK_MAX_SECS :: nat where "LOGIN_LOCK_MAX_SECS = 1800"
definition U64_MAX :: nat where "U64_MAX = 18446744073709551615"

text \<open>
  The difference is cast to 32 bits, the shift is checked against the 64 bits of its operand, and the
  product saturates.
\<close>

definition login_lock_secs :: "int \<Rightarrow> nat option" where
  "login_lock_secs fail_count =
    (if fail_count < LOGIN_FAIL_THRESHOLD then None
     else let over = nat ((fail_count - LOGIN_FAIL_THRESHOLD) mod 2 ^ 32);
              shifted = (if over < 64 then 2 ^ over else U64_MAX);
              secs = min (60 * shifted) U64_MAX
          in Some (min secs LOGIN_LOCK_MAX_SECS))"

lemma login_lock_None_iff: "login_lock_secs n = None \<longleftrightarrow> n < 5"
  by (simp add: login_lock_secs_def LOGIN_FAIL_THRESHOLD_def Let_def)

lemma login_lock_table:
  "login_lock_secs 5 = Some 60" "login_lock_secs 6 = Some 120" "login_lock_secs 7 = Some 240"
  "login_lock_secs 8 = Some 480" "login_lock_secs 9 = Some 960"
  by (simp_all add: login_lock_secs_def LOGIN_FAIL_THRESHOLD_def LOGIN_LOCK_MAX_SECS_def U64_MAX_def Let_def)

lemma login_lock_bounds:
  assumes "login_lock_secs n = Some s"
  shows "60 \<le> s \<and> s \<le> 1800"
proof -
  let ?over = "nat ((n - LOGIN_FAIL_THRESHOLD) mod 2 ^ 32)"
  have s: "s = min (min (60 * (if ?over < 64 then 2 ^ ?over else U64_MAX)) U64_MAX) LOGIN_LOCK_MAX_SECS"
    using assms by (simp add: login_lock_secs_def Let_def split: if_splits)
  have "1 \<le> (if ?over < 64 then 2 ^ ?over else U64_MAX)" by (simp add: U64_MAX_def)
  then show ?thesis unfolding s by (simp add: LOGIN_LOCK_MAX_SECS_def U64_MAX_def)
qed

text \<open>From the sixth failure past the threshold on the lock is the cap, up to the 32-bit cast.\<close>

lemma login_lock_cap:
  assumes "10 \<le> n" "n < 2 ^ 32 + 5"
  shows "login_lock_secs n = Some 1800"
proof -
  let ?over = "nat (n - 5)"
  have over: "(n - 5) mod 2 ^ 32 = n - 5" "5 \<le> ?over" using assms by simp_all
  have "(32::nat) \<le> 2 ^ ?over" using power_increasing [OF over(2), of "2::nat"] by simp
  then have "32 \<le> (if ?over < 64 then 2 ^ ?over else U64_MAX)" by (simp add: U64_MAX_def)
  then have "min (min (60 * (if ?over < 64 then 2 ^ ?over else U64_MAX)) U64_MAX) 1800 = 1800"
    by (simp add: U64_MAX_def)
  then show ?thesis
    unfolding login_lock_secs_def LOGIN_FAIL_THRESHOLD_def LOGIN_LOCK_MAX_SECS_def Let_def over(1)
    using assms(1) by simp
qed

subsection \<open>mask.rs\<close>

definition mask_phone :: "string \<Rightarrow> string" where
  "mask_phone phone = (let digits = ascii_digits phone in
     if digits = [] then ''****''
     else let keep = min 4 (length digits); hidden = length digits - keep in
       replicate hidden (CHR ''*'') @ drop hidden digits)"

definition is_u8_text :: "string \<Rightarrow> bool" where
  "is_u8_text s = (let d = (case s of c # r \<Rightarrow> if c = CHR ''+'' then r else s | [] \<Rightarrow> []) in
     d \<noteq> [] \<and> list_all is_ascii_digit d \<and> foldl (\<lambda>n c. n * 10 + digit_val c) 0 d \<le> 255)"

definition mask_ip :: "string \<Rightarrow> string" where
  "mask_ip raw = (let ip = trim raw in
     if ip = [] then ''*''
     else if CHR ''.'' \<in> set ip \<and> CHR '':'' \<notin> set ip then
       (case split_all (CHR ''.'') ip of
          [a, b, c, d] \<Rightarrow> if list_all is_u8_text [a, b, c, d] then a @ ''.'' @ b @ ''.x.x'' else ''*''
        | _ \<Rightarrow> ''*'')
     else if CHR '':'' \<in> set ip then
       (case split_all (CHR '':'') ip of
          a # b # _ \<Rightarrow> if a \<noteq> [] then a @ '':'' @ b @ '':x'' else ''*''
        | _ \<Rightarrow> ''*'')
     else ''*'')"

text \<open>A masked number shows at most its last four digits.\<close>

lemma mask_phone_hides:
  "length (filter (\<lambda>c. c \<noteq> CHR ''*'') (mask_phone p)) \<le> 4"
proof (cases "ascii_digits p = []")
  case True
  then show ?thesis by (simp add: mask_phone_def)
next
  case False
  let ?d = "ascii_digits p"
  have "length (filter (\<lambda>c. c \<noteq> CHR ''*'') (drop (length ?d - min 4 (length ?d)) ?d)) \<le> 4"
    using length_filter_le [of "\<lambda>c. c \<noteq> CHR ''*''" "drop (length ?d - min 4 (length ?d)) ?d"] by simp
  then show ?thesis using False by (simp add: mask_phone_def Let_def)
qed

subsection \<open>twofactor.rs: text forms\<close>

definition RECOVERY_CODE_COUNT :: nat where "RECOVERY_CODE_COUNT = 10"
definition TOTP_DIGITS :: nat where "TOTP_DIGITS = 6"
definition API_TOKEN_NAMESPACE :: string where "API_TOKEN_NAMESPACE = ''pguard_''"

definition normalize_recovery_code :: "string \<Rightarrow> string" where
  "normalize_recovery_code code = ascii_upper (filter is_ascii_alnum code)"

fun group_from :: "nat \<Rightarrow> string \<Rightarrow> string" where
  "group_from i [] = []"
| "group_from i (c # s) = (if 0 < i \<and> i mod 4 = 0 then ''-'' else []) @ c # group_from (Suc i) s"

definition group_in_fours :: "string \<Rightarrow> string" where
  "group_in_fours s = group_from 0 s"

definition parse_api_token :: "string \<Rightarrow> (string \<times> string) option" where
  "parse_api_token token = obind (strip_prefix API_TOKEN_NAMESPACE token) (\<lambda>rest.
     obind (split_once (CHR ''_'') rest) (\<lambda>(prefix, secret).
       if prefix = [] \<or> secret = [] then None else Some (prefix, secret)))"

definition api_token_secret_matches :: "(string \<Rightarrow> string) \<Rightarrow> string \<Rightarrow> string \<Rightarrow> bool" where
  "api_token_secret_matches sha presented_secret stored_hash = (sha presented_secret = stored_hash)"

text \<open>A minted API token: the random prefix and secret are base32 in lower case.\<close>

record new_api_token =
  na_full :: string
  na_prefix :: string
  na_secret_hash :: string

definition generate_api_token :: "(string \<Rightarrow> string) \<Rightarrow> string \<Rightarrow> string \<Rightarrow> new_api_token" where
  "generate_api_token sha prefix32 secret32 =
    (let prefix = ascii_lower prefix32; secret = ascii_lower secret32 in
     \<lparr>na_full = API_TOKEN_NAMESPACE @ prefix @ ''_'' @ secret, na_prefix = prefix,
      na_secret_hash = sha secret\<rparr>)"

definition generate_recovery_codes :: "(string \<Rightarrow> string) \<Rightarrow> string list \<Rightarrow> (string \<times> string) list" where
  "generate_recovery_codes sha raws = map (\<lambda>raw. let code = group_in_fours raw in
     (code, sha (normalize_recovery_code code))) (take RECOVERY_CODE_COUNT raws)"

text \<open>
  A code the user types back with or without its dashes, in either case, has the hash that was
  stored; and an API token parses back to the prefix it is looked up by and a secret that matches.
\<close>

lemma filter_group: "list_all is_ascii_alnum s \<Longrightarrow> filter is_ascii_alnum (group_from i s) = s"
  by (induction i s rule: group_from.induct)
    (auto simp: is_ascii_alnum_def is_ascii_digit_def byte_of_def)

lemma recovery_code_reads_back:
  "list_all is_ascii_alnum s \<Longrightarrow> normalize_recovery_code (group_in_fours s) = normalize_recovery_code s"
  by (simp add: normalize_recovery_code_def group_in_fours_def filter_group filter_id_conv list_all_iff)

lemma api_token_reads_back:
  assumes "CHR ''_'' \<notin> set (ascii_lower p)" "p \<noteq> []" "s \<noteq> []"
  shows "parse_api_token (na_full (generate_api_token sha p s))
      = Some (na_prefix (generate_api_token sha p s), ascii_lower s)
    \<and> api_token_secret_matches sha (ascii_lower s) (na_secret_hash (generate_api_token sha p s))"
  using assms split_once_join [OF assms(1), of "ascii_lower s"]
  by (simp add: parse_api_token_def generate_api_token_def api_token_secret_matches_def Let_def
      ascii_lower_def)

end
