(* ===== verification/Identity_Accounts.thy ===== *)
theory Identity_Accounts
  imports Identity_Domain Effects
begin

text \<open>
  The tables of the identity service and the statements that read and write accounts
  (\<open>services/identity/src/repo/mod.rs\<close>, with the columns and constraints of its migrations). A
  transaction gives an error, and then nothing of it stays, or the changed tables. Argon2 is the
  record \<open>argon2\<close>: hashing under a salt, and the check of a text against a stored hash, which is
  \<open>None\<close> when the stored hash is malformed.
\<close>

subsection \<open>Tables\<close>

record user_row =
  us_phone :: string
  us_email :: "string option"
  us_password_hash :: string
  us_role :: user_role
  us_trv :: int
  us_active :: bool
  us_approval :: approval_status
  us_deleted_at :: "instant option"
  us_display_name :: "string option"
  us_totp_secret :: "string option"
  us_totp_enabled :: bool
  us_totp_confirmed_at :: "instant option"
  us_created_at :: instant
  us_updated_at :: instant

record role_row =
  rr_user :: uuid
  rr_role :: user_role
  rr_created_at :: instant

record refresh_row =
  rf_user :: uuid
  rf_family :: uuid
  rf_rotation :: uuid
  rf_jti :: uuid
  rf_secret_hash :: string
  rf_expires_at :: instant
  rf_revoked :: bool
  rf_created_at :: instant
  rf_user_agent :: "string option"
  rf_ip :: "string option"
  rf_last_used_at :: "instant option"
  rf_active_role :: "user_role option"

record recovery_row =
  rv_user :: uuid
  rv_code_hash :: string
  rv_used_at :: "instant option"

record api_token_row =
  at_user :: uuid
  at_name :: string
  at_token_hash :: string
  at_prefix :: string
  at_role :: user_role
  at_created_at :: instant
  at_last_used_at :: "instant option"
  at_revoked_at :: "instant option"

record audit_row =
  cu_user :: uuid
  cu_action :: string
  cu_detail :: "string option"

record id_db =
  id_users :: "(uuid, user_row) table"
  id_roles :: "role_row list"
  id_refresh :: "refresh_row list"
  id_processed :: "(uuid \<times> string) list"
  id_audit :: "audit_row list"
  id_recovery :: "recovery_row list"
  id_tokens :: "(uuid, api_token_row) table"

record argon2 =
  ph_hash :: "uuid \<Rightarrow> string \<Rightarrow> string"
  ph_verify :: "string \<Rightarrow> string \<Rightarrow> bool option"

definition argon2_ok :: "argon2 \<Rightarrow> bool" where
  "argon2_ok A = (\<forall>salt p. ph_verify A p (ph_hash A salt p) = Some True)"

definition verify_secret :: "argon2 \<Rightarrow> string \<Rightarrow> string \<Rightarrow> bool app_result" where
  "verify_secret A plaintext h = (case ph_verify A plaintext h of
     None \<Rightarrow> Inl (Internal ''malformed stored hash: {e}'') | Some b \<Rightarrow> Inr b)"

text \<open>The environment of a call: clocks, the server's state, and fresh identifiers.\<close>

record id_env =
  ie_up :: bool
  ie_now :: instant
  ie_tx_now :: instant
  ie_row :: uuid
  ie_salt :: uuid
  ie_family :: uuid
  ie_rotation :: uuid
  ie_refresh_jti :: uuid
  ie_secret :: uuid
  ie_access_jti :: uuid
  ie_token_jti :: uuid
  ie_totp_secret :: string
  ie_recovery :: "string list"
  ie_prefix :: string
  ie_api_secret :: string

definition put_user :: "uuid \<Rightarrow> user_row \<Rightarrow> id_db \<Rightarrow> id_db" where
  "put_user k u db = db\<lparr>id_users := row_put k u (id_users db)\<rparr>"

definition get_user :: "id_db \<Rightarrow> uuid \<Rightarrow> user_row option" where
  "get_user db k = row_get (id_users db) k"

text \<open>The row of a live account: not soft-deleted.\<close>

definition live_user :: "id_db \<Rightarrow> uuid \<Rightarrow> user_row option" where
  "live_user db k = obind (get_user db k) (\<lambda>u. if us_deleted_at u = None then Some u else None)"

definition find_user :: "(user_row \<Rightarrow> bool) \<Rightarrow> id_db \<Rightarrow> (uuid \<times> user_row) option" where
  "find_user sel db = find (\<lambda>(k, u). sel u) (id_users db)"

lemma get_put_user [simp]: "get_user (put_user k u db) j = (if j = k then Some u else get_user db j)"
  by (simp add: get_user_def put_user_def)

lemma put_user_frame [simp]:
  "id_roles (put_user k u db) = id_roles db" "id_refresh (put_user k u db) = id_refresh db"
  "id_processed (put_user k u db) = id_processed db" "id_audit (put_user k u db) = id_audit db"
  "id_recovery (put_user k u db) = id_recovery db" "id_tokens (put_user k u db) = id_tokens db"
  by (simp_all add: put_user_def)

lemma live_user_Some_iff: "live_user db k = Some u \<longleftrightarrow> get_user db k = Some u \<and> us_deleted_at u = None"
  by (auto simp: live_user_def obind_Some_iff split: if_splits)

lemma find_user_Some: "find_user sel db = Some (k, u) \<Longrightarrow> (k, u) \<in> set (id_users db) \<and> sel u"
  by (auto simp: find_user_def find_Some_iff) (metis nth_mem)

subsection \<open>Login\<close>

definition matches_identifier :: "string \<Rightarrow> user_row \<Rightarrow> bool" where
  "matches_identifier identifier u = (us_phone u = identifier \<or> us_email u = Some identifier)"

definition user_id_by_identifier :: "id_db \<Rightarrow> string \<Rightarrow> uuid option" where
  "user_id_by_identifier db identifier = map_option fst (find_user (matches_identifier identifier) db)"

record auth_user_row =
  ar_user :: uuid
  ar_role :: user_role
  ar_trv :: int

definition invalid_credentials :: app_error where
  "invalid_credentials = Unauthorized ''Invalid credentials''"

definition DUMMY_HASH :: "argon2 \<Rightarrow> string" where
  "DUMMY_HASH A = ph_hash A 0 ''pguard-anti-enumeration-dummy''"

definition verify_credentials :: "argon2 \<Rightarrow> id_db \<Rightarrow> string \<Rightarrow> string \<Rightarrow> auth_user_row app_result" where
  "verify_credentials A db identifier password =
    (let user = find_user (matches_identifier identifier) db;
         rejected_hash = obind user (\<lambda>(k, u). if us_active u \<and> us_approval u = ApprovalRejected
           then Some (us_password_hash u) else None);
         (h, identity) = (case user of
             Some (k, u) \<Rightarrow>
               if us_active u \<and> us_approval u = ApprovalApproved
               then (us_password_hash u, Some \<lparr>ar_user = k, ar_role = us_role u, ar_trv = us_trv u\<rparr>)
               else (case rejected_hash of Some rh \<Rightarrow> (rh, None) | None \<Rightarrow> (DUMMY_HASH A, None))
           | None \<Rightarrow> (DUMMY_HASH A, None))
     in res_bind (verify_secret A password h) (\<lambda>ok.
        if ok then (case identity of
            Some r \<Rightarrow> Inr r
          | None \<Rightarrow> if rejected_hash \<noteq> None
              then Inl (ConflictCode ''ACCOUNT_REJECTED'' ''This application was rejected'')
              else Inl invalid_credentials)
        else Inl invalid_credentials))"

text \<open>Only an active, approved account whose stored hash the password passes gets in.\<close>

lemma verify_credentials_Inr:
  assumes "verify_credentials A db identifier password = Inr r"
  shows "\<exists>u. find_user (matches_identifier identifier) db = Some (ar_user r, u)
    \<and> us_active u \<and> us_approval u = ApprovalApproved
    \<and> ph_verify A password (us_password_hash u) = Some True
    \<and> ar_role r = us_role u \<and> ar_trv r = us_trv u"
proof (cases "find_user (matches_identifier identifier) db")
  case None
  then show ?thesis using assms
    by (auto simp: verify_credentials_def res_bind_Inr_iff Let_def split: if_splits)
next
  case (Some ku)
  obtain k u where ku: "ku = (k, u)" by (cases ku)
  show ?thesis
  proof (cases "us_active u \<and> us_approval u = ApprovalApproved")
    case True
    then show ?thesis using assms Some ku
      by (auto simp: verify_credentials_def res_bind_Inr_iff verify_secret_def Let_def
          split: if_splits option.splits)
  next
    case False
    then show ?thesis using assms Some ku
      by (auto simp: verify_credentials_def res_bind_Inr_iff Let_def
          split: if_splits option.splits)
  qed
qed

text \<open>
  What a refusal tells: the coded answer goes only to somebody who knows the PIN of a rejected
  account. Every other refusal of a readable hash is the same answer.
\<close>

lemma verify_credentials_Inl:
  assumes bad: "verify_credentials A db identifier password = Inl e"
    and readable: "\<And>p h. \<exists>b. ph_verify A p h = Some b"
  shows "e = invalid_credentials
    \<or> (\<exists>k u. find_user (matches_identifier identifier) db = Some (k, u) \<and> us_approval u = ApprovalRejected
        \<and> ph_verify A password (us_password_hash u) = Some True)"
proof (cases "find_user (matches_identifier identifier) db")
  case None
  obtain b where "ph_verify A password (DUMMY_HASH A) = Some b" using readable by blast
  then show ?thesis using bad None
    by (auto simp: verify_credentials_def verify_secret_def Let_def split: if_splits)
next
  case (Some ku)
  obtain k u where ku: "ku = (k, u)" by (cases ku)
  obtain b c where "ph_verify A password (DUMMY_HASH A) = Some b"
      "ph_verify A password (us_password_hash u) = Some c"
    using readable by metis
  then show ?thesis
    using bad Some ku
    by (auto simp: verify_credentials_def verify_secret_def Let_def split: if_splits)
qed

subsection \<open>Registration and approval\<close>

definition phone_taken :: "id_db \<Rightarrow> uuid \<Rightarrow> string \<Rightarrow> bool" where
  "phone_taken db k phone = list_ex (\<lambda>(j, u). j \<noteq> k \<and> us_phone u = phone) (id_users db)"

definition new_user :: "instant \<Rightarrow> string \<Rightarrow> string \<Rightarrow> user_role \<Rightarrow> user_row" where
  "new_user now phone password_hash role =
    \<lparr>us_phone = phone, us_email = None, us_password_hash = password_hash, us_role = role, us_trv = 0,
     us_active = True, us_approval = ApprovalPending, us_deleted_at = None, us_display_name = None,
     us_totp_secret = None, us_totp_enabled = False, us_totp_confirmed_at = None,
     us_created_at = now, us_updated_at = now\<rparr>"

definition upsert_pending_user ::
  "argon2 \<Rightarrow> id_env \<Rightarrow> string \<Rightarrow> user_role \<Rightarrow> string \<Rightarrow> id_db \<Rightarrow> (uuid \<times> id_db) app_result" where
  "upsert_pending_user A env phone role pin_hash db =
    (let password_hash = ph_hash A (ie_salt env) pin_hash in
     case find_user (\<lambda>u. us_phone u = phone) db of
       None \<Rightarrow>
         if get_user db (ie_row env) \<noteq> None then Inl (Database ''23505'')
         else Inr (ie_row env, put_user (ie_row env) (new_user (ie_tx_now env) phone password_hash role) db)
     | Some (k, u) \<Rightarrow>
         if us_approval u \<in> {ApprovalPending, ApprovalRejected}
         then Inr (k, put_user k (u\<lparr>us_password_hash := password_hash, us_role := role,
             us_approval := ApprovalPending, us_updated_at := ie_tx_now env\<rparr>) db)
         else Inl (Conflict ''This phone number is already registered. Please log in instead.''))"

definition update_pending_user_role :: "id_env \<Rightarrow> uuid \<Rightarrow> user_role \<Rightarrow> id_db \<Rightarrow> (unit \<times> id_db) app_result" where
  "update_pending_user_role env user_id role db = (case get_user db user_id of
     Some u \<Rightarrow>
       if us_approval u = ApprovalPending
       then Inr ((), put_user user_id (u\<lparr>us_role := role, us_updated_at := ie_tx_now env\<rparr>) db)
       else Inl (Conflict ''This account can no longer change role. Please log in instead.'')
   | None \<Rightarrow> Inl (Conflict ''This account can no longer change role. Please log in instead.''))"

datatype approved_outcome = Applied | Duplicate | UserNotFound

fun role_rank :: "user_role \<Rightarrow> nat" where
  "role_rank RoleAdmin = 0" | "role_rank RoleCustomer = 1" | "role_rank RoleGuard = 2"

definition list_user_roles :: "id_db \<Rightarrow> uuid \<Rightarrow> user_role list" where
  "list_user_roles db user_id = map rr_role (sort_key rr_created_at (sort_key (role_rank \<circ> rr_role)
     (filter (\<lambda>r. rr_user r = user_id) (id_roles db))))"

definition user_has_role :: "id_db \<Rightarrow> uuid \<Rightarrow> user_role \<Rightarrow> bool" where
  "user_has_role db user_id role = list_ex (\<lambda>r. rr_user r = user_id \<and> rr_role r = role) (id_roles db)"

definition add_user_role :: "id_env \<Rightarrow> uuid \<Rightarrow> string \<Rightarrow> id_db \<Rightarrow> (bool \<times> id_db) app_result" where
  "add_user_role env user_id role db =
    (if \<not> is_ok (validate_registration_role role) then Inr (False, db)
     else res_bind (cast_role role) (\<lambda>r.
       if user_has_role db user_id r then Inr (False, db)
       else Inr (True, db\<lparr>id_roles := id_roles db @
         [\<lparr>rr_user = user_id, rr_role = r, rr_created_at = ie_tx_now env\<rparr>]\<rparr>)))"

definition claim_id_event :: "uuid \<Rightarrow> string \<Rightarrow> id_db \<Rightarrow> id_db option" where
  "claim_id_event event_id event_type db =
    (if event_id \<in> fst ` set (id_processed db) then None
     else Some (db\<lparr>id_processed := id_processed db @ [(event_id, event_type)]\<rparr>))"

definition approve_user_on_event ::
  "id_env \<Rightarrow> uuid \<Rightarrow> string \<Rightarrow> uuid \<Rightarrow> string \<Rightarrow> id_db \<Rightarrow> (approved_outcome \<times> id_db) app_result" where
  "approve_user_on_event env event_id event_type user_id role db =
    (case claim_id_event event_id event_type db of
       None \<Rightarrow> Inr (Duplicate, db)
     | Some db1 \<Rightarrow> (case live_user db1 user_id of
         None \<Rightarrow> Inr (UserNotFound, db1)
       | Some u \<Rightarrow>
         res_bind (add_user_role env user_id role (put_user user_id
           (u\<lparr>us_approval := ApprovalApproved, us_updated_at := ie_tx_now env\<rparr>) db1)) (\<lambda>(_, db2).
         Inr (Applied, db2))))"

definition reject_user_on_event ::
  "id_env \<Rightarrow> uuid \<Rightarrow> string \<Rightarrow> uuid \<Rightarrow> id_db \<Rightarrow> (approved_outcome \<times> id_db) app_result" where
  "reject_user_on_event env event_id event_type user_id db =
    (case claim_id_event event_id event_type db of
       None \<Rightarrow> Inr (Duplicate, db)
     | Some db1 \<Rightarrow> (case live_user db1 user_id of
         Some u \<Rightarrow>
           if us_approval u \<noteq> ApprovalApproved
           then Inr (Applied, put_user user_id
             (u\<lparr>us_approval := ApprovalRejected, us_updated_at := ie_tx_now env\<rparr>) db1)
           else Inr (UserNotFound, db1)
       | None \<Rightarrow> Inr (UserNotFound, db1)))"

subsection \<open>Account lookups\<close>

definition user_trv_if_active :: "id_db \<Rightarrow> uuid \<Rightarrow> int option" where
  "user_trv_if_active db user_id = obind (live_user db user_id) (\<lambda>u. if us_active u then Some (us_trv u) else None)"

definition user_auth_meta :: "id_db \<Rightarrow> uuid \<Rightarrow> auth_user_row option" where
  "user_auth_meta db user_id = obind (get_user db user_id) (\<lambda>u.
     if us_active u \<and> us_approval u = ApprovalApproved
     then Some \<lparr>ar_user = user_id, ar_role = us_role u, ar_trv = us_trv u\<rparr> else None)"

definition live_phone :: "string \<Rightarrow> user_row \<Rightarrow> bool" where
  "live_phone phone u = (us_phone u = phone \<and> us_active u \<and> us_deleted_at u = None)"

definition active_account_exists_by_phone :: "id_db \<Rightarrow> string \<Rightarrow> bool" where
  "active_account_exists_by_phone db phone = (find_user (live_phone phone) db \<noteq> None)"

definition account_id_and_role_by_phone :: "id_db \<Rightarrow> string \<Rightarrow> (uuid \<times> user_role) option" where
  "account_id_and_role_by_phone db phone =
    map_option (\<lambda>(k, u). (k, us_role u)) (find_user (live_phone phone) db)"

definition approved_account_exists_by_phone :: "id_db \<Rightarrow> string \<Rightarrow> bool" where
  "approved_account_exists_by_phone db phone =
    (find_user (\<lambda>u. live_phone phone u \<and> us_approval u = ApprovalApproved) db \<noteq> None)"

record self_profile_row =
  sp_role :: user_role
  sp_display_name :: "string option"
  sp_email :: "string option"

definition user_not_found :: app_error where "user_not_found = NotFound ''User not found''"

definition self_profile_of :: "user_row \<Rightarrow> self_profile_row" where
  "self_profile_of u = \<lparr>sp_role = us_role u, sp_display_name = us_display_name u, sp_email = us_email u\<rparr>"

definition self_profile :: "id_db \<Rightarrow> uuid \<Rightarrow> self_profile_row app_result" where
  "self_profile db user_id = (case live_user db user_id of
     None \<Rightarrow> Inl user_not_found | Some u \<Rightarrow> Inr (self_profile_of u))"

definition email_taken :: "id_db \<Rightarrow> uuid \<Rightarrow> string option \<Rightarrow> bool" where
  "email_taken db k email = (email \<noteq> None \<and> list_ex (\<lambda>(j, u). j \<noteq> k \<and> us_email u = email) (id_users db))"

definition update_self_profile ::
  "id_env \<Rightarrow> uuid \<Rightarrow> string \<Rightarrow> string option \<Rightarrow> id_db \<Rightarrow> (self_profile_row \<times> id_db) app_result" where
  "update_self_profile env user_id display_name email db = (case live_user db user_id of
     None \<Rightarrow> Inl user_not_found
   | Some u \<Rightarrow>
     if email_taken db user_id email
     then Inl (ConflictCode ''EMAIL_TAKEN'' ''That email address is already in use.'')
     else (let u' = u\<lparr>us_display_name := Some display_name, us_email := email, us_updated_at := ie_tx_now env\<rparr>
       in Inr (self_profile_of u', put_user user_id u' db)))"

record resolved_user =
  rs_user :: uuid
  rs_role :: user_role
  rs_display_name :: "string option"
  rs_phone :: string

definition resolve_users :: "id_db \<Rightarrow> uuid list \<Rightarrow> resolved_user list" where
  "resolve_users db ids = (if ids = [] then []
     else map (\<lambda>(k, u). \<lparr>rs_user = k, rs_role = us_role u, rs_display_name = us_display_name u, rs_phone = us_phone u\<rparr>)
       (filter (\<lambda>(k, u). k \<in> set ids \<and> us_deleted_at u = None) (id_users db)))"

subsection \<open>Two-factor and API tokens\<close>

record totp_columns =
  tr_secret :: "string option"
  tr_enabled :: bool
  tr_phone :: string
  tr_password_hash :: string

definition totp_row :: "id_db \<Rightarrow> uuid \<Rightarrow> totp_columns app_result" where
  "totp_row db user_id = (case live_user db user_id of
     None \<Rightarrow> Inl user_not_found
   | Some u \<Rightarrow> Inr \<lparr>tr_secret = us_totp_secret u, tr_enabled = us_totp_enabled u, tr_phone = us_phone u,
       tr_password_hash = us_password_hash u\<rparr>)"

definition totp_enabled_for_user :: "id_db \<Rightarrow> uuid \<Rightarrow> bool" where
  "totp_enabled_for_user db user_id = (case get_user db user_id of Some u \<Rightarrow> us_totp_enabled u | None \<Rightarrow> False)"

definition store_provisioned_totp :: "id_env \<Rightarrow> uuid \<Rightarrow> string \<Rightarrow> id_db \<Rightarrow> (unit \<times> id_db) app_result" where
  "store_provisioned_totp env user_id sealed db = (case live_user db user_id of
     None \<Rightarrow> Inl user_not_found
   | Some u \<Rightarrow> Inr ((), put_user user_id (u\<lparr>us_totp_secret := Some sealed, us_updated_at := ie_tx_now env\<rparr>) db))"

definition delete_recovery :: "uuid \<Rightarrow> id_db \<Rightarrow> id_db" where
  "delete_recovery user_id db = db\<lparr>id_recovery := filter (\<lambda>r. rv_user r \<noteq> user_id) (id_recovery db)\<rparr>"

definition enable_totp_with_recovery_codes ::
  "id_env \<Rightarrow> uuid \<Rightarrow> string list \<Rightarrow> id_db \<Rightarrow> (unit \<times> id_db) app_result" where
  "enable_totp_with_recovery_codes env user_id code_hashes db =
    (case obind (live_user db user_id) (\<lambda>u. if us_totp_secret u = None then None else Some u) of
       None \<Rightarrow> Inl (Conflict ''No 2FA setup in progress for this account.'')
     | Some u \<Rightarrow>
       (let db1 = delete_recovery user_id (put_user user_id (u\<lparr>us_totp_enabled := True,
              us_totp_confirmed_at := Some (ie_tx_now env), us_updated_at := ie_tx_now env\<rparr>) db)
        in Inr ((), db1\<lparr>id_recovery := id_recovery db1 @
             map (\<lambda>h. \<lparr>rv_user = user_id, rv_code_hash = h, rv_used_at = None\<rparr>) code_hashes\<rparr>)))"

definition disable_totp :: "id_env \<Rightarrow> uuid \<Rightarrow> id_db \<Rightarrow> (unit \<times> id_db) app_result" where
  "disable_totp env user_id db = (case live_user db user_id of
     None \<Rightarrow> Inl user_not_found
   | Some u \<Rightarrow> Inr ((), delete_recovery user_id (put_user user_id (u\<lparr>us_totp_enabled := False,
       us_totp_secret := None, us_totp_confirmed_at := None, us_updated_at := ie_tx_now env\<rparr>) db)))"

definition unused_recovery :: "uuid \<Rightarrow> string \<Rightarrow> recovery_row \<Rightarrow> bool" where
  "unused_recovery user_id h r = (rv_user r = user_id \<and> rv_code_hash r = h \<and> rv_used_at r = None)"

text \<open>The update reports success when it changed exactly one row.\<close>

definition consume_recovery_code :: "id_env \<Rightarrow> uuid \<Rightarrow> string \<Rightarrow> id_db \<Rightarrow> bool \<times> id_db" where
  "consume_recovery_code env user_id h db =
    (length (filter (unused_recovery user_id h) (id_recovery db)) = 1,
     db\<lparr>id_recovery := map (\<lambda>r. if unused_recovery user_id h r then r\<lparr>rv_used_at := Some (ie_tx_now env)\<rparr> else r)
       (id_recovery db)\<rparr>)"

definition create_api_token_row ::
  "id_env \<Rightarrow> uuid \<Rightarrow> string \<Rightarrow> string \<Rightarrow> string \<Rightarrow> string \<Rightarrow> id_db \<Rightarrow> (uuid \<times> id_db) app_result" where
  "create_api_token_row env user_id name prefix secret_hash role db =
    res_bind (cast_role role) (\<lambda>r.
    if list_ex (\<lambda>(k, t). k = ie_row env \<or> at_prefix t = prefix) (id_tokens db) then Inl (Database ''23505'')
    else Inr (ie_row env, db\<lparr>id_tokens := id_tokens db @ [(ie_row env,
      \<lparr>at_user = user_id, at_name = name, at_token_hash = secret_hash, at_prefix = prefix, at_role = r,
       at_created_at = ie_tx_now env, at_last_used_at = None, at_revoked_at = None\<rparr>)]\<rparr>))"

definition list_api_token_rows :: "id_db \<Rightarrow> uuid \<Rightarrow> (uuid \<times> api_token_row) list" where
  "list_api_token_rows db user_id =
    sort_key (\<lambda>(k, t). - at_created_at t) (filter (\<lambda>(k, t). at_user t = user_id) (id_tokens db))"

definition revoke_api_token_row :: "id_env \<Rightarrow> uuid \<Rightarrow> uuid \<Rightarrow> id_db \<Rightarrow> (unit \<times> id_db) app_result" where
  "revoke_api_token_row env user_id token_id db = (case row_get (id_tokens db) token_id of
     Some t \<Rightarrow>
       if at_user t = user_id \<and> at_revoked_at t = None
       then Inr ((), db\<lparr>id_tokens := row_put token_id (t\<lparr>at_revoked_at := Some (ie_tx_now env)\<rparr>) (id_tokens db)\<rparr>)
       else Inl (NotFound ''API token not found or already revoked'')
   | None \<Rightarrow> Inl (NotFound ''API token not found or already revoked''))"

definition find_api_token_by_prefix :: "id_db \<Rightarrow> string \<Rightarrow> (uuid \<times> api_token_row) option" where
  "find_api_token_by_prefix db prefix = find (\<lambda>(k, t). at_prefix t = prefix \<and> at_revoked_at t = None
     \<and> (case get_user db (at_user t) of
          Some u \<Rightarrow> us_active u \<and> us_deleted_at u = None \<and> us_approval u = ApprovalApproved
        | None \<Rightarrow> False)) (id_tokens db)"

definition touch_api_token :: "id_env \<Rightarrow> uuid \<Rightarrow> id_db \<Rightarrow> id_db" where
  "touch_api_token env token_id db = (case row_get (id_tokens db) token_id of
     Some t \<Rightarrow> db\<lparr>id_tokens := row_put token_id (t\<lparr>at_last_used_at := Some (ie_tx_now env)\<rparr>) (id_tokens db)\<rparr>
   | None \<Rightarrow> db)"

text \<open>A recovery code is accepted once.\<close>

lemma recovery_spent:
  "\<not> fst (consume_recovery_code env' u h (snd (consume_recovery_code env u h db)))"
proof -
  have "filter (unused_recovery u h) (map (\<lambda>r. if unused_recovery u h r
      then r\<lparr>rv_used_at := Some (ie_tx_now env)\<rparr> else r) rows) = []" for rows
    by (induction rows) (auto simp: unused_recovery_def)
  then show ?thesis by (simp add: consume_recovery_code_def)
qed

end
