(* ===== verification/Identity_Sessions.thy ===== *)
theory Identity_Sessions
  imports Identity_Accounts
begin

text \<open>
  Sessions and credentials (\<open>services/identity/src/repo/mod.rs\<close>). A login starts a family of refresh
  tokens; every refresh revokes the presented row and inserts its successor in the same family. The
  public half of a token is the row's rotation id, the secret half is hashed. A change of credentials
  bumps the user's revocation version and revokes every family.
\<close>

subsection \<open>Refresh families\<close>

definition MAX_SESSIONS_PER_USER :: nat where "MAX_SESSIONS_PER_USER = 5"
definition REFRESH_TOKEN_DAYS :: int where "REFRESH_TOKEN_DAYS = 7"

record device =
  dc_user_agent :: "string option"
  dc_ip :: "string option"

definition revoke_rows :: "(refresh_row \<Rightarrow> bool) \<Rightarrow> id_db \<Rightarrow> id_db" where
  "revoke_rows sel db =
    db\<lparr>id_refresh := map (\<lambda>r. if sel r then r\<lparr>rf_revoked := True\<rparr> else r) (id_refresh db)\<rparr>"

definition live_in_family :: "uuid \<Rightarrow> refresh_row \<Rightarrow> bool" where
  "live_in_family family_id r = (rf_family r = family_id \<and> \<not> rf_revoked r)"

definition live_of_user :: "uuid \<Rightarrow> refresh_row \<Rightarrow> bool" where
  "live_of_user user_id r = (rf_user r = user_id \<and> \<not> rf_revoked r)"

definition revoke_family :: "uuid \<Rightarrow> id_db \<Rightarrow> nat \<times> id_db" where
  "revoke_family family_id db =
    (length (filter (live_in_family family_id) (id_refresh db)), revoke_rows (live_in_family family_id) db)"

definition family_has_live_token :: "id_db \<Rightarrow> uuid \<Rightarrow> bool" where
  "family_has_live_token db family_id = list_ex (live_in_family family_id) (id_refresh db)"

definition max_of :: "int list \<Rightarrow> int" where
  "max_of xs = - min_list (map uminus xs)"

text \<open>The families past the newest \<open>MAX_SESSIONS_PER_USER - 1\<close>, by their newest live row.\<close>

definition evictable :: "id_db \<Rightarrow> uuid \<Rightarrow> uuid list" where
  "evictable db user_id =
    (let rows = filter (live_of_user user_id) (id_refresh db);
         last_active = (\<lambda>f. max_of (map rf_created_at (filter (\<lambda>r. rf_family r = f) rows)))
     in drop (MAX_SESSIONS_PER_USER - 1) (sort_key (\<lambda>f. - last_active f) (remdups (map rf_family rows))))"

definition enforce_session_cap :: "uuid \<Rightarrow> id_db \<Rightarrow> id_db" where
  "enforce_session_cap user_id db = fold (\<lambda>f d. snd (revoke_family f d)) (evictable db user_id) db"

definition refresh_insert :: "argon2 \<Rightarrow> id_env \<Rightarrow> uuid \<Rightarrow> uuid \<Rightarrow> string option \<Rightarrow> string option
    \<Rightarrow> user_role option \<Rightarrow> id_db \<Rightarrow> (string \<times> id_db) app_result" where
  "refresh_insert A env user_id family_id ua ip active_role db =
    (let secret = uuid_text (ie_secret env) in
     if list_ex (\<lambda>r. rf_rotation r = ie_rotation env) (id_refresh db) then Inl (Database ''23505'')
     else Inr (assemble (ie_rotation env) secret, db\<lparr>id_refresh := id_refresh db @
       [\<lparr>rf_user = user_id, rf_family = family_id, rf_rotation = ie_rotation env,
         rf_jti = ie_refresh_jti env, rf_secret_hash = ph_hash A (ie_salt env) secret,
         rf_expires_at = ie_now env + days_dur REFRESH_TOKEN_DAYS, rf_revoked = False,
         rf_created_at = ie_tx_now env, rf_user_agent = ua, rf_ip = ip,
         rf_last_used_at = Some (ie_tx_now env), rf_active_role = active_role\<rparr>]\<rparr>))"

definition issue_refresh :: "argon2 \<Rightarrow> id_env \<Rightarrow> uuid \<Rightarrow> uuid \<Rightarrow> user_role \<Rightarrow> device \<Rightarrow> id_db
    \<Rightarrow> (string \<times> id_db) app_result" where
  "issue_refresh A env user_id family_id active_role dev db =
    refresh_insert A env user_id family_id (dc_user_agent dev) (dc_ip dev) (Some active_role) db"

text \<open>The evictions are statements of their own: they stay when the insert after them fails.\<close>

definition create_refresh_family :: "argon2 \<Rightarrow> id_env \<Rightarrow> uuid \<Rightarrow> user_role \<Rightarrow> device \<Rightarrow> (id_db, string) act" where
  "create_refresh_family A env user_id active_role dev =
    act_bind (act_modify (enforce_session_cap user_id)) (\<lambda>_.
    act_tx (issue_refresh A env user_id (ie_family env) active_role dev))"

record located_refresh =
  lr_user :: uuid
  lr_family :: uuid
  lr_stored :: stored_refresh
  lr_active_role :: "user_role option"
  lr_secret_hash :: string

definition family_rows :: "id_db \<Rightarrow> uuid \<Rightarrow> refresh_row list" where
  "family_rows db family_id = filter (\<lambda>r. rf_family r = family_id) (id_refresh db)"

definition row_of_rotation :: "id_db \<Rightarrow> uuid \<Rightarrow> refresh_row option" where
  "row_of_rotation db rotation_id = find (\<lambda>r. rf_rotation r = rotation_id) (id_refresh db)"

definition find_refresh_by_rotation :: "id_db \<Rightarrow> uuid \<Rightarrow> located_refresh option" where
  "find_refresh_by_rotation db rotation_id = map_option (\<lambda>r.
     \<lparr>lr_user = rf_user r, lr_family = rf_family r,
      lr_stored = \<lparr>sf_revoked = rf_revoked r, sf_expires_at = rf_expires_at r,
        sf_family_started_at = min_list (map rf_created_at (family_rows db (rf_family r)))\<rparr>,
      lr_active_role = rf_active_role r, lr_secret_hash = rf_secret_hash r\<rparr>) (row_of_rotation db rotation_id)"

definition secret_matches :: "argon2 \<Rightarrow> located_refresh \<Rightarrow> string \<Rightarrow> bool app_result" where
  "secret_matches A located secret = verify_secret A secret (lr_secret_hash located)"

definition live_rotation :: "uuid \<Rightarrow> refresh_row \<Rightarrow> bool" where
  "live_rotation rotation_id r = (rf_rotation r = rotation_id \<and> \<not> rf_revoked r)"

definition first_row :: "refresh_row list \<Rightarrow> refresh_row option" where
  "first_row rows = (case sort_key rf_created_at rows of [] \<Rightarrow> None | r # _ \<Rightarrow> Some r)"

definition rotate :: "argon2 \<Rightarrow> id_env \<Rightarrow> uuid \<Rightarrow> uuid \<Rightarrow> uuid \<Rightarrow> device \<Rightarrow> id_db
    \<Rightarrow> (string option \<times> id_db) app_result" where
  "rotate A env user_id family_id presented dev db =
    (if \<not> list_ex (live_rotation presented) (id_refresh db) then Inr (None, db)
     else (let db1 = revoke_rows (live_rotation presented) db;
               prior = first_row (family_rows db1 family_id);
               ua = or_opt (dc_user_agent dev) (obind prior rf_user_agent);
               ip = or_opt (dc_ip dev) (obind prior rf_ip)
           in res_bind (refresh_insert A env user_id family_id ua ip (obind prior rf_active_role) db1)
                (\<lambda>(token, db2). Inr (Some token, db2))))"

record session_row =
  ss_family :: uuid
  ss_user_agent :: "string option"
  ss_ip :: "string option"
  ss_created_at :: instant
  ss_last_used_at :: instant

definition last_used :: "refresh_row \<Rightarrow> instant" where
  "last_used r = (case rf_last_used_at r of Some t \<Rightarrow> t | None \<Rightarrow> rf_created_at r)"

definition session_of :: "refresh_row list \<Rightarrow> uuid \<Rightarrow> session_row" where
  "session_of rows f =
    \<lparr>ss_family = f, ss_user_agent = obind (first_row rows) rf_user_agent,
     ss_ip = obind (first_row rows) rf_ip, ss_created_at = min_list (map rf_created_at rows),
     ss_last_used_at = max_of (map last_used rows)\<rparr>"

definition list_session_rows :: "instant \<Rightarrow> id_db \<Rightarrow> uuid \<Rightarrow> session_row list" where
  "list_session_rows tx_now db user_id =
    (let rows = filter (\<lambda>r. rf_user r = user_id) (id_refresh db);
         of_family = (\<lambda>f. filter (\<lambda>r. rf_family r = f) rows);
         alive = filter (\<lambda>f. list_ex (\<lambda>r. \<not> rf_revoked r \<and> tx_now < rf_expires_at r) (of_family f))
           (remdups (map rf_family rows))
     in sort_key (\<lambda>s. - ss_last_used_at s) (map (\<lambda>f. session_of (of_family f) f) alive))"

definition revoke_own_family :: "uuid \<Rightarrow> uuid \<Rightarrow> id_db \<Rightarrow> (unit \<times> id_db) app_result" where
  "revoke_own_family user_id family_id db =
    (let sel = (\<lambda>r. live_in_family family_id r \<and> rf_user r = user_id) in
     if list_ex sel (id_refresh db) then Inr ((), revoke_rows sel db)
     else Inl (NotFound ''Session not found or already signed out''))"

subsection \<open>Credentials\<close>

definition revoke_user_rows :: "uuid \<Rightarrow> id_db \<Rightarrow> id_db" where
  "revoke_user_rows user_id db = revoke_rows (live_of_user user_id) db"

definition revoke_all :: "id_env \<Rightarrow> uuid \<Rightarrow> id_db \<Rightarrow> (int \<times> id_db) app_result" where
  "revoke_all env user_id db = (case get_user db user_id of
     None \<Rightarrow> Inl user_not_found
   | Some u \<Rightarrow> (let new_version = next_revocation_version (us_trv u) in
       Inr (new_version, revoke_user_rows user_id
         (put_user user_id (u\<lparr>us_trv := new_version, us_updated_at := ie_tx_now env\<rparr>) db))))"

definition deleted_phone :: "uuid \<Rightarrow> string" where
  "deleted_phone user_id = ''deleted:'' @ uuid_text user_id"

definition soft_delete_and_redact :: "id_env \<Rightarrow> uuid \<Rightarrow> id_db \<Rightarrow> (int \<times> id_db) app_result" where
  "soft_delete_and_redact env user_id db = (case live_user db user_id of
     None \<Rightarrow> Inl (NotFound ''User not found or already deleted'')
   | Some u \<Rightarrow> (let new_version = next_revocation_version (us_trv u) in
       if phone_taken db user_id (deleted_phone user_id) then Inl (Database ''23505'')
       else Inr (new_version, revoke_user_rows user_id (put_user user_id
         (u\<lparr>us_phone := deleted_phone user_id, us_email := None, us_active := False,
            us_trv := new_version, us_deleted_at := Some (ie_tx_now env), us_updated_at := ie_tx_now env\<rparr>) db))))"

definition record_credential_event :: "uuid \<Rightarrow> string \<Rightarrow> string option \<Rightarrow> id_db \<Rightarrow> id_db" where
  "record_credential_event user_id action detail db =
    db\<lparr>id_audit := id_audit db @ [\<lparr>cu_user = user_id, cu_action = action, cu_detail = detail\<rparr>]\<rparr>"

definition set_password :: "argon2 \<Rightarrow> id_env \<Rightarrow> uuid \<Rightarrow> string \<Rightarrow> user_row \<Rightarrow> id_db \<Rightarrow> int \<times> id_db" where
  "set_password A env user_id new_pin_hash u db =
    (let new_version = next_revocation_version (us_trv u) in
     (new_version, revoke_user_rows user_id (put_user user_id
       (u\<lparr>us_password_hash := ph_hash A (ie_salt env) new_pin_hash, us_trv := new_version,
          us_updated_at := ie_tx_now env\<rparr>) db)))"

definition change_password ::
  "argon2 \<Rightarrow> id_env \<Rightarrow> uuid \<Rightarrow> string \<Rightarrow> string \<Rightarrow> id_db \<Rightarrow> (int \<times> id_db) app_result" where
  "change_password A env user_id current_password new_pin_hash db = (case live_user db user_id of
     None \<Rightarrow> Inl user_not_found
   | Some u \<Rightarrow> res_bind (verify_secret A current_password (us_password_hash u)) (\<lambda>ok.
       if \<not> ok then Inl invalid_credentials
       else (let (v, db1) = set_password A env user_id new_pin_hash u db in
         Inr (v, record_credential_event user_id ''password_changed'' None db1))))"

definition verify_self_password :: "argon2 \<Rightarrow> uuid \<Rightarrow> string \<Rightarrow> id_db \<Rightarrow> (unit \<times> id_db) app_result" where
  "verify_self_password A user_id current_password db = (case live_user db user_id of
     None \<Rightarrow> Inl user_not_found
   | Some u \<Rightarrow> res_bind (verify_secret A current_password (us_password_hash u)) (\<lambda>ok.
       if ok then Inr ((), db) else Inl invalid_credentials))"

definition phone_taken_error :: app_error where
  "phone_taken_error = ConflictCode ''PHONE_TAKEN'' ''This phone number is already in use by another account.''"

definition update_user_phone :: "id_env \<Rightarrow> uuid \<Rightarrow> string \<Rightarrow> id_db \<Rightarrow> (int \<times> id_db) app_result" where
  "update_user_phone env user_id new_phone db = (case live_user db user_id of
     None \<Rightarrow> Inl user_not_found
   | Some u \<Rightarrow> (let new_version = next_revocation_version (us_trv u) in
       if phone_taken db user_id new_phone then Inl phone_taken_error
       else Inr (new_version, record_credential_event user_id ''phone_changed'' None
         (revoke_user_rows user_id (put_user user_id
           (u\<lparr>us_phone := new_phone, us_trv := new_version, us_updated_at := ie_tx_now env\<rparr>) db)))))"

definition reset_password_by_phone ::
  "argon2 \<Rightarrow> id_env \<Rightarrow> string \<Rightarrow> string \<Rightarrow> id_db \<Rightarrow> (uuid \<times> int) option \<times> id_db" where
  "reset_password_by_phone A env phone new_pin_hash db = (case find_user (live_phone phone) db of
     None \<Rightarrow> (None, db)
   | Some (user_id, u) \<Rightarrow> (let (v, db1) = set_password A env user_id new_pin_hash u db in
       (Some (user_id, v), record_credential_event user_id ''pin_reset'' (Some ''via_otp'') db1)))"

end
