(* ===== verification/Identity_Login.thy ===== *)
theory Identity_Login
  imports Identity_Sessions Redis_Store
begin

text \<open>
  Login, registration and token refresh (\<open>services/identity/src/api/mod.rs\<close>, first half, and
  \<open>mark_user_revoked\<close> of \<open>src/state.rs\<close>). A handler is an action on the service's tables and the
  shared cache. The texts of the headers are the ones \<open>to_str\<close> gives.
\<close>

subsection \<open>State and lifting\<close>

record id_state =
  is_db :: id_db
  is_redis :: redis

definition read_db :: "(id_db \<Rightarrow> 'a) \<Rightarrow> (id_state, 'a) act" where
  "read_db f s = (s, Inr (f (is_db s)))"

definition in_db :: "(id_db, 'a) act \<Rightarrow> (id_state, 'a) act" where
  "in_db m s = (let (db, r) = m (is_db s) in (s\<lparr>is_db := db\<rparr>, r))"

definition on_db :: "(id_db \<Rightarrow> ('a \<times> id_db) app_result) \<Rightarrow> (id_state, 'a) act" where
  "on_db t = in_db (act_tx t)"

definition on_cache :: "id_env \<Rightarrow> (redis \<Rightarrow> 'a \<times> redis) \<Rightarrow> (id_state, 'a) act" where
  "on_cache env f s = (if ie_up env then (let (x, r) = f (is_redis s) in (s\<lparr>is_redis := r\<rparr>, Inr x))
     else (s, Inl redis_unreachable))"

text \<open>A cache command whose failure is ignored.\<close>

definition try_cache :: "id_env \<Rightarrow> (redis \<Rightarrow> redis) \<Rightarrow> id_state \<Rightarrow> id_state" where
  "try_cache env f s = (if ie_up env then s\<lparr>is_redis := f (is_redis s)\<rparr> else s)"

lemma read_db_bind [simp]: "act_bind (read_db f) g s = g (f (is_db s)) s"
  by (simp add: act_bind_def read_db_def)

text \<open>The body of an answer and the cookies it sets; a header value takes visible ASCII only.\<close>

record 'a with_cookies =
  wc_cookies :: "string list"
  wc_body :: 'a

definition append_cookie :: "string list \<Rightarrow> string \<Rightarrow> string list" where
  "append_cookie headers cookie =
    (if list_all (\<lambda>c. (32 \<le> byte_of c \<and> byte_of c < 127) \<or> byte_of c = 9) cookie
     then headers @ [cookie] else headers)"

definition REFRESH_COOKIE_PATH :: string where "REFRESH_COOKIE_PATH = ''/auth''"
definition REFRESH_COOKIE_MAX_AGE_SECS :: int where "REFRESH_COOKIE_MAX_AGE_SECS = 7 * 24 * 60 * 60"
definition PROFILE_TOKEN_TTL_MINUTES :: int where "PROFILE_TOKEN_TTL_MINUTES = 15"
definition PROFILE_JTI_SKEW_BUFFER_SECS :: int where "PROFILE_JTI_SKEW_BUFFER_SECS = 30"
definition TWO_FACTOR_CHALLENGE_TTL_MINUTES :: int where "TWO_FACTOR_CHALLENGE_TTL_MINUTES = 5"
definition TWO_FACTOR_JTI_PREFIX :: string where "TWO_FACTOR_JTI_PREFIX = ''twofa_jti''"
definition MAX_USER_AGENT_LEN :: nat where "MAX_USER_AGENT_LEN = 400"

definition two_factor_jti_ttl_secs :: int where
  "two_factor_jti_ttl_secs = TWO_FACTOR_CHALLENGE_TTL_MINUTES * 60 + PROFILE_JTI_SKEW_BUFFER_SECS"

definition two_factor_key :: "string \<Rightarrow> string" where
  "two_factor_key jti = TWO_FACTOR_JTI_PREFIX @ '':'' @ jti"

definition profile_jti_key :: "string \<Rightarrow> string" where
  "profile_jti_key jti = ''profile_jti:'' @ jti"

record token_pair =
  tk_access :: string
  tk_refresh :: string
  tk_expires_in :: int

definition token_cookie_headers :: "token_pair \<Rightarrow> int \<Rightarrow> string list" where
  "token_cookie_headers pair access_max_age_secs =
    append_cookie (append_cookie [] (build_cookie ACCESS_TOKEN_COOKIE (tk_access pair) access_max_age_secs ''/''))
      (build_cookie REFRESH_TOKEN_COOKIE (tk_refresh pair) REFRESH_COOKIE_MAX_AGE_SECS REFRESH_COOKIE_PATH)"

definition clear_cookies :: "string list" where
  "clear_cookies = append_cookie (append_cookie [] (build_clear_cookie ACCESS_TOKEN_COOKIE ''/''))
     (build_clear_cookie REFRESH_TOKEN_COOKIE REFRESH_COOKIE_PATH)"

record id_headers =
  ih_parts :: request_parts
  ih_user_agent :: "string option"
  ih_forwarded_for :: "string option"
  ih_refresh_token :: "string option"

definition non_empty :: "string \<Rightarrow> string option" where
  "non_empty s = (if s = [] then None else Some s)"

definition device_context :: "id_headers \<Rightarrow> device" where
  "device_context hdr =
    \<lparr>dc_user_agent = obind (ih_user_agent hdr) (\<lambda>s. non_empty (take MAX_USER_AGENT_LEN s)),
     dc_ip = obind (ih_forwarded_for hdr) (\<lambda>s. non_empty (trim (hd (split_all (CHR '','') s))))\<rparr>"

subsection \<open>The login throttle\<close>

definition login_fail_key :: "string \<Rightarrow> string" where "login_fail_key bucket = ''login_fail:'' @ bucket"
definition login_lock_key :: "string \<Rightarrow> string" where "login_lock_key bucket = ''login_lock:'' @ bucket"

text \<open>Without the cache the throttle is open: the password check still decides.\<close>

definition throttle_is_locked :: "id_env \<Rightarrow> string \<Rightarrow> redis \<Rightarrow> bool" where
  "throttle_is_locked env bucket r = (ie_up env \<and> 0 < r_ttl (ie_now env) r (login_lock_key bucket))"

definition throttle_record_failure :: "id_env \<Rightarrow> string \<Rightarrow> redis \<Rightarrow> redis" where
  "throttle_record_failure env bucket r = (case r_incr (ie_now env) (login_fail_key bucket) r of
     None \<Rightarrow> r
   | Some (fails, r1) \<Rightarrow>
     if fails < 1 then r1
     else (let r2 = (if r_ttl (ie_now env) r1 (login_fail_key bucket) < 0
             then r_expire (ie_now env) (login_fail_key bucket) LOGIN_FAIL_WINDOW_SECS r1 else r1)
       in case login_lock_secs fails of
            None \<Rightarrow> r2
          | Some secs \<Rightarrow> r_set_ex (ie_now env) (login_lock_key bucket) (RText ''1'') (int secs) r2))"

definition throttle_clear :: "string \<Rightarrow> redis \<Rightarrow> redis" where
  "throttle_clear bucket r = r_del (login_lock_key bucket) (r_del (login_fail_key bucket) r)"

definition is_unauthorized :: "app_error \<Rightarrow> bool" where
  "is_unauthorized e = (case e of Unauthorized _ \<Rightarrow> True | _ \<Rightarrow> False)"

text \<open>
  Any step that checks a secret runs between the lock check and the bookkeeping: success clears the
  bucket, a refusal counts against it, any other error does neither.
\<close>

definition throttled :: "id_env \<Rightarrow> string \<Rightarrow> (id_state, 'a) act \<Rightarrow> (id_state, 'a) act" where
  "throttled env bucket op s =
    (if throttle_is_locked env bucket (is_redis s) then (s, Inl invalid_credentials)
     else case op s of
       (s', Inr v) \<Rightarrow> (try_cache env (throttle_clear bucket) s', Inr v)
     | (s', Inl e) \<Rightarrow>
         (if is_unauthorized e then try_cache env (throttle_record_failure env bucket) s' else s', Inl e))"

definition with_stepup_throttle :: "id_env \<Rightarrow> uuid \<Rightarrow> (id_state, 'a) act \<Rightarrow> (id_state, 'a) act" where
  "with_stepup_throttle env user_id op = throttled env (uuid_text user_id) op"

subsection \<open>Login\<close>

definition mark_user_revoked :: "uuid \<Rightarrow> int \<Rightarrow> redis \<Rightarrow> redis" where
  "mark_user_revoked user_id version r = r_set (user_trv_key user_id) (RNum version) r"

definition active_role_for :: "user_role \<Rightarrow> user_role list \<Rightarrow> user_role option" where
  "active_role_for requested enrolled =
    (if enrolled = [] \<or> requested \<in> set enrolled then Some requested else Some (hd enrolled))"

datatype login_outcome = TwoFactorRequired string | LoggedIn token_pair "user_role list"

definition login_answer :: "token_pair \<Rightarrow> user_role list \<Rightarrow> login_outcome with_cookies" where
  "login_answer pair roles = \<lparr>wc_cookies = token_cookie_headers pair (tk_expires_in pair),
     wc_body = LoggedIn pair roles\<rparr>"

text \<open>
  A login that is not an administrator's ends every other session: it bumps the version, revokes
  every family, and publishes the version in the cache as well as it can.
\<close>

definition login_version :: "id_env \<Rightarrow> uuid \<Rightarrow> user_role \<Rightarrow> int \<Rightarrow> (id_state, int) act" where
  "login_version env user_id active trv =
    (if active = RoleAdmin then act_return trv
     else act_bind (on_db (revoke_all env user_id)) (\<lambda>v.
       act_bind (act_modify (try_cache env (mark_user_revoked user_id v))) (\<lambda>_. act_return v)))"

definition issue_login_tokens :: "argon2 \<Rightarrow> jwt_lib \<Rightarrow> int \<Rightarrow> id_env \<Rightarrow> uuid \<Rightarrow> user_role \<Rightarrow> int \<Rightarrow> id_headers
    \<Rightarrow> (id_state, login_outcome with_cookies) act" where
  "issue_login_tokens A J expiry_minutes env user_id role trv hdr =
    act_bind (read_db (\<lambda>db. list_user_roles db user_id)) (\<lambda>available_roles.
    (case active_role_for role available_roles of
       None \<Rightarrow> act_fail invalid_credentials
     | Some active \<Rightarrow>
       act_bind (login_version env user_id active trv) (\<lambda>v.
       (let access = fst (encode_jwt_with_key J (ie_now env) (ie_access_jti env) user_id (role_text active) v
              expiry_minutes)
        in act_bind (in_db (create_refresh_family A env user_id active (device_context hdr))) (\<lambda>refresh.
        act_return (login_answer \<lparr>tk_access = access, tk_refresh = refresh,
          tk_expires_in = expiry_minutes * 60\<rparr> available_roles))))))"

definition issue_challenge :: "jwt_lib \<Rightarrow> id_env \<Rightarrow> uuid \<Rightarrow> (id_state, login_outcome with_cookies) act" where
  "issue_challenge J env user_id =
    (let (token, jti) = encode_2fa_challenge_token J (ie_now env) (ie_token_jti env) user_id
           TWO_FACTOR_CHALLENGE_TTL_MINUTES
     in act_bind (on_cache env (\<lambda>r. ((), put_marker (ie_now env) (two_factor_key jti)
           two_factor_jti_ttl_secs r))) (\<lambda>_.
        act_return \<lparr>wc_cookies = [], wc_body = TwoFactorRequired token\<rparr>))"

definition login_bucket :: "id_db \<Rightarrow> string \<Rightarrow> string" where
  "login_bucket db identifier = (case user_id_by_identifier db identifier of
     Some uid \<Rightarrow> uuid_text uid | None \<Rightarrow> ascii_lower identifier)"

definition login :: "argon2 \<Rightarrow> jwt_lib \<Rightarrow> int \<Rightarrow> id_env \<Rightarrow> id_headers \<Rightarrow> string \<Rightarrow> string
    \<Rightarrow> (id_state, login_outcome with_cookies) act" where
  "login A J expiry_minutes env hdr identifier_field password =
    (let identifier = trim identifier_field in
     act_bind (act_guard (identifier \<noteq> [] \<and> password \<noteq> []) invalid_credentials) (\<lambda>_.
     act_bind (read_db (\<lambda>db. login_bucket db identifier)) (\<lambda>bucket.
     act_bind (throttled env bucket
       (act_bind (read_db (\<lambda>db. verify_credentials A db identifier password)) act_of)) (\<lambda>user.
     act_bind (read_db (\<lambda>db. totp_enabled_for_user db (ar_user user))) (\<lambda>two_factor.
     if two_factor then issue_challenge J env (ar_user user)
     else issue_login_tokens A J expiry_minutes env (ar_user user) (ar_role user) (ar_trv user) hdr)))))"

subsection \<open>Registration\<close>

definition single_use_error :: app_error where
  "single_use_error = BadRequest ''Phone verification token is invalid, expired, or already used''"

definition claim_token :: "id_env \<Rightarrow> string \<Rightarrow> app_error \<Rightarrow> (id_state, unit) act" where
  "claim_token env k e = act_bind (on_cache env (take_marker (ie_now env) k)) (\<lambda>ok. act_guard ok e)"

definition phone_status :: "jwt_lib \<Rightarrow> id_env \<Rightarrow> string \<Rightarrow> (id_state, bool) act" where
  "phone_status J env token =
    act_bind (act_of (decode_phone_verify_token J (ie_now env) token PHONE_VERIFY_PURPOSE)) (\<lambda>(phone0, jti).
    act_bind (act_of (validate_login_phone phone0)) (\<lambda>phone.
    read_db (\<lambda>db. approved_account_exists_by_phone db phone)))"

record register_result =
  rg_user :: uuid
  rg_profile_token :: string

definition issue_profile_token :: "jwt_lib \<Rightarrow> id_env \<Rightarrow> uuid \<Rightarrow> user_role \<Rightarrow> (id_state, register_result) act" where
  "issue_profile_token J env user_id role =
    act_bind (act_of (profile_purpose_for_role role)) (\<lambda>purpose.
    (let (token, jti) = encode_profile_token J (ie_now env) (ie_token_jti env) user_id purpose
           PROFILE_TOKEN_TTL_MINUTES
     in act_bind (on_cache env (\<lambda>r. ((), put_marker (ie_now env) (profile_jti_key jti)
           (PROFILE_TOKEN_TTL_MINUTES * 60 + PROFILE_JTI_SKEW_BUFFER_SECS) r))) (\<lambda>_.
        act_return \<lparr>rg_user = user_id, rg_profile_token = token\<rparr>)))"

definition register :: "argon2 \<Rightarrow> jwt_lib \<Rightarrow> id_env \<Rightarrow> string \<Rightarrow> string \<Rightarrow> string \<Rightarrow> (id_state, register_result) act" where
  "register A J env token role_field pin_hash =
    act_bind (act_of (validate_registration_role role_field)) (\<lambda>role.
    act_bind (act_of (validate_pin_hash pin_hash)) (\<lambda>_.
    act_bind (act_of (decode_phone_verify_token J (ie_now env) token PHONE_VERIFY_PURPOSE)) (\<lambda>(phone0, jti).
    act_bind (act_of (validate_login_phone phone0)) (\<lambda>phone.
    act_bind (on_db (upsert_pending_user A env phone role pin_hash)) (\<lambda>user_id.
    act_bind (claim_token env (phone_verify_jti_key PHONE_VERIFY_PURPOSE jti) single_use_error) (\<lambda>_.
    issue_profile_token J env user_id role))))))"

definition either_profile_purpose :: "jwt_lib \<Rightarrow> instant \<Rightarrow> string \<Rightarrow> (uuid \<times> string) app_result" where
  "either_profile_purpose J now presented = (case decode_profile_token J now presented PROFILE_PURPOSE_GUARD of
     Inr x \<Rightarrow> Inr x
   | Inl _ \<Rightarrow> (case decode_profile_token J now presented PROFILE_PURPOSE_CUSTOMER of
       Inr x \<Rightarrow> Inr x
     | Inl _ \<Rightarrow> Inl (Unauthorized ''Registration token is invalid or expired'')))"

definition reissue_profile_token :: "jwt_lib \<Rightarrow> id_env \<Rightarrow> request_parts \<Rightarrow> string \<Rightarrow> (id_state, register_result) act" where
  "reissue_profile_token J env parts role_field =
    act_bind (act_of (validate_registration_role role_field)) (\<lambda>role.
    (case bearer_token parts of
       None \<Rightarrow> act_fail (Unauthorized ''Missing registration token'')
     | Some presented \<Rightarrow>
       act_bind (act_of (either_profile_purpose J (ie_now env) presented)) (\<lambda>(user_id, old_jti).
       act_bind (claim_token env (profile_jti_key old_jti)
         (Unauthorized ''Registration token is invalid, expired, or already used'')) (\<lambda>_.
       act_bind (on_db (update_pending_user_role env user_id role)) (\<lambda>_.
       issue_profile_token J env user_id role)))))"

definition add_role :: "jwt_lib \<Rightarrow> id_env \<Rightarrow> string \<Rightarrow> string \<Rightarrow> (id_state, register_result) act" where
  "add_role J env token role_field =
    act_bind (act_of (validate_registration_role role_field)) (\<lambda>role.
    act_bind (act_of (decode_phone_verify_token J (ie_now env) token PHONE_VERIFY_PURPOSE)) (\<lambda>(phone0, jti).
    act_bind (act_of (validate_login_phone phone0)) (\<lambda>phone.
    act_bind (read_db (\<lambda>db. account_id_and_role_by_phone db phone)) (\<lambda>account.
    (case account of
       None \<Rightarrow> act_fail (BadRequest ''No account found for this phone [please register first]'')
     | Some (user_id, current_role) \<Rightarrow>
       act_bind (read_db (\<lambda>db. user_has_role db user_id role)) (\<lambda>held.
       act_bind (act_guard (role \<noteq> current_role \<and> \<not> held)
         (ConflictCode ''ROLE_ALREADY_HELD'' ''This account already has that role.'')) (\<lambda>_.
       act_bind (claim_token env (phone_verify_jti_key PHONE_VERIFY_PURPOSE jti) single_use_error) (\<lambda>_.
       issue_profile_token J env user_id role))))))))"

subsection \<open>Refresh and logout\<close>

definition presented_refresh :: "string option \<Rightarrow> request_parts \<Rightarrow> string option" where
  "presented_refresh body parts = or_opt (obind body non_empty) (cookie_token parts REFRESH_TOKEN_COOKIE)"

definition invalid_refresh :: app_error where
  "invalid_refresh = Unauthorized ''Invalid refresh token''"

definition session_superseded :: app_error where
  "session_superseded = UnauthorizedCode ''SESSION_SUPERSEDED''
     ''This session was signed out because the account logged in on another device''"

definition reuse_detected :: "uuid \<Rightarrow> (id_state, 'a) act" where
  "reuse_detected family_id =
    act_bind (read_db (\<lambda>db. family_has_live_token db family_id)) (\<lambda>live.
    if live then act_bind (in_db (act_modify (\<lambda>db. snd (revoke_family family_id db)))) (\<lambda>_.
      act_fail invalid_refresh)
    else act_fail session_superseded)"

definition refresh_pair :: "jwt_lib \<Rightarrow> int \<Rightarrow> id_env \<Rightarrow> auth_user_row \<Rightarrow> user_role option \<Rightarrow> string
    \<Rightarrow> (id_state, token_pair with_cookies) act" where
  "refresh_pair J expiry_minutes env meta session_role refresh_token =
    act_bind (read_db (\<lambda>db. list_user_roles db (ar_user meta))) (\<lambda>enrolled.
    (case active_role_for (case session_role of Some r \<Rightarrow> r | None \<Rightarrow> ar_role meta) enrolled of
       None \<Rightarrow> act_fail invalid_refresh
     | Some active \<Rightarrow>
       (let pair = \<lparr>tk_access = fst (encode_jwt_with_key J (ie_now env) (ie_access_jti env) (ar_user meta)
              (role_text active) (ar_trv meta) expiry_minutes),
            tk_refresh = refresh_token, tk_expires_in = expiry_minutes * 60\<rparr>
        in act_return \<lparr>wc_cookies = token_cookie_headers pair (expiry_minutes * 60), wc_body = pair\<rparr>)))"

text \<open>
  The part of a refresh after the decision to rotate. It reads the tables anew: between the look-up
  and the rotation another request may have rotated or revoked the row.
\<close>

definition rotate_session :: "argon2 \<Rightarrow> jwt_lib \<Rightarrow> int \<Rightarrow> id_env \<Rightarrow> id_headers \<Rightarrow> located_refresh \<Rightarrow> uuid
    \<Rightarrow> (id_state, token_pair with_cookies) act" where
  "rotate_session A J expiry_minutes env hdr located rotation_id =
    act_bind (read_db (\<lambda>db. user_auth_meta db (lr_user located))) (\<lambda>meta0.
    (case meta0 of
       None \<Rightarrow> act_fail invalid_refresh
     | Some meta \<Rightarrow>
       act_bind (on_db (rotate A env (lr_user located) (lr_family located) rotation_id (device_context hdr)))
         (\<lambda>rotated.
       (case rotated of
          None \<Rightarrow> act_fail invalid_refresh
        | Some refresh_token \<Rightarrow>
          refresh_pair J expiry_minutes env meta (lr_active_role located) refresh_token))))"

definition locate_refresh :: "argon2 \<Rightarrow> (string \<Rightarrow> uuid option) \<Rightarrow> string \<Rightarrow> (id_state, uuid \<times> located_refresh) act" where
  "locate_refresh A parse_uuid presented = (case parse_refresh parse_uuid presented of
     None \<Rightarrow> act_fail invalid_refresh
   | Some (rotation_id, secret) \<Rightarrow>
     act_bind (read_db (\<lambda>db. find_refresh_by_rotation db rotation_id)) (\<lambda>found.
     (case found of
        None \<Rightarrow> act_fail invalid_refresh
      | Some located \<Rightarrow>
        act_bind (act_of (secret_matches A located secret)) (\<lambda>ok.
        act_bind (act_guard ok invalid_refresh) (\<lambda>_. act_return (rotation_id, located))))))"

definition refresh :: "argon2 \<Rightarrow> jwt_lib \<Rightarrow> (string \<Rightarrow> uuid option) \<Rightarrow> int \<Rightarrow> id_env \<Rightarrow> id_headers \<Rightarrow> string option
    \<Rightarrow> (id_state, token_pair with_cookies) act" where
  "refresh A J parse_uuid expiry_minutes env hdr body =
    (case presented_refresh body (ih_parts hdr) of
       None \<Rightarrow> act_fail (Unauthorized ''Missing refresh token'')
     | Some presented \<Rightarrow>
       act_bind (locate_refresh A parse_uuid presented) (\<lambda>(rotation_id, located).
       (case decide (lr_stored located) (ie_now env) of
          ReuseDetected \<Rightarrow> reuse_detected (lr_family located)
        | RotationExpired \<Rightarrow> act_fail invalid_refresh
        | CeilingExceeded \<Rightarrow> act_fail invalid_refresh
        | Rotate \<Rightarrow> rotate_session A J expiry_minutes env hdr located rotation_id)))"

definition access_jti_and_ttl :: "jwt_lib \<Rightarrow> instant \<Rightarrow> request_parts \<Rightarrow> (string \<times> int) option" where
  "access_jti_and_ttl J now parts =
    obind (or_opt (bearer_token parts) (cookie_token parts ACCESS_TOKEN_COOKIE)) (\<lambda>token.
    obind (ok_of (decode_jwt_with_key J now token)) (\<lambda>claims.
      Some (jc_jti claims, max (jc_exp claims - timestamp now) 1)))"

definition block_access :: "jwt_lib \<Rightarrow> id_env \<Rightarrow> uuid \<Rightarrow> request_parts \<Rightarrow> id_state \<Rightarrow> id_state" where
  "block_access J env user_id parts s = (case access_jti_and_ttl J (ie_now env) parts of
     None \<Rightarrow> s
   | Some (jti, ttl_secs) \<Rightarrow>
     try_cache env (r_set_ex (ie_now env) (revoked_jti_key jti) (RText (uuid_text user_id)) ttl_secs) s)"

definition forget_family :: "(string \<Rightarrow> uuid option) \<Rightarrow> uuid \<Rightarrow> string \<Rightarrow> (id_state, unit) act" where
  "forget_family parse_uuid user_id presented = (case parse_refresh parse_uuid presented of
     None \<Rightarrow> act_return ()
   | Some (rotation_id, _) \<Rightarrow>
     act_bind (read_db (\<lambda>db. find_refresh_by_rotation db rotation_id)) (\<lambda>found.
     (case found of
        None \<Rightarrow> act_return ()
      | Some located \<Rightarrow> (\<lambda>s. case on_db (revoke_own_family user_id (lr_family located)) s of
           (s', Inl (NotFound m)) \<Rightarrow> (s', Inr ())
         | other \<Rightarrow> other))))"

definition logout :: "jwt_lib \<Rightarrow> (string \<Rightarrow> uuid option) \<Rightarrow> id_env \<Rightarrow> auth_user \<Rightarrow> id_headers \<Rightarrow> string option
    \<Rightarrow> (id_state, unit with_cookies) act" where
  "logout J parse_uuid env user hdr body =
    act_bind (act_modify (block_access J env (au_id user) (ih_parts hdr))) (\<lambda>_.
    act_bind (case presented_refresh body (ih_parts hdr) of
        None \<Rightarrow> act_return ()
      | Some presented \<Rightarrow> forget_family parse_uuid (au_id user) presented) (\<lambda>_.
    act_return \<lparr>wc_cookies = clear_cookies, wc_body = ()\<rparr>))"

end
