(* ===== verification/Identity_Api.thy ===== *)
theory Identity_Api
  imports Identity_Login Shared_Events
begin

text \<open>
  The account endpoints (\<open>services/identity/src/api/mod.rs\<close>, second half) and the event consumers
  (\<open>src/events/\<close>). One-time codes (the TOTP library and the sealing of their secrets), SHA-256 and
  the profile service's answer are parameters. Every change of credentials bumps the revocation
  version in the tables first and then publishes it in the cache; when the cache does not answer the
  caller gets an error, although the tables are changed.
\<close>

definition publish_version :: "id_env \<Rightarrow> uuid \<Rightarrow> int \<Rightarrow> (id_state, unit) act" where
  "publish_version env user_id version =
    on_cache env (\<lambda>r. ((), mark_user_revoked user_id version r))"

definition signed_out :: "'a \<Rightarrow> 'a with_cookies" where
  "signed_out x = \<lparr>wc_cookies = clear_cookies, wc_body = x\<rparr>"

subsection \<open>Profile of the caller\<close>

record me_response =
  me_user :: uuid
  me_role :: user_role
  me_roles :: "user_role list"
  me_pending_roles :: "string list"
  me_display_name :: "string option"
  me_email :: "string option"

definition me_of :: "uuid \<Rightarrow> self_profile_row \<Rightarrow> user_role list \<Rightarrow> string list \<Rightarrow> me_response" where
  "me_of user_id profile roles pending =
    \<lparr>me_user = user_id, me_role = sp_role profile, me_roles = roles, me_pending_roles = pending,
     me_display_name = sp_display_name profile, me_email = sp_email profile\<rparr>"

definition get_me :: "(uuid \<Rightarrow> string list) \<Rightarrow> auth_user \<Rightarrow> (id_state, me_response) act" where
  "get_me pending_roles user =
    act_bind (read_db (\<lambda>db. self_profile db (au_id user))) (\<lambda>profile0.
    act_bind (read_db (\<lambda>db. list_user_roles db (au_id user))) (\<lambda>roles.
    act_bind (act_of profile0) (\<lambda>profile.
    act_return (me_of (au_id user) profile roles (pending_roles (au_id user))))))"

definition update_me :: "(string \<Rightarrow> string) \<Rightarrow> id_env \<Rightarrow> auth_user \<Rightarrow> string \<Rightarrow> string option \<Rightarrow> (id_state, me_response) act" where
  "update_me lower env user display_name_field email_field =
    act_bind (act_of (validate_display_name display_name_field)) (\<lambda>display_name.
    act_bind (act_of (validate_email lower email_field)) (\<lambda>email.
    act_bind (on_db (update_self_profile env (au_id user) display_name email)) (\<lambda>profile.
    act_bind (read_db (\<lambda>db. list_user_roles db (au_id user))) (\<lambda>roles.
    act_return (me_of (au_id user) profile roles [])))))"

subsection \<open>Credentials\<close>

definition api_change_password ::
  "argon2 \<Rightarrow> id_env \<Rightarrow> auth_user \<Rightarrow> string \<Rightarrow> string \<Rightarrow> (id_state, unit with_cookies) act" where
  "api_change_password A env user current_password new_pin_hash =
    act_bind (act_of (validate_pin_hash new_pin_hash)) (\<lambda>_.
    act_bind (with_stepup_throttle env (au_id user)
      (on_db (change_password A env (au_id user) current_password new_pin_hash))) (\<lambda>new_version.
    act_bind (publish_version env (au_id user) new_version) (\<lambda>_.
    act_return (signed_out ()))))"

definition change_phone :: "argon2 \<Rightarrow> jwt_lib \<Rightarrow> id_env \<Rightarrow> auth_user \<Rightarrow> string \<Rightarrow> string \<Rightarrow> (id_state, unit with_cookies) act" where
  "change_phone A J env user token current_pin_hash =
    act_bind (with_stepup_throttle env (au_id user)
      (on_db (verify_self_password A (au_id user) current_pin_hash))) (\<lambda>_.
    act_bind (act_of (decode_phone_verify_token J (ie_now env) token PHONE_CHANGE_PURPOSE)) (\<lambda>(phone0, jti).
    act_bind (act_of (validate_login_phone phone0)) (\<lambda>new_phone.
    act_bind (read_db (\<lambda>db. approved_account_exists_by_phone db new_phone)) (\<lambda>taken.
    act_bind (act_guard (\<not> taken) phone_taken_error) (\<lambda>_.
    act_bind (claim_token env (phone_verify_jti_key PHONE_CHANGE_PURPOSE jti) single_use_error) (\<lambda>_.
    act_bind (on_db (update_user_phone env (au_id user) new_phone)) (\<lambda>new_version.
    act_bind (publish_version env (au_id user) new_version) (\<lambda>_.
    act_return (signed_out ())))))))))"

definition no_account_error :: app_error where
  "no_account_error = BadRequest ''No account found for this phone [please register]''"

definition reset_pin :: "argon2 \<Rightarrow> jwt_lib \<Rightarrow> id_env \<Rightarrow> string \<Rightarrow> string \<Rightarrow> (id_state, unit) act" where
  "reset_pin A J env token new_pin_hash =
    act_bind (act_of (validate_pin_hash new_pin_hash)) (\<lambda>_.
    act_bind (act_of (decode_phone_verify_token J (ie_now env) token PIN_RESET_PURPOSE)) (\<lambda>(phone0, jti).
    act_bind (act_of (validate_login_phone phone0)) (\<lambda>phone.
    act_bind (read_db (\<lambda>db. active_account_exists_by_phone db phone)) (\<lambda>exists.
    act_bind (act_guard exists no_account_error) (\<lambda>_.
    act_bind (claim_token env (phone_verify_jti_key PIN_RESET_PURPOSE jti) single_use_error) (\<lambda>_.
    act_bind (on_db (\<lambda>db. Inr (reset_password_by_phone A env phone new_pin_hash db))) (\<lambda>done_for.
    (case done_for of
       None \<Rightarrow> act_fail no_account_error
     | Some (user_id, new_version) \<Rightarrow> publish_version env user_id new_version))))))))"

definition delete_me :: "id_env \<Rightarrow> auth_user \<Rightarrow> (id_state, unit with_cookies) act" where
  "delete_me env user =
    act_bind (on_db (soft_delete_and_redact env (au_id user))) (\<lambda>new_version.
    act_bind (publish_version env (au_id user) new_version) (\<lambda>_.
    act_return (signed_out ())))"

definition revoke_and_publish :: "id_env \<Rightarrow> uuid \<Rightarrow> (id_state, unit) act" where
  "revoke_and_publish env user_id =
    act_bind (on_db (revoke_all env user_id)) (\<lambda>version. publish_version env user_id version)"

definition revoke_all_sessions :: "id_env \<Rightarrow> auth_user \<Rightarrow> (id_state, unit with_cookies) act" where
  "revoke_all_sessions env user =
    act_bind (revoke_and_publish env (au_id user)) (\<lambda>_. act_return (signed_out ()))"

definition internal_revoke_all :: "id_env \<Rightarrow> uuid \<Rightarrow> (id_state, unit) act" where
  "internal_revoke_all env user_id = revoke_and_publish env user_id"

subsection \<open>Roles\<close>

definition switch_role :: "argon2 \<Rightarrow> jwt_lib \<Rightarrow> int \<Rightarrow> id_env \<Rightarrow> auth_user \<Rightarrow> id_headers \<Rightarrow> string
    \<Rightarrow> (id_state, token_pair with_cookies) act" where
  "switch_role A J expiry_minutes env user hdr role_field =
    act_bind (act_of (validate_registration_role role_field)) (\<lambda>role.
    act_bind (read_db (\<lambda>db. user_has_role db (au_id user) role)) (\<lambda>held.
    act_bind (act_guard held (ConflictCode ''ROLE_NOT_ENROLLED''
      ''You are not enrolled in that role. Register it first.'')) (\<lambda>_.
    act_bind (read_db (\<lambda>db. user_trv_if_active db (au_id user))) (\<lambda>current.
    (case current of
       None \<Rightarrow> act_fail (Unauthorized ''Account is no longer eligible'')
     | Some trv \<Rightarrow>
       act_bind (in_db (create_refresh_family A env (au_id user) role (device_context hdr))) (\<lambda>token.
       (let pair = \<lparr>tk_access = fst (encode_jwt_with_key J (ie_now env) (ie_access_jti env) (au_id user)
              (role_text role) trv expiry_minutes),
            tk_refresh = token, tk_expires_in = expiry_minutes * 60\<rparr>
        in act_return \<lparr>wc_cookies = token_cookie_headers pair (expiry_minutes * 60), wc_body = pair\<rparr>)))))))"

definition enroll_role :: "jwt_lib \<Rightarrow> id_env \<Rightarrow> auth_user \<Rightarrow> string \<Rightarrow> (id_state, register_result) act" where
  "enroll_role J env user role_field =
    act_bind (act_of (validate_registration_role role_field)) (\<lambda>role.
    act_bind (read_db (\<lambda>db. user_has_role db (au_id user) role)) (\<lambda>held.
    act_bind (act_guard (\<not> held) (ConflictCode ''ROLE_ALREADY_ENROLLED'' ''You already hold that role.'')) (\<lambda>_.
    issue_profile_token J env (au_id user) role)))"

subsection \<open>Two-factor authentication\<close>

record totp_lib =
  tl_new :: "string \<Rightarrow> string \<Rightarrow> unit app_result"
  tl_url :: "string \<Rightarrow> string \<Rightarrow> string"
  tl_base32 :: "string \<Rightarrow> string"
  tl_check :: "instant \<Rightarrow> string \<Rightarrow> string \<Rightarrow> string \<Rightarrow> bool app_result"
  tl_seal :: "string \<Rightarrow> string app_result"
  tl_decrypt :: "string \<Rightarrow> string \<Rightarrow> string app_result"

definition provisioning :: "totp_lib \<Rightarrow> string \<Rightarrow> string \<Rightarrow> (string \<times> string) app_result" where
  "provisioning T secret account = res_bind (tl_new T secret account) (\<lambda>_.
     Inr (tl_url T secret account, tl_base32 T secret))"

definition verify_totp :: "totp_lib \<Rightarrow> instant \<Rightarrow> string \<Rightarrow> string \<Rightarrow> string \<Rightarrow> bool app_result" where
  "verify_totp T now secret account code_field = res_bind (tl_new T secret account) (\<lambda>_.
     let code = trim code_field in
     if length code \<noteq> TOTP_DIGITS \<or> \<not> list_all is_ascii_digit code then Inr False
     else tl_check T now secret account code)"

definition open_secret :: "totp_lib \<Rightarrow> string \<Rightarrow> string app_result" where
  "open_secret T sealed =
    (if length sealed < 12 then Inl (Internal ''sealed TOTP secret too short'')
     else tl_decrypt T (take 12 sealed) (drop 12 sealed))"

definition setup_2fa :: "totp_lib \<Rightarrow> id_env \<Rightarrow> auth_user \<Rightarrow> (id_state, string \<times> string) act" where
  "setup_2fa T env user =
    act_bind (read_db (\<lambda>db. totp_row db (au_id user))) (\<lambda>row0.
    act_bind (act_of row0) (\<lambda>row.
    act_bind (act_guard (\<not> tr_enabled row)
      (Conflict ''2FA is already enabled. Disable it first to re-enroll.'')) (\<lambda>_.
    act_bind (act_of (provisioning T (ie_totp_secret env) (tr_phone row))) (\<lambda>shown.
    act_bind (act_of (tl_seal T (ie_totp_secret env))) (\<lambda>sealed.
    act_bind (on_db (store_provisioned_totp env (au_id user) sealed)) (\<lambda>_.
    act_return shown))))))"

definition enable_2fa ::
  "totp_lib \<Rightarrow> (string \<Rightarrow> string) \<Rightarrow> id_env \<Rightarrow> auth_user \<Rightarrow> string \<Rightarrow> (id_state, string list) act" where
  "enable_2fa T sha env user code =
    act_bind (read_db (\<lambda>db. totp_row db (au_id user))) (\<lambda>row0.
    act_bind (act_of row0) (\<lambda>row.
    act_bind (act_guard (\<not> tr_enabled row) (Conflict ''2FA is already enabled.'')) (\<lambda>_.
    (case tr_secret row of
       None \<Rightarrow> act_fail (Conflict ''No 2FA setup in progress [call /2fa/setup first].'')
     | Some sealed \<Rightarrow>
       act_bind (act_of (open_secret T sealed)) (\<lambda>secret.
       act_bind (act_of (verify_totp T (ie_now env) secret (tr_phone row) code)) (\<lambda>ok.
       act_bind (act_guard ok (Unauthorized ''Invalid 2FA code'')) (\<lambda>_.
       (let codes = generate_recovery_codes sha (ie_recovery env) in
        act_bind (on_db (enable_totp_with_recovery_codes env (au_id user) (map snd codes))) (\<lambda>_.
        act_return (map fst codes))))))))))"

text \<open>A stored secret and the code somebody typed; the secret is there whenever 2FA is enabled.\<close>

definition totp_confirms :: "totp_lib \<Rightarrow> instant \<Rightarrow> totp_columns \<Rightarrow> string \<Rightarrow> bool app_result" where
  "totp_confirms T now row code = (case tr_secret row of
     None \<Rightarrow> Inl (Internal ''2FA enabled without a stored secret'')
   | Some sealed \<Rightarrow> res_bind (open_secret T sealed) (\<lambda>secret. verify_totp T now secret (tr_phone row) code))"

definition given :: "string option \<Rightarrow> string option" where
  "given field = obind field (\<lambda>c. if trim c = [] then None else Some c)"

definition disable_confirmed ::
  "totp_lib \<Rightarrow> argon2 \<Rightarrow> instant \<Rightarrow> totp_columns \<Rightarrow> string option \<Rightarrow> string option \<Rightarrow> unit app_result" where
  "disable_confirmed T A now row code password =
    res_bind (case given code of
        Some c \<Rightarrow> totp_confirms T now row c
      | None \<Rightarrow> (case obind password non_empty of
          Some p \<Rightarrow> verify_secret A p (tr_password_hash row)
        | None \<Rightarrow> Inl (BadRequest ''Provide a 2FA code or your password to disable 2FA.'')))
      (\<lambda>confirmed. ensure confirmed invalid_credentials)"

definition disable_2fa :: "totp_lib \<Rightarrow> argon2 \<Rightarrow> id_env \<Rightarrow> auth_user \<Rightarrow> string option \<Rightarrow> string option
    \<Rightarrow> (id_state, unit) act" where
  "disable_2fa T A env user code password =
    act_bind (read_db (\<lambda>db. totp_row db (au_id user))) (\<lambda>row0.
    act_bind (act_of row0) (\<lambda>row.
    if \<not> tr_enabled row then act_return ()
    else act_bind (with_stepup_throttle env (au_id user)
        (act_of (disable_confirmed T A (ie_now env) row code password))) (\<lambda>_.
      on_db (disable_totp env (au_id user)))))"

text \<open>The second factor: a current code, or one recovery code, which is spent.\<close>

definition second_factor :: "totp_lib \<Rightarrow> (string \<Rightarrow> string) \<Rightarrow> id_env \<Rightarrow> uuid \<Rightarrow> totp_columns \<Rightarrow> string option
    \<Rightarrow> string option \<Rightarrow> (id_state, bool) act" where
  "second_factor T sha env user_id row code recovery_code =
    (case given code of
       Some c \<Rightarrow> act_of (totp_confirms T (ie_now env) row c)
     | None \<Rightarrow> (case given recovery_code of
         Some rc \<Rightarrow> on_db (\<lambda>db. Inr (consume_recovery_code env user_id (sha (normalize_recovery_code rc)) db))
       | None \<Rightarrow> act_fail (BadRequest ''Provide a 2FA code or a recovery code.'')))"

definition verify_2fa :: "argon2 \<Rightarrow> jwt_lib \<Rightarrow> totp_lib \<Rightarrow> (string \<Rightarrow> string) \<Rightarrow> int \<Rightarrow> id_env \<Rightarrow> id_headers \<Rightarrow> string
    \<Rightarrow> string option \<Rightarrow> string option \<Rightarrow> (id_state, login_outcome with_cookies) act" where
  "verify_2fa A J T sha expiry_minutes env hdr challenge_token code recovery_code =
    (case decode_2fa_challenge_token J (ie_now env) challenge_token of
       Inl _ \<Rightarrow> act_fail (Unauthorized ''Invalid or expired 2FA challenge'')
     | Inr (user_id, jti) \<Rightarrow>
       act_bind (claim_token env (two_factor_key jti)
         (Unauthorized ''2FA challenge is invalid, expired, or already used'')) (\<lambda>_.
       act_bind (read_db (\<lambda>db. totp_row db user_id)) (\<lambda>row0.
       act_bind (act_of row0) (\<lambda>row.
       act_bind (act_guard (tr_enabled row) (Unauthorized ''2FA is not enabled'')) (\<lambda>_.
       act_bind (second_factor T sha env user_id row code recovery_code) (\<lambda>ok.
       act_bind (act_guard ok (Unauthorized ''Invalid 2FA code'')) (\<lambda>_.
       act_bind (read_db (\<lambda>db. user_auth_meta db user_id)) (\<lambda>meta0.
       (case meta0 of
          None \<Rightarrow> act_fail (Unauthorized ''Account is no longer eligible'')
        | Some meta \<Rightarrow>
          issue_login_tokens A J expiry_minutes env (ar_user meta) (ar_role meta) (ar_trv meta) hdr)))))))))"

subsection \<open>Sessions\<close>

record session_view =
  sv_row :: session_row
  sv_current :: bool

definition current_refresh_family :: "(string \<Rightarrow> uuid option) \<Rightarrow> id_headers \<Rightarrow> id_db \<Rightarrow> uuid option" where
  "current_refresh_family parse_uuid hdr db =
    obind (or_opt (ih_refresh_token hdr) (cookie_token (ih_parts hdr) REFRESH_TOKEN_COOKIE)) (\<lambda>presented.
    obind (parse_refresh parse_uuid presented) (\<lambda>(rotation_id, _).
    map_option lr_family (find_refresh_by_rotation db rotation_id)))"

definition list_sessions :: "(string \<Rightarrow> uuid option) \<Rightarrow> id_env \<Rightarrow> auth_user \<Rightarrow> id_headers \<Rightarrow> (id_state, session_view list) act" where
  "list_sessions parse_uuid env user hdr =
    read_db (\<lambda>db. map (\<lambda>r. \<lparr>sv_row = r\<lparr>ss_ip := map_option mask_ip (ss_ip r)\<rparr>,
        sv_current = (Some (ss_family r) = current_refresh_family parse_uuid hdr db)\<rparr>)
      (list_session_rows (ie_tx_now env) db (au_id user)))"

definition revoke_session :: "auth_user \<Rightarrow> uuid \<Rightarrow> (id_state, unit) act" where
  "revoke_session user family_id = on_db (revoke_own_family (au_id user) family_id)"

subsection \<open>API tokens\<close>

definition ADMIN_ROLE_TEXT :: string where "ADMIN_ROLE_TEXT = ''admin''"
definition API_TOKEN_NAME_MAX :: nat where "API_TOKEN_NAME_MAX = 80"

definition admin_only :: "auth_user \<Rightarrow> (id_state, unit) act" where
  "admin_only user = act_guard (au_role user = ADMIN_ROLE_TEXT) (Forbidden ''This action requires the admin role'')"

record create_token_response =
  ct_id :: uuid
  ct_name :: string
  ct_prefix :: string
  ct_token :: string

definition create_api_token :: "(string \<Rightarrow> string) \<Rightarrow> id_env \<Rightarrow> auth_user \<Rightarrow> string \<Rightarrow> (id_state, create_token_response) act" where
  "create_api_token sha env user name_field =
    act_bind (admin_only user) (\<lambda>_.
    (let name = trim name_field in
     act_bind (act_guard (name \<noteq> [] \<and> char_count name \<le> API_TOKEN_NAME_MAX)
       (BadRequest ''name is required and must be at most {API_TOKEN_NAME_MAX} characters'')) (\<lambda>_.
     (let minted = generate_api_token sha (ie_prefix env) (ie_api_secret env) in
      act_bind (on_db (create_api_token_row env (au_id user) name (na_prefix minted) (na_secret_hash minted)
        (au_role user))) (\<lambda>token_id.
      act_return \<lparr>ct_id = token_id, ct_name = name, ct_prefix = na_prefix minted,
        ct_token = na_full minted\<rparr>)))))"

text \<open>The listing shows no hash.\<close>

record api_token_view =
  vw_id :: uuid
  vw_name :: string
  vw_prefix :: string
  vw_role :: user_role
  vw_created_at :: instant
  vw_last_used_at :: "instant option"
  vw_revoked :: bool

definition list_api_tokens :: "auth_user \<Rightarrow> (id_state, api_token_view list) act" where
  "list_api_tokens user = act_bind (admin_only user) (\<lambda>_.
     read_db (\<lambda>db. map (\<lambda>(k, t). \<lparr>vw_id = k, vw_name = at_name t, vw_prefix = at_prefix t, vw_role = at_role t,
       vw_created_at = at_created_at t, vw_last_used_at = at_last_used_at t,
       vw_revoked = (at_revoked_at t \<noteq> None)\<rparr>) (list_api_token_rows db (au_id user))))"

definition revoke_api_token :: "id_env \<Rightarrow> auth_user \<Rightarrow> uuid \<Rightarrow> (id_state, unit) act" where
  "revoke_api_token env user token_id =
    act_bind (admin_only user) (\<lambda>_. on_db (revoke_api_token_row env (au_id user) token_id))"

definition invalid_api_token :: app_error where
  "invalid_api_token = Unauthorized ''Invalid API token''"

definition internal_verify_api_token :: "(string \<Rightarrow> string) \<Rightarrow> id_env \<Rightarrow> string \<Rightarrow> (id_state, uuid \<times> user_role) act" where
  "internal_verify_api_token sha env token = (case parse_api_token token of
     None \<Rightarrow> act_fail invalid_api_token
   | Some (prefix, secret) \<Rightarrow>
     act_bind (read_db (\<lambda>db. find_api_token_by_prefix db prefix)) (\<lambda>found.
     (case found of
        None \<Rightarrow> act_fail invalid_api_token
      | Some (token_id, row) \<Rightarrow>
        act_bind (act_guard (api_token_secret_matches sha secret (at_token_hash row)) invalid_api_token) (\<lambda>_.
        act_bind (in_db (act_modify (touch_api_token env token_id))) (\<lambda>_.
        act_return (at_user row, at_role row))))))"

definition RESOLVE_USERS_LIMIT :: nat where "RESOLVE_USERS_LIMIT = 500"

text \<open>The first occurrence of every id is kept.\<close>

definition unique_ids :: "'a list \<Rightarrow> 'a list" where
  "unique_ids xs = rev (remdups (rev xs))"

definition internal_resolve_users :: "uuid list \<Rightarrow> (id_state, resolved_user list) act" where
  "internal_resolve_users ids =
    act_bind (act_guard (length ids \<le> RESOLVE_USERS_LIMIT)
      (BadRequest ''too many ids (max {RESOLVE_USERS_LIMIT} per request [page the calls])'')) (\<lambda>_.
    read_db (\<lambda>db. resolve_users db (unique_ids ids)))"

subsection \<open>Event consumers\<close>

text \<open>A message is acknowledged exactly when its handler succeeds; the others are delivered again.\<close>

definition consume_compromised :: "id_env \<Rightarrow> envelope \<Rightarrow> (id_state, unit) act" where
  "consume_compromised env e =
    (if ev_type e \<noteq> USER_COMPROMISED_TOPIC then act_return ()
     else (case uuid_at (ev_payload e) ''user_id'' of
         None \<Rightarrow> act_fail (BadRequest ''invalid user.compromised payload: {e}'')
       | Some user_id \<Rightarrow> revoke_and_publish env user_id))"

definition consume_approved :: "id_env \<Rightarrow> envelope \<Rightarrow> (id_state, unit) act" where
  "consume_approved env e = (case (uuid_at (ev_payload e) ''user_id'', text_at (ev_payload e) ''role'') of
     (Some user_id, Some role) \<Rightarrow>
       if ev_type e \<noteq> USER_APPROVED_TOPIC then act_return ()
       else act_bind (on_db (approve_user_on_event env (ev_id e) (ev_type e) user_id role)) (\<lambda>_. act_return ())
   | _ \<Rightarrow> act_return ())"

definition consume_rejected :: "id_env \<Rightarrow> envelope \<Rightarrow> (id_state, unit) act" where
  "consume_rejected env e = (case uuid_at (ev_payload e) ''user_id'' of
     Some user_id \<Rightarrow>
       if ev_type e \<noteq> USER_REJECTED_TOPIC then act_return ()
       else act_bind (on_db (reject_user_on_event env (ev_id e) (ev_type e) user_id)) (\<lambda>_. act_return ())
   | None \<Rightarrow> act_return ())"

end
