(* ===== verification/Identity_Session_Refinement.thy ===== *)
theory Identity_Session_Refinement
  imports Identity_Sessions Effects
begin

text \<open>
  What the refresh-token table promises, as a list of open sessions: each has a user, a family, the
  rotation id of the one token that can continue it, and the time that token was issued. Opening a
  session drops the user's oldest ones beyond the cap; continuing a session replaces its token;
  closing removes it. The statements on the table refine these operations, and the promises (one
  token per family, at most five sessions per user) are proved of the list.
\<close>

text \<open>
  The statements on the refresh-token table refine the list of open sessions, command by command and
  over every run; and the list keeps one token per family and at most five sessions per user.
\<close>

record sess =
  se_user :: uuid
  se_family :: uuid
  se_rotation :: uuid
  se_since :: instant

definition sess_of :: "refresh_row \<Rightarrow> sess" where
  "sess_of r = \<lparr>se_user = rf_user r, se_family = rf_family r, se_rotation = rf_rotation r,
     se_since = rf_created_at r\<rparr>"

definition open_sessions :: "id_db \<Rightarrow> sess list" where
  "open_sessions db = map sess_of (filter (\<lambda>r. \<not> rf_revoked r) (id_refresh db))"

subsection \<open>The specification\<close>

definition spec_surplus :: "uuid \<Rightarrow> sess list \<Rightarrow> sess list" where
  "spec_surplus u S = drop (MAX_SESSIONS_PER_USER - 1)
     (sort_key (\<lambda>s. - se_since s) (filter (\<lambda>s. se_user s = u) S))"

definition spec_evict :: "uuid \<Rightarrow> sess list \<Rightarrow> sess list" where
  "spec_evict u S = filter (\<lambda>s. se_family s \<notin> se_family ` set (spec_surplus u S)) S"

definition spec_open :: "uuid \<Rightarrow> uuid \<Rightarrow> uuid \<Rightarrow> instant \<Rightarrow> sess list \<Rightarrow> sess list" where
  "spec_open u f r t S =
    spec_evict u S @ [\<lparr>se_user = u, se_family = f, se_rotation = r, se_since = t\<rparr>]"

definition spec_rotate :: "uuid \<Rightarrow> uuid \<Rightarrow> instant \<Rightarrow> sess list \<Rightarrow> sess list" where
  "spec_rotate p r t S = (case find (\<lambda>s. se_rotation s = p) S of
     None \<Rightarrow> S
   | Some s \<Rightarrow> filter (\<lambda>s. se_rotation s \<noteq> p) S @ [s\<lparr>se_rotation := r, se_since := t\<rparr>])"

definition spec_close :: "uuid \<Rightarrow> sess list \<Rightarrow> sess list" where
  "spec_close f S = filter (\<lambda>s. se_family s \<noteq> f) S"

definition spec_close_own :: "uuid \<Rightarrow> uuid \<Rightarrow> sess list \<Rightarrow> sess list" where
  "spec_close_own u f S = filter (\<lambda>s. \<not> (se_family s = f \<and> se_user s = u)) S"

definition spec_close_user :: "uuid \<Rightarrow> sess list \<Rightarrow> sess list" where
  "spec_close_user u S = filter (\<lambda>s. se_user s \<noteq> u) S"

subsection \<open>Sorting through a map\<close>

lemma insort_key_map: "insort_key k (g x) (map g xs) = map g (insort_key (\<lambda>y. k (g y)) x xs)"
  by (induction xs) simp_all

lemma sort_key_map: "sort_key k (map g xs) = map g (sort_key (\<lambda>y. k (g y)) xs)"
  by (induction xs) (simp_all add: insort_key_map)

lemma insort_key_agree:
  "(\<And>y. y \<in> insert x (set xs) \<Longrightarrow> f y = g y) \<Longrightarrow> insort_key f x xs = insort_key g x xs"
  by (induction xs) auto

lemma sort_key_agree: "(\<And>y. y \<in> set xs \<Longrightarrow> f y = g y) \<Longrightarrow> sort_key f xs = sort_key g xs"
proof (induction xs)
  case Nil
  show ?case by simp
next
  case (Cons x xs)
  have "sort_key f xs = sort_key g xs" using Cons by simp
  moreover have "insort_key f x (sort_key g xs) = insort_key g x (sort_key g xs)"
    by (rule insort_key_agree) (use Cons.prems in \<open>auto simp: set_sort\<close>)
  ultimately show ?case by simp
qed

subsection \<open>Statements on the table, seen as sessions\<close>

lemma open_revoke_rows:
  "open_sessions (revoke_rows sel db)
    = map sess_of (filter (\<lambda>r. \<not> rf_revoked r \<and> \<not> sel r) (id_refresh db))"
proof -
  have "map sess_of (filter (\<lambda>r. \<not> rf_revoked r) (map (\<lambda>r. if sel r then r\<lparr>rf_revoked := True\<rparr> else r) rows))
      = map sess_of (filter (\<lambda>r. \<not> rf_revoked r \<and> \<not> sel r) rows)" for rows
    by (induction rows) auto
  then show ?thesis by (simp add: open_sessions_def revoke_rows_def)
qed

lemma sess_of_simps [simp]:
  "se_user (sess_of r) = rf_user r" "se_family (sess_of r) = rf_family r"
  "se_rotation (sess_of r) = rf_rotation r" "se_since (sess_of r) = rf_created_at r"
  by (simp_all add: sess_of_def)

lemma filter_open: "filter P (open_sessions db)
    = map sess_of (filter (\<lambda>r. \<not> rf_revoked r \<and> P (sess_of r)) (id_refresh db))"
proof -
  have "filter P (map sess_of (filter (\<lambda>r. \<not> rf_revoked r) rows))
      = map sess_of (filter (\<lambda>r. \<not> rf_revoked r \<and> P (sess_of r)) rows)" for rows
    by (induction rows) auto
  then show ?thesis by (simp add: open_sessions_def)
qed

lemma open_revoke_family: "open_sessions (snd (revoke_family f db)) = spec_close f (open_sessions db)"
  unfolding spec_close_def filter_open revoke_family_def
  by (simp add: open_revoke_rows live_in_family_def) (metis (mono_tags, lifting) filter_cong)

lemma open_revoke_user: "open_sessions (revoke_user_rows u db) = spec_close_user u (open_sessions db)"
  unfolding spec_close_user_def filter_open revoke_user_rows_def
  by (simp add: open_revoke_rows live_of_user_def) (metis (mono_tags, lifting) filter_cong)

lemma open_put_user [simp]: "open_sessions (put_user k u db) = open_sessions db"
  by (simp add: open_sessions_def)

lemma spec_close_comp: "fold spec_close fs S = filter (\<lambda>s. se_family s \<notin> set fs) S"
  by (induction fs arbitrary: S) (auto simp: spec_close_def intro: filter_cong)

lemma open_fold_revoke:
  "open_sessions (fold (\<lambda>f d. snd (revoke_family f d)) fs db) = fold spec_close fs (open_sessions db)"
  by (induction fs arbitrary: db) (simp_all add: open_revoke_family)

lemma max_of_single [simp]: "max_of [x] = x"
  by (simp add: max_of_def)

lemma filter_distinct_key:
  "distinct (map g xs) \<Longrightarrow> x \<in> set xs \<Longrightarrow> filter (\<lambda>y. g y = g x) xs = [x]"
  by (induction xs) (auto simp: filter_empty_conv image_iff)

text \<open>With one live row per family, the rows to evict are the surplus sessions.\<close>

lemma evictable_surplus:
  assumes one: "distinct (map se_family (open_sessions db))"
  shows "evictable db u = map se_family (spec_surplus u (open_sessions db))"
proof -
  let ?rows = "filter (live_of_user u) (id_refresh db)"
  let ?last = "\<lambda>f. max_of (map rf_created_at (filter (\<lambda>r. rf_family r = f) ?rows))"
  have mine: "filter (\<lambda>s. se_user s = u) (open_sessions db) = map sess_of ?rows"
    unfolding filter_open by (rule arg_cong [where f = "map sess_of"], rule filter_cong)
      (auto simp: live_of_user_def)
  have "distinct (map se_family (filter (\<lambda>s. se_user s = u) (open_sessions db)))"
    using one by (simp add: distinct_map_filter)
  then have d: "distinct (map rf_family ?rows)" unfolding mine by (simp add: comp_def)
  have last: "?last (rf_family r) = rf_created_at r" if "r \<in> set ?rows" for r
    using filter_distinct_key [OF d that] by simp
  have "sort_key (\<lambda>f. - ?last f) (remdups (map rf_family ?rows))
      = map rf_family (sort_key (\<lambda>r. - ?last (rf_family r)) ?rows)"
    using d by (simp add: distinct_remdups_id sort_key_map)
  also have "sort_key (\<lambda>r. - ?last (rf_family r)) ?rows = sort_key (\<lambda>r. - rf_created_at r) ?rows"
    by (rule sort_key_agree) (simp only: last)
  finally have "sort_key (\<lambda>f. - ?last f) (remdups (map rf_family ?rows))
      = map rf_family (sort_key (\<lambda>r. - rf_created_at r) ?rows)" .
  then show ?thesis
    by (simp add: evictable_def spec_surplus_def Let_def mine sort_key_map drop_map comp_def)
qed

lemma open_enforce_cap:
  assumes "distinct (map se_family (open_sessions db))"
  shows "open_sessions (enforce_session_cap u db) = spec_evict u (open_sessions db)"
  by (simp add: enforce_session_cap_def open_fold_revoke spec_close_comp spec_evict_def
      evictable_surplus [OF assms])

lemma open_refresh_insert:
  "refresh_insert A env u f ua ip role db = Inr (token, db') \<Longrightarrow> open_sessions db' = open_sessions db
     @ [\<lparr>se_user = u, se_family = f, se_rotation = ie_rotation env, se_since = ie_tx_now env\<rparr>]"
  by (auto simp: refresh_insert_def Let_def open_sessions_def sess_of_def split: if_splits)

lemma find_filter_hd: "find P xs = (case filter P xs of [] \<Rightarrow> None | x # _ \<Rightarrow> Some x)"
  by (induction xs) auto

datatype session_cmd =
    OpenSession id_env uuid user_role device
  | ContinueSession id_env uuid device
  | CloseFamily uuid
  | CloseOwn uuid uuid
  | CloseUser id_env uuid

definition continue_session :: "argon2 \<Rightarrow> id_env \<Rightarrow> uuid \<Rightarrow> device \<Rightarrow> id_db \<Rightarrow> string option \<times> id_db" where
  "continue_session A env presented dev db = (case row_of_rotation db presented of
     None \<Rightarrow> (None, db)
   | Some r \<Rightarrow> (case rotate A env (rf_user r) (rf_family r) presented dev db of
       Inl _ \<Rightarrow> (None, db) | Inr (token, db') \<Rightarrow> (token, db')))"

fun session_exec :: "argon2 \<Rightarrow> session_cmd \<Rightarrow> id_db \<Rightarrow> id_db" where
  "session_exec A (OpenSession env u role dev) db = fst (create_refresh_family A env u role dev db)"
| "session_exec A (ContinueSession env p dev) db = snd (continue_session A env p dev db)"
| "session_exec A (CloseFamily f) db = snd (revoke_family f db)"
| "session_exec A (CloseOwn u f) db = (case revoke_own_family u f db of Inr (_, db') \<Rightarrow> db' | Inl _ \<Rightarrow> db)"
| "session_exec A (CloseUser env u) db = (case revoke_all env u db of Inr (_, db') \<Rightarrow> db' | Inl _ \<Rightarrow> db)"

fun session_spec :: "session_cmd \<Rightarrow> sess list \<Rightarrow> sess list" where
  "session_spec (OpenSession env u role dev) S = spec_open u (ie_family env) (ie_rotation env) (ie_tx_now env) S"
| "session_spec (ContinueSession env p dev) S = spec_rotate p (ie_rotation env) (ie_tx_now env) S"
| "session_spec (CloseFamily f) S = spec_close f S"
| "session_spec (CloseOwn u f) S = spec_close_own u f S"
| "session_spec (CloseUser env u) S = spec_close_user u S"

text \<open>Freshly drawn identifiers are in no row; the user of a \<open>CloseUser\<close> has an account.\<close>

definition unused_rotation :: "uuid \<Rightarrow> id_db \<Rightarrow> bool" where
  "unused_rotation r db = (r \<notin> rf_rotation ` set (id_refresh db))"

definition unused_family :: "uuid \<Rightarrow> id_db \<Rightarrow> bool" where
  "unused_family f db = (f \<notin> rf_family ` set (id_refresh db))"

fun session_ok :: "session_cmd \<Rightarrow> id_db \<Rightarrow> bool" where
  "session_ok (OpenSession env u role dev) db =
     (unused_family (ie_family env) db \<and> unused_rotation (ie_rotation env) db)"
| "session_ok (ContinueSession env p dev) db = unused_rotation (ie_rotation env) db"
| "session_ok (CloseUser env u) db = (get_user db u \<noteq> None)"
| "session_ok (CloseFamily f) db = True"
| "session_ok (CloseOwn u f) db = True"

definition sess_inv :: "id_db \<Rightarrow> bool" where
  "sess_inv db = (distinct (map rf_rotation (id_refresh db)) \<and> distinct (map se_family (open_sessions db)))"

lemma sess_invI [intro]: "distinct (map rf_rotation (id_refresh db)) \<Longrightarrow>
    distinct (map se_family (open_sessions db)) \<Longrightarrow> sess_inv db"
  by (simp add: sess_inv_def)

lemma revoke_rows_map:
  "map rf_rotation (id_refresh (revoke_rows sel db)) = map rf_rotation (id_refresh db)"
  "map rf_family (id_refresh (revoke_rows sel db)) = map rf_family (id_refresh db)"
  by (simp_all add: revoke_rows_def comp_def)

lemma revoke_rows_keys [simp]:
  "map rf_rotation (id_refresh (revoke_rows sel db)) = map rf_rotation (id_refresh db)"
  "rf_rotation ` set (id_refresh (revoke_rows sel db)) = rf_rotation ` set (id_refresh db)"
  "rf_family ` set (id_refresh (revoke_rows sel db)) = rf_family ` set (id_refresh db)"
  using revoke_rows_map [of sel db] by (simp, metis list.set_map, metis list.set_map)

lemma distinct_filter_map: "distinct (map f xs) \<Longrightarrow> distinct (map f (filter P xs))"
  by (simp add: distinct_map_filter)

lemma sess_inv_revoke: "sess_inv db \<Longrightarrow> sess_inv (revoke_rows sel db)"
proof (rule sess_invI)
  assume inv: "sess_inv db"
  show "distinct (map rf_rotation (id_refresh (revoke_rows sel db)))" using inv by (simp add: sess_inv_def)
  have "distinct (map rf_family (filter (\<lambda>r. \<not> rf_revoked r) (id_refresh db)))"
    using inv by (simp add: sess_inv_def open_sessions_def comp_def)
  then have "distinct (map rf_family (filter (\<lambda>r. \<not> sel r) (filter (\<lambda>r. \<not> rf_revoked r) (id_refresh db))))"
    by (rule distinct_filter_map)
  then show "distinct (map se_family (open_sessions (revoke_rows sel db)))"
    by (simp add: open_revoke_rows comp_def)
qed

lemma sess_inv_put_user [simp]: "sess_inv (put_user k u db) = sess_inv db"
  by (simp add: sess_inv_def)

lemma sess_inv_fold_revoke: "sess_inv db \<Longrightarrow> sess_inv (fold (\<lambda>f d. snd (revoke_family f d)) fs db)"
  by (induction fs arbitrary: db) (simp_all add: revoke_family_def sess_inv_revoke)

lemma sess_inv_cap: "sess_inv db \<Longrightarrow> sess_inv (enforce_session_cap u db)"
  by (simp add: enforce_session_cap_def sess_inv_fold_revoke)

lemma fold_revoke_keys [simp]:
  "rf_rotation ` set (id_refresh (fold (\<lambda>f d. snd (revoke_family f d)) fs db)) = rf_rotation ` set (id_refresh db)"
  "rf_family ` set (id_refresh (fold (\<lambda>f d. snd (revoke_family f d)) fs db)) = rf_family ` set (id_refresh db)"
  by (induction fs arbitrary: db) (simp_all add: revoke_family_def)

lemma refresh_insert_fresh:
  "unused_rotation (ie_rotation env) db \<Longrightarrow>
    \<exists>token db'. refresh_insert A env u f ua ip role db = Inr (token, db')"
  by (auto simp: refresh_insert_def unused_rotation_def Let_def list_ex_iff image_iff)

lemma refresh_insert_rows:
  assumes "refresh_insert A env u f ua ip role db = Inr (token, db')"
  shows "\<exists>r. id_refresh db' = id_refresh db @ [r] \<and> rf_rotation r = ie_rotation env \<and> rf_family r = f
      \<and> ie_rotation env \<notin> rf_rotation ` set (id_refresh db) \<and> rf_user r = u \<and> \<not> rf_revoked r
      \<and> token = assemble (ie_rotation env) (uuid_text (ie_secret env))"
proof -
  have free: "\<not> list_ex (\<lambda>r. rf_rotation r = ie_rotation env) (id_refresh db)"
    using assms by (auto simp: refresh_insert_def Let_def split: if_splits)
  then have "ie_rotation env \<notin> rf_rotation ` set (id_refresh db)" by (force simp: list_ex_iff)
  then show ?thesis using assms free by (auto simp: refresh_insert_def Let_def)
qed

lemma sess_inv_insert:
  assumes ins: "refresh_insert A env u f ua ip role db = Inr (token, db')" and inv: "sess_inv db"
    and f: "f \<notin> se_family ` set (open_sessions db)"
  shows "sess_inv db'"
  using refresh_insert_rows [OF ins] open_refresh_insert [OF ins] inv f by (auto simp: sess_inv_def)

lemma open_family_used: "f \<in> se_family ` set (open_sessions db) \<Longrightarrow> f \<in> rf_family ` set (id_refresh db)"
  by (auto simp: open_sessions_def)

subsection \<open>Opening and continuing\<close>

lemma create_family_run:
  assumes "unused_rotation (ie_rotation env) db"
  obtains token where "create_refresh_family A env u role dev db
      = (fst (create_refresh_family A env u role dev db), Inr token)"
    "refresh_insert A env u (ie_family env) (dc_user_agent dev) (dc_ip dev) (Some role) (enforce_session_cap u db)
      = Inr (token, fst (create_refresh_family A env u role dev db))"
proof -
  have "unused_rotation (ie_rotation env) (enforce_session_cap u db)"
    using assms by (simp add: unused_rotation_def enforce_session_cap_def)
  then obtain token db' where ins: "refresh_insert A env u (ie_family env) (dc_user_agent dev) (dc_ip dev)
      (Some role) (enforce_session_cap u db) = Inr (token, db')"
    using refresh_insert_fresh by blast
  then have "create_refresh_family A env u role dev db = (db', Inr token)"
    by (simp add: create_refresh_family_def issue_refresh_def act_tx_def)
  then show ?thesis using that ins by simp
qed

lemma open_simulates:
  assumes inv: "sess_inv db" and rot: "unused_rotation (ie_rotation env) db" and fam: "unused_family (ie_family env) db"
  shows "open_sessions (fst (create_refresh_family A env u role dev db))
      = spec_open u (ie_family env) (ie_rotation env) (ie_tx_now env) (open_sessions db)"
    and "sess_inv (fst (create_refresh_family A env u role dev db))"
proof -
  obtain token where ins: "refresh_insert A env u (ie_family env) (dc_user_agent dev) (dc_ip dev) (Some role)
      (enforce_session_cap u db) = Inr (token, fst (create_refresh_family A env u role dev db))"
    using create_family_run [OF rot] by metis
  have cap: "open_sessions (enforce_session_cap u db) = spec_evict u (open_sessions db)"
    using inv by (simp add: open_enforce_cap sess_inv_def)
  show "open_sessions (fst (create_refresh_family A env u role dev db))
      = spec_open u (ie_family env) (ie_rotation env) (ie_tx_now env) (open_sessions db)"
    using open_refresh_insert [OF ins] by (simp add: cap spec_open_def)
  have "ie_family env \<notin> se_family ` set (open_sessions (enforce_session_cap u db))"
    using fam open_family_used [of "ie_family env" db] by (auto simp: unused_family_def cap spec_evict_def)
  then show "sess_inv (fst (create_refresh_family A env u role dev db))"
    by (rule sess_inv_insert [OF ins sess_inv_cap [OF inv]])
qed

lemma find_row_live:
  assumes d: "distinct (map rf_rotation (id_refresh db))" and r: "row_of_rotation db p = Some r"
  shows "list_ex (live_rotation p) (id_refresh db) \<longleftrightarrow> \<not> rf_revoked r"
    and "find (\<lambda>s. se_rotation s = p) (open_sessions db) = (if rf_revoked r then None else Some (sess_of r))"
proof -
  have mem: "r \<in> set (id_refresh db)" and key: "rf_rotation r = p"
    using r by (auto simp: row_of_rotation_def find_Some_iff)
  have only: "filter (\<lambda>x. rf_rotation x = p) (id_refresh db) = [r]"
    using filter_distinct_key [OF d mem] key by simp
  have uniq: "x = r" if "x \<in> set (id_refresh db)" "rf_rotation x = p" for x
  proof -
    have "x \<in> set (filter (\<lambda>x. rf_rotation x = p) (id_refresh db))" using that by simp
    then show ?thesis by (simp only: only) simp
  qed
  show "list_ex (live_rotation p) (id_refresh db) \<longleftrightarrow> \<not> rf_revoked r"
    unfolding list_ex_iff live_rotation_def using mem key uniq by blast
  have "filter (\<lambda>x. \<not> rf_revoked x \<and> rf_rotation x = p) (id_refresh db)
      = filter (\<lambda>x. \<not> rf_revoked x) (filter (\<lambda>x. rf_rotation x = p) (id_refresh db))"
    by (simp add: conj_commute)
  also have "\<dots> = (if rf_revoked r then [] else [r])" by (simp only: only) simp
  finally show "find (\<lambda>s. se_rotation s = p) (open_sessions db) = (if rf_revoked r then None else Some (sess_of r))"
    by (simp add: find_filter_hd filter_open)
qed

lemma find_row_None:
  "row_of_rotation db p = None \<Longrightarrow> find (\<lambda>s. se_rotation s = p) (open_sessions db) = None"
  by (auto simp: row_of_rotation_def find_None_iff open_sessions_def)

lemma rotate_run:
  assumes inv: "sess_inv db" and r: "row_of_rotation db p = Some r" and live: "\<not> rf_revoked r"
    and rot: "unused_rotation (ie_rotation env) db"
  obtains token db' where "rotate A env (rf_user r) (rf_family r) p dev db = Inr (Some token, db')"
    "open_sessions db' = filter (\<lambda>s. se_rotation s \<noteq> p) (open_sessions db)
       @ [\<lparr>se_user = rf_user r, se_family = rf_family r, se_rotation = ie_rotation env, se_since = ie_tx_now env\<rparr>]"
    "sess_inv db'"
proof -
  let ?db1 = "revoke_rows (live_rotation p) db"
  let ?prior = "first_row (family_rows ?db1 (rf_family r))"
  have d: "distinct (map rf_rotation (id_refresh db))" using inv by (simp add: sess_inv_def)
  have ex: "list_ex (live_rotation p) (id_refresh db)" using find_row_live(1) [OF d r] live by simp
  have "unused_rotation (ie_rotation env) ?db1" using rot by (simp add: unused_rotation_def)
  then obtain token db' where ins: "refresh_insert A env (rf_user r) (rf_family r)
      (or_opt (dc_user_agent dev) (obind ?prior rf_user_agent)) (or_opt (dc_ip dev) (obind ?prior rf_ip))
      (obind ?prior rf_active_role) ?db1 = Inr (token, db')"
    using refresh_insert_fresh by blast
  have run: "rotate A env (rf_user r) (rf_family r) p dev db = Inr (Some token, db')"
    by (simp add: rotate_def ex Let_def ins)
  have open1: "open_sessions ?db1 = filter (\<lambda>s. se_rotation s \<noteq> p) (open_sessions db)"
    unfolding open_revoke_rows filter_open
    by (rule arg_cong [where f = "map sess_of"], rule filter_cong) (auto simp: live_rotation_def)
  have s: "sess_of r \<in> set (open_sessions db)" "se_rotation (sess_of r) = p"
    using r live by (auto simp: row_of_rotation_def find_Some_iff open_sessions_def)
  have "se_family t \<noteq> rf_family r" if t: "t \<in> set (open_sessions db)" "se_rotation t \<noteq> p" for t
  proof
    assume "se_family t = rf_family r"
    then have "t = sess_of r"
      using inv s(1) t(1) inj_onD [of se_family "set (open_sessions db)" t "sess_of r"]
      by (simp add: sess_inv_def distinct_map)
    then show False using t(2) s(2) by simp
  qed
  then have "rf_family r \<notin> se_family ` set (open_sessions ?db1)" by (fastforce simp: open1)
  then have "sess_inv db'" by (rule sess_inv_insert [OF ins sess_inv_revoke [OF inv]])
  then show ?thesis using that run open_refresh_insert [OF ins] open1 by simp
qed

lemma continue_simulates:
  assumes inv: "sess_inv db" and rot: "unused_rotation (ie_rotation env) db"
  shows "open_sessions (snd (continue_session A env p dev db))
      = spec_rotate p (ie_rotation env) (ie_tx_now env) (open_sessions db)"
    and "sess_inv (snd (continue_session A env p dev db))"
proof -
  have d: "distinct (map rf_rotation (id_refresh db))" using inv by (simp add: sess_inv_def)
  have "open_sessions (snd (continue_session A env p dev db))
      = spec_rotate p (ie_rotation env) (ie_tx_now env) (open_sessions db)
    \<and> sess_inv (snd (continue_session A env p dev db))"
  proof (cases "row_of_rotation db p")
    case None
    then show ?thesis using inv by (simp add: continue_session_def spec_rotate_def find_row_None)
  next
    case (Some r)
    show ?thesis
    proof (cases "rf_revoked r")
      case True
      then have "rotate A env (rf_user r) (rf_family r) p dev db = Inr (None, db)"
        using find_row_live(1) [OF d Some] by (simp add: rotate_def)
      then show ?thesis
        using True Some inv find_row_live(2) [OF d Some] by (simp add: continue_session_def spec_rotate_def)
    next
      case False
      obtain token db' where "rotate A env (rf_user r) (rf_family r) p dev db = Inr (Some token, db')"
        "open_sessions db' = filter (\<lambda>s. se_rotation s \<noteq> p) (open_sessions db)
          @ [\<lparr>se_user = rf_user r, se_family = rf_family r, se_rotation = ie_rotation env, se_since = ie_tx_now env\<rparr>]"
        "sess_inv db'"
        using rotate_run [OF inv Some False rot] by metis
      then show ?thesis
        using False Some find_row_live(2) [OF d Some]
        by (simp add: continue_session_def spec_rotate_def sess_of_def)
    qed
  qed
  then show "open_sessions (snd (continue_session A env p dev db))
      = spec_rotate p (ie_rotation env) (ie_tx_now env) (open_sessions db)"
    and "sess_inv (snd (continue_session A env p dev db))" by simp_all
qed

lemma own_simulates:
  "open_sessions (case revoke_own_family u f db of Inr (_, db') \<Rightarrow> db' | Inl _ \<Rightarrow> db)
    = spec_close_own u f (open_sessions db)"
proof -
  let ?sel = "\<lambda>r. live_in_family f r \<and> rf_user r = u"
  have closed: "open_sessions (revoke_rows ?sel db) = spec_close_own u f (open_sessions db)"
    unfolding spec_close_own_def filter_open open_revoke_rows
    by (rule arg_cong [where f = "map sess_of"], rule filter_cong) (auto simp: live_in_family_def)
  show ?thesis
  proof (cases "list_ex ?sel (id_refresh db)")
    case True
    then show ?thesis by (simp add: revoke_own_family_def closed)
  next
    case False
    then have "map (\<lambda>r. if ?sel r then r\<lparr>rf_revoked := True\<rparr> else r) (id_refresh db) = id_refresh db"
      by (intro map_idI) (auto simp: list_ex_iff)
    then have "revoke_rows ?sel db = db" by (simp add: revoke_rows_def)
    then show ?thesis using False closed by (simp add: revoke_own_family_def)
  qed
qed

subsection \<open>The refinement\<close>

interpretation sessions: functional_refinement "session_exec A" session_spec open_sessions sess_inv session_ok
  for A
proof
  fix cmd db
  assume inv: "sess_inv db" and ok: "session_ok cmd db"
  show "open_sessions (session_exec A cmd db) = session_spec cmd (open_sessions db)"
    using inv ok
    by (cases cmd) (auto simp: open_simulates continue_simulates open_revoke_family own_simulates
        revoke_all_def Let_def open_revoke_user)
  show "sess_inv (session_exec A cmd db)"
    using inv ok
    by (cases cmd) (auto simp: open_simulates continue_simulates revoke_family_def sess_inv_revoke
        revoke_own_family_def revoke_all_def revoke_user_rows_def Let_def)
qed

subsection \<open>What the specification keeps\<close>

definition sessions_of :: "uuid \<Rightarrow> sess list \<Rightarrow> sess list" where
  "sessions_of u S = filter (\<lambda>s. se_user s = u) S"

lemma evicted_count:
  assumes d: "distinct (map se_family S)"
  shows "length (sessions_of u (spec_evict u S)) \<le> 4"
proof -
  let ?mine = "sessions_of u S"
  let ?sorted = "sort_key (\<lambda>s. - se_since s) ?mine"
  have fams: "distinct (map se_family ?mine)"
    using d by (simp add: sessions_of_def distinct_map_filter)
  have keep: "sessions_of u (spec_evict u S) = filter (\<lambda>s. s \<notin> set (drop 4 ?sorted)) ?mine"
  proof -
    have "se_family s \<in> se_family ` set (drop 4 ?sorted) \<longleftrightarrow> s \<in> set (drop 4 ?sorted)" if s: "s \<in> set ?mine" for s
    proof
      assume "se_family s \<in> se_family ` set (drop 4 ?sorted)"
      then obtain t where t: "t \<in> set (drop 4 ?sorted)" "se_family s = se_family t" by auto
      have "t \<in> set ?mine" using in_set_dropD [OF t(1)] by simp
      then have "s = t" using inj_onD [of se_family "set ?mine" s t] fams s t(2) by (simp add: distinct_map)
      then show "s \<in> set (drop 4 ?sorted)" using t(1) by simp
    qed simp
    then have "filter (\<lambda>s. se_family s \<notin> se_family ` set (drop 4 ?sorted)) ?mine
        = filter (\<lambda>s. s \<notin> set (drop 4 ?sorted)) ?mine"
      by (intro filter_cong) simp_all
    then show ?thesis
      by (simp add: sessions_of_def spec_evict_def spec_surplus_def MAX_SESSIONS_PER_USER_def conj_commute)
  qed
  have "distinct ?mine" using fams by (simp add: distinct_map)
  then have dist: "distinct ?sorted" "distinct (filter (\<lambda>s. s \<notin> set (drop 4 ?sorted)) ?mine)" by simp_all
  have "set (filter (\<lambda>s. s \<notin> set (drop 4 ?sorted)) ?mine) \<subseteq> set (take 4 ?sorted)"
  proof
    fix s assume "s \<in> set (filter (\<lambda>s. s \<notin> set (drop 4 ?sorted)) ?mine)"
    then have "s \<in> set (take 4 ?sorted @ drop 4 ?sorted)" "s \<notin> set (drop 4 ?sorted)"
      by (simp_all only: append_take_drop_id) auto
    then show "s \<in> set (take 4 ?sorted)" by (simp del: append_take_drop_id)
  qed
  then have "card (set (filter (\<lambda>s. s \<notin> set (drop 4 ?sorted)) ?mine)) \<le> card (set (take 4 ?sorted))"
    by (rule card_mono [rotated]) simp
  also have "\<dots> \<le> 4" using card_length [of "take 4 ?sorted"] by simp
  finally show ?thesis unfolding keep using distinct_card [OF dist(2)] by linarith
qed

definition capped :: "sess list \<Rightarrow> bool" where
  "capped S = (\<forall>u. length (sessions_of u S) \<le> MAX_SESSIONS_PER_USER)"

lemma sessions_of_filter: "length (sessions_of u (filter P S)) \<le> length (sessions_of u S)"
proof -
  have "sessions_of u (filter P S) = filter P (sessions_of u S)"
    by (simp add: sessions_of_def conj_commute)
  then show ?thesis by simp
qed

lemma capped_filter: "capped S \<Longrightarrow> capped (filter P S)"
  unfolding capped_def using sessions_of_filter order_trans by blast

lemma capped_open:
  assumes "capped S" "distinct (map se_family S)"
  shows "capped (spec_open u f r t S)"
proof -
  have "length (sessions_of v (spec_open u f r t S)) \<le> 5" for v
  proof (cases "v = u")
    case True
    then show ?thesis using evicted_count [OF assms(2), of u] by (simp add: spec_open_def sessions_of_def)
  next
    case False
    have "length (sessions_of v (spec_evict u S)) \<le> 5"
      using capped_filter [OF assms(1)] by (simp add: capped_def spec_evict_def MAX_SESSIONS_PER_USER_def)
    then show ?thesis using False by (simp add: spec_open_def sessions_of_def)
  qed
  then show ?thesis by (simp add: capped_def MAX_SESSIONS_PER_USER_def)
qed

lemma capped_rotate:
  assumes "capped S"
  shows "capped (spec_rotate p r t S)"
proof (cases "find (\<lambda>s. se_rotation s = p) S")
  case None
  then show ?thesis using assms by (simp add: spec_rotate_def)
next
  case (Some s)
  then have s: "s \<in> set S" "se_rotation s = p" by (auto simp: find_Some_iff)
  have "length (sessions_of v (filter (\<lambda>s. se_rotation s \<noteq> p) S @ [s\<lparr>se_rotation := r, se_since := t\<rparr>]))
      \<le> length (sessions_of v S)" for v
  proof -
    have "length (sessions_of v (filter (\<lambda>s. se_rotation s \<noteq> p) S)) < length (sessions_of v S)"
      if "se_user s = v"
    proof -
      have "sessions_of v (filter (\<lambda>s. se_rotation s \<noteq> p) S)
          = filter (\<lambda>s. se_rotation s \<noteq> p) (sessions_of v S)"
        by (simp add: sessions_of_def conj_commute)
      moreover have "s \<in> set (sessions_of v S)" using s that by (simp add: sessions_of_def)
      ultimately show ?thesis using s length_filter_less [of s "sessions_of v S"] by simp
    qed
    moreover have "length (sessions_of v (filter (\<lambda>s. se_rotation s \<noteq> p) S)) \<le> length (sessions_of v S)"
      by (rule sessions_of_filter)
    ultimately show ?thesis by (auto simp: sessions_of_def Suc_le_eq)
  qed
  then show ?thesis using assms Some by (auto simp: capped_def spec_rotate_def intro: order_trans)
qed

lemma capped_spec:
  assumes "sess_inv db" "session_ok cmd db" "capped (open_sessions db)"
  shows "capped (session_spec cmd (open_sessions db))"
  using assms by (cases cmd)
    (simp_all add: capped_open capped_rotate spec_close_def spec_close_own_def spec_close_user_def
      capped_filter sess_inv_def)

end
