(* ===== verification/Identity_Facts.thy ===== *)
theory Identity_Facts
  imports Identity_Api Identity_Session_Refinement
begin

text \<open>
  What the steps of a handler do to the state, in the form the properties use: the successful runs
  of the lifted steps, the rows a change of credentials leaves, and the order on refresh rows (a row
  is never dropped and never becomes live again).
\<close>

text \<open>
  The runs of a refresh: what a success did, and what becomes of a token that was already used.
\<close>

subsection \<open>Successful steps\<close>

lemma on_db_Inr_iff:
  "on_db t s = (s', Inr x) \<longleftrightarrow> (\<exists>db. t (is_db s) = Inr (x, db) \<and> s' = s\<lparr>is_db := db\<rparr>)"
  by (auto simp: on_db_def in_db_def act_tx_def Let_def split: sum.splits prod.splits)

lemma on_cache_Inr_iff:
  "on_cache env f s = (s', Inr x) \<longleftrightarrow>
    ie_up env \<and> x = fst (f (is_redis s)) \<and> s' = s\<lparr>is_redis := snd (f (is_redis s))\<rparr>"
  by (auto simp: on_cache_def case_prod_beta)

lemma in_db_modify_bind [simp]:
  "act_bind (in_db (act_modify g)) k s = k () (s\<lparr>is_db := g (is_db s)\<rparr>)"
  by (simp add: act_bind_def in_db_def)

lemma publish_Inr_iff: "publish_version env u v s = (s', Inr x) \<longleftrightarrow>
    ie_up env \<and> s' = s\<lparr>is_redis := mark_user_revoked u v (is_redis s)\<rparr>"
  by (auto simp: publish_version_def on_cache_Inr_iff)

lemma claim_Inr_iff: "claim_token env k e s = (s', Inr x) \<longleftrightarrow>
    ie_up env \<and> marker_valid (r_get (ie_now env) (is_redis s) k) \<and> s' = s\<lparr>is_redis := r_del k (is_redis s)\<rparr>"
  by (auto simp: claim_token_def act_bind_Inr_iff on_cache_Inr_iff take_marker_simps ensure_def split: if_splits)

lemma claim_used: "\<not> marker_valid (r_get (ie_now env) (is_redis s) k) \<Longrightarrow>
    \<exists>e'. snd (claim_token env k e s) = Inl e' \<and> is_db (fst (claim_token env k e s)) = is_db s"
  by (simp add: claim_token_def act_bind_run on_cache_def take_marker_def r_getdel_def Let_def ensure_def)

lemma throttled_Inr:
  assumes "throttled env b op s = (s', Inr v)"
  shows "\<exists>s1. op s = (s1, Inr v) \<and> s' = try_cache env (throttle_clear b) s1
    \<and> \<not> throttle_is_locked env b (is_redis s)"
  using assms by (auto simp: throttled_def split: if_splits prod.splits sum.splits)

lemma try_cache_db [simp]: "is_db (try_cache env f s) = is_db s"
  by (simp add: try_cache_def)

text \<open>The keys of the services' cache entries never meet.\<close>

lemma cache_keys_apart [simp]:
  "login_fail_key b \<noteq> user_trv_key u" "login_lock_key b \<noteq> user_trv_key u"
  "login_fail_key b \<noteq> revoked_jti_key j" "login_lock_key b \<noteq> revoked_jti_key j"
  "revoked_jti_key j \<noteq> login_fail_key b" "revoked_jti_key j \<noteq> login_lock_key b"
  "user_trv_key u \<noteq> revoked_jti_key j" "revoked_jti_key j \<noteq> user_trv_key u"
  "user_trv_key u \<noteq> login_fail_key b" "user_trv_key u \<noteq> login_lock_key b"
  "login_lock_key b \<noteq> login_fail_key b'" "login_fail_key b' \<noteq> login_lock_key b"
  "user_trv_key u \<noteq> profile_jti_key j" "user_trv_key u \<noteq> two_factor_key j"
  "revoked_jti_key j' \<noteq> profile_jti_key j" "revoked_jti_key j' \<noteq> two_factor_key j"
  by (simp_all add: login_fail_key_def login_lock_key_def user_trv_key_def revoked_jti_key_def
      profile_jti_key_def two_factor_key_def TWO_FACTOR_JTI_PREFIX_def)

lemma phone_key_apart [simp]:
  assumes "p \<in> {PHONE_VERIFY_PURPOSE, PIN_RESET_PURPOSE, PHONE_CHANGE_PURPOSE}"
  shows "phone_verify_jti_key p j \<noteq> user_trv_key u" "phone_verify_jti_key p j \<noteq> revoked_jti_key j'"
    "phone_verify_jti_key p j \<noteq> login_fail_key b" "phone_verify_jti_key p j \<noteq> login_lock_key b"
  using assms by (elim insertE emptyE; simp add: phone_verify_jti_key_def user_trv_key_def revoked_jti_key_def
      login_fail_key_def login_lock_key_def purpose_defs)+

lemma clear_other [simp]:
  "j \<noteq> login_lock_key b \<Longrightarrow> j \<noteq> login_fail_key b \<Longrightarrow> throttle_clear b r j = r j"
  by (simp add: throttle_clear_def)

subsection \<open>Every session and token of a user\<close>

definition no_session :: "uuid \<Rightarrow> id_db \<Rightarrow> bool" where
  "no_session u db = (\<forall>r \<in> set (id_refresh db). rf_user r = u \<longrightarrow> rf_revoked r)"

lemma no_session_open: "no_session u db \<longleftrightarrow> sessions_of u (open_sessions db) = []"
  by (auto simp: no_session_def sessions_of_def open_sessions_def filter_empty_conv)

lemma no_session_revoke_user [simp]: "no_session u (revoke_user_rows u db)"
  by (simp add: no_session_open sessions_of_def open_revoke_user spec_close_user_def)

lemma no_session_put_user [simp]: "no_session u (put_user k x db) = no_session u db"
  by (simp add: no_session_def)

lemma no_session_audit [simp]: "no_session u (record_credential_event k a d db) = no_session u db"
  by (simp add: no_session_def record_credential_event_def)

lemma revoke_user_users [simp]:
  "id_users (revoke_user_rows u db) = id_users db" "get_user (revoke_user_rows u db) k = get_user db k"
  "id_users (revoke_rows sel db) = id_users db" "get_user (revoke_rows sel db) k = get_user db k"
  by (simp_all add: revoke_user_rows_def revoke_rows_def get_user_def)

lemma audit_users [simp]:
  "id_users (record_credential_event k a d db) = id_users db"
  "get_user (record_credential_event k a d db) j = get_user db j"
  by (simp_all add: record_credential_event_def get_user_def)

text \<open>A published version refuses every access token that carries an older one.\<close>

lemma published_refuses:
  assumes "read_access J now token = Some c" "jc_sub c = u" "jc_trv c < v"
  shows "authenticate_token J True now (mark_user_revoked u v r) token
    = Inl (Unauthorized ''Token has been revoked'')"
  using assms by (simp add: authenticate_token_def decode_jwt_with_key_def mark_user_revoked_def current_trv_def
      res_bind_def)

subsection \<open>Rows only ever become revoked\<close>

definition row_le :: "refresh_row \<Rightarrow> refresh_row \<Rightarrow> bool" where
  "row_le r r' = (rf_user r' = rf_user r \<and> rf_family r' = rf_family r \<and> rf_rotation r' = rf_rotation r
    \<and> rf_secret_hash r' = rf_secret_hash r \<and> (rf_revoked r \<longrightarrow> rf_revoked r'))"

definition rows_le :: "id_db \<Rightarrow> id_db \<Rightarrow> bool" where
  "rows_le db db' = (\<forall>r \<in> set (id_refresh db). \<exists>r' \<in> set (id_refresh db'). row_le r r')"

lemma rows_le_refl [simp]: "rows_le db db"
  by (auto simp: rows_le_def row_le_def)

lemma rows_le_trans: "rows_le a b \<Longrightarrow> rows_le b c \<Longrightarrow> rows_le a c"
  unfolding rows_le_def row_le_def by (metis (full_types))

lemma rows_le_revoke [simp]: "rows_le db (revoke_rows sel db)"
  unfolding rows_le_def
proof
  fix r assume r: "r \<in> set (id_refresh db)"
  have "(if sel r then r\<lparr>rf_revoked := True\<rparr> else r) \<in> set (id_refresh (revoke_rows sel db))"
    using r by (simp add: revoke_rows_def)
  then show "\<exists>r' \<in> set (id_refresh (revoke_rows sel db)). row_le r r'"
    by (rule bexI [rotated]) (simp add: row_le_def)
qed

lemma rows_le_insert: "refresh_insert A env u f ua ip role db = Inr (token, db') \<Longrightarrow> rows_le db db'"
  by (auto simp: refresh_insert_def Let_def rows_le_def row_le_def split: if_splits)

lemma rows_le_rotate: "rotate A env u f p dev db = Inr (t, db') \<Longrightarrow> rows_le db db'"
  by (auto simp: rotate_def Let_def res_bind_Inr_iff split: if_splits
      dest: rows_le_insert intro: rows_le_trans [OF rows_le_revoke])

lemma rows_le_cap: "rows_le db (enforce_session_cap u db)"
proof -
  have "rows_le d (fold (\<lambda>f d. snd (revoke_family f d)) fs d)" for fs d
    by (induction fs arbitrary: d) (auto simp: revoke_family_def intro: rows_le_trans [OF rows_le_revoke])
  then show ?thesis by (simp add: enforce_session_cap_def)
qed

lemma rows_le_create: "rows_le db (fst (create_refresh_family A env u role dev db))"
  by (auto simp: create_refresh_family_def issue_refresh_def act_tx_def rows_le_cap split: sum.splits
      dest: rows_le_insert intro: rows_le_trans [OF rows_le_cap])

lemma rows_le_exec: "rows_le db (session_exec A cmd db)"
proof (cases cmd)
  case (ContinueSession env p dev)
  then show ?thesis
    by (auto simp: continue_session_def split: option.splits sum.splits dest: rows_le_rotate)
next
  case (CloseUser env u)
  have "rows_le db (revoke_user_rows u (put_user u x db))" for x
    using rows_le_revoke [of "put_user u x db"] by (simp add: revoke_user_rows_def rows_le_def)
  then show ?thesis using CloseUser by (simp add: revoke_all_def Let_def split: option.split)
qed (auto simp: rows_le_create revoke_family_def revoke_own_family_def Let_def)

interpretation session_order: monotone_system "session_exec A" rows_le for A
  by unfold_locales (auto intro: rows_le_trans rows_le_exec)

lemma find_row_mem:
  assumes "distinct (map rf_rotation (id_refresh db))" "r \<in> set (id_refresh db)"
  shows "row_of_rotation db (rf_rotation r) = Some r"
proof -
  have "filter (\<lambda>x. rf_rotation x = rf_rotation r) (id_refresh db) = [r]"
    by (rule filter_distinct_key [OF assms])
  then show ?thesis by (simp add: row_of_rotation_def find_filter_hd)
qed

lemma presented_body: "parse_refresh f token = Some x \<Longrightarrow> presented_refresh (Some token) parts = Some token"
  by (cases token) (auto simp: presented_refresh_def non_empty_def parse_refresh_def split_once_def
      obind_def split: option.splits)

lemma locate_Inr:
  assumes "locate_refresh A f token s = (s', Inr (p, located))"
  shows "\<exists>secret r. s' = s \<and> parse_refresh f token = Some (p, secret) \<and> row_of_rotation (is_db s) p = Some r
    \<and> ph_verify A secret (rf_secret_hash r) = Some True
    \<and> lr_user located = rf_user r \<and> lr_family located = rf_family r
    \<and> sf_revoked (lr_stored located) = rf_revoked r \<and> lr_active_role located = rf_active_role r"
  using assms
  by (auto simp: locate_refresh_def find_refresh_by_rotation_def secret_matches_def verify_secret_def
      split: option.splits prod.splits if_splits)

lemma locate_run:
  assumes "parse_refresh f token = Some (p, secret)" "row_of_rotation (is_db s) p = Some r"
    and "ph_verify A secret (rf_secret_hash r) = Some True"
  obtains located where "locate_refresh A f token s = (s, Inr (p, located))"
    "lr_user located = rf_user r" "lr_family located = rf_family r"
    "sf_revoked (lr_stored located) = rf_revoked r"
proof -
  obtain l where l: "find_refresh_by_rotation (is_db s) p = Some l" "lr_user l = rf_user r"
      "lr_family l = rf_family r" "sf_revoked (lr_stored l) = rf_revoked r" "lr_secret_hash l = rf_secret_hash r"
    using assms(2) by (auto simp: find_refresh_by_rotation_def)
  have "locate_refresh A f token s = (s, Inr (p, l))"
    using assms l by (simp add: locate_refresh_def secret_matches_def verify_secret_def)
  then show ?thesis using that l by blast
qed

definition family_dead :: "uuid \<Rightarrow> id_db \<Rightarrow> bool" where
  "family_dead f db = (\<forall>r \<in> set (id_refresh db). rf_family r = f \<longrightarrow> rf_revoked r)"

lemma family_dead_iff: "family_dead f db \<longleftrightarrow> \<not> family_has_live_token db f"
  by (auto simp: family_dead_def family_has_live_token_def list_ex_iff live_in_family_def)

lemma family_dead_revoked: "family_dead f (snd (revoke_family f db))"
  by (simp add: family_dead_def revoke_family_def revoke_rows_def live_in_family_def ball_Un)

text \<open>Reuse always ends in a refusal, and the family is dead after it.\<close>

lemma reuse_run:
  assumes run: "reuse_detected f s = (s', res)"
  shows "\<exists>e. res = Inl e \<and> error_status e = 401"
    and "family_dead f (is_db s')" and "is_redis s' = is_redis s"
    and "id_users (is_db s') = id_users (is_db s)" and "rows_le (is_db s) (is_db s')"
proof -
  have "(\<exists>e. res = Inl e \<and> error_status e = 401) \<and> family_dead f (is_db s')
    \<and> is_redis s' = is_redis s \<and> id_users (is_db s') = id_users (is_db s) \<and> rows_le (is_db s) (is_db s')"
  proof (cases "family_has_live_token (is_db s) f")
    case True
    then have "s' = s\<lparr>is_db := snd (revoke_family f (is_db s))\<rparr>" "res = Inl invalid_refresh"
      using run by (simp_all add: reuse_detected_def)
    then show ?thesis
      using family_dead_revoked [of f "is_db s"] by (simp add: revoke_family_def invalid_refresh_def)
  next
    case False
    then have "s' = s" "res = Inl session_superseded"
      using run by (simp_all add: reuse_detected_def)
    then show ?thesis using False by (simp add: family_dead_iff session_superseded_def)
  qed
  then show "\<exists>e. res = Inl e \<and> error_status e = 401"
    and "family_dead f (is_db s')" and "is_redis s' = is_redis s"
    and "id_users (is_db s') = id_users (is_db s)" and "rows_le (is_db s) (is_db s')" by blast+
qed

lemma reuse_not_Inr: "reuse_detected f s \<noteq> (s', Inr x)"
  using reuse_run(1) [of f s s' "Inr x"] by blast

lemma refresh_of_revoked:
  assumes "parse_refresh f token = Some (p, secret)" "row_of_rotation (is_db s) p = Some r"
    and "ph_verify A secret (rf_secret_hash r) = Some True" "rf_revoked r"
  shows "refresh A J f expiry env hdr (Some token) s = reuse_detected (rf_family r) s"
proof -
  obtain l where "locate_refresh A f token s = (s, Inr (p, l))" "lr_family l = rf_family r"
      "sf_revoked (lr_stored l)"
    using locate_run [OF assms(1-3)] assms(4) by metis
  then show ?thesis
    by (simp add: refresh_def presented_body [OF assms(1)] act_bind_apply decide_def)
qed

lemma refresh_dead_family:
  assumes "parse_refresh f token = Some (p, secret)" "row_of_rotation (is_db s) p = Some r"
    and "family_dead (rf_family r) (is_db s)"
  shows "\<exists>e. snd (refresh A J f expiry env hdr (Some token) s) = Inl e"
proof -
  have dead: "rf_revoked r" using assms(2,3) by (auto simp: family_dead_def row_of_rotation_def find_Some_iff)
  show ?thesis
  proof (cases "ph_verify A secret (rf_secret_hash r) = Some True")
    case True
    show ?thesis
      unfolding refresh_of_revoked [OF assms(1,2) True dead] using reuse_run(1) [of "rf_family r" s] by (metis prod.collapse)
  next
    case False
    obtain e where "locate_refresh A f token s = (s, Inl e)"
    proof (cases "ph_verify A secret (rf_secret_hash r)")
      case None
      then show ?thesis
        using that assms(1,2)
        by (simp add: locate_refresh_def find_refresh_by_rotation_def secret_matches_def verify_secret_def)
    next
      case (Some b)
      then have "\<not> b" using False by simp
      then show ?thesis
        using that Some assms(1,2)
        by (simp add: locate_refresh_def find_refresh_by_rotation_def secret_matches_def verify_secret_def)
    qed
    then have "refresh A J f expiry env hdr (Some token) s = (s, Inl e)"
      by (simp add: refresh_def presented_body [OF assms(1)] act_bind_apply)
    then show ?thesis by simp
  qed
qed

text \<open>A success rotated a live row: it is revoked now, and one new row took its place.\<close>

lemma refresh_Inr:
  assumes ok: "refresh A J f expiry env hdr (Some token) s = (s', Inr ans)" and tok: "token \<noteq> []"
  obtains p secret r where "parse_refresh f token = Some (p, secret)" "row_of_rotation (is_db s) p = Some r"
    "ph_verify A secret (rf_secret_hash r) = Some True" "\<not> rf_revoked r"
    "rotate A env (rf_user r) (rf_family r) p (device_context hdr) (is_db s)
      = Inr (Some (tk_refresh (wc_body ans)), is_db s')"
    "is_redis s' = is_redis s"
    "\<exists>u. get_user (is_db s) (rf_user r) = Some u \<and> us_active u \<and> us_approval u = ApprovalApproved"
proof -
  have pres: "presented_refresh (Some token) (ih_parts hdr) = Some token"
    using tok by (simp add: presented_refresh_def non_empty_def)
  obtain s0 x where x: "locate_refresh A f token s = (s0, Inr x)"
      "(case x of (p, l) \<Rightarrow> case decide (lr_stored l) (ie_now env) of
          ReuseDetected \<Rightarrow> reuse_detected (lr_family l)
        | RotationExpired \<Rightarrow> act_fail invalid_refresh
        | CeilingExceeded \<Rightarrow> act_fail invalid_refresh
        | Rotate \<Rightarrow> rotate_session A J expiry env hdr l p) s0 = (s', Inr ans)"
    using ok unfolding refresh_def pres option.case act_bind_Inr_iff by (elim exE conjE) (rule that)
  obtain p l where pl: "x = (p, l)" by (cases x)
  have "s0 = s" using locate_Inr [OF x(1) [unfolded pl]] by blast
  then have loc: "locate_refresh A f token s = (s, Inr (p, l))"
    and cont: "(case decide (lr_stored l) (ie_now env) of
          ReuseDetected \<Rightarrow> reuse_detected (lr_family l)
        | RotationExpired \<Rightarrow> act_fail invalid_refresh
        | CeilingExceeded \<Rightarrow> act_fail invalid_refresh
        | Rotate \<Rightarrow> rotate_session A J expiry env hdr l p) s = (s', Inr ans)"
    using x pl by simp_all
  obtain secret r where r: "parse_refresh f token = Some (p, secret)" "row_of_rotation (is_db s) p = Some r"
      "ph_verify A secret (rf_secret_hash r) = Some True" "lr_user l = rf_user r" "lr_family l = rf_family r"
      "sf_revoked (lr_stored l) = rf_revoked r"
    using locate_Inr [OF loc] by blast
  have rot: "decide (lr_stored l) (ie_now env) = Rotate"
    using cont reuse_not_Inr [of "lr_family l" s s' ans]
    by (cases "decide (lr_stored l) (ie_now env)") simp_all
  then have live: "\<not> rf_revoked r" using r(6) by (simp add: decide_Rotate_iff)
  have "rotate_session A J expiry env hdr l p s = (s', Inr ans)" using cont rot by simp
  then obtain meta t s1 where m: "user_auth_meta (is_db s) (rf_user r) = Some meta"
    and t: "on_db (rotate A env (rf_user r) (rf_family r) p (device_context hdr)) s = (s1, Inr (Some t))"
    and last: "refresh_pair J expiry env meta (lr_active_role l) t s1 = (s', Inr ans)"
    by (auto simp: rotate_session_def r(4,5) act_bind_Inr_iff split: option.splits)
  have s': "s' = s1" "tk_refresh (wc_body ans) = t"
    using last by (auto simp: refresh_pair_def Let_def split: option.splits)
  have act: "\<exists>u. get_user (is_db s) (rf_user r) = Some u \<and> us_active u \<and> us_approval u = ApprovalApproved"
    using m by (auto simp: user_auth_meta_def obind_Some_iff split: if_splits)
  show ?thesis
    using that [OF r(1-3) live _ _ act] t s' by (auto simp: on_db_Inr_iff)
qed

lemma rotate_revokes:
  assumes "rotate A env u f p dev db = Inr (Some t, db')" "row_of_rotation db p = Some r"
  shows "\<exists>r' \<in> set (id_refresh db'). row_le r r' \<and> rf_revoked r'"
proof -
  have mem: "r \<in> set (id_refresh db)" "rf_rotation r = p"
    using assms(2) by (auto simp: row_of_rotation_def find_Some_iff)
  let ?db1 = "revoke_rows (live_rotation p) db"
  have "(if live_rotation p r then r\<lparr>rf_revoked := True\<rparr> else r) \<in> set (id_refresh ?db1)"
    using mem by (simp add: revoke_rows_def)
  moreover have "rf_revoked (if live_rotation p r then r\<lparr>rf_revoked := True\<rparr> else r)"
      "row_le r (if live_rotation p r then r\<lparr>rf_revoked := True\<rparr> else r)"
    using mem by (simp_all add: live_rotation_def row_le_def)
  ultimately obtain r1 where r1: "r1 \<in> set (id_refresh ?db1)" "rf_revoked r1" "row_le r r1" by blast
  obtain ua ip role where "refresh_insert A env u f ua ip role ?db1 = Inr (t, db')"
    using assms(1) by (auto simp: rotate_def Let_def res_bind_Inr_iff split: if_splits)
  then have "set (id_refresh ?db1) \<subseteq> set (id_refresh db')"
    by (auto simp: refresh_insert_def Let_def split: if_splits)
  then show ?thesis using r1 by blast
qed

end
