(* ===== verification/Identity_Properties.thy ===== *)
theory Identity_Properties
  imports Identity_Facts Shared_Tokens
begin

text \<open>
  Properties of the identity service's sessions and credentials, each with a run that meets its
  hypotheses. The sample hash stores the text itself and the sample parser knows two names.
\<close>

definition sample_argon2 :: argon2 where
  "sample_argon2 = \<lparr>ph_hash = (\<lambda>salt p. p), ph_verify = (\<lambda>p h. Some (p = h))\<rparr>"

lemma sample_argon2_ok: "argon2_ok sample_argon2"
  by (simp add: argon2_ok_def sample_argon2_def)

definition sample_parser :: "string \<Rightarrow> uuid option" where
  "sample_parser t = (if t = ''a'' then Some 1 else if t = ''b'' then Some 2 else None)"

definition sample_id_env :: id_env where
  "sample_id_env = \<lparr>ie_up = True, ie_now = 1000, ie_tx_now = 1000, ie_row = 50, ie_salt = 51, ie_family = 52,
    ie_rotation = 53, ie_refresh_jti = 54, ie_secret = 55, ie_access_jti = 56, ie_token_jti = 57,
    ie_totp_secret = ''t'', ie_recovery = [], ie_prefix = ''p'', ie_api_secret = ''s''\<rparr>"

definition sample_user :: user_row where
  "sample_user = \<lparr>us_phone = ''0812345678'', us_email = None, us_password_hash = ''pw'', us_role = RoleGuard,
    us_trv = 3, us_active = True, us_approval = ApprovalApproved, us_deleted_at = None,
    us_display_name = None, us_totp_secret = None, us_totp_enabled = False, us_totp_confirmed_at = None,
    us_created_at = 0, us_updated_at = 0\<rparr>"

definition sample_row :: refresh_row where
  "sample_row = \<lparr>rf_user = 7, rf_family = 8, rf_rotation = 1, rf_jti = 9, rf_secret_hash = ''x'',
    rf_expires_at = 5000, rf_revoked = False, rf_created_at = 500, rf_user_agent = None, rf_ip = None,
    rf_last_used_at = Some 500, rf_active_role = Some RoleGuard\<rparr>"

definition sample_id_db :: id_db where
  "sample_id_db = \<lparr>id_users = [(7, sample_user)], id_roles = [\<lparr>rr_user = 7, rr_role = RoleGuard, rr_created_at = 0\<rparr>],
    id_refresh = [sample_row], id_processed = [], id_audit = [], id_recovery = [], id_tokens = []\<rparr>"

definition sample_id_state :: id_state where
  "sample_id_state = \<lparr>is_db = sample_id_db, is_redis = (\<lambda>_. None)\<rparr>"

definition sample_headers :: id_headers where
  "sample_headers = \<lparr>ih_parts = \<lparr>rp_method = HttpPost, rp_authorization = None, rp_cookie = None,
     rp_has_requested_with = True\<rparr>, ih_user_agent = None, ih_forwarded_for = None, ih_refresh_token = None\<rparr>"

lemmas sample_id_defs = sample_argon2_def sample_id_env_def sample_user_def sample_row_def sample_id_db_def
  sample_id_state_def sample_headers_def

lemma sample_sess_inv: "sess_inv sample_id_db"
  by (simp add: sess_inv_def open_sessions_def sess_of_def sample_id_db_def sample_row_def)

subsection \<open>Sessions\<close>

text \<open>
  C11. The refresh-token table implements the list of open sessions: whatever sequence of logins,
  token refreshes and revocations runs on a well-formed table with freshly drawn identifiers, the
  live rows afterwards are exactly what the specification makes of the live rows before. A refresh
  replaces the token of one session, a login opens one session after dropping the user's oldest
  beyond the cap, and each revocation closes just the sessions it names.
\<close>
theorem sessions_refine:
  assumes "sess_inv db" "ok_run (session_exec A) session_ok cmds db"
  shows "open_sessions (fold (session_exec A) cmds db) = fold session_spec cmds (open_sessions db)
    \<and> sess_inv (fold (session_exec A) cmds db)"
  using sessions.run_simulates [OF assms] sessions.run_inv [OF assms] by simp

definition sample_cmds :: "session_cmd list" where
  "sample_cmds = [ContinueSession sample_id_env 1 \<lparr>dc_user_agent = None, dc_ip = None\<rparr>,
     OpenSession (sample_id_env\<lparr>ie_rotation := 63, ie_family := 62\<rparr>) 7 RoleGuard \<lparr>dc_user_agent = None, dc_ip = None\<rparr>,
     CloseOwn 7 62]"

lemma sample_ok_run: "ok_run (session_exec sample_argon2) session_ok sample_cmds sample_id_db"
  by (simp add: sample_cmds_def unused_rotation_def unused_family_def continue_session_def row_of_rotation_def
      rotate_def live_rotation_def refresh_insert_def revoke_rows_def create_refresh_family_def
      issue_refresh_def enforce_session_cap_def evictable_def act_tx_def family_rows_def first_row_def
      live_of_user_def MAX_SESSIONS_PER_USER_def Let_def sample_id_defs)

lemma sessions_refine_witness:
  "open_sessions (fold (session_exec sample_argon2) sample_cmds sample_id_db)
      = fold session_spec sample_cmds (open_sessions sample_id_db)
    \<and> sess_inv (fold (session_exec sample_argon2) sample_cmds sample_id_db)"
  by (rule sessions_refine [OF sample_sess_inv sample_ok_run])

text \<open>
  At any time a user has at most five live refresh tokens, and a session (a family) has at most
  one: after any sequence of logins, refreshes and revocations on a table that starts so.
\<close>
theorem five_sessions:
  assumes "sess_inv db" "ok_run (session_exec A) session_ok cmds db" "capped (open_sessions db)"
  shows "length (filter (\<lambda>r. rf_user r = u \<and> \<not> rf_revoked r) (id_refresh (fold (session_exec A) cmds db))) \<le> 5
    \<and> length (filter (\<lambda>r. rf_family r = f \<and> \<not> rf_revoked r) (id_refresh (fold (session_exec A) cmds db))) \<le> 1"
proof -
  let ?db = "fold (session_exec A) cmds db"
  have cap: "capped (open_sessions ?db)"
    by (rule sessions.run_abs_inv [where P = capped, OF capped_spec assms])
  have inv: "sess_inv ?db" by (rule sessions.run_inv [OF assms(1,2)])
  have users: "length (filter (\<lambda>r. rf_user r = u \<and> \<not> rf_revoked r) (id_refresh ?db))
      = length (sessions_of u (open_sessions ?db))"
    by (simp add: sessions_of_def filter_open conj_commute)
  have "distinct (map se_family (filter (\<lambda>s. se_family s = f) (open_sessions ?db)))"
    using inv by (simp add: sess_inv_def distinct_map_filter)
  moreover have "map se_family (filter (\<lambda>s. se_family s = f) S) = replicate (length (filter (\<lambda>s. se_family s = f) S)) f" for S
    by (induction S) auto
  moreover have "n \<le> 1" if "distinct (replicate n f)" for n
    using that by (cases n; cases "n - 1") auto
  ultimately have "length (filter (\<lambda>s. se_family s = f) (open_sessions ?db)) \<le> 1"
    by metis
  then have "length (filter (\<lambda>r. rf_family r = f \<and> \<not> rf_revoked r) (id_refresh ?db)) \<le> 1"
    by (simp add: filter_open conj_commute)
  then show ?thesis using cap users by (simp add: capped_def MAX_SESSIONS_PER_USER_def)
qed

lemma five_sessions_witness:
  "length (filter (\<lambda>r. rf_user r = 7 \<and> \<not> rf_revoked r)
      (id_refresh (fold (session_exec sample_argon2) sample_cmds sample_id_db))) \<le> 5
    \<and> length (filter (\<lambda>r. rf_family r = 8 \<and> \<not> rf_revoked r)
      (id_refresh (fold (session_exec sample_argon2) sample_cmds sample_id_db))) \<le> 1"
proof (rule five_sessions [OF sample_sess_inv sample_ok_run])
  show "capped (open_sessions sample_id_db)"
    by (simp add: capped_def sessions_of_def open_sessions_def sample_id_db_def MAX_SESSIONS_PER_USER_def)
qed

lemma refresh_is_continue:
  assumes "rotate A env (rf_user r) (rf_family r) p dev db = Inr (Some t, db')" "row_of_rotation db p = Some r"
  shows "snd (continue_session A env p dev db) = db'"
  using assms by (simp add: continue_session_def)

lemma rotate_unused:
  assumes "rotate A env u f p dev db = Inr (Some t, db')"
  shows "unused_rotation (ie_rotation env) db"
proof -
  obtain ua ip role where "refresh_insert A env u f ua ip role (revoke_rows (live_rotation p) db) = Inr (t, db')"
    using assms by (auto simp: rotate_def Let_def res_bind_Inr_iff split: if_splits)
  then show ?thesis using refresh_insert_rows by (fastforce simp: unused_rotation_def)
qed

text \<open>
  C19. A refresh token works once. When a token that a refresh accepted is presented again, however
  many logins, refreshes and revocations ran in between, the answer is a 401 and the whole session is
  over: no token of its family is live any more, so neither the thief nor the rightful holder of the
  successor can continue it.
\<close>
theorem replayed_refresh_ends_session:
  assumes first: "refresh A J f expiry env hdr (Some token) s = (s1, Inr ans)" "token \<noteq> []"
    and inv: "sess_inv (is_db s)"
    and between: "ok_run (session_exec A) session_ok cmds (is_db s1)"
      "is_db s2 = fold (session_exec A) cmds (is_db s1)"
    and replay: "refresh A J f expiry env' hdr' (Some token) s2 = (s3, res)"
  shows "\<exists>fam e. res = Inl e \<and> error_status e = 401 \<and> family_dead fam (is_db s3)
    \<and> (\<exists>r \<in> set (id_refresh (is_db s1)). rf_family r = fam \<and> \<not> rf_revoked r \<and> rf_rotation r = ie_rotation env
        \<and> tk_refresh (wc_body ans) = assemble (ie_rotation env) (uuid_text (ie_secret env)))
    \<and> (\<forall>env'' hdr'' t p sec r. parse_refresh f t = Some (p, sec) \<and> row_of_rotation (is_db s3) p = Some r
        \<and> rf_family r = fam \<longrightarrow> (\<exists>e. snd (refresh A J f expiry env'' hdr'' (Some t) s3) = Inl e))"
proof -
  obtain p secret r where r: "parse_refresh f token = Some (p, secret)" "row_of_rotation (is_db s) p = Some r"
      "ph_verify A secret (rf_secret_hash r) = Some True"
    and rot: "rotate A env (rf_user r) (rf_family r) p (device_context hdr) (is_db s)
      = Inr (Some (tk_refresh (wc_body ans)), is_db s1)"
    using refresh_Inr [OF first] by metis
  have inv1: "sess_inv (is_db s1)"
    using continue_simulates(2) [OF inv rotate_unused [OF rot]] refresh_is_continue [OF rot r(2)] by metis
  obtain r1 where r1: "r1 \<in> set (id_refresh (is_db s1))" "row_le r r1" "rf_revoked r1"
    using rotate_revokes [OF rot r(2)] by blast
  have le: "rows_le (is_db s1) (is_db s2)" using session_order.run_le between(2) by simp
  obtain r2 where r2: "r2 \<in> set (id_refresh (is_db s2))" "row_le r1 r2" using le r1(1) by (auto simp: rows_le_def)
  have d2: "distinct (map rf_rotation (id_refresh (is_db s2)))"
    using sessions.run_inv [OF inv1 between(1)] between(2) by (simp add: sess_inv_def)
  have key: "rf_rotation r = p" using r(2) by (auto simp: row_of_rotation_def find_Some_iff)
  have two: "row_of_rotation (is_db s2) p = Some r2" "rf_revoked r2" "rf_family r2 = rf_family r"
      "rf_secret_hash r2 = rf_secret_hash r"
    using find_row_mem [OF d2 r2(1)] r1(2,3) r2(2) key by (auto simp: row_le_def)
  have reuse: "reuse_detected (rf_family r) s2 = (s3, res)"
    using refresh_of_revoked [OF r(1) two(1) _ two(2), of A J expiry env' hdr'] r(3) two(3,4) replay by simp
  obtain ua ip role where "refresh_insert A env (rf_user r) (rf_family r) ua ip role
      (revoke_rows (live_rotation p) (is_db s)) = Inr (tk_refresh (wc_body ans), is_db s1)"
    using rot by (auto simp: rotate_def Let_def res_bind_Inr_iff split: if_splits)
  then have new: "\<exists>x \<in> set (id_refresh (is_db s1)). rf_family x = rf_family r \<and> \<not> rf_revoked x
      \<and> rf_rotation x = ie_rotation env
      \<and> tk_refresh (wc_body ans) = assemble (ie_rotation env) (uuid_text (ie_secret env))"
    using refresh_insert_rows by fastforce
  obtain e where e: "res = Inl e" "error_status e = 401" using reuse_run(1) [OF reuse] by blast
  have dead: "family_dead (rf_family r) (is_db s3)" by (rule reuse_run(2) [OF reuse])
  then have "\<exists>e. snd (refresh A J f expiry env'' hdr'' (Some t) s3) = Inl e"
    if "parse_refresh f t = Some (q, sec) \<and> row_of_rotation (is_db s3) q = Some x \<and> rf_family x = rf_family r"
    for env'' hdr'' t q sec x
    using that refresh_dead_family [of f t q sec s3 x A J expiry env'' hdr''] by simp
  then show ?thesis using e dead new by blast
qed

lemma replayed_refresh_ends_session_witness:
  "\<exists>s1 ans s3 e. refresh sample_argon2 sample_jwt sample_parser 15 sample_id_env sample_headers (Some ''a.x'')
        sample_id_state = (s1, Inr ans)
    \<and> refresh sample_argon2 sample_jwt sample_parser 15 sample_id_env sample_headers (Some ''a.x'') s1 = (s3, Inl e)
    \<and> error_status e = 401"
proof -
  let ?run = "refresh sample_argon2 sample_jwt sample_parser 15 sample_id_env sample_headers (Some ''a.x'')"
  have parse: "parse_refresh sample_parser ''a.x'' = Some (1, ''x'')"
    by (simp add: parse_refresh_def split_once_def sample_parser_def)
  have "\<exists>ans. ?run sample_id_state = (fst (?run sample_id_state), Inr ans)"
    by (simp add: refresh_def presented_body [OF parse] locate_refresh_def parse find_refresh_by_rotation_def
        row_of_rotation_def secret_matches_def verify_secret_def decide_def family_rows_def days_dur_def
        hours_dur_def FAMILY_MAX_DAYS_def nanos_per_sec_def rotate_session_def user_auth_meta_def get_user_def row_get_def
        rotate_def live_rotation_def refresh_insert_def revoke_rows_def first_row_def on_db_def in_db_def
        act_tx_def refresh_pair_def list_user_roles_def active_role_for_def act_bind_def Let_def
        sample_id_defs ensure_def read_db_def)
  then obtain ans where one: "?run sample_id_state = (fst (?run sample_id_state), Inr ans)" by blast
  obtain s3 res where two: "?run (fst (?run sample_id_state)) = (s3, res)" by fastforce
  have inv: "sess_inv (is_db sample_id_state)" using sample_sess_inv by (simp add: sample_id_state_def)
  obtain e where e: "res = Inl e" "error_status e = 401"
    using replayed_refresh_ends_session [where cmds = "[]", OF one _ inv _ _ two] by auto
  show ?thesis by (intro exI conjI) (rule one, rule two [unfolded e(1)], rule e(2))
qed

end
