(* ===== verification/Identity_Credential_Properties.thy ===== *)
theory Identity_Credential_Properties
  imports Identity_Properties
begin

text \<open>
  Changes of credentials: what every way to change them leaves behind, and what happens when the
  publications of two changes reach the cache in the other order.
\<close>

subsection \<open>The transactions\<close>

text \<open>
  What each transaction does to the tables: the version goes up, every session of the user is
  closed, and neither the accounts nor the sessions of others change.
\<close>

definition version_bumped :: "uuid \<Rightarrow> user_row \<Rightarrow> int \<Rightarrow> id_db \<Rightarrow> id_db \<Rightarrow> bool" where
  "version_bumped k u v db db' = (get_user db k = Some u \<and> v = next_revocation_version (us_trv u)
    \<and> (\<exists>u'. get_user db' k = Some u' \<and> us_trv u' = v) \<and> no_session k db'
    \<and> (\<forall>j. j \<noteq> k \<longrightarrow> get_user db' j = get_user db j
        \<and> sessions_of j (open_sessions db') = sessions_of j (open_sessions db)))"

lemma open_audit [simp]: "open_sessions (record_credential_event k a d db) = open_sessions db"
  by (simp add: open_sessions_def record_credential_event_def)

lemma bumped_rows:
  assumes "get_user db k = Some u" "us_trv u' = next_revocation_version (us_trv u)"
  shows "version_bumped k u (next_revocation_version (us_trv u)) db (revoke_user_rows k (put_user k u' db))"
proof -
  have "sessions_of j (open_sessions (revoke_user_rows k (put_user k u' db))) = sessions_of j (open_sessions db)"
    if "j \<noteq> k" for j
    using that by (simp add: open_revoke_user sessions_of_def spec_close_user_def)
      (metis (mono_tags, lifting) filter_cong)
  then show ?thesis using assms by (simp add: version_bumped_def)
qed

lemma bumped_audit: "version_bumped k u v db (record_credential_event j a d db') = version_bumped k u v db db'"
  by (simp add: version_bumped_def)

lemma revoke_all_bumps: "revoke_all env k db = Inr (v, db') \<Longrightarrow> \<exists>u. version_bumped k u v db db'"
  by (auto simp: revoke_all_def Let_def split: option.splits intro!: exI bumped_rows)

lemma delete_bumps: "soft_delete_and_redact env k db = Inr (v, db') \<Longrightarrow> \<exists>u. version_bumped k u v db db'"
  by (auto simp: soft_delete_and_redact_def Let_def live_user_Some_iff
      split: option.splits if_splits intro!: exI bumped_rows)

lemma set_password_bumps:
  "get_user db k = Some u \<Longrightarrow> set_password A env k pin u db = (v, db') \<Longrightarrow> version_bumped k u v db db'"
  by (auto simp: set_password_def Let_def bumped_rows)

lemma change_password_bumps:
  assumes "change_password A env k old pin db = Inr (v, db')"
  shows "\<exists>u. version_bumped k u v db db'"
proof -
  obtain u db1 where "get_user db k = Some u" "set_password A env k pin u db = (v, db1)"
      "db' = record_credential_event k ''password_changed'' None db1"
    using assms by (auto simp: change_password_def Let_def live_user_Some_iff res_bind_Inr_iff
        split: option.splits if_splits prod.splits)
  then have "version_bumped k u v db db'" by (simp add: bumped_audit set_password_bumps)
  then show ?thesis by blast
qed

lemma update_phone_bumps:
  assumes "update_user_phone env k phone db = Inr (v, db')"
  shows "\<exists>u. version_bumped k u v db db'"
proof -
  obtain u where u: "get_user db k = Some u" and v: "v = next_revocation_version (us_trv u)"
    and "db' = record_credential_event k ''phone_changed'' None (revoke_user_rows k (put_user k
      (u\<lparr>us_phone := phone, us_trv := v, us_updated_at := ie_tx_now env\<rparr>) db))"
    using assms by (auto simp: update_user_phone_def Let_def live_user_Some_iff split: option.splits if_splits)
  then have "version_bumped k u v db db'" by (simp add: bumped_audit bumped_rows)
  then show ?thesis by blast
qed

lemma find_user_get:
  assumes "find_user sel db = Some (k, u)" "distinct (row_keys (id_users db))"
  shows "get_user db k = Some u \<and> sel u"
  using find_user_Some [OF assms(1)] row_get_mem [OF assms(2), of k u] by (simp add: get_user_def)

lemma reset_bumps:
  assumes "reset_password_by_phone A env phone pin db = (Some (k, v), db')" "distinct (row_keys (id_users db))"
  shows "\<exists>u. version_bumped k u v db db' \<and> us_phone u = phone"
proof -
  obtain u db1 where u: "find_user (live_phone phone) db = Some (k, u)" "set_password A env k pin u db = (v, db1)"
      "db' = record_credential_event k ''pin_reset'' (Some ''via_otp'') db1"
    using assms(1) by (auto simp: reset_password_by_phone_def split: option.splits prod.splits)
  then show ?thesis
    using find_user_get [OF u(1) assms(2)] set_password_bumps [OF _ u(2)]
    by (auto simp: bumped_audit live_phone_def)
qed

subsection \<open>The calls\<close>

datatype credential_call =
    ChangePassword auth_user string string
  | ChangePhone auth_user string string
  | ResetPin string string
  | DeleteMe auth_user
  | RevokeAllSessions auth_user
  | InternalRevokeAll uuid
  | ReportCompromised envelope

definition no_answer :: "(id_state, 'a) act \<Rightarrow> (id_state, unit) act" where
  "no_answer m = act_bind m (\<lambda>_. act_return ())"

fun credential_run :: "argon2 \<Rightarrow> jwt_lib \<Rightarrow> id_env \<Rightarrow> credential_call \<Rightarrow> (id_state, unit) act" where
  "credential_run A J env (ChangePassword user old pin) = no_answer (api_change_password A env user old pin)"
| "credential_run A J env (ChangePhone user token pin) = no_answer (change_phone A J env user token pin)"
| "credential_run A J env (ResetPin token pin) = reset_pin A J env token pin"
| "credential_run A J env (DeleteMe user) = no_answer (delete_me env user)"
| "credential_run A J env (RevokeAllSessions user) = no_answer (revoke_all_sessions env user)"
| "credential_run A J env (InternalRevokeAll k) = internal_revoke_all env k"
| "credential_run A J env (ReportCompromised e) = consume_compromised env e"

text \<open>Whom a call is about: the caller, the user the event names, or the owner of the phone.\<close>

fun concerns :: "jwt_lib \<Rightarrow> instant \<Rightarrow> credential_call \<Rightarrow> uuid \<Rightarrow> user_row \<Rightarrow> bool" where
  "concerns J now (ChangePassword user old pin) k u = (k = au_id user)"
| "concerns J now (ChangePhone user token pin) k u = (k = au_id user)"
| "concerns J now (ResetPin token pin) k u = (\<exists>phone jti.
     decode_phone_verify_token J now token PIN_RESET_PURPOSE = Inr (phone, jti)
     \<and> validate_login_phone phone = Inr (us_phone u))"
| "concerns J now (DeleteMe user) k u = (k = au_id user)"
| "concerns J now (RevokeAllSessions user) k u = (k = au_id user)"
| "concerns J now (InternalRevokeAll j) k u = (k = j)"
| "concerns J now (ReportCompromised e) k u = (uuid_at (ev_payload e) ''user_id'' = Some k)"

definition is_credential_call :: "credential_call \<Rightarrow> bool" where
  "is_credential_call c = (case c of ReportCompromised e \<Rightarrow> ev_type e = USER_COMPROMISED_TOPIC | _ \<Rightarrow> True)"

definition published :: "id_state \<Rightarrow> id_state \<Rightarrow> uuid \<Rightarrow> user_row \<Rightarrow> bool" where
  "published s s' k u = (\<exists>v r. version_bumped k u v (is_db s) (is_db s') \<and> is_redis s' = mark_user_revoked k v r)"

lemma bump_then_publish:
  assumes "act_bind (on_db t) (\<lambda>v. publish_version env k v) s0 = (s', Inr x)"
    and "\<And>v db'. t (is_db s0) = Inr (v, db') \<Longrightarrow> \<exists>u. version_bumped k u v (is_db s0) db' \<and> P u"
    and "is_db s0 = is_db s"
  shows "\<exists>u. published s s' k u \<and> P u"
proof -
  obtain v db' where t: "t (is_db s0) = Inr (v, db')"
    and s': "s' = s0\<lparr>is_db := db', is_redis := mark_user_revoked k v (is_redis s0)\<rparr>"
    using assms(1) by (auto simp: act_bind_Inr_iff on_db_Inr_iff publish_Inr_iff)
  then show ?thesis using assms(2) [OF t] assms(3) by (auto simp: published_def)
qed

lemma no_answer_Inr: "no_answer m s = (s', Inr x) \<longleftrightarrow> (\<exists>y. m s = (s', Inr y))"
  by (auto simp: no_answer_def act_bind_Inr_iff)

lemma act_bind_return_Inr: "act_bind m (\<lambda>_. act_return y) s = (s', Inr x) \<longleftrightarrow> (\<exists>z. m s = (s', Inr z)) \<and> x = y"
  by (auto simp: act_bind_Inr_iff)

lemma publish_then_answer:
  "act_bind m (\<lambda>v. act_bind (publish_version env k v) (\<lambda>_. act_return y)) s = (s', Inr x) \<Longrightarrow>
    act_bind m (\<lambda>v. publish_version env k v) s = (s', Inr ())"
  by (auto simp: act_bind_Inr_iff)

lemma revoke_and_publish_published:
  "revoke_and_publish env k s = (s', Inr x) \<Longrightarrow> \<exists>u. published s s' k u"
  using bump_then_publish [where t = "revoke_all env k" and s = s and P = "\<lambda>_. True"] revoke_all_bumps
  unfolding revoke_and_publish_def by blast

lemma delete_me_published:
  assumes "delete_me env user s = (s', Inr x)"
  shows "\<exists>u. published s s' (au_id user) u"
proof -
  have "act_bind (on_db (soft_delete_and_redact env (au_id user))) (\<lambda>v. publish_version env (au_id user) v) s
      = (s', Inr ())"
    using assms unfolding delete_me_def by (rule publish_then_answer)
  from bump_then_publish [where P = "\<lambda>_. True" and s = s, OF this] show ?thesis using delete_bumps by blast
qed

lemma change_password_published:
  assumes "api_change_password A env user old pin s = (s', Inr x)"
  shows "\<exists>u. published s s' (au_id user) u"
proof -
  obtain s1 v where t: "throttled env (uuid_text (au_id user)) (on_db (change_password A env (au_id user) old pin)) s
      = (s1, Inr v)" and p: "publish_version env (au_id user) v s1 = (s', Inr ())"
    using assms by (auto simp: api_change_password_def with_stepup_throttle_def act_bind_Inr_iff split: sum.splits)
  obtain s0 where s0: "on_db (change_password A env (au_id user) old pin) s = (s0, Inr v)"
      "s1 = try_cache env (throttle_clear (uuid_text (au_id user))) s0"
    using throttled_Inr [OF t] by blast
  have "change_password A env (au_id user) old pin (is_db s) = Inr (v, is_db s0)"
    using s0(1) by (auto simp: on_db_Inr_iff)
  then obtain u where "version_bumped (au_id user) u v (is_db s) (is_db s0)" using change_password_bumps by blast
  then show ?thesis using p s0(2) by (auto simp: published_def publish_Inr_iff)
qed

lemma change_phone_run:
  assumes "change_phone A J env user token pin s = (s', Inr x)"
  obtains s1 phone0 jti phone v where
    "throttled env (uuid_text (au_id user)) (on_db (verify_self_password A (au_id user) pin)) s = (s1, Inr ())"
    "decode_phone_verify_token J (ie_now env) token PHONE_CHANGE_PURPOSE = Inr (phone0, jti)"
    "validate_login_phone phone0 = Inr phone"
    "marker_valid (r_get (ie_now env) (is_redis s1) (phone_verify_jti_key PHONE_CHANGE_PURPOSE jti))"
    "update_user_phone env (au_id user) phone (is_db s1) = Inr (v, is_db s')"
    "is_redis s' = mark_user_revoked (au_id user) v
       (r_del (phone_verify_jti_key PHONE_CHANGE_PURPOSE jti) (is_redis s1))"
proof -
  obtain s1 where t: "throttled env (uuid_text (au_id user)) (on_db (verify_self_password A (au_id user) pin)) s
      = (s1, Inr ())"
    and rest: "act_bind (act_of (decode_phone_verify_token J (ie_now env) token PHONE_CHANGE_PURPOSE)) (\<lambda>(phone0, jti).
    act_bind (act_of (validate_login_phone phone0)) (\<lambda>new_phone.
    act_bind (read_db (\<lambda>db. approved_account_exists_by_phone db new_phone)) (\<lambda>taken.
    act_bind (act_guard (\<not> taken) phone_taken_error) (\<lambda>_.
    act_bind (claim_token env (phone_verify_jti_key PHONE_CHANGE_PURPOSE jti) single_use_error) (\<lambda>_.
    act_bind (on_db (update_user_phone env (au_id user) new_phone)) (\<lambda>new_version.
    act_bind (publish_version env (au_id user) new_version) (\<lambda>_.
    act_return (signed_out ())))))))) s1 = (s', Inr x)"
    using assms unfolding change_phone_def with_stepup_throttle_def by (subst (asm) act_bind_Inr_iff) auto
  obtain phone0 jti where d: "decode_phone_verify_token J (ie_now env) token PHONE_CHANGE_PURPOSE = Inr (phone0, jti)"
    using rest by (cases "decode_phone_verify_token J (ie_now env) token PHONE_CHANGE_PURPOSE") auto
  obtain phone where ph: "validate_login_phone phone0 = Inr phone"
    using rest by (cases "validate_login_phone phone0") (auto simp: d)
  show ?thesis
    using rest that [OF t d ph]
    by (auto simp: d ph act_bind_Inr_iff claim_Inr_iff on_db_Inr_iff publish_Inr_iff split: if_splits)
qed

lemma change_phone_published:
  assumes "change_phone A J env user token pin s = (s', Inr x)"
  shows "\<exists>u. published s s' (au_id user) u"
proof -
  obtain s1 phone0 jti phone v where t: "throttled env (uuid_text (au_id user))
        (on_db (verify_self_password A (au_id user) pin)) s = (s1, Inr ())"
    and b: "update_user_phone env (au_id user) phone (is_db s1) = Inr (v, is_db s')"
    and p: "is_redis s' = mark_user_revoked (au_id user) v
       (r_del (phone_verify_jti_key PHONE_CHANGE_PURPOSE jti) (is_redis s1))"
    using change_phone_run [OF assms] by metis
  have "is_db s1 = is_db s"
    using throttled_Inr [OF t]
    by (auto simp: on_db_Inr_iff verify_self_password_def res_bind_Inr_iff split: option.splits if_splits)
  then show ?thesis using update_phone_bumps [OF b] p by (auto simp: published_def)
qed

lemma reset_pin_run:
  assumes "reset_pin A J env token pin s = (s', Inr x)"
  obtains phone0 jti phone k v where
    "decode_phone_verify_token J (ie_now env) token PIN_RESET_PURPOSE = Inr (phone0, jti)"
    "validate_login_phone phone0 = Inr phone"
    "marker_valid (r_get (ie_now env) (is_redis s) (phone_verify_jti_key PIN_RESET_PURPOSE jti))"
    "reset_password_by_phone A env phone pin (is_db s) = (Some (k, v), is_db s')"
    "is_redis s' = mark_user_revoked k v (r_del (phone_verify_jti_key PIN_RESET_PURPOSE jti) (is_redis s))"
    "validate_pin_hash pin = Inr ()"
  using assms
  by (auto simp: reset_pin_def act_bind_Inr_iff claim_Inr_iff on_db_Inr_iff publish_Inr_iff ensure_def
      split: prod.splits if_splits option.splits sum.splits)

lemma call_published:
  assumes "credential_run A J env c s = (s', Inr x)" "is_credential_call c"
    and "distinct (row_keys (id_users (is_db s)))"
  shows "\<exists>k u. published s s' k u \<and> concerns J (ie_now env) c k u"
proof (cases c)
  case (ChangePassword user old pin)
  then show ?thesis using assms(1) change_password_published by (fastforce simp: no_answer_Inr)
next
  case (ChangePhone user token pin)
  then show ?thesis using assms(1) change_phone_published by (fastforce simp: no_answer_Inr)
next
  case (ResetPin token pin)
  then have "reset_pin A J env token pin s = (s', Inr x)" using assms(1) by simp
  then obtain phone0 jti phone k v where r:
      "decode_phone_verify_token J (ie_now env) token PIN_RESET_PURPOSE = Inr (phone0, jti)"
      "validate_login_phone phone0 = Inr phone"
      "reset_password_by_phone A env phone pin (is_db s) = (Some (k, v), is_db s')"
      "is_redis s' = mark_user_revoked k v (r_del (phone_verify_jti_key PIN_RESET_PURPOSE jti) (is_redis s))"
    by (rule reset_pin_run)
  then show ?thesis using ResetPin reset_bumps [OF r(3) assms(3)] by (auto simp: published_def)
next
  case (DeleteMe user)
  then show ?thesis using assms(1) delete_me_published by (fastforce simp: no_answer_Inr)
next
  case (RevokeAllSessions user)
  then show ?thesis using assms(1) revoke_and_publish_published
    by (fastforce simp: no_answer_Inr revoke_all_sessions_def act_bind_return_Inr)
next
  case (InternalRevokeAll j)
  then show ?thesis using assms(1) revoke_and_publish_published by (fastforce simp: internal_revoke_all_def)
next
  case (ReportCompromised e)
  then obtain k where "uuid_at (ev_payload e) ''user_id'' = Some k" "revoke_and_publish env k s = (s', Inr x)"
    using assms(1,2) by (auto simp: consume_compromised_def is_credential_call_def split: option.splits)
  then show ?thesis using ReportCompromised revoke_and_publish_published by fastforce
qed

subsection \<open>Properties\<close>

text \<open>
  C18. Whichever way credentials are changed (a new password, a new phone, a PIN reset by OTP, erasing
  the account, signing out everywhere, an internal or reported compromise), when the call succeeds no
  refresh token of that user is live, and every access token issued to the user before it is refused,
  as long as the version counter is below its cap. Nobody else's account or sessions are touched.
\<close>
theorem credential_change_signs_out:
  assumes "credential_run A J env c s = (s', Inr ())" "is_credential_call c"
    and "distinct (row_keys (id_users (is_db s)))"
  shows "\<exists>k u. get_user (is_db s) k = Some u \<and> concerns J (ie_now env) c k u
    \<and> (\<forall>r \<in> set (id_refresh (is_db s')). rf_user r = k \<longrightarrow> rf_revoked r)
    \<and> (us_trv u < I32_MAX \<longrightarrow> (\<forall>now token claims. read_access J now token = Some claims
          \<and> jc_sub claims = k \<and> jc_trv claims \<le> us_trv u \<longrightarrow>
        authenticate_token J True now (is_redis s') token = Inl (Unauthorized ''Token has been revoked'')))
    \<and> (\<forall>j. j \<noteq> k \<longrightarrow> get_user (is_db s') j = get_user (is_db s) j
          \<and> sessions_of j (open_sessions (is_db s')) = sessions_of j (open_sessions (is_db s)))"
proof -
  obtain k u where p: "published s s' k u" and con: "concerns J (ie_now env) c k u"
    using call_published [OF assms] by blast
  obtain v r where b: "version_bumped k u v (is_db s) (is_db s')" and m: "is_redis s' = mark_user_revoked k v r"
    using p by (auto simp: published_def)
  have "authenticate_token J True now (is_redis s') token = Inl (Unauthorized ''Token has been revoked'')"
    if "us_trv u < I32_MAX" "read_access J now token = Some claims" "jc_sub claims = k" "jc_trv claims \<le> us_trv u"
    for now token claims
    unfolding m using that b
    by (intro published_refuses) (simp_all add: version_bumped_def next_revocation_version_def)
  then show ?thesis using b con unfolding version_bumped_def no_session_def by blast
qed

lemma credential_change_signs_out_witness:
  "\<exists>s' k u. credential_run sample_argon2 sample_jwt sample_id_env (InternalRevokeAll 7) sample_id_state = (s', Inr ())
    \<and> get_user sample_id_db k = Some u \<and> k = 7"
proof -
  let ?run = "credential_run sample_argon2 sample_jwt sample_id_env (InternalRevokeAll 7) sample_id_state"
  have run: "?run = (fst ?run, Inr ())"
    by (simp add: internal_revoke_all_def revoke_and_publish_def on_db_def in_db_def act_tx_def revoke_all_def
        get_user_def row_get_def publish_version_def on_cache_def act_bind_def Let_def sample_id_defs)
  have keys: "distinct (row_keys (id_users (is_db sample_id_state)))"
    by (simp add: sample_id_defs row_keys_def)
  have "\<exists>k u. get_user (is_db sample_id_state) k = Some u
      \<and> concerns sample_jwt (ie_now sample_id_env) (InternalRevokeAll 7) k u"
    using credential_change_signs_out [OF run _ keys] by (auto simp: is_credential_call_def)
  then show ?thesis using run by (auto simp: sample_id_state_def)
qed

text \<open>
  C39. The publication of a version is a plain overwrite, so it matters in which order two of them
  arrive. When a first change (a login, say) commits version \<open>v1\<close> and a second one (a PIN reset)
  commits \<open>v2\<close> after it, and the first publication arrives last because it was retried, an access
  token issued at \<open>v1\<close> is accepted although the second change ended it. Published in commit order
  the same token is refused.
\<close>
theorem late_publication_revives:
  assumes "revoke_all env1 k db = Inr (v1, db1)" "revoke_all env2 k db1 = Inr (v2, db2)" "v1 < I32_MAX"
    and "read_access J now token = Some claims" "jc_sub claims = k" "jc_trv claims = v1"
    and "r_get now r (revoked_jti_key (jc_jti claims)) = None"
  shows "authenticate_token J True now (mark_user_revoked k v1 (mark_user_revoked k v2 r)) token = Inr claims
    \<and> authenticate_token J True now (mark_user_revoked k v2 (mark_user_revoked k v1 r)) token
        = Inl (Unauthorized ''Token has been revoked'')"
proof -
  have "v2 = next_revocation_version v1"
    using assms(1,2) by (auto simp: revoke_all_def Let_def split: option.splits)
  then have "v1 < v2" using assms(3) by (simp add: next_revocation_version_def)
  moreover have "authenticate_token J True now (mark_user_revoked k v1 (mark_user_revoked k v2 r)) token = Inr claims"
    using assms(4-7) by (simp add: authenticate_token_Inr_iff mark_user_revoked_def current_trv_def)
  ultimately show ?thesis using assms(4-6) by (simp add: published_refuses)
qed

lemma late_publication_revives_witness:
  "\<exists>claims. authenticate_token sample_jwt True 0 (mark_user_revoked 7 4 (mark_user_revoked 7 5 (\<lambda>_. None)))
      (sign_access sample_jwt claims) = Inr claims"
proof -
  let ?c = "\<lparr>jc_sub = 7, jc_role = ''guard'', jc_exp = 10, jc_iat = 0, jc_iss = JWT_ISSUER, jc_aud = JWT_AUDIENCE,
    jc_jti = ''j'', jc_trv = 4\<rparr>"
  have one: "\<exists>db1. revoke_all sample_id_env 7 sample_id_db = Inr (4, db1)
      \<and> (\<exists>db2. revoke_all sample_id_env 7 db1 = Inr (5, db2))"
    by (simp add: revoke_all_def get_user_def row_get_def put_user_def row_put_def revoke_user_rows_def
        revoke_rows_def next_revocation_version_def I32_MAX_def Let_def sample_id_defs)
  have two: "read_access sample_jwt 0 (sign_access sample_jwt ?c) = Some ?c"
    using sample_jwt_ok unfolding jwt_ok_def by (simp add: timestamp_def)
  show ?thesis
    using one late_publication_revives [OF _ _ _ two, where k = 7 and ?v1.0 = 4 and ?v2.0 = 5 and r = "\<lambda>_. None"]
    by (fastforce simp: I32_MAX_def r_get_def r_live_def)
qed

end
