(* ===== verification/Identity_Account_Properties.thy ===== *)
theory Identity_Account_Properties
  imports Identity_Credential_Properties
begin

text \<open>
  Login and registration: how many wrong passwords can be tried, whom a login lets in and with what,
  and what a registration does with a token that was already used.
\<close>

text \<open>
  Whom a login lets in and with what, and what a registration does with a token that was used.
\<close>

subsection \<open>The throttle\<close>

lemma seconds_ns [simp]: "seconds n = n * nanos_per_sec"
  by (simp add: seconds_def)

text \<open>
  The state of a bucket after \<open>n\<close> failures in a row, the first at \<open>t1\<close>. The lock set by the \<open>n\<close>-th one
  lasts at least until \<open>lock_floor n\<close> half seconds after \<open>t1\<close>: every attempt waits for the one before
  it, up to the half second the time to live is rounded by.
\<close>

definition lock_floor :: "nat \<Rightarrow> int" where
  "lock_floor n = (if n = 5 then 120 else if n = 6 then 359 else if n = 7 then 838 else if n = 8 then 1797
     else if n = 9 then 3716 else 0)"

definition half_sec :: int where "half_sec = 500000000"

lemma nanos_half: "nanos_per_sec = 2 * half_sec"
  by (simp add: nanos_per_sec_def half_sec_def)

definition failing :: "string \<Rightarrow> nat \<Rightarrow> instant \<Rightarrow> redis \<Rightarrow> bool" where
  "failing b n t1 r = (r (login_fail_key b) = Some (RNum (int n), Some (t1 + 900 * nanos_per_sec))
    \<and> (5 \<le> n \<longrightarrow> (\<exists>v L. r (login_lock_key b) = Some (v, Some L) \<and> t1 + lock_floor n * half_sec \<le> L)))"

lemma locked_until:
  assumes "r (login_lock_key b) = Some (v, Some L)" "ie_up env" "ie_now env \<le> L - half_sec"
  shows "throttle_is_locked env b r"
proof -
  have half: "0 < half_sec" by (simp add: half_sec_def)
  have live: "ie_now env < L" using assms(3) half by simp
  have "2 * half_sec \<le> L - ie_now env + half_sec" using assms(3) by simp
  then have "1 \<le> (L - ie_now env + nanos_per_sec div 2) div nanos_per_sec"
    using half zdiv_mono1 [of "2 * half_sec" "L - ie_now env + half_sec" "2 * half_sec"] by (simp add: nanos_half)
  then show ?thesis using assms(1,2) live by (simp add: throttle_is_locked_def r_ttl_def r_live_def)
qed

lemma unlocked_after:
  assumes "failing b n t1 r" "5 \<le> n" "ie_up env" "\<not> throttle_is_locked env b r"
  shows "t1 + lock_floor n * half_sec - half_sec < ie_now env"
proof -
  obtain v L where L: "r (login_lock_key b) = Some (v, Some L)" "t1 + lock_floor n * half_sec \<le> L"
    using assms(1,2) by (auto simp: failing_def)
  have "L - half_sec < ie_now env"
    using locked_until [of r b v L env] L(1) assms(3,4) by (cases "ie_now env \<le> L - half_sec") simp_all
  then show ?thesis using L(2) by simp
qed

lemma first_failure:
  assumes "r_live (ie_now env) r (login_fail_key b) = None" "ie_up env"
  shows "failing b 1 (ie_now env) (throttle_record_failure env b r)"
  using assms by (simp add: throttle_record_failure_def r_incr_def r_add_def r_ttl_def r_live_def r_expire_def
      login_lock_None_iff LOGIN_FAIL_WINDOW_SECS_def failing_def login_lock_secs_def LOGIN_FAIL_THRESHOLD_def)

lemma next_failure:
  assumes f: "failing b n t1 r" and t: "ie_now env < t1 + 900 * nanos_per_sec" and n: "1 \<le> n"
    and L: "\<And>secs. login_lock_secs (int (Suc n)) = Some secs \<Longrightarrow>
      t1 + lock_floor (Suc n) * half_sec \<le> ie_now env + int secs * nanos_per_sec"
    and small: "Suc n < 5 \<longleftrightarrow> login_lock_secs (int (Suc n)) = None"
  shows "failing b (Suc n) t1 (throttle_record_failure env b r)"
proof -
  let ?k = "login_fail_key b"
  let ?r1 = "r(?k \<mapsto> (RNum (int (Suc n)), Some (t1 + 900 * nanos_per_sec)))"
  have inc: "r_incr (ie_now env) ?k r = Some (int (Suc n), ?r1)"
    using f t by (simp add: r_incr_def r_add_def r_live_def failing_def add.commute)
  have pos: "0 < nanos_per_sec" by (simp add: nanos_per_sec_def)
  have "0 \<le> (t1 + 900 * nanos_per_sec - ie_now env + nanos_per_sec div 2) div nanos_per_sec"
    using t pos by (intro pos_imp_zdiv_nonneg_iff [THEN iffD2]) (simp_all add: nanos_half half_sec_def)
  then have ttl: "\<not> r_ttl (ie_now env) ?r1 ?k < 0" using t by (simp add: r_ttl_def r_live_def)
  show ?thesis
  proof (cases "login_lock_secs (int (Suc n))")
    case None
    then have "throttle_record_failure env b r = ?r1"
      using ttl by (simp add: throttle_record_failure_def inc Let_def)
    then show ?thesis using None small by (simp add: failing_def)
  next
    case (Some secs)
    then have "throttle_record_failure env b r
        = r_set_ex (ie_now env) (login_lock_key b) (RText ''1'') (int secs) ?r1"
      using ttl by (simp add: throttle_record_failure_def inc Let_def)
    then show ?thesis using L [OF Some] by (simp add: failing_def r_set_ex_def)
  qed
qed

text \<open>Nine failures are the most a window has room for.\<close>

lemma failure_step:
  assumes f: "failing b n t1 r" and n: "1 \<le> n" and up: "ie_up env" and open_: "\<not> throttle_is_locked env b r"
    and t1: "t1 \<le> ie_now env" and t: "ie_now env < t1 + 900 * nanos_per_sec" and bound: "n \<le> 9"
  shows "n < 9 \<and> failing b (Suc n) t1 (throttle_record_failure env b r)"
proof -
  have h: "0 < half_sec" by (simp add: half_sec_def)
  have after: "5 \<le> n \<Longrightarrow> t1 + lock_floor n * half_sec - half_sec < ie_now env"
    using unlocked_after [OF f _ up open_] by blast
  have n9: "n \<noteq> 9"
  proof
    assume "n = 9"
    then have "t1 + 3716 * half_sec - half_sec < ie_now env" using after by (simp add: lock_floor_def)
    then show False using t h by (simp add: nanos_half)
  qed
  have "failing b (Suc n) t1 (throttle_record_failure env b r)"
  proof (rule next_failure [OF f t n])
    show "(Suc n < 5) = (login_lock_secs (int (Suc n)) = None)"
      by (auto simp: login_lock_None_iff)
  next
    fix secs assume secs: "login_lock_secs (int (Suc n)) = Some secs"
    consider "n < 4" | "n = 4" | "n = 5" | "n = 6" | "n = 7" | "n = 8" using bound n9 by linarith
    then show "t1 + lock_floor (Suc n) * half_sec \<le> ie_now env + int secs * nanos_per_sec"
    proof cases
      case 1
      then have "login_lock_secs (int (Suc n)) = None" by (simp add: login_lock_None_iff)
      then show ?thesis using secs by simp
    next
      case 2
      then show ?thesis using secs t1 login_lock_table(1) by (simp add: lock_floor_def nanos_half)
    next
      case 3
      then show ?thesis using secs after login_lock_table(2) by (simp add: lock_floor_def nanos_half)
    next
      case 4
      then show ?thesis using secs after login_lock_table(3) by (simp add: lock_floor_def nanos_half)
    next
      case 5
      then show ?thesis using secs after login_lock_table(4) by (simp add: lock_floor_def nanos_half)
    next
      case 6
      then show ?thesis using secs after login_lock_table(5) by (simp add: lock_floor_def nanos_half)
    qed
  qed
  then show ?thesis using n9 bound by simp
qed

text \<open>A login with a wrong password, seen by the bucket.\<close>

definition wrong_password :: "argon2 \<Rightarrow> string \<Rightarrow> string \<Rightarrow> id_db \<Rightarrow> bool" where
  "wrong_password A identifier pw db = (pw \<noteq> [] \<and> verify_credentials A db (trim identifier) pw = Inl invalid_credentials)"

lemma invalid_is_unauthorized [simp]: "is_unauthorized invalid_credentials"
  by (simp add: is_unauthorized_def invalid_credentials_def)

lemma wrong_login:
  assumes "wrong_password A identifier pw (is_db s)" "trim identifier \<noteq> []"
  shows "login A J expiry env hdr identifier pw s =
    (if throttle_is_locked env (login_bucket (is_db s) (trim identifier)) (is_redis s) then (s, Inl invalid_credentials)
     else (try_cache env (throttle_record_failure env (login_bucket (is_db s) (trim identifier))) s,
       Inl invalid_credentials))"
  using assms by (simp add: login_def wrong_password_def throttled_def act_bind_def ensure_def Let_def read_db_def)

fun compared :: "argon2 \<Rightarrow> jwt_lib \<Rightarrow> int \<Rightarrow> id_headers \<Rightarrow> string \<Rightarrow> (id_env \<times> string) list \<Rightarrow> id_state \<Rightarrow> nat" where
  "compared A J expiry hdr identifier [] s = 0"
| "compared A J expiry hdr identifier ((env, pw) # tries) s =
    (if throttle_is_locked env (login_bucket (is_db s) (trim identifier)) (is_redis s) then 0 else 1)
    + compared A J expiry hdr identifier tries (fst (login A J expiry env hdr identifier pw s))"

definition try_ok :: "argon2 \<Rightarrow> string \<Rightarrow> id_db \<Rightarrow> instant \<Rightarrow> id_env \<times> string \<Rightarrow> bool" where
  "try_ok A identifier db t0 tr = (ie_up (fst tr) \<and> wrong_password A identifier (snd tr) db
    \<and> t0 \<le> ie_now (fst tr) \<and> ie_now (fst tr) < t0 + 900 * nanos_per_sec)"

lemma compared_failing:
  assumes "trim identifier \<noteq> []" "t0 \<le> t1"
  shows "list_all (try_ok A identifier (is_db s) t0) tries \<Longrightarrow> sorted (map (\<lambda>tr. ie_now (fst tr)) tries) \<Longrightarrow>
    (\<forall>tr \<in> set tries. t1 \<le> ie_now (fst tr)) \<Longrightarrow> 1 \<le> n \<Longrightarrow> n \<le> 9 \<Longrightarrow>
    failing (login_bucket (is_db s) (trim identifier)) n t1 (is_redis s) \<Longrightarrow>
    compared A J expiry hdr identifier tries s \<le> 9 - n"
proof (induction tries arbitrary: s n)
  case Nil
  then show ?case by simp
next
  case (Cons tr tries)
  obtain env pw where tr: "tr = (env, pw)" by (cases tr)
  let ?b = "login_bucket (is_db s) (trim identifier)"
  have ok: "ie_up env" "wrong_password A identifier pw (is_db s)" "t1 \<le> ie_now env"
      "ie_now env < t1 + 900 * nanos_per_sec"
    using Cons.prems(1,3) assms(2) tr by (auto simp: try_ok_def)
  note run = wrong_login [OF ok(2) assms(1), of J expiry env hdr]
  show ?case
  proof (cases "throttle_is_locked env ?b (is_redis s)")
    case True
    then show ?thesis using Cons.IH [of s n] Cons.prems run by (simp add: tr)
  next
    case False
    let ?s1 = "s\<lparr>is_redis := throttle_record_failure env ?b (is_redis s)\<rparr>"
    have step: "n < 9 \<and> failing ?b (Suc n) t1 (throttle_record_failure env ?b (is_redis s))"
      by (rule failure_step [OF Cons.prems(6,4) ok(1) False ok(3,4) Cons.prems(5)])
    have "compared A J expiry hdr identifier tries ?s1 \<le> 9 - Suc n"
      using Cons.IH [of ?s1 "Suc n"] Cons.prems step by simp
    moreover have "compared A J expiry hdr identifier (tr # tries) s = 1 + compared A J expiry hdr identifier tries ?s1"
      using run False ok(1) by (simp add: tr try_cache_def)
    ultimately show ?thesis using step by linarith
  qed
qed



subsection \<open>A successful login\<close>

lemma issue_login_tokens_Inr:
  assumes "issue_login_tokens A J expiry env k role trv hdr s = (s', Inr ans)"
  obtains active v s1 where
    "active_role_for role (list_user_roles (is_db s) k) = Some active"
    "login_version env k active trv s = (s1, Inr v)"
    "is_db s' = fst (create_refresh_family A env k active (device_context hdr) (is_db s1))"
    "is_redis s' = is_redis s1"
    "wc_body ans = LoggedIn \<lparr>tk_access = fst (encode_jwt_with_key J (ie_now env) (ie_access_jti env) k
        (role_text active) v expiry),
      tk_refresh = assemble (ie_rotation env) (uuid_text (ie_secret env)), tk_expires_in = expiry * 60\<rparr>
      (list_user_roles (is_db s) k)"
proof -
  obtain active where a: "active_role_for role (list_user_roles (is_db s) k) = Some active"
    using assms by (cases "active_role_for role (list_user_roles (is_db s) k)") (auto simp: issue_login_tokens_def)
  obtain v s1 where v: "login_version env k active trv s = (s1, Inr v)"
    and rest: "act_bind (in_db (create_refresh_family A env k active (device_context hdr))) (\<lambda>refresh.
        act_return (login_answer \<lparr>tk_access = fst (encode_jwt_with_key J (ie_now env) (ie_access_jti env) k
            (role_text active) v expiry), tk_refresh = refresh, tk_expires_in = expiry * 60\<rparr>
          (list_user_roles (is_db s) k))) s1 = (s', Inr ans)"
    using assms by (auto simp: issue_login_tokens_def a act_bind_Inr_iff Let_def)
  obtain token where t: "in_db (create_refresh_family A env k active (device_context hdr)) s1 = (s', Inr token)"
    and ans: "ans = login_answer \<lparr>tk_access = fst (encode_jwt_with_key J (ie_now env) (ie_access_jti env) k
            (role_text active) v expiry), tk_refresh = token, tk_expires_in = expiry * 60\<rparr>
          (list_user_roles (is_db s) k)"
    using rest by (auto simp: act_bind_Inr_iff)
  have db: "create_refresh_family A env k active (device_context hdr) (is_db s1) = (is_db s', Inr token)"
    and r: "is_redis s' = is_redis s1"
    using t by (auto simp: in_db_def Let_def split: prod.splits)
  have "token = assemble (ie_rotation env) (uuid_text (ie_secret env))"
    using db by (auto simp: create_refresh_family_def issue_refresh_def act_tx_Inr_iff refresh_insert_def Let_def
        split: if_splits)
  then show ?thesis using that [OF a v _ r] db ans by (simp add: login_answer_def)
qed

lemma active_role_enrolled:
  "active_role_for role roles = Some active \<Longrightarrow> (roles \<noteq> [] \<longrightarrow> active \<in> set roles) \<and> (roles = [] \<longrightarrow> active = role)"
  by (auto simp: active_role_for_def split: if_splits)

lemma login_version_Inr:
  assumes "login_version env k active trv s = (s1, Inr v)"
  shows "(active = RoleAdmin \<and> v = trv \<and> s1 = s) \<or>
    (active \<noteq> RoleAdmin \<and> revoke_all env k (is_db s) = Inr (v, is_db s1)
      \<and> is_redis s1 = (if ie_up env then mark_user_revoked k v (is_redis s) else is_redis s))"
proof (cases "active = RoleAdmin")
  case True
  then show ?thesis using assms by (simp add: login_version_def)
next
  case False
  then obtain db where "revoke_all env k (is_db s) = Inr (v, db)"
      "s1 = try_cache env (mark_user_revoked k v) (s\<lparr>is_db := db\<rparr>)"
    using assms by (auto simp: login_version_def act_bind_Inr_iff on_db_Inr_iff)
  then show ?thesis using False by (simp add: try_cache_def)
qed

text \<open>After everything of a user was closed, a new session is the user's only one.\<close>

lemma only_session:
  assumes "sess_inv db" "no_session k db" "unused_rotation (ie_rotation env) db" "unused_family (ie_family env) db"
  shows "sessions_of k (open_sessions (fst (create_refresh_family A env k role dev db)))
    = [\<lparr>se_user = k, se_family = ie_family env, se_rotation = ie_rotation env, se_since = ie_tx_now env\<rparr>]"
proof -
  have "sessions_of k (open_sessions db) = []" using assms(2) by (simp add: no_session_open)
  then have "sessions_of k (spec_evict k (open_sessions db)) = []"
    using sessions_of_filter [of k _ "open_sessions db"] by (simp add: spec_evict_def)
  then show ?thesis
    using open_simulates(1) [OF assms(1,3,4)] by (simp add: spec_open_def sessions_of_def)
qed


lemma sample_trim: "trim ''0812345678'' = ''0812345678''"
  by (simp add: trim_def strip.simps [of ws_prefix "''0812345678''"] strip.simps [of ws_suffix "''8765432180''"]
      ws_prefix_def ws_suffix_def ws1_def ws2_def ws3_def byte_of_def)

lemma sample_login:
  "\<exists>s' ans pair roles. login sample_argon2 sample_jwt 15 sample_id_env sample_headers ''0812345678'' ''pw'' sample_id_state
      = (s', Inr ans) \<and> wc_body ans = LoggedIn pair roles"
proof -
  have v: "verify_credentials sample_argon2 sample_id_db ''0812345678'' ''pw''
      = Inr \<lparr>ar_user = 7, ar_role = RoleGuard, ar_trv = 3\<rparr>"
    by (simp add: verify_credentials_def find_user_def matches_identifier_def verify_secret_def sample_id_defs Let_def)
  show ?thesis
    by (simp add: login_def sample_trim throttled_def act_bind_run Let_def read_db_def ensure_def
        throttle_is_locked_def r_ttl_def r_live_def v sample_id_state_def totp_enabled_for_user_def get_user_def row_get_def)
      (simp add: issue_login_tokens_def read_db_def act_bind_run try_cache_def list_user_roles_def active_role_for_def
        login_version_def on_db_def in_db_def act_tx_def revoke_all_def get_user_def row_get_def Let_def login_answer_def
        put_user_def row_put_def revoke_user_rows_def revoke_rows_def live_of_user_def create_refresh_family_def
        issue_refresh_def refresh_insert_def enforce_session_cap_def evictable_def MAX_SESSIONS_PER_USER_def
        sample_id_defs)
qed


subsection \<open>Registration with a used token\<close>

text \<open>
  A registration checks that its phone token was not used before only after it has written the
  account. So whoever presents a token that was already used is refused, but the pending (or rejected)
  account of that phone now has the password and the role of the refused request, and is pending.
\<close>
theorem used_token_still_writes:
  assumes "validate_registration_role role_field = Inr role" "validate_pin_hash pin = Inr ()"
    and "decode_phone_verify_token J (ie_now env) token PHONE_VERIFY_PURPOSE = Inr (phone0, jti)"
    and "validate_login_phone phone0 = Inr phone"
    and "find_user (\<lambda>u. us_phone u = phone) (is_db s) = Some (k, u)"
    and "us_approval u \<in> {ApprovalPending, ApprovalRejected}"
    and used: "\<not> marker_valid (r_get (ie_now env) (is_redis s) (phone_verify_jti_key PHONE_VERIFY_PURPOSE jti))"
  shows "(\<exists>e. snd (register A J env token role_field pin s) = Inl e)
    \<and> get_user (is_db (fst (register A J env token role_field pin s))) k
      = Some (u\<lparr>us_password_hash := ph_hash A (ie_salt env) pin, us_role := role,
          us_approval := ApprovalPending, us_updated_at := ie_tx_now env\<rparr>)"
proof -
  let ?u = "u\<lparr>us_password_hash := ph_hash A (ie_salt env) pin, us_role := role, us_approval := ApprovalPending,
    us_updated_at := ie_tx_now env\<rparr>"
  let ?s1 = "s\<lparr>is_db := put_user k ?u (is_db s)\<rparr>"
  let ?key = "phone_verify_jti_key PHONE_VERIFY_PURPOSE jti"
  have w: "on_db (upsert_pending_user A env phone role pin) s = (?s1, Inr k)"
    using assms(5,6) by (simp add: on_db_def in_db_def act_tx_def upsert_pending_user_def Let_def)
  have b: "act_bind (on_db (upsert_pending_user A env phone role pin)) g s = g k ?s1" for g :: "uuid \<Rightarrow> (id_state, register_result) act"
    using w by (simp add: act_bind_def)
  have r: "register A J env token role_field pin s
      = act_bind (claim_token env ?key single_use_error) (\<lambda>_. issue_profile_token J env k role) ?s1"
    using assms(1-4) by (simp add: register_def b)
  obtain e where e: "snd (claim_token env ?key single_use_error ?s1) = Inl e"
      "is_db (fst (claim_token env ?key single_use_error ?s1)) = is_db ?s1"
    using claim_used [of env ?s1 ?key single_use_error] used by auto
  then show ?thesis unfolding r by (simp add: act_bind_run)
qed

definition pending_state :: id_state where
  "pending_state = sample_id_state\<lparr>is_db := sample_id_db\<lparr>id_users :=
     [(7, sample_user\<lparr>us_approval := ApprovalPending\<rparr>)]\<rparr>\<rparr>"

lemma used_token_still_writes_witness:
  "\<exists>token u. get_user (is_db (fst (register sample_argon2 sample_jwt sample_id_env token ''guard''
      (replicate 64 (CHR ''0'')) pending_state))) 7 = Some u \<and> us_password_hash u = replicate 64 (CHR ''0'')"
proof -
  let ?c = "\<lparr>pv_phone = ''0812345678'', pv_purpose = PHONE_VERIFY_PURPOSE, pv_jti = ''j'', pv_exp = 10, pv_iat = 0\<rparr>"
  have d: "decode_phone_verify_token sample_jwt (ie_now sample_id_env) (sign_phone sample_jwt ?c) PHONE_VERIFY_PURPOSE
      = Inr (''0812345678'', ''j'')"
    using sample_jwt_ok by (simp add: jwt_ok_def decode_phone_verify_token_def timestamp_def sample_id_env_def
        nanos_per_sec_def)
  have role: "validate_registration_role ''guard'' = Inr RoleGuard"
    using role_wire.parse_as_str [of RoleGuard] by (simp add: validate_registration_role_def)
  have pin: "validate_pin_hash (replicate 64 (CHR ''0'')) = Inr ()"
    by (simp add: validate_pin_hash_def ensure_def list_all_iff is_ascii_hex_def is_ascii_digit_def byte_of_def)
  have phone: "validate_login_phone ''0812345678'' = Inr ''0812345678''"
    by (simp add: validate_login_phone_def ascii_digits_def is_ascii_digit_def byte_of_def starts_with_def Let_def)
  have f: "find_user (\<lambda>u. us_phone u = ''0812345678'') (is_db pending_state)
      = Some (7, sample_user\<lparr>us_approval := ApprovalPending\<rparr>)"
    by (simp add: find_user_def pending_state_def sample_user_def)
  have m: "\<not> marker_valid (r_get (ie_now sample_id_env) (is_redis pending_state)
      (phone_verify_jti_key PHONE_VERIFY_PURPOSE ''j''))"
    by (simp add: pending_state_def sample_id_state_def r_get_def r_live_def marker_valid_def)
  show ?thesis
    using used_token_still_writes [OF role pin d phone f _ m, of sample_argon2]
    by (fastforce simp: sample_argon2_def)
qed

end
