(* ===== verification/Profile_Repo.thy ===== *)
theory Profile_Repo
  imports Shared_Events Shared_Tokens Profile_Validate "HOL-Library.List_Lexorder" "HOL-Library.Char_ord"
begin

text \<open>
  The tables of the profile service and the statements on them (\<open>services/profile/src/repo/mod.rs\<close>),
  with the rules of approval, documents and masking (\<open>domain/approval.rs\<close>, \<open>documents.rs\<close>, \<open>mask.rs\<close>).
  Texts the rules look into are texts of Unicode scalar values; the others are bytes. A date is its
  number of days. The object keys of a profile are kept by the name of their column.
\<close>

subsection \<open>Rules\<close>

fun can_transition :: "approval_status \<Rightarrow> approval_status \<Rightarrow> bool" where
  "can_transition ApprovalPending ApprovalApproved = True"
| "can_transition ApprovalPending ApprovalRejected = True"
| "can_transition _ _ = False"

definition MASK_CHAR :: uchar where "MASK_CHAR = 42"

definition mask_account_number :: "utext \<Rightarrow> utext" where
  "mask_account_number s =
    (if 4 < length s then replicate (length s - 4) MASK_CHAR @ drop (length s - 4) s else s)"

definition looks_masked :: "utext option \<Rightarrow> bool" where
  "looks_masked v = (case v of None \<Rightarrow> False | Some s \<Rightarrow> MASK_CHAR \<in> set s)"

definition MAX_DOCUMENT_SIZE :: nat where "MAX_DOCUMENT_SIZE = 10 * 1024 * 1024"

definition ALLOWED_DOCUMENT_MIME_TYPES :: "string list" where
  "ALLOWED_DOCUMENT_MIME_TYPES = [''image/jpeg'', ''image/png'', ''image/webp'']"

definition mime_to_extension :: "string \<Rightarrow> string" where
  "mime_to_extension mime_type =
    (if mime_type = ''image/jpeg'' then ''jpg'' else if mime_type = ''image/png'' then ''png''
     else if mime_type = ''image/webp'' then ''webp'' else ''bin'')"

definition detect_image_mime :: "string \<Rightarrow> string option" where
  "detect_image_mime data = (let b = map byte_of data in
    if take 3 b = [255, 216, 255] then Some ''image/jpeg''
    else if take 8 b = [137, 80, 78, 71, 13, 10, 26, 10] then Some ''image/png''
    else if 12 \<le> length b \<and> take 4 data = ''RIFF'' \<and> take 4 (drop 8 data) = ''WEBP'' then Some ''image/webp''
    else None)"

definition validate_document_upload :: "string \<Rightarrow> nat \<Rightarrow> string \<Rightarrow> string app_result" where
  "validate_document_upload declared_mime file_size data =
    (if declared_mime \<notin> set ALLOWED_DOCUMENT_MIME_TYPES
     then Inl (BadRequest ''Unsupported document type: {declared_mime}. Allowed: JPEG, PNG, WEBP'')
     else if MAX_DOCUMENT_SIZE < file_size
     then Inl (BadRequest ''Document too large: {file_size} bytes (max {max_mb}MB)'')
     else case detect_image_mime data of
       None \<Rightarrow> Inl (BadRequest ''Document content does not match any allowed image format'')
     | Some detected \<Rightarrow>
         if detected \<noteq> declared_mime
         then Inl (BadRequest ''MIME mismatch: declared {declared_mime} but content is {detected}'')
         else Inr detected)"

definition key_column_for :: "string \<Rightarrow> string option" where
  "key_column_for document_type =
    (if document_type \<in> {''id_card'', ''security_license'', ''training_cert'', ''criminal_check'',
        ''driver_license'', ''passbook_photo''}
     then Some (document_type @ ''_key'') else None)"

definition EXPIRING_DOCUMENT_TYPES :: "string list" where
  "EXPIRING_DOCUMENT_TYPES = [''id_card'', ''security_license'', ''training_cert'', ''criminal_check'', ''driver_license'']"

subsection \<open>Rows\<close>

record guard_fields =
  gf_full_name :: "utext option"
  gf_gender :: "utext option"
  gf_date_of_birth :: "int option"
  gf_years :: "int option"
  gf_previous_workplace :: "utext option"
  gf_bank_name :: "utext option"
  gf_account_number :: "utext option"
  gf_account_name :: "utext option"
  gf_tax_id :: "utext option"
  gf_address :: "utext option"
  gf_emergency_name :: "utext option"
  gf_emergency_phone :: "utext option"
  gf_emergency_relationship :: "utext option"

datatype recruit_stage = Sourcing | Screened | DocsVerified

record guard_row =
  gw_fields :: guard_fields
  gw_approval :: approval_status
  gw_stage :: recruit_stage
  gw_keys :: "string \<Rightarrow> string option"
  gw_created_at :: instant
  gw_updated_at :: instant
  gw_reviewed_at :: "instant option"

record customer_fields =
  cf_full_name :: "utext option"
  cf_address :: "utext option"
  cf_company_name :: "utext option"
  cf_email :: "utext option"
  cf_contact_phone :: "utext option"

record customer_row =
  cw_fields :: customer_fields
  cw_approval :: approval_status
  cw_keys :: "string \<Rightarrow> string option"
  cw_created_at :: instant
  cw_updated_at :: instant

record assignment_row =
  as_customer :: "uuid option"
  as_guard :: "uuid option"
  as_active :: bool
  as_updated_at :: instant

record expiry_row =
  ex_id :: uuid
  ex_date :: int
  ex_reminded_at :: "instant option"
  ex_updated_at :: instant

record access_row =
  ac_by :: uuid
  ac_action :: string
  ac_target :: "string option"
  ac_at :: instant

record org_row =
  or_company_name :: "utext option"
  or_tax_id :: "utext option"
  or_address :: "utext option"
  or_updated_by :: uuid
  or_updated_at :: instant

record ticket_row =
  ti_user :: uuid
  ti_kind :: utext
  ti_message :: utext
  ti_status :: string
  ti_created_at :: instant

record profile_db =
  pd_guards :: "(uuid, guard_row) table"
  pd_customers :: "(uuid, customer_row) table"
  pd_assignments :: "(uuid, assignment_row) table"
  pd_expiries :: "(uuid \<times> string, expiry_row) table"
  pd_audit :: "access_row list"
  pd_outbox :: "outbox_row list"
  pd_org :: "org_row option"
  pd_tickets :: "(uuid, ticket_row) table"

definition guard_of :: "profile_db \<Rightarrow> uuid \<Rightarrow> guard_row option" where
  "guard_of db k = row_get (pd_guards db) k"

definition put_guard :: "uuid \<Rightarrow> guard_row \<Rightarrow> profile_db \<Rightarrow> profile_db" where
  "put_guard k g db = db\<lparr>pd_guards := row_put k g (pd_guards db)\<rparr>"

definition customer_of :: "profile_db \<Rightarrow> uuid \<Rightarrow> customer_row option" where
  "customer_of db k = row_get (pd_customers db) k"

definition put_customer :: "uuid \<Rightarrow> customer_row \<Rightarrow> profile_db \<Rightarrow> profile_db" where
  "put_customer k c db = db\<lparr>pd_customers := row_put k c (pd_customers db)\<rparr>"

lemma get_put_guard [simp]: "guard_of (put_guard k g db) j = (if j = k then Some g else guard_of db j)"
  by (simp add: guard_of_def put_guard_def)

lemma get_put_customer [simp]: "customer_of (put_customer k c db) j = (if j = k then Some c else customer_of db j)"
  by (simp add: customer_of_def put_customer_def)

lemma put_guard_frame [simp]:
  "customer_of (put_guard k g db) j = customer_of db j" "pd_assignments (put_guard k g db) = pd_assignments db"
  "pd_audit (put_guard k g db) = pd_audit db" "pd_outbox (put_guard k g db) = pd_outbox db"
  "pd_expiries (put_guard k g db) = pd_expiries db" "pd_org (put_guard k g db) = pd_org db"
  "pd_tickets (put_guard k g db) = pd_tickets db"
  by (simp_all add: put_guard_def customer_of_def)

lemma put_customer_frame [simp]:
  "guard_of (put_customer k c db) j = guard_of db j" "pd_assignments (put_customer k c db) = pd_assignments db"
  "pd_audit (put_customer k c db) = pd_audit db" "pd_outbox (put_customer k c db) = pd_outbox db"
  "pd_expiries (put_customer k c db) = pd_expiries db" "pd_org (put_customer k c db) = pd_org db"
  "pd_tickets (put_customer k c db) = pd_tickets db"
  by (simp_all add: put_customer_def guard_of_def)

lemma other_tables_frame [simp]:
  "guard_of (db\<lparr>pd_audit := a\<rparr>) k = guard_of db k" "customer_of (db\<lparr>pd_audit := a\<rparr>) k = customer_of db k"
  "guard_of (db\<lparr>pd_outbox := b\<rparr>) k = guard_of db k" "customer_of (db\<lparr>pd_outbox := b\<rparr>) k = customer_of db k"
  "guard_of (db\<lparr>pd_expiries := e\<rparr>) k = guard_of db k" "customer_of (db\<lparr>pd_expiries := e\<rparr>) k = customer_of db k"
  "guard_of (db\<lparr>pd_assignments := f\<rparr>) k = guard_of db k" "customer_of (db\<lparr>pd_assignments := f\<rparr>) k = customer_of db k"
  "guard_of (db\<lparr>pd_org := g\<rparr>) k = guard_of db k" "customer_of (db\<lparr>pd_org := g\<rparr>) k = customer_of db k"
  "guard_of (db\<lparr>pd_tickets := h\<rparr>) k = guard_of db k" "customer_of (db\<lparr>pd_tickets := h\<rparr>) k = customer_of db k"
  by (simp_all add: guard_of_def customer_of_def)

subsection \<open>Guard profiles\<close>

text \<open>What a reader of a guard's profile gets.\<close>

record guard_response =
  gp_user :: uuid
  gp_fields :: guard_fields
  gp_approval :: approval_status

definition into_guard_response :: "uuid \<Rightarrow> guard_row \<Rightarrow> guard_response" where
  "into_guard_response k g = \<lparr>gp_user = k, gp_fields = gw_fields g, gp_approval = gw_approval g\<rparr>"

definition coalesce :: "'a option \<Rightarrow> 'a option \<Rightarrow> 'a option" where
  "coalesce a b = (case a of Some x \<Rightarrow> Some x | None \<Rightarrow> b)"

definition new_guard :: "instant \<Rightarrow> guard_fields \<Rightarrow> guard_row" where
  "new_guard now form = \<lparr>gw_fields = form, gw_approval = ApprovalPending, gw_stage = Screened,
     gw_keys = (\<lambda>_. None), gw_created_at = now, gw_updated_at = now, gw_reviewed_at = None\<rparr>"

text \<open>Every field is overwritten but the tax id, which an omitted one leaves as it was.\<close>

definition write_fields :: "instant \<Rightarrow> guard_fields \<Rightarrow> guard_row \<Rightarrow> guard_row" where
  "write_fields now form g = g\<lparr>gw_fields := form\<lparr>gf_tax_id := coalesce (gf_tax_id form) (gf_tax_id (gw_fields g))\<rparr>,
     gw_updated_at := now\<rparr>"

definition years_column_ok :: "guard_fields \<Rightarrow> bool" where
  "years_column_ok form = (case gf_years form of None \<Rightarrow> True | Some y \<Rightarrow> 0 \<le> y \<and> y \<le> 80)"

definition guard_profile_missing :: app_error where "guard_profile_missing = NotFound ''Guard profile not found''"

definition upsert_guard_profile :: "call_env \<Rightarrow> uuid \<Rightarrow> guard_fields \<Rightarrow> profile_db \<Rightarrow> (guard_response \<times> profile_db) app_result" where
  "upsert_guard_profile env k form db =
    (if \<not> years_column_ok form then Inl (Database ''23514'')
     else let g = (case guard_of db k of
            None \<Rightarrow> new_guard (tx_now env) form
          | Some old \<Rightarrow> write_fields (tx_now env) form old)
        in Inr (into_guard_response k g, put_guard k g db))"

definition update_guard_profile :: "call_env \<Rightarrow> uuid \<Rightarrow> guard_fields \<Rightarrow> profile_db \<Rightarrow> (guard_response \<times> profile_db) app_result" where
  "update_guard_profile env k form db = (case guard_of db k of
     None \<Rightarrow> Inl guard_profile_missing
   | Some old \<Rightarrow>
     if \<not> years_column_ok form then Inl (Database ''23514'')
     else let g = write_fields (tx_now env) form old in Inr (into_guard_response k g, put_guard k g db))"

record payout_fields =
  py_tax_id :: "utext option"
  py_bank_name :: "utext option"
  py_account_number :: "utext option"
  py_account_name :: "utext option"

definition update_guard_payout_fields :: "call_env \<Rightarrow> uuid \<Rightarrow> payout_fields \<Rightarrow> profile_db \<Rightarrow> (guard_response \<times> profile_db) app_result" where
  "update_guard_payout_fields env k req db = (case guard_of db k of
     None \<Rightarrow> Inl guard_profile_missing
   | Some old \<Rightarrow>
     let f = gw_fields old;
         g = old\<lparr>gw_fields := f\<lparr>gf_tax_id := coalesce (py_tax_id req) (gf_tax_id f),
               gf_bank_name := coalesce (py_bank_name req) (gf_bank_name f),
               gf_account_number := coalesce (py_account_number req) (gf_account_number f),
               gf_account_name := coalesce (py_account_name req) (gf_account_name f)\<rparr>,
             gw_updated_at := tx_now env\<rparr>
     in Inr (into_guard_response k g, put_guard k g db))"

definition get_guard_profile :: "profile_db \<Rightarrow> uuid \<Rightarrow> guard_response option" where
  "get_guard_profile db k = map_option (into_guard_response k) (guard_of db k)"

record public_guard_row =
  pg_user :: uuid
  pg_full_name :: "utext option"
  pg_years :: "int option"
  pg_avatar_key :: "string option"

definition AVATAR_KEY_COLUMN :: string where "AVATAR_KEY_COLUMN = ''avatar_key''"

definition public_guard_profile :: "profile_db \<Rightarrow> uuid \<Rightarrow> public_guard_row option" where
  "public_guard_profile db k = (case guard_of db k of
     None \<Rightarrow> None
   | Some g \<Rightarrow> if gw_approval g = ApprovalApproved
       then Some \<lparr>pg_user = k, pg_full_name = gf_full_name (gw_fields g), pg_years = gf_years (gw_fields g),
         pg_avatar_key = gw_keys g AVATAR_KEY_COLUMN\<rparr>
       else None)"

record public_customer_row =
  pc_user :: uuid
  pc_full_name :: "utext option"
  pc_avatar_key :: "string option"

definition public_customer_profile :: "profile_db \<Rightarrow> uuid \<Rightarrow> public_customer_row option" where
  "public_customer_profile db k = map_option (\<lambda>c. \<lparr>pc_user = k, pc_full_name = cf_full_name (cw_fields c),
     pc_avatar_key = cw_keys c AVATAR_KEY_COLUMN\<rparr>) (customer_of db k)"

record name_row =
  nr_user :: uuid
  nr_full_name :: "utext option"
  nr_role :: string

definition resolve_names :: "profile_db \<Rightarrow> uuid list \<Rightarrow> name_row list" where
  "resolve_names db ids =
    map (\<lambda>(k, g). \<lparr>nr_user = k, nr_full_name = gf_full_name (gw_fields g), nr_role = ''guard''\<rparr>)
      (filter (\<lambda>(k, _). k \<in> set ids) (pd_guards db))
    @ map (\<lambda>(k, c). \<lparr>nr_user = k, nr_full_name = cf_full_name (cw_fields c), nr_role = ''customer''\<rparr>)
      (filter (\<lambda>(k, _). k \<in> set ids) (pd_customers db))"

text \<open>A new key takes the place of the old one, which is returned.\<close>

definition update_document_key :: "call_env \<Rightarrow> uuid \<Rightarrow> string \<Rightarrow> string \<Rightarrow> profile_db
    \<Rightarrow> (string option \<times> profile_db) app_result" where
  "update_document_key env k column key db = (case guard_of db k of
     None \<Rightarrow> Inl guard_profile_missing
   | Some g \<Rightarrow> Inr (gw_keys g column,
       put_guard k (g\<lparr>gw_keys := (gw_keys g)(column \<mapsto> key), gw_updated_at := tx_now env\<rparr>) db))"

definition get_document_key :: "profile_db \<Rightarrow> uuid \<Rightarrow> string \<Rightarrow> string option" where
  "get_document_key db k column = obind (guard_of db k) (\<lambda>g. gw_keys g column)"

definition update_customer_document_key :: "call_env \<Rightarrow> uuid \<Rightarrow> string \<Rightarrow> string \<Rightarrow> profile_db
    \<Rightarrow> (string option \<times> profile_db) app_result" where
  "update_customer_document_key env k column key db = (case customer_of db k of
     None \<Rightarrow> Inl (NotFound ''Customer profile not found'')
   | Some c \<Rightarrow> Inr (cw_keys c column,
       put_customer k (c\<lparr>cw_keys := (cw_keys c)(column \<mapsto> key), cw_updated_at := tx_now env\<rparr>) db))"

definition get_customer_document_key :: "profile_db \<Rightarrow> uuid \<Rightarrow> string \<Rightarrow> string option" where
  "get_customer_document_key db k column = obind (customer_of db k) (\<lambda>c. cw_keys c column)"

subsection \<open>Bookings that let a customer see a guard\<close>

definition has_active_booking :: "profile_db \<Rightarrow> uuid \<Rightarrow> uuid \<Rightarrow> bool" where
  "has_active_booking db customer_id guard_id =
    list_ex (\<lambda>(_, a). as_customer a = Some customer_id \<and> as_guard a = Some guard_id \<and> as_active a)
      (pd_assignments db)"

definition upsert_assignment :: "uuid \<Rightarrow> uuid option \<Rightarrow> uuid option \<Rightarrow> bool \<Rightarrow> instant \<Rightarrow> profile_db \<Rightarrow> profile_db" where
  "upsert_assignment booking customer_id guard_id active occurred_at db =
    (case row_get (pd_assignments db) booking of
       None \<Rightarrow> db\<lparr>pd_assignments := row_put booking \<lparr>as_customer = customer_id, as_guard = guard_id,
           as_active = active, as_updated_at = occurred_at\<rparr> (pd_assignments db)\<rparr>
     | Some a \<Rightarrow>
       if as_updated_at a < occurred_at
       then db\<lparr>pd_assignments := row_put booking \<lparr>as_customer = coalesce customer_id (as_customer a),
           as_guard = coalesce guard_id (as_guard a), as_active = active, as_updated_at = occurred_at\<rparr>
           (pd_assignments db)\<rparr>
       else db)"

subsection \<open>Approval\<close>

definition approval_event_topic :: "approval_status \<Rightarrow> string option" where
  "approval_event_topic target = (case target of
     ApprovalApproved \<Rightarrow> Some USER_APPROVED_TOPIC
   | ApprovalRejected \<Rightarrow> Some USER_REJECTED_TOPIC
   | ApprovalPending \<Rightarrow> None)"

definition enqueue_decision :: "call_env \<Rightarrow> uuid \<Rightarrow> approval_status \<Rightarrow> string \<Rightarrow> profile_db \<Rightarrow> profile_db" where
  "enqueue_decision env k target role db = (case approval_event_topic target of
     None \<Rightarrow> db
   | Some topic \<Rightarrow> db\<lparr>pd_outbox := outbox_append env topic
       [(''user_id'', JUuid k), (''role'', JStr role), (''approved_at'', JTime (utc_now env))] (pd_outbox db)\<rparr>)"

definition illegal_approval :: app_error where
  "illegal_approval = Conflict ''illegal approval transition {current} [to] {target}''"

definition set_approval_status :: "call_env \<Rightarrow> uuid \<Rightarrow> approval_status \<Rightarrow> string \<Rightarrow> profile_db
    \<Rightarrow> (guard_response \<times> profile_db) app_result" where
  "set_approval_status env k target role db = (case guard_of db k of
     None \<Rightarrow> Inl guard_profile_missing
   | Some g \<Rightarrow>
     if \<not> can_transition (gw_approval g) target then Inl illegal_approval
     else let g' = g\<lparr>gw_approval := target, gw_reviewed_at := Some (tx_now env), gw_updated_at := tx_now env\<rparr>
       in Inr (into_guard_response k g', enqueue_decision env k target role (put_guard k g' db)))"

record customer_response =
  cp_user :: uuid
  cp_fields :: customer_fields

definition into_customer_response :: "uuid \<Rightarrow> customer_row \<Rightarrow> customer_response" where
  "into_customer_response k c = \<lparr>cp_user = k, cp_fields = cw_fields c\<rparr>"

definition set_customer_approval :: "call_env \<Rightarrow> uuid \<Rightarrow> approval_status \<Rightarrow> string \<Rightarrow> profile_db
    \<Rightarrow> (customer_response \<times> profile_db) app_result" where
  "set_customer_approval env k target role db = (case customer_of db k of
     None \<Rightarrow> Inl (NotFound ''Customer profile not found'')
   | Some c \<Rightarrow>
     if \<not> can_transition (cw_approval c) target then Inl illegal_approval
     else let c' = c\<lparr>cw_approval := target, cw_updated_at := tx_now env\<rparr>
       in Inr (into_customer_response k c', enqueue_decision env k target role (put_customer k c' db)))"

definition upsert_customer_profile :: "call_env \<Rightarrow> uuid \<Rightarrow> customer_fields \<Rightarrow> profile_db
    \<Rightarrow> (customer_response \<times> profile_db) app_result" where
  "upsert_customer_profile env k form db =
    (let c = (case customer_of db k of
         None \<Rightarrow> \<lparr>cw_fields = form, cw_approval = ApprovalPending, cw_keys = (\<lambda>_. None),
             cw_created_at = tx_now env, cw_updated_at = tx_now env\<rparr>
       | Some old \<Rightarrow> old\<lparr>cw_fields := form, cw_updated_at := tx_now env\<rparr>)
     in Inr (into_customer_response k c, put_customer k c db))"

definition get_customer_profile :: "profile_db \<Rightarrow> uuid \<Rightarrow> customer_response option" where
  "get_customer_profile db k = map_option (into_customer_response k) (customer_of db k)"

subsection \<open>Audit, organisation, tickets\<close>

definition record_access :: "call_env \<Rightarrow> uuid \<Rightarrow> string \<Rightarrow> string option \<Rightarrow> profile_db \<Rightarrow> profile_db" where
  "record_access env accessed_by action target db = db\<lparr>pd_audit := pd_audit db @
     [\<lparr>ac_by = accessed_by, ac_action = action, ac_target = target, ac_at = tx_now env\<rparr>]\<rparr>"

definition newest_first :: "('a \<Rightarrow> instant) \<Rightarrow> 'a list \<Rightarrow> 'a list" where
  "newest_first stamp xs = sort_key (\<lambda>x. - stamp x) xs"

definition page_of :: "int \<Rightarrow> int \<Rightarrow> 'a list \<Rightarrow> 'a list" where
  "page_of limit offset xs = take (nat limit) (drop (nat offset) xs)"

definition list_access_audit :: "profile_db \<Rightarrow> string option \<Rightarrow> int \<Rightarrow> int \<Rightarrow> access_row list" where
  "list_access_audit db action limit offset = page_of limit offset (newest_first ac_at
     (filter (\<lambda>a. case action of None \<Rightarrow> True | Some x \<Rightarrow> ac_action a = x) (pd_audit db)))"

record org_view =
  ov_company_name :: "utext option"
  ov_tax_id :: "utext option"
  ov_address :: "utext option"
  ov_updated_at :: "instant option"

definition org_unset :: org_view where
  "org_unset = \<lparr>ov_company_name = None, ov_tax_id = None, ov_address = None, ov_updated_at = None\<rparr>"

definition org_view_of :: "org_row \<Rightarrow> org_view" where
  "org_view_of r = \<lparr>ov_company_name = or_company_name r, ov_tax_id = or_tax_id r, ov_address = or_address r,
     ov_updated_at = Some (or_updated_at r)\<rparr>"

definition get_org_settings :: "profile_db \<Rightarrow> org_view" where
  "get_org_settings db = (case pd_org db of None \<Rightarrow> org_unset | Some r \<Rightarrow> org_view_of r)"

record org_request =
  oq_company_name :: "utext option"
  oq_tax_id :: "utext option"
  oq_address :: "utext option"

definition upsert_org_settings :: "call_env \<Rightarrow> uuid \<Rightarrow> org_request \<Rightarrow> profile_db \<Rightarrow> (org_view \<times> profile_db) app_result" where
  "upsert_org_settings env updated_by req db =
    (let r = \<lparr>or_company_name = oq_company_name req, or_tax_id = oq_tax_id req, or_address = oq_address req,
         or_updated_by = updated_by, or_updated_at = tx_now env\<rparr>
     in Inr (org_view_of r, db\<lparr>pd_org := Some r\<rparr>))"

text \<open>The checks of the table: one of two kinds, at most 2000 characters.\<close>

definition insert_support_ticket :: "call_env \<Rightarrow> uuid \<Rightarrow> utext \<Rightarrow> utext \<Rightarrow> profile_db \<Rightarrow> ((uuid \<times> ticket_row) \<times> profile_db) app_result" where
  "insert_support_ticket env user_id kind message db =
    (if kind \<notin> {asc ''problem'', asc ''feedback''} \<or> 2000 < length message then Inl (Database ''23514'')
     else if row_get (pd_tickets db) (fresh_row env) \<noteq> None then Inl (Database ''23505'')
     else let t = \<lparr>ti_user = user_id, ti_kind = kind, ti_message = message, ti_status = ''open'',
              ti_created_at = tx_now env\<rparr>
       in Inr ((fresh_row env, t), db\<lparr>pd_tickets := row_put (fresh_row env) t (pd_tickets db)\<rparr>))"

definition list_support_tickets :: "profile_db \<Rightarrow> int \<Rightarrow> int \<Rightarrow> (uuid \<times> ticket_row) list" where
  "list_support_tickets db limit offset = page_of limit offset
     (newest_first (\<lambda>(_, t). ti_created_at t) (rev (sort_key fst (pd_tickets db))))"

subsection \<open>Recruitment and expiry dates\<close>

definition stage_text :: "recruit_stage \<Rightarrow> string" where
  "stage_text s = (case s of Sourcing \<Rightarrow> ''sourcing'' | Screened \<Rightarrow> ''screened'' | DocsVerified \<Rightarrow> ''docs_verified'')"

definition parse_stage :: "string \<Rightarrow> recruit_stage option" where
  "parse_stage s = (if s = ''sourcing'' then Some Sourcing else if s = ''screened'' then Some Screened
     else if s = ''docs_verified'' then Some DocsVerified else None)"

interpretation stage_wire: strict_wire_enum stage_text parse_stage
proof
  show "parse_stage (stage_text x) = Some x" for x
    by (cases x) (simp_all add: parse_stage_def stage_text_def)
  show "parse_stage s = Some x \<Longrightarrow> s = stage_text x" for s x
    by (auto simp: parse_stage_def stage_text_def split: if_splits)
qed

record candidate =
  cd_user :: uuid
  cd_years :: "int option"
  cd_approval :: approval_status
  cd_stage :: recruit_stage

definition candidate_of :: "uuid \<Rightarrow> guard_row \<Rightarrow> candidate" where
  "candidate_of k g = \<lparr>cd_user = k, cd_years = gf_years (gw_fields g), cd_approval = gw_approval g,
     cd_stage = gw_stage g\<rparr>"

definition list_recruitment_candidates :: "profile_db \<Rightarrow> candidate list" where
  "list_recruitment_candidates db = take 200 (map (\<lambda>(k, g). candidate_of k g)
     (newest_first (\<lambda>(_, g). gw_created_at g) (pd_guards db)))"

definition set_recruitment_stage :: "call_env \<Rightarrow> uuid \<Rightarrow> string \<Rightarrow> profile_db \<Rightarrow> (candidate \<times> profile_db) app_result" where
  "set_recruitment_stage env k stage db = (case parse_stage stage of
     None \<Rightarrow> Inl (BadRequest ''invalid stage: {stage} (expected sourcing|screened|docs_verified)'')
   | Some st \<Rightarrow> (case guard_of db k of
       None \<Rightarrow> Inl guard_profile_missing
     | Some g \<Rightarrow>
       if gw_approval g \<noteq> ApprovalPending
       then Inl (Conflict ''recruitment stage only applies to pending applicants'')
       else let g' = g\<lparr>gw_stage := st, gw_updated_at := tx_now env\<rparr>
         in Inr (candidate_of k g', put_guard k g' db)))"

definition utc_date :: "instant \<Rightarrow> int" where
  "utc_date t = timestamp t div 86400"

record expiry_view =
  ev_guard :: uuid
  ev_document :: string
  ev_row :: expiry_row
  ev_days_left :: int

definition expiry_view_of :: "int \<Rightarrow> (uuid \<times> string) \<times> expiry_row \<Rightarrow> expiry_view" where
  "expiry_view_of today e = \<lparr>ev_guard = fst (fst e), ev_document = snd (fst e), ev_row = snd e,
     ev_days_left = ex_date (snd e) - today\<rparr>"

definition list_expiring_documents :: "int \<Rightarrow> profile_db \<Rightarrow> int \<Rightarrow> expiry_view list" where
  "list_expiring_documents today db window_days = take 500 (map (expiry_view_of today)
     (sort_key (\<lambda>(_, x). ex_date x) (filter (\<lambda>(_, x). ex_date x \<le> today + window_days) (pd_expiries db))))"

record expiry_buckets =
  eb_expired :: nat
  eb_due_7 :: nat
  eb_due_30 :: nat
  eb_due_90 :: nat

definition expiring_document_buckets :: "int \<Rightarrow> profile_db \<Rightarrow> expiry_buckets" where
  "expiring_document_buckets today db =
    (let days = map (\<lambda>(_, x). ex_date x) (pd_expiries db); count = (\<lambda>P. length (filter P days)) in
     \<lparr>eb_expired = count (\<lambda>d. d < today),
      eb_due_7 = count (\<lambda>d. today \<le> d \<and> d \<le> today + 7),
      eb_due_30 = count (\<lambda>d. today + 7 < d \<and> d \<le> today + 30),
      eb_due_90 = count (\<lambda>d. today + 30 < d \<and> d \<le> today + 90)\<rparr>)"

definition count_pending_applicants :: "profile_db \<Rightarrow> nat \<times> nat \<times> nat" where
  "count_pending_applicants db =
    (let guards = length (filter (\<lambda>(_, g). gw_approval g = ApprovalPending) (pd_guards db));
         customers = length (filter (\<lambda>(_, c). cw_approval c = ApprovalPending) (pd_customers db))
     in (guards, customers, guards + customers))"

definition list_document_expiries :: "int \<Rightarrow> profile_db \<Rightarrow> uuid \<Rightarrow> expiry_view list" where
  "list_document_expiries today db guard_id = map (expiry_view_of today)
     (sort_key (\<lambda>((_, d), _). d) (filter (\<lambda>((g, _), _). g = guard_id) (pd_expiries db)))"

definition upsert_document_expiry :: "call_env \<Rightarrow> uuid \<Rightarrow> string \<Rightarrow> int \<Rightarrow> profile_db \<Rightarrow> (expiry_view \<times> profile_db) app_result" where
  "upsert_document_expiry env guard_id document_type expiry_date db =
    (if document_type \<notin> set EXPIRING_DOCUMENT_TYPES then Inl (Database ''23514'')
     else let k = (guard_id, document_type);
              x = (case row_get (pd_expiries db) k of
                None \<Rightarrow> \<lparr>ex_id = fresh_row env, ex_date = expiry_date, ex_reminded_at = None, ex_updated_at = tx_now env\<rparr>
              | Some old \<Rightarrow> old\<lparr>ex_date := expiry_date, ex_updated_at := tx_now env\<rparr>)
       in Inr (expiry_view_of (utc_date (tx_now env)) (k, x), db\<lparr>pd_expiries := row_put k x (pd_expiries db)\<rparr>))"

subsection \<open>Reads for the admin screens and the other services\<close>

definition approval_filter :: "approval_status option \<Rightarrow> approval_status \<Rightarrow> bool" where
  "approval_filter f s = (case f of None \<Rightarrow> True | Some x \<Rightarrow> s = x)"

definition list_guard_profiles :: "profile_db \<Rightarrow> approval_status option \<Rightarrow> (guard_response \<times> instant) list" where
  "list_guard_profiles db status = take 200 (map (\<lambda>(k, g). (into_guard_response k g, gw_created_at g))
     (newest_first (\<lambda>(_, g). gw_created_at g) (filter (\<lambda>(_, g). approval_filter status (gw_approval g)) (pd_guards db))))"

definition list_customer_profiles :: "profile_db \<Rightarrow> approval_status option \<Rightarrow> (customer_response \<times> instant \<times> approval_status) list" where
  "list_customer_profiles db status = take 200 (map (\<lambda>(k, c). (into_customer_response k c, cw_created_at c, cw_approval c))
     (newest_first (\<lambda>(_, c). cw_created_at c) (filter (\<lambda>(_, c). approval_filter status (cw_approval c)) (pd_customers db))))"

text \<open>The documents a job needs; the photo of the bank book is not one of them.\<close>

definition has_document :: "guard_row \<Rightarrow> string \<Rightarrow> bool" where
  "has_document g document_type = (case key_column_for document_type of
     None \<Rightarrow> False | Some column \<Rightarrow> gw_keys g column \<noteq> None)"

record guard_listing =
  gl_user :: uuid
  gl_full_name :: "utext option"
  gl_avatar_key :: "string option"
  gl_years :: "int option"
  gl_has_documents :: bool
  gl_documents :: "(string \<times> bool) list"

definition guard_listing_of :: "uuid \<Rightarrow> guard_row \<Rightarrow> guard_listing" where
  "guard_listing_of k g = \<lparr>gl_user = k, gl_full_name = gf_full_name (gw_fields g),
     gl_avatar_key = gw_keys g AVATAR_KEY_COLUMN, gl_years = gf_years (gw_fields g),
     gl_has_documents = list_all (has_document g) EXPIRING_DOCUMENT_TYPES,
     gl_documents = map (\<lambda>d. (d, has_document g d)) EXPIRING_DOCUMENT_TYPES\<rparr>"

definition list_approved_guards :: "profile_db \<Rightarrow> int \<Rightarrow> guard_listing list" where
  "list_approved_guards db limit = take (nat (max 1 (min limit 200))) (map (\<lambda>(k, g). guard_listing_of k g)
     (newest_first (\<lambda>(_, g). gw_created_at g) (rev (sort_key fst
       (filter (\<lambda>(_, g). gw_approval g = ApprovalApproved) (pd_guards db))))))"

definition recipient_ids :: "profile_db \<Rightarrow> string \<Rightarrow> int \<Rightarrow> uuid list app_result" where
  "recipient_ids db audience limit =
    (let n = nat (max 1 (min limit 10000));
         guards = map fst (newest_first (\<lambda>(_, g). gw_created_at g) (pd_guards db));
         customers = map fst (newest_first (\<lambda>(_, c). cw_created_at c) (pd_customers db))
     in if audience = ''guards'' then Inr (take n guards)
        else if audience = ''customers'' then Inr (take n customers)
        else if audience = ''all'' then Inr (take n (dedup (map fst (pd_guards db) @ map fst (pd_customers db))))
        else Inl (BadRequest ''unknown audience: {other} (expected all|guards|customers)''))"

definition guard_payout_row :: "profile_db \<Rightarrow> uuid \<Rightarrow> (utext option \<times> utext option \<times> utext option) option" where
  "guard_payout_row db k = map_option (\<lambda>g. (gf_full_name (gw_fields g), gf_tax_id (gw_fields g),
     gf_address (gw_fields g))) (guard_of db k)"

definition customer_payout_row :: "profile_db \<Rightarrow> uuid \<Rightarrow> (utext option \<times> utext option \<times> utext option) option" where
  "customer_payout_row db k = map_option (\<lambda>c. (cf_full_name (cw_fields c), cf_address (cw_fields c),
     cf_contact_phone (cw_fields c))) (customer_of db k)"

definition pending_roles_for_user :: "profile_db \<Rightarrow> uuid \<Rightarrow> string list" where
  "pending_roles_for_user db k =
    (if map_option gw_approval (guard_of db k) = Some ApprovalPending then [''guard''] else [])
    @ (if map_option cw_approval (customer_of db k) = Some ApprovalPending then [''customer''] else [])"

subsection \<open>The outbox\<close>

definition fetch_unpublished_decisions :: "profile_db \<Rightarrow> nat \<Rightarrow> outbox_row list" where
  "fetch_unpublished_decisions db limit = take limit (sort_key ob_created_at
     (filter (\<lambda>r. ob_published_at r = None) (pd_outbox db)))"

definition mark_decision_published :: "instant \<Rightarrow> uuid \<Rightarrow> profile_db \<Rightarrow> profile_db" where
  "mark_decision_published now k db = db\<lparr>pd_outbox := map (\<lambda>r. if ob_id r = k then r\<lparr>ob_published_at := Some now\<rparr> else r)
     (pd_outbox db)\<rparr>"

end
