(* ===== verification/Object_Store.thy ===== *)
theory Object_Store
  imports Text_Ops Shared_Error
begin

text \<open>
  The client of the object store (\<open>services/profile/src/s3.rs\<close>): signed addresses of objects, and the
  put and delete that go through them. The digest, the keyed digest and the two printings of a
  time are the libraries' and are supplied as a record. A text is its bytes.
\<close>

subsection \<open>Percent encoding\<close>

definition HEX_DIGITS :: string where "HEX_DIGITS = ''0123456789ABCDEF''"

definition uri_plain :: "bool \<Rightarrow> char \<Rightarrow> bool" where
  "uri_plain encode_slash c =
    (is_ascii_alnum c \<or> c \<in> {CHR ''-'', CHR ''.'', CHR ''_'', CHR ''~''} \<or> (c = CHR ''/'' \<and> \<not> encode_slash))"

definition uri_byte :: "bool \<Rightarrow> char \<Rightarrow> string" where
  "uri_byte encode_slash c =
    (if uri_plain encode_slash c then [c]
     else [CHR ''%'', HEX_DIGITS ! (byte_of c div 16), HEX_DIGITS ! (byte_of c mod 16)])"

definition uri_encode :: "string \<Rightarrow> bool \<Rightarrow> string" where
  "uri_encode s encode_slash = concat (map (uri_byte encode_slash) s)"

definition hex_lower :: "string \<Rightarrow> string" where
  "hex_lower bytes = concat (map (\<lambda>c. [lower_char (HEX_DIGITS ! (byte_of c div 16)),
     lower_char (HEX_DIGITS ! (byte_of c mod 16))]) bytes)"

subsection \<open>Signed addresses\<close>

definition S3_ALGORITHM :: string where "S3_ALGORITHM = ''AWS4-HMAC-SHA256''"
definition S3_SERVICE :: string where "S3_SERVICE = ''s3''"
definition UNSIGNED_PAYLOAD :: string where "UNSIGNED_PAYLOAD = ''UNSIGNED-PAYLOAD''"
definition DOWNLOAD_TTL_SECS :: nat where "DOWNLOAD_TTL_SECS = 3600"
definition UPLOAD_TTL_SECS :: nat where "UPLOAD_TTL_SECS = 300"

record s3_lib =
  s3_sha256 :: "string \<Rightarrow> string"
  s3_hmac :: "string \<Rightarrow> string \<Rightarrow> string"
  s3_amz_date :: "instant \<Rightarrow> string"
  s3_day :: "instant \<Rightarrow> string"

record s3_client =
  s3_endpoint :: string
  s3_public_endpoint :: string
  s3_bucket :: string
  s3_region :: string
  s3_access_key :: string
  s3_secret_key :: string

definition trim_slashes :: "string \<Rightarrow> string" where
  "trim_slashes s = rev (dropWhile (\<lambda>c. c = CHR ''/'') (rev s))"

definition new_s3_client :: "string \<Rightarrow> string option \<Rightarrow> string \<Rightarrow> string \<Rightarrow> string \<Rightarrow> string \<Rightarrow> s3_client" where
  "new_s3_client endpoint public_endpoint bucket region access_key secret_key =
    (let ep = trim_slashes endpoint in
     \<lparr>s3_endpoint = ep,
      s3_public_endpoint = (case public_endpoint of Some s \<Rightarrow> trim_slashes s | None \<Rightarrow> ep),
      s3_bucket = bucket, s3_region = region, s3_access_key = access_key, s3_secret_key = secret_key\<rparr>)"

definition host_of :: "string \<Rightarrow> string" where
  "host_of base =
    (let no_scheme = (case strip_prefix ''https://'' base of Some s \<Rightarrow> s
         | None \<Rightarrow> (case strip_prefix ''http://'' base of Some s \<Rightarrow> s | None \<Rightarrow> base))
     in takeWhile (\<lambda>c. c \<noteq> CHR ''/'') no_scheme)"

definition signing_key :: "s3_lib \<Rightarrow> string \<Rightarrow> string \<Rightarrow> string \<Rightarrow> string \<Rightarrow> string" where
  "signing_key L secret date region service =
    (let k_date = s3_hmac L (''AWS4'' @ secret) date;
         k_region = s3_hmac L k_date region;
         k_service = s3_hmac L k_region service
     in s3_hmac L k_service ''aws4_request'')"

definition newline :: string where "newline = [char_of (10 :: nat)]"

definition canonical_uri :: "s3_client \<Rightarrow> string \<Rightarrow> string" where
  "canonical_uri C key = ''/'' @ uri_encode (s3_bucket C) False @ ''/'' @ uri_encode key False"

fun join_strings :: "string \<Rightarrow> string list \<Rightarrow> string" where
  "join_strings sep [] = []"
| "join_strings sep [x] = x"
| "join_strings sep (x # y # xs) = x @ sep @ join_strings sep (y # xs)"

definition canonical_query :: "s3_lib \<Rightarrow> s3_client \<Rightarrow> nat \<Rightarrow> instant \<Rightarrow> string" where
  "canonical_query L C expires now =
    (let scope = s3_day L now @ ''/'' @ s3_region C @ ''/'' @ S3_SERVICE @ ''/aws4_request'';
         pairs = [(''X-Amz-Algorithm'', S3_ALGORITHM), (''X-Amz-Credential'', s3_access_key C @ ''/'' @ scope),
           (''X-Amz-Date'', s3_amz_date L now), (''X-Amz-Expires'', show_nat expires),
           (''X-Amz-SignedHeaders'', ''host'')]
     in join_strings ''&'' (map (\<lambda>(k, v). uri_encode k True @ ''='' @ uri_encode v True) pairs))"

definition presign :: "s3_lib \<Rightarrow> s3_client \<Rightarrow> string \<Rightarrow> string \<Rightarrow> string \<Rightarrow> nat \<Rightarrow> instant \<Rightarrow> string" where
  "presign L C base meth key expires now =
    (let host = host_of base;
         scope = s3_day L now @ ''/'' @ s3_region C @ ''/'' @ S3_SERVICE @ ''/aws4_request'';
         uri = canonical_uri C key;
         query = canonical_query L C expires now;
         request = meth @ newline @ uri @ newline @ query @ newline @ ''host:'' @ host @ newline @ newline
           @ ''host'' @ newline @ UNSIGNED_PAYLOAD;
         to_sign = S3_ALGORITHM @ newline @ s3_amz_date L now @ newline @ scope @ newline
           @ hex_lower (s3_sha256 L request);
         signature = hex_lower (s3_hmac L (signing_key L (s3_secret_key C) (s3_day L now) (s3_region C) S3_SERVICE) to_sign)
     in base @ uri @ ''?'' @ query @ ''&X-Amz-Signature='' @ signature)"

definition download_url :: "s3_lib \<Rightarrow> s3_client \<Rightarrow> instant \<Rightarrow> string \<Rightarrow> string" where
  "download_url L C now key = presign L C (s3_public_endpoint C) ''GET'' key DOWNLOAD_TTL_SECS now"

subsection \<open>Objects\<close>

text \<open>
  The store itself: what is kept under a key. Whether a put or a delete succeeds is the store's doing;
  a put that fails leaves nothing, a failed delete leaves the object.
\<close>

type_synonym objects = "string \<Rightarrow> string option"

definition s3_upload :: "bool \<Rightarrow> string \<Rightarrow> string \<Rightarrow> objects \<Rightarrow> (unit \<times> objects) app_result" where
  "s3_upload succeeds key data os =
    (if succeeds then Inr ((), os(key \<mapsto> data)) else Inl (Internal ''document upload failed''))"

definition delete_best_effort :: "bool \<Rightarrow> string \<Rightarrow> objects \<Rightarrow> objects" where
  "delete_best_effort succeeds key os = (if succeeds then os(key := None) else os)"

subsection \<open>Uploaded forms\<close>

text \<open>A multipart form is its parts in order; \<open>None\<close> is a part that cannot be read.\<close>

record form_part =
  fp_name :: "string option"
  fp_content_type :: "string option"
  fp_text :: "string option"
  fp_bytes :: "string option"

type_synonym multipart = "form_part option list"

definition broken_form :: app_error where "broken_form = BadRequest ''Failed to read multipart: {e}''"
definition broken_file :: app_error where "broken_file = BadRequest ''Failed to read file: {e}''"

definition mime_or_default :: "string option \<Rightarrow> string" where
  "mime_or_default m = (case m of Some t \<Rightarrow> t | None \<Rightarrow> ''application/octet-stream'')"

subsection \<open>Reading an address back\<close>

definition hex_value :: "char \<Rightarrow> nat" where
  "hex_value c = (if byte_of c < 58 then byte_of c - 48 else byte_of c - 55)"

fun uri_decode :: "string \<Rightarrow> string" where
  "uri_decode [] = []"
| "uri_decode (c # s) =
    (if c = CHR ''%''
     then (case s of a # b # t \<Rightarrow> char_of (16 * hex_value a + hex_value b) # uri_decode t | _ \<Rightarrow> [])
     else c # uri_decode s)"

lemma byte_of_lt: "byte_of c < 256"
  by (simp add: byte_of_def)

lemma hex_digit_value: "n < 16 \<Longrightarrow> hex_value (HEX_DIGITS ! n) = n"
proof -
  have "\<forall>m < 16. hex_value (HEX_DIGITS ! m) = m"
    unfolding HEX_DIGITS_def hex_value_def byte_of_def by code_simp
  then show "n < 16 \<Longrightarrow> hex_value (HEX_DIGITS ! n) = n" by blast
qed

lemma decode_byte: "uri_decode (uri_byte e c @ s) = c # uri_decode s"
proof (cases "uri_plain e c")
  case True
  then have "c \<noteq> CHR ''%''" by (auto simp: uri_plain_def is_ascii_alnum_def is_ascii_digit_def byte_of_def)
  then show ?thesis using True by (simp add: uri_byte_def)
next
  case False
  have "16 * (byte_of c div 16) + byte_of c mod 16 = byte_of c" by simp
  moreover have "byte_of c div 16 < 16" "byte_of c mod 16 < 16" using byte_of_lt [of c] by auto
  ultimately show ?thesis using False by (simp add: uri_byte_def hex_digit_value byte_of_def)
qed

lemma uri_decode_encode: "uri_decode (uri_encode s e) = s"
proof -
  have "uri_decode (uri_encode s e @ t) = s @ uri_decode t" for t
    by (induction s) (simp_all add: uri_encode_def decode_byte)
  from this [of "[]"] show ?thesis by simp
qed

lemma hex_digit_not: "n < 16 \<Longrightarrow> HEX_DIGITS ! n \<noteq> CHR ''?''"
proof -
  have "\<forall>m < 16. HEX_DIGITS ! m \<noteq> CHR ''?''"
    unfolding HEX_DIGITS_def by code_simp
  then show "n < 16 \<Longrightarrow> HEX_DIGITS ! n \<noteq> CHR ''?''" by blast
qed

lemma uri_encode_no_query: "CHR ''?'' \<notin> set (uri_encode s e)"
proof -
  have "CHR ''?'' \<notin> set (uri_byte e c)" for c
  proof (cases "uri_plain e c")
    case True
    then show ?thesis by (auto simp: uri_byte_def uri_plain_def is_ascii_alnum_def is_ascii_digit_def byte_of_def)
  next
    case False
    have "byte_of c div 16 < 16" "byte_of c mod 16 < 16" using byte_of_lt [of c] by auto
    then have "HEX_DIGITS ! (byte_of c div 16) \<noteq> CHR ''?''" "HEX_DIGITS ! (byte_of c mod 16) \<noteq> CHR ''?''"
      by (simp_all only: hex_digit_not not_False_eq_True)
    then show ?thesis using False by (auto simp: uri_byte_def)
  qed
  then show ?thesis by (induction s) (simp_all add: uri_encode_def)
qed

lemma presign_shape: "\<exists>q. presign L C base meth key expires now = base @ canonical_uri C key @ CHR ''?'' # q"
  by (simp add: presign_def Let_def)

text \<open>
  A signed address names one object: whatever the methods, lifetimes and times they were signed
  with, two addresses of a bucket at the same endpoint that are equal are addresses of the same key.
\<close>
theorem address_names_one_object:
  assumes "presign L C base meth key expires now = presign L' C base meth' key' expires' now'"
  shows "key = key'"
proof -
  obtain q q' where "base @ canonical_uri C key @ CHR ''?'' # q = base @ canonical_uri C key' @ CHR ''?'' # q'"
    using presign_shape [of L C base meth key expires now] presign_shape [of L' C base meth' key' expires' now'] assms
    by metis
  then have "uri_encode key False @ CHR ''?'' # q = uri_encode key' False @ CHR ''?'' # q'"
    by (simp add: canonical_uri_def)
  then have "uri_encode key False = uri_encode key' False"
    using split_at_inj [OF _ uri_encode_no_query uri_encode_no_query] by blast
  then show ?thesis by (metis uri_decode_encode)
qed

end
