(* ===== verification/Profile_Api.thy ===== *)
theory Profile_Api
  imports Profile_Repo Object_Store Effects Booking_State
begin

text \<open>
  The handlers of the profile service (\<open>services/profile/src/api/mod.rs\<close>) and its consumer of booking
  events (\<open>events/consumer.rs\<close>). A handler runs on the tables, the cache and the object store; what the
  outside decides (clocks, fresh ids, whether the cache answers, whether a put or a delete reaches the
  store, the names the identity service knows) is its environment.
\<close>

record identity_name =
  in_role :: string
  in_display_name :: "utext option"
  in_phone :: "utext option"

record profile_env =
  pe_call :: call_env
  pe_up :: bool
  pe_object :: uuid
  pe_jti :: uuid
  pe_put_ok :: bool
  pe_delete_ok :: "string \<Rightarrow> bool"
  pe_identity :: "uuid list \<Rightarrow> (uuid \<times> identity_name) list"

record profile_state =
  ps_db :: profile_db
  ps_redis :: redis
  ps_objects :: objects

abbreviation pe_now :: "profile_env \<Rightarrow> instant" where "pe_now env \<equiv> utc_now (pe_call env)"

definition read_profile :: "(profile_db \<Rightarrow> 'a) \<Rightarrow> (profile_state, 'a) act" where
  "read_profile f s = (s, Inr (f (ps_db s)))"

definition profile_tx :: "(profile_db \<Rightarrow> ('a \<times> profile_db) app_result) \<Rightarrow> (profile_state, 'a) act" where
  "profile_tx t s = (case t (ps_db s) of Inl e \<Rightarrow> (s, Inl e) | Inr (x, db) \<Rightarrow> (s\<lparr>ps_db := db\<rparr>, Inr x))"

definition profile_write :: "(profile_db \<Rightarrow> profile_db) \<Rightarrow> (profile_state, unit) act" where
  "profile_write f s = (s\<lparr>ps_db := f (ps_db s)\<rparr>, Inr ())"

definition checked_by :: "checked \<Rightarrow> (profile_state, unit) act" where
  "checked_by c = act_of (case c of Inl m \<Rightarrow> Inl (BadRequest m) | Inr _ \<Rightarrow> Inr ())"

definition PROFILE_ROLE_GUARD :: string where "PROFILE_ROLE_GUARD = ''guard''"
definition PROFILE_ROLE_CUSTOMER :: string where "PROFILE_ROLE_CUSTOMER = ''customer''"
definition PROFILE_ROLE_ADMIN :: string where "PROFILE_ROLE_ADMIN = ''admin''"

lemmas profile_roles = PROFILE_ROLE_GUARD_def PROFILE_ROLE_CUSTOMER_def PROFILE_ROLE_ADMIN_def

definition needs_role :: app_error where "needs_role = Forbidden ''This action requires the {role} role''"

definition require_role :: "auth_user \<Rightarrow> string \<Rightarrow> (profile_state, unit) act" where
  "require_role user expected_role = act_guard (au_role user = expected_role) needs_role"

subsection \<open>Who writes\<close>

definition profile_token_key :: "string \<Rightarrow> string" where
  "profile_token_key jti = ''profile_jti:'' @ jti"

text \<open>A token of the wanted purpose, or else an access token of the wanted role.\<close>

definition resolve_profile_writer :: "jwt_lib \<Rightarrow> profile_env \<Rightarrow> redis \<Rightarrow> request_parts \<Rightarrow> string \<Rightarrow> string
    \<Rightarrow> (uuid \<times> string option) app_result" where
  "resolve_profile_writer J env r parts purpose role =
    (case obind (bearer_token parts) (\<lambda>tok. ok_of (decode_profile_token J (pe_now env) tok purpose)) of
       Some (user_id, jti) \<Rightarrow> Inr (user_id, Some jti)
     | None \<Rightarrow> res_bind (auth_user_from J (pe_up env) (pe_now env) r parts) (\<lambda>user.
         if au_role user \<noteq> role then Inl needs_role else Inr (au_id user, None)))"

definition claim_profile_jti :: "profile_env \<Rightarrow> string \<Rightarrow> (profile_state, unit) act" where
  "claim_profile_jti env jti s =
    (if \<not> pe_up env then (s, Inl redis_unreachable)
     else let (ok, r) = take_marker (pe_now env) (profile_token_key jti) (ps_redis s) in
       (s\<lparr>ps_redis := r\<rparr>, ensure ok (Unauthorized ''Profile token is invalid, expired, or already used'')))"

definition claim_if_token :: "profile_env \<Rightarrow> string option \<Rightarrow> (profile_state, unit) act" where
  "claim_if_token env jti = (case jti of None \<Rightarrow> act_return () | Some j \<Rightarrow> claim_profile_jti env j)"

definition guard_profile_writer :: "jwt_lib \<Rightarrow> profile_env \<Rightarrow> redis \<Rightarrow> request_parts \<Rightarrow> (uuid \<times> string option) app_result" where
  "guard_profile_writer J env r parts = resolve_profile_writer J env r parts PROFILE_PURPOSE_GUARD PROFILE_ROLE_GUARD"

definition customer_profile_writer :: "jwt_lib \<Rightarrow> profile_env \<Rightarrow> redis \<Rightarrow> request_parts \<Rightarrow> (uuid \<times> string option) app_result" where
  "customer_profile_writer J env r parts = resolve_profile_writer J env r parts PROFILE_PURPOSE_CUSTOMER PROFILE_ROLE_CUSTOMER"

record doc_writer =
  dw_user :: uuid
  dw_is_admin :: bool

definition guard_doc_writer :: "jwt_lib \<Rightarrow> profile_env \<Rightarrow> redis \<Rightarrow> request_parts \<Rightarrow> doc_writer app_result" where
  "guard_doc_writer J env r parts =
    (case obind (bearer_token parts) (\<lambda>tok. ok_of (decode_profile_token J (pe_now env) tok PROFILE_PURPOSE_GUARD_DOC)) of
       Some (user_id, _) \<Rightarrow> Inr \<lparr>dw_user = user_id, dw_is_admin = False\<rparr>
     | None \<Rightarrow> res_bind (auth_user_from J (pe_up env) (pe_now env) r parts) (\<lambda>user.
         if au_role user \<noteq> PROFILE_ROLE_GUARD \<and> au_role user \<noteq> PROFILE_ROLE_ADMIN
         then Inl (Forbidden ''This action requires the guard or admin role'')
         else Inr \<lparr>dw_user = au_id user, dw_is_admin = (au_role user = PROFILE_ROLE_ADMIN)\<rparr>))"

subsection \<open>Guard profile\<close>

definition reject_masked_write :: "utext option \<Rightarrow> string \<Rightarrow> (profile_state, unit) act" where
  "reject_masked_write v message = act_guard (\<not> looks_masked v) (BadRequest message)"

definition MASKED_ACCOUNT_NUMBER_MSG :: string where
  "MASKED_ACCOUNT_NUMBER_MSG = ''account_number looks masked [resend the full bank account number]''"
definition MASKED_TAX_ID_MSG :: string where
  "MASKED_TAX_ID_MSG = ''tax_id looks masked [resend the full national/tax id]''"

definition all_checks :: "(profile_state, unit) act list \<Rightarrow> (profile_state, unit) act" where
  "all_checks cs = fold (\<lambda>c m. act_bind m (\<lambda>_. c)) cs (act_return ())"

definition guard_checks :: "guard_fields \<Rightarrow> (profile_state, unit) act list" where
  "guard_checks f =
    [checked_by (validate_years_of_experience (gf_years f)),
     checked_by (validate_text (gf_gender f) ''gender'' MAX_TEXT_LEN),
     checked_by (validate_text (gf_previous_workplace f) ''previous_workplace'' MAX_TEXT_LEN),
     checked_by (validate_text (gf_bank_name f) ''bank_name'' MAX_TEXT_LEN),
     checked_by (validate_text (gf_account_name f) ''account_name'' MAX_TEXT_LEN),
     checked_by (validate_text (gf_account_number f) ''account_number'' MAX_ACCOUNT_NUMBER_LEN),
     reject_masked_write (gf_account_number f) MASKED_ACCOUNT_NUMBER_MSG,
     checked_by (validate_guard_tax_id (gf_tax_id f)),
     reject_masked_write (gf_tax_id f) MASKED_TAX_ID_MSG,
     checked_by (validate_text (gf_full_name f) ''full_name'' MAX_TEXT_LEN),
     checked_by (validate_text (gf_address f) ''address'' MAX_TEXT_LEN),
     checked_by (validate_text (gf_emergency_name f) ''emergency_contact_name'' MAX_TEXT_LEN),
     checked_by (validate_text (gf_emergency_relationship f) ''emergency_contact_relationship'' MAX_TEXT_LEN),
     checked_by (validate_thai_phone (gf_emergency_phone f) ''emergency_contact_phone'')]"

definition validate_guard_req :: "guard_fields \<Rightarrow> (profile_state, unit) act" where
  "validate_guard_req f = all_checks (guard_checks f)"

definition mask_guard_response :: "guard_response \<Rightarrow> guard_response" where
  "mask_guard_response p = p\<lparr>gp_fields := (gp_fields p)\<lparr>
     gf_account_number := map_option mask_account_number (gf_account_number (gp_fields p)),
     gf_tax_id := map_option mask_account_number (gf_tax_id (gp_fields p))\<rparr>\<rparr>"

record guard_request =
  gr_fields :: guard_fields
  gr_expiries :: "(string \<times> int) list option"

definition document_expiry_is_capturable :: "string \<Rightarrow> int \<Rightarrow> int \<Rightarrow> bool" where
  "document_expiry_is_capturable document_type expiry_date today =
    (document_type \<in> set EXPIRING_DOCUMENT_TYPES \<and> today \<le> expiry_date)"

text \<open>Best effort: an invalid date is skipped and a failed write is ignored; at most five are looked at.\<close>

definition apply_document_expiries :: "profile_env \<Rightarrow> uuid \<Rightarrow> guard_request \<Rightarrow> (profile_state, unit) act" where
  "apply_document_expiries env guard_id req = profile_write (\<lambda>db.
    (case gr_expiries req of
       None \<Rightarrow> db
     | Some expiries \<Rightarrow> fold (\<lambda>(document_type, expiry_date) db.
         if document_expiry_is_capturable document_type expiry_date (utc_date (pe_now env))
         then (case upsert_document_expiry (pe_call env) guard_id document_type expiry_date db of
             Inr (_, db') \<Rightarrow> db' | Inl _ \<Rightarrow> db)
         else db) (take (length EXPIRING_DOCUMENT_TYPES) expiries) db))"

definition DOC_UPLOAD_TOKEN_MINUTES :: int where "DOC_UPLOAD_TOKEN_MINUTES = 30"

record guard_submit_response =
  su_profile :: guard_response
  su_doc_upload_token :: string

definition api_upsert_guard_profile :: "jwt_lib \<Rightarrow> profile_env \<Rightarrow> uuid \<times> string option \<Rightarrow> guard_request
    \<Rightarrow> (profile_state, guard_submit_response) act" where
  "api_upsert_guard_profile J env writer req =
    act_bind (validate_guard_req (gr_fields req)) (\<lambda>_.
    act_bind (claim_if_token env (snd writer)) (\<lambda>_.
    act_bind (profile_tx (upsert_guard_profile (pe_call env) (fst writer) (gr_fields req))) (\<lambda>profile.
    act_bind (apply_document_expiries env (fst writer) req) (\<lambda>_.
    act_return \<lparr>su_profile = mask_guard_response profile,
      su_doc_upload_token = fst (encode_profile_token J (pe_now env) (pe_jti env) (fst writer)
        PROFILE_PURPOSE_GUARD_DOC DOC_UPLOAD_TOKEN_MINUTES)\<rparr>))))"

definition api_update_guard_profile :: "profile_env \<Rightarrow> auth_user \<Rightarrow> guard_request \<Rightarrow> (profile_state, guard_response) act" where
  "api_update_guard_profile env user req =
    act_bind (require_role user PROFILE_ROLE_GUARD) (\<lambda>_.
    act_bind (validate_guard_req (gr_fields req)) (\<lambda>_.
    act_bind (profile_tx (update_guard_profile (pe_call env) (au_id user) (gr_fields req))) (\<lambda>profile.
    act_bind (apply_document_expiries env (au_id user) req) (\<lambda>_.
    act_return (mask_guard_response profile)))))"

definition customer_checks :: "customer_fields \<Rightarrow> (profile_state, unit) act list" where
  "customer_checks f =
    [checked_by (validate_text (cf_full_name f) ''full_name'' MAX_TEXT_LEN),
     checked_by (validate_text (cf_address f) ''address'' MAX_TEXT_LEN),
     checked_by (validate_text (cf_company_name f) ''company_name'' MAX_TEXT_LEN),
     checked_by (Profile_Validate.validate_email (cf_email f)),
     checked_by (validate_thai_phone (cf_contact_phone f) ''contact_phone'')]"

definition api_upsert_customer_profile :: "profile_env \<Rightarrow> uuid \<times> string option \<Rightarrow> customer_fields
    \<Rightarrow> (profile_state, customer_response) act" where
  "api_upsert_customer_profile env writer req =
    act_bind (all_checks (customer_checks req)) (\<lambda>_.
    act_bind (claim_if_token env (snd writer)) (\<lambda>_.
    profile_tx (upsert_customer_profile (pe_call env) (fst writer) req)))"

subsection \<open>Public profiles\<close>

definition authorize_guard_profile_read :: "auth_user \<Rightarrow> uuid \<Rightarrow> (profile_state, unit) act" where
  "authorize_guard_profile_read user guard_id =
    (if au_role user = PROFILE_ROLE_ADMIN then act_return ()
     else if au_role user = PROFILE_ROLE_GUARD then
       act_guard (au_id user = guard_id) (Forbidden ''Guards can only read their own profile'')
     else if au_role user = PROFILE_ROLE_CUSTOMER then
       act_bind (read_profile (\<lambda>db. has_active_booking db (au_id user) guard_id)) (\<lambda>active.
       act_guard active (Forbidden ''You can only view a guard assigned to your active booking''))
     else act_fail (Forbidden ''Not authorized''))"

definition not_found_or :: "string \<Rightarrow> 'a option \<Rightarrow> (profile_state, 'a) act" where
  "not_found_or m v = act_of (case v of None \<Rightarrow> Inl (NotFound m) | Some x \<Rightarrow> Inr x)"

record public_guard =
  pv_user :: uuid
  pv_full_name :: "utext option"
  pv_years :: "int option"
  pv_avatar_url :: "string option"

definition get_public_guard_profile :: "s3_lib \<Rightarrow> s3_client \<Rightarrow> profile_env \<Rightarrow> auth_user \<Rightarrow> uuid
    \<Rightarrow> (profile_state, public_guard) act" where
  "get_public_guard_profile L C env user guard_id =
    act_bind (authorize_guard_profile_read user guard_id) (\<lambda>_.
    act_bind (read_profile (\<lambda>db. public_guard_profile db guard_id)) (\<lambda>row0.
    act_bind (not_found_or ''Guard not found'' row0) (\<lambda>row.
    act_return \<lparr>pv_user = pg_user row, pv_full_name = pg_full_name row, pv_years = pg_years row,
      pv_avatar_url = map_option (download_url L C (pe_now env)) (pg_avatar_key row)\<rparr>)))"

definition authorize_customer_profile_read :: "auth_user \<Rightarrow> uuid \<Rightarrow> unit app_result" where
  "authorize_customer_profile_read user customer_id =
    (if au_role user = PROFILE_ROLE_ADMIN then Inr ()
     else if au_role user = PROFILE_ROLE_CUSTOMER then
       ensure (au_id user = customer_id) (Forbidden ''Customers can only read their own profile'')
     else if au_role user = PROFILE_ROLE_GUARD then Inr ()
     else Inl (Forbidden ''Not authorized''))"

record public_customer =
  pk_user :: uuid
  pk_full_name :: "utext option"
  pk_avatar_url :: "string option"

definition audited :: "profile_env \<Rightarrow> uuid \<Rightarrow> string \<Rightarrow> string option \<Rightarrow> (profile_state, unit) act" where
  "audited env who action target = profile_write (record_access (pe_call env) who action target)"

definition get_public_customer_profile :: "s3_lib \<Rightarrow> s3_client \<Rightarrow> profile_env \<Rightarrow> auth_user \<Rightarrow> uuid
    \<Rightarrow> (profile_state, public_customer) act" where
  "get_public_customer_profile L C env user customer_id =
    act_bind (act_of (authorize_customer_profile_read user customer_id)) (\<lambda>_.
    act_bind (if au_role user = PROFILE_ROLE_GUARD
        then audited env (au_id user) ''guard_read_customer_public'' (Some (uuid_text customer_id))
        else act_return ()) (\<lambda>_.
    act_bind (read_profile (\<lambda>db. public_customer_profile db customer_id)) (\<lambda>row0.
    act_bind (not_found_or ''Customer not found'' row0) (\<lambda>row.
    act_return \<lparr>pk_user = pc_user row, pk_full_name = pc_full_name row,
      pk_avatar_url = map_option (download_url L C (pe_now env)) (pc_avatar_key row)\<rparr>))))"

subsection \<open>Documents\<close>

fun document_parts :: "string option \<Rightarrow> string option \<Rightarrow> string option \<Rightarrow> multipart
    \<Rightarrow> (string option \<times> string option \<times> string option) app_result" where
  "document_parts ty mime file [] = Inr (ty, mime, file)"
| "document_parts ty mime file (None # ps) = Inl broken_form"
| "document_parts ty mime file (Some p # ps) =
    (if fp_name p = Some ''document_type'' then (case fp_text p of
         None \<Rightarrow> Inl (BadRequest ''Invalid document_type: {e}'')
       | Some t \<Rightarrow> document_parts (Some (trim t)) mime file ps)
     else if fp_name p = Some ''file'' then (case fp_bytes p of
         None \<Rightarrow> Inl broken_file
       | Some b \<Rightarrow> document_parts ty (fp_content_type p) (Some b) ps)
     else document_parts ty mime file ps)"

definition parse_document_form :: "multipart \<Rightarrow> (string \<times> string \<times> string) app_result" where
  "parse_document_form form = res_bind (document_parts None None None form) (\<lambda>(ty, mime, file).
    (case (ty, file) of
       (None, _) \<Rightarrow> Inl (BadRequest ''document_type is required'')
     | (Some t, None) \<Rightarrow> Inl (BadRequest ''file is required'')
     | (Some t, Some b) \<Rightarrow> Inr (t, mime_or_default mime, b)))"

fun avatar_parts :: "string option \<Rightarrow> string option \<Rightarrow> multipart \<Rightarrow> (string option \<times> string option) app_result" where
  "avatar_parts mime file [] = Inr (mime, file)"
| "avatar_parts mime file (None # ps) = Inl broken_form"
| "avatar_parts mime file (Some p # ps) =
    (if fp_name p = Some ''file'' then (case fp_bytes p of
         None \<Rightarrow> Inl broken_file
       | Some b \<Rightarrow> avatar_parts (fp_content_type p) (Some b) ps)
     else avatar_parts mime file ps)"

definition parse_avatar_form :: "multipart \<Rightarrow> (string \<times> string) app_result" where
  "parse_avatar_form form = res_bind (avatar_parts None None form) (\<lambda>(mime, file).
    (case file of
       None \<Rightarrow> Inl (BadRequest ''file is required'')
     | Some b \<Rightarrow> Inr (mime_or_default mime, b)))"

definition put_object :: "profile_env \<Rightarrow> string \<Rightarrow> string \<Rightarrow> (profile_state, unit) act" where
  "put_object env key data s = (case s3_upload (pe_put_ok env) key data (ps_objects s) of
     Inl e \<Rightarrow> (s, Inl e) | Inr (_, os) \<Rightarrow> (s\<lparr>ps_objects := os\<rparr>, Inr ()))"

definition drop_object :: "profile_env \<Rightarrow> string \<Rightarrow> profile_state \<Rightarrow> profile_state" where
  "drop_object env key s = s\<lparr>ps_objects := delete_best_effort (pe_delete_ok env key) key (ps_objects s)\<rparr>"

text \<open>
  The new key is written; the object it names is taken back when that fails, and the object of the
  key it replaced is dropped when it does not.
\<close>

definition swap_key :: "profile_env \<Rightarrow> string \<Rightarrow> (profile_db \<Rightarrow> (string option \<times> profile_db) app_result)
    \<Rightarrow> (profile_state, unit) act" where
  "swap_key env key t s = (case t (ps_db s) of
     Inl e \<Rightarrow> (drop_object env key s, Inl e)
   | Inr (previous, db) \<Rightarrow> (case previous of
       Some old \<Rightarrow> if old \<noteq> key then (drop_object env old (s\<lparr>ps_db := db\<rparr>), Inr ()) else (s\<lparr>ps_db := db\<rparr>, Inr ())
     | None \<Rightarrow> (s\<lparr>ps_db := db\<rparr>, Inr ())))"

definition document_object_key :: "profile_env \<Rightarrow> uuid \<Rightarrow> string \<Rightarrow> string" where
  "document_object_key env user_id mime = ''profile/'' @ uuid_text user_id @ ''/documents/'' @ uuid_text (pe_object env)
     @ ''.'' @ mime_to_extension mime"

definition avatar_object_key :: "profile_env \<Rightarrow> uuid \<Rightarrow> string \<Rightarrow> string" where
  "avatar_object_key env user_id mime = ''profile/'' @ uuid_text user_id @ ''/avatar/'' @ uuid_text (pe_object env)
     @ ''.'' @ mime_to_extension mime"

record document_response =
  dr_document_type :: string
  dr_download_url :: string

definition unknown_document :: app_error where "unknown_document = BadRequest ''unknown document_type: {document_type}''"

definition column_of :: "string \<Rightarrow> (profile_state, string) act" where
  "column_of document_type = act_of (case key_column_for document_type of
     None \<Rightarrow> Inl unknown_document | Some c \<Rightarrow> Inr c)"

definition upload_guard_document :: "s3_lib \<Rightarrow> s3_client \<Rightarrow> profile_env \<Rightarrow> doc_writer \<Rightarrow> uuid \<Rightarrow> multipart
    \<Rightarrow> (profile_state, document_response) act" where
  "upload_guard_document L C env writer user_id form =
    act_bind (act_guard (dw_is_admin writer \<or> user_id = dw_user writer)
      (Forbidden ''You can only upload your own documents'')) (\<lambda>_.
    act_bind (act_of (parse_document_form form)) (\<lambda>(document_type, declared_mime, bytes).
    act_bind (if dw_is_admin writer \<and> user_id \<noteq> dw_user writer
        then audited env (dw_user writer) ''admin_upload_guard_document'' (Some (uuid_text user_id @ ''/'' @ document_type))
        else act_return ()) (\<lambda>_.
    act_bind (column_of document_type) (\<lambda>column.
    act_bind (act_of (validate_document_upload declared_mime (length bytes) bytes)) (\<lambda>mime.
    (let key = document_object_key env user_id mime in
     act_bind (put_object env key bytes) (\<lambda>_.
     act_bind (swap_key env key (update_document_key (pe_call env) user_id column key)) (\<lambda>_.
     act_return \<lparr>dr_document_type = document_type, dr_download_url = download_url L C (pe_now env) key\<rparr>))))))))"

definition audited_for :: "profile_env \<Rightarrow> auth_user \<Rightarrow> uuid \<Rightarrow> string \<Rightarrow> string \<Rightarrow> (profile_state, unit) act" where
  "audited_for env user user_id action target =
    (if au_role user = PROFILE_ROLE_ADMIN \<and> au_id user \<noteq> user_id then audited env (au_id user) action (Some target)
     else act_return ())"

definition own_or_admin :: "auth_user \<Rightarrow> uuid \<Rightarrow> string \<Rightarrow> (profile_state, unit) act" where
  "own_or_admin user user_id m =
    act_guard (\<not> (au_role user \<noteq> PROFILE_ROLE_ADMIN \<and> au_id user \<noteq> user_id)) (Forbidden m)"

definition get_guard_document :: "s3_lib \<Rightarrow> s3_client \<Rightarrow> profile_env \<Rightarrow> auth_user \<Rightarrow> uuid \<Rightarrow> string
    \<Rightarrow> (profile_state, document_response) act" where
  "get_guard_document L C env user user_id document_type =
    act_bind (own_or_admin user user_id ''You can only read your own documents'') (\<lambda>_.
    act_bind (audited_for env user user_id ''admin_read_guard_document'' (uuid_text user_id @ ''/'' @ document_type)) (\<lambda>_.
    act_bind (column_of document_type) (\<lambda>column.
    act_bind (read_profile (\<lambda>db. get_document_key db user_id column)) (\<lambda>key0.
    act_bind (not_found_or ''Document not uploaded'' key0) (\<lambda>key.
    act_return \<lparr>dr_document_type = document_type, dr_download_url = download_url L C (pe_now env) key\<rparr>)))))"

definition list_guard_document_expiries :: "profile_env \<Rightarrow> auth_user \<Rightarrow> uuid \<Rightarrow> (profile_state, (string \<times> int) list) act" where
  "list_guard_document_expiries env user user_id =
    act_bind (own_or_admin user user_id ''You can only read your own document expiries'') (\<lambda>_.
    act_bind (audited_for env user user_id ''admin_list_document_expiries'' (uuid_text user_id)) (\<lambda>_.
    read_profile (\<lambda>db. map (\<lambda>e. (ev_document e, ex_date (ev_row e)))
      (list_document_expiries (utc_date (tx_now (pe_call env))) db user_id))))"

definition set_guard_document_expiry :: "profile_env \<Rightarrow> auth_user \<Rightarrow> uuid \<Rightarrow> string \<Rightarrow> int \<Rightarrow> (profile_state, string \<times> int) act" where
  "set_guard_document_expiry env user user_id document_type expiry_date =
    act_bind (own_or_admin user user_id ''You can only edit your own document expiries'') (\<lambda>_.
    act_bind (act_guard (document_type \<in> set EXPIRING_DOCUMENT_TYPES)
      (BadRequest ''document_type [{}] has no expiry date'')) (\<lambda>_.
    act_bind (audited_for env user user_id ''admin_set_document_expiry'' (uuid_text user_id @ ''/'' @ document_type)) (\<lambda>_.
    act_bind (profile_tx (upsert_document_expiry (pe_call env) user_id document_type expiry_date)) (\<lambda>e.
    act_return (ev_document e, ex_date (ev_row e))))))"

subsection \<open>Avatars\<close>

definition upload_guard_avatar :: "s3_lib \<Rightarrow> s3_client \<Rightarrow> profile_env \<Rightarrow> auth_user \<Rightarrow> uuid \<Rightarrow> multipart
    \<Rightarrow> (profile_state, string) act" where
  "upload_guard_avatar L C env user user_id form =
    act_bind (require_role user PROFILE_ROLE_GUARD) (\<lambda>_.
    act_bind (act_guard (user_id = au_id user) (Forbidden ''You can only upload your own avatar'')) (\<lambda>_.
    act_bind (act_of (parse_avatar_form form)) (\<lambda>(declared_mime, bytes).
    act_bind (act_of (validate_document_upload declared_mime (length bytes) bytes)) (\<lambda>mime.
    (let key = avatar_object_key env user_id mime in
     act_bind (put_object env key bytes) (\<lambda>_.
     act_bind (swap_key env key (update_document_key (pe_call env) user_id AVATAR_KEY_COLUMN key)) (\<lambda>_.
     act_return (download_url L C (pe_now env) key))))))))"

definition get_guard_avatar :: "s3_lib \<Rightarrow> s3_client \<Rightarrow> profile_env \<Rightarrow> auth_user \<Rightarrow> uuid \<Rightarrow> (profile_state, string) act" where
  "get_guard_avatar L C env user user_id =
    act_bind (own_or_admin user user_id ''You can only read your own avatar'') (\<lambda>_.
    act_bind (audited_for env user user_id ''admin_read_guard_avatar'' (uuid_text user_id)) (\<lambda>_.
    act_bind (read_profile (\<lambda>db. get_document_key db user_id AVATAR_KEY_COLUMN)) (\<lambda>key0.
    act_bind (not_found_or ''Avatar not set'' key0) (\<lambda>key.
    act_return (download_url L C (pe_now env) key)))))"

definition upload_customer_avatar :: "s3_lib \<Rightarrow> s3_client \<Rightarrow> profile_env \<Rightarrow> auth_user \<Rightarrow> uuid \<Rightarrow> multipart
    \<Rightarrow> (profile_state, string) act" where
  "upload_customer_avatar L C env user user_id form =
    act_bind (require_role user PROFILE_ROLE_CUSTOMER) (\<lambda>_.
    act_bind (act_guard (user_id = au_id user) (Forbidden ''You can only upload your own avatar'')) (\<lambda>_.
    act_bind (act_of (parse_avatar_form form)) (\<lambda>(declared_mime, bytes).
    act_bind (act_of (validate_document_upload declared_mime (length bytes) bytes)) (\<lambda>mime.
    (let key = avatar_object_key env user_id mime in
     act_bind (put_object env key bytes) (\<lambda>_.
     act_bind (swap_key env key (update_customer_document_key (pe_call env) user_id AVATAR_KEY_COLUMN key)) (\<lambda>_.
     act_return (download_url L C (pe_now env) key))))))))"

definition get_customer_avatar :: "s3_lib \<Rightarrow> s3_client \<Rightarrow> profile_env \<Rightarrow> auth_user \<Rightarrow> uuid \<Rightarrow> (profile_state, string) act" where
  "get_customer_avatar L C env user user_id =
    act_bind (own_or_admin user user_id ''You can only read your own avatar'') (\<lambda>_.
    act_bind (audited_for env user user_id ''admin_read_customer_avatar'' (uuid_text user_id)) (\<lambda>_.
    act_bind (read_profile (\<lambda>db. get_customer_document_key db user_id AVATAR_KEY_COLUMN)) (\<lambda>key0.
    act_bind (not_found_or ''Avatar not set'' key0) (\<lambda>key.
    act_return (download_url L C (pe_now env) key)))))"

subsection \<open>Reading profiles\<close>

datatype my_profile = MyGuard guard_response | MyCustomer customer_response

definition get_my_profile :: "auth_user \<Rightarrow> (profile_state, my_profile) act" where
  "get_my_profile user =
    (if au_role user = PROFILE_ROLE_GUARD then
       act_bind (read_profile (\<lambda>db. get_guard_profile db (au_id user))) (\<lambda>p0.
       act_bind (not_found_or ''Profile not found'' p0) (\<lambda>p. act_return (MyGuard (mask_guard_response p))))
     else if au_role user = PROFILE_ROLE_CUSTOMER then
       act_bind (read_profile (\<lambda>db. get_customer_profile db (au_id user))) (\<lambda>p0.
       act_bind (not_found_or ''Profile not found'' p0) (\<lambda>p. act_return (MyCustomer p)))
     else act_fail (NotFound ''Profile not found''))"

definition attach_login_phones :: "profile_env \<Rightarrow> ('a \<Rightarrow> uuid) \<Rightarrow> 'a list \<Rightarrow> ('a \<times> utext option) list" where
  "attach_login_phones env user_id_of rows =
    (let resolved = pe_identity env (map user_id_of rows)
     in map (\<lambda>row. (row, obind (map_of resolved (user_id_of row)) in_phone)) rows)"

definition status_filter :: "string option \<Rightarrow> approval_status option app_result" where
  "status_filter q = (case q of
     None \<Rightarrow> Inr None
   | Some s \<Rightarrow> (case parse_approval s of
       None \<Rightarrow> Inl (BadRequest ''invalid approval_status filter'') | Some x \<Rightarrow> Inr (Some x)))"

definition admin_list_guard_profiles :: "profile_env \<Rightarrow> auth_user \<Rightarrow> string option
    \<Rightarrow> (profile_state, ((guard_response \<times> instant) \<times> utext option) list) act" where
  "admin_list_guard_profiles env user q =
    act_bind (require_role user PROFILE_ROLE_ADMIN) (\<lambda>_.
    act_bind (act_of (status_filter q)) (\<lambda>status.
    act_bind (read_profile (\<lambda>db. list_guard_profiles db status)) (\<lambda>profiles.
    act_bind (audited env (au_id user) ''admin_list_guard_profiles'' q) (\<lambda>_.
    act_return (attach_login_phones env (\<lambda>p. gp_user (fst p)) profiles)))))"

definition admin_list_customer_profiles :: "profile_env \<Rightarrow> auth_user \<Rightarrow> string option
    \<Rightarrow> (profile_state, ((customer_response \<times> instant \<times> approval_status) \<times> utext option) list) act" where
  "admin_list_customer_profiles env user q =
    act_bind (require_role user PROFILE_ROLE_ADMIN) (\<lambda>_.
    act_bind (act_of (status_filter q)) (\<lambda>status.
    act_bind (read_profile (\<lambda>db. list_customer_profiles db status)) (\<lambda>profiles.
    act_bind (audited env (au_id user) ''admin_list_customer_profiles'' q) (\<lambda>_.
    act_return (attach_login_phones env (\<lambda>p. cp_user (fst p)) profiles)))))"

definition page_limit :: "int option \<Rightarrow> int" where
  "page_limit l = max 1 (min (case l of Some x \<Rightarrow> x | None \<Rightarrow> 50) 200)"

definition page_offset :: "int option \<Rightarrow> int" where
  "page_offset off = max (case off of Some x \<Rightarrow> x | None \<Rightarrow> 0) 0"

definition admin_list_access_audit :: "auth_user \<Rightarrow> string option \<Rightarrow> int option \<Rightarrow> int option \<Rightarrow> (profile_state, access_row list) act" where
  "admin_list_access_audit user action limit offset =
    act_bind (require_role user PROFILE_ROLE_ADMIN) (\<lambda>_.
    read_profile (\<lambda>db. list_access_audit db action (page_limit limit) (page_offset offset)))"

subsection \<open>Organisation settings and tickets\<close>

definition admin_get_org_settings :: "auth_user \<Rightarrow> (profile_state, org_view) act" where
  "admin_get_org_settings user = act_bind (require_role user PROFILE_ROLE_ADMIN) (\<lambda>_. read_profile get_org_settings)"

definition api_get_org_settings :: "auth_user \<Rightarrow> (profile_state, org_view) act" where
  "api_get_org_settings user = read_profile get_org_settings"

definition admin_update_org_settings :: "profile_env \<Rightarrow> auth_user \<Rightarrow> org_request \<Rightarrow> (profile_state, org_view) act" where
  "admin_update_org_settings env user req =
    act_bind (require_role user PROFILE_ROLE_ADMIN) (\<lambda>_.
    act_bind (checked_by (validate_text (oq_company_name req) ''company_name'' MAX_TEXT_LEN)) (\<lambda>_.
    act_bind (checked_by (validate_tax_id (oq_tax_id req))) (\<lambda>_.
    act_bind (checked_by (validate_text (oq_address req) ''address'' MAX_TEXT_LEN)) (\<lambda>_.
    profile_tx (upsert_org_settings (pe_call env) (au_id user) req)))))"

definition SUPPORT_TICKET_KINDS :: "utext list" where "SUPPORT_TICKET_KINDS = [asc ''problem'', asc ''feedback'']"
definition MAX_SUPPORT_TICKET_MESSAGE_LEN :: nat where "MAX_SUPPORT_TICKET_MESSAGE_LEN = 2000"

definition create_support_ticket :: "profile_env \<Rightarrow> auth_user \<Rightarrow> utext \<Rightarrow> utext \<Rightarrow> (profile_state, uuid \<times> ticket_row) act" where
  "create_support_ticket env user kind message =
    act_bind (checked_by (validate_ticket_kind kind SUPPORT_TICKET_KINDS)) (\<lambda>_.
    act_bind (checked_by (validate_ticket_message message MAX_SUPPORT_TICKET_MESSAGE_LEN)) (\<lambda>_.
    profile_tx (insert_support_ticket (pe_call env) (au_id user) kind (trim_ends message))))"

definition admin_list_support_tickets :: "auth_user \<Rightarrow> int option \<Rightarrow> int option \<Rightarrow> (profile_state, (uuid \<times> ticket_row) list) act" where
  "admin_list_support_tickets user limit offset =
    act_bind (require_role user PROFILE_ROLE_ADMIN) (\<lambda>_.
    read_profile (\<lambda>db. list_support_tickets db (page_limit limit) (page_offset offset)))"

subsection \<open>Names\<close>

definition RESOLVE_NAMES_LIMIT :: nat where "RESOLVE_NAMES_LIMIT = 500"

record resolved_name =
  rn_role :: string
  rn_display_name :: "utext option"

definition collect_names :: "name_row list \<Rightarrow> (uuid \<times> resolved_name) list" where
  "collect_names rows = fold (\<lambda>r m. AList.update (nr_user r)
     \<lparr>rn_role = nr_role r, rn_display_name = nr_full_name r\<rparr> m) rows []"

text \<open>An identity answer is taken for an administrator only.\<close>

definition add_identity_names :: "(uuid \<times> identity_name) list \<Rightarrow> (uuid \<times> resolved_name) list \<Rightarrow> (uuid \<times> resolved_name) list" where
  "add_identity_names names m = fold (\<lambda>(k, n) m. if in_role n = PROFILE_ROLE_ADMIN
     then AList.update k \<lparr>rn_role = in_role n, rn_display_name = in_display_name n\<rparr> m else m) names m"

definition admin_resolve_names :: "profile_env \<Rightarrow> auth_user \<Rightarrow> uuid list \<Rightarrow> (profile_state, (uuid \<times> resolved_name) list) act" where
  "admin_resolve_names env user req_ids =
    act_bind (require_role user PROFILE_ROLE_ADMIN) (\<lambda>_.
    act_bind (act_guard (length req_ids \<le> RESOLVE_NAMES_LIMIT)
      (BadRequest ''too many ids (max {RESOLVE_NAMES_LIMIT} per request [page the resolve calls])'')) (\<lambda>_.
    (let ids = dedup req_ids in
     act_bind (read_profile (\<lambda>db. resolve_names db ids)) (\<lambda>rows.
     (let m = collect_names rows; unresolved = filter (\<lambda>k. map_of m k = None) ids
      in act_return (if unresolved = [] then m else add_identity_names (pe_identity env unresolved) m))))))"

subsection \<open>For the other services\<close>

definition INTERNAL_GUARDS_LIMIT :: int where "INTERNAL_GUARDS_LIMIT = 100"
definition RECIPIENTS_LIMIT :: int where "RECIPIENTS_LIMIT = 5000"

definition internal_list_guards :: "s3_lib \<Rightarrow> s3_client \<Rightarrow> profile_env \<Rightarrow> (profile_state, (guard_listing \<times> string option) list) act" where
  "internal_list_guards L C env = read_profile (\<lambda>db. map (\<lambda>g. (g, map_option (download_url L C (pe_now env)) (gl_avatar_key g)))
     (list_approved_guards db INTERNAL_GUARDS_LIMIT))"

definition internal_pending_roles :: "uuid \<Rightarrow> (profile_state, string list) act" where
  "internal_pending_roles k = read_profile (\<lambda>db. pending_roles_for_user db k)"

record payout_profile =
  pp_full_name :: "utext option"
  pp_tax_id :: "utext option"
  pp_address :: "utext option"
  pp_phone :: "utext option"

definition login_phone :: "profile_env \<Rightarrow> uuid \<Rightarrow> utext option" where
  "login_phone env k = obind (map_of (pe_identity env [k]) k) in_phone"

definition internal_guard_payout_profile :: "profile_env \<Rightarrow> uuid \<Rightarrow> (profile_state, payout_profile) act" where
  "internal_guard_payout_profile env guard_id =
    act_bind (read_profile (\<lambda>db. guard_payout_row db guard_id)) (\<lambda>row0.
    act_bind (not_found_or ''Guard not found'' row0) (\<lambda>(full_name, tax_id, address).
    act_return \<lparr>pp_full_name = full_name, pp_tax_id = tax_id, pp_address = address,
      pp_phone = login_phone env guard_id\<rparr>))"

definition non_blank :: "utext option \<Rightarrow> utext option" where
  "non_blank v = obind v (\<lambda>p. if trim_ends p = [] then None else Some p)"

definition internal_customer_payout_profile :: "profile_env \<Rightarrow> uuid \<Rightarrow> (profile_state, payout_profile) act" where
  "internal_customer_payout_profile env user_id =
    act_bind (read_profile (\<lambda>db. customer_payout_row db user_id)) (\<lambda>row0.
    act_bind (not_found_or ''Customer not found'' row0) (\<lambda>(full_name, address, contact_phone).
    act_return \<lparr>pp_full_name = full_name, pp_tax_id = None, pp_address = address,
      pp_phone = or_opt (non_blank contact_phone) (non_blank (login_phone env user_id))\<rparr>))"

definition internal_org_settings :: "(profile_state, org_view) act" where
  "internal_org_settings = read_profile get_org_settings"

definition internal_list_recipients :: "string \<Rightarrow> (profile_state, string \<times> nat \<times> uuid list) act" where
  "internal_list_recipients audience =
    act_bind (act_guard (audience \<in> {''all'', ''guards'', ''customers''})
      (BadRequest ''audience must be all|guards|customers (got {other})'')) (\<lambda>_.
    act_bind (read_profile (\<lambda>db. recipient_ids db audience RECIPIENTS_LIMIT)) (\<lambda>ids0.
    act_bind (act_of ids0) (\<lambda>ids.
    act_return (audience, length ids, ids))))"

subsection \<open>Recruitment, expiring documents, decisions\<close>

definition admin_list_candidates :: "auth_user \<Rightarrow> (profile_state, candidate list) act" where
  "admin_list_candidates user =
    act_bind (require_role user PROFILE_ROLE_ADMIN) (\<lambda>_. read_profile list_recruitment_candidates)"

definition admin_set_candidate_stage :: "profile_env \<Rightarrow> auth_user \<Rightarrow> uuid \<Rightarrow> string \<Rightarrow> (profile_state, candidate) act" where
  "admin_set_candidate_stage env user k stage =
    act_bind (require_role user PROFILE_ROLE_ADMIN) (\<lambda>_. profile_tx (set_recruitment_stage (pe_call env) k stage))"

definition DOC_EXPIRY_WINDOWS :: "int list" where "DOC_EXPIRY_WINDOWS = [7, 30, 90]"
definition DOC_EXPIRY_DEFAULT_WINDOW :: int where "DOC_EXPIRY_DEFAULT_WINDOW = 90"

definition admin_list_expiring_documents :: "profile_env \<Rightarrow> auth_user \<Rightarrow> int option
    \<Rightarrow> (profile_state, expiry_view list \<times> expiry_buckets) act" where
  "admin_list_expiring_documents env user window =
    act_bind (require_role user PROFILE_ROLE_ADMIN) (\<lambda>_.
    (let w = (case window of Some x \<Rightarrow> x | None \<Rightarrow> DOC_EXPIRY_DEFAULT_WINDOW); today = utc_date (tx_now (pe_call env)) in
     act_bind (act_guard (w \<in> set DOC_EXPIRY_WINDOWS) (BadRequest ''window must be 7, 30 or 90'')) (\<lambda>_.
     read_profile (\<lambda>db. (list_expiring_documents today db w, expiring_document_buckets today db)))))"

definition admin_pending_applicants_count :: "auth_user \<Rightarrow> (profile_state, nat \<times> nat \<times> nat) act" where
  "admin_pending_applicants_count user =
    act_bind (require_role user PROFILE_ROLE_ADMIN) (\<lambda>_. read_profile count_pending_applicants)"

definition admin_approve_guard :: "profile_env \<Rightarrow> auth_user \<Rightarrow> uuid \<Rightarrow> (profile_state, guard_response) act" where
  "admin_approve_guard env user k =
    act_bind (require_role user PROFILE_ROLE_ADMIN) (\<lambda>_.
    profile_tx (set_approval_status (pe_call env) k ApprovalApproved PROFILE_ROLE_GUARD))"

definition admin_reject_guard :: "profile_env \<Rightarrow> auth_user \<Rightarrow> uuid \<Rightarrow> (profile_state, guard_response) act" where
  "admin_reject_guard env user k =
    act_bind (require_role user PROFILE_ROLE_ADMIN) (\<lambda>_.
    profile_tx (set_approval_status (pe_call env) k ApprovalRejected PROFILE_ROLE_GUARD))"

definition payout_checks :: "payout_fields \<Rightarrow> (profile_state, unit) act list" where
  "payout_checks req =
    [checked_by (validate_guard_tax_id (py_tax_id req)),
     reject_masked_write (py_tax_id req) MASKED_TAX_ID_MSG,
     checked_by (validate_text (py_bank_name req) ''bank_name'' MAX_TEXT_LEN),
     checked_by (validate_text (py_account_name req) ''account_name'' MAX_TEXT_LEN),
     checked_by (validate_text (py_account_number req) ''account_number'' MAX_ACCOUNT_NUMBER_LEN),
     reject_masked_write (py_account_number req) MASKED_ACCOUNT_NUMBER_MSG]"

definition admin_update_guard_payout :: "profile_env \<Rightarrow> auth_user \<Rightarrow> uuid \<Rightarrow> payout_fields \<Rightarrow> (profile_state, guard_response) act" where
  "admin_update_guard_payout env user k req =
    act_bind (require_role user PROFILE_ROLE_ADMIN) (\<lambda>_.
    act_bind (all_checks (payout_checks req)) (\<lambda>_.
    act_bind (audited env (au_id user) ''admin_update_guard_payout'' (Some (uuid_text k))) (\<lambda>_.
    profile_tx (update_guard_payout_fields (pe_call env) k req))))"

definition admin_approve_customer :: "profile_env \<Rightarrow> auth_user \<Rightarrow> uuid \<Rightarrow> (profile_state, customer_response) act" where
  "admin_approve_customer env user k =
    act_bind (require_role user PROFILE_ROLE_ADMIN) (\<lambda>_.
    profile_tx (set_customer_approval (pe_call env) k ApprovalApproved PROFILE_ROLE_CUSTOMER))"

definition admin_reject_customer :: "profile_env \<Rightarrow> auth_user \<Rightarrow> uuid \<Rightarrow> (profile_state, customer_response) act" where
  "admin_reject_customer env user k =
    act_bind (require_role user PROFILE_ROLE_ADMIN) (\<lambda>_.
    profile_tx (set_customer_approval (pe_call env) k ApprovalRejected PROFILE_ROLE_CUSTOMER))"

subsection \<open>Booking events\<close>

definition active_for :: "string \<Rightarrow> bool option" where
  "active_for event_type =
    (if event_type = BOOKING_JOB_ACCEPTED then Some True
     else if event_type = BOOKING_DECLINED \<or> event_type = BOOKING_CANCELLED \<or> event_type = BOOKING_COMPLETED
     then Some False else None)"

text \<open>The payload must name a booking; the two people may be absent or null, and nothing else.\<close>

definition optional_uuid :: "payload \<Rightarrow> string \<Rightarrow> uuid option option" where
  "optional_uuid p k = (case jget p k of
     None \<Rightarrow> Some None | Some JNull \<Rightarrow> Some None | Some (JUuid u) \<Rightarrow> Some (Some u) | _ \<Rightarrow> None)"

definition read_booking_link :: "payload \<Rightarrow> (uuid \<times> uuid option \<times> uuid option) option" where
  "read_booking_link p = (case (jget p ''booking_id'', optional_uuid p ''customer_id'', optional_uuid p ''guard_id'') of
     (Some (JUuid b), Some c, Some g) \<Rightarrow> Some (b, c, g) | _ \<Rightarrow> None)"

definition consume_booking_event :: "envelope \<Rightarrow> profile_db \<Rightarrow> profile_db" where
  "consume_booking_event e db = (case read_booking_link (ev_payload e) of
     None \<Rightarrow> db
   | Some (booking, customer, guard) \<Rightarrow> (case active_for (ev_type e) of
       None \<Rightarrow> db
     | Some active \<Rightarrow> upsert_assignment booking customer guard active (ev_occurred_at e) db))"

subsection \<open>The relay\<close>

text \<open>
  One pass over a batch of decisions: each is sent and then marked, and the first that cannot be sent
  ends the pass. What was sent is the log.
\<close>

fun relay_decisions :: "(outbox_row \<Rightarrow> bool) \<Rightarrow> instant \<Rightarrow> outbox_row list \<Rightarrow> profile_db \<times> envelope list \<Rightarrow> profile_db \<times> envelope list" where
  "relay_decisions sends now [] s = s"
| "relay_decisions sends now (r # rs) (db, sent) =
    (if sends r then relay_decisions sends now rs (mark_decision_published now (ob_id r) db, sent @ [ob_envelope r])
     else (db, sent))"

definition PROFILE_BATCH :: nat where "PROFILE_BATCH = 100"

definition drain_decisions :: "(outbox_row \<Rightarrow> bool) \<Rightarrow> instant \<Rightarrow> profile_db \<times> envelope list \<Rightarrow> profile_db \<times> envelope list" where
  "drain_decisions sends now s = relay_decisions sends now (fetch_unpublished_decisions (fst s) PROFILE_BATCH) s"

end
