(* ===== verification/Profile_Properties.thy ===== *)
theory Profile_Properties
  imports Profile_Api
begin

text \<open>
  What the profile service keeps, over every sequence of its calls: only valid and unmasked bank and tax
  details are stored, every document a profile names is in the object store, decisions are final, and
  the link that shows a guard to a customer follows the latest event of their booking.
\<close>

subsection \<open>Checks\<close>

definition pure_check :: "(profile_state, 'a) act \<Rightarrow> bool" where
  "pure_check c = (\<forall>s. fst (c s) = s)"

lemma pure_checks [simp]:
  "pure_check (checked_by c)" "pure_check (reject_masked_write v m)" "pure_check (act_of r)"
  "pure_check (act_guard ok e)" "pure_check (require_role user role)" "pure_check (act_return x)" "pure_check (act_fail e)"
  by (simp_all add: pure_check_def checked_by_def reject_masked_write_def require_role_def)

lemma all_checks_snoc: "all_checks (cs @ [c]) = act_bind (all_checks cs) (\<lambda>_. c)"
  by (simp add: all_checks_def)

lemma all_checks_pure:
  assumes "list_all pure_check cs"
  shows "fst (all_checks cs s) = s \<and> (snd (all_checks cs s) = Inr () \<longleftrightarrow> list_all (\<lambda>c. snd (c s) = Inr ()) cs)"
  using assms
proof (induction cs rule: rev_induct)
  case Nil
  then show ?case by (simp add: all_checks_def)
next
  case (snoc c cs)
  then have f: "fst (all_checks cs s) = s" "fst (c s) = s"
    "snd (all_checks cs s) = Inr () \<longleftrightarrow> list_all (\<lambda>c. snd (c s) = Inr ()) cs"
    by (auto simp: pure_check_def)
  show ?case
  proof (cases "snd (all_checks cs s)")
    case (Inl e)
    then have "act_bind (all_checks cs) (\<lambda>_. c) s = (s, Inl e)" using f(1) by (simp add: act_bind_run)
    then show ?thesis using Inl f(3) by (simp add: all_checks_snoc)
  next
    case (Inr u)
    then have "act_bind (all_checks cs) (\<lambda>_. c) s = c s" using f(1) by (simp add: act_bind_run)
    then show ?thesis using Inr f by (simp add: all_checks_snoc)
  qed
qed

definition text_ok :: "nat \<Rightarrow> utext option \<Rightarrow> bool" where
  "text_ok n v = (case v of None \<Rightarrow> True | Some s \<Rightarrow> length s \<le> n)"

lemma validate_text_ok [simp]: "validate_text v m n = Inr () \<longleftrightarrow> text_ok n v"
  by (auto simp: validate_text_def text_ok_def split: option.splits)

definition payout_ok :: "utext option \<Rightarrow> utext option \<Rightarrow> utext option \<Rightarrow> utext option \<Rightarrow> bool" where
  "payout_ok tax_id bank_name account_number account_name =
    (validate_guard_tax_id tax_id = Inr () \<and> \<not> looks_masked tax_id \<and> text_ok MAX_TEXT_LEN bank_name
     \<and> text_ok MAX_ACCOUNT_NUMBER_LEN account_number \<and> \<not> looks_masked account_number
     \<and> text_ok MAX_TEXT_LEN account_name)"

definition fields_ok :: "guard_fields \<Rightarrow> bool" where
  "fields_ok f = (validate_years_of_experience (gf_years f) = Inr ()
     \<and> list_all (text_ok MAX_TEXT_LEN) [gf_gender f, gf_previous_workplace f, gf_full_name f, gf_address f,
         gf_emergency_name f, gf_emergency_relationship f]
     \<and> validate_thai_phone (gf_emergency_phone f) ''emergency_contact_phone'' = Inr ()
     \<and> payout_ok (gf_tax_id f) (gf_bank_name f) (gf_account_number f) (gf_account_name f))"

lemma checked_by_Inr [simp]: "snd (checked_by c s) = Inr () \<longleftrightarrow> c = Inr ()"
  by (simp add: checked_by_def split: sum.split)

lemma reject_masked_Inr [simp]: "snd (reject_masked_write v m s) = Inr () \<longleftrightarrow> \<not> looks_masked v"
  by (simp add: reject_masked_write_def ensure_def)

lemma validate_guard_req_pure:
  "fst (validate_guard_req f s) = s \<and> (snd (validate_guard_req f s) = Inr () \<longleftrightarrow> fields_ok f)"
proof -
  have p: "list_all pure_check (guard_checks f)" by (simp add: guard_checks_def)
  have "list_all (\<lambda>c. snd (c s) = Inr ()) (guard_checks f) \<longleftrightarrow> fields_ok f"
    by (auto simp: guard_checks_def fields_ok_def payout_ok_def)
  then show ?thesis using all_checks_pure [OF p, of s] by (simp add: validate_guard_req_def)
qed

subsection \<open>Calls\<close>

datatype profile_call =
    SubmitGuard request_parts guard_request
  | SaveGuard auth_user guard_request
  | SubmitCustomer request_parts customer_fields
  | UploadDocument request_parts uuid multipart
  | ReadDocument auth_user uuid string
  | ListExpiries auth_user uuid
  | SetExpiry auth_user uuid string int
  | UploadGuardAvatar auth_user uuid multipart
  | ReadGuardAvatar auth_user uuid
  | UploadCustomerAvatar auth_user uuid multipart
  | ReadCustomerAvatar auth_user uuid
  | ReadCustomer auth_user uuid
  | ListGuards auth_user "string option"
  | ListCustomers auth_user "string option"
  | UpdateOrg auth_user org_request
  | OpenTicket auth_user utext utext
  | SetStage auth_user uuid string
  | ApproveGuard auth_user uuid
  | RejectGuard auth_user uuid
  | UpdatePayout auth_user uuid payout_fields
  | ApproveCustomer auth_user uuid
  | RejectCustomer auth_user uuid
  | BookingEvent envelope
  | Relay "outbox_row \<Rightarrow> bool"

text \<open>A call by a writer runs when the writer is accepted.\<close>

definition as_writer :: "'w app_result \<Rightarrow> ('w \<Rightarrow> (profile_state, 'a) act) \<Rightarrow> (profile_state, unit) act" where
  "as_writer w h = act_bind (act_of w) (\<lambda>x. act_bind (h x) (\<lambda>_. act_return ()))"

definition done_with :: "(profile_state, 'a) act \<Rightarrow> (profile_state, unit) act" where
  "done_with h = act_bind h (\<lambda>_. act_return ())"

fun profile_handler :: "jwt_lib \<Rightarrow> s3_lib \<Rightarrow> s3_client \<Rightarrow> profile_env \<Rightarrow> redis \<Rightarrow> profile_call \<Rightarrow> (profile_state, unit) act" where
  "profile_handler J L C env r (SubmitGuard parts req) = as_writer (guard_profile_writer J env r parts)
     (\<lambda>w. api_upsert_guard_profile J env w req)"
| "profile_handler J L C env r (SaveGuard user req) = done_with (api_update_guard_profile env user req)"
| "profile_handler J L C env r (SubmitCustomer parts req) = as_writer (customer_profile_writer J env r parts)
     (\<lambda>w. api_upsert_customer_profile env w req)"
| "profile_handler J L C env r (UploadDocument parts k form) = as_writer (guard_doc_writer J env r parts)
     (\<lambda>w. upload_guard_document L C env w k form)"
| "profile_handler J L C env r (ReadDocument user k d) = done_with (get_guard_document L C env user k d)"
| "profile_handler J L C env r (ListExpiries user k) = done_with (list_guard_document_expiries env user k)"
| "profile_handler J L C env r (SetExpiry user k d x) = done_with (set_guard_document_expiry env user k d x)"
| "profile_handler J L C env r (UploadGuardAvatar user k form) = done_with (upload_guard_avatar L C env user k form)"
| "profile_handler J L C env r (ReadGuardAvatar user k) = done_with (get_guard_avatar L C env user k)"
| "profile_handler J L C env r (UploadCustomerAvatar user k form) = done_with (upload_customer_avatar L C env user k form)"
| "profile_handler J L C env r (ReadCustomerAvatar user k) = done_with (get_customer_avatar L C env user k)"
| "profile_handler J L C env r (ReadCustomer user k) = done_with (get_public_customer_profile L C env user k)"
| "profile_handler J L C env r (ListGuards user q) = done_with (admin_list_guard_profiles env user q)"
| "profile_handler J L C env r (ListCustomers user q) = done_with (admin_list_customer_profiles env user q)"
| "profile_handler J L C env r (UpdateOrg user req) = done_with (admin_update_org_settings env user req)"
| "profile_handler J L C env r (OpenTicket user kind m) = done_with (create_support_ticket env user kind m)"
| "profile_handler J L C env r (SetStage user k st) = done_with (admin_set_candidate_stage env user k st)"
| "profile_handler J L C env r (ApproveGuard user k) = done_with (admin_approve_guard env user k)"
| "profile_handler J L C env r (RejectGuard user k) = done_with (admin_reject_guard env user k)"
| "profile_handler J L C env r (UpdatePayout user k req) = done_with (admin_update_guard_payout env user k req)"
| "profile_handler J L C env r (ApproveCustomer user k) = done_with (admin_approve_customer env user k)"
| "profile_handler J L C env r (RejectCustomer user k) = done_with (admin_reject_customer env user k)"
| "profile_handler J L C env r (BookingEvent e) = profile_write (consume_booking_event e)"
| "profile_handler J L C env r (Relay sends) = profile_write (\<lambda>db. fst (drain_decisions sends (pe_now env) (db, [])))"

definition profile_step :: "jwt_lib \<Rightarrow> s3_lib \<Rightarrow> s3_client \<Rightarrow> profile_env \<times> profile_call \<Rightarrow> profile_state \<Rightarrow> profile_state" where
  "profile_step J L C ec s = fst (profile_handler J L C (fst ec) (ps_redis s) (snd ec) s)"

text \<open>The calls that put an object in the store.\<close>

fun is_upload :: "profile_call \<Rightarrow> bool" where
  "is_upload (UploadDocument parts k form) = True"
| "is_upload (UploadGuardAvatar user k form) = True"
| "is_upload (UploadCustomerAvatar user k form) = True"
| "is_upload _ = False"

subsection \<open>Actions that keep a property\<close>

lemma keeps_as_writer [keeps_intros]: "(\<And>x. keeps P (h x)) \<Longrightarrow> keeps P (as_writer w h)"
  unfolding as_writer_def by (intro keeps_intros)

lemma keeps_done_with [keeps_intros]: "keeps P h \<Longrightarrow> keeps P (done_with h)"
  unfolding done_with_def by (intro keeps_intros)

lemma keeps_pure [keeps_intros]: "pure_check c \<Longrightarrow> keeps P c"
  by (simp add: keeps_def pure_check_def)

lemma keeps_read [keeps_intros]: "keeps P (read_profile f)"
  by (simp add: keeps_def read_profile_def)

lemma keeps_checks [keeps_intros]: "keeps P (all_checks cs)" if "list_all pure_check cs"
  using all_checks_pure [OF that] by (simp add: keeps_def)

lemma keeps_validate [keeps_intros]: "keeps P (validate_guard_req f)"
  using validate_guard_req_pure by (simp add: keeps_def)

lemma keeps_column [keeps_intros]: "keeps P (column_of d)"
  by (simp add: keeps_def column_of_def)

lemma keeps_not_found [keeps_intros]: "keeps P (not_found_or m v)"
  by (simp add: keeps_def not_found_or_def)

lemma keeps_own [keeps_intros]: "keeps P (own_or_admin user k m)"
  by (simp add: keeps_def own_or_admin_def)

lemma keeps_require [keeps_intros]: "keeps P (require_role user role)"
  by (simp add: keeps_def require_role_def)

lemma keeps_checked [keeps_intros]: "keeps P (checked_by c)"
  by (simp add: keeps_def checked_by_def)

text \<open>A property of the profile tables alone.\<close>

definition db_keeps :: "(profile_db \<Rightarrow> bool) \<Rightarrow> (profile_db \<Rightarrow> ('a \<times> profile_db) app_result) \<Rightarrow> bool" where
  "db_keeps Q t = (\<forall>db x db'. Q db \<longrightarrow> t db = Inr (x, db') \<longrightarrow> Q db')"

lemma db_keepsI: "(\<And>db x db'. Q db \<Longrightarrow> t db = Inr (x, db') \<Longrightarrow> Q db') \<Longrightarrow> db_keeps Q t"
  by (auto simp: db_keeps_def)

text \<open>A property of the tables together with one of the stored objects.\<close>

definition on_tables :: "(profile_db \<Rightarrow> bool) \<Rightarrow> (objects \<Rightarrow> bool) \<Rightarrow> profile_state \<Rightarrow> bool" where
  "on_tables Q R s = (Q (ps_db s) \<and> R (ps_objects s))"

abbreviation any_objects :: "objects \<Rightarrow> bool" where "any_objects \<equiv> \<lambda>_. True"

lemma keeps_profile_tx: "db_keeps Q t \<Longrightarrow> keeps (on_tables Q R) (profile_tx t)"
  by (auto simp: keeps_def on_tables_def profile_tx_def db_keeps_def split: sum.split)

lemma keeps_profile_write: "(\<And>db. Q db \<Longrightarrow> Q (f db)) \<Longrightarrow> keeps (on_tables Q R) (profile_write f)"
  by (simp add: keeps_def on_tables_def profile_write_def)

lemma keeps_swap_db: "db_keeps Q t \<Longrightarrow> keeps (on_tables Q any_objects) (swap_key env key t)"
  by (auto simp: keeps_def on_tables_def swap_key_def db_keeps_def drop_object_def split: sum.split option.split)

lemma keeps_put_db: "keeps (on_tables Q any_objects) (put_object env key data)"
  by (auto simp: keeps_def on_tables_def put_object_def split: sum.split)

lemma keeps_claim_db: "keeps (on_tables Q R) (claim_if_token env j)"
  by (auto simp: keeps_def on_tables_def claim_if_token_def claim_profile_jti_def case_prod_beta Let_def split: option.split)

lemma keeps_after_checks:
  assumes "list_all pure_check cs" "\<And>s. list_all (\<lambda>c. snd (c s) = Inr ()) cs \<Longrightarrow> ok" "ok \<Longrightarrow> keeps P (k ())"
  shows "keeps P (act_bind (all_checks cs) k)"
proof -
  have "P (fst (act_bind (all_checks cs) k s))" if "P s" for s
  proof (cases "snd (all_checks cs s)")
    case (Inl e)
    then show ?thesis using all_checks_pure [OF assms(1), of s] that by (simp add: act_bind_run)
  next
    case (Inr u)
    then have "ok" using all_checks_pure [OF assms(1), of s] assms(2) by simp
    then have "P (fst (k () s))" using assms(3) that by (simp add: keeps_def)
    then show ?thesis using all_checks_pure [OF assms(1), of s] Inr by (simp add: act_bind_run)
  qed
  then show ?thesis by (simp add: keeps_def)
qed

lemma keeps_validated: "(fields_ok f \<Longrightarrow> keeps P (k ())) \<Longrightarrow> keeps P (act_bind (validate_guard_req f) k)"
  unfolding validate_guard_req_def
  by (rule keeps_after_checks [where ok = "fields_ok f"])
    (auto simp: guard_checks_def fields_ok_def payout_ok_def)

lemma keeps_payout_checked:
  "(payout_ok (py_tax_id req) (py_bank_name req) (py_account_number req) (py_account_name req) \<Longrightarrow> keeps P (k ()))
    \<Longrightarrow> keeps P (act_bind (all_checks (payout_checks req)) k)"
  by (rule keeps_after_checks [where ok = "payout_ok (py_tax_id req) (py_bank_name req) (py_account_number req) (py_account_name req)"])
    (auto simp: payout_checks_def payout_ok_def)

text \<open>
  A property of the tables that every statement keeps, the bank details only when they were checked;
  then every call keeps it.
\<close>

locale profile_write_invariant =
  fixes Q :: "profile_db \<Rightarrow> bool"
  assumes keep_upsert: "fields_ok form \<Longrightarrow> db_keeps Q (upsert_guard_profile e k form)"
    and keep_update: "fields_ok form \<Longrightarrow> db_keeps Q (update_guard_profile e k form)"
    and keep_payout: "payout_ok (py_tax_id req) (py_bank_name req) (py_account_number req) (py_account_name req)
      \<Longrightarrow> db_keeps Q (update_guard_payout_fields e k req)"
    and keep_customer: "db_keeps Q (upsert_customer_profile e k cform)"
    and keep_decision: "db_keeps Q (set_approval_status e k target PROFILE_ROLE_GUARD)"
    and keep_customer_decision: "db_keeps Q (set_customer_approval e k target PROFILE_ROLE_CUSTOMER)"
    and keep_stage: "db_keeps Q (set_recruitment_stage e k stage)"
    and keep_expiry: "db_keeps Q (upsert_document_expiry e k doc day)"
    and keep_org: "db_keeps Q (upsert_org_settings e k oreq)"
    and keep_ticket: "db_keeps Q (insert_support_ticket e k kind message)"
    and keep_access: "Q db \<Longrightarrow> Q (record_access e k action aim db)"
    and keep_link: "Q db \<Longrightarrow> Q (upsert_assignment booking customer guard active stamp db)"
    and keep_published: "Q db \<Longrightarrow> Q (mark_decision_published stamp oid db)"
begin

lemma keeps_expiries: "keeps (on_tables Q R) (apply_document_expiries env k req)"
proof -
  have fold_keeps: "Q (fold (\<lambda>(document_type, expiry_date) db.
         if document_expiry_is_capturable document_type expiry_date (utc_date (pe_now env))
         then (case upsert_document_expiry (pe_call env) k document_type expiry_date db of
             Inr (_, db') \<Rightarrow> db' | Inl _ \<Rightarrow> db)
         else db) xs db)" if "Q db" for xs db
    using that
  proof (induction xs arbitrary: db)
    case (Cons x xs)
    have "Q (case upsert_document_expiry (pe_call env) k (fst x) (snd x) db of Inr (_, db') \<Rightarrow> db' | Inl _ \<Rightarrow> db)"
      using Cons.prems keep_expiry unfolding db_keeps_def by (auto split: sum.split)
    then show ?case using Cons by (simp add: case_prod_beta)
  qed simp
  show ?thesis
    unfolding apply_document_expiries_def
    by (rule keeps_profile_write) (simp add: fold_keeps split: option.split)
qed

lemma keeps_audited: "keeps (on_tables Q R) (audited env who action aim)"
  unfolding audited_def by (rule keeps_profile_write) (rule keep_access)

lemma keeps_audited_for: "keeps (on_tables Q R) (audited_for env user k action aim)"
  unfolding audited_for_def by (intro keeps_intros keeps_audited)

lemma relay_keeps: "Q (fst s) \<Longrightarrow> Q (fst (relay_decisions sends now rs s))"
  by (induction rs arbitrary: s) (auto simp: keep_published)

lemmas call_intros = keeps_validated keeps_payout_checked keeps_intros keeps_claim_db keeps_expiries
  keeps_audited keeps_audited_for
  keeps_profile_tx [OF keep_upsert] keeps_profile_tx [OF keep_update] keeps_profile_tx [OF keep_payout]
  keeps_profile_tx [OF keep_customer] keeps_profile_tx [OF keep_decision] keeps_profile_tx [OF keep_customer_decision]
  keeps_profile_tx [OF keep_stage] keeps_profile_tx [OF keep_expiry] keeps_profile_tx [OF keep_org]
  keeps_profile_tx [OF keep_ticket]

lemma writers_keep:
  "keeps (on_tables Q R) (api_upsert_guard_profile J env w req)"
  "keeps (on_tables Q R) (api_update_guard_profile env user req)"
  "keeps (on_tables Q R) (api_upsert_customer_profile env w creq)"
  "keeps (on_tables Q R) (admin_update_guard_payout env user k preq)"
  unfolding api_upsert_guard_profile_def api_update_guard_profile_def api_upsert_customer_profile_def
    admin_update_guard_payout_def
  by ((rule call_intros | assumption | simp add: customer_checks_def)+)

lemma reads_keep:
  "keeps (on_tables Q R) (get_guard_document L C env user k d)"
  "keeps (on_tables Q R) (list_guard_document_expiries env user k)"
  "keeps (on_tables Q R) (set_guard_document_expiry env user k d x)"
  "keeps (on_tables Q R) (get_guard_avatar L C env user k)"
  "keeps (on_tables Q R) (get_customer_avatar L C env user k)"
  "keeps (on_tables Q R) (get_public_customer_profile L C env user k)"
  "keeps (on_tables Q R) (admin_list_guard_profiles env user q)"
  "keeps (on_tables Q R) (admin_list_customer_profiles env user q)"
  unfolding get_guard_document_def list_guard_document_expiries_def set_guard_document_expiry_def get_guard_avatar_def
    get_customer_avatar_def get_public_customer_profile_def admin_list_guard_profiles_def admin_list_customer_profiles_def
  by (rule call_intros)+

lemma decisions_keep:
  "keeps (on_tables Q R) (admin_update_org_settings env user oreq)"
  "keeps (on_tables Q R) (create_support_ticket env user kind m)"
  "keeps (on_tables Q R) (admin_set_candidate_stage env user k st)"
  "keeps (on_tables Q R) (admin_approve_guard env user k)"
  "keeps (on_tables Q R) (admin_reject_guard env user k)"
  "keeps (on_tables Q R) (admin_approve_customer env user k)"
  "keeps (on_tables Q R) (admin_reject_customer env user k)"
  unfolding admin_update_org_settings_def create_support_ticket_def admin_set_candidate_stage_def
    admin_approve_guard_def admin_reject_guard_def admin_approve_customer_def admin_reject_customer_def
  by (rule call_intros)+

lemma booking_event_keeps: "keeps (on_tables Q R) (profile_handler J L C env r (BookingEvent e))"
  unfolding profile_handler.simps
  by (rule keeps_profile_write) (auto simp: consume_booking_event_def keep_link split: option.split prod.split)

lemma relay_call_keeps: "keeps (on_tables Q R) (profile_handler J L C env r (Relay sends))"
  unfolding profile_handler.simps drain_decisions_def by (rule keeps_profile_write) (simp add: relay_keeps)

lemma handler_keeps_objects:
  assumes "\<not> is_upload c"
  shows "keeps (on_tables Q R) (profile_handler J L C env r c)"
proof (cases c)
  case (BookingEvent e)
  show ?thesis unfolding BookingEvent by (rule booking_event_keeps)
next
  case (Relay sends)
  show ?thesis unfolding Relay by (rule relay_call_keeps)
qed (use assms in \<open>simp_all only: is_upload.simps not_True_eq_False profile_handler.simps\<close>;
    (rule keeps_as_writer keeps_done_with writers_keep reads_keep decisions_keep)+)+

end

locale profile_table_invariant = profile_write_invariant +
  assumes keep_key: "db_keeps Q (update_document_key e k c key)"
    and keep_customer_key: "db_keeps Q (update_customer_document_key e k c key)"
begin

lemmas upload_intros = keeps_swap_db [OF keep_key] keeps_swap_db [OF keep_customer_key] keeps_put_db

lemma uploads_keep:
  "keeps (on_tables Q any_objects) (upload_guard_document L C env dw k form)"
  "keeps (on_tables Q any_objects) (upload_guard_avatar L C env user k form)"
  "keeps (on_tables Q any_objects) (upload_customer_avatar L C env user k form)"
  unfolding upload_guard_document_def upload_guard_avatar_def upload_customer_avatar_def Let_def
  by (rule call_intros upload_intros)+

lemma handler_keeps: "keeps (on_tables Q any_objects) (profile_handler J L C env r c)"
proof (cases "is_upload c")
  case False
  then show ?thesis by (rule handler_keeps_objects)
next
  case True
  then show ?thesis
    by (cases c) (simp_all only: is_upload.simps profile_handler.simps, (rule keeps_as_writer keeps_done_with uploads_keep)+)
qed

lemma run_keeps: "Q (ps_db s) \<Longrightarrow> Q (ps_db (fold (profile_step J L C) calls s))"
proof (induction calls arbitrary: s)
  case (Cons c calls)
  have "Q (ps_db (profile_step J L C c s))"
    using keepsD [OF handler_keeps, of s] Cons.prems by (simp add: profile_step_def on_tables_def)
  then show ?case using Cons.IH by simp
qed simp

end

end
