(* ===== verification/Profile_Invariants.thy ===== *)
theory Profile_Invariants
  imports Profile_Properties
begin

text \<open>The invariants of the profile service and the properties that rest on them.\<close>

subsection \<open>Bank and tax details\<close>

definition details_ok :: "profile_db \<Rightarrow> bool" where
  "details_ok db = list_all (\<lambda>(_, g). fields_ok (gw_fields g)) (pd_guards db)"

lemma all_row_put:
  "list_all (\<lambda>(_, r). P r) t \<Longrightarrow> P r \<Longrightarrow> list_all (\<lambda>(_, r). P r) (row_put k r t)"
  unfolding row_put_def by (induction t) auto

lemma details_okD: "details_ok db \<Longrightarrow> guard_of db k = Some g \<Longrightarrow> fields_ok (gw_fields g)"
  by (auto simp: details_ok_def guard_of_def row_get_def list_all_iff dest!: map_of_SomeD)

lemma details_put: "details_ok db \<Longrightarrow> fields_ok (gw_fields g) \<Longrightarrow> details_ok (put_guard k g db)"
  by (simp add: details_ok_def put_guard_def all_row_put)

lemma details_rewrite:
  "details_ok db \<Longrightarrow> guard_of db k = Some g \<Longrightarrow> gw_fields g' = gw_fields g \<Longrightarrow> details_ok (put_guard k g' db)"
  by (rule details_put) (simp_all add: details_okD)

lemma details_guards: "pd_guards db' = pd_guards db \<Longrightarrow> details_ok db' = details_ok db"
  by (simp add: details_ok_def)

lemma written_fields_ok: "fields_ok form \<Longrightarrow> fields_ok (gw_fields g) \<Longrightarrow> fields_ok (gw_fields (write_fields now form g))"
  by (auto simp: write_fields_def fields_ok_def payout_ok_def coalesce_def split: option.split)

lemma details_written: "details_ok db \<Longrightarrow> fields_ok form \<Longrightarrow> guard_of db k = Some g
    \<Longrightarrow> details_ok (put_guard k (write_fields now form g) db)"
  by (rule details_put) (simp_all add: written_fields_ok details_okD)

lemma merged_payout_ok:
  assumes "payout_ok t b n a" "fields_ok f"
  shows "fields_ok (f\<lparr>gf_tax_id := coalesce t (gf_tax_id f), gf_bank_name := coalesce b (gf_bank_name f),
     gf_account_number := coalesce n (gf_account_number f), gf_account_name := coalesce a (gf_account_name f)\<rparr>)"
  using assms by (auto simp: fields_ok_def payout_ok_def coalesce_def split: option.split)

lemma enqueue_decision_frame [simp]:
  "guard_of (enqueue_decision e k target role db) j = guard_of db j"
  "customer_of (enqueue_decision e k target role db) j = customer_of db j"
  "pd_guards (enqueue_decision e k target role db) = pd_guards db"
  "pd_customers (enqueue_decision e k target role db) = pd_customers db"
  by (simp_all add: enqueue_decision_def split: option.split)

lemma small_writes_frame [simp]:
  "pd_guards (record_access e k action aim db) = pd_guards db"
  "pd_customers (record_access e k action aim db) = pd_customers db"
  "pd_outbox (record_access e k action aim db) = pd_outbox db"
  "pd_guards (upsert_assignment booking customer guard active stamp db) = pd_guards db"
  "pd_customers (upsert_assignment booking customer guard active stamp db) = pd_customers db"
  "pd_outbox (upsert_assignment booking customer guard active stamp db) = pd_outbox db"
  "pd_guards (mark_decision_published stamp oid db) = pd_guards db"
  "pd_customers (mark_decision_published stamp oid db) = pd_customers db"
  by (simp_all add: record_access_def upsert_assignment_def mark_decision_published_def split: option.split)

lemma put_customer_guards [simp]: "pd_guards (put_customer k c db) = pd_guards db"
  by (simp add: put_customer_def)

lemma put_guard_customers [simp]: "pd_customers (put_guard k c db) = pd_customers db"
  by (simp add: put_guard_def)

lemma details_frame [simp]:
  "details_ok (enqueue_decision e k target role db) = details_ok db"
  "details_ok (put_customer k c db) = details_ok db"
  by (simp_all add: details_ok_def)

text \<open>The statements that leave the profiles alone.\<close>

lemma side_tables:
  "upsert_document_expiry e k doc day db = Inr (x1, db') \<Longrightarrow> pd_guards db' = pd_guards db \<and> pd_customers db' = pd_customers db \<and> pd_outbox db' = pd_outbox db"
  "upsert_org_settings e k oreq db = Inr (x2, db') \<Longrightarrow> pd_guards db' = pd_guards db \<and> pd_customers db' = pd_customers db \<and> pd_outbox db' = pd_outbox db"
  "insert_support_ticket e k kind message db = Inr (x3, db') \<Longrightarrow> pd_guards db' = pd_guards db \<and> pd_customers db' = pd_customers db \<and> pd_outbox db' = pd_outbox db"
  by (auto simp: upsert_document_expiry_def upsert_org_settings_def insert_support_ticket_def Let_def split: if_splits)

interpretation details: profile_table_invariant details_ok
proof
  fix form e k show "fields_ok form \<Longrightarrow> db_keeps details_ok (upsert_guard_profile e k form)"
    by (rule db_keepsI) (auto simp: upsert_guard_profile_def Let_def new_guard_def
      intro: details_put details_written split: if_splits option.splits)
next
  fix form e k show "fields_ok form \<Longrightarrow> db_keeps details_ok (update_guard_profile e k form)"
    by (rule db_keepsI) (auto simp: update_guard_profile_def Let_def intro: details_written split: if_splits option.splits)
next
  fix req :: payout_fields and e k
  assume ok: "payout_ok (py_tax_id req) (py_bank_name req) (py_account_number req) (py_account_name req)"
  show "db_keeps details_ok (update_guard_payout_fields e k req)"
  proof (rule db_keepsI)
    fix db x db' assume d: "details_ok db" and t: "update_guard_payout_fields e k req db = Inr (x, db')"
    then obtain old where old: "guard_of db k = Some old"
      by (auto simp: update_guard_payout_fields_def split: option.splits)
    show "details_ok db'"
      using t merged_payout_ok [OF ok details_okD [OF d old]] details_put [OF d]
      by (auto simp: update_guard_payout_fields_def old Let_def)
  qed
next
  fix e k cform show "db_keeps details_ok (upsert_customer_profile e k cform)"
    by (rule db_keepsI) (auto simp: upsert_customer_profile_def Let_def)
next
  fix e k c key show "db_keeps details_ok (update_document_key e k c key)"
    by (rule db_keepsI) (auto simp: update_document_key_def intro: details_rewrite split: option.splits)
next
  fix e k c key show "db_keeps details_ok (update_customer_document_key e k c key)"
    by (rule db_keepsI) (auto simp: update_customer_document_key_def split: option.splits)
next
  fix e k target show "db_keeps details_ok (set_approval_status e k target PROFILE_ROLE_GUARD)"
    by (rule db_keepsI) (auto simp: set_approval_status_def Let_def intro: details_rewrite split: option.splits if_splits)
next
  fix e k target show "db_keeps details_ok (set_customer_approval e k target PROFILE_ROLE_CUSTOMER)"
    by (rule db_keepsI) (auto simp: set_customer_approval_def Let_def split: option.splits if_splits)
next
  fix e k stage show "db_keeps details_ok (set_recruitment_stage e k stage)"
    by (rule db_keepsI) (auto simp: set_recruitment_stage_def Let_def intro: details_rewrite split: option.splits if_splits)
next
  fix e k doc day show "db_keeps details_ok (upsert_document_expiry e k doc day)"
    by (rule db_keepsI) (auto dest!: side_tables simp: details_ok_def)
next
  fix e k oreq show "db_keeps details_ok (upsert_org_settings e k oreq)"
    by (rule db_keepsI) (auto dest!: side_tables simp: details_ok_def)
next
  fix e k kind message show "db_keeps details_ok (insert_support_ticket e k kind message)"
    by (rule db_keepsI) (auto dest!: side_tables simp: details_ok_def)
qed (simp_all add: details_ok_def)

definition empty_profile_db :: profile_db where
  "empty_profile_db = \<lparr>pd_guards = [], pd_customers = [], pd_assignments = [], pd_expiries = [], pd_audit = [],
     pd_outbox = [], pd_org = None, pd_tickets = []\<rparr>"

text \<open>
  C15. Only valid details of a guard are ever stored. After any sequence of calls, by anyone, every stored
  profile has its years and texts in range, a phone in shape, an account number and a tax id that pass
  their checks, and neither of them masked: what the service shows of an account can never be
  saved back in its place.
\<close>
theorem stored_details_valid:
  "list_all (\<lambda>(_, g). fields_ok (gw_fields g))
    (pd_guards (ps_db (fold (profile_step J L C) calls \<lparr>ps_db = empty_profile_db, ps_redis = r, ps_objects = os\<rparr>)))"
proof -
  have "details_ok (ps_db \<lparr>ps_db = empty_profile_db, ps_redis = r, ps_objects = os\<rparr>)"
    by (simp add: details_ok_def empty_profile_db_def)
  from details.run_keeps [OF this, of J L C calls] show ?thesis by (simp add: details_ok_def)
qed

subsection \<open>Decisions are final\<close>

definition approves_guard :: "uuid \<Rightarrow> envelope \<Rightarrow> bool" where
  "approves_guard k e = (ev_type e = USER_APPROVED_TOPIC \<and> jget (ev_payload e) ''user_id'' = Some (JUuid k)
     \<and> jget (ev_payload e) ''role'' = Some (JStr ''guard''))"

text \<open>The guard is rejected, and the decisions for the guard's approval are exactly these.\<close>

definition rejected_with :: "uuid \<Rightarrow> envelope list \<Rightarrow> profile_db \<Rightarrow> bool" where
  "rejected_with k es db = (map_option gw_approval (guard_of db k) = Some ApprovalRejected
     \<and> filter (approves_guard k) (map ob_envelope (pd_outbox db)) = es)"

lemma rejected_same: "map_option gw_approval (guard_of db' k) = map_option gw_approval (guard_of db k)
    \<Longrightarrow> pd_outbox db' = pd_outbox db \<Longrightarrow> rejected_with k es db' = rejected_with k es db"
  by (simp add: rejected_with_def)

lemma rejected_enqueue:
  assumes "rejected_with k es db" "role = PROFILE_ROLE_GUARD \<Longrightarrow> j \<noteq> k" "role \<in> {PROFILE_ROLE_GUARD, PROFILE_ROLE_CUSTOMER}"
  shows "rejected_with k es (enqueue_decision e j target role db)"
  using assms
  by (auto simp: rejected_with_def enqueue_decision_def outbox_append_def new_envelope_def approves_guard_def jget_def
      profile_roles split: option.split)

lemma rejected_published: "rejected_with k es (mark_decision_published stamp oid db) = rejected_with k es db"
proof -
  have "ob_envelope \<circ> (\<lambda>r :: outbox_row. if ob_id r = oid then r\<lparr>ob_published_at := Some stamp\<rparr> else r) = ob_envelope"
    by (simp add: fun_eq_iff)
  then show ?thesis by (simp add: rejected_with_def mark_decision_published_def guard_of_def)
qed

interpretation rejected: profile_table_invariant "rejected_with k es" for k es
proof
  fix form e j show "db_keeps (rejected_with k es) (upsert_guard_profile e j form)"
    by (rule db_keepsI) (auto simp: upsert_guard_profile_def Let_def write_fields_def rejected_with_def split: if_splits option.splits)
next
  fix form e j show "db_keeps (rejected_with k es) (update_guard_profile e j form)"
    by (rule db_keepsI) (auto simp: update_guard_profile_def Let_def write_fields_def rejected_with_def split: if_splits option.splits)
next
  fix req :: payout_fields and e j show "db_keeps (rejected_with k es) (update_guard_payout_fields e j req)"
    by (rule db_keepsI) (auto simp: update_guard_payout_fields_def Let_def rejected_with_def split: option.splits)
next
  fix e j cform show "db_keeps (rejected_with k es) (upsert_customer_profile e j cform)"
    by (rule db_keepsI) (auto simp: upsert_customer_profile_def Let_def rejected_with_def)
next
  fix e j c key show "db_keeps (rejected_with k es) (update_document_key e j c key)"
    by (rule db_keepsI) (auto simp: update_document_key_def rejected_with_def split: option.splits)
next
  fix e j c key show "db_keeps (rejected_with k es) (update_customer_document_key e j c key)"
    by (rule db_keepsI) (auto simp: update_customer_document_key_def rejected_with_def split: option.splits)
next
  fix e j target show "db_keeps (rejected_with k es) (set_approval_status e j target PROFILE_ROLE_GUARD)"
  proof (rule db_keepsI)
    fix db x db' assume r: "rejected_with k es db" and t: "set_approval_status e j target PROFILE_ROLE_GUARD db = Inr (x, db')"
    then have "j \<noteq> k" by (auto simp: set_approval_status_def rejected_with_def split: option.splits)
    moreover obtain g where "db' = enqueue_decision e j target PROFILE_ROLE_GUARD (put_guard j g db)"
      using t by (auto simp: set_approval_status_def Let_def split: option.splits if_splits)
    moreover have "rejected_with k es (put_guard j g db)"
      using r \<open>j \<noteq> k\<close> by (simp add: rejected_with_def)
    ultimately show "rejected_with k es db'" by (simp add: rejected_enqueue)
  qed
next
  fix e j target show "db_keeps (rejected_with k es) (set_customer_approval e j target PROFILE_ROLE_CUSTOMER)"
  proof (rule db_keepsI)
    fix db x db' assume r: "rejected_with k es db" and t: "set_customer_approval e j target PROFILE_ROLE_CUSTOMER db = Inr (x, db')"
    obtain c where "db' = enqueue_decision e j target PROFILE_ROLE_CUSTOMER (put_customer j c db)"
      using t by (auto simp: set_customer_approval_def Let_def split: option.splits if_splits)
    moreover have "rejected_with k es (put_customer j c db)" using r by (simp add: rejected_with_def)
    moreover have "PROFILE_ROLE_CUSTOMER \<noteq> PROFILE_ROLE_GUARD" by (simp add: profile_roles)
    ultimately show "rejected_with k es db'" by (simp only:) (rule rejected_enqueue, simp_all)
  qed
next
  fix e j stage show "db_keeps (rejected_with k es) (set_recruitment_stage e j stage)"
    by (rule db_keepsI) (auto simp: set_recruitment_stage_def Let_def rejected_with_def split: option.splits if_splits)
next
  fix e j doc day show "db_keeps (rejected_with k es) (upsert_document_expiry e j doc day)"
    by (rule db_keepsI) (auto dest!: side_tables simp: rejected_with_def guard_of_def)
next
  fix e j oreq show "db_keeps (rejected_with k es) (upsert_org_settings e j oreq)"
    by (rule db_keepsI) (auto dest!: side_tables simp: rejected_with_def guard_of_def)
next
  fix e j kind message show "db_keeps (rejected_with k es) (insert_support_ticket e j kind message)"
    by (rule db_keepsI) (auto dest!: side_tables simp: rejected_with_def guard_of_def)
qed (simp_all add: rejected_published, simp_all add: rejected_with_def guard_of_def)

subsection \<open>The link of a booking\<close>

text \<open>What an event says about a booking.\<close>

definition link_event :: "uuid \<Rightarrow> envelope \<Rightarrow> bool" where
  "link_event b e = (active_for (ev_type e) \<noteq> None \<and> (case read_booking_link (ev_payload e) of
     None \<Rightarrow> False | Some (booking, _, _) \<Rightarrow> booking = b))"

abbreviation link_of :: "profile_db \<Rightarrow> uuid \<Rightarrow> assignment_row option" where
  "link_of db b \<equiv> row_get (pd_assignments db) b"

text \<open>The row tells what the event told, and at its time.\<close>

definition follows :: "assignment_row \<Rightarrow> envelope \<Rightarrow> bool" where
  "follows a e = (active_for (ev_type e) = Some (as_active a) \<and> as_updated_at a = ev_occurred_at e)"

lemma other_event: "\<not> link_event b e \<Longrightarrow> link_of (consume_booking_event e db) b = link_of db b"
  by (auto simp: consume_booking_event_def link_event_def upsert_assignment_def split: option.splits)

lemma first_event: "link_event b e \<Longrightarrow> link_of db b = None \<Longrightarrow> \<exists>a. link_of (consume_booking_event e db) b = Some a \<and> follows a e"
  by (auto simp: consume_booking_event_def link_event_def upsert_assignment_def follows_def split: option.splits)

lemma next_event:
  assumes "link_event b e" "link_of db b = Some a"
  shows "\<exists>a'. link_of (consume_booking_event e db) b = Some a'
    \<and> (if as_updated_at a < ev_occurred_at e then follows a' e else a' = a)"
  using assms
  by (auto simp: consume_booking_event_def link_event_def upsert_assignment_def follows_def split: option.splits)

lemma link_latest_from:
  assumes "link_of db b = Some a" "follows a e0"
  shows "\<exists>a' e. link_of (fold consume_booking_event es db) b = Some a' \<and> follows a' e
    \<and> e \<in> insert e0 {e \<in> set es. link_event b e}
    \<and> (\<forall>e' \<in> insert e0 {e \<in> set es. link_event b e}. ev_occurred_at e' \<le> ev_occurred_at e)"
  using assms
proof (induction es arbitrary: db a e0)
  case Nil
  then show ?case by auto
next
  case (Cons x es)
  show ?case
  proof (cases "link_event b x")
    case False
    then have "link_of (consume_booking_event x db) b = Some a" using other_event Cons.prems by simp
    from Cons.IH [OF this Cons.prems(2)] show ?thesis using False by (auto 0 3)
  next
    case True
    from next_event [OF True Cons.prems(1)] obtain a1 where a1: "link_of (consume_booking_event x db) b = Some a1"
        "if as_updated_at a < ev_occurred_at x then follows a1 x else a1 = a" by blast
    define e1 where "e1 = (if as_updated_at a < ev_occurred_at x then x else e0)"
    have f: "follows a1 e1" using a1(2) Cons.prems(2) by (auto simp: e1_def split: if_splits)
    have le: "ev_occurred_at e0 \<le> ev_occurred_at e1" "ev_occurred_at x \<le> ev_occurred_at e1"
      using Cons.prems(2) by (auto simp: e1_def follows_def)
    from Cons.IH [OF a1(1) f] obtain a' e where h: "link_of (fold consume_booking_event es (consume_booking_event x db)) b = Some a'"
        "follows a' e" "e \<in> insert e1 {e \<in> set es. link_event b e}"
        "\<forall>e' \<in> insert e1 {e \<in> set es. link_event b e}. ev_occurred_at e' \<le> ev_occurred_at e" by blast
    have "e \<in> insert e0 {e \<in> set (x # es). link_event b e}" using h(3) True by (auto simp: e1_def split: if_splits)
    moreover have "\<forall>e' \<in> insert e0 {e \<in> set (x # es). link_event b e}. ev_occurred_at e' \<le> ev_occurred_at e"
      using h(4) le by (auto intro: order_trans)
    ultimately show ?thesis using h(1,2) by auto
  qed
qed

lemma link_latest:
  assumes "link_of db b = None" "e0 \<in> set es" "link_event b e0"
  shows "\<exists>a e. link_of (fold consume_booking_event es db) b = Some a \<and> follows a e \<and> e \<in> set es \<and> link_event b e
    \<and> (\<forall>e' \<in> set es. link_event b e' \<longrightarrow> ev_occurred_at e' \<le> ev_occurred_at e)"
  using assms
proof (induction es arbitrary: db)
  case (Cons x es)
  show ?case
  proof (cases "link_event b x")
    case True
    from first_event [OF True Cons.prems(1)] obtain a where a: "link_of (consume_booking_event x db) b = Some a" "follows a x" by blast
    from link_latest_from [OF this, of es] show ?thesis using True by (auto 0 3)
  next
    case False
    have "link_of (consume_booking_event x db) b = None" using other_event [OF False] Cons.prems(1) by simp
    from Cons.IH [OF this] show ?thesis using False Cons.prems by (auto 0 3)
  qed
qed simp



subsection \<open>Objects\<close>

datatype place = GuardPlace uuid string | CustomerPlace uuid string

fun key_at :: "profile_db \<Rightarrow> place \<Rightarrow> string option" where
  "key_at db (GuardPlace k c) = get_document_key db k c"
| "key_at db (CustomerPlace k c) = get_customer_document_key db k c"

lemma key_at_put_guard:
  assumes "gw_keys g = (case guard_of db k of None \<Rightarrow> (\<lambda>_. None) | Some old \<Rightarrow> gw_keys old)"
  shows "key_at (put_guard k g db) = key_at db"
proof
  fix p show "key_at (put_guard k g db) p = key_at db p"
    using assms by (cases p) (auto simp: get_document_key_def get_customer_document_key_def split: option.splits)
qed

lemma key_at_put_customer:
  assumes "cw_keys c = (case customer_of db k of None \<Rightarrow> (\<lambda>_. None) | Some old \<Rightarrow> cw_keys old)"
  shows "key_at (put_customer k c db) = key_at db"
proof
  fix p show "key_at (put_customer k c db) p = key_at db p"
    using assms by (cases p) (auto simp: get_document_key_def get_customer_document_key_def split: option.splits)
qed

lemma key_at_cong: "pd_guards db' = pd_guards db \<Longrightarrow> pd_customers db' = pd_customers db \<Longrightarrow> key_at db' = key_at db"
proof
  fix p assume "pd_guards db' = pd_guards db" "pd_customers db' = pd_customers db"
  then show "key_at db' p = key_at db p"
    by (cases p) (simp_all add: get_document_key_def get_customer_document_key_def guard_of_def customer_of_def)
qed

lemma key_at_enqueue [simp]: "key_at (enqueue_decision e k target role db) = key_at db"
  by (rule key_at_cong) simp_all

interpretation same_keys: profile_write_invariant "\<lambda>db. key_at db = f" for f
proof
  fix form e k show "fields_ok form \<Longrightarrow> db_keeps (\<lambda>db. key_at db = f) (upsert_guard_profile e k form)"
    by (rule db_keepsI) (auto simp: upsert_guard_profile_def Let_def new_guard_def write_fields_def key_at_put_guard split: if_splits option.splits)
next
  fix form e k show "fields_ok form \<Longrightarrow> db_keeps (\<lambda>db. key_at db = f) (update_guard_profile e k form)"
    by (rule db_keepsI) (auto simp: update_guard_profile_def Let_def write_fields_def key_at_put_guard split: if_splits option.splits)
next
  fix req :: payout_fields and e k show "db_keeps (\<lambda>db. key_at db = f) (update_guard_payout_fields e k req)"
    by (rule db_keepsI) (auto simp: update_guard_payout_fields_def Let_def key_at_put_guard split: option.splits)
next
  fix e k cform show "db_keeps (\<lambda>db. key_at db = f) (upsert_customer_profile e k cform)"
    by (rule db_keepsI) (auto simp: upsert_customer_profile_def Let_def key_at_put_customer split: option.splits)
next
  fix e k target show "db_keeps (\<lambda>db. key_at db = f) (set_approval_status e k target PROFILE_ROLE_GUARD)"
    by (rule db_keepsI) (auto simp: set_approval_status_def Let_def key_at_put_guard split: option.splits if_splits)
next
  fix e k target show "db_keeps (\<lambda>db. key_at db = f) (set_customer_approval e k target PROFILE_ROLE_CUSTOMER)"
    by (rule db_keepsI) (auto simp: set_customer_approval_def Let_def key_at_put_customer split: option.splits if_splits)
next
  fix e k stage show "db_keeps (\<lambda>db. key_at db = f) (set_recruitment_stage e k stage)"
    by (rule db_keepsI) (auto simp: set_recruitment_stage_def Let_def key_at_put_guard split: option.splits if_splits)
next
  fix e k doc day show "db_keeps (\<lambda>db. key_at db = f) (upsert_document_expiry e k doc day)"
    by (rule db_keepsI) (metis side_tables(1) key_at_cong)
next
  fix e k oreq show "db_keeps (\<lambda>db. key_at db = f) (upsert_org_settings e k oreq)"
    by (rule db_keepsI) (metis side_tables(2) key_at_cong)
next
  fix e k kind message show "db_keeps (\<lambda>db. key_at db = f) (insert_support_ticket e k kind message)"
    by (rule db_keepsI) (metis side_tables(3) key_at_cong)
qed (metis key_at_cong small_writes_frame)+

text \<open>No profile names an object that is not there, and no two name the same object.\<close>

definition objects_ok :: "profile_state \<Rightarrow> bool" where
  "objects_ok s = ((\<forall>p k. key_at (ps_db s) p = Some k \<longrightarrow> ps_objects s k \<noteq> None)
     \<and> (\<forall>p q k. key_at (ps_db s) p = Some k \<longrightarrow> key_at (ps_db s) q = Some k \<longrightarrow> p = q))"

text \<open>The identifier drawn for an object has not been used before.\<close>

definition fresh_object :: "profile_env \<Rightarrow> profile_state \<Rightarrow> bool" where
  "fresh_object env s = (\<forall>k mime. ps_objects s (document_object_key env k mime) = None
     \<and> ps_objects s (avatar_object_key env k mime) = None)"

definition sets_key :: "place \<Rightarrow> string \<Rightarrow> (profile_db \<Rightarrow> (string option \<times> profile_db) app_result) \<Rightarrow> bool" where
  "sets_key p key t = (\<forall>db x db'. t db = Inr (x, db') \<longrightarrow> x = key_at db p \<and> key_at db' = (key_at db)(p := Some key))"

lemma sets_key_guard: "sets_key (GuardPlace k c) key (update_document_key e k c key)"
proof -
  have "key_at (put_guard k (g\<lparr>gw_keys := (gw_keys g)(c \<mapsto> key), gw_updated_at := now\<rparr>) db) q
      = ((key_at db)(GuardPlace k c := Some key)) q" if "guard_of db k = Some g" for g db q now
    using that by (cases q) (auto simp: get_document_key_def get_customer_document_key_def)
  then show ?thesis
    by (auto simp: sets_key_def update_document_key_def get_document_key_def fun_eq_iff split: option.splits)
qed

lemma sets_key_customer: "sets_key (CustomerPlace k c) key (update_customer_document_key e k c key)"
proof -
  have "key_at (put_customer k (g\<lparr>cw_keys := (cw_keys g)(c \<mapsto> key), cw_updated_at := now\<rparr>) db) q
      = ((key_at db)(CustomerPlace k c := Some key)) q" if "customer_of db k = Some g" for g db q now
    using that by (cases q) (auto simp: get_document_key_def get_customer_document_key_def)
  then show ?thesis
    by (auto simp: sets_key_def update_customer_document_key_def get_customer_document_key_def fun_eq_iff split: option.splits)
qed

lemma swap_objects:
  assumes ok: "objects_ok s" and fresh: "ps_objects s key = None" and t: "sets_key p key t"
  shows "objects_ok (fst (swap_key env key t (s\<lparr>ps_objects := (ps_objects s)(key \<mapsto> data)\<rparr>)))"
proof -
  have unnamed: "key_at (ps_db s) q \<noteq> Some key" for q using ok fresh unfolding objects_ok_def by metis
  have named: "key_at (ps_db s) q = Some k \<Longrightarrow> ps_objects s k \<noteq> None" for q k using ok by (auto simp: objects_ok_def)
  have uniq: "key_at (ps_db s) q = Some k \<Longrightarrow> key_at (ps_db s) q' = Some k \<Longrightarrow> q = q'" for q q' k
    using ok by (auto simp: objects_ok_def)
  show ?thesis
  proof (cases "t (ps_db s)")
    case (Inl e)
    then show ?thesis
      using named unnamed uniq by (auto simp: swap_key_def objects_ok_def drop_object_def delete_best_effort_def)
  next
    case (Inr r)
    then obtain previous db where r: "t (ps_db s) = Inr (previous, db)" by (cases r) simp
    then have db: "previous = key_at (ps_db s) p" "key_at db = (key_at (ps_db s))(p := Some key)"
      using t by (auto simp: sets_key_def)
    show ?thesis
    proof (cases previous)
      case None
      then show ?thesis
        using named unnamed uniq by (auto simp: swap_key_def r objects_ok_def db(2) split: if_splits)
    next
      case (Some old)
      then have old: "key_at (ps_db s) p = Some old" "old \<noteq> key" using db(1) unnamed by auto
      then have "key_at (ps_db s) q = Some old \<Longrightarrow> q = p" for q using uniq by blast
      then show ?thesis
        using named unnamed uniq old(2)
        by (auto simp: swap_key_def r Some objects_ok_def db(2) drop_object_def delete_best_effort_def split: if_splits)
    qed
  qed
qed

text \<open>From one property of the state to another.\<close>

definition leads :: "('s \<Rightarrow> bool) \<Rightarrow> ('s \<Rightarrow> bool) \<Rightarrow> ('s, 'a) act \<Rightarrow> bool" where
  "leads P Q m = (\<forall>s. P s \<longrightarrow> Q (fst (m s)))"

lemma leads_bind:
  assumes "keeps P m" "\<And>x. leads P Q (f x)" "\<And>s. P s \<Longrightarrow> Q s"
  shows "leads P Q (act_bind m f)"
  unfolding leads_def
proof (intro allI impI)
  fix s assume "P s"
  then have "P (fst (m s))" using assms(1) by (simp add: keeps_def)
  then show "Q (fst (act_bind m f s))"
    using assms(2,3) by (cases "snd (m s)") (simp_all add: act_bind_run leads_def)
qed

definition upload_ready :: "profile_env \<Rightarrow> profile_state \<Rightarrow> bool" where
  "upload_ready env s = (objects_ok s \<and> fresh_object env s)"

lemma same_objects:
  assumes "\<And>f os. keeps (on_tables (\<lambda>db. key_at db = f) (\<lambda>x. x = os)) m"
  shows "keeps (upload_ready env) m" "keeps objects_ok m"
proof -
  have "key_at (ps_db (fst (m s))) = key_at (ps_db s) \<and> ps_objects (fst (m s)) = ps_objects s" for s
    using assms [of "key_at (ps_db s)" "ps_objects s"] by (simp add: keeps_def on_tables_def)
  then show "keeps (upload_ready env) m" "keeps objects_ok m"
    by (simp_all add: keeps_def upload_ready_def objects_ok_def fresh_object_def)
qed

lemma store_leads:
  assumes "sets_key p key t" "\<And>s. fresh_object env s \<Longrightarrow> ps_objects s key = None"
  shows "leads (upload_ready env) objects_ok (act_bind (put_object env key data) (\<lambda>_. act_bind (swap_key env key t) (\<lambda>_. act_return y)))"
  unfolding leads_def
proof (intro allI impI)
  fix s assume s: "upload_ready env s"
  show "objects_ok (fst (act_bind (put_object env key data) (\<lambda>_. act_bind (swap_key env key t) (\<lambda>_. act_return y)) s))"
  proof (cases "pe_put_ok env")
    case True
    have "objects_ok (fst (swap_key env key t (s\<lparr>ps_objects := (ps_objects s)(key \<mapsto> data)\<rparr>)))"
      by (rule swap_objects [OF _ _ assms(1)]) (use s assms(2) in \<open>auto simp: upload_ready_def\<close>)
    then show ?thesis
      using True by (simp add: act_bind_run put_object_def s3_upload_def split: sum.split)
  next
    case False
    then show ?thesis using s by (simp add: act_bind_run put_object_def s3_upload_def upload_ready_def)
  qed
qed

lemma ready_ok: "upload_ready env s \<Longrightarrow> objects_ok s"
  by (simp add: upload_ready_def)

lemma uploads_lead:
  "leads (upload_ready env) objects_ok (upload_guard_document L C env w k form)"
  "leads (upload_ready env) objects_ok (upload_guard_avatar L C env user k form)"
  "leads (upload_ready env) objects_ok (upload_customer_avatar L C env user k form)"
  unfolding upload_guard_document_def upload_guard_avatar_def upload_customer_avatar_def Let_def case_prod_beta
  by ((rule leads_bind ready_ok keeps_intros same_objects(1) [OF same_keys.keeps_audited]
      store_leads [OF sets_key_guard] store_leads [OF sets_key_customer]
    | assumption | simp add: fresh_object_def)+)

lemma leads_done: "leads P Q h \<Longrightarrow> leads P Q (done_with h)"
  by (simp add: leads_def done_with_def act_bind_run split: sum.split)

lemma leads_writer: "(\<And>x. leads P Q (h x)) \<Longrightarrow> (\<And>s. P s \<Longrightarrow> Q s) \<Longrightarrow> leads P Q (as_writer w h)"
  by (cases w) (simp_all add: leads_def as_writer_def act_bind_run split: sum.split)

lemma step_objects_ok:
  assumes "objects_ok s" "fresh_object (fst ec) s"
  shows "objects_ok (profile_step J L C ec s)"
proof (cases "is_upload (snd ec)")
  case True
  then have "leads (upload_ready (fst ec)) objects_ok (profile_handler J L C (fst ec) r (snd ec))" for r
    by (cases "snd ec") (auto intro: leads_done leads_writer uploads_lead ready_ok)
  then show ?thesis using assms by (simp add: leads_def upload_ready_def profile_step_def)
next
  case False
  have "keeps objects_ok (profile_handler J L C (fst ec) r (snd ec))" for r
    by (rule same_objects(2)) (rule same_keys.handler_keeps_objects [OF False])
  then show ?thesis using assms(1) by (simp add: keeps_def profile_step_def)
qed


definition sample_profile_env :: profile_env where
  "sample_profile_env = \<lparr>pe_call = \<lparr>utc_now = 0, tx_now = 0, fresh_event = 11, fresh_row = 12, fresh_extra = 13,
     fresh_outbox = 14, trace_parent = None, correlation = 15\<rparr>, pe_up = True, pe_object = 16, pe_jti = 17,
     pe_put_ok = True, pe_delete_ok = (\<lambda>_. True), pe_identity = (\<lambda>_. [])\<rparr>"


end
