(* ===== verification/Identity_Invariants.thy ===== *)
theory Identity_Invariants
  imports Identity_Facts
begin

text \<open>
  The tables of the identity service stay well-formed: account keys, phones, e-mails and rotation ids
  are unique, nobody is enrolled twice in a role, an erased account is inactive and has no session, and
  the set of administrators never grows. Every statement keeps this, hence every call does.
\<close>

subsection \<open>The invariant\<close>

definition uniq_on :: "('r \<Rightarrow> 'e option) \<Rightarrow> ('k \<Rightarrow> 'r option) \<Rightarrow> bool" where
  "uniq_on f m = (\<forall>j k u v e. m j = Some u \<and> m k = Some v \<and> f u = Some e \<and> f v = Some e \<longrightarrow> j = k)"

lemma uniq_on_upd:
  assumes "uniq_on f m" "\<And>j v e. j \<noteq> k \<Longrightarrow> m j = Some v \<Longrightarrow> f u = Some e \<Longrightarrow> f v \<noteq> Some e"
  shows "uniq_on f (m(k \<mapsto> u))"
  unfolding uniq_on_def
proof (intro allI impI)
  fix i j v w e
  assume a: "(m(k \<mapsto> u)) i = Some v \<and> (m(k \<mapsto> u)) j = Some w \<and> f v = Some e \<and> f w = Some e"
  show "i = j"
  proof (cases "i = k \<or> j = k")
    case True
    then show ?thesis using a assms(2) by (cases "i = k"; cases "j = k") fastforce+
  next
    case False
    then have "m i = Some v \<and> m j = Some w \<and> f v = Some e \<and> f w = Some e" using a by simp
    then show ?thesis using assms(1) unfolding uniq_on_def by blast
  qed
qed

lemma uniq_onD: "uniq_on f m \<Longrightarrow> m j = Some u \<Longrightarrow> m k = Some v \<Longrightarrow> f u = Some e \<Longrightarrow> f v = Some e \<Longrightarrow> j = k"
  unfolding uniq_on_def by blast

lemma get_user_upd: "get_user (put_user k u db) = (get_user db)(k \<mapsto> u)"
  by (rule ext) simp

definition users_unique :: "id_db \<Rightarrow> bool" where
  "users_unique db = (distinct (row_keys (id_users db)) \<and> uniq_on (\<lambda>u. Some (us_phone u)) (get_user db)
    \<and> uniq_on us_email (get_user db))"

definition erased_gone :: "id_db \<Rightarrow> bool" where
  "erased_gone db = (\<forall>k u. get_user db k = Some u \<and> us_deleted_at u \<noteq> None \<longrightarrow> \<not> us_active u \<and> no_session k db)"

definition admin_accounts :: "id_db \<Rightarrow> uuid set" where
  "admin_accounts db = {k. (\<exists>u. get_user db k = Some u \<and> us_role u = RoleAdmin) \<or> user_has_role db k RoleAdmin}"

definition tables_ok :: "uuid set \<Rightarrow> id_db \<Rightarrow> bool" where
  "tables_ok X db = (users_unique db \<and> distinct (map (\<lambda>r. (rr_user r, rr_role r)) (id_roles db))
    \<and> distinct (map rf_rotation (id_refresh db)) \<and> erased_gone db \<and> admin_accounts db \<subseteq> X)"

lemmas tables_ok_defs = tables_ok_def users_unique_def erased_gone_def admin_accounts_def

subsection \<open>Account rows\<close>

lemma keys_put_user: "distinct (row_keys (id_users db)) \<Longrightarrow> distinct (row_keys (id_users (put_user k u db)))"
  by (simp add: put_user_def distinct_row_put)

lemma has_role_put_user [simp]: "user_has_role (put_user k u db) j r = user_has_role db j r"
  by (simp add: user_has_role_def)

lemma phone_taken_iff:
  assumes "distinct (row_keys (id_users db))"
  shows "phone_taken db k phone \<longleftrightarrow> (\<exists>j u. j \<noteq> k \<and> get_user db j = Some u \<and> us_phone u = phone)"
  using row_get_mem [OF assms] by (auto simp: phone_taken_def list_ex_iff get_user_def)

lemma email_taken_iff:
  assumes "distinct (row_keys (id_users db))"
  shows "email_taken db k (Some e) \<longleftrightarrow> (\<exists>j u. j \<noteq> k \<and> get_user db j = Some u \<and> us_email u = Some e)"
  using row_get_mem [OF assms] by (auto simp: email_taken_def list_ex_iff get_user_def)

text \<open>A change of phone or e-mail to one nobody else has, of an account that is not erased.\<close>

lemma tables_ok_contact:
  assumes ok: "tables_ok X db" and u: "get_user db k = Some u"
    and phone: "us_phone u' = us_phone u \<or> \<not> phone_taken db k (us_phone u')"
    and email: "us_email u' = us_email u \<or> us_email u' = None \<or> \<not> email_taken db k (us_email u')"
    and erased: "us_deleted_at u' \<noteq> None \<longrightarrow> \<not> us_active u' \<and> no_session k db"
    and role: "us_role u' = RoleAdmin \<Longrightarrow> us_role u = RoleAdmin"
  shows "tables_ok X (put_user k u' db)"
proof -
  have un: "distinct (row_keys (id_users db))" "uniq_on (\<lambda>u. Some (us_phone u)) (get_user db)"
      "uniq_on us_email (get_user db)"
    using ok by (simp_all add: tables_ok_def users_unique_def)
  have "uniq_on (\<lambda>u. Some (us_phone u)) (get_user (put_user k u' db))"
    unfolding get_user_upd
  proof (rule uniq_on_upd [OF un(2)])
    fix j v e
    assume j: "j \<noteq> k" "get_user db j = Some v" "Some (us_phone u') = Some e"
    have "us_phone v \<noteq> us_phone u'"
      using phone j(1,2) uniq_onD [OF un(2) j(2) u] by (auto simp: phone_taken_iff [OF un(1)])
    then show "Some (us_phone v) \<noteq> Some e" using j(3) by simp
  qed
  moreover have "uniq_on us_email (get_user (put_user k u' db))"
    unfolding get_user_upd
  proof (rule uniq_on_upd [OF un(3)])
    fix j v e
    assume j: "j \<noteq> k" "get_user db j = Some v" "us_email u' = Some e"
    show "us_email v \<noteq> Some e"
    proof
      assume eq: "us_email v = Some e"
      have "us_email u \<noteq> Some e" using uniq_onD [OF un(3) j(2) u eq] j(1) by blast
      then have "\<not> email_taken db k (Some e)" using email j(3) by auto
      then show False using j(1,2) eq unfolding email_taken_iff [OF un(1)] by blast
    qed
  qed
  moreover have "erased_gone (put_user k u' db)"
    using ok erased by (auto simp: tables_ok_def erased_gone_def split: if_splits)
  moreover have "admin_accounts (put_user k u' db) \<subseteq> X"
    using ok u role by (auto simp: tables_ok_def admin_accounts_def split: if_splits)
  ultimately show ?thesis using ok by (simp add: tables_ok_def users_unique_def keys_put_user)
qed

text \<open>An update of an account that leaves its phone, e-mail, erasure and activity alone.\<close>

lemma tables_ok_update:
  assumes ok: "tables_ok X db" and u: "get_user db k = Some u"
    and same: "us_phone u' = us_phone u" "us_email u' = us_email u" "us_deleted_at u' = us_deleted_at u"
      "us_active u' = us_active u" and role: "us_role u' = RoleAdmin \<Longrightarrow> us_role u = RoleAdmin"
  shows "tables_ok X (put_user k u' db)"
proof (rule tables_ok_contact [OF ok u _ _ _ role])
  show "us_deleted_at u' \<noteq> None \<longrightarrow> \<not> us_active u' \<and> no_session k db"
    using ok u same(3,4) by (simp add: tables_ok_def erased_gone_def)
qed (simp_all add: same)

lemma tables_ok_new:
  assumes ok: "tables_ok X db" and fresh: "get_user db k = None" and role: "role \<noteq> RoleAdmin"
    and free: "\<not> phone_taken db k phone"
  shows "tables_ok X (put_user k (new_user t phone h role) db)"
proof -
  let ?n = "new_user t phone h role"
  have un: "distinct (row_keys (id_users db))" "uniq_on (\<lambda>u. Some (us_phone u)) (get_user db)"
      "uniq_on us_email (get_user db)"
    using ok by (simp_all add: tables_ok_def users_unique_def)
  have n: "us_phone ?n = phone" "us_email ?n = None" "us_deleted_at ?n = None" "us_role ?n = role"
    by (simp_all add: new_user_def)
  have "uniq_on (\<lambda>u. Some (us_phone u)) (get_user (put_user k ?n db))"
    unfolding get_user_upd
    by (rule uniq_on_upd [OF un(2)]) (use free n in \<open>auto simp: phone_taken_iff [OF un(1)]\<close>)
  moreover have "uniq_on us_email (get_user (put_user k ?n db))"
    unfolding get_user_upd by (rule uniq_on_upd [OF un(3)]) (simp add: n)
  moreover have "erased_gone (put_user k ?n db)"
    using ok n by (auto simp: tables_ok_def erased_gone_def split: if_splits)
  moreover have "admin_accounts (put_user k ?n db) \<subseteq> X"
    using ok role n by (auto simp: tables_ok_def admin_accounts_def split: if_splits)
  ultimately show ?thesis using ok by (simp add: tables_ok_def users_unique_def keys_put_user)
qed

text \<open>Statements that change none of the tables the invariant speaks of.\<close>

lemma tables_ok_cong:
  assumes "id_users db' = id_users db" "id_roles db' = id_roles db" "id_refresh db' = id_refresh db"
  shows "tables_ok X db' = tables_ok X db"
proof -
  have "get_user db' = get_user db" "user_has_role db' = user_has_role db" "no_session k db' = no_session k db" for k
    using assms by (simp_all add: fun_eq_iff get_user_def user_has_role_def no_session_def)
  then show ?thesis using assms by (simp add: tables_ok_defs)
qed

lemma tables_ok_revoke:
  assumes "tables_ok X db"
  shows "tables_ok X (revoke_rows sel db)"
proof -
  have "no_session k (revoke_rows sel db)" if "no_session k db" for k
  proof -
    have "sessions_of k (open_sessions (revoke_rows sel db)) = []"
      using that unfolding no_session_open open_revoke_rows
      by (simp add: sessions_of_def filter_empty_conv open_sessions_def)
    then show ?thesis by (simp add: no_session_open)
  qed
  moreover have "user_has_role (revoke_rows sel db) k r = user_has_role db k r" "id_roles (revoke_rows sel db) = id_roles db" for k r
    by (simp_all add: user_has_role_def revoke_rows_def)
  moreover have "erased_gone (revoke_rows sel db)"
    using assms calculation(1) by (auto simp: tables_ok_def erased_gone_def)
  moreover have "get_user (revoke_rows sel db) = get_user db" by (rule ext) simp
  ultimately show ?thesis using assms
    by (simp add: tables_ok_def users_unique_def admin_accounts_def)
qed

lemma tables_ok_insert:
  assumes ins: "refresh_insert A env k f ua ip role db = Inr (t, db')" and ok: "tables_ok X db"
    and act: "get_user db k = Some u" "us_active u"
  shows "tables_ok X db'"
proof -
  obtain r where r: "id_refresh db' = id_refresh db @ [r]" "rf_rotation r = ie_rotation env" "rf_user r = k"
      "ie_rotation env \<notin> rf_rotation ` set (id_refresh db)"
    using refresh_insert_rows [OF ins] by blast
  have same: "id_users db' = id_users db" "id_roles db' = id_roles db"
    using ins by (auto simp: refresh_insert_def Let_def split: if_splits)
  have "no_session j db'" if "get_user db j = Some v" "us_deleted_at v \<noteq> None" for j v
  proof -
    have "no_session j db" "\<not> us_active v" using ok that by (auto simp: tables_ok_def erased_gone_def)
    moreover have "j \<noteq> k" using calculation(2) that(1) act by auto
    ultimately show ?thesis using r by (auto simp: no_session_def)
  qed
  moreover have "get_user db' = get_user db" "user_has_role db' = user_has_role db"
    using same by (simp_all add: fun_eq_iff get_user_def user_has_role_def)
  moreover have "\<not> us_active v" if "get_user db j = Some v" "us_deleted_at v \<noteq> None" for j v
    using ok that by (simp add: tables_ok_def erased_gone_def)
  ultimately have "erased_gone db'" by (auto simp: erased_gone_def)
  moreover have "get_user db' = get_user db" "user_has_role db' = user_has_role db"
    using same by (simp_all add: fun_eq_iff get_user_def user_has_role_def)
  ultimately show ?thesis
    using ok r(1,2,4) same by (simp add: tables_ok_def users_unique_def admin_accounts_def)
qed

subsection \<open>Every statement keeps it\<close>

definition tx_ok :: "uuid set \<Rightarrow> (id_db \<Rightarrow> ('a \<times> id_db) app_result) \<Rightarrow> bool" where
  "tx_ok X t = (\<forall>db x db'. tables_ok X db \<and> t db = Inr (x, db') \<longrightarrow> tables_ok X db')"

lemma tx_okI: "(\<And>db x db'. tables_ok X db \<Longrightarrow> t db = Inr (x, db') \<Longrightarrow> tables_ok X db') \<Longrightarrow> tx_ok X t"
  by (auto simp: tx_ok_def)

lemma tx_okD: "tx_ok X t \<Longrightarrow> tables_ok X db \<Longrightarrow> t db = Inr (x, db') \<Longrightarrow> tables_ok X db'"
  by (auto simp: tx_ok_def)

lemma tables_ok_keys: "tables_ok X db \<Longrightarrow> distinct (row_keys (id_users db))"
  by (simp add: tables_ok_def users_unique_def)

lemma find_user_ok: "find_user sel db = Some (k, u) \<Longrightarrow> tables_ok X db \<Longrightarrow> get_user db k = Some u \<and> sel u"
  using row_get_mem [OF tables_ok_keys, of X db k u] find_user_Some [of sel db k u] by (simp add: get_user_def)

lemma find_user_None_phone:
  "find_user (\<lambda>u. us_phone u = phone) db = None \<Longrightarrow> \<not> phone_taken db k phone"
  by (auto simp: find_user_def find_None_iff phone_taken_def list_ex_iff)

lemma upsert_ok:
  assumes role: "role \<noteq> RoleAdmin"
  shows "tx_ok X (upsert_pending_user A env phone role pin)"
proof (rule tx_okI)
  fix db x db'
  assume ok: "tables_ok X db" and run: "upsert_pending_user A env phone role pin db = Inr (x, db')"
  show "tables_ok X db'"
  proof (cases "find_user (\<lambda>u. us_phone u = phone) db")
    case None
    then have "get_user db (ie_row env) = None"
      "db' = put_user (ie_row env) (new_user (ie_tx_now env) phone (ph_hash A (ie_salt env) pin) role) db"
      using run by (auto simp: upsert_pending_user_def Let_def split: if_splits)
    then show ?thesis using tables_ok_new [OF ok _ role find_user_None_phone [OF None]] by simp
  next
    case (Some ku)
    obtain k u where ku: "ku = (k, u)" by (cases ku)
    have u: "get_user db k = Some u" using find_user_ok [OF Some [unfolded ku] ok] by simp
    have "db' = put_user k (u\<lparr>us_password_hash := ph_hash A (ie_salt env) pin, us_role := role,
        us_approval := ApprovalPending, us_updated_at := ie_tx_now env\<rparr>) db"
      using run Some ku by (auto simp: upsert_pending_user_def Let_def split: if_splits)
    moreover have "tables_ok X (put_user k (u\<lparr>us_password_hash := ph_hash A (ie_salt env) pin, us_role := role,
        us_approval := ApprovalPending, us_updated_at := ie_tx_now env\<rparr>) db)"
      using role by (intro tables_ok_update [OF ok u]) auto
    ultimately show ?thesis by simp
  qed
qed

lemma update_role_ok: "role \<noteq> RoleAdmin \<Longrightarrow> tx_ok X (update_pending_user_role env k role)"
  by (rule tx_okI)
    (auto simp: update_pending_user_role_def split: option.splits if_splits intro: tables_ok_update)

lemma add_user_role_ok:
  assumes ok: "tables_ok X db" and run: "add_user_role env k role db = Inr (x, db')"
  shows "tables_ok X db'"
proof (cases "db' = db")
  case True
  then show ?thesis using ok by simp
next
  case False
  then obtain r q where q: "validate_registration_role role = Inr q" and r: "cast_role role = Inr r"
    and new: "\<not> user_has_role db k r" and db': "db' = db\<lparr>id_roles := id_roles db @
         [\<lparr>rr_user = k, rr_role = r, rr_created_at = ie_tx_now env\<rparr>]\<rparr>"
    using run by (auto simp: add_user_role_def is_ok_def res_bind_Inr_iff split: if_splits sum.splits)
  have "r \<noteq> RoleAdmin"
    using registration_role_Inr [OF q] role_wire.parse_as_str [of r] role_column.parse_exact [of role r] r
    by (auto simp: ok_of_def)
  moreover have "get_user db' = get_user db" "no_session j db' = no_session j db" for j
    by (simp_all add: db' fun_eq_iff get_user_def no_session_def)
  moreover have "(k, r) \<notin> (\<lambda>r. (rr_user r, rr_role r)) ` set (id_roles db)"
    using new by (auto simp: user_has_role_def list_ex_iff)
  moreover have "user_has_role db' j RoleAdmin = user_has_role db j RoleAdmin" for j
    using calculation(1) by (simp add: db' user_has_role_def)
  moreover have "id_refresh db' = id_refresh db" "id_users db' = id_users db"
      "id_roles db' = id_roles db @ [\<lparr>rr_user = k, rr_role = r, rr_created_at = ie_tx_now env\<rparr>]"
    by (simp_all add: db')
  moreover have "erased_gone db'"
    using ok calculation(2,3) by (auto simp: tables_ok_def erased_gone_def)
  ultimately show ?thesis using ok by (simp add: tables_ok_def users_unique_def admin_accounts_def)
qed

lemma claim_id_event_ok: "claim_id_event e t db = Some db' \<Longrightarrow> tables_ok X db' = tables_ok X db"
  by (rule tables_ok_cong) (auto simp: claim_id_event_def split: if_splits)

lemma approve_ok: "tx_ok X (approve_user_on_event env e t k role)"
proof (rule tx_okI)
  fix db x db'
  assume ok: "tables_ok X db" and run: "approve_user_on_event env e t k role db = Inr (x, db')"
  show "tables_ok X db'"
  proof (cases "claim_id_event e t db")
    case None
    then show ?thesis using run ok by (simp add: approve_user_on_event_def)
  next
    case (Some db1)
    have ok1: "tables_ok X db1" using claim_id_event_ok [OF Some] ok by simp
    show ?thesis
    proof (cases "live_user db1 k")
      case None
      then show ?thesis using run Some ok1 by (simp add: approve_user_on_event_def)
    next
      case u: (Some u)
      let ?u = "u\<lparr>us_approval := ApprovalApproved, us_updated_at := ie_tx_now env\<rparr>"
      obtain b where "add_user_role env k role (put_user k ?u db1) = Inr (b, db')"
        using run Some u by (auto simp: approve_user_on_event_def res_bind_Inr_iff)
      moreover have "tables_ok X (put_user k ?u db1)"
        using u by (intro tables_ok_update [OF ok1]) (auto simp: live_user_Some_iff)
      ultimately show ?thesis using add_user_role_ok by blast
    qed
  qed
qed

lemma reject_ok: "tx_ok X (reject_user_on_event env e t k)"
  by (rule tx_okI)
    (auto simp: reject_user_on_event_def live_user_Some_iff claim_id_event_ok split: option.splits if_splits
      intro: tables_ok_update)

lemma update_profile_ok: "tx_ok X (update_self_profile env k name email)"
  by (rule tx_okI)
    (auto simp: update_self_profile_def live_user_Some_iff Let_def split: option.splits if_splits
      intro!: tables_ok_contact)

lemma totp_ok: "tx_ok X (store_provisioned_totp env k sealed)"
  by (rule tx_okI)
    (auto simp: store_provisioned_totp_def live_user_Some_iff split: option.splits intro!: tables_ok_update)

lemma recovery_cong [simp]: "tables_ok X (delete_recovery k db) = tables_ok X db"
  "tables_ok X (db\<lparr>id_recovery := rs\<rparr>) = tables_ok X db" "tables_ok X (db\<lparr>id_tokens := ts\<rparr>) = tables_ok X db"
  "tables_ok X (record_credential_event k a d db) = tables_ok X db"
  by (rule tables_ok_cong, simp_all add: delete_recovery_def record_credential_event_def)+

lemma enable_totp_ok: "tx_ok X (enable_totp_with_recovery_codes env k hs)"
  by (rule tx_okI)
    (auto simp: enable_totp_with_recovery_codes_def live_user_Some_iff obind_Some_iff Let_def
      split: option.splits if_splits intro!: tables_ok_update)

lemma disable_totp_ok: "tx_ok X (disable_totp env k)"
  by (rule tx_okI)
    (auto simp: disable_totp_def live_user_Some_iff split: option.splits intro!: tables_ok_update)

lemma recovery_ok: "tx_ok X (\<lambda>db. Inr (consume_recovery_code env k h db))"
  by (rule tx_okI) (auto simp: consume_recovery_code_def)

lemma token_rows_ok: "tx_ok X (create_api_token_row env k name prefix h role)" "tx_ok X (revoke_api_token_row env k t)"
  by (rule tx_okI, auto simp: create_api_token_row_def revoke_api_token_row_def res_bind_Inr_iff
      split: if_splits option.splits)+

lemma touch_ok: "tables_ok X db \<Longrightarrow> tables_ok X (touch_api_token env t db)"
  by (simp add: touch_api_token_def split: option.split)

lemma revoke_user_ok: "tables_ok X db \<Longrightarrow> tables_ok X (revoke_user_rows k db)"
  by (simp add: revoke_user_rows_def tables_ok_revoke)

lemma revoke_all_ok: "tx_ok X (revoke_all env k)"
  by (rule tx_okI)
    (auto simp: revoke_all_def Let_def split: option.splits intro!: revoke_user_ok tables_ok_update)

lemma set_password_ok:
  "tables_ok X db \<Longrightarrow> get_user db k = Some u \<Longrightarrow> tables_ok X (snd (set_password A env k pin u db))"
  by (auto simp: set_password_def Let_def intro!: revoke_user_ok tables_ok_update)

lemma change_password_ok: "tx_ok X (change_password A env k old pin)"
  by (rule tx_okI)
    (auto simp: change_password_def Let_def live_user_Some_iff res_bind_Inr_iff case_prod_beta
      split: option.splits if_splits intro: set_password_ok)

lemma verify_password_ok: "tx_ok X (verify_self_password A k pw)"
  by (rule tx_okI) (auto simp: verify_self_password_def res_bind_Inr_iff split: option.splits if_splits)

lemma update_phone_ok: "tx_ok X (update_user_phone env k phone)"
  by (rule tx_okI)
    (auto simp: update_user_phone_def Let_def live_user_Some_iff split: option.splits if_splits
      intro!: revoke_user_ok tables_ok_contact)

lemma reset_ok: "tx_ok X (\<lambda>db. Inr (reset_password_by_phone A env phone pin db))"
  by (rule tx_okI)
    (auto simp: reset_password_by_phone_def case_prod_beta split: option.splits
      dest: find_user_ok intro!: set_password_ok)

lemma revoke_own_ok: "tx_ok X (revoke_own_family k f)"
  by (rule tx_okI) (auto simp: revoke_own_family_def Let_def tables_ok_revoke split: if_splits)

end
