(* ===== verification/Identity_Calls.thy ===== *)
theory Identity_Calls
  imports Identity_Invariants Identity_Account_Properties
begin

text \<open>
  All the calls the identity service answers, as one datatype, and the invariant of its tables over
  any sequence of them: every handler is built from statements that keep it.
\<close>

subsection \<open>The calls\<close>

datatype id_call =
    Login id_headers string string
  | VerifyTwoFactor id_headers string "string option" "string option"
  | Refresh id_headers "string option"
  | Logout auth_user id_headers "string option"
  | Register string string string
  | ReissueProfile request_parts string
  | AddRole string string
  | UpdateMe auth_user string "string option"
  | SwitchRole auth_user id_headers string
  | EnrollRole auth_user string
  | SetupTwoFactor auth_user
  | EnableTwoFactor auth_user string
  | DisableTwoFactor auth_user "string option" "string option"
  | RevokeSession auth_user uuid
  | CreateApiToken auth_user string
  | RevokeApiToken auth_user uuid
  | VerifyApiToken string
  | Approved envelope
  | Rejected envelope
  | Credential credential_call

record id_server =
  sv_argon :: argon2
  sv_jwt :: jwt_lib
  sv_totp :: totp_lib
  sv_sha :: "string \<Rightarrow> string"
  sv_lower :: "string \<Rightarrow> string"
  sv_uuid :: "string \<Rightarrow> uuid option"
  sv_expiry :: int

fun id_run :: "id_server \<Rightarrow> id_env \<Rightarrow> id_call \<Rightarrow> (id_state, unit) act" where
  "id_run V env (Login hdr i p) = no_answer (login (sv_argon V) (sv_jwt V) (sv_expiry V) env hdr i p)"
| "id_run V env (VerifyTwoFactor hdr t c r) =
     no_answer (verify_2fa (sv_argon V) (sv_jwt V) (sv_totp V) (sv_sha V) (sv_expiry V) env hdr t c r)"
| "id_run V env (Refresh hdr b) = no_answer (refresh (sv_argon V) (sv_jwt V) (sv_uuid V) (sv_expiry V) env hdr b)"
| "id_run V env (Logout u hdr b) = no_answer (logout (sv_jwt V) (sv_uuid V) env u hdr b)"
| "id_run V env (Register t r p) = no_answer (register (sv_argon V) (sv_jwt V) env t r p)"
| "id_run V env (ReissueProfile parts r) = no_answer (reissue_profile_token (sv_jwt V) env parts r)"
| "id_run V env (AddRole t r) = no_answer (add_role (sv_jwt V) env t r)"
| "id_run V env (UpdateMe u n e) = no_answer (update_me (sv_lower V) env u n e)"
| "id_run V env (SwitchRole u hdr r) = no_answer (switch_role (sv_argon V) (sv_jwt V) (sv_expiry V) env u hdr r)"
| "id_run V env (EnrollRole u r) = no_answer (enroll_role (sv_jwt V) env u r)"
| "id_run V env (SetupTwoFactor u) = no_answer (setup_2fa (sv_totp V) env u)"
| "id_run V env (EnableTwoFactor u c) = no_answer (enable_2fa (sv_totp V) (sv_sha V) env u c)"
| "id_run V env (DisableTwoFactor u c p) = disable_2fa (sv_totp V) (sv_argon V) env u c p"
| "id_run V env (RevokeSession u f) = revoke_session u f"
| "id_run V env (CreateApiToken u n) = no_answer (create_api_token (sv_sha V) env u n)"
| "id_run V env (RevokeApiToken u t) = revoke_api_token env u t"
| "id_run V env (VerifyApiToken t) = no_answer (internal_verify_api_token (sv_sha V) env t)"
| "id_run V env (Approved e) = consume_approved env e"
| "id_run V env (Rejected e) = consume_rejected env e"
| "id_run V env (Credential c) = credential_run (sv_argon V) (sv_jwt V) env c"

subsection \<open>Steps that keep the tables well-formed\<close>

abbreviation kept :: "uuid set \<Rightarrow> (id_state, 'a) act \<Rightarrow> bool" where
  "kept X m \<equiv> keeps (\<lambda>s. tables_ok X (is_db s)) m"

lemma kept_on_db [keeps_intros]: "tx_ok X t \<Longrightarrow> kept X (on_db t)"
  by (auto simp: keeps_def on_db_def in_db_def act_tx_def Let_def dest: tx_okD split: sum.splits)

lemma kept_modify: "(\<And>db. tables_ok X db \<Longrightarrow> tables_ok X (g db)) \<Longrightarrow> kept X (in_db (act_modify g))"
  by (simp add: keeps_def in_db_def)

lemma kept_cache [keeps_intros]: "kept X (on_cache env f)"
  by (simp add: keeps_def on_cache_def case_prod_beta)

lemma kept_read [keeps_intros]: "kept X (read_db f)"
  by (simp add: keeps_def read_db_def)

lemma kept_frame [keeps_intros]: "(\<And>s. is_db (g s) = is_db s) \<Longrightarrow> kept X (act_modify g)"
  by (simp add: keeps_def)

lemma kept_claim [keeps_intros]: "kept X (claim_token env k e)"
  unfolding claim_token_def by (intro keeps_intros)

lemma kept_publish [keeps_intros]: "kept X (publish_version env u v)"
  unfolding publish_version_def by (intro keeps_intros)

lemma kept_throttled [keeps_intros]: "kept X m \<Longrightarrow> kept X (throttled env b m)"
  by (auto simp: keeps_def throttled_def split: prod.splits sum.splits)

lemma kept_stepup [keeps_intros]: "kept X m \<Longrightarrow> kept X (with_stepup_throttle env u m)"
  unfolding with_stepup_throttle_def by (rule kept_throttled)

lemma kept_no_answer [keeps_intros]: "kept X m \<Longrightarrow> kept X (no_answer m)"
  unfolding no_answer_def by (intro keeps_intros)

lemma keeps_sum [keeps_intros]:
  "(\<And>x. keeps P (f x)) \<Longrightarrow> (\<And>x. keeps P (g x)) \<Longrightarrow> keeps P (case r of Inl x \<Rightarrow> f x | Inr x \<Rightarrow> g x)"
  by (simp split: sum.split)

lemma kept_revoke_family: "kept X (in_db (act_modify (\<lambda>db. snd (revoke_family f db))))"
  by (rule kept_modify) (simp add: revoke_family_def tables_ok_revoke)

lemmas kept_tx [keeps_intros] = update_profile_ok totp_ok enable_totp_ok disable_totp_ok recovery_ok
  token_rows_ok revoke_all_ok change_password_ok verify_password_ok update_phone_ok reset_ok revoke_own_ok
  approve_ok reject_ok kept_revoke_family

text \<open>A guard on the way makes what follows it depend on its condition only.\<close>

lemma keeps_of_role: "(\<And>role. role \<noteq> RoleAdmin \<Longrightarrow> keeps P (f role)) \<Longrightarrow>
    keeps P (act_bind (act_of (validate_registration_role r)) f)"
  by (auto simp: keeps_def dest: registration_role_Inr split: sum.splits)

lemma kept_profile_token [keeps_intros]: "kept X (issue_profile_token J env u r)"
  unfolding issue_profile_token_def by (intro keeps_intros)

lemma kept_register: "kept X (register A J env t r p)"
  unfolding register_def by (rule keeps_of_role) (intro keeps_intros upsert_ok)

lemma kept_reissue: "kept X (reissue_profile_token J env parts r)"
  unfolding reissue_profile_token_def by (rule keeps_of_role) (intro keeps_intros update_role_ok)

lemma kept_add_role: "kept X (add_role J env t r)"
  unfolding add_role_def by (intro keeps_intros)

lemma kept_logout: "kept X (logout J f env u hdr b)"
proof -
  have "kept X (forget_family f k t)" for k t
  proof -
    have "kept X (\<lambda>s. case on_db (revoke_own_family k g) s of (s', Inl (NotFound m)) \<Rightarrow> (s', Inr ()) | other \<Rightarrow> other)" for g
      using kept_on_db [OF revoke_own_ok, of X k g]
      by (auto simp: keeps_def split: prod.splits sum.splits app_error.splits)
    then show ?thesis unfolding forget_family_def by (intro keeps_intros)
  qed
  moreover have "is_db (block_access J env k p s) = is_db s" for k p s
    by (simp add: block_access_def split: option.split)
  ultimately show ?thesis unfolding logout_def by (intro keeps_intros)
qed

lemma kept_update_me: "kept X (update_me lower env u n e)"
  unfolding update_me_def by (intro keeps_intros)

lemma kept_enroll: "kept X (enroll_role J env u r)"
  unfolding enroll_role_def by (intro keeps_intros)

lemma kept_two_factor: "kept X (setup_2fa T env u)" "kept X (enable_2fa T sha env u c)"
    "kept X (disable_2fa T A env u code pw)"
  unfolding setup_2fa_def enable_2fa_def disable_2fa_def by (intro keeps_intros)+

lemma kept_tokens: "kept X (create_api_token sha env u n)" "kept X (revoke_api_token env u t)"
    "kept X (internal_verify_api_token sha env tok)"
  unfolding create_api_token_def revoke_api_token_def internal_verify_api_token_def admin_only_def
  by (intro keeps_intros kept_modify touch_ok)+

lemma kept_revoke_and_publish [keeps_intros]: "kept X (revoke_and_publish env k)"
  unfolding revoke_and_publish_def by (intro keeps_intros)

lemma kept_consumers: "kept X (consume_approved env e)" "kept X (consume_rejected env e)"
    "kept X (consume_compromised env e)"
  unfolding consume_approved_def consume_rejected_def consume_compromised_def by (intro keeps_intros)+

lemma delete_ok: "tx_ok X (soft_delete_and_redact env k)"
proof (rule tx_okI)
  fix db x db'
  assume ok: "tables_ok X db" and run: "soft_delete_and_redact env k db = Inr (x, db')"
  then obtain u where u: "get_user db k = Some u" and free: "\<not> phone_taken db k (deleted_phone k)"
    and db': "db' = revoke_user_rows k (put_user k (u\<lparr>us_phone := deleted_phone k, us_email := None, us_active := False,
      us_trv := next_revocation_version (us_trv u), us_deleted_at := Some (ie_tx_now env), us_updated_at := ie_tx_now env\<rparr>) db)"
    by (auto simp: soft_delete_and_redact_def Let_def live_user_Some_iff split: option.splits if_splits)
  have swap: "revoke_user_rows k (put_user k v db) = put_user k v (revoke_user_rows k db)" for v
    by (simp add: revoke_user_rows_def revoke_rows_def put_user_def)
  have "phone_taken (revoke_user_rows k db) k p = phone_taken db k p" for p
    by (simp add: phone_taken_def)
  then show "tables_ok X db'"
    unfolding db' swap using u free by (intro tables_ok_contact [OF revoke_user_ok [OF ok]]) auto
qed

lemma kept_credential: "kept X (credential_run A J env c)"
  by (cases c)
    (auto simp: api_change_password_def change_phone_def reset_pin_def delete_me_def revoke_all_sessions_def
      internal_revoke_all_def intro!: keeps_intros delete_ok kept_consumers)

subsection \<open>Calls that open a session\<close>

lemma bind_leaves:
  "(\<And>s' x. m s = (s', Inr x) \<Longrightarrow> Q (fst (f x s'))) \<Longrightarrow> (\<And>s' e. m s = (s', Inl e) \<Longrightarrow> Q s') \<Longrightarrow> Q (fst (act_bind m f s))"
  by (auto simp: act_bind_def split: prod.splits sum.splits)

lemma create_leaves:
  assumes ok: "tables_ok X db" and act: "get_user db k = Some u" "us_active u"
  shows "tables_ok X (fst (create_refresh_family A env k role dev db))"
proof -
  have cap: "tables_ok X (enforce_session_cap k db)" "get_user (enforce_session_cap k db) = get_user db"
  proof -
    have "tables_ok X (fold (\<lambda>f d. snd (revoke_family f d)) fs d) \<and> get_user (fold (\<lambda>f d. snd (revoke_family f d)) fs d) = get_user d"
      if "tables_ok X d" for fs d
      using that by (induction fs arbitrary: d) (simp_all add: revoke_family_def tables_ok_revoke fun_eq_iff)
    then show "tables_ok X (enforce_session_cap k db)" "get_user (enforce_session_cap k db) = get_user db"
      using ok by (simp_all add: enforce_session_cap_def)
  qed
  show ?thesis
    using cap act
    by (auto simp: create_refresh_family_def issue_refresh_def act_tx_def split: sum.splits intro: tables_ok_insert)
qed

lemma issue_login_leaves:
  assumes ok: "tables_ok X (is_db s)" and act: "get_user (is_db s) k = Some u" "us_active u"
  shows "tables_ok X (is_db (fst (issue_login_tokens A J x env k role trv hdr s)))"
proof -
  have v: "tables_ok X (is_db s1) \<and> (\<exists>w. get_user (is_db s1) k = Some w \<and> us_active w)"
    if "login_version env k active trv s = (s1, r)" for active s1 r
  proof (cases "active = RoleAdmin")
    case True
    then show ?thesis using that ok act by (simp add: login_version_def)
  next
    case False
    have s1: "s1 = fst (login_version env k active trv s)" using that by simp
    have "login_version env k active trv s = act_bind (on_db (revoke_all env k)) (\<lambda>v.
       act_bind (act_modify (try_cache env (mark_user_revoked k v))) (\<lambda>_. act_return v)) s"
      using False by (simp add: login_version_def)
    moreover have "revoke_all env k (is_db s) = Inr (next_revocation_version (us_trv u), revoke_user_rows k
        (put_user k (u\<lparr>us_trv := next_revocation_version (us_trv u), us_updated_at := ie_tx_now env\<rparr>) (is_db s)))"
      using act by (simp add: revoke_all_def Let_def)
    moreover have "tables_ok X (put_user k (u\<lparr>us_trv := next_revocation_version (us_trv u), us_updated_at := ie_tx_now env\<rparr>) (is_db s))"
      using act by (intro tables_ok_update [OF ok]) auto
    ultimately show ?thesis
      using act unfolding s1 by (simp add: act_bind_run on_db_def in_db_def act_tx_def revoke_user_ok)
  qed
  show ?thesis
  proof (cases "active_role_for role (list_user_roles (is_db s) k)")
    case None
    then show ?thesis using ok by (simp add: issue_login_tokens_def)
  next
    case (Some active)
    have "tables_ok X (is_db (fst (act_bind (login_version env k active trv) g s)))"
      if "\<And>v s1. tables_ok X (is_db s1) \<Longrightarrow> \<exists>w. get_user (is_db s1) k = Some w \<and> us_active w \<Longrightarrow> tables_ok X (is_db (fst (g v s1)))"
      for g :: "int \<Rightarrow> (id_state, login_outcome with_cookies) act"
      by (rule bind_leaves [where Q = "\<lambda>s. tables_ok X (is_db s)"]) (use v that in blast)+
    moreover have "tables_ok X (is_db (fst (act_bind (in_db (create_refresh_family A env k active dev)) (\<lambda>r. act_return (h r)) s1)))"
      if "tables_ok X (is_db s1)" "\<exists>w. get_user (is_db s1) k = Some w \<and> us_active w"
      for s1 dev and h :: "string \<Rightarrow> login_outcome with_cookies"
      using that create_leaves by (auto simp: act_bind_run in_db_def Let_def case_prod_beta split: sum.splits)
    ultimately show ?thesis using Some by (simp add: issue_login_tokens_def Let_def)
  qed
qed

lemma kept_login: "kept X (login A J x env hdr i pw)"
proof -
  let ?i = "trim i"
  let ?tail = "\<lambda>user. act_bind (read_db (\<lambda>db. totp_enabled_for_user db (ar_user user))) (\<lambda>two_factor.
     if two_factor then issue_challenge J env (ar_user user)
     else issue_login_tokens A J x env (ar_user user) (ar_role user) (ar_trv user) hdr)"
  let ?check = "\<lambda>b. throttled env b (act_bind (read_db (\<lambda>db. verify_credentials A db ?i pw)) act_of)"
  have "tables_ok X (is_db (fst (act_bind (?check b) ?tail s)))" if ok: "tables_ok X (is_db s)" for b s
  proof (rule bind_leaves [where Q = "\<lambda>s. tables_ok X (is_db s)"])
    fix s1 who assume c: "?check b s = (s1, Inr who)"
    then have v: "verify_credentials A (is_db s) ?i pw = Inr who" and same: "is_db s1 = is_db s"
      using throttled_Inr [OF c] by auto
    obtain u where "find_user (matches_identifier ?i) (is_db s) = Some (ar_user who, u)" "us_active u"
      using verify_credentials_Inr [OF v] by blast
    then have act: "get_user (is_db s1) (ar_user who) = Some u" "us_active u"
      using find_user_ok ok same by auto
    have "kept X (issue_challenge J env (ar_user who))"
      unfolding issue_challenge_def by (intro keeps_intros)
    then show "tables_ok X (is_db (fst (?tail who s1)))"
      using issue_login_leaves [OF _ act] ok same by (simp add: keeps_def)
  next
    fix s1 e assume "?check b s = (s1, Inl e)"
    moreover have "kept X (?check b)" by (intro keeps_intros)
    ultimately show "tables_ok X (is_db s1)" using ok unfolding keeps_def by fastforce
  qed
  then show ?thesis by (simp add: keeps_def login_def Let_def)
qed

lemma kept_second_factor: "kept X (second_factor T sha env k row c r)"
  unfolding second_factor_def by (intro keeps_intros)

lemma kept_issue_for_meta:
  "kept X (act_bind (read_db (\<lambda>db. user_auth_meta db k)) (\<lambda>meta0. case meta0 of
      None \<Rightarrow> act_fail e
    | Some meta \<Rightarrow> issue_login_tokens A J x env (ar_user meta) (ar_role meta) (ar_trv meta) hdr))"
  unfolding keeps_def
proof (intro allI impI)
  fix s :: id_state assume ok: "tables_ok X (is_db s)"
  show "tables_ok X (is_db (fst (act_bind (read_db (\<lambda>db. user_auth_meta db k)) (\<lambda>meta0. case meta0 of
      None \<Rightarrow> act_fail e
    | Some meta \<Rightarrow> issue_login_tokens A J x env (ar_user meta) (ar_role meta) (ar_trv meta) hdr) s)))"
  proof (cases "user_auth_meta (is_db s) k")
    case None
    then show ?thesis using ok by simp
  next
    case (Some meta)
    then obtain u where "get_user (is_db s) (ar_user meta) = Some u" "us_active u"
      by (auto simp: user_auth_meta_def obind_Some_iff split: if_splits)
    then show ?thesis using Some issue_login_leaves [OF ok] by simp
  qed
qed

lemma kept_verify_2fa: "kept X (verify_2fa A J T sha x env hdr t c r)"
  unfolding verify_2fa_def by (intro keeps_intros kept_second_factor kept_issue_for_meta)

lemma kept_switch_role: "kept X (switch_role A J x env user hdr r)"
proof -
  have "tables_ok X (is_db (fst (act_bind (read_db (\<lambda>db. user_trv_if_active db k)) (\<lambda>current. case current of
       None \<Rightarrow> act_fail e
     | Some trv \<Rightarrow> act_bind (in_db (create_refresh_family A env k role dev)) (\<lambda>token. act_return (h trv token))) s)))"
    if ok: "tables_ok X (is_db s)" for s k e role dev and h :: "int \<Rightarrow> string \<Rightarrow> token_pair with_cookies"
  proof (cases "user_trv_if_active (is_db s) k")
    case None
    then show ?thesis using ok by simp
  next
    case (Some trv)
    then obtain u where "get_user (is_db s) k = Some u" "us_active u"
      by (auto simp: user_trv_if_active_def obind_Some_iff live_user_Some_iff split: if_splits)
    then show ?thesis
      using Some create_leaves [OF ok, of k u A env role dev]
      by (simp add: act_bind_run read_db_def in_db_def Let_def case_prod_beta split: sum.split)
  qed
  then have core: "kept X (act_bind (read_db (\<lambda>db. user_trv_if_active db k)) (\<lambda>current. case current of
       None \<Rightarrow> act_fail e
     | Some trv \<Rightarrow> act_bind (in_db (create_refresh_family A env k role dev)) (\<lambda>token. act_return (h trv token))))"
    for k e role dev and h :: "int \<Rightarrow> string \<Rightarrow> token_pair with_cookies"
    by (simp add: keeps_def)
  show ?thesis unfolding switch_role_def Let_def by (rule core keeps_intros)+
qed

lemma rotate_leaves:
  assumes ok: "tables_ok X db" and act: "get_user db k = Some u" "us_active u"
    and run: "rotate A env k f p dev db = Inr (t, db')"
  shows "tables_ok X db'"
proof -
  have "tables_ok X (revoke_rows (live_rotation p) db)" "get_user (revoke_rows (live_rotation p) db) k = Some u"
    using ok act by (simp_all add: tables_ok_revoke)
  then show ?thesis
    using run ok act(2)
    by (auto simp: rotate_def Let_def res_bind_Inr_iff split: if_splits dest: tables_ok_insert)
qed

lemma kept_rotate_session: "kept X (rotate_session A J x env hdr l p)"
  unfolding keeps_def
proof (intro allI impI)
  fix s :: id_state assume ok: "tables_ok X (is_db s)"
  show "tables_ok X (is_db (fst (rotate_session A J x env hdr l p s)))"
  proof (cases "user_auth_meta (is_db s) (lr_user l)")
    case None
    then show ?thesis using ok by (simp add: rotate_session_def)
  next
    case (Some meta)
    then obtain u where act: "get_user (is_db s) (lr_user l) = Some u" "us_active u"
      by (auto simp: user_auth_meta_def obind_Some_iff split: if_splits)
    let ?rot = "on_db (rotate A env (lr_user l) (lr_family l) p (device_context hdr))"
    have left: "tables_ok X (is_db s1)" if "?rot s = (s1, res)" for s1 res
      using that rotate_leaves [OF ok act] ok
      by (auto simp: on_db_def in_db_def act_tx_def Let_def split: sum.splits)
    have "kept X (refresh_pair J x env meta q t)" for q t
      unfolding refresh_pair_def Let_def by (intro keeps_intros)
    then have "tables_ok X (is_db (fst (act_bind ?rot (\<lambda>rotated. case rotated of
          None \<Rightarrow> act_fail invalid_refresh
        | Some t \<Rightarrow> refresh_pair J x env meta (lr_active_role l) t) s)))"
      by (intro bind_leaves [where Q = "\<lambda>s. tables_ok X (is_db s)"])
        (auto simp: keeps_def dest: left split: option.splits)
    then show ?thesis using Some by (simp add: rotate_session_def)
  qed
qed

lemma kept_decision:
  "kept X a \<Longrightarrow> kept X b \<Longrightarrow> kept X c \<Longrightarrow> kept X e
    \<Longrightarrow> kept X (case d of Rotate \<Rightarrow> a | ReuseDetected \<Rightarrow> b | RotationExpired \<Rightarrow> c | CeilingExceeded \<Rightarrow> e)"
  by (cases d) simp_all

lemma kept_refresh: "kept X (refresh A J f x env hdr b)"
proof -
  have "kept X (reuse_detected g :: (id_state, token_pair with_cookies) act)" for g
    unfolding reuse_detected_def by (intro keeps_intros)
  moreover have "kept X (locate_refresh A f t)" for t
    unfolding locate_refresh_def by (intro keeps_intros)
  ultimately show ?thesis
    unfolding refresh_def by (intro keeps_intros kept_decision kept_rotate_session)
qed

subsection \<open>All calls\<close>

lemma kept_run: "kept X (id_run V env c)"
  by (cases c)
    (auto simp: revoke_session_def intro!: kept_no_answer kept_login kept_verify_2fa kept_refresh kept_logout
      kept_register kept_reissue kept_add_role kept_update_me kept_switch_role kept_enroll kept_two_factor
      kept_tokens kept_consumers kept_credential kept_on_db revoke_own_ok)

definition id_exec :: "id_server \<Rightarrow> id_env \<times> id_call \<Rightarrow> id_state \<Rightarrow> id_state" where
  "id_exec V call s = fst (id_run V (fst call) (snd call) s)"

interpretation identity: invariant_system "id_exec V" "\<lambda>s. tables_ok X (is_db s)" "\<lambda>_. True"
  for V X
  by unfold_locales (auto simp: id_exec_def intro: keepsD [OF kept_run])

text \<open>
  C13. The tables of the identity service stay well-formed. Whatever calls it has answered, in whatever
  order and with whatever failures of the cache, no two accounts share a phone or an e-mail address,
  nobody is enrolled twice in a role, no two refresh tokens have the same public half, and an erased
  account is inactive and has no live session.
\<close>
theorem accounts_stay_wellformed:
  assumes "tables_ok X (is_db s)"
  shows "users_unique (is_db (fold (id_exec V) calls s))
    \<and> distinct (map (\<lambda>r. (rr_user r, rr_role r)) (id_roles (is_db (fold (id_exec V) calls s))))
    \<and> distinct (map rf_rotation (id_refresh (is_db (fold (id_exec V) calls s))))
    \<and> erased_gone (is_db (fold (id_exec V) calls s))"
  using identity.run_inv [of X s calls V] assms by (simp add: tables_ok_def list_all_iff)

text \<open>
  C12. Nobody becomes an administrator. No sequence of calls, by anybody, with any tokens, events or
  requests, gives the role to an account that did not have it, neither as its role nor among the roles
  it is enrolled in.
\<close>
theorem nobody_becomes_admin:
  assumes "tables_ok (admin_accounts (is_db s)) (is_db s)"
  shows "admin_accounts (is_db (fold (id_exec V) calls s)) \<subseteq> admin_accounts (is_db s)"
  using identity.run_inv [of "admin_accounts (is_db s)" s calls V] assms by (simp add: tables_ok_def list_all_iff)

definition sample_totp :: totp_lib where
  "sample_totp = \<lparr>tl_new = (\<lambda>_ _. Inr ()), tl_url = (\<lambda>_ _. ''u''), tl_base32 = (\<lambda>s. s),
     tl_check = (\<lambda>_ _ _ _. Inr True), tl_seal = (\<lambda>s. Inr s), tl_decrypt = (\<lambda>_ s. Inr s)\<rparr>"

definition sample_server :: id_server where
  "sample_server = \<lparr>sv_argon = sample_argon2, sv_jwt = sample_jwt, sv_totp = sample_totp, sv_sha = (\<lambda>s. s),
     sv_lower = (\<lambda>s. s), sv_uuid = sample_parser, sv_expiry = 15\<rparr>"

lemma sample_tables_ok: "tables_ok {} sample_id_db"
  by (simp add: tables_ok_defs uniq_on_def sample_id_db_def sample_user_def sample_row_def row_keys_def get_user_def
      row_get_def user_has_role_def)

lemma accounts_stay_wellformed_witness:
  "erased_gone (is_db (fold (id_exec sample_server)
     [(sample_id_env, Login sample_headers ''0812345678'' ''pw''),
      (sample_id_env, Credential (DeleteMe \<lparr>au_id = 7, au_role = ''guard''\<rparr>))] sample_id_state))"
proof -
  have "tables_ok {} (is_db sample_id_state)" using sample_tables_ok by (simp add: sample_id_state_def)
  from accounts_stay_wellformed [OF this] show ?thesis by blast
qed

lemma nobody_becomes_admin_witness:
  "admin_accounts (is_db (fold (id_exec sample_server)
     [(sample_id_env, Register ''t'' ''admin'' ''p'')] sample_id_state)) = {}"
proof -
  have none: "admin_accounts (is_db sample_id_state) = {}"
    using sample_tables_ok by (simp add: tables_ok_def sample_id_state_def)
  have "tables_ok (admin_accounts (is_db sample_id_state)) (is_db sample_id_state)"
    unfolding none using sample_tables_ok by (simp add: sample_id_state_def)
  from nobody_becomes_admin [OF this, of sample_server] show ?thesis unfolding none by blast
qed

end
