(* ===== verification/Account_Paths.thy ===== *)
theory Account_Paths
  imports Otp_Properties Identity_Account_Properties Profile_Invariants Identity_Calls
begin

text \<open>
  The one-time-password service and the identity service together. They share nothing but the signing
  key and the cache: the OTP service signs a token and sets its single-use marker, the identity
  service reads the token and takes the marker.
\<close>

text \<open>
  An applicant between the two services: the decision an administrator takes in the profile service
  reaches the account in the identity service as an event.
\<close>

lemma phone_passes: "Otp_Domain.validate_thai_phone p = Inr phone \<Longrightarrow> validate_login_phone phone = Inr phone"
  by (auto simp: Otp_Domain.validate_thai_phone_def validate_login_phone_def ascii_digits_def Let_def split: if_splits)

lemma reset_pin_runs:
  assumes "validate_pin_hash pin = Inr ()"
    and "decode_phone_verify_token J (ie_now env) token PIN_RESET_PURPOSE = Inr (phone0, jti)"
    and "validate_login_phone phone0 = Inr phone" "find_user (live_phone phone) (is_db s) = Some (k, u)"
    and "ie_up env" "marker_valid (r_get (ie_now env) (is_redis s) (phone_verify_jti_key PIN_RESET_PURPOSE jti))"
  shows "reset_pin A J env token pin s =
    (let (v, db1) = set_password A env k pin u (is_db s) in
     (s\<lparr>is_db := record_credential_event k ''pin_reset'' (Some ''via_otp'') db1,
        is_redis := mark_user_revoked k v (r_del (phone_verify_jti_key PIN_RESET_PURPOSE jti) (is_redis s))\<rparr>, Inr ()))"
proof -
  let ?key = "phone_verify_jti_key PIN_RESET_PURPOSE jti"
  have claim: "claim_token env ?key single_use_error s = (s\<lparr>is_redis := r_del ?key (is_redis s)\<rparr>, Inr ())"
    using assms(5,6) by (simp add: claim_Inr_iff)
  show ?thesis
    using assms(1-5)
    by (simp add: reset_pin_def claim active_account_exists_by_phone_def on_db_def in_db_def act_tx_def act_bind_run
        read_db_def ensure_def reset_password_by_phone_def publish_version_def on_cache_def case_prod_beta Let_def)
qed

lemma reset_pin_needs_marker:
  assumes "decode_phone_verify_token J (ie_now env) token PIN_RESET_PURPOSE = Inr (phone0, jti)"
    and "\<not> marker_valid (r_get (ie_now env) (is_redis s) (phone_verify_jti_key PIN_RESET_PURPOSE jti))"
  shows "\<exists>e. snd (reset_pin A J env token pin s) = Inl e \<and> is_db (fst (reset_pin A J env token pin s)) = is_db s"
proof (cases "validate_pin_hash pin")
  case (Inl e)
  then show ?thesis by (simp add: reset_pin_def)
next
  case (Inr x)
  let ?key = "phone_verify_jti_key PIN_RESET_PURPOSE jti"
  obtain e where e: "snd (claim_token env ?key single_use_error s) = Inl e"
      "is_db (fst (claim_token env ?key single_use_error s)) = is_db s"
    using claim_used [OF assms(2)] by blast
  show ?thesis
  proof (cases "validate_login_phone phone0")
    case (Inl e')
    then show ?thesis using Inr assms(1) by (simp add: reset_pin_def)
  next
    case phone: (Inr phone)
    show ?thesis
      using Inr assms(1) e by (simp add: reset_pin_def phone act_bind_run ensure_def read_db_def)
  qed
qed

text \<open>
  C21. Forgotten PIN, end to end. When the OTP service verifies a code that was asked for to reset a PIN,
  the token it issues lets the phone's owner set a new PIN with the identity service, at any time
  until it expires and as long as nobody has used it: the new PIN passes against the stored hash, every
  session of the account is closed, and nobody else's account changes. After that the same token is
  worth nothing: every later use is refused and leaves the accounts as they are.
\<close>
theorem otp_resets_pin_once:
  assumes J: "jwt_ok J" and A: "argon2_ok A"
    and verified: "otp_verify J sha cfg oenv req so = (so', Inr v)"
    and purpose: "resolve_token_purpose (vr_purpose req) = Inr PIN_RESET_PURPOSE"
    and phone: "Otp_Domain.validate_thai_phone (vr_phone req) = Inr phone"
    and time: "oe_now oenv \<le> ie_now env"
      "timestamp (ie_now env) \<le> timestamp (oe_now oenv + minutes (oc_phone_verify_ttl_minutes cfg))"
    and cache: "ie_up env" "\<And>k. is_redis s (phone_verify_jti_key PIN_RESET_PURPOSE k)
      = os_redis so' (phone_verify_jti_key PIN_RESET_PURPOSE k)"
    and account: "find_user (live_phone phone) (is_db s) = Some (k, u)" "distinct (row_keys (id_users (is_db s)))"
    and pin: "validate_pin_hash pin = Inr ()"
  shows "\<exists>s'. reset_pin A J env (vo_token v) pin s = (s', Inr ())
    \<and> (\<exists>u'. get_user (is_db s') k = Some u' \<and> us_phone u' = phone
        \<and> ph_verify A pin (us_password_hash u') = Some True)
    \<and> (\<forall>r \<in> set (id_refresh (is_db s')). rf_user r = k \<longrightarrow> rf_revoked r)
    \<and> (\<forall>j. j \<noteq> k \<longrightarrow> get_user (is_db s') j = get_user (is_db s) j)
    \<and> (\<forall>env2 s2 pin2. timestamp (ie_now env2) \<le> timestamp (oe_now oenv + minutes (oc_phone_verify_ttl_minutes cfg))
        \<and> (\<forall>x. is_redis s2 (phone_verify_jti_key PIN_RESET_PURPOSE x)
              = is_redis s' (phone_verify_jti_key PIN_RESET_PURPOSE x)) \<longrightarrow>
        (\<exists>e. snd (reset_pin A J env2 (vo_token v) pin2 s2) = Inl e
          \<and> is_db (fst (reset_pin A J env2 (vo_token v) pin2 s2)) = is_db s2))"
proof -
  let ?T = "oc_phone_verify_ttl_minutes cfg" and ?j = "uuid_text (oe_jti oenv)"
  let ?key = "phone_verify_jti_key PIN_RESET_PURPOSE ?j"
  obtain ph rows red and r :: otp_row where r: "Otp_Domain.validate_thai_phone (vr_phone req) = Inr ph"
      "ot_code_hash r = sha (vr_code req)"
    and so': "so' = so\<lparr>os_codes := mark_used (ot_id r) rows, os_redis := put_marker (oe_now oenv)
          (phone_verify_jti_key (token_purpose_for (ot_purpose r)) ?j) (?T * 60 + JTI_SKEW_BUFFER_SECS) red\<rparr>"
    and tok: "vo_token v = fst (encode_phone_verify_token J (oe_now oenv) (oe_jti oenv) ph
        (token_purpose_for (ot_purpose r)) ?T)"
    and res: "resolve_token_purpose (vr_purpose req) = Inr (token_purpose_for (ot_purpose r))"
    using verify_Inr [OF verified] by (elim exE conjE) (rule that)
  have pr: "token_purpose_for (ot_purpose r) = PIN_RESET_PURPOSE" using res purpose by simp
  have dec: "decode_phone_verify_token J later (vo_token v) PIN_RESET_PURPOSE = Inr (phone, ?j)"
    if "timestamp later \<le> timestamp (oe_now oenv + minutes ?T)" for later
    using decode_encoded_phone [OF J that] r(1) phone tok pr by simp
  have "ie_now env < oe_now oenv + minutes ?T + seconds 1"
    using time(2) by (simp add: timestamp_def nanos_per_sec_def)
  then have live: "ie_now env < oe_now oenv + seconds (?T * 60 + JTI_SKEW_BUFFER_SECS)"
    by (simp add: minutes_def nanos_per_sec_def JTI_SKEW_BUFFER_SECS_def)
  have "r_get (ie_now env) (is_redis s) ?key = r_get (ie_now env) (os_redis so') ?key"
    by (rule r_get_cong) (rule cache(2))
  then have mark: "marker_valid (r_get (ie_now env) (is_redis s) ?key)"
    using live by (simp add: so' pr put_marker_def marker_valid_def)
  obtain w db1 where set: "set_password A env k pin u (is_db s) = (w, db1)" by fastforce
  let ?s' = "s\<lparr>is_db := record_credential_event k ''pin_reset'' (Some ''via_otp'') db1,
    is_redis := mark_user_revoked k w (r_del ?key (is_redis s))\<rparr>"
  have run: "reset_pin A J env (vo_token v) pin s = (?s', Inr ())"
    using reset_pin_runs [OF pin dec [OF time(2)] phone_passes [OF phone] account(1) cache(1) mark] set by simp
  have u: "get_user (is_db s) k = Some u" "us_phone u = phone"
    using find_user_get [OF account] by (simp_all add: live_phone_def)
  have bump: "version_bumped k u w (is_db s) (is_db ?s')"
    using set_password_bumps [OF u(1) set] by (simp add: bumped_audit)
  have pw: "\<exists>u'. get_user (is_db ?s') k = Some u' \<and> us_phone u' = phone
      \<and> ph_verify A pin (us_password_hash u') = Some True"
    using set A u(2) by (auto simp: set_password_def Let_def argon2_ok_def)
  have gone: "is_redis ?s' ?key = None"
    by (simp add: mark_user_revoked_def r_set_def r_del_def)
  have again: "\<exists>e. snd (reset_pin A J env2 (vo_token v) pin2 s2) = Inl e
      \<and> is_db (fst (reset_pin A J env2 (vo_token v) pin2 s2)) = is_db s2"
    if "timestamp (ie_now env2) \<le> timestamp (oe_now oenv + minutes ?T)" "is_redis s2 ?key = is_redis ?s' ?key"
    for env2 s2 pin2
  proof (rule reset_pin_needs_marker [OF dec [OF that(1)]])
    show "\<not> marker_valid (r_get (ie_now env2) (is_redis s2) ?key)"
      using that(2) gone by (simp add: r_get_def r_live_def marker_valid_def)
  qed
  show ?thesis
    by (rule exI [of _ ?s'])
      (use run pw bump again in \<open>simp add: version_bumped_def no_session_def\<close>)
qed

lemma otp_resets_pin_once_witness:
  "\<exists>so' v s'. otp_verify sample_jwt rev sample_otp_config (sample_otp_env 1000) sample_verify sample_otp_state
      = (so', Inr v)
    \<and> reset_pin sample_argon2 sample_jwt (sample_id_env\<lparr>ie_now := oe_now (sample_otp_env 1000)\<rparr>) (vo_token v)
        (replicate 64 (CHR ''0'')) (sample_id_state\<lparr>is_redis := os_redis so'\<rparr>) = (s', Inr ())"
proof -
  obtain so' v where v: "otp_verify sample_jwt rev sample_otp_config (sample_otp_env 1000) sample_verify
      sample_otp_state = (so', Inr v)"
    using sample_verified by blast
  let ?env = "sample_id_env\<lparr>ie_now := oe_now (sample_otp_env 1000)\<rparr>"
  let ?s = "sample_id_state\<lparr>is_redis := os_redis so'\<rparr>"
  have purpose: "resolve_token_purpose (vr_purpose sample_verify) = Inr PIN_RESET_PURPOSE"
    by (simp add: resolve_token_purpose_def sample_verify_def purpose_defs)
  have phone: "Otp_Domain.validate_thai_phone (vr_phone sample_verify) = Inr ''0812345678''"
    by (simp add: sample_verify_def sample_phone)
  have time: "timestamp (ie_now ?env) \<le> timestamp (oe_now (sample_otp_env 1000)
      + minutes (oc_phone_verify_ttl_minutes sample_otp_config))"
    by (simp add: sample_otp_env_def sample_otp_config_def timestamp_def minutes_def nanos_per_sec_def)
  have user: "find_user (live_phone ''0812345678'') (is_db ?s) = Some (7, sample_user)"
    by (simp add: find_user_def sample_id_state_def sample_id_db_def live_phone_def sample_user_def)
  have keys: "distinct (row_keys (id_users (is_db ?s)))"
    by (simp add: sample_id_state_def sample_id_db_def row_keys_def)
  have pin: "validate_pin_hash (replicate 64 (CHR ''0'')) = Inr ()"
    by (simp add: validate_pin_hash_def ensure_def list_all_iff is_ascii_hex_def is_ascii_digit_def byte_of_def)
  have "\<exists>s'. reset_pin sample_argon2 sample_jwt ?env (vo_token v) (replicate 64 (CHR ''0'')) ?s = (s', Inr ())"
    using otp_resets_pin_once [OF sample_jwt_ok sample_argon2_ok v purpose phone _ time _ _ user keys pin]
    by (auto simp: sample_id_env_def)
  then show ?thesis using v by blast
qed

lemma approval_enqueued:
  assumes "admin_approve_guard penv admin k ps = (ps', Inr p)"
  shows "\<exists>r. pd_outbox (ps_db ps') = pd_outbox (ps_db ps) @ [r]
    \<and> ob_envelope r = new_envelope (fresh_event (pe_call penv)) (utc_now (pe_call penv)) (trace_parent (pe_call penv))
        USER_APPROVED_TOPIC (correlation (pe_call penv))
        [(''user_id'', JUuid k), (''role'', JStr ''guard''), (''approved_at'', JTime (utc_now (pe_call penv)))]
    \<and> map_option gw_approval (guard_of (ps_db ps) k) = Some ApprovalPending
    \<and> map_option gw_approval (guard_of (ps_db ps') k) = Some ApprovalApproved"
proof -
  obtain x db where t: "set_approval_status (pe_call penv) k ApprovalApproved PROFILE_ROLE_GUARD (ps_db ps) = Inr (x, db)" "ps_db ps' = db"
    using assms
    by (cases "set_approval_status (pe_call penv) k ApprovalApproved PROFILE_ROLE_GUARD (ps_db ps)")
      (auto simp: admin_approve_guard_def require_role_def profile_tx_def split: if_splits)
  then obtain g where g: "guard_of (ps_db ps) k = Some g" "Profile_Repo.can_transition (gw_approval g) ApprovalApproved"
    by (auto simp: set_approval_status_def Let_def split: option.splits if_splits)
  have "gw_approval g = ApprovalPending" using g(2) by (cases "gw_approval g") simp_all
  let ?r = "\<lparr>ob_id = fresh_outbox (pe_call penv), ob_topic = USER_APPROVED_TOPIC,
    ob_envelope = new_envelope (fresh_event (pe_call penv)) (utc_now (pe_call penv)) (trace_parent (pe_call penv))
      USER_APPROVED_TOPIC (correlation (pe_call penv))
      [(''user_id'', JUuid k), (''role'', JStr ''guard''), (''approved_at'', JTime (utc_now (pe_call penv)))],
    ob_created_at = tx_now (pe_call penv), ob_published_at = None\<rparr>"
  let ?v = "g\<lparr>gw_approval := ApprovalApproved, gw_reviewed_at := Some (tx_now (pe_call penv)),
    gw_updated_at := tx_now (pe_call penv)\<rparr>"
  have "ps_db ps' = (put_guard k ?v (ps_db ps))\<lparr>pd_outbox := pd_outbox (ps_db ps) @ [?r]\<rparr>"
    using t g \<open>gw_approval g = ApprovalPending\<close>
    by (simp add: set_approval_status_def Let_def enqueue_decision_def approval_event_topic_def outbox_append_def profile_roles)
  then show ?thesis using g(1) \<open>gw_approval g = ApprovalPending\<close> by (intro exI [of _ ?r]) simp
qed

lemma guard_role_added:
  "\<exists>b db'. add_user_role env k ''guard'' db = Inr (b, db') \<and> user_has_role db' k RoleGuard
    \<and> id_users db' = id_users db \<and> id_processed db' = id_processed db"
  by (auto simp: add_user_role_def validate_registration_role_def parse_role_def cast_role_def user_has_role_def
      ascii_lower_def lower_char_def byte_of_def Let_def is_ok_def)

text \<open>
  C14. An approval reaches the account. When an administrator approves a pending guard, the event the
  approval leaves in the outbox, once delivered, makes the guard's live account approved, with the guard
  role and the password it had; delivering it again changes nothing.
\<close>
theorem approval_admits_applicant:
  assumes approve: "admin_approve_guard penv admin k ps = (ps', Inr p)"
    and live: "live_user (is_db s) k = Some u"
    and fresh: "fresh_event (pe_call penv) \<notin> fst ` set (id_processed (is_db s))"
  shows "\<exists>r u'. pd_outbox (ps_db ps') = pd_outbox (ps_db ps) @ [r]
    \<and> live_user (is_db (fst (consume_approved env (ob_envelope r) s))) k = Some u'
    \<and> us_approval u' = ApprovalApproved \<and> us_password_hash u' = us_password_hash u
    \<and> user_has_role (is_db (fst (consume_approved env (ob_envelope r) s))) k RoleGuard
    \<and> is_db (fst (consume_approved env' (ob_envelope r) (fst (consume_approved env (ob_envelope r) s))))
      = is_db (fst (consume_approved env (ob_envelope r) s))"
proof -
  obtain r where r: "pd_outbox (ps_db ps') = pd_outbox (ps_db ps) @ [r]"
      "ob_envelope r = new_envelope (fresh_event (pe_call penv)) (utc_now (pe_call penv)) (trace_parent (pe_call penv))
        USER_APPROVED_TOPIC (correlation (pe_call penv))
        [(''user_id'', JUuid k), (''role'', JStr ''guard''), (''approved_at'', JTime (utc_now (pe_call penv)))]"
    using approval_enqueued [OF approve] by blast
  let ?e = "fresh_event (pe_call penv)"
  define u1 where "u1 = u\<lparr>us_approval := ApprovalApproved, us_updated_at := ie_tx_now env\<rparr>"
  have step: "consume_approved env (ob_envelope r) s
      = act_bind (on_db (approve_user_on_event env ?e USER_APPROVED_TOPIC k ''guard'')) (\<lambda>_. act_return ()) s" for env s
    by (simp add: consume_approved_def r(2) new_envelope_def uuid_at_def text_at_def jget_def)
  define db1 where "db1 = (is_db s)\<lparr>id_processed := id_processed (is_db s) @ [(?e, USER_APPROVED_TOPIC)]\<rparr>"
  have c: "claim_id_event ?e USER_APPROVED_TOPIC (is_db s) = Some db1" using fresh by (simp add: claim_id_event_def db1_def)
  have l: "live_user db1 k = Some u" using live by (simp add: live_user_def get_user_def db1_def)
  obtain b db2 where d: "add_user_role env k ''guard'' (put_user k u1 db1) = Inr (b, db2)" "user_has_role db2 k RoleGuard"
      "id_users db2 = id_users (put_user k u1 db1)" "id_processed db2 = id_processed db1"
    using guard_role_added [of env k "put_user k u1 db1"] by auto
  have "approve_user_on_event env ?e USER_APPROVED_TOPIC k ''guard'' (is_db s) = Inr (Applied, db2)"
    using d(1) by (simp add: approve_user_on_event_def c l u1_def)
  then have s1: "is_db (fst (consume_approved env (ob_envelope r) s)) = db2"
    by (simp add: step act_bind_run on_db_def in_db_def act_tx_def)
  have "us_deleted_at u1 = None" using live by (simp add: u1_def live_user_Some_iff)
  moreover have "get_user db2 k = Some u1" using d(3) by (simp add: get_user_def put_user_def)
  ultimately have u': "live_user db2 k = Some u1" by (simp add: live_user_Some_iff)
  have "claim_id_event ?e USER_APPROVED_TOPIC db2 = None" using d(4) by (simp add: claim_id_event_def db1_def)
  then have "approve_user_on_event env' ?e USER_APPROVED_TOPIC k ''guard'' db2 = Inr (Duplicate, db2)"
    by (simp add: approve_user_on_event_def)
  then have s2: "is_db (fst (consume_approved env' (ob_envelope r) (fst (consume_approved env (ob_envelope r) s)))) = db2"
    by (simp add: step [of env'] act_bind_run on_db_def in_db_def act_tx_def s1)
  show ?thesis
    using r(1) u' d(2) by (intro exI [of _ r] exI [of _ u1]) (simp add: s1 s2 u1_def)
qed

text \<open>
  A rejected applicant can apply again at one service and never at the other. The identity service lets
  a rejected phone register anew and waits for a decision; the profile service keeps the rejection
  through every later call, puts no approval of the guard into the outbox, and answers every attempt to
  approve with a conflict, so no decision ever comes.
\<close>
theorem rejected_applicant_cannot_reapply:
  assumes user: "find_user (\<lambda>u. us_phone u = phone) idb = Some (k, u)" "us_approval u = ApprovalRejected"
    and profile: "map_option gw_approval (guard_of (ps_db ps) k) = Some ApprovalRejected"
    and admin: "au_role admin = PROFILE_ROLE_ADMIN"
  shows "(\<exists>idb'. upsert_pending_user A env phone role pin idb = Inr (k, idb')
      \<and> map_option us_approval (get_user idb' k) = Some ApprovalPending)
    \<and> map_option gw_approval (guard_of (ps_db (fold (profile_step J L C) calls ps)) k) = Some ApprovalRejected
    \<and> filter (approves_guard k) (map ob_envelope (pd_outbox (ps_db (fold (profile_step J L C) calls ps))))
      = filter (approves_guard k) (map ob_envelope (pd_outbox (ps_db ps)))
    \<and> snd (admin_approve_guard penv admin k (fold (profile_step J L C) calls ps)) = Inl illegal_approval"
proof -
  have reg: "\<exists>idb'. upsert_pending_user A env phone role pin idb = Inr (k, idb')
      \<and> map_option us_approval (get_user idb' k) = Some ApprovalPending"
    using user by (simp add: upsert_pending_user_def Let_def)
  have "rejected_with k (filter (approves_guard k) (map ob_envelope (pd_outbox (ps_db ps)))) (ps_db ps)"
    using profile by (simp add: rejected_with_def)
  from rejected.run_keeps [OF this, of J L C calls]
  have kept: "map_option gw_approval (guard_of (ps_db (fold (profile_step J L C) calls ps)) k) = Some ApprovalRejected"
      "filter (approves_guard k) (map ob_envelope (pd_outbox (ps_db (fold (profile_step J L C) calls ps))))
      = filter (approves_guard k) (map ob_envelope (pd_outbox (ps_db ps)))"
    by (simp_all add: rejected_with_def)
  then obtain g where g: "guard_of (ps_db (fold (profile_step J L C) calls ps)) k = Some g" "gw_approval g = ApprovalRejected"
    by auto
  have "snd (admin_approve_guard penv admin k (fold (profile_step J L C) calls ps)) = Inl illegal_approval"
    using admin g by (simp add: admin_approve_guard_def require_role_def profile_tx_def set_approval_status_def)
  with reg kept show ?thesis by blast
qed

subsection \<open>Concrete instances\<close>

definition sample_guard_row :: "approval_status \<Rightarrow> guard_row" where
  "sample_guard_row a = (new_guard 0 \<lparr>gf_full_name = None, gf_gender = None, gf_date_of_birth = None, gf_years = None,
     gf_previous_workplace = None, gf_bank_name = None, gf_account_number = None, gf_account_name = None, gf_tax_id = None,
     gf_address = None, gf_emergency_name = None, gf_emergency_phone = None, gf_emergency_relationship = None\<rparr>)
     \<lparr>gw_approval := a\<rparr>"

definition sample_profile_state :: "approval_status \<Rightarrow> profile_state" where
  "sample_profile_state a = \<lparr>ps_db = put_guard 7 (sample_guard_row a) empty_profile_db, ps_redis = (\<lambda>_. None),
     ps_objects = (\<lambda>_. None)\<rparr>"

definition applicant_db :: "approval_status \<Rightarrow> id_db" where
  "applicant_db a = \<lparr>id_users = [(7, (new_user 0 ''0812345678'' ''h'' RoleGuard)\<lparr>us_approval := a\<rparr>)], id_roles = [],
     id_refresh = [], id_processed = [], id_audit = [], id_recovery = [], id_tokens = []\<rparr>"

definition applicant_admin :: auth_user where
  "applicant_admin = \<lparr>au_id = 1, au_role = ''admin''\<rparr>"

theorem rejected_applicant_cannot_reapply_witness:
  "\<forall>J L C. snd (admin_approve_guard sample_profile_env applicant_admin 7
      (fold (profile_step J L C) [] (sample_profile_state ApprovalRejected))) = Inl illegal_approval"
proof -
  have u: "find_user (\<lambda>u. us_phone u = ''0812345678'') (applicant_db ApprovalRejected)
      = Some (7, (new_user 0 ''0812345678'' ''h'' RoleGuard)\<lparr>us_approval := ApprovalRejected\<rparr>)"
    by (simp add: applicant_db_def find_user_def new_user_def)
  show ?thesis
    using rejected_applicant_cannot_reapply [OF u, where ps = "sample_profile_state ApprovalRejected"
        and admin = applicant_admin and calls = "[]"]
    by (simp add: sample_profile_state_def sample_guard_row_def applicant_admin_def PROFILE_ROLE_ADMIN_def)
qed

theorem approval_admits_applicant_witness:
  "\<exists>(r :: outbox_row) u'. live_user (is_db (fst (consume_approved sample_id_env (ob_envelope r)
      \<lparr>is_db = applicant_db ApprovalPending, is_redis = (\<lambda>_. None)\<rparr>))) 7 = Some u'
    \<and> us_approval u' = ApprovalApproved"
proof -
  obtain ps' p where a: "admin_approve_guard sample_profile_env applicant_admin 7 (sample_profile_state ApprovalPending)
      = (ps', Inr p)"
    by (simp add: admin_approve_guard_def require_role_def profile_tx_def set_approval_status_def applicant_admin_def
        sample_profile_state_def sample_guard_row_def profile_roles Let_def)
  let ?u = "(new_user 0 ''0812345678'' ''h'' RoleGuard)\<lparr>us_approval := ApprovalPending\<rparr>"
  let ?s = "\<lparr>is_db = applicant_db ApprovalPending, is_redis = (\<lambda>_. None)\<rparr>"
  have l: "live_user (is_db ?s) 7 = Some ?u"
    by (simp add: live_user_def get_user_def applicant_db_def new_user_def row_get_def)
  have f: "fresh_event (pe_call sample_profile_env) \<notin> fst ` set (id_processed (is_db ?s))"
    by (simp add: applicant_db_def)
  show ?thesis
    using approval_admits_applicant [OF a l f, of sample_id_env sample_id_env] by blast
qed

end
