(* ===== verification/Gateway_Routing.thy ===== *)
theory Gateway_Routing
  imports Text_Ops "HOL-Library.Product_Lexorder"
begin

text \<open>
  Which service a request to the edge goes to (\<open>services/api-gateway/src/domain/routing.rs\<close>). A path
  is the raw, still percent-encoded path of the request, as bytes. The routing table is a list of
  rules; of the rules that match, the most specific one decides.
\<close>

subsection \<open>Tiers, body caps, upstreams\<close>

datatype tier = TierAuth | TierOtp | TierOtpVerify | TierOtpChallenge | TierApi

datatype body_cap = DefaultCap | LargeCap | ChatCap

definition DEFAULT_BYTES :: nat where "DEFAULT_BYTES = 1024 * 1024"
definition LARGE_BYTES :: nat where "LARGE_BYTES = 12 * 1024 * 1024"
definition CHAT_BYTES :: nat where "CHAT_BYTES = 30 * 1024 * 1024"

fun cap_bytes :: "body_cap \<Rightarrow> nat" where
  "cap_bytes DefaultCap = DEFAULT_BYTES"
| "cap_bytes LargeCap = LARGE_BYTES"
| "cap_bytes ChatCap = CHAT_BYTES"

datatype upstream = UpIdentity | UpOtp | UpProfile | UpBooking | UpPayment | UpNotification
  | UpCalling | UpRating | UpPresence | UpChat | UpOsrm

fun upstream_text :: "upstream \<Rightarrow> string" where
  "upstream_text UpIdentity = ''identity''"
| "upstream_text UpOtp = ''otp''"
| "upstream_text UpProfile = ''profile''"
| "upstream_text UpBooking = ''booking''"
| "upstream_text UpPayment = ''payment''"
| "upstream_text UpNotification = ''notification''"
| "upstream_text UpCalling = ''calling''"
| "upstream_text UpRating = ''rating''"
| "upstream_text UpPresence = ''presence''"
| "upstream_text UpChat = ''chat''"
| "upstream_text UpOsrm = ''osrm''"

datatype route_decision =
    RouteBlock
  | RouteNotFound
  | RouteProxy (rt_upstream: upstream) (rt_path: string) (rt_public: bool) (rt_tier: tier) (rt_cap: body_cap)

lemma ascii_lower_append: "ascii_lower (a @ b) = ascii_lower a @ ascii_lower b"
  by (simp add: ascii_lower_def)

lemma has_sub_drop: "has_sub p (drop n s) \<Longrightarrow> has_sub p s"
proof -
  assume "has_sub p (drop n s)"
  then obtain a b where "drop n s = a @ p @ b" by (auto simp: has_sub_iff)
  then have "s = (take n s @ a) @ p @ b" by (metis append.assoc append_take_drop_id)
  then show ?thesis unfolding has_sub_iff by blast
qed

lemma ends_with_drop: "ends_with p (drop n s) \<Longrightarrow> ends_with p s"
proof -
  assume "ends_with p (drop n s)"
  then obtain a where "drop n s = a @ p" by (auto simp: ends_with_iff)
  then have "s = (take n s @ a) @ p" by (metis append.assoc append_take_drop_id)
  then show ?thesis unfolding ends_with_iff by blast
qed

subsection \<open>Rules\<close>

record rule =
  ru_prefix :: string
  ru_suffix :: "string option"
  ru_upstream :: upstream
  ru_tier :: tier

definition mk_rule :: "string \<Rightarrow> string option \<Rightarrow> upstream \<Rightarrow> tier \<Rightarrow> rule" where
  "mk_rule p s u t = \<lparr>ru_prefix = p, ru_suffix = s, ru_upstream = u, ru_tier = t\<rparr>"

text \<open>The tail of a path after one non-empty segment; the segment ends at the first slash.\<close>

definition after_segment :: "string \<Rightarrow> string option" where
  "after_segment rest = (case split_once (CHR ''/'') rest of
     None \<Rightarrow> None
   | Some (seg, tail) \<Rightarrow> if seg = [] then None else Some tail)"

definition at_boundary :: "string \<Rightarrow> string \<Rightarrow> bool" where
  "at_boundary seg tail = (case strip_prefix seg tail of
     None \<Rightarrow> False
   | Some after \<Rightarrow> after = [] \<or> starts_with ''/'' after)"

definition rule_matches :: "rule \<Rightarrow> string \<Rightarrow> bool" where
  "rule_matches r path =
    (starts_with (ru_prefix r) path
     \<and> (case ru_suffix r of
          None \<Rightarrow> True
        | Some suffix \<Rightarrow>
          (case after_segment (drop (length (ru_prefix r)) path) of
             None \<Rightarrow> False
           | Some tail \<Rightarrow>
             (case strip_prefix ''/'' suffix of
                None \<Rightarrow> False
              | Some seg \<Rightarrow> at_boundary seg tail))))"

definition specificity :: "rule \<Rightarrow> nat \<times> nat" where
  "specificity r = (length (ru_prefix r), case ru_suffix r of None \<Rightarrow> 0 | Some s \<Rightarrow> length s)"

definition admin_rules :: "rule list" where
  "admin_rules = [
    mk_rule ''/admin/guard-profiles'' None UpProfile TierApi,
    mk_rule ''/admin/reviews'' None UpRating TierApi,
    mk_rule ''/admin/customer-profiles'' None UpProfile TierApi,
    mk_rule ''/admin/access-audit'' None UpProfile TierApi,
    mk_rule ''/admin/org-settings'' None UpProfile TierApi,
    mk_rule ''/admin/users/search'' None UpIdentity TierApi,
    mk_rule ''/admin/api-tokens'' None UpIdentity TierApi,
    mk_rule ''/admin/users'' None UpProfile TierApi,
    mk_rule ''/admin/documents'' None UpProfile TierApi,
    mk_rule ''/admin/applicants'' None UpProfile TierApi,
    mk_rule ''/admin/recruitment'' None UpProfile TierApi,
    mk_rule ''/admin/bookings'' None UpBooking TierApi,
    mk_rule ''/admin/checkins'' None UpBooking TierApi,
    mk_rule ''/admin/payments'' None UpPayment TierApi,
    mk_rule ''/admin/refunds'' None UpPayment TierApi,
    mk_rule ''/admin/payouts'' None UpPayment TierApi,
    mk_rule ''/admin/deductions'' None UpPayment TierApi]"

definition admin_desk_rules :: "rule list" where
  "admin_desk_rules = [
    mk_rule ''/admin/pricing'' None UpBooking TierApi,
    mk_rule ''/admin/calls'' None UpCalling TierApi,
    mk_rule ''/admin/track'' None UpPresence TierApi,
    mk_rule ''/admin/conversations'' None UpChat TierApi,
    mk_rule ''/admin/broadcasts'' None UpNotification TierApi,
    mk_rule ''/admin/audience-counts'' None UpNotification TierApi,
    mk_rule ''/admin/automation'' None UpNotification TierApi,
    mk_rule ''/admin/reports/revenue'' None UpPayment TierApi,
    mk_rule ''/admin/reports/bookings'' None UpBooking TierApi,
    mk_rule ''/admin/reports/customer-bookings'' None UpBooking TierApi,
    mk_rule ''/admin/reports/customer-spend'' None UpPayment TierApi,
    mk_rule ''/admin/reports/vat-register'' None UpPayment TierApi,
    mk_rule ''/admin/reports/wht-payees'' None UpPayment TierApi]"

definition service_rules :: "rule list" where
  "service_rules = [
    mk_rule ''/auth/'' None UpIdentity TierAuth,
    mk_rule ''/me/data-export'' None UpIdentity TierApi,
    mk_rule ''/otp/verify'' None UpOtp TierOtpVerify,
    mk_rule ''/otp/challenge'' None UpOtp TierOtpChallenge,
    mk_rule ''/otp/'' None UpOtp TierOtp,
    mk_rule ''/profile/'' None UpProfile TierApi,
    mk_rule ''/bookings'' None UpBooking TierApi,
    mk_rule ''/available-guards'' None UpBooking TierApi,
    mk_rule ''/services'' None UpBooking TierApi,
    mk_rule ''/payments'' None UpPayment TierApi,
    mk_rule ''/calls'' None UpCalling TierApi,
    mk_rule ''/notifications'' None UpNotification TierApi,
    mk_rule ''/tokens'' None UpNotification TierApi,
    mk_rule ''/conversations'' None UpChat TierApi,
    mk_rule ''/attachments'' None UpChat TierApi,
    mk_rule ''/locations'' None UpPresence TierApi]"

definition nested_rules :: "rule list" where
  "nested_rules = [
    mk_rule ''/guards/'' (Some ''/location'') UpPresence TierApi,
    mk_rule ''/guards/'' (Some ''/history'') UpPresence TierApi,
    mk_rule ''/guards/'' (Some ''/ratings'') UpRating TierApi,
    mk_rule ''/guards/'' (Some ''/public'') UpProfile TierApi,
    mk_rule ''/customers/'' (Some ''/public'') UpProfile TierApi,
    mk_rule ''/assignments/'' (Some ''/review'') UpRating TierApi,
    mk_rule ''/osrm/'' None UpOsrm TierApi]"

definition RULES :: "rule list" where
  "RULES = admin_rules @ admin_desk_rules @ service_rules @ nested_rules"

definition PUBLIC_PATHS :: "string list" where
  "PUBLIC_PATHS = [''/auth/login'', ''/auth/refresh'', ''/auth/2fa/verify'', ''/auth/register'',
     ''/auth/register/reissue'', ''/auth/register/add-role'', ''/auth/reset-pin'', ''/auth/phone-status'',
     ''/profile/guard'', ''/profile/customer'', ''/otp/challenge'', ''/otp/request'', ''/otp/verify'']"

subsection \<open>The decision\<close>

definition is_internal :: "string \<Rightarrow> bool" where
  "is_internal path = (path = ''/internal'' \<or> ends_with ''/internal'' path
     \<or> starts_with ''/internal/'' path \<or> has_sub ''/internal/'' path)"

definition has_encoded_separator :: "string \<Rightarrow> bool" where
  "has_encoded_separator path =
    (let lower = ascii_lower path in has_sub ''%2f'' lower \<or> has_sub ''%5c'' lower)"

text \<open>\<open>{base}/{segment}/{resource}\<close>, with the resource ending at a boundary.\<close>

definition nested_under :: "string \<Rightarrow> string list \<Rightarrow> string \<Rightarrow> bool" where
  "nested_under base resources stripped = (case strip_prefix base stripped of
     None \<Rightarrow> False
   | Some rest \<Rightarrow> (case after_segment rest of
       None \<Rightarrow> False
     | Some tail \<Rightarrow> list_ex (\<lambda>r. tail = r \<or> starts_with (r @ ''/'') tail) resources))"

definition body_cap_for :: "string \<Rightarrow> body_cap" where
  "body_cap_for stripped =
    (if stripped = ''/attachments'' \<or> starts_with ''/attachments/'' stripped then ChatCap
     else if nested_under ''/bookings/'' [''progress-reports''] stripped then LargeCap
     else if nested_under ''/profile/guard/'' [''documents'', ''avatar''] stripped then LargeCap
     else if nested_under ''/profile/customer/'' [''avatar''] stripped then LargeCap
     else if nested_under ''/payments/'' [''slip''] stripped then LargeCap
     else DefaultCap)"

definition is_guard_documents_path :: "string \<Rightarrow> bool" where
  "is_guard_documents_path stripped = nested_under ''/profile/guard/'' [''documents''] stripped"

definition forward_path_for :: "upstream \<Rightarrow> string \<Rightarrow> string" where
  "forward_path_for u stripped =
    (if u = UpOsrm
     then (case strip_prefix ''/osrm'' stripped of
         Some rest \<Rightarrow> if rest = [] then ''/'' else rest
       | None \<Rightarrow> stripped)
     else stripped)"

definition strip_v1 :: "string \<Rightarrow> string option" where
  "strip_v1 path =
    (if path = ''/v1'' then Some ''/''
     else if starts_with ''/v1/'' path then Some (drop 3 path) else None)"

text \<open>\<open>max_by_key\<close>: the last of the most specific rules that match.\<close>

definition best_rule :: "rule list \<Rightarrow> string \<Rightarrow> rule option" where
  "best_rule rs path = fold (\<lambda>r best. case best of
       None \<Rightarrow> Some r
     | Some b \<Rightarrow> if specificity b \<le> specificity r then Some r else Some b)
     (filter (\<lambda>r. rule_matches r path) rs) None"

definition resolve_by :: "rule list \<Rightarrow> string \<Rightarrow> route_decision" where
  "resolve_by rs path =
    (if has_encoded_separator path then RouteBlock
     else if is_internal path then RouteBlock
     else case strip_v1 path of
       None \<Rightarrow> RouteNotFound
     | Some stripped \<Rightarrow>
       if is_internal stripped then RouteBlock
       else case best_rule rs stripped of
         None \<Rightarrow> RouteNotFound
       | Some r \<Rightarrow> RouteProxy (ru_upstream r) (forward_path_for (ru_upstream r) stripped)
           (stripped \<in> set PUBLIC_PATHS \<or> is_guard_documents_path stripped) (ru_tier r)
           (body_cap_for stripped))"

definition resolve :: "string \<Rightarrow> route_decision" where
  "resolve path = resolve_by RULES path"

subsection \<open>What a decision guarantees\<close>

lemma strip_v1_drop: "strip_v1 path = Some s \<Longrightarrow> s = ''/'' \<or> s = drop 3 path"
  by (auto simp: strip_v1_def split: if_splits)

lemma forward_path_drop: "forward_path_for u s = ''/'' \<or> (\<exists>n. forward_path_for u s = drop n s)"
proof -
  have "\<exists>n. s = drop n s" by (rule exI [of _ 0]) simp
  moreover have "strip_prefix ''/osrm'' s = Some rest \<Longrightarrow> rest = drop 5 s" for rest
    by (auto simp: strip_prefix_Some)
  ultimately show ?thesis
    by (auto simp: forward_path_for_def split: option.splits)
qed

lemma not_internal_drop: "\<not> is_internal s \<Longrightarrow> \<not> is_internal (drop n s)"
proof -
  assume "\<not> is_internal s"
  then have e: "\<not> ends_with ''/internal'' s" and h: "\<not> has_sub ''/internal/'' s"
    by (simp_all add: is_internal_def)
  have "\<not> ends_with ''/internal'' (drop n s)" "\<not> has_sub ''/internal/'' (drop n s)"
    using e h ends_with_drop has_sub_drop by blast+
  moreover have "starts_with p t \<Longrightarrow> has_sub p t" for p t
    unfolding starts_with_iff has_sub_iff by (metis append_Nil)
  ultimately show ?thesis
    by (auto simp: is_internal_def ends_with_iff)
qed

lemma not_encoded_drop: "\<not> has_encoded_separator s \<Longrightarrow> \<not> has_encoded_separator (drop n s)"
proof -
  have l: "ascii_lower (drop n s) = drop n (ascii_lower s)" by (simp add: ascii_lower_def drop_map)
  assume "\<not> has_encoded_separator s"
  then show ?thesis
    unfolding has_encoded_separator_def Let_def l using has_sub_drop by blast
qed

lemma root_fine: "\<not> is_internal ''/''" "\<not> has_encoded_separator ''/''"
  by (simp_all add: is_internal_def has_encoded_separator_def ends_with_def starts_with_def has_sub_def
      ascii_lower_def lower_char_def Let_def)

lemma resolve_proxy:
  assumes "resolve_by rs path = RouteProxy u fp pub t c"
  shows "\<exists>s r. strip_v1 path = Some s \<and> best_rule rs s = Some r \<and> u = ru_upstream r \<and> t = ru_tier r
      \<and> fp = forward_path_for u s \<and> pub = (s \<in> set PUBLIC_PATHS \<or> is_guard_documents_path s)
      \<and> c = body_cap_for s \<and> \<not> is_internal s \<and> \<not> has_encoded_separator path"
  using assms by (auto simp: resolve_by_def split: if_splits option.splits)

lemma forwarded_path_clean:
  assumes "resolve_by rs path = RouteProxy u fp pub t c"
  shows "\<not> is_internal fp" "\<not> has_encoded_separator fp"
proof -
  obtain s where s: "strip_v1 path = Some s" "fp = forward_path_for u s" "\<not> is_internal s"
      "\<not> has_encoded_separator path"
    using resolve_proxy [OF assms] by blast
  then have "\<not> has_encoded_separator s"
    using strip_v1_drop [OF s(1)] not_encoded_drop root_fine(2) by auto
  then show "\<not> is_internal fp" "\<not> has_encoded_separator fp"
    using s forward_path_drop [of u s] not_internal_drop not_encoded_drop root_fine by auto
qed

subsection \<open>The order of the table does not matter\<close>

lemma best_of_fold:
  assumes "fold (\<lambda>r best. case best of None \<Rightarrow> Some r
     | Some b \<Rightarrow> if specificity b \<le> specificity r then Some r else Some b) rs (Some b0) = Some r"
  shows "(r = b0 \<or> r \<in> set rs) \<and> specificity b0 \<le> specificity r \<and> (\<forall>q\<in>set rs. specificity q \<le> specificity r)"
  using assms
proof (induction rs arbitrary: b0)
  case (Cons x rs)
  show ?case
  proof (cases "specificity b0 \<le> specificity x")
    case True
    then show ?thesis using Cons.IH [of x] Cons.prems by (auto intro: order_trans)
  next
    case False
    then show ?thesis using Cons.IH [of b0] Cons.prems by (auto intro: order_trans)
  qed
qed simp

lemma best_fold_Some: "fold (\<lambda>r best. case best of None \<Rightarrow> Some r
     | Some b \<Rightarrow> if specificity b \<le> specificity r then Some r else Some b) rs (Some b0) \<noteq> None"
  by (induction rs arbitrary: b0) auto

lemma best_rule_Some:
  assumes "best_rule rs path = Some r"
  shows "r \<in> set rs \<and> rule_matches r path
    \<and> (\<forall>q\<in>set rs. rule_matches q path \<longrightarrow> specificity q \<le> specificity r)"
proof (cases "filter (\<lambda>r. rule_matches r path) rs")
  case Nil
  then show ?thesis using assms by (simp add: best_rule_def)
next
  case (Cons b0 bs)
  have "set (b0 # bs) = {q \<in> set rs. rule_matches q path}" using arg_cong [OF Cons, of set] by simp
  moreover have "(r = b0 \<or> r \<in> set bs) \<and> specificity b0 \<le> specificity r
      \<and> (\<forall>q\<in>set bs. specificity q \<le> specificity r)"
    by (rule best_of_fold) (use assms Cons in \<open>simp add: best_rule_def\<close>)
  ultimately show ?thesis by (metis (mono_tags, lifting) list.set_intros mem_Collect_eq set_ConsD)
qed

lemma best_rule_None: "best_rule rs path = None \<longleftrightarrow> (\<forall>r\<in>set rs. \<not> rule_matches r path)"
proof (cases "filter (\<lambda>r. rule_matches r path) rs")
  case Nil
  then show ?thesis by (simp add: best_rule_def filter_empty_conv)
next
  case (Cons b0 bs)
  then have "b0 \<in> set rs" "rule_matches b0 path" by (metis (no_types, lifting) filter_eq_ConsD in_set_conv_decomp)+
  then show ?thesis using Cons best_fold_Some [of bs b0] by (auto simp: best_rule_def)
qed

text \<open>Two rules of the table that both match, equally specifically, are the same rule.\<close>

definition rule_key :: "rule \<Rightarrow> string \<times> string option" where
  "rule_key r = (ru_prefix r, ru_suffix r)"

lemma same_start: "starts_with p s \<Longrightarrow> starts_with q s \<Longrightarrow> length p = length q \<Longrightarrow> p = q"
  by (auto simp: starts_with_def)

lemma matching_keys:
  assumes "rule_matches r path" "rule_matches q path" "specificity r = specificity q"
    and "ru_suffix r \<noteq> Some []" "ru_suffix q \<noteq> Some []"
  shows "rule_key r = rule_key q"
proof -
  have p: "ru_prefix r = ru_prefix q"
    using assms(1-3) by (intro same_start [of _ path]) (auto simp: rule_matches_def specificity_def)
  have "ru_suffix r = ru_suffix q"
  proof (cases "ru_suffix r"; cases "ru_suffix q")
    fix a b assume ab: "ru_suffix r = Some a" "ru_suffix q = Some b"
    then obtain tail x y where t: "after_segment (drop (length (ru_prefix r)) path) = Some tail"
        "strip_prefix ''/'' a = Some x" "strip_prefix ''/'' b = Some y" "at_boundary x tail" "at_boundary y tail"
      using assms(1,2) p by (auto simp: rule_matches_def split: option.splits)
    have "length a = length b" using assms(3) ab by (simp add: specificity_def)
    moreover have "a = ''/'' @ x" "b = ''/'' @ y" using t(2,3) by (simp_all add: strip_prefix_Some)
    moreover have "starts_with x tail" "starts_with y tail"
      using t(4,5) by (auto simp: at_boundary_def strip_prefix_Some starts_with_iff split: option.splits)
    ultimately have "a = b" using same_start [of x tail y] by simp
    then show ?thesis using ab by simp
  qed (use assms in \<open>auto simp: specificity_def\<close>)
  then show ?thesis using p by (simp add: rule_key_def)
qed

lemmas rules_defs = RULES_def admin_rules_def admin_desk_rules_def service_rules_def nested_rules_def mk_rule_def

lemma table_keys: "distinct (map rule_key RULES)" "list_all (\<lambda>r. ru_suffix r \<noteq> Some []) RULES"
  by code_simp+

lemma best_rule_by_set:
  assumes "set rs = set RULES"
  shows "best_rule rs path = best_rule RULES path"
proof (cases "best_rule rs path")
  case None
  then show ?thesis using assms best_rule_None by (metis (no_types, lifting))
next
  case (Some r)
  then have "best_rule RULES path \<noteq> None"
    using best_rule_Some [OF Some] best_rule_None assms by blast
  then obtain q where q: "best_rule RULES path = Some q" by blast
  have "specificity r = specificity q" "rule_matches r path" "rule_matches q path" "r \<in> set RULES" "q \<in> set RULES"
    using best_rule_Some [OF Some] best_rule_Some [OF q] assms by (auto intro: order_antisym)
  then have "r = q"
    using matching_keys [of r path q] table_keys by (auto simp: distinct_map list_all_iff dest: inj_onD)
  then show ?thesis using Some q by simp
qed

text \<open>
  C32. The edge routes every request to one service, whatever the order of its routing table: any list
  of the same rules takes the same decision on every path. No decision forwards a path that is
  internal to the platform, anywhere below the prefix, or that hides a separator by percent-encoding
  it.
\<close>
theorem routing_unambiguous:
  assumes "set rs = set RULES"
  shows "resolve_by rs path = resolve path
    \<and> (case resolve path of
         RouteProxy u fp pub t c \<Rightarrow> \<not> is_internal fp \<and> \<not> has_encoded_separator fp
       | _ \<Rightarrow> True)"
proof
  show "resolve_by rs path = resolve path"
    unfolding resolve_def resolve_by_def best_rule_by_set [OF assms] ..
  show "case resolve path of
         RouteProxy u fp pub t c \<Rightarrow> \<not> is_internal fp \<and> \<not> has_encoded_separator fp | _ \<Rightarrow> True"
    using forwarded_path_clean [of RULES path] by (auto simp: resolve_def split: route_decision.split)
qed

lemma routing_unambiguous_witness:
  "resolve_by (rev RULES) ''/v1/guards/7/ratings'' = RouteProxy UpRating ''/guards/7/ratings'' False TierApi DefaultCap"
proof -
  have "resolve ''/v1/guards/7/ratings'' = RouteProxy UpRating ''/guards/7/ratings'' False TierApi DefaultCap"
    by code_simp
  then show ?thesis using routing_unambiguous [of "rev RULES" "''/v1/guards/7/ratings''"] by simp
qed

text \<open>
  A dot segment is text like any other here, so the tier is chosen by the unresolved path: the request
  below is metered as a verification although the URL library that forwards it resolves the segment.
\<close>

lemma dot_segment_keeps_tier:
  "resolve ''/v1/otp/verify/../request'' = RouteProxy UpOtp ''/otp/verify/../request'' False TierOtpVerify DefaultCap"
  by code_simp

end
