(* ===== verification/Gateway_Http.thy ===== *)
theory Gateway_Http
  imports Gateway_Routing Shared_Tokens "HOL-Library.Word"
begin

text \<open>
  What the edge does with a request: the headers it drops and adds
  (\<open>services/api-gateway/src/domain/headers.rs\<close>), the per-address rate limit (\<open>domain/ratelimit.rs\<close>,
  \<open>ratelimit.rs\<close>), the check of the caller (\<open>auth.rs\<close>), the forwarding (\<open>proxy.rs\<close>) and the handler that
  composes them (\<open>handler.rs\<close>). A header map is the list of its entries, names in lower case. The HTTP
  client, the tracing context and the answer of the identity service to a token check are supplied by
  the environment; every request sent to a service is kept in a log.
\<close>

subsection \<open>Header maps\<close>

type_synonym headers = "(string \<times> string) list"

definition visible :: "string \<Rightarrow> bool" where
  "visible v = list_all (\<lambda>c. (32 \<le> byte_of c \<and> byte_of c < 127) \<or> byte_of c = 9) v"

definition header_text :: "string \<Rightarrow> headers \<Rightarrow> string option" where
  "header_text n hs = obind (map_of hs n) (\<lambda>v. if visible v then Some v else None)"

definition has_header :: "string \<Rightarrow> headers \<Rightarrow> bool" where
  "has_header n hs = (n \<in> fst ` set hs)"

definition header_insert :: "string \<Rightarrow> string \<Rightarrow> headers \<Rightarrow> headers" where
  "header_insert n v hs = filter (\<lambda>(m, _). m \<noteq> n) hs @ [(n, v)]"

definition HOP_BY_HOP :: "string list" where
  "HOP_BY_HOP = [''connection'', ''keep-alive'', ''proxy-authenticate'', ''proxy-authorization'', ''te'',
     ''trailer'', ''transfer-encoding'', ''upgrade'', ''host'', ''content-length'']"

definition is_hop_by_hop :: "string \<Rightarrow> bool" where
  "is_hop_by_hop name = list_ex (\<lambda>h. ascii_lower name = ascii_lower h) HOP_BY_HOP"

definition is_spoofable_identity :: "string \<Rightarrow> bool" where
  "is_spoofable_identity name = (let lower = ascii_lower name in
     lower = ''x-user-id'' \<or> lower = ''x-user-role'' \<or> starts_with ''x-user-'' lower)"

definition quoted :: "string \<Rightarrow> string" where "quoted s = CHR 0x27 # s @ [CHR 0x27]"

definition security_headers :: headers where
  "security_headers =
    [(''x-frame-options'', ''DENY''), (''x-content-type-options'', ''nosniff''),
     (''referrer-policy'', ''strict-origin-when-cross-origin''), (''x-xss-protection'', ''0''),
     (''strict-transport-security'', ''max-age=31536000; includeSubDomains''),
     (''content-security-policy'', ''default-src '' @ quoted ''none'' @ ''; frame-ancestors '' @ quoted ''none''),
     (''permissions-policy'', ''camera=(), microphone=(), geolocation=()'')]"

subsection \<open>Rate limit\<close>

record limits =
  lm_otp_per_min :: "32 word"
  lm_otp_verify_per_min :: "32 word"
  lm_otp_challenge_per_min :: "32 word"
  lm_auth_per_sec :: "32 word"
  lm_api_per_sec :: "32 word"

definition default_limits :: limits where
  "default_limits = \<lparr>lm_otp_per_min = 10, lm_otp_verify_per_min = 30, lm_otp_challenge_per_min = 30,
     lm_auth_per_sec = 5, lm_api_per_sec = 30\<rparr>"

record rate_window =
  wn_seconds :: nat
  wn_max :: "32 word"

fun window_for :: "limits \<Rightarrow> tier \<Rightarrow> rate_window" where
  "window_for L TierOtp = \<lparr>wn_seconds = 60, wn_max = lm_otp_per_min L\<rparr>"
| "window_for L TierOtpVerify = \<lparr>wn_seconds = 60, wn_max = lm_otp_verify_per_min L\<rparr>"
| "window_for L TierOtpChallenge = \<lparr>wn_seconds = 60, wn_max = lm_otp_challenge_per_min L\<rparr>"
| "window_for L TierAuth = \<lparr>wn_seconds = 1, wn_max = lm_auth_per_sec L\<rparr>"
| "window_for L TierApi = \<lparr>wn_seconds = 1, wn_max = lm_api_per_sec L\<rparr>"

datatype rate_decision = RateAllow | RateDeny nat

definition rate_decide :: "32 word \<Rightarrow> rate_window \<Rightarrow> rate_decision" where
  "rate_decide count w = (if count \<le> wn_max w then RateAllow else RateDeny (wn_seconds w))"

definition client_ip :: "headers \<Rightarrow> string \<Rightarrow> string" where
  "client_ip hs peer =
    (case obind (header_text ''x-forwarded-for'' hs) (\<lambda>xff.
        let first = trim (hd (split_all (CHR '','') xff)) in if first = [] then None else Some first) of
       Some ip \<Rightarrow> ip | None \<Rightarrow> peer)"

fun tier_tag :: "tier \<Rightarrow> string" where
  "tier_tag TierAuth = ''auth''"
| "tier_tag TierOtp = ''otp''"
| "tier_tag TierOtpVerify = ''otpv''"
| "tier_tag TierOtpChallenge = ''otpc''"
| "tier_tag TierApi = ''api''"

text \<open>Seconds since the epoch, as an unsigned number: a clock before it reads 0.\<close>

definition unix_secs :: "instant \<Rightarrow> nat" where
  "unix_secs t = nat (timestamp t)"

definition window_id :: "limits \<Rightarrow> tier \<Rightarrow> instant \<Rightarrow> nat" where
  "window_id L t now = unix_secs now div max (wn_seconds (window_for L t)) 1"

definition rate_limit_key :: "limits \<Rightarrow> tier \<Rightarrow> instant \<Rightarrow> string \<Rightarrow> string" where
  "rate_limit_key L t now ip = ''ratelimit:'' @ tier_tag t @ '':'' @ show_nat (window_id L t now) @ '':'' @ ip"

definition rate_check :: "limits \<Rightarrow> tier \<Rightarrow> bool \<Rightarrow> instant \<Rightarrow> string \<Rightarrow> redis \<Rightarrow> rate_decision \<times> redis" where
  "rate_check L t up now ip r =
    (let w = window_for L t; k = rate_limit_key L t now ip in
     if \<not> up then (RateAllow, r)
     else case r_incr now k r of
       None \<Rightarrow> (RateAllow, r)
     | Some (count, r1) \<Rightarrow>
       (rate_decide (word_of_int (max count 0)) w,
        if count = 1 then r_expire now k (int (wn_seconds w)) r1 else r1))"

subsection \<open>Who is calling\<close>

definition GATEWAY_TOKEN_NAMESPACE :: string where "GATEWAY_TOKEN_NAMESPACE = ''pguard_''"

record verified_user =
  vu_id :: uuid
  vu_role :: string

definition is_api_token :: "string \<Rightarrow> bool" where
  "is_api_token token = starts_with GATEWAY_TOKEN_NAMESPACE token"

text \<open>
  The check of an administrator's token asks the identity service; \<open>None\<close> stands for no answer, a
  refusal, or an answer that does not read.
\<close>

definition validate_api_token :: "(string \<Rightarrow> (uuid \<times> string) option) \<Rightarrow> string \<Rightarrow> verified_user app_result" where
  "validate_api_token ask token = (case ask token of
     None \<Rightarrow> Inl (Unauthorized ''Invalid API token'')
   | Some (k, role) \<Rightarrow> Inr \<lparr>vu_id = k, vu_role = role\<rparr>)"

datatype token_source = FromBearer | FromCookie

definition header_bearer :: "headers \<Rightarrow> string option" where
  "header_bearer hs = obind (header_text ''authorization'' hs) (strip_prefix ''Bearer '')"

definition extract_token :: "headers \<Rightarrow> (string \<times> token_source) option" where
  "extract_token hs = (case header_bearer hs of
     Some tok \<Rightarrow> Some (tok, FromBearer)
   | None \<Rightarrow> obind (header_text ''cookie'' hs) (\<lambda>cookies.
       map_option (\<lambda>t. (t, FromCookie)) (extract_cookie_value cookies ACCESS_TOKEN_COOKIE)))"

definition edge_check :: "jwt_lib \<Rightarrow> bool \<Rightarrow> instant \<Rightarrow> redis \<Rightarrow> string \<Rightarrow> verified_user app_result" where
  "edge_check J up now r token = res_bind (decode_jwt_with_key J now token) (\<lambda>claims.
     if \<not> up then Inl redis_unreachable
     else if r_exists now r (revoked_jti_key (jc_jti claims)) then Inl (Unauthorized ''Token has been revoked'')
     else case r_get now r (user_trv_key (jc_sub claims)) of
       Some (RText _) \<Rightarrow> Inl redis_unreachable
     | v \<Rightarrow> (let current = (case v of Some (RNum n) \<Rightarrow> n | _ \<Rightarrow> 0) in
         if jc_trv claims < current then Inl (Unauthorized ''Token has been revoked'')
         else Inr \<lparr>vu_id = jc_sub claims, vu_role = jc_role claims\<rparr>))"

definition edge_validate :: "jwt_lib \<Rightarrow> bool \<Rightarrow> instant \<Rightarrow> redis \<Rightarrow> headers \<Rightarrow> http_method \<Rightarrow> verified_user app_result" where
  "edge_validate J up now r hs meth = (case extract_token hs of
     None \<Rightarrow> Inl (Unauthorized ''Missing authentication token'')
   | Some (token, source) \<Rightarrow>
     if source = FromCookie \<and> is_state_changing meth \<and> \<not> has_header ''x-requested-with'' hs
     then Inl (Forbidden ''Missing X-Requested-With header'')
     else edge_check J up now r token)"

definition bearer_api_token :: "headers \<Rightarrow> string option" where
  "bearer_api_token hs = obind (header_bearer hs) (\<lambda>t. if is_api_token t then Some t else None)"

subsection \<open>Forwarding\<close>

record wire_request =
  wq_method :: http_method
  wq_url :: string
  wq_headers :: headers
  wq_body :: string

datatype wire_reply = WireFailed | WireReply nat headers "string option"

datatype proxy_error = BodyTooLarge | UpstreamFailed

fun proxy_status :: "proxy_error \<Rightarrow> nat" where
  "proxy_status BodyTooLarge = 413"
| "proxy_status UpstreamFailed = 502"

fun proxy_message :: "proxy_error \<Rightarrow> string" where
  "proxy_message BodyTooLarge = ''Request body too large''"
| "proxy_message UpstreamFailed = ''Upstream service unavailable''"

definition MAX_BODY_BYTES :: nat where "MAX_BODY_BYTES = 1024 * 1024"

definition passes_through :: "string \<Rightarrow> bool" where
  "passes_through n = (\<not> (ascii_lower n = ''traceparent'' \<or> ascii_lower n = ''tracestate'')
     \<and> \<not> (is_hop_by_hop n \<or> is_spoofable_identity n))"

definition identity_headers :: "verified_user \<Rightarrow> headers \<Rightarrow> headers" where
  "identity_headers u hs =
    (let hs1 = header_insert ''x-user-id'' (uuid_text (vu_id u)) hs
     in if visible (vu_role u) then header_insert ''x-user-role'' (vu_role u) hs1 else hs1)"

definition build_forward_headers :: "headers \<Rightarrow> verified_user option \<Rightarrow> headers" where
  "build_forward_headers inbound user =
    (let out = filter (\<lambda>(n, _). passes_through n) inbound
     in case user of None \<Rightarrow> out | Some u \<Rightarrow> identity_headers u out)"

text \<open>The tracing context of the current span, when there is one: its two headers.\<close>

definition inject_context :: "(string \<times> string) option \<Rightarrow> headers \<Rightarrow> headers" where
  "inject_context trace hs = (case trace of
     None \<Rightarrow> hs
   | Some (parent, st) \<Rightarrow> header_insert ''tracestate'' st (header_insert ''traceparent'' parent hs))"

record gw_request =
  gq_method :: http_method
  gq_path :: string
  gq_query :: "string option"
  gq_headers :: headers
  gq_body :: "string option"
  gq_peer :: string

datatype gw_body = BodyMessage string | BodyBytes string

record gw_response =
  gp_status :: nat
  gp_headers :: headers
  gp_body :: gw_body

definition gw_err :: "nat \<Rightarrow> string \<Rightarrow> gw_response" where
  "gw_err status message = \<lparr>gp_status = status, gp_headers = [], gp_body = BodyMessage message\<rparr>"

definition auth_err :: "app_error \<Rightarrow> gw_response" where
  "auth_err e = (let status = er_status (into_response e) in
     gw_err status (if status = 401 then ''Unauthorized'' else if status = 403 then ''Forbidden''
       else ''Request rejected''))"

definition read_body :: "nat \<Rightarrow> gw_request \<Rightarrow> string option" where
  "read_body cap req = obind (gq_body req) (\<lambda>b. if length b \<le> cap then Some b else None)"

definition forward_url :: "string \<Rightarrow> string \<Rightarrow> string option \<Rightarrow> string" where
  "forward_url base path query = (case query of
     Some q \<Rightarrow> if q \<noteq> [] then base @ path @ ''?'' @ q else base @ path
   | None \<Rightarrow> base @ path)"

definition translate_response :: "wire_reply \<Rightarrow> proxy_error + gw_response" where
  "translate_response r = (case r of
     WireReply status hs (Some body) \<Rightarrow>
       Inr \<lparr>gp_status = status, gp_headers = filter (\<lambda>(n, _). \<not> is_hop_by_hop n) hs, gp_body = BodyBytes body\<rparr>
   | _ \<Rightarrow> Inl UpstreamFailed)"

record gw_env =
  ge_up :: bool
  ge_now :: instant
  ge_trace :: "(string \<times> string) option"
  ge_identity :: "string \<Rightarrow> (uuid \<times> string) option"
  ge_http :: "wire_request \<Rightarrow> wire_reply"

record gw_config =
  gc_limits :: limits
  gc_url :: "upstream \<Rightarrow> string option"
  gc_mirror :: string

record gw_state =
  gs_redis :: redis
  gs_sent :: "wire_request list"

definition send_buffered :: "gw_env \<Rightarrow> wire_request \<Rightarrow> gw_state \<Rightarrow> gw_state \<times> (proxy_error + gw_response)" where
  "send_buffered env w s = (s\<lparr>gs_sent := gs_sent s @ [w]\<rparr>, translate_response (ge_http env w))"

definition wire_for :: "gw_env \<Rightarrow> string \<Rightarrow> string \<Rightarrow> gw_request \<Rightarrow> verified_user option \<Rightarrow> string \<Rightarrow> wire_request" where
  "wire_for env base path req user body =
    \<lparr>wq_method = gq_method req, wq_url = forward_url base path (gq_query req),
     wq_headers = inject_context (ge_trace env) (build_forward_headers (gq_headers req) user),
     wq_body = body\<rparr>"

definition forward :: "gw_env \<Rightarrow> string \<Rightarrow> string \<Rightarrow> gw_request \<Rightarrow> verified_user option \<Rightarrow> nat \<Rightarrow> gw_state
    \<Rightarrow> gw_state \<times> (proxy_error + gw_response)" where
  "forward env base path req user cap s = (case read_body cap req of
     None \<Rightarrow> (s, Inl BodyTooLarge)
   | Some body \<Rightarrow> send_buffered env (wire_for env base path req user body) s)"

definition forward_osrm :: "gw_env \<Rightarrow> string \<Rightarrow> string \<Rightarrow> string \<Rightarrow> gw_request \<Rightarrow> verified_user option \<Rightarrow> gw_state
    \<Rightarrow> gw_state \<times> (proxy_error + gw_response)" where
  "forward_osrm env primary mirror path req user s = (case read_body MAX_BODY_BYTES req of
     None \<Rightarrow> (s, Inl BodyTooLarge)
   | Some body \<Rightarrow>
     (let (s1, r) = send_buffered env (wire_for env primary path req user body) s in
      case r of
        Inr resp \<Rightarrow>
          if \<not> (500 \<le> gp_status resp \<and> gp_status resp < 600) then (s1, r)
          else send_buffered env (wire_for env mirror path req user body) s1
      | Inl _ \<Rightarrow> send_buffered env (wire_for env mirror path req user body) s1))"

subsection \<open>The handler\<close>

definition edge_user :: "jwt_lib \<Rightarrow> gw_config \<Rightarrow> gw_env \<Rightarrow> bool \<Rightarrow> gw_request \<Rightarrow> redis
    \<Rightarrow> gw_response + verified_user option" where
  "edge_user J cfg env pub req r =
    (if pub then Inr None
     else case bearer_api_token (gq_headers req) of
       Some tok \<Rightarrow>
         if gc_url cfg UpIdentity = None then Inl (gw_err 502 ''Upstream service unavailable'')
         else (case validate_api_token (ge_identity env) tok of
             Inr u \<Rightarrow> Inr (Some u) | Inl e \<Rightarrow> Inl (auth_err e))
     | None \<Rightarrow>
         (case edge_validate J (ge_up env) (ge_now env) r (gq_headers req) (gq_method req) of
            Inr u \<Rightarrow> Inr (Some u) | Inl e \<Rightarrow> Inl (auth_err e)))"

definition rate_limited :: "nat \<Rightarrow> gw_response" where
  "rate_limited secs = (gw_err 429 ''Rate limit exceeded'')
     \<lparr>gp_headers := header_insert ''retry-after'' (show_nat secs) []\<rparr>"

definition gateway :: "jwt_lib \<Rightarrow> gw_config \<Rightarrow> gw_env \<Rightarrow> gw_request \<Rightarrow> gw_state \<Rightarrow> gw_state \<times> gw_response" where
  "gateway J cfg env req s = (case resolve (gq_path req) of
     RouteProxy u path pub t cap \<Rightarrow>
       (let (decision, r) = rate_check (gc_limits cfg) t (ge_up env) (ge_now env)
              (client_ip (gq_headers req) (gq_peer req)) (gs_redis s);
            s1 = s\<lparr>gs_redis := r\<rparr>
        in case decision of
             RateDeny secs \<Rightarrow> (s1, rate_limited secs)
           | RateAllow \<Rightarrow>
             (case edge_user J cfg env pub req r of
                Inl resp \<Rightarrow> (s1, resp)
              | Inr user \<Rightarrow>
                (case gc_url cfg u of
                   None \<Rightarrow> (s1, gw_err 502 ''Upstream service unavailable'')
                 | Some base \<Rightarrow>
                   (let (s2, out) = (if u = UpOsrm then forward_osrm env base (gc_mirror cfg) path req user s1
                          else forward env base path req user (cap_bytes cap) s1)
                    in case out of
                         Inr resp \<Rightarrow> (s2, resp)
                       | Inl pe \<Rightarrow> (s2, gw_err (proxy_status pe) (proxy_message pe))))))
   | _ \<Rightarrow> (s, gw_err 404 ''Not found''))"

definition security_headers_mw :: "gw_response \<Rightarrow> gw_response" where
  "security_headers_mw resp = resp\<lparr>gp_headers :=
     fold (\<lambda>(n, v). header_insert n v) security_headers (gp_headers resp)\<rparr>"

definition serve :: "jwt_lib \<Rightarrow> gw_config \<Rightarrow> gw_env \<Rightarrow> gw_request \<Rightarrow> gw_state \<Rightarrow> gw_state \<times> gw_response" where
  "serve J cfg env req s = (let (s', resp) = gateway J cfg env req s in (s', security_headers_mw resp))"

end
