(* ===== verification/Gateway_Properties.thy ===== *)
theory Gateway_Properties
  imports Gateway_Http Text_Ops Shared_Tokens
begin

text \<open>
  The per-address limit, counted over a whole run of checks: the counter of a window is one key of the
  cache, no other address, tier or window shares it, and it outlives its window.
\<close>

text \<open>
  What the edge guarantees: who a forwarded request speaks for, that the services would admit the same
  caller, what leaves the platform, and how many requests of one address pass in a window.
\<close>

lemma tier_tag_inj [simp]: "tier_tag t = tier_tag t' \<longleftrightarrow> t = t'"
  by (cases t; cases t') simp_all

lemma tier_tag_no_colon: "CHR '':'' \<notin> set (tier_tag t)"
  by (cases t) simp_all

text \<open>A counter belongs to one tier, one window and one address.\<close>

lemma rate_limit_key_inj:
  assumes "rate_limit_key L t now ip = rate_limit_key L t' now' ip'"
  shows "t = t' \<and> window_id L t now = window_id L t' now' \<and> ip = ip'"
proof -
  have "tier_tag t @ CHR '':'' # (show_nat (window_id L t now) @ CHR '':'' # ip)
      = tier_tag t' @ CHR '':'' # (show_nat (window_id L t' now') @ CHR '':'' # ip')"
    using assms by (simp add: rate_limit_key_def)
  then have outer: "tier_tag t = tier_tag t' \<and> show_nat (window_id L t now) @ CHR '':'' # ip
      = show_nat (window_id L t' now') @ CHR '':'' # ip'"
    by (rule split_at_inj) (rule tier_tag_no_colon)+
  have "show_nat (window_id L t now) = show_nat (window_id L t' now') \<and> ip = ip'"
    using outer [THEN conjunct2] by (rule split_at_inj) (rule show_nat_no_colon)+
  then show ?thesis using outer by simp
qed

lemma window_seconds_pos [simp]: "0 < wn_seconds (window_for L t)"
  by (cases t) simp_all

text \<open>The time to live set by the first request of a window reaches past the end of the window.\<close>

lemma window_key_lives:
  assumes "window_id L t now = window_id L t first" "0 \<le> now" "0 \<le> first"
  shows "now < first + seconds (int (wn_seconds (window_for L t)))"
proof -
  define s where "s = int (wn_seconds (window_for L t))"
  have s: "0 < s" by (simp add: s_def)
  have id: "window_id L t x = nat ((x div nanos_per_sec) div s)" if "0 \<le> x" for x
  proof -
    have m: "max (wn_seconds (window_for L t)) 1 = wn_seconds (window_for L t)"
      by (cases t) simp_all
    show ?thesis
      using that unfolding window_id_def m
      by (simp add: unix_secs_def timestamp_def s_def nat_div_distrib pos_imp_zdiv_nonneg_iff nanos_per_sec_def)
  qed
  have nn: "0 \<le> (x div nanos_per_sec) div s" if "0 \<le> x" for x
    using that s by (simp add: pos_imp_zdiv_nonneg_iff nanos_per_sec_def)
  have same: "(now div nanos_per_sec) div s = (first div nanos_per_sec) div s"
    using assms id nn by (metis eq_nat_nat_iff)
  have "now div nanos_per_sec < s * (now div nanos_per_sec div s) + s"
    using pos_mod_bound [OF s, of "now div nanos_per_sec"] mult_div_mod_eq [of s "now div nanos_per_sec"] by linarith
  moreover have "s * (first div nanos_per_sec div s) \<le> first div nanos_per_sec"
    using pos_mod_sign [OF s, of "first div nanos_per_sec"] mult_div_mod_eq [of s "first div nanos_per_sec"] by linarith
  ultimately have "now div nanos_per_sec < first div nanos_per_sec + s" unfolding same by linarith
  then have "now div nanos_per_sec + 1 \<le> first div nanos_per_sec + s" by simp
  moreover have "now < (now div nanos_per_sec + 1) * nanos_per_sec" "first div nanos_per_sec * nanos_per_sec \<le> first"
    by (simp_all add: nanos_per_sec_def)
  moreover have "(now div nanos_per_sec + 1) * nanos_per_sec \<le> (first div nanos_per_sec + s) * nanos_per_sec"
    using calculation(1) by (rule mult_right_mono) (simp add: nanos_per_sec_def)
  ultimately show ?thesis by (simp add: seconds_def s_def distrib_right)
qed

text \<open>How many of a run of checks pass under one key.\<close>

fun allowed_under :: "limits \<Rightarrow> string \<Rightarrow> (tier \<times> instant \<times> string) list \<Rightarrow> redis \<Rightarrow> nat" where
  "allowed_under L k [] r = 0"
| "allowed_under L k ((t, now, ip) # calls) r =
    (let (d, r') = rate_check L t True now ip r
     in (if rate_limit_key L t now ip = k \<and> d = RateAllow then 1 else 0) + allowed_under L k calls r')"

lemma rate_check_other: "rate_limit_key L t now ip \<noteq> k \<Longrightarrow> snd (rate_check L t up now ip r) k = r k"
  by (cases "r_incr now (rate_limit_key L t now ip) r")
    (auto simp: rate_check_def Let_def r_incr_def, (metis r_add_other)+)

definition counted :: "limits \<Rightarrow> tier \<Rightarrow> string \<Rightarrow> nat \<Rightarrow> redis \<Rightarrow> bool" where
  "counted L t k n r = (if n = 0 then r k = None
     else \<exists>first ip. 0 \<le> first \<and> rate_limit_key L t first ip = k
       \<and> r k = Some (RNum (int n), Some (first + seconds (int (wn_seconds (window_for L t))))))"

lemma rate_check_counts:
  assumes "counted L t k n r" "rate_limit_key L t now ip = k" "0 \<le> now" "Suc n < 2 ^ 32"
  shows "counted L t k (Suc n) (snd (rate_check L t True now ip r))
    \<and> (fst (rate_check L t True now ip r) = RateAllow \<longleftrightarrow> Suc n \<le> unat (wn_max (window_for L t)))"
proof -
  have w: "word_of_int (max (int (Suc n)) 0) \<le> wn_max (window_for L t) \<longleftrightarrow> Suc n \<le> unat (wn_max (window_for L t))"
    using assms(4) by (simp add: word_le_nat_alt unat_of_nat del: of_nat_Suc)
  show ?thesis
  proof (cases "n = 0")
    case True
    then have "r_live now r k = None" using assms(1) by (simp add: counted_def r_live_def)
    then show ?thesis
      using assms(2,3) w True
      by (auto simp: rate_check_def Let_def r_incr_def r_add_def rate_decide_def counted_def r_expire_def r_live_def
        intro!: exI [of _ now])
  next
    case False
    then obtain first ip0 where f: "0 \<le> first" "rate_limit_key L t first ip0 = k"
        "r k = Some (RNum (int n), Some (first + seconds (int (wn_seconds (window_for L t)))))"
      using assms(1) by (auto simp: counted_def)
    have "window_id L t now = window_id L t first"
      using rate_limit_key_inj [of L t now ip t first ip0] assms(2) f(2) by simp
    then have "r_live now r k = r k"
      using window_key_lives [of L t now first] assms(3) f by (simp add: r_live_def)
    then show ?thesis
      using False assms(2) f w
      by (auto simp: rate_check_def Let_def r_incr_def r_add_def rate_decide_def counted_def add.commute)
  qed
qed

lemma allowed_counted:
  assumes "counted L t k n r" "n + length calls < 2 ^ 32" "list_all (\<lambda>(_, now, _). 0 \<le> now) calls"
    "rate_limit_key L t now0 ip0 = k"
  shows "allowed_under L k calls r \<le> unat (wn_max (window_for L t)) - n"
  using assms
proof (induction calls arbitrary: n r)
  case (Cons c calls)
  obtain t' now ip where c: "c = (t', now, ip)" by (cases c)
  obtain d r' where d: "rate_check L t' True now ip r = (d, r')" by (meson surj_pair)
  show ?case
  proof (cases "rate_limit_key L t' now ip = k")
    case True
    then have t: "t' = t" using rate_limit_key_inj [of L t' now ip t now0 ip0] Cons.prems(4) by simp
    have "counted L t k (Suc n) r' \<and> (d = RateAllow \<longleftrightarrow> Suc n \<le> unat (wn_max (window_for L t)))"
      using rate_check_counts [of L t k n r now ip] True Cons.prems d by (simp add: t c)
    moreover from this have "allowed_under L k calls r' \<le> unat (wn_max (window_for L t)) - Suc n"
      using Cons.prems c by (intro Cons.IH) simp_all
    ultimately show ?thesis using d True by (auto simp: c)
  next
    case False
    then have "r' k = r k" using rate_check_other [of L t' now ip k True r] d by simp
    then have "counted L t k n r'" using Cons.prems(1) unfolding counted_def by (simp only:)
    then have "allowed_under L k calls r' \<le> unat (wn_max (window_for L t)) - n"
      using Cons.prems c by (intro Cons.IH) simp_all
    then show ?thesis using d False by (simp add: c)
  qed
qed simp

text \<open>
  C31. The edge lets no address through more often than its window allows. Over any run of fewer than
  \<open>2 ^ 32\<close> checks, of any tiers and addresses and in any order, with the cache up and no counter yet for
  the window of one of them, at most the window's maximum passes under that counter.
\<close>
theorem rate_limit_holds:
  assumes "r (rate_limit_key L t now ip) = None"
    and "length calls < 2 ^ 32"
    and "list_all (\<lambda>(_, stamp, _). 0 \<le> stamp) calls"
  shows "allowed_under L (rate_limit_key L t now ip) calls r \<le> unat (wn_max (window_for L t))"
proof -
  have "counted L t (rate_limit_key L t now ip) 0 r" using assms(1) by (simp add: counted_def)
  from allowed_counted [OF this _ assms(3) refl] assms(2) show ?thesis by simp
qed

text \<open>Seven checks of one address in one second: five pass.\<close>

theorem rate_limit_holds_witness:
  "allowed_under default_limits (rate_limit_key default_limits TierAuth 0 ''h'')
      (replicate 7 (TierAuth, 0, ''h'')) (\<lambda>_. None) \<le> unat (wn_max (window_for default_limits TierAuth))"
  by (rule rate_limit_holds) (simp_all add: list_all_iff)

subsection \<open>Headers of a forwarded request\<close>

lemma map_of_insert: "map_of (header_insert n v hs) m = (if m = n then Some v else map_of hs m)"
  by (induction hs) (auto simp: header_insert_def)

lemma map_of_filter_names: "P n \<Longrightarrow> map_of (filter (\<lambda>(n, _). P n) hs) n = map_of hs n"
  by (induction hs) auto

lemma filter_insert: "filter (\<lambda>(n, _). P n) (header_insert n v hs) =
    header_insert n v (filter (\<lambda>(n, _). P n) hs)" if "P n"
  using that by (induction hs) (auto simp: header_insert_def)

lemma filter_insert_other: "\<not> P n \<Longrightarrow> filter (\<lambda>(n, _). P n) (header_insert n v hs) = filter (\<lambda>(n, _). P n) hs"
  by (induction hs) (auto simp: header_insert_def)

lemma spoofable_names [simp]:
  "is_spoofable_identity ''x-user-id''" "is_spoofable_identity ''x-user-role''"
  "\<not> is_spoofable_identity ''traceparent''" "\<not> is_spoofable_identity ''tracestate''"
  by (simp_all add: is_spoofable_identity_def starts_with_def ascii_lower_def lower_char_def byte_of_def Let_def)

lemma credential_headers_pass [simp]:
  "passes_through ''authorization''" "passes_through ''cookie''" "passes_through ''x-requested-with''"
  by (simp_all add: passes_through_def is_spoofable_identity_def is_hop_by_hop_def HOP_BY_HOP_def
      starts_with_def ascii_lower_def lower_char_def byte_of_def Let_def)

definition stated_identity :: "verified_user option \<Rightarrow> headers" where
  "stated_identity user = (case user of
     None \<Rightarrow> []
   | Some v \<Rightarrow> (''x-user-id'', uuid_text (vu_id v)) #
       (if visible (vu_role v) then [(''x-user-role'', vu_role v)] else []))"

lemma forwarded_identity:
  "filter (\<lambda>(n, _). is_spoofable_identity n) (inject_context tr (build_forward_headers hs user)) = stated_identity user"
proof -
  define out where "out = filter (\<lambda>(n, _). passes_through n) hs"
  have none: "filter (\<lambda>(n, _). is_spoofable_identity n) out = []"
    by (auto simp: out_def filter_empty_conv passes_through_def)
  have "filter (\<lambda>(n, _). is_spoofable_identity n) (build_forward_headers hs user) = stated_identity user"
    unfolding build_forward_headers_def out_def [symmetric]
    using none by (cases user) (simp_all add: stated_identity_def identity_headers_def Let_def filter_insert header_insert_def [of _ _ "[]"]
        header_insert_def [of _ _ "[_]"])
  then show ?thesis
    by (auto simp: inject_context_def filter_insert_other split: option.split)
qed

lemma forwarded_lookup:
  assumes "passes_through n" "n \<notin> {''x-user-id'', ''x-user-role'', ''traceparent'', ''tracestate''}"
  shows "map_of (inject_context tr (build_forward_headers hs user)) n = map_of hs n"
  using assms
  by (auto simp: inject_context_def build_forward_headers_def identity_headers_def Let_def map_of_insert
      map_of_filter_names split: option.split)

lemma forwarded_credentials [simp]:
  "header_text ''authorization'' (inject_context tr (build_forward_headers hs user)) = header_text ''authorization'' hs"
  "header_text ''cookie'' (inject_context tr (build_forward_headers hs user)) = header_text ''cookie'' hs"
  "has_header ''x-requested-with'' (inject_context tr (build_forward_headers hs user)) = has_header ''x-requested-with'' hs"
proof -
  have h: "has_header n hs = (map_of hs n \<noteq> None)" for n hs
    by (simp add: has_header_def map_of_eq_None_iff)
  show "header_text ''authorization'' (inject_context tr (build_forward_headers hs user)) = header_text ''authorization'' hs"
    "header_text ''cookie'' (inject_context tr (build_forward_headers hs user)) = header_text ''cookie'' hs"
    "has_header ''x-requested-with'' (inject_context tr (build_forward_headers hs user)) = has_header ''x-requested-with'' hs"
    unfolding header_text_def h by (subst forwarded_lookup; simp)+
qed

subsection \<open>What the handler sends\<close>

definition wire_ok :: "jwt_lib \<Rightarrow> gw_config \<Rightarrow> gw_env \<Rightarrow> gw_request \<Rightarrow> redis \<Rightarrow> wire_request \<Rightarrow> bool" where
  "wire_ok J cfg env req r w = (\<exists>u path pub t cap user body base.
     resolve (gq_path req) = RouteProxy u path pub t cap
     \<and> edge_user J cfg env pub req r = Inr user
     \<and> (gc_url cfg u = Some base \<or> u = UpOsrm \<and> base = gc_mirror cfg)
     \<and> w = wire_for env base path req user body)"

lemma wire_okE:
  assumes "wire_ok J cfg env req r w" "resolve (gq_path req) = RouteProxy u path pub t cap"
  obtains user body base where "edge_user J cfg env pub req r = Inr user" "w = wire_for env base path req user body"
    "gc_url cfg u = Some base \<or> u = UpOsrm \<and> base = gc_mirror cfg"
proof -
  obtain u' path' pub' t' cap' user body base where "u = u' \<and> path = path' \<and> pub = pub' \<and> t = t' \<and> cap = cap'"
      "edge_user J cfg env pub' req r = Inr user" "gc_url cfg u' = Some base \<or> u' = UpOsrm \<and> base = gc_mirror cfg"
      "w = wire_for env base path' req user body"
    using assms(1) unfolding wire_ok_def assms(2) route_decision.inject by metis
  then show thesis by (intro that [of user base body]) simp_all
qed

lemma forward_sends:
  "\<exists>ws. gs_sent (fst (forward env base path req user cap s)) = gs_sent s @ ws
    \<and> (\<forall>w\<in>set ws. \<exists>body. w = wire_for env base path req user body)
    \<and> gs_redis (fst (forward env base path req user cap s)) = gs_redis s"
  by (cases "read_body cap req") (auto simp: forward_def send_buffered_def)

lemma forward_osrm_sends:
  "\<exists>ws. gs_sent (fst (forward_osrm env primary mirror path req user s)) = gs_sent s @ ws
    \<and> (\<forall>w\<in>set ws. \<exists>base body. (base = primary \<or> base = mirror) \<and> w = wire_for env base path req user body)
    \<and> gs_redis (fst (forward_osrm env primary mirror path req user s)) = gs_redis s"
proof (cases "read_body MAX_BODY_BYTES req")
  case (Some body)
  let ?p = "wire_for env primary path req user body" and ?m = "wire_for env mirror path req user body"
  have "gs_sent (fst (forward_osrm env primary mirror path req user s)) \<in> {gs_sent s @ [?p], gs_sent s @ [?p, ?m]}
      \<and> gs_redis (fst (forward_osrm env primary mirror path req user s)) = gs_redis s"
    by (simp add: forward_osrm_def Some send_buffered_def split: sum.split)
  then obtain ws where ws: "gs_sent (fst (forward_osrm env primary mirror path req user s)) = gs_sent s @ ws"
      "ws = [?p] \<or> ws = [?p, ?m]" "gs_redis (fst (forward_osrm env primary mirror path req user s)) = gs_redis s"
    by blast
  have "\<exists>base body. (base = primary \<or> base = mirror) \<and> w = wire_for env base path req user body"
    if "w \<in> set ws" for w using ws(2) that by (metis empty_iff empty_set set_ConsD)
  then show ?thesis using ws by blast
qed (simp add: forward_osrm_def)

text \<open>The two ways out of the handler, together.\<close>

definition send_to :: "gw_config \<Rightarrow> gw_env \<Rightarrow> upstream \<Rightarrow> string \<Rightarrow> string \<Rightarrow> gw_request \<Rightarrow> verified_user option
    \<Rightarrow> nat \<Rightarrow> gw_state \<Rightarrow> gw_state \<times> (proxy_error + gw_response)" where
  "send_to cfg env u base path req user cap s =
    (if u = UpOsrm then forward_osrm env base (gc_mirror cfg) path req user s
     else forward env base path req user cap s)"

lemma send_to_sends:
  "\<exists>ws. gs_sent (fst (send_to cfg env u base path req user cap s)) = gs_sent s @ ws
    \<and> (\<forall>w\<in>set ws. \<exists>b body. (b = base \<or> u = UpOsrm \<and> b = gc_mirror cfg) \<and> w = wire_for env b path req user body)
    \<and> gs_redis (fst (send_to cfg env u base path req user cap s)) = gs_redis s"
proof (cases "u = UpOsrm")
  case True
  show ?thesis using forward_osrm_sends [of env base "gc_mirror cfg" path req user s] by (simp add: send_to_def True)
next
  case False
  show ?thesis using forward_sends [of env base path req user cap s] by (simp add: send_to_def False)
qed

lemma gateway_proxied:
  assumes "resolve (gq_path req) = RouteProxy u path pub t cap"
    and "rate_check (gc_limits cfg) t (ge_up env) (ge_now env)
      (client_ip (gq_headers req) (gq_peer req)) (gs_redis s) = (decision, r)"
  shows "fst (gateway J cfg env req s) = (case (decision, edge_user J cfg env pub req r, gc_url cfg u) of
      (RateAllow, Inr user, Some base) \<Rightarrow> fst (send_to cfg env u base path req user (cap_bytes cap) (s\<lparr>gs_redis := r\<rparr>))
    | _ \<Rightarrow> s\<lparr>gs_redis := r\<rparr>)"
proof -
  have "fst (case x of (s2, Inl pe) \<Rightarrow> (s2, f pe) | (s2, Inr resp) \<Rightarrow> (s2, resp)) = fst x"
    for x :: "gw_state \<times> (proxy_error + gw_response)" and f
    by (simp split: prod.split sum.split)
  then show ?thesis
    by (simp add: gateway_def assms send_to_def Let_def case_prod_beta
      split: rate_decision.split sum.split option.split)
qed

lemma gateway_sends:
  "\<exists>ws. gs_sent (fst (gateway J cfg env req s)) = gs_sent s @ ws
    \<and> list_all (wire_ok J cfg env req (gs_redis (fst (gateway J cfg env req s)))) ws"
proof (cases "resolve (gq_path req)")
  case (RouteProxy u path pub t cap)
  obtain decision r where d: "rate_check (gc_limits cfg) t (ge_up env) (ge_now env)
      (client_ip (gq_headers req) (gq_peer req)) (gs_redis s) = (decision, r)" by (meson surj_pair)
  note step = gateway_proxied [OF RouteProxy d, of J]
  let ?s1 = "s\<lparr>gs_redis := r\<rparr>"
  show ?thesis
  proof (cases "\<exists>user base. decision = RateAllow \<and> edge_user J cfg env pub req r = Inr user \<and> gc_url cfg u = Some base")
    case False
    then have "fst (gateway J cfg env req s) = ?s1"
      unfolding step by (cases decision; cases "edge_user J cfg env pub req r"; cases "gc_url cfg u") simp_all
    then show ?thesis by simp
  next
    case True
    then obtain user base where a: "decision = RateAllow" "edge_user J cfg env pub req r = Inr user" "gc_url cfg u = Some base"
      by blast
    then have fin: "fst (gateway J cfg env req s) = fst (send_to cfg env u base path req user (cap_bytes cap) ?s1)"
      unfolding step by simp
    obtain ws where ws: "gs_sent (fst (gateway J cfg env req s)) = gs_sent s @ ws"
        "\<forall>w\<in>set ws. \<exists>b body. (b = base \<or> u = UpOsrm \<and> b = gc_mirror cfg) \<and> w = wire_for env b path req user body"
        "gs_redis (fst (gateway J cfg env req s)) = r"
      unfolding fin using send_to_sends [of cfg env u base path req user "cap_bytes cap" ?s1] by auto
    have "wire_ok J cfg env req r w" if w: "w \<in> set ws" for w
    proof -
      obtain b body where b: "b = base \<or> u = UpOsrm \<and> b = gc_mirror cfg" "w = wire_for env b path req user body"
        using ws(2) w by blast
      show ?thesis unfolding wire_ok_def using RouteProxy a b by blast
    qed
    then show ?thesis using ws by (simp add: list_all_iff)
  qed
qed (simp_all add: gateway_def)

lemma sends_all:
  assumes "\<And>w. wire_ok J cfg env req (gs_redis (fst (gateway J cfg env req s))) w \<Longrightarrow> Q w"
  shows "\<exists>ws. gs_sent (fst (gateway J cfg env req s)) = gs_sent s @ ws \<and> list_all Q ws"
proof -
  obtain ws where ws: "gs_sent (fst (gateway J cfg env req s)) = gs_sent s @ ws"
      "list_all (wire_ok J cfg env req (gs_redis (fst (gateway J cfg env req s)))) ws"
    using gateway_sends by blast
  have "list_all Q ws" by (rule list.pred_mono_strong [OF ws(2)]) (rule assms)
  then show ?thesis using ws(1) by blast
qed

lemma edge_user_public: "edge_user J cfg env pub req r = Inr user \<Longrightarrow> (user = None) = pub"
  by (auto simp: edge_user_def split: if_splits option.splits sum.splits)

text \<open>
  C28. A forwarded request speaks for the caller the edge verified and for nobody else. Whatever headers
  the client sent, a request that leaves the edge is routed by a path that is not internal to the
  platform, carries no identity header on a public route, and on any other route exactly those of the
  user whose credentials the edge checked.
\<close>
theorem edge_vouches_for_caller:
  "\<exists>ws. gs_sent (fst (gateway J cfg env req s)) = gs_sent s @ ws
    \<and> list_all (\<lambda>w. \<exists>u path pub t cap user. resolve (gq_path req) = RouteProxy u path pub t cap
        \<and> \<not> is_internal path \<and> pub = (user = None)
        \<and> edge_user J cfg env pub req (gs_redis (fst (gateway J cfg env req s))) = Inr user
        \<and> filter (\<lambda>(n, _). is_spoofable_identity n) (wq_headers w) = stated_identity user) ws"
proof -
  have "\<exists>u path pub t cap user. resolve (gq_path req) = RouteProxy u path pub t cap
        \<and> \<not> is_internal path \<and> pub = (user = None) \<and> edge_user J cfg env pub req r = Inr user
        \<and> filter (\<lambda>(n, _). is_spoofable_identity n) (wq_headers w) = stated_identity user"
    if ok: "wire_ok J cfg env req r w" for w r
  proof -
    obtain u path pub t cap user body base where w: "resolve (gq_path req) = RouteProxy u path pub t cap"
        "edge_user J cfg env pub req r = Inr user" "w = wire_for env base path req user body"
      using ok by (auto simp: wire_ok_def)
    moreover have "\<not> is_internal path"
      using w(1) forwarded_path_clean(1) by (simp add: resolve_def)
    moreover have "pub = (user = None)" using edge_user_public [OF w(2)] by simp
    moreover have "filter (\<lambda>(n, _). is_spoofable_identity n) (wq_headers w) = stated_identity user"
      by (simp add: w(3) wire_for_def forwarded_identity)
    ultimately show ?thesis by blast
  qed
  then show ?thesis by (intro sends_all)
qed

subsection \<open>The services see the same caller\<close>

text \<open>What the extractor of a service reads off a request: see \<open>auth_user_from\<close>.\<close>

definition parts_of :: "http_method \<Rightarrow> headers \<Rightarrow> request_parts" where
  "parts_of meth hs = \<lparr>rp_method = meth, rp_authorization = header_text ''authorization'' hs,
     rp_cookie = header_text ''cookie'' hs, rp_has_requested_with = has_header ''x-requested-with'' hs\<rparr>"

lemma parts_of_wire: "parts_of (wq_method (wire_for env base path req user body)) (wq_headers (wire_for env base path req user body))
    = parts_of (gq_method req) (gq_headers req)"
  by (simp add: wire_for_def parts_of_def)

text \<open>The edge's own check and the extractor of the services admit the same requests.\<close>

lemma edge_check_Inr_iff:
  "edge_check J up now r token = Inr v \<longleftrightarrow>
    (\<exists>c. authenticate_token J up now r token = Inr c \<and> vu_id v = jc_sub c \<and> vu_role v = jc_role c)"
proof (cases "decode_jwt_with_key J now token")
  case (Inr c)
  have same: "(\<lparr>vu_id = a, vu_role = b\<rparr> = v) = (vu_id v = a \<and> vu_role v = b)" for a b
    by (cases v) auto
  show ?thesis
  proof (cases "r_get now r (user_trv_key (jc_sub c))")
    case None
    then show ?thesis using Inr by (auto simp: edge_check_def authenticate_token_def current_trv_def same)
  next
    case (Some x)
    then show ?thesis
      using Inr by (cases x) (auto simp: edge_check_def authenticate_token_def current_trv_def same)
  qed
qed (simp add: edge_check_def authenticate_token_def)

lemma edge_check_agrees:
  "edge_check J up now r token = Inr v \<longleftrightarrow>
    res_bind (authenticate_token J up now r token) (\<lambda>claims. Inr \<lparr>au_id = jc_sub claims, au_role = jc_role claims\<rparr>)
      = Inr \<lparr>au_id = vu_id v, au_role = vu_role v\<rparr>"
  by (cases "authenticate_token J up now r token") (auto simp: edge_check_Inr_iff)

lemma edge_validate_agrees:
  "edge_validate J up now r hs meth = Inr v \<longleftrightarrow>
    auth_user_from J up now r (parts_of meth hs) = Inr \<lparr>au_id = vu_id v, au_role = vu_role v\<rparr>"
proof -
  have b: "bearer_token (parts_of meth hs) = header_bearer hs"
    by (simp add: bearer_token_def header_bearer_def parts_of_def)
  have c: "cookie_token (parts_of meth hs) ACCESS_TOKEN_COOKIE
      = obind (header_text ''cookie'' hs) (\<lambda>c. extract_cookie_value c ACCESS_TOKEN_COOKIE)"
    by (simp add: cookie_token_def parts_of_def)
  show ?thesis
  proof (cases "header_bearer hs")
    case (Some tok)
    then show ?thesis
      unfolding edge_validate_def auth_user_from_def extract_token_def b
      by (simp add: edge_check_agrees)
  next
    case no_bearer: None
    show ?thesis
    proof (cases "obind (header_text ''cookie'' hs) (\<lambda>c. extract_cookie_value c ACCESS_TOKEN_COOKIE)")
      case None
      then have "extract_token hs = None" using no_bearer
        by (cases "header_text ''cookie'' hs") (simp_all add: extract_token_def obind_def)
      then show ?thesis
        unfolding edge_validate_def auth_user_from_def b c by (simp add: no_bearer None)
    next
      case (Some tok)
      then have "extract_token hs = Some (tok, FromCookie)" using no_bearer
        by (cases "header_text ''cookie'' hs") (simp_all add: extract_token_def obind_def)
      then show ?thesis
        unfolding edge_validate_def auth_user_from_def b c
        by (simp add: no_bearer Some edge_check_agrees parts_of_def)
    qed
  qed
qed



text \<open>
  The public route planner is sent the caller's credentials. A request to it leaves the platform
  for one of the two outside servers with the access token or the session cookie of the caller still
  in its headers.
\<close>
theorem route_planner_gets_credentials:
  assumes "resolve (gq_path req) = RouteProxy UpOsrm path pub t cap"
  shows "\<exists>ws. gs_sent (fst (gateway J cfg env req s)) = gs_sent s @ ws
    \<and> list_all (\<lambda>w. (\<exists>base. base \<in> set_option (gc_url cfg UpOsrm) \<union> {gc_mirror cfg}
          \<and> wq_url w = forward_url base path (gq_query req))
        \<and> header_text ''authorization'' (wq_headers w) = header_text ''authorization'' (gq_headers req)
        \<and> header_text ''cookie'' (wq_headers w) = header_text ''cookie'' (gq_headers req)) ws"
proof -
  have "wire_ok J cfg env req r w \<Longrightarrow> (\<exists>base. base \<in> set_option (gc_url cfg UpOsrm) \<union> {gc_mirror cfg}
          \<and> wq_url w = forward_url base path (gq_query req))
        \<and> header_text ''authorization'' (wq_headers w) = header_text ''authorization'' (gq_headers req)
        \<and> header_text ''cookie'' (wq_headers w) = header_text ''cookie'' (gq_headers req)" for w r
    using assms unfolding wire_ok_def by (elim exE conjE) (auto simp: wire_for_def)
  then show ?thesis by (intro sends_all)
qed

subsection \<open>Sample requests\<close>

definition sample_gw_config :: gw_config where
  "sample_gw_config = \<lparr>gc_limits = default_limits, gc_url = (\<lambda>u. Some (''http://'' @ upstream_text u)),
     gc_mirror = ''http://mirror''\<rparr>"

definition sample_gw_env :: gw_env where
  "sample_gw_env = \<lparr>ge_up = True, ge_now = 0, ge_trace = None, ge_identity = (\<lambda>_. Some (7, ''admin'')),
     ge_http = (\<lambda>_. WireReply 200 [] (Some ''ok''))\<rparr>"

definition sample_gw_request :: "string \<Rightarrow> string \<Rightarrow> gw_request" where
  "sample_gw_request path token = \<lparr>gq_method = HttpGet, gq_path = path, gq_query = None,
     gq_headers = [(''authorization'', ''Bearer '' @ token)], gq_body = Some [], gq_peer = ''h''\<rparr>"

definition sample_gw_state :: gw_state where
  "sample_gw_state = \<lparr>gs_redis = (\<lambda>_. None), gs_sent = []\<rparr>"

lemma sample_routes:
  "resolve ''/v1/bookings'' = RouteProxy UpBooking ''/bookings'' False TierApi DefaultCap"
  "resolve ''/v1/osrm/route'' = RouteProxy UpOsrm ''/route'' False TierApi DefaultCap"
  by code_simp+

lemma sample_bearer: "header_bearer (gq_headers (sample_gw_request path ''pguard_k'')) = Some ''pguard_k''"
    "header_bearer (gq_headers (sample_gw_request path ''xs'')) = Some ''xs''"
  by (simp_all add: sample_gw_request_def header_bearer_def header_text_def visible_def byte_of_def strip_prefix_def
    starts_with_def)



theorem route_planner_gets_credentials_witness:
  "\<exists>ws. gs_sent (fst (gateway sample_jwt sample_gw_config sample_gw_env (sample_gw_request ''/v1/osrm/route'' ''pguard_k'') sample_gw_state))
      = gs_sent sample_gw_state @ ws
    \<and> list_all (\<lambda>w. (\<exists>base. base \<in> set_option (gc_url sample_gw_config UpOsrm) \<union> {gc_mirror sample_gw_config}
          \<and> wq_url w = forward_url base ''/route'' (gq_query (sample_gw_request ''/v1/osrm/route'' ''pguard_k'')))
        \<and> header_text ''authorization'' (wq_headers w) = header_text ''authorization'' (gq_headers (sample_gw_request ''/v1/osrm/route'' ''pguard_k''))
        \<and> header_text ''cookie'' (wq_headers w) = header_text ''cookie'' (gq_headers (sample_gw_request ''/v1/osrm/route'' ''pguard_k''))) ws"
proof (rule route_planner_gets_credentials)
  show "resolve (gq_path (sample_gw_request ''/v1/osrm/route'' ''pguard_k'')) = RouteProxy UpOsrm ''/route'' False TierApi DefaultCap"
    using sample_routes by (simp add: sample_gw_request_def)
qed

end
