(* ===== verification/Peer_Services.thy ===== *)
theory Peer_Services
  imports Shared_Events
begin

text \<open>
  What the call, chat and rating services have in common: the view of a booking each of them asks the
  booking service for, the relay that drains an outbox, and the whole seconds PostgreSQL makes of an
  interval.
\<close>

record booking_view =
  bv_customer :: uuid
  bv_guard :: "uuid option"
  bv_status :: string

text \<open>What a booking read answers: the view, or the error the client of the booking service returns.\<close>

type_synonym booking_reader = "uuid \<Rightarrow> booking_view app_result"

datatype reader_reply = ReaderDown | ReaderStatus nat "booking_view option option"

text \<open>
  A reply is a status with a body; the body may not decode (\<open>None\<close>), and its data may be absent
  (\<open>Some None\<close>).
\<close>

definition read_booking_reply :: "reader_reply \<Rightarrow> booking_view app_result" where
  "read_booking_reply r = (case r of
     ReaderDown \<Rightarrow> Inl (Internal ''Booking lookup failed'')
   | ReaderStatus status body \<Rightarrow>
       if status = 404 then Inl (NotFound ''Booking not found'')
       else if \<not> (200 \<le> status \<and> status < 300) then Inl (Internal ''Booking lookup failed'')
       else (case body of
           None \<Rightarrow> Inl (Internal ''Booking lookup failed'')
         | Some None \<Rightarrow> Inl (Internal ''Booking lookup returned no data'')
         | Some (Some b) \<Rightarrow> Inr b))"

subsection \<open>The relay\<close>

text \<open>
  One pass: the oldest unpublished rows are sent one after another, each is marked once it is sent, and
  the first that cannot be sent ends the pass. The log holds what was sent.
\<close>

definition unpublished_rows :: "nat \<Rightarrow> outbox_row list \<Rightarrow> outbox_row list" where
  "unpublished_rows limit rows = take limit (sort_key ob_created_at (filter (\<lambda>r. ob_published_at r = None) rows))"

definition mark_row :: "instant \<Rightarrow> uuid \<Rightarrow> outbox_row list \<Rightarrow> outbox_row list" where
  "mark_row now k rows = map (\<lambda>r. if ob_id r = k then r\<lparr>ob_published_at := Some now\<rparr> else r) rows"

fun relay_rows :: "(outbox_row \<Rightarrow> bool) \<Rightarrow> instant \<Rightarrow> outbox_row list \<Rightarrow> outbox_row list \<times> envelope list
    \<Rightarrow> outbox_row list \<times> envelope list" where
  "relay_rows sends now [] s = s"
| "relay_rows sends now (r # rs) (rows, sent) =
    (if sends r then relay_rows sends now rs (mark_row now (ob_id r) rows, sent @ [ob_envelope r]) else (rows, sent))"

definition RELAY_BATCH :: nat where "RELAY_BATCH = 100"

definition relay_pass :: "(outbox_row \<Rightarrow> bool) \<Rightarrow> instant \<Rightarrow> outbox_row list \<times> envelope list \<Rightarrow> outbox_row list \<times> envelope list" where
  "relay_pass sends now s = relay_rows sends now (unpublished_rows RELAY_BATCH (fst s)) s"

lemma mark_row_envelopes [simp]: "map ob_envelope (mark_row now k rows) = map ob_envelope rows"
  by (simp add: mark_row_def comp_def)

lemma relay_keeps_envelopes: "map ob_envelope (fst (relay_rows sends now rs s)) = map ob_envelope (fst s)"
  by (induction sends now rs s rule: relay_rows.induct) simp_all

subsection \<open>Seconds of an interval\<close>

text \<open>
  \<open>EXTRACT(EPOCH FROM d)::INTEGER\<close> rounds to the nearest second, halves away from zero; a value that
  does not fit the column is an error of the statement.
\<close>

definition epoch_seconds :: "duration \<Rightarrow> int" where
  "epoch_seconds d =
    (if d < 0 then - ((- d + nanos_per_sec div 2) div nanos_per_sec) else (d + nanos_per_sec div 2) div nanos_per_sec)"

definition fits_int4 :: "int \<Rightarrow> bool" where
  "fits_int4 n = (- 2147483648 \<le> n \<and> n \<le> 2147483647)"

end
