(* ===== verification/Calling_Service.thy ===== *)
theory Calling_Service
  imports Peer_Services Shared_Tokens Effects
begin

text \<open>
  The call service (\<open>services/calling/src\<close>): the lifecycle of a call (\<open>domain/mod.rs\<close>), its table and
  outbox (\<open>repo/mod.rs\<close>), the handlers (\<open>api/mod.rs\<close>) and the relay of signals between the sockets of the
  two people of a call (\<open>api/ws.rs\<close>). The keyed digest and the base64 text of the relay credential are
  parameters. The frame budget of a socket is a float and is not modelled.
\<close>

subsection \<open>Lifecycle\<close>

datatype call_status = Initiated | CallAccepted | Connected | Ended | CallRejected | Missed

definition call_status_text :: "call_status \<Rightarrow> string" where
  "call_status_text s = (case s of
     Initiated \<Rightarrow> ''initiated'' | CallAccepted \<Rightarrow> ''accepted'' | Connected \<Rightarrow> ''connected''
   | Ended \<Rightarrow> ''ended'' | CallRejected \<Rightarrow> ''rejected'' | Missed \<Rightarrow> ''missed'')"

definition parse_call_status :: "string \<Rightarrow> call_status option" where
  "parse_call_status s =
    (if s = ''initiated'' then Some Initiated else if s = ''accepted'' then Some CallAccepted
     else if s = ''connected'' then Some Connected else if s = ''ended'' then Some Ended
     else if s = ''rejected'' then Some CallRejected else if s = ''missed'' then Some Missed else None)"

interpretation call_status_wire: strict_wire_enum call_status_text parse_call_status
proof
  show "parse_call_status (call_status_text x) = Some x" for x
    by (cases x) (simp_all add: parse_call_status_def call_status_text_def)
  show "parse_call_status s = Some x \<Longrightarrow> s = call_status_text x" for s x
    by (auto simp: parse_call_status_def call_status_text_def split: if_splits)
qed

definition call_is_terminal :: "call_status \<Rightarrow> bool" where
  "call_is_terminal s = (s \<in> {Ended, CallRejected, Missed})"

definition VALID_CALL_TYPES :: "string list" where "VALID_CALL_TYPES = [''audio'', ''video'']"

definition is_valid_call_type :: "string \<Rightarrow> bool" where
  "is_valid_call_type t = (t \<in> set VALID_CALL_TYPES)"

definition is_callable_status :: "string \<Rightarrow> bool" where
  "is_callable_status status = (status \<in> {''accepted'', ''en_route'', ''arrived'', ''pending_completion''})"

definition call_can_transition :: "call_status \<Rightarrow> call_status \<Rightarrow> bool" where
  "call_can_transition s t =
    (if call_is_terminal s then False
     else (s, t) \<in> {(Initiated, CallAccepted), (Initiated, CallRejected), (Initiated, Missed),
       (CallAccepted, Connected), (CallAccepted, Ended), (Connected, Ended)})"

interpretation call_life: lifecycle call_can_transition call_is_terminal
  by unfold_locales (auto simp: call_can_transition_def call_is_terminal_def)

definition end_target :: "call_status \<Rightarrow> call_status option" where
  "end_target s = (case s of
     Initiated \<Rightarrow> Some Missed | CallAccepted \<Rightarrow> Some Ended | Connected \<Rightarrow> Some Ended | _ \<Rightarrow> None)"

definition peer_of :: "uuid \<Rightarrow> uuid \<Rightarrow> uuid \<Rightarrow> uuid option" where
  "peer_of sender caller callee =
    (if sender = caller then Some callee else if sender = callee then Some caller else None)"

subsection \<open>The credential of the media relay\<close>

record turn_lib =
  tl_hmac_sha1 :: "string \<Rightarrow> string \<Rightarrow> string"
  tl_base64 :: "string \<Rightarrow> string"
  tl_int :: "int \<Rightarrow> string"

definition turn_credential :: "turn_lib \<Rightarrow> string \<Rightarrow> string \<Rightarrow> int \<Rightarrow> string \<times> string" where
  "turn_credential T secret user_id expiry_unix =
    (let username = tl_int T expiry_unix @ '':'' @ user_id
     in (username, tl_base64 T (tl_hmac_sha1 T secret username)))"

record ice_server =
  is_urls :: "string list"
  is_username :: "string option"
  is_credential :: "string option"

record turn_config =
  tc_stun_urls :: "string list"
  tc_turn_urls :: "string list"
  tc_secret :: "string option"
  tc_ttl_secs :: int

definition build_ice :: "turn_lib \<Rightarrow> turn_config \<Rightarrow> string \<Rightarrow> int \<Rightarrow> ice_server list \<times> int" where
  "build_ice T cfg user_id now_unix =
    (let stun = map (\<lambda>u. \<lparr>is_urls = [u], is_username = None, is_credential = None\<rparr>) (tc_stun_urls cfg);
         turn = (case tc_secret cfg of
             None \<Rightarrow> []
           | Some secret \<Rightarrow>
             if tc_turn_urls cfg = [] then []
             else (case turn_credential T secret user_id (now_unix + tc_ttl_secs cfg) of
                 (username, credential) \<Rightarrow>
                   [\<lparr>is_urls = tc_turn_urls cfg, is_username = Some username, is_credential = Some credential\<rparr>]))
     in (stun @ turn, tc_ttl_secs cfg))"

definition ice_config :: "turn_lib \<Rightarrow> turn_config \<Rightarrow> instant \<Rightarrow> auth_user \<Rightarrow> ice_server list \<times> int" where
  "ice_config T cfg now user = build_ice T cfg (uuid_text (au_id user)) (timestamp now)"

subsection \<open>The table of calls\<close>

record call_row =
  cl_caller :: uuid
  cl_callee :: uuid
  cl_booking :: uuid
  cl_type :: string
  cl_status :: call_status
  cl_started_at :: instant
  cl_answered_at :: "instant option"
  cl_ended_at :: "instant option"
  cl_duration :: "int option"
  cl_end_reason :: "string option"
  cl_created_at :: instant
  cl_updated_at :: instant

record calling_db =
  ca_calls :: "(uuid, call_row) table"
  ca_outbox :: "outbox_row list"

definition CALLING_INITIATED :: string where "CALLING_INITIATED = ''pguard.events.calling.initiated''"
definition CALLING_ACCEPTED :: string where "CALLING_ACCEPTED = ''pguard.events.calling.accepted''"
definition CALLING_REJECTED :: string where "CALLING_REJECTED = ''pguard.events.calling.rejected''"
definition CALLING_ENDED :: string where "CALLING_ENDED = ''pguard.events.calling.ended''"

definition call_not_found :: app_error where "call_not_found = NotFound ''Call not found''"

definition find_call :: "calling_db \<Rightarrow> uuid \<Rightarrow> (uuid \<times> call_row) app_result" where
  "find_call db k = (case row_get (ca_calls db) k of None \<Rightarrow> Inl call_not_found | Some c \<Rightarrow> Inr (k, c))"

definition admin_call_page :: "calling_db \<Rightarrow> string option \<Rightarrow> string option \<Rightarrow> int \<Rightarrow> int \<Rightarrow> (uuid \<times> call_row) list" where
  "admin_call_page db status call_type limit offset =
    take (nat limit) (drop (nat offset) (sort_key (\<lambda>(_, c). - cl_created_at c)
      (filter (\<lambda>(_, c). (case status of None \<Rightarrow> True | Some s \<Rightarrow> call_status_text (cl_status c) = s)
        \<and> (case call_type of None \<Rightarrow> True | Some t \<Rightarrow> cl_type c = t)) (ca_calls db))))"

definition call_participants :: "calling_db \<Rightarrow> uuid \<Rightarrow> (uuid \<times> uuid \<times> call_status) option" where
  "call_participants db k = map_option (\<lambda>c. (cl_caller c, cl_callee c, cl_status c)) (row_get (ca_calls db) k)"

definition call_payload :: "uuid \<Rightarrow> call_row \<Rightarrow> payload" where
  "call_payload k c =
    [(''call_id'', JUuid k), (''booking_id'', JUuid (cl_booking c)), (''caller_id'', JUuid (cl_caller c)),
     (''callee_id'', JUuid (cl_callee c)), (''call_type'', JStr (cl_type c)),
     (''status'', JStr (call_status_text (cl_status c))), (''duration_seconds'', jopt JInt (cl_duration c)),
     (''answered_at'', jopt JTime (cl_answered_at c)), (''end_reason'', jopt JStr (cl_end_reason c))]"

definition enqueue_call_event :: "call_env \<Rightarrow> string \<Rightarrow> uuid \<Rightarrow> call_row \<Rightarrow> calling_db \<Rightarrow> calling_db" where
  "enqueue_call_event env topic k c db = db\<lparr>ca_outbox := outbox_append env topic (call_payload k c) (ca_outbox db)\<rparr>"

definition put_call :: "uuid \<Rightarrow> call_row \<Rightarrow> calling_db \<Rightarrow> calling_db" where
  "put_call k c db = db\<lparr>ca_calls := row_put k c (ca_calls db)\<rparr>"

definition callee_busy :: "calling_db \<Rightarrow> instant \<Rightarrow> uuid \<Rightarrow> bool" where
  "callee_busy db now callee = list_ex (\<lambda>(_, c). cl_callee c = callee \<and> cl_status c \<in> {Initiated, CallAccepted, Connected}
     \<and> now - seconds 30 < cl_started_at c) (ca_calls db)"

definition new_call :: "instant \<Rightarrow> uuid \<Rightarrow> uuid \<Rightarrow> uuid \<Rightarrow> string \<Rightarrow> call_row" where
  "new_call now caller callee booking call_type =
    \<lparr>cl_caller = caller, cl_callee = callee, cl_booking = booking, cl_type = call_type, cl_status = Initiated,
     cl_started_at = now, cl_answered_at = None, cl_ended_at = None, cl_duration = None, cl_end_reason = None,
     cl_created_at = now, cl_updated_at = now\<rparr>"

definition initiate :: "call_env \<Rightarrow> uuid \<Rightarrow> uuid \<Rightarrow> uuid \<Rightarrow> string \<Rightarrow> calling_db \<Rightarrow> ((uuid \<times> call_row) \<times> calling_db) app_result" where
  "initiate env caller callee booking call_type db =
    (if callee_busy db (tx_now env) callee then Inl (Conflict ''Callee is busy'')
     else if call_type \<notin> {''audio'', ''video''} then Inl (Database ''22P02'')
     else if row_get (ca_calls db) (fresh_row env) \<noteq> None then Inl (Database ''23505'')
     else let c = new_call (tx_now env) caller callee booking call_type
       in Inr ((fresh_row env, c), enqueue_call_event env CALLING_INITIATED (fresh_row env) c (put_call (fresh_row env) c db)))"

datatype call_action = AcceptCall | RejectCall | ConnectCall | EndCall string

text \<open>What an action asks for: the next status, the event, and the reason of an end.\<close>

definition action_target :: "uuid \<Rightarrow> call_row \<Rightarrow> call_action \<Rightarrow> (call_status \<times> string option \<times> string option) app_result" where
  "action_target actor c action = (case action of
     AcceptCall \<Rightarrow> if actor \<noteq> cl_callee c then Inl (Forbidden ''Only the callee can accept'')
       else Inr (CallAccepted, Some CALLING_ACCEPTED, None)
   | RejectCall \<Rightarrow> if actor \<noteq> cl_callee c then Inl (Forbidden ''Only the callee can reject'')
       else Inr (CallRejected, Some CALLING_REJECTED, Some ''rejected_by_callee'')
   | ConnectCall \<Rightarrow> Inr (Connected, None, None)
   | EndCall reason \<Rightarrow> (case end_target (cl_status c) of
       None \<Rightarrow> Inl (Conflict ''Call already ended'')
     | Some t \<Rightarrow> Inr (t, Some CALLING_ENDED, Some reason)))"

text \<open>The whole seconds of an answered call, when its column holds them.\<close>

definition call_duration :: "instant \<Rightarrow> call_status \<Rightarrow> call_row \<Rightarrow> int option" where
  "call_duration now target c = (case cl_answered_at c of
     Some answered \<Rightarrow> if call_is_terminal target then Some (max 0 (epoch_seconds (now - answered))) else cl_duration c
   | None \<Rightarrow> cl_duration c)"

definition duration_overflows :: "instant \<Rightarrow> call_status \<Rightarrow> call_row \<Rightarrow> bool" where
  "duration_overflows now target c = (case cl_answered_at c of
     Some answered \<Rightarrow> call_is_terminal target \<and> \<not> fits_int4 (epoch_seconds (now - answered)) | None \<Rightarrow> False)"

definition moved_call :: "instant \<Rightarrow> call_status \<Rightarrow> string option \<Rightarrow> call_row \<Rightarrow> call_row" where
  "moved_call now target reason c = c\<lparr>cl_status := target,
     cl_answered_at := (if target = CallAccepted then Some now else cl_answered_at c),
     cl_ended_at := (if call_is_terminal target then Some now else cl_ended_at c),
     cl_end_reason := (if call_is_terminal target then reason else cl_end_reason c),
     cl_duration := call_duration now target c, cl_updated_at := now\<rparr>"

definition apply_transition :: "call_env \<Rightarrow> uuid \<Rightarrow> uuid \<Rightarrow> call_action \<Rightarrow> calling_db \<Rightarrow> ((uuid \<times> call_row) \<times> calling_db) app_result" where
  "apply_transition env k actor action db = (case row_get (ca_calls db) k of
     None \<Rightarrow> Inl call_not_found
   | Some c \<Rightarrow>
     if actor \<noteq> cl_caller c \<and> actor \<noteq> cl_callee c then Inl (Forbidden ''Not a participant of this call'')
     else (case action_target actor c action of
         Inl e \<Rightarrow> Inl e
       | Inr (target, topic, reason) \<Rightarrow>
         if \<not> call_can_transition (cl_status c) target then Inl (Conflict ''illegal call transition {current} [to] {target}'')
         else if duration_overflows (tx_now env) target c then Inl (Database ''22003'')
         else let c' = moved_call (tx_now env) target reason c; db' = put_call k c' db
           in Inr ((k, c'), (case topic of None \<Rightarrow> db' | Some t \<Rightarrow> enqueue_call_event env t k c' db'))))"

subsection \<open>Handlers\<close>

definition DEFAULT_CALL_TYPE :: string where "DEFAULT_CALL_TYPE = ''audio''"

definition initiate_call :: "call_env \<Rightarrow> booking_reader \<Rightarrow> auth_user \<Rightarrow> uuid \<Rightarrow> string option
    \<Rightarrow> (calling_db, uuid \<times> call_row) act" where
  "initiate_call env read user booking_id requested =
    (let call_type = (case requested of Some t \<Rightarrow> t | None \<Rightarrow> DEFAULT_CALL_TYPE) in
     act_bind (act_guard (is_valid_call_type call_type) (BadRequest ''call_type must be audio or video'')) (\<lambda>_.
     act_bind (act_of (read booking_id)) (\<lambda>booking.
     act_bind (act_guard (is_callable_status (bv_status booking))
       (Conflict ''Booking is not in an active state for calling'')) (\<lambda>_.
     act_bind (act_of (case bv_guard booking of
         None \<Rightarrow> Inl (Conflict ''Booking has no assigned guard to call'') | Some g \<Rightarrow> Inr g)) (\<lambda>guard_id.
     act_bind (act_of (case peer_of (au_id user) (bv_customer booking) guard_id of
         None \<Rightarrow> Inl (Forbidden ''You can only call within your own booking'') | Some p \<Rightarrow> Inr p)) (\<lambda>callee.
     act_tx (initiate env (au_id user) callee booking_id call_type)))))))"

definition get_call :: "auth_user \<Rightarrow> uuid \<Rightarrow> (calling_db, uuid \<times> call_row) act" where
  "get_call user k db =
    act_bind (act_of (find_call db k)) (\<lambda>call.
    act_bind (act_guard (\<not> (cl_caller (snd call) \<noteq> au_id user \<and> cl_callee (snd call) \<noteq> au_id user \<and> au_role user \<noteq> ''admin''))
      (Forbidden ''Not a participant in this call'')) (\<lambda>_. act_return call)) db"

definition CALL_STATUSES :: "string list" where
  "CALL_STATUSES = [''initiated'', ''accepted'', ''connected'', ''ended'', ''rejected'', ''missed'']"

definition CALL_TYPES :: "string list" where "CALL_TYPES = [''audio'', ''video'']"

definition one_of :: "string list \<Rightarrow> app_error \<Rightarrow> string option \<Rightarrow> string option app_result" where
  "one_of allowed e v = (case v of None \<Rightarrow> Inr None | Some s \<Rightarrow> if s \<in> set allowed then Inr (Some s) else Inl e)"

definition admin_list_calls :: "auth_user \<Rightarrow> string option \<Rightarrow> string option \<Rightarrow> int option \<Rightarrow> int option
    \<Rightarrow> (calling_db, (uuid \<times> call_row) list) act" where
  "admin_list_calls user status call_type limit offset db =
    act_bind (act_guard (au_role user = ''admin'') (Forbidden ''This action requires the admin role'')) (\<lambda>_.
    act_bind (act_of (one_of CALL_STATUSES (BadRequest ''invalid status filter'') status)) (\<lambda>st.
    act_bind (act_of (one_of CALL_TYPES (BadRequest ''invalid call_type filter'') call_type)) (\<lambda>ct.
    act_return (admin_call_page db st ct (max 1 (min (case limit of Some n \<Rightarrow> n | None \<Rightarrow> 50) 200))
      (max (case offset of Some n \<Rightarrow> n | None \<Rightarrow> 0) 0))))) db"

definition accept_call :: "call_env \<Rightarrow> auth_user \<Rightarrow> uuid \<Rightarrow> (calling_db, uuid \<times> call_row) act" where
  "accept_call env user k = act_tx (apply_transition env k (au_id user) AcceptCall)"

definition reject_call :: "call_env \<Rightarrow> auth_user \<Rightarrow> uuid \<Rightarrow> (calling_db, uuid \<times> call_row) act" where
  "reject_call env user k = act_tx (apply_transition env k (au_id user) RejectCall)"

definition connected_call :: "call_env \<Rightarrow> auth_user \<Rightarrow> uuid \<Rightarrow> (calling_db, uuid \<times> call_row) act" where
  "connected_call env user k = act_tx (apply_transition env k (au_id user) ConnectCall)"

definition end_call :: "call_env \<Rightarrow> auth_user \<Rightarrow> uuid \<Rightarrow> string option \<Rightarrow> (calling_db, uuid \<times> call_row) act" where
  "end_call env user k reason =
    act_tx (apply_transition env k (au_id user) (EndCall (case reason of Some r \<Rightarrow> r | None \<Rightarrow> ''hangup'')))"

definition drain_calling :: "(outbox_row \<Rightarrow> bool) \<Rightarrow> instant \<Rightarrow> calling_db \<times> envelope list \<Rightarrow> calling_db \<times> envelope list" where
  "drain_calling sends now s = (case relay_pass sends now (ca_outbox (fst s), snd s) of
     (rows, sent) \<Rightarrow> ((fst s)\<lparr>ca_outbox := rows\<rparr>, sent))"

subsection \<open>Signals between the sockets\<close>

text \<open>
  The registry keeps one sender per user; a socket that opens replaces the sender of an earlier one. A
  sender is the number of its connection; sending to one succeeds while that connection is open. What
  is sent is kept with the user and the connection it went to.
\<close>

datatype 'j ws_frame = Signal uuid uuid 'j | ErrFrame string

record 'j registry =
  rg_live :: "(uuid, nat) table"
  rg_open :: "nat list"
  rg_sent :: "(uuid \<times> nat \<times> 'j ws_frame) list"

definition ws_send :: "uuid \<Rightarrow> 'j ws_frame \<Rightarrow> 'j registry \<Rightarrow> 'j registry \<times> bool" where
  "ws_send uid frame reg = (case row_get (rg_live reg) uid of
     None \<Rightarrow> (reg, False)
   | Some conn \<Rightarrow> if conn \<in> set (rg_open reg) then (reg\<lparr>rg_sent := rg_sent reg @ [(uid, conn, frame)]\<rparr>, True) else (reg, False))"

definition cannot_route :: "'j ws_frame" where "cannot_route = ErrFrame ''cannot route signal for this call''"

text \<open>A frame names its call and carries the signal; \<open>None\<close> is one that does not parse.\<close>

definition handle_signal :: "bool \<Rightarrow> calling_db \<Rightarrow> uuid \<Rightarrow> (uuid \<times> 'j) option \<Rightarrow> 'j registry \<Rightarrow> 'j registry" where
  "handle_signal db_up db sender frame reg = (case frame of
     None \<Rightarrow> fst (ws_send sender (ErrFrame ''invalid signal frame'') reg)
   | Some (k, signal) \<Rightarrow>
     if \<not> db_up then fst (ws_send sender (ErrFrame ''signal routing failed'') reg)
     else (case call_participants db k of
         None \<Rightarrow> fst (ws_send sender cannot_route reg)
       | Some (caller, callee, status) \<Rightarrow> (case peer_of sender caller callee of
           None \<Rightarrow> fst (ws_send sender cannot_route reg)
         | Some peer \<Rightarrow>
           if call_is_terminal status then fst (ws_send sender (ErrFrame ''call is no longer active'') reg)
           else (case ws_send peer (Signal sender k signal) reg of
               (reg', True) \<Rightarrow> reg'
             | (reg', False) \<Rightarrow> fst (ws_send sender (ErrFrame ''peer is offline'') reg')))))"

definition open_socket :: "uuid \<Rightarrow> nat \<Rightarrow> 'j registry \<Rightarrow> 'j registry" where
  "open_socket uid conn reg = reg\<lparr>rg_live := row_put uid conn (rg_live reg), rg_open := conn # rg_open reg\<rparr>"

text \<open>The end of a session: its receiver is gone, and the user's entry goes only if its sender is closed.\<close>

definition close_socket :: "uuid \<Rightarrow> nat \<Rightarrow> 'j registry \<Rightarrow> 'j registry" where
  "close_socket uid conn reg =
    (let reg' = reg\<lparr>rg_open := removeAll conn (rg_open reg)\<rparr> in
     (case row_get (rg_live reg') uid of
        Some c \<Rightarrow> if c \<in> set (rg_open reg') then reg' else reg'\<lparr>rg_live := filter (\<lambda>(u, _). u \<noteq> uid) (rg_live reg')\<rparr>
      | None \<Rightarrow> reg'))"

end
