(* ===== verification/Chat_Service.thy ===== *)
theory Chat_Service
  imports Peer_Services Object_Store Shared_Tokens Effects Booking_State Calling_Service
begin

text \<open>
  The chat service (\<open>services/chat/src\<close>): the rules of a message (\<open>domain/mod.rs\<close>), the tables and their
  statements (\<open>repo/mod.rs\<close>), the handlers (\<open>api/mod.rs\<close>), and the two consumers (\<open>events/consumer.rs\<close>). The
  rows of a table come in the order they were written where SQL fixes none. Reading a JSON text and a
  UUID is the libraries', a parameter. The length limits of the text columns are not modelled.
\<close>

subsection \<open>Messages\<close>

datatype message_type = MsgText | MsgImage | MsgVideo | MsgSystem

definition message_type_text :: "message_type \<Rightarrow> string" where
  "message_type_text t = (case t of
     MsgText \<Rightarrow> ''text'' | MsgImage \<Rightarrow> ''image'' | MsgVideo \<Rightarrow> ''video'' | MsgSystem \<Rightarrow> ''system'')"

definition parse_message_type :: "string \<Rightarrow> message_type option" where
  "parse_message_type s =
    (if s = ''text'' then Some MsgText else if s = ''image'' then Some MsgImage
     else if s = ''video'' then Some MsgVideo else if s = ''system'' then Some MsgSystem else None)"

interpretation message_type_wire: strict_wire_enum message_type_text parse_message_type
proof
  show "parse_message_type (message_type_text x) = Some x" for x
    by (cases x) (simp_all add: parse_message_type_def message_type_text_def)
  show "parse_message_type s = Some x \<Longrightarrow> s = message_type_text x" for s x
    by (auto simp: parse_message_type_def message_type_text_def split: if_splits)
qed

record call_summary =
  su_type :: string
  su_outcome :: string
  su_seconds :: "int option"

definition summary_of_call :: "string \<Rightarrow> string \<Rightarrow> string option \<Rightarrow> bool \<Rightarrow> int option \<Rightarrow> call_summary" where
  "summary_of_call call_type status end_reason answered_at_present duration_seconds =
    (let answered = (answered_at_present \<or> (case duration_seconds of Some d \<Rightarrow> 0 < d | None \<Rightarrow> False));
         rejected = (\<not> answered \<and> (status = ''rejected''
           \<or> (case end_reason of Some r \<Rightarrow> has_sub ''reject'' r \<or> has_sub ''declin'' r | None \<Rightarrow> False)))
     in \<lparr>su_type = (if call_type \<in> {''audio'', ''video''} then call_type else ''audio''),
         su_outcome = (if answered then ''completed'' else if rejected then ''rejected'' else ''missed''),
         su_seconds = (if answered then duration_seconds else None)\<rparr>)"

definition json_text :: "string \<Rightarrow> string" where
  "json_text s = [CHR 0x22] @ s @ [CHR 0x22]"

text \<open>The summary as JSON; its texts are fixed words that need no escape.\<close>

definition summary_content :: "call_summary \<Rightarrow> string" where
  "summary_content s = ''{'' @ json_text ''k'' @ '':'' @ json_text ''call'' @ '','' @ json_text ''ct'' @ '':'' @ json_text (su_type s)
     @ '','' @ json_text ''oc'' @ '':'' @ json_text (su_outcome s) @ '','' @ json_text ''ds'' @ '':''
     @ (case su_seconds s of None \<Rightarrow> ''null'' | Some d \<Rightarrow> show_int d) @ ''}''"

record chat_lib =
  ct_json :: "string \<Rightarrow> payload option"
  ct_uuid :: "string \<Rightarrow> uuid option"

definition text_or :: "string \<Rightarrow> payload \<Rightarrow> string \<Rightarrow> string" where
  "text_or d p k = (case text_at p k of Some s \<Rightarrow> s | None \<Rightarrow> d)"

text \<open>\<open>ct_json\<close> reads an object; what is not an object has no field \<open>k\<close> either.\<close>

definition parse_call_summary :: "chat_lib \<Rightarrow> string \<Rightarrow> call_summary option" where
  "parse_call_summary X content = (case ct_json X content of
     None \<Rightarrow> None
   | Some v \<Rightarrow> if text_at v ''k'' \<noteq> Some ''call'' then None
     else Some \<lparr>su_type = text_or ''audio'' v ''ct'', su_outcome = text_or ''missed'' v ''oc'',
       su_seconds = (case jget v ''ds'' of
           Some (JInt d) \<Rightarrow> if fits_int4 d then Some d else None | _ \<Rightarrow> None)\<rparr>)"

subsection \<open>Roles and the end of a conversation\<close>

definition VALID_ROLES :: "string list" where "VALID_ROLES = [''guard'', ''customer'']"

definition is_valid_role :: "string \<Rightarrow> bool" where "is_valid_role role = (role \<in> set VALID_ROLES)"

definition is_outbound :: "string \<Rightarrow> string \<Rightarrow> bool" where
  "is_outbound sender_role acting_role = (sender_role = acting_role)"

definition counts_as_unread :: "string option \<Rightarrow> string \<Rightarrow> bool" where
  "counts_as_unread sender_role acting_role = (case sender_role of Some s \<Rightarrow> s \<noteq> acting_role | None \<Rightarrow> True)"

definition is_closed :: "string option \<Rightarrow> bool" where
  "is_closed request_status = (request_status \<in> {Some ''completed'', Some ''cancelled''})"

definition is_writable :: "string option \<Rightarrow> bool" where "is_writable request_status = (\<not> is_closed request_status)"

subsection \<open>Attachments\<close>

definition MAX_IMAGE_SIZE :: nat where "MAX_IMAGE_SIZE = 10 * 1024 * 1024"
definition MAX_VIDEO_SIZE :: nat where "MAX_VIDEO_SIZE = 200 * 1024 * 1024"

definition ALLOWED_MIME_TYPES :: "string list" where
  "ALLOWED_MIME_TYPES = [''image/jpeg'', ''image/png'', ''image/webp'', ''video/mp4'', ''video/quicktime'']"

definition is_video_mime :: "string \<Rightarrow> bool" where "is_video_mime mime_type = starts_with ''video/'' mime_type"

definition attachment_extension :: "string \<Rightarrow> string" where
  "attachment_extension mime_type =
    (if mime_type = ''image/jpeg'' then ''jpg'' else if mime_type = ''image/png'' then ''png''
     else if mime_type = ''image/webp'' then ''webp'' else if mime_type = ''video/mp4'' then ''mp4''
     else if mime_type = ''video/quicktime'' then ''mov'' else ''bin'')"

definition bytes_of :: "nat list \<Rightarrow> string" where "bytes_of bs = map char_of bs"

definition detect_mime_from_bytes :: "string \<Rightarrow> string option" where
  "detect_mime_from_bytes d =
    (if take 3 d = bytes_of [255, 216, 255] then Some ''image/jpeg''
     else if take 8 d = bytes_of [137, 80, 78, 71, 13, 10, 26, 10] then Some ''image/png''
     else if 12 \<le> length d \<and> take 4 d = ''RIFF'' \<and> take 4 (drop 8 d) = ''WEBP'' then Some ''image/webp''
     else if 8 \<le> length d \<and> take 4 (drop 4 d) = ''ftyp'' then
       (if 12 \<le> length d \<and> take 4 (drop 8 d) = ''qt  '' then Some ''video/quicktime'' else Some ''video/mp4'')
     else None)"

definition validate_upload :: "string \<Rightarrow> nat \<Rightarrow> string \<Rightarrow> string app_result" where
  "validate_upload declared_mime file_size d =
    (if declared_mime \<notin> set ALLOWED_MIME_TYPES
     then Inl (BadRequest ''Unsupported file type: {declared_mime}. Allowed: JPEG, PNG, WEBP, MP4, MOV'')
     else if (if is_video_mime declared_mime then MAX_VIDEO_SIZE else MAX_IMAGE_SIZE) < file_size
     then Inl (BadRequest ''File too large: {file_size} bytes (max {max_mb}MB)'')
     else (case detect_mime_from_bytes d of
         None \<Rightarrow> Inl (BadRequest ''File content does not match any allowed format (image or video)'')
       | Some detected \<Rightarrow>
         if detected = declared_mime \<or> (is_video_mime detected \<and> is_video_mime declared_mime) then Inr detected
         else Inl (BadRequest ''MIME mismatch: declared {declared_mime} but content is {detected}'')))"

subsection \<open>Tables\<close>

record conversation =
  cv_request :: uuid
  cv_status :: "string option"
  cv_created_at :: instant

record participant =
  pt_role :: string
  pt_name :: "string option"
  pt_avatar :: "string option"

record chat_message =
  ms_id :: uuid
  ms_conversation :: uuid
  ms_sender :: uuid
  ms_role :: string
  ms_content :: "string option"
  ms_type :: message_type
  ms_created_at :: instant

record read_receipt =
  rr_last :: "uuid option"
  rr_read_at :: instant

record attachment =
  an_chat :: uuid
  an_uploader :: uuid
  an_key :: string
  an_url :: string
  an_size :: int
  an_mime :: string
  an_created_at :: instant

record chat_db =
  ch_conversations :: "(uuid, conversation) table"
  ch_participants :: "(uuid \<times> uuid, participant) table"
  ch_messages :: "chat_message list"
  ch_receipts :: "(uuid \<times> uuid \<times> string, read_receipt) table"
  ch_attachments :: "(uuid, attachment) table"
  ch_processed :: "(uuid \<times> string) list"
  ch_outbox :: "outbox_row list"

record participant_input =
  pi_user :: uuid
  pi_role :: string
  pi_name :: "string option"
  pi_avatar :: "string option"

record conversation_request =
  cq_request :: uuid
  cq_status :: "string option"
  cq_participants :: "participant_input list"

definition find_conversation_id_by_request :: "chat_db \<Rightarrow> uuid \<Rightarrow> uuid option" where
  "find_conversation_id_by_request db request =
    map_option fst (find (\<lambda>(_, c). cv_request c = request) (ch_conversations db))"

definition insert_participant :: "uuid \<Rightarrow> participant_input \<Rightarrow> chat_db \<Rightarrow> chat_db" where
  "insert_participant conversation p db = db\<lparr>ch_participants := row_put (conversation, pi_user p)
     \<lparr>pt_role = pi_role p, pt_name = pi_name p, pt_avatar = pi_avatar p\<rparr> (ch_participants db)\<rparr>"

definition create_conversation :: "call_env \<Rightarrow> conversation_request \<Rightarrow> chat_db \<Rightarrow> ((uuid \<times> conversation) \<times> chat_db) app_result" where
  "create_conversation env req db =
    (if cq_participants req = [] then Inl (BadRequest ''At least one participant is required'')
     else if \<not> list_all (\<lambda>p. is_valid_role (pi_role p)) (cq_participants req)
     then Inl (BadRequest ''invalid participant role: {} (expected guard|customer)'')
     else (case find (\<lambda>(_, c). cv_request c = cq_request req) (ch_conversations db) of
         Some kc \<Rightarrow> Inr (kc, db)
       | None \<Rightarrow>
         if row_get (ch_conversations db) (fresh_row env) \<noteq> None then Inl (Database ''23505'')
         else let c = \<lparr>cv_request = cq_request req, cv_status = cq_status req, cv_created_at = tx_now env\<rparr>;
                  db' = db\<lparr>ch_conversations := row_put (fresh_row env) c (ch_conversations db)\<rparr>
           in Inr ((fresh_row env, c), fold (insert_participant (fresh_row env)) (cq_participants req) db')))"

definition members_of :: "chat_db \<Rightarrow> uuid \<Rightarrow> (uuid \<times> string) list" where
  "members_of db conversation = map (\<lambda>((_, u), p). (u, pt_role p))
     (filter (\<lambda>((c, _), _). c = conversation) (ch_participants db))"

definition is_participant :: "chat_db \<Rightarrow> uuid \<Rightarrow> uuid \<Rightarrow> bool" where
  "is_participant db conversation user = (row_get (ch_participants db) (conversation, user) \<noteq> None)"

definition is_attachment_participant :: "chat_db \<Rightarrow> uuid \<Rightarrow> uuid \<Rightarrow> bool" where
  "is_attachment_participant db k user = (case row_get (ch_attachments db) k of
     None \<Rightarrow> False | Some a \<Rightarrow> is_participant db (an_chat a) user)"

definition conversation_request_status :: "chat_db \<Rightarrow> uuid \<Rightarrow> string option app_result" where
  "conversation_request_status db conversation = (case row_get (ch_conversations db) conversation of
     None \<Rightarrow> Inl (NotFound ''Conversation not found'') | Some c \<Rightarrow> Inr (cv_status c))"

definition participant_conversation_ids :: "chat_db \<Rightarrow> uuid \<Rightarrow> uuid list" where
  "participant_conversation_ids db user = map (\<lambda>((c, _), _). c) (filter (\<lambda>((_, u), _). u = user) (ch_participants db))"

text \<open>Newest first; each message carries whether someone else has read up to it.\<close>

definition read_by_other :: "chat_db \<Rightarrow> chat_message \<Rightarrow> bool" where
  "read_by_other db m = list_ex (\<lambda>((c, u, _), r). c = ms_conversation m \<and> u \<noteq> ms_sender m \<and> ms_created_at m \<le> rr_read_at r)
     (ch_receipts db)"

definition list_messages :: "chat_db \<Rightarrow> uuid \<Rightarrow> int \<Rightarrow> int \<Rightarrow> (chat_message \<times> bool) list" where
  "list_messages db conversation limit offset =
    take (nat (max 1 (min limit 200))) (drop (nat (max offset 0)) (map (\<lambda>m. (m, read_by_other db m))
      (sort_key (\<lambda>m. - ms_created_at m) (filter (\<lambda>m. ms_conversation m = conversation) (ch_messages db)))))"

definition newest_message :: "chat_db \<Rightarrow> uuid \<Rightarrow> chat_message option" where
  "newest_message db conversation =
    (case sort_key (\<lambda>m. - ms_created_at m) (filter (\<lambda>m. ms_conversation m = conversation) (ch_messages db)) of
       [] \<Rightarrow> None | m # _ \<Rightarrow> Some m)"

definition unread_count :: "chat_db \<Rightarrow> uuid \<Rightarrow> uuid \<Rightarrow> string \<Rightarrow> nat" where
  "unread_count db conversation user acting_role =
    (let since = (case row_get (ch_receipts db) (conversation, user, acting_role) of Some r \<Rightarrow> rr_read_at r | None \<Rightarrow> 0)
     in length (filter (\<lambda>m. ms_conversation m = conversation \<and> counts_as_unread (Some (ms_role m)) acting_role
       \<and> since < ms_created_at m) (ch_messages db)))"

record enriched_conversation =
  ec_id :: uuid
  ec_conversation :: conversation
  ec_counterpart :: "(uuid \<times> participant) option"
  ec_last :: "chat_message option"
  ec_unread :: nat

definition counterpart_of :: "chat_db \<Rightarrow> uuid \<Rightarrow> string \<Rightarrow> (uuid \<times> participant) option" where
  "counterpart_of db conversation acting_role =
    (case sort_key fst (map (\<lambda>((_, u), p). (u, p))
        (filter (\<lambda>((c, _), p). c = conversation \<and> pt_role p \<noteq> acting_role) (ch_participants db))) of
       [] \<Rightarrow> None | x # _ \<Rightarrow> Some x)"

definition list_conversations :: "chat_db \<Rightarrow> uuid \<Rightarrow> string \<Rightarrow> enriched_conversation list" where
  "list_conversations db user acting_role =
    (let mine = filter (\<lambda>(k, _). map_option pt_role (row_get (ch_participants db) (k, user)) = Some acting_role)
           (ch_conversations db);
         rows = map (\<lambda>(k, c). \<lparr>ec_id = k, ec_conversation = c, ec_counterpart = counterpart_of db k acting_role,
           ec_last = newest_message db k, ec_unread = unread_count db k user acting_role\<rparr>) mine
     in sort_key (\<lambda>r. (case ec_last r of Some m \<Rightarrow> - ms_created_at m | None \<Rightarrow> 0))
          (filter (\<lambda>r. ec_last r \<noteq> None) rows) @ filter (\<lambda>r. ec_last r = None) rows)"

subsection \<open>Sending\<close>

record incoming_message =
  im_conversation :: uuid
  im_content :: "string option"
  im_type :: "message_type option"
  im_sender_role :: "string option"

definition CHAT_MESSAGE_SENT :: string where "CHAT_MESSAGE_SENT = ''pguard.events.chat.message_sent''"

definition message_payload :: "chat_message \<Rightarrow> uuid \<Rightarrow> payload" where
  "message_payload m recipient =
    [(''message_id'', JUuid (ms_id m)), (''conversation_id'', JUuid (ms_conversation m)), (''sender_id'', JUuid (ms_sender m)),
     (''recipient_id'', JUuid recipient), (''message_type'', JStr (message_type_text (ms_type m)))]"

definition enqueue_message_sent :: "call_env \<Rightarrow> chat_message \<Rightarrow> uuid \<Rightarrow> chat_db \<Rightarrow> chat_db" where
  "enqueue_message_sent env m recipient db =
    db\<lparr>ch_outbox := outbox_append env CHAT_MESSAGE_SENT (message_payload m recipient) (ch_outbox db)\<rparr>"

text \<open>The row and, when the conversation has someone else in it, the event to the first of them.\<close>

definition post_message :: "call_env \<Rightarrow> chat_message \<Rightarrow> (uuid \<times> string) list \<Rightarrow> chat_db \<Rightarrow> chat_db" where
  "post_message env m members db =
    (let db' = db\<lparr>ch_messages := ch_messages db @ [m]\<rparr> in
     (case find (\<lambda>(u, _). u \<noteq> ms_sender m) members of
        Some (recipient, _) \<Rightarrow> enqueue_message_sent env m recipient db' | None \<Rightarrow> db'))"

definition new_message :: "call_env \<Rightarrow> uuid \<Rightarrow> uuid \<Rightarrow> string \<Rightarrow> string option \<Rightarrow> message_type \<Rightarrow> chat_message" where
  "new_message env conversation sender role content ty =
    \<lparr>ms_id = fresh_row env, ms_conversation = conversation, ms_sender = sender, ms_role = role, ms_content = content,
     ms_type = ty, ms_created_at = tx_now env\<rparr>"

definition message_id_taken :: "chat_db \<Rightarrow> uuid \<Rightarrow> bool" where
  "message_id_taken db k = list_ex (\<lambda>m. ms_id m = k) (ch_messages db)"

definition read_only :: app_error where "read_only = Conflict ''Conversation is read-only (booking completed/cancelled)''"

definition send_message :: "call_env \<Rightarrow> uuid \<Rightarrow> incoming_message \<Rightarrow> chat_db \<Rightarrow> (chat_message \<times> chat_db) app_result" where
  "send_message env sender msg db =
    (case row_get (ch_conversations db) (im_conversation msg) of
       None \<Rightarrow> Inl (NotFound ''Conversation not found'')
     | Some conv \<Rightarrow>
       let members = members_of db (im_conversation msg) in
       (case find (\<lambda>(u, _). u = sender) members of
          None \<Rightarrow> Inl (Forbidden ''Not a participant of this conversation'')
        | Some (_, role) \<Rightarrow>
          if \<not> is_writable (cv_status conv) then Inl read_only
          else let ty = (case im_type msg of Some t \<Rightarrow> t | None \<Rightarrow> MsgText) in
            if ty = MsgSystem then Inl (BadRequest ''system messages are server-generated'')
            else if message_id_taken db (fresh_row env) then Inl (Database ''23505'')
            else let m = new_message env (im_conversation msg) sender role (im_content msg) ty
              in Inr (m, post_message env m members db)))"

definition insert_call_summary_idempotent :: "call_env \<Rightarrow> uuid \<Rightarrow> string \<Rightarrow> uuid \<Rightarrow> uuid \<Rightarrow> string \<Rightarrow> chat_db
    \<Rightarrow> (bool \<times> chat_db) app_result" where
  "insert_call_summary_idempotent env event_id event_type conversation caller summary db =
    (if event_id \<in> fst ` set (ch_processed db) then Inr (False, db)
     else let db1 = db\<lparr>ch_processed := ch_processed db @ [(event_id, event_type)]\<rparr>;
              members = members_of db1 conversation in
       (case (case find (\<lambda>(u, _). u = caller) members of
             Some (_, r) \<Rightarrow> Some r | None \<Rightarrow> (case members of [] \<Rightarrow> None | (_, r) # _ \<Rightarrow> Some r)) of
          None \<Rightarrow> Inl (Internal ''call-summary target conversation has no participants'')
        | Some role \<Rightarrow>
          if message_id_taken db (fresh_row env) then Inl (Database ''23505'')
          else let m = new_message env conversation caller role (Some summary) MsgSystem
            in Inr (True, post_message env m members db1)))"

definition mark_read_at :: "call_env \<Rightarrow> uuid \<Rightarrow> uuid \<Rightarrow> string \<Rightarrow> chat_db \<Rightarrow> (unit \<times> chat_db) app_result" where
  "mark_read_at env conversation user role db =
    (if row_get (ch_conversations db) conversation = None then Inl (Database ''23503'')
     else Inr ((), db\<lparr>ch_receipts := row_put (conversation, user, role)
       \<lparr>rr_last = map_option ms_id (newest_message db conversation), rr_read_at = tx_now env\<rparr> (ch_receipts db)\<rparr>))"

definition save_attachment :: "call_env \<Rightarrow> attachment \<Rightarrow> chat_db \<Rightarrow> ((uuid \<times> attachment) \<times> chat_db) app_result" where
  "save_attachment env a db =
    (if row_get (ch_conversations db) (an_chat a) = None then Inl (Database ''23503'')
     else if row_get (ch_attachments db) (fresh_row env) \<noteq> None then Inl (Database ''23505'')
     else Inr ((fresh_row env, a), db\<lparr>ch_attachments := row_put (fresh_row env) a (ch_attachments db)\<rparr>))"

definition find_attachment :: "chat_db \<Rightarrow> uuid \<Rightarrow> (uuid \<times> attachment) app_result" where
  "find_attachment db k = (case row_get (ch_attachments db) k of
     None \<Rightarrow> Inl (NotFound ''Attachment not found'') | Some a \<Rightarrow> Inr (k, a))"

definition get_attachments_by_ids :: "chat_db \<Rightarrow> uuid list \<Rightarrow> (uuid \<times> attachment) list" where
  "get_attachments_by_ids db ids = filter (\<lambda>(k, _). k \<in> set ids) (ch_attachments db)"

definition set_request_status :: "uuid \<Rightarrow> string \<Rightarrow> chat_db \<Rightarrow> chat_db" where
  "set_request_status request status db = db\<lparr>ch_conversations := map (\<lambda>(k, c).
     (k, if cv_request c = request then c\<lparr>cv_status := Some status\<rparr> else c)) (ch_conversations db)\<rparr>"

end
