(* ===== verification/Chat_Api.thy ===== *)
theory Chat_Api
  imports Chat_Service
begin

text \<open>
  The handlers of the chat service (\<open>services/chat/src/api/mod.rs\<close>), the session of a socket
  (\<open>api/ws.rs\<close>) and the consumers of call and booking events (\<open>events/consumer.rs\<close>). The state is the
  tables, the stored objects, and the log of the messages published to the sockets.
\<close>

record chat_env =
  ce_call :: call_env
  ce_object :: uuid
  ce_put_ok :: bool
  ce_read :: booking_reader

record chat_state =
  cs_db :: chat_db
  cs_objects :: objects
  cs_published :: "chat_message list"

definition chat_tx :: "(chat_db \<Rightarrow> ('a \<times> chat_db) app_result) \<Rightarrow> (chat_state, 'a) act" where
  "chat_tx t s = (case t (cs_db s) of Inl e \<Rightarrow> (s, Inl e) | Inr (x, db) \<Rightarrow> (s\<lparr>cs_db := db\<rparr>, Inr x))"

definition chat_read :: "(chat_db \<Rightarrow> 'a app_result) \<Rightarrow> (chat_state, 'a) act" where
  "chat_read f s = (s, f (cs_db s))"

definition CHAT_ROLE_ADMIN :: string where "CHAT_ROLE_ADMIN = ''admin''"
definition CHAT_ROLE_CUSTOMER :: string where "CHAT_ROLE_CUSTOMER = ''customer''"
definition CHAT_ROLE_GUARD :: string where "CHAT_ROLE_GUARD = ''guard''"
definition CHAT_DEFAULT_LIMIT :: int where "CHAT_DEFAULT_LIMIT = 50"

definition chat_acting_role :: "string option \<Rightarrow> auth_user \<Rightarrow> string" where
  "chat_acting_role query user =
    (if au_role user = CHAT_ROLE_ADMIN then (case query of Some r \<Rightarrow> r | None \<Rightarrow> au_role user) else au_role user)"

subsection \<open>Conversations\<close>

definition denorm :: "participant_input list \<Rightarrow> uuid \<Rightarrow> string \<Rightarrow> participant_input" where
  "denorm client user role =
    (let hint = find (\<lambda>p. pi_user p = user) client in
     \<lparr>pi_user = user, pi_role = role,
      pi_name = obind hint pi_name, pi_avatar = obind hint pi_avatar\<rparr>)"

definition authoritative_participants :: "booking_view \<Rightarrow> participant_input list \<Rightarrow> participant_input list" where
  "authoritative_participants booking client =
    denorm client (bv_customer booking) CHAT_ROLE_CUSTOMER
    # (case bv_guard booking of None \<Rightarrow> [] | Some g \<Rightarrow> [denorm client g CHAT_ROLE_GUARD])"

definition not_a_party :: app_error where "not_a_party = Forbidden ''You must be a party of this booking''"

definition api_create_conversation :: "chat_env \<Rightarrow> auth_user \<Rightarrow> conversation_request
    \<Rightarrow> (chat_state, uuid \<times> conversation) act" where
  "api_create_conversation env user req =
    (if au_role user = CHAT_ROLE_ADMIN then chat_tx (create_conversation (ce_call env) req)
     else act_bind (act_of (case ce_read env (cq_request req) of
         Inr b \<Rightarrow> Inr b | Inl (NotFound m) \<Rightarrow> Inl not_a_party | Inl e \<Rightarrow> Inl e)) (\<lambda>booking.
       act_bind (act_guard (au_id user = bv_customer booking \<or> bv_guard booking = Some (au_id user)) not_a_party) (\<lambda>_.
       chat_tx (create_conversation (ce_call env) \<lparr>cq_request = cq_request req, cq_status = Some (bv_status booking),
         cq_participants = authoritative_participants booking (cq_participants req)\<rparr>))))"

definition api_list_conversations :: "auth_user \<Rightarrow> string option \<Rightarrow> (chat_state, enriched_conversation list) act" where
  "api_list_conversations user query =
    chat_read (\<lambda>db. Inr (list_conversations db (au_id user) (chat_acting_role query user)))"

definition require_participant :: "uuid \<Rightarrow> auth_user \<Rightarrow> (chat_state, unit) act" where
  "require_participant conversation user =
    (if au_role user = CHAT_ROLE_ADMIN then act_return ()
     else chat_read (\<lambda>db. ensure (is_participant db conversation (au_id user))
       (Forbidden ''You are not a participant of this conversation'')))"

definition api_list_messages :: "auth_user \<Rightarrow> uuid \<Rightarrow> int option \<Rightarrow> int option \<Rightarrow> (chat_state, (chat_message \<times> bool) list) act" where
  "api_list_messages user conversation limit offset =
    act_bind (require_participant conversation user) (\<lambda>_.
    chat_read (\<lambda>db. Inr (list_messages db conversation (case limit of Some n \<Rightarrow> n | None \<Rightarrow> CHAT_DEFAULT_LIMIT)
      (case offset of Some n \<Rightarrow> n | None \<Rightarrow> 0))))"

subsection \<open>What an administrator sees\<close>

record attachment_view =
  av_id :: uuid
  av_url :: string
  av_mime :: string
  av_size :: int
  av_is_video :: bool

record admin_message =
  am_message :: chat_message
  am_kind :: string
  am_text :: "string option"
  am_attachment :: "attachment_view option"
  am_attachment_id :: "string option"
  am_call :: "call_summary option"

definition is_media_type :: "message_type \<Rightarrow> bool" where "is_media_type t = (t \<in> {MsgImage, MsgVideo})"

definition view_attachment :: "s3_lib \<Rightarrow> s3_client \<Rightarrow> instant \<Rightarrow> uuid \<Rightarrow> attachment \<Rightarrow> attachment_view" where
  "view_attachment L C now k a = \<lparr>av_id = k, av_url = download_url L C now (an_key a), av_mime = an_mime a,
     av_size = an_size a, av_is_video = is_video_mime (an_mime a)\<rparr>"

definition attached :: "chat_lib \<Rightarrow> chat_message \<Rightarrow> uuid option" where
  "attached X m = obind (ms_content m) (ct_uuid X)"

definition enrich_message :: "chat_lib \<Rightarrow> s3_lib \<Rightarrow> s3_client \<Rightarrow> instant \<Rightarrow> (uuid \<times> attachment) list \<Rightarrow> chat_message
    \<Rightarrow> admin_message" where
  "enrich_message X L C now by_id m =
    (let base = \<lparr>am_message = m, am_kind = message_type_text (ms_type m), am_text = None, am_attachment = None,
           am_attachment_id = None, am_call = None\<rparr> in
     (case ms_type m of
        MsgText \<Rightarrow> base\<lparr>am_text := ms_content m\<rparr>
      | MsgSystem \<Rightarrow> (case obind (ms_content m) (parse_call_summary X) of
          None \<Rightarrow> base | Some s \<Rightarrow> base\<lparr>am_kind := ''call-event'', am_call := Some s\<rparr>)
      | _ \<Rightarrow> base\<lparr>am_attachment_id := ms_content m,
          am_attachment := obind (attached X m) (\<lambda>k. map_option (view_attachment L C now k) (map_of by_id k))\<rparr>))"

definition admin_list_messages :: "chat_lib \<Rightarrow> s3_lib \<Rightarrow> s3_client \<Rightarrow> chat_env \<Rightarrow> auth_user \<Rightarrow> uuid \<Rightarrow> int option \<Rightarrow> int option
    \<Rightarrow> (chat_state, admin_message list) act" where
  "admin_list_messages X L C env user conversation limit offset =
    act_bind (act_guard (au_role user = CHAT_ROLE_ADMIN) (Forbidden ''This action requires the admin role'')) (\<lambda>_.
    chat_read (\<lambda>db.
      let ms = map fst (list_messages db conversation (case limit of Some n \<Rightarrow> n | None \<Rightarrow> CHAT_DEFAULT_LIMIT)
             (case offset of Some n \<Rightarrow> n | None \<Rightarrow> 0));
          ids = List.map_filter (attached X) (filter (\<lambda>m. is_media_type (ms_type m)) ms)
      in Inr (map (enrich_message X L C (utc_now (ce_call env)) (get_attachments_by_ids db ids)) ms)))"

subsection \<open>Receipts and attachments\<close>

definition api_mark_read :: "chat_env \<Rightarrow> auth_user \<Rightarrow> uuid \<Rightarrow> string option \<Rightarrow> (chat_state, unit) act" where
  "api_mark_read env user conversation query =
    act_bind (require_participant conversation user) (\<lambda>_.
    chat_tx (mark_read_at (ce_call env) conversation (au_id user) (chat_acting_role query user)))"

fun upload_parts :: "chat_lib \<Rightarrow> uuid option \<Rightarrow> string option \<Rightarrow> string option \<Rightarrow> multipart
    \<Rightarrow> (uuid option \<times> string option \<times> string option) app_result" where
  "upload_parts X conv mime file [] = Inr (conv, mime, file)"
| "upload_parts X conv mime file (None # ps) = Inl broken_form"
| "upload_parts X conv mime file (Some p # ps) =
    (if fp_name p = Some ''conversation_id'' then (case fp_text p of
         None \<Rightarrow> Inl (BadRequest ''Invalid conversation_id: {e}'')
       | Some t \<Rightarrow> (case ct_uuid X t of
           None \<Rightarrow> Inl (BadRequest ''Invalid UUID: {e}'') | Some k \<Rightarrow> upload_parts X (Some k) mime file ps))
     else if fp_name p = Some ''file'' then (case fp_bytes p of
         None \<Rightarrow> Inl broken_file
       | Some b \<Rightarrow> upload_parts X conv (fp_content_type p) (Some b) ps)
     else upload_parts X conv mime file ps)"

definition need :: "app_error \<Rightarrow> 'a option \<Rightarrow> ('s, 'a) act" where
  "need e v = act_of (case v of None \<Rightarrow> Inl e | Some x \<Rightarrow> Inr x)"

definition put_attachment :: "chat_env \<Rightarrow> string \<Rightarrow> string \<Rightarrow> (chat_state, unit) act" where
  "put_attachment env key data s = (case s3_upload (ce_put_ok env) key data (cs_objects s) of
     Inl e \<Rightarrow> (s, Inl e) | Inr (_, os) \<Rightarrow> (s\<lparr>cs_objects := os\<rparr>, Inr ()))"

definition upload_attachment :: "chat_lib \<Rightarrow> s3_lib \<Rightarrow> s3_client \<Rightarrow> chat_env \<Rightarrow> auth_user \<Rightarrow> multipart
    \<Rightarrow> (chat_state, uuid \<times> attachment) act" where
  "upload_attachment X L C env user form =
    act_bind (act_of (upload_parts X None None None form)) (\<lambda>(conv0, mime0, file0).
    act_bind (need (BadRequest ''conversation_id is required'') conv0) (\<lambda>conversation.
    act_bind (need (BadRequest ''file is required'') file0) (\<lambda>data.
    act_bind (require_participant conversation user) (\<lambda>_.
    act_bind (chat_read (\<lambda>db. conversation_request_status db conversation)) (\<lambda>status.
    act_bind (act_guard (is_writable status) read_only) (\<lambda>_.
    act_bind (act_of (validate_upload (mime_or_default mime0) (length data) data)) (\<lambda>mime.
    act_bind (act_guard (fits_int4 (int (length data))) (BadRequest ''File too large'')) (\<lambda>_.
    (let key = ''chat/'' @ uuid_text conversation @ ''/'' @ uuid_text (ce_object env) @ ''.'' @ attachment_extension mime;
         url = download_url L C (utc_now (ce_call env)) key in
     act_bind (put_attachment env key data) (\<lambda>_.
     chat_tx (save_attachment (ce_call env) \<lparr>an_chat = conversation, an_uploader = au_id user, an_key = key, an_url = url,
       an_size = int (length data), an_mime = mime, an_created_at = tx_now (ce_call env)\<rparr>)))))))))))"

definition api_get_attachment :: "s3_lib \<Rightarrow> s3_client \<Rightarrow> chat_env \<Rightarrow> auth_user \<Rightarrow> uuid \<Rightarrow> (chat_state, attachment_view) act" where
  "api_get_attachment L C env user k =
    act_bind (if au_role user = CHAT_ROLE_ADMIN then act_return ()
        else chat_read (\<lambda>db. ensure (is_attachment_participant db k (au_id user))
          (Forbidden ''You do not have access to this attachment''))) (\<lambda>_.
    act_bind (chat_read (\<lambda>db. find_attachment db k)) (\<lambda>(k, a).
    act_return (view_attachment L C (utc_now (ce_call env)) k a)))"

definition internal_set_request_status :: "uuid \<Rightarrow> string \<Rightarrow> (chat_state, unit) act" where
  "internal_set_request_status request status = act_modify (\<lambda>s. s\<lparr>cs_db := set_request_status request status (cs_db s)\<rparr>)"

definition persist_and_broadcast :: "chat_env \<Rightarrow> auth_user \<Rightarrow> incoming_message \<Rightarrow> (chat_state, chat_message) act" where
  "persist_and_broadcast env sender frame =
    act_bind (chat_tx (send_message (ce_call env) (au_id sender) frame)) (\<lambda>m.
    act_bind (act_modify (\<lambda>s. s\<lparr>cs_published := cs_published s @ [m]\<rparr>)) (\<lambda>_. act_return m))"

subsection \<open>Consumers\<close>

text \<open>The fields a summary needs; a wrong type or a missing field makes the event poison.\<close>

record call_ended =
  ce_booking :: uuid
  ce_caller :: uuid
  ce_type :: string
  ce_status :: string
  ce_seconds :: "int option"
  ce_answered :: bool
  ce_reason :: "string option"

definition optional_at :: "(json \<Rightarrow> 'a option) \<Rightarrow> payload \<Rightarrow> string \<Rightarrow> 'a option option" where
  "optional_at f p k = (case jget p k of
     None \<Rightarrow> Some None | Some JNull \<Rightarrow> Some None | Some v \<Rightarrow> map_option Some (f v))"

definition int4_json :: "json \<Rightarrow> int option" where
  "int4_json v = (case v of JInt d \<Rightarrow> if fits_int4 d then Some d else None | _ \<Rightarrow> None)"

definition text_json :: "json \<Rightarrow> string option" where "text_json v = (case v of JStr s \<Rightarrow> Some s | _ \<Rightarrow> None)"

definition read_call_ended :: "payload \<Rightarrow> call_ended option" where
  "read_call_ended p =
    (case (uuid_at p ''call_id'', uuid_at p ''booking_id'', uuid_at p ''caller_id'', uuid_at p ''callee_id'') of
       (Some _, Some booking, Some caller, Some _) \<Rightarrow>
         (case (text_at p ''call_type'', text_at p ''status'', optional_at int4_json p ''duration_seconds'',
             optional_at Some p ''answered_at'', optional_at text_json p ''end_reason'') of
            (Some ty, Some status, Some secs, Some answered, Some reason) \<Rightarrow>
              Some \<lparr>ce_booking = booking, ce_caller = caller, ce_type = ty, ce_status = status, ce_seconds = secs,
                ce_answered = (answered \<noteq> None), ce_reason = reason\<rparr>
          | _ \<Rightarrow> None)
     | _ \<Rightarrow> None)"

definition create_conversation_for_booking :: "chat_env \<Rightarrow> uuid \<Rightarrow> (chat_state, uuid) act" where
  "create_conversation_for_booking env booking_id =
    act_bind (act_of (ce_read env booking_id)) (\<lambda>b.
    act_bind (chat_tx (create_conversation (ce_call env) \<lparr>cq_request = booking_id, cq_status = Some (bv_status b),
      cq_participants = authoritative_participants b []\<rparr>)) (\<lambda>(k, _). act_return k))"

definition post_summary :: "chat_env \<Rightarrow> uuid \<Rightarrow> string \<Rightarrow> call_ended \<Rightarrow> (chat_state, bool) act" where
  "post_summary env event_id event_type p =
    (let content = summary_content (summary_of_call (ce_type p) (ce_status p) (ce_reason p) (ce_answered p) (ce_seconds p)) in
     act_bind (chat_read (\<lambda>db. Inr (find_conversation_id_by_request db (ce_booking p)))) (\<lambda>found.
     act_bind (case found of Some k \<Rightarrow> act_return k | None \<Rightarrow> create_conversation_for_booking env (ce_booking p)) (\<lambda>k.
     chat_tx (insert_call_summary_idempotent (ce_call env) event_id event_type k (ce_caller p) content))))"

text \<open>A poison event and an event that is no end of a call are acknowledged; an error is delivered again.\<close>

definition consume_calling :: "chat_env \<Rightarrow> envelope \<Rightarrow> (chat_state, unit) act" where
  "consume_calling env e = (case read_call_ended (ev_payload e) of
     None \<Rightarrow> act_return ()
   | Some p \<Rightarrow>
     if ev_type e \<noteq> CALLING_ENDED \<and> ev_type e \<noteq> CALLING_REJECTED then act_return ()
     else act_bind (post_summary env (ev_id e) (ev_type e) p) (\<lambda>_. act_return ()))"

definition consume_booking_status :: "envelope \<Rightarrow> (chat_state, unit) act" where
  "consume_booking_status e = (case uuid_at (ev_payload e) ''booking_id'' of
     None \<Rightarrow> act_return ()
   | Some b \<Rightarrow>
     if ev_type e = BOOKING_COMPLETED then internal_set_request_status b ''completed''
     else if ev_type e = BOOKING_CANCELLED then internal_set_request_status b ''cancelled''
     else act_return ())"

definition drain_chat :: "(outbox_row \<Rightarrow> bool) \<Rightarrow> instant \<Rightarrow> chat_state \<times> envelope list \<Rightarrow> chat_state \<times> envelope list" where
  "drain_chat sends now s = (case relay_pass sends now (ch_outbox (cs_db (fst s)), snd s) of
     (rows, sent) \<Rightarrow> ((fst s)\<lparr>cs_db := (cs_db (fst s))\<lparr>ch_outbox := rows\<rparr>\<rparr>, sent))"

subsection \<open>The session of a socket\<close>

text \<open>
  The rooms a socket may see are fetched when it opens and at every check of its token; sending to a
  conversation adds it. A frame over the budget closes the session; the budget is a float and its verdict
  comes with the frame. A failed fetch of the rooms leaves them as they are.
\<close>

datatype chat_frame = EchoFrame chat_message | ForwardFrame chat_message | ErrorFrame "string option" string | CloseFrame | PingFrame

record chat_session =
  se_user :: auth_user
  se_rooms :: "uuid list"
  se_sent :: "chat_frame list"
  se_open :: bool

datatype session_event =
    Inbound bool "incoming_message option"
  | Broadcast "chat_message option"
  | TokenCheck bool bool

definition err_code :: "app_error \<Rightarrow> string option" where
  "err_code e = (case e of Conflict _ \<Rightarrow> Some ''read_only'' | _ \<Rightarrow> None)"

definition client_safe_message :: "app_error \<Rightarrow> string" where
  "client_safe_message e = (case e of
     Database _ \<Rightarrow> ''An internal error occurred'' | Redis _ \<Rightarrow> ''An internal error occurred'' | _ \<Rightarrow> error_display e)"

definition session_admin :: "chat_session \<Rightarrow> bool" where
  "session_admin se = (au_role (se_user se) = CHAT_ROLE_ADMIN)"

definition open_session :: "bool \<Rightarrow> auth_user \<Rightarrow> chat_db \<Rightarrow> chat_session" where
  "open_session db_up user db = \<lparr>se_user = user,
     se_rooms = (if au_role user = CHAT_ROLE_ADMIN \<or> \<not> db_up then [] else participant_conversation_ids db (au_id user)),
     se_sent = [], se_open = True\<rparr>"

definition say :: "chat_frame \<Rightarrow> chat_session \<Rightarrow> chat_session" where
  "say f se = se\<lparr>se_sent := se_sent se @ [f]\<rparr>"

definition hang_up :: "chat_session \<Rightarrow> chat_session" where "hang_up se = (say CloseFrame se)\<lparr>se_open := False\<rparr>"

definition session_step :: "chat_env \<Rightarrow> session_event \<Rightarrow> chat_state \<times> chat_session \<Rightarrow> chat_state \<times> chat_session" where
  "session_step env ev ss = (case ss of (s, se) \<Rightarrow>
    if \<not> se_open se then (s, se)
    else (case ev of
      Inbound within_budget frame \<Rightarrow>
        if \<not> within_budget then (s, hang_up se)
        else (case frame of
            None \<Rightarrow> (s, say (ErrorFrame None ''invalid message: {e}'') se)
          | Some f \<Rightarrow> (case persist_and_broadcast env (se_user se) f s of
              (s', Inr m) \<Rightarrow> (s', say (EchoFrame m) (se\<lparr>se_rooms := im_conversation f # se_rooms se\<rparr>))
            | (s', Inl e) \<Rightarrow> (s', say (ErrorFrame (err_code e) (client_safe_message e)) se)))
    | Broadcast None \<Rightarrow> (s, se)
    | Broadcast (Some m) \<Rightarrow>
        if ms_sender m = au_id (se_user se) then (s, se)
        else if \<not> session_admin se \<and> ms_conversation m \<notin> set (se_rooms se) then (s, se)
        else (s, say (ForwardFrame m) se)
    | TokenCheck valid db_up \<Rightarrow>
        if \<not> valid then (s, hang_up se)
        else (s, say PingFrame (if \<not> session_admin se \<and> db_up
            then se\<lparr>se_rooms := participant_conversation_ids (cs_db s) (au_id (se_user se))\<rparr> else se))))"

end
