(* ===== verification/Calling_Properties.thy ===== *)
theory Calling_Properties
  imports Calling_Service
begin

text \<open>
  What the call service keeps over every sequence of its calls: a row tells a possible story of a call
  and has announced its end exactly when it ended, nobody is rung twice within half a minute, and a
  signal only goes from one person of a call to the other.
\<close>

subsection \<open>Runs\<close>

datatype calling_call =
    Dial booking_reader auth_user uuid "string option"
  | Accept auth_user uuid
  | Reject auth_user uuid
  | MediaUp auth_user uuid
  | HangUp auth_user uuid "string option"
  | Relay "outbox_row \<Rightarrow> bool"

fun calling_step :: "call_env \<times> calling_call \<Rightarrow> calling_db \<Rightarrow> calling_db" where
  "calling_step (env, Dial read user b ty) db = fst (initiate_call env read user b ty db)"
| "calling_step (env, Accept user k) db = fst (accept_call env user k db)"
| "calling_step (env, Reject user k) db = fst (reject_call env user k db)"
| "calling_step (env, MediaUp user k) db = fst (connected_call env user k db)"
| "calling_step (env, HangUp user k reason) db = fst (end_call env user k reason db)"
| "calling_step (env, Relay sends) db = fst (drain_calling sends (utc_now env) (db, []))"

definition empty_calling_db :: calling_db where "empty_calling_db = \<lparr>ca_calls = [], ca_outbox = []\<rparr>"

text \<open>A property of the tables that each of the three writes keeps, every run keeps.\<close>

locale calling_invariant =
  fixes P :: "calling_db \<Rightarrow> bool"
  assumes dial: "P db \<Longrightarrow> initiate env caller callee b ty db = Inr (x, db') \<Longrightarrow> P db'"
    and act: "P db \<Longrightarrow> apply_transition env k actor a db = Inr (x, db') \<Longrightarrow> P db'"
    and relay: "P db \<Longrightarrow> map ob_envelope rows = map ob_envelope (ca_outbox db)
      \<Longrightarrow> P (db\<lparr>ca_outbox := rows\<rparr>)"
begin

lemma tx_keeps: "P db \<Longrightarrow> (\<And>x db'. t db = Inr (x, db') \<Longrightarrow> P db') \<Longrightarrow> P (fst (act_tx t db))"
  by (auto simp: act_tx_def split: sum.splits)

lemma dial_keeps: "P db \<Longrightarrow> P (fst (initiate_call env read user b ty db))"
proof -
  assume P: "P db"
  have "keeps P (initiate_call env read user b ty)"
    unfolding initiate_call_def Let_def
    by (intro keeps_intros keeps_tx) (rule dial)
  then show ?thesis using P by (rule keepsD)
qed

end

context calling_invariant begin

lemma step_keeps: "P db \<Longrightarrow> P (calling_step x db)"
proof -
  assume "P db"
  obtain env c where "x = (env, c)" by (cases x)
  then show ?thesis
    using \<open>P db\<close>
    by (cases c) (auto simp: accept_call_def reject_call_def connected_call_def end_call_def drain_calling_def relay_pass_def
    relay_keeps_envelopes case_prod_beta intro: dial_keeps tx_keeps act relay)
qed

lemma run_keeps: "P db \<Longrightarrow> P (fold calling_step xs db)"
  by (induction xs arbitrary: db) (auto intro: step_keeps)

end

subsection \<open>The story of a call\<close>

definition call_ok :: "call_row \<Rightarrow> bool" where
  "call_ok c = ((case cl_status c of
     Initiated \<Rightarrow> cl_answered_at c = None \<and> cl_ended_at c = None \<and> cl_duration c = None \<and> cl_end_reason c = None
   | CallAccepted \<Rightarrow> cl_answered_at c \<noteq> None \<and> cl_ended_at c = None \<and> cl_duration c = None \<and> cl_end_reason c = None
   | Connected \<Rightarrow> cl_answered_at c \<noteq> None \<and> cl_ended_at c = None \<and> cl_duration c = None \<and> cl_end_reason c = None
   | Ended \<Rightarrow> cl_answered_at c \<noteq> None \<and> cl_ended_at c \<noteq> None \<and> cl_end_reason c \<noteq> None
       \<and> (case cl_duration c of Some d \<Rightarrow> 0 \<le> d \<and> fits_int4 d | None \<Rightarrow> False)
   | CallRejected \<Rightarrow> cl_answered_at c = None \<and> cl_ended_at c \<noteq> None \<and> cl_duration c = None
       \<and> cl_end_reason c = Some ''rejected_by_callee''
   | Missed \<Rightarrow> cl_answered_at c = None \<and> cl_ended_at c \<noteq> None \<and> cl_duration c = None \<and> cl_end_reason c \<noteq> None)
   \<and> cl_type c \<in> {''audio'', ''video''})"

definition ends_call :: "uuid \<Rightarrow> envelope \<Rightarrow> bool" where
  "ends_call k e = (ev_type e \<in> {CALLING_ENDED, CALLING_REJECTED} \<and> jget (ev_payload e) ''call_id'' = Some (JUuid k))"

definition end_events :: "calling_db \<Rightarrow> uuid \<Rightarrow> (string \<times> payload) list" where
  "end_events db k = map (\<lambda>e. (ev_type e, ev_payload e)) (filter (ends_call k) (map ob_envelope (ca_outbox db)))"

definition end_topic :: "call_status \<Rightarrow> string" where
  "end_topic s = (if s = CallRejected then CALLING_REJECTED else CALLING_ENDED)"

definition told :: "calling_db \<Rightarrow> uuid \<Rightarrow> bool" where
  "told db k = (case row_get (ca_calls db) k of
     None \<Rightarrow> end_events db k = []
   | Some c \<Rightarrow> call_ok c
       \<and> end_events db k = (if call_is_terminal (cl_status c) then [(end_topic (cl_status c), call_payload k c)] else []))"

definition calls_coherent :: "calling_db \<Rightarrow> bool" where
  "calls_coherent db = (\<forall>k. told db k)"

lemma calling_topics [simp]:
  "CALLING_INITIATED \<noteq> CALLING_ENDED" "CALLING_INITIATED \<noteq> CALLING_REJECTED"
  "CALLING_ACCEPTED \<noteq> CALLING_ENDED" "CALLING_ACCEPTED \<noteq> CALLING_REJECTED"
  by (simp_all add: CALLING_INITIATED_def CALLING_ACCEPTED_def CALLING_ENDED_def CALLING_REJECTED_def)

lemma call_payload_id [simp]: "jget (call_payload k c) ''call_id'' = Some (JUuid k)"
  by (simp add: call_payload_def jget_def)

lemma end_events_enqueue:
  "end_events (enqueue_call_event env t k c db) j = end_events db j
    @ (if t \<in> {CALLING_ENDED, CALLING_REJECTED} \<and> j = k then [(t, call_payload k c)] else [])"
  by (auto simp: end_events_def enqueue_call_event_def outbox_append_def ends_call_def new_envelope_def)

lemma calls_frame [simp]:
  "ca_calls (enqueue_call_event env t k c db) = ca_calls db" "ca_calls (put_call k c db) = row_put k c (ca_calls db)"
  "end_events (put_call k c db) j = end_events db j"
  by (simp_all add: enqueue_call_event_def put_call_def end_events_def)

text \<open>What an action that succeeds does.\<close>

lemma apply_transitionE:
  assumes "apply_transition env k actor a db = Inr (x, db')"
  obtains c target topic reason where "row_get (ca_calls db) k = Some c" "actor = cl_caller c \<or> actor = cl_callee c"
    "action_target actor c a = Inr (target, topic, reason)" "call_can_transition (cl_status c) target"
    "\<not> duration_overflows (tx_now env) target c" "x = (k, moved_call (tx_now env) target reason c)"
    "db' = (let m = moved_call (tx_now env) target reason c; d = put_call k m db
      in case topic of None \<Rightarrow> d | Some t \<Rightarrow> enqueue_call_event env t k m d)"
  using assms by (auto simp: apply_transition_def Let_def split: option.splits if_splits sum.splits)

lemma action_targets:
  "action_target actor c a = Inr (target, topic, reason) \<Longrightarrow>
    (target, topic) \<in> {(CallAccepted, Some CALLING_ACCEPTED), (Connected, None)} \<and> reason = None
    \<or> target = CallRejected \<and> topic = Some CALLING_REJECTED \<and> reason = Some ''rejected_by_callee''
    \<or> end_target (cl_status c) = Some target \<and> target \<in> {Ended, Missed} \<and> topic = Some CALLING_ENDED \<and> reason \<noteq> None"
  by (cases a; cases "cl_status c") (auto simp: action_target_def end_target_def split: if_splits)

lemma moved_ok:
  assumes ok: "call_ok c" and t: "action_target actor c a = Inr (target, topic, reason)"
    and legal: "call_can_transition (cl_status c) target" and fits: "\<not> duration_overflows now target c"
  shows "call_ok (moved_call now target reason c)"
  using ok legal fits action_targets [OF t]
  by (cases "cl_status c"; cases "cl_answered_at c"; cases target)
    (auto simp: call_ok_def call_can_transition_def call_is_terminal_def moved_call_def call_duration_def
      duration_overflows_def fits_int4_def)

lemma moved_status [simp]: "cl_status (moved_call now target reason c) = target"
  by (simp add: moved_call_def)

lemma told_other:
  assumes "row_get (ca_calls db') j = row_get (ca_calls db) j" "end_events db' j = end_events db j" "told db j"
  shows "told db' j"
  using assms by (auto simp: told_def split: option.splits)

lemma dialled_coherent:
  assumes "calls_coherent db" "initiate env caller callee b ty db = Inr (x, db')"
  shows "calls_coherent db'"
proof -
  let ?k = "fresh_row env"
  have e: "row_get (ca_calls db) ?k = None" "ty \<in> {''audio'', ''video''}"
      "db' = enqueue_call_event env CALLING_INITIATED ?k (new_call (tx_now env) caller callee b ty)
        (put_call ?k (new_call (tx_now env) caller callee b ty) db)"
    using assms(2) by (auto simp: initiate_def Let_def split: if_splits)
  have "told db' j" for j
  proof (cases "j = ?k")
    case True
    have "told db ?k" using assms(1) by (simp add: calls_coherent_def)
    then show ?thesis using True e by (simp add: told_def end_events_enqueue call_ok_def new_call_def call_is_terminal_def)
  next
    case False
    have "told db j" using assms(1) by (simp add: calls_coherent_def)
    then show ?thesis using False e(3) by (intro told_other [of db' j db]) (auto simp: end_events_enqueue)
  qed
  then show ?thesis by (simp add: calls_coherent_def)
qed

lemma end_events_at:
  assumes "db' = (let m = moved_call now target reason c; d = put_call k m db
      in case topic of None \<Rightarrow> d | Some t \<Rightarrow> enqueue_call_event env t k m d)"
  shows "end_events db' j = end_events db j @ (case topic of
      Some t \<Rightarrow> if t \<in> {CALLING_ENDED, CALLING_REJECTED} \<and> j = k then [(t, call_payload k (moved_call now target reason c))] else []
    | None \<Rightarrow> [])"
    "row_get (ca_calls db') j = (if j = k then Some (moved_call now target reason c) else row_get (ca_calls db) j)"
  using assms by (auto simp: Let_def end_events_enqueue split: option.splits)

lemma acted_coherent:
  assumes P: "calls_coherent db" and a: "apply_transition env k actor a db = Inr (x, db')"
  shows "calls_coherent db'"
proof -
  obtain c target topic reason where t: "row_get (ca_calls db) k = Some c" "action_target actor c a = Inr (target, topic, reason)"
    "call_can_transition (cl_status c) target" "\<not> duration_overflows (tx_now env) target c"
    "db' = (let m = moved_call (tx_now env) target reason c; d = put_call k m db
      in case topic of None \<Rightarrow> d | Some t \<Rightarrow> enqueue_call_event env t k m d)"
    using a by (rule apply_transitionE)
  note at = end_events_at [OF t(5)]
  have old: "told db j" for j using P by (simp add: calls_coherent_def)
  have live: "end_events db k = []" "call_ok c"
    using old [of k] t(1) call_life.terminal_final [of "cl_status c" target] t(3) by (auto simp: told_def split: if_splits)
  have ok: "call_ok (moved_call (tx_now env) target reason c)" by (rule moved_ok [OF live(2) t(2,3,4)])
  have "end_events db' k = (if call_is_terminal target
      then [(end_topic target, call_payload k (moved_call (tx_now env) target reason c))] else [])"
    using action_targets [OF t(2)] live(1) at(1) [of k]
    by (auto simp: call_is_terminal_def end_topic_def CALLING_ACCEPTED_def CALLING_ENDED_def CALLING_REJECTED_def)
  then have "told db' k" using at(2) [of k] ok by (simp add: told_def)
  moreover have "told db' j" if "j \<noteq> k" for j
    using old [of j] at [of j] that by (intro told_other [of db' j db]) (auto split: option.splits)
  ultimately show ?thesis unfolding calls_coherent_def by metis
qed

interpretation coherent: calling_invariant calls_coherent
proof
  fix db :: calling_db and rows :: "outbox_row list"
  assume "calls_coherent db"
    "map ob_envelope rows = map ob_envelope (ca_outbox db)"
  then have "told (db\<lparr>ca_outbox := rows\<rparr>) j" for j
    by (intro told_other [of "db\<lparr>ca_outbox := rows\<rparr>" j db]) (simp_all add: calls_coherent_def end_events_def)
  then show "calls_coherent (db\<lparr>ca_outbox := rows\<rparr>)" by (simp add: calls_coherent_def)
qed (fact dialled_coherent, fact acted_coherent)

text \<open>
  C23. Over every run of the handlers and the relay, whoever calls them, a call's row tells a possible
  story (answered when it was accepted, ended with a duration when it was answered, never answered when
  it was missed or declined), and the end of a call is announced once, in the event of its kind and with
  the row as it stays.
\<close>
theorem calls_stay_coherent:
  "calls_coherent (fold calling_step calls empty_calling_db)"
  by (rule coherent.run_keeps) (simp add: calls_coherent_def told_def end_events_def empty_calling_db_def row_get_def)

subsection \<open>Ringing\<close>

definition call_live :: "call_row \<Rightarrow> bool" where "call_live c = (\<not> call_is_terminal (cl_status c))"

definition rings_apart :: "call_row \<Rightarrow> call_row \<Rightarrow> bool" where
  "rings_apart c d = (cl_callee c = cl_callee d \<and> call_live c \<and> call_live d
     \<longrightarrow> seconds 30 \<le> \<bar>cl_started_at c - cl_started_at d\<bar>)"

definition rings_spaced :: "calling_db \<Rightarrow> bool" where
  "rings_spaced db = (\<forall>j k c d. row_get (ca_calls db) j = Some c \<longrightarrow> row_get (ca_calls db) k = Some d \<longrightarrow> j \<noteq> k
     \<longrightarrow> rings_apart c d)"

lemma rings_apart_sym: "rings_apart c d = rings_apart d c"
  by (auto simp: rings_apart_def abs_minus_commute)

lemma live_iff: "call_live c \<longleftrightarrow> cl_status c \<in> {Initiated, CallAccepted, Connected}"
  by (cases "cl_status c") (simp_all add: call_live_def call_is_terminal_def)

lemma spaced_put:
  assumes P: "rings_spaced db" and new: "\<And>j d. row_get (ca_calls db) j = Some d \<Longrightarrow> j \<noteq> k \<Longrightarrow> rings_apart c d"
    and calls: "ca_calls db' = row_put k c (ca_calls db)"
  shows "rings_spaced db'"
  unfolding rings_spaced_def calls
proof (intro allI impI)
  fix j i d e
  assume g: "row_get (row_put k c (ca_calls db)) j = Some d" "row_get (row_put k c (ca_calls db)) i = Some e" "j \<noteq> i"
  show "rings_apart d e"
  proof (cases "j = k")
    case True
    then show ?thesis using g new [of i e] by simp
  next
    case j: False
    show ?thesis
    proof (cases "i = k")
      case True
      then show ?thesis using g j new [of j d] rings_apart_sym [of c d] by simp
    next
      case False
      then show ?thesis using g j P by (simp add: rings_spaced_def)
    qed
  qed
qed

lemma dialled_spaced:
  assumes P: "rings_spaced db" and d: "initiate env caller callee b ty db = Inr (x, db')"
  shows "rings_spaced db'"
proof -
  let ?c = "new_call (tx_now env) caller callee b ty"
  have e: "\<not> callee_busy db (tx_now env) callee" "ca_calls db' = row_put (fresh_row env) ?c (ca_calls db)"
    using d by (auto simp: initiate_def Let_def split: if_splits)
  have "rings_apart ?c d" if "row_get (ca_calls db) j = Some d" for j d
  proof -
    have "(j, d) \<in> set (ca_calls db)" using that by (simp add: row_get_def map_of_SomeD)
    then have "\<not> (cl_callee d = callee \<and> call_live d \<and> tx_now env - seconds 30 < cl_started_at d)"
      using e(1) by (auto simp: callee_busy_def list_ex_iff live_iff)
    then show ?thesis by (auto simp: rings_apart_def new_call_def)
  qed
  then show ?thesis by (rule spaced_put [OF P _ e(2)])
qed

lemma acted_spaced:
  assumes P: "rings_spaced db" and a: "apply_transition env k actor a db = Inr (x, db')"
  shows "rings_spaced db'"
proof -
  obtain c target topic reason where t: "row_get (ca_calls db) k = Some c" "call_can_transition (cl_status c) target"
    "db' = (let m = moved_call (tx_now env) target reason c; d = put_call k m db
      in case topic of None \<Rightarrow> d | Some t \<Rightarrow> enqueue_call_event env t k m d)"
    using a by (rule apply_transitionE)
  let ?m = "moved_call (tx_now env) target reason c"
  have calls: "ca_calls db' = row_put k ?m (ca_calls db)" using t(3) by (simp add: Let_def split: option.splits)
  have "rings_apart ?m d" if "row_get (ca_calls db) j = Some d" "j \<noteq> k" for j d
  proof -
    have "rings_apart c d" using P t(1) that unfolding rings_spaced_def by metis
    moreover have "call_live c" using t(2) call_life.terminal_final [of "cl_status c" target] by (auto simp: call_live_def)
    ultimately show ?thesis by (auto simp: rings_apart_def moved_call_def)
  qed
  then show ?thesis by (rule spaced_put [OF P _ calls])
qed

interpretation spaced: calling_invariant rings_spaced
proof
  fix db :: calling_db and rows :: "outbox_row list"
  assume "rings_spaced db"
  then show "rings_spaced (db\<lparr>ca_outbox := rows\<rparr>)" by (simp add: rings_spaced_def)
qed (fact dialled_spaced, fact acted_spaced)

text \<open>
  Two calls that ring or run for the same person at the same time were started at least thirty
  seconds apart, whatever the clocks of their transactions.
\<close>
theorem callee_not_rung_twice:
  "rings_spaced (fold calling_step calls empty_calling_db)"
  by (rule spaced.run_keeps) (simp add: rings_spaced_def empty_calling_db_def row_get_def)

subsection \<open>Signals\<close>

text \<open>The service with its sockets: calls, sockets that open and close, and frames that arrive.\<close>

datatype 'j calling_event =
    Call call_env calling_call
  | SocketOpens uuid nat
  | SocketCloses uuid nat
  | FrameArrives bool uuid "(uuid \<times> 'j) option"

fun calling_world :: "'j calling_event \<Rightarrow> calling_db \<times> 'j registry \<Rightarrow> calling_db \<times> 'j registry" where
  "calling_world (Call env c) (db, reg) = (calling_step (env, c) db, reg)"
| "calling_world (SocketOpens u conn) (db, reg) = (db, open_socket u conn reg)"
| "calling_world (SocketCloses u conn) (db, reg) = (db, close_socket u conn reg)"
| "calling_world (FrameArrives up sender frame) (db, reg) = (db, handle_signal up db sender frame reg)"

definition same_people :: "calling_db \<Rightarrow> calling_db \<Rightarrow> bool" where
  "same_people db db' = (\<forall>k c. row_get (ca_calls db) k = Some c \<longrightarrow>
     (\<exists>c'. row_get (ca_calls db') k = Some c' \<and> cl_caller c' = cl_caller c \<and> cl_callee c' = cl_callee c
       \<and> cl_booking c' = cl_booking c))"

lemma same_people_put:
  assumes "ca_calls db' = row_put k c' (ca_calls db)"
    and "\<And>c. row_get (ca_calls db) k = Some c \<Longrightarrow> cl_caller c' = cl_caller c \<and> cl_callee c' = cl_callee c \<and> cl_booking c' = cl_booking c"
    and "same_people db0 db"
  shows "same_people db0 db'"
  unfolding same_people_def
proof (intro allI impI)
  fix j c0 assume "row_get (ca_calls db0) j = Some c0"
  then obtain c where c: "row_get (ca_calls db) j = Some c" "cl_caller c = cl_caller c0" "cl_callee c = cl_callee c0"
    "cl_booking c = cl_booking c0"
    using assms(3) unfolding same_people_def by blast
  show "\<exists>c'. row_get (ca_calls db') j = Some c' \<and> cl_caller c' = cl_caller c0 \<and> cl_callee c' = cl_callee c0
      \<and> cl_booking c' = cl_booking c0"
    using c assms(2) [of c] by (cases "j = k") (simp_all add: assms(1))
qed

interpretation people: calling_invariant "same_people db0" for db0
proof
  fix db x db' env caller callee b ty
  assume P: "same_people db0 db" and d: "initiate env caller callee b ty db = Inr (x, db')"
  show "same_people db0 db'"
    by (rule same_people_put [OF _ _ P, of _ "fresh_row env" "new_call (tx_now env) caller callee b ty"])
      (use d in \<open>auto simp: initiate_def Let_def split: if_splits\<close>)
next
  fix db x db' env k actor a
  assume P: "same_people db0 db" and t: "apply_transition env k actor a db = Inr (x, db')"
  obtain c target topic reason where c: "row_get (ca_calls db) k = Some c"
    "db' = (let m = moved_call (tx_now env) target reason c; d = put_call k m db
      in case topic of None \<Rightarrow> d | Some t \<Rightarrow> enqueue_call_event env t k m d)"
    using t by (rule apply_transitionE)
  show "same_people db0 db'"
    by (rule same_people_put [OF _ _ P, of _ k "moved_call (tx_now env) target reason c"])
      (use c in \<open>auto simp: Let_def moved_call_def split: option.splits\<close>)
next
  fix db :: calling_db and rows :: "outbox_row list"
  assume "same_people db0 db"
  then show "same_people db0 (db\<lparr>ca_outbox := rows\<rparr>)" by (simp add: same_people_def)
qed

definition signal_ok :: "calling_db \<Rightarrow> uuid \<times> nat \<times> 'j ws_frame \<Rightarrow> bool" where
  "signal_ok db s = (case s of (u, _, Signal sender k _) \<Rightarrow>
       (\<exists>c. row_get (ca_calls db) k = Some c
         \<and> (sender = cl_caller c \<and> u = cl_callee c \<or> sender = cl_callee c \<and> u = cl_caller c))
     | (_, _, ErrFrame _) \<Rightarrow> True)"

definition signals_ok :: "calling_db \<times> 'j registry \<Rightarrow> bool" where
  "signals_ok w = (\<forall>s \<in> set (rg_sent (snd w)). signal_ok (fst w) s)"

lemma signal_ok_mono: "same_people db db' \<Longrightarrow> signal_ok db s \<Longrightarrow> signal_ok db' s"
  unfolding signal_ok_def same_people_def by (auto split: prod.splits ws_frame.splits) metis+

lemma ws_send_ok:
  assumes "signals_ok (db, reg)" "\<And>conn. signal_ok db (u, conn, f)"
  shows "signals_ok (db, fst (ws_send u f reg))"
  using assms by (auto simp: signals_ok_def ws_send_def split: option.splits)

lemma error_ok [simp]: "signal_ok db (u, conn, ErrFrame m)"
  by (simp add: signal_ok_def)

lemma handle_signal_ok:
  fixes reg :: "'j registry"
  assumes P: "signals_ok (db, reg)"
  shows "signals_ok (db, handle_signal up db sender frame reg)"
proof -
  have err: "signals_ok (db, reg') \<Longrightarrow> signals_ok (db, fst (ws_send sender (ErrFrame m) reg'))" for m and reg' :: "'j registry"
    by (rule ws_send_ok) simp_all
  have sig: "signals_ok (db, fst (ws_send peer (Signal sender k j) reg))"
    if "call_participants db k = Some (caller, callee, status)" "peer_of sender caller callee = Some peer" for k j caller callee status peer
    by (rule ws_send_ok [OF P]) (use that in \<open>auto simp: signal_ok_def call_participants_def peer_of_def split: if_splits\<close>)
  show ?thesis
  proof (cases "frame = None \<or> \<not> up \<or> (\<exists>k j. frame = Some (k, j) \<and> call_participants db k = None)")
    case True
    then show ?thesis by (auto simp: handle_signal_def cannot_route_def intro: err P split: option.split)
  next
    case False
    then obtain k j caller callee status where f: "frame = Some (k, j)" "up" "call_participants db k = Some (caller, callee, status)"
      by (cases frame) auto
    show ?thesis
    proof (cases "peer_of sender caller callee")
      case None
      then show ?thesis using f by (simp add: handle_signal_def cannot_route_def err P)
    next
      case (Some peer)
      have "signals_ok (db, fst (ws_send peer (Signal sender k j) reg))" by (rule sig [OF f(3) Some])
      then show ?thesis using f Some err [OF P]
        by (cases "ws_send peer (Signal sender k j) reg"; cases "snd (ws_send peer (Signal sender k j) reg)")
          (auto simp: handle_signal_def err)
    qed
  qed
qed

interpretation signals: invariant_system calling_world signals_ok "\<lambda>_. True"
proof
  fix x :: "'a calling_event" and w :: "calling_db \<times> 'a registry"
  assume P: "signals_ok w"
  obtain db reg where w: "w = (db, reg)" by (cases w)
  show "signals_ok (calling_world x w)"
  proof (cases x)
    case (Call env c)
    have "same_people db (calling_step (env, c) db)" by (rule people.step_keeps) (simp add: same_people_def)
    then show ?thesis using P Call w by (auto simp: signals_ok_def intro: signal_ok_mono)
  next
    case (SocketCloses u conn)
    then show ?thesis using P w by (auto simp: signals_ok_def close_socket_def Let_def split: option.splits)
  next
    case (FrameArrives up sender frame)
    then show ?thesis using P w by (simp add: handle_signal_ok)
  qed (use P w in \<open>simp_all add: signals_ok_def open_socket_def\<close>)
qed

text \<open>
  C26. Over every run of the service with its sockets, a signal of a call is only ever pushed to the other
  of its two people, and only when its sender is one of them.
\<close>
theorem signals_stay_in_call:
  "signals_ok (fold calling_world events (empty_calling_db, \<lparr>rg_live = [], rg_open = [], rg_sent = []\<rparr>))"
  by (rule signals.run_inv) (simp_all add: signals_ok_def list_all_iff)

text \<open>A session that ends leaves the sender of a later session of the same user in place.\<close>

lemma reconnect_survives:
  assumes "conn \<noteq> conn'"
  shows "row_get (rg_live (close_socket u conn (open_socket u conn' reg))) u = Some conn'"
  using assms by (simp add: close_socket_def open_socket_def Let_def)

end
