(* ===== verification/Chat_Properties.thy ===== *)
theory Chat_Properties
  imports Chat_Api Calling_Properties
begin

text \<open>
  What the chat service keeps over every sequence of its calls, and how the end of a call reaches the
  conversation of its booking.
\<close>

subsection \<open>Runs\<close>

datatype chat_call =
    OpenThread auth_user conversation_request
  | SendMessage auth_user incoming_message
  | MarkRead auth_user uuid "string option"
  | Attach auth_user multipart
  | PushStatus uuid string
  | CallEvent envelope
  | BookingEvent envelope
  | RelayChat "outbox_row \<Rightarrow> bool"

fun chat_step :: "chat_lib \<Rightarrow> s3_lib \<Rightarrow> s3_client \<Rightarrow> chat_env \<times> chat_call \<Rightarrow> chat_state \<Rightarrow> chat_state" where
  "chat_step X L C (env, OpenThread user req) s = fst (api_create_conversation env user req s)"
| "chat_step X L C (env, SendMessage user m) s = fst (persist_and_broadcast env user m s)"
| "chat_step X L C (env, MarkRead user k q) s = fst (api_mark_read env user k q s)"
| "chat_step X L C (env, Attach user form) s = fst (upload_attachment X L C env user form s)"
| "chat_step X L C (env, PushStatus r st) s = fst (internal_set_request_status r st s)"
| "chat_step X L C (env, CallEvent e) s = fst (consume_calling env e s)"
| "chat_step X L C (env, BookingEvent e) s = fst (consume_booking_status e s)"
| "chat_step X L C (env, RelayChat sends) s = fst (drain_chat sends (utc_now (ce_call env)) (s, []))"

text \<open>Which statuses another service pushes.\<close>

definition chat_allowed :: "(string \<Rightarrow> bool) \<Rightarrow> chat_env \<times> chat_call \<Rightarrow> bool" where
  "chat_allowed pushed x = (case snd x of PushStatus _ st \<Rightarrow> pushed st | _ \<Rightarrow> True)"

lemma chat_allowed_all [simp]: "list_all (chat_allowed (\<lambda>_. True)) xs"
  by (simp add: chat_allowed_def list_all_iff split: chat_call.split)

definition on_chat :: "(chat_db \<Rightarrow> bool) \<Rightarrow> chat_state \<Rightarrow> bool" where "on_chat P s = P (cs_db s)"

lemma keeps_chat_tx:
  "(\<And>db x db'. P db \<Longrightarrow> t db = Inr (x, db') \<Longrightarrow> P db') \<Longrightarrow> keeps (on_chat P) (chat_tx t)"
  by (auto simp: keeps_def on_chat_def chat_tx_def split: sum.splits)

lemma keeps_chat_read [keeps_intros]: "keeps P (chat_read f)"
  by (simp add: keeps_def chat_read_def)

lemma keeps_chat_other [keeps_intros]:
  "keeps (on_chat P) (put_attachment env key d)" "keeps Q (need e v)" "keeps Q (require_participant k user)"
  "keeps (on_chat P) (act_modify (\<lambda>s. s\<lparr>cs_published := f s\<rparr>))"
  by (auto simp: keeps_def on_chat_def put_attachment_def need_def require_participant_def chat_read_def split: sum.splits)

locale chat_invariant =
  fixes P :: "chat_db \<Rightarrow> bool" and pushed :: "string \<Rightarrow> bool"
  assumes create: "P db \<Longrightarrow> create_conversation env req db = Inr (x, db') \<Longrightarrow> P db'"
    and send: "P db \<Longrightarrow> send_message env u m db = Inr (y, db') \<Longrightarrow> P db'"
    and summary: "P db \<Longrightarrow> insert_call_summary_idempotent env i ty k u c db = Inr (b, db') \<Longrightarrow> P db'"
    and receipt: "P db \<Longrightarrow> P (db\<lparr>ch_receipts := rs\<rparr>)"
    and attach: "P db \<Longrightarrow> P (db\<lparr>ch_attachments := as\<rparr>)"
    and status: "P db \<Longrightarrow> pushed st \<Longrightarrow> P (set_request_status r st db)"
    and consumed: "pushed ''completed''" "pushed ''cancelled''"
    and relay: "P db \<Longrightarrow> P (db\<lparr>ch_outbox := rows\<rparr>)"
begin

lemma keeps_create: "keeps (on_chat P) (chat_tx (create_conversation env req))"
  by (rule keeps_chat_tx) (rule create)

lemma keeps_send: "keeps (on_chat P) (chat_tx (send_message env u m))"
  by (rule keeps_chat_tx) (rule send)

lemma keeps_summary: "keeps (on_chat P) (chat_tx (insert_call_summary_idempotent env i ty k u c))"
  by (rule keeps_chat_tx) (rule summary)

lemma keeps_receipt: "keeps (on_chat P) (chat_tx (mark_read_at env k u role))"
  by (rule keeps_chat_tx) (auto simp: mark_read_at_def receipt split: if_splits)

lemma keeps_attach: "keeps (on_chat P) (chat_tx (save_attachment env a))"
  by (rule keeps_chat_tx) (auto simp: save_attachment_def attach split: if_splits)

lemma keeps_status: "pushed st \<Longrightarrow> keeps (on_chat P) (internal_set_request_status r st)"
  by (simp add: keeps_def on_chat_def internal_set_request_status_def status)

lemmas table_keeps = keeps_create keeps_send keeps_summary keeps_receipt keeps_attach keeps_status consumed

lemma keeps_open: "keeps (on_chat P) (api_create_conversation env user req)"
  unfolding api_create_conversation_def by (intro keeps_intros table_keeps)

lemma keeps_post: "keeps (on_chat P) (persist_and_broadcast env user m)"
  unfolding persist_and_broadcast_def by (intro keeps_intros table_keeps)

lemma keeps_mark: "keeps (on_chat P) (api_mark_read env user k q)"
  unfolding api_mark_read_def by (intro keeps_intros table_keeps)

lemma keeps_upload: "keeps (on_chat P) (upload_attachment X L C env user form)"
  unfolding upload_attachment_def by (intro keeps_intros table_keeps)

lemma keeps_calling: "keeps (on_chat P) (consume_calling env e)"
  unfolding consume_calling_def post_summary_def create_conversation_for_booking_def Let_def
  by (intro keeps_intros table_keeps)

lemma keeps_booking: "keeps (on_chat P) (consume_booking_status e)"
  unfolding consume_booking_status_def by (intro keeps_intros table_keeps)

lemma step_keeps: "P (cs_db s) \<Longrightarrow> chat_allowed pushed x \<Longrightarrow> P (cs_db (chat_step X L C x s))"
proof -
  assume "P (cs_db s)" and allowed: "chat_allowed pushed x"
  then have "on_chat P s" by (simp add: on_chat_def)
  then have "on_chat P (chat_step X L C x s)"
    using allowed
    by (cases "(X, L, C, x, s)" rule: chat_step.cases)
      (auto simp: chat_allowed_def drain_chat_def case_prod_beta
        intro: keepsD [OF keeps_open] keepsD [OF keeps_post] keepsD [OF keeps_mark] keepsD [OF keeps_upload]
          keepsD [OF keeps_status] keepsD [OF keeps_calling] keepsD [OF keeps_booking],
       simp add: on_chat_def relay)
  then show ?thesis by (simp add: on_chat_def)
qed

lemma run_keeps: "P (cs_db s) \<Longrightarrow> list_all (chat_allowed pushed) xs \<Longrightarrow> P (cs_db (fold (chat_step X L C) xs s))"
  by (induction xs arbitrary: s) (auto intro: step_keeps)

end

subsection \<open>What the writes leave alone\<close>

lemma set_status_frame [simp]:
  "ch_participants (set_request_status r st db) = ch_participants db"
  "ch_messages (set_request_status r st db) = ch_messages db"
  "ch_processed (set_request_status r st db) = ch_processed db"
  by (simp_all add: set_request_status_def)

lemma post_message_frame [simp]:
  "ch_participants (post_message env m ms db) = ch_participants db"
  "ch_conversations (post_message env m ms db) = ch_conversations db"
  "ch_processed (post_message env m ms db) = ch_processed db"
  "ch_messages (post_message env m ms db) = ch_messages db @ [m]"
  by (auto simp: post_message_def enqueue_message_sent_def Let_def split: option.splits)

lemma insert_participants_frame:
  "ch_conversations (fold (insert_participant k) ps db) = ch_conversations db
    \<and> ch_messages (fold (insert_participant k) ps db) = ch_messages db
    \<and> ch_processed (fold (insert_participant k) ps db) = ch_processed db
    \<and> ch_outbox (fold (insert_participant k) ps db) = ch_outbox db"
  by (induction ps arbitrary: db) (simp_all add: insert_participant_def)

lemma insert_participants_other:
  "k \<noteq> j \<Longrightarrow> row_get (ch_participants (fold (insert_participant k) ps db)) (j, u) = row_get (ch_participants db) (j, u)"
  by (induction ps arbitrary: db) (simp_all add: insert_participant_def)

lemma find_pred: "find Q xs = Some x \<Longrightarrow> x \<in> set xs \<and> Q x"
  by (induction xs) (auto split: if_splits)

lemma members_participate: "(u, r) \<in> set (members_of db k) \<Longrightarrow> is_participant db k u"
proof -
  assume "(u, r) \<in> set (members_of db k)"
  then obtain p where "((k, u), p) \<in> set (ch_participants db)" by (auto simp: members_of_def)
  then show ?thesis using weak_map_of_SomeI by (fastforce simp: is_participant_def row_get_def)
qed

lemma find_member: "find (\<lambda>(u, _). u = x) (members_of db k) = Some (a, r) \<Longrightarrow> a = x \<and> is_participant db k x"
  using find_pred members_participate by fastforce

lemma send_messageE:
  assumes "send_message env u m db = Inr (y, db')"
  obtains conv role where "row_get (ch_conversations db) (im_conversation m) = Some conv" "is_writable (cv_status conv)"
    "is_participant db (im_conversation m) u" "ms_type y \<noteq> MsgSystem"
    "y = new_message env (im_conversation m) u role (im_content m) (ms_type y)"
    "db' = post_message env y (members_of db (im_conversation m)) db"
proof -
  obtain conv a role where r: "row_get (ch_conversations db) (im_conversation m) = Some conv"
    "find (\<lambda>(v, _). v = u) (members_of db (im_conversation m)) = Some (a, role)"
    using assms by (auto simp: send_message_def Let_def split: option.splits)
  have "is_participant db (im_conversation m) u" using find_member [OF r(2)] by blast
  with r assms show ?thesis
    by (intro that [of conv role]) (auto simp: send_message_def Let_def new_message_def split: if_splits option.splits)
qed

lemma summaryE:
  assumes "insert_call_summary_idempotent env i ty k u c db = Inr (b, db')"
  obtains (old) "i \<in> fst ` set (ch_processed db)" "b = False" "db' = db"
  | (fresh) role where "i \<notin> fst ` set (ch_processed db)" "b = True"
    "db' = post_message env (new_message env k u role (Some c) MsgSystem) (members_of db k)
      (db\<lparr>ch_processed := ch_processed db @ [(i, ty)]\<rparr>)"
proof (cases "i \<in> fst ` set (ch_processed db)")
  case True
  then show ?thesis using assms by (intro old) (simp_all add: insert_call_summary_idempotent_def)
next
  case False
  have m: "members_of (db\<lparr>ch_processed := ps\<rparr>) k = members_of db k" for ps by (simp add: members_of_def)
  let ?who = "case find (\<lambda>(v, _). v = u) (members_of db k) of
      Some (_, r) \<Rightarrow> Some r | None \<Rightarrow> (case members_of db k of [] \<Rightarrow> None | (_, r) # _ \<Rightarrow> Some r)"
  note run = assms [unfolded insert_call_summary_idempotent_def Let_def m if_not_P [OF False]]
  show ?thesis
  proof (cases ?who)
    case None
    then show ?thesis using run by simp
  next
    case (Some role)
    then have "b = True" "db' = post_message env (new_message env k u role (Some c) MsgSystem) (members_of db k)
      (db\<lparr>ch_processed := ch_processed db @ [(i, ty)]\<rparr>)"
      using run by (simp_all split: if_splits)
    then show ?thesis using False by (intro fresh)
  qed
qed

lemma createE:
  assumes run: "create_conversation env req db = Inr (x, db')"
  obtains (known) "find (\<lambda>(_, c). cv_request c = cq_request req) (ch_conversations db) = Some x" "db' = db"
  | (fresh) c where "find (\<lambda>(_, c). cv_request c = cq_request req) (ch_conversations db) = None"
    "row_get (ch_conversations db) (fresh_row env) = None" "x = (fresh_row env, c)"
    "c = \<lparr>cv_request = cq_request req, cv_status = cq_status req, cv_created_at = tx_now env\<rparr>"
    "db' = fold (insert_participant (fresh_row env)) (cq_participants req)
      (db\<lparr>ch_conversations := row_put (fresh_row env) c (ch_conversations db)\<rparr>)"
proof (cases "find (\<lambda>(_, c). cv_request c = cq_request req) (ch_conversations db)")
  case None
  then have "row_get (ch_conversations db) (fresh_row env) = None"
    using run by (auto simp: create_conversation_def Let_def split: if_splits)
  with None run show ?thesis by (intro fresh) (auto simp: create_conversation_def Let_def split: if_splits)
next
  case (Some y)
  then have "y = x" "db' = db" using run by (simp_all add: create_conversation_def split: if_splits)
  then show ?thesis using Some by (intro known) simp_all
qed

subsection \<open>Membership is fixed when a conversation is created\<close>

definition thread_of :: "uuid \<Rightarrow> uuid \<Rightarrow> chat_db \<Rightarrow> bool" where
  "thread_of k b db = (map_option cv_request (row_get (ch_conversations db) k) = Some b)"

text \<open>The conversation exists, and its participants are those of the table \<open>ps\<close>.\<close>

definition members_fixed :: "uuid \<Rightarrow> (uuid \<Rightarrow> participant option) \<Rightarrow> chat_db \<Rightarrow> bool" where
  "members_fixed k ps db = (row_get (ch_conversations db) k \<noteq> None \<and> (\<forall>u. row_get (ch_participants db) (k, u) = ps u))"

lemma created_keeps_others:
  assumes "create_conversation env req db = Inr (x, db')" "row_get (ch_conversations db) k = Some c"
  shows "row_get (ch_conversations db') k = Some c \<and> row_get (ch_participants db') (k, u) = row_get (ch_participants db) (k, u)"
  using assms(1)
proof (cases rule: createE)
  case known
  then show ?thesis using assms(2) by simp
next
  case (fresh d)
  then have "k \<noteq> fresh_row env" using assms(2) by auto
  then show ?thesis
    using assms(2) fresh(5) by (simp add: insert_participants_other insert_participants_frame)
qed

lemma row_get_map: "row_get (map (\<lambda>(k, r). (k, f r)) t) k = map_option f (row_get t k)"
  by (simp add: row_get_def map_of_map case_prod_beta)

lemma set_status_get: "row_get (ch_conversations (set_request_status r st db)) k
    = map_option (\<lambda>c. if cv_request c = r then c\<lparr>cv_status := Some st\<rparr> else c) (row_get (ch_conversations db) k)"
  by (simp add: set_request_status_def row_get_map)

interpretation members: chat_invariant "members_fixed k ps" "\<lambda>_. True" for k ps
proof
  fix db x db' env req
  assume "members_fixed k ps db" "create_conversation env req db = Inr (x, db')"
  then show "members_fixed k ps db'" using created_keeps_others [of env req db x db' k] by (auto simp: members_fixed_def)
next
  fix db y db' env u m
  assume "members_fixed k ps db" "send_message env u m db = Inr (y, db')"
  then show "members_fixed k ps db'" by (elim send_messageE) (simp add: members_fixed_def)
next
  fix db b db' env i ty j u c
  assume "members_fixed k ps db" "insert_call_summary_idempotent env i ty j u c db = Inr (b, db')"
  then show "members_fixed k ps db'" by (elim summaryE) (simp_all add: members_fixed_def)
qed (auto simp: members_fixed_def set_status_get)

text \<open>A conversation opened by the customer (1) while booking 5 had no guard.\<close>

definition early_thread :: chat_state where
  "early_thread = \<lparr>cs_db = \<lparr>ch_conversations = [(3, \<lparr>cv_request = 5, cv_status = Some ''requested'', cv_created_at = 0\<rparr>)],
       ch_participants = [((3, 1), \<lparr>pt_role = ''customer'', pt_name = None, pt_avatar = None\<rparr>)],
       ch_messages = [], ch_receipts = [], ch_attachments = [], ch_processed = [], ch_outbox = []\<rparr>,
     cs_objects = (\<lambda>_. None), cs_published = []\<rparr>"

text \<open>
  A conversation opened before a guard took the job locks the guard out. Its participants are fixed
  by the call that created it: whatever the service does later, including another attempt to open the
  conversation by the guard now assigned, the guard is no participant, cannot send and cannot read.
\<close>
theorem early_thread_locks_guard_out:
  assumes thread: "row_get (ch_conversations (cs_db s)) k = Some c" "row_get (ch_participants (cs_db s)) (k, guard) = None"
    and role: "au_id user = guard" "au_role user = ''guard''"
    and msg: "im_conversation m = k"
  shows "snd (persist_and_broadcast env user m (fold (chat_step X L C) calls s))
      = Inl (Forbidden ''Not a participant of this conversation'')
    \<and> snd (api_list_messages user k limit offset (fold (chat_step X L C) calls s))
      = Inl (Forbidden ''You are not a participant of this conversation'')"
proof -
  let ?s = "fold (chat_step X L C) calls s"
  have "members_fixed k (\<lambda>u. row_get (ch_participants (cs_db s)) (k, u)) (cs_db s)" using thread by (simp add: members_fixed_def)
  from members.run_keeps [OF this chat_allowed_all, of X L C calls]
  have f: "row_get (ch_conversations (cs_db ?s)) k \<noteq> None" "\<not> is_participant (cs_db ?s) k guard"
    using thread(2) by (simp_all add: members_fixed_def is_participant_def)
  then have none: "find (\<lambda>(u, _). u = guard) (members_of (cs_db ?s) k) = None"
    using find_member [of guard "cs_db ?s" k] by (cases "find (\<lambda>(u, _). u = guard) (members_of (cs_db ?s) k)") auto
  show ?thesis
    using f none role msg
    by (auto simp: persist_and_broadcast_def act_bind_run chat_tx_def send_message_def Let_def api_list_messages_def
        require_participant_def chat_read_def CHAT_ROLE_ADMIN_def split: option.splits)
qed

theorem early_thread_locks_guard_out_witness:
  "\<forall>X L C env calls. snd (persist_and_broadcast env \<lparr>au_id = 2, au_role = ''guard''\<rparr>
      \<lparr>im_conversation = 3, im_content = None, im_type = None, im_sender_role = None\<rparr> (fold (chat_step X L C) calls early_thread))
    = Inl (Forbidden ''Not a participant of this conversation'')"
proof (intro allI)
  fix X L C env calls
  show "snd (persist_and_broadcast env \<lparr>au_id = 2, au_role = ''guard''\<rparr>
      \<lparr>im_conversation = 3, im_content = None, im_type = None, im_sender_role = None\<rparr> (fold (chat_step X L C) calls early_thread))
    = Inl (Forbidden ''Not a participant of this conversation'')"
    using early_thread_locks_guard_out [of early_thread 3 _ 2 "\<lparr>au_id = 2, au_role = ''guard''\<rparr>"
      "\<lparr>im_conversation = 3, im_content = None, im_type = None, im_sender_role = None\<rparr>" env X L C calls None None]
    by (simp add: early_thread_def row_get_def)
qed

subsection \<open>Summaries and closed conversations\<close>

definition system_messages :: "chat_db \<Rightarrow> chat_message list" where
  "system_messages db = filter (\<lambda>m. ms_type m = MsgSystem) (ch_messages db)"

definition one_summary_per_event :: "chat_db \<Rightarrow> bool" where
  "one_summary_per_event db = (distinct (map fst (ch_processed db)) \<and> length (system_messages db) = length (ch_processed db))"

interpretation summaries: chat_invariant one_summary_per_event "\<lambda>_. True"
proof
  fix db x db' env req
  assume "one_summary_per_event db" "create_conversation env req db = Inr (x, db')"
  then show "one_summary_per_event db'"
    by (elim createE) (simp_all add: one_summary_per_event_def system_messages_def insert_participants_frame)
next
  fix db y db' env u m
  assume "one_summary_per_event db" "send_message env u m db = Inr (y, db')"
  then show "one_summary_per_event db'" by (elim send_messageE) (simp add: one_summary_per_event_def system_messages_def)
next
  fix db b db' env i ty j u c
  assume "one_summary_per_event db" "insert_call_summary_idempotent env i ty j u c db = Inr (b, db')"
  then show "one_summary_per_event db'"
    by (elim summaryE) (simp_all add: one_summary_per_event_def system_messages_def new_message_def)
qed (simp_all add: one_summary_per_event_def system_messages_def)

definition empty_chat_db :: chat_db where
  "empty_chat_db = \<lparr>ch_conversations = [], ch_participants = [], ch_messages = [], ch_receipts = [], ch_attachments = [],
     ch_processed = [], ch_outbox = []\<rparr>"

text \<open>
  System messages come from the ends of calls alone: over every run of the handlers and the
  consumers, there are exactly as many as events consumed, and no event is consumed twice.
\<close>
theorem system_messages_are_summaries:
  "one_summary_per_event (cs_db (fold (chat_step X L C) calls
     \<lparr>cs_db = empty_chat_db, cs_objects = (\<lambda>_. None), cs_published = []\<rparr>))"
  by (rule summaries.run_keeps) (simp_all add: one_summary_per_event_def system_messages_def empty_chat_db_def)

text \<open>The messages people wrote in a conversation that is closed.\<close>

definition written_in :: "uuid \<Rightarrow> chat_db \<Rightarrow> chat_message list" where
  "written_in k db = filter (\<lambda>m. ms_conversation m = k \<and> ms_type m \<noteq> MsgSystem) (ch_messages db)"

definition closed_with :: "uuid \<Rightarrow> chat_message list \<Rightarrow> chat_db \<Rightarrow> bool" where
  "closed_with k ms db = ((case row_get (ch_conversations db) k of Some c \<Rightarrow> is_closed (cv_status c) | None \<Rightarrow> False)
     \<and> written_in k db = ms)"

definition closing :: "string \<Rightarrow> bool" where "closing st = (st \<in> {''completed'', ''cancelled''})"

interpretation closed: chat_invariant "closed_with k ms" closing for k ms
proof
  fix db x db' env req
  assume P: "closed_with k ms db" and c: "create_conversation env req db = Inr (x, db')"
  have m: "ch_messages db' = ch_messages db" using c by (elim createE) (simp_all add: insert_participants_frame)
  obtain d where "row_get (ch_conversations db) k = Some d" using P by (auto simp: closed_with_def split: option.splits)
  then show "closed_with k ms db'" using P m created_keeps_others [OF c] by (auto simp: closed_with_def written_in_def)
next
  fix db y db' env u m
  assume P: "closed_with k ms db" and s: "send_message env u m db = Inr (y, db')"
  show "closed_with k ms db'"
    using s
  proof (cases rule: send_messageE)
    case (1 conv role)
    then have "im_conversation m \<noteq> k" using P by (auto simp: closed_with_def is_writable_def)
    moreover have "ms_conversation y = im_conversation m" using 1(5) by (metis chat_message.select_convs(2) new_message_def)
    ultimately show ?thesis using P 1 by (simp add: closed_with_def written_in_def)
  qed
next
  fix db b db' env i ty j u c
  assume "closed_with k ms db" "insert_call_summary_idempotent env i ty j u c db = Inr (b, db')"
  then show "closed_with k ms db'"
    by (elim summaryE) (simp_all add: closed_with_def written_in_def new_message_def)
next
  fix db r st
  assume "closed_with k ms db" "closing st"
  then show "closed_with k ms (set_request_status r st db)"
    by (auto simp: closed_with_def written_in_def set_status_get is_closed_def closing_def split: option.splits)
qed (simp_all add: closed_with_def written_in_def closing_def)

lemma completion_closes:
  assumes "row_get (ch_conversations (cs_db s)) k = Some c" "cv_request c = b"
    "uuid_at (ev_payload e) ''booking_id'' = Some b" "ev_type e \<in> {BOOKING_COMPLETED, BOOKING_CANCELLED}"
  shows "closed_with k (written_in k (cs_db s)) (cs_db (fst (consume_booking_status e s)))"
  using assms
  by (auto simp: consume_booking_status_def internal_set_request_status_def closed_with_def written_in_def set_status_get
      is_closed_def)

text \<open>
  C25. The event that a booking is completed or cancelled freezes its conversation: whatever comes
  afterwards, as long as no other service pushes another status, the messages people wrote in it stay the
  ones that were there.
\<close>
theorem closed_thread_frozen:
  assumes "row_get (ch_conversations (cs_db s)) k = Some c" "cv_request c = b"
    and "uuid_at (ev_payload e) ''booking_id'' = Some b" "ev_type e \<in> {BOOKING_COMPLETED, BOOKING_CANCELLED}"
    and "list_all (chat_allowed closing) calls"
  shows "written_in k (cs_db (fold (chat_step X L C) calls (fst (consume_booking_status e s)))) = written_in k (cs_db s)"
  using closed.run_keeps [OF completion_closes [OF assms(1-4)] assms(5)] by (simp add: closed_with_def)

theorem closed_thread_frozen_witness:
  "\<forall>X L C env user m. written_in 3 (cs_db (fold (chat_step X L C) [(env, SendMessage user m)]
     (fst (consume_booking_status \<lparr>ev_id = 1, ev_type = BOOKING_COMPLETED, ev_occurred_at = 0, ev_correlation = 1, ev_traceparent = None,
        ev_payload = [(''booking_id'', JUuid 5)]\<rparr> early_thread)))) = []"
proof (intro allI)
  fix X L C env user m
  let ?e = "\<lparr>ev_id = 1, ev_type = BOOKING_COMPLETED, ev_occurred_at = 0, ev_correlation = 1, ev_traceparent = None,
        ev_payload = [(''booking_id'', JUuid 5)]\<rparr>"
  show "written_in 3 (cs_db (fold (chat_step X L C) [(env, SendMessage user m)] (fst (consume_booking_status ?e early_thread)))) = []"
    using closed_thread_frozen [of early_thread 3 _ 5 ?e "[(env, SendMessage user m)]" X L C]
    by (simp add: early_thread_def row_get_def uuid_at_def jget_def chat_allowed_def written_in_def del: fold_simps)
qed

subsection \<open>Sockets\<close>

definition members_grow :: "chat_db \<Rightarrow> chat_db \<Rightarrow> bool" where
  "members_grow db db' = (\<forall>k u. is_participant db k u \<longrightarrow> is_participant db' k u)"

lemma participants_grow:
  "is_participant db j u \<Longrightarrow> is_participant (fold (insert_participant k) ps db) j u"
proof (induction ps arbitrary: db)
  case (Cons p ps)
  then show ?case by (auto simp: is_participant_def insert_participant_def)
qed simp

interpretation grow: chat_invariant "members_grow db0" "\<lambda>_. True" for db0
proof
  fix db x db' env req
  assume P: "members_grow db0 db" and c: "create_conversation env req db = Inr (x, db')"
  have "is_participant db' k u" if "is_participant db k u" for k u
    using c
  proof (cases rule: createE)
    case (fresh d)
    have "is_participant (db\<lparr>ch_conversations := row_put (fresh_row env) d (ch_conversations db)\<rparr>) k u"
      using that by (simp add: is_participant_def)
    then show ?thesis using fresh(5) by (simp add: participants_grow)
  qed (simp add: that)
  then show "members_grow db0 db'" using P by (simp add: members_grow_def)
next
  fix db y db' env u m
  assume "members_grow db0 db" "send_message env u m db = Inr (y, db')"
  then show "members_grow db0 db'" by (elim send_messageE) (simp add: members_grow_def is_participant_def)
next
  fix db b db' env i ty j u c
  assume "members_grow db0 db" "insert_call_summary_idempotent env i ty j u c db = Inr (b, db')"
  then show "members_grow db0 db'" by (elim summaryE) (simp_all add: members_grow_def is_participant_def)
qed (simp_all add: members_grow_def is_participant_def)

text \<open>A socket beside the other calls of the service.\<close>

datatype chat_event = OtherCall chat_env chat_call | OnSocket chat_env session_event

fun chat_world :: "chat_lib \<Rightarrow> s3_lib \<Rightarrow> s3_client \<Rightarrow> chat_event \<Rightarrow> chat_state \<times> chat_session \<Rightarrow> chat_state \<times> chat_session" where
  "chat_world X L C (OtherCall env c) (s, se) = (chat_step X L C (env, c) s, se)"
| "chat_world X L C (OnSocket env ev) (s, se) = session_step env ev (s, se)"

definition frame_ok :: "chat_db \<Rightarrow> uuid \<Rightarrow> chat_frame \<Rightarrow> bool" where
  "frame_ok db u f = (case f of
     EchoFrame m \<Rightarrow> is_participant db (ms_conversation m) u
   | ForwardFrame m \<Rightarrow> is_participant db (ms_conversation m) u | _ \<Rightarrow> True)"

lemma frame_ok_simps [simp]:
  "frame_ok db u (EchoFrame m) = is_participant db (ms_conversation m) u"
  "frame_ok db u (ForwardFrame m) = is_participant db (ms_conversation m) u"
  "frame_ok db u (ErrorFrame c t)" "frame_ok db u CloseFrame" "frame_ok db u PingFrame"
  by (simp_all add: frame_ok_def)

definition session_ok :: "chat_state \<times> chat_session \<Rightarrow> bool" where
  "session_ok w = (case w of (s, se) \<Rightarrow> \<not> session_admin se
     \<and> list_all (\<lambda>k. is_participant (cs_db s) k (au_id (se_user se))) (se_rooms se)
     \<and> list_all (frame_ok (cs_db s) (au_id (se_user se))) (se_sent se))"

lemma session_ok_grow:
  assumes "session_ok (s, se)" "members_grow (cs_db s) (cs_db s')"
  shows "session_ok (s', se)"
proof -
  have "frame_ok (cs_db s') u f" if "frame_ok (cs_db s) u f" for u f
    using that assms(2) by (simp add: frame_ok_def members_grow_def split: chat_frame.splits)
  then show ?thesis using assms by (auto simp: session_ok_def list_all_iff members_grow_def)
qed

lemma own_rooms: "k \<in> set (participant_conversation_ids db u) \<Longrightarrow> is_participant db k u"
  using weak_map_of_SomeI by (fastforce simp: participant_conversation_ids_def is_participant_def row_get_def)

lemma grow_refl [simp]: "members_grow db db"
  by (simp add: members_grow_def)

lemma persist_grow:
  assumes "persist_and_broadcast env user f s = (s', r)"
  shows "members_grow (cs_db s) (cs_db s')"
  using grow.step_keeps [of "cs_db s" s "(env, SendMessage user f)"] assms by (simp add: chat_allowed_def)

lemma persisted_member:
  assumes "persist_and_broadcast env user f s = (s', Inr m)"
  shows "is_participant (cs_db s) (im_conversation f) (au_id user) \<and> ms_conversation m = im_conversation f"
proof -
  obtain db' where "send_message (ce_call env) (au_id user) f (cs_db s) = Inr (m, db')"
    using assms by (auto simp: persist_and_broadcast_def act_bind_run chat_tx_def split: sum.splits)
  then show ?thesis
    by (elim send_messageE) (metis chat_message.select_convs(2) new_message_def)
qed

lemma session_step_ok:
  assumes ok: "session_ok (s, se)"
  shows "session_ok (session_step env ev (s, se))"
proof (cases ev)
  case (Inbound budget frame)
  show ?thesis
  proof (cases "se_open se \<and> budget \<and> frame \<noteq> None")
    case True
    then obtain f where f: "frame = Some f" by auto
    obtain s' r where p: "persist_and_broadcast env (se_user se) f s = (s', r)" by fastforce
    have s': "session_ok (s', se)" by (rule session_ok_grow [OF ok persist_grow [OF p]])
    show ?thesis
    proof (cases r)
      case (Inl e)
      then show ?thesis using True f p s' Inbound
        by (simp add: session_step_def session_ok_def say_def session_admin_def)
    next
      case (Inr m)
      have "is_participant (cs_db s') (im_conversation f) (au_id (se_user se))" "ms_conversation m = im_conversation f"
        using persisted_member [OF p [unfolded Inr]] persist_grow [OF p] by (auto simp: members_grow_def)
      then show ?thesis using True f p s' Inbound Inr
        by (simp add: session_step_def session_ok_def say_def session_admin_def)
    qed
  next
    case False
    then show ?thesis using ok Inbound
      by (auto simp: session_step_def session_ok_def say_def hang_up_def session_admin_def split: option.split)
  qed
next
  case (Broadcast m)
  then show ?thesis using ok
    by (cases m) (auto simp: session_step_def session_ok_def say_def session_admin_def list_all_iff)
next
  case (TokenCheck valid up)
  then show ?thesis using ok
    by (auto simp: session_step_def session_ok_def say_def hang_up_def session_admin_def list_all_iff own_rooms)
qed

interpretation sockets: invariant_system "chat_world X L C" session_ok "\<lambda>_. True" for X L C
proof
  fix w x assume P: "session_ok w"
  obtain s se where w: "w = (s, se)" by (cases w)
  show "session_ok (chat_world X L C x w)"
  proof (cases x)
    case (OtherCall env c)
    have "members_grow (cs_db s) (cs_db (chat_step X L C (env, c) s))"
      by (rule grow.step_keeps) (simp_all add: chat_allowed_def split: chat_call.split)
    then show ?thesis using P w OtherCall session_ok_grow by simp
  next
    case (OnSocket env ev)
    then show ?thesis using P w session_step_ok by simp
  qed
qed

text \<open>
  C24. A socket shows nothing of other people's conversations. Whatever is sent, published or checked
  while the socket of a guard or a customer is open, every message pushed to it belongs to a
  conversation its user takes part in.
\<close>
theorem socket_shows_own_threads:
  assumes "au_role user \<noteq> CHAT_ROLE_ADMIN"
  shows "session_ok (fold (chat_world X L C) events (s, open_session up user (cs_db s)))"
  by (rule sockets.run_inv)
    (use assms in \<open>auto simp: session_ok_def open_session_def session_admin_def list_all_iff own_rooms\<close>)

theorem socket_shows_own_threads_witness:
  "\<forall>X L C events up. session_ok (fold (chat_world X L C) events
     (early_thread, open_session up \<lparr>au_id = 1, au_role = ''customer''\<rparr> (cs_db early_thread)))"
  by (intro allI socket_shows_own_threads) (simp add: CHAT_ROLE_ADMIN_def)

end
