(* ===== verification/Call_Path.thy ===== *)
theory Call_Path
  imports Chat_Properties
begin

text \<open>
  A call from its end in the call service to the conversation of its booking: what the event says, what
  the chat service makes of it, and that it is written down once.
\<close>

definition outcome_of :: "call_row \<Rightarrow> string" where
  "outcome_of c = (case cl_status c of
     Ended \<Rightarrow> ''completed''
   | CallRejected \<Rightarrow> ''rejected''
   | _ \<Rightarrow> (case cl_end_reason c of
       Some r \<Rightarrow> if has_sub ''reject'' r \<or> has_sub ''declin'' r then ''rejected'' else ''missed'' | None \<Rightarrow> ''missed''))"

lemma payload_read:
  assumes "call_ok c"
  shows "read_call_ended (call_payload k c) = Some \<lparr>ce_booking = cl_booking c, ce_caller = cl_caller c, ce_type = cl_type c,
    ce_status = call_status_text (cl_status c), ce_seconds = cl_duration c, ce_answered = (cl_answered_at c \<noteq> None),
    ce_reason = cl_end_reason c\<rparr>"
proof -
  have d: "(case cl_duration c of Some d \<Rightarrow> fits_int4 d | None \<Rightarrow> True)"
    using assms by (auto simp: call_ok_def split: call_status.splits option.splits)
  then have "optional_at int4_json (call_payload k c) ''duration_seconds'' = Some (cl_duration c)"
    by (cases "cl_duration c") (simp_all add: optional_at_def call_payload_def jget_def jopt_def int4_json_def)
  moreover have "optional_at Some (call_payload k c) ''answered_at'' = Some (map_option JTime (cl_answered_at c))"
    by (cases "cl_answered_at c") (simp_all add: optional_at_def call_payload_def jget_def jopt_def)
  moreover have "optional_at text_json (call_payload k c) ''end_reason'' = Some (cl_end_reason c)"
    by (cases "cl_end_reason c") (simp_all add: optional_at_def call_payload_def jget_def jopt_def text_json_def)
  ultimately show ?thesis
    by (auto simp: read_call_ended_def uuid_at_def text_at_def call_payload_def jget_def)
qed

lemma summary_of_row:
  assumes ok: "call_ok c" and t: "call_is_terminal (cl_status c)"
  shows "summary_of_call (cl_type c) (call_status_text (cl_status c)) (cl_end_reason c) (cl_answered_at c \<noteq> None) (cl_duration c)
    = \<lparr>su_type = cl_type c, su_outcome = outcome_of c, su_seconds = (if cl_status c = Ended then cl_duration c else None)\<rparr>"
  using ok t
  by (cases "cl_status c")
    (auto simp: call_ok_def call_is_terminal_def summary_of_call_def outcome_of_def call_status_text_def Let_def split: option.splits)

text \<open>The event of an end that ran: there is one, it is of the kind of the end, and it carries the row.\<close>

lemma end_announced:
  assumes "row_get (ca_calls (fold calling_step calls empty_calling_db)) k = Some c" "call_is_terminal (cl_status c)"
    and "e \<in> ob_envelope ` set (ca_outbox (fold calling_step calls empty_calling_db))" "ends_call k e"
  shows "call_ok c \<and> ev_type e = end_topic (cl_status c) \<and> ev_payload e = call_payload k c"
proof -
  let ?db = "fold calling_step calls empty_calling_db"
  have "told ?db k" using coherent.run_keeps [of empty_calling_db calls]
    by (simp add: calls_coherent_def told_def end_events_def empty_calling_db_def row_get_def)
  then have t: "call_ok c" "end_events ?db k = [(end_topic (cl_status c), call_payload k c)]"
    using assms(1,2) by (simp_all add: told_def)
  have "(ev_type e, ev_payload e) \<in> set (end_events ?db k)"
    using assms(3,4) by (auto simp: end_events_def)
  then show ?thesis using t by simp
qed

lemma consumed_twice:
  assumes "ev_id e \<in> fst ` set (ch_processed (cs_db s))" "find_conversation_id_by_request (cs_db s) b = Some t"
    and "read_call_ended (ev_payload e) = Some p" "ce_booking p = b"
  shows "fst (consume_calling env e s) = s"
  using assms
  by (simp add: consume_calling_def act_bind_run post_summary_def Let_def chat_read_def chat_tx_def
      insert_call_summary_idempotent_def split: sum.split)

lemma post_message_thread [simp]:
  "find_conversation_id_by_request (post_message env m ms db) b = find_conversation_id_by_request db b"
  "find_conversation_id_by_request (db\<lparr>ch_processed := ps\<rparr>) b = find_conversation_id_by_request db b"
  by (simp_all add: find_conversation_id_by_request_def)

text \<open>
  C22. The end of a call is written into the conversation of its booking, once and as it was. After every
  run of the call service, the event that announces a call's end makes the chat service add one system
  message in the caller's name, whose text is the summary of the row: the kind of call, completed
  with its seconds when it was answered, rejected or missed otherwise. A second delivery changes nothing.
\<close>
theorem call_leaves_one_summary:
  assumes call: "row_get (ca_calls (fold calling_step calls empty_calling_db)) k = Some c" "call_is_terminal (cl_status c)"
    and ev: "e \<in> ob_envelope ` set (ca_outbox (fold calling_step calls empty_calling_db))" "ends_call k e"
    and thread: "find_conversation_id_by_request (cs_db s) (cl_booking c) = Some t"
      "find (\<lambda>(u, _). u = cl_caller c) (members_of (cs_db s) t) = Some (cl_caller c, role)"
    and fresh: "ev_id e \<notin> fst ` set (ch_processed (cs_db s))" "\<not> message_id_taken (cs_db s) (fresh_row (ce_call env))"
  shows "ch_messages (cs_db (fst (consume_calling env e s))) = ch_messages (cs_db s)
      @ [new_message (ce_call env) t (cl_caller c) role (Some (summary_content
          \<lparr>su_type = cl_type c, su_outcome = outcome_of c, su_seconds = (if cl_status c = Ended then cl_duration c else None)\<rparr>))
        MsgSystem]
    \<and> snd (consume_calling env e s) = Inr ()
    \<and> fst (consume_calling env' e (fst (consume_calling env e s))) = fst (consume_calling env e s)"
proof -
  have e: "call_ok c" "ev_type e = end_topic (cl_status c)" "ev_payload e = call_payload k c"
    using end_announced [OF call ev] by simp_all
  let ?p = "\<lparr>ce_booking = cl_booking c, ce_caller = cl_caller c, ce_type = cl_type c,
    ce_status = call_status_text (cl_status c), ce_seconds = cl_duration c, ce_answered = (cl_answered_at c \<noteq> None),
    ce_reason = cl_end_reason c\<rparr>"
  have p: "read_call_ended (ev_payload e) = Some ?p" using payload_read [OF e(1)] e(3) by simp
  have ty: "\<not> (ev_type e \<noteq> CALLING_ENDED \<and> ev_type e \<noteq> CALLING_REJECTED)" using e(2) by (simp add: end_topic_def)
  let ?m = "new_message (ce_call env) t (cl_caller c) role (Some (summary_content
      \<lparr>su_type = cl_type c, su_outcome = outcome_of c, su_seconds = (if cl_status c = Ended then cl_duration c else None)\<rparr>))
    MsgSystem"
  let ?db = "(cs_db s)\<lparr>ch_processed := ch_processed (cs_db s) @ [(ev_id e, ev_type e)]\<rparr>"
  have members: "members_of ?db t = members_of (cs_db s) t" by (simp add: members_of_def)
  have "message_id_taken ?db x = message_id_taken (cs_db s) x" for x by (simp add: message_id_taken_def)
  then have ins: "insert_call_summary_idempotent (ce_call env) (ev_id e) (ev_type e) t (cl_caller c) x (cs_db s)
      = Inr (True, post_message (ce_call env) (new_message (ce_call env) t (cl_caller c) role (Some x) MsgSystem)
          (members_of (cs_db s) t) ?db)" for x
    using fresh thread(2) by (simp add: insert_call_summary_idempotent_def Let_def members)
  have "insert_call_summary_idempotent (ce_call env) (ev_id e) (ev_type e) t (cl_caller c) (summary_content
      (summary_of_call (cl_type c) (call_status_text (cl_status c)) (cl_end_reason c) (cl_answered_at c \<noteq> None) (cl_duration c)))
      (cs_db s) = Inr (True, post_message (ce_call env) ?m (members_of (cs_db s) t) ?db)"
    unfolding ins summary_of_row [OF e(1) call(2)] ..
  then have post: "post_summary env (ev_id e) (ev_type e) ?p s
      = (s\<lparr>cs_db := post_message (ce_call env) ?m (members_of (cs_db s) t) ?db\<rparr>, Inr True)"
    using thread(1)
    by (simp add: post_summary_def Let_def act_bind_run chat_read_def chat_tx_def act_return_def del: not_None_eq not_Some_eq)
  have run: "consume_calling env e s = (s\<lparr>cs_db := post_message (ce_call env) ?m (members_of (cs_db s) t) ?db\<rparr>, Inr ())"
    unfolding consume_calling_def if_not_P [OF ty] p option.case act_bind_run post
    by (simp add: act_return_def)
  have "fst (consume_calling env' e (fst (consume_calling env e s))) = fst (consume_calling env e s)"
    by (rule consumed_twice [OF _ _ p, of _ "cl_booking c" t]) (simp_all add: run thread(1))
  then show ?thesis by (simp add: run)
qed

text \<open>A call nobody takes, from a customer (1) to the guard (2) of booking 5.\<close>

definition sample_call_env :: "nat \<Rightarrow> call_env" where
  "sample_call_env n = \<lparr>utc_now = int n, tx_now = int n, fresh_event = n, fresh_row = n, fresh_extra = n, fresh_outbox = n,
     trace_parent = None, correlation = n\<rparr>"

definition sample_chat_env :: "nat \<Rightarrow> chat_env" where
  "sample_chat_env n = \<lparr>ce_call = sample_call_env n, ce_object = n, ce_put_ok = True, ce_read = (\<lambda>_. Inl call_not_found)\<rparr>"

definition sample_dial :: "(call_env \<times> calling_call) list" where
  "sample_dial = [(sample_call_env 7, Dial (\<lambda>_. Inr \<lparr>bv_customer = 1, bv_guard = Some 2, bv_status = ''accepted''\<rparr>)
       \<lparr>au_id = 1, au_role = ''customer''\<rparr> 5 None),
     (sample_call_env 9, HangUp \<lparr>au_id = 1, au_role = ''customer''\<rparr> 7 None)]"

definition sample_thread :: chat_state where
  "sample_thread = \<lparr>cs_db = empty_chat_db\<lparr>ch_conversations := [(3, \<lparr>cv_request = 5, cv_status = Some ''accepted'', cv_created_at = 0\<rparr>)],
       ch_participants := [((3, 1), \<lparr>pt_role = ''customer'', pt_name = None, pt_avatar = None\<rparr>)]\<rparr>,
     cs_objects = (\<lambda>_. None), cs_published = []\<rparr>"

definition sample_missed :: call_row where
  "sample_missed = moved_call 9 Missed (Some ''hangup'') (new_call 7 1 2 5 ''audio'')"

definition sample_end_event :: envelope where
  "sample_end_event = new_envelope 9 9 None CALLING_ENDED 9 (call_payload 7 sample_missed)"

lemma sample_dial_run:
  "ca_calls (fold calling_step sample_dial empty_calling_db) = [(7, sample_missed)]"
  "sample_end_event \<in> ob_envelope ` set (ca_outbox (fold calling_step sample_dial empty_calling_db))"
  by (simp_all add: sample_dial_def sample_call_env_def sample_missed_def sample_end_event_def empty_calling_db_def
      initiate_call_def end_call_def initiate_def apply_transition_def action_target_def end_target_def
      call_can_transition_def call_is_terminal_def duration_overflows_def is_callable_status_def peer_of_def DEFAULT_CALL_TYPE_def
      is_valid_call_type_def VALID_CALL_TYPES_def callee_busy_def put_call_def enqueue_call_event_def outbox_append_def
      act_tx_def act_bind_run act_of_def act_guard_def Let_def row_get_def row_put_def new_call_def)

theorem call_leaves_one_summary_witness:
  "ch_messages (cs_db (fst (consume_calling (sample_chat_env 4) sample_end_event sample_thread)))
     = [new_message (sample_call_env 4) 3 1 ''customer''
         (Some (summary_content \<lparr>su_type = ''audio'', su_outcome = outcome_of sample_missed, su_seconds = None\<rparr>)) MsgSystem]"
proof -
  have c: "row_get (ca_calls (fold calling_step sample_dial empty_calling_db)) 7 = Some sample_missed"
    by (simp add: sample_dial_run(1) row_get_def)
  have f: "cl_status sample_missed = Missed" "cl_type sample_missed = ''audio''" "cl_booking sample_missed = 5" "cl_caller sample_missed = 1"
    by (simp_all add: sample_missed_def moved_call_def new_call_def)
  have e: "ends_call 7 sample_end_event" by (simp add: sample_end_event_def ends_call_def new_envelope_def)
  have d: "ce_call (sample_chat_env 4) = sample_call_env 4" by (simp add: sample_chat_env_def)
  show ?thesis
    using call_leaves_one_summary [OF c _ sample_dial_run(2) e, of sample_thread 3 "''customer''" "sample_chat_env 4" "sample_chat_env 4"]
    by (simp add: f d call_is_terminal_def sample_thread_def empty_chat_db_def find_conversation_id_by_request_def members_of_def
        message_id_taken_def)
qed

text \<open>
  The reason of an end is the caller's own text: a caller who gives up on a call with a word such as
  rejected in the reason is written down as having been rejected.
\<close>

lemma caller_words_the_outcome:
  "outcome_of (moved_call now Missed (Some ''rejected'') (new_call t a b bk ''audio'')) = ''rejected''"
proof -
  have "has_sub ''reject'' ''rejected''"
    unfolding has_sub_iff by (intro exI [of _ "[]"] exI [of _ "''ed''"]) simp
  then show ?thesis by (simp add: outcome_of_def moved_call_def new_call_def call_is_terminal_def)
qed

end
