(* ===== verification/Payment_Slip.thy ===== *)
theory Payment_Slip
  imports Payment_Promptpay Payment_Repo Object_Store
begin

text \<open>
  Transfer slips: the checks of an uploaded image (\<open>services/payment/src/domain/slip.rs\<close>), the client of
  the slip verifier (\<open>slip2go_client.rs\<close>) and the comparison of two accounts (\<open>api/mod.rs\<close>). What the
  verifier answers is a parameter; reading its JSON and the number of an amount is the libraries'. An
  account is a text of Unicode scalar values, as in \<open>Payment_Promptpay\<close>; an image is its bytes.
\<close>

subsection \<open>The image\<close>

definition MAX_SLIP_SIZE :: nat where "MAX_SLIP_SIZE = 10 * 1024 * 1024"

definition ALLOWED_SLIP_MIME_TYPES :: "string list" where
  "ALLOWED_SLIP_MIME_TYPES = [''image/jpeg'', ''image/png'', ''image/webp'']"

definition slip_extension :: "string \<Rightarrow> string" where
  "slip_extension mime_type =
    (if mime_type = ''image/jpeg'' then ''jpg'' else if mime_type = ''image/png'' then ''png''
     else if mime_type = ''image/webp'' then ''webp'' else ''bin'')"

definition detect_slip_mime :: "string \<Rightarrow> string option" where
  "detect_slip_mime d =
    (if take 3 d = map char_of [255 :: nat, 216, 255] then Some ''image/jpeg''
     else if take 8 d = map char_of [137 :: nat, 80, 78, 71, 13, 10, 26, 10] then Some ''image/png''
     else if 12 \<le> length d \<and> take 4 d = ''RIFF'' \<and> take 4 (drop 8 d) = ''WEBP'' then Some ''image/webp''
     else None)"

definition validate_slip_upload :: "string \<Rightarrow> nat \<Rightarrow> string \<Rightarrow> string app_result" where
  "validate_slip_upload declared_mime file_size d =
    (if declared_mime \<notin> set ALLOWED_SLIP_MIME_TYPES
     then Inl (BadRequest ''Unsupported slip type: {declared_mime}. Allowed: JPEG, PNG, WEBP'')
     else if MAX_SLIP_SIZE < file_size
     then Inl (BadRequest ''Slip image too large: {file_size} bytes (max {max_mb}MB)'')
     else (case detect_slip_mime d of
         None \<Rightarrow> Inl (BadRequest ''Slip content does not match any allowed image format'')
       | Some detected \<Rightarrow>
         if detected \<noteq> declared_mime
         then Inl (BadRequest ''MIME mismatch: declared {declared_mime} but content is {detected}'')
         else Inr detected))"

fun slip_parts :: "string option \<Rightarrow> string option \<Rightarrow> multipart \<Rightarrow> (string option \<times> string option) app_result" where
  "slip_parts mime file [] = Inr (mime, file)"
| "slip_parts mime file (None # ps) = Inl broken_form"
| "slip_parts mime file (Some p # ps) =
    (if fp_name p = Some ''file'' then (case fp_bytes p of
         None \<Rightarrow> Inl broken_file
       | Some b \<Rightarrow> slip_parts (fp_content_type p) (Some b) ps)
     else slip_parts mime file ps)"

definition parse_slip_form :: "multipart \<Rightarrow> (string \<times> string) app_result" where
  "parse_slip_form form = (case slip_parts None None form of
     Inl e \<Rightarrow> Inl e
   | Inr (mime, None) \<Rightarrow> Inl (BadRequest ''file is required'')
   | Inr (mime, Some b) \<Rightarrow> Inr (mime_or_default mime, b))"

subsection \<open>The verifier\<close>

definition SUCCESS_CODE :: string where "SUCCESS_CODE = ''200000''"
definition SUCCESS_VALID_CODE :: string where "SUCCESS_VALID_CODE = ''200200''"
definition SLIP_VERIFY_FAILED_CODE :: string where "SLIP_VERIFY_FAILED_CODE = ''SLIP_VERIFY_FAILED''"
definition SLIP_AMOUNT_TOO_LOW_CODE :: string where "SLIP_AMOUNT_TOO_LOW_CODE = ''SLIP_AMOUNT_TOO_LOW''"
definition SLIP_WRONG_RECEIVER_CODE :: string where "SLIP_WRONG_RECEIVER_CODE = ''SLIP_WRONG_RECEIVER''"

definition is_success_code :: "string \<Rightarrow> bool" where
  "is_success_code code = (code = SUCCESS_CODE \<or> code = SUCCESS_VALID_CODE)"

record verified_slip =
  vs_reference_id :: string
  vs_trans_ref :: string
  vs_amount :: decimal
  vs_receivers :: "utext list"

text \<open>The amount is sent as its decimal text; the account type only when the account is a mobile number.\<close>

record slip_conditions =
  sc_receiver :: utext
  sc_receiver_type :: "string option"
  sc_min_amount :: decimal

record slip_account =
  sa_bank :: "utext option option"
  sa_proxy :: "utext option option"

record slip_data =
  sd_reference_id :: string
  sd_trans_ref :: string
  sd_amount :: decimal
  sd_receiver :: "slip_account option option"

text \<open>The data of an envelope is absent, or present and either decodes or not.\<close>

record slip_envelope =
  sv_code :: string
  sv_message :: string
  sv_data :: "slip_data option option"

datatype slip_reply =
    SlipUnreachable
  | SlipUnreadable nat
  | SlipReply nat "slip_envelope option"

definition flat :: "'a option option \<Rightarrow> 'a option" where
  "flat x = (case x of Some y \<Rightarrow> y | None \<Rightarrow> None)"

definition add_candidate :: "utext option \<Rightarrow> utext list \<Rightarrow> utext list" where
  "add_candidate c out = (case c of
     None \<Rightarrow> out
   | Some t \<Rightarrow> let s = trim_ends t in if s \<noteq> [] \<and> s \<notin> set out then out @ [s] else out)"

definition receiver_accounts :: "slip_data \<Rightarrow> utext list" where
  "receiver_accounts d = (case flat (sd_receiver d) of
     None \<Rightarrow> []
   | Some a \<Rightarrow> add_candidate (flat (sa_proxy a)) (add_candidate (flat (sa_bank a)) []))"

definition no_verdict :: app_error where "no_verdict = Internal ''Slip verification failed''"

definition interpret_slip :: "slip_envelope \<Rightarrow> verified_slip app_result" where
  "interpret_slip e =
    (if \<not> is_success_code (sv_code e)
     then Inl (ConflictCode SLIP_VERIFY_FAILED_CODE
       (if trim (sv_message e) = [] then ''Slip verification failed'' else sv_message e))
     else (case sv_data e of
         None \<Rightarrow> Inl (Internal ''Slip verification returned no data'')
       | Some None \<Rightarrow> Inl no_verdict
       | Some (Some d) \<Rightarrow> Inr \<lparr>vs_reference_id = sd_reference_id d, vs_trans_ref = sd_trans_ref d,
           vs_amount = sd_amount d, vs_receivers = receiver_accounts d\<rparr>))"

text \<open>A rejection may come with any status; a body that cannot be read is empty on a failure status.\<close>

definition verify_slip :: "string option \<Rightarrow> slip_reply \<Rightarrow> verified_slip app_result" where
  "verify_slip secret reply = (case secret of
     None \<Rightarrow> Inl (Internal ''Slip verification is not configured'')
   | Some _ \<Rightarrow> (case reply of
       SlipReply status (Some e) \<Rightarrow> interpret_slip e
     | _ \<Rightarrow> Inl no_verdict))"

subsection \<open>The receiver\<close>

definition digits_of :: "utext \<Rightarrow> utext" where "digits_of s = filter u_digit s"

definition tail_of :: "utext \<Rightarrow> utext \<Rightarrow> bool" where
  "tail_of b a = (drop (length a - length b) a = b)"

definition accounts_match :: "utext \<Rightarrow> utext \<Rightarrow> bool" where
  "accounts_match slip_account our_account =
    (let a = digits_of slip_account; b = digits_of our_account in
     if a = [] \<or> b = [] then False else a = b \<or> tail_of b a \<or> tail_of a b)"

definition receiver_type :: "utext \<Rightarrow> string option" where
  "receiver_type account = (case classify_proxy account of Some Mobile \<Rightarrow> Some ''02001'' | _ \<Rightarrow> None)"

text \<open>The service's own check of a slip the verifier passed.\<close>

definition recheck_slip :: "decimal \<Rightarrow> utext \<Rightarrow> verified_slip \<Rightarrow> unit app_result" where
  "recheck_slip estimate receiving v =
    (if vs_amount v < estimate
     then Inl (ConflictCode SLIP_AMOUNT_TOO_LOW_CODE ''Slip amount {} is less than the required {estimate}'')
     else if \<not> list_ex (\<lambda>r. accounts_match r receiving) (vs_receivers v)
     then Inl (ConflictCode SLIP_WRONG_RECEIVER_CODE ''This slip was not paid to our account'')
     else Inr ())"

lemma tail_of_iff: "tail_of b a \<longleftrightarrow> (\<exists>c. a = c @ b)"
  by (auto simp: tail_of_def) (metis append_take_drop_id)

lemma accounts_match_refl: "digits_of a \<noteq> [] \<Longrightarrow> accounts_match a a"
  by (simp add: accounts_match_def Let_def)

lemma accounts_match_sym: "accounts_match a b = accounts_match b a"
  by (auto simp: accounts_match_def Let_def)

text \<open>
  Two accounts match exactly when the digits of one end in all the digits of the other: a slip that
  shows the last digit alone matches every account with that last digit.
\<close>

lemma accounts_match_iff:
  "accounts_match a b \<longleftrightarrow> digits_of a \<noteq> [] \<and> digits_of b \<noteq> []
    \<and> (\<exists>c. digits_of a = c @ digits_of b \<or> digits_of b = c @ digits_of a)"
  by (auto simp: accounts_match_def Let_def tail_of_iff)

lemma one_digit_matches: "accounts_match (asc ''xxx-x-xxxx-4'') (asc ''0812345674'')"
  by (simp add: accounts_match_def Let_def digits_of_def u_digit_def tail_of_def)

text \<open>
  A bank masks the check digit too: a slip to our own account that shows \<open>xxx-x-x1234-x\<close> is refused.
\<close>

lemma masked_own_account_refused: "\<not> accounts_match (asc ''xxx-x-x1234-x'') (asc ''001-2-31234-5'')"
  by (simp add: accounts_match_def Let_def digits_of_def u_digit_def tail_of_def)

lemma validated_slip:
  assumes "validate_slip_upload m n d = Inr m'"
  shows "m' = m" "m \<in> set ALLOWED_SLIP_MIME_TYPES" "n \<le> MAX_SLIP_SIZE" "detect_slip_mime d = Some m"
  using assms by (auto simp: validate_slip_upload_def split: option.splits if_splits)

end
