(* ===== verification/Payment_Api.thy ===== *)
theory Payment_Api
  imports Payment_Slip Payment_Invariants Effects
begin

text \<open>
  The handlers of the payment service (\<open>services/payment/src/api/mod.rs\<close>): charging a booking, paying it
  with a transfer slip, the QR of the transfer, and the reads with their queries (\<open>repo/mod.rs\<close>). A
  call reads the booking service up to twice and may start a second transaction, the compensation: the
  environment holds both answers and both sets of fresh identifiers. \<open>store2\<close> is what a money column
  keeps of an amount, as in \<open>Payment_Repo\<close>.
\<close>

datatype payment_provider = Simulated | Slip2Go

record charge_booking =
  xb_customer :: uuid
  xb_guard :: "uuid option"
  xb_status :: string
  xb_hours :: int
  xb_base_fee :: decimal
  xb_guard_count :: int
  xb_tip :: decimal
  xb_commission_percent :: "decimal option"
  xb_cancellation_fee :: "decimal option"

record charge_env =
  px_call :: call_env
  px_comp :: call_env
  px_provider :: payment_provider
  px_account :: utext
  px_secret :: "string option"
  px_read :: "charge_booking app_result"
  px_reread :: "charge_booking app_result"
  px_slip :: "slip_conditions \<Rightarrow> slip_reply"
  px_object :: uuid
  px_put_ok :: bool
  px_delete_ok :: bool

record pay_state =
  pz_db :: payment_db
  pz_objects :: objects

definition pay_tx :: "(payment_db \<Rightarrow> ('a \<times> payment_db) app_result) \<Rightarrow> (pay_state, 'a) act" where
  "pay_tx t s = (case t (pz_db s) of Inl e \<Rightarrow> (s, Inl e) | Inr (x, db) \<Rightarrow> (s\<lparr>pz_db := db\<rparr>, Inr x))"

subsection \<open>Charging\<close>

definition PREPAID_METHOD :: string where "PREPAID_METHOD = ''prepaid''"

definition charge_terms_of :: "decimal_lib \<Rightarrow> charge_booking \<Rightarrow> charge_terms" where
  "charge_terms_of L b = new_charge_terms L
     \<lparr>pi_base_fee = xb_base_fee b, pi_booked_hours = xb_hours b, pi_guard_count = xb_guard_count b, pi_tip = xb_tip b\<rparr>
     (case xb_commission_percent b of Some p \<Rightarrow> p | None \<Rightarrow> 0)
     (case xb_cancellation_fee b of Some f \<Rightarrow> f | None \<Rightarrow> 0)"

definition booking_cancelled_refunding :: app_error where
  "booking_cancelled_refunding =
    ConflictCode ''BOOKING_CANCELLED'' ''[the booking was cancelled; the money is being returned in full]''"

definition compensate_if_terminal :: "decimal_lib \<Rightarrow> charge_env \<Rightarrow> uuid \<Rightarrow> string \<Rightarrow> (pay_state, bool) act" where
  "compensate_if_terminal L env booking_id status =
    (if \<not> is_negative_terminal status then act_return False
     else act_bind (pay_tx (\<lambda>db. Inr (refund_race_lost_prepay L (px_comp env) db booking_id))) (\<lambda>_. act_return True))"

definition customers_only :: app_error where "customers_only = Forbidden ''Only customers can pay for a booking''"
definition own_booking_only :: app_error where "own_booking_only = Forbidden ''You can only pay for your own booking''"
definition slip_disabled :: app_error where
  "slip_disabled = ConflictCode ''SLIP_DISABLED'' ''Slip payment is not enabled''"

text \<open>The checks both ways of paying begin with; a stranded charge is refunded on the way.\<close>

definition require_payable :: "decimal_lib \<Rightarrow> charge_env \<Rightarrow> auth_user \<Rightarrow> uuid \<Rightarrow> (pay_state, charge_booking) act" where
  "require_payable L env user booking_id =
    act_bind (act_of (px_read env)) (\<lambda>b.
    act_bind (act_guard (xb_customer b = au_id user) own_booking_only) (\<lambda>_.
    if is_payable_status (xb_status b) then act_return b
    else act_bind (compensate_if_terminal L env booking_id (xb_status b)) (\<lambda>refunding.
      act_fail (if refunding then booking_cancelled_refunding
        else ConflictCode ''BOOKING_NOT_PAYABLE'' ''This booking is not awaiting payment''))))"

text \<open>The check both ways of paying end with: is the booking still alive?\<close>

definition still_alive :: "decimal_lib \<Rightarrow> charge_env \<Rightarrow> uuid \<Rightarrow> (pay_state, unit) act" where
  "still_alive L env booking_id =
    act_bind (act_of (px_reread env)) (\<lambda>latest.
    act_bind (compensate_if_terminal L env booking_id (xb_status latest)) (\<lambda>refunding.
    act_guard (\<not> refunding) booking_cancelled_refunding))"

definition create_payment :: "decimal_lib \<Rightarrow> charge_env \<Rightarrow> auth_user \<Rightarrow> uuid \<Rightarrow> (pay_state, uuid \<times> payment) act" where
  "create_payment L env user booking_id =
    act_bind (act_guard (au_role user = ''customer'') customers_only) (\<lambda>_.
    act_bind (act_guard (px_provider env \<noteq> Slip2Go)
      (ConflictCode ''SLIP_REQUIRED'' ''Pay by uploading a verified transfer slip'')) (\<lambda>_.
    act_bind (require_payable L env user booking_id) (\<lambda>b.
    act_bind (pay_tx (\<lambda>db. prepay_idempotent L (px_call env) db booking_id (au_id user) (xb_guard b) (charge_terms_of L b)
      PREPAID_METHOD)) (\<lambda>outcome.
    act_bind (still_alive L env booking_id) (\<lambda>_.
    act_return (case outcome of Created k p \<Rightarrow> (k, p) | AlreadyPaid k p \<Rightarrow> (k, p)))))))"

subsection \<open>Paying with a slip\<close>

definition slip_key :: "charge_env \<Rightarrow> uuid \<Rightarrow> string \<Rightarrow> string" where
  "slip_key env booking_id mime =
    ''payment/'' @ uuid_text booking_id @ ''/slips/'' @ uuid_text (px_object env) @ ''.'' @ slip_extension mime"

definition put_slip :: "charge_env \<Rightarrow> string \<Rightarrow> string \<Rightarrow> (pay_state, unit) act" where
  "put_slip env key data s = (case s3_upload (px_put_ok env) key data (pz_objects s) of
     Inl e \<Rightarrow> (s, Inl e) | Inr (_, os) \<Rightarrow> (s\<lparr>pz_objects := os\<rparr>, Inr ()))"

definition drop_slip :: "charge_env \<Rightarrow> string \<Rightarrow> pay_state \<Rightarrow> pay_state" where
  "drop_slip env key s = s\<lparr>pz_objects := delete_best_effort (px_delete_ok env) key (pz_objects s)\<rparr>"

definition extra_transfer :: app_error where
  "extra_transfer = ConflictCode ''ALREADY_PAID_EXTRA_TRANSFER'' ''[already paid; the extra transfer is recorded for a refund]''"

text \<open>The settlement of a slip, with the deletion of its image when the transaction fails.\<close>

definition settle_slip :: "decimal_lib \<Rightarrow> (decimal \<Rightarrow> decimal) \<Rightarrow> charge_env \<Rightarrow> auth_user \<Rightarrow> uuid \<Rightarrow> charge_booking
    \<Rightarrow> verified_slip \<Rightarrow> string \<Rightarrow> (pay_state, slip_pay_outcome) act" where
  "settle_slip L store2 env user booking_id b v key s =
    (case pay_tx (\<lambda>db. pay_with_slip L store2 (px_call env) db booking_id (au_id user) (xb_guard b) (charge_terms_of L b)
        (vs_reference_id v) (vs_trans_ref v) (vs_amount v) key) s of
       (s', Inl e) \<Rightarrow> (drop_slip env key s', Inl e)
     | (s', Inr outcome) \<Rightarrow> (s', Inr outcome))"

definition answer_slip :: "decimal_lib \<Rightarrow> charge_env \<Rightarrow> uuid \<Rightarrow> string \<Rightarrow> slip_pay_outcome \<Rightarrow> (pay_state, uuid \<times> payment) act" where
  "answer_slip L env booking_id key outcome = (case outcome of
     SlipCreated k p \<Rightarrow> act_bind (still_alive L env booking_id) (\<lambda>_. act_return (k, p))
   | SlipAlreadyPaid k p \<Rightarrow>
       act_bind (act_modify (drop_slip env key)) (\<lambda>_.
       act_bind (still_alive L env booking_id) (\<lambda>_. act_return (k, p)))
   | ExtraTransferRecorded k p \<Rightarrow> act_fail extra_transfer)"

text \<open>The form, the image, the verifier and the service's own check, in this order.\<close>

definition check_slip :: "decimal_lib \<Rightarrow> charge_env \<Rightarrow> charge_booking \<Rightarrow> multipart
    \<Rightarrow> (string \<times> string \<times> verified_slip) app_result" where
  "check_slip L env b form =
    res_bind (parse_slip_form form) (\<lambda>(declared, bytes).
    res_bind (validate_slip_upload declared (length bytes) bytes) (\<lambda>mime.
    let estimate = pb_grand_total (ct_breakdown (charge_terms_of L b));
        conditions = \<lparr>sc_receiver = px_account env, sc_receiver_type = receiver_type (px_account env), sc_min_amount = estimate\<rparr> in
    res_bind (verify_slip (px_secret env) (px_slip env conditions)) (\<lambda>v.
    res_bind (recheck_slip estimate (px_account env) v) (\<lambda>_. Inr (mime, bytes, v)))))"

definition api_pay_with_slip :: "decimal_lib \<Rightarrow> (decimal \<Rightarrow> decimal) \<Rightarrow> charge_env \<Rightarrow> auth_user \<Rightarrow> uuid \<Rightarrow> multipart
    \<Rightarrow> (pay_state, uuid \<times> payment) act" where
  "api_pay_with_slip L store2 env user booking_id form =
    act_bind (act_guard (au_role user = ''customer'') customers_only) (\<lambda>_.
    act_bind (act_guard (px_provider env = Slip2Go) slip_disabled) (\<lambda>_.
    act_bind (require_payable L env user booking_id) (\<lambda>b.
    act_bind (act_of (check_slip L env b form)) (\<lambda>(mime, bytes, v).
    (let key = slip_key env booking_id mime in
     act_bind (put_slip env key bytes) (\<lambda>_.
     act_bind (settle_slip L store2 env user booking_id b v key) (answer_slip L env booking_id key)))))))"

subsection \<open>The QR of the transfer\<close>

record promptpay_response =
  pr_amount :: decimal
  pr_amount_satang :: int
  pr_account :: utext
  pr_qr :: utext

definition fits_i64 :: "int \<Rightarrow> bool" where "fits_i64 n = (- (2 ^ 63) \<le> n \<and> n < 2 ^ 63)"

definition get_promptpay :: "decimal_lib \<Rightarrow> charge_env \<Rightarrow> auth_user \<Rightarrow> promptpay_response app_result" where
  "get_promptpay L env user =
    (if au_role user \<noteq> ''customer'' then Inl customers_only
     else if px_provider env \<noteq> Slip2Go then Inl slip_disabled
     else res_bind (px_read env) (\<lambda>b.
       if xb_customer b \<noteq> au_id user then Inl own_booking_only
       else if \<not> is_payable_status (xb_status b) then Inl (Conflict ''This booking is not awaiting payment'')
       else let estimate = expected_total L (xb_base_fee b) (xb_hours b) (xb_guard_count b) (xb_tip b) in
         res_bind (build_promptpay_payload L (px_account env) estimate) (\<lambda>qr.
         let satang = \<lfloor>lib_round_dp L estimate 2 * 100\<rfloor> in
         if \<not> fits_i64 satang then Inl (Internal ''amount out of range'')
         else Inr \<lparr>pr_amount = estimate, pr_amount_satang = satang,
           pr_account = format_account_for_display (px_account env), pr_qr = qr\<rparr>)))"

subsection \<open>Reads\<close>

text \<open>A payment as clients see it: the row and the bill as it stands.\<close>

definition grand_total_of :: "payment \<Rightarrow> decimal" where
  "grand_total_of p = (case (pm_subtotal p, pm_vat_amount p) of (Some s, Some v) \<Rightarrow> s + v | _ \<Rightarrow> pm_amount p)"

type_synonym payment_view = "uuid \<times> payment \<times> decimal"

definition view_payment :: "uuid \<times> payment \<Rightarrow> payment_view" where
  "view_payment r = (fst r, snd r, grand_total_of (snd r))"

definition newest_payments :: "(uuid \<times> payment) list \<Rightarrow> (uuid \<times> payment) list" where
  "newest_payments = sort_key (\<lambda>(_, p). - pm_created_at p)"

definition payment_not_found :: app_error where "payment_not_found = NotFound ''Payment not found''"

definition get_payment :: "auth_user \<Rightarrow> uuid \<Rightarrow> payment_db \<Rightarrow> payment_view app_result" where
  "get_payment user k db = (case row_get (payments db) k of
     None \<Rightarrow> Inl payment_not_found
   | Some p \<Rightarrow>
     if pm_customer p \<noteq> au_id user \<and> au_role user \<noteq> ''admin'' then Inl (Forbidden ''Not your payment'')
     else Inr (view_payment (k, p)))"

definition list_payments :: "auth_user \<Rightarrow> payment_db \<Rightarrow> payment_view list" where
  "list_payments user db = map view_payment (take 100 (newest_payments
     (filter (\<lambda>(_, p). pm_customer p = au_id user) (payments db))))"

definition guard_earnings :: "auth_user \<Rightarrow> payment_db \<Rightarrow> (uuid \<times> decimal option \<times> decimal option) list app_result" where
  "guard_earnings user db =
    (if au_role user \<noteq> ''guard'' then Inl (Forbidden ''Only guards have an earnings ledger'')
     else Inr (map (\<lambda>(_, p). (pm_booking p, pm_actual_hours p, pm_commission_percent p)) (take 100 (newest_payments
       (filter (\<lambda>(_, p). pm_guard p = Some (au_id user) \<and> pm_status p = PayCompleted) (payments db))))))"

definition payment_status_text :: "payment_status \<Rightarrow> string" where
  "payment_status_text st = (case st of PayPending \<Rightarrow> ''pending'' | PayCompleted \<Rightarrow> ''completed'' | PayRefunded \<Rightarrow> ''refunded'')"

definition PAYMENT_STATUSES :: "string list" where "PAYMENT_STATUSES = [''pending'', ''completed'', ''refunded'']"
definition REFUND_STATUSES :: "string list" where "REFUND_STATUSES = [''pending'', ''processed'']"

definition admins_only :: app_error where "admins_only = Forbidden ''This action requires the admin role''"

definition known_filter :: "string list \<Rightarrow> string option \<Rightarrow> string option app_result" where
  "known_filter known v = (case v of
     None \<Rightarrow> Inr None | Some s \<Rightarrow> if s \<in> set known then Inr (Some s) else Inl (BadRequest ''invalid status filter''))"

definition page_of :: "int option \<Rightarrow> int option \<Rightarrow> 'a list \<Rightarrow> 'a list" where
  "page_of limit offset xs =
    take (nat (max 1 (min (case limit of Some n \<Rightarrow> n | None \<Rightarrow> 50) 200)))
      (drop (nat (max (case offset of Some n \<Rightarrow> n | None \<Rightarrow> 0) 0)) xs)"

definition admin_list_payments :: "auth_user \<Rightarrow> string option \<Rightarrow> uuid option \<Rightarrow> int option \<Rightarrow> int option \<Rightarrow> payment_db
    \<Rightarrow> payment_view list app_result" where
  "admin_list_payments user status customer limit offset db =
    (if au_role user \<noteq> ''admin'' then Inl admins_only
     else res_bind (known_filter PAYMENT_STATUSES status) (\<lambda>st.
       Inr (map view_payment (page_of limit offset (newest_payments (filter (\<lambda>(_, p).
           (case st of None \<Rightarrow> True | Some t \<Rightarrow> payment_status_text (pm_status p) = t)
           \<and> (case customer of None \<Rightarrow> True | Some c \<Rightarrow> pm_customer p = c)) (payments db)))))))"

record refund_queue_item =
  rq_payment :: uuid
  rq_booking :: uuid
  rq_amount :: "decimal option"
  rq_status :: string
  rq_created_at :: instant

definition owed_refunds :: "string option \<Rightarrow> payment_db \<Rightarrow> (uuid \<times> payment) list" where
  "owed_refunds status db = filter (\<lambda>(_, p). pm_refund_status p \<noteq> None
     \<and> (case status of None \<Rightarrow> True | Some t \<Rightarrow> pm_refund_status p = Some t)) (payments db)"

definition queue_item :: "uuid \<times> payment \<Rightarrow> refund_queue_item" where
  "queue_item r = \<lparr>rq_payment = fst r, rq_booking = pm_booking (snd r), rq_amount = pm_refund_amount (snd r),
     rq_status = (case pm_refund_status (snd r) of Some t \<Rightarrow> t | None \<Rightarrow> []), rq_created_at = pm_created_at (snd r)\<rparr>"

definition admin_refund_queue :: "auth_user \<Rightarrow> string option \<Rightarrow> int option \<Rightarrow> int option \<Rightarrow> payment_db
    \<Rightarrow> (refund_queue_item list \<times> nat) app_result" where
  "admin_refund_queue user status limit offset db =
    (if au_role user \<noteq> ''admin'' then Inl admins_only
     else res_bind (known_filter REFUND_STATUSES status) (\<lambda>st.
       Inr (map queue_item (page_of limit offset (newest_payments (owed_refunds st db))), length (owed_refunds st db))))"

subsection \<open>Reports\<close>

definition REPORT_DEFAULT_DAYS :: int where "REPORT_DEFAULT_DAYS = 30"
definition REPORT_MAX_DAYS :: int where "REPORT_MAX_DAYS = 366"

definition report_range :: "instant option \<Rightarrow> instant option \<Rightarrow> instant \<Rightarrow> instant \<times> instant" where
  "report_range from_at to_at now =
    (let t = (case to_at of Some x \<Rightarrow> x | None \<Rightarrow> now);
         f = (case from_at of Some x \<Rightarrow> x | None \<Rightarrow> t - hours_dur (24 * REPORT_DEFAULT_DAYS))
     in (min (max f (t - hours_dur (24 * REPORT_MAX_DAYS))) t, t))"

definition net_revenue :: "payment \<Rightarrow> decimal" where
  "net_revenue p = (if pm_status p \<noteq> PayPending
     then (case pm_final_amount p of Some f \<Rightarrow> f | None \<Rightarrow> pm_amount p) - (case pm_vat_amount p of Some v \<Rightarrow> v | None \<Rightarrow> 0)
     else 0)"

definition landed_at :: "payment \<Rightarrow> instant" where
  "landed_at p = (case pm_paid_at p of Some t \<Rightarrow> t | None \<Rightarrow> pm_created_at p)"

definition landed_day :: "payment \<Rightarrow> int" where "landed_day p = landed_at p div hours_dur 24"

definition landed_between :: "instant \<Rightarrow> instant \<Rightarrow> payment_db \<Rightarrow> payment list" where
  "landed_between f t db = filter (\<lambda>p. f \<le> landed_at p \<and> landed_at p < t) (map snd (payments db))"

definition revenue_series :: "instant \<Rightarrow> instant \<Rightarrow> payment_db \<Rightarrow> (int \<times> decimal \<times> nat) list" where
  "revenue_series f t db =
    (let ps = landed_between f t db in
     map (\<lambda>d. let day = filter (\<lambda>p. landed_day p = d) ps in
         (d, sum_list (map net_revenue day), length (filter (\<lambda>p. pm_status p = PayCompleted) day)))
       (sort (remdups (map landed_day ps))))"

definition revenue_total :: "instant \<Rightarrow> instant \<Rightarrow> payment_db \<Rightarrow> decimal" where
  "revenue_total f t db = sum_list (map net_revenue (landed_between f t db))"

record revenue_report =
  rv_series :: "(int \<times> decimal \<times> nat) list"
  rv_total :: decimal
  rv_prev_total :: decimal
  rv_mom_pct :: "decimal option"

text \<open>The percentage is given as the decimal the service then turns into a float.\<close>

definition admin_revenue_report :: "decimal_lib \<Rightarrow> auth_user \<Rightarrow> instant option \<Rightarrow> instant option \<Rightarrow> instant \<Rightarrow> payment_db
    \<Rightarrow> revenue_report app_result" where
  "admin_revenue_report L user from_at to_at now db =
    (if au_role user \<noteq> ''admin'' then Inl admins_only
     else (case report_range from_at to_at now of (f, t) \<Rightarrow>
       let series = revenue_series f t db;
           total = sum_list (map (\<lambda>(_, r, _). r) series);
           prev = revenue_total (f - (t - f)) f db
       in Inr \<lparr>rv_series = series, rv_total = total, rv_prev_total = prev,
         rv_mom_pct = (if prev = 0 then None else Some (lib_mul L (lib_div L (total - prev) prev) 100))\<rparr>))"

definition spent :: "payment \<Rightarrow> decimal" where
  "spent p = (case pm_final_amount p of Some f \<Rightarrow> f | None \<Rightarrow> pm_amount p)"

definition customer_spend :: "payment_db \<Rightarrow> (uuid \<times> decimal) list" where
  "customer_spend db =
    (let ps = filter (\<lambda>p. pm_status p \<noteq> PayPending) (map snd (payments db)) in
     map (\<lambda>c. (c, sum_list (map spent (filter (\<lambda>p. pm_customer p = c) ps)))) (remdups (map pm_customer ps)))"

definition admin_customer_spend_report :: "auth_user \<Rightarrow> payment_db \<Rightarrow> (uuid \<times> decimal) list app_result" where
  "admin_customer_spend_report user db = (if au_role user \<noteq> ''admin'' then Inl admins_only else Inr (customer_spend db))"

text \<open>Sums by group add up to the sum.\<close>

lemma sum_indicator:
  "distinct ds \<Longrightarrow> e \<in> set ds \<Longrightarrow> sum_list (map (\<lambda>d. if e = d then x else 0) ds) = (x :: 'a :: comm_monoid_add)"
proof (induction ds)
  case (Cons d ds)
  have "e \<notin> set ds \<Longrightarrow> sum_list (map (\<lambda>d. if e = d then x else 0) ds) = 0"
    by (induction ds) auto
  then show ?case using Cons by auto
qed simp

lemma sum_by_group:
  fixes f :: "'p \<Rightarrow> decimal"
  assumes "distinct ds" "g ` set xs \<subseteq> set ds"
  shows "sum_list (map (\<lambda>d. sum_list (map f (filter (\<lambda>x. g x = d) xs))) ds) = sum_list (map f xs)"
  using assms(2)
proof (induction xs)
  case (Cons y xs)
  have "sum_list (map (\<lambda>d. sum_list (map f (filter (\<lambda>x. g x = d) (y # xs)))) ds)
      = sum_list (map (\<lambda>d. (if g y = d then f y else 0) + sum_list (map f (filter (\<lambda>x. g x = d) xs))) ds)"
    by (intro arg_cong [where f = sum_list] map_cong) simp_all
  also have "\<dots> = f y + sum_list (map f xs)"
    using Cons sum_indicator [OF assms(1), of "g y" "f y"] by (simp add: sum_list_addf)
  finally show ?case by simp
qed (simp add: sum_list_0)

lemma series_total: "sum_list (map (\<lambda>(_, r, _). r) (revenue_series f t db)) = revenue_total f t db"
proof -
  let ?ps = "landed_between f t db" and ?ds = "sort (remdups (map landed_day (landed_between f t db)))"
  have "sum_list (map (\<lambda>(_, r, _). r) (revenue_series f t db))
      = sum_list (map (\<lambda>d. sum_list (map net_revenue (filter (\<lambda>p. landed_day p = d) ?ps))) ?ds)"
    by (simp add: revenue_series_def Let_def comp_def)
  also have "\<dots> = sum_list (map net_revenue ?ps)" by (rule sum_by_group) auto
  finally show ?thesis by (simp add: revenue_total_def)
qed

lemma spend_total:
  "sum_list (map snd (customer_spend db)) = sum_list (map spent (filter (\<lambda>p. pm_status p \<noteq> PayPending) (map snd (payments db))))"
proof -
  let ?ps = "filter (\<lambda>p. pm_status p \<noteq> PayPending) (map snd (payments db))"
  have "sum_list (map snd (customer_spend db))
      = sum_list (map (\<lambda>c. sum_list (map spent (filter (\<lambda>p. pm_customer p = c) ?ps))) (remdups (map pm_customer ?ps)))"
    by (simp add: customer_spend_def Let_def comp_def)
  also have "\<dots> = sum_list (map spent ?ps)" by (rule sum_by_group) auto
  finally show ?thesis .
qed

end
