(* ===== verification/Payment_Api_Properties.thy ===== *)
theory Payment_Api_Properties
  imports Payment_Api Payment_Properties
begin

text \<open>
  What the charging handlers promise: a charge on a booking that died is given back, whichever answer
  was lost; an applied slip covers what it paid and its image is kept; the QR asks for what a slip
  must show; the reports count what was billed.
\<close>

subsection \<open>Runs\<close>

datatype pay_call =
    PostPayment charge_env auth_user uuid
  | PostSlip charge_env auth_user uuid multipart
  | BookingDone call_env uuid string uuid decimal int int decimal "int option"
  | BookingGone call_env uuid string uuid bool

fun pay_step :: "decimal_lib \<Rightarrow> (decimal \<Rightarrow> decimal) \<Rightarrow> pay_call \<Rightarrow> pay_state \<Rightarrow> pay_state" where
  "pay_step L store2 (PostPayment env user b) s = fst (create_payment L env user b s)"
| "pay_step L store2 (PostSlip env user b form) s = fst (api_pay_with_slip L store2 env user b form s)"
| "pay_step L store2 (BookingDone env e t b base h n tip secs) s =
     s\<lparr>pz_db := snd (reconcile_on_completion L env (pz_db s) e t b base h n tip secs)\<rparr>"
| "pay_step L store2 (BookingGone env e t b fee) s = s\<lparr>pz_db := snd (refund_on_cancellation L env (pz_db s) e t b fee)\<rparr>"

text \<open>What the client of the booking service answers: a booking in its bounds, or one of its two errors.\<close>

definition reader_error :: "app_error \<Rightarrow> bool" where
  "reader_error e = (case e of NotFound _ \<Rightarrow> True | Internal _ \<Rightarrow> True | _ \<Rightarrow> False)"

definition booking_in_bounds :: "charge_booking app_result \<Rightarrow> bool" where
  "booking_in_bounds r = (case r of
     Inr b \<Rightarrow> charge_inputs_ok (xb_base_fee b) (xb_hours b) (xb_guard_count b) (xb_tip b) | Inl e \<Rightarrow> reader_error e)"

definition call_in_bounds :: "pay_call \<Rightarrow> bool" where
  "call_in_bounds c = (case c of
     PostPayment env _ _ \<Rightarrow> booking_in_bounds (px_read env)
   | PostSlip env _ _ _ \<Rightarrow> booking_in_bounds (px_read env)
   | BookingDone _ _ _ _ base h n tip _ \<Rightarrow> charge_inputs_ok base h n tip
   | BookingGone _ _ _ _ _ \<Rightarrow> True)"

definition fresh_slip :: "pay_call \<Rightarrow> pay_state \<Rightarrow> bool" where
  "fresh_slip c s = (case c of PostSlip env _ b _ \<Rightarrow> (\<forall>mime. pz_objects s (slip_key env b mime) = None) | _ \<Rightarrow> True)"

definition pay_call_ok :: "pay_call \<Rightarrow> pay_state \<Rightarrow> bool" where
  "pay_call_ok c s = (call_in_bounds c \<and> fresh_slip c s)"

subsection \<open>Looking a payment up\<close>

lemma completed_iff:
  assumes "pay_inv L db"
  shows "completed_for_booking db b = Some (k, p) \<longleftrightarrow>
    row_get (payments db) k = Some p \<and> pm_booking p = b \<and> pm_status p = PayCompleted"
proof -
  have d: "distinct (row_keys (payments db))" and one: "one_completed db" using assms by (simp_all add: pay_inv_def)
  show ?thesis
  proof
    assume r: "row_get (payments db) k = Some p \<and> pm_booking p = b \<and> pm_status p = PayCompleted"
    show "completed_for_booking db b = Some (k, p)"
    proof (cases "completed_for_booking db b")
      case None
      then show ?thesis using completed_none r by blast
    next
      case (Some jq)
      obtain j q where jq: "jq = (j, q)" by (cases jq)
      note c = completed_some [OF Some [unfolded jq] d]
      then have "j = k" using one r unfolding one_completed_def by metis
      then show ?thesis using Some jq c r by simp
    qed
  qed (use completed_some [OF _ d] in blast)
qed

lemma charge_booked [simp]:
  "pm_booking (charged_row L env b c g trms ov m) = b" "pm_status (charged_row L env b c g trms ov m) = PayCompleted"
  "pm_amount (charged_row L env b c g trms ov m) = pb_grand_total (ct_breakdown trms)"
  "pm_method (charged_row L env b c g trms ov m) = m"
  by (simp_all add: charged_row_def)

text \<open>Rows are never removed, and keep their booking, their charge and their way of paying.\<close>

definition rows_kept :: "payment_db \<Rightarrow> payment_db \<Rightarrow> bool" where
  "rows_kept db db' = (\<forall>k p. row_get (payments db) k = Some p \<longrightarrow> (\<exists>q. row_get (payments db') k = Some q
     \<and> pm_booking q = pm_booking p \<and> pm_amount q = pm_amount p \<and> pm_method q = pm_method p))"

lemma rows_kept_refl [simp]: "rows_kept db db"
  by (simp add: rows_kept_def)

lemma rows_kept_same: "payments db' = payments db \<Longrightarrow> rows_kept db db'"
  by (simp add: rows_kept_def)

lemma rows_kept_new: "row_get (payments db) k = None \<Longrightarrow> payments db' = row_put k q (payments db) \<Longrightarrow> rows_kept db db'"
  by (auto simp: rows_kept_def)

lemma rows_kept_put:
  assumes "row_get (payments db) k = Some p" "payments db' = row_put k q (payments db)"
    "pm_booking q = pm_booking p" "pm_amount q = pm_amount p" "pm_method q = pm_method p"
  shows "rows_kept db db'"
  using assms by (auto simp: rows_kept_def)

lemma rows_kept_trans: "rows_kept a b \<Longrightarrow> rows_kept b c \<Longrightarrow> rows_kept a c"
  unfolding rows_kept_def by metis

lemma race_kept:
  assumes "pay_inv L db"
  shows "rows_kept db (snd (refund_race_lost_prepay L env db b))"
    "payment_slips (snd (refund_race_lost_prepay L env db b)) = payment_slips db"
proof -
  show "rows_kept db (snd (refund_race_lost_prepay L env db b))"
  proof (cases "completed_for_booking db b")
    case None
    then show ?thesis by (simp add: refund_race_lost_prepay_def)
  next
    case (Some kp)
    obtain k p where kp: "kp = (k, p)" by (cases kp)
    then have "row_get (payments db) k = Some p" using Some completed_iff [OF assms] by simp
    then show ?thesis using Some kp
      by (auto simp: refund_race_lost_prepay_def Let_def intro: rows_kept_put)
  qed
qed (simp add: refund_race_lost_prepay_def Let_def split: option.split)

text \<open>A settlement leaves the tables alone, or replaces the row of the booking it settles.\<close>

definition settles :: "payment_db \<Rightarrow> payment_db \<Rightarrow> bool" where
  "settles db db' = (payment_slips db' = payment_slips db \<and> rows_kept db db')"

lemma settles_same: "payments db' = payments db \<Longrightarrow> payment_slips db' = payment_slips db \<Longrightarrow> settles db db'"
  by (simp add: settles_def rows_kept_same)

lemma settles_put:
  assumes "pay_inv L db" "claim_event e t db = Some d" "completed_for_booking d b = Some (k, p)"
    "payments db' = row_put k q (payments d)" "payment_slips db' = payment_slips d"
    "pm_booking q = pm_booking p" "pm_amount q = pm_amount p" "pm_method q = pm_method p"
  shows "settles db db'"
proof -
  have c: "payments d = payments db" "payment_slips d = payment_slips db" using claim_event_Some [OF assms(2)] by simp_all
  then have "completed_for_booking db b = Some (k, p)" using assms(3) by (simp add: completed_for_booking_def)
  then have "row_get (payments db) k = Some p" using completed_iff [OF assms(1)] by simp
  from rows_kept_put [OF this, of db' q] show ?thesis using assms(4-8) c by (simp add: settles_def)
qed

lemma settled_row_frame [simp]:
  "pm_booking (settled_row L env p st h base n m tip) = pm_booking p"
  "pm_amount (settled_row L env p st h base n m tip) = pm_amount p"
  "pm_method (settled_row L env p st h base n m tip) = pm_method p"
  "pm_booking (cancelled_row L env p fee r) = pm_booking p"
  "pm_amount (cancelled_row L env p fee r) = pm_amount p" "pm_method (cancelled_row L env p fee r) = pm_method p"
  by (simp_all add: settled_row_def cancelled_row_def Let_def)

lemma completion_settles:
  assumes "pay_inv L db"
  shows "settles db (snd (reconcile_on_completion L env db e t b base h n tip secs))"
proof (cases "claim_event e t db")
  case None
  then show ?thesis by (simp add: reconcile_on_completion_def settles_same)
next
  case d: (Some d)
  show ?thesis
  proof (cases "completed_for_booking d b")
    case None
    then show ?thesis using d claim_event_Some [OF d] by (simp add: reconcile_on_completion_def settles_same)
  next
    case (Some kp)
    obtain k p where kp: "kp = (k, p)" by (cases kp)
    note put = settles_put [OF assms d Some [unfolded kp]]
    show ?thesis
    proof (cases "reconcile L (pm_amount p + pm_overpaid p) base h n tip secs")
      case (Even st)
      show ?thesis
        by (rule put [where q = "settled_row L env p st (worked_hours L base h n secs) base h n tip"])
          (simp_all add: reconcile_on_completion_def d Some kp Let_def Even)
    next
      case (Refund st r)
      show ?thesis
        by (rule put [where q = "(settled_row L env p st (worked_hours L base h n secs) base h n tip)\<lparr>pm_refund_amount := Some r,
            pm_refund_status := Some ''pending''\<rparr>"])
          (simp_all add: reconcile_on_completion_def d Some kp Let_def Refund)
    next
      case (Extra st x)
      show ?thesis
        by (rule put [where q = "settled_row L env p st (worked_hours L base h n secs) base h n tip"])
          (simp_all add: reconcile_on_completion_def d Some kp Let_def Extra)
    qed
  qed
qed

lemma cancellation_settles:
  assumes "pay_inv L db"
  shows "settles db (snd (refund_on_cancellation L env db e t b fee))"
proof (cases "claim_event e t db")
  case None
  then show ?thesis by (simp add: refund_on_cancellation_def settles_same)
next
  case d: (Some d)
  show ?thesis
  proof (cases "completed_for_booking d b")
    case None
    then show ?thesis using d claim_event_Some [OF d] by (simp add: refund_on_cancellation_def settles_same)
  next
    case (Some kp)
    obtain k p where kp: "kp = (k, p)" by (cases kp)
    show ?thesis
      by (rule settles_put [OF assms d Some [unfolded kp], where q = "cancelled_row L env p (fee_kept L p fee)
          (max (pm_amount p - fee_kept L p fee) 0 + pm_overpaid p)"])
        (simp_all add: refund_on_cancellation_def d Some kp Let_def)
  qed
qed

subsection \<open>Slips and what they pay\<close>

text \<open>
  A slip's image is in the object store, and a slip that paid is at least the charge of its payment. A
  money column keeps the order of amounts and keeps an amount of two places as it is.
\<close>

definition money_column :: "(decimal \<Rightarrow> decimal) \<Rightarrow> bool" where
  "money_column store2 = (mono store2 \<and> (\<forall>x. on_grid 2 x \<longrightarrow> store2 x = x))"

lemma column_le: "money_column store2 \<Longrightarrow> on_grid 2 x \<Longrightarrow> x \<le> y \<Longrightarrow> x \<le> store2 y"
  unfolding money_column_def by (metis monoD)

definition slip_covers :: "payment_db \<Rightarrow> payment_slip \<Rightarrow> bool" where
  "slip_covers db sl = (\<exists>p. row_get (payments db) (sl_payment sl) = Some p \<and> pm_booking p = sl_booking sl
     \<and> pm_method p = SLIP_PAYMENT_METHOD \<and> pm_amount p \<le> sl_amount sl)"

definition slip_backed :: "payment_db \<Rightarrow> objects \<Rightarrow> payment_slip \<Rightarrow> bool" where
  "slip_backed db os sl = (os (sl_key sl) \<noteq> None \<and> (sl_applied sl \<longrightarrow> slip_covers db sl))"

definition ledger_ok :: "decimal_lib \<Rightarrow> pay_state \<Rightarrow> bool" where
  "ledger_ok L s = (pay_inv L (pz_db s) \<and> list_all (slip_backed (pz_db s) (pz_objects s)) (payment_slips (pz_db s)))"

definition slip_stored :: "decimal_lib \<Rightarrow> string \<Rightarrow> pay_state \<Rightarrow> bool" where
  "slip_stored L key s = (ledger_ok L s \<and> pz_objects s key \<noteq> None \<and> list_all (\<lambda>sl. sl_key sl \<noteq> key) (payment_slips (pz_db s)))"

lemma slip_covers_kept: "rows_kept db db' \<Longrightarrow> slip_covers db sl \<Longrightarrow> slip_covers db' sl"
  unfolding rows_kept_def slip_covers_def by metis

lemma slip_backed_kept:
  "slip_backed db os sl \<Longrightarrow> rows_kept db db' \<Longrightarrow> (os (sl_key sl) \<noteq> None \<Longrightarrow> os' (sl_key sl) \<noteq> None) \<Longrightarrow> slip_backed db' os' sl"
  using slip_covers_kept by (auto simp: slip_backed_def)

lemma ledger_settles:
  assumes "ledger_ok L s" "settles (pz_db s) (pz_db s')" "pay_inv L (pz_db s')" "pz_objects s' = pz_objects s"
  shows "ledger_ok L s'"
  using assms slip_backed_kept [of "pz_db s" "pz_objects s" _ "pz_db s'" "pz_objects s'"]
  by (auto simp: ledger_ok_def settles_def list_all_iff)

lemma ledger_drop: "slip_stored L key s \<Longrightarrow> ledger_ok L (drop_slip env key s)"
  by (auto simp: slip_stored_def ledger_ok_def drop_slip_def delete_best_effort_def list_all_iff slip_backed_def)

lemma ledger_put:
  assumes "ledger_ok L s" "pz_objects s key = None"
  shows "slip_stored L key (s\<lparr>pz_objects := (pz_objects s)(key \<mapsto> data)\<rparr>)"
  using assms by (auto simp: slip_stored_def ledger_ok_def list_all_iff slip_backed_def)

lemma keeps_bind_val:
  assumes "keeps P m" "\<And>s s' x. m s = (s', Inr x) \<Longrightarrow> keeps P (f x)"
  shows "keeps P (act_bind m f)"
  unfolding keeps_def
proof (intro allI impI)
  fix s assume "P s"
  obtain s' r where m: "m s = (s', r)" by (cases "m s")
  then have "P s'" using assms(1) \<open>P s\<close> by (auto simp: keeps_def dest: spec [of _ s])
  then show "P (fst (act_bind m f s))"
    using m assms(2) [of s s'] by (cases r) (simp_all add: act_bind_def keeps_def)
qed

subsection \<open>Every handler keeps the ledger\<close>

lemma require_payable_ok:
  assumes "require_payable L env user b s = (s', Inr bk)"
  shows "s' = s" "px_read env = Inr bk" "xb_customer bk = au_id user" "is_payable_status (xb_status bk)"
proof -
  obtain x where r: "px_read env = Inr x"
    using assms by (cases "px_read env") (simp_all add: require_payable_def)
  then have x: "xb_customer x = au_id user" "is_payable_status (xb_status x)"
    using assms by (auto simp: require_payable_def act_bind_run act_fail_def act_guard_def ensure_def split: if_splits sum.splits)
  then have "(s, Inr x) = (s', Inr bk)" using assms r by (simp add: require_payable_def act_return_def)
  then show "s' = s" "px_read env = Inr bk" "xb_customer bk = au_id user" "is_payable_status (xb_status bk)"
    using r x by auto
qed

context decimal_ops begin

lemma race_keeps: "keeps (ledger_ok L) (pay_tx (\<lambda>db. Inr (refund_race_lost_prepay L env db b)))"
  unfolding keeps_def
proof (intro allI impI)
  fix s assume l: "ledger_ok L s"
  then have inv: "pay_inv L (pz_db s)" by (simp add: ledger_ok_def)
  let ?db = "snd (refund_race_lost_prepay L env (pz_db s) b)"
  have "fst (pay_tx (\<lambda>db. Inr (refund_race_lost_prepay L env db b)) s) = s\<lparr>pz_db := ?db\<rparr>"
    by (simp add: pay_tx_def case_prod_beta)
  moreover have "ledger_ok L (s\<lparr>pz_db := ?db\<rparr>)"
    by (rule ledger_settles [OF l]) (simp_all add: settles_def race_kept [OF inv] race_inv [OF inv])
  ultimately show "ledger_ok L (fst (pay_tx (\<lambda>db. Inr (refund_race_lost_prepay L env db b)) s))" by simp
qed

lemma compensate_keeps: "keeps (ledger_ok L) (compensate_if_terminal L env b st)"
  unfolding compensate_if_terminal_def by (intro keeps_intros race_keeps)

lemma payable_keeps: "keeps (ledger_ok L) (require_payable L env user b)"
  unfolding require_payable_def by (intro keeps_intros compensate_keeps)

lemma alive_keeps: "keeps (ledger_ok L) (still_alive L env b)"
  unfolding still_alive_def by (intro keeps_intros compensate_keeps)

lemma terms_money:
  assumes "charge_inputs_ok (xb_base_fee bk) (xb_hours bk) (xb_guard_count bk) (xb_tip bk)"
  shows "on_grid 2 (pb_grand_total (ct_breakdown (charge_terms_of L bk)))"
  by (simp add: charge_terms_of_def new_terms_breakdown from_subtotal_parts)

lemma prepaid_inv:
  assumes c: "charge_inputs_ok (xb_base_fee bk) (xb_hours bk) (xb_guard_count bk) (xb_tip bk)" and inv: "pay_inv L db"
    and r: "prepay_idempotent L env db b cu g (charge_terms_of L bk) m = Inr (x, db')"
  shows "pay_inv L db'"
proof -
  let ?i = "\<lparr>pi_base_fee = xb_base_fee bk, pi_booked_hours = xb_hours bk, pi_guard_count = xb_guard_count bk, pi_tip = xb_tip bk\<rparr>"
  have "charge_inputs_ok (pi_base_fee ?i) (pi_booked_hours ?i) (pi_guard_count ?i) (pi_tip ?i)" using c by simp
  from pre_inv [OF inv this, where env = env and b = b and cu = cu and g = g and m = m
      and pct = "case xb_commission_percent bk of Some p \<Rightarrow> p | None \<Rightarrow> 0"
      and fee = "case xb_cancellation_fee bk of Some f \<Rightarrow> f | None \<Rightarrow> 0"]
  show ?thesis unfolding charge_terms_of_def [symmetric] r by (simp add: ok_db_def)
qed

lemma slip_paid_inv:
  assumes c: "charge_inputs_ok (xb_base_fee bk) (xb_hours bk) (xb_guard_count bk) (xb_tip bk)" and inv: "pay_inv L db"
    and r: "pay_with_slip L store2 env db b cu g (charge_terms_of L bk) rid tref amt key = Inr (x, db')"
  shows "pay_inv L db'"
proof -
  let ?i = "\<lparr>pi_base_fee = xb_base_fee bk, pi_booked_hours = xb_hours bk, pi_guard_count = xb_guard_count bk, pi_tip = xb_tip bk\<rparr>"
  have "charge_inputs_ok (pi_base_fee ?i) (pi_booked_hours ?i) (pi_guard_count ?i) (pi_tip ?i)" using c by simp
  from slip_inv [OF inv this, where env = env and b = b and cu = cu and g = g and rid = rid and tref = tref and amt = amt
      and key = key and ?store2.0 = store2 and pct = "case xb_commission_percent bk of Some p \<Rightarrow> p | None \<Rightarrow> 0"
      and fee = "case xb_cancellation_fee bk of Some f \<Rightarrow> f | None \<Rightarrow> 0"]
  show ?thesis unfolding charge_terms_of_def [symmetric] r by (simp add: ok_db_def)
qed

lemma prepay_keeps:
  assumes "charge_inputs_ok (xb_base_fee bk) (xb_hours bk) (xb_guard_count bk) (xb_tip bk)"
  shows "keeps (ledger_ok L) (pay_tx (\<lambda>db. prepay_idempotent L env db b c g (charge_terms_of L bk) m))"
  unfolding keeps_def
proof (intro allI impI)
  fix s assume l: "ledger_ok L s"
  then have inv: "pay_inv L (pz_db s)" by (simp add: ledger_ok_def)
  let ?r = "prepay_idempotent L env (pz_db s) b c g (charge_terms_of L bk) m"
  show "ledger_ok L (fst (pay_tx (\<lambda>db. prepay_idempotent L env db b c g (charge_terms_of L bk) m) s))"
  proof (cases ?r)
    case (Inl e)
    then show ?thesis using l by (simp add: pay_tx_def)
  next
    case (Inr x)
    obtain o' db where x: "x = (o', db)" by (cases x)
    have i: "pay_inv L db" using prepaid_inv [OF assms inv Inr [unfolded x]] .
    have "settles (pz_db s) db"
      using Inr x by (auto simp: prepay_idempotent_def Let_def settles_def intro: rows_kept_new split: option.splits if_splits)
    then have "ledger_ok L (s\<lparr>pz_db := db\<rparr>)" by (intro ledger_settles [OF l]) (simp_all add: i)
    then show ?thesis using Inr x by (simp add: pay_tx_def)
  qed
qed

lemma create_keeps:
  assumes "booking_in_bounds (px_read env)"
  shows "keeps (ledger_ok L) (create_payment L env user b)"
  unfolding create_payment_def
proof (rule keeps_bind [OF keeps_basic(5)], rule keeps_bind [OF keeps_basic(5)])
  show "keeps (ledger_ok L) (act_bind (require_payable L env user b) (\<lambda>bk.
      act_bind (pay_tx (\<lambda>db. prepay_idempotent L (px_call env) db b (au_id user) (xb_guard bk) (charge_terms_of L bk)
        PREPAID_METHOD)) (\<lambda>outcome. act_bind (still_alive L env b) (\<lambda>_.
      act_return (case outcome of Created k p \<Rightarrow> (k, p) | AlreadyPaid k p \<Rightarrow> (k, p))))))"
  proof (rule keeps_bind_val [OF payable_keeps])
    fix s s' bk assume "require_payable L env user b s = (s', Inr bk)"
    then have "charge_inputs_ok (xb_base_fee bk) (xb_hours bk) (xb_guard_count bk) (xb_tip bk)"
      using assms require_payable_ok(2) by (fastforce simp: booking_in_bounds_def)
    then show "keeps (ledger_ok L) (act_bind (pay_tx (\<lambda>db. prepay_idempotent L (px_call env) db b (au_id user)
        (xb_guard bk) (charge_terms_of L bk) PREPAID_METHOD)) (\<lambda>outcome. act_bind (still_alive L env b) (\<lambda>_.
      act_return (case outcome of Created k p \<Rightarrow> (k, p) | AlreadyPaid k p \<Rightarrow> (k, p)))))"
      by (intro keeps_bind prepay_keeps alive_keeps keeps_basic)
  qed
qed

text \<open>What a slip transaction that succeeds does to the tables.\<close>

lemma slip_paidE:
  assumes "pay_with_slip L store2 env db b cu g trms rid tref amt key = Inr (x, db')" "pay_inv L db"
  obtains (again) k p where "x = SlipAlreadyPaid k p" "db' = db" "completed_for_booking db b = Some (k, p)"
  | (extra) k p sl where "x = ExtraTransferRecorded k p" "payments db' = payments db"
      "payment_slips db' = payment_slips db @ [sl]" "sl_key sl = key" "\<not> sl_applied sl"
  | (paid) k p sl where "x = SlipCreated k p" "row_get (payments db) k = None" "payments db' = row_put k p (payments db)"
      "payment_slips db' = payment_slips db @ [sl]" "sl_key sl = key" "sl_payment sl = k" "sl_booking sl = b"
      "sl_amount sl = store2 amt" "pm_booking p = b" "pm_status p = PayCompleted"
      "pm_amount p = pb_grand_total (ct_breakdown trms)" "pm_method p = SLIP_PAYMENT_METHOD"
proof (cases "completed_for_booking db b")
  case None
  then show ?thesis using assms(1) by (intro paid) (auto simp: pay_with_slip_def Let_def split: if_splits)
next
  case (Some kp)
  obtain k p where kp: "kp = (k, p)" by (cases kp)
  show ?thesis
  proof (cases "list_ex (\<lambda>s. sl_booking s = b \<and> sl_applied s \<and> sl_trans_ref s = tref) (payment_slips db)")
    case True
    then show ?thesis using assms(1) Some kp by (intro again) (simp_all add: pay_with_slip_def Let_def)
  next
    case False
    then show ?thesis using assms(1) Some kp by (intro extra) (auto simp: pay_with_slip_def Let_def split: if_splits)
  qed
qed

lemma ledger_new_slip:
  assumes "slip_stored L key s" "pay_inv L db'" "rows_kept (pz_db s) db'"
    "payment_slips db' = payment_slips (pz_db s) @ [sl]" "sl_key sl = key" "sl_applied sl \<longrightarrow> slip_covers db' sl"
  shows "ledger_ok L (s\<lparr>pz_db := db'\<rparr>)"
proof -
  have "slip_backed db' (pz_objects s) t" if "t \<in> set (payment_slips (pz_db s))" for t
    using assms(1) that by (intro slip_backed_kept [OF _ assms(3)]) (auto simp: slip_stored_def ledger_ok_def list_all_iff)
  then show ?thesis using assms by (auto simp: ledger_ok_def list_all_iff slip_backed_def slip_stored_def)
qed

lemma check_slip_amount:
  "check_slip L env bk form = Inr (mime, bytes, v) \<Longrightarrow> pb_grand_total (ct_breakdown (charge_terms_of L bk)) \<le> vs_amount v"
  by (auto simp: check_slip_def recheck_slip_def Let_def res_bind_def split: sum.splits prod.splits if_splits)

lemma slip_settles:
  assumes c: "charge_inputs_ok (xb_base_fee bk) (xb_hours bk) (xb_guard_count bk) (xb_tip bk)" and m: "money_column store2"
    and amt: "pb_grand_total (ct_breakdown (charge_terms_of L bk)) \<le> vs_amount v" and s: "slip_stored L key s"
  shows "ledger_ok L (fst (act_bind (settle_slip L store2 env user b bk v key) (answer_slip L env b key) s))"
proof -
  have l: "ledger_ok L s" and inv: "pay_inv L (pz_db s)" using s by (simp_all add: slip_stored_def ledger_ok_def)
  let ?r = "pay_with_slip L store2 (px_call env) (pz_db s) b (au_id user) (xb_guard bk) (charge_terms_of L bk)
    (vs_reference_id v) (vs_trans_ref v) (vs_amount v) key"
  show ?thesis
  proof (cases ?r)
    case (Inl e)
    then show ?thesis using ledger_drop [OF s] by (simp add: settle_slip_def pay_tx_def act_bind_run)
  next
    case (Inr y)
    obtain x db' where y: "y = (x, db')" by (cases y)
    note r = Inr [unfolded y]
    have i: "pay_inv L db'" by (rule slip_paid_inv [OF c inv r])
    have run: "act_bind (settle_slip L store2 env user b bk v key) (answer_slip L env b key) s
        = answer_slip L env b key x (s\<lparr>pz_db := db'\<rparr>)"
      using r by (simp add: settle_slip_def pay_tx_def act_bind_run)
    from r inv show ?thesis
    proof (cases rule: slip_paidE)
      case (again k p)
      have "ledger_ok L (drop_slip env key s)" by (rule ledger_drop [OF s])
      then show ?thesis
        using again keepsD [OF keeps_bind [OF alive_keeps [of env b] keeps_basic(1)]]
        by (simp add: run answer_slip_def)
    next
      case (extra k p sl)
      have "ledger_ok L (s\<lparr>pz_db := db'\<rparr>)"
        by (rule ledger_new_slip [OF s i _ extra(3,4)]) (simp_all add: extra(2,5) rows_kept_same)
      then show ?thesis using extra by (simp add: run answer_slip_def)
    next
      case (paid k p sl)
      have "pm_amount p \<le> store2 (vs_amount v)"
        using column_le [OF m terms_money [OF c] amt] paid(11) by simp
      then have "slip_covers db' sl" using paid by (simp add: slip_covers_def)
      then have "ledger_ok L (s\<lparr>pz_db := db'\<rparr>)"
        by (intro ledger_new_slip [OF s i rows_kept_new [OF paid(2,3)] paid(4,5)]) simp
      then show ?thesis
        using paid keepsD [OF keeps_bind [OF alive_keeps [of env b] keeps_basic(1)]]
        by (simp add: run answer_slip_def)
    qed
  qed
qed

lemma slip_go:
  assumes "au_role user = ''customer'' \<and> px_provider env = Slip2Go" "require_payable L env user b s = (s, Inr bk)"
  shows "api_pay_with_slip L store2 env user b form s = act_bind (act_of (check_slip L env bk form)) (\<lambda>(mime, bytes, v).
      (let key = slip_key env b mime in act_bind (put_slip env key bytes) (\<lambda>_.
        act_bind (settle_slip L store2 env user b bk v key) (answer_slip L env b key)))) s"
  unfolding api_pay_with_slip_def using assms by (simp add: act_bind_run [of "require_payable L env user b"])

lemma slip_keeps:
  assumes bounds: "booking_in_bounds (px_read env)" and m: "money_column store2"
    and fresh: "\<And>mime. pz_objects s (slip_key env b mime) = None" and l: "ledger_ok L s"
  shows "ledger_ok L (fst (api_pay_with_slip L store2 env user b form s))"
proof (cases "au_role user = ''customer'' \<and> px_provider env = Slip2Go")
  case False
  then show ?thesis using l by (auto simp: api_pay_with_slip_def)
next
  case on: True
  show ?thesis
  proof (cases "snd (require_payable L env user b s)")
    case (Inl e)
    then show ?thesis using on keepsD [OF payable_keeps [of env user b] l] by (simp add: api_pay_with_slip_def act_bind_run)
  next
    case (Inr bk)
    then have p: "require_payable L env user b s = (fst (require_payable L env user b s), Inr bk)" by (metis prod.collapse)
    note pay = require_payable_ok [OF p]
    have c: "charge_inputs_ok (xb_base_fee bk) (xb_hours bk) (xb_guard_count bk) (xb_tip bk)"
      using bounds pay(2) by (simp add: booking_in_bounds_def)
    note go = slip_go [OF on p [unfolded pay(1)]]
    show ?thesis
    proof (cases "check_slip L env bk form")
      case (Inl e)
      then show ?thesis using l by (simp add: go)
    next
      case (Inr x)
      obtain mime bytes v where x: "x = (mime, bytes, v)" by (cases x)
      let ?key = "slip_key env b mime"
      note amt = check_slip_amount [OF Inr [unfolded x]]
      have "slip_stored L ?key (s\<lparr>pz_objects := (pz_objects s)(?key \<mapsto> bytes)\<rparr>)" by (rule ledger_put [OF l fresh])
      from slip_settles [OF c m amt this, of env user b] show ?thesis
        using l Inr x by (cases "px_put_ok env") (simp_all add: go Let_def put_slip_def s3_upload_def act_bind_run [of "put_slip _ _ _"])
    qed
  qed
qed

lemma pay_step_ledger:
  assumes "money_column store2" "ledger_ok L s" "pay_call_ok c s"
  shows "ledger_ok L (pay_step L store2 c s)"
proof (cases c)
  case (PostPayment env user b)
  then show ?thesis using assms keepsD [OF create_keeps [of env user b]] by (simp add: pay_call_ok_def call_in_bounds_def)
next
  case (PostSlip env user b form)
  then show ?thesis using assms by (auto simp: pay_call_ok_def call_in_bounds_def fresh_slip_def intro: slip_keeps)
next
  case (BookingDone env e t b base h n tip secs)
  then have "pay_inv L (pz_db s)" "charge_inputs_ok base h n tip"
    using assms by (simp_all add: ledger_ok_def pay_call_ok_def call_in_bounds_def)
  then show ?thesis using BookingDone
    by (auto intro!: ledger_settles [OF assms(2)] completion_settles complete_inv)
next
  case (BookingGone env e t b fee)
  have "pay_inv L (pz_db s)" using assms by (simp add: ledger_ok_def)
  then show ?thesis using BookingGone by (auto intro!: ledger_settles [OF assms(2)] cancellation_settles cancel_inv)
qed

lemma pay_run_ledger:
  assumes "money_column store2"
  shows "ledger_ok L s \<Longrightarrow> ok_run (pay_step L store2) pay_call_ok calls s \<Longrightarrow> ledger_ok L (fold (pay_step L store2) calls s)"
  by (induction calls arbitrary: s) (simp_all add: pay_step_ledger [OF assms])

end

lemma no_slips: "payment_slips empty_payment_db = []"
  by (simp add: empty_payment_db_def)

text \<open>
  C7. A slip pays once and in full, and its image is kept. Over every run of the charging handlers and
  of the settlements, whatever the slip verifier, the object store and the booking service answer,
  every applied slip is at least the charge of a slip payment of its own booking, no transaction is
  used by two slips, and the image of every recorded slip is still in the store.
\<close>
theorem slips_cover_payments:
  assumes "decimal_ops L" "money_column store2"
    and "ok_run (pay_step L store2) pay_call_ok calls \<lparr>pz_db = empty_payment_db, pz_objects = os\<rparr>"
  shows "ledger_ok L (fold (pay_step L store2) calls \<lparr>pz_db = empty_payment_db, pz_objects = os\<rparr>)"
  by (rule decimal_ops.pay_run_ledger [OF assms(1,2) _ assms(3)]) (simp add: ledger_ok_def pay_inv_empty no_slips)

subsection \<open>What an answer says about the charge\<close>

lemma race_ends:
  assumes "pay_inv L db"
  shows "completed_for_booking (snd (refund_race_lost_prepay L env db b)) b = None"
proof (cases "completed_for_booking db b")
  case None
  then show ?thesis by (simp add: refund_race_lost_prepay_def)
next
  case (Some kp)
  obtain k p where kp: "completed_for_booking db b = Some (k, p)" using Some by (cases kp) auto
  let ?db = "snd (refund_race_lost_prepay L env db b)"
  obtain q where q: "payments ?db = row_put k q (payments db)" "pm_status q = PayRefunded"
    using kp by (simp add: refund_race_lost_prepay_def Let_def)
  show ?thesis
  proof (rule ccontr)
    assume "completed_for_booking ?db b \<noteq> None"
    then obtain j r where "(j, r) \<in> set (payments ?db)" "pm_booking r = b" "pm_status r = PayCompleted"
      by (auto simp: completed_for_booking_def find_Some_iff in_set_conv_nth)
    moreover have "distinct (row_keys (payments ?db))"
      using assms by (simp add: q(1) pay_inv_def distinct_row_put)
    ultimately have j: "row_get (payments ?db) j = Some r" "pm_booking r = b" "pm_status r = PayCompleted"
      by (simp_all add: row_get_mem)
    then have "j \<noteq> k" using q by auto
    then have "completed_for_booking db b = Some (j, r)" using j q(1) completed_iff [OF assms] by simp
    then show False using kp \<open>j \<noteq> k\<close> by simp
  qed
qed

lemma refunding_not [simp]:
  "booking_cancelled_refunding \<noteq> customers_only" "booking_cancelled_refunding \<noteq> own_booking_only"
  "booking_cancelled_refunding \<noteq> slip_disabled" "booking_cancelled_refunding \<noteq> extra_transfer"
  "\<not> reader_error booking_cancelled_refunding"
  by (simp_all add: booking_cancelled_refunding_def customers_only_def own_booking_only_def slip_disabled_def
      extra_transfer_def reader_error_def)

lemma compensate_run:
  "compensate_if_terminal L env b st s = (if is_negative_terminal st
    then (s\<lparr>pz_db := snd (refund_race_lost_prepay L (px_comp env) (pz_db s) b)\<rparr>, Inr True) else (s, Inr False))"
  by (simp add: compensate_if_terminal_def act_bind_run pay_tx_def case_prod_beta)

definition alive_answer :: "charge_env \<Rightarrow> bool" where
  "alive_answer env = (case px_reread env of Inr b \<Rightarrow> \<not> is_negative_terminal (xb_status b) | Inl _ \<Rightarrow> False)"

lemma still_alive_run:
  assumes "still_alive L env b s = (s', r)" "pay_inv L (pz_db s)" "booking_in_bounds (px_reread env)"
  shows "r = Inl booking_cancelled_refunding \<Longrightarrow> completed_for_booking (pz_db s') b = None"
    "r = Inr u \<Longrightarrow> s' = s \<and> alive_answer env"
  using assms race_ends [OF assms(2), of "px_comp env" b]
  by (cases "px_reread env"; auto simp: still_alive_def compensate_run act_bind_run alive_answer_def ensure_def
      booking_in_bounds_def split: if_splits)+

definition tells_fate :: "charge_env \<Rightarrow> uuid \<Rightarrow> pay_state \<times> (uuid \<times> payment) app_result \<Rightarrow> bool" where
  "tells_fate env b a = (case snd a of
     Inl e \<Rightarrow> (if e = booking_cancelled_refunding then completed_for_booking (pz_db (fst a)) b = None else True)
   | Inr paid \<Rightarrow> completed_for_booking (pz_db (fst a)) b = Some paid \<and> alive_answer env)"

lemma alive_tells:
  assumes "pay_inv L (pz_db s)" "booking_in_bounds (px_reread env)" "completed_for_booking (pz_db s) b = Some kp"
  shows "tells_fate env b (act_bind (still_alive L env b) (\<lambda>_. act_return kp) s)"
proof -
  obtain s' r where a: "still_alive L env b s = (s', r)" by (cases "still_alive L env b s")
  show ?thesis
    using still_alive_run [OF a assms(1,2)] assms(3) a
    by (cases r) (auto simp: tells_fate_def act_bind_run)
qed

lemma payable_tells:
  assumes "pay_inv L (pz_db s)" "booking_in_bounds (px_read env)" "snd (require_payable L env user b s) = Inl e"
    "e = booking_cancelled_refunding"
  shows "completed_for_booking (pz_db (fst (require_payable L env user b s))) b = None"
  using assms race_ends [OF assms(1), of "px_comp env" b]
  by (cases "px_read env")
    (auto simp: require_payable_def compensate_run act_bind_run act_fail_def ensure_def booking_in_bounds_def
      booking_cancelled_refunding_def own_booking_only_def reader_error_def split: if_splits)

lemma answers_charge:
  "prepay_idempotent L env db b c g trms m = Inr (oc, db') \<Longrightarrow> pay_inv L db \<Longrightarrow> pay_inv L db' \<Longrightarrow>
    completed_for_booking db' b = Some (case oc of Created k p \<Rightarrow> (k, p) | AlreadyPaid k p \<Rightarrow> (k, p))"
  by (cases "completed_for_booking db b")
    (auto simp: prepay_idempotent_def Let_def completed_iff emit_pay_def split: if_splits)

lemma slip_parts_error: "slip_parts m f ps = Inl e \<Longrightarrow> e \<noteq> booking_cancelled_refunding"
  by (induction m f ps rule: slip_parts.induct)
    (auto simp: broken_form_def broken_file_def booking_cancelled_refunding_def split: if_splits option.splits)

lemma parse_slip_error: "parse_slip_form form = Inl e \<Longrightarrow> e \<noteq> booking_cancelled_refunding"
  using slip_parts_error
  by (auto simp: parse_slip_form_def booking_cancelled_refunding_def split: sum.splits option.splits prod.splits)

lemma check_slip_error:
  "check_slip L env bk form = Inl e \<Longrightarrow> e \<noteq> booking_cancelled_refunding"
  using parse_slip_error [of form e]
  by (auto simp: check_slip_def validate_slip_upload_def verify_slip_def interpret_slip_def recheck_slip_def
      booking_cancelled_refunding_def SLIP_VERIFY_FAILED_CODE_def SLIP_AMOUNT_TOO_LOW_CODE_def SLIP_WRONG_RECEIVER_CODE_def
      no_verdict_def Let_def res_bind_def split: sum.splits option.splits prod.splits if_splits slip_reply.splits)

lemma other_error: "e \<noteq> booking_cancelled_refunding \<Longrightarrow> tells_fate env b (s, Inl e)"
  by (simp add: tells_fate_def)

context decimal_ops begin

lemma create_tells:
  assumes inv: "pay_inv L (pz_db s)" and r: "booking_in_bounds (px_read env)" "booking_in_bounds (px_reread env)"
  shows "tells_fate env b (create_payment L env user b s)"
proof (cases "au_role user = ''customer'' \<and> px_provider env \<noteq> Slip2Go")
  case False
  then show ?thesis
    by (auto simp: create_payment_def booking_cancelled_refunding_def customers_only_def intro!: other_error)
next
  case on: True
  let ?req = "require_payable L env user b s"
  show ?thesis
  proof (cases "snd ?req")
    case (Inl e)
    then have "create_payment L env user b s = (fst ?req, Inl e)" using on by (simp add: create_payment_def act_bind_run)
    then show ?thesis using payable_tells [OF inv r(1) Inl] by (simp add: tells_fate_def)
  next
    case (Inr bk)
    then have p: "?req = (fst ?req, Inr bk)" by (metis prod.collapse)
    note pay = require_payable_ok [OF p]
    have c: "charge_inputs_ok (xb_base_fee bk) (xb_hours bk) (xb_guard_count bk) (xb_tip bk)"
      using r(1) pay(2) by (simp add: booking_in_bounds_def)
    let ?pre = "prepay_idempotent L (px_call env) (pz_db s) b (au_id user) (xb_guard bk) (charge_terms_of L bk) PREPAID_METHOD"
    show ?thesis
    proof (cases ?pre)
      case (Inl e)
      then have "create_payment L env user b s = (s, Inl e)"
        using on p pay(1) by (simp add: create_payment_def act_bind_run pay_tx_def)
      moreover have "e \<noteq> booking_cancelled_refunding"
        using Inl by (auto simp: prepay_idempotent_def Let_def booking_cancelled_refunding_def split: option.splits if_splits)
      ultimately show ?thesis by (simp add: other_error)
    next
      case (Inr x)
      obtain oc db' where x: "x = (oc, db')" by (cases x)
      note pre = Inr [unfolded x]
      have i: "pay_inv L db'" by (rule prepaid_inv [OF c inv pre])
      let ?kp = "case oc of Created k p \<Rightarrow> (k, p) | AlreadyPaid k p \<Rightarrow> (k, p)"
      have "create_payment L env user b s = act_bind (still_alive L env b) (\<lambda>_. act_return ?kp) (s\<lparr>pz_db := db'\<rparr>)"
        using on p pay(1) pre by (simp add: create_payment_def act_bind_run [of "require_payable L env user b"]
            act_bind_run [of "pay_tx _"] pay_tx_def)
      then show ?thesis
        using alive_tells [of L "s\<lparr>pz_db := db'\<rparr>" env b ?kp] r(2) i answers_charge [OF pre inv i] by simp
    qed
  qed
qed

lemma slip_paid_error:
  "pay_with_slip L store2 env db b cu g trms rid tref amt key = Inl e \<Longrightarrow> e \<noteq> booking_cancelled_refunding"
  by (auto simp: pay_with_slip_def Let_def booking_cancelled_refunding_def slip_duplicate_def SLIP_DUPLICATE_CODE_def
      split: option.splits if_splits)

lemma settled_slip_tells:
  assumes c: "charge_inputs_ok (xb_base_fee bk) (xb_hours bk) (xb_guard_count bk) (xb_tip bk)"
    and inv: "pay_inv L (pz_db s)" and r: "booking_in_bounds (px_reread env)"
  shows "tells_fate env b (act_bind (settle_slip L store2 env user b bk v key) (answer_slip L env b key) s)"
proof -
  let ?r = "pay_with_slip L store2 (px_call env) (pz_db s) b (au_id user) (xb_guard bk) (charge_terms_of L bk)
    (vs_reference_id v) (vs_trans_ref v) (vs_amount v) key"
  show ?thesis
  proof (cases ?r)
    case (Inl e)
    then show ?thesis using other_error [OF slip_paid_error [OF Inl]] by (simp add: settle_slip_def pay_tx_def act_bind_run)
  next
    case (Inr y)
    obtain x db' where y: "y = (x, db')" by (cases y)
    note p = Inr [unfolded y]
    have i: "pay_inv L db'" by (rule slip_paid_inv [OF c inv p])
    have run: "act_bind (settle_slip L store2 env user b bk v key) (answer_slip L env b key) s
        = answer_slip L env b key x (s\<lparr>pz_db := db'\<rparr>)"
      using p by (simp add: settle_slip_def pay_tx_def act_bind_run)
    from p inv show ?thesis
    proof (cases rule: slip_paidE)
      case (again k p)
      then show ?thesis using alive_tells [of L "drop_slip env key s" env b "(k, p)"] inv r
        by (simp add: run answer_slip_def drop_slip_def)
    next
      case (extra k p sl)
      then show ?thesis using other_error [of extra_transfer] refunding_not(4) by (simp add: run answer_slip_def act_fail_def)
    next
      case (paid k p sl)
      then have "completed_for_booking db' b = Some (k, p)" by (simp add: completed_iff [OF i])
      then show ?thesis using paid(1) alive_tells [of L "s\<lparr>pz_db := db'\<rparr>" env b "(k, p)"] i r
        by (simp add: run answer_slip_def)
    qed
  qed
qed

lemma slip_tells:
  assumes inv: "pay_inv L (pz_db s)" and r: "booking_in_bounds (px_read env)" "booking_in_bounds (px_reread env)"
  shows "tells_fate env b (api_pay_with_slip L store2 env user b form s)"
proof (cases "au_role user = ''customer'' \<and> px_provider env = Slip2Go")
  case False
  then show ?thesis
    by (auto simp: api_pay_with_slip_def booking_cancelled_refunding_def customers_only_def slip_disabled_def intro!: other_error)
next
  case on: True
  let ?req = "require_payable L env user b s"
  show ?thesis
  proof (cases "snd ?req")
    case (Inl e)
    then have "api_pay_with_slip L store2 env user b form s = (fst ?req, Inl e)"
      using on by (simp add: api_pay_with_slip_def act_bind_run)
    then show ?thesis using payable_tells [OF inv r(1) Inl] by (simp add: tells_fate_def)
  next
    case (Inr bk)
    then have p: "?req = (fst ?req, Inr bk)" by (metis prod.collapse)
    note pay = require_payable_ok [OF p]
    have c: "charge_inputs_ok (xb_base_fee bk) (xb_hours bk) (xb_guard_count bk) (xb_tip bk)"
      using r(1) pay(2) by (simp add: booking_in_bounds_def)
    note go = slip_go [OF on p [unfolded pay(1)]]
    show ?thesis
    proof (cases "check_slip L env bk form")
      case (Inl e)
      then show ?thesis using other_error [OF check_slip_error [OF Inl]] by (simp add: go)
    next
      case (Inr x)
      obtain mime bytes v where x: "x = (mime, bytes, v)" by (cases x)
      have "Internal m \<noteq> booking_cancelled_refunding" for m by (simp add: booking_cancelled_refunding_def)
      then show ?thesis
        using Inr x other_error settled_slip_tells [OF c _ r(2), of "s\<lparr>pz_objects := (pz_objects s)(slip_key env b mime \<mapsto> bytes)\<rparr>"] inv
        by (cases "px_put_ok env") (simp_all add: go Let_def put_slip_def s3_upload_def act_bind_run [of "put_slip _ _ _"])
    qed
  qed
qed

end

text \<open>
  C8. What a payer is told about a charge is what became of it. Whichever way a booking is paid and
  whatever the other services answer, a success leaves the answered payment as the completed charge of
  the booking, and the booking was alive when it was read again; and the answer that the booking was
  cancelled and the money is on its way back leaves no completed charge of it.
\<close>
theorem answer_tells_fate:
  assumes "decimal_ops L" "pay_inv L (pz_db s)" "booking_in_bounds (px_read env)" "booking_in_bounds (px_reread env)"
  shows "tells_fate env b (create_payment L env user b s) \<and> tells_fate env b (api_pay_with_slip L store2 env user b form s)"
  using decimal_ops.create_tells [OF assms] decimal_ops.slip_tells [OF assms] by simp

text \<open>
  C9. A charge that was left on a dead booking is recovered by the payer's next attempt, whichever way
  he pays: the payment is refunded in full with what was paid over it, and the refund is announced.
\<close>
theorem stranded_charge_recovered:
  assumes "completed_for_booking (pz_db s) b = Some (k, p)"
    and "px_read env = Inr bk" "xb_customer bk = au_id user" "is_negative_terminal (xb_status bk)" "au_role user = ''customer''"
    and "a = (if px_provider env = Slip2Go then api_pay_with_slip L store2 env user b form s else create_payment L env user b s)"
  shows "snd a = Inl booking_cancelled_refunding \<and> (\<exists>q. row_get (payments (pz_db (fst a))) k = Some q
    \<and> pm_status q = PayRefunded \<and> pm_refund_amount q = Some (pm_amount p + pm_overpaid p)
    \<and> pay_outbox (pz_db (fst a)) = outbox_append (px_comp env) PAYMENT_REFUND_PROCESSED
        (refund_payload k p (pm_amount p + pm_overpaid p) 0) (pay_outbox (pz_db s)))"
proof -
  have "\<not> is_payable_status (xb_status bk)"
    using assms(4) by (auto simp: is_negative_terminal_def is_payable_status_def)
  then have "require_payable L env user b s
      = (s\<lparr>pz_db := snd (refund_race_lost_prepay L (px_comp env) (pz_db s) b)\<rparr>, Inl booking_cancelled_refunding)"
    using assms(2-4) by (simp add: require_payable_def act_bind_run compensate_run act_fail_def ensure_def)
  then have "a = (s\<lparr>pz_db := snd (refund_race_lost_prepay L (px_comp env) (pz_db s) b)\<rparr>, Inl booking_cancelled_refunding)"
    using assms(5,6) by (cases "px_provider env") (simp_all add: api_pay_with_slip_def create_payment_def act_bind_run)
  then show ?thesis
    using assms(1) by (simp add: refund_race_lost_prepay_def Let_def emit_pay_def put_payment_def)
qed


subsection \<open>Reports\<close>

lemma settled_bill:
  assumes "pay_row_ok L p"
  shows "net_revenue p = (case pm_subtotal p of Some x \<Rightarrow> x | None \<Rightarrow> 0)"
    "spent p = net_revenue p + (case pm_vat_amount p of Some v \<Rightarrow> v | None \<Rightarrow> 0)" "pm_status p \<noteq> PayPending"
  using assms by (auto simp: pay_row_ok_def split_ok_def net_revenue_def spent_def split: option.splits if_splits)

lemma rows_settled:
  assumes "pay_inv L db" "p \<in> set (map snd (payments db))"
  shows "pay_row_ok L p"
  using assms row_get_mem [of "payments db"] by (auto simp: pay_inv_def)

text \<open>
  The reports count what was billed. The days of the revenue chart add up to its total; the total
  is the sum of the bills before tax of the payments that landed in the window, with refunds already
  taken off; and what all customers spent is the revenue of all payments and the tax on it.
\<close>
theorem reports_count_the_bills:
  assumes inv: "pay_inv L db"
    and r: "admin_revenue_report L user from_at to_at now db = Inr r" "report_range from_at to_at now = (f, t)"
  shows "sum_list (map (\<lambda>(_, x, _). x) (rv_series r)) = rv_total r
    \<and> rv_total r = sum_list (map (\<lambda>p. case pm_subtotal p of Some x \<Rightarrow> x | None \<Rightarrow> 0) (landed_between f t db))
    \<and> sum_list (map snd (customer_spend db)) = sum_list (map net_revenue (map snd (payments db)))
        + sum_list (map (\<lambda>p. case pm_vat_amount p of Some v \<Rightarrow> v | None \<Rightarrow> 0) (map snd (payments db)))"
proof -
  have x: "rv_series r = revenue_series f t db" "rv_total r = sum_list (map (\<lambda>(_, x, _). x) (revenue_series f t db))"
    using r by (auto simp: admin_revenue_report_def Let_def split: if_splits)
  note ok = rows_settled [OF inv]
  have "rv_total r = sum_list (map net_revenue (landed_between f t db))" by (simp add: x(2) series_total revenue_total_def)
  also have "\<dots> = sum_list (map (\<lambda>p. case pm_subtotal p of Some x \<Rightarrow> x | None \<Rightarrow> 0) (landed_between f t db))"
    by (rule arg_cong [where f = sum_list], rule map_cong) (auto simp: landed_between_def settled_bill [OF ok])
  finally have total: "rv_total r = sum_list (map (\<lambda>p. case pm_subtotal p of Some x \<Rightarrow> x | None \<Rightarrow> 0) (landed_between f t db))" .
  have "filter (\<lambda>p. pm_status p \<noteq> PayPending) (map snd (payments db)) = map snd (payments db)"
    by (rule filter_True) (use settled_bill(3) [OF ok] in blast)
  then have "sum_list (map snd (customer_spend db)) = sum_list (map spent (map snd (payments db)))" by (simp only: spend_total)
  also have "\<dots> = sum_list (map (\<lambda>p. net_revenue p + (case pm_vat_amount p of Some v \<Rightarrow> v | None \<Rightarrow> 0)) (map snd (payments db)))"
    by (rule arg_cong [where f = sum_list], rule map_cong) (auto simp: settled_bill(2) [OF ok])
  also have "\<dots> = sum_list (map net_revenue (map snd (payments db)))
      + sum_list (map (\<lambda>p. case pm_vat_amount p of Some v \<Rightarrow> v | None \<Rightarrow> 0) (map snd (payments db)))"
    by (rule sum_list_addf)
  finally show ?thesis using x total by simp
qed

subsection \<open>At a concrete booking\<close>

definition sample_booking :: "string \<Rightarrow> charge_booking" where
  "sample_booking st = \<lparr>xb_customer = 3, xb_guard = Some 2, xb_status = st, xb_hours = 2, xb_base_fee = 500, xb_guard_count = 1,
     xb_tip = 0, xb_commission_percent = Some 10, xb_cancellation_fee = None\<rparr>"

definition sample_charge_env :: "payment_provider \<Rightarrow> string \<Rightarrow> string \<Rightarrow> charge_env" where
  "sample_charge_env prov before after = \<lparr>px_call = pay_env 5, px_comp = pay_env 6, px_provider = prov,
     px_account = asc ''0812345678'', px_secret = Some ''k'', px_read = Inr (sample_booking before),
     px_reread = Inr (sample_booking after), px_slip = (\<lambda>_. SlipUnreachable), px_object = 8, px_put_ok = True, px_delete_ok = True\<rparr>"

lemma sample_in_bounds:
  "booking_in_bounds (px_read (sample_charge_env prov before after))"
  "booking_in_bounds (px_reread (sample_charge_env prov before after))"
  by (simp_all add: sample_charge_env_def sample_booking_def booking_in_bounds_def charge_inputs_ok_def)

theorem slips_cover_payments_witness:
  "ledger_ok bankers_lib (fold (pay_step bankers_lib (\<lambda>x. x))
     [PostSlip (sample_charge_env Slip2Go ''accepted'' ''accepted'') \<lparr>au_id = 3, au_role = ''customer''\<rparr> 7 []]
     \<lparr>pz_db = empty_payment_db, pz_objects = (\<lambda>_. None)\<rparr>)"
  by (rule slips_cover_payments [OF bankers_ops])
    (simp_all add: money_column_def mono_def pay_call_ok_def call_in_bounds_def fresh_slip_def sample_in_bounds)

theorem answer_tells_fate_witness:
  "tells_fate (sample_charge_env Simulated ''accepted'' ''cancelled'') 7
     (create_payment bankers_lib (sample_charge_env Simulated ''accepted'' ''cancelled'') \<lparr>au_id = 3, au_role = ''customer''\<rparr> 7
       \<lparr>pz_db = empty_payment_db, pz_objects = (\<lambda>_. None)\<rparr>)"
  using answer_tells_fate [OF bankers_ops _ sample_in_bounds, of "\<lparr>pz_db = empty_payment_db, pz_objects = (\<lambda>_. None)\<rparr>"]
  by (simp add: pay_inv_empty)

theorem stranded_charge_recovered_witness:
  "\<exists>q. row_get (payments (pz_db (fst (create_payment bankers_lib (sample_charge_env Simulated ''cancelled'' ''cancelled'')
      \<lparr>au_id = 3, au_role = ''customer''\<rparr> 7 \<lparr>pz_db = paid_db, pz_objects = (\<lambda>_. None)\<rparr>)))) 5 = Some q
    \<and> pm_status q = PayRefunded \<and> pm_refund_amount q = Some 17227"
proof -
  let ?env = "sample_charge_env Simulated ''cancelled'' ''cancelled''" and ?user = "\<lparr>au_id = 3, au_role = ''customer''\<rparr>"
  let ?s = "\<lparr>pz_db = paid_db, pz_objects = (\<lambda>_. None)\<rparr>"
  have "completed_for_booking (pz_db ?s) 7 = Some (5, pay_row)" "px_read ?env = Inr (sample_booking ''cancelled'')"
    "xb_customer (sample_booking ''cancelled'') = au_id ?user" "is_negative_terminal (xb_status (sample_booking ''cancelled''))"
    "au_role ?user = ''customer''" "px_provider ?env \<noteq> Slip2Go"
    by (simp_all add: sample_charge_env_def sample_booking_def is_negative_terminal_def)
  from stranded_charge_recovered [OF this(1-5) refl, of bankers_lib "\<lambda>x. x" "[]"] this(6) show ?thesis by auto
qed


theorem reports_count_the_bills_witness:
  "\<exists>r. admin_revenue_report bankers_lib \<lparr>au_id = 1, au_role = ''admin''\<rparr> (Some 0) (Some 10) 10 empty_payment_db = Inr r
    \<and> sum_list (map (\<lambda>(_, x, _). x) (rv_series r)) = rv_total r"
proof -
  obtain r where r: "admin_revenue_report bankers_lib \<lparr>au_id = 1, au_role = ''admin''\<rparr> (Some 0) (Some 10) 10 empty_payment_db = Inr r"
    by (simp add: admin_revenue_report_def report_range_def Let_def case_prod_beta)
  obtain f t where "report_range (Some 0) (Some 10) 10 = (f, t)" by fastforce
  from reports_count_the_bills [OF pay_inv_empty r this] r show ?thesis by auto
qed

end
