(* ===== verification/Spec2Isabelle.thy ===== *)
theory Spec2Isabelle
  imports Booking_Properties Payment_Properties Payment_File_Properties Money_Path Payment_Csv
    Transfer_Properties Account_Paths Identity_Calls Identity_Credential_Properties
    Identity_Account_Properties Gateway_Properties Call_Path Payment_Api_Properties
begin

text \<open>
  A model of the Rust services of \<^verbatim>\<open>pguard\<close>, a platform on which customers book security guards:
  the API gateway, the identity, one-time-code, profile, booking, payment, calling and chat services
  (\<^verbatim>\<open>src/services/*\<close>), and the shared crates (\<^verbatim>\<open>src/packages\<close>).

  \<^bold>\<open>How the parts interact.\<close> Every request enters at the gateway, which routes it, limits its address,
  checks the caller and forwards it; a service checks the caller again. A phone is proved with a code
  sent by SMS, the otp service answers with a single-use token, and the identity service spends that
  token to register an account, reset a PIN or change a phone. An applicant then files a profile with its
  documents; the decision an administrator takes on it reaches the account as an event. A customer creates a booking, guards
  claim it, work it and file hourly check-ins; every transition of a booking is one database transaction
  that also appends an event to the outbox table. A relay publishes outbox rows to the message broker,
  at least once. The payment service charges a booking, and consumes the cancelled, declined and
  completed events to refund or settle it; the booking service consumes the paid event. The customer and
  the guard of a booking write to each other and call each other: the calling and the chat service ask
  the booking service who they are, the end of a call reaches the conversation as an event, and so does
  the end of the booking, which closes it. Completed
  payments feed three streams of bank transfer files (guard payouts, customer refunds, the platform's
  cut): each export takes the backlog, builds the text of the bank's upload file and marks what it pays
  in a ledger, in one transaction; a void gives the marks back.

  \<^bold>\<open>Conventions.\<close> A table is an association list by key, a transaction one function from a database
  state to an error or a new state, so an error carries no state. A handler that does several things in
  a row (a transaction, cache commands, a message) is an action of \<open>Effects\<close>: it always returns the
  state it reached, with an error or a value, because what it did before an error stays done. The cache
  is the map of \<open>Redis_Store\<close>, with expiry; each call says whether the cache answers. What the outside
  supplies to a call (the clock, fresh ids, random draws) is an environment record. Money is an exact
  rational, the two lossy operations of the decimal crate are the parameter \<open>decimal_lib\<close> with the laws
  of the locale \<open>decimal_ops\<close>, which \<open>bankers_lib\<close> (exact division, banker's rounding) satisfies.
  Libraries outside the repository are parameters with stated laws, each satisfied by a concrete
  instance: signed tokens (\<open>jwt_lib\<close>, \<open>sample_jwt\<close>), password hashing (\<open>argon2\<close>), digests, one-time
  passwords, the haversine distance, float arithmetic, the calendar printing of \<open>chrono\<close>, the HTTP client
  and the answers of other services. A Thai message is given as an English gloss in square brackets.

  \<^bold>\<open>Theories and the code they model.\<close>
  \<^item> Prelude, Wire_Text, Decimal, Decimal_Text, Text_Ops, Redis_Store, Effects:
    tables, results, clocks, text (as bytes, or as Unicode scalar values where characters matter),
    decimals and their printing, the cache, effectful handlers, simulation.
  \<^item> Shared_Error, Shared_Events, Shared_Tokens: \<^verbatim>\<open>packages/shared-rust/src/error.rs\<close>,
    \<^verbatim>\<open>auth.rs\<close>, \<^verbatim>\<open>service_jwt.rs\<close>, \<^verbatim>\<open>models.rs\<close>, \<^verbatim>\<open>packages/shared-events/src/lib.rs\<close>.
  \<^item> Gateway_Routing: \<^verbatim>\<open>api-gateway/src/domain/routing.rs\<close>, the route table and its resolution.
    Gateway_Http: headers, rate limit, edge authentication, forwarding and the handler
    (\<^verbatim>\<open>domain/headers.rs\<close>, \<^verbatim>\<open>ratelimit.rs\<close>, \<^verbatim>\<open>auth.rs\<close>, \<^verbatim>\<open>proxy.rs\<close>, \<^verbatim>\<open>handler.rs\<close>). Gateway_Properties counts the
    limit over a run of requests, and shows who a forwarded request speaks for and that the services
    check the same caller.
  \<^item> Otp_Domain, Otp_Service: \<^verbatim>\<open>otp/src\<close>, the rules, the SMS gateway client, and the three
    endpoints with the code table and the quota keys. Otp_Properties: guesses, budget, proof of a phone.
  \<^item> Identity_Domain, Identity_Accounts, Identity_Sessions, Identity_Login, Identity_Api:
    \<^verbatim>\<open>identity/src\<close>, the rules, the tables of accounts and API tokens, refresh-token families, login and
    second factor, the other handlers and the consumers. Identity_Session_Refinement holds an abstract account of
    sessions and the proof that the tables implement it. Identity_Facts, Identity_Invariants, Identity_Calls: what every call keeps. The properties
    are in Identity_Properties, Identity_Account_Properties and
    Identity_Credential_Properties; Account_Paths composes the otp service with the reset of a PIN.
  \<^item> Booking_State (with cancellation and the events), Booking_Scheduling (with the pricing),
    Booking_Checkin (with the geofence): \<^verbatim>\<open>booking/src/domain/*.rs\<close>, with the lemmas of each function.
  \<^item> Booking_Transition, Booking_Ops, Booking_Sweeps, Booking_Relay:
    \<^verbatim>\<open>booking/src/repo/mod.rs\<close> and \<^verbatim>\<open>events/\<close>; the tables, \<open>transition_as\<close>, the other transactions, the
    schedulers' sweeps, the outbox relay (with fuel: one pass per batch of rows, and \<open>relay_drains\<close>
    shows how many suffice). Booking_Api: the handlers of \<^verbatim>\<open>booking/src/api/mod.rs\<close>.
    Booking_Invariants: the invariants of every reachable state; Booking_Properties: the properties.
  \<^item> Payment_Pricing, Payment_Settlement (with the batch lifecycle): \<^verbatim>\<open>payment/src/domain/\<close> pricing, proration,
    settlement, payout, deduction, refund_export, batch_status. Payment_Repo, Payment_Consumers: the
    money transactions and the event consumers. Payment_Invariants, Payment_Properties: what holds
    after every sequence of them.
  \<^item> Payment_Slip, Payment_Api: \<^verbatim>\<open>payment/src/api/mod.rs\<close>, \<^verbatim>\<open>domain/slip.rs\<close> and \<^verbatim>\<open>slip2go_client.rs\<close>: the
    endpoints that charge a booking, with the compensation of a charge on a dead one, the transfer slip
    and its verifier, the QR, the reads and the reports. Payment_Api_Properties: what they promise.
  \<^item> Payment_File_Ops: the ledgers of the three file streams and the
    admin endpoints that change them; Payment_File_Streams states what a stream promises as a locale and interprets it for each of the
    three; Payment_Refund_Queue, Payment_File_Properties.
  \<^item> Scb_File: \<^verbatim>\<open>payment/src/domain/scb_export.rs\<close>; Scb_Properties reads a file
    back. Payout_Config, Payout_Export, Transfer_Exports: the settings and the exports of
    \<^verbatim>\<open>payment/src/api/payouts.rs\<close>, \<^verbatim>\<open>refunds.rs\<close>, \<^verbatim>\<open>deductions.rs\<close>; Payout_Properties and
    Transfer_Properties show that a file pays exactly what its export marks.
  \<^item> Payment_Csv, Payment_Promptpay (with the national id): \<^verbatim>\<open>payment/src/domain/\<close> csv, promptpay, thai_id.
  \<^item> Profile_Validate, Profile_Repo, Object_Store, Profile_Api: \<^verbatim>\<open>profile/src\<close>, the checks of a form
    (\<^verbatim>\<open>domain/validate.rs\<close>), the tables and their statements, the signed addresses of stored objects
    (\<^verbatim>\<open>s3.rs\<close>), the handlers, the consumer of booking events and the relay. Profile_Properties and
    Profile_Invariants: what every call keeps of the details, the documents, the decisions and the links;
    Account_Paths follows an applicant through the profile and the identity service.
  \<^item> Peer_Services, Calling_Service: \<^verbatim>\<open>calling/src\<close>, the client of the booking service and the relay
    it shares with chat, the lifecycle of a call, its table, the handlers, and the signalling between
    sockets (\<^verbatim>\<open>api/ws.rs\<close>). Calling_Properties: what every run keeps of the calls and the signals.
  \<^item> Chat_Service, Chat_Api: \<^verbatim>\<open>chat/src\<close>, messages, attachments and tables; the handlers, the session of
    a socket, and the consumers of call and booking events. Chat_Properties: who reads and writes what,
    over every run; Call_Path follows the end of a call into the conversation of its booking.
  \<^item> Money_Path and this theory: properties that span the services.

  \<^bold>\<open>Not modelled.\<close> The WebSocket endpoints of the gateway, start-up, configuration and telemetry; the
  data exports; the notification, presence and rating services; the frame budgets of the sockets (floats;
  in the chat session their verdict comes with the frame); queries
  that only read for a report, a screen or a search; the SQL schema, the web and mobile clients.
  PROJECT.json lists every part with the reason.
\<close>

section \<open>The money across the services\<close>

text \<open>
  C1. A paid booking that is cancelled or declined is refunded by the event its transition leaves in
  the outbox: the payment service keeps the stored fee, capped by the price, only when someone other
  than an admin cancelled before arrival, gives everything else back, and the second delivery of the
  same event changes nothing.
\<close>
theorem cancelled_booking_refunded:
  assumes L: "decimal_ops L"
    and t: "transition_as env db bid actor adm sys s g canc = Inr (u, db')"
    and b: "row_get (bookings db) bid = Some b" and s: "s = Cancelled \<or> s = Declined"
    and p: "completed_for_booking pdb bid = Some (k, p)" and m: "money (pm_amount p)"
    and e: "fresh_event env \<notin> fst ` set (pay_processed pdb)"
  shows "\<exists>r q fee. outbox db' = outbox db @ [r]
    \<and> row_get (payments (process_cancel L penv (ob_envelope r) pdb)) k = Some q
    \<and> pm_status q = PayRefunded \<and> pm_final_amount q = Some fee
    \<and> pm_refund_amount q = Some (pm_amount p + pm_overpaid p - fee)
    \<and> fee = (if s = Cancelled \<and> \<not> adm \<and> bk_status b \<in> {Requested, Accepted, EnRoute}
             then cancellation_fee_charged L (case pm_cancellation_fee p of Some f \<Rightarrow> f | None \<Rightarrow> 0)
                    (pm_amount p) else 0)
    \<and> process_cancel L penv' (ob_envelope r) (process_cancel L penv (ob_envelope r) pdb)
        = process_cancel L penv (ob_envelope r) pdb"
proof -
  let ?flag = "s = Cancelled \<and> charge_cancel_fee (bk_status b) adm"
  from cancel_consumed [OF t b s] obtain r where r: "outbox db' = outbox db @ [r]"
    and c: "\<And>L penv pdb. process_cancel L penv (ob_envelope r) pdb =
      snd (refund_on_cancellation L (penv\<lparr>correlation := correlation env\<rparr>) pdb (fresh_event env)
        (ob_topic r) bid ?flag)"
    by metis
  have fee: "0 \<le> fee_kept L p ?flag" "fee_kept L p ?flag \<le> pm_amount p"
    using decimal_ops.fee_charged_bounds [OF L m] moneyD [OF m] by (simp_all add: fee_kept_def)
  have c1: "completed_for_booking (pdb\<lparr>pay_processed := x\<rparr>) bid = Some (k, p)" for x
    using p by (simp add: completed_for_booking_def)
  have "process_cancel L penv' (ob_envelope r) (process_cancel L penv (ob_envelope r) pdb)
      = process_cancel L penv (ob_envelope r) pdb"
    unfolding c
    using settlement_consumer.same_id_once
      [of "SettleCancellation (penv'\<lparr>correlation := correlation env\<rparr>) (fresh_event env) (ob_topic r) bid ?flag"
          "SettleCancellation (penv\<lparr>correlation := correlation env\<rparr>) (fresh_event env) (ob_topic r) bid ?flag"
          L pdb]
    by simp
  moreover have "(charge_cancel_fee (bk_status b) adm) = (\<not> adm \<and> bk_status b \<in> {Requested, Accepted, EnRoute})"
    by (auto simp: charge_cancel_fee_def)
  ultimately show ?thesis
    using fee e c1 r
    by (intro exI [of _ r])
      (auto simp: c refund_on_cancellation_def claim_event_def Let_def cancelled_row_def
        fee_kept_def max_absorb1)
qed

lemma cancelled_booking_refunded_witness:
  "\<exists>(r::outbox_row) q. row_get (payments (process_cancel bankers_lib (pay_env 8) (ob_envelope r) paid_db)) 5 = Some q
    \<and> pm_status q = PayRefunded \<and> pm_final_amount q = Some 500 \<and> pm_refund_amount q = Some 16727"
proof -
  let ?db = "db0 (row0 Accepted) []" and ?c = "Some \<lparr>cn_reason = ''mistake'', cn_note = None\<rparr>"
  have "is_ok (transition_as (env0 5 9) ?db 7 3 False False Cancelled None ?c)" by code_simp
  then obtain u db' where t: "transition_as (env0 5 9) ?db 7 3 False False Cancelled None ?c = Inr (u, db')"
    by (auto simp: is_ok_iff)
  have m: "money (pm_amount pay_row)" by (simp add: money_def)
  have "cancellation_fee_charged bankers_lib 500 17227 = 500"
    by (simp add: cancellation_fee_charged_def bankers_fixed)
  with cancelled_booking_refunded [OF bankers_ops t _ _ completed_paid_db m, of "row0 Accepted" "pay_env 8" "pay_env 9"]
  show ?thesis by (simp add: row0_def) blast
qed

text \<open>
  C2. A completed booking is settled by the event its transition leaves in the outbox, on the pricing
  and the worked seconds of that booking: a customer who had paid at least its price is billed the
  prorated total with VAT, gets the rest back, and owes nothing.
\<close>
theorem completed_booking_settled:
  assumes L: "decimal_ops L"
    and t: "transition_as env db bid actor adm sys Completed g canc = Inr (u, db')"
    and b: "row_get (bookings db) bid = Some b"
    and i: "charge_inputs_ok (bk_base_fee b) (bk_hours b) (bk_guard_count b) (bk_tip b)"
    and p: "completed_for_booking pdb bid = Some (k, p)"
    and paid: "expected_total L (bk_base_fee b) (bk_hours b) (bk_guard_count b) (bk_tip b)
      \<le> pm_amount p + pm_overpaid p" "on_grid 2 (pm_amount p + pm_overpaid p)"
    and e: "fresh_event env \<notin> fst ` set (pay_processed pdb)"
  shows "\<exists>r q f. outbox db' = outbox db @ [r]
    \<and> row_get (payments (process_completed L penv (ob_envelope r) pdb)) k = Some q
    \<and> pm_final_amount q = Some f
    \<and> f = pb_grand_total (settled_breakdown L (bk_base_fee b) (bk_hours b) (bk_guard_count b) (bk_tip b)
            (completion_actual_seconds b Completed (utc_now env)))
    \<and> f \<le> expected_total L (bk_base_fee b) (bk_hours b) (bk_guard_count b) (bk_tip b)
    \<and> (f < pm_amount p + pm_overpaid p \<longrightarrow>
        pm_refund_amount q = Some (pm_amount p + pm_overpaid p - f))"
proof -
  let ?secs = "completion_actual_seconds b Completed (utc_now env)"
  from completion_consumed [OF t b] obtain r where r: "outbox db' = outbox db @ [r]"
    and c: "\<And>L penv pdb. process_completed L penv (ob_envelope r) pdb =
      snd (reconcile_on_completion L (penv\<lparr>correlation := correlation env\<rparr>) pdb (fresh_event env)
        BOOKING_COMPLETED_TOPIC bid (bk_base_fee b) (bk_hours b) (bk_guard_count b) (bk_tip b) ?secs)"
    by metis
  have in_range: "money (bk_base_fee b)" "money (bk_tip b)" "0 < bk_hours b" "bk_hours b \<le> 1000"
    "0 \<le> bk_guard_count b" "money (subtotal L (bk_base_fee b) (bk_hours b) (bk_guard_count b) 0)"
    using i decimal_ops.charge_base_money [OF L i] by (simp_all add: charge_inputs_ok_def)
  note le = decimal_ops.settled_le_expected [OF L in_range, of ?secs]
  note bal = decimal_ops.reconcile_balances
    [OF L paid(2), of "bk_base_fee b" "bk_hours b" "bk_guard_count b" "bk_tip b" ?secs]
  note no_extra = decimal_ops.reconcile_never_extra [OF L in_range paid(1), of ?secs]
  have c1: "completed_for_booking (pdb\<lparr>pay_processed := x\<rparr>) bid = Some (k, p)" for x
    using p by (simp add: completed_for_booking_def)
  have st: "settled_of (reconcile L x (bk_base_fee b) (bk_hours b) (bk_guard_count b) (bk_tip b) ?secs)
      = settled_breakdown L (bk_base_fee b) (bk_hours b) (bk_guard_count b) (bk_tip b) ?secs" for x
    by (simp add: reconcile_def Let_def)
  show ?thesis
    using r e c1 bal no_extra le st [of "pm_amount p + pm_overpaid p"]
    by (intro exI [of _ r])
      (auto simp: c reconcile_on_completion_def claim_event_def Let_def settled_row_def
        split: reconciliation.splits)
qed

theorem completed_booking_settled_witness:
  "\<exists>(r::outbox_row) q f. row_get (payments (process_completed bankers_lib (pay_env 8) (ob_envelope r) paid_db)) 5 = Some q
    \<and> pm_final_amount q = Some f \<and> f \<le> 1070 \<and> pm_refund_amount q = Some (17227 - f)"
proof -
  let ?b = "row0 Arrived\<lparr>bk_work_started_at := Some 0\<rparr>"
  have "is_ok (transition_as (env0 (hours_dur 5) 9) (db0 ?b [report0]) 7 0 True True Completed None None)"
    by (rule system_complete_ok [of _ _ ?b]) (simp_all add: row0_def report0_def has_check_in_def)
  then obtain u db' where
    t: "transition_as (env0 (hours_dur 5) 9) (db0 ?b [report0]) 7 0 True True Completed None None = Inr (u, db')"
    by (auto simp: is_ok_iff)
  have i: "charge_inputs_ok (bk_base_fee ?b) (bk_hours ?b) (bk_guard_count ?b) (bk_tip ?b)"
    by (simp add: row0_def charge_inputs_ok_def)
  have x: "expected_total bankers_lib 500 2 1 0 = 1070"
    by (simp add: expected_total_def price_breakdown_of_def subtotal_def from_subtotal_def vat_on_def
        VAT_RATE_def Let_def bankers_fixed)
  have g: "on_grid 2 (pm_amount pay_row + pm_overpaid pay_row)" by simp
  have "\<exists>r q f. outbox db' = outbox (db0 ?b [report0]) @ [r]
    \<and> row_get (payments (process_completed bankers_lib (pay_env 8) (ob_envelope r) paid_db)) 5 = Some q
    \<and> pm_final_amount q = Some f \<and> f \<le> 1070
    \<and> (f < 17227 \<longrightarrow> pm_refund_amount q = Some (17227 - f))"
    using completed_booking_settled [OF bankers_ops t _ i completed_paid_db _ g, of "pay_env 8"]
    by (auto simp: row0_def x env0_def)
  then obtain r :: outbox_row and q f where q: "row_get (payments (process_completed bankers_lib (pay_env 8) (ob_envelope r) paid_db)) 5 = Some q"
    "pm_final_amount q = Some f" "f \<le> 1070" "f < 17227 \<longrightarrow> pm_refund_amount q = Some (17227 - f)"
    by blast
  then have "pm_refund_amount q = Some (17227 - f)" by simp
  with q show ?thesis by blast
qed

end
